(* ===== verification/Rust_Prelude.thy ===== *)
theory Rust_Prelude
  imports Main "HOL-Library.Word" "HOL-Library.AList" "HOL-Library.Log_Nat"
begin

text \<open>
  What the Rust sources use of the language and its standard library: fixed-width integers,
  \<open>saturating_add\<close> and \<open>saturating_sub\<close>, \<open>Result\<close>, \<open>HashMap\<close> and \<open>BTreeMap\<close>, byte and text
  encodings, and the conversions to and from \<open>f64\<close>.

  \<^item> Integers are words of the source's width. Plain \<open>+\<close>, \<open>-\<close> and \<open>*\<close> wrap around, which is what
    the release profile of the workspace does (no \<open>Cargo.toml\<close> of \<open>src/crates/vm\<close> or of the
    workspace sets \<open>overflow-checks\<close>). Theorems that need it say that no wrap-around happens.
  \<^item> An operation \<open>fn op(&mut self, ..) -> Result<T, E>\<close> is a function that returns the new state
    \<^emph>\<open>and\<close> the result, because a Rust method that returns \<open>Err\<close> keeps every assignment it made
    before the error.
  \<^item> A \<open>HashMap\<close> is an association list; its order stands for the unspecified iteration order. A
    \<open>BTreeMap\<close> is an association list with strictly ascending keys.
\<close>

named_theorems u_arith \<open>rules that move word arithmetic to natural numbers\<close>
named_theorems run_simps \<open>definitions that evaluate a call on a concrete state\<close>
named_theorems hm_simps \<open>lookup and update rules for hash maps\<close>

section \<open>Integers\<close>

type_synonym u8 = "8 word"
type_synonym u16 = "16 word"
type_synonym u32 = "32 word"
type_synonym u64 = "64 word"
type_synonym u128 = "128 word"

definition max_val :: "'a::len word" where
  "max_val = - 1"

definition saturating_add :: "'a::len word \<Rightarrow> 'a word \<Rightarrow> 'a word" where
  "saturating_add a b = (if unat a + unat b < 2 ^ LENGTH('a) then a + b else max_val)"

definition saturating_sub :: "'a::len word \<Rightarrow> 'a word \<Rightarrow> 'a word" where
  "saturating_sub a b = (if b \<le> a then a - b else 0)"

lemma unat_max_val: "unat (max_val :: 'a::len word) = 2 ^ LENGTH('a) - 1"
  unfolding max_val_def
  by (simp add: unsigned_minus_1_eq_mask mask_eq_exp_minus_1)

lemma unat_saturating_sub [u_arith]: "unat (saturating_sub a b) = unat a - unat b"
  unfolding saturating_sub_def
  by (auto simp: unat_sub word_le_nat_alt)

lemma unat_saturating_add:
  fixes a :: "'a::len word"
  shows "unat (saturating_add a b) = min (unat a + unat b) (2 ^ LENGTH('a) - 1)"
  unfolding saturating_add_def
  by (auto simp: unat_max_val unat_word_ariths(1))

lemma unat_saturating_add_exact [u_arith]:
  fixes a :: "'a::len word"
  assumes "unat a + unat b < 2 ^ LENGTH('a)"
  shows "unat (saturating_add a b) = unat a + unat b"
  using assms by (simp add: unat_saturating_add)

lemma unat_saturating_add_le: "unat (saturating_add a b) \<le> unat a + unat b"
  by (simp add: unat_saturating_add)

lemma saturating_sub_0 [simp]: "saturating_sub a 0 = a"
  by (simp add: saturating_sub_def)

lemma saturating_add_0 [simp]: "saturating_add a 0 = a"
  using unsigned_less[of a] by (simp add: saturating_add_def)

lemma saturating_add_sub [simp]:
  assumes "unat a + unat b < 2 ^ LENGTH('a)"
  shows "saturating_sub (saturating_add (a :: 'a::len word) b) b = a"
  using assms by (simp add: word_unat_eq_iff u_arith)

lemmas word_cmp_nat = word_less_nat_alt word_le_nat_alt

lemma unat_bound128 [simp]: "unat (x :: u128) < 2 ^ 128"
  using unsigned_less[of x] by simp

lemma unat_bound64 [simp]: "unat (x :: u64) < 2 ^ 64"
  using unsigned_less[of x] by simp

lemma unat_bound16: "unat (x :: u16) < 2 ^ 16"
  using unsigned_less[of x] by simp

lemma unat_bound8: "unat (x :: u8) < 2 ^ 8"
  using unsigned_less[of x] by simp

lemma unat_ucast_16_128 [simp]: "unat (ucast (x :: u16) :: u128) = unat x"
  by (simp add: unsigned_ucast_eq take_bit_nat_eq_self order.strict_trans [OF unsigned_less])

lemma unat_ucast_8_128 [simp]: "unat (ucast (x :: u8) :: u128) = unat x"
  by (simp add: unsigned_ucast_eq take_bit_nat_eq_self order.strict_trans [OF unsigned_less])

lemma unat_ucast_64_128 [simp]: "unat (ucast (x :: u64) :: u128) = unat x"
  by (simp add: unsigned_ucast_eq take_bit_nat_eq_self order.strict_trans [OF unsigned_less])

lemma unat_ucast_16_64 [simp]: "unat (ucast (x :: u16) :: u64) = unat x"
  by (simp add: unsigned_ucast_eq take_bit_nat_eq_self order.strict_trans [OF unsigned_less])

lemma unat_ucast_16_32 [simp]: "unat (ucast (x :: u16) :: u32) = unat x"
  by (simp add: unsigned_ucast_eq take_bit_nat_eq_self order.strict_trans [OF unsigned_less])

lemma unat_ucast_8_32 [simp]: "unat (ucast (x :: u8) :: u32) = unat x"
  by (simp add: unsigned_ucast_eq take_bit_nat_eq_self order.strict_trans [OF unsigned_less])

lemma unat_ucast_small:
  assumes "unat (x :: 'a::len word) < 2 ^ LENGTH('b)"
  shows "unat (ucast x :: 'b::len word) = unat x"
  using assms by (simp add: unsigned_ucast_eq take_bit_nat_eq_self)

lemma unat_mult_exact [u_arith]:
  fixes a :: "'a::len word"
  assumes "unat a * unat b < 2 ^ LENGTH('a)"
  shows "unat (a * b) = unat a * unat b"
  using assms by (simp add: unat_mult_lem)

lemma unat_add_exact [u_arith]:
  fixes a :: "'a::len word"
  assumes "unat a + unat b < 2 ^ LENGTH('a)"
  shows "unat (a + b) = unat a + unat b"
  using assms by (simp add: unat_add_lem)

text \<open>A share in basis points, and the fullness of a block, stay within their bounds.\<close>

lemma bps_share:
  assumes "bps \<le> 10000" and "unat x * 10000 < 2 ^ 128"
  shows "unat (x * ucast (bps :: u16) div 10000 :: u128) = unat x * unat bps div 10000"
    and "unat x * unat bps div 10000 \<le> unat x"
proof -
  have le: "unat x * unat bps \<le> unat x * 10000" using assms(1) by (simp add: word_le_nat_alt)
  then have "unat (x * ucast bps) = unat x * unat bps"
    using assms(2) order.strict_trans1 [OF le assms(2)] by (subst unat_mult_exact) simp_all
  then show "unat (x * ucast bps div 10000 :: u128) = unat x * unat bps div 10000" by (simp add: unat_div)
  show "unat x * unat bps div 10000 \<le> unat x" using div_le_mono [OF le, of 10000] by simp
qed

lemma gas_share_le:
  assumes "used \<le> limit"
  shows "(ucast ((ucast (used :: u64) * 10000 :: u128) div ucast limit) :: u16) \<le> 10000"
proof (cases "limit = 0")
  case False
  have "unat used * 10000 \<le> 10000 * unat limit" using assms by (simp add: word_le_nat_alt)
  then have "unat used * 10000 div unat limit \<le> 10000 * unat limit div unat limit" by (rule div_le_mono)
  moreover have "unat limit \<noteq> 0" using False by (simp add: unat_eq_zero)
  ultimately have q: "unat used * 10000 div unat limit \<le> 10000" by simp
  have "unat (ucast used * 10000 :: u128) = unat used * 10000"
    using unat_bound64 [of used] by (subst unat_mult_exact) simp_all
  then have "unat ((ucast used * 10000 :: u128) div ucast limit) = unat used * 10000 div unat limit"
    by (simp add: unat_div)
  with q show ?thesis by (simp add: word_le_nat_alt unat_ucast_small)
qed simp

section \<open>Results\<close>

text \<open>Rust's \<open>Result<T, E>\<close>.\<close>

datatype ('e, 'a) result = Ok 'a | Err 'e

fun is_ok :: "('e, 'a) result \<Rightarrow> bool" where
  "is_ok (Ok _) = True"
| "is_ok (Err _) = False"

fun map_result :: "('a \<Rightarrow> 'b) \<Rightarrow> ('e, 'a) result \<Rightarrow> ('e, 'b) result" where
  "map_result f (Ok a) = Ok (f a)"
| "map_result f (Err e) = Err e"

lemma is_ok_iff: "is_ok r \<longleftrightarrow> (\<exists>a. r = Ok a)"
  by (cases r) auto

lemma map_result_Ok [simp]: "map_result f r = Ok b \<longleftrightarrow> (\<exists>a. r = Ok a \<and> f a = b)"
  by (cases r) auto

lemma map_result_Err [simp]: "map_result f r = Err e \<longleftrightarrow> r = Err e"
  by (cases r) auto

text \<open>The \<open>?\<close> operator on a call that also changes a state: the state of a failed call is kept.\<close>

definition try_then ::
    "'s \<times> ('e, 'a) result \<Rightarrow> ('s \<Rightarrow> 'a \<Rightarrow> 's \<times> ('e, 'b) result) \<Rightarrow> 's \<times> ('e, 'b) result" where
  "try_then m f = (case m of (s, Ok a) \<Rightarrow> f s a | (s, Err e) \<Rightarrow> (s, Err e))"

lemma try_then_simps [simp]:
  "try_then (s, Ok a) f = f s a" "try_then (s, Err e) f = (s, Err e)"
  by (simp_all add: try_then_def)

lemma try_then_OkE:
  assumes "try_then m f = (s', Ok b)"
  obtains s a where "m = (s, Ok a)" and "f s a = (s', Ok b)"
  using assms by (auto simp: try_then_def split: prod.splits result.splits)

text \<open>\<open>Ord::clamp\<close> panics when the bounds are reversed.\<close>

definition clamp :: "'a::linorder \<Rightarrow> 'a \<Rightarrow> 'a \<Rightarrow> 'a option" where
  "clamp lo hi x = (if lo \<le> hi then Some (max lo (min hi x)) else None)"

section \<open>Hash maps\<close>

text \<open>
  The laws a client of a keyed map relies on. The hash map and the ordered map below are both
  instances; the client lemmas are proved once from the laws.
\<close>

locale keyed_map =
  fixes get :: "'m \<Rightarrow> 'k \<Rightarrow> 'v option"
    and insert :: "'k \<Rightarrow> 'v \<Rightarrow> 'm \<Rightarrow> 'm"
    and remove :: "'k \<Rightarrow> 'm \<Rightarrow> 'm"
    and wf :: "'m \<Rightarrow> bool"
  assumes get_insert: "wf m \<Longrightarrow> get (insert k v m) = (get m)(k \<mapsto> v)"
    and get_remove: "wf m \<Longrightarrow> get (remove k m) = (get m)(k := None)"
    and wf_insert: "wf m \<Longrightarrow> wf (insert k v m)"
    and wf_remove: "wf m \<Longrightarrow> wf (remove k m)"
begin

lemma dom_insert: "wf m \<Longrightarrow> dom (get (insert k v m)) = {k} \<union> dom (get m)"
  by (simp add: get_insert)

lemma insert_frame:
  assumes "wf m" and "k' \<noteq> k"
  shows "get (insert k v m) k' = get m k'"
  using assms by (simp add: get_insert)

lemma insert_all:
  assumes "wf m" and "\<And>k' v'. get m k' = Some v' \<Longrightarrow> P k' v'" and "P k v"
    and "get (insert k v m) k' = Some v'"
  shows "P k' v'"
  using assms by (auto simp: get_insert split: if_splits)

lemma remove_then_insert:
  "wf m \<Longrightarrow> get (insert k v (remove k m)) = get (insert k v m)"
  by (simp add: get_insert get_remove wf_remove)

end

type_synonym ('k, 'v) hashmap = "('k \<times> 'v) list"

definition hm_get :: "('k, 'v) hashmap \<Rightarrow> 'k \<Rightarrow> 'v option" where
  "hm_get m = map_of m"

definition hm_insert :: "'k \<Rightarrow> 'v \<Rightarrow> ('k, 'v) hashmap \<Rightarrow> ('k, 'v) hashmap" where
  "hm_insert k v m = AList.update k v m"

definition hm_remove :: "'k \<Rightarrow> ('k, 'v) hashmap \<Rightarrow> ('k, 'v) hashmap" where
  "hm_remove k m = AList.delete k m"

text \<open>\<open>entry(k).or_insert(d)\<close>, read: the value that is there, or the default.\<close>

definition hm_entry :: "'v \<Rightarrow> ('k, 'v) hashmap \<Rightarrow> 'k \<Rightarrow> 'v" where
  "hm_entry d m k = (case hm_get m k of Some v \<Rightarrow> v | None \<Rightarrow> d)"

text \<open>The sum of a measure over the values of a map.\<close>

definition hm_sum :: "('v \<Rightarrow> nat) \<Rightarrow> ('k, 'v) hashmap \<Rightarrow> nat" where
  "hm_sum f m = sum_list (map (\<lambda>p. f (snd p)) m)"

interpretation hm: keyed_map hm_get hm_insert hm_remove "\<lambda>m. distinct (map fst m)"
  by unfold_locales
    (auto simp: hm_get_def hm_insert_def hm_remove_def update_conv' delete_conv'
      distinct_update distinct_delete)

lemma hm_get_insert [simp, hm_simps]:
  "hm_get (hm_insert k v m) k' = (if k' = k then Some v else hm_get m k')"
  by (simp add: hm_get_def hm_insert_def update_conv')

lemma hm_get_remove [simp, hm_simps]:
  "hm_get (hm_remove k m) k' = (if k' = k then None else hm_get m k')"
  by (simp add: hm_get_def hm_remove_def delete_conv')

lemma hm_get_Nil [simp]: "hm_get [] k = None"
  by (simp add: hm_get_def)

lemma hm_distinct_insert [simp]:
  "distinct (map fst m) \<Longrightarrow> distinct (map fst (hm_insert k v m))"
  by (rule hm.wf_insert)

lemma hm_sum_Nil [simp]: "hm_sum f [] = 0"
  by (simp add: hm_sum_def)

lemma hm_sum_insert:
  "hm_sum f (hm_insert k v m) + (case hm_get m k of Some w \<Rightarrow> f w | None \<Rightarrow> 0) = hm_sum f m + f v"
  by (induction m) (auto simp: hm_sum_def hm_insert_def hm_get_def split: option.splits)

lemma hm_sum_insert_fresh: "hm_get m k = None \<Longrightarrow> hm_sum f (hm_insert k v m) = hm_sum f m + f v"
  using hm_sum_insert [of f k v m] by simp

lemma hm_sum_insert_old:
  "hm_get m k = Some w \<Longrightarrow> hm_sum f (hm_insert k v m) + f w = hm_sum f m + f v"
  using hm_sum_insert [of f k v m] by simp

lemma hm_sum_ge: "hm_get m k = Some w \<Longrightarrow> f w \<le> hm_sum f m"
  by (induction m) (auto simp: hm_sum_def hm_get_def split: if_splits)

lemma hm_sum_entry:
  assumes "f d = 0"
  shows "hm_sum f (hm_insert k v m) + f (hm_entry d m k) = hm_sum f m + f v"
  using hm_sum_insert [of f k v m] assms by (auto simp: hm_entry_def split: option.splits)

lemma hm_sum_entry_le: "f d = 0 \<Longrightarrow> f (hm_entry d m k) \<le> hm_sum f m"
  by (auto simp: hm_entry_def intro: hm_sum_ge split: option.splits)

lemma hm_get_in_set: "hm_get m k = Some v \<Longrightarrow> (k, v) \<in> set m"
  by (simp add: hm_get_def map_of_SomeD)

section \<open>Ordered maps\<close>

text \<open>\<open>BTreeMap\<close>: ascending keys, so iteration and \<open>range\<close> follow the key order.\<close>

type_synonym ('k, 'v) btreemap = "('k \<times> 'v) list"

definition bt_get :: "('k, 'v) btreemap \<Rightarrow> 'k \<Rightarrow> 'v option" where
  "bt_get m = map_of m"

fun bt_insert :: "'k::linorder \<Rightarrow> 'v \<Rightarrow> ('k, 'v) btreemap \<Rightarrow> ('k, 'v) btreemap" where
  "bt_insert k v [] = [(k, v)]"
| "bt_insert k v ((k', v') # m) =
     (if k < k' then (k, v) # (k', v') # m
      else if k = k' then (k, v) # m
      else (k', v') # bt_insert k v m)"

definition bt_remove :: "'k \<Rightarrow> ('k, 'v) btreemap \<Rightarrow> ('k, 'v) btreemap" where
  "bt_remove k m = filter (\<lambda>p. fst p \<noteq> k) m"

text \<open>\<open>m.range(..=hi)\<close>, the keys.\<close>

definition bt_keys_upto :: "'k::linorder \<Rightarrow> ('k, 'v) btreemap \<Rightarrow> 'k list" where
  "bt_keys_upto hi m = filter (\<lambda>k. k \<le> hi) (map fst m)"

definition bt_wf :: "('k::linorder, 'v) btreemap \<Rightarrow> bool" where
  "bt_wf m \<longleftrightarrow> sorted_wrt (<) (map fst m)"

lemma fst_set_bt_insert: "fst ` set (bt_insert k v m) = {k} \<union> fst ` set m"
  by (induction k v m rule: bt_insert.induct) auto

lemma bt_wf_insert: "bt_wf m \<Longrightarrow> bt_wf (bt_insert k v m)"
proof (induction k v m rule: bt_insert.induct)
  case (2 k v k' v' m)
  then show ?case
    using fst_set_bt_insert [of k v m]
    by (fastforce simp: bt_wf_def)
qed (simp add: bt_wf_def)

lemma bt_wf_remove: "bt_wf m \<Longrightarrow> bt_wf (bt_remove k m)"
  by (induction m) (auto simp: bt_wf_def bt_remove_def)

lemma bt_get_insert_wf: "bt_wf m \<Longrightarrow> bt_get (bt_insert k v m) = (bt_get m)(k \<mapsto> v)"
proof (induction k v m rule: bt_insert.induct)
  case (2 k v k' v' m)
  then show ?case by (auto simp: bt_wf_def bt_get_def fun_eq_iff)
qed (simp add: bt_get_def)

lemma bt_get_remove: "bt_get (bt_remove k m) = (bt_get m)(k := None)"
  by (induction m) (auto simp: bt_get_def bt_remove_def fun_eq_iff)

interpretation bt: keyed_map bt_get bt_insert bt_remove bt_wf
  by unfold_locales (auto simp: bt_get_insert_wf bt_get_remove bt_wf_insert bt_wf_remove)

section \<open>Bytes and text\<close>

type_synonym bytes = "u8 list"

text \<open>\<open>to_le_bytes\<close> of an \<open>n\<close>-byte integer, and \<open>from_be_bytes\<close>.\<close>

definition le_bytes :: "nat \<Rightarrow> 'a::len word \<Rightarrow> bytes" where
  "le_bytes n w = map (\<lambda>i. ucast (drop_bit (8 * i) w)) [0..<n]"

definition be_word :: "bytes \<Rightarrow> 'a::len word" where
  "be_word bs = foldl (\<lambda>acc b. push_bit 8 acc + ucast b) 0 bs"

definition le_word :: "bytes \<Rightarrow> 'a::len word" where
  "le_word bs = be_word (rev bs)"

text \<open>The bytes of an ASCII literal.\<close>

definition ascii :: "string \<Rightarrow> bytes" where
  "ascii s = map (\<lambda>c. of_nat (of_char c)) s"

text \<open>\<open>BigUint::from_bytes_be\<close>.\<close>

definition be_nat :: "bytes \<Rightarrow> nat" where
  "be_nat bs = foldl (\<lambda>acc b. acc * 256 + unat b) 0 bs"

lemma length_le_bytes [simp]: "length (le_bytes n w) = n"
  by (simp add: le_bytes_def)

lemma le_bytes_inj:
  assumes "le_bytes (LENGTH('a) div 8) v = le_bytes (LENGTH('a) div 8) (w :: 'a::len word)"
    and "8 dvd LENGTH('a)"
  shows "v = w"
proof (rule bit_word_eqI)
  fix n assume n: "n < LENGTH('a)"
  let ?i = "n div 8"
  have i: "?i < LENGTH('a) div 8" using n assms(2) by (auto simp: dvd_def)
  have "(ucast (drop_bit (8 * ?i) v) :: u8) = ucast (drop_bit (8 * ?i) w)"
    using arg_cong [OF assms(1), of "\<lambda>xs. xs ! ?i"] i by (simp add: le_bytes_def)
  then have "bit (ucast (drop_bit (8 * ?i) v) :: u8) (n mod 8) = bit (ucast (drop_bit (8 * ?i) w) :: u8) (n mod 8)"
    by simp
  then show "bit v n = bit w n"
    by (simp add: bit_ucast_iff bit_drop_bit_eq)
qed

fun show_nat :: "nat \<Rightarrow> string" where
  "show_nat n =
     (if n < 10 then [char_of (48 + n)] else show_nat (n div 10) @ [char_of (48 + n mod 10)])"

declare show_nat.simps [simp del]

definition show_word :: "'a::len word \<Rightarrow> string" where
  "show_word w = show_nat (unat w)"

definition hex_digit :: "nat \<Rightarrow> char" where
  "hex_digit d = char_of (if d < 10 then 48 + d else 87 + d)"

text \<open>\<open>hex::encode\<close>: two lower-case digits per byte.\<close>

definition hex_encode :: "bytes \<Rightarrow> string" where
  "hex_encode bs = concat (map (\<lambda>b. [hex_digit (unat b div 16), hex_digit (unat b mod 16)]) bs)"

fun intersperse_text :: "string \<Rightarrow> string list \<Rightarrow> string" where
  "intersperse_text sep [] = []"
| "intersperse_text sep [x] = x"
| "intersperse_text sep (x # xs) = x @ sep @ intersperse_text sep xs"

text \<open>The \<open>{:?}\<close> rendering of a byte slice.\<close>

definition debug_bytes :: "bytes \<Rightarrow> string" where
  "debug_bytes bs = ''['' @ intersperse_text '', '' (map show_word bs) @ '']''"


declare saturating_sub_def [run_simps] saturating_add_def [run_simps]
declare hm_get_def [run_simps] hm_insert_def [run_simps] hm_remove_def [run_simps] hm_entry_def [run_simps]

end
