(* ===== verification/Rust_Float.thy ===== *)
theory Rust_Float
  imports Complex_Main Rust_Prelude
begin

text \<open>
  The part of IEEE 754 binary64 that the sources use: casts from the integer types, the four
  operations, comparison, \<open>min\<close> and \<open>max\<close>, and the saturating casts back to integers. A finite
  value is a rational number and every operation rounds to 53 significant bits, ties to even. The
  operands of the sources lie far from the subnormal range and from overflow, so neither is
  modelled, and the two zeros are one; infinities and NaN are, since \<open>end_block\<close> can divide by
  zero. What the standard library leaves to the platform, \<open>log10\<close> and \<open>powi\<close>, is a parameter of
  the definitions that call it (record \<open>libm\<close>).
\<close>

datatype f64 = Fin rat | Inf | NegInf | NaN

record libm =
  lm_log10 :: "f64 \<Rightarrow> f64"
  lm_powi :: "f64 \<Rightarrow> int \<Rightarrow> f64"

text \<open>The exponent \<open>e\<close> with \<open>2\<^sup>e \<le> x < 2\<^sup>e\<^sup>+\<^sup>1\<close>.\<close>

definition f64_exp :: "rat \<Rightarrow> int" where
  "f64_exp x =
     (let (p, q) = quotient_of x; k = bitlen p - bitlen q
      in if x < 2 powi k then k - 1 else k)"

definition round_half_even :: "rat \<Rightarrow> int" where
  "round_half_even x =
     (let f = \<lfloor>x\<rfloor>; d = x - of_int f
      in if d > 1 / 2 \<or> (d = 1 / 2 \<and> odd f) then f + 1 else f)"

definition f64_round :: "rat \<Rightarrow> rat" where
  "f64_round x =
     (if x \<le> 0 then 0
      else let u = 2 powi (f64_exp x - 52) in of_int (round_half_even (x / u)) * u)"

definition u64_as_f64 :: "u64 \<Rightarrow> f64" where
  "u64_as_f64 n = Fin (f64_round (of_nat (unat n)))"

definition f64_signed :: "rat \<Rightarrow> rat" where
  "f64_signed x = (if x < 0 then - f64_round (- x) else f64_round x)"

definition u128_as_f64 :: "u128 \<Rightarrow> f64" where
  "u128_as_f64 n = Fin (f64_round (of_nat (unat n)))"

definition i64_as_f64 :: "64 word \<Rightarrow> f64" where
  "i64_as_f64 n = Fin (f64_signed (of_int (sint n)))"

text \<open>A decimal literal of type \<open>f64\<close> is the nearest binary64 number.\<close>

definition f64_lit :: "rat \<Rightarrow> f64" where
  "f64_lit r = Fin (f64_round r)"

definition signed_inf :: "rat \<Rightarrow> f64" where
  "signed_inf x = (if x = 0 then NaN else if x > 0 then Inf else NegInf)"

fun f64_neg :: "f64 \<Rightarrow> f64" where
  "f64_neg (Fin a) = Fin (- a)"
| "f64_neg Inf = NegInf"
| "f64_neg NegInf = Inf"
| "f64_neg NaN = NaN"

fun f64_add :: "f64 \<Rightarrow> f64 \<Rightarrow> f64" where
  "f64_add (Fin a) (Fin b) = Fin (f64_signed (a + b))"
| "f64_add NaN _ = NaN"
| "f64_add _ NaN = NaN"
| "f64_add Inf NegInf = NaN"
| "f64_add NegInf Inf = NaN"
| "f64_add Inf _ = Inf"
| "f64_add _ Inf = Inf"
| "f64_add NegInf _ = NegInf"
| "f64_add _ NegInf = NegInf"

definition f64_sub :: "f64 \<Rightarrow> f64 \<Rightarrow> f64" where
  "f64_sub a b = f64_add a (f64_neg b)"

fun f64_mul :: "f64 \<Rightarrow> f64 \<Rightarrow> f64" where
  "f64_mul (Fin a) (Fin b) = Fin (f64_signed (a * b))"
| "f64_mul NaN _ = NaN"
| "f64_mul _ NaN = NaN"
| "f64_mul Inf (Fin b) = signed_inf b"
| "f64_mul NegInf (Fin b) = f64_neg (signed_inf b)"
| "f64_mul (Fin a) Inf = signed_inf a"
| "f64_mul (Fin a) NegInf = f64_neg (signed_inf a)"
| "f64_mul Inf Inf = Inf"
| "f64_mul NegInf NegInf = Inf"
| "f64_mul _ _ = NegInf"

fun f64_div :: "f64 \<Rightarrow> f64 \<Rightarrow> f64" where
  "f64_div (Fin a) (Fin b) =
     (if b = 0 then signed_inf a else Fin (f64_signed (a / b)))"
| "f64_div NaN _ = NaN"
| "f64_div _ NaN = NaN"
| "f64_div (Fin _) _ = Fin 0"
| "f64_div Inf (Fin b) = (if b < 0 then NegInf else Inf)"
| "f64_div NegInf (Fin b) = (if b < 0 then Inf else NegInf)"
| "f64_div _ _ = NaN"

fun f64_le :: "f64 \<Rightarrow> f64 \<Rightarrow> bool" where
  "f64_le (Fin a) (Fin b) = (a \<le> b)"
| "f64_le NaN _ = False"
| "f64_le _ NaN = False"
| "f64_le NegInf _ = True"
| "f64_le _ Inf = True"
| "f64_le _ _ = False"

fun f64_lt :: "f64 \<Rightarrow> f64 \<Rightarrow> bool" where
  "f64_lt (Fin a) (Fin b) = (a < b)"
| "f64_lt NaN _ = False"
| "f64_lt _ NaN = False"
| "f64_lt NegInf b = (b \<noteq> NegInf)"
| "f64_lt a Inf = (a \<noteq> Inf)"
| "f64_lt _ _ = False"

abbreviation f64_ge :: "f64 \<Rightarrow> f64 \<Rightarrow> bool" where
  "f64_ge a b \<equiv> f64_le b a"

text \<open>\<open>f64::min\<close> and \<open>f64::max\<close> return the other operand when one is NaN.\<close>

definition f64_min :: "f64 \<Rightarrow> f64 \<Rightarrow> f64" where
  "f64_min a b = (if a = NaN then b else if b = NaN then a else if f64_le a b then a else b)"

definition f64_max :: "f64 \<Rightarrow> f64 \<Rightarrow> f64" where
  "f64_max a b = (if a = NaN then b else if b = NaN then a else if f64_le a b then b else a)"

text \<open>\<open>as\<close> casts from \<open>f64\<close> truncate, saturate at the bounds of the target and send NaN to 0.\<close>

fun f64_as_word :: "f64 \<Rightarrow> 'a::len word" where
  "f64_as_word (Fin x) = of_nat (min (nat \<lfloor>x\<rfloor>) (2 ^ LENGTH('a) - 1))"
| "f64_as_word Inf = max_val"
| "f64_as_word NegInf = 0"
| "f64_as_word NaN = 0"

definition truncate_rat :: "rat \<Rightarrow> int" where
  "truncate_rat x = (if x < 0 then \<lceil>x\<rceil> else \<lfloor>x\<rfloor>)"

fun f64_as_i64 :: "f64 \<Rightarrow> 64 word" where
  "f64_as_i64 (Fin x) = of_int (max (- (2 ^ 63)) (min (truncate_rat x) (2 ^ 63 - 1)))"
| "f64_as_i64 Inf = of_int (2 ^ 63 - 1)"
| "f64_as_i64 NegInf = of_int (- (2 ^ 63))"
| "f64_as_i64 NaN = 0"

section \<open>Rounding\<close>

lemma unsigned_nonneg_rat [simp]: "0 \<le> (unsigned (w :: 'a::len word) :: rat)"
  by (metis of_nat_0_le_iff of_nat_unat)

lemma signed_inf_0 [simp]: "signed_inf 0 = NaN"
  by (simp add: signed_inf_def)

lemma f64_le_NaN [simp]: "\<not> f64_le a NaN" "\<not> f64_lt a NaN"
  by (cases a; simp)+

lemma f64_signed_nonneg [simp]: "0 \<le> x \<Longrightarrow> f64_signed x = f64_round x"
  by (simp add: f64_signed_def)

lemma bitlen_pow_bounds:
  assumes "0 < p"
  shows "(2::rat) powi (bitlen p - 1) \<le> of_int p" and "of_int p < (2::rat) powi bitlen p"
proof -
  have b: "bitlen p > 0" using assms bitlen_nonneg [of p] by (simp add: bitlen_eq_zero_iff order.strict_iff_order)
  have lo: "2 ^ nat (bitlen p - 1) \<le> p" and hi: "p < 2 ^ nat (bitlen p)"
    using bitlen_bounds [OF assms] by auto
  have "(2::rat) powi (bitlen p - 1) = of_int (2 ^ nat (bitlen p - 1))"
    using b by (simp add: power_int_def)
  then show "(2::rat) powi (bitlen p - 1) \<le> of_int p"
    using lo by (simp only: of_int_le_iff)
  have "(2::rat) powi bitlen p = of_int (2 ^ nat (bitlen p))"
    using b by (simp add: power_int_def)
  then show "of_int p < (2::rat) powi bitlen p"
    using hi by (simp only: of_int_less_iff)
qed

lemma f64_exp_bounds:
  assumes "0 < x"
  shows "2 powi (f64_exp x) \<le> x" and "x < 2 powi (f64_exp x + 1)"
proof -
  obtain p q where pq: "quotient_of x = (p, q)" by force
  have q: "0 < q" using pq by (rule quotient_of_denom_pos)
  have x: "x = of_int p / of_int q" using pq by (rule quotient_of_div)
  have p: "0 < p" using assms x q by (simp add: zero_less_divide_iff)
  let ?k = "bitlen p - bitlen q"
  have "x < 2 powi bitlen p / 2 powi (bitlen q - 1)"
    unfolding x using bitlen_pow_bounds [OF p] bitlen_pow_bounds [OF q] q p
    by (intro frac_less) auto
  also have "\<dots> = 2 powi (?k + 1)"
    by (simp add: power_int_diff power_int_add)
  finally have hi: "x < 2 powi (?k + 1)" .
  have "2 powi (bitlen p - 1) / 2 powi (bitlen q) \<le> x"
    unfolding x using bitlen_pow_bounds [OF p] bitlen_pow_bounds [OF q] q p
    by (intro frac_le) auto
  moreover have "2 powi (bitlen p - 1) / 2 powi (bitlen q) = (2::rat) powi (?k - 1)"
    by (simp add: power_int_diff)
  ultimately have lo: "2 powi (?k - 1) \<le> x" by simp
  show "2 powi (f64_exp x) \<le> x" and "x < 2 powi (f64_exp x + 1)"
    using lo hi by (auto simp: f64_exp_def pq Let_def)
qed

lemma round_half_even_of_int [simp]: "round_half_even (of_int n) = n"
  by (simp add: round_half_even_def)

lemma round_half_even_le: "x \<le> of_int n \<Longrightarrow> round_half_even x \<le> n"
proof -
  assume le: "x \<le> of_int n"
  then have fl: "\<lfloor>x\<rfloor> \<le> n" by (metis floor_mono floor_of_int)
  show "round_half_even x \<le> n"
  proof (cases "\<lfloor>x\<rfloor> = n")
    case True
    then have "x = of_int n" using le of_int_floor_le [of x] by linarith
    then show ?thesis by simp
  next
    case False
    with fl show ?thesis by (auto simp: round_half_even_def Let_def)
  qed
qed

lemma f64_round_le:
  assumes "0 < x" and "x \<le> of_int n * 2 powi (f64_exp x - 52)"
  shows "f64_round x \<le> of_int n * 2 powi (f64_exp x - 52)"
proof -
  let ?u = "(2::rat) powi (f64_exp x - 52)"
  have "x / ?u \<le> of_int n" using assms by (simp add: pos_divide_le_eq)
  then have "round_half_even (x / ?u) \<le> n" by (rule round_half_even_le)
  then have "(of_int (round_half_even (x / ?u)) :: rat) \<le> of_int n" by simp
  then show ?thesis using assms(1) by (simp add: f64_round_def Let_def)
qed

lemma f64_round_binade: 
  assumes "0 < x" shows "f64_round x \<le> 2 powi (f64_exp x + 1)"
proof -
  have "(2::rat) powi (53 + (f64_exp x - 52)) = 2 powi 53 * 2 powi (f64_exp x - 52)"
    by (rule power_int_add) simp
  then have eq: "of_int (2 ^ 53) * (2::rat) powi (f64_exp x - 52) = 2 powi (f64_exp x + 1)"
    by (simp add: add.commute)
  show ?thesis
    using f64_round_le [of x "2 ^ 53"] f64_exp_bounds(2) [OF assms] assms unfolding eq by simp
qed

text \<open>A number with at most 53 significant bits is not changed.\<close>

lemma f64_round_exact:
  assumes "0 < x" and "x = of_int m * 2 powi (f64_exp x - 52)"
  shows "f64_round x = x"
proof -
  have "x / 2 powi (f64_exp x - 52) = of_int m"
    by (subst assms(2)) simp
  with assms show ?thesis by (simp add: f64_round_def Let_def)
qed

lemma f64_exp_less:
  assumes "0 < x" and "x < 2 powi k" shows "f64_exp x < k"
proof (rule ccontr)
  assume "\<not> f64_exp x < k"
  then have "(2::rat) powi k \<le> 2 powi (f64_exp x)" by (simp add: power_int_increasing)
  with f64_exp_bounds(1) [OF assms(1)] assms(2) show False by simp
qed

lemma f64_round_scaled_nat:
  assumes "n < 2 ^ 53" and "x = of_nat n * 2 powi k"
  shows "f64_round x = x"
proof (cases "n = 0")
  case True
  with assms show ?thesis by (simp add: f64_round_def)
next
  case False
  then have x0: "0 < x" using assms(2) by simp
  have "x < 2 powi (53 + k)"
  proof -
    have "(of_nat n :: rat) < of_nat (2 ^ 53)" using assms(1) by (simp only: of_nat_less_iff)
    then have "x < of_nat (2 ^ 53) * 2 powi k" using assms(2) by (simp del: of_nat_power)
    also have "\<dots> = 2 powi (53 + k)" by (simp add: power_int_add)
    finally show ?thesis .
  qed
  then have e: "f64_exp x < 53 + k" by (rule f64_exp_less [OF x0])
  define j where "j = nat (k - (f64_exp x - 52))"
  have j: "k = f64_exp x - 52 + int j" using e by (simp add: j_def)
  have "(2::rat) powi (f64_exp x - 52 + int j) = 2 powi (f64_exp x - 52) * 2 powi int j"
    by (rule power_int_add) simp
  then have kj: "(2::rat) powi k = 2 ^ j * 2 powi (f64_exp x - 52)"
    using j by (simp add: mult.commute)
  have "of_nat n * 2 powi k = (of_int (int n * 2 ^ j) * 2 powi (f64_exp x - 52) :: rat)"
    by (simp add: kj)
  with assms(2) have "x = of_int (int n * 2 ^ j) * 2 powi (f64_exp x - 52)"
    by (rule trans)
  then show ?thesis by (rule f64_round_exact [OF x0])
qed

lemma f64_round_nat_exact: "n < 2 ^ 53 \<Longrightarrow> f64_round (of_nat n) = of_nat n"
  by (rule f64_round_scaled_nat [where k = 0]) auto

text \<open>Rounding never carries a number past an integer bound it did not exceed, up to \<open>2\<^sup>5\<^sup>2\<close>.\<close>

lemma f64_round_le_nat:
  assumes "x \<le> of_nat n" and "n < 2 ^ 52"
  shows "f64_round x \<le> of_nat n"
proof (cases "x \<le> 0")
  case True
  then show ?thesis by (simp add: f64_round_def)
next
  case False
  then have x0: "0 < x" by simp
  let ?e = "f64_exp x"
  have xn: "2 powi ?e \<le> (of_nat n :: rat)" using f64_exp_bounds(1) [OF x0] assms(1) by simp
  have "(of_nat n :: rat) < of_nat (2 ^ 52)" using assms(2) by (simp only: of_nat_less_iff)
  then have e52: "?e < 52"
    using assms(1) by (intro f64_exp_less [OF x0]) simp
  define j where "j = nat (52 - ?e)"
  have "int j + (?e - 52) = 0" using e52 by (simp add: j_def)
  moreover have "(2::rat) powi (int j + (?e - 52)) = 2 powi int j * 2 powi (?e - 52)"
    by (rule power_int_add) simp
  ultimately have "(2::rat) ^ j * 2 powi (?e - 52) = 1" by simp
  then have eq: "of_int (int n * 2 ^ j) * 2 powi (?e - 52) = (of_nat n :: rat)"
    by (simp add: mult.assoc)
  show ?thesis using f64_round_le [OF x0, of "int n * 2 ^ j"] assms(1) unfolding eq .
qed

lemma f64_round_nonneg: "0 \<le> f64_round x"
proof (cases "x \<le> 0")
  case False
  let ?y = "x / 2 powi (f64_exp x - 52)"
  have "0 \<le> ?y" using False by simp
  then have "0 \<le> \<lfloor>?y\<rfloor>" by simp
  then have "0 \<le> round_half_even ?y" by (auto simp: round_half_even_def Let_def)
  then show ?thesis using False by (simp add: f64_round_def Let_def)
qed (simp add: f64_round_def)

lemma f64_round_pos: "0 < x \<Longrightarrow> 0 < f64_round x"
proof -
  assume x: "0 < x"
  let ?u = "(2::rat) powi (f64_exp x - 52)"
  have "?u \<le> 2 powi (f64_exp x)" by (rule power_int_increasing) simp_all
  then have "1 \<le> x / ?u" using f64_exp_bounds(1) [OF x] by (simp add: le_divide_eq)
  then have "1 \<le> round_half_even (x / ?u)" using x by (auto simp: round_half_even_def Let_def le_floor_iff)
  then show "0 < f64_round x" using x by (simp add: f64_round_def Let_def)
qed

lemma unat_f64_as_word:
  "unat (f64_as_word (Fin x) :: 'a::len word) = min (nat \<lfloor>x\<rfloor>) (2 ^ LENGTH('a) - 1)"
proof -
  have "min (nat \<lfloor>x\<rfloor>) (2 ^ LENGTH('a) - 1) < 2 ^ LENGTH('a)"
    by (simp add: min_less_iff_disj)
  then show ?thesis by (simp add: unat_of_nat)
qed

text \<open>Rounding is monotone, its relative error is at most \<open>2\<^sup>-\<^sup>5\<^sup>3\<close>, and above \<open>2\<^sup>5\<^sup>2\<close> it yields integers.\<close>

lemma round_half_even_mono: "x \<le> y \<Longrightarrow> round_half_even x \<le> round_half_even y"
proof -
  assume le: "x \<le> y"
  then have fl: "\<lfloor>x\<rfloor> \<le> \<lfloor>y\<rfloor>" by (rule floor_mono)
  show ?thesis
  proof (cases "\<lfloor>x\<rfloor> = \<lfloor>y\<rfloor>")
    case True
    then show ?thesis using le by (auto simp: round_half_even_def Let_def)
  next
    case False
    then have "\<lfloor>x\<rfloor> + 1 \<le> \<lfloor>y\<rfloor>" using fl by simp
    then show ?thesis by (auto simp: round_half_even_def Let_def)
  qed
qed

lemma round_half_even_error: "\<bar>of_int (round_half_even x) - x\<bar> \<le> 1 / 2"
  unfolding round_half_even_def Let_def using floor_correct [of x] by (auto simp: abs_le_iff)

lemma f64_exp_mono:
  assumes "0 < x" and "x \<le> y" shows "f64_exp x \<le> f64_exp y"
proof (rule ccontr)
  assume "\<not> f64_exp x \<le> f64_exp y"
  then have "f64_exp y + 1 \<le> f64_exp x" by simp
  then have "(2::rat) powi (f64_exp y + 1) \<le> 2 powi (f64_exp x)" by (rule power_int_increasing) simp
  with f64_exp_bounds(1) [OF assms(1)] f64_exp_bounds(2) [of y] assms show False by simp
qed

lemma f64_round_ge_binade:
  assumes "0 < x" shows "2 powi (f64_exp x) \<le> f64_round x"
proof -
  let ?u = "(2::rat) powi (f64_exp x - 52)"
  have "(2::rat) powi (52 + (f64_exp x - 52)) = 2 powi 52 * ?u" by (rule power_int_add) simp
  then have e: "(2::rat) powi (f64_exp x) = of_int (2 ^ 52) * ?u" by simp
  have "of_int (2 ^ 52) \<le> x / ?u" using f64_exp_bounds(1) [OF assms] unfolding e by (simp add: le_divide_eq)
  from round_half_even_mono [OF this] have "2 ^ 52 \<le> round_half_even (x / ?u)" by (simp only: round_half_even_of_int)
  then have "(of_int (2 ^ 52) :: rat) \<le> of_int (round_half_even (x / ?u))" by (simp only: of_int_le_iff)
  then show ?thesis using assms unfolding e by (simp add: f64_round_def Let_def)
qed

lemma f64_round_mono:
  assumes "x \<le> y" shows "f64_round x \<le> f64_round y"
proof (cases "x \<le> 0")
  case True
  then show ?thesis using f64_round_nonneg [of y] by (simp add: f64_round_def)
next
  case False
  then have x: "0 < x" and y: "0 < y" using assms by simp_all
  show ?thesis
  proof (cases "f64_exp x = f64_exp y")
    case True
    let ?u = "(2::rat) powi (f64_exp y - 52)"
    have "round_half_even (x / ?u) \<le> round_half_even (y / ?u)"
      using assms by (intro round_half_even_mono divide_right_mono) simp_all
    then have "(of_int (round_half_even (x / ?u)) :: rat) * ?u \<le> of_int (round_half_even (y / ?u)) * ?u"
      by (intro mult_right_mono) simp_all
    then show ?thesis using x y True by (simp add: f64_round_def Let_def)
  next
    case False
    then have "f64_exp x + 1 \<le> f64_exp y" using f64_exp_mono [OF x assms] by simp
    then have "(2::rat) powi (f64_exp x + 1) \<le> 2 powi (f64_exp y)" by (rule power_int_increasing) simp
    then show ?thesis using f64_round_binade [OF x] f64_round_ge_binade [OF y] by simp
  qed
qed

lemma f64_signed_mono: "x \<le> y \<Longrightarrow> f64_signed x \<le> f64_signed y"
  using f64_round_mono [of x y] f64_round_mono [of "- y" "- x"] f64_round_nonneg [of "- x"] f64_round_nonneg [of y]
  by (simp add: f64_signed_def)

lemma f64_round_rel:
  assumes "0 \<le> x" shows "f64_round x \<le> x * (1 + 1 / 2 ^ 53)"
proof (cases "x = 0")
  case False
  then have x: "0 < x" using assms by simp
  let ?u = "(2::rat) powi (f64_exp x - 52)"
  have "of_int (round_half_even (x / ?u)) \<le> x / ?u + 1 / 2"
    using round_half_even_error [of "x / ?u"] unfolding abs_le_iff by linarith
  then have "f64_round x \<le> (x / ?u + 1 / 2) * ?u"
    using x by (simp add: f64_round_def Let_def del: divide_self_if)
  also have "\<dots> = x + ?u / 2" by (simp add: field_simps)
  also have "?u = 2 powi (f64_exp x) / 2 ^ 52" by (simp add: power_int_diff)
  also have "x + 2 powi (f64_exp x) / 2 ^ 52 / 2 \<le> x + x / 2 ^ 53"
    using f64_exp_bounds(1) [OF x] by simp
  finally show ?thesis by (simp add: field_simps)
qed (simp add: f64_round_def)

lemma f64_round_int:
  assumes "2 ^ 52 \<le> x" shows "f64_round x \<in> \<int>"
proof -
  have x: "0 < x" using assms by (rule order.strict_trans2 [rotated]) simp
  have "52 \<le> f64_exp x"
  proof (rule ccontr)
    assume "\<not> 52 \<le> f64_exp x"
    then have "f64_exp x + 1 \<le> 52" by simp
    then have "(2::rat) powi (f64_exp x + 1) \<le> 2 powi 52" by (rule power_int_increasing) simp
    with f64_exp_bounds(2) [OF x] assms show False by simp
  qed
  then have "(2::rat) powi (f64_exp x - 52) = of_int (2 ^ nat (f64_exp x - 52))" by (simp add: power_int_def)
  then have "f64_round x = of_int (round_half_even (x / 2 powi (f64_exp x - 52)) * 2 ^ nat (f64_exp x - 52))"
    using x by (simp add: f64_round_def Let_def)
  then show ?thesis by (metis Ints_of_int)
qed

lemma f64_as_word_mono: "x \<le> y \<Longrightarrow> (f64_as_word (Fin x) :: 'a::len word) \<le> f64_as_word (Fin y)"
  unfolding word_le_nat_alt unat_f64_as_word by (intro min.mono nat_mono floor_mono) simp_all

lemma unat_f64_as_word_le: "0 \<le> x \<Longrightarrow> of_nat (unat (f64_as_word (Fin x) :: 'a::len word)) \<le> x"
  unfolding unat_f64_as_word
  using of_nat_floor [of x] by (meson min.cobounded1 of_nat_mono order_trans)

lemma u64_as_f64_small: "n < 2 ^ 53 \<Longrightarrow> u64_as_f64 (of_nat n) = Fin (of_nat n)"
proof -
  assume n: "n < 2 ^ 53"
  then have "unat (of_nat n :: u64) = n"
    by (simp only: unsigned_of_nat) (simp add: take_bit_nat_eq_self)
  then show ?thesis using f64_round_nat_exact [OF n] by (simp add: u64_as_f64_def)
qed

lemma f64_round_error:
  assumes "0 < x" and "x < 1"
  shows "\<bar>f64_round x - x\<bar> \<le> 1 / 2 ^ 54"
proof -
  let ?u = "(2::rat) powi (f64_exp x - 52)"
  have e: "f64_exp x < 0" using f64_exp_less [of x 0] assms by simp
  have "?u \<le> 2 powi (- 53)" using e by (intro power_int_increasing) simp_all
  moreover have "(2::rat) powi (- 53) = 1 / 2 ^ 53" by (simp add: power_int_def power_one_over)
  ultimately have u: "?u \<le> 1 / 2 ^ 53" by (simp only:)
  have "f64_round x - x = (of_int (round_half_even (x / ?u)) - x / ?u) * ?u"
    using assms(1) by (simp add: f64_round_def Let_def left_diff_distrib)
  then have "\<bar>f64_round x - x\<bar> = \<bar>of_int (round_half_even (x / ?u)) - x / ?u\<bar> * ?u"
    by (simp add: abs_mult)
  also have "\<dots> \<le> 1 / 2 * ?u" by (intro mult_right_mono round_half_even_error) simp
  also have "\<dots> \<le> 1 / 2 ^ 54" using u by simp
  finally show ?thesis .
qed

end
