(* ===== verification/Types.thy ===== *)
theory Types
  imports Rust_Float
begin

text \<open>
  \<open>src/crates/vm/src/system_contracts/types.rs\<close>: the types that the system contracts share. A
  32-byte array (\<open>Address\<close>, \<open>Hash\<close>, \<open>JobId\<close>) is a byte list; the operations only compare, hash and
  print them.
\<close>

section \<open>Basic types\<close>

type_synonym address = bytes
type_synonym hash = bytes
type_synonym job_id = bytes
type_synonym token_amount = u128
type_synonym did = string

definition ZERO_ADDRESS :: address where
  "ZERO_ADDRESS = replicate 32 0"

definition is_zero_address :: "address \<Rightarrow> bool" where
  "is_zero_address a = (a = ZERO_ADDRESS)"

section \<open>Job types\<close>

datatype job_status =
    Submitted
  | Assigned
  | Proving
  | Verifying
  | Verified
  | Settled
  | Expired
  | Cancelled
  | Failed
  | Disputed

definition is_terminal :: "job_status \<Rightarrow> bool" where
  "is_terminal s = (s \<in> {Settled, Expired, Cancelled, Failed})"

definition can_cancel :: "job_status \<Rightarrow> bool" where
  "can_cancel s = (s \<in> {Submitted, Assigned})"

definition is_active :: "job_status \<Rightarrow> bool" where
  "is_active s = (s \<in> {Submitted, Assigned, Proving, Verifying})"

text \<open>The \<open>#[repr(u8)]\<close> discriminants, and \<open>from_u8\<close>.\<close>

fun job_status_u8 :: "job_status \<Rightarrow> u8" where
  "job_status_u8 Submitted = 0"
| "job_status_u8 Assigned = 1"
| "job_status_u8 Proving = 2"
| "job_status_u8 Verifying = 3"
| "job_status_u8 Verified = 4"
| "job_status_u8 Settled = 5"
| "job_status_u8 Expired = 6"
| "job_status_u8 Cancelled = 7"
| "job_status_u8 Failed = 8"
| "job_status_u8 Disputed = 9"

definition job_status_from_u8 :: "u8 \<Rightarrow> job_status option" where
  "job_status_from_u8 v =
     (if v = 0 then Some Submitted
      else if v = 1 then Some Assigned
      else if v = 2 then Some Proving
      else if v = 3 then Some Verifying
      else if v = 4 then Some Verified
      else if v = 5 then Some Settled
      else if v = 6 then Some Expired
      else if v = 7 then Some Cancelled
      else if v = 8 then Some Failed
      else if v = 9 then Some Disputed
      else None)"

text \<open>\<open>impl Display for JobStatus\<close>.\<close>

fun show_job_status :: "job_status \<Rightarrow> string" where
  "show_job_status Submitted = ''SUBMITTED''"
| "show_job_status Assigned = ''ASSIGNED''"
| "show_job_status Proving = ''PROVING''"
| "show_job_status Verifying = ''VERIFYING''"
| "show_job_status Verified = ''VERIFIED''"
| "show_job_status Settled = ''SETTLED''"
| "show_job_status Expired = ''EXPIRED''"
| "show_job_status Cancelled = ''CANCELLED''"
| "show_job_status Failed = ''FAILED''"
| "show_job_status Disputed = ''DISPUTED''"

datatype job_priority = Low | Normal | High | Urgent

fun fee_multiplier :: "job_priority \<Rightarrow> f64" where
  "fee_multiplier Low = f64_lit (8 / 10)"
| "fee_multiplier Normal = f64_lit 1"
| "fee_multiplier High = f64_lit (15 / 10)"
| "fee_multiplier Urgent = f64_lit (25 / 10)"

fun sla_multiplier :: "job_priority \<Rightarrow> f64" where
  "sla_multiplier Low = f64_lit 2"
| "sla_multiplier Normal = f64_lit 1"
| "sla_multiplier High = f64_lit (1 / 2)"
| "sla_multiplier Urgent = f64_lit (1 / 4)"

datatype verification_method = TeeAttestation | ZkProof | Hybrid | ReExecution

fun verification_method_u8 :: "verification_method \<Rightarrow> u8" where
  "verification_method_u8 TeeAttestation = 0"
| "verification_method_u8 ZkProof = 1"
| "verification_method_u8 Hybrid = 2"
| "verification_method_u8 ReExecution = 3"

fun debug_verification_method :: "verification_method \<Rightarrow> string" where
  "debug_verification_method TeeAttestation = ''TeeAttestation''"
| "debug_verification_method ZkProof = ''ZkProof''"
| "debug_verification_method Hybrid = ''Hybrid''"
| "debug_verification_method ReExecution = ''ReExecution''"

section \<open>Enterprise mode\<close>

record enterprise_mode_config =
  em_enabled :: bool
  em_required_method :: verification_method
  em_allow_zkml_fallback :: bool
  em_require_registered_circuit :: bool
  em_require_domain_binding :: bool

definition enterprise_mode_default :: enterprise_mode_config where
  "enterprise_mode_default =
     \<lparr>em_enabled = True, em_required_method = Hybrid, em_allow_zkml_fallback = False,
      em_require_registered_circuit = True, em_require_domain_binding = True\<rparr>"

definition validate_method ::
    "enterprise_mode_config \<Rightarrow> verification_method \<Rightarrow> (string, unit) result" where
  "validate_method cfg method =
     (if \<not> em_enabled cfg then Ok ()
      else if method \<noteq> em_required_method cfg
      then Err (''enterprise mode requires '' @ debug_verification_method (em_required_method cfg)
                @ '' verification, got '' @ debug_verification_method method)
      else Ok ())"

section \<open>Proofs of computation\<close>

datatype tee_type = IntelSgx | AwsNitro | AmdSev

record tee_attestation =
  ta_tee_type :: tee_type
  ta_attestation :: bytes
  ta_measurement :: hash
  ta_timestamp :: u64

datatype zk_system = Groth16 | Plonk | Stark | Ezkl | Halo2

record zk_proof =
  zk_sys :: zk_system
  zk_proof_bytes :: bytes
  zk_public_inputs :: "hash list"
  zk_vk_hash :: hash

record proof_metadata =
  pm_execution_time_ms :: u64
  pm_memory_used :: u64
  pm_inference_ops :: u64
  pm_complexity :: u64

record compute_proof =
  pf_method :: verification_method
  pf_tee_attestation :: "tee_attestation option"
  pf_zk_proof :: "zk_proof option"
  pf_output_hash :: hash
  pf_metadata :: proof_metadata

definition is_enterprise_compliant :: "compute_proof \<Rightarrow> bool" where
  "is_enterprise_compliant p =
     (pf_method p = Hybrid \<and> pf_tee_attestation p \<noteq> None \<and> pf_zk_proof p \<noteq> None)"

section \<open>Staking roles\<close>

datatype stake_role = Validator | ComputeNode | Delegator

fun min_stake :: "stake_role \<Rightarrow> token_amount" where
  "min_stake Validator = 10000000000000000000000"
| "min_stake ComputeNode = 50000000000000000000000"
| "min_stake Delegator = 100000000000000000000"

section \<open>Transactions and parameters\<close>

record compliance_tag =
  tag_name :: string
  tag_value :: "string option"

record transaction =
  tx_sender :: address
  tx_sender_did :: "did option"
  tx_receiver :: address
  tx_receiver_did :: "did option"
  tx_value :: token_amount
  tx_data :: bytes
  tx_tags :: "compliance_tag list"
  tx_nonce :: u64
  tx_gas_limit :: u64
  tx_gas_price :: token_amount

definition has_tag :: "transaction \<Rightarrow> string \<Rightarrow> bool" where
  "has_tag tx tag = list_ex (\<lambda>t. tag_name t = tag) (tx_tags tx)"

definition tag_names :: "transaction \<Rightarrow> string list" where
  "tag_names tx = map tag_name (tx_tags tx)"

datatype compliance_requirement =
  ReqGdprEu | ReqHipaaUs | ReqOfacSanctions | ReqCcpaCa | ReqPdpaSg | ReqUaeDpl | ReqBaselIii | ReqAml

record submit_job_params =
  sj_requester :: address
  sj_model_hash :: hash
  sj_input_hash :: hash
  sj_max_bid :: token_amount
  sj_bid_amount :: token_amount
  sj_verification_method :: verification_method
  sj_priority :: job_priority
  sj_sla_timeout :: u64
  sj_tags :: "compliance_tag list"
  sj_encrypted_input :: "bytes option"
  sj_callback :: "address option"
  sj_data_provider :: "address option"
  sj_required_compliance :: "compliance_requirement list"
  sj_jurisdiction :: "string option"

definition JOB_REGISTRY_ADDRESS :: address where
  "JOB_REGISTRY_ADDRESS = replicate 31 0 @ [1]"

definition as_transaction :: "submit_job_params \<Rightarrow> transaction" where
  "as_transaction p =
     \<lparr>tx_sender = sj_requester p, tx_sender_did = None, tx_receiver = JOB_REGISTRY_ADDRESS,
      tx_receiver_did = None, tx_value = sj_bid_amount p, tx_data = [], tx_tags = sj_tags p,
      tx_nonce = 0, tx_gas_limit = 1000000, tx_gas_price = 0\<rparr>"

record submit_proof_params =
  sb_job_id :: job_id
  sb_prover :: address
  sb_proof :: compute_proof
  sb_result :: bytes

record job_submit_result =
  jsr_job_id :: job_id
  jsr_escrowed :: token_amount
  jsr_sla_deadline :: u64

record job_assign_result =
  jar_job_id :: job_id
  jar_prover :: address
  jar_assigned_at :: u64

record proof_submit_result =
  psr_job_id :: job_id
  psr_verified :: bool
  psr_prover_reward :: token_amount
  psr_validator_reward :: token_amount
  psr_burned :: token_amount

record job_cancel_result =
  jcr_job_id :: job_id
  jcr_refunded :: token_amount
  jcr_cancellation_fee :: token_amount

section \<open>Job identifiers\<close>

text \<open>
  \<open>generate_job_id\<close> hashes a fixed prefix, the requester, the two content hashes and the nonce. The
  hash function of the \<open>sha2\<close> crate is the argument \<open>sha256\<close>.
\<close>

definition job_id_preimage :: "address \<Rightarrow> hash \<Rightarrow> hash \<Rightarrow> u64 \<Rightarrow> bytes" where
  "job_id_preimage requester model_hash input_hash nonce =
     ascii ''aethelred-job-v1:'' @ requester @ model_hash @ input_hash @ le_bytes 8 nonce"

definition generate_job_id ::
    "(bytes \<Rightarrow> bytes) \<Rightarrow> address \<Rightarrow> hash \<Rightarrow> hash \<Rightarrow> u64 \<Rightarrow> job_id" where
  "generate_job_id sha256 requester model_hash input_hash nonce =
     sha256 (job_id_preimage requester model_hash input_hash nonce)"

text \<open>The preimage determines its four parts: every part has a fixed width.\<close>

lemma job_id_preimage_inj:
  assumes "job_id_preimage r m i n = job_id_preimage r' m' i' n'"
    and "length r = length r'" and "length m = length m'" and "length i = length i'"
  shows "r = r' \<and> m = m' \<and> i = i' \<and> n = n'"
  using assms le_bytes_inj [of n n'] by (simp add: job_id_preimage_def)

text \<open>The status predicates partition the statuses as the lifecycle diagram draws them.\<close>

lemma terminal_not_active: "is_terminal s \<Longrightarrow> \<not> is_active s \<and> \<not> can_cancel s"
  by (auto simp: is_terminal_def is_active_def can_cancel_def)

lemma can_cancel_active: "can_cancel s \<Longrightarrow> is_active s"
  by (auto simp: is_active_def can_cancel_def)

end
