(* ===== verification/Errors.thy ===== *)
theory Errors
  imports Types
begin

text \<open>
  \<open>src/crates/vm/src/system_contracts/error.rs\<close>: the error values of every system contract
  operation, their RPC codes and classification. The comment below a constructor names its fields.
\<close>

datatype (plugins only: code size) sys_error =
    JobNotFound string
      \<comment> \<open>job_id\<close>
  | InvalidJobStatus string string
      \<comment> \<open>expected, actual\<close>
  | UnauthorizedProver string string
      \<comment> \<open>assigned, attempted\<close>
  | SlaViolation string u64 u64
      \<comment> \<open>job_id, deadline, current\<close>
  | InsufficientBid token_amount token_amount
      \<comment> \<open>minimum, actual\<close>
  | JobAlreadyAssigned string string
      \<comment> \<open>job_id, prover\<close>
  | CannotCancelJob string job_status
      \<comment> \<open>job_id, status\<close>
  | OnlyRequesterCanCancel string string
      \<comment> \<open>requester, caller\<close>
  | InsufficientStake token_amount token_amount
      \<comment> \<open>required, actual\<close>
  | StakerNotFound string
      \<comment> \<open>address\<close>
  | CannotUnstake token_amount token_amount
      \<comment> \<open>requested, available\<close>
  | UnstakeInProgress u64
      \<comment> \<open>unlock_time\<close>
  | NothingToWithdraw
  | SlashingInProgress
  | InvalidStakeRole
  | SanctionedEntity string string
      \<comment> \<open>entity_type, address\<close>
  | MissingCertification string string
      \<comment> \<open>entity, certification\<close>
  | CertificationRequired string string
      \<comment> \<open>tag, certification\<close>
  | JurisdictionBlocked string
      \<comment> \<open>reason\<close>
  | ComplianceModuleInactive string
      \<comment> \<open>module\<close>
  | InvalidCertification string
      \<comment> \<open>reason\<close>
  | ExpiredCertification string u64
      \<comment> \<open>entity, expired_at\<close>
  | InsufficientBalance token_amount token_amount
      \<comment> \<open>required, available\<close>
  | TransferFailed string
      \<comment> \<open>reason\<close>
  | InvalidAmount string
      \<comment> \<open>reason\<close>
  | AccountLocked string u64
      \<comment> \<open>address, unlock_time\<close>
  | EscrowNotFound string
      \<comment> \<open>escrow_id\<close>
  | InvalidProof string
      \<comment> \<open>reason\<close>
  | TeeVerificationFailed string
      \<comment> \<open>reason\<close>
  | ZkVerificationFailed string
      \<comment> \<open>reason\<close>
  | MeasurementMismatch string string
      \<comment> \<open>expected, actual\<close>
  | ProofMethodMismatch verification_method verification_method
      \<comment> \<open>required, actual\<close>
  | SettlementFailed string
      \<comment> \<open>reason\<close>
  | InvalidConfig string
  | GenesisError string
  | StateCorruption string
  | Unauthorized string
      \<comment> \<open>caller\<close>
  | GovernanceRequired
  | InvalidSignature string
      \<comment> \<open>reason\<close>
  | InsufficientBond token_amount token_amount
      \<comment> \<open>required, provided\<close>
  | NodeInCooldown u64
      \<comment> \<open>until\<close>
  | NoBondFound
  | BondExpired
  | Tokenomics string
  | Compliance string
  | Slashing string
  | Internal string
  | Serialization string
  | Overflow string

type_synonym 'a sys_result = "(sys_error, 'a) result"

section \<open>Constructors used by the contracts\<close>

definition job_not_found :: "job_id \<Rightarrow> sys_error" where
  "job_not_found job_id = JobNotFound (hex_encode job_id)"

definition unauthorized_prover :: "address \<Rightarrow> address \<Rightarrow> sys_error" where
  "unauthorized_prover assigned attempted =
     UnauthorizedProver (hex_encode assigned) (hex_encode attempted)"

definition sla_violation :: "job_id \<Rightarrow> u64 \<Rightarrow> u64 \<Rightarrow> sys_error" where
  "sla_violation job_id deadline current = SlaViolation (hex_encode job_id) deadline current"

definition staker_not_found :: "address \<Rightarrow> sys_error" where
  "staker_not_found address = StakerNotFound (hex_encode address)"

definition sanctioned_sender :: "address \<Rightarrow> sys_error" where
  "sanctioned_sender address = SanctionedEntity ''Sender'' (hex_encode address)"

definition sanctioned_receiver :: "address \<Rightarrow> sys_error" where
  "sanctioned_receiver address = SanctionedEntity ''Receiver'' (hex_encode address)"

definition missing_hipaa :: "string \<Rightarrow> sys_error" where
  "missing_hipaa entity = MissingCertification entity ''HIPAA''"

definition missing_gdpr :: "string \<Rightarrow> sys_error" where
  "missing_gdpr entity = MissingCertification entity ''GDPR''"

section \<open>Classification\<close>

definition error_code :: "sys_error \<Rightarrow> u32" where
  "error_code e =
     (case e of
        JobNotFound _ \<Rightarrow> 1000
      | InvalidJobStatus _ _ \<Rightarrow> 1001
      | UnauthorizedProver _ _ \<Rightarrow> 1002
      | SlaViolation _ _ _ \<Rightarrow> 1003
      | InsufficientBid _ _ \<Rightarrow> 1004
      | JobAlreadyAssigned _ _ \<Rightarrow> 1005
      | CannotCancelJob _ _ \<Rightarrow> 1006
      | OnlyRequesterCanCancel _ _ \<Rightarrow> 1007
      | InsufficientStake _ _ \<Rightarrow> 1100
      | StakerNotFound _ \<Rightarrow> 1101
      | CannotUnstake _ _ \<Rightarrow> 1102
      | UnstakeInProgress _ \<Rightarrow> 1103
      | NothingToWithdraw \<Rightarrow> 1104
      | SlashingInProgress \<Rightarrow> 1105
      | InvalidStakeRole \<Rightarrow> 1106
      | SanctionedEntity _ _ \<Rightarrow> 1200
      | MissingCertification _ _ \<Rightarrow> 1201
      | CertificationRequired _ _ \<Rightarrow> 1202
      | JurisdictionBlocked _ \<Rightarrow> 1203
      | ComplianceModuleInactive _ \<Rightarrow> 1204
      | InvalidCertification _ \<Rightarrow> 1205
      | ExpiredCertification _ _ \<Rightarrow> 1206
      | InsufficientBalance _ _ \<Rightarrow> 1300
      | TransferFailed _ \<Rightarrow> 1301
      | InvalidAmount _ \<Rightarrow> 1302
      | AccountLocked _ _ \<Rightarrow> 1303
      | EscrowNotFound _ \<Rightarrow> 1304
      | InvalidProof _ \<Rightarrow> 1400
      | TeeVerificationFailed _ \<Rightarrow> 1401
      | ZkVerificationFailed _ \<Rightarrow> 1402
      | MeasurementMismatch _ _ \<Rightarrow> 1403
      | ProofMethodMismatch _ _ \<Rightarrow> 1404
      | SettlementFailed _ \<Rightarrow> 1405
      | InvalidConfig _ \<Rightarrow> 1500
      | GenesisError _ \<Rightarrow> 1501
      | StateCorruption _ \<Rightarrow> 1502
      | Unauthorized _ \<Rightarrow> 1600
      | GovernanceRequired \<Rightarrow> 1601
      | InvalidSignature _ \<Rightarrow> 1602
      | InsufficientBond _ _ \<Rightarrow> 1700
      | NodeInCooldown _ \<Rightarrow> 1701
      | NoBondFound \<Rightarrow> 1702
      | BondExpired \<Rightarrow> 1703
      | Tokenomics _ \<Rightarrow> 1704
      | Compliance _ \<Rightarrow> 1705
      | Slashing _ \<Rightarrow> 1706
      | Internal _ \<Rightarrow> 1900
      | Serialization _ \<Rightarrow> 1901
      | Overflow _ \<Rightarrow> 1902)"

definition is_recoverable :: "sys_error \<Rightarrow> bool" where
  "is_recoverable e =
     (case e of StateCorruption _ \<Rightarrow> False | Internal _ \<Rightarrow> False | GenesisError _ \<Rightarrow> False | _ \<Rightarrow> True)"

definition should_slash :: "sys_error \<Rightarrow> bool" where
  "should_slash e =
     (case e of SlaViolation _ _ _ \<Rightarrow> True | InvalidProof _ \<Rightarrow> True | MeasurementMismatch _ _ \<Rightarrow> True
      | _ \<Rightarrow> False)"

end
