(* ===== verification/Events.thy ===== *)
theory Events
  imports Types
begin

text \<open>
  \<open>src/crates/vm/src/system_contracts/events.rs\<close>: the events that the system contracts emit, and the
  two enumerations of \<open>slashing.rs\<close> and \<open>tokenomics.rs\<close> that occur in them. The comment below a
  constructor names its fields.
\<close>

section \<open>Enumerations that occur in events\<close>

datatype (plugins only: code size) offense_type =
    InvalidZkProof
  | ForgedTeeSignature
  | HardwareSpoofing
  | FabricatedResult
  | CommitteeManipulation
  | DoubleSign
  | Equivocation
  | VoteTampering
  | CollusionDetected
  | ResultPlagiarism
  | SlaTimeout
  | LateDelivery
  | IncompleteResult
  | AttestationChallengeFailure
  | JobAbandonment
  | LowReliability

datatype (plugins only: code size) allocation_category =
    ComputePoUW
  | CoreContributors
  | EcosystemGrants
  | StrategicSeed
  | PublicSales
  | AirdropSeals
  | TreasuryMM
  | InsuranceFund
  | ContingencyReserve

section \<open>Events\<close>

datatype (plugins only: code size) job_event =
    JobSubmitted job_id address hash token_amount u64 u64
      \<comment> \<open>job_id, requester, model_hash, bid_amount, sla_deadline, block_height\<close>
  | JobAssigned job_id address u64 u64
      \<comment> \<open>job_id, prover, assigned_at, block_height\<close>
  | JobStarted job_id address u64
      \<comment> \<open>job_id, prover, started_at\<close>
  | ProofSubmitted job_id address hash u8 u64
      \<comment> \<open>job_id, prover, output_hash, verification_method, block_height\<close>
  | JobVerified job_id address u64
      \<comment> \<open>job_id, prover, verified_at\<close>
  | JobSettled job_id address address token_amount token_amount token_amount u64
      \<comment> \<open>job_id, prover, requester, prover_reward, validator_reward, burned, block_height\<close>
  | JobExpired job_id address u64 u64 token_amount
      \<comment> \<open>job_id, prover, deadline, expired_at, slashed_amount\<close>
  | JobCancelled job_id address token_amount token_amount u64
      \<comment> \<open>job_id, requester, refunded, cancellation_fee, block_height\<close>
  | JobFailed job_id address string token_amount
      \<comment> \<open>job_id, prover, reason, slashed_amount\<close>
  | JobDisputed job_id address string token_amount
      \<comment> \<open>job_id, disputer, reason, dispute_bond\<close>
  | DisputeResolved job_id address string
      \<comment> \<open>job_id, winner, resolution\<close>

definition job_event_type :: "job_event \<Rightarrow> string" where
  "job_event_type e =
     (case e of
        job_event.JobSubmitted _ _ _ _ _ _ \<Rightarrow> ''JobSubmitted''
      | job_event.JobAssigned _ _ _ _ \<Rightarrow> ''JobAssigned''
      | job_event.JobStarted _ _ _ \<Rightarrow> ''JobStarted''
      | job_event.ProofSubmitted _ _ _ _ _ \<Rightarrow> ''ProofSubmitted''
      | job_event.JobVerified _ _ _ \<Rightarrow> ''JobVerified''
      | job_event.JobSettled _ _ _ _ _ _ _ \<Rightarrow> ''JobSettled''
      | job_event.JobExpired _ _ _ _ _ \<Rightarrow> ''JobExpired''
      | job_event.JobCancelled _ _ _ _ _ \<Rightarrow> ''JobCancelled''
      | job_event.JobFailed _ _ _ _ \<Rightarrow> ''JobFailed''
      | job_event.JobDisputed _ _ _ _ \<Rightarrow> ''JobDisputed''
      | job_event.DisputeResolved _ _ _ \<Rightarrow> ''DisputeResolved'')"

definition job_event_job_id :: "job_event \<Rightarrow> job_id" where
  "job_event_job_id e =
     (case e of
        JobSubmitted job_id _ _ _ _ _ \<Rightarrow> job_id
      | JobAssigned job_id _ _ _ \<Rightarrow> job_id
      | JobStarted job_id _ _ \<Rightarrow> job_id
      | ProofSubmitted job_id _ _ _ _ \<Rightarrow> job_id
      | JobVerified job_id _ _ \<Rightarrow> job_id
      | JobSettled job_id _ _ _ _ _ _ \<Rightarrow> job_id
      | JobExpired job_id _ _ _ _ \<Rightarrow> job_id
      | JobCancelled job_id _ _ _ _ \<Rightarrow> job_id
      | JobFailed job_id _ _ _ \<Rightarrow> job_id
      | JobDisputed job_id _ _ _ \<Rightarrow> job_id
      | DisputeResolved job_id _ _ \<Rightarrow> job_id)"

datatype (plugins only: code size) staking_event =
    Staked address token_amount stake_role token_amount u64
      \<comment> \<open>staker, amount, role, total_stake, block_height\<close>
  | UnstakeInitiated address token_amount u64 u64
      \<comment> \<open>staker, amount, unlock_time, block_height\<close>
  | StakeWithdrawn address token_amount u64
      \<comment> \<open>staker, amount, block_height\<close>
  | Slashed address token_amount string "job_id option" u64
      \<comment> \<open>staker, amount, reason, job_id, block_height\<close>
  | RewardsDistributed address token_amount string u64
      \<comment> \<open>staker, amount, source, block_height\<close>
  | TokensBurned token_amount string u64
      \<comment> \<open>amount, reason, block_height\<close>
  | UtilizationUpdated u8 u8 u8 u64
      \<comment> \<open>old_utilization, new_utilization, new_burn_rate, block_height\<close>
  | Delegated address address token_amount u64
      \<comment> \<open>delegator, validator, amount, block_height\<close>
  | Undelegated address address token_amount u64
      \<comment> \<open>delegator, validator, amount, block_height\<close>
  | ValidatorJailed address string u64 u64
      \<comment> \<open>validator, reason, until, block_height\<close>
  | ValidatorUnjailed address u64
      \<comment> \<open>validator, block_height\<close>

definition staking_event_type :: "staking_event \<Rightarrow> string" where
  "staking_event_type e =
     (case e of
        staking_event.Staked _ _ _ _ _ \<Rightarrow> ''Staked''
      | staking_event.UnstakeInitiated _ _ _ _ \<Rightarrow> ''UnstakeInitiated''
      | staking_event.StakeWithdrawn _ _ _ \<Rightarrow> ''StakeWithdrawn''
      | staking_event.Slashed _ _ _ _ _ \<Rightarrow> ''Slashed''
      | staking_event.RewardsDistributed _ _ _ _ \<Rightarrow> ''RewardsDistributed''
      | staking_event.TokensBurned _ _ _ \<Rightarrow> ''TokensBurned''
      | staking_event.UtilizationUpdated _ _ _ _ \<Rightarrow> ''UtilizationUpdated''
      | staking_event.Delegated _ _ _ _ \<Rightarrow> ''Delegated''
      | staking_event.Undelegated _ _ _ _ \<Rightarrow> ''Undelegated''
      | staking_event.ValidatorJailed _ _ _ _ \<Rightarrow> ''ValidatorJailed''
      | staking_event.ValidatorUnjailed _ _ \<Rightarrow> ''ValidatorUnjailed'')"

datatype (plugins only: code size) compliance_event =
    TransactionBlocked hash address address string string u64
      \<comment> \<open>tx_hash, sender, receiver, reason, module, block_height\<close>
  | EntityCertified address string string u64 address u64
      \<comment> \<open>entity, did, certification, expires_at, certifier, block_height\<close>
  | CertificationRevoked address string string address u64
      \<comment> \<open>entity, certification, reason, revoker, block_height\<close>
  | SanctionsUpdated u32 u32 address u64
      \<comment> \<open>added_count, removed_count, authority, block_height\<close>
  | ModuleStatusChanged string bool u64
      \<comment> \<open>module, enabled, block_height\<close>
  | ComplianceCheckPassed hash address "string list" "string list" u64
      \<comment> \<open>tx_hash, sender, tags, checks_performed, block_height\<close>
  | CertificationAdded address u8 u64
      \<comment> \<open>entity, standard, expires_at\<close>
  | AddressSanctioned address string
      \<comment> \<open>address, list\<close>
  | AddressUnsanctioned address
      \<comment> \<open>address\<close>
  | SanctionsListUpdated string u32
      \<comment> \<open>list, count\<close>
  | ConsentRevoked address address
      \<comment> \<open>data_subject, data_controller\<close>
  | BaaRegistered address address
      \<comment> \<open>covered_entity, business_associate\<close>
  | CheckPerformed hash address bool u8
      \<comment> \<open>check_id, requester, passed, risk_score\<close>

definition compliance_event_type :: "compliance_event \<Rightarrow> string" where
  "compliance_event_type e =
     (case e of
        compliance_event.TransactionBlocked _ _ _ _ _ _ \<Rightarrow> ''TransactionBlocked''
      | compliance_event.EntityCertified _ _ _ _ _ _ \<Rightarrow> ''EntityCertified''
      | compliance_event.CertificationRevoked _ _ _ _ _ \<Rightarrow> ''CertificationRevoked''
      | compliance_event.SanctionsUpdated _ _ _ _ \<Rightarrow> ''SanctionsUpdated''
      | compliance_event.ModuleStatusChanged _ _ _ \<Rightarrow> ''ModuleStatusChanged''
      | compliance_event.ComplianceCheckPassed _ _ _ _ _ \<Rightarrow> ''ComplianceCheckPassed''
      | compliance_event.CertificationAdded _ _ _ \<Rightarrow> ''CertificationAdded''
      | compliance_event.AddressSanctioned _ _ \<Rightarrow> ''AddressSanctioned''
      | compliance_event.AddressUnsanctioned _ \<Rightarrow> ''AddressUnsanctioned''
      | compliance_event.SanctionsListUpdated _ _ \<Rightarrow> ''SanctionsListUpdated''
      | compliance_event.ConsentRevoked _ _ \<Rightarrow> ''ConsentRevoked''
      | compliance_event.BaaRegistered _ _ \<Rightarrow> ''BaaRegistered''
      | compliance_event.CheckPerformed _ _ _ _ \<Rightarrow> ''CheckPerformed'')"

datatype (plugins only: code size) bank_event =
    Transfer address address token_amount u64
      \<comment> \<open>from, to, amount, block_height\<close>
  | EscrowCreated hash address token_amount string u64
      \<comment> \<open>escrow_id, from, amount, release_conditions, block_height\<close>
  | EscrowReleased hash address token_amount u64
      \<comment> \<open>escrow_id, to, amount, block_height\<close>
  | EscrowRefunded hash address token_amount string u64
      \<comment> \<open>escrow_id, to, amount, reason, block_height\<close>
  | AccountLocked address u64 string u64
      \<comment> \<open>account, until, reason, block_height\<close>
  | AccountUnlocked address u64
      \<comment> \<open>account, block_height\<close>

definition bank_event_type :: "bank_event \<Rightarrow> string" where
  "bank_event_type e =
     (case e of
        bank_event.Transfer _ _ _ _ \<Rightarrow> ''Transfer''
      | bank_event.EscrowCreated _ _ _ _ _ \<Rightarrow> ''EscrowCreated''
      | bank_event.EscrowReleased _ _ _ _ \<Rightarrow> ''EscrowReleased''
      | bank_event.EscrowRefunded _ _ _ _ _ \<Rightarrow> ''EscrowRefunded''
      | bank_event.AccountLocked _ _ _ _ \<Rightarrow> ''AccountLocked''
      | bank_event.AccountUnlocked _ _ \<Rightarrow> ''AccountUnlocked'')"

datatype (plugins only: code size) slashing_event =
    Slashed address offense_type token_amount token_amount token_amount "address option" u64 bool hash
      \<comment> \<open>offender, offense_type, slash_amount, burn_amount, reporter_reward, reporter, ban_until, tombstoned, evidence_hash\<close>
  | ChallengeSubmitted hash address address job_id "address list"
      \<comment> \<open>challenge_id, challenger, prover, job_id, committee\<close>
  | ChallengeResolvedProverFault hash address address token_amount token_amount
      \<comment> \<open>challenge_id, prover, challenger, slash_amount, challenger_reward\<close>
  | ChallengeResolvedChallengerFault hash address address token_amount
      \<comment> \<open>challenge_id, challenger, prover, spam_penalty\<close>
  | SpamChallengePenalty address token_amount hash
      \<comment> \<open>challenger, penalty_amount, challenge_id\<close>
  | AttestationChallengeIssued hash address u64
      \<comment> \<open>challenge_id, target, deadline\<close>
  | AttestationResponseReceived hash address bool
      \<comment> \<open>challenge_id, target, verified\<close>
  | AttestationChallengeFailed hash address token_amount
      \<comment> \<open>challenge_id, target, slash_amount\<close>
  | DoubleSignDetected address u64 hash
      \<comment> \<open>offender, height, evidence_hash\<close>
  | EquivocationDetected address u64 u32 hash
      \<comment> \<open>offender, height, round, evidence_hash\<close>
  | NodeTombstoned address offense_type token_amount
      \<comment> \<open>offender, offense_type, total_slashed\<close>
  | BanExpired address
      \<comment> \<open>node\<close>
  | ReliabilityScoreUpdated address u16 u16 bool
      \<comment> \<open>node, old_score, new_score, below_threshold\<close>

definition slashing_event_type :: "slashing_event \<Rightarrow> string" where
  "slashing_event_type e =
     (case e of
        slashing_event.Slashed _ _ _ _ _ _ _ _ _ \<Rightarrow> ''Slashed''
      | slashing_event.ChallengeSubmitted _ _ _ _ _ \<Rightarrow> ''ChallengeSubmitted''
      | slashing_event.ChallengeResolvedProverFault _ _ _ _ _ \<Rightarrow> ''ChallengeResolvedProverFault''
      | slashing_event.ChallengeResolvedChallengerFault _ _ _ _ \<Rightarrow> ''ChallengeResolvedChallengerFault''
      | slashing_event.SpamChallengePenalty _ _ _ \<Rightarrow> ''SpamChallengePenalty''
      | slashing_event.AttestationChallengeIssued _ _ _ \<Rightarrow> ''AttestationChallengeIssued''
      | slashing_event.AttestationResponseReceived _ _ _ \<Rightarrow> ''AttestationResponseReceived''
      | slashing_event.AttestationChallengeFailed _ _ _ \<Rightarrow> ''AttestationChallengeFailed''
      | slashing_event.DoubleSignDetected _ _ _ \<Rightarrow> ''DoubleSignDetected''
      | slashing_event.EquivocationDetected _ _ _ _ \<Rightarrow> ''EquivocationDetected''
      | slashing_event.NodeTombstoned _ _ _ \<Rightarrow> ''NodeTombstoned''
      | slashing_event.BanExpired _ \<Rightarrow> ''BanExpired''
      | slashing_event.ReliabilityScoreUpdated _ _ _ _ \<Rightarrow> ''ReliabilityScoreUpdated'')"

datatype (plugins only: code size) tokenomics_event =
    GenesisInitialized token_amount token_amount token_amount
      \<comment> \<open>total_supply, circulating, locked\<close>
  | VestingPositionCreated u64 address token_amount allocation_category
      \<comment> \<open>position_id, beneficiary, amount, category\<close>
  | VestingClaimed u64 address token_amount
      \<comment> \<open>position_id, beneficiary, amount\<close>
  | VestingRevoked u64 token_amount
      \<comment> \<open>position_id, unvested_returned\<close>
  | MiningEmission token_amount token_amount
      \<comment> \<open>amount, total_emitted\<close>
  | HalvingOccurred u32 token_amount token_amount
      \<comment> \<open>period, old_rate, new_rate\<close>
  | AdaptiveBurn token_amount u16 u16 token_amount
      \<comment> \<open>amount, block_fullness_bps, effective_rate_bps, total_burned\<close>
  | FeeDistributed token_amount token_amount token_amount token_amount
      \<comment> \<open>total_fee, prover_amount, validator_amount, burn_amount\<close>
  | BurnRateUpdated u16 u16 u16
      \<comment> \<open>old_rate_bps, new_rate_bps, utilization_bps\<close>
  | SupplyUpdated token_amount token_amount token_amount
      \<comment> \<open>circulating, burned, locked\<close>
  | DaoUnlockApproved address token_amount u64
      \<comment> \<open>recipient, amount, proposal_id\<close>
  | FoundationDeployment address token_amount string
      \<comment> \<open>recipient, amount, purpose\<close>

definition tokenomics_event_type :: "tokenomics_event \<Rightarrow> string" where
  "tokenomics_event_type e =
     (case e of
        tokenomics_event.GenesisInitialized _ _ _ \<Rightarrow> ''GenesisInitialized''
      | tokenomics_event.VestingPositionCreated _ _ _ _ \<Rightarrow> ''VestingPositionCreated''
      | tokenomics_event.VestingClaimed _ _ _ \<Rightarrow> ''VestingClaimed''
      | tokenomics_event.VestingRevoked _ _ \<Rightarrow> ''VestingRevoked''
      | tokenomics_event.MiningEmission _ _ \<Rightarrow> ''MiningEmission''
      | tokenomics_event.HalvingOccurred _ _ _ \<Rightarrow> ''HalvingOccurred''
      | tokenomics_event.AdaptiveBurn _ _ _ _ \<Rightarrow> ''AdaptiveBurn''
      | tokenomics_event.FeeDistributed _ _ _ _ \<Rightarrow> ''FeeDistributed''
      | tokenomics_event.BurnRateUpdated _ _ _ \<Rightarrow> ''BurnRateUpdated''
      | tokenomics_event.SupplyUpdated _ _ _ \<Rightarrow> ''SupplyUpdated''
      | tokenomics_event.DaoUnlockApproved _ _ _ \<Rightarrow> ''DaoUnlockApproved''
      | tokenomics_event.FoundationDeployment _ _ _ \<Rightarrow> ''FoundationDeployment'')"

datatype (plugins only: code size) pouw_event =
    ComputeMultiplierUpdated address u16 u16 u128 u8
      \<comment> \<open>node, old_multiplier_bps, new_multiplier_bps, verified_ops_30d, hardware_tier\<close>
  | ComputeOperationVerified hash address job_id u128 u8 bool
      \<comment> \<open>operation_id, node, job_id, verified_ops, tee_type, zk_verified\<close>
  | HardwareTierUpgraded address u8 u8 u128
      \<comment> \<open>node, old_tier, new_tier, total_ops\<close>
  | ComputeWeightedRewardCalculated address token_amount token_amount u16 u16
      \<comment> \<open>node, base_reward, final_reward, multiplier_bps, tier_bonus_bps\<close>
  | ComplianceBondPosted hash address u8 token_amount u64
      \<comment> \<open>bond_id, node, bond_type, amount, expires_at\<close>
  | ComplianceBondReleased hash address token_amount
      \<comment> \<open>bond_id, node, amount\<close>
  | ComplianceBondLiquidated hash hash address address token_amount token_amount token_amount u8
      \<comment> \<open>liquidation_id, bond_id, node, victim, bond_amount, victim_payout, burned, reason\<close>
  | ComplianceCooldownStarted address u64 string
      \<comment> \<open>node, cooldown_until, reason\<close>
  | ComplianceCooldownExpired address
      \<comment> \<open>node\<close>
  | BurnRateUpdated u16 u16 u16 token_amount
      \<comment> \<open>old_rate_bps, new_rate_bps, network_load_bps, total_burned\<close>
  | FeeProcessed token_amount token_amount token_amount token_amount u16 u16
      \<comment> \<open>total_fee, prover_amount, validator_amount, burn_amount, burn_rate_bps, network_load_bps\<close>
  | SignificantBurn token_amount hash u16 token_amount
      \<comment> \<open>amount, tx_hash, burn_rate_bps, total_burned\<close>
  | CongestionSpikeDetected u16 u16 u16 u64
      \<comment> \<open>previous_load_bps, current_load_bps, new_burn_rate_bps, block_height\<close>
  | SovereigntyPremiumCharged hash address address u8 u8 u8 token_amount u16 token_amount
      \<comment> \<open>request_id, requester, provider, region, verification_level, category, base_price, premium_multiplier_bps, final_price\<close>
  | DataProviderRegistered address "u8 list" u8
      \<comment> \<open>provider, regions, verification_level\<close>
  | ProviderPremiumEarned address token_amount u8 token_amount
      \<comment> \<open>provider, amount, region, total_earnings\<close>
  | EpochStarted u64 u64 u16
      \<comment> \<open>epoch, timestamp, burn_rate_bps\<close>
  | EpochEnded u64 u64 token_amount token_amount
      \<comment> \<open>epoch, timestamp, total_burned, total_rewards_distributed\<close>
  | StatsSnapshot u64 u32 u128 u64 token_amount u16 u16 token_amount
      \<comment> \<open>block_height, compute_nodes, total_compute_ops_30d, active_compliance_bonds, total_bond_value, burn_rate_bps, network_load_bps, total_burned\<close>

definition pouw_event_type :: "pouw_event \<Rightarrow> string" where
  "pouw_event_type e =
     (case e of
        pouw_event.ComputeMultiplierUpdated _ _ _ _ _ \<Rightarrow> ''ComputeMultiplierUpdated''
      | pouw_event.ComputeOperationVerified _ _ _ _ _ _ \<Rightarrow> ''ComputeOperationVerified''
      | pouw_event.HardwareTierUpgraded _ _ _ _ \<Rightarrow> ''HardwareTierUpgraded''
      | pouw_event.ComputeWeightedRewardCalculated _ _ _ _ _ \<Rightarrow> ''ComputeWeightedRewardCalculated''
      | pouw_event.ComplianceBondPosted _ _ _ _ _ \<Rightarrow> ''ComplianceBondPosted''
      | pouw_event.ComplianceBondReleased _ _ _ \<Rightarrow> ''ComplianceBondReleased''
      | pouw_event.ComplianceBondLiquidated _ _ _ _ _ _ _ _ \<Rightarrow> ''ComplianceBondLiquidated''
      | pouw_event.ComplianceCooldownStarted _ _ _ \<Rightarrow> ''ComplianceCooldownStarted''
      | pouw_event.ComplianceCooldownExpired _ \<Rightarrow> ''ComplianceCooldownExpired''
      | pouw_event.BurnRateUpdated _ _ _ _ \<Rightarrow> ''BurnRateUpdated''
      | pouw_event.FeeProcessed _ _ _ _ _ _ \<Rightarrow> ''FeeProcessed''
      | pouw_event.SignificantBurn _ _ _ _ \<Rightarrow> ''SignificantBurn''
      | pouw_event.CongestionSpikeDetected _ _ _ _ \<Rightarrow> ''CongestionSpikeDetected''
      | pouw_event.SovereigntyPremiumCharged _ _ _ _ _ _ _ _ _ \<Rightarrow> ''SovereigntyPremiumCharged''
      | pouw_event.DataProviderRegistered _ _ _ \<Rightarrow> ''DataProviderRegistered''
      | pouw_event.ProviderPremiumEarned _ _ _ _ \<Rightarrow> ''ProviderPremiumEarned''
      | pouw_event.EpochStarted _ _ _ \<Rightarrow> ''EpochStarted''
      | pouw_event.EpochEnded _ _ _ _ \<Rightarrow> ''EpochEnded''
      | pouw_event.StatsSnapshot _ _ _ _ _ _ _ _ \<Rightarrow> ''StatsSnapshot'')"

definition pouw_event_moat :: "pouw_event \<Rightarrow> string" where
  "pouw_event_moat e =
     (case e of
        pouw_event.ComputeMultiplierUpdated _ _ _ _ _ \<Rightarrow> ''COMPUTE_WEIGHTED''
      | pouw_event.ComputeOperationVerified _ _ _ _ _ _ \<Rightarrow> ''COMPUTE_WEIGHTED''
      | pouw_event.HardwareTierUpgraded _ _ _ _ \<Rightarrow> ''COMPUTE_WEIGHTED''
      | pouw_event.ComputeWeightedRewardCalculated _ _ _ _ _ \<Rightarrow> ''COMPUTE_WEIGHTED''
      | pouw_event.ComplianceBondPosted _ _ _ _ _ \<Rightarrow> ''COMPLIANCE_BOND''
      | pouw_event.ComplianceBondReleased _ _ _ \<Rightarrow> ''COMPLIANCE_BOND''
      | pouw_event.ComplianceBondLiquidated _ _ _ _ _ _ _ _ \<Rightarrow> ''COMPLIANCE_BOND''
      | pouw_event.ComplianceCooldownStarted _ _ _ \<Rightarrow> ''COMPLIANCE_BOND''
      | pouw_event.ComplianceCooldownExpired _ \<Rightarrow> ''COMPLIANCE_BOND''
      | pouw_event.BurnRateUpdated _ _ _ _ \<Rightarrow> ''CONGESTION_BURN''
      | pouw_event.FeeProcessed _ _ _ _ _ _ \<Rightarrow> ''CONGESTION_BURN''
      | pouw_event.SignificantBurn _ _ _ _ \<Rightarrow> ''CONGESTION_BURN''
      | pouw_event.CongestionSpikeDetected _ _ _ _ \<Rightarrow> ''CONGESTION_BURN''
      | pouw_event.SovereigntyPremiumCharged _ _ _ _ _ _ _ _ _ \<Rightarrow> ''SOVEREIGNTY_PREMIUM''
      | pouw_event.DataProviderRegistered _ _ _ \<Rightarrow> ''SOVEREIGNTY_PREMIUM''
      | pouw_event.ProviderPremiumEarned _ _ _ _ \<Rightarrow> ''SOVEREIGNTY_PREMIUM''
      | pouw_event.EpochStarted _ _ _ \<Rightarrow> ''EPOCH''
      | pouw_event.EpochEnded _ _ _ _ \<Rightarrow> ''EPOCH''
      | pouw_event.StatsSnapshot _ _ _ _ _ _ _ _ \<Rightarrow> ''EPOCH'')"

datatype (plugins only: code size) system_event =
    Job job_event
  | Staking staking_event
  | ComplianceEv compliance_event
  | BankEv bank_event
  | SlashingEv slashing_event
  | TokenomicsEv tokenomics_event
  | PoUWEv pouw_event

fun system_event_type :: "system_event \<Rightarrow> string" where
  "system_event_type (Job e) = job_event_type e"
| "system_event_type (Staking e) = staking_event_type e"
| "system_event_type (ComplianceEv e) = compliance_event_type e"
| "system_event_type (BankEv e) = bank_event_type e"
| "system_event_type (SlashingEv e) = slashing_event_type e"
| "system_event_type (TokenomicsEv e) = tokenomics_event_type e"
| "system_event_type (PoUWEv e) = pouw_event_type e"

definition topic :: "(bytes \<Rightarrow> hash) \<Rightarrow> system_event \<Rightarrow> hash" where
  "topic sha256 e = sha256 (ascii (system_event_type e))"

record event_log =
  el_index :: u32
  el_block_height :: u64
  el_timestamp :: u64
  el_tx_hash :: "hash option"
  el_event :: system_event

text \<open>
  \<open>EventLog::new\<close> stamps the entry with the wall clock of the machine; the argument \<open>now\<close> is what
  \<open>SystemTime::now()\<close> gives.
\<close>

definition event_log_new :: "u64 \<Rightarrow> system_event \<Rightarrow> event_log" where
  "event_log_new now e =
     \<lparr>el_index = 0, el_block_height = 0, el_timestamp = now, el_tx_hash = None, el_event = e\<rparr>"

definition event_log_new_full ::
    "u32 \<Rightarrow> u64 \<Rightarrow> u64 \<Rightarrow> hash option \<Rightarrow> system_event \<Rightarrow> event_log" where
  "event_log_new_full index block_height timestamp tx_hash e =
     \<lparr>el_index = index, el_block_height = block_height, el_timestamp = timestamp,
      el_tx_hash = tx_hash, el_event = e\<rparr>"

definition with_block_context :: "event_log \<Rightarrow> u64 \<Rightarrow> u64 \<Rightarrow> u32 \<Rightarrow> event_log" where
  "with_block_context l block_height timestamp index =
     l\<lparr>el_block_height := block_height, el_timestamp := timestamp, el_index := index\<rparr>"

definition with_tx_hash :: "event_log \<Rightarrow> hash \<Rightarrow> event_log" where
  "with_tx_hash l tx_hash = l\<lparr>el_tx_hash := Some tx_hash\<rparr>"

end
