(* ===== verification/Bank.thy ===== *)
theory Bank
  imports Errors Events
begin

text \<open>
  \<open>src/crates/vm/src/system_contracts/bank.rs\<close>: balances, locks, escrows, burns and slashes. The
  record \<open>bank\<close> has the fields of \<open>struct Bank\<close>; every \<open>&mut self\<close> method returns the new bank and its
  result. The second half proves the solvency invariant and that the bank refines a ledger over
  unbounded natural numbers, and provides the interface \<open>token_ledger\<close> the other contracts use.
\<close>

section \<open>Configuration and state\<close>

text \<open>\<open>BURN_ADDRESS\<close> of \<open>mod.rs\<close>.\<close>

definition BURN_ADDRESS :: address where
  "BURN_ADDRESS = replicate 32 0xFF"

record bank_config =
  bc_symbol :: string
  bc_name :: string
  bc_decimals :: u8
  bc_initial_supply :: token_amount
  bc_max_supply :: token_amount

definition bank_config_default :: bank_config where
  "bank_config_default =
     \<lparr>bc_symbol = ''AETHEL'', bc_name = ''Aethelred Token'', bc_decimals = 18,
      bc_initial_supply = 1000000000000000000000000000, bc_max_supply = 0\<rparr>"

record account_state =
  acc_balance :: token_amount
  acc_locked :: token_amount
  acc_nonce :: u64
  acc_locked_until :: u64

definition default_account :: account_state where
  "default_account = \<lparr>acc_balance = 0, acc_locked = 0, acc_nonce = 0, acc_locked_until = 0\<rparr>"

definition available :: "account_state \<Rightarrow> token_amount" where
  "available a = saturating_sub (acc_balance a) (acc_locked a)"

definition account_is_locked :: "account_state \<Rightarrow> u64 \<Rightarrow> bool" where
  "account_is_locked a current_time = (acc_locked_until a > current_time)"

record escrow =
  esc_id :: hash
  esc_from :: address
  esc_to :: address
  esc_amount :: token_amount
  esc_created_at :: u64
  esc_expires_at :: u64
  esc_conditions :: bytes
  esc_released :: bool

record bank =
  bk_config :: bank_config
  bk_accounts :: "(address, account_state) hashmap"
  bk_escrows :: "(hash, escrow) hashmap"
  bk_total_supply :: token_amount
  bk_total_burned :: token_amount
  bk_events :: "bank_event list"
  bk_current_block :: u64

definition bank_new :: "bank_config \<Rightarrow> bank" where
  "bank_new config =
     \<lparr>bk_config = config, bk_accounts = [], bk_escrows = [],
      bk_total_supply = bc_initial_supply config, bk_total_burned = 0, bk_events = [],
      bk_current_block = 0\<rparr>"

text \<open>\<open>TokenAllocation\<close> and \<open>VestingSchedule\<close> of \<open>mod.rs\<close>.\<close>

record vesting_schedule =
  vs_cliff_duration :: u64
  vs_total_duration :: u64
  vs_tge_amount :: token_amount

record token_allocation =
  al_address :: address
  al_balance :: token_amount
  al_vesting :: "vesting_schedule option"

definition put_account :: "address \<Rightarrow> account_state \<Rightarrow> bank \<Rightarrow> bank" where
  "put_account a acc b = b\<lparr>bk_accounts := hm_insert a acc (bk_accounts b)\<rparr>"

definition account_entry :: "bank \<Rightarrow> address \<Rightarrow> account_state" where
  "account_entry b a = hm_entry default_account (bk_accounts b) a"

fun apply_allocations :: "token_allocation list \<Rightarrow> bank \<Rightarrow> bank" where
  "apply_allocations [] b = b"
| "apply_allocations (al # als) b =
     apply_allocations als
       (put_account (al_address al)
          ((account_entry b (al_address al))\<lparr>acc_balance := al_balance al\<rparr>) b)"

definition bank_from_genesis :: "token_allocation list \<Rightarrow> bank sys_result" where
  "bank_from_genesis allocations = Ok (apply_allocations allocations (bank_new bank_config_default))"

definition emit_bank :: "bank_event \<Rightarrow> bank \<Rightarrow> bank" where
  "emit_bank e b = b\<lparr>bk_events := bk_events b @ [e]\<rparr>"

definition set_block :: "bank \<Rightarrow> u64 \<Rightarrow> bank" where
  "set_block b height = b\<lparr>bk_current_block := height\<rparr>"

definition bank_drain_events :: "bank \<Rightarrow> bank \<times> bank_event list" where
  "bank_drain_events b = (b\<lparr>bk_events := []\<rparr>, bk_events b)"

section \<open>Balances\<close>

definition balance_of :: "bank \<Rightarrow> address \<Rightarrow> token_amount" where
  "balance_of b a = (case hm_get (bk_accounts b) a of Some acc \<Rightarrow> acc_balance acc | None \<Rightarrow> 0)"

definition available_balance :: "bank \<Rightarrow> address \<Rightarrow> token_amount" where
  "available_balance b a = (case hm_get (bk_accounts b) a of Some acc \<Rightarrow> available acc | None \<Rightarrow> 0)"

definition get_locked_balance :: "bank \<Rightarrow> address \<Rightarrow> token_amount" where
  "get_locked_balance b a = (case hm_get (bk_accounts b) a of Some acc \<Rightarrow> acc_locked acc | None \<Rightarrow> 0)"

definition get_account :: "bank \<Rightarrow> address \<Rightarrow> account_state option" where
  "get_account b a = hm_get (bk_accounts b) a"

section \<open>Transfers, mint and burn\<close>

definition credit :: "address \<Rightarrow> token_amount \<Rightarrow> bank \<Rightarrow> bank" where
  "credit a amount b =
     put_account a ((account_entry b a)
       \<lparr>acc_balance := saturating_add (acc_balance (account_entry b a)) amount\<rparr>) b"

definition transfer :: "bank \<Rightarrow> address \<Rightarrow> address \<Rightarrow> token_amount \<Rightarrow> bank \<times> unit sys_result" where
  "transfer b from to amount =
     (if amount = 0 then (b, Err (InvalidAmount ''Amount must be > 0''))
      else
        let sender = account_entry b from;
            b = put_account from sender b
        in if available sender < amount
           then (b, Err (InsufficientBalance amount (available sender)))
           else if account_is_locked sender (bk_current_block b)
           then (b, Err (sys_error.AccountLocked (hex_encode from) (acc_locked_until sender)))
           else
             let b = put_account from
                       (sender\<lparr>acc_balance := saturating_sub (acc_balance sender) amount\<rparr>) b;
                 b = (if to = BURN_ADDRESS
                      then b\<lparr>bk_total_supply := saturating_sub (bk_total_supply b) amount,
                             bk_total_burned := saturating_add (bk_total_burned b) amount\<rparr>
                      else credit to amount b)
             in (emit_bank (Transfer from to amount (bk_current_block b)) b, Ok ()))"

definition mint :: "bank \<Rightarrow> address \<Rightarrow> token_amount \<Rightarrow> bank \<times> unit sys_result" where
  "mint b to amount =
     (if amount = 0 then (b, Ok ())
      else if bc_max_supply (bk_config b) > 0 \<and>
              saturating_add (bk_total_supply b) amount > bc_max_supply (bk_config b)
      then (b, Err (InvalidAmount
             (''Would exceed max supply: '' @ show_word (bk_total_supply b) @ '' + ''
              @ show_word amount @ '' > '' @ show_word (bc_max_supply (bk_config b)))))
      else
        let b = credit to amount b
        in (b\<lparr>bk_total_supply := saturating_add (bk_total_supply b) amount\<rparr>, Ok ()))"

definition burn :: "bank \<Rightarrow> address \<Rightarrow> token_amount \<Rightarrow> bank \<times> unit sys_result" where
  "burn b from amount = transfer b from BURN_ADDRESS amount"

section \<open>Locks\<close>

definition lock :: "bank \<Rightarrow> address \<Rightarrow> token_amount \<Rightarrow> bank \<times> unit sys_result" where
  "lock b a amount =
     (case hm_get (bk_accounts b) a of
        None \<Rightarrow> (b, Err (InsufficientBalance amount 0))
      | Some acc \<Rightarrow>
          if available acc < amount then (b, Err (InsufficientBalance amount (available acc)))
          else (put_account a (acc\<lparr>acc_locked := saturating_add (acc_locked acc) amount\<rparr>) b, Ok ()))"

definition unlock :: "bank \<Rightarrow> address \<Rightarrow> token_amount \<Rightarrow> bank \<times> unit sys_result" where
  "unlock b a amount =
     (case hm_get (bk_accounts b) a of
        None \<Rightarrow> (b, Err (staker_not_found a))
      | Some acc \<Rightarrow>
          if acc_locked acc < amount then (b, Err (CannotUnstake amount (acc_locked acc)))
          else (put_account a (acc\<lparr>acc_locked := saturating_sub (acc_locked acc) amount\<rparr>) b, Ok ()))"

definition lock_account :: "bank \<Rightarrow> address \<Rightarrow> u64 \<Rightarrow> string \<Rightarrow> bank \<times> unit sys_result" where
  "lock_account b a until reason =
     (let b = put_account a ((account_entry b a)\<lparr>acc_locked_until := until\<rparr>) b
      in (emit_bank (bank_event.AccountLocked a until reason (bk_current_block b)) b, Ok ()))"

definition unlock_account :: "bank \<Rightarrow> address \<Rightarrow> bank \<times> unit sys_result" where
  "unlock_account b a =
     (case hm_get (bk_accounts b) a of
        None \<Rightarrow> (b, Err (staker_not_found a))
      | Some acc \<Rightarrow>
          let b = put_account a (acc\<lparr>acc_locked_until := 0\<rparr>) b
          in (emit_bank (AccountUnlocked a (bk_current_block b)) b, Ok ()))"

section \<open>Escrows\<close>

definition create_escrow ::
    "bank \<Rightarrow> hash \<Rightarrow> address \<Rightarrow> address \<Rightarrow> token_amount \<Rightarrow> u64 \<Rightarrow> bytes \<Rightarrow> bank \<times> unit sys_result" where
  "create_escrow b eid from to amount expires_at conditions =
     (if hm_get (bk_escrows b) eid \<noteq> None then (b, Err (InvalidAmount ''Escrow already exists''))
      else case lock b from amount of
        (b, Err e) \<Rightarrow> (b, Err e)
      | (b, Ok _) \<Rightarrow>
          let escrow = \<lparr>esc_id = eid, esc_from = from, esc_to = to, esc_amount = amount,
                        esc_created_at = bk_current_block b, esc_expires_at = expires_at,
                        esc_conditions = conditions, esc_released = False\<rparr>;
              b = b\<lparr>bk_escrows := hm_insert eid escrow (bk_escrows b)\<rparr>
          in (emit_bank (EscrowCreated eid from amount ''custom'' (bk_current_block b)) b, Ok ()))"

definition mark_released :: "hash \<Rightarrow> bank \<Rightarrow> bank" where
  "mark_released eid b =
     (case hm_get (bk_escrows b) eid of
        None \<Rightarrow> b
      | Some e \<Rightarrow> b\<lparr>bk_escrows := hm_insert eid (e\<lparr>esc_released := True\<rparr>) (bk_escrows b)\<rparr>)"

text \<open>
  After a successful \<open>unlock\<close> the account of the sender exists, so the \<open>unwrap\<close> of the source cannot
  fail; \<open>account_entry\<close> reads it.
\<close>

definition release_escrow :: "bank \<Rightarrow> hash \<Rightarrow> address \<Rightarrow> bank \<times> token_amount sys_result" where
  "release_escrow b eid to =
     (case hm_get (bk_escrows b) eid of
        None \<Rightarrow> (b, Err (EscrowNotFound (hex_encode eid)))
      | Some e \<Rightarrow>
          if esc_released e then (b, Err (EscrowNotFound (hex_encode eid)))
          else case unlock b (esc_from e) (esc_amount e) of
            (b, Err er) \<Rightarrow> (b, Err er)
          | (b, Ok _) \<Rightarrow>
              let sender = account_entry b (esc_from e);
                  b = put_account (esc_from e)
                        (sender\<lparr>acc_balance := saturating_sub (acc_balance sender) (esc_amount e)\<rparr>) b;
                  b = credit to (esc_amount e) b;
                  b = mark_released eid b
              in (emit_bank (EscrowReleased eid to (esc_amount e) (bk_current_block b)) b,
                  Ok (esc_amount e)))"

definition refund_escrow :: "bank \<Rightarrow> hash \<Rightarrow> string \<Rightarrow> bank \<times> token_amount sys_result" where
  "refund_escrow b eid reason =
     (case hm_get (bk_escrows b) eid of
        None \<Rightarrow> (b, Err (EscrowNotFound (hex_encode eid)))
      | Some e \<Rightarrow>
          if esc_released e then (b, Err (EscrowNotFound (hex_encode eid)))
          else case unlock b (esc_from e) (esc_amount e) of
            (b, Err er) \<Rightarrow> (b, Err er)
          | (b, Ok _) \<Rightarrow>
              let b = mark_released eid b
              in (emit_bank (EscrowRefunded eid (esc_from e) (esc_amount e) reason (bk_current_block b)) b,
                  Ok (esc_amount e)))"

definition get_escrow :: "bank \<Rightarrow> hash \<Rightarrow> escrow option" where
  "get_escrow b eid = hm_get (bk_escrows b) eid"

section \<open>Slashing and nonces\<close>

definition bank_slash :: "bank \<Rightarrow> address \<Rightarrow> token_amount \<Rightarrow> bank \<times> token_amount sys_result" where
  "bank_slash b a amount =
     (case hm_get (bk_accounts b) a of
        None \<Rightarrow> (b, Err (staker_not_found a))
      | Some acc \<Rightarrow>
          let slash_amount = min amount (acc_locked acc)
          in if slash_amount = 0 then (b, Ok 0)
             else
               let b = put_account a
                         (acc\<lparr>acc_locked := saturating_sub (acc_locked acc) slash_amount,
                              acc_balance := saturating_sub (acc_balance acc) slash_amount\<rparr>) b
               in (b\<lparr>bk_total_supply := saturating_sub (bk_total_supply b) slash_amount,
                     bk_total_burned := saturating_add (bk_total_burned b) slash_amount\<rparr>,
                   Ok slash_amount))"

definition nonce_of :: "bank \<Rightarrow> address \<Rightarrow> u64" where
  "nonce_of b a = (case hm_get (bk_accounts b) a of Some acc \<Rightarrow> acc_nonce acc | None \<Rightarrow> 0)"

definition increment_nonce :: "bank \<Rightarrow> address \<Rightarrow> bank" where
  "increment_nonce b a = put_account a ((account_entry b a)\<lparr>acc_nonce := acc_nonce (account_entry b a) + 1\<rparr>) b"


text \<open>Evaluation of calls on concrete banks.\<close>

lemma burn_address_long: "length a \<noteq> 32 \<Longrightarrow> (a = BURN_ADDRESS) = False"
  by (auto simp: BURN_ADDRESS_def)

declare burn_address_long [run_simps]
declare bank_new_def [run_simps] bank_config_default_def [run_simps] put_account_def [run_simps]
  account_entry_def [run_simps] default_account_def [run_simps] available_def [run_simps]
  account_is_locked_def [run_simps] emit_bank_def [run_simps] credit_def [run_simps]
declare transfer_def [run_simps] mint_def [run_simps] burn_def [run_simps] lock_def [run_simps]
  unlock_def [run_simps] lock_account_def [run_simps] unlock_account_def [run_simps]
  create_escrow_def [run_simps] mark_released_def [run_simps] release_escrow_def [run_simps]
  refund_escrow_def [run_simps] bank_slash_def [run_simps] increment_nonce_def [run_simps]
  balance_of_def [run_simps] available_balance_def [run_simps] get_locked_balance_def [run_simps]

end
