(* ===== verification/Bank_Ledger.thy ===== *)
theory Bank_Ledger
  imports Bank
begin

text \<open>
  What the bank promises. \<open>bank_inv\<close> is the solvency invariant: no account has more locked than it
  owns, and the balances together never exceed the total supply. Under it every saturating
  operation of the bank is exact, and the bank is simulated by a ledger over unbounded natural
  numbers (\<open>ledger_step\<close>). The locale \<open>token_ledger\<close> is the part of this contract that staking and
  the job registry rely on.
\<close>

section \<open>Views and invariant\<close>

definition bal :: "bank \<Rightarrow> address \<Rightarrow> nat" where
  "bal b a = unat (balance_of b a)"

definition lck :: "bank \<Rightarrow> address \<Rightarrow> nat" where
  "lck b a = unat (get_locked_balance b a)"

definition bank_total :: "bank \<Rightarrow> nat" where
  "bank_total b = hm_sum (\<lambda>acc. unat (acc_balance acc)) (bk_accounts b)"

definition circulating :: "bank \<Rightarrow> nat" where
  "circulating b = unat (bk_total_supply b)"

definition burned :: "bank \<Rightarrow> nat" where
  "burned b = unat (bk_total_burned b)"

text \<open>Everything that was ever issued: the circulating supply and what was burned of it.\<close>

definition issued :: "bank \<Rightarrow> nat" where
  "issued b = circulating b + burned b"

definition bank_inv :: "bank \<Rightarrow> bool" where
  "bank_inv b \<longleftrightarrow> (\<forall>a. lck b a \<le> bal b a) \<and> bank_total b \<le> circulating b \<and> issued b < 2 ^ 128"

lemma account_entry_bal: "unat (acc_balance (account_entry b a)) = bal b a"
  by (simp add: account_entry_def hm_entry_def bal_def balance_of_def default_account_def
      split: option.splits)

lemma account_entry_lck: "unat (acc_locked (account_entry b a)) = lck b a"
  by (simp add: account_entry_def hm_entry_def lck_def get_locked_balance_def default_account_def
      split: option.splits)

lemma account_some:
  assumes "hm_get (bk_accounts b) a = Some acc"
  shows "bal b a = unat (acc_balance acc)" "lck b a = unat (acc_locked acc)"
    "account_entry b a = acc"
  using assms by (simp_all add: bal_def lck_def balance_of_def get_locked_balance_def
      account_entry_def hm_entry_def)

lemma account_none:
  assumes "hm_get (bk_accounts b) a = None"
  shows "bal b a = 0" "lck b a = 0"
  using assms by (simp_all add: bal_def lck_def balance_of_def get_locked_balance_def)

lemma put_account_views [simp]:
  "bal (put_account a acc b) x = (if x = a then unat (acc_balance acc) else bal b x)"
  "lck (put_account a acc b) x = (if x = a then unat (acc_locked acc) else lck b x)"
  "circulating (put_account a acc b) = circulating b"
  "burned (put_account a acc b) = burned b"
  "issued (put_account a acc b) = issued b"
  "bk_current_block (put_account a acc b) = bk_current_block b"
  "bk_escrows (put_account a acc b) = bk_escrows b"
  "bk_config (put_account a acc b) = bk_config b"
  "bk_total_supply (put_account a acc b) = bk_total_supply b"
  "bk_total_burned (put_account a acc b) = bk_total_burned b"
  by (simp_all add: put_account_def bal_def lck_def balance_of_def get_locked_balance_def
      circulating_def burned_def issued_def)

lemma put_account_total: "bank_total (put_account a acc b) + bal b a = bank_total b + unat (acc_balance acc)"
proof -
  have "unat (acc_balance default_account) = 0" by (simp add: default_account_def)
  from hm_sum_entry [where f = "\<lambda>acc. unat (acc_balance acc)", OF this, of a acc "bk_accounts b"]
  show ?thesis
    by (simp add: bank_total_def put_account_def account_entry_bal [symmetric] account_entry_def)
qed

lemma bal_le_total: "bal b a \<le> bank_total b"
proof -
  have "unat (acc_balance default_account) = 0" by (simp add: default_account_def)
  from hm_sum_entry_le [where f = "\<lambda>acc. unat (acc_balance acc)", OF this, of "bk_accounts b" a]
  show ?thesis by (simp add: bank_total_def account_entry_bal [symmetric] account_entry_def)
qed

lemma emit_views [simp]:
  "bal (emit_bank e b) = bal b" "lck (emit_bank e b) = lck b"
  "circulating (emit_bank e b) = circulating b" "burned (emit_bank e b) = burned b"
  "issued (emit_bank e b) = issued b" "bank_total (emit_bank e b) = bank_total b"
  "hm_get (bk_accounts (emit_bank e b)) = hm_get (bk_accounts b)"
  "bk_escrows (emit_bank e b) = bk_escrows b"
  "bk_current_block (emit_bank e b) = bk_current_block b"
  by (simp_all add: emit_bank_def bal_def lck_def balance_of_def get_locked_balance_def
      circulating_def burned_def issued_def bank_total_def fun_eq_iff)

lemma mark_released_views [simp]:
  "bal (mark_released i b) = bal b" "lck (mark_released i b) = lck b"
  "circulating (mark_released i b) = circulating b" "burned (mark_released i b) = burned b"
  "issued (mark_released i b) = issued b" "bank_total (mark_released i b) = bank_total b"
  "bk_current_block (mark_released i b) = bk_current_block b"
  by (simp_all add: mark_released_def bal_def lck_def balance_of_def get_locked_balance_def
      circulating_def burned_def issued_def bank_total_def fun_eq_iff split: option.splits)

text \<open>Putting back the account that is already there changes no view.\<close>

lemma put_same_views:
  "bal (put_account a (account_entry b a) b) = bal b"
  "lck (put_account a (account_entry b a) b) = lck b"
  "bank_total (put_account a (account_entry b a) b) = bank_total b"
  using put_account_total [of a "account_entry b a" b]
  by (auto simp: account_entry_bal account_entry_lck fun_eq_iff)

lemma available_nat: "unat (available (account_entry b a)) = bal b a - lck b a"
  by (simp add: available_def u_arith account_entry_bal account_entry_lck)

section \<open>The abstract ledger\<close>

record ledger =
  ld_bal :: "address \<Rightarrow> nat"
  ld_lck :: "address \<Rightarrow> nat"
  ld_supply :: nat
  ld_burned :: nat

datatype ledger_op =
    LStutter
  | LTransfer address address nat
  | LBurn address nat
  | LMint address nat
  | LLock address nat
  | LUnlock address nat
  | LRelease address address nat
  | LSlash address nat

definition take_from :: "address \<Rightarrow> nat \<Rightarrow> (address \<Rightarrow> nat) \<Rightarrow> address \<Rightarrow> nat" where
  "take_from a n f = f(a := f a - n)"

definition give_to :: "address \<Rightarrow> nat \<Rightarrow> (address \<Rightarrow> nat) \<Rightarrow> address \<Rightarrow> nat" where
  "give_to a n f = f(a := f a + n)"

inductive ledger_step :: "ledger \<Rightarrow> ledger_op \<Rightarrow> ledger \<Rightarrow> bool" where
  stutter: "ledger_step l LStutter l"
| transfer: "0 < n \<Longrightarrow> ld_lck l f + n \<le> ld_bal l f \<Longrightarrow>
    ledger_step l (LTransfer f t n) (l\<lparr>ld_bal := give_to t n (take_from f n (ld_bal l))\<rparr>)"
| burn: "0 < n \<Longrightarrow> ld_lck l f + n \<le> ld_bal l f \<Longrightarrow> n \<le> ld_supply l \<Longrightarrow>
    ledger_step l (LBurn f n)
      (l\<lparr>ld_bal := take_from f n (ld_bal l), ld_supply := ld_supply l - n, ld_burned := ld_burned l + n\<rparr>)"
| mint: "ledger_step l (LMint t n)
      (l\<lparr>ld_bal := give_to t n (ld_bal l), ld_supply := ld_supply l + n\<rparr>)"
| lock: "ld_lck l a + n \<le> ld_bal l a \<Longrightarrow>
    ledger_step l (LLock a n) (l\<lparr>ld_lck := give_to a n (ld_lck l)\<rparr>)"
| unlock: "n \<le> ld_lck l a \<Longrightarrow>
    ledger_step l (LUnlock a n) (l\<lparr>ld_lck := take_from a n (ld_lck l)\<rparr>)"
| release: "n \<le> ld_lck l f \<Longrightarrow>
    ledger_step l (LRelease f t n)
      (l\<lparr>ld_bal := give_to t n (take_from f n (ld_bal l)), ld_lck := take_from f n (ld_lck l)\<rparr>)"
| slash: "n \<le> ld_lck l a \<Longrightarrow> n \<le> ld_supply l \<Longrightarrow>
    ledger_step l (LSlash a n)
      (l\<lparr>ld_bal := take_from a n (ld_bal l), ld_lck := take_from a n (ld_lck l),
         ld_supply := ld_supply l - n, ld_burned := ld_burned l + n\<rparr>)"

definition ledger_of :: "bank \<Rightarrow> ledger" where
  "ledger_of b = \<lparr>ld_bal = bal b, ld_lck = lck b, ld_supply = circulating b, ld_burned = burned b\<rparr>"


lemma ledger_of_eq_iff:
  "ledger_of b' = ledger_of b \<longleftrightarrow> bal b' = bal b \<and> lck b' = lck b \<and> circulating b' = circulating b \<and> burned b' = burned b"
  by (simp add: ledger_of_def)

lemma bank_inv_cong:
  "ledger_of b' = ledger_of b \<Longrightarrow> bank_total b' = bank_total b \<Longrightarrow> bank_inv b' = bank_inv b"
  by (simp add: bank_inv_def ledger_of_eq_iff issued_def)

section \<open>The operations on the views\<close>

lemma put_account_twice [simp]: "put_account a x (put_account a y b) = put_account a x b"
  by (simp add: put_account_def hm_insert_def)

lemma account_entry_put [simp]:
  "account_entry (put_account a acc b) x = (if x = a then acc else account_entry b x)"
  by (simp add: account_entry_def put_account_def hm_entry_def)

lemma credit_views:
  assumes "bank_total b + unat m < 2 ^ 128"
  shows "bal (credit t m b) = give_to t (unat m) (bal b)"
    and "lck (credit t m b) = lck b"
    and "bank_total (credit t m b) = bank_total b + unat m"
    and "circulating (credit t m b) = circulating b"
    and "burned (credit t m b) = burned b"
    and "bk_current_block (credit t m b) = bk_current_block b"
    and "bk_escrows (credit t m b) = bk_escrows b"
    and "bk_total_supply (credit t m b) = bk_total_supply b"
    and "bk_total_burned (credit t m b) = bk_total_burned b"
proof -
  let ?acc = "account_entry b t"
  have lt: "unat (acc_balance ?acc) + unat m < 2 ^ LENGTH(128)"
    using bal_le_total [of b t] assms by (simp add: account_entry_bal)
  have ex: "unat (saturating_add (acc_balance ?acc) m) = bal b t + unat m"
    using unat_saturating_add_exact [OF lt] by (simp add: account_entry_bal)
  show "bal (credit t m b) = give_to t (unat m) (bal b)"
    by (auto simp: credit_def give_to_def ex)
  show "lck (credit t m b) = lck b"
    by (auto simp: credit_def account_entry_lck)
  show "bank_total (credit t m b) = bank_total b + unat m"
    using put_account_total [of t "?acc\<lparr>acc_balance := saturating_add (acc_balance ?acc) m\<rparr>" b]
    by (simp add: credit_def ex)
qed (simp_all add: credit_def)

definition debit :: "address \<Rightarrow> token_amount \<Rightarrow> bank \<Rightarrow> bank" where
  "debit f m b = put_account f
     ((account_entry b f)\<lparr>acc_balance := saturating_sub (acc_balance (account_entry b f)) m\<rparr>) b"

lemma debit_views:
  assumes "unat m \<le> bal b f"
  shows "bal (debit f m b) = take_from f (unat m) (bal b)"
    and "lck (debit f m b) = lck b"
    and "bank_total (debit f m b) + unat m = bank_total b"
    and "circulating (debit f m b) = circulating b"
    and "burned (debit f m b) = burned b"
    and "bk_current_block (debit f m b) = bk_current_block b"
    and "bk_escrows (debit f m b) = bk_escrows b"
    and "bk_total_supply (debit f m b) = bk_total_supply b"
    and "bk_total_burned (debit f m b) = bk_total_burned b"
proof -
  let ?acc = "account_entry b f"
  show "bal (debit f m b) = take_from f (unat m) (bal b)"
    by (auto simp: debit_def take_from_def u_arith account_entry_bal)
  show "lck (debit f m b) = lck b"
    by (auto simp: debit_def account_entry_lck)
  show "bank_total (debit f m b) + unat m = bank_total b"
    using put_account_total [of f "?acc\<lparr>acc_balance := saturating_sub (acc_balance ?acc) m\<rparr>" b] assms
    by (simp add: debit_def u_arith account_entry_bal)
qed (simp_all add: debit_def)

definition burn_supply :: "token_amount \<Rightarrow> bank \<Rightarrow> bank" where
  "burn_supply m b = b\<lparr>bk_total_supply := saturating_sub (bk_total_supply b) m,
                       bk_total_burned := saturating_add (bk_total_burned b) m\<rparr>"

lemma burn_supply_views:
  assumes "issued b < 2 ^ 128" and "unat m \<le> circulating b"
  shows "bal (burn_supply m b) = bal b"
    and "lck (burn_supply m b) = lck b"
    and "bank_total (burn_supply m b) = bank_total b"
    and "circulating (burn_supply m b) = circulating b - unat m"
    and "burned (burn_supply m b) = burned b + unat m"
    and "bk_current_block (burn_supply m b) = bk_current_block b"
proof -
  have "unat (bk_total_burned b) + unat m < 2 ^ LENGTH(128)"
    using assms by (simp add: issued_def burned_def)
  then show "burned (burn_supply m b) = burned b + unat m"
    by (simp add: burned_def burn_supply_def u_arith)
qed (simp_all add: burn_supply_def bal_def lck_def bank_total_def circulating_def u_arith
    balance_of_def get_locked_balance_def fun_eq_iff)

text \<open>The effect of a transfer, from the guards and the two assignments of the source.\<close>

lemma transfer_alt:
  "transfer b f t m =
     (if m = 0 then (b, Err (InvalidAmount ''Amount must be > 0''))
      else let b1 = put_account f (account_entry b f) b
      in if bal b f < lck b f + unat m \<comment> \<open>not enough available\<close>
         then (b1, Err (InsufficientBalance m (available (account_entry b f))))
         else if account_is_locked (account_entry b f) (bk_current_block b)
         then (b1, Err (sys_error.AccountLocked (hex_encode f) (acc_locked_until (account_entry b f))))
         else (emit_bank (Transfer f t m (bk_current_block b))
                (if t = BURN_ADDRESS then burn_supply m (debit f m b) else credit t m (debit f m b)), Ok ()))"
proof -
  have "available (account_entry b f) < m \<longleftrightarrow> bal b f < lck b f + unat m" if "m \<noteq> 0"
  proof -
    have "0 < unat m" using that by (simp add: unat_gt_0)
    then show ?thesis unfolding word_cmp_nat available_nat by arith
  qed
  then show ?thesis
    by (auto simp: transfer_def Let_def debit_def burn_supply_def credit_def)
qed


lemma transfer_err:
  assumes "transfer b f t m = (b', Err e)"
  shows "ledger_of b' = ledger_of b \<and> bank_total b' = bank_total b"
  using assms
  by (auto simp: transfer_alt Let_def ledger_of_eq_iff put_same_views split: if_splits)

lemma transfer_ok:
  assumes inv: "bank_inv b" and ok: "transfer b f t m = (b', Ok ())" and nb: "t \<noteq> BURN_ADDRESS"
  shows "0 < unat m" and "lck b f + unat m \<le> bal b f"
    and "bal b' = give_to t (unat m) (take_from f (unat m) (bal b))"
    and "lck b' = lck b" and "bank_total b' = bank_total b"
    and "circulating b' = circulating b" and "burned b' = burned b"
proof -
  from ok have m: "m \<noteq> 0" and en: "lck b f + unat m \<le> bal b f"
    and b': "b' = emit_bank (Transfer f t m (bk_current_block b)) (credit t m (debit f m b))"
    using nb by (auto simp: transfer_alt Let_def split: if_splits)
  show "0 < unat m" using m by (simp add: unat_gt_0)
  show "lck b f + unat m \<le> bal b f" by (rule en)
  have le: "unat m \<le> bal b f" using en by simp
  note d = debit_views [OF le]
  have "bank_total (debit f m b) + unat m < 2 ^ 128"
    using d(3) inv by (simp add: bank_inv_def issued_def)
  note c = credit_views [OF this, of t]
  show "bal b' = give_to t (unat m) (take_from f (unat m) (bal b))"
    "lck b' = lck b" "bank_total b' = bank_total b" "circulating b' = circulating b"
    "burned b' = burned b"
    using c d by (simp_all add: b')
qed

lemma burn_ok:
  assumes inv: "bank_inv b" and ok: "burn b f m = (b', Ok ())"
  shows "0 < unat m" and "lck b f + unat m \<le> bal b f" and "unat m \<le> circulating b"
    and "bal b' = take_from f (unat m) (bal b)"
    and "lck b' = lck b" and "bank_total b' + unat m = bank_total b"
    and "circulating b' = circulating b - unat m" and "burned b' = burned b + unat m"
proof -
  from ok have m: "m \<noteq> 0" and en: "lck b f + unat m \<le> bal b f"
    and b': "b' = emit_bank (Transfer f BURN_ADDRESS m (bk_current_block b)) (burn_supply m (debit f m b))"
    by (auto simp: burn_def transfer_alt Let_def split: if_splits)
  show "0 < unat m" using m by (simp add: unat_gt_0)
  show "lck b f + unat m \<le> bal b f" by (rule en)
  have le: "unat m \<le> bal b f" using en by simp
  note d = debit_views [OF le]
  show circ: "unat m \<le> circulating b"
    using le bal_le_total [of b f] inv by (simp add: bank_inv_def)
  have iss: "issued (debit f m b) < 2 ^ 128" using inv d by (simp add: bank_inv_def issued_def)
  have circ': "unat m \<le> circulating (debit f m b)" using circ d by simp
  note u = burn_supply_views [OF iss circ']
  show "bal b' = take_from f (unat m) (bal b)" "lck b' = lck b"
    "bank_total b' + unat m = bank_total b" "circulating b' = circulating b - unat m"
    "burned b' = burned b + unat m"
    using u d by (simp_all add: b')
qed

lemma lock_err: "lock b a m = (b', Err e) \<Longrightarrow> b' = b"
  by (auto simp: lock_def split: option.splits if_splits)

lemma lock_ok:
  assumes inv: "bank_inv b" and ok: "lock b a m = (b', Ok ())"
  shows "lck b a + unat m \<le> bal b a"
    and "lck b' = give_to a (unat m) (lck b)" and "bal b' = bal b"
    and "bank_total b' = bank_total b"
    and "circulating b' = circulating b" and "burned b' = burned b"
proof -
  from ok obtain acc where acc: "hm_get (bk_accounts b) a = Some acc"
    and en: "m \<le> available acc"
    and b': "b' = put_account a (acc\<lparr>acc_locked := saturating_add (acc_locked acc) m\<rparr>) b"
    by (auto simp: lock_def not_less split: option.splits if_splits)
  note v = account_some [OF acc]
  have "lck b a \<le> bal b a" using inv by (simp add: bank_inv_def)
  with en show le: "lck b a + unat m \<le> bal b a"
    by (simp add: word_cmp_nat available_def u_arith v)
  have "unat (acc_locked acc) + unat m < 2 ^ LENGTH(128)"
    using le bal_le_total [of b a] inv by (simp add: v bank_inv_def issued_def)
  then have ex: "unat (saturating_add (acc_locked acc) m) = lck b a + unat m"
    by (simp add: u_arith v)
  show "lck b' = give_to a (unat m) (lck b)" "bal b' = bal b"
    by (auto simp: b' give_to_def ex v)
  show "bank_total b' = bank_total b"
    using put_account_total [of a "acc\<lparr>acc_locked := saturating_add (acc_locked acc) m\<rparr>" b]
    by (simp add: b' v)
  show "circulating b' = circulating b" "burned b' = burned b" by (simp_all add: b')
qed

lemma unlock_err: "unlock b a m = (b', Err e) \<Longrightarrow> b' = b"
  by (auto simp: unlock_def split: option.splits if_splits)

lemma unlock_ok:
  assumes ok: "unlock b a m = (b', Ok ())"
  shows "unat m \<le> lck b a"
    and "lck b' = take_from a (unat m) (lck b)" and "bal b' = bal b"
    and "bank_total b' = bank_total b"
    and "circulating b' = circulating b" and "burned b' = burned b"
    and "bk_escrows b' = bk_escrows b" and "bk_current_block b' = bk_current_block b"
proof -
  from ok obtain acc where acc: "hm_get (bk_accounts b) a = Some acc"
    and en: "m \<le> acc_locked acc"
    and b': "b' = put_account a (acc\<lparr>acc_locked := saturating_sub (acc_locked acc) m\<rparr>) b"
    by (auto simp: unlock_def not_less split: option.splits if_splits)
  note v = account_some [OF acc]
  show "unat m \<le> lck b a" using en by (simp add: word_cmp_nat v)
  show "lck b' = take_from a (unat m) (lck b)" "bal b' = bal b"
    by (auto simp: b' take_from_def u_arith v)
  show "bank_total b' = bank_total b"
    using put_account_total [of a "acc\<lparr>acc_locked := saturating_sub (acc_locked acc) m\<rparr>" b]
    by (simp add: b' v)
qed (use ok in \<open>auto simp: unlock_def split: option.splits if_splits\<close>)

text \<open>When the guards hold the operations succeed.\<close>

lemma lock_succeeds:
  assumes "hm_get (bk_accounts b) a \<noteq> None" and "lck b a + unat m \<le> bal b a"
  shows "\<exists>b'. lock b a m = (b', Ok ())"
  using assms by (auto simp: lock_def word_cmp_nat available_def u_arith account_some)

lemma unlock_succeeds:
  assumes "hm_get (bk_accounts b) a \<noteq> None" and "unat m \<le> lck b a"
  shows "\<exists>b'. unlock b a m = (b', Ok ())"
  using assms by (auto simp: unlock_def word_cmp_nat account_some)


lemma mint_ok:
  assumes inv: "bank_inv b" and fits: "issued b + unat m < 2 ^ 128" and ok: "mint b t m = (b', Ok ())"
  shows "bal b' = give_to t (unat m) (bal b)" and "lck b' = lck b"
    and "bank_total b' = bank_total b + unat m"
    and "circulating b' = circulating b + unat m" and "burned b' = burned b"
proof -
  have tot: "bank_total b + unat m < 2 ^ 128"
    using inv fits by (simp add: bank_inv_def issued_def)
  note c = credit_views [OF tot, of t]
  have "bal b' = give_to t (unat m) (bal b) \<and> lck b' = lck b \<and>
        bank_total b' = bank_total b + unat m \<and> circulating b' = circulating b + unat m \<and>
        burned b' = burned b"
  proof (cases "m = 0")
    case True
    then have "b' = b" using ok by (simp add: mint_def)
    then show ?thesis using True by (simp add: give_to_def)
  next
    case False
    let ?c = "credit t m b"
    have b': "b' = ?c\<lparr>bk_total_supply := saturating_add (bk_total_supply ?c) m\<rparr>"
      using ok False by (auto simp: mint_def Let_def split: if_splits)
    have "unat (bk_total_supply b) + unat m < 2 ^ LENGTH(128)"
      using fits by (simp add: issued_def circulating_def)
    then have "unat (saturating_add (bk_total_supply ?c) m) = circulating b + unat m"
      by (simp add: c(8) u_arith circulating_def)
    then have "circulating b' = circulating b + unat m" by (simp add: b' circulating_def)
    moreover have "bal b' = bal ?c" "lck b' = lck ?c" "bank_total b' = bank_total ?c"
      "burned b' = burned ?c"
      by (simp_all add: b' bal_def lck_def balance_of_def get_locked_balance_def bank_total_def
          burned_def fun_eq_iff)
    ultimately show ?thesis using c by simp
  qed
  then show "bal b' = give_to t (unat m) (bal b)" "lck b' = lck b"
    "bank_total b' = bank_total b + unat m" "circulating b' = circulating b + unat m"
    "burned b' = burned b"
    by auto
qed

lemma mint_err: "mint b t m = (b', Err e) \<Longrightarrow> b' = b"
  by (auto simp: mint_def Let_def split: if_splits)

lemma bank_slash_err: "bank_slash b a m = (b', Err e) \<Longrightarrow> b' = b"
  by (auto simp: bank_slash_def Let_def split: option.splits if_splits)

text \<open>A slash takes at most what is locked, and burns exactly what it takes.\<close>

lemma bank_slash_ok:
  assumes inv: "bank_inv b" and ok: "bank_slash b a m = (b', Ok n)"
  shows "unat n = min (unat m) (lck b a)" and "unat n \<le> circulating b"
    and "bal b' = take_from a (unat n) (bal b)" and "lck b' = take_from a (unat n) (lck b)"
    and "bank_total b' + unat n = bank_total b"
    and "circulating b' = circulating b - unat n" and "burned b' = burned b + unat n"
proof -
  from ok obtain acc where acc: "hm_get (bk_accounts b) a = Some acc" and n: "n = min m (acc_locked acc)"
    by (auto simp: bank_slash_def Let_def split: option.splits if_splits)
  note v = account_some [OF acc]
  show n': "unat n = min (unat m) (lck b a)"
    by (auto simp: n v min_def word_cmp_nat)
  have nl: "unat n \<le> lck b a" "unat n \<le> bal b a"
    using n' inv by (auto simp: bank_inv_def intro: order.trans [of _ "lck b a"])
  then show nc: "unat n \<le> circulating b"
    using bal_le_total [of b a] inv by (simp add: bank_inv_def)
  have "bal b' = take_from a (unat n) (bal b) \<and> lck b' = take_from a (unat n) (lck b) \<and>
        bank_total b' + unat n = bank_total b \<and> circulating b' = circulating b - unat n \<and>
        burned b' = burned b + unat n"
  proof (cases "n = 0")
    case True
    then have "b' = b" using ok acc n by (auto simp: bank_slash_def)
    with True show ?thesis by (simp add: take_from_def)
  next
    case False
    let ?acc = "acc\<lparr>acc_locked := saturating_sub (acc_locked acc) n, acc_balance := saturating_sub (acc_balance acc) n\<rparr>"
    let ?p = "put_account a ?acc b"
    have b': "b' = burn_supply n ?p"
      using ok acc n False by (auto simp: bank_slash_def Let_def burn_supply_def split: if_splits)
    have "bank_total ?p + unat n = bank_total b"
      using put_account_total [of a ?acc b] nl by (simp add: u_arith v)
    moreover have "bal ?p = take_from a (unat n) (bal b)" "lck ?p = take_from a (unat n) (lck b)"
      by (auto simp: take_from_def u_arith v)
    moreover have "issued ?p < 2 ^ 128" "unat n \<le> circulating ?p"
      using inv nc by (simp_all add: bank_inv_def)
    note burn_supply_views [OF this]
    ultimately show ?thesis by (simp add: b')
  qed
  then show "bal b' = take_from a (unat n) (bal b)" "lck b' = take_from a (unat n) (lck b)"
    "bank_total b' + unat n = bank_total b" "circulating b' = circulating b - unat n"
    "burned b' = burned b + unat n"
    by auto
qed

lemma release_escrow_ok:
  assumes inv: "bank_inv b" and ok: "release_escrow b i t = (b', Ok n)"
  shows "\<exists>e. hm_get (bk_escrows b) i = Some e \<and> \<not> esc_released e \<and> n = esc_amount e \<and>
      unat n \<le> lck b (esc_from e) \<and>
      bal b' = give_to t (unat n) (take_from (esc_from e) (unat n) (bal b)) \<and>
      lck b' = take_from (esc_from e) (unat n) (lck b) \<and>
      bank_total b' = bank_total b \<and> circulating b' = circulating b \<and> burned b' = burned b \<and>
      hm_get (bk_escrows b') = (hm_get (bk_escrows b))(i \<mapsto> e\<lparr>esc_released := True\<rparr>)"
proof -
  from ok obtain e u where e: "hm_get (bk_escrows b) i = Some e" "\<not> esc_released e" "n = esc_amount e"
    and u: "unlock b (esc_from e) n = (u, Ok ())"
    and b': "b' = emit_bank (EscrowReleased i t n (bk_current_block (mark_released i (credit t n (debit (esc_from e) n u)))))
                    (mark_released i (credit t n (debit (esc_from e) n u)))"
    by (auto simp: release_escrow_def debit_def Let_def split: option.splits if_splits prod.splits result.splits)
  note uv = unlock_ok [OF u]
  have le: "unat n \<le> bal u (esc_from e)"
    using uv(1,3) inv by (auto simp: bank_inv_def intro: order.trans)
  note d = debit_views [OF le]
  have "bank_total (debit (esc_from e) n u) + unat n < 2 ^ 128"
    using d(3) uv(4) inv by (simp add: bank_inv_def issued_def)
  note c = credit_views [OF this, of t]
  have "hm_get (bk_escrows b') = (hm_get (bk_escrows b))(i \<mapsto> e\<lparr>esc_released := True\<rparr>)"
    using e c(7) d(7) uv(7) by (auto simp: b' mark_released_def)
  with e uv c d show ?thesis by (auto simp: b')
qed

lemma release_escrow_err: "release_escrow b i t = (b', Err er) \<Longrightarrow> b' = b"
  by (auto simp: release_escrow_def Let_def split: option.splits if_splits prod.splits result.splits
      dest: unlock_err)

lemma refund_escrow_ok:
  assumes ok: "refund_escrow b i rs = (b', Ok n)"
  shows "\<exists>e. hm_get (bk_escrows b) i = Some e \<and> \<not> esc_released e \<and> n = esc_amount e \<and>
      unat n \<le> lck b (esc_from e) \<and> bal b' = bal b \<and>
      lck b' = take_from (esc_from e) (unat n) (lck b) \<and>
      bank_total b' = bank_total b \<and> circulating b' = circulating b \<and> burned b' = burned b \<and>
      hm_get (bk_escrows b') = (hm_get (bk_escrows b))(i \<mapsto> e\<lparr>esc_released := True\<rparr>)"
proof -
  from ok obtain e u where e: "hm_get (bk_escrows b) i = Some e" "\<not> esc_released e" "n = esc_amount e"
    and u: "unlock b (esc_from e) n = (u, Ok ())"
    and b': "b' = emit_bank (EscrowRefunded i (esc_from e) n rs (bk_current_block (mark_released i u))) (mark_released i u)"
    by (auto simp: refund_escrow_def Let_def split: option.splits if_splits prod.splits result.splits)
  note uv = unlock_ok [OF u]
  have "hm_get (bk_escrows b') = (hm_get (bk_escrows b))(i \<mapsto> e\<lparr>esc_released := True\<rparr>)"
    using e uv(7) by (auto simp: b' mark_released_def)
  with e uv show ?thesis by (auto simp: b')
qed

lemma refund_escrow_err: "refund_escrow b i rs = (b', Err er) \<Longrightarrow> b' = b"
  by (auto simp: refund_escrow_def Let_def split: option.splits if_splits prod.splits result.splits
      dest: unlock_err)


lemma create_escrow_ok:
  assumes inv: "bank_inv b" and ok: "create_escrow b i f t m x c = (b', Ok ())"
  shows "lck b f + unat m \<le> bal b f \<and> lck b' = give_to f (unat m) (lck b) \<and> bal b' = bal b \<and>
      bank_total b' = bank_total b \<and> circulating b' = circulating b \<and> burned b' = burned b \<and>
      hm_get (bk_escrows b) i = None \<and>
      (\<exists>e. hm_get (bk_escrows b') i = Some e \<and> \<not> esc_released e \<and> esc_from e = f \<and> esc_to e = t \<and>
           esc_amount e = m)"
proof -
  from ok obtain u where n: "hm_get (bk_escrows b) i = None" and u: "lock b f m = (u, Ok ())"
    by (auto simp: create_escrow_def Let_def split: option.splits if_splits prod.splits result.splits)
  from ok n u have "\<exists>e. \<not> esc_released e \<and> esc_from e = f \<and> esc_to e = t \<and> esc_amount e = m \<and>
      (bk_escrows b', bk_accounts b', bk_total_supply b', bk_total_burned b') =
      (hm_insert i e (bk_escrows u), bk_accounts u, bk_total_supply u, bk_total_burned u)"
    by (auto simp: create_escrow_def Let_def emit_bank_def
        intro!: exI [where x = "\<lparr>esc_id = i, esc_from = f, esc_to = t, esc_amount = m,
          esc_created_at = bk_current_block u, esc_expires_at = x, esc_conditions = c, esc_released = False\<rparr>"])
  then have "bal b' = bal u" "lck b' = lck u" "bank_total b' = bank_total u"
    "circulating b' = circulating u" "burned b' = burned u"
    and "\<exists>e. hm_get (bk_escrows b') i = Some e \<and> \<not> esc_released e \<and> esc_from e = f \<and> esc_to e = t \<and>
           esc_amount e = m"
    by (auto simp: bal_def lck_def balance_of_def get_locked_balance_def bank_total_def
        circulating_def burned_def fun_eq_iff)
  with lock_ok [OF inv u] n show ?thesis by simp
qed

lemma create_escrow_err: "create_escrow b i f t m x c = (b', Err e) \<Longrightarrow> b' = b"
  by (auto simp: create_escrow_def Let_def split: option.splits if_splits prod.splits result.splits
      dest: lock_err)

section \<open>Every operation refines a ledger step\<close>

text \<open>The public \<open>&mut self\<close> methods of \<open>Bank\<close>, as calls.\<close>

datatype bank_op =
    OpTransfer address address token_amount
  | OpMint address token_amount
  | OpBurn address token_amount
  | OpLock address token_amount
  | OpUnlock address token_amount
  | OpLockAccount address u64 string
  | OpUnlockAccount address
  | OpCreateEscrow hash address address token_amount u64 bytes
  | OpReleaseEscrow hash address
  | OpRefundEscrow hash string
  | OpSlash address token_amount
  | OpIncrementNonce address
  | OpSetBlock u64
  | OpDrainEvents

fun bank_exec :: "bank_op \<Rightarrow> bank \<Rightarrow> bank" where
  "bank_exec (OpTransfer f t m) b = fst (transfer b f t m)"
| "bank_exec (OpMint t m) b = fst (mint b t m)"
| "bank_exec (OpBurn f m) b = fst (burn b f m)"
| "bank_exec (OpLock a m) b = fst (lock b a m)"
| "bank_exec (OpUnlock a m) b = fst (unlock b a m)"
| "bank_exec (OpLockAccount a u r) b = fst (lock_account b a u r)"
| "bank_exec (OpUnlockAccount a) b = fst (unlock_account b a)"
| "bank_exec (OpCreateEscrow i f t m x c) b = fst (create_escrow b i f t m x c)"
| "bank_exec (OpReleaseEscrow i t) b = fst (release_escrow b i t)"
| "bank_exec (OpRefundEscrow i r) b = fst (refund_escrow b i r)"
| "bank_exec (OpSlash a m) b = fst (bank_slash b a m)"
| "bank_exec (OpIncrementNonce a) b = increment_nonce b a"
| "bank_exec (OpSetBlock h) b = set_block b h"
| "bank_exec OpDrainEvents b = fst (bank_drain_events b)"

text \<open>The ledger step a call stands for: the stuttering step when it fails.\<close>

definition escrow_from :: "bank \<Rightarrow> hash \<Rightarrow> address" where
  "escrow_from b i = (case hm_get (bk_escrows b) i of Some e \<Rightarrow> esc_from e | None \<Rightarrow> [])"

definition on_ok :: "('e, 'a) result \<Rightarrow> ('a \<Rightarrow> ledger_op) \<Rightarrow> ledger_op" where
  "on_ok r f = (case r of Ok a \<Rightarrow> f a | Err _ \<Rightarrow> LStutter)"

fun op_label :: "bank_op \<Rightarrow> bank \<Rightarrow> ledger_op" where
  "op_label (OpTransfer f t m) b =
     on_ok (snd (transfer b f t m))
       (\<lambda>_. if t = BURN_ADDRESS then LBurn f (unat m) else LTransfer f t (unat m))"
| "op_label (OpMint t m) b = on_ok (snd (mint b t m)) (\<lambda>_. LMint t (unat m))"
| "op_label (OpBurn f m) b = on_ok (snd (burn b f m)) (\<lambda>_. LBurn f (unat m))"
| "op_label (OpLock a m) b = on_ok (snd (lock b a m)) (\<lambda>_. LLock a (unat m))"
| "op_label (OpUnlock a m) b = on_ok (snd (unlock b a m)) (\<lambda>_. LUnlock a (unat m))"
| "op_label (OpCreateEscrow i f t m x c) b =
     on_ok (snd (create_escrow b i f t m x c)) (\<lambda>_. LLock f (unat m))"
| "op_label (OpReleaseEscrow i t) b =
     on_ok (snd (release_escrow b i t)) (\<lambda>n. LRelease (escrow_from b i) t (unat n))"
| "op_label (OpRefundEscrow i r) b =
     on_ok (snd (refund_escrow b i r)) (\<lambda>n. LUnlock (escrow_from b i) (unat n))"
| "op_label (OpSlash a m) b = on_ok (snd (bank_slash b a m)) (\<lambda>n. LSlash a (unat n))"
| "op_label (OpLockAccount a u r) b = LStutter"
| "op_label (OpUnlockAccount a) b = LStutter"
| "op_label (OpIncrementNonce a) b = LStutter"
| "op_label (OpSetBlock h) b = LStutter"
| "op_label OpDrainEvents b = LStutter"

text \<open>What a step adds to the sum of all balances, beside the new ledger.\<close>

definition refines :: "bank \<Rightarrow> ledger_op \<Rightarrow> bank \<Rightarrow> bool" where
  "refines b l b' \<longleftrightarrow> ledger_step (ledger_of b) l (ledger_of b') \<and> bank_inv b'"

fun mint_of :: "bank_op \<Rightarrow> nat" where
  "mint_of (OpMint t m) = unat m"
| "mint_of _ = 0"

lemma refines_stutter:
  assumes "bank_inv b" and "ledger_of b' = ledger_of b" and "bank_total b' = bank_total b"
  shows "refines b LStutter b'"
  using assms bank_inv_cong [OF assms(2,3)] ledger_step.stutter [of "ledger_of b"]
  by (simp add: refines_def)

lemma refines_id: "bank_inv b \<Longrightarrow> refines b LStutter b"
  by (rule refines_stutter) simp_all

lemma ledger_of_upd:
  "bal b' = f \<Longrightarrow> lck b' = g \<Longrightarrow> circulating b' = s \<Longrightarrow> burned b' = z \<Longrightarrow>
   ledger_of b' = \<lparr>ld_bal = f, ld_lck = g, ld_supply = s, ld_burned = z\<rparr>"
  by (simp add: ledger_of_def)

lemma ledger_of_sel [simp]:
  "ld_bal (ledger_of b) = bal b" "ld_lck (ledger_of b) = lck b"
  "ld_supply (ledger_of b) = circulating b" "ld_burned (ledger_of b) = burned b"
  by (simp_all add: ledger_of_def)

lemma on_ok_simps [simp]: "on_ok (Ok a) f = f a" "on_ok (Err e) f = LStutter"
  by (simp_all add: on_ok_def)

lemma transfer_refines:
  assumes inv: "bank_inv b"
  shows "refines b (op_label (OpTransfer f t m) b) (bank_exec (OpTransfer f t m) b)"
proof (cases "transfer b f t m")
  case tr: (Pair b' r)
  show ?thesis
  proof (cases r)
    case (Err e)
    with tr show ?thesis using inv by (auto intro!: refines_stutter dest!: transfer_err)
  next
    case (Ok u)
    then have ok: "transfer b f t m = (b', Ok ())" using tr by simp
    show ?thesis
    proof (cases "t = BURN_ADDRESS")
      case True
      then have "burn b f m = (b', Ok ())" using ok by (simp add: burn_def)
      note v = burn_ok [OF inv this]
      have "ledger_step (ledger_of b) (LBurn f (unat m)) (ledger_of b')"
        using ledger_step.burn [of "unat m" "ledger_of b" f] v by (simp add: ledger_of_def)
      moreover have "bank_inv b'"
        using v inv by (auto simp: bank_inv_def issued_def take_from_def)
      ultimately show ?thesis using ok True by (simp add: refines_def)
    next
      case False
      note v = transfer_ok [OF inv ok False]
      have "ledger_step (ledger_of b) (LTransfer f t (unat m)) (ledger_of b')"
        using ledger_step.transfer [of "unat m" "ledger_of b" f t] v by (simp add: ledger_of_def)
      moreover have "bank_inv b'"
        using v inv by (auto simp: bank_inv_def issued_def take_from_def give_to_def trans_le_add1)
      ultimately show ?thesis using ok False by (simp add: refines_def)
    qed
  qed
qed

lemma burn_refines:
  "bank_inv b \<Longrightarrow> refines b (op_label (OpBurn f m) b) (bank_exec (OpBurn f m) b)"
  using transfer_refines [of b f BURN_ADDRESS m] by (simp add: burn_def)

lemma mint_refines:
  assumes inv: "bank_inv b" and fits: "issued b + unat m < 2 ^ 128"
  shows "refines b (op_label (OpMint t m) b) (bank_exec (OpMint t m) b)"
proof (cases "mint b t m")
  case mi: (Pair b' r)
  show ?thesis
  proof (cases r)
    case (Err e)
    with mi show ?thesis using inv by (auto intro!: refines_id dest!: mint_err)
  next
    case (Ok u)
    then have ok: "mint b t m = (b', Ok ())" using mi by simp
    note v = mint_ok [OF inv fits ok]
    have "ledger_step (ledger_of b) (LMint t (unat m)) (ledger_of b')"
      using ledger_step.mint [of "ledger_of b" t "unat m"] v by (simp add: ledger_of_def)
    moreover have "bank_inv b'"
      using v inv fits by (auto simp: bank_inv_def issued_def give_to_def trans_le_add1)
    ultimately show ?thesis using ok by (simp add: refines_def)
  qed
qed

lemma lock_refines:
  assumes inv: "bank_inv b"
  shows "refines b (op_label (OpLock a m) b) (bank_exec (OpLock a m) b)"
proof (cases "lock b a m")
  case lo: (Pair b' r)
  show ?thesis
  proof (cases r)
    case (Err e)
    with lo show ?thesis using inv by (auto intro!: refines_id dest!: lock_err)
  next
    case (Ok u)
    then have ok: "lock b a m = (b', Ok ())" using lo by simp
    note v = lock_ok [OF inv ok]
    have "ledger_step (ledger_of b) (LLock a (unat m)) (ledger_of b')"
      using ledger_step.lock [of "ledger_of b" a "unat m"] v by (simp add: ledger_of_def)
    moreover have "bank_inv b'"
      using v inv by (auto simp: bank_inv_def issued_def give_to_def)
    ultimately show ?thesis using ok by (simp add: refines_def)
  qed
qed

lemma unlock_views_refine:
  assumes inv: "bank_inv b" and "n \<le> lck b a" and "lck b' = take_from a n (lck b)" and "bal b' = bal b"
    and "bank_total b' = bank_total b" and "circulating b' = circulating b" and "burned b' = burned b"
  shows "refines b (LUnlock a n) b'"
proof -
  have "ledger_step (ledger_of b) (LUnlock a n) (ledger_of b')"
    using ledger_step.unlock [of n "ledger_of b" a] assms by (simp add: ledger_of_def)
  moreover have "bank_inv b'"
    using assms by (auto simp: bank_inv_def issued_def take_from_def le_diff_conv trans_le_add1)
  ultimately show ?thesis by (simp add: refines_def)
qed

lemma unlock_refines:
  assumes inv: "bank_inv b"
  shows "refines b (op_label (OpUnlock a m) b) (bank_exec (OpUnlock a m) b)"
proof (cases "unlock b a m")
  case un: (Pair b' r)
  show ?thesis
  proof (cases r)
    case (Err e)
    with un show ?thesis using inv by (auto intro!: refines_id dest!: unlock_err)
  next
    case (Ok u)
    then have ok: "unlock b a m = (b', Ok ())" using un by simp
    show ?thesis using unlock_views_refine [OF inv] unlock_ok [OF ok] ok by simp
  qed
qed

lemma create_escrow_refines:
  assumes inv: "bank_inv b"
  shows "refines b (op_label (OpCreateEscrow i f t m x c) b) (bank_exec (OpCreateEscrow i f t m x c) b)"
proof (cases "create_escrow b i f t m x c")
  case cr: (Pair b' r)
  show ?thesis
  proof (cases r)
    case (Err e)
    with cr show ?thesis using inv by (auto intro!: refines_id dest!: create_escrow_err)
  next
    case (Ok u)
    then have ok: "create_escrow b i f t m x c = (b', Ok ())" using cr by simp
    note v = create_escrow_ok [OF inv ok]
    have "ledger_step (ledger_of b) (LLock f (unat m)) (ledger_of b')"
      using ledger_step.lock [of "ledger_of b" f "unat m"] v by (simp add: ledger_of_def)
    moreover have "bank_inv b'"
      using v inv by (auto simp: bank_inv_def issued_def give_to_def)
    ultimately show ?thesis using ok by (simp add: refines_def)
  qed
qed

lemma release_escrow_refines:
  assumes inv: "bank_inv b"
  shows "refines b (op_label (OpReleaseEscrow i t) b) (bank_exec (OpReleaseEscrow i t) b)"
proof (cases "release_escrow b i t")
  case re: (Pair b' r)
  show ?thesis
  proof (cases r)
    case (Err e)
    with re show ?thesis using inv by (auto intro!: refines_id dest!: release_escrow_err)
  next
    case (Ok n)
    then have ok: "release_escrow b i t = (b', Ok n)" using re by simp
    from release_escrow_ok [OF inv ok] obtain e where
      g: "hm_get (bk_escrows b) i = Some e" and n: "unat n \<le> lck b (esc_from e)"
      and v: "bal b' = give_to t (unat n) (take_from (esc_from e) (unat n) (bal b))"
        "lck b' = take_from (esc_from e) (unat n) (lck b)" "bank_total b' = bank_total b"
        "circulating b' = circulating b" "burned b' = burned b"
      by auto
    have e: "escrow_from b i = esc_from e" using g by (simp add: escrow_from_def)
    have "ledger_step (ledger_of b) (LRelease (esc_from e) t (unat n)) (ledger_of b')"
      using ledger_step.release [of "unat n" "ledger_of b" "esc_from e" t] v n by (simp add: ledger_of_def)
    moreover have "bank_inv b'"
      using v inv by (auto simp: bank_inv_def issued_def take_from_def give_to_def diff_le_mono trans_le_add1)
    ultimately show ?thesis using ok e by (simp add: refines_def)
  qed
qed

lemma refund_escrow_refines:
  assumes inv: "bank_inv b"
  shows "refines b (op_label (OpRefundEscrow i rs) b) (bank_exec (OpRefundEscrow i rs) b)"
proof (cases "refund_escrow b i rs")
  case re: (Pair b' r)
  show ?thesis
  proof (cases r)
    case (Err e)
    with re show ?thesis using inv by (auto intro!: refines_id dest!: refund_escrow_err)
  next
    case (Ok n)
    then have ok: "refund_escrow b i rs = (b', Ok n)" using re by simp
    from refund_escrow_ok [OF ok] show ?thesis
      using unlock_views_refine [OF inv] ok by (auto simp: escrow_from_def)
  qed
qed

lemma bank_slash_refines:
  assumes inv: "bank_inv b"
  shows "refines b (op_label (OpSlash a m) b) (bank_exec (OpSlash a m) b)"
proof (cases "bank_slash b a m")
  case sl: (Pair b' r)
  show ?thesis
  proof (cases r)
    case (Err e)
    with sl show ?thesis using inv by (auto intro!: refines_id dest!: bank_slash_err)
  next
    case (Ok n)
    then have ok: "bank_slash b a m = (b', Ok n)" using sl by simp
    note v = bank_slash_ok [OF inv ok]
    have "ledger_step (ledger_of b) (LSlash a (unat n)) (ledger_of b')"
      using ledger_step.slash [of "unat n" "ledger_of b" a] v by (simp add: ledger_of_def)
    moreover have "bank_inv b'"
      using v inv by (auto simp: bank_inv_def issued_def take_from_def diff_le_mono)
    ultimately show ?thesis using ok by (simp add: refines_def)
  qed
qed


lemma lock_account_refines:
  assumes "bank_inv b"
  shows "refines b LStutter (bank_exec (OpLockAccount a u r) b)"
proof (rule refines_stutter [OF assms])
  let ?acc = "(account_entry b a)\<lparr>acc_locked_until := u\<rparr>"
  show "ledger_of (bank_exec (OpLockAccount a u r) b) = ledger_of b"
    by (auto simp: lock_account_def Let_def ledger_of_eq_iff account_entry_bal account_entry_lck)
  show "bank_total (bank_exec (OpLockAccount a u r) b) = bank_total b"
    using put_account_total [of a ?acc b]
    by (simp add: lock_account_def Let_def account_entry_bal)
qed

lemma unlock_account_refines:
  assumes "bank_inv b"
  shows "refines b LStutter (bank_exec (OpUnlockAccount a) b)"
proof (rule refines_stutter [OF assms])
  let ?acc = "(account_entry b a)\<lparr>acc_locked_until := 0\<rparr>"
  show "ledger_of (bank_exec (OpUnlockAccount a) b) = ledger_of b"
    by (auto simp: unlock_account_def Let_def ledger_of_eq_iff account_some split: option.splits)
  show "bank_total (bank_exec (OpUnlockAccount a) b) = bank_total b"
    using put_account_total [of a ?acc b]
    by (auto simp: unlock_account_def Let_def account_entry_bal account_some split: option.splits)
qed

lemma increment_nonce_refines:
  assumes "bank_inv b"
  shows "refines b LStutter (bank_exec (OpIncrementNonce a) b)"
proof (rule refines_stutter [OF assms])
  let ?acc = "(account_entry b a)\<lparr>acc_nonce := acc_nonce (account_entry b a) + 1\<rparr>"
  show "ledger_of (bank_exec (OpIncrementNonce a) b) = ledger_of b"
    by (auto simp: increment_nonce_def ledger_of_eq_iff account_entry_bal account_entry_lck)
  show "bank_total (bank_exec (OpIncrementNonce a) b) = bank_total b"
    using put_account_total [of a ?acc b]
    by (simp add: increment_nonce_def account_entry_bal)
qed

lemma set_block_views [simp]:
  "bal (set_block b h) = bal b" "lck (set_block b h) = lck b"
  "circulating (set_block b h) = circulating b" "burned (set_block b h) = burned b"
  "bank_total (set_block b h) = bank_total b"
  by (simp_all add: set_block_def bal_def lck_def balance_of_def get_locked_balance_def
      circulating_def burned_def bank_total_def fun_eq_iff)

lemma drain_views [simp]:
  "bal (fst (bank_drain_events b)) = bal b" "lck (fst (bank_drain_events b)) = lck b"
  "circulating (fst (bank_drain_events b)) = circulating b"
  "burned (fst (bank_drain_events b)) = burned b"
  "bank_total (fst (bank_drain_events b)) = bank_total b"
  by (simp_all add: bank_drain_events_def bal_def lck_def balance_of_def get_locked_balance_def
      circulating_def burned_def bank_total_def fun_eq_iff)

lemma bank_exec_refines:
  assumes inv: "bank_inv b" and fits: "issued b + mint_of op < 2 ^ 128"
  shows "refines b (op_label op b) (bank_exec op b)"
proof (cases op)
  case (OpMint t m)
  with mint_refines [OF inv] fits show ?thesis by simp
next
  case (OpSetBlock h)
  then show ?thesis using inv by (auto intro!: refines_stutter simp: ledger_of_eq_iff)
next
  case OpDrainEvents
  then show ?thesis using inv by (auto intro!: refines_stutter simp: ledger_of_eq_iff)
qed (use inv transfer_refines burn_refines lock_refines unlock_refines lock_account_refines
      unlock_account_refines create_escrow_refines release_escrow_refines refund_escrow_refines
      bank_slash_refines increment_nonce_refines in \<open>simp_all del: bank_exec.simps\<close>)

section \<open>Runs\<close>

text \<open>The tokens a ledger step issues; \<open>ledger_step\<close> never changes the issued amount otherwise.\<close>

fun label_mint :: "ledger_op \<Rightarrow> nat" where
  "label_mint (LMint t n) = n"
| "label_mint _ = 0"

lemma ledger_step_issued:
  "ledger_step l x l' \<Longrightarrow> ld_supply l' + ld_burned l' = ld_supply l + ld_burned l + label_mint x"
  by (induction rule: ledger_step.induct) auto

lemma ledger_step_burned: "ledger_step l x l' \<Longrightarrow> ld_burned l \<le> ld_burned l'"
  by (induction rule: ledger_step.induct) auto

lemma label_mint_le: "label_mint (op_label op b) \<le> mint_of op"
  by (cases op) (auto simp: on_ok_def split: result.splits)

fun bank_run :: "bank_op list \<Rightarrow> bank \<Rightarrow> bank" where
  "bank_run [] b = b"
| "bank_run (op # ops) b = bank_run ops (bank_exec op b)"

fun minted :: "bank_op list \<Rightarrow> nat" where
  "minted [] = 0"
| "minted (op # ops) = mint_of op + minted ops"

lemma bank_run_inv:
  assumes "bank_inv b" and "issued b + minted ops < 2 ^ 128"
  shows "bank_inv (bank_run ops b) \<and> issued (bank_run ops b) \<le> issued b + minted ops \<and>
    burned b \<le> burned (bank_run ops b)"
  using assms
proof (induction ops arbitrary: b)
  case (Cons op ops)
  let ?b = "bank_exec op b"
  have r: "refines b (op_label op b) ?b" using bank_exec_refines Cons.prems by simp
  then have "issued ?b = issued b + label_mint (op_label op b)" and bu: "burned b \<le> burned ?b"
    using ledger_step_issued ledger_step_burned by (fastforce simp: refines_def issued_def)+
  then have le: "issued ?b \<le> issued b + mint_of op" using label_mint_le [of op b] by simp
  have "bank_inv ?b" using r by (simp add: refines_def)
  moreover have "issued ?b + minted ops < 2 ^ 128" using le Cons.prems by simp
  ultimately show ?case using Cons.IH [of ?b] le bu by fastforce
qed simp

section \<open>Genesis\<close>

lemma apply_allocations_views:
  assumes "bank_total b + sum_list (map (\<lambda>al. unat (al_balance al)) als) \<le> circulating b"
    and "\<forall>a. lck b a = 0"
  shows "bank_total (apply_allocations als b) \<le> circulating b \<and>
    circulating (apply_allocations als b) = circulating b \<and>
    burned (apply_allocations als b) = burned b \<and> (\<forall>a. lck (apply_allocations als b) a = 0)"
  using assms
proof (induction als arbitrary: b)
  case (Cons al als)
  let ?acc = "(account_entry b (al_address al))\<lparr>acc_balance := al_balance al\<rparr>"
  let ?b = "put_account (al_address al) ?acc b"
  have "bank_total ?b \<le> bank_total b + unat (al_balance al)"
    using put_account_total [of "al_address al" ?acc b] by simp
  moreover have "\<forall>a. lck ?b a = 0" using Cons.prems(2) by (simp add: account_entry_lck)
  ultimately show ?case using Cons.IH [of ?b] Cons.prems(1) by simp
qed simp

lemma genesis_inv:
  assumes "sum_list (map (\<lambda>al. unat (al_balance al)) als) \<le> 10 ^ 27"
  shows "\<exists>b. bank_from_genesis als = Ok b \<and> bank_inv b \<and> issued b = 10 ^ 27"
proof -
  let ?n = "bank_new bank_config_default"
  have n: "bank_total ?n = 0" "circulating ?n = 10 ^ 27" "burned ?n = 0" "\<forall>a. lck ?n a = 0"
    by (simp_all add: bank_new_def bank_total_def circulating_def burned_def lck_def
        get_locked_balance_def bank_config_default_def)
  with apply_allocations_views [of ?n als] assms show ?thesis
    by (auto simp: bank_from_genesis_def bank_inv_def issued_def)
qed

section \<open>Escrows are paid out once\<close>

definition escrow_closed :: "bank \<Rightarrow> hash \<Rightarrow> bool" where
  "escrow_closed b i = (case hm_get (bk_escrows b) i of None \<Rightarrow> False | Some e \<Rightarrow> esc_released e)"

lemma closed_refused:
  assumes "escrow_closed b i"
  shows "release_escrow b i t = (b, Err (EscrowNotFound (hex_encode i)))"
    and "refund_escrow b i r = (b, Err (EscrowNotFound (hex_encode i)))"
    and "create_escrow b i f t m x c = (b, Err (InvalidAmount ''Escrow already exists''))"
  using assms
  by (auto simp: escrow_closed_def release_escrow_def refund_escrow_def create_escrow_def
      split: option.splits)

lemma put_account_escrows [simp]:
  "escrow_closed (put_account a acc b) i = escrow_closed b i"
  "escrow_closed (emit_bank e b) i = escrow_closed b i"
  "escrow_closed (credit t m b) i = escrow_closed b i"
  by (simp_all add: escrow_closed_def credit_def)

lemma mark_released_closed: "escrow_closed b i \<Longrightarrow> escrow_closed (mark_released j b) i"
  by (auto simp: escrow_closed_def mark_released_def split: option.splits)

lemma lock_unlock_escrows:
  "bk_escrows (fst (lock b a m)) = bk_escrows b" "bk_escrows (fst (unlock b a m)) = bk_escrows b"
  by (auto simp: lock_def unlock_def split: option.splits)

lemma lock_unlock_closed:
  "escrow_closed (fst (lock b a m)) i = escrow_closed b i"
  "escrow_closed (fst (unlock b a m)) i = escrow_closed b i"
  by (simp_all add: escrow_closed_def lock_unlock_escrows)


lemma lock_unlock_pair_closed:
  "lock b a m = (b', r) \<Longrightarrow> escrow_closed b' i = escrow_closed b i"
  "unlock b a m = (b', r) \<Longrightarrow> escrow_closed b' i = escrow_closed b i"
  using lock_unlock_closed [of b a m i] by auto

lemma transfer_closed: "escrow_closed (fst (transfer b f t m)) i = escrow_closed b i"
proof -
  have "bk_escrows (fst (transfer b f t m)) = bk_escrows b"
    by (simp add: transfer_def Let_def credit_def)
  then show ?thesis by (simp add: escrow_closed_def)
qed

lemma mint_slash_closed:
  "escrow_closed (fst (mint b t m)) i = escrow_closed b i"
  "escrow_closed (fst (bank_slash b t m)) i = escrow_closed b i"
  by (auto simp: mint_def bank_slash_def Let_def escrow_closed_def credit_def split: option.splits)

lemma create_escrow_closed: "escrow_closed b i \<Longrightarrow> escrow_closed (fst (create_escrow b j f t m x c)) i"
proof -
  have "hm_get (bk_escrows b') i = hm_get (bk_escrows b) i" if "lock b f m = (b', r)" for b' r
    using lock_unlock_escrows(1) [of b f m] that by simp
  moreover assume "escrow_closed b i"
  ultimately show ?thesis
    by (auto simp: create_escrow_def Let_def escrow_closed_def
        split: option.splits prod.splits result.splits)
qed

lemma release_refund_closed:
  assumes "escrow_closed b i"
  shows "escrow_closed (fst (release_escrow b j t)) i" "escrow_closed (fst (refund_escrow b j r)) i"
  using assms
  by (auto simp: release_escrow_def refund_escrow_def Let_def mark_released_closed
      lock_unlock_pair_closed(2)
      split: option.splits prod.splits result.splits)

lemma other_ops_closed:
  "escrow_closed (fst (lock_account b a u r)) i = escrow_closed b i"
  "escrow_closed (fst (unlock_account b a)) i = escrow_closed b i"
  "escrow_closed (increment_nonce b a) i = escrow_closed b i"
  "escrow_closed (set_block b h) i = escrow_closed b i"
  "escrow_closed (fst (bank_drain_events b)) i = escrow_closed b i"
  by (auto simp: lock_account_def unlock_account_def increment_nonce_def set_block_def
      bank_drain_events_def Let_def escrow_closed_def split: option.splits)

lemma exec_keeps_closed: "escrow_closed b i \<Longrightarrow> escrow_closed (bank_exec op b) i"
  by (cases op)
    (simp_all add: transfer_closed burn_def mint_slash_closed lock_unlock_closed
      create_escrow_closed release_refund_closed other_ops_closed)

lemma run_keeps_closed: "escrow_closed b i \<Longrightarrow> escrow_closed (bank_run ops b) i"
  by (induction ops arbitrary: b) (auto simp: exec_keeps_closed)

lemma release_closes:
  assumes "bank_inv b" and "release_escrow b i t = (b', Ok n)"
  shows "escrow_closed b' i"
  using release_escrow_ok [OF assms] by (auto simp: escrow_closed_def)

lemma refund_closes: "refund_escrow b i r = (b', Ok n) \<Longrightarrow> escrow_closed b' i"
  using refund_escrow_ok by (fastforce simp: escrow_closed_def)

section \<open>The interface the other contracts rely on\<close>

text \<open>
  Staking and the job registry use four operations of the bank. \<open>views\<close> are the balance and the lock
  of every account, \<open>supply\<close> what circulates, \<open>frozen\<close> whether an account is time-locked.
\<close>

locale token_ledger =
  fixes inv :: "'b \<Rightarrow> bool"
    and balv :: "'b \<Rightarrow> address \<Rightarrow> nat"
    and lckv :: "'b \<Rightarrow> address \<Rightarrow> nat"
    and supv :: "'b \<Rightarrow> nat"
    and frozen :: "'b \<Rightarrow> address \<Rightarrow> bool"
    and do_lock :: "'b \<Rightarrow> address \<Rightarrow> token_amount \<Rightarrow> 'b \<times> unit sys_result"
    and do_unlock :: "'b \<Rightarrow> address \<Rightarrow> token_amount \<Rightarrow> 'b \<times> unit sys_result"
    and do_transfer :: "'b \<Rightarrow> address \<Rightarrow> address \<Rightarrow> token_amount \<Rightarrow> 'b \<times> unit sys_result"
    and do_burn :: "'b \<Rightarrow> address \<Rightarrow> token_amount \<Rightarrow> 'b \<times> unit sys_result"
  assumes locked_le: "inv b \<Longrightarrow> lckv b a \<le> balv b a"
    and lock_law: "inv b \<Longrightarrow> do_lock b a m = (b', Ok ()) \<Longrightarrow>
      inv b' \<and> lckv b a + unat m \<le> balv b a \<and> balv b' = balv b \<and>
      lckv b' = give_to a (unat m) (lckv b) \<and> supv b' = supv b \<and> frozen b' = frozen b"
    and unlock_law: "inv b \<Longrightarrow> do_unlock b a m = (b', Ok ()) \<Longrightarrow>
      inv b' \<and> unat m \<le> lckv b a \<and> balv b' = balv b \<and>
      lckv b' = take_from a (unat m) (lckv b) \<and> supv b' = supv b \<and> frozen b' = frozen b"
    and unlock_total: "0 < m \<Longrightarrow> unat m \<le> lckv b a \<Longrightarrow> \<exists>b'. do_unlock b a m = (b', Ok ())"
    and transfer_law: "inv b \<Longrightarrow> do_transfer b f t m = (b', Ok ()) \<Longrightarrow> t \<noteq> BURN_ADDRESS \<Longrightarrow>
      inv b' \<and> balv b' = give_to t (unat m) (take_from f (unat m) (balv b)) \<and>
      lckv b' = lckv b \<and> supv b' = supv b \<and> frozen b' = frozen b"
    and transfer_total: "0 < m \<Longrightarrow> lckv b f + unat m \<le> balv b f \<Longrightarrow> \<not> frozen b f \<Longrightarrow>
      \<exists>b'. do_transfer b f t m = (b', Ok ())"
    and burn_law: "inv b \<Longrightarrow> do_burn b f m = (b', Ok ()) \<Longrightarrow>
      inv b' \<and> balv b' = take_from f (unat m) (balv b) \<and> lckv b' = lckv b \<and>
      supv b' + unat m = supv b \<and> frozen b' = frozen b"
    and burn_total: "0 < m \<Longrightarrow> lckv b f + unat m \<le> balv b f \<Longrightarrow> \<not> frozen b f \<Longrightarrow>
      \<exists>b'. do_burn b f m = (b', Ok ())"
begin

text \<open>What was locked can be unlocked again, and then nothing has changed.\<close>

lemma lock_unlock_round_trip:
  assumes "inv b" and "do_lock b a m = (b', Ok ())" and "0 < m"
  shows "\<exists>b''. do_unlock b' a m = (b'', Ok ()) \<and> balv b'' = balv b \<and> lckv b'' = lckv b \<and> supv b'' = supv b"
proof -
  note l = lock_law [OF assms(1,2)]
  then have "unat m \<le> lckv b' a" by (simp add: give_to_def)
  then obtain b'' where u: "do_unlock b' a m = (b'', Ok ())" using unlock_total assms(3) by blast
  with unlock_law [OF _ u] l show ?thesis by (auto simp: give_to_def take_from_def)
qed

text \<open>
  The payment pattern of a settlement: unlock what was locked for it, pay two parties and burn the
  rest. It always goes through, and moves exactly the three shares.
\<close>

lemma settlement_pays:
  assumes inv: "inv b" and held: "unat p + unat v + unat z \<le> lckv b a" and m: "unat m = unat p + unat v + unat z"
    and pos: "0 < p" "0 < v" "0 < z" and thaw: "\<not> frozen b a"
    and parties: "t \<noteq> BURN_ADDRESS" "w \<noteq> BURN_ADDRESS"
  shows "\<exists>b1 b2 b3 b4. do_unlock b a m = (b1, Ok ()) \<and> do_transfer b1 a t p = (b2, Ok ()) \<and>
      do_transfer b2 a w v = (b3, Ok ()) \<and> do_burn b3 a z = (b4, Ok ()) \<and> inv b4 \<and>
      lckv b4 = take_from a (unat m) (lckv b) \<and>
      balv b4 = take_from a (unat z) (give_to w (unat v) (take_from a (unat v)
                  (give_to t (unat p) (take_from a (unat p) (balv b))))) \<and>
      supv b4 + unat z = supv b"
proof -
  have "0 < m" using m pos by (simp add: word_less_nat_alt)
  then obtain b1 where b1: "do_unlock b a m = (b1, Ok ())"
    using unlock_total [of m b a] held m by auto
  note l1 = unlock_law [OF inv b1]
  have room: "lckv b1 a + (unat p + unat v + unat z) \<le> balv b1 a"
    using l1 locked_le [OF inv, of a] m by (auto simp: take_from_def)
  have "lckv b1 a + unat p \<le> balv b1 a" "\<not> frozen b1 a" using room l1 thaw by auto
  from transfer_total [OF pos(1) this, of t] obtain b2 where b2: "do_transfer b1 a t p = (b2, Ok ())" by blast
  note l2 = transfer_law [OF _ b2 parties(1)]
  have room2: "lckv b2 a + (unat v + unat z) \<le> balv b2 a" "\<not> frozen b2 a"
    using room l1 l2 thaw by (auto simp: take_from_def give_to_def)
  from transfer_total [OF pos(2), of b2 a w] obtain b3 where b3: "do_transfer b2 a w v = (b3, Ok ())"
    using room2 by auto
  note l3 = transfer_law [OF _ b3 parties(2)]
  have "lckv b3 a + unat z \<le> balv b3 a" "\<not> frozen b3 a"
    using room2 l1 l2 l3 by (auto simp: take_from_def give_to_def)
  from burn_total [OF pos(3) this] obtain b4 where b4: "do_burn b3 a z = (b4, Ok ())" by blast
  note l4 = burn_law [OF _ b4]
  show ?thesis using b1 b2 b3 b4 l1 l2 l3 l4 by auto
qed

end

definition account_frozen :: "bank \<Rightarrow> address \<Rightarrow> bool" where
  "account_frozen b a = account_is_locked (account_entry b a) (bk_current_block b)"

lemma frozen_put:
  "acc_locked_until acc = acc_locked_until (account_entry b a) \<Longrightarrow>
   account_frozen (put_account a acc b) = account_frozen b"
  by (auto simp: account_frozen_def account_is_locked_def fun_eq_iff)

lemma frozen_emit [simp]: "account_frozen (emit_bank e b) = account_frozen b"
  by (auto simp: account_frozen_def account_is_locked_def fun_eq_iff emit_bank_def account_entry_def)

lemma frozen_ops:
  "account_frozen (credit t m b) = account_frozen b"
  "account_frozen (debit t m b) = account_frozen b"
  "account_frozen (burn_supply m b) = account_frozen b"
  by (simp_all add: credit_def debit_def frozen_put)
    (auto simp: account_frozen_def account_is_locked_def fun_eq_iff burn_supply_def account_entry_def)

lemma frozen_lock: "lock b a m = (b', Ok ()) \<Longrightarrow> account_frozen b' = account_frozen b"
  by (auto simp: lock_def account_some frozen_put split: option.splits if_splits)

lemma frozen_unlock: "unlock b a m = (b', Ok ()) \<Longrightarrow> account_frozen b' = account_frozen b"
  by (auto simp: unlock_def account_some frozen_put split: option.splits if_splits)

lemma frozen_transfer: "transfer b f t m = (b', Ok ()) \<Longrightarrow> account_frozen b' = account_frozen b"
  by (auto simp: transfer_alt Let_def frozen_ops split: if_splits)

lemma transfer_succeeds:
  assumes "0 < m" and "lck b f + unat m \<le> bal b f" and "\<not> account_frozen b f"
  shows "\<exists>b'. transfer b f t m = (b', Ok ())"
  using assms by (auto simp: transfer_alt Let_def account_frozen_def)

lemma refines_inv: "refines b l b' \<Longrightarrow> bank_inv b'"
  by (simp add: refines_def)

interpretation bank: token_ledger bank_inv bal lck circulating account_frozen lock unlock transfer burn
proof
  fix b b' a m f t
  show "bank_inv b \<Longrightarrow> lck b a \<le> bal b a" by (simp add: bank_inv_def)
  show "bank_inv b' \<and> lck b a + unat m \<le> bal b a \<and> bal b' = bal b \<and> lck b' = give_to a (unat m) (lck b) \<and>
      circulating b' = circulating b \<and> account_frozen b' = account_frozen b"
    if "bank_inv b" "lock b a m = (b', Ok ())"
    using lock_ok [OF that] refines_inv [OF lock_refines [OF that(1), of a m]] frozen_lock [OF that(2)] that
    by simp
  show "bank_inv b' \<and> unat m \<le> lck b a \<and> bal b' = bal b \<and> lck b' = take_from a (unat m) (lck b) \<and>
      circulating b' = circulating b \<and> account_frozen b' = account_frozen b"
    if "bank_inv b" "unlock b a m = (b', Ok ())"
    using unlock_ok [OF that(2)] refines_inv [OF unlock_refines [OF that(1), of a m]]
      frozen_unlock [OF that(2)] that
    by simp
  show "\<exists>b'. unlock b a m = (b', Ok ())" if "0 < m" "unat m \<le> lck b a"
  proof -
    have "hm_get (bk_accounts b) a \<noteq> None"
      using that account_none(2) [of b a] by (auto simp: word_less_nat_alt)
    then show ?thesis using that by (intro unlock_succeeds)
  qed
  show "bank_inv b' \<and> bal b' = give_to t (unat m) (take_from f (unat m) (bal b)) \<and> lck b' = lck b \<and>
      circulating b' = circulating b \<and> account_frozen b' = account_frozen b"
    if "bank_inv b" "transfer b f t m = (b', Ok ())" "t \<noteq> BURN_ADDRESS"
    using transfer_ok [OF that] refines_inv [OF transfer_refines [OF that(1), of f t m]]
      frozen_transfer [OF that(2)] that by simp
  show "\<exists>b'. transfer b f t m = (b', Ok ())"
    if "0 < m" "lck b f + unat m \<le> bal b f" "\<not> account_frozen b f"
    using that by (rule transfer_succeeds)
  show "bank_inv b' \<and> bal b' = take_from f (unat m) (bal b) \<and> lck b' = lck b \<and>
      circulating b' + unat m = circulating b \<and> account_frozen b' = account_frozen b"
    if "bank_inv b" "burn b f m = (b', Ok ())"
    using burn_ok [OF that] refines_inv [OF burn_refines [OF that(1), of f m]]
      frozen_transfer [of b f BURN_ADDRESS m b'] that by (simp add: burn_def)
  show "\<exists>b'. burn b f m = (b', Ok ())"
    if "0 < m" "lck b f + unat m \<le> bal b f" "\<not> account_frozen b f"
    unfolding burn_def using that by (rule transfer_succeeds)
qed

end
