(* ===== verification/Staking.thy ===== *)
theory Staking
  imports Bank_Ledger
begin

text \<open>
  \<open>src/crates/vm/src/system_contracts/staking.rs\<close>: the staking manager with the adaptive burn rate,
  the fee split, staking, unbonding, slashing and rewards.

  \<open>StakingManager\<close> keeps an \<open>Arc<RwLock<Bank>>\<close> beside the \<open>&mut Bank\<close> that \<open>stake\<close> and \<open>withdraw\<close> receive.
  The record below has every field but this one: the lock is an argument of \<open>slash\<close>, the only
  method that takes it. The locks of \<open>parking_lot\<close> are not reentrant, so a thread that asks for a
  write guard it already holds waits for ever; \<open>slash\<close> has no result (\<open>None\<close>) then.
\<close>

section \<open>Block context\<close>

text \<open>\<open>BlockContext\<close> of \<open>mod.rs\<close>.\<close>

record block_context =
  ctx_height :: u64
  ctx_timestamp :: u64
  ctx_slot :: u64
  ctx_proposer :: address
  ctx_gas_limit :: u64
  ctx_gas_used :: u64

definition block_context_default :: block_context where
  "block_context_default =
     \<lparr>ctx_height = 0, ctx_timestamp = 0, ctx_slot = 0, ctx_proposer = replicate 32 0,
      ctx_gas_limit = 30000000, ctx_gas_used = 0\<rparr>"

text \<open>The state of a \<open>RwLock\<close> as the running thread finds it: free, or write-locked by this thread.\<close>

datatype 'a lock_cell = Unheld 'a | HeldBySelf

section \<open>Configuration\<close>

record slashing_params =
  sp_sla_violation_bps :: u16
  sp_invalid_proof_bps :: u16
  sp_double_sign_bps :: u16
  sp_downtime_bps :: u16
  sp_minor_jail_duration :: u64
  sp_major_jail_duration :: u64
  sp_tombstone_threshold :: u32

definition slashing_params_mainnet :: slashing_params where
  "slashing_params_mainnet =
     \<lparr>sp_sla_violation_bps = 100, sp_invalid_proof_bps = 500, sp_double_sign_bps = 5000,
      sp_downtime_bps = 10, sp_minor_jail_duration = 24 * 3600,
      sp_major_jail_duration = 7 * 24 * 3600, sp_tombstone_threshold = 10\<rparr>"

definition slashing_params_testnet :: slashing_params where
  "slashing_params_testnet =
     \<lparr>sp_sla_violation_bps = 50, sp_invalid_proof_bps = 200, sp_double_sign_bps = 2000,
      sp_downtime_bps = 5, sp_minor_jail_duration = 3600, sp_major_jail_duration = 24 * 3600,
      sp_tombstone_threshold = 5\<rparr>"

definition slashing_params_devnet :: slashing_params where
  "slashing_params_devnet =
     \<lparr>sp_sla_violation_bps = 10, sp_invalid_proof_bps = 50, sp_double_sign_bps = 500,
      sp_downtime_bps = 1, sp_minor_jail_duration = 60, sp_major_jail_duration = 300,
      sp_tombstone_threshold = 3\<rparr>"

record staking_config =
  sc_min_validator_stake :: token_amount
  sc_min_compute_stake :: token_amount
  sc_min_delegator_stake :: token_amount
  sc_unbonding_period :: u64
  sc_base_burn_rate_bps :: u16
  sc_max_burn_rate_bps :: u16
  sc_congestion_threshold :: u8
  sc_high_congestion_threshold :: u8
  sc_slashing :: slashing_params
  sc_max_validators :: u32
  sc_max_delegators_per_validator :: u32

definition staking_config_mainnet :: staking_config where
  "staking_config_mainnet =
     \<lparr>sc_min_validator_stake = 100000000000000000000000,
      sc_min_compute_stake = 5000000000000000000000,
      sc_min_delegator_stake = 100000000000000000000,
      sc_unbonding_period = 21 * 24 * 3600,
      sc_base_burn_rate_bps = 500, sc_max_burn_rate_bps = 1500,
      sc_congestion_threshold = 50, sc_high_congestion_threshold = 80,
      sc_slashing = slashing_params_mainnet,
      sc_max_validators = 1000, sc_max_delegators_per_validator = 10000\<rparr>"

definition staking_config_testnet :: staking_config where
  "staking_config_testnet =
     \<lparr>sc_min_validator_stake = 10000000000000000000000,
      sc_min_compute_stake = 500000000000000000000,
      sc_min_delegator_stake = 10000000000000000000,
      sc_unbonding_period = 7 * 24 * 3600,
      sc_base_burn_rate_bps = 300, sc_max_burn_rate_bps = 1000,
      sc_congestion_threshold = 40, sc_high_congestion_threshold = 70,
      sc_slashing = slashing_params_testnet,
      sc_max_validators = 200, sc_max_delegators_per_validator = 1000\<rparr>"

definition staking_config_devnet :: staking_config where
  "staking_config_devnet =
     \<lparr>sc_min_validator_stake = 1000000000000000000,
      sc_min_compute_stake = 1000000000000000000,
      sc_min_delegator_stake = 100000000000000000,
      sc_unbonding_period = 60,
      sc_base_burn_rate_bps = 500, sc_max_burn_rate_bps = 1500,
      sc_congestion_threshold = 50, sc_high_congestion_threshold = 80,
      sc_slashing = slashing_params_devnet,
      sc_max_validators = 100, sc_max_delegators_per_validator = 100\<rparr>"

definition staking_config_validate :: "staking_config \<Rightarrow> unit sys_result" where
  "staking_config_validate c =
     (if sc_min_validator_stake c = 0
      then Err (InvalidConfig ''min_validator_stake must be > 0'')
      else if sc_base_burn_rate_bps c > sc_max_burn_rate_bps c
      then Err (InvalidConfig ''base_burn_rate_bps must be <= max_burn_rate_bps'')
      else if sc_congestion_threshold c \<ge> sc_high_congestion_threshold c
      then Err (InvalidConfig ''congestion_threshold must be < high_congestion_threshold'')
      else Ok ())"

section \<open>State\<close>

record delegation =
  dg_delegator :: address
  dg_amount :: token_amount
  dg_delegated_at :: u64

record stake_info =
  si_address :: address
  si_role :: stake_role
  si_staked :: token_amount
  si_unbonding :: token_amount
  si_unbonding_complete_time :: u64
  si_slash_count :: u32
  si_jailed_until :: u64
  si_tombstoned :: bool
  si_total_rewards :: token_amount
  si_registered_at :: u64
  si_delegators :: "delegation list"
  si_useful_work_score :: u64

definition stake_info_new :: "address \<Rightarrow> stake_role \<Rightarrow> token_amount \<Rightarrow> u64 \<Rightarrow> stake_info" where
  "stake_info_new a role amount timestamp =
     \<lparr>si_address = a, si_role = role, si_staked = amount, si_unbonding = 0,
      si_unbonding_complete_time = 0, si_slash_count = 0, si_jailed_until = 0,
      si_tombstoned = False, si_total_rewards = 0, si_registered_at = timestamp,
      si_delegators = [], si_useful_work_score = 0\<rparr>"

definition staker_is_active :: "stake_info \<Rightarrow> u64 \<Rightarrow> bool" where
  "staker_is_active i current_time = (\<not> si_tombstoned i \<and> si_jailed_until i \<le> current_time)"

definition effective_stake :: "stake_info \<Rightarrow> token_amount" where
  "effective_stake i = si_staked i + sum_list (map dg_amount (si_delegators i))"

record fee_split =
  fs_prover :: token_amount
  fs_validator :: token_amount
  fs_burn :: token_amount

record staking_manager =
  sm_config :: staking_config
  sm_stakers :: "(address, stake_info) hashmap"
  sm_total_staked :: token_amount
  sm_total_burned :: token_amount
  sm_network_utilization :: u8
  sm_current_burn_rate_bps :: u16
  sm_events :: "staking_event list"
  sm_current_block :: u64

definition staking_new :: "staking_config \<Rightarrow> staking_manager" where
  "staking_new config =
     \<lparr>sm_config = config, sm_stakers = [], sm_total_staked = 0, sm_total_burned = 0,
      sm_network_utilization = 0, sm_current_burn_rate_bps = sc_base_burn_rate_bps config,
      sm_events = [], sm_current_block = 0\<rparr>"

definition staking_drain_events :: "staking_manager \<Rightarrow> staking_manager \<times> staking_event list" where
  "staking_drain_events sm = (sm\<lparr>sm_events := []\<rparr>, sm_events sm)"

definition emit_staking :: "staking_event \<Rightarrow> staking_manager \<Rightarrow> staking_manager" where
  "emit_staking e sm = sm\<lparr>sm_events := sm_events sm @ [e]\<rparr>"

definition put_staker :: "address \<Rightarrow> stake_info \<Rightarrow> staking_manager \<Rightarrow> staking_manager" where
  "put_staker a i sm = sm\<lparr>sm_stakers := hm_insert a i (sm_stakers sm)\<rparr>"

section \<open>Adaptive burn\<close>

text \<open>The rate \<open>update_utilization\<close> computes; in the middle branch the divisor cannot be 0.\<close>

definition burn_rate_for :: "staking_config \<Rightarrow> u8 \<Rightarrow> u16" where
  "burn_rate_for c utilization =
     (if utilization > sc_high_congestion_threshold c then sc_max_burn_rate_bps c
      else if utilization > sc_congestion_threshold c
      then
        let range = sc_max_burn_rate_bps c - sc_base_burn_rate_bps c;
            congestion_range = sc_high_congestion_threshold c - sc_congestion_threshold c;
            excess = utilization - sc_congestion_threshold c;
            additional = (ucast ((ucast range :: u32) * ucast excess div ucast congestion_range) :: u16)
        in sc_base_burn_rate_bps c + additional
      else sc_base_burn_rate_bps c)"

definition update_utilization :: "staking_manager \<Rightarrow> u8 \<Rightarrow> staking_manager" where
  "update_utilization sm utilization =
     (let old_utilization = sm_network_utilization sm;
          sm = sm\<lparr>sm_network_utilization := min utilization 100\<rparr>;
          new_burn_rate = burn_rate_for (sm_config sm) utilization
      in if new_burn_rate \<noteq> sm_current_burn_rate_bps sm
         then
           let sm = sm\<lparr>sm_current_burn_rate_bps := new_burn_rate\<rparr>
           in emit_staking
                (UtilizationUpdated old_utilization (sm_network_utilization sm)
                   (ucast (sm_current_burn_rate_bps sm)) (sm_current_block sm)) sm
         else sm)"

definition calculate_fee_split ::
    "staking_manager \<Rightarrow> token_amount \<Rightarrow> token_amount \<times> token_amount \<times> token_amount" where
  "calculate_fee_split sm fee =
     (let prover_amount = fee * 70 div 100;
          burn_amount = fee * ucast (sm_current_burn_rate_bps sm) div 10000;
          validator_amount = saturating_sub (saturating_sub fee prover_amount) burn_amount
      in (prover_amount, validator_amount, burn_amount))"

section \<open>Staking operations\<close>

fun role_min_stake :: "staking_config \<Rightarrow> stake_role \<Rightarrow> token_amount" where
  "role_min_stake c Validator = sc_min_validator_stake c"
| "role_min_stake c ComputeNode = sc_min_compute_stake c"
| "role_min_stake c Delegator = sc_min_delegator_stake c"

definition stake ::
    "staking_manager \<Rightarrow> address \<Rightarrow> token_amount \<Rightarrow> stake_role \<Rightarrow> bank
      \<Rightarrow> staking_manager \<times> bank \<times> unit sys_result" where
  "stake sm staker amount role b =
     (let min_stake = role_min_stake (sm_config sm) role
      in if amount < min_stake then (sm, b, Err (InsufficientStake min_stake amount))
         else case lock b staker amount of
           (b, Err e) \<Rightarrow> (sm, b, Err e)
         | (b, Ok _) \<Rightarrow>
             let info = hm_entry (stake_info_new staker role 0 (sm_current_block sm)) (sm_stakers sm) staker;
                 info = info\<lparr>si_staked := saturating_add (si_staked info) amount\<rparr>;
                 sm = put_staker staker info sm;
                 sm = sm\<lparr>sm_total_staked := saturating_add (sm_total_staked sm) amount\<rparr>
             in (emit_staking (Staked staker amount role (si_staked info) (sm_current_block sm)) sm,
                 b, Ok ()))"

definition unstake ::
    "staking_manager \<Rightarrow> address \<Rightarrow> token_amount \<Rightarrow> block_context \<Rightarrow> staking_manager \<times> unit sys_result" where
  "unstake sm staker amount ctx =
     (case hm_get (sm_stakers sm) staker of
        None \<Rightarrow> (sm, Err (staker_not_found staker))
      | Some info \<Rightarrow>
          if si_jailed_until info > ctx_timestamp ctx then (sm, Err SlashingInProgress)
          else
            let available = saturating_sub (si_staked info) (si_unbonding info)
            in if available < amount then (sm, Err (CannotUnstake amount available))
            else
              let remaining = saturating_sub (si_staked info) amount;
                  min_stake = role_min_stake (sm_config sm) (si_role info)
              in if remaining > 0 \<and> remaining < min_stake
                 then (sm, Err (InsufficientStake min_stake remaining))
                 else
                   let info = info\<lparr>si_unbonding := saturating_add (si_unbonding info) amount,
                                   si_unbonding_complete_time :=
                                     ctx_timestamp ctx + sc_unbonding_period (sm_config sm)\<rparr>;
                       sm = put_staker staker info sm
                   in (emit_staking (UnstakeInitiated staker amount (si_unbonding_complete_time info)
                         (ctx_height ctx)) sm, Ok ()))"

definition withdraw ::
    "staking_manager \<Rightarrow> address \<Rightarrow> block_context \<Rightarrow> bank
      \<Rightarrow> staking_manager \<times> bank \<times> token_amount sys_result" where
  "withdraw sm staker ctx b =
     (case hm_get (sm_stakers sm) staker of
        None \<Rightarrow> (sm, b, Err (staker_not_found staker))
      | Some info \<Rightarrow>
          if si_unbonding info = 0 then (sm, b, Err NothingToWithdraw)
          else if si_unbonding_complete_time info > ctx_timestamp ctx
          then (sm, b, Err (UnstakeInProgress (si_unbonding_complete_time info)))
          else
            let amount = si_unbonding info;
                info = info\<lparr>si_staked := saturating_sub (si_staked info) amount,
                            si_unbonding := 0, si_unbonding_complete_time := 0\<rparr>;
                sm = put_staker staker info sm;
                sm = sm\<lparr>sm_total_staked := saturating_sub (sm_total_staked sm) amount\<rparr>
            in case unlock b staker amount of
                 (b, Err e) \<Rightarrow> (sm, b, Err e)
               | (b, Ok _) \<Rightarrow>
                   (emit_staking (StakeWithdrawn staker amount (ctx_height ctx)) sm, b, Ok amount))"

section \<open>Slashing\<close>

definition staking_slash ::
    "staking_manager \<Rightarrow> bank lock_cell \<Rightarrow> address \<Rightarrow> u16 \<Rightarrow> string \<Rightarrow> bool
      \<Rightarrow> (staking_manager \<times> bank lock_cell \<times> token_amount sys_result) option" where
  "staking_slash sm cell staker rate_bps reason jail =
     (case hm_get (sm_stakers sm) staker of
        None \<Rightarrow> Some (sm, cell, Err (staker_not_found staker))
      | Some info \<Rightarrow>
          let slash_amount = si_staked info * ucast rate_bps div 10000
          in case cell of
               HeldBySelf \<Rightarrow> None
             | Unheld b \<Rightarrow>
                 (case bank_slash b staker slash_amount of
                    (b, Err e) \<Rightarrow> Some (sm, Unheld b, Err e)
                  | (b, Ok actual_slashed) \<Rightarrow>
                      let params = sc_slashing (sm_config sm);
                          info = info\<lparr>si_staked := saturating_sub (si_staked info) actual_slashed,
                                      si_slash_count := si_slash_count info + 1\<rparr>;
                          sm = sm\<lparr>sm_total_staked := saturating_sub (sm_total_staked sm) actual_slashed,
                                  sm_total_burned := saturating_add (sm_total_burned sm) actual_slashed\<rparr>;
                          jail_duration = (if rate_bps \<ge> sp_double_sign_bps params
                                           then sp_major_jail_duration params
                                           else sp_minor_jail_duration params);
                          info = (if jail
                                  then info\<lparr>si_jailed_until := sm_current_block sm + jail_duration\<rparr>
                                  else info);
                          sm = (if jail
                                then emit_staking (ValidatorJailed staker reason (si_jailed_until info)
                                       (sm_current_block sm)) sm
                                else sm);
                          info = (if si_slash_count info \<ge> sp_tombstone_threshold params
                                  then info\<lparr>si_tombstoned := True\<rparr> else info);
                          sm = put_staker staker info sm
                      in Some (emit_staking (staking_event.Slashed staker actual_slashed reason None
                                 (sm_current_block sm)) sm, Unheld b, Ok actual_slashed)))"

definition slash_for_sla_violation ::
    "staking_manager \<Rightarrow> bank lock_cell \<Rightarrow> address
      \<Rightarrow> (staking_manager \<times> bank lock_cell \<times> token_amount sys_result) option" where
  "slash_for_sla_violation sm cell staker =
     staking_slash sm cell staker (sp_sla_violation_bps (sc_slashing (sm_config sm)))
       ''SLA violation'' True"

definition slash_for_invalid_proof ::
    "staking_manager \<Rightarrow> bank lock_cell \<Rightarrow> address
      \<Rightarrow> (staking_manager \<times> bank lock_cell \<times> token_amount sys_result) option" where
  "slash_for_invalid_proof sm cell staker =
     staking_slash sm cell staker (sp_invalid_proof_bps (sc_slashing (sm_config sm)))
       ''Invalid proof'' True"

definition slash_for_double_sign ::
    "staking_manager \<Rightarrow> bank lock_cell \<Rightarrow> address
      \<Rightarrow> (staking_manager \<times> bank lock_cell \<times> token_amount sys_result) option" where
  "slash_for_double_sign sm cell staker =
     staking_slash sm cell staker (sp_double_sign_bps (sc_slashing (sm_config sm)))
       ''Double signing'' True"

section \<open>Rewards and end of block\<close>

definition add_rewards :: "address \<Rightarrow> token_amount \<Rightarrow> staking_manager \<Rightarrow> staking_manager" where
  "add_rewards a amount sm =
     (case hm_get (sm_stakers sm) a of
        None \<Rightarrow> sm
      | Some info \<Rightarrow>
          put_staker a (info\<lparr>si_total_rewards := saturating_add (si_total_rewards info) amount\<rparr>) sm)"

definition distribute_rewards ::
    "staking_manager \<Rightarrow> token_amount \<Rightarrow> address \<Rightarrow> address \<Rightarrow> staking_manager \<times> fee_split sys_result" where
  "distribute_rewards sm fee prover validator =
     (let (prover_amount, validator_amount, burn_amount) = calculate_fee_split sm fee;
          sm = add_rewards prover prover_amount sm;
          sm = add_rewards validator validator_amount sm;
          sm = sm\<lparr>sm_total_burned := saturating_add (sm_total_burned sm) burn_amount\<rparr>;
          sm = emit_staking (RewardsDistributed prover prover_amount ''job_completion'' (sm_current_block sm)) sm;
          sm = emit_staking (RewardsDistributed validator validator_amount ''block_proposal'' (sm_current_block sm)) sm;
          sm = emit_staking (TokensBurned burn_amount ''fee_burn'' (sm_current_block sm)) sm
      in (sm, Ok \<lparr>fs_prover = prover_amount, fs_validator = validator_amount, fs_burn = burn_amount\<rparr>))"

definition jail_over :: "block_context \<Rightarrow> stake_info \<Rightarrow> bool" where
  "jail_over ctx i =
     (si_jailed_until i > 0 \<and> si_jailed_until i \<le> ctx_timestamp ctx \<and> \<not> si_tombstoned i)"

text \<open>The loop of \<open>end_block\<close> over \<open>stakers.values_mut()\<close>.\<close>

fun unjail_loop ::
    "block_context \<Rightarrow> (address, stake_info) hashmap \<Rightarrow> (address, stake_info) hashmap \<times> staking_event list" where
  "unjail_loop ctx [] = ([], [])"
| "unjail_loop ctx ((a, i) # m) =
     (let (m', evs) = unjail_loop ctx m
      in if jail_over ctx i
         then ((a, i\<lparr>si_jailed_until := 0\<rparr>) # m', ValidatorUnjailed (si_address i) (ctx_height ctx) # evs)
         else ((a, i) # m', evs))"

definition staking_end_block ::
    "staking_manager \<Rightarrow> block_context \<Rightarrow> staking_manager \<times> staking_event list sys_result" where
  "staking_end_block sm ctx =
     (let sm = sm\<lparr>sm_current_block := ctx_height ctx\<rparr>;
          (stakers, evs) = unjail_loop ctx (sm_stakers sm);
          sm = sm\<lparr>sm_stakers := stakers, sm_events := sm_events sm @ evs\<rparr>;
          (sm, drained) = staking_drain_events sm
      in (sm, Ok drained))"

section \<open>Queries\<close>

definition get_staker :: "staking_manager \<Rightarrow> address \<Rightarrow> stake_info option" where
  "get_staker sm a = hm_get (sm_stakers sm) a"

definition validators :: "staking_manager \<Rightarrow> stake_info list" where
  "validators sm = filter (\<lambda>i. si_role i = Validator) (map snd (sm_stakers sm))"

definition compute_nodes :: "staking_manager \<Rightarrow> stake_info list" where
  "compute_nodes sm = filter (\<lambda>i. si_role i = ComputeNode) (map snd (sm_stakers sm))"

record staking_stats =
  ss_total_staked :: token_amount
  ss_total_burned :: token_amount
  ss_validator_count :: u32
  ss_compute_node_count :: u32
  ss_network_utilization :: u8
  ss_current_burn_rate_bps :: u16

definition staking_stats_of :: "staking_manager \<Rightarrow> staking_stats" where
  "staking_stats_of sm =
     \<lparr>ss_total_staked = sm_total_staked sm, ss_total_burned = sm_total_burned sm,
      ss_validator_count = of_nat (length (validators sm)),
      ss_compute_node_count = of_nat (length (compute_nodes sm)),
      ss_network_utilization = sm_network_utilization sm,
      ss_current_burn_rate_bps = sm_current_burn_rate_bps sm\<rparr>"

end
