(* ===== verification/Job_Registry.thy ===== *)
theory Job_Registry
  imports Staking
begin

text \<open>
  \<open>src/crates/vm/src/system_contracts/job_registry.rs\<close>: the lifecycle of inference jobs. A job is
  submitted (its bid is locked), assigned to a prover, proved, verified and settled, or it is
  cancelled or expires.

  The record \<open>platform\<close> stands for what the registry calls outside this file: SHA-256 of the \<open>sha2\<close>
  crate, the compile-time features \<open>sgx\<close> and \<open>zkp\<close>, and the two verification precompiles. A call
  that does not return (the panic of \<open>clamp\<close> on reversed bounds, or the lock of \<open>slash\<close>) is \<open>None\<close>.
\<close>

section \<open>Platform\<close>

text \<open>
  The outcome of \<open>catch_unwind(|| precompile.execute(..))\<close>: a result with its \<open>success\<close> flag, an error
  with its text, or a panic.
\<close>

datatype tee_outcome = TeeDone bool | TeeError string | TeePanicked

record platform =
  pl_sha256 :: "bytes \<Rightarrow> bytes"
  pl_sgx :: bool
  pl_zkp :: bool
  pl_tee_execute :: "bool \<Rightarrow> bytes \<Rightarrow> u64 \<Rightarrow> tee_outcome"
  pl_zkp_gas_cost :: "bytes \<Rightarrow> u64"
  pl_zkp_execute :: "bytes \<Rightarrow> u64 \<Rightarrow> (string, bytes) result"

section \<open>Configuration\<close>

record job_config =
  jc_min_bid :: token_amount
  jc_max_bid :: token_amount
  jc_default_sla_timeout :: u64
  jc_min_sla_timeout :: u64
  jc_max_sla_timeout :: u64
  jc_cancellation_fee_bps :: u16
  jc_late_grace_period :: u64
  jc_late_penalty_bps :: u16
  jc_max_jobs_per_requester :: u32
  jc_max_active_jobs :: u64
  jc_enterprise_mode :: bool
  jc_require_cryptographic_verification :: bool

definition job_config_mainnet :: job_config where
  "job_config_mainnet =
     \<lparr>jc_min_bid = 100000000000000000, jc_max_bid = 100000000000000000000000,
      jc_default_sla_timeout = 3600, jc_min_sla_timeout = 60, jc_max_sla_timeout = 86400,
      jc_cancellation_fee_bps = 500, jc_late_grace_period = 60, jc_late_penalty_bps = 1000,
      jc_max_jobs_per_requester = 100, jc_max_active_jobs = 100000, jc_enterprise_mode = False,
      jc_require_cryptographic_verification = True\<rparr>"

definition job_config_testnet :: job_config where
  "job_config_testnet =
     \<lparr>jc_min_bid = 1000000000000000, jc_max_bid = 1000000000000000000000,
      jc_default_sla_timeout = 600, jc_min_sla_timeout = 30, jc_max_sla_timeout = 7200,
      jc_cancellation_fee_bps = 200, jc_late_grace_period = 30, jc_late_penalty_bps = 500,
      jc_max_jobs_per_requester = 1000, jc_max_active_jobs = 1000000, jc_enterprise_mode = False,
      jc_require_cryptographic_verification = True\<rparr>"

definition job_config_devnet :: job_config where
  "job_config_devnet =
     \<lparr>jc_min_bid = 0, jc_max_bid = max_val,
      jc_default_sla_timeout = 120, jc_min_sla_timeout = 10, jc_max_sla_timeout = 3600,
      jc_cancellation_fee_bps = 0, jc_late_grace_period = 10, jc_late_penalty_bps = 0,
      jc_max_jobs_per_requester = max_val, jc_max_active_jobs = max_val, jc_enterprise_mode = False,
      jc_require_cryptographic_verification = False\<rparr>"

definition job_config_validate :: "job_config \<Rightarrow> unit sys_result" where
  "job_config_validate c =
     (if jc_min_sla_timeout c \<ge> jc_max_sla_timeout c
      then Err (InvalidConfig ''min_sla_timeout must be < max_sla_timeout'')
      else if jc_cancellation_fee_bps c > 10000
      then Err (InvalidConfig ''cancellation_fee_bps must be <= 10000'')
      else Ok ())"

section \<open>SLA policy\<close>

record sla_policy =
  sla_deadline :: u64
  sla_grace_end :: u64
  sla_late_penalty_bps :: u16

definition base_timeout :: "job_config \<Rightarrow> u64 \<Rightarrow> u64 option" where
  "base_timeout config custom_timeout =
     (if custom_timeout > 0
      then clamp (jc_min_sla_timeout config) (jc_max_sla_timeout config) custom_timeout
      else Some (jc_default_sla_timeout config))"

definition adjusted_timeout :: "u64 \<Rightarrow> job_priority \<Rightarrow> u64" where
  "adjusted_timeout base priority = f64_as_word (f64_mul (u64_as_f64 base) (sla_multiplier priority))"

definition sla_policy_new :: "job_config \<Rightarrow> job_priority \<Rightarrow> u64 \<Rightarrow> u64 \<Rightarrow> sla_policy option" where
  "sla_policy_new config priority submitted_at custom_timeout =
     (case base_timeout config custom_timeout of
        None \<Rightarrow> None
      | Some base \<Rightarrow>
          let deadline = submitted_at + adjusted_timeout base priority
          in Some \<lparr>sla_deadline = deadline, sla_grace_end = deadline + jc_late_grace_period config,
                   sla_late_penalty_bps = jc_late_penalty_bps config\<rparr>)"

definition sla_is_expired :: "sla_policy \<Rightarrow> u64 \<Rightarrow> bool" where
  "sla_is_expired p current_time = (current_time > sla_grace_end p)"

definition sla_is_late :: "sla_policy \<Rightarrow> u64 \<Rightarrow> bool" where
  "sla_is_late p current_time = (current_time > sla_deadline p \<and> current_time \<le> sla_grace_end p)"

definition late_penalty :: "sla_policy \<Rightarrow> token_amount \<Rightarrow> token_amount" where
  "late_penalty p amount = amount * ucast (sla_late_penalty_bps p) div 10000"

section \<open>Jobs\<close>

record job_state =
  js_job_id :: job_id
  js_requester :: address
  js_assigned_prover :: "address option"
  js_status :: job_status
  js_bid_amount :: token_amount
  js_model_hash :: hash
  js_input_hash :: hash
  js_output_hash :: "hash option"
  js_verification_method :: verification_method
  js_priority :: job_priority
  js_sla :: sla_policy
  js_tags :: "compliance_tag list"
  js_submitted_at :: u64
  js_assigned_at :: "u64 option"
  js_proof_submitted_at :: "u64 option"
  js_verified_at :: "u64 option"
  js_settled_at :: "u64 option"
  js_callback :: "address option"
  js_encrypted_input :: "bytes option"
  js_result :: "bytes option"

definition job_state_new :: "job_id \<Rightarrow> submit_job_params \<Rightarrow> job_config \<Rightarrow> u64 \<Rightarrow> job_state option" where
  "job_state_new jid params config submitted_at =
     (case sla_policy_new config (sj_priority params) submitted_at (sj_sla_timeout params) of
        None \<Rightarrow> None
      | Some sla \<Rightarrow>
          Some \<lparr>js_job_id = jid, js_requester = sj_requester params, js_assigned_prover = None,
                js_status = Submitted, js_bid_amount = sj_bid_amount params,
                js_model_hash = sj_model_hash params, js_input_hash = sj_input_hash params,
                js_output_hash = None, js_verification_method = sj_verification_method params,
                js_priority = sj_priority params, js_sla = sla, js_tags = sj_tags params,
                js_submitted_at = submitted_at, js_assigned_at = None,
                js_proof_submitted_at = None, js_verified_at = None, js_settled_at = None,
                js_callback = sj_callback params, js_encrypted_input = sj_encrypted_input params,
                js_result = None\<rparr>)"

fun can_transition :: "job_status \<Rightarrow> job_status \<Rightarrow> bool" where
  "can_transition Submitted Assigned = True"
| "can_transition Submitted Cancelled = True"
| "can_transition Assigned Proving = True"
| "can_transition Assigned Cancelled = True"
| "can_transition Assigned Expired = True"
| "can_transition Proving Verifying = True"
| "can_transition Proving Expired = True"
| "can_transition Verifying Verified = True"
| "can_transition Verifying Failed = True"
| "can_transition Verified Settled = True"
| "can_transition _ _ = False"

definition can_transition_to :: "job_state \<Rightarrow> job_status \<Rightarrow> bool" where
  "can_transition_to job new_status = can_transition (js_status job) new_status"

section \<open>Registry\<close>

record job_registry =
  jr_config :: job_config
  jr_jobs :: "(job_id, job_state) hashmap"
  jr_jobs_by_requester :: "(address, job_id list) hashmap"
  jr_jobs_by_prover :: "(address, job_id list) hashmap"
  jr_jobs_by_deadline :: "(u64, job_id list) btreemap"
  jr_active_jobs :: u64
  jr_total_jobs :: u64
  jr_job_nonces :: "(address, u64) hashmap"
  jr_events :: "job_event list"
  jr_seen_attestation_hashes :: "hash set"
  jr_enterprise_mode :: bool
  jr_enterprise_zkml_config :: enterprise_mode_config
  jr_registered_circuits :: "hash set"

definition job_registry_new :: "job_config \<Rightarrow> job_registry" where
  "job_registry_new config =
     \<lparr>jr_config = config, jr_jobs = [], jr_jobs_by_requester = [], jr_jobs_by_prover = [],
      jr_jobs_by_deadline = [], jr_active_jobs = 0, jr_total_jobs = 0, jr_job_nonces = [],
      jr_events = [], jr_seen_attestation_hashes = {}, jr_enterprise_mode = False,
      jr_enterprise_zkml_config = enterprise_mode_default\<lparr>em_enabled := False\<rparr>,
      jr_registered_circuits = {}\<rparr>"

definition job_registry_new_enterprise :: "job_config \<Rightarrow> job_registry" where
  "job_registry_new_enterprise config =
     (job_registry_new config)\<lparr>jr_enterprise_mode := True,
        jr_enterprise_zkml_config := enterprise_mode_default\<lparr>em_enabled := True\<rparr>\<rparr>"

definition set_enterprise_mode :: "job_registry \<Rightarrow> bool \<Rightarrow> job_registry" where
  "set_enterprise_mode r enabled = r\<lparr>jr_enterprise_mode := enabled\<rparr>"

definition requires_cryptographic_verification :: "job_registry \<Rightarrow> bool" where
  "requires_cryptographic_verification r =
     (jr_enterprise_mode r \<or> jc_require_cryptographic_verification (jr_config r))"

definition set_enterprise_zkml_config :: "job_registry \<Rightarrow> enterprise_mode_config \<Rightarrow> job_registry" where
  "set_enterprise_zkml_config r config = r\<lparr>jr_enterprise_zkml_config := config\<rparr>"

definition register_circuit :: "job_registry \<Rightarrow> hash \<Rightarrow> job_registry" where
  "register_circuit r vk_hash = r\<lparr>jr_registered_circuits := insert vk_hash (jr_registered_circuits r)\<rparr>"

definition job_drain_events :: "job_registry \<Rightarrow> job_registry \<times> job_event list" where
  "job_drain_events r = (r\<lparr>jr_events := []\<rparr>, jr_events r)"

definition get_job :: "job_registry \<Rightarrow> job_id \<Rightarrow> job_state option" where
  "get_job r jid = hm_get (jr_jobs r) jid"

definition get_jobs_by_requester :: "job_registry \<Rightarrow> address \<Rightarrow> job_state list" where
  "get_jobs_by_requester r a =
     (case hm_get (jr_jobs_by_requester r) a of
        None \<Rightarrow> [] | Some ids \<Rightarrow> List.map_filter (hm_get (jr_jobs r)) ids)"

definition get_jobs_by_prover :: "job_registry \<Rightarrow> address \<Rightarrow> job_state list" where
  "get_jobs_by_prover r a =
     (case hm_get (jr_jobs_by_prover r) a of
        None \<Rightarrow> [] | Some ids \<Rightarrow> List.map_filter (hm_get (jr_jobs r)) ids)"

definition emit_job :: "job_event \<Rightarrow> job_registry \<Rightarrow> job_registry" where
  "emit_job e r = r\<lparr>jr_events := jr_events r @ [e]\<rparr>"

definition put_job :: "job_id \<Rightarrow> job_state \<Rightarrow> job_registry \<Rightarrow> job_registry" where
  "put_job jid job r = r\<lparr>jr_jobs := hm_insert jid job (jr_jobs r)\<rparr>"

text \<open>\<open>map.entry(k).or_default().push(x)\<close>.\<close>

definition hm_push :: "'k \<Rightarrow> 'v \<Rightarrow> ('k, 'v list) hashmap \<Rightarrow> ('k, 'v list) hashmap" where
  "hm_push k x m = hm_insert k (hm_entry [] m k @ [x]) m"

definition bt_push :: "'k::linorder \<Rightarrow> 'v \<Rightarrow> ('k, 'v list) btreemap \<Rightarrow> ('k, 'v list) btreemap" where
  "bt_push k x m = bt_insert k ((case bt_get m k of Some xs \<Rightarrow> xs | None \<Rightarrow> []) @ [x]) m"

section \<open>Submission\<close>

definition submit_job ::
    "platform \<Rightarrow> job_registry \<Rightarrow> submit_job_params \<Rightarrow> block_context \<Rightarrow> bank
      \<Rightarrow> (job_registry \<times> bank \<times> job_submit_result sys_result) option" where
  "submit_job pl r params ctx b =
     (let config = jr_config r;
          requester = sj_requester params;
          requester_jobs = (case hm_get (jr_jobs_by_requester r) requester of
                              Some ids \<Rightarrow> length ids | None \<Rightarrow> 0)
      in if sj_bid_amount params < jc_min_bid config
         then Some (r, b, Err (InsufficientBid (jc_min_bid config) (sj_bid_amount params)))
         else if sj_bid_amount params > jc_max_bid config
         then Some (r, b, Err (InsufficientBid (jc_max_bid config) (sj_bid_amount params)))
         else if requester_jobs \<ge> unat (jc_max_jobs_per_requester config)
         then Some (r, b, Err (InvalidAmount (''Max jobs per requester (''
                @ show_word (jc_max_jobs_per_requester config) @ '') exceeded'')))
         else if jr_active_jobs r \<ge> jc_max_active_jobs config
         then Some (r, b, Err (InvalidAmount ''Maximum active jobs in system reached''))
         else
           let nonce = hm_entry 0 (jr_job_nonces r) requester;
               jid = generate_job_id (pl_sha256 pl) requester (sj_model_hash params)
                       (sj_input_hash params) nonce;
               r = r\<lparr>jr_job_nonces := hm_insert requester (nonce + 1) (jr_job_nonces r)\<rparr>
           in case lock b requester (sj_bid_amount params) of
                (b, Err e) \<Rightarrow> Some (r, b, Err e)
              | (b, Ok _) \<Rightarrow>
                  (case job_state_new jid params config (ctx_timestamp ctx) of
                     None \<Rightarrow> None
                   | Some job \<Rightarrow>
                       let deadline = sla_deadline (js_sla job);
                           r = put_job jid job r;
                           r = r\<lparr>jr_jobs_by_requester := hm_push requester jid (jr_jobs_by_requester r),
                                 jr_jobs_by_deadline := bt_push deadline jid (jr_jobs_by_deadline r),
                                 jr_active_jobs := jr_active_jobs r + 1,
                                 jr_total_jobs := jr_total_jobs r + 1\<rparr>;
                           r = emit_job (JobSubmitted jid requester (sj_model_hash params)
                                 (sj_bid_amount params) deadline (ctx_height ctx)) r
                       in Some (r, b, Ok \<lparr>jsr_job_id = jid, jsr_escrowed = sj_bid_amount params,
                                         jsr_sla_deadline = deadline\<rparr>)))"

section \<open>Assignment\<close>

definition assign_job ::
    "job_registry \<Rightarrow> job_id \<Rightarrow> address \<Rightarrow> block_context \<Rightarrow> job_registry \<times> job_assign_result sys_result" where
  "assign_job r jid prover ctx =
     (case hm_get (jr_jobs r) jid of
        None \<Rightarrow> (r, Err (job_not_found jid))
      | Some job \<Rightarrow>
          if \<not> can_transition_to job Assigned
          then (r, Err (InvalidJobStatus ''Submitted'' (show_job_status (js_status job))))
          else case js_assigned_prover job of
            Some p \<Rightarrow> (r, Err (JobAlreadyAssigned (hex_encode jid) (hex_encode p)))
          | None \<Rightarrow>
              if sla_is_expired (js_sla job) (ctx_timestamp ctx)
              then (r, Err (sla_violation jid (sla_deadline (js_sla job)) (ctx_timestamp ctx)))
              else
                let job = job\<lparr>js_assigned_prover := Some prover,
                              js_assigned_at := Some (ctx_timestamp ctx), js_status := Assigned\<rparr>;
                    r = put_job jid job r;
                    r = r\<lparr>jr_jobs_by_prover := hm_push prover jid (jr_jobs_by_prover r)\<rparr>;
                    r = emit_job (JobAssigned jid prover (ctx_timestamp ctx) (ctx_height ctx)) r
                in (r, Ok \<lparr>jar_job_id = jid, jar_prover = prover, jar_assigned_at = ctx_timestamp ctx\<rparr>))"

section \<open>Verification\<close>

fun platform_prefix :: "tee_type \<Rightarrow> u8" where
  "platform_prefix AwsNitro = 0x01"
| "platform_prefix IntelSgx = 0x02"
| "platform_prefix AmdSev = 0x04"

text \<open>The \<open>match precompile_outcome\<close>: the error it returns, if any.\<close>

definition tee_outcome_error :: "platform \<Rightarrow> job_registry \<Rightarrow> tee_outcome \<Rightarrow> string option" where
  "tee_outcome_error pl r outcome =
     (case outcome of
        TeeDone success \<Rightarrow>
          if success then None
          else if pl_sgx pl then Some ''TEE precompile rejected attestation''
          else if requires_cryptographic_verification r
          then Some ''TEE precompile rejected attestation in fail-closed mode''
          else None
      | TeeError e \<Rightarrow>
          if pl_sgx pl then Some (''TEE precompile error: '' @ e)
          else if requires_cryptographic_verification r
          then Some (''TEE precompile error in fail-closed mode: '' @ e)
          else None
      | TeePanicked \<Rightarrow>
          if pl_sgx pl then Some ''TEE precompile panicked during verification''
          else if requires_cryptographic_verification r
          then Some ''TEE precompile panicked during verification in fail-closed mode''
          else None)"

definition verify_tee_attestation ::
    "platform \<Rightarrow> job_registry \<Rightarrow> tee_attestation \<Rightarrow> job_state \<Rightarrow> job_registry \<times> bool sys_result" where
  "verify_tee_attestation pl r att job =
     (let fail = (\<lambda>reason. (r, Err (TeeVerificationFailed reason)));
          att_hash = pl_sha256 pl (ta_attestation att)
      in if ta_attestation att = [] then fail ''Empty attestation''
         else if ta_measurement att = replicate 32 0 then fail ''Invalid measurement (all zeros)''
         else if ta_measurement att \<noteq> js_model_hash job
         then fail (''Measurement mismatch: expected '' @ debug_bytes (take 4 (js_model_hash job))
                    @ '', got '' @ debug_bytes (take 4 (ta_measurement att)))
         else if js_submitted_at job > ta_timestamp att \<or> ta_timestamp att > sla_deadline (js_sla job)
         then fail ''Attestation timestamp outside SLA window''
         else if length (ta_attestation att) < 64
         then fail (''Attestation too short: '' @ show_nat (length (ta_attestation att))
                    @ '' bytes (minimum 64)'')
         else if att_hash \<in> jr_seen_attestation_hashes r then fail ''attestation replay detected''
         else if jr_enterprise_mode r \<and> hd (ta_attestation att) = 0xFF
         then fail ''Enterprise mode rejects simulated TEE attestations''
         else
           let precompile_input = platform_prefix (ta_tee_type att) # ta_attestation att;
               outcome = pl_tee_execute pl (jr_enterprise_mode r) precompile_input 1000000
           in case tee_outcome_error pl r outcome of
                Some reason \<Rightarrow> fail reason
              | None \<Rightarrow>
                  (r\<lparr>jr_seen_attestation_hashes := insert att_hash (jr_seen_attestation_hashes r)\<rparr>, Ok True))"

definition flatten_public_inputs :: "hash list \<Rightarrow> bytes" where
  "flatten_public_inputs public_inputs = concat public_inputs"

text \<open>\<open>u32::try_from(n).map_err(..)?.to_le_bytes()\<close> and its 16-bit form.\<close>

definition le_len :: "nat \<Rightarrow> nat \<Rightarrow> string \<Rightarrow> bytes sys_result" where
  "le_len width n reason =
     (if n < 2 ^ (8 * width) then Ok (le_bytes width (of_nat n :: u64)) else Err (ZkVerificationFailed reason))"

definition pad_to :: "nat \<Rightarrow> bytes \<Rightarrow> bytes" where
  "pad_to n bs = take n bs @ replicate (n - length bs) 0"

definition encode_unified_zkp_input :: "zk_proof \<Rightarrow> job_state \<Rightarrow> bytes sys_result" where
  "encode_unified_zkp_input zp job =
     (let inputs = flatten_public_inputs (zk_public_inputs zp)
      in case zk_sys zp of
        Plonk \<Rightarrow>
          (case le_len 4 (length (zk_proof_bytes zp)) ''PLONK proof exceeds 4 GiB precompile envelope'' of
             Err e \<Rightarrow> Err e
           | Ok proof_len \<Rightarrow>
               map_result (\<lambda>n. [0x02] @ proof_len @ zk_vk_hash zp @ n @ inputs @ zk_proof_bytes zp)
                 (le_len 4 (length (zk_public_inputs zp))
                    ''too many PLONK public inputs for precompile envelope''))
      | Ezkl \<Rightarrow>
          (case le_len 2 (length (zk_public_inputs zp)) ''too many EZKL public inputs for precompile envelope'' of
             Err e \<Rightarrow> Err e
           | Ok n \<Rightarrow>
               map_result (\<lambda>proof_len. [0x03, 1, 0] @ js_model_hash job @ zk_vk_hash zp @ n @ proof_len
                              @ inputs @ zk_proof_bytes zp)
                 (le_len 4 (length (zk_proof_bytes zp)) ''EZKL proof exceeds 4 GiB precompile envelope''))
      | Halo2 \<Rightarrow> Ok ([0x04] @ zk_vk_hash zp @ inputs @ zk_proof_bytes zp)
      | Groth16 \<Rightarrow> Ok ([0x01] @ pad_to 544 (zk_vk_hash zp) @ pad_to 192 (zk_proof_bytes zp) @ inputs)
      | Stark \<Rightarrow>
          map_result (\<lambda>n. [0x05] @ zk_vk_hash zp @ n @ inputs @ zk_proof_bytes zp)
            (le_len 4 (length (zk_public_inputs zp)) ''too many STARK public inputs for precompile envelope''))"

definition verify_zk_proof_via_precompile ::
    "platform \<Rightarrow> job_registry \<Rightarrow> zk_proof \<Rightarrow> job_state \<Rightarrow> bool sys_result" where
  "verify_zk_proof_via_precompile pl r zp job =
     (case encode_unified_zkp_input zp job of
        Err e \<Rightarrow> Err e
      | Ok input \<Rightarrow>
          (case pl_zkp_execute pl input (pl_zkp_gas_cost pl input) of
             Err err \<Rightarrow> Err (ZkVerificationFailed (''0x0300 precompile execution failed: '' @ err))
           | Ok output \<Rightarrow>
               let precompile_valid = (output \<noteq> [] \<and> last output = 1)
               in if em_enabled (jr_enterprise_zkml_config r) \<and> \<not> precompile_valid
                  then Err (ZkVerificationFailed
                    ''Enterprise mode: 0x0300 precompile reported an invalid proof (hard-fail)'')
                  else if jc_require_cryptographic_verification (jr_config r) \<and> \<not> precompile_valid
                  then Err (ZkVerificationFailed
                    ''0x0300 precompile reported an invalid proof in fail-closed mode'')
                  else if pl_zkp pl \<and> \<not> precompile_valid
                  then Err (ZkVerificationFailed ''0x0300 precompile reported an invalid proof'')
                  else Ok True))"

text \<open>The two enterprise guards of \<open>verify_zk_proof\<close>, in their order.\<close>

definition enterprise_zk_guard :: "job_registry \<Rightarrow> zk_proof \<Rightarrow> job_state \<Rightarrow> string option" where
  "enterprise_zk_guard r zp job =
     (let ent = jr_enterprise_zkml_config r
      in if em_enabled ent \<and> em_require_registered_circuit ent
            \<and> zk_vk_hash zp \<notin> jr_registered_circuits r
         then Some ''Enterprise mode: circuit vk_hash is not registered''
         else if em_enabled ent \<and> em_require_domain_binding ent
         then (case js_output_hash job of
                 None \<Rightarrow> Some ''Enterprise mode: job output_hash is required for domain binding but is None''
               | Some output_hash \<Rightarrow>
                   if length (zk_public_inputs zp) < 3
                   then Some ''Enterprise mode: domain binding requires >= 3 public inputs (model, input, output)''
                   else if zk_public_inputs zp ! 2 \<noteq> output_hash
                   then Some ''Enterprise mode: public_input[2] (output commitment) does not match job output_hash''
                   else None)
         else None)"

definition verify_zk_proof ::
    "platform \<Rightarrow> job_registry \<Rightarrow> zk_proof \<Rightarrow> job_state \<Rightarrow> bool sys_result" where
  "verify_zk_proof pl r zp job =
     (let fail = (\<lambda>reason. Err (ZkVerificationFailed reason))
      in if zk_proof_bytes zp = [] then fail ''Empty proof''
         else if length (zk_public_inputs zp) < 2
         then fail (''Insufficient public inputs: expected >= 2, got '' @ show_nat (length (zk_public_inputs zp)))
         else if zk_public_inputs zp ! 0 \<noteq> js_model_hash job
         then fail ''Public input[0] (model hash) does not match job''
         else if zk_public_inputs zp ! 1 \<noteq> js_input_hash job
         then fail ''Public input[1] (input hash) does not match job''
         else if zk_vk_hash zp = replicate 32 0 then fail ''Zero verification key hash''
         else case enterprise_zk_guard r zp job of
           Some reason \<Rightarrow> fail reason
         | None \<Rightarrow>
             if length (zk_proof_bytes zp) < 128
             then fail (''Proof too short: '' @ show_nat (length (zk_proof_bytes zp)) @ '' bytes (minimum 128)'')
             else verify_zk_proof_via_precompile pl r zp job)"

definition verify_proof ::
    "platform \<Rightarrow> job_registry \<Rightarrow> compute_proof \<Rightarrow> job_state \<Rightarrow> job_registry \<times> bool sys_result" where
  "verify_proof pl r proof job =
     (case pf_method proof of
        TeeAttestation \<Rightarrow>
          (case pf_tee_attestation proof of
             None \<Rightarrow> (r, Err (InvalidProof ''TEE attestation required but not provided''))
           | Some att \<Rightarrow> verify_tee_attestation pl r att job)
      | ZkProof \<Rightarrow>
          (case pf_zk_proof proof of
             None \<Rightarrow> (r, Err (InvalidProof ''ZK proof required but not provided''))
           | Some zp \<Rightarrow> (r, verify_zk_proof pl r zp job))
      | Hybrid \<Rightarrow>
          (case pf_tee_attestation proof of
             None \<Rightarrow> (r, Err (InvalidProof ''TEE attestation required for hybrid verification''))
           | Some att \<Rightarrow>
               (case pf_zk_proof proof of
                  None \<Rightarrow> (r, Err (InvalidProof ''ZK proof required for hybrid verification''))
                | Some zp \<Rightarrow>
                    try_then (verify_tee_attestation pl r att job) (\<lambda>r tee_valid.
                      (r, map_result (\<lambda>zk_valid. tee_valid \<and> zk_valid) (verify_zk_proof pl r zp job)))))
      | ReExecution \<Rightarrow> (r, Ok (pf_output_hash proof \<noteq> replicate 32 0)))"

section \<open>Proof submission and settlement\<close>

text \<open>
  Steps 6 and 7 of \<open>submit_proof\<close>: the late penalty, the fee split and the five bank calls, each with
  its \<open>?\<close>.
\<close>

definition pay_settlement ::
    "staking_manager \<Rightarrow> job_state \<Rightarrow> address \<Rightarrow> address \<Rightarrow> bool \<Rightarrow> bank
      \<Rightarrow> bank \<times> (token_amount \<times> token_amount \<times> token_amount) sys_result" where
  "pay_settlement sm job prover proposer is_late b =
     (let requester = js_requester job;
          penalty = late_penalty (js_sla job) (js_bid_amount job);
          fee = (if is_late then saturating_sub (js_bid_amount job) penalty else js_bid_amount job)
      in try_then (if is_late then burn b requester penalty else (b, Ok ())) (\<lambda>b _.
         let (prover_reward, validator_reward, burn_amount) = calculate_fee_split sm fee
         in try_then (unlock b requester (js_bid_amount job)) (\<lambda>b _.
            try_then (transfer b requester prover prover_reward) (\<lambda>b _.
            try_then (transfer b requester proposer validator_reward) (\<lambda>b _.
            try_then (burn b requester burn_amount) (\<lambda>b _.
              (b, Ok (prover_reward, validator_reward, burn_amount))))))))"

type_synonym proof_outcome =
  "(job_registry \<times> staking_manager \<times> bank lock_cell \<times> bank \<times> proof_submit_result sys_result) option"

text \<open>
  The two branches that slash the prover and close the job have the same shape: the slash and its \<open>?\<close>,
  the new status, the counter, an event with the slashed amount, and an error.
\<close>

definition slash_and_close ::
    "(staking_manager \<times> bank lock_cell \<times> token_amount sys_result) option \<Rightarrow> job_registry \<Rightarrow> job_id
      \<Rightarrow> job_state \<Rightarrow> job_status \<Rightarrow> (token_amount \<Rightarrow> job_event) \<Rightarrow> sys_error \<Rightarrow> bank \<Rightarrow> proof_outcome" where
  "slash_and_close slash r jid job status event err b =
     (case slash of
        None \<Rightarrow> None
      | Some (sm, cell, Err e) \<Rightarrow> Some (r, sm, cell, b, Err e)
      | Some (sm, cell, Ok slash_amount) \<Rightarrow>
          let r = put_job jid (job\<lparr>js_status := status\<rparr>) r;
              r = r\<lparr>jr_active_jobs := saturating_sub (jr_active_jobs r) 1\<rparr>;
              r = emit_job (event slash_amount) r
          in Some (r, sm, cell, b, Err err))"

text \<open>The checks between the SLA check and the verification (steps 3 and 4).\<close>

definition proof_precheck :: "job_registry \<Rightarrow> compute_proof \<Rightarrow> job_state \<Rightarrow> sys_error option" where
  "proof_precheck r pf job =
     (if pf_method pf \<noteq> js_verification_method job
      then Some (ProofMethodMismatch (js_verification_method job) (pf_method pf))
      else if jc_enterprise_mode (jr_config r) \<and> pf_method pf \<noteq> Hybrid
      then Some (SettlementFailed (''Enterprise mode requires Hybrid verification, got ''
                   @ debug_verification_method (pf_method pf)))
      else if jc_enterprise_mode (jr_config r) \<and> \<not> is_enterprise_compliant pf
      then Some (SettlementFailed ''Enterprise mode requires both TEE attestation and ZK proof'')
      else None)"

text \<open>Steps 5 to 9, for a verified proof.\<close>

definition settle_job ::
    "job_registry \<Rightarrow> submit_proof_params \<Rightarrow> job_state \<Rightarrow> block_context \<Rightarrow> staking_manager \<Rightarrow> bank
      \<Rightarrow> job_registry \<times> bank \<times> proof_submit_result sys_result" where
  "settle_job r params job ctx sm b =
     (let jid = sb_job_id params; prover = sb_prover params; pf = sb_proof params;
          now = ctx_timestamp ctx;
          job = job\<lparr>js_output_hash := Some (pf_output_hash pf),
                    js_proof_submitted_at := Some now, js_verified_at := Some now,
                    js_result := Some (sb_result params), js_status := Verified\<rparr>;
          r = put_job jid job r
      in case pay_settlement sm job prover (ctx_proposer ctx) (sla_is_late (js_sla job) now) b of
           (b, Err e) \<Rightarrow> (r, b, Err e)
         | (b, Ok (prover_reward, validator_reward, burn_amount)) \<Rightarrow>
             let r = put_job jid (job\<lparr>js_settled_at := Some now, js_status := Settled\<rparr>) r;
                 r = r\<lparr>jr_active_jobs := saturating_sub (jr_active_jobs r) 1\<rparr>;
                 r = emit_job (ProofSubmitted jid prover (pf_output_hash pf)
                       (verification_method_u8 (pf_method pf)) (ctx_height ctx)) r;
                 r = emit_job (JobSettled jid prover (js_requester job) prover_reward
                       validator_reward burn_amount (ctx_height ctx)) r
             in (r, b, Ok \<lparr>psr_job_id = jid, psr_verified = True, psr_prover_reward = prover_reward,
                          psr_validator_reward = validator_reward, psr_burned = burn_amount\<rparr>))"

text \<open>
  \<open>submit_proof\<close>. \<open>cell\<close> is the lock of the bank that the staking manager holds, \<open>b\<close> the bank the caller
  passes; in the kernel both are the same bank.
\<close>

definition submit_proof ::
    "platform \<Rightarrow> job_registry \<Rightarrow> submit_proof_params \<Rightarrow> block_context \<Rightarrow> staking_manager \<Rightarrow> bank lock_cell
      \<Rightarrow> bank \<Rightarrow> proof_outcome" where
  "submit_proof pl r params ctx sm cell b =
     (let jid = sb_job_id params; prover = sb_prover params; now = ctx_timestamp ctx
      in case hm_get (jr_jobs r) jid of
        None \<Rightarrow> Some (r, sm, cell, b, Err (job_not_found jid))
      | Some job \<Rightarrow>
          if js_assigned_prover job \<noteq> Some prover
          then Some (r, sm, cell, b, Err (unauthorized_prover
                 (case js_assigned_prover job of Some p \<Rightarrow> p | None \<Rightarrow> replicate 32 0) prover))
          else if sla_is_expired (js_sla job) now
          then slash_and_close (slash_for_sla_violation sm cell prover) r jid job Expired
                 (JobExpired jid prover (sla_deadline (js_sla job)) now)
                 (sla_violation jid (sla_deadline (js_sla job)) now) b
          else case proof_precheck r (sb_proof params) job of
            Some e \<Rightarrow> Some (r, sm, cell, b, Err e)
          | None \<Rightarrow>
              (case verify_proof pl r (sb_proof params) job of
                 (r, Err e) \<Rightarrow> Some (r, sm, cell, b, Err e)
               | (r, Ok verified) \<Rightarrow>
                   if \<not> verified
                   then slash_and_close (slash_for_invalid_proof sm cell prover) r jid job Failed
                          (JobFailed jid prover ''Proof verification failed'')
                          (InvalidProof ''Verification failed'') b
                   else case settle_job r params job ctx sm b of
                     (r, b, res) \<Rightarrow> Some (r, sm, cell, b, res)))"

section \<open>Cancellation\<close>

definition cancel_job ::
    "job_registry \<Rightarrow> job_id \<Rightarrow> address \<Rightarrow> block_context \<Rightarrow> bank
      \<Rightarrow> job_registry \<times> bank \<times> job_cancel_result sys_result" where
  "cancel_job r jid requester ctx b =
     (case hm_get (jr_jobs r) jid of
        None \<Rightarrow> (r, b, Err (job_not_found jid))
      | Some job \<Rightarrow>
          if js_requester job \<noteq> requester
          then (r, b, Err (OnlyRequesterCanCancel (hex_encode (js_requester job)) (hex_encode requester)))
          else if \<not> can_cancel (js_status job)
          then (r, b, Err (CannotCancelJob (hex_encode jid) (js_status job)))
          else
            let cancellation_fee = js_bid_amount job * ucast (jc_cancellation_fee_bps (jr_config r)) div 10000;
                refund_amount = saturating_sub (js_bid_amount job) cancellation_fee
            in case try_then (unlock b requester (js_bid_amount job)) (\<lambda>b _.
                      if cancellation_fee > 0 then burn b requester cancellation_fee else (b, Ok ())) of
                 (b, Err e) \<Rightarrow> (r, b, Err e)
               | (b, Ok _) \<Rightarrow>
                   let r = put_job jid (job\<lparr>js_status := Cancelled\<rparr>) r;
                       r = r\<lparr>jr_active_jobs := saturating_sub (jr_active_jobs r) 1\<rparr>;
                       r = emit_job (JobCancelled jid requester refund_amount cancellation_fee (ctx_height ctx)) r
                   in (r, b, Ok \<lparr>jcr_job_id = jid, jcr_refunded = refund_amount,
                                 jcr_cancellation_fee = cancellation_fee\<rparr>))"

section \<open>Expiry\<close>

text \<open>The body of the inner loop of \<open>process_expired_jobs\<close>.\<close>

definition expire_job :: "u64 \<Rightarrow> job_id \<Rightarrow> job_registry \<times> job_event list \<Rightarrow> job_registry \<times> job_event list" where
  "expire_job now jid s =
     (case s of (r, events) \<Rightarrow>
       (case hm_get (jr_jobs r) jid of
          None \<Rightarrow> (r, events)
        | Some job \<Rightarrow>
            if is_active (js_status job) \<and> sla_is_expired (js_sla job) now
            then ((put_job jid (job\<lparr>js_status := Expired\<rparr>) r)
                    \<lparr>jr_active_jobs := saturating_sub (jr_active_jobs r) 1\<rparr>,
                  events @ [JobExpired jid
                    (case js_assigned_prover job of Some p \<Rightarrow> p | None \<Rightarrow> replicate 32 0)
                    (sla_deadline (js_sla job)) now 0])
            else (r, events)))"

definition expire_deadline :: "u64 \<Rightarrow> u64 \<Rightarrow> job_registry \<times> job_event list \<Rightarrow> job_registry \<times> job_event list" where
  "expire_deadline now deadline s =
     (case s of (r, events) \<Rightarrow>
       (case bt_get (jr_jobs_by_deadline r) deadline of
          None \<Rightarrow> (r, events)
        | Some job_ids \<Rightarrow>
            fold (expire_job now) job_ids
              (r\<lparr>jr_jobs_by_deadline := bt_remove deadline (jr_jobs_by_deadline r)\<rparr>, events)))"

definition process_expired_jobs ::
    "job_registry \<Rightarrow> u64 \<Rightarrow> job_registry \<times> job_event list sys_result" where
  "process_expired_jobs r current_time =
     (case fold (expire_deadline current_time) (bt_keys_upto current_time (jr_jobs_by_deadline r)) (r, []) of
        (r, events) \<Rightarrow> (r, Ok events))"

section \<open>Statistics\<close>

record job_registry_stats =
  jst_total_jobs :: u64
  jst_active_jobs :: u64
  jst_total_requesters :: u64
  jst_total_provers :: u64

definition job_registry_stats_of :: "job_registry \<Rightarrow> job_registry_stats" where
  "job_registry_stats_of r =
     \<lparr>jst_total_jobs = jr_total_jobs r, jst_active_jobs = jr_active_jobs r,
      jst_total_requesters = of_nat (length (jr_jobs_by_requester r)),
      jst_total_provers = of_nat (length (jr_jobs_by_prover r))\<rparr>"

end
