(* ===== verification/Compliance_Module.thy ===== *)
theory Compliance_Module
  imports Errors Events
begin

text \<open>
  \<open>src/crates/vm/src/system_contracts/compliance.rs\<close>: standards, violations, certifications, the
  sanctions bloom filter, jurisdictions, consents and the pre-execution check \<open>enforce\<close>. SHA-256 is
  the argument \<open>sha\<close> and the wall clock that stamps the audit log the argument \<open>now\<close>. The floating
  point estimate \<open>false_positive_rate\<close> (it needs \<open>exp\<close> and \<open>powf\<close>) is left out.
\<close>

unbundle bit_operations_syntax

section \<open>Standards\<close>

definition MAX_CERTIFICATIONS_PER_ENTITY :: nat where
  "MAX_CERTIFICATIONS_PER_ENTITY = 32"

definition SANCTIONS_BLOOM_SIZE :: nat where
  "SANCTIONS_BLOOM_SIZE = 2 ^ 20"

definition SANCTIONS_BLOOM_HASHES :: nat where
  "SANCTIONS_BLOOM_HASHES = 7"

definition CERTIFICATION_GRACE_PERIOD :: u64 where
  "CERTIFICATION_GRACE_PERIOD = 30 * 24 * 60 * 60"

datatype compliance_standard =
  GdprEu | HipaaUs | OfacSanctions | CcpaCa | PdpaSg | UaeDpl | BaselIii | Aml

fun standard_u8 :: "compliance_standard \<Rightarrow> u8" where
  "standard_u8 GdprEu = 1"
| "standard_u8 HipaaUs = 2"
| "standard_u8 OfacSanctions = 3"
| "standard_u8 CcpaCa = 4"
| "standard_u8 PdpaSg = 5"
| "standard_u8 UaeDpl = 6"
| "standard_u8 BaselIii = 7"
| "standard_u8 Aml = 8"

fun standard_name :: "compliance_standard \<Rightarrow> string" where
  "standard_name GdprEu = ''GDPR (EU)''"
| "standard_name HipaaUs = ''HIPAA (US)''"
| "standard_name OfacSanctions = ''OFAC Sanctions''"
| "standard_name CcpaCa = ''CCPA (California)''"
| "standard_name PdpaSg = ''PDPA (Singapore)''"
| "standard_name UaeDpl = ''UAE Data Protection''"
| "standard_name BaselIii = ''Basel III''"
| "standard_name Aml = ''AML''"

fun standard_jurisdiction :: "compliance_standard \<Rightarrow> string" where
  "standard_jurisdiction GdprEu = ''EU''"
| "standard_jurisdiction HipaaUs = ''US''"
| "standard_jurisdiction OfacSanctions = ''US''"
| "standard_jurisdiction CcpaCa = ''US-CA''"
| "standard_jurisdiction PdpaSg = ''SG''"
| "standard_jurisdiction UaeDpl = ''AE''"
| "standard_jurisdiction BaselIii = ''INTL''"
| "standard_jurisdiction Aml = ''INTL''"

definition requires_certification :: "compliance_standard \<Rightarrow> bool" where
  "requires_certification s = (s \<in> {GdprEu, HipaaUs, CcpaCa, PdpaSg, UaeDpl})"

definition involves_sanctions :: "compliance_standard \<Rightarrow> bool" where
  "involves_sanctions s = (s \<in> {OfacSanctions, Aml})"

definition min_certification_level :: "compliance_standard \<Rightarrow> u8" where
  "min_certification_level s =
     (case s of HipaaUs \<Rightarrow> 4 | OfacSanctions \<Rightarrow> 3 | BaselIii \<Rightarrow> 4 | Aml \<Rightarrow> 3 | _ \<Rightarrow> 2)"

definition standard_from_u8 :: "u8 \<Rightarrow> compliance_standard option" where
  "standard_from_u8 v =
     (if v = 1 then Some GdprEu else if v = 2 then Some HipaaUs else if v = 3 then Some OfacSanctions
      else if v = 4 then Some CcpaCa else if v = 5 then Some PdpaSg else if v = 6 then Some UaeDpl
      else if v = 7 then Some BaselIii else if v = 8 then Some Aml else None)"

fun from_requirement :: "compliance_requirement \<Rightarrow> compliance_standard" where
  "from_requirement ReqGdprEu = GdprEu"
| "from_requirement ReqHipaaUs = HipaaUs"
| "from_requirement ReqOfacSanctions = OfacSanctions"
| "from_requirement ReqCcpaCa = CcpaCa"
| "from_requirement ReqPdpaSg = PdpaSg"
| "from_requirement ReqUaeDpl = UaeDpl"
| "from_requirement ReqBaselIii = BaselIii"
| "from_requirement ReqAml = Aml"

section \<open>Violations and check results\<close>

datatype (plugins only: code size) violation_type =
    MissingCertification compliance_standard address
      \<comment> \<open>standard, entity\<close>
  | ExpiredCertification compliance_standard address u64
      \<comment> \<open>standard, entity, expired\_at\<close>
  | SanctionedAddress address string
      \<comment> \<open>address, list\_name\<close>
  | JurisdictionBlocked string string
      \<comment> \<open>jurisdiction, reason\<close>
  | DataResidencyViolation string string
      \<comment> \<open>required\_region, actual\_region\<close>
  | MissingConsent address string
      \<comment> \<open>data\_subject, purpose\<close>
  | MissingBaa address address
      \<comment> \<open>covered\_entity, business\_associate\<close>
  | AmlThresholdExceeded token_amount token_amount
      \<comment> \<open>amount, threshold\<close>
  | KycRequired address u8
      \<comment> \<open>entity, level\_required\<close>

fun violation_error_code :: "violation_type \<Rightarrow> u32" where
  "violation_error_code (MissingCertification _ _) = 5001"
| "violation_error_code (ExpiredCertification _ _ _) = 5002"
| "violation_error_code (SanctionedAddress _ _) = 5003"
| "violation_error_code (JurisdictionBlocked _ _) = 5004"
| "violation_error_code (DataResidencyViolation _ _) = 5005"
| "violation_error_code (MissingConsent _ _) = 5006"
| "violation_error_code (MissingBaa _ _) = 5007"
| "violation_error_code (AmlThresholdExceeded _ _) = 5008"
| "violation_error_code (KycRequired _ _) = 5009"

fun is_fatal :: "violation_type \<Rightarrow> bool" where
  "is_fatal (SanctionedAddress _ _) = True"
| "is_fatal (JurisdictionBlocked _ _) = True"
| "is_fatal (MissingCertification s _) = (s = HipaaUs)"
| "is_fatal _ = False"

record compliance_check_result =
  ccr_passed :: bool
  ccr_violations :: "violation_type list"
  ccr_standards_checked :: "compliance_standard list"
  ccr_checked_at :: u64
  ccr_check_id :: hash
  ccr_risk_score :: u8
  ccr_warnings :: "string list"

definition check_pass :: "compliance_standard list \<Rightarrow> hash \<Rightarrow> u64 \<Rightarrow> compliance_check_result" where
  "check_pass standards check_id timestamp =
     \<lparr>ccr_passed = True, ccr_violations = [], ccr_standards_checked = standards,
      ccr_checked_at = timestamp, ccr_check_id = check_id, ccr_risk_score = 0, ccr_warnings = []\<rparr>"

fun risk_weight :: "violation_type \<Rightarrow> u32" where
  "risk_weight (SanctionedAddress _ _) = 100"
| "risk_weight (JurisdictionBlocked _ _) = 80"
| "risk_weight (MissingCertification s _) = (if s = HipaaUs then 90 else 50)"
| "risk_weight (ExpiredCertification _ _ _) = 30"
| "risk_weight (AmlThresholdExceeded _ _) = 70"
| "risk_weight (KycRequired _ _) = 40"
| "risk_weight _ = 20"

definition calculate_risk_score :: "violation_type list \<Rightarrow> u8" where
  "calculate_risk_score violations =
     ucast (min (foldl (\<lambda>score v. score + risk_weight v) 0 violations) (100 :: u32))"

definition check_fail ::
    "violation_type list \<Rightarrow> compliance_standard list \<Rightarrow> hash \<Rightarrow> u64 \<Rightarrow> compliance_check_result" where
  "check_fail violations standards check_id timestamp =
     \<lparr>ccr_passed = False, ccr_violations = violations, ccr_standards_checked = standards,
      ccr_checked_at = timestamp, ccr_check_id = check_id,
      ccr_risk_score = calculate_risk_score violations, ccr_warnings = []\<rparr>"

definition add_warning :: "compliance_check_result \<Rightarrow> string \<Rightarrow> compliance_check_result" where
  "add_warning r w = r\<lparr>ccr_warnings := ccr_warnings r @ [w]\<rparr>"

definition has_fatal_violations :: "compliance_check_result \<Rightarrow> bool" where
  "has_fatal_violations r = list_ex is_fatal (ccr_violations r)"

section \<open>Identities and certifications\<close>

record did_parts =
  did_method :: string
  did_identifier :: string

definition did_from_address :: "address \<Rightarrow> did_parts" where
  "did_from_address a = \<lparr>did_method = ''aethelred'', did_identifier = hex_encode a\<rparr>"

definition did_to_string :: "did_parts \<Rightarrow> string" where
  "did_to_string d = ''did:'' @ did_method d @ '':'' @ did_identifier d"

text \<open>\<open>str::split\<close> on a character: a string with \<open>n\<close> separators has \<open>n + 1\<close> parts, possibly empty.\<close>

fun split_on :: "char \<Rightarrow> string \<Rightarrow> string list" where
  "split_on c [] = [[]]"
| "split_on c (x # xs) =
     (if x = c then [] # split_on c xs
      else case split_on c xs of p # ps \<Rightarrow> (x # p) # ps | [] \<Rightarrow> [[x]])"

definition did_from_string :: "string \<Rightarrow> did_parts option" where
  "did_from_string s =
     (let parts = split_on CHR '':'' s
      in if length parts \<ge> 3 \<and> parts ! 0 = ''did''
         then Some \<lparr>did_method = parts ! 1, did_identifier = intersperse_text '':'' (drop 2 parts)\<rparr>
         else None)"

record certification =
  ce_standard :: compliance_standard
  ce_entity_did :: did_parts
  ce_entity_address :: address
  ce_issuer :: did_parts
  ce_level :: u8
  ce_issued_at :: u64
  ce_expires_at :: u64
  ce_document_hash :: hash
  ce_metadata :: "(string, string) hashmap"
  ce_revoked :: bool
  ce_revocation_reason :: "string option"

definition cert_is_valid :: "certification \<Rightarrow> u64 \<Rightarrow> bool" where
  "cert_is_valid c current_time = (\<not> ce_revoked c \<and> current_time < ce_expires_at c)"

definition in_grace_period :: "certification \<Rightarrow> u64 \<Rightarrow> bool" where
  "in_grace_period c current_time =
     (\<not> ce_revoked c \<and> current_time \<ge> ce_expires_at c
      \<and> current_time < ce_expires_at c + CERTIFICATION_GRACE_PERIOD)"

definition remaining_validity :: "certification \<Rightarrow> u64 \<Rightarrow> u64 option" where
  "remaining_validity c current_time =
     (if cert_is_valid c current_time then Some (ce_expires_at c - current_time) else None)"

section \<open>The sanctions bloom filter\<close>

record sanctions_bloom_filter =
  bf_bits :: "u64 list"
  bf_num_hashes :: nat
  bf_count :: nat

definition bloom_new :: sanctions_bloom_filter where
  "bloom_new =
     \<lparr>bf_bits = replicate (SANCTIONS_BLOOM_SIZE div 64) 0, bf_num_hashes = SANCTIONS_BLOOM_HASHES,
      bf_count = 0\<rparr>"

text \<open>Double hashing: \<open>h1 + i * h2\<close> wraps at 64 bits, then is reduced to a bit position.\<close>

definition compute_hashes :: "(bytes \<Rightarrow> hash) \<Rightarrow> sanctions_bloom_filter \<Rightarrow> address \<Rightarrow> nat list" where
  "compute_hashes sha f address =
     (let base_hash = sha address;
          h1 = (be_word (take 8 base_hash) :: u64);
          h2 = (be_word (take 8 (drop 8 base_hash)) :: u64)
      in map (\<lambda>i. unat (h1 + of_nat i * h2) mod SANCTIONS_BLOOM_SIZE) [0..<bf_num_hashes f])"

definition set_bloom_bit :: "nat \<Rightarrow> u64 list \<Rightarrow> u64 list" where
  "set_bloom_bit h bits = bits[h div 64 := bits ! (h div 64) OR push_bit (h mod 64) 1]"

definition bloom_add :: "(bytes \<Rightarrow> hash) \<Rightarrow> address \<Rightarrow> sanctions_bloom_filter \<Rightarrow> sanctions_bloom_filter" where
  "bloom_add sha address f =
     f\<lparr>bf_bits := fold set_bloom_bit (compute_hashes sha f address) (bf_bits f),
       bf_count := bf_count f + 1\<rparr>"

definition possibly_contains :: "(bytes \<Rightarrow> hash) \<Rightarrow> sanctions_bloom_filter \<Rightarrow> address \<Rightarrow> bool" where
  "possibly_contains sha f address =
     list_all (\<lambda>h. bf_bits f ! (h div 64) AND push_bit (h mod 64) 1 \<noteq> 0) (compute_hashes sha f address)"

definition bloom_clear :: "sanctions_bloom_filter \<Rightarrow> sanctions_bloom_filter" where
  "bloom_clear f = f\<lparr>bf_bits := replicate (length (bf_bits f)) 0, bf_count := 0\<rparr>"

section \<open>Jurisdictions and consents\<close>

record data_residency_rule =
  dr_allowed_regions :: "string list"
  dr_strict_localization :: bool
  dr_data_types :: "string list"

record jurisdiction_config =
  ju_code :: string
  ju_name :: string
  ju_blocked :: bool
  ju_block_reason :: "string option"
  ju_required_standards :: "compliance_standard list"
  ju_data_residency :: "data_residency_rule option"
  ju_aml_threshold :: token_amount
  ju_risk_level :: u8

record consent_record =
  co_data_subject :: address
  co_data_controller :: address
  co_purposes :: "string list"
  co_given_at :: u64
  co_expires_at :: "u64 option"
  co_revoked :: bool
  co_revoked_at :: "u64 option"
  co_proof :: hash

definition consent_valid_for :: "consent_record \<Rightarrow> string \<Rightarrow> u64 \<Rightarrow> bool" where
  "consent_valid_for c purpose current_time =
     (if co_revoked c then False
      else if (case co_expires_at c of Some expires \<Rightarrow> current_time \<ge> expires | None \<Rightarrow> False) then False
      else list_ex (\<lambda>p. p = purpose \<or> p = ''*'') (co_purposes c))"

section \<open>Configuration\<close>

record compliance_config =
  cc_enabled :: bool
  cc_default_standards :: "compliance_standard list"
  cc_enforce_sanctions :: bool
  cc_allow_grace_period :: bool
  cc_trusted_issuers :: "did_parts list"
  cc_aml_threshold :: token_amount
  cc_risk_threshold :: u8
  cc_audit_logging :: bool
  cc_certification_cache_size :: nat

definition compliance_config_mainnet :: compliance_config where
  "compliance_config_mainnet =
     \<lparr>cc_enabled = True, cc_default_standards = [OfacSanctions], cc_enforce_sanctions = True,
      cc_allow_grace_period = False, cc_trusted_issuers = [], cc_aml_threshold = 10000000000000,
      cc_risk_threshold = 50, cc_audit_logging = True, cc_certification_cache_size = 10000\<rparr>"

definition compliance_config_testnet :: compliance_config where
  "compliance_config_testnet =
     \<lparr>cc_enabled = True, cc_default_standards = [], cc_enforce_sanctions = False,
      cc_allow_grace_period = True, cc_trusted_issuers = [], cc_aml_threshold = max_val,
      cc_risk_threshold = 80, cc_audit_logging = True, cc_certification_cache_size = 1000\<rparr>"

definition compliance_config_devnet :: compliance_config where
  "compliance_config_devnet =
     \<lparr>cc_enabled = False, cc_default_standards = [], cc_enforce_sanctions = False,
      cc_allow_grace_period = True, cc_trusted_issuers = [], cc_aml_threshold = max_val,
      cc_risk_threshold = 100, cc_audit_logging = False, cc_certification_cache_size = 100\<rparr>"

definition compliance_config_validate :: "compliance_config \<Rightarrow> unit sys_result" where
  "compliance_config_validate c =
     (if cc_risk_threshold c > 100 then Err (InvalidConfig ''risk_threshold must be between 0 and 100'')
      else if cc_certification_cache_size c = 0
      then Err (InvalidConfig ''certification_cache_size must be > 0'')
      else Ok ())"

section \<open>The module\<close>

record compliance_module =
  cm_config :: compliance_config
  cm_certifications :: "(address, certification list) hashmap"
  cm_sanctions_bloom :: sanctions_bloom_filter
  cm_sanctioned_addresses :: "address set"
  cm_jurisdictions :: "(string, jurisdiction_config) hashmap"
  cm_consents :: "(address, consent_record list) hashmap"
  cm_baas :: "(address, address set) hashmap"
  cm_audit_log :: "event_log list"
  cm_current_time :: u64
  cm_check_counter :: u64

definition default_jurisdictions :: "jurisdiction_config list" where
  "default_jurisdictions =
     [\<lparr>ju_code = ''US'', ju_name = ''United States'', ju_blocked = False, ju_block_reason = None,
       ju_required_standards = [OfacSanctions], ju_data_residency = None,
       ju_aml_threshold = 10000000000000, ju_risk_level = 1\<rparr>,
      \<lparr>ju_code = ''EU'', ju_name = ''European Union'', ju_blocked = False, ju_block_reason = None,
       ju_required_standards = [GdprEu],
       ju_data_residency = Some \<lparr>dr_allowed_regions = [''EU'', ''EEA''], dr_strict_localization = False,
                                 dr_data_types = [''PII'', ''sensitive'']\<rparr>,
       ju_aml_threshold = 15000000000000, ju_risk_level = 1\<rparr>,
      \<lparr>ju_code = ''AE'', ju_name = ''United Arab Emirates'', ju_blocked = False, ju_block_reason = None,
       ju_required_standards = [UaeDpl],
       ju_data_residency = Some \<lparr>dr_allowed_regions = [''AE'', ''GCC''], dr_strict_localization = True,
                                 dr_data_types = [''government'', ''financial'']\<rparr>,
       ju_aml_threshold = 50000000000000, ju_risk_level = 1\<rparr>,
      \<lparr>ju_code = ''SG'', ju_name = ''Singapore'', ju_blocked = False, ju_block_reason = None,
       ju_required_standards = [PdpaSg], ju_data_residency = None,
       ju_aml_threshold = 20000000000000, ju_risk_level = 1\<rparr>,
      \<lparr>ju_code = ''KP'', ju_name = ''North Korea'', ju_blocked = True,
       ju_block_reason = Some ''OFAC comprehensive sanctions'', ju_required_standards = [],
       ju_data_residency = None, ju_aml_threshold = 0, ju_risk_level = 5\<rparr>,
      \<lparr>ju_code = ''IR'', ju_name = ''Iran'', ju_blocked = True,
       ju_block_reason = Some ''OFAC comprehensive sanctions'', ju_required_standards = [],
       ju_data_residency = None, ju_aml_threshold = 0, ju_risk_level = 5\<rparr>]"

definition set_jurisdiction :: "jurisdiction_config \<Rightarrow> compliance_module \<Rightarrow> compliance_module" where
  "set_jurisdiction config m = m\<lparr>cm_jurisdictions := hm_insert (ju_code config) config (cm_jurisdictions m)\<rparr>"

definition init_default_jurisdictions :: "compliance_module \<Rightarrow> compliance_module" where
  "init_default_jurisdictions m = fold set_jurisdiction default_jurisdictions m"

definition compliance_new :: "compliance_config \<Rightarrow> compliance_module" where
  "compliance_new config =
     init_default_jurisdictions
       \<lparr>cm_config = config, cm_certifications = [], cm_sanctions_bloom = bloom_new,
        cm_sanctioned_addresses = {}, cm_jurisdictions = [], cm_consents = [], cm_baas = [],
        cm_audit_log = [], cm_current_time = 0, cm_check_counter = 0\<rparr>"

definition update_time :: "u64 \<Rightarrow> compliance_module \<Rightarrow> compliance_module" where
  "update_time timestamp m = m\<lparr>cm_current_time := timestamp\<rparr>"

definition emit_compliance :: "u64 \<Rightarrow> compliance_event \<Rightarrow> compliance_module \<Rightarrow> compliance_module" where
  "emit_compliance now e m =
     (if cc_audit_logging (cm_config m)
      then m\<lparr>cm_audit_log := cm_audit_log m @ [event_log_new now (ComplianceEv e)]\<rparr>
      else m)"

text \<open>\<open>iter_mut().find(p)\<close> followed by an update of the element found.\<close>

fun update_first :: "('a \<Rightarrow> bool) \<Rightarrow> ('a \<Rightarrow> 'a) \<Rightarrow> 'a list \<Rightarrow> 'a list option" where
  "update_first p f [] = None"
| "update_first p f (x # xs) =
     (if p x then Some (f x # xs)
      else case update_first p f xs of None \<Rightarrow> None | Some ys \<Rightarrow> Some (x # ys))"

section \<open>Certification management\<close>

text \<open>
  \<open>entry(entity).or_default()\<close> leaves an empty list behind when the limit on certifications is hit,
  which cannot happen on an empty list; the early return therefore leaves the map as it is.
\<close>

definition add_certification ::
    "u64 \<Rightarrow> certification \<Rightarrow> compliance_module \<Rightarrow> compliance_module \<times> unit sys_result" where
  "add_certification now cert m =
     (let certs = hm_entry [] (cm_certifications m) (ce_entity_address cert)
      in if cc_trusted_issuers (cm_config m) \<noteq> []
            \<and> ce_issuer cert \<notin> set (cc_trusted_issuers (cm_config m))
         then (m, Err (sys_error.Compliance (''Issuer '' @ did_to_string (ce_issuer cert) @ '' is not trusted'')))
         else if ce_expires_at cert \<le> cm_current_time m
         then (m, Err (sys_error.Compliance ''Certification has already expired''))
         else if ce_level cert < min_certification_level (ce_standard cert)
         then (m, Err (sys_error.Compliance (''Certification level '' @ show_word (ce_level cert)
                @ '' is below minimum '' @ show_word (min_certification_level (ce_standard cert))
                @ '' for '' @ standard_name (ce_standard cert))))
         else if length certs \<ge> MAX_CERTIFICATIONS_PER_ENTITY
         then (m, Err (sys_error.Compliance (''Entity has maximum '' @ show_nat MAX_CERTIFICATIONS_PER_ENTITY
                @ '' certifications'')))
         else
           let certs = filter (\<lambda>c. ce_standard c \<noteq> ce_standard cert) certs @ [cert];
               m = m\<lparr>cm_certifications := hm_insert (ce_entity_address cert) certs (cm_certifications m)\<rparr>
           in (emit_compliance now (CertificationAdded (ce_entity_address cert)
                 (standard_u8 (ce_standard cert)) (ce_expires_at cert)) m, Ok ()))"

definition revoke_certification ::
    "u64 \<Rightarrow> address \<Rightarrow> compliance_standard \<Rightarrow> string \<Rightarrow> compliance_module
      \<Rightarrow> compliance_module \<times> unit sys_result" where
  "revoke_certification now entity standard reason m =
     (case hm_get (cm_certifications m) entity of
        None \<Rightarrow> (m, Err (sys_error.Compliance ''Entity not found''))
      | Some certs \<Rightarrow>
          (case update_first (\<lambda>c. ce_standard c = standard)
                  (\<lambda>c. c\<lparr>ce_revoked := True, ce_revocation_reason := Some reason\<rparr>) certs of
             None \<Rightarrow> (m, Err (sys_error.Compliance ''Certification not found''))
           | Some certs \<Rightarrow>
               let m = m\<lparr>cm_certifications := hm_insert entity certs (cm_certifications m)\<rparr>
               in (emit_compliance now (CertificationRevoked entity (standard_name standard) reason
                     ZERO_ADDRESS 0) m, Ok ())))"

definition get_certifications :: "compliance_module \<Rightarrow> address \<Rightarrow> certification list option" where
  "get_certifications m entity = hm_get (cm_certifications m) entity"

definition cert_accepted :: "compliance_module \<Rightarrow> compliance_standard \<Rightarrow> certification \<Rightarrow> bool" where
  "cert_accepted m standard c =
     (ce_standard c = standard
      \<and> (cert_is_valid c (cm_current_time m)
         \<or> cc_allow_grace_period (cm_config m) \<and> in_grace_period c (cm_current_time m)))"

definition has_valid_certification :: "compliance_module \<Rightarrow> address \<Rightarrow> compliance_standard \<Rightarrow> bool" where
  "has_valid_certification m entity standard =
     (case hm_get (cm_certifications m) entity of
        Some certs \<Rightarrow> list_ex (cert_accepted m standard) certs
      | None \<Rightarrow> False)"

section \<open>Sanctions management\<close>

definition add_sanctioned_address ::
    "(bytes \<Rightarrow> hash) \<Rightarrow> u64 \<Rightarrow> address \<Rightarrow> string \<Rightarrow> compliance_module \<Rightarrow> compliance_module \<times> unit sys_result" where
  "add_sanctioned_address sha now address list_name m =
     (let m = m\<lparr>cm_sanctions_bloom := bloom_add sha address (cm_sanctions_bloom m),
                cm_sanctioned_addresses := insert address (cm_sanctioned_addresses m)\<rparr>
      in (emit_compliance now (AddressSanctioned address list_name) m, Ok ()))"

definition remove_sanctioned_address ::
    "u64 \<Rightarrow> address \<Rightarrow> compliance_module \<Rightarrow> compliance_module \<times> unit sys_result" where
  "remove_sanctioned_address now address m =
     (let m = m\<lparr>cm_sanctioned_addresses := cm_sanctioned_addresses m - {address}\<rparr>
      in (emit_compliance now (AddressUnsanctioned address) m, Ok ()))"

definition is_sanctioned :: "(bytes \<Rightarrow> hash) \<Rightarrow> compliance_module \<Rightarrow> address \<Rightarrow> bool" where
  "is_sanctioned sha m address =
     (if \<not> possibly_contains sha (cm_sanctions_bloom m) address then False
      else address \<in> cm_sanctioned_addresses m)"

definition add_to_list :: "(bytes \<Rightarrow> hash) \<Rightarrow> address \<Rightarrow> compliance_module \<Rightarrow> compliance_module" where
  "add_to_list sha address m =
     m\<lparr>cm_sanctions_bloom := bloom_add sha address (cm_sanctions_bloom m),
       cm_sanctioned_addresses := insert address (cm_sanctioned_addresses m)\<rparr>"

definition bulk_add_sanctioned ::
    "(bytes \<Rightarrow> hash) \<Rightarrow> u64 \<Rightarrow> address list \<Rightarrow> string \<Rightarrow> compliance_module \<Rightarrow> compliance_module" where
  "bulk_add_sanctioned sha now addresses list_name m =
     (let m = fold (add_to_list sha) addresses m
      in emit_compliance now
           (SanctionsListUpdated list_name (of_nat (card (cm_sanctioned_addresses m)))) m)"

section \<open>Consent management\<close>

definition merge_purposes :: "string list \<Rightarrow> string list \<Rightarrow> string list" where
  "merge_purposes new old = foldl (\<lambda>ps p. if p \<in> set ps then ps else ps @ [p]) old new"

definition active_consent :: "address \<Rightarrow> consent_record \<Rightarrow> bool" where
  "active_consent controller c = (co_data_controller c = controller \<and> \<not> co_revoked c)"

definition record_consent :: "consent_record \<Rightarrow> compliance_module \<Rightarrow> compliance_module \<times> unit sys_result" where
  "record_consent consent m =
     (let consents = hm_entry [] (cm_consents m) (co_data_subject consent);
          consents =
            (case update_first (active_consent (co_data_controller consent))
                    (\<lambda>c. c\<lparr>co_purposes := merge_purposes (co_purposes consent) (co_purposes c),
                           co_given_at := co_given_at consent,
                           co_expires_at := co_expires_at consent,
                           co_proof := co_proof consent\<rparr>) consents of
               Some consents \<Rightarrow> consents
             | None \<Rightarrow> consents @ [consent])
      in (m\<lparr>cm_consents := hm_insert (co_data_subject consent) consents (cm_consents m)\<rparr>, Ok ()))"

definition revoke_consent ::
    "u64 \<Rightarrow> address \<Rightarrow> address \<Rightarrow> compliance_module \<Rightarrow> compliance_module \<times> unit sys_result" where
  "revoke_consent now data_subject data_controller m =
     (case hm_get (cm_consents m) data_subject of
        None \<Rightarrow> (m, Err (sys_error.Compliance ''No consent records found''))
      | Some consents \<Rightarrow>
          (case update_first (active_consent data_controller)
                  (\<lambda>c. c\<lparr>co_revoked := True, co_revoked_at := Some (cm_current_time m)\<rparr>) consents of
             None \<Rightarrow> (m, Err (sys_error.Compliance ''Active consent not found''))
           | Some consents \<Rightarrow>
               let m = m\<lparr>cm_consents := hm_insert data_subject consents (cm_consents m)\<rparr>
               in (emit_compliance now (ConsentRevoked data_subject data_controller) m, Ok ())))"

definition has_consent :: "compliance_module \<Rightarrow> address \<Rightarrow> address \<Rightarrow> string \<Rightarrow> bool" where
  "has_consent m data_subject data_controller purpose =
     (case hm_get (cm_consents m) data_subject of
        Some consents \<Rightarrow>
          list_ex (\<lambda>c. co_data_controller c = data_controller
                       \<and> consent_valid_for c purpose (cm_current_time m)) consents
      | None \<Rightarrow> False)"

section \<open>Business associate agreements\<close>

definition register_baa ::
    "u64 \<Rightarrow> address \<Rightarrow> address \<Rightarrow> compliance_module \<Rightarrow> compliance_module \<times> unit sys_result" where
  "register_baa now covered_entity business_associate m =
     (if \<not> has_valid_certification m covered_entity HipaaUs
      then (m, Err (sys_error.Compliance ''Covered entity lacks HIPAA certification''))
      else if \<not> has_valid_certification m business_associate HipaaUs
      then (m, Err (sys_error.Compliance ''Business associate lacks HIPAA certification''))
      else
        let associates = insert business_associate (hm_entry {} (cm_baas m) covered_entity);
            m = m\<lparr>cm_baas := hm_insert covered_entity associates (cm_baas m)\<rparr>
        in (emit_compliance now (BaaRegistered covered_entity business_associate) m, Ok ()))"

definition has_baa :: "compliance_module \<Rightarrow> address \<Rightarrow> address \<Rightarrow> bool" where
  "has_baa m covered_entity business_associate =
     (case hm_get (cm_baas m) covered_entity of
        Some associates \<Rightarrow> business_associate \<in> associates | None \<Rightarrow> False)"

section \<open>The compliance check\<close>

definition generate_check_id :: "(bytes \<Rightarrow> hash) \<Rightarrow> compliance_module \<Rightarrow> compliance_module \<times> hash" where
  "generate_check_id sha m =
     (let m = m\<lparr>cm_check_counter := cm_check_counter m + 1\<rparr>
      in (m, sha (ascii ''compliance-check:'' @ le_bytes 8 (cm_current_time m)
                  @ le_bytes 8 (cm_check_counter m))))"

text \<open>The loops that extend \<open>all_standards\<close> by what it does not contain yet.\<close>

definition add_standards :: "compliance_standard list \<Rightarrow> compliance_standard list \<Rightarrow> compliance_standard list" where
  "add_standards new old = foldl (\<lambda>ss s. if s \<in> set ss then ss else ss @ [s]) old new"

definition jurisdiction_of :: "compliance_module \<Rightarrow> string option \<Rightarrow> jurisdiction_config option" where
  "jurisdiction_of m jurisdiction = Option.bind jurisdiction (hm_get (cm_jurisdictions m))"

definition all_standards ::
    "compliance_module \<Rightarrow> compliance_standard list \<Rightarrow> string option \<Rightarrow> compliance_standard list" where
  "all_standards m required jurisdiction =
     (let ss = add_standards required (cc_default_standards (cm_config m))
      in case jurisdiction_of m jurisdiction of
           Some j \<Rightarrow> add_standards (ju_required_standards j) ss
         | None \<Rightarrow> ss)"

definition jurisdiction_violations ::
    "compliance_module \<Rightarrow> string option \<Rightarrow> token_amount \<Rightarrow> violation_type list" where
  "jurisdiction_violations m jurisdiction amount =
     (case jurisdiction_of m jurisdiction of
        Some j \<Rightarrow>
          (if ju_blocked j
           then [JurisdictionBlocked (case jurisdiction of Some s \<Rightarrow> s | None \<Rightarrow> [])
                   (case ju_block_reason j of Some why \<Rightarrow> why | None \<Rightarrow> ''Blocked jurisdiction'')]
           else [])
          @ (if amount > ju_aml_threshold j then [AmlThresholdExceeded amount (ju_aml_threshold j)] else [])
      | None \<Rightarrow> [])"

text \<open>1. Sanctions.\<close>

definition sanctions_violations ::
    "(bytes \<Rightarrow> hash) \<Rightarrow> compliance_module \<Rightarrow> address \<Rightarrow> address option \<Rightarrow> violation_type list" where
  "sanctions_violations sha m requester data_provider =
     (if cc_enforce_sanctions (cm_config m)
      then map (\<lambda>a. SanctionedAddress a ''OFAC SDN'')
             (filter (is_sanctioned sha m)
                (requester # (case data_provider of Some p \<Rightarrow> [p] | None \<Rightarrow> [])))
      else [])"

text \<open>2. Certifications: for one standard, the violations and the warnings.\<close>

definition requester_cert_findings ::
    "compliance_module \<Rightarrow> address \<Rightarrow> compliance_standard \<Rightarrow> violation_type list \<times> string list" where
  "requester_cert_findings m requester standard =
     (if has_valid_certification m requester standard then ([], [])
      else case hm_get (cm_certifications m) requester of
        None \<Rightarrow> ([MissingCertification standard requester], [])
      | Some certs \<Rightarrow>
          (case find (\<lambda>c. ce_standard c = standard) certs of
             None \<Rightarrow> ([MissingCertification standard requester], [])
           | Some cert \<Rightarrow>
               if in_grace_period cert (cm_current_time m)
               then ([], [''Certification for '' @ standard_name standard @ '' expires soon''])
               else if \<not> ce_revoked cert
               then ([ExpiredCertification standard requester (ce_expires_at cert)], [])
               else ([], [])))"

definition cert_findings ::
    "compliance_module \<Rightarrow> address \<Rightarrow> address option \<Rightarrow> compliance_standard
      \<Rightarrow> violation_type list \<times> string list" where
  "cert_findings m requester data_provider standard =
     (if requires_certification standard
      then (case requester_cert_findings m requester standard of (vs, ws) \<Rightarrow>
        (vs @ (case data_provider of
                 Some p \<Rightarrow> if \<not> has_valid_certification m p standard
                            then [MissingCertification standard p] else []
               | None \<Rightarrow> []), ws))
      else ([], []))"

text \<open>3. HIPAA agreements, 4. consent, 5. data residency.\<close>

definition baa_violations ::
    "compliance_module \<Rightarrow> address \<Rightarrow> address option \<Rightarrow> compliance_standard list \<Rightarrow> violation_type list" where
  "baa_violations m requester data_provider standards =
     (if HipaaUs \<in> set standards
      then (case data_provider of
              Some p \<Rightarrow> if \<not> has_baa m requester p \<and> requester \<noteq> p then [MissingBaa requester p] else []
            | None \<Rightarrow> [])
      else [])"

definition consent_violations ::
    "compliance_module \<Rightarrow> address \<Rightarrow> address option \<Rightarrow> compliance_standard list
      \<Rightarrow> (string, string) hashmap \<Rightarrow> violation_type list" where
  "consent_violations m requester data_provider standards metadata =
     (if GdprEu \<in> set standards \<or> CcpaCa \<in> set standards
      then
        let purpose = (case hm_get metadata ''purpose'' of Some s \<Rightarrow> s | None \<Rightarrow> ''ai_computation'')
        in case data_provider of
             Some p \<Rightarrow> if \<not> has_consent m p requester purpose then [MissingConsent p purpose] else []
           | None \<Rightarrow> []
      else [])"

definition residency_violations ::
    "compliance_module \<Rightarrow> string option \<Rightarrow> (string, string) hashmap \<Rightarrow> violation_type list" where
  "residency_violations m jurisdiction metadata =
     (case Option.bind (jurisdiction_of m jurisdiction) ju_data_residency of
        None \<Rightarrow> []
      | Some residency \<Rightarrow>
          (case hm_get metadata ''data_region'' of
             None \<Rightarrow> []
           | Some region \<Rightarrow>
               if region \<notin> set (dr_allowed_regions residency)
               then [DataResidencyViolation (intersperse_text '', '' (dr_allowed_regions residency)) region]
               else []))"

text \<open>All violations a check collects, in the order of the code.\<close>

definition collect_violations ::
    "(bytes \<Rightarrow> hash) \<Rightarrow> compliance_module \<Rightarrow> address \<Rightarrow> address option \<Rightarrow> compliance_standard list
      \<Rightarrow> string option \<Rightarrow> token_amount \<Rightarrow> (string, string) hashmap \<Rightarrow> violation_type list" where
  "collect_violations sha m requester data_provider standards jurisdiction amount metadata =
     jurisdiction_violations m jurisdiction amount
     @ sanctions_violations sha m requester data_provider
     @ concat (map (fst \<circ> cert_findings m requester data_provider) standards)
     @ baa_violations m requester data_provider standards
     @ consent_violations m requester data_provider standards metadata
     @ residency_violations m jurisdiction metadata"

definition enforce ::
    "(bytes \<Rightarrow> hash) \<Rightarrow> u64 \<Rightarrow> compliance_module \<Rightarrow> address \<Rightarrow> address option \<Rightarrow> compliance_standard list
      \<Rightarrow> string option \<Rightarrow> token_amount \<Rightarrow> (string, string) hashmap
      \<Rightarrow> compliance_module \<times> compliance_check_result sys_result" where
  "enforce sha now m requester data_provider required jurisdiction amount metadata =
     (case generate_check_id sha m of (m, check_id) \<Rightarrow>
       if \<not> cc_enabled (cm_config m) then (m, Ok (check_pass required check_id (cm_current_time m)))
       else
         let standards = all_standards m required jurisdiction;
             violations =
               collect_violations sha m requester data_provider standards jurisdiction amount metadata;
             warnings = concat (map (snd \<circ> cert_findings m requester data_provider) standards);
             result = (if violations = [] then check_pass standards check_id (cm_current_time m)
                       else check_fail violations standards check_id (cm_current_time m));
             result = foldl add_warning result warnings;
             m = emit_compliance now (CheckPerformed check_id requester (ccr_passed result)
                   (ccr_risk_score result)) m
         in (m, Ok (if ccr_risk_score result > cc_risk_threshold (cm_config m)
                    then result\<lparr>ccr_passed := False\<rparr> else result)))"

section \<open>Queries\<close>

definition get_jurisdiction :: "compliance_module \<Rightarrow> string \<Rightarrow> jurisdiction_config option" where
  "get_jurisdiction m code = hm_get (cm_jurisdictions m) code"

definition is_jurisdiction_blocked :: "compliance_module \<Rightarrow> string \<Rightarrow> bool" where
  "is_jurisdiction_blocked m code =
     (case hm_get (cm_jurisdictions m) code of Some j \<Rightarrow> ju_blocked j | None \<Rightarrow> False)"

definition get_audit_log_since :: "compliance_module \<Rightarrow> u64 \<Rightarrow> event_log list" where
  "get_audit_log_since m since = filter (\<lambda>l. el_timestamp l \<ge> since) (cm_audit_log m)"

fun is_passed_check :: "system_event \<Rightarrow> bool" where
  "is_passed_check (ComplianceEv (CheckPerformed _ _ passed _)) = passed"
| "is_passed_check _ = False"

record compliance_statistics =
  cst_total_checks :: u64
  cst_passed_checks :: u64
  cst_failed_checks :: u64
  cst_total_certifications :: nat
  cst_active_certifications :: nat
  cst_sanctioned_addresses :: nat
  cst_bloom_filter_size :: nat
  cst_registered_jurisdictions :: nat
  cst_blocked_jurisdictions :: nat

definition compliance_statistics_of :: "compliance_module \<Rightarrow> compliance_statistics" where
  "compliance_statistics_of m =
     (let total_checks = cm_check_counter m;
          passed_checks = of_nat (length (filter (is_passed_check \<circ> el_event) (cm_audit_log m)));
          certs = concat (map snd (cm_certifications m))
      in \<lparr>cst_total_checks = total_checks, cst_passed_checks = passed_checks,
          cst_failed_checks = saturating_sub total_checks passed_checks,
          cst_total_certifications = length certs,
          cst_active_certifications = length (filter (\<lambda>c. cert_is_valid c (cm_current_time m)) certs),
          cst_sanctioned_addresses = card (cm_sanctioned_addresses m),
          cst_bloom_filter_size = SANCTIONS_BLOOM_SIZE,
          cst_registered_jurisdictions = length (cm_jurisdictions m),
          cst_blocked_jurisdictions = length (filter (ju_blocked \<circ> snd) (cm_jurisdictions m))\<rparr>)"

end
