(* ===== verification/Kernel.thy ===== *)
theory Kernel
  imports Job_Registry Compliance_Module
begin

text \<open>
  \<open>src/crates/vm/src/system_contracts/mod.rs\<close>: the system kernel that owns the four contracts, its block
  hooks, the dispatch of system calls and the genesis configurations. A call that blocks forever
  on a lock, or that panics, has no result (\<open>None\<close>).
\<close>

section \<open>Well-known addresses\<close>

definition STAKING_MANAGER_ADDRESS :: address where
  "STAKING_MANAGER_ADDRESS = replicate 31 0 @ [2]"

definition COMPLIANCE_MODULE_ADDRESS :: address where
  "COMPLIANCE_MODULE_ADDRESS = replicate 31 0 @ [3]"

definition GOVERNANCE_MODULE_ADDRESS :: address where
  "GOVERNANCE_MODULE_ADDRESS = replicate 31 0 @ [4]"

definition TREASURY_ADDRESS :: address where
  "TREASURY_ADDRESS = replicate 31 0 @ [5]"

section \<open>Genesis configuration\<close>

record chain_parameters =
  cp_block_time_ms :: u64
  cp_epoch_length :: u64
  cp_max_block_gas :: u64
  cp_min_tx_fee :: token_amount

record genesis_config =
  gc_chain_id :: string
  gc_launch_timestamp :: u64
  gc_allocations :: "token_allocation list"
  gc_job_config :: job_config
  gc_staking_config :: staking_config
  gc_compliance_config :: compliance_config
  gc_parameters :: chain_parameters

definition genesis_mainnet :: genesis_config where
  "genesis_mainnet =
     \<lparr>gc_chain_id = ''aethelred-mainnet-1'', gc_launch_timestamp = 0,
      gc_allocations =
        [\<lparr>al_address = TREASURY_ADDRESS, al_balance = 200000000000000000000,
          al_vesting = Some \<lparr>vs_cliff_duration = 365 * 24 * 3600, vs_total_duration = 4 * 365 * 24 * 3600,
                             vs_tge_amount = 10000000000000000000\<rparr>\<rparr>],
      gc_job_config = job_config_mainnet, gc_staking_config = staking_config_mainnet,
      gc_compliance_config = compliance_config_mainnet,
      gc_parameters = \<lparr>cp_block_time_ms = 6000, cp_epoch_length = 43200, cp_max_block_gas = 30000000,
                       cp_min_tx_fee = 1000000000000\<rparr>\<rparr>"

definition genesis_testnet :: genesis_config where
  "genesis_testnet =
     \<lparr>gc_chain_id = ''aethelred-testnet-1'', gc_launch_timestamp = 0, gc_allocations = [],
      gc_job_config = job_config_testnet, gc_staking_config = staking_config_testnet,
      gc_compliance_config = compliance_config_testnet,
      gc_parameters = \<lparr>cp_block_time_ms = 3000, cp_epoch_length = 21600, cp_max_block_gas = 50000000,
                       cp_min_tx_fee = 100000000000\<rparr>\<rparr>"

definition genesis_devnet :: genesis_config where
  "genesis_devnet =
     \<lparr>gc_chain_id = ''aethelred-devnet'', gc_launch_timestamp = 0, gc_allocations = [],
      gc_job_config = job_config_devnet, gc_staking_config = staking_config_devnet,
      gc_compliance_config = compliance_config_devnet,
      gc_parameters = \<lparr>cp_block_time_ms = 1000, cp_epoch_length = 100, cp_max_block_gas = 100000000,
                       cp_min_tx_fee = 0\<rparr>\<rparr>"

definition genesis_validate :: "genesis_config \<Rightarrow> unit sys_result" where
  "genesis_validate g =
     (if gc_chain_id g = [] then Err (InvalidConfig ''Empty chain_id'')
      else if cp_block_time_ms (gc_parameters g) = 0 then Err (InvalidConfig ''Block time cannot be 0'')
      else if cp_epoch_length (gc_parameters g) = 0 then Err (InvalidConfig ''Epoch length cannot be 0'')
      else case job_config_validate (gc_job_config g) of
        Err e \<Rightarrow> Err e
      | Ok _ \<Rightarrow>
          (case staking_config_validate (gc_staking_config g) of
             Err e \<Rightarrow> Err e
           | Ok _ \<Rightarrow> compliance_config_validate (gc_compliance_config g)))"

section \<open>Calls\<close>

datatype (plugins only: code size) system_call =
    SubmitJob submit_job_params
  | AssignJob job_id address
  | SubmitProof submit_proof_params
  | CancelJob job_id address
  | Stake address token_amount stake_role
  | Unstake address token_amount
  | WithdrawStake address
  | AddSanctionedAddress address string
  | AddCertification certification
  | RegisterBaa address address

datatype (plugins only: code size) system_call_result =
    JobSubmittedR job_submit_result
  | JobAssignedR job_assign_result
  | ProofSubmittedR proof_submit_result
  | JobCancelledR job_cancel_result
  | StakedR address token_amount
  | UnstakeInitiatedR address token_amount
  | WithdrawnR address token_amount
  | ComplianceUpdatedR
  | EntityCertifiedR
  | BaaRegisteredR

section \<open>The kernel\<close>

record system_kernel =
  sk_job_registry :: job_registry
  sk_staking :: staking_manager
  sk_compliance :: compliance_module
  sk_bank :: bank
  sk_context :: block_context

definition kernel_from_genesis :: "genesis_config \<Rightarrow> system_kernel sys_result" where
  "kernel_from_genesis g =
     (case bank_from_genesis (gc_allocations g) of
        Err e \<Rightarrow> Err e
      | Ok b \<Rightarrow>
          Ok \<lparr>sk_job_registry = job_registry_new (gc_job_config g),
              sk_staking = staking_new (gc_staking_config g),
              sk_compliance = compliance_new (gc_compliance_config g),
              sk_bank = b, sk_context = block_context_default\<rparr>)"

definition begin_block :: "system_kernel \<Rightarrow> block_context \<Rightarrow> system_kernel" where
  "begin_block k ctx = k\<lparr>sk_context := ctx\<rparr>"

text \<open>\<open>(gas_used as f64 / gas_limit as f64 * 100.0) as u8\<close>, in binary64 arithmetic.\<close>

definition block_utilization :: "block_context \<Rightarrow> u8" where
  "block_utilization ctx =
     f64_as_word (f64_mul (f64_div (u64_as_f64 (ctx_gas_used ctx)) (u64_as_f64 (ctx_gas_limit ctx)))
       (f64_lit 100))"

definition kernel_end_block :: "system_kernel \<Rightarrow> system_kernel \<times> system_event list sys_result" where
  "kernel_end_block k =
     (let ctx = sk_context k
      in case process_expired_jobs (sk_job_registry k) (ctx_timestamp ctx) of
           (r, Err e) \<Rightarrow> (k\<lparr>sk_job_registry := r\<rparr>, Err e)
         | (r, Ok job_events) \<Rightarrow>
             (case staking_end_block (sk_staking k) ctx of
                (sm, Err e) \<Rightarrow> (k\<lparr>sk_job_registry := r, sk_staking := sm\<rparr>, Err e)
              | (sm, Ok staking_events) \<Rightarrow>
                  (k\<lparr>sk_job_registry := r,
                     sk_staking := update_utilization sm (block_utilization ctx)\<rparr>,
                   Ok (map Job job_events @ map Staking staking_events))))"

definition check_compliance ::
    "platform \<Rightarrow> u64 \<Rightarrow> system_kernel \<Rightarrow> address \<Rightarrow> address option \<Rightarrow> compliance_standard list
      \<Rightarrow> string option \<Rightarrow> token_amount \<Rightarrow> (string, string) hashmap
      \<Rightarrow> system_kernel \<times> compliance_check_result sys_result" where
  "check_compliance pl now k requester data_provider required jurisdiction amount metadata =
     (case enforce (pl_sha256 pl) now (sk_compliance k) requester data_provider required jurisdiction
             amount metadata of
        (m, res) \<Rightarrow> (k\<lparr>sk_compliance := m\<rparr>, res))"

definition execute_submit_job ::
    "platform \<Rightarrow> u64 \<Rightarrow> system_kernel \<Rightarrow> submit_job_params
      \<Rightarrow> (system_kernel \<times> system_call_result sys_result) option" where
  "execute_submit_job pl now k params =
     (case check_compliance pl now k (sj_requester params) (sj_data_provider params)
             (map from_requirement (sj_required_compliance params)) (sj_jurisdiction params)
             (sj_max_bid params) [] of
        (k, Err e) \<Rightarrow> Some (k, Err e)
      | (k, Ok result) \<Rightarrow>
          if \<not> ccr_passed result
          then Some (k, Err (sys_error.Compliance (''Compliance check failed: ''
                 @ show_nat (length (ccr_violations result)) @ '' violations'')))
          else case submit_job pl (sk_job_registry k) params (sk_context k) (sk_bank k) of
            None \<Rightarrow> None
          | Some (r, b, res) \<Rightarrow>
              Some (k\<lparr>sk_job_registry := r, sk_bank := b\<rparr>, map_result JobSubmittedR res))"

text \<open>
  \<open>execute\<close>. For a proof the write lock of the bank is taken for the argument \<open>&mut self.bank.write()\<close>
  and kept during the call, while the staking manager holds the same lock object: inside the call
  it is \<open>HeldBySelf\<close>.
\<close>

definition execute ::
    "platform \<Rightarrow> u64 \<Rightarrow> system_kernel \<Rightarrow> system_call
      \<Rightarrow> (system_kernel \<times> system_call_result sys_result) option" where
  "execute pl now k call =
     (let ctx = sk_context k
      in case call of
        SubmitJob params \<Rightarrow> execute_submit_job pl now k params
      | AssignJob jid prover \<Rightarrow>
          (case assign_job (sk_job_registry k) jid prover ctx of
             (r, res) \<Rightarrow> Some (k\<lparr>sk_job_registry := r\<rparr>, map_result JobAssignedR res))
      | SubmitProof params \<Rightarrow>
          (case submit_proof pl (sk_job_registry k) params ctx (sk_staking k) HeldBySelf (sk_bank k) of
             None \<Rightarrow> None
           | Some (r, sm, cell, b, res) \<Rightarrow>
               Some (k\<lparr>sk_job_registry := r, sk_staking := sm, sk_bank := b\<rparr>,
                     map_result ProofSubmittedR res))
      | CancelJob jid requester \<Rightarrow>
          (case cancel_job (sk_job_registry k) jid requester ctx (sk_bank k) of
             (r, b, res) \<Rightarrow> Some (k\<lparr>sk_job_registry := r, sk_bank := b\<rparr>, map_result JobCancelledR res))
      | Stake staker amount role \<Rightarrow>
          (case stake (sk_staking k) staker amount role (sk_bank k) of
             (sm, b, res) \<Rightarrow> Some (k\<lparr>sk_staking := sm, sk_bank := b\<rparr>,
                                   map_result (\<lambda>_. StakedR staker amount) res))
      | Unstake staker amount \<Rightarrow>
          (case unstake (sk_staking k) staker amount ctx of
             (sm, res) \<Rightarrow> Some (k\<lparr>sk_staking := sm\<rparr>, map_result (\<lambda>_. UnstakeInitiatedR staker amount) res))
      | WithdrawStake staker \<Rightarrow>
          (case withdraw (sk_staking k) staker ctx (sk_bank k) of
             (sm, b, res) \<Rightarrow> Some (k\<lparr>sk_staking := sm, sk_bank := b\<rparr>,
                                   map_result (\<lambda>amount. WithdrawnR staker amount) res))
      | AddSanctionedAddress address list_name \<Rightarrow>
          (case add_sanctioned_address (pl_sha256 pl) now address list_name (sk_compliance k) of
             (m, res) \<Rightarrow> Some (k\<lparr>sk_compliance := m\<rparr>, map_result (\<lambda>_. ComplianceUpdatedR) res))
      | AddCertification cert \<Rightarrow>
          (case add_certification now cert (sk_compliance k) of
             (m, res) \<Rightarrow> Some (k\<lparr>sk_compliance := m\<rparr>, map_result (\<lambda>_. EntityCertifiedR) res))
      | RegisterBaa covered_entity business_associate \<Rightarrow>
          (case register_baa now covered_entity business_associate (sk_compliance k) of
             (m, res) \<Rightarrow> Some (k\<lparr>sk_compliance := m\<rparr>, map_result (\<lambda>_. BaaRegisteredR) res)))"

end
