(* ===== verification/Bank_Runs.thy ===== *)
theory Bank_Runs
  imports Bank_Ledger
begin

text \<open>
  The bank as its clients use it: sequences of transfers, burns, locks and unlocks, and what every such
  sequence keeps.
\<close>

section \<open>Sequences of payments\<close>

text \<open>A client leaves the bank as it is after some transfers, burns, locks and unlocks.\<close>

definition payment_op :: "bank_op \<Rightarrow> bool" where
  "payment_op op \<longleftrightarrow> (case op of OpTransfer f t m \<Rightarrow> True | OpBurn f m \<Rightarrow> True | OpLock a m \<Rightarrow> True
     | OpUnlock a m \<Rightarrow> True | _ \<Rightarrow> False)"

definition bank_steps :: "bank \<Rightarrow> bank \<Rightarrow> bool" where
  "bank_steps b b' \<longleftrightarrow> (\<exists>ops. list_all payment_op ops \<and> b' = bank_run ops b)"

lemma bank_run_append: "bank_run (xs @ ys) b = bank_run ys (bank_run xs b)"
  by (induction xs arbitrary: b) auto

lemma bank_steps_refl [simp, intro]: "bank_steps b b"
  unfolding bank_steps_def by (rule exI [of _ "[]"]) simp

lemma bank_steps_trans [trans]: "bank_steps b b' \<Longrightarrow> bank_steps b' b'' \<Longrightarrow> bank_steps b b''"
  unfolding bank_steps_def by (metis bank_run_append list_all_append)

lemma bank_steps_op: "payment_op op \<Longrightarrow> bank_steps b (bank_exec op b)"
  unfolding bank_steps_def by (rule exI [of _ "[op]"]) simp

lemma bank_steps_ops [intro]:
  assumes "bank_steps b b'"
  shows "bank_steps b (fst (transfer b' f t m))" "bank_steps b (fst (burn b' f m))"
    "bank_steps b (fst (lock b' a m))" "bank_steps b (fst (unlock b' a m))"
  using bank_steps_trans [OF assms] bank_steps_op [of "OpTransfer f t m" b'] bank_steps_op [of "OpBurn f m" b']
    bank_steps_op [of "OpLock a m" b'] bank_steps_op [of "OpUnlock a m" b'] by (simp_all add: payment_op_def)

lemma bank_steps_try:
  assumes "bank_steps b (fst x)" and "\<And>b' v. bank_steps b b' \<Longrightarrow> bank_steps b (fst (f b' v))"
  shows "bank_steps b (fst (try_then x f))"
  using assms by (cases x; cases "snd x") (auto simp: try_then_def)

lemma payment_op_keeps:
  assumes "payment_op op" and "bank_inv b"
  shows "bank_inv (bank_exec op b) \<and> issued (bank_exec op b) \<le> issued b \<and> burned b \<le> burned (bank_exec op b)
    \<and> bank_total (bank_exec op b) \<le> bank_total b"
proof -
  have "minted [op] = 0" using assms(1) by (cases op) (auto simp: payment_op_def)
  moreover have "issued b < 2 ^ 128" using assms(2) by (simp add: bank_inv_def)
  ultimately have "bank_inv (bank_run [op] b) \<and> issued (bank_run [op] b) \<le> issued b + minted [op] \<and> burned b \<le> burned (bank_run [op] b)"
    using bank_run_inv [OF assms(2), of "[op]"] by simp
  moreover have tot: "bank_total (fst (transfer b f t m)) \<le> bank_total b" for f t m
  proof (cases "transfer b f t m")
    case (Pair b' res)
    then show ?thesis
    proof (cases res)
      case (Ok u)
      then show ?thesis
        using Pair transfer_ok(5) [OF assms(2), of f t m b'] burn_ok(6) [OF assms(2), of f m b']
        by (cases "t = BURN_ADDRESS") (auto simp: burn_def)
    qed (use Pair transfer_err in auto)
  qed
  moreover have "bank_total (fst (lock b a m)) \<le> bank_total b" for a m
    using lock_ok(4) [OF assms(2), of a m] lock_err [of b a m]
    by (cases "lock b a m"; cases "snd (lock b a m)"; auto)
  moreover have "bank_total (fst (unlock b a m)) \<le> bank_total b" for a m
    using unlock_ok(4) [of b a m] unlock_err [of b a m]
    by (cases "unlock b a m"; cases "snd (unlock b a m)"; auto)
  ultimately show ?thesis
    using assms(1) \<open>minted [op] = 0\<close> by (cases op) (auto simp: payment_op_def burn_def)
qed

lemma bank_steps_solvent:
  assumes "bank_steps b b'" and "bank_inv b"
  shows "bank_inv b' \<and> issued b' \<le> issued b \<and> burned b \<le> burned b' \<and> bank_total b' \<le> bank_total b"
proof -
  obtain ops where ops: "list_all payment_op ops" "b' = bank_run ops b" using assms(1) by (auto simp: bank_steps_def)
  then show ?thesis using assms(2)
  proof (induction ops arbitrary: b)
    case (Cons op ops)
    then show ?case using payment_op_keeps [of op b] by fastforce
  qed simp
qed

end
