(* ===== verification/Bank_Properties.thy ===== *)
theory Bank_Properties
  imports Bank_Ledger
begin

text \<open>
  The properties of \<open>bank.rs\<close>: refinement of the unbounded ledger, solvency of every run from genesis,
  escrows that pay once and can be refunded, and the branches of \<open>transfer\<close>.
\<close>

text \<open>A small bank to run the operations on.\<close>

abbreviation demo_allocations :: "token_allocation list" where
  "demo_allocations \<equiv>
     [\<lparr>al_address = [1], al_balance = 1000, al_vesting = None\<rparr>,
      \<lparr>al_address = [2], al_balance = 500, al_vesting = None\<rparr>]"

definition demo_bank :: bank where
  "demo_bank = apply_allocations demo_allocations (bank_new bank_config_default)"

lemma demo_bank_genesis: "bank_from_genesis demo_allocations = Ok demo_bank"
  by (simp add: bank_from_genesis_def demo_bank_def)

lemma demo_bank_inv: "bank_inv demo_bank" "issued demo_bank = 10 ^ 27"
  using genesis_inv [of demo_allocations] by (simp_all add: demo_bank_genesis)

text \<open>
  C1. Every public operation of \<open>Bank\<close> refines one step of the ledger over unbounded natural numbers,
  the stuttering step when it fails: the saturating \<open>u128\<close> arithmetic of \<open>bank.rs\<close> never loses or
  creates a token. The solvency invariant is kept. The hypothesis on a mint says that all issued
  tokens still fit 128 bits.
\<close>

theorem bank_refines_ledger:
  assumes "bank_inv b" and "issued b + mint_of op < 2 ^ 128"
  shows "ledger_step (ledger_of b) (op_label op b) (ledger_of (bank_exec op b)) \<and> bank_inv (bank_exec op b)"
  using bank_exec_refines [OF assms] by (simp add: refines_def)

theorem bank_refines_ledger_witness:
  "op_label (OpTransfer [1] [2] 40) demo_bank = LTransfer [1] [2] 40 \<and>
   ledger_step (ledger_of demo_bank) (op_label (OpTransfer [1] [2] 40) demo_bank)
     (ledger_of (bank_exec (OpTransfer [1] [2] 40) demo_bank))"
proof
  show "op_label (OpTransfer [1] [2] 40) demo_bank = LTransfer [1] [2] 40"
    by (simp add: demo_bank_def run_simps)
qed (use bank_refines_ledger [of demo_bank "OpTransfer [1] [2] 40"] demo_bank_inv in simp)



text \<open>
  C24. An escrow pays out at most once. After a release or a refund succeeded, in every later state of
  the bank a further release, a refund and the re-creation of the same escrow id are refused and
  change nothing.
\<close>

theorem escrow_pays_once:
  assumes "bank_inv b"
    and "release_escrow b i t = (b', Ok n) \<or> refund_escrow b i r = (b', Ok n)"
  shows "release_escrow (bank_run ops b') i t2 = (bank_run ops b', Err (EscrowNotFound (hex_encode i))) \<and>
    refund_escrow (bank_run ops b') i r2 = (bank_run ops b', Err (EscrowNotFound (hex_encode i))) \<and>
    create_escrow (bank_run ops b') i f2 t2 m2 x2 c2 =
      (bank_run ops b', Err (InvalidAmount ''Escrow already exists''))"
proof -
  have "escrow_closed b' i" using assms release_closes refund_closes by blast
  then have "escrow_closed (bank_run ops b') i" by (rule run_keeps_closed)
  then show ?thesis by (simp add: closed_refused)
qed

theorem escrow_pays_once_witness:
  "let b = fst (create_escrow demo_bank [7] [1] [2] 300 99 []); b' = fst (release_escrow b [7] [2])
   in snd (release_escrow (bank_run [OpSetBlock 5] b') [7] [2]) = Err (EscrowNotFound (hex_encode [7]))"
proof -
  let ?b = "fst (create_escrow demo_bank [7] [1] [2] 300 99 [])"
  let ?b' = "fst (release_escrow ?b [7] [2])"
  have "bank_inv ?b"
    using bank_exec_refines [of demo_bank "OpCreateEscrow [7] [1] [2] 300 99 []"] demo_bank_inv
    by (simp add: refines_def)
  moreover have "release_escrow ?b [7] [2] = (?b', Ok 300)"
    by (simp add: demo_bank_def run_simps)
  ultimately show ?thesis
    using escrow_pays_once [of ?b "[7]" "[2]" ?b' 300 "''''" "[OpSetBlock 5]" "[2]"] by (simp add: Let_def)
qed

text \<open>
  Round trip: the owner of a fresh escrow can always be refunded, and the refund restores the
  owner's balance and lock, and so the whole ledger, to what they were before the escrow.
\<close>

theorem escrow_refund_restores:
  assumes "bank_inv b" and "create_escrow b i f t m x c = (b', Ok ())" and "0 < m"
  shows "\<exists>b''. refund_escrow b' i r = (b'', Ok m) \<and> ledger_of b'' = ledger_of b"
proof -
  from create_escrow_ok [OF assms(1,2)] obtain e where
    v: "lck b' = give_to f (unat m) (lck b)" "bal b' = bal b" "circulating b' = circulating b"
      "burned b' = burned b"
    and e: "hm_get (bk_escrows b') i = Some e" "\<not> esc_released e" "esc_from e = f" "esc_amount e = m"
    by auto
  have "unat m \<le> lck b' f" using v by (simp add: give_to_def)
  from bank.unlock_total [OF assms(3) this] obtain u where u: "unlock b' f m = (u, Ok ())" by blast
  then obtain b'' where b'': "refund_escrow b' i r = (b'', Ok m)"
    using e by (simp add: refund_escrow_def Let_def)
  with refund_escrow_ok [OF b''] e v show ?thesis
    by (auto simp: ledger_of_eq_iff take_from_def give_to_def)
qed

theorem escrow_refund_restores_witness:
  "\<exists>b''. refund_escrow (fst (create_escrow demo_bank [7] [1] [2] 300 99 [])) [7] ''late'' = (b'', Ok 300) \<and>
     ledger_of b'' = ledger_of demo_bank"
proof -
  have "create_escrow demo_bank [7] [1] [2] 300 99 [] =
      (fst (create_escrow demo_bank [7] [1] [2] 300 99 []), Ok ())"
    by (simp add: demo_bank_def run_simps)
  from escrow_refund_restores [OF demo_bank_inv(1) this] show ?thesis by simp
qed

text \<open>
  The behaviour of \<open>transfer\<close> on every branch, over the balances: a zero amount, an amount above the
  unlocked balance and a time-locked sender are refused in this order and move nothing; otherwise
  the transfer succeeds and moves exactly the amount (to itself included), or burns it.
\<close>

theorem transfer_behaviour:
  assumes "bank_inv b" and "transfer b f t m = (b', r)"
  shows "(if m = 0 then r = Err (InvalidAmount ''Amount must be > 0'')
      else if bal b f < lck b f + unat m then r = Err (InsufficientBalance m (available_balance b f))
      else if account_frozen b f
      then r = Err (sys_error.AccountLocked (hex_encode f) (acc_locked_until (account_entry b f)))
      else r = Ok ()) \<and>
    (r \<noteq> Ok () \<longrightarrow> ledger_of b' = ledger_of b) \<and>
    (r = Ok () \<and> t \<noteq> BURN_ADDRESS \<longrightarrow> bal b' = give_to t (unat m) (take_from f (unat m) (bal b)) \<and>
       circulating b' = circulating b) \<and>
    (r = Ok () \<and> t = BURN_ADDRESS \<longrightarrow> bal b' = take_from f (unat m) (bal b) \<and>
       circulating b' + unat m = circulating b \<and> burned b' = burned b + unat m)"
proof -
  have av: "available (account_entry b f) = available_balance b f"
    by (auto simp: available_balance_def account_entry_def hm_entry_def default_account_def
        available_def saturating_sub_def split: option.splits)
  have "if m = 0 then r = Err (InvalidAmount ''Amount must be > 0'')
      else if bal b f < lck b f + unat m then r = Err (InsufficientBalance m (available_balance b f))
      else if account_frozen b f
      then r = Err (sys_error.AccountLocked (hex_encode f) (acc_locked_until (account_entry b f)))
      else r = Ok ()"
    using assms(2) by (auto simp: transfer_alt Let_def account_frozen_def av split: if_splits)
  moreover have "ledger_of b' = ledger_of b" if "r \<noteq> Ok ()"
    using assms(2) that transfer_err by (cases r) auto
  moreover have "bal b' = give_to t (unat m) (take_from f (unat m) (bal b)) \<and> circulating b' = circulating b"
    if "r = Ok ()" "t \<noteq> BURN_ADDRESS"
    using transfer_ok [OF assms(1)] assms(2) that by simp
  moreover have "bal b' = take_from f (unat m) (bal b) \<and> circulating b' + unat m = circulating b \<and>
       burned b' = burned b + unat m" if "r = Ok ()" "t = BURN_ADDRESS"
    using burn_ok [OF assms(1), of f m b'] assms(2) that by (simp add: burn_def)
  ultimately show ?thesis by blast
qed

theorem transfer_behaviour_witness:
  "snd (transfer demo_bank [1] [2] 40) = Ok () \<and> snd (transfer demo_bank [1] [2] 4000) \<noteq> Ok () \<and>
   bal (fst (transfer demo_bank [1] [2] 40)) = give_to [2] 40 (take_from [1] 40 (bal demo_bank))"
proof -
  let ?b = "fst (transfer demo_bank [1] [2] 40)"
  have a: "snd (transfer demo_bank [1] [2] 40) = Ok ()" "snd (transfer demo_bank [1] [2] 4000) \<noteq> Ok ()"
    by (simp_all add: demo_bank_def run_simps)
  then have "transfer demo_bank [1] [2] 40 = (?b, Ok ())" by (metis prod.collapse)
  moreover have "([2] :: address) \<noteq> BURN_ADDRESS" by (simp add: run_simps)
  ultimately have "bal ?b = give_to [2] (unat (40 :: token_amount)) (take_from [1] (unat (40 :: token_amount)) (bal demo_bank))"
    using transfer_behaviour [OF demo_bank_inv(1)] by blast
  with a show ?thesis by simp
qed

end
