(* ===== verification/Staking_Properties.thy ===== *)
theory Staking_Properties
  imports Staking Bank_Properties
begin

text \<open>
  What the staking manager promises: the fee split loses nothing, the burn rate follows the load
  between its two configured bounds, stakes are backed by locked tokens of the bank, unbonding takes
  its time, slashing burns what it takes.
\<close>

section \<open>Arithmetic of the fee split\<close>

lemma unat_word_numerals128 [simp]:
  "unat (70 :: u128) = 70" "unat (100 :: u128) = 100" "unat (10000 :: u128) = 10000"
  by simp_all

lemma bps_of_exact:
  fixes x :: u128 and r :: u16
  assumes "unat x * unat r < 2 ^ 128"
  shows "unat (x * ucast r div 10000) = unat x * unat r div 10000"
proof -
  have "unat (x * ucast r) = unat x * unat r" using assms by (simp add: u_arith)
  then show ?thesis by (simp add: unat_div_distrib)
qed

lemma seventy_percent:
  fixes x :: u128
  assumes "unat x * 70 < 2 ^ 128"
  shows "unat (x * 70 div 100) = unat x * 70 div 100"
proof -
  have "unat (x * 70) = unat x * 70" using assms by (simp add: u_arith)
  then show ?thesis by (simp add: unat_div_distrib)
qed

lemma fee_shares_le: "r \<le> 3000 \<Longrightarrow> (n :: nat) * 70 div 100 + n * r div 10000 \<le> n"
proof -
  assume r: "r \<le> 3000"
  have "n * r div 10000 \<le> n * 3000 div 10000" using r by (intro div_le_mono mult_le_mono2)
  then show ?thesis
    using div_times_less_eq_dividend [of "n * 70" 100] div_times_less_eq_dividend [of "n * 3000" 10000]
    by linarith
qed

lemma fee_split_exact:
  assumes "calculate_fee_split sm fee = (p, v, z)" and "unat (sm_current_burn_rate_bps sm) \<le> 3000"
    and "unat fee * 3000 < 2 ^ 128"
  shows "unat p = unat fee * 70 div 100"
    and "unat z = unat fee * unat (sm_current_burn_rate_bps sm) div 10000"
    and "unat p + unat v + unat z = unat fee"
proof -
  let ?r = "sm_current_burn_rate_bps sm"
  have "unat fee * unat ?r \<le> unat fee * 3000" using assms(2) by simp
  then have "unat fee * unat ?r < 2 ^ 128" "unat fee * 70 < 2 ^ 128" using assms(3) by linarith+
  then show p: "unat p = unat fee * 70 div 100" and z: "unat z = unat fee * unat ?r div 10000"
    using assms(1) bps_of_exact seventy_percent by (auto simp: calculate_fee_split_def Let_def)
  have "unat v = unat fee - unat p - unat z"
    using assms(1) by (auto simp: calculate_fee_split_def Let_def u_arith)
  with fee_shares_le [OF assms(2), of "unat fee"] p z show "unat p + unat v + unat z = unat fee" by simp
qed

section \<open>The burn rate\<close>

definition config_ok :: "staking_config \<Rightarrow> bool" where
  "config_ok c \<longleftrightarrow> staking_config_validate c = Ok ()"

lemma config_okD:
  assumes "config_ok c"
  shows "sc_base_burn_rate_bps c \<le> sc_max_burn_rate_bps c"
    and "sc_congestion_threshold c < sc_high_congestion_threshold c"
  using assms by (auto simp: config_ok_def staking_config_validate_def not_le not_less split: if_splits)

text \<open>The interpolated rate over natural numbers.\<close>

definition rate_spec :: "nat \<Rightarrow> nat \<Rightarrow> nat \<Rightarrow> nat \<Rightarrow> nat \<Rightarrow> nat" where
  "rate_spec base cap lo hi u =
     (if u > hi then cap else if u > lo then base + (cap - base) * (u - lo) div (hi - lo) else base)"

lemma unat_sub_words:
  fixes a :: "'a::len word"
  shows "b \<le> a \<Longrightarrow> unat (a - b) = unat a - unat b"
  by (simp add: unat_sub)

lemma burn_rate_for_spec:
  assumes "config_ok c"
  shows "unat (burn_rate_for c u) =
    rate_spec (unat (sc_base_burn_rate_bps c)) (unat (sc_max_burn_rate_bps c))
      (unat (sc_congestion_threshold c)) (unat (sc_high_congestion_threshold c)) (unat u)"
proof -
  let ?b = "sc_base_burn_rate_bps c" and ?m = "sc_max_burn_rate_bps c"
  let ?l = "sc_congestion_threshold c" and ?h = "sc_high_congestion_threshold c"
  note ok = config_okD [OF assms]
  show ?thesis
  proof (cases "u > ?h \<or> \<not> u > ?l")
    case True
    then show ?thesis using ok
      by (auto simp: burn_rate_for_def rate_spec_def word_less_nat_alt)
  next
    case False
    then have u: "u \<le> ?h" "?l < u" by auto
    let ?r = "?m - ?b" and ?d = "?h - ?l" and ?e = "u - ?l"
    have r: "unat ?r = unat ?m - unat ?b" using ok by (simp add: unat_sub_words)
    have d: "unat ?d = unat ?h - unat ?l" using ok by (simp add: unat_sub_words less_imp_le)
    have e: "unat ?e = unat u - unat ?l" using u by (simp add: unat_sub_words less_imp_le)
    have ed: "unat ?e \<le> unat ?d" using u by (simp add: e d word_le_nat_alt diff_le_mono)
    have dpos: "0 < unat ?d" using ok by (simp add: d word_less_nat_alt)
    have c32: "unat (ucast ?r :: u32) = unat ?r" "unat (ucast ?e :: u32) = unat ?e"
      "unat (ucast ?d :: u32) = unat ?d"
      by (simp_all add: unsigned_ucast_eq take_bit_nat_eq_self order.strict_trans [OF unsigned_less])
    have "unat ?r * unat ?e < 2 ^ 16 * 2 ^ 8"
      using unat_bound16 [of ?r] unat_bound8 [of ?e] by (intro mult_strict_mono) simp_all
    then have "unat ((ucast ?r :: u32) * ucast ?e) = unat ?r * unat ?e"
      by (simp add: unat_mult_exact c32)
    then have q: "unat ((ucast ?r :: u32) * ucast ?e div ucast ?d) = unat ?r * unat ?e div unat ?d"
      by (simp add: unat_div_distrib c32)
    have qle: "unat ?r * unat ?e div unat ?d \<le> unat ?r"
    proof -
      have "unat ?r * unat ?e div unat ?d \<le> unat ?r * unat ?d div unat ?d"
        by (intro div_le_mono mult_le_mono2 ed)
      then show ?thesis using dpos by simp
    qed
    have small: "unat ?r * unat ?e div unat ?d < 2 ^ 16"
      using qle unat_bound16 [of ?r] by linarith
    have add: "unat (ucast ((ucast ?r :: u32) * ucast ?e div ucast ?d) :: u16) =
        unat ?r * unat ?e div unat ?d"
      using small by (simp add: unsigned_ucast_eq take_bit_nat_eq_self q)
    have "unat ?b + unat ?r * unat ?e div unat ?d < 2 ^ LENGTH(16)"
      using qle r ok unat_bound16 [of ?m] by (simp add: word_le_nat_alt)
    then have "unat (?b + ucast ((ucast ?r :: u32) * ucast ?e div ucast ?d)) =
        unat ?b + unat ?r * unat ?e div unat ?d"
      by (simp add: u_arith add)
    then show ?thesis using False u
      by (simp add: burn_rate_for_def rate_spec_def Let_def r d e word_less_nat_alt word_le_nat_alt)
  qed
qed

lemma rate_spec_bounds:
  assumes "base \<le> cap" and "lo < hi"
  shows "base \<le> rate_spec base cap lo hi u \<and> rate_spec base cap lo hi u \<le> cap"
proof -
  have "(cap - base) * (u - lo) div (hi - lo) \<le> cap - base" if "u \<le> hi"
  proof -
    have "(cap - base) * (u - lo) div (hi - lo) \<le> (cap - base) * (hi - lo) div (hi - lo)"
      using that by (intro div_le_mono mult_le_mono2 diff_le_mono)
    then show ?thesis using assms(2) by simp
  qed
  then show ?thesis using assms by (auto simp: rate_spec_def)
qed

lemma rate_spec_mono:
  assumes "base \<le> cap" and "lo < hi" and "u \<le> v"
  shows "rate_spec base cap lo hi u \<le> rate_spec base cap lo hi v"
proof (cases "v > hi")
  case True
  then show ?thesis using rate_spec_bounds [OF assms(1,2), of u] by (simp add: rate_spec_def)
next
  case False
  show ?thesis
  proof (cases "u > lo")
    case True
    have "(cap - base) * (u - lo) div (hi - lo) \<le> (cap - base) * (v - lo) div (hi - lo)"
      using assms(3) by (intro div_le_mono mult_le_mono2 diff_le_mono)
    then show ?thesis using True False assms by (simp add: rate_spec_def)
  next
    case f: False
    then have "rate_spec base cap lo hi u = base" using False assms by (simp add: rate_spec_def)
    then show ?thesis using rate_spec_bounds [OF assms(1,2), of v] by simp
  qed
qed


section \<open>Stakes are backed by locked tokens\<close>

definition staked_of :: "staking_manager \<Rightarrow> address \<Rightarrow> nat" where
  "staked_of sm a = (case get_staker sm a of None \<Rightarrow> 0 | Some i \<Rightarrow> unat (si_staked i))"

definition unbonding_of :: "staking_manager \<Rightarrow> address \<Rightarrow> nat" where
  "unbonding_of sm a = (case get_staker sm a of None \<Rightarrow> 0 | Some i \<Rightarrow> unat (si_unbonding i))"

definition stake_sum :: "staking_manager \<Rightarrow> nat" where
  "stake_sum sm = hm_sum (\<lambda>i. unat (si_staked i)) (sm_stakers sm)"

definition staking_inv :: "staking_manager \<Rightarrow> bank \<Rightarrow> bool" where
  "staking_inv sm b \<longleftrightarrow> bank_inv b \<and> distinct (map fst (sm_stakers sm)) \<and> stake_sum sm = unat (sm_total_staked sm) \<and>
     (\<forall>a. unbonding_of sm a \<le> staked_of sm a \<and> staked_of sm a \<le> lck b a)"

lemma staking_invD:
  assumes "staking_inv sm b"
  shows "unbonding_of sm a \<le> staked_of sm a" "staked_of sm a \<le> lck b a" "unbonding_of sm a \<le> lck b a"
    "lck b a \<le> bal b a" "bank_inv b" "stake_sum sm = unat (sm_total_staked sm)"
    "distinct (map fst (sm_stakers sm))"
  using assms by (auto simp: staking_inv_def bank_inv_def intro: order.trans)

lemma emit_staking_views [simp]:
  "map fst (sm_stakers (emit_staking e sm)) = map fst (sm_stakers sm)"
  "get_staker (emit_staking e sm) = get_staker sm" "stake_sum (emit_staking e sm) = stake_sum sm"
  "sm_total_staked (emit_staking e sm) = sm_total_staked sm"
  "staked_of (emit_staking e sm) = staked_of sm" "unbonding_of (emit_staking e sm) = unbonding_of sm"
  "sm_config (emit_staking e sm) = sm_config sm"
  by (simp_all add: emit_staking_def get_staker_def stake_sum_def staked_of_def unbonding_of_def fun_eq_iff)

lemma put_staker_distinct [simp]:
  "distinct (map fst (sm_stakers sm)) \<Longrightarrow> distinct (map fst (sm_stakers (put_staker a i sm)))"
  by (simp add: put_staker_def)

lemma put_staker_views [simp]:
  "get_staker (put_staker a i sm) x = (if x = a then Some i else get_staker sm x)"
  "sm_total_staked (put_staker a i sm) = sm_total_staked sm"
  "sm_config (put_staker a i sm) = sm_config sm"
  "sm_current_block (put_staker a i sm) = sm_current_block sm"
  by (simp_all add: put_staker_def get_staker_def)

lemma put_staker_of [simp]:
  "staked_of (put_staker a i sm) x = (if x = a then unat (si_staked i) else staked_of sm x)"
  "unbonding_of (put_staker a i sm) x = (if x = a then unat (si_unbonding i) else unbonding_of sm x)"
  by (simp_all add: staked_of_def unbonding_of_def)

lemma total_upd_views [simp]:
  "get_staker (sm\<lparr>sm_total_staked := t\<rparr>) = get_staker sm"
  "staked_of (sm\<lparr>sm_total_staked := t\<rparr>) = staked_of sm"
  "unbonding_of (sm\<lparr>sm_total_staked := t\<rparr>) = unbonding_of sm"
  "stake_sum (sm\<lparr>sm_total_staked := t\<rparr>) = stake_sum sm"
  by (simp_all add: get_staker_def staked_of_def unbonding_of_def stake_sum_def fun_eq_iff)

lemma put_staker_sum: "stake_sum (put_staker a i sm) + staked_of sm a = stake_sum sm + unat (si_staked i)"
  using hm_sum_insert [of "\<lambda>i. unat (si_staked i)" a i "sm_stakers sm"]
  by (simp add: stake_sum_def put_staker_def staked_of_def get_staker_def)

lemma staked_le_sum: "staked_of sm a \<le> stake_sum sm"
  by (auto simp: staked_of_def get_staker_def stake_sum_def split: option.splits intro: hm_sum_ge)

lemma staker_some:
  "hm_get (sm_stakers sm) a = Some i \<Longrightarrow> staked_of sm a = unat (si_staked i) \<and> unbonding_of sm a = unat (si_unbonding i)"
  by (simp add: staked_of_def unbonding_of_def get_staker_def)

text \<open>All stakes together are at most what all accounts own, so they fit the supply.\<close>

lemma sum_get_le_hm_sum:
  "finite S \<Longrightarrow> (\<Sum>a\<in>S. case hm_get m a of None \<Rightarrow> 0 | Some v \<Rightarrow> f v) \<le> hm_sum f m"
proof (induction m arbitrary: S)
  case (Cons p m)
  obtain k v where p: "p = (k, v)" by force
  let ?g = "\<lambda>m a. case hm_get m a of None \<Rightarrow> 0 | Some v \<Rightarrow> f v"
  have "sum (?g (p # m)) S \<le> f v + sum (?g m) (S - {k})"
  proof (cases "k \<in> S")
    case True
    then have "sum (?g (p # m)) S = ?g (p # m) k + sum (?g (p # m)) (S - {k})"
      using Cons.prems by (simp add: sum.remove)
    also have "sum (?g (p # m)) (S - {k}) = sum (?g m) (S - {k})"
      by (rule sum.cong) (auto simp: p hm_get_def)
    finally show ?thesis by (simp add: p hm_get_def)
  next
    case False
    then have "sum (?g (p # m)) S = sum (?g m) (S - {k})"
      by (intro sum.cong) (auto simp: p hm_get_def)
    then show ?thesis by simp
  qed
  also have "\<dots> \<le> f v + hm_sum f m" using Cons.IH [of "S - {k}"] Cons.prems by simp
  finally show ?case by (simp add: p hm_sum_def)
qed (simp add: hm_get_def)

lemma hm_sum_as_sum:
  "distinct (map fst m) \<Longrightarrow> hm_sum f m = (\<Sum>a\<in>fst ` set m. case hm_get m a of None \<Rightarrow> 0 | Some v \<Rightarrow> f v)"
proof (induction m)
  case (Cons p m)
  obtain k v where p: "p = (k, v)" by force
  then have k: "k \<notin> fst ` set m" and d: "distinct (map fst m)" using Cons.prems by auto
  have "(\<Sum>a\<in>fst ` set m. case hm_get (p # m) a of None \<Rightarrow> 0 | Some v \<Rightarrow> f v) =
        (\<Sum>a\<in>fst ` set m. case hm_get m a of None \<Rightarrow> 0 | Some v \<Rightarrow> f v)"
    using k by (intro sum.cong) (auto simp: p hm_get_def)
  then show ?case using k Cons.IH [OF d] by (simp add: p hm_get_def hm_sum_def)
qed (simp add: hm_sum_def)

lemma bal_sum_le_total: "finite S \<Longrightarrow> (\<Sum>a\<in>S. bal b a) \<le> bank_total b"
proof -
  assume "finite S"
  have "(\<Sum>a\<in>S. bal b a) = (\<Sum>a\<in>S. case hm_get (bk_accounts b) a of None \<Rightarrow> 0 | Some v \<Rightarrow> unat (acc_balance v))"
    by (intro sum.cong) (auto simp: bal_def balance_of_def split: option.splits)
  then show ?thesis
    using sum_get_le_hm_sum [OF \<open>finite S\<close>, where m = "bk_accounts b" and f = "\<lambda>v. unat (acc_balance v)"]
    by (simp add: bank_total_def)
qed

lemma stake_sum_bound:
  assumes inv: "staking_inv sm b" and room: "lck b a + n \<le> bal b a"
  shows "stake_sum sm + n \<le> bank_total b"
proof -
  let ?S = "insert a (fst ` set (sm_stakers sm))"
  note d = staking_invD [OF inv]
  have "stake_sum sm = (\<Sum>x\<in>fst ` set (sm_stakers sm). staked_of sm x)"
    using hm_sum_as_sum [OF d(7), where f = "\<lambda>i. unat (si_staked i)"]
    by (simp add: stake_sum_def staked_of_def get_staker_def)
  also have "\<dots> \<le> (\<Sum>x\<in>?S. staked_of sm x)" by (intro sum_mono2) auto
  also have "\<dots> = staked_of sm a + (\<Sum>x\<in>?S - {a}. staked_of sm x)"
    by (simp add: sum.remove [of ?S a])
  finally have "stake_sum sm + n \<le> (staked_of sm a + n) + (\<Sum>x\<in>?S - {a}. staked_of sm x)" by simp
  also have "\<dots> \<le> bal b a + (\<Sum>x\<in>?S - {a}. bal b x)"
    using room d(2) [of a] by (intro add_mono sum_mono order.trans [OF d(2) d(4)]) simp
  also have "\<dots> = (\<Sum>x\<in>?S. bal b x)" by (simp add: sum.remove [of ?S a])
  also have "\<dots> \<le> bank_total b" by (rule bal_sum_le_total) simp
  finally show ?thesis .
qed

text \<open>What \<open>stake\<close> does when it succeeds, before any arithmetic.\<close>

abbreviation stake_entry :: "staking_manager \<Rightarrow> address \<Rightarrow> stake_role \<Rightarrow> stake_info" where
  "stake_entry sm a role \<equiv> hm_entry (stake_info_new a role 0 (sm_current_block sm)) (sm_stakers sm) a"

lemma stake_entry_views:
  "unat (si_staked (stake_entry sm a role)) = staked_of sm a"
  "unat (si_unbonding (stake_entry sm a role)) = unbonding_of sm a"
  by (simp_all add: hm_entry_def staked_of_def unbonding_of_def get_staker_def stake_info_new_def
      split: option.splits)

lemma stake_ok:
  assumes "stake sm a m role b = (sm', b', Ok ())"
  shows "lock b a m = (b', Ok ())" and "role_min_stake (sm_config sm) role \<le> m"
    and "sm' = emit_staking (Staked a m role (saturating_add (si_staked (stake_entry sm a role)) m) (sm_current_block sm))
          ((put_staker a ((stake_entry sm a role)\<lparr>si_staked := saturating_add (si_staked (stake_entry sm a role)) m\<rparr>) sm)
             \<lparr>sm_total_staked := saturating_add (sm_total_staked sm) m\<rparr>)"
  using assms
  by (auto simp: stake_def Let_def not_less split: if_splits prod.splits result.splits)

lemma stake_keeps_inv:
  assumes inv: "staking_inv sm b" and ok: "stake sm a m role b = (sm', b', Ok ())"
  shows "staking_inv sm' b' \<and> staked_of sm' a = staked_of sm a + unat m \<and>
    unat (sm_total_staked sm') = unat (sm_total_staked sm) + unat m \<and>
    lck b' a = lck b a + unat m"
proof -
  let ?info = "stake_entry sm a role"
  note l = stake_ok(1) [OF ok] and sm' = stake_ok(3) [OF ok] and st = stake_entry_views [where sm = sm and a = a and role = role]
  have bi: "bank_inv b" and sum: "stake_sum sm = unat (sm_total_staked sm)"
    and each: "\<And>x. unbonding_of sm x \<le> staked_of sm x \<and> staked_of sm x \<le> lck b x"
    using inv by (auto simp: staking_inv_def)
  note lk = bank.lock_law [OF bi l]
  have fits: "unat (sm_total_staked sm) + unat m < 2 ^ 128"
    using stake_sum_bound [OF inv, of a "unat m"] lk bi sum by (simp add: bank_inv_def issued_def)
  have "unat (si_staked ?info) + unat m < 2 ^ LENGTH(128)"
    using staked_le_sum [of sm a] st sum fits by simp
  then have s1: "unat (saturating_add (si_staked ?info) m) = staked_of sm a + unat m"
    by (simp add: u_arith st)
  have t1: "unat (saturating_add (sm_total_staked sm) m) = unat (sm_total_staked sm) + unat m"
    using fits by (simp add: u_arith)
  have "stake_sum sm' = stake_sum sm + unat m"
    using put_staker_sum [of a "?info\<lparr>si_staked := saturating_add (si_staked ?info) m\<rparr>" sm] s1
    by (simp add: sm')
  moreover have "unbonding_of sm' x \<le> staked_of sm' x \<and> staked_of sm' x \<le> lck b' x" for x
    using each [of x] lk by (auto simp: sm' s1 st give_to_def)
  ultimately show ?thesis
    using lk sum staking_invD(7) [OF inv] by (simp add: staking_inv_def sm' t1 s1 give_to_def)
qed

lemma stake_err: "stake sm a m role b = (sm', b', Err e) \<Longrightarrow> sm' = sm \<and> b' = b"
  by (auto simp: stake_def Let_def split: if_splits prod.splits result.splits dest: lock_err)

lemma unstake_err: "unstake sm a m ctx = (sm', Err e) \<Longrightarrow> sm' = sm"
  by (auto simp: unstake_def Let_def split: if_splits option.splits)

lemma unstake_ok:
  assumes "unstake sm a m ctx = (sm', Ok ())"
  shows "\<exists>info. hm_get (sm_stakers sm) a = Some info \<and> si_jailed_until info \<le> ctx_timestamp ctx \<and>
    unat m \<le> staked_of sm a - unbonding_of sm a \<and>
    sm' = emit_staking (UnstakeInitiated a m (ctx_timestamp ctx + sc_unbonding_period (sm_config sm)) (ctx_height ctx))
      (put_staker a (info\<lparr>si_unbonding := saturating_add (si_unbonding info) m,
         si_unbonding_complete_time := ctx_timestamp ctx + sc_unbonding_period (sm_config sm)\<rparr>) sm)"
  using assms
  by (auto simp: unstake_def Let_def not_less staker_some word_le_nat_alt u_arith
      split: if_splits option.splits)

lemma unstake_keeps_inv:
  assumes inv: "staking_inv sm b" and ok: "unstake sm a m ctx = (sm', Ok ())"
  shows "staking_inv sm' b \<and> staked_of sm' = staked_of sm \<and>
    unbonding_of sm' a = unbonding_of sm a + unat m \<and> sm_total_staked sm' = sm_total_staked sm"
proof -
  from unstake_ok [OF ok] obtain info where g: "hm_get (sm_stakers sm) a = Some info"
    and m: "unat m \<le> staked_of sm a - unbonding_of sm a"
    and sm': "sm' = emit_staking (UnstakeInitiated a m (ctx_timestamp ctx + sc_unbonding_period (sm_config sm)) (ctx_height ctx))
      (put_staker a (info\<lparr>si_unbonding := saturating_add (si_unbonding info) m,
         si_unbonding_complete_time := ctx_timestamp ctx + sc_unbonding_period (sm_config sm)\<rparr>) sm)"
    by auto
  note v = staker_some [OF g]
  have each: "\<And>x. unbonding_of sm x \<le> staked_of sm x \<and> staked_of sm x \<le> lck b x"
    using inv by (auto simp: staking_inv_def)
  have le: "unbonding_of sm a + unat m \<le> staked_of sm a" using m each [of a] by arith
  then have "unat (si_unbonding info) + unat m < 2 ^ LENGTH(128)"
    using v unat_bound128 [of "si_staked info"] by simp
  then have u1: "unat (saturating_add (si_unbonding info) m) = unbonding_of sm a + unat m"
    by (simp add: u_arith v)
  have sum: "stake_sum sm' = stake_sum sm"
    using put_staker_sum [of a "info\<lparr>si_unbonding := saturating_add (si_unbonding info) m,
         si_unbonding_complete_time := ctx_timestamp ctx + sc_unbonding_period (sm_config sm)\<rparr>" sm] v
    by (simp add: sm')
  have st: "staked_of sm' = staked_of sm" using v by (auto simp: sm')
  have "unbonding_of sm' x \<le> staked_of sm' x \<and> staked_of sm' x \<le> lck b x" for x
    using each [of x] le by (auto simp: sm' u1 v)
  moreover have "sm_total_staked sm' = sm_total_staked sm" "unbonding_of sm' a = unbonding_of sm a + unat m"
    by (simp_all add: sm' u1)
  moreover have "distinct (map fst (sm_stakers sm'))" using staking_invD(7) [OF inv] by (simp add: sm')
  ultimately show ?thesis using inv sum st by (simp add: staking_inv_def)
qed

lemma withdraw_ok:
  assumes "withdraw sm a ctx b = (sm', b', Ok n)"
  shows "\<exists>info. hm_get (sm_stakers sm) a = Some info \<and> n = si_unbonding info \<and> n \<noteq> 0 \<and>
    si_unbonding_complete_time info \<le> ctx_timestamp ctx \<and> unlock b a n = (b', Ok ()) \<and>
    sm' = emit_staking (StakeWithdrawn a n (ctx_height ctx))
      ((put_staker a (info\<lparr>si_staked := saturating_sub (si_staked info) n, si_unbonding := 0,
          si_unbonding_complete_time := 0\<rparr>) sm)\<lparr>sm_total_staked := saturating_sub (sm_total_staked sm) n\<rparr>)"
  using assms
  by (auto simp: withdraw_def Let_def not_less split: if_splits option.splits prod.splits result.splits)

lemma withdraw_keeps_inv:
  assumes inv: "staking_inv sm b" and ok: "withdraw sm a ctx b = (sm', b', Ok n)"
  shows "staking_inv sm' b' \<and> unat n = unbonding_of sm a \<and> staked_of sm' a + unat n = staked_of sm a \<and>
    unat (sm_total_staked sm') + unat n = unat (sm_total_staked sm) \<and>
    lck b' a + unat n = lck b a \<and> unbonding_of sm' a = 0"
proof -
  from withdraw_ok [OF ok] obtain info where g: "hm_get (sm_stakers sm) a = Some info"
    and n: "n = si_unbonding info" and u: "unlock b a n = (b', Ok ())"
    and sm': "sm' = emit_staking (StakeWithdrawn a n (ctx_height ctx))
      ((put_staker a (info\<lparr>si_staked := saturating_sub (si_staked info) n, si_unbonding := 0,
          si_unbonding_complete_time := 0\<rparr>) sm)\<lparr>sm_total_staked := saturating_sub (sm_total_staked sm) n\<rparr>)"
    by auto
  note v = staker_some [OF g]
  have bi: "bank_inv b" and sum: "stake_sum sm = unat (sm_total_staked sm)"
    and each: "\<And>x. unbonding_of sm x \<le> staked_of sm x \<and> staked_of sm x \<le> lck b x"
    using inv by (auto simp: staking_inv_def)
  note ul = bank.unlock_law [OF bi u]
  have nle: "unat n \<le> staked_of sm a" using each [of a] n v by simp
  then have tle: "unat n \<le> unat (sm_total_staked sm)" using staked_le_sum [of sm a] sum by simp
  have "stake_sum sm' + unat n = stake_sum sm"
    using put_staker_sum [of a "info\<lparr>si_staked := saturating_sub (si_staked info) n, si_unbonding := 0,
          si_unbonding_complete_time := 0\<rparr>" sm] v nle
    by (simp add: sm' u_arith)
  moreover have "unbonding_of sm' x \<le> staked_of sm' x \<and> staked_of sm' x \<le> lck b' x" for x
    using each [of x] ul v by (auto simp: sm' take_from_def u_arith diff_le_mono)
  ultimately show ?thesis
    using ul sum v n nle tle staking_invD(7) [OF inv] by (simp add: staking_inv_def sm' take_from_def u_arith)
qed

text \<open>Under the invariant a withdrawal that passes the time lock cannot fail half-way.\<close>

lemma withdraw_succeeds:
  assumes inv: "staking_inv sm b" and g: "hm_get (sm_stakers sm) a = Some info"
    and "si_unbonding info \<noteq> 0" and "si_unbonding_complete_time info \<le> ctx_timestamp ctx"
  shows "\<exists>sm' b'. withdraw sm a ctx b = (sm', b', Ok (si_unbonding info))"
proof -
  have "unat (si_unbonding info) \<le> lck b a"
    using staking_invD(3) [OF inv, of a] staker_some [OF g] by simp
  moreover have "0 < si_unbonding info" using assms(3) by (simp add: word_gt_0)
  ultimately obtain b' where "unlock b a (si_unbonding info) = (b', Ok ())"
    using bank.unlock_total by blast
  then show ?thesis using assms by (simp add: withdraw_def Let_def)
qed


section \<open>Slashing\<close>

lemma slash_succeeds:
  assumes g: "hm_get (sm_stakers sm) a = Some info" and acc: "hm_get (bk_accounts b) a = Some acc"
  shows "\<exists>sm' b' n. staking_slash sm (Unheld b) a rate reason jail = Some (sm', Unheld b', Ok n)"
  using assms by (auto simp: staking_slash_def Let_def bank_slash_def)




section \<open>Rewards and end of block\<close>

lemma add_rewards_views:
  "staked_of (add_rewards a m sm) = staked_of sm" "unbonding_of (add_rewards a m sm) = unbonding_of sm"
  "sm_total_staked (add_rewards a m sm) = sm_total_staked sm" "stake_sum (add_rewards a m sm) = stake_sum sm"
  "distinct (map fst (sm_stakers sm)) \<Longrightarrow> distinct (map fst (sm_stakers (add_rewards a m sm)))"
proof -
  have "stake_sum (add_rewards a m sm) = stake_sum sm"
  proof (cases "hm_get (sm_stakers sm) a")
    case (Some i)
    then show ?thesis
      using put_staker_sum [of a "i\<lparr>si_total_rewards := saturating_add (si_total_rewards i) m\<rparr>" sm] staker_some [OF Some]
      by (simp add: add_rewards_def)
  qed (simp add: add_rewards_def)
  then show "stake_sum (add_rewards a m sm) = stake_sum sm" .
qed (auto simp: add_rewards_def fun_eq_iff staker_some split: option.splits)

lemma distribute_keeps_inv:
  assumes "staking_inv sm b"
  shows "staking_inv (fst (distribute_rewards sm fee p v)) b"
proof -
  have c: "sm_total_staked (x\<lparr>sm_total_burned := t\<rparr>) = sm_total_staked x" "stake_sum (x\<lparr>sm_total_burned := t\<rparr>) = stake_sum x"
    "staked_of (x\<lparr>sm_total_burned := t\<rparr>) = staked_of x" "unbonding_of (x\<lparr>sm_total_burned := t\<rparr>) = unbonding_of x"
    "sm_stakers (x\<lparr>sm_total_burned := t\<rparr>) = sm_stakers x" for x :: staking_manager and t
    by (simp_all add: stake_sum_def staked_of_def unbonding_of_def get_staker_def fun_eq_iff)
  show ?thesis using assms
    by (simp add: distribute_rewards_def Let_def split_beta staking_inv_def c add_rewards_views)
qed

lemma unjail_loop_map:
  "fst (unjail_loop ctx m) = map (\<lambda>(a, i). (a, if jail_over ctx i then i\<lparr>si_jailed_until := 0\<rparr> else i)) m"
  by (induction ctx m rule: unjail_loop.induct) (auto simp: Let_def split: prod.splits)

lemma unjail_loop_get:
  "hm_get (fst (unjail_loop ctx m)) a =
     map_option (\<lambda>i. if jail_over ctx i then i\<lparr>si_jailed_until := 0\<rparr> else i) (hm_get m a)"
  unfolding unjail_loop_map hm_get_def by (induction m) auto

lemma unjail_loop_sum:
  assumes "\<And>i. f (i\<lparr>si_jailed_until := 0\<rparr>) = f i"
  shows "hm_sum f (fst (unjail_loop ctx m)) = hm_sum f m"
  unfolding unjail_loop_map by (induction m) (auto simp: hm_sum_def assms)

lemma unjail_loop_keys: "map fst (fst (unjail_loop ctx m)) = map fst m"
  unfolding unjail_loop_map by (induction m) auto

lemma end_block_state:
  "fst (staking_end_block sm ctx) =
     sm\<lparr>sm_current_block := ctx_height ctx, sm_stakers := fst (unjail_loop ctx (sm_stakers sm)), sm_events := []\<rparr>"
  by (simp add: staking_end_block_def Let_def staking_drain_events_def split: prod.splits)

lemma end_block_get:
  "get_staker (fst (staking_end_block sm ctx)) a =
     map_option (\<lambda>i. if jail_over ctx i then i\<lparr>si_jailed_until := 0\<rparr> else i) (get_staker sm a)"
  by (simp add: end_block_state get_staker_def unjail_loop_get)

lemma end_block_keeps_inv:
  assumes "staking_inv sm b"
  shows "staking_inv (fst (staking_end_block sm ctx)) b"
proof -
  let ?sm = "fst (staking_end_block sm ctx)"
  have "staked_of ?sm = staked_of sm" "unbonding_of ?sm = unbonding_of sm"
    by (auto simp: staked_of_def unbonding_of_def end_block_get fun_eq_iff split: option.splits)
  moreover have "stake_sum ?sm = stake_sum sm" "sm_total_staked ?sm = sm_total_staked sm"
    "map fst (sm_stakers ?sm) = map fst (sm_stakers sm)"
    by (simp_all add: end_block_state stake_sum_def unjail_loop_sum unjail_loop_keys)
  ultimately show ?thesis using assms by (simp add: staking_inv_def)
qed

lemma utilization_keeps_inv:
  assumes "staking_inv sm b"
  shows "staking_inv (update_utilization sm u) b"
proof -
  have "sm_stakers (update_utilization sm u) = sm_stakers sm"
    "sm_total_staked (update_utilization sm u) = sm_total_staked sm"
    by (simp_all add: update_utilization_def Let_def emit_staking_def)
  then show ?thesis using assms
    by (simp add: staking_inv_def stake_sum_def staked_of_def unbonding_of_def get_staker_def)
qed

section \<open>Runs of the staking contract\<close>

datatype staking_op =
    OpStake address token_amount stake_role
  | OpUnstake address token_amount block_context
  | OpWithdraw address block_context
  | OpRewards token_amount address address
  | OpUtilization u8
  | OpEndBlock block_context

fun staking_exec :: "staking_op \<Rightarrow> staking_manager \<times> bank \<Rightarrow> staking_manager \<times> bank" where
  "staking_exec (OpStake a m r) (sm, b) = (case stake sm a m r b of (sm', b', _) \<Rightarrow> (sm', b'))"
| "staking_exec (OpUnstake a m ctx) (sm, b) = (fst (unstake sm a m ctx), b)"
| "staking_exec (OpWithdraw a ctx) (sm, b) = (case withdraw sm a ctx b of (sm', b', _) \<Rightarrow> (sm', b'))"
| "staking_exec (OpRewards fee p v) (sm, b) = (fst (distribute_rewards sm fee p v), b)"
| "staking_exec (OpUtilization u) (sm, b) = (update_utilization sm u, b)"
| "staking_exec (OpEndBlock ctx) (sm, b) = (fst (staking_end_block sm ctx), b)"

text \<open>Under the invariant, a withdrawal that fails has changed nothing.\<close>

lemma withdraw_err:
  assumes inv: "staking_inv sm b" and er: "withdraw sm a ctx b = (sm', b', Err e)"
  shows "sm' = sm \<and> b' = b"
proof (cases "hm_get (sm_stakers sm) a")
  case (Some info)
  show ?thesis
  proof (cases "si_unbonding info = 0 \<or> si_unbonding_complete_time info > ctx_timestamp ctx")
    case True
    then show ?thesis using er Some by (auto simp: withdraw_def split: if_splits)
  next
    case False
    then show ?thesis using withdraw_succeeds [OF inv Some, of ctx] er by (auto simp: not_less)
  qed
qed (use er in \<open>auto simp: withdraw_def\<close>)

lemma staking_exec_inv:
  assumes inv: "staking_inv sm b" and ex: "staking_exec op (sm, b) = (sm', b')"
  shows "staking_inv sm' b'"
proof (cases op)
  case (OpStake a m r)
  obtain x where s: "stake sm a m r b = (sm', b', x)" using ex OpStake by (auto split: prod.splits)
  then show ?thesis using stake_keeps_inv [OF inv] inv by (cases x) (auto dest: stake_err)
next
  case (OpUnstake a m ctx)
  obtain x where s: "unstake sm a m ctx = (sm', x)" "b' = b" using ex OpUnstake by (cases "unstake sm a m ctx") auto
  then show ?thesis using unstake_keeps_inv [OF inv] inv by (cases x) (auto dest: unstake_err)
next
  case (OpWithdraw a ctx)
  obtain x where s: "withdraw sm a ctx b = (sm', b', x)" using ex OpWithdraw by (auto split: prod.splits)
  then show ?thesis using withdraw_keeps_inv [OF inv] inv by (cases x) (auto dest: withdraw_err [OF inv])
qed (use ex inv distribute_keeps_inv utilization_keeps_inv end_block_keeps_inv in auto)

fun staking_run :: "staking_op list \<Rightarrow> staking_manager \<times> bank \<Rightarrow> staking_manager \<times> bank" where
  "staking_run [] s = s"
| "staking_run (op # ops) s = staking_run ops (staking_exec op s)"

lemma staking_run_inv: "staking_inv sm b \<Longrightarrow> staking_run ops (sm, b) = (sm', b') \<Longrightarrow> staking_inv sm' b'"
proof (induction ops arbitrary: sm b)
  case (Cons op ops)
  obtain sm1 b1 where s: "staking_exec op (sm, b) = (sm1, b1)" by force
  then show ?case using Cons staking_exec_inv [OF Cons.prems(1) s] by simp
qed simp

lemma staking_new_inv: "bank_inv b \<Longrightarrow> staking_inv (staking_new c) b"
  by (simp add: staking_inv_def staking_new_def stake_sum_def staked_of_def unbonding_of_def get_staker_def)


section \<open>Properties\<close>

declare stake_def [run_simps] unstake_def [run_simps] withdraw_def [run_simps] staking_slash_def [run_simps]
  slash_for_sla_violation_def [run_simps] slash_for_invalid_proof_def [run_simps]
  slash_for_double_sign_def [run_simps] put_staker_def [run_simps] emit_staking_def [run_simps]
  stake_info_new_def [run_simps] staking_new_def [run_simps] staking_config_devnet_def [run_simps]
  slashing_params_devnet_def [run_simps] block_context_default_def [run_simps]

abbreviation at_time :: "u64 \<Rightarrow> block_context" where
  "at_time t \<equiv> block_context_default\<lparr>ctx_timestamp := t\<rparr>"

text \<open>
  The fee split of \<open>calculate_fee_split\<close>: the prover gets 70 percent, the burn is the current rate,
  and the three parts add up to the fee, so no token is lost to rounding. It holds for burn rates
  up to 30 percent (every shipped configuration) and fees up to \<open>2^128 / 3000\<close>, far above the supply.
\<close>

theorem fee_split_conserves:
  assumes "unat (sm_current_burn_rate_bps sm) \<le> 3000" and "unat fee * 3000 < 2 ^ 128"
    and "calculate_fee_split sm fee = (p, v, z)"
  shows "unat p + unat v + unat z = unat fee \<and> unat p = unat fee * 70 div 100 \<and>
    unat z = unat fee * unat (sm_current_burn_rate_bps sm) div 10000"
  using fee_split_exact [OF assms(3,1,2)] by blast

theorem fee_split_conserves_witness:
  "calculate_fee_split (staking_new staking_config_mainnet) 1000001 = (700000, 250001, 50000) \<and>
   unat (700000 :: u128) + unat (250001 :: u128) + unat (50000 :: u128) = unat (1000001 :: u128)"
proof -
  have e: "calculate_fee_split (staking_new staking_config_mainnet) 1000001 = (700000, 250001, 50000)"
    by (simp add: calculate_fee_split_def staking_new_def staking_config_mainnet_def saturating_sub_def)
  with fee_split_conserves [of "staking_new staking_config_mainnet" 1000001] show ?thesis
    by (simp add: staking_new_def staking_config_mainnet_def)
qed

text \<open>
  The adaptive burn rate. For a configuration that \<open>validate\<close> accepts, \<open>update_utilization\<close> sets a rate
  between the base and the maximum rate, the base rate up to the congestion threshold, the maximum
  above the high threshold, and never a lower rate for a higher load: none of the narrowing
  integer conversions loses anything.
\<close>

theorem burn_rate_bounded_monotone:
  assumes "staking_config_validate (sm_config sm) = Ok ()"
  shows "sc_base_burn_rate_bps (sm_config sm) \<le> sm_current_burn_rate_bps (update_utilization sm u) \<and>
    sm_current_burn_rate_bps (update_utilization sm u) \<le> sc_max_burn_rate_bps (sm_config sm) \<and>
    (u \<le> sc_congestion_threshold (sm_config sm) \<longrightarrow>
       sm_current_burn_rate_bps (update_utilization sm u) = sc_base_burn_rate_bps (sm_config sm)) \<and>
    (sc_high_congestion_threshold (sm_config sm) < u \<longrightarrow>
       sm_current_burn_rate_bps (update_utilization sm u) = sc_max_burn_rate_bps (sm_config sm)) \<and>
    (u \<le> v \<longrightarrow> sm_current_burn_rate_bps (update_utilization sm u)
       \<le> sm_current_burn_rate_bps (update_utilization sm v))"
proof -
  have ok: "config_ok (sm_config sm)" using assms by (simp add: config_ok_def)
  note c = config_okD [OF ok]
  have rate: "sm_current_burn_rate_bps (update_utilization sm x) = burn_rate_for (sm_config sm) x" for x
    by (simp add: update_utilization_def Let_def emit_staking_def)
  note sp = burn_rate_for_spec [OF ok]
  show ?thesis
    unfolding rate word_le_nat_alt sp
    using rate_spec_bounds rate_spec_mono c
    by (auto simp: word_le_nat_alt word_less_nat_alt word_unat_eq_iff sp rate_spec_def)
qed

theorem burn_rate_bounded_monotone_witness:
  "sm_current_burn_rate_bps (update_utilization (staking_new staking_config_mainnet) 65) = 1000 \<and>
   sm_current_burn_rate_bps (update_utilization (staking_new staking_config_mainnet) 65)
     \<le> sm_current_burn_rate_bps (update_utilization (staking_new staking_config_mainnet) 95)"
proof
  show "sm_current_burn_rate_bps (update_utilization (staking_new staking_config_mainnet) 65) = 1000"
    by (simp add: update_utilization_def burn_rate_for_def staking_new_def staking_config_mainnet_def
        emit_staking_def Let_def)
  show "sm_current_burn_rate_bps (update_utilization (staking_new staking_config_mainnet) 65)
     \<le> sm_current_burn_rate_bps (update_utilization (staking_new staking_config_mainnet) 95)"
    using burn_rate_bounded_monotone [of "staking_new staking_config_mainnet" 65 95]
    by (simp add: staking_new_def staking_config_mainnet_def staking_config_validate_def)
qed

text \<open>
  C15. Stakes are backed. In every state that staking, unbonding, withdrawals, rewards, utilisation
  updates and block ends reach from a fresh staking manager over a solvent bank, the total is the
  sum of the stakes, an account never unbonds more than it has staked, and its stake is at most what
  the bank holds locked for it, so that every withdrawal can be paid.
\<close>

theorem stakes_backed:
  assumes "bank_inv b0" and "staking_run ops (staking_new c, b0) = (sm, b)"
  shows "hm_sum (\<lambda>i. unat (si_staked i)) (sm_stakers sm) = unat (sm_total_staked sm) \<and> bank_inv b \<and>
    (get_staker sm a = Some info \<longrightarrow>
       si_unbonding info \<le> si_staked info \<and> si_staked info \<le> get_locked_balance b a)"
proof -
  have "staking_inv sm b" using staking_run_inv [OF staking_new_inv [OF assms(1)] assms(2)] .
  note d = staking_invD [OF this]
  show ?thesis using d(1,2) [of a] d(5,6)
    by (auto simp: stake_sum_def staked_of_def unbonding_of_def lck_def word_le_nat_alt)
qed

abbreviation rich_allocations :: "token_allocation list" where
  "rich_allocations \<equiv> [\<lparr>al_address = [1], al_balance = 9000000000000000000, al_vesting = None\<rparr>]"

definition rich_bank :: bank where
  "rich_bank = apply_allocations rich_allocations (bank_new bank_config_default)"

lemma rich_bank_inv: "bank_inv rich_bank"
  using genesis_inv [of rich_allocations] by (simp add: rich_bank_def bank_from_genesis_def)

abbreviation demo_staking_run :: "staking_op list" where
  "demo_staking_run \<equiv> [OpStake [1] 2000000000000000000 ComputeNode, OpUnstake [1] 1000000000000000000 (at_time 5)]"

theorem stakes_backed_witness:
  "case staking_run demo_staking_run (staking_new staking_config_devnet, rich_bank) of (sm, b) \<Rightarrow>
     sm_total_staked sm = 2000000000000000000 \<and>
     hm_sum (\<lambda>i. unat (si_staked i)) (sm_stakers sm) = unat (sm_total_staked sm)"
proof -
  obtain sm b where r: "staking_run demo_staking_run (staking_new staking_config_devnet, rich_bank) = (sm, b)"
    by force
  moreover have "sm_total_staked sm = 2000000000000000000"
    using r by (simp add: rich_bank_def run_simps Let_def) auto
  ultimately show ?thesis using stakes_backed [OF rich_bank_inv r] by simp
qed

text \<open>
  Unbonding takes its time and then pays exactly. After a successful \<open>unstake\<close> at time \<open>t\<close>, a
  \<open>withdraw\<close> before \<open>t\<close> plus the unbonding period is refused and changes nothing; from then on it
  succeeds, pays the whole unbonding amount and lowers stake, total and lock by exactly it. The
  end of the period must fit 64 bits.
\<close>

theorem unbonding_is_timed_and_exact:
  assumes "staking_inv sm b" and "unstake sm a m ctx = (sm', Ok ())" and "0 < m"
    and "unat (ctx_timestamp ctx) + unat (sc_unbonding_period (sm_config sm)) < 2 ^ 64"
  shows "(unat (ctx_timestamp ctx2) < unat (ctx_timestamp ctx) + unat (sc_unbonding_period (sm_config sm)) \<longrightarrow>
      withdraw sm' a ctx2 b = (sm', b, Err (UnstakeInProgress (ctx_timestamp ctx + sc_unbonding_period (sm_config sm))))) \<and>
    (unat (ctx_timestamp ctx) + unat (sc_unbonding_period (sm_config sm)) \<le> unat (ctx_timestamp ctx2) \<longrightarrow>
      (\<exists>sm2 b2 n. withdraw sm' a ctx2 b = (sm2, b2, Ok n) \<and> unat n = unbonding_of sm a + unat m \<and>
         staked_of sm2 a + unat n = staked_of sm a \<and> lck b2 a + unat n = lck b a \<and> bal b2 = bal b \<and>
         unat (sm_total_staked sm2) + unat n = unat (sm_total_staked sm)))"
proof -
  from unstake_ok [OF assms(2)] obtain info where info: "hm_get (sm_stakers sm) a = Some info"
    and sm': "sm' = emit_staking (UnstakeInitiated a m (ctx_timestamp ctx + sc_unbonding_period (sm_config sm)) (ctx_height ctx))
      (put_staker a (info\<lparr>si_unbonding := saturating_add (si_unbonding info) m,
         si_unbonding_complete_time := ctx_timestamp ctx + sc_unbonding_period (sm_config sm)\<rparr>) sm)"
    by auto
  note u = unstake_keeps_inv [OF assms(1,2)]
  obtain i where i: "hm_get (sm_stakers sm') a = Some i"
    and t: "si_unbonding_complete_time i = ctx_timestamp ctx + sc_unbonding_period (sm_config sm)"
    by (simp add: sm' emit_staking_def put_staker_def)
  have pos: "si_unbonding i \<noteq> 0"
  proof -
    have "0 < unat (si_unbonding i)"
      using u staker_some [OF i] assms(3) by (simp add: word_less_nat_alt)
    then show ?thesis by auto
  qed
  have tn: "unat (si_unbonding_complete_time i) = unat (ctx_timestamp ctx) + unat (sc_unbonding_period (sm_config sm))"
    unfolding t using assms(4) by (simp add: u_arith)
  have early: "unat (ctx_timestamp ctx2) < unat (ctx_timestamp ctx) + unat (sc_unbonding_period (sm_config sm)) \<longrightarrow>
      withdraw sm' a ctx2 b = (sm', b, Err (UnstakeInProgress (ctx_timestamp ctx + sc_unbonding_period (sm_config sm))))"
    using i t tn pos by (simp add: withdraw_def word_less_nat_alt)
  have "unat (ctx_timestamp ctx) + unat (sc_unbonding_period (sm_config sm)) \<le> unat (ctx_timestamp ctx2) \<longrightarrow>
      (\<exists>sm2 b2 n. withdraw sm' a ctx2 b = (sm2, b2, Ok n) \<and> unat n = unbonding_of sm a + unat m \<and>
         staked_of sm2 a + unat n = staked_of sm a \<and> lck b2 a + unat n = lck b a \<and> bal b2 = bal b \<and>
         unat (sm_total_staked sm2) + unat n = unat (sm_total_staked sm))"
  proof
    assume "unat (ctx_timestamp ctx) + unat (sc_unbonding_period (sm_config sm)) \<le> unat (ctx_timestamp ctx2)"
    then have "si_unbonding_complete_time i \<le> ctx_timestamp ctx2" by (simp add: word_le_nat_alt tn)
    from withdraw_succeeds [OF _ i pos this] u obtain sm2 b2
      where w: "withdraw sm' a ctx2 b = (sm2, b2, Ok (si_unbonding i))" by blast
    have "bal b2 = bal b"
      using withdraw_ok [OF w] bank.unlock_law [OF staking_invD(5) [OF assms(1)]] by blast
    with withdraw_keeps_inv [OF _ w] u w show "\<exists>sm2 b2 n. withdraw sm' a ctx2 b = (sm2, b2, Ok n) \<and>
       unat n = unbonding_of sm a + unat m \<and> staked_of sm2 a + unat n = staked_of sm a \<and>
       lck b2 a + unat n = lck b a \<and> bal b2 = bal b \<and>
       unat (sm_total_staked sm2) + unat n = unat (sm_total_staked sm)"
      by auto
  qed
  with early show ?thesis by blast
qed

abbreviation two_tokens :: token_amount where "two_tokens \<equiv> 2000000000000000000"
abbreviation one_token :: token_amount where "one_token \<equiv> 1000000000000000000"

theorem unbonding_is_timed_and_exact_witness:
  "case staking_run [OpStake [1] two_tokens ComputeNode] (staking_new staking_config_devnet, rich_bank) of (sm, b) \<Rightarrow>
     let sm' = fst (unstake sm [1] one_token (at_time 5)) in
     withdraw sm' [1] (at_time 64) b = (sm', b, Err (UnstakeInProgress 65)) \<and>
     (\<exists>sm2 b2 n. withdraw sm' [1] (at_time 65) b = (sm2, b2, Ok n) \<and> lck b2 [1] + unat n = lck b [1])"
proof -
  obtain sm b where r: "staking_run [OpStake [1] two_tokens ComputeNode] (staking_new staking_config_devnet, rich_bank) = (sm, b)"
    by force
  have inv: "staking_inv sm b" using staking_run_inv [OF staking_new_inv [OF rich_bank_inv] r] .
  let ?sm' = "fst (unstake sm [1] one_token (at_time 5))"
  have u: "unstake sm [1] one_token (at_time 5) = (?sm', Ok ())"
    and c: "sc_unbonding_period (sm_config sm) = 60"
    using r by (auto simp: rich_bank_def run_simps Let_def)
  have t: "ctx_timestamp (at_time x) = x" for x by simp
  note w = unbonding_is_timed_and_exact [OF inv u]
  have "withdraw ?sm' [1] (at_time 64) b = (?sm', b, Err (UnstakeInProgress 65))"
    using w [of "at_time 64"] unfolding c t by simp
  moreover have "\<exists>sm2 b2 n. withdraw ?sm' [1] (at_time 65) b = (sm2, b2, Ok n) \<and> lck b2 [1] + unat n = lck b [1]"
    using w [of "at_time 65"] unfolding c t by auto
  ultimately show ?thesis unfolding r prod.case Let_def by blast
qed



text \<open>
  The end of a block releases exactly the stakers whose jail time is over and who are not
  tombstoned; every other field of every staker is as before.
\<close>

theorem end_block_unjails:
  "get_staker (fst (staking_end_block sm ctx)) a =
     (case get_staker sm a of
        None \<Rightarrow> None
      | Some i \<Rightarrow> Some (if si_jailed_until i > 0 \<and> si_jailed_until i \<le> ctx_timestamp ctx \<and> \<not> si_tombstoned i
                       then i\<lparr>si_jailed_until := 0\<rparr> else i))"
  by (auto simp: end_block_get jail_over_def split: option.splits)

text \<open>
  A withdrawal can fail half-way. When a slash made the unbonding amount exceed what is locked,
  \<open>withdraw\<close> clears the unbonding entry and lowers the stake before \<open>bank.unlock\<close> refuses: the call
  returns an error, the tokens stay locked and no later call can release them.
\<close>

theorem withdraw_after_slash_strands_stake:
  assumes "hm_get (sm_stakers sm) a = Some info" and "hm_get (bk_accounts b) a = Some acc"
    and "acc_locked acc < si_unbonding info" and "si_unbonding_complete_time info \<le> ctx_timestamp ctx"
  shows "\<exists>sm'. withdraw sm a ctx b = (sm', b, Err (CannotUnstake (si_unbonding info) (acc_locked acc))) \<and>
    unbonding_of sm' a = 0 \<and> staked_of sm' a = staked_of sm a - unbonding_of sm a \<and>
    withdraw sm' a ctx2 b = (sm', b, Err NothingToWithdraw)"
proof -
  have "si_unbonding info \<noteq> 0" using assms(3) by auto
  then show ?thesis
    using assms staker_some [OF assms(1)]
    by (auto simp: withdraw_def Let_def unlock_def not_less put_staker_def staked_of_def unbonding_of_def
        get_staker_def u_arith)
qed

theorem withdraw_after_slash_strands_stake_witness:
  "case staking_run [OpStake [1] two_tokens ComputeNode, OpUnstake [1] two_tokens (at_time 5)]
          (staking_new staking_config_devnet, rich_bank) of (sm, b) \<Rightarrow>
     (case slash_for_double_sign sm (Unheld b) [1] of
        Some (sm1, Unheld b1, Ok _) \<Rightarrow>
          \<exists>sm2. withdraw sm1 [1] (at_time 400) b1 =
                  (sm2, b1, Err (CannotUnstake two_tokens 1900000000000000000)) \<and>
            unbonding_of sm2 [1] = 0 \<and> lck b1 [1] = 1900000000000000000
      | _ \<Rightarrow> False)"
proof -
  obtain sm b where r: "staking_run [OpStake [1] two_tokens ComputeNode, OpUnstake [1] two_tokens (at_time 5)]
      (staking_new staking_config_devnet, rich_bank) = (sm, b)" by force
  obtain sm1 b1 n where s: "slash_for_double_sign sm (Unheld b) [1] = Some (sm1, Unheld b1, Ok n)"
    using r by (auto simp: rich_bank_def run_simps Let_def)
  obtain info acc where i: "hm_get (sm_stakers sm1) [1] = Some info" "hm_get (bk_accounts b1) [1] = Some acc"
    and v: "si_unbonding info = two_tokens" "acc_locked acc = 1900000000000000000"
      "si_unbonding_complete_time info = 65"
    using r s by (auto simp: rich_bank_def run_simps Let_def)
  have "acc_locked acc < si_unbonding info" "si_unbonding_complete_time info \<le> ctx_timestamp (at_time 400)"
    using v by simp_all
  from withdraw_after_slash_strands_stake [OF i this] obtain sm2 where
    "withdraw sm1 [1] (at_time 400) b1 = (sm2, b1, Err (CannotUnstake two_tokens 1900000000000000000))"
    "unbonding_of sm2 [1] = 0"
    using v by auto
  moreover have "lck b1 [1] = 1900000000000000000" using i(2) v(2) by (simp add: account_some)
  ultimately show ?thesis unfolding r prod.case s option.case lock_cell.case result.case by blast
qed

end
