(* ===== verification/Job_Lemmas.thy ===== *)
theory Job_Lemmas
  imports Job_Registry Staking_Properties
begin

text \<open>
  The lemmas on the job registry that its properties share: exact deadlines, what a verified proof
  implies, the payments of a settlement, and the frame of every operation on the jobs it does not
  touch.
\<close>

section \<open>Deadlines\<close>

text \<open>The priority multipliers are powers of two, so the \<open>f64\<close> product is exact.\<close>

definition timeout_spec :: "nat \<Rightarrow> job_priority \<Rightarrow> nat" where
  "timeout_spec base priority =
     (case priority of Low \<Rightarrow> 2 * base | Normal \<Rightarrow> base | High \<Rightarrow> base div 2 | Urgent \<Rightarrow> base div 4)"

lemma f64_lit_powers: "f64_round 2 = 2" "f64_round 1 = 1" "f64_round (1 / 2) = 1 / 2" "f64_round (1 / 4) = 1 / 4"
  using f64_round_scaled_nat [of 1 2 1] f64_round_scaled_nat [of 1 1 0]
    f64_round_scaled_nat [of 1 "1 / 2" "-1"] f64_round_scaled_nat [of 1 "1 / 4" "-2"]
  by (simp_all add: power_int_minus)

lemma floor_half: "nat \<lfloor>of_nat n * (1 / 2 :: rat)\<rfloor> = n div 2"
proof -
  have "\<lfloor>of_nat n / (of_nat 2 :: rat)\<rfloor> = int (n div 2)"
    by (metis floor_divide_of_nat_eq of_nat_eq_iff)
  then show ?thesis by simp
qed

lemma floor_quarter: "nat \<lfloor>of_nat n * (1 / 4 :: rat)\<rfloor> = n div 4"
proof -
  have "\<lfloor>of_nat n / (of_nat 4 :: rat)\<rfloor> = int (n div 4)"
    by (metis floor_divide_of_nat_eq of_nat_eq_iff)
  then show ?thesis by simp
qed

lemma scaled_timeout:
  assumes "n < 2 ^ 52"
  shows "unat (f64_as_word (f64_mul (Fin (of_nat n)) (sla_multiplier priority)) :: u64) = timeout_spec n priority"
proof -
  have n: "n < 2 ^ 53" using assms by simp
  have r: "f64_round (of_nat n * 2) = of_nat n * 2" "f64_round (of_nat n) = of_nat n"
    "f64_round (of_nat n * (1 / 2)) = of_nat n * (1 / 2)" "f64_round (of_nat n * (1 / 4)) = of_nat n * (1 / 4)"
    using f64_round_scaled_nat [OF n, of "of_nat n * 2" 1] f64_round_nat_exact [OF n]
      f64_round_scaled_nat [OF n, of "of_nat n * (1 / 2)" "-1"]
      f64_round_scaled_nat [OF n, of "of_nat n * (1 / 4)" "-2"]
    by (simp_all add: power_int_minus)
  have sg: "f64_signed (of_nat n * 2) = f64_round (of_nat n * 2)" "f64_signed (of_nat n) = f64_round (of_nat n)"
    "f64_signed (of_nat n * (1 / 2)) = f64_round (of_nat n * (1 / 2))"
    "f64_signed (of_nat n * (1 / 4)) = f64_round (of_nat n * (1 / 4))"
    by (simp_all del: times_divide_eq_right)
  have two: "nat \<lfloor>of_nat n * (2 :: rat)\<rfloor> = n * 2"
    by (metis floor_of_nat nat_int of_nat_mult of_nat_numeral)
  have one: "nat \<lfloor>of_nat n :: rat\<rfloor> = n" by simp
  have lt: "n * 2 \<le> 2 ^ 64 - 1" "n \<le> 2 ^ 64 - 1" "n div 2 \<le> 2 ^ 64 - 1" "n div 4 \<le> 2 ^ 64 - 1"
    using assms by auto
  have u64: "unat (f64_as_word (Fin x) :: u64) = min (nat \<lfloor>x\<rfloor>) (2 ^ 64 - 1)" for x
    by (simp add: unat_f64_as_word del: f64_as_word.simps)
  show ?thesis
    unfolding timeout_spec_def
    by (cases priority)
      (simp_all only: sla_multiplier.simps f64_lit_def f64_lit_powers f64_mul.simps u64
        sg r mult_1_right two one floor_half floor_quarter job_priority.case mult.commute [of 2 n]
        min.absorb1 [OF lt(1)] min.absorb1 [OF lt(2)] min.absorb1 [OF lt(3)] min.absorb1 [OF lt(4)])
qed

lemma adjusted_timeout_exact:
  assumes "unat base < 2 ^ 52"
  shows "unat (adjusted_timeout base priority) = timeout_spec (unat base) priority"
proof -
  have "u64_as_f64 base = Fin (of_nat (unat base))"
    using f64_round_nat_exact [of "unat base"] assms by (simp only: u64_as_f64_def) auto
  then show ?thesis using scaled_timeout [OF assms, of priority] by (simp only: adjusted_timeout_def)
qed

lemma base_timeout_bounds:
  assumes "jc_min_sla_timeout c \<le> jc_max_sla_timeout c" and "base_timeout c t = Some base" and "0 < t"
  shows "jc_min_sla_timeout c \<le> base \<and> base \<le> jc_max_sla_timeout c"
  using assms by (auto simp: base_timeout_def clamp_def)

section \<open>Verification\<close>

lemma verify_tee_ok:
  assumes "verify_tee_attestation pl r att job = (r', Ok v)"
  shows "v = True" and "ta_measurement att = js_model_hash job"
    and "js_submitted_at job \<le> ta_timestamp att" and "ta_timestamp att \<le> sla_deadline (js_sla job)"
    and "64 \<le> length (ta_attestation att)"
    and "pl_sha256 pl (ta_attestation att) \<notin> jr_seen_attestation_hashes r"
    and "tee_outcome_error pl r (pl_tee_execute pl (jr_enterprise_mode r)
           (platform_prefix (ta_tee_type att) # ta_attestation att) 1000000) = None"
    and "r' = r\<lparr>jr_seen_attestation_hashes :=
           insert (pl_sha256 pl (ta_attestation att)) (jr_seen_attestation_hashes r)\<rparr>"
  using assms
  by (auto simp: verify_tee_attestation_def Let_def not_less split: if_splits option.splits)

lemma verify_tee_err: "verify_tee_attestation pl r att job = (r', Err e) \<Longrightarrow> r' = r"
  by (auto simp: verify_tee_attestation_def Let_def split: if_splits option.splits)

text \<open>In fail-closed mode only a successful run of the precompile counts.\<close>

lemma tee_fail_closed:
  assumes "pl_sgx pl \<or> requires_cryptographic_verification r" and "tee_outcome_error pl r out = None"
  shows "out = TeeDone True"
  using assms by (cases out) (auto simp: tee_outcome_error_def split: if_splits)

lemma verify_zk_ok:
  assumes "verify_zk_proof pl r zp job = Ok v"
  shows "v = True" and "2 \<le> length (zk_public_inputs zp)" and "zk_public_inputs zp ! 0 = js_model_hash job"
    and "zk_public_inputs zp ! 1 = js_input_hash job" and "128 \<le> length (zk_proof_bytes zp)"
    and "enterprise_zk_guard r zp job = None"
    and "\<exists>input output. encode_unified_zkp_input zp job = Ok input \<and>
           pl_zkp_execute pl input (pl_zkp_gas_cost pl input) = Ok output \<and>
           ((em_enabled (jr_enterprise_zkml_config r) \<or> jc_require_cryptographic_verification (jr_config r)
              \<or> pl_zkp pl) \<longrightarrow> output \<noteq> [] \<and> last output = 1)"
  using assms
  by (auto simp: verify_zk_proof_def verify_zk_proof_via_precompile_def Let_def not_less
      split: if_splits option.splits result.splits)

text \<open>Verification changes nothing of the registry but the set of seen attestations, which grows.\<close>

definition only_seen_grows :: "job_registry \<Rightarrow> job_registry \<Rightarrow> bool" where
  "only_seen_grows r r' \<longleftrightarrow>
     r' = r\<lparr>jr_seen_attestation_hashes := jr_seen_attestation_hashes r'\<rparr> \<and>
     jr_seen_attestation_hashes r \<subseteq> jr_seen_attestation_hashes r'"

lemma only_seen_refl [simp]: "only_seen_grows r r"
  by (simp add: only_seen_grows_def)

lemma verify_tee_frame: "verify_tee_attestation pl r att job = (r', res) \<Longrightarrow> only_seen_grows r r'"
proof (cases res)
  case (Ok v)
  assume "verify_tee_attestation pl r att job = (r', res)"
  with Ok have "r' = r\<lparr>jr_seen_attestation_hashes :=
      insert (pl_sha256 pl (ta_attestation att)) (jr_seen_attestation_hashes r)\<rparr>"
    using verify_tee_ok(8) by blast
  then show ?thesis by (auto simp: only_seen_grows_def)
next
  case (Err e)
  assume "verify_tee_attestation pl r att job = (r', res)"
  with Err show ?thesis using verify_tee_err by fastforce
qed

lemma verify_proof_frame:
  assumes "verify_proof pl r proof job = (r', res)"
  shows "only_seen_grows r r'"
proof (cases "pf_method proof")
  case Hybrid
  then show ?thesis using assms
    by (auto simp: verify_proof_def try_then_def split: option.splits prod.splits result.splits
        dest: verify_tee_frame)
qed (use assms in \<open>auto simp: verify_proof_def split: option.splits dest: verify_tee_frame\<close>)

lemma only_seen_fields:
  assumes "only_seen_grows r r'"
  shows "jr_jobs r' = jr_jobs r" "jr_config r' = jr_config r" "jr_active_jobs r' = jr_active_jobs r"
    "jr_jobs_by_deadline r' = jr_jobs_by_deadline r" "jr_job_nonces r' = jr_job_nonces r"
    "jr_seen_attestation_hashes r \<subseteq> jr_seen_attestation_hashes r'"
proof -
  have e: "r' = r\<lparr>jr_seen_attestation_hashes := jr_seen_attestation_hashes r'\<rparr>"
    using assms by (simp add: only_seen_grows_def)
  show "jr_jobs r' = jr_jobs r" "jr_config r' = jr_config r" "jr_active_jobs r' = jr_active_jobs r"
    "jr_jobs_by_deadline r' = jr_jobs_by_deadline r" "jr_job_nonces r' = jr_job_nonces r"
    by (subst e, simp)+
  show "jr_seen_attestation_hashes r \<subseteq> jr_seen_attestation_hashes r'"
    using assms by (simp add: only_seen_grows_def)
qed

section \<open>Settlement\<close>

text \<open>
  What the payments of an on-time settlement do when the bid is locked, the shares are positive and
  nobody is frozen: from the interface of the bank and the fee split.
\<close>

lemma shares_positive:
  assumes "10000 \<le> n" and "1 \<le> r" and "r \<le> (2999 :: nat)"
  shows "0 < n * 70 div 100" and "0 < n * r div 10000"
    and "n * 70 div 100 + n * r div 10000 < (n :: nat)"
proof -
  show "0 < n * 70 div 100" using assms(1) by (simp add: div_greater_zero_iff)
  have "10000 * 1 \<le> n * r" using assms by (intro mult_le_mono)
  then show "0 < n * r div 10000" by (simp add: div_greater_zero_iff)
  have "n * r div 10000 \<le> n * 2999 div 10000" using assms(3) by (intro div_le_mono mult_le_mono2)
  then show "n * 70 div 100 + n * r div 10000 < n"
    using div_times_less_eq_dividend [of "n * 70" 100] div_times_less_eq_dividend [of "n * 2999" 10000] assms(1)
    by linarith
qed

definition settled_balances ::
    "(address \<Rightarrow> nat) \<Rightarrow> address \<Rightarrow> address \<Rightarrow> address \<Rightarrow> nat \<Rightarrow> nat \<Rightarrow> nat \<Rightarrow> address \<Rightarrow> nat" where
  "settled_balances f req prover proposer p v z =
     take_from req z (give_to proposer v (take_from req v (give_to prover p (take_from req p f))))"

lemma pay_settlement_on_time:
  assumes inv: "bank_inv b" and bid: "unat (js_bid_amount job) \<le> lck b (js_requester job)"
    and big: "10000 \<le> unat (js_bid_amount job)" and fits: "unat (js_bid_amount job) * 3000 < 2 ^ 128"
    and rate: "1 \<le> unat (sm_current_burn_rate_bps sm)" "unat (sm_current_burn_rate_bps sm) \<le> 2999"
    and thaw: "\<not> account_frozen b (js_requester job)"
    and parties: "prover \<noteq> BURN_ADDRESS" "proposer \<noteq> BURN_ADDRESS"
  shows "\<exists>b' p v z. pay_settlement sm job prover proposer False b = (b', Ok (p, v, z)) \<and>
    calculate_fee_split sm (js_bid_amount job) = (p, v, z) \<and>
    unat p + unat v + unat z = unat (js_bid_amount job) \<and> bank_inv b' \<and>
    lck b' = take_from (js_requester job) (unat (js_bid_amount job)) (lck b) \<and>
    bal b' = settled_balances (bal b) (js_requester job) prover proposer (unat p) (unat v) (unat z) \<and>
    circulating b' + unat z = circulating b"
proof -
  let ?bid = "js_bid_amount job" and ?req = "js_requester job"
  obtain p v z where split: "calculate_fee_split sm ?bid = (p, v, z)" by (metis prod_cases3)
  have le: "unat (sm_current_burn_rate_bps sm) \<le> 3000" using rate by simp
  note ex = fee_split_exact [OF split le fits]
  note pos = shares_positive [OF big rate]
  have 0: "0 < p" "0 < v" "0 < z" using ex pos by (simp_all add: word_less_nat_alt)
  have held: "unat p + unat v + unat z \<le> lck b ?req" using ex bid by simp
  from bank.settlement_pays [OF inv held ex(3) [symmetric] 0 thaw parties]
  obtain b1 b2 b3 b4 where
    steps: "unlock b ?req ?bid = (b1, Ok ())" "transfer b1 ?req prover p = (b2, Ok ())"
      "transfer b2 ?req proposer v = (b3, Ok ())" "burn b3 ?req z = (b4, Ok ())"
    and res: "bank_inv b4" "lck b4 = take_from ?req (unat ?bid) (lck b)"
      "bal b4 = take_from ?req (unat z) (give_to proposer (unat v) (take_from ?req (unat v)
                  (give_to prover (unat p) (take_from ?req (unat p) (bal b)))))"
      "circulating b4 + unat z = circulating b"
    by blast
  have "pay_settlement sm job prover proposer False b = (b4, Ok (p, v, z))"
    by (simp add: pay_settlement_def Let_def split steps)
  then show ?thesis using split ex res by (auto simp: settled_balances_def)
qed


section \<open>What an operation changes of the jobs\<close>

text \<open>The terms of a job: everything that is fixed at submission.\<close>

definition job_terms :: "job_state \<Rightarrow> job_state" where
  "job_terms job = job\<lparr>js_assigned_prover := None, js_status := Submitted, js_output_hash := None,
     js_assigned_at := None, js_proof_submitted_at := None, js_verified_at := None,
     js_settled_at := None, js_result := None\<rparr>"

text \<open>
  A relation between the job maps before and after: jobs change only in the way \<open>R\<close> allows, no job
  disappears and none appears.
\<close>

definition jobs_evolve :: "(job_state \<Rightarrow> job_state \<Rightarrow> bool) \<Rightarrow> job_registry \<Rightarrow> job_registry \<Rightarrow> bool" where
  "jobs_evolve R r r' \<longleftrightarrow> dom (hm_get (jr_jobs r')) = dom (hm_get (jr_jobs r)) \<and>
     (\<forall>x j j'. hm_get (jr_jobs r) x = Some j \<longrightarrow> hm_get (jr_jobs r') x = Some j' \<longrightarrow>
        j' = j \<or> job_terms j' = job_terms j \<and> R j j')"

lemma jobs_evolve_same: "jr_jobs r' = jr_jobs r \<Longrightarrow> jobs_evolve R r r'"
  by (simp add: jobs_evolve_def)

lemma jobs_evolve_refl [simp]: "jobs_evolve R r r"
  by (rule jobs_evolve_same) simp

lemma jobs_evolve_put:
  assumes "hm_get (jr_jobs r) jid = Some job" and "jr_jobs r' = hm_insert jid job' (jr_jobs r)"
    and "job_terms job' = job_terms job" and "R job job'"
  shows "jobs_evolve R r r'"
proof -
  have "hm_get (jr_jobs r') x = (if x = jid then Some job' else hm_get (jr_jobs r) x)" for x
    by (simp add: assms(2))
  then show ?thesis using assms(1,3,4) unfolding jobs_evolve_def dom_def by auto
qed

lemma jobs_evolveD:
  assumes "jobs_evolve R r r'" and "hm_get (jr_jobs r) x = Some job"
  obtains job' where "hm_get (jr_jobs r') x = Some job'" and "job_terms job' = job_terms job"
    and "job' = job \<or> R job job'"
proof -
  have "x \<in> dom (hm_get (jr_jobs r'))" using assms by (auto simp: jobs_evolve_def)
  then obtain job' where j: "hm_get (jr_jobs r') x = Some job'" by blast
  then have "job' = job \<or> job_terms job' = job_terms job \<and> R job job'"
    using assms unfolding jobs_evolve_def by blast
  with j show thesis using that by auto
qed

lemma jobs_evolve_back:
  assumes "jobs_evolve R r r'" and "hm_get (jr_jobs r') x = Some job'"
  obtains job where "hm_get (jr_jobs r) x = Some job" and "job_terms job' = job_terms job"
    and "job' = job \<or> R job job'"
proof -
  have "x \<in> dom (hm_get (jr_jobs r))" using assms unfolding jobs_evolve_def by blast
  then obtain job where j: "hm_get (jr_jobs r) x = Some job" by blast
  then have "job' = job \<or> job_terms job' = job_terms job \<and> R job job'"
    using assms unfolding jobs_evolve_def by blast
  with j show thesis using that by auto
qed

lemma jobs_evolve_mono: "jobs_evolve R r r' \<Longrightarrow> (\<And>j j'. R j j' \<Longrightarrow> S j j') \<Longrightarrow> jobs_evolve S r r'"
  unfolding jobs_evolve_def by blast

lemma jobs_evolve_trans:
  assumes e1: "jobs_evolve R r r'" and e2: "jobs_evolve R r' r''"
    and tr: "\<And>i j k. R i j \<Longrightarrow> job_terms i = job_terms j \<Longrightarrow> R j k \<Longrightarrow> R i k"
  shows "jobs_evolve R r r''"
proof -
  have "j'' = j \<or> job_terms j'' = job_terms j \<and> R j j''"
    if j: "hm_get (jr_jobs r) x = Some j" and j'': "hm_get (jr_jobs r'') x = Some j''" for x j j''
  proof -
    from jobs_evolveD [OF e1 j] obtain j' where j': "hm_get (jr_jobs r') x = Some j'"
      and a: "job_terms j' = job_terms j" "j' = j \<or> R j j'" .
    have "j'' = j' \<or> job_terms j'' = job_terms j' \<and> R j' j''"
      using e2 j' j'' unfolding jobs_evolve_def by blast
    then show ?thesis using a tr [of j j' j''] by auto
  qed
  then show ?thesis using e1 e2 unfolding jobs_evolve_def by auto
qed

lemma emit_job_fields [simp]:
  "jr_jobs (emit_job e r) = jr_jobs r" "jr_job_nonces (emit_job e r) = jr_job_nonces r"
  "jr_seen_attestation_hashes (emit_job e r) = jr_seen_attestation_hashes r"
  "jr_jobs_by_deadline (emit_job e r) = jr_jobs_by_deadline r" "jr_active_jobs (emit_job e r) = jr_active_jobs r"
  "jr_config (emit_job e r) = jr_config r"
  by (simp_all add: emit_job_def)

lemma put_job_fields [simp]:
  "jr_jobs (put_job jid job r) = hm_insert jid job (jr_jobs r)"
  "jr_job_nonces (put_job jid job r) = jr_job_nonces r"
  "jr_seen_attestation_hashes (put_job jid job r) = jr_seen_attestation_hashes r"
  "jr_jobs_by_deadline (put_job jid job r) = jr_jobs_by_deadline r"
  "jr_active_jobs (put_job jid job r) = jr_active_jobs r" "jr_config (put_job jid job r) = jr_config r"
  by (simp_all add: put_job_def)

lemma assign_job_evolve:
  assumes "assign_job r jid prover ctx = (r', res)"
  shows "jobs_evolve (\<lambda>j j'. js_status j = Submitted \<and> js_status j' = Assigned) r r' \<and>
    jr_job_nonces r' = jr_job_nonces r \<and> jr_seen_attestation_hashes r' = jr_seen_attestation_hashes r"
proof -
  have sub: "js_status job = Submitted" if "can_transition_to job Assigned" for job
    using that by (cases "js_status job") (simp_all add: can_transition_to_def)
  show ?thesis
    using assms
    by (auto simp: assign_job_def Let_def job_terms_def dest!: sub intro!: jobs_evolve_put
        split: option.splits if_splits)
qed

lemma cancel_job_evolve:
  assumes "cancel_job r jid a ctx b = (r', b', res)"
  shows "jobs_evolve (\<lambda>j j'. can_cancel (js_status j) \<and> js_status j' = Cancelled) r r' \<and>
    jr_job_nonces r' = jr_job_nonces r \<and> jr_seen_attestation_hashes r' = jr_seen_attestation_hashes r"
  using assms
  by (auto simp: cancel_job_def Let_def job_terms_def intro!: jobs_evolve_put
      split: option.splits if_splits prod.splits result.splits)

abbreviation expires :: "u64 \<Rightarrow> job_state \<Rightarrow> job_state \<Rightarrow> bool" where
  "expires now j j' \<equiv> is_active (js_status j) \<and> sla_is_expired (js_sla j) now \<and> js_status j' = Expired"

definition expiry_frame :: "u64 \<Rightarrow> job_registry \<Rightarrow> job_registry \<Rightarrow> bool" where
  "expiry_frame now r r' \<longleftrightarrow> jobs_evolve (expires now) r r' \<and> jr_job_nonces r' = jr_job_nonces r \<and>
     jr_seen_attestation_hashes r' = jr_seen_attestation_hashes r \<and> jr_config r' = jr_config r"

lemma expiry_frame_refl: "expiry_frame now r r"
  by (simp add: expiry_frame_def)

lemma expiry_frame_trans:
  assumes "expiry_frame now r r'" and "expiry_frame now r' r''"
  shows "expiry_frame now r r''"
proof -
  have e: "jobs_evolve (expires now) r r'" "jobs_evolve (expires now) r' r''"
    using assms by (auto simp: expiry_frame_def)
  have "jobs_evolve (expires now) r r''"
    by (rule jobs_evolve_trans [OF e]) (simp add: is_active_def)
  then show ?thesis using assms by (simp add: expiry_frame_def)
qed

lemma expire_job_frame: "expiry_frame now (fst s) (fst (expire_job now jid s))"
  by (cases s) (auto simp: expire_job_def expiry_frame_def job_terms_def intro!: jobs_evolve_put split: option.splits)

lemma fold_expiry_frame:
  assumes "\<And>x s. expiry_frame now (fst s) (fst (f x s))"
  shows "expiry_frame now (fst s) (fst (fold f xs s))"
proof (induction xs arbitrary: s)
  case (Cons x xs)
  then show ?case using expiry_frame_trans [OF assms [where x = x and s = s] Cons [of "f x s"]] by simp
qed (simp add: expiry_frame_refl)

lemma expire_deadline_frame: "expiry_frame now (fst s) (fst (expire_deadline now d s))"
proof (cases s)
  case (Pair r ev)
  show ?thesis
  proof (cases "bt_get (jr_jobs_by_deadline r) d")
    case (Some ids)
    let ?r = "r\<lparr>jr_jobs_by_deadline := bt_remove d (jr_jobs_by_deadline r)\<rparr>"
    have "expiry_frame now r ?r" by (simp add: expiry_frame_def jobs_evolve_same)
    then show ?thesis
      using fold_expiry_frame [where f = "expire_job now" and s = "(?r, ev)" and xs = ids and now = now]
        expire_job_frame expiry_frame_trans Some Pair
      by (auto simp: expire_deadline_def)
  qed (simp add: Pair expire_deadline_def expiry_frame_refl)
qed

lemma process_expired_frame:
  assumes "process_expired_jobs r now = (r', res)"
  shows "expiry_frame now r r'"
  using assms fold_expiry_frame [where f = "expire_deadline now" and s = "(r, [])" and now = now]
    expire_deadline_frame
  by (auto simp: process_expired_jobs_def split: prod.splits) (metis fst_conv)

text \<open>The four ways \<open>submit_proof\<close> ends once the job and its prover are known.\<close>

definition proof_changes :: "submit_proof_params \<Rightarrow> job_state \<Rightarrow> job_state \<Rightarrow> bool" where
  "proof_changes params j j' \<longleftrightarrow> js_assigned_prover j = Some (sb_prover params) \<and>
     js_status j' \<in> {Expired, Failed, Verified, Settled}"

text \<open>What every end keeps: the maps and sets that only other operations write.\<close>

definition proof_frame :: "submit_proof_params \<Rightarrow> job_registry \<Rightarrow> job_registry \<Rightarrow> bool" where
  "proof_frame params r r' \<longleftrightarrow> jobs_evolve (proof_changes params) r r' \<and>
     jr_job_nonces r' = jr_job_nonces r \<and> jr_config r' = jr_config r \<and>
     jr_seen_attestation_hashes r \<subseteq> jr_seen_attestation_hashes r'"

lemma hm_insert_twice: "hm_insert k x (hm_insert k y m) = hm_insert k x m"
  by (simp add: hm_insert_def)

lemma slash_and_close_frame:
  assumes "slash_and_close sl r (sb_job_id params) job st ev er b = Some (r', sm', cell', b', res)"
    and "hm_get (jr_jobs r) (sb_job_id params) = Some job" and "js_assigned_prover job = Some (sb_prover params)"
    and "st \<in> {Expired, Failed}"
  shows "proof_frame params r r'"
proof -
  have "r' = r \<or> jr_jobs r' = hm_insert (sb_job_id params) (job\<lparr>js_status := st\<rparr>) (jr_jobs r)"
    and fr: "jr_job_nonces r' = jr_job_nonces r \<and> jr_config r' = jr_config r \<and>
      jr_seen_attestation_hashes r' = jr_seen_attestation_hashes r"
    using assms(1) by (auto simp: slash_and_close_def Let_def split: option.splits prod.splits result.splits)
  then have "jobs_evolve (proof_changes params) r r'"
  proof (elim disjE)
    assume "jr_jobs r' = hm_insert (sb_job_id params) (job\<lparr>js_status := st\<rparr>) (jr_jobs r)"
    from jobs_evolve_put [OF assms(2) this] show ?thesis
      using assms(3,4) by (auto simp: job_terms_def proof_changes_def)
  qed simp
  then show ?thesis using fr by (simp add: proof_frame_def)
qed

lemma settle_job_jobs:
  assumes "settle_job r params job ctx sm b = (r', b', res)"
  shows "\<exists>job'. jr_jobs r' = hm_insert (sb_job_id params) job' (jr_jobs r) \<and> job_terms job' = job_terms job \<and>
      js_status job' = (if is_ok res then Settled else Verified) \<and>
      jr_job_nonces r' = jr_job_nonces r \<and> jr_config r' = jr_config r \<and>
      jr_seen_attestation_hashes r' = jr_seen_attestation_hashes r"
proof -
  let ?j = "job\<lparr>js_output_hash := Some (pf_output_hash (sb_proof params)),
     js_proof_submitted_at := Some (ctx_timestamp ctx), js_verified_at := Some (ctx_timestamp ctx),
     js_result := Some (sb_result params), js_status := Verified\<rparr>"
  let ?s = "?j\<lparr>js_settled_at := Some (ctx_timestamp ctx), js_status := Settled\<rparr>"
  have "jr_jobs r' = hm_insert (sb_job_id params) (if is_ok res then ?s else ?j) (jr_jobs r)"
    and fr: "jr_job_nonces r' = jr_job_nonces r \<and> jr_config r' = jr_config r \<and>
      jr_seen_attestation_hashes r' = jr_seen_attestation_hashes r"
    using assms
    by (auto simp: settle_job_def Let_def hm_insert_twice split: prod.splits result.splits)
  then show ?thesis
    by (intro exI [of _ "if is_ok res then ?s else ?j"]) (simp add: job_terms_def)
qed

lemma settle_job_frame:
  assumes "settle_job r params job ctx sm b = (r', b', res)"
    and "hm_get (jr_jobs r) (sb_job_id params) = Some job" and "js_assigned_prover job = Some (sb_prover params)"
  shows "proof_frame params r r'"
proof -
  from settle_job_jobs [OF assms(1)] obtain job' where
    j: "jr_jobs r' = hm_insert (sb_job_id params) job' (jr_jobs r)" "job_terms job' = job_terms job"
      "js_status job' = (if is_ok res then Settled else Verified)"
    and fr: "jr_job_nonces r' = jr_job_nonces r \<and> jr_config r' = jr_config r \<and>
      jr_seen_attestation_hashes r' = jr_seen_attestation_hashes r"
    by blast
  have "jobs_evolve (proof_changes params) r r'"
    using jobs_evolve_put [OF assms(2) j(1,2)] j(3) assms(3) by (simp add: proof_changes_def)
  with fr show ?thesis by (simp add: proof_frame_def)
qed

lemma verify_then_frame:
  assumes "only_seen_grows r r1" and "proof_frame params r1 r'"
  shows "proof_frame params r r'"
  using assms only_seen_fields [OF assms(1)]
  unfolding proof_frame_def jobs_evolve_def by auto

lemma submit_proof_frame:
  assumes "submit_proof pl r params ctx sm cell b = Some (r', sm', cell', b', res)"
  shows "proof_frame params r r'"
proof -
  have refl: "proof_frame params r r" by (simp add: proof_frame_def)
  show ?thesis
  proof (cases "hm_get (jr_jobs r) (sb_job_id params)")
    case None
    then show ?thesis using assms refl by (simp add: submit_proof_def)
  next
    case job: (Some job)
    show ?thesis
    proof (cases "js_assigned_prover job = Some (sb_prover params) \<and> \<not> sla_is_expired (js_sla job) (ctx_timestamp ctx) \<and>
        proof_precheck r (sb_proof params) job = None")
      case False
      then show ?thesis using assms refl job
        by (auto simp: submit_proof_def Let_def intro: slash_and_close_frame split: if_splits option.splits)
    next
      case True
      obtain r1 v where v: "verify_proof pl r (sb_proof params) job = (r1, v)" by force
      note g = verify_proof_frame [OF v]
      have job1: "hm_get (jr_jobs r1) (sb_job_id params) = Some job" using job only_seen_fields(1) [OF g] by simp
      have "proof_frame params r1 r1" by (simp add: proof_frame_def)
      then have "proof_frame params r1 r'"
        using assms job True v slash_and_close_frame [OF _ job1] settle_job_frame [OF _ job1]
        by (auto simp: submit_proof_def Let_def split: result.splits if_splits prod.splits)
      then show ?thesis by (rule verify_then_frame [OF g])
    qed
  qed
qed

end
