(* ===== verification/Job_Lifecycle.thy ===== *)
theory Job_Lifecycle
  imports Job_Lemmas
begin

text \<open>
  The registry as a state machine: a step relation whose labels are the operations, and the
  invariants of all reachable states. The bank, the staking manager and the lock that an operation
  receives are arbitrary in every step, so the results hold under any interleaving with the other
  contracts.
\<close>

section \<open>The step relation\<close>

datatype step_kind = BySubmit | ByAssign | ByProof | ByCancel | ByExpiry

definition params_wf :: "submit_job_params \<Rightarrow> bool" where
  "params_wf p \<longleftrightarrow> length (sj_requester p) = 32 \<and> length (sj_model_hash p) = 32 \<and> length (sj_input_hash p) = 32"

definition nonce_for :: "job_registry \<Rightarrow> address \<Rightarrow> u64" where
  "nonce_for r a = hm_entry 0 (jr_job_nonces r) a"

definition preimage_for :: "job_registry \<Rightarrow> submit_job_params \<Rightarrow> bytes" where
  "preimage_for r p = job_id_preimage (sj_requester p) (sj_model_hash p) (sj_input_hash p) (nonce_for r (sj_requester p))"

text \<open>
  \<open>P\<close> is the set of the job-id preimages that are hashed in the run; a submission has 32-byte
  arguments, as its Rust type says, and its requester's nonce has not reached \<open>2^64 - 1\<close>.
\<close>

inductive registry_step :: "platform \<Rightarrow> bytes set \<Rightarrow> step_kind \<Rightarrow> job_registry \<Rightarrow> job_registry \<Rightarrow> bool"
  for pl P where
  submit: "submit_job pl r p ctx b = Some (r', b', res) \<Longrightarrow> params_wf p \<Longrightarrow> preimage_for r p \<in> P \<Longrightarrow>
    nonce_for r (sj_requester p) \<noteq> max_val \<Longrightarrow> registry_step pl P BySubmit r r'"
| assign: "assign_job r jid prover ctx = (r', res) \<Longrightarrow> registry_step pl P ByAssign r r'"
| prove: "submit_proof pl r params ctx sm cell b = Some (r', sm', cell', b', res') \<Longrightarrow>
    registry_step pl P ByProof r r'"
| cancel: "cancel_job r jid a ctx b = (r', b', res'') \<Longrightarrow> registry_step pl P ByCancel r r'"
| expire: "process_expired_jobs r now = (r', res''') \<Longrightarrow> registry_step pl P ByExpiry r r'"

inductive registry_run :: "platform \<Rightarrow> bytes set \<Rightarrow> step_kind set \<Rightarrow> job_registry \<Rightarrow> job_registry \<Rightarrow> bool"
  for pl P K where
  run_nil: "registry_run pl P K r r"
| run_step: "registry_run pl P K r r' \<Longrightarrow> k \<in> K \<Longrightarrow> registry_step pl P k r' r'' \<Longrightarrow> registry_run pl P K r r''"

text \<open>The status changes that an operation may make.\<close>

fun status_change :: "step_kind \<Rightarrow> job_state \<Rightarrow> job_state \<Rightarrow> bool" where
  "status_change BySubmit j j' = False"
| "status_change ByAssign j j' = (js_status j = Submitted \<and> js_status j' = Assigned)"
| "status_change ByCancel j j' = (js_status j \<in> {Submitted, Assigned} \<and> js_status j' = Cancelled)"
| "status_change ByExpiry j j' = (is_active (js_status j) \<and> js_status j' = Expired)"
| "status_change ByProof j j' =
     (js_assigned_prover j \<noteq> None \<and> js_status j' \<in> {Expired, Failed, Verified, Settled})"

text \<open>What a submission does, on every branch.\<close>

lemma submit_job_cases:
  assumes "submit_job pl r p ctx b = Some (r', b', res)"
  shows "jr_seen_attestation_hashes r' = jr_seen_attestation_hashes r \<and>
    ((jr_jobs r' = jr_jobs r \<and> \<not> is_ok res \<and>
      (jr_job_nonces r' = jr_job_nonces r \<or>
       jr_job_nonces r' = hm_insert (sj_requester p) (nonce_for r (sj_requester p) + 1) (jr_job_nonces r))) \<or>
     (\<exists>job. jr_jobs r' = hm_insert (pl_sha256 pl (preimage_for r p)) job (jr_jobs r) \<and>
        job_state_new (pl_sha256 pl (preimage_for r p)) p (jr_config r) (ctx_timestamp ctx) = Some job \<and>
        lock b (sj_requester p) (sj_bid_amount p) = (b', Ok ()) \<and>
        res = Ok \<lparr>jsr_job_id = pl_sha256 pl (preimage_for r p), jsr_escrowed = sj_bid_amount p,
                  jsr_sla_deadline = sla_deadline (js_sla job)\<rparr> \<and>
        jr_job_nonces r' = hm_insert (sj_requester p) (nonce_for r (sj_requester p) + 1) (jr_job_nonces r)))"
  using assms unfolding submit_job_def Let_def nonce_for_def preimage_for_def generate_job_id_def
  by (auto split: if_splits prod.splits result.splits option.splits)

lemma job_state_new_fields:
  assumes "job_state_new jid p c t = Some job"
  shows "js_job_id job = jid" "js_requester job = sj_requester p" "js_model_hash job = sj_model_hash p"
    "js_input_hash job = sj_input_hash p" "js_status job = Submitted" "js_bid_amount job = sj_bid_amount p"
    "js_assigned_prover job = None" "js_submitted_at job = t"
  using assms by (auto simp: job_state_new_def split: option.splits)

section \<open>Job identifiers are unique\<close>

definition id_of :: "platform \<Rightarrow> job_state \<Rightarrow> u64 \<Rightarrow> bytes" where
  "id_of pl job n = job_id_preimage (js_requester job) (js_model_hash job) (js_input_hash job) n"

definition ids_inv :: "platform \<Rightarrow> bytes set \<Rightarrow> job_registry \<Rightarrow> bool" where
  "ids_inv pl P r \<longleftrightarrow> (\<forall>x job. hm_get (jr_jobs r) x = Some job \<longrightarrow>
     length (js_requester job) = 32 \<and> length (js_model_hash job) = 32 \<and> length (js_input_hash job) = 32 \<and>
     (\<exists>n. unat n < unat (nonce_for r (js_requester job)) \<and> id_of pl job n \<in> P \<and> x = pl_sha256 pl (id_of pl job n)))"

lemma ids_inv_new: "ids_inv pl P (job_registry_new c)"
  by (simp add: ids_inv_def job_registry_new_def)

lemma fresh_id:
  assumes "ids_inv pl P r" and "inj_on (pl_sha256 pl) P" and "params_wf p" and "preimage_for r p \<in> P"
  shows "hm_get (jr_jobs r) (pl_sha256 pl (preimage_for r p)) = None"
proof (rule ccontr)
  assume "\<not> ?thesis"
  then obtain job where "hm_get (jr_jobs r) (pl_sha256 pl (preimage_for r p)) = Some job" by blast
  with assms(1) obtain n where n: "unat n < unat (nonce_for r (js_requester job))" "id_of pl job n \<in> P"
    and h: "pl_sha256 pl (preimage_for r p) = pl_sha256 pl (id_of pl job n)"
    and l: "length (js_requester job) = 32" "length (js_model_hash job) = 32" "length (js_input_hash job) = 32"
    unfolding ids_inv_def by blast
  have "preimage_for r p = id_of pl job n" using inj_onD [OF assms(2) h assms(4) n(2)] .
  then have "sj_requester p = js_requester job \<and> nonce_for r (sj_requester p) = n"
    using job_id_preimage_inj l assms(3) unfolding preimage_for_def id_of_def params_wf_def by metis
  with n(1) show False by auto
qed

lemma terms_id: "job_terms j' = job_terms j \<Longrightarrow>
  js_requester j' = js_requester j \<and> js_model_hash j' = js_model_hash j \<and> js_input_hash j' = js_input_hash j \<and>
  id_of pl j' n = id_of pl j n"
  by (cases j, cases j') (auto simp: job_terms_def id_of_def)

lemma ids_inv_evolve:
  assumes "ids_inv pl P r" and "jobs_evolve R r r'" and "jr_job_nonces r' = jr_job_nonces r"
  shows "ids_inv pl P r'"
  unfolding ids_inv_def
proof (intro allI impI)
  fix x job' assume "hm_get (jr_jobs r') x = Some job'"
  from jobs_evolve_back [OF assms(2) this] obtain job where
    j: "hm_get (jr_jobs r) x = Some job" and t: "job_terms job' = job_terms job" .
  have "nonce_for r' a = nonce_for r a" for a by (simp add: nonce_for_def assms(3))
  then show "length (js_requester job') = 32 \<and> length (js_model_hash job') = 32 \<and> length (js_input_hash job') = 32 \<and>
     (\<exists>n. unat n < unat (nonce_for r' (js_requester job')) \<and> id_of pl job' n \<in> P \<and> x = pl_sha256 pl (id_of pl job' n))"
    using assms(1) j terms_id [OF t, where pl = pl] unfolding ids_inv_def by simp
qed

lemma unat_suc: "x \<noteq> max_val \<Longrightarrow> unat (x + 1) = unat (x :: u64) + 1"
proof -
  assume "x \<noteq> max_val"
  then have "unat x \<noteq> unat (max_val :: u64)" by (simp add: word_unat_eq_iff)
  then have "unat x + 1 < 2 ^ 64" using unat_bound64 [of x] by (simp add: unat_max_val)
  then show ?thesis by (simp add: unat_add_exact)
qed

lemma ids_inv_submit:
  assumes inv: "ids_inv pl P r" and s: "submit_job pl r p ctx b = Some (r', b', res)"
    and wf: "params_wf p" "preimage_for r p \<in> P" "nonce_for r (sj_requester p) \<noteq> max_val"
  shows "ids_inv pl P r'"
  unfolding ids_inv_def
proof (intro allI impI)
  fix x job' assume x: "hm_get (jr_jobs r') x = Some job'"
  let ?req = "sj_requester p"
  note c = submit_job_cases [OF s]
  have mono: "unat (nonce_for r a) \<le> unat (nonce_for r' a)" for a
    using c unat_suc [OF wf(3)] by (auto simp: nonce_for_def hm_entry_def)
  have old: "length (js_requester job') = 32 \<and> length (js_model_hash job') = 32 \<and> length (js_input_hash job') = 32 \<and>
     (\<exists>n. unat n < unat (nonce_for r' (js_requester job')) \<and> id_of pl job' n \<in> P \<and> x = pl_sha256 pl (id_of pl job' n))"
    if "hm_get (jr_jobs r) x = Some job'"
    using inv that mono [of "js_requester job'"] unfolding ids_inv_def by (meson order.strict_trans2)
  show "length (js_requester job') = 32 \<and> length (js_model_hash job') = 32 \<and> length (js_input_hash job') = 32 \<and>
     (\<exists>n. unat n < unat (nonce_for r' (js_requester job')) \<and> id_of pl job' n \<in> P \<and> x = pl_sha256 pl (id_of pl job' n))"
  proof (cases "hm_get (jr_jobs r) x = Some job'")
    case False
    then obtain job where j: "jr_jobs r' = hm_insert (pl_sha256 pl (preimage_for r p)) job (jr_jobs r)"
      "job_state_new (pl_sha256 pl (preimage_for r p)) p (jr_config r) (ctx_timestamp ctx) = Some job"
      and n: "jr_job_nonces r' = hm_insert ?req (nonce_for r ?req + 1) (jr_job_nonces r)"
      using c x by auto
    then have new: "x = pl_sha256 pl (preimage_for r p)" "job' = job"
      using x False by (auto split: if_splits)
    have "nonce_for r' ?req = nonce_for r ?req + 1" by (simp add: nonce_for_def n hm_entry_def)
    then have "unat (nonce_for r ?req) < unat (nonce_for r' ?req)" using unat_suc [OF wf(3)] by simp
    moreover have "id_of pl job' (nonce_for r ?req) = preimage_for r p"
      using new job_state_new_fields [OF j(2)] by (simp add: id_of_def preimage_for_def)
    ultimately show ?thesis
      using new job_state_new_fields [OF j(2)] wf(1,2) by (auto simp: params_wf_def)
  qed (rule old)
qed

lemma step_evolves:
  assumes "registry_step pl P k r r'" and "k \<noteq> BySubmit"
  shows "jobs_evolve (status_change k) r r' \<and> jr_job_nonces r' = jr_job_nonces r \<and>
    jr_seen_attestation_hashes r \<subseteq> jr_seen_attestation_hashes r'"
  using assms
proof (cases rule: registry_step.cases)
  case (assign jid prover ctx res)
  note e = assign_job_evolve [OF assign(2)]
  show ?thesis using jobs_evolve_mono [OF conjunct1 [OF e], of "status_change k"] e assign(1) by simp
next
  case (prove params ctx sm cell b sm' cell' b' res')
  note e = submit_proof_frame [OF prove(2)]
  then have "jobs_evolve (proof_changes params) r r'" by (simp add: proof_frame_def)
  from jobs_evolve_mono [OF this, of "status_change k"] e prove(1) show ?thesis
    by (simp add: proof_frame_def proof_changes_def)
next
  case (cancel jid a ctx b b' res)
  note e = cancel_job_evolve [OF cancel(2)]
  show ?thesis using jobs_evolve_mono [OF conjunct1 [OF e], of "status_change k"] e cancel(1)
    by (simp add: can_cancel_def)
next
  case (expire now res)
  note e = process_expired_frame [OF expire(2)]
  then have "jobs_evolve (expires now) r r'" by (simp add: expiry_frame_def)
  from jobs_evolve_mono [OF this, of "status_change k"] e expire(1) show ?thesis
    by (simp add: expiry_frame_def)
qed simp

lemma submit_keeps_jobs:
  assumes "ids_inv pl P r" and "inj_on (pl_sha256 pl) P"
    and s: "submit_job pl r p ctx b = Some (r', b', res)" "params_wf p" "preimage_for r p \<in> P"
    and j: "hm_get (jr_jobs r) x = Some job"
  shows "hm_get (jr_jobs r') x = Some job"
  using submit_job_cases [OF s(1)] fresh_id [OF assms(1,2) s(2,3)] j by auto

lemma step_ids_inv: "registry_step pl P k r r' \<Longrightarrow> ids_inv pl P r \<Longrightarrow> ids_inv pl P r'"
proof (cases "k = BySubmit")
  case True
  assume "registry_step pl P k r r'" "ids_inv pl P r"
  then show ?thesis using True ids_inv_submit by (auto elim!: registry_step.cases)
next
  case False
  assume "registry_step pl P k r r'" "ids_inv pl P r"
  then show ?thesis using step_evolves False ids_inv_evolve by blast
qed

text \<open>One step keeps every job and its terms, and changes its status only as the label allows.\<close>

lemma step_job:
  assumes "registry_step pl P k r r'" and "ids_inv pl P r" and "inj_on (pl_sha256 pl) P"
    and "hm_get (jr_jobs r) x = Some job"
  shows "\<exists>job'. hm_get (jr_jobs r') x = Some job' \<and> job_terms job' = job_terms job \<and>
    (job' = job \<or> status_change k job job')"
proof (cases "k = BySubmit")
  case True
  then obtain p ctx b b' res where "submit_job pl r p ctx b = Some (r', b', res)" "params_wf p" "preimage_for r p \<in> P"
    using assms(1) by (auto elim: registry_step.cases)
  from submit_keeps_jobs [OF assms(2,3) this assms(4)] show ?thesis by simp
next
  case False
  then have "jobs_evolve (status_change k) r r'" using step_evolves [OF assms(1)] by simp
  from jobs_evolveD [OF this assms(4)] show ?thesis by blast
qed

lemma run_ids_inv: "registry_run pl P K r r' \<Longrightarrow> ids_inv pl P r \<Longrightarrow> ids_inv pl P r'"
  by (induction rule: registry_run.induct) (auto intro: step_ids_inv)

lemma run_job:
  assumes "registry_run pl P K r r'" and "ids_inv pl P r" and "inj_on (pl_sha256 pl) P"
    and "hm_get (jr_jobs r) x = Some job"
  shows "\<exists>job'. hm_get (jr_jobs r') x = Some job' \<and> job_terms job' = job_terms job"
  using assms
proof (induction rule: registry_run.induct)
  case (run_step r r' k r'')
  then obtain job' where j: "hm_get (jr_jobs r') x = Some job'" "job_terms job' = job_terms job" by blast
  have "ids_inv pl P r'" using run_ids_inv [OF run_step.hyps(1)] run_step.prems by blast
  from step_job [OF run_step.hyps(3) this run_step.prems(2) j(1)] j(2) show ?case by auto
qed auto

text \<open>Without proof submissions a terminal job is never touched again.\<close>

lemma run_terminal:
  assumes "registry_run pl P K r r'" and "ids_inv pl P r" and "inj_on (pl_sha256 pl) P" and "ByProof \<notin> K"
    and "hm_get (jr_jobs r) x = Some job" and "is_terminal (js_status job)"
  shows "hm_get (jr_jobs r') x = Some job"
  using assms
proof (induction rule: registry_run.induct)
  case (run_step r r' k r'')
  then have j: "hm_get (jr_jobs r') x = Some job" by blast
  have "ids_inv pl P r'" using run_ids_inv [OF run_step.hyps(1)] run_step.prems by blast
  from step_job [OF run_step.hyps(3) this run_step.prems(2) j]
  obtain job' where j': "hm_get (jr_jobs r'') x = Some job'" "job' = job \<or> status_change k job job'" by blast
  have "k \<noteq> ByProof" using run_step by blast
  then have "\<not> status_change k job job'"
    using run_step.prems by (cases k) (auto simp: is_terminal_def is_active_def)
  with j' show ?case by simp
qed auto

lemma run_seen: "registry_run pl P K r r' \<Longrightarrow> jr_seen_attestation_hashes r \<subseteq> jr_seen_attestation_hashes r'"
proof (induction rule: registry_run.induct)
  case (run_step r r' k r'')
  have "jr_seen_attestation_hashes r' \<subseteq> jr_seen_attestation_hashes r''"
  proof (cases "k = BySubmit")
    case True
    then show ?thesis using run_step.hyps(3) submit_job_cases by (auto elim!: registry_step.cases)
  qed (use step_evolves [OF run_step.hyps(3)] in simp)
  with run_step.IH show ?case by simp
qed simp

end
