(* ===== verification/Job_Properties.thy ===== *)
theory Job_Properties
  imports Job_Lifecycle
begin

text \<open>
  The properties of \<open>job_registry.rs\<close>: settlement pays exactly the bid, no job settles on an unverified
  proof, attestations are not replayed, identifiers are unique and terms immutable, the status
  changes of each operation, cancellation, deadlines, expiry and the proof envelope.
\<close>

section \<open>The expiry index\<close>

lemma expire_job_index [simp]:
  "jr_jobs_by_deadline (fst (expire_job now jid s)) = jr_jobs_by_deadline (fst s)"
  by (cases s) (simp add: expire_job_def split: option.splits)

lemma fold_expire_job_index:
  "jr_jobs_by_deadline (fst (fold (expire_job now) ids s)) = jr_jobs_by_deadline (fst s)"
  by (induction ids arbitrary: s) simp_all

lemma expire_deadline_index:
  "bt_get (jr_jobs_by_deadline (fst (expire_deadline now d s))) = (bt_get (jr_jobs_by_deadline (fst s)))(d := None)"
  by (cases s) (auto simp: expire_deadline_def fold_expire_job_index bt_get_remove fun_eq_iff split: option.splits)

lemma fold_expire_deadline_index:
  "bt_get (jr_jobs_by_deadline (fst (fold (expire_deadline now) ds s))) x =
     (if x \<in> set ds then None else bt_get (jr_jobs_by_deadline (fst s)) x)"
  by (induction ds arbitrary: s) (auto simp: expire_deadline_index)

lemma bt_keys_upto_iff: "x \<in> set (bt_keys_upto hi m) \<longleftrightarrow> x \<le> hi \<and> bt_get m x \<noteq> None"
  by (auto simp: bt_keys_upto_def bt_get_def map_of_eq_None_iff)

lemma process_expired_fst:
  "fst (process_expired_jobs r now) =
     fst (fold (expire_deadline now) (bt_keys_upto now (jr_jobs_by_deadline r)) (r, []))"
  by (simp add: process_expired_jobs_def split: prod.splits)

lemma process_expired_index:
  "bt_get (jr_jobs_by_deadline (fst (process_expired_jobs r now))) x =
     (if x \<le> now then None else bt_get (jr_jobs_by_deadline r) x)"
  by (auto simp: process_expired_fst fold_expire_deadline_index bt_keys_upto_iff)

definition unindexed :: "job_registry \<Rightarrow> job_id \<Rightarrow> bool" where
  "unindexed r jid \<longleftrightarrow> (\<forall>d ids. bt_get (jr_jobs_by_deadline r) d = Some ids \<longrightarrow> jid \<notin> set ids)"

lemma fold_expire_job_other:
  "jid \<notin> set ids \<Longrightarrow> hm_get (jr_jobs (fst (fold (expire_job now) ids s))) jid = hm_get (jr_jobs (fst s)) jid"
proof (induction ids arbitrary: s)
  case (Cons i ids)
  have "hm_get (jr_jobs (fst (expire_job now i s))) jid = hm_get (jr_jobs (fst s)) jid"
    using Cons.prems by (cases s) (auto simp: expire_job_def split: option.splits)
  then show ?case using Cons by simp
qed simp

lemma expire_deadline_other:
  assumes "unindexed (fst s) jid"
  shows "hm_get (jr_jobs (fst (expire_deadline now d s))) jid = hm_get (jr_jobs (fst s)) jid"
    and "unindexed (fst (expire_deadline now d s)) jid"
proof -
  show "hm_get (jr_jobs (fst (expire_deadline now d s))) jid = hm_get (jr_jobs (fst s)) jid"
    using assms by (cases s) (auto simp: expire_deadline_def unindexed_def fold_expire_job_other split: option.splits)
  show "unindexed (fst (expire_deadline now d s)) jid"
    using assms by (auto simp: unindexed_def expire_deadline_index)
qed

lemma fold_expire_deadline_other:
  "unindexed (fst s) jid \<Longrightarrow> hm_get (jr_jobs (fst (fold (expire_deadline now) ds s))) jid = hm_get (jr_jobs (fst s)) jid"
  by (induction ds arbitrary: s) (simp_all add: expire_deadline_other)

lemma process_expired_other:
  assumes "unindexed r jid"
  shows "hm_get (jr_jobs (fst (process_expired_jobs r now))) jid = hm_get (jr_jobs r) jid"
    and "unindexed (fst (process_expired_jobs r now)) jid"
  using assms fold_expire_deadline_other [of "(r, [])" jid]
  by (auto simp: process_expired_fst [symmetric] unindexed_def process_expired_index)
    (simp add: process_expired_fst)

text \<open>A job is listed under its own deadline only.\<close>

definition index_inv :: "job_registry \<Rightarrow> bool" where
  "index_inv r \<longleftrightarrow> (\<forall>d ids jid job. bt_get (jr_jobs_by_deadline r) d = Some ids \<longrightarrow> jid \<in> set ids \<longrightarrow>
     hm_get (jr_jobs r) jid = Some job \<longrightarrow> sla_deadline (js_sla job) = d)"

fun expiry_rounds :: "u64 list \<Rightarrow> job_registry \<Rightarrow> job_registry" where
  "expiry_rounds [] r = r"
| "expiry_rounds (t # ts) r = expiry_rounds ts (fst (process_expired_jobs r t))"

lemma expiry_rounds_unindexed:
  "unindexed r jid \<Longrightarrow> hm_get (jr_jobs (expiry_rounds ts r)) jid = hm_get (jr_jobs r) jid"
  by (induction ts arbitrary: r) (simp_all add: process_expired_other)

section \<open>Settlement of a verified proof\<close>

lemma settles:
  assumes job: "hm_get (jr_jobs r) (sb_job_id params) = Some job"
    and prover: "js_assigned_prover job = Some (sb_prover params)"
    and time: "ctx_timestamp ctx \<le> sla_deadline (js_sla job)" "sla_deadline (js_sla job) \<le> sla_grace_end (js_sla job)"
    and pre: "proof_precheck r (sb_proof params) job = None"
    and verified: "verify_proof pl r (sb_proof params) job = (r1, Ok True)"
    and inv: "bank_inv b" and bid: "unat (js_bid_amount job) \<le> lck b (js_requester job)"
    and big: "10000 \<le> unat (js_bid_amount job)" and fits: "unat (js_bid_amount job) * 3000 < 2 ^ 128"
    and rate: "1 \<le> unat (sm_current_burn_rate_bps sm)" "unat (sm_current_burn_rate_bps sm) \<le> 2999"
    and thaw: "\<not> account_frozen b (js_requester job)"
    and parties: "sb_prover params \<noteq> BURN_ADDRESS" "ctx_proposer ctx \<noteq> BURN_ADDRESS"
  shows "\<exists>r' b' p v z. submit_proof pl r params ctx sm cell b =
        Some (r', sm, cell, b', Ok \<lparr>psr_job_id = sb_job_id params, psr_verified = True, psr_prover_reward = p,
                                   psr_validator_reward = v, psr_burned = z\<rparr>) \<and>
      map_option js_status (get_job r' (sb_job_id params)) = Some Settled \<and>
      calculate_fee_split sm (js_bid_amount job) = (p, v, z) \<and>
      unat p + unat v + unat z = unat (js_bid_amount job) \<and>
      lck b' = take_from (js_requester job) (unat (js_bid_amount job)) (lck b) \<and>
      bal b' = settled_balances (bal b) (js_requester job) (sb_prover params) (ctx_proposer ctx)
                 (unat p) (unat v) (unat z) \<and>
      circulating b' + unat z = circulating b \<and> bank_inv b'"
proof -
  let ?job = "job\<lparr>js_output_hash := Some (pf_output_hash (sb_proof params)),
     js_proof_submitted_at := Some (ctx_timestamp ctx), js_verified_at := Some (ctx_timestamp ctx),
     js_result := Some (sb_result params), js_status := Verified\<rparr>"
  have ne: "\<not> sla_is_expired (js_sla job) (ctx_timestamp ctx)" and nl: "\<not> sla_is_late (js_sla job) (ctx_timestamp ctx)"
    using time by (auto simp: sla_is_expired_def sla_is_late_def)
  from pay_settlement_on_time [of b ?job sm "sb_prover params" "ctx_proposer ctx"] inv bid big fits rate thaw parties
  obtain b' p v z where
    pay: "pay_settlement sm ?job (sb_prover params) (ctx_proposer ctx) False b = (b', Ok (p, v, z))"
    and res: "calculate_fee_split sm (js_bid_amount job) = (p, v, z)"
      "unat p + unat v + unat z = unat (js_bid_amount job)" "bank_inv b'"
      "lck b' = take_from (js_requester job) (unat (js_bid_amount job)) (lck b)"
      "bal b' = settled_balances (bal b) (js_requester job) (sb_prover params) (ctx_proposer ctx) (unat p) (unat v) (unat z)"
      "circulating b' + unat z = circulating b"
    by auto
  obtain r' where s: "settle_job r1 params job ctx sm b =
      (r', b', Ok \<lparr>psr_job_id = sb_job_id params, psr_verified = True, psr_prover_reward = p,
                   psr_validator_reward = v, psr_burned = z\<rparr>)"
    using pay nl by (simp add: settle_job_def Let_def)
  have "map_option js_status (get_job r' (sb_job_id params)) = Some Settled"
    using settle_job_jobs [OF s] by (auto simp: get_job_def)
  moreover have "submit_proof pl r params ctx sm cell b =
        Some (r', sm, cell, b', Ok \<lparr>psr_job_id = sb_job_id params, psr_verified = True, psr_prover_reward = p,
                                   psr_validator_reward = v, psr_burned = z\<rparr>)"
    using job prover ne pre verified s by (simp add: submit_proof_def Let_def)
  ultimately show ?thesis using res by blast
qed


section \<open>Evidence behind a settlement\<close>

definition tee_evidence :: "platform \<Rightarrow> job_registry \<Rightarrow> compute_proof \<Rightarrow> job_state \<Rightarrow> bool" where
  "tee_evidence pl r pf job \<longleftrightarrow> (\<exists>att. pf_tee_attestation pf = Some att \<and> ta_measurement att = js_model_hash job \<and>
     js_submitted_at job \<le> ta_timestamp att \<and> ta_timestamp att \<le> sla_deadline (js_sla job) \<and>
     pl_sha256 pl (ta_attestation att) \<notin> jr_seen_attestation_hashes r \<and>
     (pl_sgx pl \<or> requires_cryptographic_verification r \<longrightarrow>
        pl_tee_execute pl (jr_enterprise_mode r) (platform_prefix (ta_tee_type att) # ta_attestation att) 1000000
          = TeeDone True))"

definition zk_evidence :: "platform \<Rightarrow> job_registry \<Rightarrow> compute_proof \<Rightarrow> job_state \<Rightarrow> bool" where
  "zk_evidence pl r pf job \<longleftrightarrow> (\<exists>zp input output. pf_zk_proof pf = Some zp \<and>
     take 2 (zk_public_inputs zp) = [js_model_hash job, js_input_hash job] \<and>
     encode_unified_zkp_input zp job = Ok input \<and>
     pl_zkp_execute pl input (pl_zkp_gas_cost pl input) = Ok output \<and>
     (em_enabled (jr_enterprise_zkml_config r) \<or> jc_require_cryptographic_verification (jr_config r) \<or> pl_zkp pl
        \<longrightarrow> output \<noteq> [] \<and> last output = 1))"

lemma tee_ok_evidence:
  assumes "verify_tee_attestation pl r att job = (r', Ok v)" and "pf_tee_attestation pf = Some att"
  shows "tee_evidence pl r pf job \<and> pl_sha256 pl (ta_attestation att) \<in> jr_seen_attestation_hashes r'"
  using verify_tee_ok [OF assms(1)] assms(2) tee_fail_closed [of pl r] unfolding tee_evidence_def by auto

lemma take_2: "2 \<le> length xs \<Longrightarrow> take 2 xs = [xs ! 0, xs ! 1]"
  by (cases xs; cases "tl xs") (auto simp: numeral_2_eq_2)

lemma zk_ok_evidence:
  assumes "verify_zk_proof pl r zp job = Ok v" and "pf_zk_proof pf = Some zp"
  shows "zk_evidence pl r pf job"
proof -
  note z = verify_zk_ok [OF assms(1)]
  have "take 2 (zk_public_inputs zp) = [js_model_hash job, js_input_hash job]"
    using take_2 [OF z(2)] z(3,4) by simp
  with z(7) assms(2) show ?thesis unfolding zk_evidence_def by blast
qed

lemma only_seen_zk: "only_seen_grows r r' \<Longrightarrow> zk_evidence pl r' pf job \<Longrightarrow> zk_evidence pl r pf job"
proof -
  assume g: "only_seen_grows r r'" and z: "zk_evidence pl r' pf job"
  have "r' = r\<lparr>jr_seen_attestation_hashes := jr_seen_attestation_hashes r'\<rparr>"
    using g by (simp add: only_seen_grows_def)
  then have "jr_enterprise_zkml_config r' = jr_enterprise_zkml_config r" "jr_config r' = jr_config r"
    by (metis job_registry.ext_inject job_registry.surjective job_registry.update_convs(10))+
  with z show ?thesis by (simp add: zk_evidence_def)
qed

lemma verify_proof_ok:
  assumes "verify_proof pl r pf job = (r1, Ok True)"
  shows "(pf_method pf \<in> {TeeAttestation, Hybrid} \<longrightarrow> tee_evidence pl r pf job) \<and>
    (pf_method pf \<in> {ZkProof, Hybrid} \<longrightarrow> zk_evidence pl r pf job) \<and>
    (pf_method pf \<in> {TeeAttestation, Hybrid} \<longrightarrow> (\<exists>att. pf_tee_attestation pf = Some att \<and>
        pl_sha256 pl (ta_attestation att) \<in> jr_seen_attestation_hashes r1))"
proof (cases "pf_method pf")
  case TeeAttestation
  then show ?thesis using assms tee_ok_evidence
    by (auto simp: verify_proof_def split: option.splits)
next
  case ZkProof
  then show ?thesis using assms zk_ok_evidence
    by (auto simp: verify_proof_def split: option.splits)
next
  case Hybrid
  with assms obtain att zp v where
    p: "pf_tee_attestation pf = Some att" "pf_zk_proof pf = Some zp"
    and t: "verify_tee_attestation pl r att job = (r1, Ok v)"
    and z: "verify_zk_proof pl r1 zp job = Ok True"
    by (auto simp: verify_proof_def split: option.splits elim!: try_then_OkE)
  have "zk_evidence pl r pf job"
    using only_seen_zk [OF verify_tee_frame [OF t] zk_ok_evidence [OF z p(2)]] .
  then show ?thesis using tee_ok_evidence [OF t p(1)] p Hybrid by simp
next
  case ReExecution
  then show ?thesis by simp
qed

lemma submit_proof_ok:
  assumes "submit_proof pl r params ctx sm cell b = Some (r', sm', cell', b', Ok res)"
  shows "\<exists>job r1. hm_get (jr_jobs r) (sb_job_id params) = Some job \<and>
    js_assigned_prover job = Some (sb_prover params) \<and> \<not> sla_is_expired (js_sla job) (ctx_timestamp ctx) \<and>
    proof_precheck r (sb_proof params) job = None \<and>
    verify_proof pl r (sb_proof params) job = (r1, Ok True) \<and>
    settle_job r1 params job ctx sm b = (r', b', Ok res) \<and> sm' = sm \<and> cell' = cell"
proof -
  from assms obtain job where j: "hm_get (jr_jobs r) (sb_job_id params) = Some job"
    by (auto simp: submit_proof_def Let_def split: option.splits)
  have no: "slash_and_close sl r0 jid job st ev er b0 \<noteq> Some (r', sm', cell', b', Ok res)" for sl r0 jid st ev er b0
    by (auto simp: slash_and_close_def Let_def split: option.splits prod.splits result.splits)
  show ?thesis
    using assms j no
    by (auto simp: submit_proof_def Let_def split: if_splits option.splits prod.splits result.splits)
qed

section \<open>A run for the witnesses\<close>

lemma enterprise_mode_kept [simp]:
  "jr_enterprise_mode (emit_job e r) = jr_enterprise_mode r" "jr_enterprise_mode (put_job i j r) = jr_enterprise_mode r"
  by (simp_all add: emit_job_def put_job_def)

text \<open>A platform whose precompiles accept, a bank with one funded account, and one TEE job on mainnet.\<close>

definition addr :: "u8 \<Rightarrow> bytes" where
  "addr n = replicate 32 n"

lemma addr_eq [simp]: "addr a = addr b \<longleftrightarrow> a = b"
  by (simp add: addr_def replicate_eq_replicate)

lemma addr_special: "addr a = BURN_ADDRESS \<longleftrightarrow> a = 255" "addr a = replicate 32 n \<longleftrightarrow> a = n" "length (addr a) = 32"
  by (simp_all add: addr_def BURN_ADDRESS_def replicate_eq_replicate)

definition demo_platform :: platform where
  "demo_platform = \<lparr>pl_sha256 = (\<lambda>bs. 7 # bs), pl_sgx = False, pl_zkp = False,
     pl_tee_execute = (\<lambda>_ _ _. TeeDone True), pl_zkp_gas_cost = (\<lambda>_. 0), pl_zkp_execute = (\<lambda>_ _. Ok [1])\<rparr>"

abbreviation jobs_allocations :: "token_allocation list" where
  "jobs_allocations \<equiv> [\<lparr>al_address = addr 1, al_balance = 9000000000000000000, al_vesting = None\<rparr>]"

definition jobs_bank :: bank where
  "jobs_bank = apply_allocations jobs_allocations (bank_new bank_config_default)"

lemma jobs_bank_inv: "bank_inv jobs_bank"
  using genesis_inv [of jobs_allocations] by (simp add: jobs_bank_def bank_from_genesis_def)

definition demo_params :: submit_job_params where
  "demo_params = \<lparr>sj_requester = addr 1, sj_model_hash = addr 3, sj_input_hash = addr 4, sj_max_bid = one_token,
     sj_bid_amount = one_token, sj_verification_method = TeeAttestation, sj_priority = Normal, sj_sla_timeout = 0,
     sj_tags = [], sj_encrypted_input = None, sj_callback = None, sj_data_provider = None,
     sj_required_compliance = [], sj_jurisdiction = None\<rparr>"

abbreviation demo_fresh :: job_registry where
  "demo_fresh \<equiv> job_registry_new job_config_mainnet"

definition demo_id :: job_id where
  "demo_id = pl_sha256 demo_platform (preimage_for demo_fresh demo_params)"

definition demo_submitted :: "job_registry \<times> bank" where
  "demo_submitted = (case submit_job demo_platform demo_fresh demo_params (at_time 100) jobs_bank of
     Some (r, b, _) \<Rightarrow> (r, b) | None \<Rightarrow> (demo_fresh, jobs_bank))"

definition demo_assigned :: job_registry where
  "demo_assigned = fst (assign_job (fst demo_submitted) demo_id (addr 2) (at_time 110))"

abbreviation demo_attestation :: tee_attestation where
  "demo_attestation \<equiv> \<lparr>ta_tee_type = IntelSgx, ta_attestation = replicate 64 1, ta_measurement = addr 3, ta_timestamp = 150\<rparr>"

definition demo_proof :: submit_proof_params where
  "demo_proof = \<lparr>sb_job_id = demo_id, sb_prover = addr 2,
     sb_proof = \<lparr>pf_method = TeeAttestation, pf_tee_attestation = Some demo_attestation, pf_zk_proof = None,
       pf_output_hash = addr 9,
       pf_metadata = \<lparr>pm_execution_time_ms = 0, pm_memory_used = 0, pm_inference_ops = 0, pm_complexity = 0\<rparr>\<rparr>,
     sb_result = []\<rparr>"

lemma demo_sla: "sla_policy_new job_config_mainnet Normal 100 0 =
  Some \<lparr>sla_deadline = 3700, sla_grace_end = 3760, sla_late_penalty_bps = 1000\<rparr>"
proof -
  have "unat (adjusted_timeout 3600 Normal) = unat (3600 :: u64)"
    using adjusted_timeout_exact [of 3600 Normal] by (simp add: timeout_spec_def)
  then have "adjusted_timeout 3600 Normal = 3600" by (simp only: word_unat_eq_iff)
  then show ?thesis by (simp add: sla_policy_new_def base_timeout_def job_config_mainnet_def)
qed

definition demo_job :: job_state where
  "demo_job =
     \<lparr>js_job_id = demo_id, js_requester = addr 1, js_assigned_prover = None, js_status = Submitted,
      js_bid_amount = one_token, js_model_hash = addr 3, js_input_hash = addr 4, js_output_hash = None,
      js_verification_method = TeeAttestation, js_priority = Normal,
      js_sla = \<lparr>sla_deadline = 3700, sla_grace_end = 3760, sla_late_penalty_bps = 1000\<rparr>,
      js_tags = [], js_submitted_at = 100, js_assigned_at = None, js_proof_submitted_at = None,
      js_verified_at = None, js_settled_at = None, js_callback = None, js_encrypted_input = None, js_result = None\<rparr>"

lemma demo_job_new: "job_state_new demo_id demo_params job_config_mainnet 100 = Some demo_job"
  by (simp add: job_state_new_def demo_sla demo_params_def demo_job_def)

lemma demo_lock: "\<exists>b. lock jobs_bank (addr 1) one_token = (b, Ok ())"
  by (simp add: jobs_bank_def run_simps)

lemma demo_submit:
  "\<exists>b r. lock jobs_bank (addr 1) one_token = (b, Ok ()) \<and>
     submit_job demo_platform demo_fresh demo_params (at_time 100) jobs_bank =
       Some (r, b, Ok \<lparr>jsr_job_id = demo_id, jsr_escrowed = one_token, jsr_sla_deadline = 3700\<rparr>) \<and>
     demo_submitted = (r, b) \<and> jr_jobs r = [(demo_id, demo_job)] \<and> jr_config r = job_config_mainnet \<and>
     jr_jobs_by_deadline r = [(3700, [demo_id])] \<and> jr_seen_attestation_hashes r = {} \<and> jr_enterprise_mode r = False"
proof -
  obtain b where l: "lock jobs_bank (addr 1) one_token = (b, Ok ())" using demo_lock by blast
  let ?r0 = "demo_fresh"
  have c: "jr_config ?r0 = job_config_mainnet" "jr_jobs_by_requester ?r0 = []" "jr_active_jobs ?r0 = 0"
    "jr_jobs ?r0 = []" "jr_jobs_by_deadline ?r0 = []" "jr_seen_attestation_hashes ?r0 = {}" "jr_enterprise_mode ?r0 = False"
    by (simp_all add: job_registry_new_def)
  have p: "sj_requester demo_params = addr 1" "sj_bid_amount demo_params = one_token" by (simp_all add: demo_params_def)
  have m: "jc_min_bid job_config_mainnet = 100000000000000000" "jc_max_bid job_config_mainnet = 100000000000000000000000"
    "jc_max_jobs_per_requester job_config_mainnet = 100" "jc_max_active_jobs job_config_mainnet = 100000"
    by (simp_all add: job_config_mainnet_def)
  have g: "generate_job_id (pl_sha256 demo_platform) (addr 1) (sj_model_hash demo_params) (sj_input_hash demo_params)
      (hm_entry 0 (jr_job_nonces ?r0) (addr 1)) = demo_id"
    by (simp add: demo_id_def preimage_for_def generate_job_id_def nonce_for_def p)
  have d: "sla_deadline (js_sla demo_job) = 3700" by (simp add: demo_job_def)
  have "\<exists>r. submit_job demo_platform ?r0 demo_params (at_time 100) jobs_bank =
       Some (r, b, Ok \<lparr>jsr_job_id = demo_id, jsr_escrowed = one_token, jsr_sla_deadline = 3700\<rparr>) \<and>
     jr_jobs r = [(demo_id, demo_job)] \<and> jr_config r = job_config_mainnet \<and>
     jr_jobs_by_deadline r = [(3700, [demo_id])] \<and> jr_seen_attestation_hashes r = {} \<and> jr_enterprise_mode r = False"
    by (simp add: submit_job_def Let_def c p m g l d demo_job_new)
      (simp add: hm_insert_def bt_push_def bt_get_def)
  then show ?thesis using l by (auto simp: demo_submitted_def)
qed

definition demo_assigned_job :: job_state where
  "demo_assigned_job = demo_job\<lparr>js_assigned_prover := Some (addr 2), js_assigned_at := Some 110, js_status := Assigned\<rparr>"

lemma demo_assign:
  "jr_jobs demo_assigned = [(demo_id, demo_assigned_job)]" "jr_config demo_assigned = job_config_mainnet"
  "jr_jobs_by_deadline demo_assigned = [(3700, [demo_id])]" "jr_seen_attestation_hashes demo_assigned = {}"
  "jr_enterprise_mode demo_assigned = False"
proof -
  from demo_submit obtain r b where s: "demo_submitted = (r, b)" and j: "jr_jobs r = [(demo_id, demo_job)]"
    "jr_config r = job_config_mainnet" "jr_jobs_by_deadline r = [(3700, [demo_id])]" "jr_seen_attestation_hashes r = {}" "jr_enterprise_mode r = False"
    by blast
  have a: "can_transition_to demo_job Assigned" "js_assigned_prover demo_job = None"
    "\<not> sla_is_expired (js_sla demo_job) 110"
    by (simp_all add: demo_job_def can_transition_to_def sla_is_expired_def)
  show "jr_jobs demo_assigned = [(demo_id, demo_assigned_job)]" "jr_config demo_assigned = job_config_mainnet"
    "jr_jobs_by_deadline demo_assigned = [(3700, [demo_id])]" "jr_seen_attestation_hashes demo_assigned = {}"
  "jr_enterprise_mode demo_assigned = False"
    by (simp_all add: demo_assigned_def s assign_job_def j hm_get_def a Let_def hm_insert_def demo_assigned_job_def)
qed

lemma demo_bank_locked:
  assumes "lock jobs_bank (addr 1) one_token = (b, Ok ())"
  shows "bank_inv b" "lck b (addr 1) = 1000000000000000000" "\<not> account_frozen b (addr 1)"
  using bank.lock_law [OF jobs_bank_inv assms]
  by (simp_all add: give_to_def account_frozen_def)
    (simp_all add: jobs_bank_def run_simps lck_def)

abbreviation demo_staking :: staking_manager where
  "demo_staking \<equiv> staking_new staking_config_mainnet"

definition demo_verified :: job_registry where
  "demo_verified = demo_assigned\<lparr>jr_seen_attestation_hashes := {7 # replicate 64 1}\<rparr>"

lemma demo_ready:
  "hm_get (jr_jobs demo_assigned) (sb_job_id demo_proof) = Some demo_assigned_job"
  "js_assigned_prover demo_assigned_job = Some (sb_prover demo_proof)"
  "ctx_timestamp (at_time 200) \<le> sla_deadline (js_sla demo_assigned_job)"
  "sla_deadline (js_sla demo_assigned_job) \<le> sla_grace_end (js_sla demo_assigned_job)"
  "proof_precheck demo_assigned (sb_proof demo_proof) demo_assigned_job = None"
  "verify_proof demo_platform demo_assigned (sb_proof demo_proof) demo_assigned_job = (demo_verified, Ok True)"
proof -
  show "hm_get (jr_jobs demo_assigned) (sb_job_id demo_proof) = Some demo_assigned_job"
    by (simp add: demo_assign hm_get_def demo_proof_def)
  show "js_assigned_prover demo_assigned_job = Some (sb_prover demo_proof)"
    "ctx_timestamp (at_time 200) \<le> sla_deadline (js_sla demo_assigned_job)"
    "sla_deadline (js_sla demo_assigned_job) \<le> sla_grace_end (js_sla demo_assigned_job)"
    "proof_precheck demo_assigned (sb_proof demo_proof) demo_assigned_job = None"
    by (simp_all add: demo_assigned_job_def demo_job_def demo_proof_def proof_precheck_def demo_assign
        job_config_mainnet_def)
  have e: "jr_enterprise_mode demo_assigned = False" by (rule demo_assign(5))
  show "verify_proof demo_platform demo_assigned (sb_proof demo_proof) demo_assigned_job = (demo_verified, Ok True)"
    by (simp add: verify_proof_def demo_proof_def verify_tee_attestation_def demo_assigned_job_def demo_job_def
        addr_special demo_assign e demo_platform_def tee_outcome_error_def demo_verified_def)
qed

lemma demo_values:
  "js_requester demo_assigned_job = addr 1" "js_bid_amount demo_assigned_job = one_token"
  "sm_current_burn_rate_bps demo_staking = 500"
  "calculate_fee_split demo_staking one_token = (700000000000000000, 250000000000000000, 50000000000000000)"
  "sb_prover demo_proof = addr 2" "sb_job_id demo_proof = demo_id" "ctx_proposer (at_time t) = addr 0"
  by (simp_all add: demo_assigned_job_def demo_job_def staking_new_def staking_config_mainnet_def demo_proof_def
      calculate_fee_split_def saturating_sub_def block_context_default_def addr_def)

lemma demo_bank_state: "bank_inv (snd demo_submitted)" "lck (snd demo_submitted) (addr 1) = 1000000000000000000"
  "\<not> account_frozen (snd demo_submitted) (addr 1)"
proof -
  from demo_submit obtain b r where s: "demo_submitted = (r, b)" and l: "lock jobs_bank (addr 1) one_token = (b, Ok ())" by blast
  show "bank_inv (snd demo_submitted)" "lck (snd demo_submitted) (addr 1) = 1000000000000000000"
    "\<not> account_frozen (snd demo_submitted) (addr 1)"
    unfolding s snd_conv by (fact demo_bank_locked [OF l])+
qed

lemma demo_settles:
  "\<exists>r' b' z. submit_proof demo_platform demo_assigned demo_proof (at_time 200) demo_staking cell (snd demo_submitted) =
      Some (r', demo_staking, cell, b',
            Ok \<lparr>psr_job_id = demo_id, psr_verified = True, psr_prover_reward = 700000000000000000,
                psr_validator_reward = 250000000000000000, psr_burned = z\<rparr>)"
  using settles [OF demo_ready demo_bank_state(1), of demo_staking cell] demo_bank_state demo_values
  by (auto simp: addr_special)

section \<open>Settlement\<close>

text \<open>
  C5. A valid proof submitted in time settles the job and moves exactly the bid, under these conditions. The job is
  assigned to the prover, the deadline has not passed and is not after the end of the grace period, the proof passes the
  checks and verifies. The bank satisfies its invariant, the bid is locked, is at least 10000 base units and
  fits 128 bits when multiplied by 3000. The burn rate is 1 to 2999 basis points, the requester is not frozen, and neither the
  prover nor the proposer is the burn address; without these the payment of a share may fail and with it the call. Then
  \<open>submit_proof\<close> returns success: the job is \<open>Settled\<close>, the lock falls by the bid, the requester pays
  the three shares, which add up to the bid, to the prover, the block proposer and the burn, and
  the supply falls by the burn alone.
\<close>

theorem valid_proof_settles:
  assumes job: "hm_get (jr_jobs r) (sb_job_id params) = Some job"
    and prover: "js_assigned_prover job = Some (sb_prover params)"
    and time: "ctx_timestamp ctx \<le> sla_deadline (js_sla job)" "sla_deadline (js_sla job) \<le> sla_grace_end (js_sla job)"
    and pre: "proof_precheck r (sb_proof params) job = None"
    and verified: "verify_proof pl r (sb_proof params) job = (r1, Ok True)"
    and inv: "bank_inv b" and bid: "unat (js_bid_amount job) \<le> lck b (js_requester job)"
    and big: "10000 \<le> unat (js_bid_amount job)" and fits: "unat (js_bid_amount job) * 3000 < 2 ^ 128"
    and rate: "1 \<le> unat (sm_current_burn_rate_bps sm)" "unat (sm_current_burn_rate_bps sm) \<le> 2999"
    and thaw: "\<not> account_frozen b (js_requester job)"
    and parties: "sb_prover params \<noteq> BURN_ADDRESS" "ctx_proposer ctx \<noteq> BURN_ADDRESS"
  shows "\<exists>r' b' p v z. submit_proof pl r params ctx sm cell b =
        Some (r', sm, cell, b', Ok \<lparr>psr_job_id = sb_job_id params, psr_verified = True, psr_prover_reward = p,
                                   psr_validator_reward = v, psr_burned = z\<rparr>) \<and>
      map_option js_status (get_job r' (sb_job_id params)) = Some Settled \<and>
      calculate_fee_split sm (js_bid_amount job) = (p, v, z) \<and>
      unat p + unat v + unat z = unat (js_bid_amount job) \<and>
      lck b' = take_from (js_requester job) (unat (js_bid_amount job)) (lck b) \<and>
      bal b' = settled_balances (bal b) (js_requester job) (sb_prover params) (ctx_proposer ctx)
                 (unat p) (unat v) (unat z) \<and>
      circulating b' + unat z = circulating b \<and> bank_inv b'"
  by (rule settles [OF assms])

theorem valid_proof_settles_witness:
  "\<exists>r' b' p v z. submit_proof demo_platform demo_assigned demo_proof (at_time 200) demo_staking HeldBySelf
        (snd demo_submitted) =
      Some (r', demo_staking, HeldBySelf, b',
            Ok \<lparr>psr_job_id = demo_id, psr_verified = True, psr_prover_reward = p, psr_validator_reward = v, psr_burned = z\<rparr>) \<and>
      map_option js_status (get_job r' demo_id) = Some Settled \<and> lck b' (addr 1) = 0 \<and>
      unat p + unat v + unat z = 1000000000000000000"
  using valid_proof_settles [OF demo_ready demo_bank_state(1), of demo_staking HeldBySelf] demo_bank_state demo_values
  by (auto simp: addr_special take_from_def)

text \<open>
  C4. No settlement without evidence. If \<open>submit_proof\<close> succeeds, the caller is the assigned prover, the
  grace period is not over, the proof has the method the job asked for, \<open>Hybrid\<close> in an enterprise configuration, and the
  parts that method needs are present and bound to this job: the attestation by measurement and time, and not seen before; the ZK proof by
  its first two public inputs. Which answer of the precompile was then needed depends on the part. For an
  attestation, with the flag \<open>require_cryptographic_verification\<close> (set on mainnet and testnet), in enterprise mode or with the feature
  \<open>sgx\<close>: the precompile returned a result flagged as success, not an error, not a failure and not a panic; that
  flag is not the verdict on the quote, which the registry does not read. For a ZK proof: the precompile
  returned a result, and with the same flag, an enabled enterprise zkML configuration or the feature \<open>zkp\<close> that result ends in the byte 1;
  enterprise mode alone, switched on over a configuration without the flag, does not require it.
\<close>

theorem settled_only_if_verified:
  assumes "submit_proof pl r params ctx sm cell b = Some (r', sm', cell', b', Ok res)"
  shows "\<exists>job. get_job r (sb_job_id params) = Some job \<and>
    js_assigned_prover job = Some (sb_prover params) \<and> ctx_timestamp ctx \<le> sla_grace_end (js_sla job) \<and>
    pf_method (sb_proof params) = js_verification_method job \<and>
    (pf_method (sb_proof params) \<in> {TeeAttestation, Hybrid} \<longrightarrow> tee_evidence pl r (sb_proof params) job) \<and>
    (pf_method (sb_proof params) \<in> {ZkProof, Hybrid} \<longrightarrow> zk_evidence pl r (sb_proof params) job) \<and>
    (jc_enterprise_mode (jr_config r) \<longrightarrow> pf_method (sb_proof params) = Hybrid)"
proof -
  from submit_proof_ok [OF assms] obtain job r1 where
    j: "hm_get (jr_jobs r) (sb_job_id params) = Some job" "js_assigned_prover job = Some (sb_prover params)"
      "\<not> sla_is_expired (js_sla job) (ctx_timestamp ctx)" "proof_precheck r (sb_proof params) job = None"
    and v: "verify_proof pl r (sb_proof params) job = (r1, Ok True)" by blast
  have "pf_method (sb_proof params) = js_verification_method job"
    "jc_enterprise_mode (jr_config r) \<longrightarrow> pf_method (sb_proof params) = Hybrid"
    using j(4) by (auto simp: proof_precheck_def split: if_splits)
  then show ?thesis
    using j verify_proof_ok [OF v] by (auto simp: get_job_def sla_is_expired_def not_less)
qed

theorem settled_only_if_verified_witness:
  "\<exists>r' b' res. submit_proof demo_platform demo_assigned demo_proof (at_time 200) demo_staking HeldBySelf
       (snd demo_submitted) = Some (r', demo_staking, HeldBySelf, b', Ok res) \<and>
     tee_evidence demo_platform demo_assigned (sb_proof demo_proof) demo_assigned_job"
proof -
  from demo_settles [of HeldBySelf] obtain r' b' res where
    s: "submit_proof demo_platform demo_assigned demo_proof (at_time 200) demo_staking HeldBySelf (snd demo_submitted) =
      Some (r', demo_staking, HeldBySelf, b', Ok res)" by blast
  have "pf_method (sb_proof demo_proof) = TeeAttestation" by (simp add: demo_proof_def)
  then have "tee_evidence demo_platform demo_assigned (sb_proof demo_proof) demo_assigned_job"
    using settled_only_if_verified [OF s] demo_ready(1) by (simp add: get_job_def)
  with s show ?thesis by blast
qed

text \<open>
  Attestations are not replayed. After a settlement whose proof carried a TEE attestation, and any
  further run of the registry, no proof with the same attestation bytes settles any job.
\<close>

theorem attestation_not_replayed:
  assumes "submit_proof pl r params ctx sm cell b = Some (r1, sm1, cell1, b1, Ok res)"
    and "pf_method (sb_proof params) \<in> {TeeAttestation, Hybrid}"
    and "pf_tee_attestation (sb_proof params) = Some att"
    and "registry_run pl P K r1 r2"
    and "pf_method (sb_proof params2) \<in> {TeeAttestation, Hybrid}"
    and "pf_tee_attestation (sb_proof params2) = Some att2" and "ta_attestation att2 = ta_attestation att"
  shows "submit_proof pl r2 params2 ctx2 sm2 cell2 b2 \<noteq> Some (r3, sm3, cell3, b3, Ok res3)"
proof
  assume s: "submit_proof pl r2 params2 ctx2 sm2 cell2 b2 = Some (r3, sm3, cell3, b3, Ok res3)"
  from submit_proof_ok [OF assms(1)] obtain job r0 where
    v: "verify_proof pl r (sb_proof params) job = (r0, Ok True)" and st: "settle_job r0 params job ctx sm b = (r1, b1, Ok res)"
    by blast
  have "pl_sha256 pl (ta_attestation att) \<in> jr_seen_attestation_hashes r0"
    using verify_proof_ok [OF v] assms(2,3) by auto
  then have "pl_sha256 pl (ta_attestation att) \<in> jr_seen_attestation_hashes r2"
    using settle_job_jobs [OF st] run_seen [OF assms(4)] by auto
  moreover from submit_proof_ok [OF s] obtain job2 r4 where
    "verify_proof pl r2 (sb_proof params2) job2 = (r4, Ok True)" by blast
  then have "tee_evidence pl r2 (sb_proof params2) job2" using verify_proof_ok assms(5) by blast
  then have "pl_sha256 pl (ta_attestation att) \<notin> jr_seen_attestation_hashes r2"
    using assms(6,7) by (auto simp: tee_evidence_def)
  ultimately show False by contradiction
qed


theorem attestation_not_replayed_witness:
  "\<exists>r' b' res. submit_proof demo_platform demo_assigned demo_proof (at_time 200) demo_staking HeldBySelf
       (snd demo_submitted) = Some (r', demo_staking, HeldBySelf, b', Ok res) \<and>
     (\<forall>r3 sm3 cell3 b3 res3. submit_proof demo_platform r' demo_proof (at_time 210) demo_staking HeldBySelf b'
        \<noteq> Some (r3, sm3, cell3, b3, Ok res3))"
proof -
  from demo_settles [of HeldBySelf] obtain r' b' res where
    s: "submit_proof demo_platform demo_assigned demo_proof (at_time 200) demo_staking HeldBySelf (snd demo_submitted) =
      Some (r', demo_staking, HeldBySelf, b', Ok res)" by blast
  have p: "pf_method (sb_proof demo_proof) \<in> {TeeAttestation, Hybrid}"
    "pf_tee_attestation (sb_proof demo_proof) = Some demo_attestation" by (simp_all add: demo_proof_def)
  have n: "registry_run demo_platform {} {} r' r'" by (rule registry_run.run_nil)
  show ?thesis using s attestation_not_replayed [OF s p n p refl] by blast
qed


section \<open>Identifiers, terms and lifecycle\<close>

lemma demo_run: "registry_run demo_platform UNIV UNIV demo_fresh (fst demo_submitted)"
proof -
  from demo_submit obtain b r where s: "demo_submitted = (r, b)" and
    e: "submit_job demo_platform demo_fresh demo_params (at_time 100) jobs_bank =
       Some (r, b, Ok \<lparr>jsr_job_id = demo_id, jsr_escrowed = one_token, jsr_sla_deadline = 3700\<rparr>)" by blast
  have w: "params_wf demo_params" by (simp add: params_wf_def demo_params_def addr_special)
  have n: "nonce_for demo_fresh (sj_requester demo_params) \<noteq> max_val"
    by (simp add: nonce_for_def job_registry_new_def hm_entry_def max_val_def)
  have "registry_step demo_platform UNIV BySubmit demo_fresh r"
    by (rule registry_step.submit [OF e w _ n]) simp
  then show ?thesis unfolding s fst_conv using registry_run.run_nil registry_run.run_step by blast
qed

lemma demo_assign_step: "registry_step demo_platform UNIV ByAssign (fst demo_submitted) demo_assigned"
  unfolding demo_assigned_def
  by (rule registry_step.assign [OF prod.collapse [symmetric]])

lemma demo_run_assign: "registry_run demo_platform UNIV UNIV (fst demo_submitted) demo_assigned"
  using demo_assign_step registry_run.run_nil registry_run.run_step by blast

lemma demo_inj: "inj_on (pl_sha256 demo_platform) UNIV"
  by (simp add: demo_platform_def inj_on_def)

lemma demo_got: "get_job (fst demo_submitted) demo_id = Some demo_job"
proof -
  from demo_submit obtain b r where s: "demo_submitted = (r, b)" and "jr_jobs r = [(demo_id, demo_job)]" by blast
  then show ?thesis unfolding s fst_conv by (simp add: get_job_def hm_get_def)
qed

text \<open>
  Jobs are never overwritten or lost and their terms never change. In every run of the registry
  from its creation (submissions, assignments, proofs, cancellations and expiry in any order, with
  any bank and staking state), a job that was accepted stays registered under its identifier with
  the requester, bid, hashes, method, deadline and tags it was submitted with. The hypothesis is
  that SHA-256 does not collide on the job-id preimages of the run.
\<close>

theorem job_terms_immutable:
  assumes "inj_on (pl_sha256 pl) P" and "registry_run pl P K (job_registry_new c) r"
    and "get_job r x = Some job" and "registry_run pl P K' r r'"
  shows "\<exists>job'. get_job r' x = Some job' \<and> job_terms job' = job_terms job"
  using run_job [OF assms(4) run_ids_inv [OF assms(2) ids_inv_new] assms(1)] assms(3)
  by (simp add: get_job_def)

theorem job_terms_immutable_witness:
  "\<exists>job'. get_job demo_assigned demo_id = Some job' \<and> job_terms job' = job_terms demo_job"
  by (rule job_terms_immutable [OF demo_inj demo_run demo_got demo_run_assign])

text \<open>
  C25. Which operation changes the status of a job. Let SHA-256 be injective on the preimages of the job identifiers that
  were submitted, and no requester submit with the last of the 2^64 nonces. Then from a reachable registry, each operation changes the
  status of an existing job only along its own edges: an assignment from \<open>Submitted\<close> to \<open>Assigned\<close>, a cancellation from
  \<open>Submitted\<close> or \<open>Assigned\<close> to \<open>Cancelled\<close>, the expiry of a block end from an active status to \<open>Expired\<close>, a
  submission never. A proof changes it to \<open>Expired\<close>, \<open>Failed\<close>, \<open>Verified\<close> or \<open>Settled\<close>, and only if the job has an assigned
  prover, but from every status, terminal ones included: \<open>submit_proof\<close> does not consult \<open>can_transition_to\<close>. As long as nobody
  submits a proof, a job in a terminal status stays as it is for ever.
\<close>

theorem job_lifecycle:
  assumes "inj_on (pl_sha256 pl) P" and "registry_run pl P K (job_registry_new c) r"
    and "get_job r x = Some job"
  shows "(registry_step pl P k r r' \<longrightarrow>
      (\<exists>job'. get_job r' x = Some job' \<and> (job' = job \<or> status_change k job job'))) \<and>
    (is_terminal (js_status job) \<and> registry_run pl P (- {ByProof}) r r' \<longrightarrow> get_job r' x = Some job)"
proof -
  have inv: "ids_inv pl P r" using run_ids_inv [OF assms(2) ids_inv_new] .
  show ?thesis
    using step_job [OF _ inv assms(1)] run_terminal [OF _ inv assms(1)] assms(3)
    unfolding get_job_def by fastforce
qed

theorem job_lifecycle_witness:
  "\<exists>job'. get_job demo_assigned demo_id = Some job' \<and> (job' = demo_job \<or> status_change ByAssign demo_job job')"
  using job_lifecycle [OF demo_inj demo_run demo_got] demo_assign_step by blast

section \<open>Cancellation\<close>

lemma cancel_pays:
  assumes inv: "bank_inv b" and bid: "unat m \<le> lck b a" and pos: "0 < m" and thaw: "\<not> account_frozen b a"
    and fee: "unat fee \<le> unat m"
  shows "\<exists>b'. try_then (unlock b a m) (\<lambda>b _. if fee > 0 then burn b a fee else (b, Ok ())) = (b', Ok ()) \<and>
    bank_inv b' \<and> lck b' = take_from a (unat m) (lck b) \<and> bal b' = take_from a (unat fee) (bal b) \<and>
    circulating b' + unat fee = circulating b"
proof -
  obtain b1 where u: "unlock b a m = (b1, Ok ())" using bank.unlock_total [OF pos bid] by blast
  note l = bank.unlock_law [OF inv u]
  show ?thesis
  proof (cases "fee > 0")
    case True
    have "lck b1 a + unat fee \<le> bal b1 a"
      using l bank.locked_le [OF inv, of a] fee by (simp add: take_from_def)
    moreover have "\<not> account_frozen b1 a" using l thaw by simp
    ultimately obtain b2 where "burn b1 a fee = (b2, Ok ())" using bank.burn_total [OF True] by blast
    with bank.burn_law [OF _ this] l u True show ?thesis by auto
  next
    case False
    then have "fee = 0" by (simp add: word_gt_0)
    with l u show ?thesis by (auto simp: take_from_def)
  qed
qed

text \<open>
  Cancellation. The requester of a \<open>Submitted\<close> or \<open>Assigned\<close> job whose bid is locked can always cancel
  it: the lock falls by the bid, exactly the cancellation fee is burned, refund and fee add up to
  the bid, and the job is \<open>Cancelled\<close>. Nobody else can, and a job in any other status is refused,
  without any change.
\<close>

theorem cancellation_refunds:
  assumes "hm_get (jr_jobs r) jid = Some job" and "bank_inv b"
    and "unat (js_bid_amount job) \<le> lck b (js_requester job)" and "0 < js_bid_amount job"
    and "\<not> account_frozen b (js_requester job)" and "job_config_validate (jr_config r) = Ok ()"
    and "unat (js_bid_amount job) * 10000 < 2 ^ 128"
  shows "(can_cancel (js_status job) \<longrightarrow> (\<exists>r' b' refund fee. cancel_job r jid (js_requester job) ctx b =
        (r', b', Ok \<lparr>jcr_job_id = jid, jcr_refunded = refund, jcr_cancellation_fee = fee\<rparr>) \<and>
      unat fee = unat (js_bid_amount job) * unat (jc_cancellation_fee_bps (jr_config r)) div 10000 \<and>
      unat refund + unat fee = unat (js_bid_amount job) \<and>
      lck b' = take_from (js_requester job) (unat (js_bid_amount job)) (lck b) \<and>
      bal b' = take_from (js_requester job) (unat fee) (bal b) \<and>
      circulating b' + unat fee = circulating b \<and> bank_inv b' \<and>
      map_option js_status (get_job r' jid) = Some Cancelled)) \<and>
    (\<not> can_cancel (js_status job) \<or> a \<noteq> js_requester job \<longrightarrow>
      (\<exists>e. cancel_job r jid a ctx b = (r, b, Err e)))"
proof -
  let ?bid = "js_bid_amount job" and ?req = "js_requester job" and ?bps = "jc_cancellation_fee_bps (jr_config r)"
  let ?fee = "?bid * ucast ?bps div 10000"
  have bps: "unat ?bps \<le> 10000"
    using assms(6) by (auto simp: job_config_validate_def word_le_nat_alt not_less split: if_splits)
  have "unat ?bid * unat ?bps \<le> unat ?bid * 10000" using bps by simp
  then have fe: "unat ?fee = unat ?bid * unat ?bps div 10000" using assms(7) by (intro bps_of_exact) linarith
  have "unat ?bid * unat ?bps div 10000 \<le> unat ?bid * 10000 div 10000" using bps by (intro div_le_mono mult_le_mono2)
  then have le: "unat ?fee \<le> unat ?bid" using fe by simp
  from cancel_pays [OF assms(2,3,4,5) le] obtain b' where
    pay: "try_then (unlock b ?req ?bid) (\<lambda>b _. if ?fee > 0 then burn b ?req ?fee else (b, Ok ())) = (b', Ok ())"
    and res: "bank_inv b'" "lck b' = take_from ?req (unat ?bid) (lck b)" "bal b' = take_from ?req (unat ?fee) (bal b)"
      "circulating b' + unat ?fee = circulating b" by blast
  have sum: "unat (saturating_sub ?bid ?fee) + unat ?fee = unat ?bid" using le by (simp add: u_arith)
  have ok: "\<exists>r'. cancel_job r jid ?req ctx b =
        (r', b', Ok \<lparr>jcr_job_id = jid, jcr_refunded = saturating_sub ?bid ?fee, jcr_cancellation_fee = ?fee\<rparr>) \<and>
      map_option js_status (get_job r' jid) = Some Cancelled" if "can_cancel (js_status job)"
    using assms(1) that pay by (simp add: cancel_job_def Let_def get_job_def)
  moreover have "\<exists>e. cancel_job r jid a ctx b = (r, b, Err e)" if "\<not> can_cancel (js_status job) \<or> a \<noteq> ?req"
    using assms(1) that by (auto simp: cancel_job_def)
  ultimately show ?thesis using fe sum res by blast
qed

theorem cancellation_refunds_witness:
  "\<exists>r' b' refund fee. cancel_job demo_assigned demo_id (addr 1) (at_time 120) (snd demo_submitted) =
      (r', b', Ok \<lparr>jcr_job_id = demo_id, jcr_refunded = refund, jcr_cancellation_fee = fee\<rparr>) \<and>
     unat fee = 50000000000000000"
proof -
  have j: "hm_get (jr_jobs demo_assigned) demo_id = Some demo_assigned_job"
    using demo_ready(1) by (simp add: demo_values)
  have c: "can_cancel (js_status demo_assigned_job)" by (simp add: demo_assigned_job_def can_cancel_def)
  have v: "job_config_validate (jr_config demo_assigned) = Ok ()" "unat (jc_cancellation_fee_bps (jr_config demo_assigned)) = 500"
    by (simp_all add: demo_assign job_config_validate_def job_config_mainnet_def)
  show ?thesis
    using cancellation_refunds [OF j demo_bank_state(1), where ctx = "at_time 120" and a = "addr 1"] demo_bank_state demo_values c v by auto
qed


section \<open>Deadlines and expiry\<close>

text \<open>
  The SLA deadline. For a configuration whose bounds are ordered, \<open>SlaPolicy::new\<close> returns, and the
  timeout it adds to the submission time is the requested one, forced into the configured range, or
  the default, times exactly 2, 1, 1/2 or 1/4 by priority, rounded down: the detour through \<open>f64\<close>
  loses nothing. Timeouts are below \<open>2^52\<close> seconds and the times do not overflow 64 bits.
\<close>

theorem sla_deadline_exact:
  assumes "jc_min_sla_timeout c \<le> jc_max_sla_timeout c"
    and "unat (jc_max_sla_timeout c) < 2 ^ 52" and "unat (jc_default_sla_timeout c) < 2 ^ 52"
    and "unat t + 2 ^ 53 + unat (jc_late_grace_period c) < 2 ^ 64"
  shows "\<exists>p base. sla_policy_new c priority t custom = Some p \<and>
    (0 < custom \<longrightarrow> base = max (unat (jc_min_sla_timeout c)) (min (unat (jc_max_sla_timeout c)) (unat custom))) \<and>
    (custom = 0 \<longrightarrow> base = unat (jc_default_sla_timeout c)) \<and>
    unat (sla_deadline p) = unat t + timeout_spec base priority \<and>
    unat (sla_grace_end p) = unat t + timeout_spec base priority + unat (jc_late_grace_period c)"
proof -
  have "base_timeout c custom \<noteq> None" using assms(1) by (simp add: base_timeout_def clamp_def)
  then obtain base where b: "base_timeout c custom = Some base" by blast
  have pos: "0 < custom \<Longrightarrow> base = max (jc_min_sla_timeout c) (min (jc_max_sla_timeout c) custom)"
    and zero: "custom = 0 \<Longrightarrow> base = jc_default_sla_timeout c"
    using b assms(1) by (auto simp: base_timeout_def clamp_def)
  have mm: "unat (max x y) = max (unat x) (unat y)" "unat (min x y) = min (unat x) (unat y)" for x y :: u64
    by (auto simp: max_def min_def word_le_nat_alt)
  have "0 < custom \<or> custom = 0" by (auto simp: word_gt_0)
  then have lt: "unat base < 2 ^ 52"
  proof
    assume "0 < custom"
    then have "base \<le> jc_max_sla_timeout c" using pos assms(1) by (simp add: min.coboundedI1)
    then show ?thesis using assms(2) by (simp add: word_le_nat_alt)
  qed (use zero assms(3) in simp)
  note a = adjusted_timeout_exact [OF lt, of priority]
  have ts: "timeout_spec (unat base) priority < 2 ^ 53"
    using lt by (cases priority) (auto simp: timeout_spec_def)
  have d: "unat (t + adjusted_timeout base priority) = unat t + timeout_spec (unat base) priority"
    using a ts assms(4) by (subst unat_add_exact) simp_all
  have g: "unat (t + adjusted_timeout base priority + jc_late_grace_period c) =
      unat t + timeout_spec (unat base) priority + unat (jc_late_grace_period c)"
    using d ts assms(4) by (subst unat_add_exact) simp_all
  show ?thesis
    using pos zero d g b mm
    by (intro exI [of _ "\<lparr>sla_deadline = t + adjusted_timeout base priority,
        sla_grace_end = t + adjusted_timeout base priority + jc_late_grace_period c,
        sla_late_penalty_bps = jc_late_penalty_bps c\<rparr>"] exI [of _ "unat base"])
      (simp add: sla_policy_new_def Let_def)
qed

theorem sla_deadline_exact_witness:
  "\<exists>p. sla_policy_new job_config_mainnet Urgent 1000 30 = Some p \<and> unat (sla_deadline p) = 1015"
  using sla_deadline_exact [of job_config_mainnet 1000 Urgent 30]
  by (auto simp: job_config_mainnet_def timeout_spec_def)

text \<open>
  Jobs can miss their expiry. \<open>process_expired_jobs\<close> removes the index entry of every deadline that
  has passed, but expires a job only after its grace period. A job that is still in its grace
  period at the end of some block is therefore never looked at again: no later block end, at
  whatever time, changes it, and its bid stays locked.
\<close>

theorem grace_window_job_never_expires:
  assumes "index_inv r" and "hm_get (jr_jobs r) jid = Some job"
    and "sla_deadline (js_sla job) \<le> now" and "now \<le> sla_grace_end (js_sla job)"
  shows "get_job (expiry_rounds (now # later) r) jid = Some job"
proof -
  let ?r = "fst (process_expired_jobs r now)"
  obtain res where "process_expired_jobs r now = (?r, res)" by (metis prod.collapse)
  note fr = process_expired_frame [OF this]
  then have e: "jobs_evolve (expires now) r ?r" by (simp add: expiry_frame_def)
  from jobs_evolveD [OF e assms(2)] obtain job' where
    j: "hm_get (jr_jobs ?r) jid = Some job'" "job' = job \<or> expires now job job'" by blast
  have "\<not> sla_is_expired (js_sla job) now" using assms(4) by (simp add: sla_is_expired_def)
  then have j': "hm_get (jr_jobs ?r) jid = Some job" using j by auto
  have "unindexed ?r jid"
    unfolding unindexed_def process_expired_index
    using assms(1,2,3) unfolding index_inv_def by (metis option.distinct(1))
  from expiry_rounds_unindexed [OF this, of later] j' show ?thesis by (simp add: get_job_def)
qed

lemma demo_index: "index_inv demo_assigned"
  by (auto simp: index_inv_def demo_assign bt_get_def hm_get_def demo_assigned_job_def demo_job_def
      split: if_splits)

theorem grace_window_job_never_expires_witness:
  "get_job (expiry_rounds [3700, 4000, 1000000] demo_assigned) demo_id = Some demo_assigned_job"
  by (rule grace_window_job_never_expires [OF demo_index])
    (simp_all add: demo_assign hm_get_def demo_assigned_job_def demo_job_def)

section \<open>Proofs for finished jobs\<close>

text \<open>What a caller and the bank see of a proof submission.\<close>

definition outcome_view ::
    "proof_outcome \<Rightarrow> (staking_manager \<times> bank lock_cell \<times> bank \<times> proof_submit_result sys_result) option" where
  "outcome_view o' = map_option snd o'"

lemma verify_tee_status:
  "verify_tee_attestation pl (put_job i j r) att (job\<lparr>js_status := s\<rparr>) =
     map_prod (put_job i j) id (verify_tee_attestation pl r att job)"
proof -
  have f: "js_model_hash (job\<lparr>js_status := s\<rparr>) = js_model_hash job"
    "js_submitted_at (job\<lparr>js_status := s\<rparr>) = js_submitted_at job" "js_sla (job\<lparr>js_status := s\<rparr>) = js_sla job"
    "jr_enterprise_mode (put_job i j r) = jr_enterprise_mode r" by simp_all
  have t: "tee_outcome_error pl (put_job i j r) = tee_outcome_error pl r"
    unfolding tee_outcome_error_def requires_cryptographic_verification_def put_job_fields f ..
  have c: "(put_job i j r)\<lparr>jr_seen_attestation_hashes := X\<rparr> = put_job i j (r\<lparr>jr_seen_attestation_hashes := X\<rparr>)" for X
    by (simp add: put_job_def)
  show ?thesis
    unfolding verify_tee_attestation_def f t put_job_fields c Let_def
    by (simp only: if_distrib [of "map_prod (put_job i j) id"] option.case_distrib [of "map_prod (put_job i j) id"]
        map_prod_simp id_apply)
qed

lemma zk_parts_status:
  "encode_unified_zkp_input zp (job\<lparr>js_status := s\<rparr>) = encode_unified_zkp_input zp job"
  "enterprise_zk_guard (put_job i j r) zp (job\<lparr>js_status := s\<rparr>) = enterprise_zk_guard r zp job"
  "jr_enterprise_zkml_config (put_job i j r) = jr_enterprise_zkml_config r"
proof -
  have f: "js_model_hash (job\<lparr>js_status := s\<rparr>) = js_model_hash job"
    "js_output_hash (job\<lparr>js_status := s\<rparr>) = js_output_hash job" by simp_all
  have p: "jr_enterprise_zkml_config (put_job i j r) = jr_enterprise_zkml_config r"
    "jr_registered_circuits (put_job i j r) = jr_registered_circuits r" by (simp_all add: put_job_def)
  show "encode_unified_zkp_input zp (job\<lparr>js_status := s\<rparr>) = encode_unified_zkp_input zp job"
    unfolding encode_unified_zkp_input_def f ..
  show "enterprise_zk_guard (put_job i j r) zp (job\<lparr>js_status := s\<rparr>) = enterprise_zk_guard r zp job"
    unfolding enterprise_zk_guard_def f p ..
  show "jr_enterprise_zkml_config (put_job i j r) = jr_enterprise_zkml_config r" by (rule p)
qed

lemma verify_zk_status:
  "verify_zk_proof pl (put_job i j r) zp (job\<lparr>js_status := s\<rparr>) = verify_zk_proof pl r zp job"
  unfolding verify_zk_proof_def verify_zk_proof_via_precompile_def zk_parts_status put_job_fields by simp

lemma verify_proof_status:
  "verify_proof pl (put_job i j r) pf (job\<lparr>js_status := s\<rparr>) =
     map_prod (put_job i j) id (verify_proof pl r pf job)"
  by (cases "pf_method pf")
    (auto simp: verify_proof_def verify_tee_status verify_zk_status try_then_def
      split: option.splits prod.splits result.splits)

lemma settle_job_status:
  "snd (settle_job r' params (job\<lparr>js_status := s\<rparr>) ctx sm b) = snd (settle_job r params job ctx sm b)"
  by (auto simp: settle_job_def Let_def pay_settlement_def split: prod.splits result.splits)

lemma slash_and_close_view: "outcome_view (slash_and_close sl r' i j' st ev er b) = outcome_view (slash_and_close sl r i j st ev er b)"
  by (auto simp: slash_and_close_def outcome_view_def Let_def split: option.splits prod.splits result.splits)

text \<open>
  \<open>submit_proof\<close> never looks at the status of the job: whatever the status is (\<open>Settled\<close>, \<open>Cancelled\<close>,
  \<open>Expired\<close>, \<open>Failed\<close>), the result, the bank, the staking state and so the payments are the same. A job
  that is settled or cancelled can be settled again, from whatever the requester has locked.
\<close>

theorem submit_proof_ignores_status:
  assumes "hm_get (jr_jobs r) (sb_job_id params) = Some job"
  shows "outcome_view (submit_proof pl (put_job (sb_job_id params) (job\<lparr>js_status := s\<rparr>) r) params ctx sm cell b) =
    outcome_view (submit_proof pl r params ctx sm cell b)"
proof -
  let ?j = "job\<lparr>js_status := s\<rparr>" and ?i = "sb_job_id params"
  have pc: "proof_precheck (put_job ?i ?j r) pf ?j = proof_precheck r pf job" for pf
    by (simp add: proof_precheck_def)
  obtain r1 v where v: "verify_proof pl r (sb_proof params) job = (r1, v)" by force
  have sv: "outcome_view (case x of (r, b, res) \<Rightarrow> Some (r, sm, cell, b, res)) = Some (sm, cell, snd x)"
    for x :: "job_registry \<times> bank \<times> proof_submit_result sys_result"
    by (simp add: outcome_view_def split: prod.splits)
  have st: "snd (settle_job (put_job ?i ?j r1) params ?j ctx sm b) = snd (settle_job r1 params job ctx sm b)"
    by (rule settle_job_status)
  show ?thesis
    using assms v st
    by (auto simp: submit_proof_def Let_def pc verify_proof_status slash_and_close_view sv outcome_view_def [of "Some _"]
        split: option.splits result.splits)
qed

theorem submit_proof_ignores_status_witness:
  "\<exists>b'. outcome_view (submit_proof demo_platform (put_job demo_id (demo_assigned_job\<lparr>js_status := Settled\<rparr>) demo_assigned)
       demo_proof (at_time 200) demo_staking HeldBySelf (snd demo_submitted)) =
     Some (demo_staking, HeldBySelf, b', Ok \<lparr>psr_job_id = demo_id, psr_verified = True,
       psr_prover_reward = 700000000000000000, psr_validator_reward = 250000000000000000, psr_burned = 50000000000000000\<rparr>)"
proof -
  have "\<exists>r' b'. submit_proof demo_platform demo_assigned demo_proof (at_time 200) demo_staking HeldBySelf (snd demo_submitted) =
      Some (r', demo_staking, HeldBySelf, b',
            Ok \<lparr>psr_job_id = demo_id, psr_verified = True, psr_prover_reward = 700000000000000000,
                psr_validator_reward = 250000000000000000, psr_burned = 50000000000000000\<rparr>)"
    using settles [OF demo_ready demo_bank_state(1), of demo_staking HeldBySelf] demo_bank_state demo_values
    by (auto simp: addr_special)
  then show ?thesis
    using submit_proof_ignores_status [OF demo_ready(1), where pl = demo_platform and s = Settled and ctx = "at_time 200"
        and sm = demo_staking and cell = HeldBySelf and b = "snd demo_submitted"]
    by (auto simp: demo_values outcome_view_def)
qed

section \<open>The proof envelope\<close>

lemma le_bytes_bits:
  assumes "le_bytes w x = le_bytes w y" and "k < 8 * w"
  shows "bit (x :: u64) k = bit (y :: u64) k"
proof -
  let ?i = "k div 8"
  have i: "?i < w" using assms(2) by (simp add: less_mult_imp_div_less mult.commute)
  have "(ucast (drop_bit (8 * ?i) x) :: u8) = ucast (drop_bit (8 * ?i) y)"
    using arg_cong [OF assms(1), of "\<lambda>xs. xs ! ?i"] i by (simp add: le_bytes_def)
  then have "bit (ucast (drop_bit (8 * ?i) x) :: u8) (k mod 8) = bit (ucast (drop_bit (8 * ?i) y) :: u8) (k mod 8)"
    by simp
  then show ?thesis by (simp add: bit_ucast_iff bit_drop_bit_eq)
qed

lemma le_len_inj:
  assumes "le_len w n e = Ok bs" and "le_len w m e = Ok bs" and "w \<le> 4"
  shows "n = m"
proof -
  have n: "n < 2 ^ (8 * w)" and m: "m < 2 ^ (8 * w)" and eq: "le_bytes w (of_nat n :: u64) = le_bytes w (of_nat m :: u64)"
    using assms(1,2) by (auto simp: le_len_def split: if_splits)
  have tb: "take_bit (8 * w) (of_nat x :: u64) = of_nat x" if "x < 2 ^ (8 * w)" for x
    using that by (metis of_nat_take_bit take_bit_nat_eq_self)
  have "(of_nat n :: u64) = of_nat m"
  proof (rule bit_word_eqI)
    fix k
    show "bit (of_nat n :: u64) k = bit (of_nat m :: u64) k"
    proof (cases "k < 8 * w")
      case True
      then show ?thesis by (rule le_bytes_bits [OF eq])
    next
      case False
      then have "\<not> bit (take_bit (8 * w) (of_nat x :: u64)) k" for x by (simp add: bit_take_bit_iff)
      then show ?thesis using tb [OF n] tb [OF m] by metis
    qed
  qed
  moreover have "(2 :: nat) ^ (8 * w) \<le> 2 ^ 32" using assms(3) by (intro power_increasing) simp_all
  then have "n < 2 ^ LENGTH(64)" "m < 2 ^ LENGTH(64)" using n m by simp_all
  then have "unat (of_nat n :: u64) = n" "unat (of_nat m :: u64) = m"
    by (simp_all add: unsigned_of_nat take_bit_nat_eq_self)
  ultimately show ?thesis by metis
qed

lemma le_len_length: "le_len w n e = Ok bs \<Longrightarrow> length bs = w"
  by (auto simp: le_len_def split: if_splits)

definition zk_wf :: "zk_proof \<Rightarrow> bool" where
  "zk_wf zp \<longleftrightarrow> length (zk_vk_hash zp) = 32 \<and> list_all (\<lambda>h. length h = 32) (zk_public_inputs zp)"

lemma length_flatten: "list_all (\<lambda>h. length h = 32) xs \<Longrightarrow> length (flatten_public_inputs xs) = 32 * length xs"
  by (induction xs) (auto simp: flatten_public_inputs_def)

lemma flatten_split:
  assumes "flatten_public_inputs xs @ p = flatten_public_inputs ys @ q" and "length xs = length ys"
    and "list_all (\<lambda>h. length h = 32) xs" "list_all (\<lambda>h. length h = 32) ys"
  shows "xs = ys \<and> p = q"
proof -
  have "length (flatten_public_inputs xs) = length (flatten_public_inputs ys)"
    using assms(2-4) by (simp add: length_flatten)
  then have f: "flatten_public_inputs xs = flatten_public_inputs ys" "p = q" using assms(1) by simp_all
  have "\<forall>(x, y) \<in> set (zip xs ys). length x = length y"
    using assms(3,4) by (auto simp: list_all_iff) (metis set_zip_leftD set_zip_rightD)
  from concat_injective [OF _ assms(2) this] f show ?thesis by (simp add: flatten_public_inputs_def)
qed

text \<open>
  The envelope that goes to the verifying precompile determines the proof. For the three proof
  systems whose envelope carries its lengths (PLONK, EZKL and STARK), two proofs with the same
  envelope are the same proof: same system, key, public inputs and bytes. So the precompile
  verifies exactly what the registry checked against the job.
\<close>

theorem zkp_envelope_injective:
  assumes "encode_unified_zkp_input zp job = Ok e" and "encode_unified_zkp_input zp' job = Ok e"
    and "zk_wf zp" and "zk_wf zp'" and "zk_sys zp \<in> {Plonk, Ezkl, Stark}" and "zk_sys zp' \<in> {Plonk, Ezkl, Stark}"
  shows "zp = zp'"
proof -
  have l: "length (zk_vk_hash zp) = length (zk_vk_hash zp')" using assms(3,4) by (simp add: zk_wf_def)
  have tag: "zk_sys zp = zk_sys zp'"
    using assms(1,2,5,6)
    by (auto simp: encode_unified_zkp_input_def Let_def split: result.splits)
  have "length (zk_public_inputs zp) = length (zk_public_inputs zp') \<and> zk_vk_hash zp = zk_vk_hash zp' \<and>
    flatten_public_inputs (zk_public_inputs zp) @ zk_proof_bytes zp =
    flatten_public_inputs (zk_public_inputs zp') @ zk_proof_bytes zp'"
  proof (cases "zk_sys zp")
    case Plonk
    then obtain a n where
      a: "le_len 4 (length (zk_proof_bytes zp)) ''PLONK proof exceeds 4 GiB precompile envelope'' = Ok a"
      and n: "le_len 4 (length (zk_public_inputs zp)) ''too many PLONK public inputs for precompile envelope'' = Ok n"
      and e: "e = [2] @ a @ zk_vk_hash zp @ n @ flatten_public_inputs (zk_public_inputs zp) @ zk_proof_bytes zp"
      using assms(1) by (auto simp: encode_unified_zkp_input_def Let_def split: result.splits)
    from Plonk tag obtain a' n' where
      a': "le_len 4 (length (zk_proof_bytes zp')) ''PLONK proof exceeds 4 GiB precompile envelope'' = Ok a'"
      and n': "le_len 4 (length (zk_public_inputs zp')) ''too many PLONK public inputs for precompile envelope'' = Ok n'"
      and e': "e = [2] @ a' @ zk_vk_hash zp' @ n' @ flatten_public_inputs (zk_public_inputs zp') @ zk_proof_bytes zp'"
      using assms(2) by (auto simp: encode_unified_zkp_input_def Let_def split: result.splits)
    have "n = n'" using e e' l le_len_length [OF a] le_len_length [OF a'] le_len_length [OF n] le_len_length [OF n'] by simp
    then show ?thesis
      using le_len_inj [of 4 _ _ n] n n' e e' l le_len_length [OF a] le_len_length [OF a'] by simp
  next
    case Ezkl
    then obtain a n where
      a: "le_len 4 (length (zk_proof_bytes zp)) ''EZKL proof exceeds 4 GiB precompile envelope'' = Ok a"
      and n: "le_len 2 (length (zk_public_inputs zp)) ''too many EZKL public inputs for precompile envelope'' = Ok n"
      and e: "e = [3, 1, 0] @ js_model_hash job @ zk_vk_hash zp @ n @ a @ flatten_public_inputs (zk_public_inputs zp) @ zk_proof_bytes zp"
      using assms(1) by (auto simp: encode_unified_zkp_input_def Let_def split: result.splits)
    from Ezkl tag obtain a' n' where
      a': "le_len 4 (length (zk_proof_bytes zp')) ''EZKL proof exceeds 4 GiB precompile envelope'' = Ok a'"
      and n': "le_len 2 (length (zk_public_inputs zp')) ''too many EZKL public inputs for precompile envelope'' = Ok n'"
      and e': "e = [3, 1, 0] @ js_model_hash job @ zk_vk_hash zp' @ n' @ a' @ flatten_public_inputs (zk_public_inputs zp') @ zk_proof_bytes zp'"
      using assms(2) by (auto simp: encode_unified_zkp_input_def Let_def split: result.splits)
    have "n = n'" using e e' l le_len_length [OF n] le_len_length [OF n'] by simp
    then show ?thesis
      using le_len_inj [of 2 _ _ n] n n' e e' l le_len_length [OF a] le_len_length [OF a'] by simp
  next
    case Stark
    then obtain n where
      n: "le_len 4 (length (zk_public_inputs zp)) ''too many STARK public inputs for precompile envelope'' = Ok n"
      and e: "e = [5] @ zk_vk_hash zp @ n @ flatten_public_inputs (zk_public_inputs zp) @ zk_proof_bytes zp"
      using assms(1) by (auto simp: encode_unified_zkp_input_def Let_def)
    from Stark tag obtain n' where
      n': "le_len 4 (length (zk_public_inputs zp')) ''too many STARK public inputs for precompile envelope'' = Ok n'"
      and e': "e = [5] @ zk_vk_hash zp' @ n' @ flatten_public_inputs (zk_public_inputs zp') @ zk_proof_bytes zp'"
      using assms(2) by (auto simp: encode_unified_zkp_input_def Let_def)
    have "n = n'" using e e' l le_len_length [OF n] le_len_length [OF n'] by simp
    then show ?thesis using le_len_inj [of 4 _ _ n] n n' e e' l by simp
  qed (use assms(5) in simp_all)
  then have "zk_public_inputs zp = zk_public_inputs zp' \<and> zk_proof_bytes zp = zk_proof_bytes zp' \<and> zk_vk_hash zp = zk_vk_hash zp'"
    using flatten_split assms(3,4) unfolding zk_wf_def by blast
  with tag show ?thesis by (cases zp, cases zp') simp
qed


definition demo_zk :: zk_proof where
  "demo_zk = \<lparr>zk_sys = Stark, zk_proof_bytes = replicate 128 1, zk_public_inputs = [replicate 32 3, replicate 32 4],
     zk_vk_hash = replicate 32 5\<rparr>"

theorem zkp_envelope_injective_witness:
  "\<exists>e. encode_unified_zkp_input demo_zk demo_job = Ok e \<and>
     {zp. zk_wf zp \<and> zk_sys zp \<in> {Plonk, Ezkl, Stark} \<and>
          encode_unified_zkp_input zp demo_job = Ok e} = {demo_zk}"
proof -
  have w: "zk_wf demo_zk" "zk_sys demo_zk \<in> {Plonk, Ezkl, Stark}" by (simp_all add: zk_wf_def demo_zk_def)
  have "\<exists>e. encode_unified_zkp_input demo_zk demo_job = Ok e"
    by (simp add: encode_unified_zkp_input_def demo_zk_def Let_def le_len_def)
  then obtain e where e: "encode_unified_zkp_input demo_zk demo_job = Ok e" by blast
  have "zp = demo_zk" if "zk_wf zp" "zk_sys zp \<in> {Plonk, Ezkl, Stark}" "encode_unified_zkp_input zp demo_job = Ok e" for zp
    using zkp_envelope_injective [OF that(3) e that(1) w(1) that(2) w(2)] .
  then show ?thesis using e w by blast
qed

end
