(* ===== verification/Compliance_Properties.thy ===== *)
theory Compliance_Properties
  imports Compliance_Module
begin

text \<open>
  The compliance module: the bloom filter in front of the sanctions list never hides an address, the
  check \<open>enforce\<close> decides exactly the stated rules, certifications and consents behave like keyed
  stores, and identifiers survive printing and parsing.
\<close>

section \<open>Screening through an approximate filter\<close>

text \<open>
  What the module relies on when it asks the filter first: an added key is reported, and adding a key
  never hides another one. Nothing is assumed about keys that were never added.
\<close>

locale approx_filter =
  fixes mem :: "'f \<Rightarrow> 'a \<Rightarrow> bool" and add :: "'a \<Rightarrow> 'f \<Rightarrow> 'f" and wf :: "'f \<Rightarrow> bool"
  assumes wf_add: "wf f \<Longrightarrow> wf (add a f)"
    and mem_add: "wf f \<Longrightarrow> mem (add a f) a"
    and mem_keep: "wf f \<Longrightarrow> mem f b \<Longrightarrow> mem (add a f) b"
begin

definition covers :: "'f \<Rightarrow> 'a set \<Rightarrow> bool" where
  "covers f S \<longleftrightarrow> wf f \<and> (\<forall>a\<in>S. mem f a)"

lemma covers_insert: "covers f S \<Longrightarrow> covers (add a f) (insert a S)"
  by (auto simp: covers_def wf_add mem_add mem_keep)

lemma covers_subset: "covers f S \<Longrightarrow> T \<subseteq> S \<Longrightarrow> covers f T"
  by (auto simp: covers_def)

lemma screened_lookup: "covers f S \<Longrightarrow> (if \<not> mem f a then False else a \<in> S) \<longleftrightarrow> a \<in> S"
  by (auto simp: covers_def)

end

definition bloom_wf :: "sanctions_bloom_filter \<Rightarrow> bool" where
  "bloom_wf f \<longleftrightarrow> length (bf_bits f) = SANCTIONS_BLOOM_SIZE div 64"

definition bloom_bit :: "u64 list \<Rightarrow> nat \<Rightarrow> bool" where
  "bloom_bit bits h \<longleftrightarrow> bit (bits ! (h div 64)) (h mod 64)"

lemma length_set_bloom_bit [simp]: "length (set_bloom_bit h bits) = length bits"
  by (simp add: set_bloom_bit_def)

lemma length_fold_set_bloom_bit [simp]: "length (fold set_bloom_bit hs bits) = length bits"
  by (induction hs arbitrary: bits) auto

lemma set_bloom_bit_keeps: "bloom_bit bits k \<Longrightarrow> bloom_bit (set_bloom_bit h bits) k"
  by (cases "h div 64 < length bits")
    (auto simp: bloom_bit_def set_bloom_bit_def nth_list_update bit_or_iff not_less list_update_beyond)

lemma set_bloom_bit_sets: "h div 64 < length bits \<Longrightarrow> bloom_bit (set_bloom_bit h bits) h"
  by (simp add: bloom_bit_def set_bloom_bit_def bit_or_iff bit_exp_iff)

lemma fold_set_bloom_bit_keeps: "bloom_bit bits k \<Longrightarrow> bloom_bit (fold set_bloom_bit hs bits) k"
  by (induction hs arbitrary: bits) (auto simp: set_bloom_bit_keeps)

lemma fold_set_bloom_bit_sets:
  "h \<in> set hs \<Longrightarrow> \<forall>h\<in>set hs. h div 64 < length bits \<Longrightarrow> bloom_bit (fold set_bloom_bit hs bits) h"
  by (induction hs arbitrary: bits) (auto simp: set_bloom_bit_sets fold_set_bloom_bit_keeps)

lemma possibly_contains_bits:
  "possibly_contains sha f a \<longleftrightarrow> (\<forall>h\<in>set (compute_hashes sha f a). bloom_bit (bf_bits f) h)"
  by (simp add: possibly_contains_def list_all_iff bloom_bit_def and_exp_eq_0_iff_not_bit)

lemma compute_hashes_bound: "h \<in> set (compute_hashes sha f a) \<Longrightarrow> h div 64 < SANCTIONS_BLOOM_SIZE div 64"
  by (auto simp: compute_hashes_def Let_def SANCTIONS_BLOOM_SIZE_def div_less_iff_less_mult)

lemma compute_hashes_add [simp]: "compute_hashes sha (bloom_add sha' b f) a = compute_hashes sha f a"
  by (simp add: compute_hashes_def bloom_add_def)

interpretation bloom: approx_filter "possibly_contains sha" "bloom_add sha" bloom_wf for sha
proof
  fix f a b
  assume wf: "bloom_wf f"
  show "bloom_wf (bloom_add sha a f)" using wf by (simp add: bloom_wf_def bloom_add_def)
  have "h div 64 < length (bf_bits f)" if "h \<in> set (compute_hashes sha f a)" for h
    using that wf compute_hashes_bound by (simp add: bloom_wf_def)
  then show "possibly_contains sha (bloom_add sha a f) a"
    by (simp add: possibly_contains_bits) (simp add: bloom_add_def fold_set_bloom_bit_sets)
  assume "possibly_contains sha f b"
  then show "possibly_contains sha (bloom_add sha a f) b"
    by (simp add: possibly_contains_bits) (simp add: bloom_add_def fold_set_bloom_bit_keeps)
qed

section \<open>Operations as data\<close>

datatype (plugins only: code size) compliance_op =
    OpAddCertification certification
  | OpRevokeCertification address compliance_standard string
  | OpAddSanctioned address string
  | OpRemoveSanctioned address
  | OpBulkAddSanctioned "address list" string
  | OpRecordConsent consent_record
  | OpRevokeConsent address address
  | OpRegisterBaa address address
  | OpEnforce address "address option" "compliance_standard list" "string option" token_amount
      "(string, string) hashmap"
  | OpSetJurisdiction jurisdiction_config
  | OpUpdateTime u64

fun compliance_exec ::
    "(bytes \<Rightarrow> hash) \<Rightarrow> u64 \<times> compliance_op \<Rightarrow> compliance_module \<Rightarrow> compliance_module" where
  "compliance_exec sha (now, OpAddCertification c) m = fst (add_certification now c m)"
| "compliance_exec sha (now, OpRevokeCertification a s why) m = fst (revoke_certification now a s why m)"
| "compliance_exec sha (now, OpAddSanctioned a l) m = fst (add_sanctioned_address sha now a l m)"
| "compliance_exec sha (now, OpRemoveSanctioned a) m = fst (remove_sanctioned_address now a m)"
| "compliance_exec sha (now, OpBulkAddSanctioned as l) m = bulk_add_sanctioned sha now as l m"
| "compliance_exec sha (now, OpRecordConsent c) m = fst (record_consent c m)"
| "compliance_exec sha (now, OpRevokeConsent s c) m = fst (revoke_consent now s c m)"
| "compliance_exec sha (now, OpRegisterBaa e a) m = fst (register_baa now e a m)"
| "compliance_exec sha (now, OpEnforce r p req j amt md) m = fst (enforce sha now m r p req j amt md)"
| "compliance_exec sha (now, OpSetJurisdiction j) m = set_jurisdiction j m"
| "compliance_exec sha (now, OpUpdateTime t) m = update_time t m"

definition compliance_run ::
    "(bytes \<Rightarrow> hash) \<Rightarrow> (u64 \<times> compliance_op) list \<Rightarrow> compliance_module \<Rightarrow> compliance_module" where
  "compliance_run sha ops m = fold (compliance_exec sha) ops m"

text \<open>What the operations mean for the list of sanctioned addresses.\<close>

fun listed_after :: "u64 \<times> compliance_op \<Rightarrow> address set \<Rightarrow> address set" where
  "listed_after (now, OpAddSanctioned a l) S = insert a S"
| "listed_after (now, OpRemoveSanctioned a) S = S - {a}"
| "listed_after (now, OpBulkAddSanctioned as l) S = S \<union> set as"
| "listed_after _ S = S"

lemma emit_compliance_fields [simp]:
  "cm_config (emit_compliance now e m) = cm_config m"
  "cm_certifications (emit_compliance now e m) = cm_certifications m"
  "cm_sanctions_bloom (emit_compliance now e m) = cm_sanctions_bloom m"
  "cm_sanctioned_addresses (emit_compliance now e m) = cm_sanctioned_addresses m"
  "cm_jurisdictions (emit_compliance now e m) = cm_jurisdictions m"
  "cm_consents (emit_compliance now e m) = cm_consents m"
  "cm_baas (emit_compliance now e m) = cm_baas m"
  "cm_current_time (emit_compliance now e m) = cm_current_time m"
  "cm_check_counter (emit_compliance now e m) = cm_check_counter m"
  by (simp_all add: emit_compliance_def)

lemma enforce_fst:
  "\<exists>log. fst (enforce sha now m r p req j amt md) =
     m\<lparr>cm_check_counter := cm_check_counter m + 1, cm_audit_log := log\<rparr>"
  by (auto simp: enforce_def generate_check_id_def Let_def emit_compliance_def intro: exI [of _ "cm_audit_log m"])

lemma enforce_fst_fields [simp]:
  "cm_config (fst (enforce sha now m r p req j amt md)) = cm_config m"
  "cm_certifications (fst (enforce sha now m r p req j amt md)) = cm_certifications m"
  "cm_sanctions_bloom (fst (enforce sha now m r p req j amt md)) = cm_sanctions_bloom m"
  "cm_sanctioned_addresses (fst (enforce sha now m r p req j amt md)) = cm_sanctioned_addresses m"
  "cm_jurisdictions (fst (enforce sha now m r p req j amt md)) = cm_jurisdictions m"
  "cm_consents (fst (enforce sha now m r p req j amt md)) = cm_consents m"
  "cm_baas (fst (enforce sha now m r p req j amt md)) = cm_baas m"
  "cm_current_time (fst (enforce sha now m r p req j amt md)) = cm_current_time m"
  using enforce_fst [of sha now m r p req j amt md] by auto

lemma add_certification_fields [simp]:
  "cm_config (fst (add_certification now c m)) = cm_config m"
  "cm_sanctions_bloom (fst (add_certification now c m)) = cm_sanctions_bloom m"
  "cm_sanctioned_addresses (fst (add_certification now c m)) = cm_sanctioned_addresses m"
  "cm_consents (fst (add_certification now c m)) = cm_consents m"
  "cm_jurisdictions (fst (add_certification now c m)) = cm_jurisdictions m"
  "cm_current_time (fst (add_certification now c m)) = cm_current_time m"
  by (simp_all add: add_certification_def Let_def)

lemma revoke_certification_fields [simp]:
  "cm_config (fst (revoke_certification now a s why m)) = cm_config m"
  "cm_sanctions_bloom (fst (revoke_certification now a s why m)) = cm_sanctions_bloom m"
  "cm_sanctioned_addresses (fst (revoke_certification now a s why m)) = cm_sanctioned_addresses m"
  "cm_consents (fst (revoke_certification now a s why m)) = cm_consents m"
  by (simp_all add: revoke_certification_def Let_def split: option.splits)

lemma revoke_consent_fields [simp]:
  "cm_config (fst (revoke_consent now s c m)) = cm_config m"
  "cm_sanctions_bloom (fst (revoke_consent now s c m)) = cm_sanctions_bloom m"
  "cm_sanctioned_addresses (fst (revoke_consent now s c m)) = cm_sanctioned_addresses m"
  "cm_certifications (fst (revoke_consent now s c m)) = cm_certifications m"
  by (simp_all add: revoke_consent_def Let_def split: option.splits)

lemma register_baa_fields [simp]:
  "cm_config (fst (register_baa now e a m)) = cm_config m"
  "cm_sanctions_bloom (fst (register_baa now e a m)) = cm_sanctions_bloom m"
  "cm_sanctioned_addresses (fst (register_baa now e a m)) = cm_sanctioned_addresses m"
  "cm_certifications (fst (register_baa now e a m)) = cm_certifications m"
  "cm_consents (fst (register_baa now e a m)) = cm_consents m"
  "cm_jurisdictions (fst (register_baa now e a m)) = cm_jurisdictions m"
  "cm_current_time (fst (register_baa now e a m)) = cm_current_time m"
  by (simp_all add: register_baa_def Let_def)

lemma fold_add_to_list:
  "cm_sanctioned_addresses (fold (add_to_list sha) as m) = cm_sanctioned_addresses m \<union> set as"
  "cm_config (fold (add_to_list sha) as m) = cm_config m"
  "cm_certifications (fold (add_to_list sha) as m) = cm_certifications m"
  "cm_consents (fold (add_to_list sha) as m) = cm_consents m"
  by (induction as arbitrary: m) (auto simp: add_to_list_def)

lemma listed_after_exec:
  "cm_sanctioned_addresses (compliance_exec sha op m) = listed_after op (cm_sanctioned_addresses m)"
  by (cases "(sha, op, m)" rule: compliance_exec.cases)
    (auto simp: add_sanctioned_address_def remove_sanctioned_address_def bulk_add_sanctioned_def Let_def
      fold_add_to_list record_consent_def set_jurisdiction_def update_time_def)

definition screening_inv :: "(bytes \<Rightarrow> hash) \<Rightarrow> compliance_module \<Rightarrow> bool" where
  "screening_inv sha m \<longleftrightarrow> bloom.covers sha (cm_sanctions_bloom m) (cm_sanctioned_addresses m)"

lemma screening_inv_add: "screening_inv sha m \<Longrightarrow> screening_inv sha (add_to_list sha a m)"
  by (simp add: screening_inv_def add_to_list_def bloom.covers_insert)

lemma screening_inv_fold: "screening_inv sha m \<Longrightarrow> screening_inv sha (fold (add_to_list sha) as m)"
  by (induction as arbitrary: m) (auto simp: screening_inv_add)

lemma screening_inv_exec:
  assumes "screening_inv sha m"
  shows "screening_inv sha (compliance_exec sha op m)"
proof (cases "(sha, op, m)" rule: compliance_exec.cases)
  case (3 sha' now a l m')
  then show ?thesis
    using screening_inv_add [OF assms, of a]
    by (simp add: add_sanctioned_address_def Let_def screening_inv_def add_to_list_def)
next
  case (4 sha' now a m')
  then show ?thesis
    using assms by (auto simp: remove_sanctioned_address_def Let_def screening_inv_def intro: bloom.covers_subset)
next
  case (5 sha' now as l m')
  then show ?thesis
    using screening_inv_fold [OF assms, of as] by (simp add: bulk_add_sanctioned_def Let_def screening_inv_def)
qed (use assms in \<open>auto simp: screening_inv_def record_consent_def Let_def set_jurisdiction_def update_time_def\<close>)

lemma screening_inv_run: "screening_inv sha m \<Longrightarrow> screening_inv sha (compliance_run sha ops m)"
  unfolding compliance_run_def by (induction ops arbitrary: m) (auto simp: screening_inv_exec)

lemma fold_set_jurisdiction_fields [simp]:
  "cm_config (fold set_jurisdiction js m) = cm_config m"
  "cm_certifications (fold set_jurisdiction js m) = cm_certifications m"
  "cm_sanctions_bloom (fold set_jurisdiction js m) = cm_sanctions_bloom m"
  "cm_sanctioned_addresses (fold set_jurisdiction js m) = cm_sanctioned_addresses m"
  "cm_consents (fold set_jurisdiction js m) = cm_consents m"
  "cm_current_time (fold set_jurisdiction js m) = cm_current_time m"
  by (induction js arbitrary: m) (auto simp: set_jurisdiction_def)

lemma compliance_new_fields [simp]:
  "cm_config (compliance_new c) = c"
  "cm_certifications (compliance_new c) = []"
  "cm_sanctions_bloom (compliance_new c) = bloom_new"
  "cm_sanctioned_addresses (compliance_new c) = {}"
  "cm_consents (compliance_new c) = []"
  "cm_current_time (compliance_new c) = 0"
  by (simp_all add: compliance_new_def init_default_jurisdictions_def)

lemma screening_inv_new: "screening_inv sha (compliance_new c)"
  by (simp add: screening_inv_def bloom.covers_def bloom_wf_def bloom_new_def)

lemma is_sanctioned_iff: "screening_inv sha m \<Longrightarrow> is_sanctioned sha m a \<longleftrightarrow> a \<in> cm_sanctioned_addresses m"
  unfolding is_sanctioned_def screening_inv_def by (rule bloom.screened_lookup)

lemma listed_after_run:
  "cm_sanctioned_addresses (compliance_run sha ops m) = fold listed_after ops (cm_sanctioned_addresses m)"
  unfolding compliance_run_def by (induction ops arbitrary: m) (auto simp: listed_after_exec)

text \<open>
  C37. Sanctions screening is exact. Whatever operations ran on a new module, with whatever hash function,
  \<open>is_sanctioned\<close> answers yes exactly for the addresses that the additions and removals so far leave on the
  list: the bloom filter that is asked first never hides a listed address (not even after removals,
  which it cannot undo), and its false positives never reach the answer.
\<close>

theorem sanctions_screening_exact:
  "is_sanctioned sha (compliance_run sha ops (compliance_new config)) a \<longleftrightarrow> a \<in> fold listed_after ops {}"
  using is_sanctioned_iff [OF screening_inv_run [OF screening_inv_new]] listed_after_run
  by (metis compliance_new_fields(4))

section \<open>What a check decides\<close>

lemma set_add_distinct:
  "set (foldl (\<lambda>ss s. if s \<in> set ss then ss else ss @ [s]) old new) = set old \<union> set new"
  by (induction new arbitrary: old) auto

lemma set_all_standards:
  "set (all_standards m required jur) =
     set (cc_default_standards (cm_config m)) \<union> set required
     \<union> (case jurisdiction_of m jur of Some j \<Rightarrow> set (ju_required_standards j) | None \<Rightarrow> {})"
  by (auto simp: all_standards_def add_standards_def Let_def set_add_distinct split: option.splits)

lemma counter_lookups [simp]:
  "jurisdiction_of (m\<lparr>cm_check_counter := n\<rparr>) = jurisdiction_of m"
  "is_sanctioned sha (m\<lparr>cm_check_counter := n\<rparr>) = is_sanctioned sha m"
  "cert_accepted (m\<lparr>cm_check_counter := n\<rparr>) = cert_accepted m"
  "has_baa (m\<lparr>cm_check_counter := n\<rparr>) = has_baa m"
  "has_consent (m\<lparr>cm_check_counter := n\<rparr>) = has_consent m"
  by (simp_all add: fun_eq_iff jurisdiction_of_def is_sanctioned_def cert_accepted_def has_baa_def has_consent_def split: option.split)

lemma counter_certification [simp]:
  "has_valid_certification (m\<lparr>cm_check_counter := n\<rparr>) = has_valid_certification m"
  by (simp add: fun_eq_iff has_valid_certification_def split: option.split)

lemma counter_findings [simp]:
  "all_standards (m\<lparr>cm_check_counter := n\<rparr>) = all_standards m"
  "jurisdiction_violations (m\<lparr>cm_check_counter := n\<rparr>) = jurisdiction_violations m"
  "sanctions_violations sha (m\<lparr>cm_check_counter := n\<rparr>) = sanctions_violations sha m"
  "requester_cert_findings (m\<lparr>cm_check_counter := n\<rparr>) = requester_cert_findings m"
  "baa_violations (m\<lparr>cm_check_counter := n\<rparr>) = baa_violations m"
  "consent_violations (m\<lparr>cm_check_counter := n\<rparr>) = consent_violations m"
  "residency_violations (m\<lparr>cm_check_counter := n\<rparr>) = residency_violations m"
  by (simp_all add: fun_eq_iff all_standards_def jurisdiction_violations_def sanctions_violations_def
      requester_cert_findings_def baa_violations_def consent_violations_def residency_violations_def Let_def split: option.split)

lemma counter_cert_findings [simp]: "cert_findings (m\<lparr>cm_check_counter := n\<rparr>) = cert_findings m"
  by (simp add: fun_eq_iff cert_findings_def split: option.split prod.split)

lemma foldl_add_warning [simp]:
  "ccr_passed (foldl add_warning r ws) = ccr_passed r"
  "ccr_risk_score (foldl add_warning r ws) = ccr_risk_score r"
  "ccr_violations (foldl add_warning r ws) = ccr_violations r"
  "ccr_standards_checked (foldl add_warning r ws) = ccr_standards_checked r"
  by (induction ws arbitrary: r) (auto simp: add_warning_def)

lemma foldl_add_warning_warnings: "ccr_warnings (foldl add_warning r ws) = ccr_warnings r @ ws"
  by (induction ws arbitrary: r) (auto simp: add_warning_def)

lemma check_outcome_fields [simp]:
  "ccr_passed (check_pass ss i t)" "ccr_violations (check_pass ss i t) = []" "ccr_risk_score (check_pass ss i t) = 0"
  "\<not> ccr_passed (check_fail vs ss i t)" "ccr_violations (check_fail vs ss i t) = vs"
  "ccr_risk_score (check_fail vs ss i t) = calculate_risk_score vs"
  by (simp_all add: check_pass_def check_fail_def)

lemma counter_collect [simp]:
  "collect_violations sha (m\<lparr>cm_check_counter := n\<rparr>) = collect_violations sha m"
  by (simp add: fun_eq_iff collect_violations_def)

lemma risk_score_nil [simp]: "calculate_risk_score [] = 0"
  by (simp add: calculate_risk_score_def)

text \<open>A check of an enabled module returns, and reports exactly what it collected.\<close>

lemma enforce_result:
  fixes sha m requester data_provider required jur amount metadata
  defines "vs \<equiv> collect_violations sha m requester data_provider (all_standards m required jur) jur amount metadata"
  assumes "cc_enabled (cm_config m)"
  shows "\<exists>res. snd (enforce sha now m requester data_provider required jur amount metadata) = Ok res
    \<and> ccr_violations res = vs \<and> (ccr_passed res \<longleftrightarrow> vs = []) \<and> ccr_risk_score res = calculate_risk_score vs"
  using assms(2) by (cases "vs = []") (auto simp: enforce_def generate_check_id_def Let_def vs_def)

text \<open>The requester's side of a certification rule, as the code decides it.\<close>

definition requester_cleared :: "compliance_module \<Rightarrow> address \<Rightarrow> compliance_standard \<Rightarrow> bool" where
  "requester_cleared m a s \<longleftrightarrow>
     has_valid_certification m a s
     \<or> (\<exists>certs c. hm_get (cm_certifications m) a = Some certs \<and> find (\<lambda>c. ce_standard c = s) certs = Some c
          \<and> (in_grace_period c (cm_current_time m) \<or> ce_revoked c))"

lemma requester_cert_findings_none: "fst (requester_cert_findings m a s) = [] \<longleftrightarrow> requester_cleared m a s"
  by (auto simp: requester_cert_findings_def requester_cleared_def split: option.splits)

lemma cert_findings_none:
  "fst (cert_findings m a p s) = [] \<longleftrightarrow>
     (requires_certification s \<longrightarrow> requester_cleared m a s \<and> (\<forall>q. p = Some q \<longrightarrow> has_valid_certification m q s))"
  using requester_cert_findings_none [of m a s] by (auto simp: cert_findings_def split: prod.splits option.splits)

lemma jurisdiction_violations_none:
  "jurisdiction_violations m jur amount = [] \<longleftrightarrow>
     (\<forall>j. jurisdiction_of m jur = Some j \<longrightarrow> \<not> ju_blocked j \<and> amount \<le> ju_aml_threshold j)"
  by (auto simp: jurisdiction_violations_def not_less split: option.splits)

lemma sanctions_violations_none:
  "sanctions_violations sha m a p = [] \<longleftrightarrow>
     (cc_enforce_sanctions (cm_config m) \<longrightarrow>
        \<not> is_sanctioned sha m a \<and> (\<forall>q. p = Some q \<longrightarrow> \<not> is_sanctioned sha m q))"
  by (auto simp: sanctions_violations_def filter_empty_conv split: option.splits)

lemma baa_violations_none:
  "baa_violations m a p ss = [] \<longleftrightarrow> (HipaaUs \<in> set ss \<longrightarrow> (\<forall>q. p = Some q \<longrightarrow> has_baa m a q \<or> a = q))"
  by (auto simp: baa_violations_def split: option.splits)

lemma consent_violations_none:
  "consent_violations m a p ss md = [] \<longleftrightarrow>
     (GdprEu \<in> set ss \<or> CcpaCa \<in> set ss \<longrightarrow> (\<forall>q. p = Some q \<longrightarrow>
        has_consent m q a (case hm_get md ''purpose'' of Some s \<Rightarrow> s | None \<Rightarrow> ''ai_computation'')))"
  by (auto simp: consent_violations_def Let_def split: option.splits)

lemma residency_violations_none:
  "residency_violations m jur md = [] \<longleftrightarrow>
     (\<forall>j rule region. jurisdiction_of m jur = Some j \<longrightarrow> ju_data_residency j = Some rule \<longrightarrow>
        hm_get md ''data_region'' = Some region \<longrightarrow> region \<in> set (dr_allowed_regions rule))"
  by (auto simp: residency_violations_def bind_eq_Some_conv bind_eq_None_conv split: option.splits)

lemmas violations_none =
  jurisdiction_violations_none sanctions_violations_none cert_findings_none baa_violations_none
  consent_violations_none residency_violations_none

lemma calculate_risk_score_le: "calculate_risk_score vs \<le> 100"
proof -
  have "unat (ucast (min s 100) :: u8) \<le> 100" for s :: u32
  proof -
    have "min s 100 \<le> 100" by simp
    then have "unat (min s 100) \<le> 100" by (simp only: word_le_nat_alt) simp
    then show ?thesis
      by (auto simp: unsigned_ucast_eq intro: order.trans [OF take_bit_nat_less_eq_self])
  qed
  then show ?thesis by (simp add: calculate_risk_score_def word_le_nat_alt)
qed


text \<open>The standards that apply to a check.\<close>

definition applicable_standards ::
    "compliance_module \<Rightarrow> compliance_standard list \<Rightarrow> string option \<Rightarrow> compliance_standard set" where
  "applicable_standards m required jur =
     set (cc_default_standards (cm_config m)) \<union> set required
     \<union> (case jurisdiction_of m jur of Some j \<Rightarrow> set (ju_required_standards j) | None \<Rightarrow> {})"

text \<open>
  What \<open>enforce\<close> decides. On an enabled module the check always returns a result, with a risk score of at
  most 100, and it passes exactly when: the jurisdiction is not blocked and its AML threshold is not
  exceeded; neither party is sanctioned (where sanctions are enforced); for every standard that is a
  default, asked for, or required by the jurisdiction, and that needs a certificate, the requester is
  cleared and the data provider certified; HIPAA has its agreement and GDPR and CCPA their consent; and the
  data stays in an allowed region. The risk threshold never rejects a check without violations.
\<close>

theorem enforce_decides:
  assumes "cc_enabled (cm_config m)"
  shows "\<exists>m' res. enforce sha now m requester provider required jur amount metadata = (m', Ok res) \<and>
    ccr_risk_score res \<le> 100 \<and>
    (ccr_passed res \<longleftrightarrow>
      (\<forall>j. jurisdiction_of m jur = Some j \<longrightarrow> \<not> ju_blocked j \<and> amount \<le> ju_aml_threshold j) \<and>
      (cc_enforce_sanctions (cm_config m) \<longrightarrow>
        \<not> is_sanctioned sha m requester \<and> (\<forall>p. provider = Some p \<longrightarrow> \<not> is_sanctioned sha m p)) \<and>
      (\<forall>s\<in>applicable_standards m required jur. requires_certification s \<longrightarrow>
        requester_cleared m requester s \<and> (\<forall>p. provider = Some p \<longrightarrow> has_valid_certification m p s)) \<and>
      (HipaaUs \<in> applicable_standards m required jur \<longrightarrow> (\<forall>p. provider = Some p \<longrightarrow> has_baa m requester p \<or> requester = p)) \<and>
      (GdprEu \<in> applicable_standards m required jur \<or> CcpaCa \<in> applicable_standards m required jur \<longrightarrow> (\<forall>p. provider = Some p \<longrightarrow> has_consent m p requester
        (case hm_get metadata ''purpose'' of Some s \<Rightarrow> s | None \<Rightarrow> ''ai_computation''))) \<and>
      (\<forall>j rule region. jurisdiction_of m jur = Some j \<longrightarrow> ju_data_residency j = Some rule \<longrightarrow>
        hm_get metadata ''data_region'' = Some region \<longrightarrow> region \<in> set (dr_allowed_regions rule)))"
proof -
  obtain res where res: "snd (enforce sha now m requester provider required jur amount metadata) = Ok res"
    and passed: "ccr_passed res \<longleftrightarrow>
      collect_violations sha m requester provider (all_standards m required jur) jur amount metadata = []"
    and score: "ccr_risk_score res \<le> 100"
    using enforce_result [OF assms(1), of sha now requester provider required jur amount metadata]
      calculate_risk_score_le by metis
  have "applicable_standards m required jur = set (all_standards m required jur)"
    by (simp add: set_all_standards applicable_standards_def)
  with res score passed show ?thesis
    by (cases "enforce sha now m requester provider required jur amount metadata")
      (simp add: collect_violations_def violations_none)
qed

lemma enforce_blocks_sanctioned:
  assumes "cc_enabled (cm_config m)" and "cc_enforce_sanctions (cm_config m)"
    and "is_sanctioned sha m requester \<or> (\<exists>p. provider = Some p \<and> is_sanctioned sha m p)"
  shows "\<exists>m' res. enforce sha now m requester provider required jur amount metadata = (m', Ok res) \<and> \<not> ccr_passed res"
proof -
  have "sanctions_violations sha m requester provider \<noteq> []" using assms sanctions_violations_none by blast
  then show ?thesis
    using enforce_result [OF assms(1), of sha now requester provider required jur amount metadata]
    by (cases "enforce sha now m requester provider required jur amount metadata") (auto simp: collect_violations_def)
qed

text \<open>A mainnet module with one sanctioned and one certified address.\<close>

definition zero_sha :: "bytes \<Rightarrow> hash" where
  "zero_sha bs = replicate 32 0"

definition who :: "u8 \<Rightarrow> address" where
  "who a = replicate 32 a"

lemma who_eq [simp]: "who a = who b \<longleftrightarrow> a = b"
  by (simp add: who_def replicate_eq_replicate)

definition hipaa_cert :: "address \<Rightarrow> certification" where
  "hipaa_cert a = \<lparr>ce_standard = HipaaUs, ce_entity_did = did_from_address a, ce_entity_address = a,
     ce_issuer = did_from_address (who 9), ce_level = 4, ce_issued_at = 0, ce_expires_at = 1000,
     ce_document_hash = replicate 32 0, ce_metadata = [], ce_revoked = False, ce_revocation_reason = None\<rparr>"

definition demo_module :: compliance_module where
  "demo_module = compliance_run zero_sha
     [(0, OpAddSanctioned (who 6) ''OFAC SDN''), (0, OpAddCertification (hipaa_cert (who 1)))]
     (compliance_new compliance_config_mainnet)"

lemma demo_sanctioned: "is_sanctioned zero_sha demo_module a \<longleftrightarrow> a = who 6"
  unfolding demo_module_def
  by (simp add: is_sanctioned_iff [OF screening_inv_run [OF screening_inv_new]] listed_after_run)


lemma demo_module_fields [simp]:
  "cm_config demo_module = compliance_config_mainnet"
  "cm_certifications demo_module = [(who 1, [hipaa_cert (who 1)])]"
  "cm_current_time demo_module = 0"
  by (simp_all add: demo_module_def compliance_run_def add_sanctioned_address_def Let_def add_certification_def
      hipaa_cert_def compliance_config_mainnet_def min_certification_level_def run_simps
      MAX_CERTIFICATIONS_PER_ENTITY_def)

lemma mainnet_flags [simp]:
  "cc_enabled compliance_config_mainnet" "cc_enforce_sanctions compliance_config_mainnet"
  "cc_default_standards compliance_config_mainnet = [OfacSanctions]"
  by (simp_all add: compliance_config_mainnet_def)

theorem enforce_decides_witness:
  "\<exists>m' res. enforce zero_sha 0 demo_module (who 1) None [HipaaUs] None 5 [] = (m', Ok res) \<and> ccr_passed res"
proof -
  have "has_valid_certification demo_module (who 1) HipaaUs"
    by (simp add: has_valid_certification_def cert_accepted_def cert_is_valid_def hipaa_cert_def run_simps)
  then show ?thesis
    using enforce_decides [of demo_module zero_sha 0 "who 1" None "[HipaaUs]" None 5 "[]"]
    by (auto simp: demo_sanctioned jurisdiction_of_def applicable_standards_def requester_cleared_def
        requires_certification_def)
qed

section \<open>Certifications and consents as keyed stores\<close>

lemma update_first_None: "update_first p f xs = None \<longleftrightarrow> list_all (\<lambda>x. \<not> p x) xs"
  by (induction xs) (auto split: option.splits)

lemma update_first_Some:
  assumes "update_first p f xs = Some ys"
  obtains us x vs where "xs = us @ x # vs" "ys = us @ f x # vs" "p x" "list_all (\<lambda>x. \<not> p x) us"
proof -
  have "\<exists>us x vs. xs = us @ x # vs \<and> ys = us @ f x # vs \<and> p x \<and> list_all (\<lambda>x. \<not> p x) us"
    using assms
  proof (induction xs arbitrary: ys)
    case (Cons x xs)
    show ?case
    proof (cases "p x")
      case True
      then have "ys = f x # xs" using Cons.prems by simp
      then show ?thesis using True by (intro exI [of _ "[]"] exI [of _ x] exI [of _ xs]) simp
    next
      case False
      then obtain zs where zs: "update_first p f xs = Some zs" "ys = x # zs"
        using Cons.prems by (auto split: option.splits)
      then obtain us y vs where "xs = us @ y # vs" "zs = us @ f y # vs" "p y" "list_all (\<lambda>x. \<not> p x) us"
        using Cons.IH by blast
      then show ?thesis using False zs by (intro exI [of _ "x # us"] exI [of _ y] exI [of _ vs]) simp
    qed
  qed simp
  then show ?thesis using that by blast
qed

lemma find_append: "find p (us @ vs) = (case find p us of Some x \<Rightarrow> Some x | None \<Rightarrow> find p vs)"
  by (induction us) auto

lemma find_None_all: "find p xs = None \<longleftrightarrow> list_all (\<lambda>x. \<not> p x) xs"
  by (induction xs) auto

text \<open>At most one certification per standard, at most one active consent per controller.\<close>

definition certs_inv :: "compliance_module \<Rightarrow> bool" where
  "certs_inv m \<longleftrightarrow> (\<forall>a cs. hm_get (cm_certifications m) a = Some cs \<longrightarrow> distinct (map ce_standard cs))"

definition consents_inv :: "compliance_module \<Rightarrow> bool" where
  "consents_inv m \<longleftrightarrow> (\<forall>a cs. hm_get (cm_consents m) a = Some cs \<longrightarrow>
     distinct (map co_data_controller (filter (\<lambda>c. \<not> co_revoked c) cs)))"

lemma distinct_standards_short: "distinct (map ce_standard cs) \<Longrightarrow> length cs \<le> 8"
proof -
  assume d: "distinct (map ce_standard cs)"
  have "set (map ce_standard cs) \<subseteq> set [GdprEu, HipaaUs, OfacSanctions, CcpaCa, PdpaSg, UaeDpl, BaselIii, Aml]"
    by (auto intro: compliance_standard.exhaust)
  then have "card (set (map ce_standard cs)) \<le> card (set [GdprEu, HipaaUs, OfacSanctions, CcpaCa, PdpaSg, UaeDpl, BaselIii, Aml])"
    by (intro card_mono) auto
  then show "length cs \<le> 8" using distinct_card [OF d] by simp
qed

lemma certs_inv_entry: "certs_inv m \<Longrightarrow> distinct (map ce_standard (hm_entry [] (cm_certifications m) a))"
  by (auto simp: certs_inv_def hm_entry_def split: option.split)

lemma certs_inv_exec:
  assumes "certs_inv m"
  shows "certs_inv (compliance_exec sha op m)"
proof (cases "(sha, op, m)" rule: compliance_exec.cases)
  case (1 sha' now c m')
  have "distinct (map ce_standard (filter (\<lambda>d. ce_standard d \<noteq> ce_standard c) (hm_entry [] (cm_certifications m) (ce_entity_address c)) @ [c]))"
    using certs_inv_entry [OF assms, of "ce_entity_address c"] by (auto simp: distinct_map_filter)
  then show ?thesis
    using assms 1 by (auto simp: add_certification_def Let_def certs_inv_def hm_simps)
next
  case (2 sha' now a s why m')
  have "distinct (map ce_standard ds)"
    if "hm_get (cm_certifications m) a = Some cs"
      "update_first (\<lambda>c. ce_standard c = s) (\<lambda>c. c\<lparr>ce_revoked := True, ce_revocation_reason := Some why\<rparr>) cs = Some ds" for cs ds
  proof -
    have "map ce_standard ds = map ce_standard cs" using that(2) by (auto elim!: update_first_Some)
    then show ?thesis using assms that(1) by (simp add: certs_inv_def)
  qed
  then show ?thesis
    using assms 2 by (auto simp: revoke_certification_def Let_def certs_inv_def hm_simps split: option.splits)
qed (use assms in \<open>auto simp: certs_inv_def record_consent_def Let_def set_jurisdiction_def update_time_def
       add_sanctioned_address_def remove_sanctioned_address_def bulk_add_sanctioned_def fold_add_to_list\<close>)

lemma consents_inv_exec:
  assumes "consents_inv m"
  shows "consents_inv (compliance_exec sha op m)"
proof (cases "(sha, op, m)" rule: compliance_exec.cases)
  case (6 sha' now c m')
  let ?cs = "hm_entry [] (cm_consents m) (co_data_subject c)"
  have d: "distinct (map co_data_controller (filter (\<lambda>c. \<not> co_revoked c) ?cs))"
    using assms by (auto simp: consents_inv_def hm_entry_def split: option.split)
  have "distinct (map co_data_controller (filter (\<lambda>c. \<not> co_revoked c) ds))"
    if u: "update_first (active_consent (co_data_controller c)) f ?cs = Some ds"
      and f: "\<And>x. co_data_controller (f x) = co_data_controller x" "\<And>x. co_revoked (f x) = co_revoked x" for f ds
  proof -
    obtain us x vs where "?cs = us @ x # vs" "ds = us @ f x # vs" using u by (auto elim!: update_first_Some)
    then show ?thesis using d f by (simp split: if_splits)
  qed
  moreover have "distinct (map co_data_controller (filter (\<lambda>c. \<not> co_revoked c) (?cs @ [c])))"
    if "update_first (active_consent (co_data_controller c)) f ?cs = None" for f
    using d that by (auto simp: update_first_None list_all_iff active_consent_def)
  ultimately show ?thesis
    using assms 6 by (auto simp: record_consent_def Let_def consents_inv_def hm_simps split: option.splits)
next
  case (7 sha' now s c m')
  have "distinct (map co_data_controller (filter (\<lambda>c. \<not> co_revoked c) ds))"
    if "hm_get (cm_consents m) s = Some cs"
      and u: "update_first (active_consent c) (\<lambda>c. c\<lparr>co_revoked := True, co_revoked_at := Some (cm_current_time m)\<rparr>) cs = Some ds" for cs ds
  proof -
    have "distinct (map co_data_controller (filter (\<lambda>c. \<not> co_revoked c) cs))"
      using assms that(1) by (simp add: consents_inv_def)
    then show ?thesis using u by (auto elim!: update_first_Some split: if_splits)
  qed
  then show ?thesis
    using assms 7 by (auto simp: revoke_consent_def Let_def consents_inv_def hm_simps split: option.splits)
qed (use assms in \<open>auto simp: consents_inv_def set_jurisdiction_def update_time_def
       add_sanctioned_address_def remove_sanctioned_address_def bulk_add_sanctioned_def fold_add_to_list\<close>)

lemma reachable_invs:
  "certs_inv (compliance_run sha ops (compliance_new config))"
  "consents_inv (compliance_run sha ops (compliance_new config))"
proof -
  have "certs_inv m \<Longrightarrow> certs_inv (compliance_run sha ops m)"
    "consents_inv m \<Longrightarrow> consents_inv (compliance_run sha ops m)" for m
    unfolding compliance_run_def by (induction ops arbitrary: m) (auto simp: certs_inv_exec consents_inv_exec)
  moreover have "certs_inv (compliance_new config)" "consents_inv (compliance_new config)"
    by (simp_all add: certs_inv_def consents_inv_def hm_get_def)
  ultimately show "certs_inv (compliance_run sha ops (compliance_new config))"
    "consents_inv (compliance_run sha ops (compliance_new config))" by auto
qed


lemma run_config: "cm_config (compliance_run sha ops m) = cm_config m"
proof -
  have "cm_config (compliance_exec sha op m) = cm_config m" for op m
    by (cases "(sha, op, m)" rule: compliance_exec.cases)
      (auto simp: add_sanctioned_address_def remove_sanctioned_address_def bulk_add_sanctioned_def Let_def
        fold_add_to_list record_consent_def set_jurisdiction_def update_time_def)
  then show ?thesis unfolding compliance_run_def by (induction ops arbitrary: m) auto
qed

lemma has_valid_entry:
  "has_valid_certification m a s \<longleftrightarrow> list_ex (cert_accepted m s) (hm_entry [] (cm_certifications m) a)"
  by (auto simp: has_valid_certification_def hm_entry_def split: option.split)

lemma cert_accepted_cong:
  "cm_config m' = cm_config m \<Longrightarrow> cm_current_time m' = cm_current_time m \<Longrightarrow> cert_accepted m' s c = cert_accepted m s c"
  by (simp add: cert_accepted_def)

text \<open>The guards of \<open>add_certification\<close> but for the limit, which is never reached.\<close>

definition cert_admissible :: "compliance_module \<Rightarrow> certification \<Rightarrow> bool" where
  "cert_admissible m c \<longleftrightarrow>
     (cc_trusted_issuers (cm_config m) = [] \<or> ce_issuer c \<in> set (cc_trusted_issuers (cm_config m)))
     \<and> cm_current_time m < ce_expires_at c \<and> min_certification_level (ce_standard c) \<le> ce_level c"

lemma add_certification_behaviour:
  assumes inv: "certs_inv m"
  shows "is_ok (snd (add_certification now c m)) \<longleftrightarrow> cert_admissible m c"
    and "\<not> cert_admissible m c \<Longrightarrow> fst (add_certification now c m) = m"
    and "cert_admissible m c \<Longrightarrow> has_valid_certification (fst (add_certification now c m)) a s \<longleftrightarrow>
      (if a = ce_entity_address c \<and> s = ce_standard c then \<not> ce_revoked c else has_valid_certification m a s)"
proof -
  let ?m' = "fst (add_certification now c m)"
  have len: "length (hm_entry [] (cm_certifications m) (ce_entity_address c)) < 32"
    using distinct_standards_short [OF certs_inv_entry [OF inv], of "ce_entity_address c"] by simp
  note unf = add_certification_def cert_admissible_def Let_def not_less not_le MAX_CERTIFICATIONS_PER_ENTITY_def
  show "is_ok (snd (add_certification now c m)) \<longleftrightarrow> cert_admissible m c" using len by (auto simp: unf)
  show "?m' = m" if "\<not> cert_admissible m c" using that len by (auto simp: unf)
  assume ok: "cert_admissible m c"
  then have e: "hm_entry [] (cm_certifications ?m') a =
      (if a = ce_entity_address c
       then filter (\<lambda>d. ce_standard d \<noteq> ce_standard c) (hm_entry [] (cm_certifications m) a) @ [c]
       else hm_entry [] (cm_certifications m) a)"
    using len by (auto simp: unf hm_entry_def)
  have acc: "cert_accepted ?m' s = cert_accepted m s" by (simp add: fun_eq_iff cert_accepted_def)
  have "cert_accepted m s c \<longleftrightarrow> s = ce_standard c \<and> \<not> ce_revoked c"
    using ok by (auto simp: cert_accepted_def cert_is_valid_def in_grace_period_def cert_admissible_def)
  then show "has_valid_certification ?m' a s \<longleftrightarrow>
      (if a = ce_entity_address c \<and> s = ce_standard c then \<not> ce_revoked c else has_valid_certification m a s)"
    by (auto simp: has_valid_entry e acc list_ex_iff cert_accepted_def)
qed

lemma revoke_certification_behaviour:
  assumes inv: "certs_inv m"
    and ok: "revoke_certification now a s why m = (m', Ok ())"
  shows "has_valid_certification m' a' s' \<longleftrightarrow> (a', s') \<noteq> (a, s) \<and> has_valid_certification m a' s'"
    and "\<exists>certs c. hm_get (cm_certifications m') a = Some certs \<and> find (\<lambda>c. ce_standard c = s) certs = Some c \<and> ce_revoked c"
proof -
  let ?f = "\<lambda>c. c\<lparr>ce_revoked := True, ce_revocation_reason := Some why\<rparr>"
  obtain certs ds where certs: "hm_get (cm_certifications m) a = Some certs"
    and u: "update_first (\<lambda>c. ce_standard c = s) ?f certs = Some ds"
    and m': "cm_certifications m' = hm_insert a ds (cm_certifications m)"
    and same: "cm_config m' = cm_config m" "cm_current_time m' = cm_current_time m"
    using ok by (auto simp: revoke_certification_def Let_def split: option.splits)
  from u obtain us x vs where "certs = us @ x # vs" and ds: "ds = us @ ?f x # vs"
    and x: "ce_standard x = s" and us: "list_all (\<lambda>c. ce_standard c \<noteq> s) us"
    by (rule update_first_Some)
  with certs have cs: "hm_get (cm_certifications m) a = Some (us @ x # vs)" by simp
  have "distinct (map ce_standard (us @ x # vs))" using inv cs by (simp add: certs_inv_def del: map_append)
  then have "ce_standard x \<notin> ce_standard ` set vs" by simp
  then have vs: "list_all (\<lambda>c. ce_standard c \<noteq> s) vs" unfolding x list_all_iff by (metis imageI)
  have acc: "cert_accepted m' t = cert_accepted m t" for t by (simp add: fun_eq_iff cert_accepted_cong [OF same])
  have gone: "\<not> list_ex (cert_accepted m s) (us @ x\<lparr>ce_revoked := True, ce_revocation_reason := Some why\<rparr> # vs)"
    using us vs by (auto simp: list_ex_iff list_all_iff cert_accepted_def cert_is_valid_def in_grace_period_def)
  have others: "list_ex (cert_accepted m t) (us @ x\<lparr>ce_revoked := True, ce_revocation_reason := Some why\<rparr> # vs) \<longleftrightarrow>
      list_ex (cert_accepted m t) (us @ x # vs)" if "t \<noteq> s" for t
    using that x by (simp add: cert_accepted_def)
  show "has_valid_certification m' a' s' \<longleftrightarrow> (a', s') \<noteq> (a, s) \<and> has_valid_certification m a' s'"
    using gone others [of s'] cs by (cases "a' = a") (auto simp: has_valid_certification_def m' ds acc split: option.splits)
  show "\<exists>certs c. hm_get (cm_certifications m') a = Some certs \<and> find (\<lambda>c. ce_standard c = s) certs = Some c \<and> ce_revoked c"
    using us x by (auto simp: m' ds find_append find_None_all [THEN iffD2])
qed

text \<open>
  Certifications. In every reachable module an entity holds at most one certification per standard, so
  the limit of 32 per entity is never reached: \<open>add_certification\<close> succeeds exactly for a trusted issuer, an
  unexpired certificate and a sufficient level, and changes nothing otherwise. Afterwards the entity is
  certified for this standard unless the certificate came revoked, and nobody else's standing has changed;
  after a revocation the entity is no longer certified for the standard, and again nobody else's standing
  has changed.
\<close>

theorem certification_store:
  assumes "m = compliance_run sha ops (compliance_new config)"
  shows "(\<forall>a cs. get_certifications m a = Some cs \<longrightarrow> length cs \<le> 8) \<and>
    (is_ok (snd (add_certification now c m)) \<longleftrightarrow> cert_admissible m c) \<and>
    (\<not> cert_admissible m c \<longrightarrow> fst (add_certification now c m) = m) \<and>
    (cert_admissible m c \<longrightarrow> (\<forall>a s. has_valid_certification (fst (add_certification now c m)) a s \<longleftrightarrow>
      (if a = ce_entity_address c \<and> s = ce_standard c then \<not> ce_revoked c else has_valid_certification m a s))) \<and>
    (\<forall>m'. revoke_certification now b t why m = (m', Ok ()) \<longrightarrow> (\<forall>a s. has_valid_certification m' a s \<longleftrightarrow>
      (a, s) \<noteq> (b, t) \<and> has_valid_certification m a s))"
proof -
  have inv: "certs_inv m" using assms reachable_invs by simp
  then have "length cs \<le> 8" if "get_certifications m a = Some cs" for a cs
    using that by (auto simp: get_certifications_def certs_inv_def intro: distinct_standards_short)
  then show ?thesis
    using add_certification_behaviour [OF inv] revoke_certification_behaviour(1) [OF inv] by blast
qed

theorem certification_store_witness:
  "is_ok (snd (add_certification 0 (hipaa_cert (who 2)) demo_module)) \<and>
   has_valid_certification (fst (add_certification 0 (hipaa_cert (who 2)) demo_module)) (who 2) HipaaUs \<and>
   \<not> has_valid_certification (fst (revoke_certification 0 (who 1) HipaaUs ''audit'' demo_module)) (who 1) HipaaUs"
proof -
  have adm: "cert_admissible demo_module (hipaa_cert (who 2))"
    by (simp add: cert_admissible_def hipaa_cert_def compliance_config_mainnet_def min_certification_level_def)
  obtain m' where r: "revoke_certification 0 (who 1) HipaaUs ''audit'' demo_module = (m', Ok ())"
    by (simp add: revoke_certification_def hipaa_cert_def Let_def run_simps)
  have "ce_entity_address (hipaa_cert (who 2)) = who 2" "ce_standard (hipaa_cert (who 2)) = HipaaUs"
    "\<not> ce_revoked (hipaa_cert (who 2))" by (simp_all add: hipaa_cert_def)
  then show ?thesis
    using certification_store [of demo_module zero_sha _ compliance_config_mainnet 0 "hipaa_cert (who 2)" "who 1" HipaaUs "''audit''",
        OF demo_module_def] adm r by simp
qed

text \<open>
  A revoked certification clears its holder. \<open>enforce\<close> reports a requester without any certification,
  and one whose certification expired, but has no branch for a revoked one: right after a successful
  revocation the entity has no valid certification and still passes a check that asks for exactly this
  standard, while an entity that was never certified does not.
\<close>

theorem revoked_certification_passes:
  assumes "m = compliance_run sha ops (compliance_new config)"
    and "revoke_certification now a s why m = (m', Ok ())" and "requires_certification s"
    and "cc_enabled config" and "\<forall>d\<in>set (cc_default_standards config). \<not> requires_certification d"
    and "\<not> is_sanctioned sha m' a"
  shows "\<not> has_valid_certification m' a s \<and>
    (\<exists>m'' res. enforce sha now m' a None [s] None amount metadata = (m'', Ok res) \<and> ccr_passed res) \<and>
    (\<forall>b. get_certifications m' b = None \<longrightarrow>
      (\<exists>m'' res. enforce sha now m' b None [s] None amount metadata = (m'', Ok res) \<and> \<not> ccr_passed res))"
proof -
  have "certs_inv m" using assms(1) reachable_invs by simp
  note revoked = revoke_certification_behaviour [OF this assms(2)]
  have conf: "cm_config m' = config"
    using arg_cong [OF assms(2), of fst] run_config assms(1) by (metis compliance_new_fields(1) fst_conv revoke_certification_fields(1))
  have ju: "jurisdiction_of m' None = None" by (simp add: jurisdiction_of_def)
  have std: "set (all_standards m' [s] None) = set (cc_default_standards config) \<union> {s}"
    by (simp add: set_all_standards conf ju)
  have "requester_cleared m' a s" using revoked(2) by (auto simp: requester_cleared_def)
  then have "collect_violations sha m' a None (all_standards m' [s] None) None amount metadata = []"
    using assms(5,6) by (auto simp: collect_violations_def violations_none std ju)
  moreover have "collect_violations sha m' b None (all_standards m' [s] None) None amount metadata \<noteq> []"
    if "get_certifications m' b = None" for b
  proof -
    have "\<not> requester_cleared m' b s"
      using that by (auto simp: requester_cleared_def get_certifications_def has_valid_certification_def)
    then show ?thesis using assms(3) by (auto simp: collect_violations_def violations_none std)
  qed
  ultimately show ?thesis
    using revoked(1) [of a s] enforce_result [of m' sha now _ None "[s]" None amount metadata] assms(4) conf
    by (metis prod.collapse)
qed


theorem revoked_certification_passes_witness:
  "\<exists>m'. revoke_certification 0 (who 1) HipaaUs ''audit'' demo_module = (m', Ok ()) \<and>
     \<not> has_valid_certification m' (who 1) HipaaUs \<and>
     (\<exists>m'' res. enforce zero_sha 0 m' (who 1) None [HipaaUs] None 5 [] = (m'', Ok res) \<and> ccr_passed res)"
proof -
  obtain m' where r: "revoke_certification 0 (who 1) HipaaUs ''audit'' demo_module = (m', Ok ())"
    by (simp add: revoke_certification_def hipaa_cert_def Let_def run_simps)
  have same: "cm_sanctions_bloom m' = cm_sanctions_bloom demo_module"
    "cm_sanctioned_addresses m' = cm_sanctioned_addresses demo_module"
    using arg_cong [OF r, of fst] by (metis fst_conv revoke_certification_fields)+
  have "\<not> is_sanctioned zero_sha m' (who 1)"
    using demo_sanctioned [of "who 1"] by (simp add: is_sanctioned_def same split: if_splits)
  then show ?thesis
    using revoked_certification_passes [OF demo_module_def r, of 5 "[]"] r by (simp add: requires_certification_def)
qed

lemma revoke_consent_behaviour:
  assumes inv: "consents_inv m"
  shows "is_ok (snd (revoke_consent now s c m)) \<longleftrightarrow>
      (\<exists>cs. hm_get (cm_consents m) s = Some cs \<and> list_ex (active_consent c) cs)"
    and "is_ok (snd (revoke_consent now s c m)) \<Longrightarrow> \<not> has_consent (fst (revoke_consent now s c m)) s c p"
proof -
  let ?f = "\<lambda>c. c\<lparr>co_revoked := True, co_revoked_at := Some (cm_current_time m)\<rparr>"
  show "is_ok (snd (revoke_consent now s c m)) \<longleftrightarrow>
      (\<exists>cs. hm_get (cm_consents m) s = Some cs \<and> list_ex (active_consent c) cs)"
    by (auto simp: revoke_consent_def Let_def update_first_None list_ex_iff list_all_iff
        elim!: update_first_Some split: option.splits)
  assume "is_ok (snd (revoke_consent now s c m))"
  then obtain cs ds where cs: "hm_get (cm_consents m) s = Some cs"
    and u: "update_first (active_consent c) ?f cs = Some ds"
    and m': "cm_consents (fst (revoke_consent now s c m)) = hm_insert s ds (cm_consents m)"
    by (auto simp: revoke_consent_def Let_def split: option.splits)
  from u obtain us x vs where xs: "cs = us @ x # vs" "ds = us @ ?f x # vs" "active_consent c x"
    and us: "list_all (\<lambda>x. \<not> active_consent c x) us" by (rule update_first_Some)
  have "distinct (map co_data_controller (filter (\<lambda>c. \<not> co_revoked c) (us @ x # vs)))"
    using inv cs unfolding consents_inv_def xs(1) by blast
  then have "co_data_controller x \<notin> co_data_controller ` set (filter (\<lambda>c. \<not> co_revoked c) vs)"
    using xs(3) by (simp add: active_consent_def)
  then have "\<not> active_consent c y" if "y \<in> set vs" for y
    using that xs(3) by (simp add: active_consent_def image_iff) metis
  then have "\<not> (co_data_controller y = c \<and> consent_valid_for y p t)" if "y \<in> set ds" for y t
    using that us xs(2) by (auto simp: list_all_iff active_consent_def consent_valid_for_def)
  then show "\<not> has_consent (fst (revoke_consent now s c m)) s c p"
    by (auto simp: has_consent_def m' list_ex_iff)
qed

lemma merge_purposes_set: "set (merge_purposes new old) = set old \<union> set new"
  by (simp add: merge_purposes_def set_add_distinct [of old new] set_add_distinct)

lemma record_consent_grants:
  assumes "\<not> co_revoked c" and "\<forall>t. co_expires_at c = Some t \<longrightarrow> cm_current_time m < t" and "p \<in> set (co_purposes c)"
  shows "has_consent (fst (record_consent c m)) (co_data_subject c) (co_data_controller c) p"
proof -
  let ?cs = "hm_entry [] (cm_consents m) (co_data_subject c)"
  let ?f = "\<lambda>d. d\<lparr>co_purposes := merge_purposes (co_purposes c) (co_purposes d), co_given_at := co_given_at c,
      co_expires_at := co_expires_at c, co_proof := co_proof c\<rparr>"
  have m': "cm_consents (fst (record_consent c m)) = hm_insert (co_data_subject c)
      (case update_first (active_consent (co_data_controller c)) ?f ?cs of Some ds \<Rightarrow> ds | None \<Rightarrow> ?cs @ [c]) (cm_consents m)"
    "cm_current_time (fst (record_consent c m)) = cm_current_time m" by (simp_all add: record_consent_def Let_def)
  show ?thesis
  proof (cases "update_first (active_consent (co_data_controller c)) ?f ?cs")
    case None
    then show ?thesis
      using assms m' by (auto simp: has_consent_def consent_valid_for_def list_ex_iff split: option.splits)
  next
    case (Some ds)
    then obtain us x vs where "ds = us @ ?f x # vs" "active_consent (co_data_controller c) x" by (rule update_first_Some)
    then show ?thesis
      using assms m' Some
      by (auto simp: has_consent_def consent_valid_for_def list_ex_iff active_consent_def merge_purposes_set split: option.splits)
  qed
qed

text \<open>
  Consent. In every reachable module a recorded consent that is neither revoked nor expired is found for
  each of its purposes, also when it is merged into an older record; \<open>revoke_consent\<close> succeeds exactly when
  the data subject has an active consent for the controller, and then no consent of this subject for this
  controller is left, for any purpose: no second record survives the revocation.
\<close>

theorem consent_until_revoked:
  assumes "m = compliance_run sha ops (compliance_new config)"
  shows "(\<not> co_revoked c \<and> (\<forall>t. co_expires_at c = Some t \<longrightarrow> cm_current_time m < t) \<longrightarrow>
      (\<forall>p\<in>set (co_purposes c). has_consent (fst (record_consent c m)) (co_data_subject c) (co_data_controller c) p)) \<and>
    (is_ok (snd (revoke_consent now s ctl m)) \<longleftrightarrow>
      (\<exists>cs. hm_get (cm_consents m) s = Some cs \<and> list_ex (active_consent ctl) cs)) \<and>
    (is_ok (snd (revoke_consent now s ctl m)) \<longrightarrow> (\<forall>p. \<not> has_consent (fst (revoke_consent now s ctl m)) s ctl p))"
proof -
  have "consents_inv m" using assms reachable_invs by simp
  then show ?thesis using revoke_consent_behaviour record_consent_grants by blast
qed

definition demo_consent :: consent_record where
  "demo_consent = \<lparr>co_data_subject = who 2, co_data_controller = who 1, co_purposes = [''training''], co_given_at = 0,
     co_expires_at = None, co_revoked = False, co_revoked_at = None, co_proof = replicate 32 0\<rparr>"

theorem consent_until_revoked_witness:
  "has_consent (fst (record_consent demo_consent (compliance_new compliance_config_mainnet))) (who 2) (who 1) ''training'' \<and>
   \<not> is_ok (snd (revoke_consent 0 (who 2) (who 1) (compliance_new compliance_config_mainnet)))"
  using consent_until_revoked [of "compliance_new compliance_config_mainnet" zero_sha "[]" compliance_config_mainnet
      demo_consent 0 "who 2" "who 1"]
  by (simp add: compliance_run_def demo_consent_def hm_get_def)

section \<open>Decentralised identifiers\<close>

lemma split_on_not_nil [simp]: "split_on c s \<noteq> []"
  by (induction s) (auto split: list.splits)

lemma split_on_no_sep: "c \<notin> set s \<Longrightarrow> split_on c s = [s]"
  by (induction s) auto

lemma split_on_append: "c \<notin> set s \<Longrightarrow> split_on c (s @ c # t) = s # split_on c t"
  by (induction s) auto

lemma join_split [simp]: "intersperse_text [c] (split_on c s) = s"
proof (induction s)
  case (Cons x s)
  obtain p ps where "split_on c s = p # ps" by (cases "split_on c s") auto
  with Cons show ?case by (cases ps) auto
qed simp

lemma split_parts_no_sep: "p \<in> set (split_on c s) \<Longrightarrow> c \<notin> set p"
  by (induction s arbitrary: p) (auto split: list.splits if_splits)

text \<open>
  Identifiers. Parsing what \<open>to_string\<close> prints gives the identifier back exactly when its method has no
  colon (so always for the identifiers made from addresses), and whatever \<open>from_string\<close> accepts is printed
  as it was read.
\<close>

theorem did_round_trip:
  "(did_from_string (did_to_string d) = Some d \<longleftrightarrow> CHR '':'' \<notin> set (did_method d)) \<and>
   did_from_string (did_to_string (did_from_address a)) = Some (did_from_address a) \<and>
   (did_from_string s = Some d' \<longrightarrow> did_to_string d' = s)"
proof -
  have parts: "split_on CHR '':'' (did_to_string d) = ''did'' # split_on CHR '':'' (did_method d @ '':'' @ did_identifier d)" for d
    using split_on_append [of "CHR '':''" "''did''"] by (simp add: did_to_string_def)
  have rt: "did_from_string (did_to_string d) = Some d" if "CHR '':'' \<notin> set (did_method d)" for d
    using split_on_append [OF that, of "did_identifier d"]
    by (simp add: did_from_string_def parts Let_def) (simp add: Suc_le_eq)
  have sound: "did_to_string d' = s \<and> CHR '':'' \<notin> set (did_method d')" if read: "did_from_string s = Some d'" for s d'
  proof -
    obtain q qs where p: "split_on CHR '':'' s = ''did'' # q # qs" and "qs \<noteq> []"
      and d': "d' = \<lparr>did_method = q, did_identifier = intersperse_text '':'' qs\<rparr>"
      using read by (cases "split_on CHR '':'' s" rule: remdups_adj.cases) (auto simp: did_from_string_def Let_def Suc_le_eq split: if_splits)
    have "s = intersperse_text '':'' (''did'' # q # qs)" using join_split [of "CHR '':''" s] p by simp
    then have "did_to_string d' = s" using \<open>qs \<noteq> []\<close> by (cases qs) (auto simp: did_to_string_def d')
    moreover have "CHR '':'' \<notin> set q" using split_parts_no_sep [of q "CHR '':''" s] p by simp
    ultimately show ?thesis by (simp add: d')
  qed
  have "CHR '':'' \<notin> set (did_method (did_from_address a))" by (simp add: did_from_address_def)
  then show ?thesis using rt sound by blast
qed

theorem did_round_trip_witness:
  "did_to_string \<lparr>did_method = ''web'', did_identifier = ''a:b''\<rparr> = ''did:web:a:b''"
  using did_round_trip [of _ _ "''did:web:a:b''" "\<lparr>did_method = ''web'', did_identifier = ''a:b''\<rparr>"]
  by (simp add: did_from_string_def)

end
