(* ===== verification/Kernel_Properties.thy ===== *)
theory Kernel_Properties
  imports Kernel Bank_Runs Bank_Properties Staking_Properties Job_Properties Compliance_Properties
begin

text \<open>
  The kernel as a transition system over blocks and calls: what every run from genesis keeps
  (solvency, the range of the burn rate, the sanctions list), which calls never return, and what
  the genesis configurations give.
\<close>

section \<open>Runs of the kernel\<close>

inductive kernel_step :: "platform \<Rightarrow> system_kernel \<Rightarrow> system_kernel \<Rightarrow> bool" for pl where
  open_block: "kernel_step pl k (begin_block k ctx)"
| call: "execute pl now k c = Some (k', res) \<Longrightarrow> kernel_step pl k k'"
| close_block: "kernel_end_block k = (k', res') \<Longrightarrow> kernel_step pl k k'"

abbreviation kernel_run :: "platform \<Rightarrow> system_kernel \<Rightarrow> system_kernel \<Rightarrow> bool" where
  "kernel_run pl \<equiv> (kernel_step pl)\<^sup>*\<^sup>*"

section \<open>What a call does to the bank\<close>

lemma submit_job_bank:
  "submit_job pl r p ctx b = Some (r', b', res) \<Longrightarrow> bank_steps b b'"
  using bank_steps_ops(3) [OF bank_steps_refl, of b "sj_requester p" "sj_bid_amount p"]
  by (auto simp: submit_job_def Let_def split: if_splits prod.splits result.splits option.splits)

lemma pay_settlement_bank: "bank_steps b (fst (pay_settlement sm job prover proposer late b))"
  unfolding pay_settlement_def Let_def case_prod_beta
  by (intro bank_steps_try bank_steps_ops) (auto intro!: bank_steps_try bank_steps_ops)

lemma settle_job_bank: "settle_job r params job ctx sm b = (r', b', res) \<Longrightarrow> bank_steps b b'"
proof -
  have paid: "pay_settlement sm j p q l b = (b'', v) \<Longrightarrow> bank_steps b b''" for j p q l b'' v
    using pay_settlement_bank [of b sm j p q l] by simp
  show "settle_job r params job ctx sm b = (r', b', res) \<Longrightarrow> bank_steps b b'"
    by (auto simp: settle_job_def Let_def dest: paid split: prod.splits result.splits)
qed

lemma cancel_job_bank: "cancel_job r jid a ctx b = (r', b', res) \<Longrightarrow> bank_steps b b'"
proof -
  have paid: "try_then (unlock b a m) (\<lambda>b _. if fee > 0 then burn b a fee else (b, Ok ())) = (b'', v) \<Longrightarrow>
      bank_steps b b''" for a m fee b'' v
  proof -
    have "bank_steps b (fst (try_then (unlock b a m) (\<lambda>b _. if fee > 0 then burn b a fee else (b, Ok ()))))"
      by (auto intro!: bank_steps_try bank_steps_ops)
    then show "try_then (unlock b a m) (\<lambda>b _. if fee > 0 then burn b a fee else (b, Ok ())) = (b'', v) \<Longrightarrow>
      bank_steps b b''" by simp
  qed
  show "cancel_job r jid a ctx b = (r', b', res) \<Longrightarrow> bank_steps b b'"
    by (auto simp: cancel_job_def Let_def dest: paid split: if_splits prod.splits result.splits option.splits)
qed

lemma stake_bank: "stake sm a m ro b = (sm', b', res) \<Longrightarrow> bank_steps b b'"
  using bank_steps_ops(3) [OF bank_steps_refl, of b a m]
  by (auto simp: stake_def Let_def split: if_splits prod.splits result.splits)

lemma withdraw_bank: "withdraw sm a ctx b = (sm', b', res) \<Longrightarrow> bank_steps b b'"
proof -
  have "unlock b a m = (b'', v) \<Longrightarrow> bank_steps b b''" for m b'' v
    using bank_steps_ops(4) [OF bank_steps_refl, of b a m] by simp
  then show "withdraw sm a ctx b = (sm', b', res) \<Longrightarrow> bank_steps b b'"
    by (auto simp: withdraw_def Let_def split: if_splits prod.splits result.splits option.splits)
qed

text \<open>Under the kernel's lock a proof submission changes no staking state; a slash cannot complete.\<close>

lemma held_slash:
  "staking_slash sm HeldBySelf a rate why jail =
     (if get_staker sm a = None then Some (sm, HeldBySelf, Err (staker_not_found a)) else None)"
  by (auto simp: staking_slash_def get_staker_def Let_def split: option.splits)

lemma held_close:
  "slash_and_close (staking_slash sm HeldBySelf a rate why jail) r jid job st ev err b =
     (if get_staker sm a = None then Some (r, sm, HeldBySelf, b, Err (staker_not_found a)) else None)"
  by (simp add: slash_and_close_def held_slash)

lemmas slash_kinds = slash_for_sla_violation_def slash_for_invalid_proof_def

lemma held_submit_proof:
  assumes "submit_proof pl r params ctx sm HeldBySelf b = Some (r', sm', cell', b', res)"
  shows "sm' = sm \<and> bank_steps b b'"
  using assms settle_job_bank
  by (auto simp: submit_proof_def Let_def slash_kinds held_close
      split: option.splits if_splits prod.splits result.splits)

lemma execute_bank: "execute pl now k c = Some (k', res) \<Longrightarrow> bank_steps (sk_bank k) (sk_bank k')"
proof (cases c)
  case (SubmitJob p)
  then show "execute pl now k c = Some (k', res) \<Longrightarrow> bank_steps (sk_bank k) (sk_bank k')"
    by (auto simp: execute_def execute_submit_job_def check_compliance_def Let_def dest: submit_job_bank
        split: if_splits prod.splits result.splits option.splits)
next
  case (SubmitProof p)
  then show "execute pl now k c = Some (k', res) \<Longrightarrow> bank_steps (sk_bank k) (sk_bank k')"
    by (auto simp: execute_def Let_def dest: held_submit_proof split: option.splits)
next
  case (CancelJob i a)
  then show "execute pl now k c = Some (k', res) \<Longrightarrow> bank_steps (sk_bank k) (sk_bank k')"
    by (auto simp: execute_def Let_def dest: cancel_job_bank split: prod.splits)
next
  case (Stake a m ro)
  then show "execute pl now k c = Some (k', res) \<Longrightarrow> bank_steps (sk_bank k) (sk_bank k')"
    by (auto simp: execute_def Let_def dest: stake_bank split: prod.splits)
next
  case (WithdrawStake a)
  then show "execute pl now k c = Some (k', res) \<Longrightarrow> bank_steps (sk_bank k) (sk_bank k')"
    by (auto simp: execute_def Let_def dest: withdraw_bank split: prod.splits)
qed (auto simp: execute_def Let_def split: prod.splits)

section \<open>What a call does to the compliance module\<close>

text \<open>The operations a kernel call can reach; there is none that removes a sanction or moves the clock.\<close>

definition kernel_cop :: "compliance_op \<Rightarrow> bool" where
  "kernel_cop op \<longleftrightarrow> (case op of OpAddSanctioned a l \<Rightarrow> True | OpAddCertification c \<Rightarrow> True
     | OpRegisterBaa e a \<Rightarrow> True | OpEnforce r p req j amt md \<Rightarrow> True | _ \<Rightarrow> False)"

definition compliance_steps :: "(bytes \<Rightarrow> hash) \<Rightarrow> compliance_module \<Rightarrow> compliance_module \<Rightarrow> bool" where
  "compliance_steps sha m m' \<longleftrightarrow>
     (\<exists>ops. list_all (\<lambda>op. kernel_cop (snd op)) ops \<and> m' = compliance_run sha ops m)"

lemma compliance_steps_refl [simp, intro]: "compliance_steps sha m m"
  unfolding compliance_steps_def by (rule exI [of _ "[]"]) (simp add: compliance_run_def)

lemma compliance_steps_trans [trans]:
  "compliance_steps sha m m' \<Longrightarrow> compliance_steps sha m' m'' \<Longrightarrow> compliance_steps sha m m''"
  unfolding compliance_steps_def compliance_run_def by (metis fold_append comp_apply list_all_append)

lemma compliance_steps_op: "kernel_cop (snd op) \<Longrightarrow> compliance_steps sha m (compliance_exec sha op m)"
  unfolding compliance_steps_def by (rule exI [of _ "[op]"]) (simp add: compliance_run_def)

lemma compliance_steps_ops:
  "add_sanctioned_address sha now a l m = (m', res) \<Longrightarrow> compliance_steps sha m m'"
  "add_certification now c m = (m', res) \<Longrightarrow> compliance_steps sha m m'"
  "register_baa now e a m = (m', res) \<Longrightarrow> compliance_steps sha m m'"
  "enforce sha now m r p req j amt md = (m', res') \<Longrightarrow> compliance_steps sha m m'"
  using compliance_steps_op [of "(now, OpAddSanctioned a l)" sha m] compliance_steps_op [of "(now, OpAddCertification c)" sha m]
    compliance_steps_op [of "(now, OpRegisterBaa e a)" sha m] compliance_steps_op [of "(now, OpEnforce r p req j amt md)" sha m]
  by (simp_all add: kernel_cop_def)

lemma execute_compliance:
  assumes "execute pl now k c = Some (k', res)"
  shows "compliance_steps (pl_sha256 pl) (sk_compliance k) (sk_compliance k')"
proof (cases c)
  case (SubmitJob p)
  then show ?thesis using assms
    by (auto simp: execute_def execute_submit_job_def check_compliance_def Let_def dest: compliance_steps_ops
        split: if_splits prod.splits result.splits option.splits)
qed (use assms in \<open>auto simp: execute_def Let_def dest: compliance_steps_ops split: prod.splits option.splits\<close>)

text \<open>What every such operation keeps.\<close>

lemma kernel_cop_keeps:
  assumes "kernel_cop (snd op)"
  shows "cm_config (compliance_exec sha op m) = cm_config m"
    and "cm_current_time (compliance_exec sha op m) = cm_current_time m"
    and "cm_sanctioned_addresses m \<subseteq> cm_sanctioned_addresses (compliance_exec sha op m)"
  using assms
  by (cases "(sha, op, m)" rule: compliance_exec.cases; auto simp: kernel_cop_def add_sanctioned_address_def Let_def)+

lemma compliance_steps_keep:
  assumes "compliance_steps sha m m'"
  shows "cm_config m' = cm_config m" and "cm_current_time m' = cm_current_time m"
    and "cm_sanctioned_addresses m \<subseteq> cm_sanctioned_addresses m'"
proof -
  obtain ops where "list_all (\<lambda>op. kernel_cop (snd op)) ops" "m' = compliance_run sha ops m"
    using assms by (auto simp: compliance_steps_def)
  then have "cm_config m' = cm_config m \<and> cm_current_time m' = cm_current_time m \<and>
      cm_sanctioned_addresses m \<subseteq> cm_sanctioned_addresses m'"
    unfolding compliance_run_def
  proof (induction ops arbitrary: m)
    case (Cons op ops)
    then show ?case
      using kernel_cop_keeps [where op = op and sha = sha and m = m] by fastforce
  qed simp
  then show "cm_config m' = cm_config m" "cm_current_time m' = cm_current_time m"
    "cm_sanctioned_addresses m \<subseteq> cm_sanctioned_addresses m'" by auto
qed

text \<open>Every certification that was let in expires after the module's clock.\<close>

definition certs_current :: "compliance_module \<Rightarrow> bool" where
  "certs_current m \<longleftrightarrow> (\<forall>a cs. hm_get (cm_certifications m) a = Some cs \<longrightarrow>
     list_all (\<lambda>c. cm_current_time m < ce_expires_at c) cs)"

lemma certs_current_add: "certs_current m \<Longrightarrow> certs_current (fst (add_certification now c m))"
  by (auto simp: certs_current_def add_certification_def Let_def hm_entry_def list_all_iff split: option.splits)

lemma certs_current_steps:
  assumes "compliance_steps sha m m'" and "certs_current m"
  shows "certs_current m'"
proof -
  have step: "certs_current (compliance_exec sha op m)" if "certs_current m" "kernel_cop (snd op)" for op m
    using that certs_current_add
    by (cases "(sha, op, m)" rule: compliance_exec.cases)
      (auto simp: kernel_cop_def certs_current_def add_sanctioned_address_def Let_def)
  obtain ops where "list_all (\<lambda>op. kernel_cop (snd op)) ops" "m' = compliance_run sha ops m"
    using assms(1) by (auto simp: compliance_steps_def)
  then show ?thesis using assms(2) unfolding compliance_run_def
    by (induction ops arbitrary: m) (auto simp: step)
qed

section \<open>What a step does to the staking manager\<close>

text \<open>The burn rate is the base rate or the rate of some load.\<close>

definition rate_in_range :: "staking_manager \<Rightarrow> bool" where
  "rate_in_range sm \<longleftrightarrow> sc_base_burn_rate_bps (sm_config sm) \<le> sm_current_burn_rate_bps sm
     \<and> sm_current_burn_rate_bps sm \<le> sc_max_burn_rate_bps (sm_config sm) \<and> sm_network_utilization sm \<le> 100"

definition same_rate :: "staking_manager \<Rightarrow> staking_manager \<Rightarrow> bool" where
  "same_rate sm sm' \<longleftrightarrow> sm_config sm' = sm_config sm \<and> sm_current_burn_rate_bps sm' = sm_current_burn_rate_bps sm
     \<and> sm_network_utilization sm' = sm_network_utilization sm"

lemma same_rate_refl [simp]: "same_rate sm sm"
  by (simp add: same_rate_def)

lemma staking_same_rate:
  "stake sm a m ro b = (sm', b', res) \<Longrightarrow> same_rate sm sm'"
  "unstake sm a m ctx = (sm', res') \<Longrightarrow> same_rate sm sm'"
  "withdraw sm a ctx b = (sm', b', res'') \<Longrightarrow> same_rate sm sm'"
  by (auto simp: stake_def unstake_def withdraw_def Let_def same_rate_def emit_staking_def put_staker_def
      split: if_splits prod.splits result.splits option.splits)

lemma execute_same_rate:
  assumes "execute pl now k c = Some (k', res)"
  shows "same_rate (sk_staking k) (sk_staking k')"
proof (cases c)
  case (SubmitJob p)
  then show ?thesis using assms
    by (auto simp: execute_def execute_submit_job_def check_compliance_def Let_def
        split: if_splits prod.splits result.splits option.splits)
next
  case (SubmitProof p)
  then show ?thesis using assms by (auto simp: execute_def Let_def dest!: held_submit_proof split: option.splits)
qed (use assms in \<open>auto simp: execute_def Let_def dest: staking_same_rate split: prod.splits\<close>)

lemma burn_rate_for_range:
  assumes "staking_config_validate c = Ok ()"
  shows "sc_base_burn_rate_bps c \<le> burn_rate_for c u \<and> burn_rate_for c u \<le> sc_max_burn_rate_bps c"
proof -
  have ok: "config_ok c" using assms by (simp add: config_ok_def)
  show ?thesis
    unfolding word_le_nat_alt burn_rate_for_spec [OF ok]
    using rate_spec_bounds config_okD [OF ok] by (auto simp: word_le_nat_alt word_less_nat_alt)
qed

lemma update_utilization_fields:
  "sm_config (update_utilization sm u) = sm_config sm"
  "sm_current_burn_rate_bps (update_utilization sm u) = burn_rate_for (sm_config sm) u"
  "sm_network_utilization (update_utilization sm u) = min u 100"
  by (simp_all add: update_utilization_def Let_def emit_staking_def)

lemma end_block_rate:
  assumes "staking_config_validate (sm_config (sk_staking k)) = Ok ()" and "kernel_end_block k = (k', res)"
  shows "sm_config (sk_staking k') = sm_config (sk_staking k) \<and> rate_in_range (sk_staking k')"
proof -
  obtain sm evs where sm: "staking_end_block (sk_staking k) (sk_context k) = (sm, Ok evs)"
    by (cases "unjail_loop (sk_context k) (sm_stakers (sk_staking k))")
      (auto simp: staking_end_block_def Let_def staking_drain_events_def)
  have "sm_config sm = sm_config (sk_staking k)"
    using end_block_state [of "sk_staking k" "sk_context k"] sm by simp
  moreover have "sk_staking k' = update_utilization sm (block_utilization (sk_context k))"
    using assms(2) sm by (auto simp: kernel_end_block_def process_expired_jobs_def Let_def split: prod.splits)
  ultimately show ?thesis
    using burn_rate_for_range [OF assms(1)] by (simp add: rate_in_range_def update_utilization_fields)
qed

section \<open>Invariants of runs\<close>

lemma end_block_frame: "kernel_end_block k = (k', res) \<Longrightarrow> sk_bank k' = sk_bank k \<and> sk_compliance k' = sk_compliance k"
  by (auto simp: kernel_end_block_def Let_def split: prod.splits result.splits)

lemma run_bank_compliance:
  assumes "kernel_run pl k k'"
  shows "bank_steps (sk_bank k) (sk_bank k') \<and> compliance_steps (pl_sha256 pl) (sk_compliance k) (sk_compliance k')"
  using assms
proof (induction rule: rtranclp_induct)
  case (step k' k'')
  from step.hyps(2) have "bank_steps (sk_bank k') (sk_bank k'') \<and>
      compliance_steps (pl_sha256 pl) (sk_compliance k') (sk_compliance k'')"
    by (cases rule: kernel_step.cases)
      (auto simp: begin_block_def dest: execute_bank execute_compliance end_block_frame)
  with step.IH show ?case using bank_steps_trans compliance_steps_trans by blast
qed simp

lemma run_rate:
  assumes "kernel_run pl k k'" and "staking_config_validate (sm_config (sk_staking k)) = Ok ()" and "rate_in_range (sk_staking k)"
  shows "sm_config (sk_staking k') = sm_config (sk_staking k) \<and> rate_in_range (sk_staking k')"
  using assms(1)
proof (induction rule: rtranclp_induct)
  case base
  then show ?case using assms(3) by simp
next
  case (step k' k'')
  from step.hyps(2) show ?case
  proof (cases rule: kernel_step.cases)
    case (close_block res')
    then show ?thesis using end_block_rate [of k' k'' res'] step.IH assms(2) by simp
  qed (use step.IH in \<open>auto simp: begin_block_def same_rate_def rate_in_range_def dest!: execute_same_rate\<close>)
qed

lemma genesis_state:
  assumes "kernel_from_genesis g = Ok k"
  shows "bank_from_genesis (gc_allocations g) = Ok (sk_bank k)" "sk_staking k = staking_new (gc_staking_config g)"
    "sk_compliance k = compliance_new (gc_compliance_config g)" "sk_job_registry k = job_registry_new (gc_job_config g)"
  using assms by (auto simp: kernel_from_genesis_def split: result.splits)

lemma genesis_boots: "\<exists>k. kernel_from_genesis g = Ok k"
  by (simp add: kernel_from_genesis_def bank_from_genesis_def)

text \<open>
  C3. The chain is solvent. From any genesis that allocates at most the initial supply, whatever blocks and
  calls follow, in any order and including those that fail, no account has more locked than it owns,
  the balances never exceed the circulating supply, and circulating and burned tokens together never exceed
  the billion tokens of genesis: no system call creates tokens.
\<close>

theorem kernel_solvent:
  assumes "sum_list (map (\<lambda>al. unat (al_balance al)) (gc_allocations g)) \<le> 10 ^ 27"
    and "kernel_from_genesis g = Ok k0" and "kernel_run pl k0 k"
  shows "get_locked_balance (sk_bank k) a \<le> balance_of (sk_bank k) a \<and>
    bank_total (sk_bank k) \<le> unat (bk_total_supply (sk_bank k)) \<and>
    unat (bk_total_supply (sk_bank k)) + unat (bk_total_burned (sk_bank k)) \<le> 10 ^ 27 \<and>
    bk_total_burned (sk_bank k0) \<le> bk_total_burned (sk_bank k)"
proof -
  from genesis_inv [OF assms(1)] genesis_state(1) [OF assms(2)]
  have "bank_inv (sk_bank k0)" "issued (sk_bank k0) = 10 ^ 27" by auto
  with bank_steps_solvent [of "sk_bank k0" "sk_bank k"] run_bank_compliance [OF assms(3)]
  have "bank_inv (sk_bank k)" "issued (sk_bank k) \<le> 10 ^ 27" "burned (sk_bank k0) \<le> burned (sk_bank k)" by auto
  then show ?thesis
    by (simp add: bank_inv_def issued_def circulating_def burned_def word_le_nat_alt lck_def bal_def)
qed

theorem kernel_solvent_witness:
  "\<exists>k0 k. kernel_from_genesis genesis_mainnet = Ok k0 \<and>
     execute demo_platform 0 k0 (Stake TREASURY_ADDRESS 100000000000000000000 Delegator) = Some (k, Ok (StakedR TREASURY_ADDRESS 100000000000000000000)) \<and>
     bank_total (sk_bank k) \<le> unat (bk_total_supply (sk_bank k))"
proof -
  obtain k0 where k0: "kernel_from_genesis genesis_mainnet = Ok k0" using genesis_boots by blast
  have b: "sk_bank k0 = apply_allocations (gc_allocations genesis_mainnet) (bank_new bank_config_default)"
    using genesis_state(1) [OF k0] by (simp add: bank_from_genesis_def)
  have s0: "sk_staking k0 = staking_new staking_config_mainnet" using genesis_state(2) [OF k0] by (simp add: genesis_mainnet_def)
  obtain k where k: "execute demo_platform 0 k0 (Stake TREASURY_ADDRESS 100000000000000000000 Delegator) =
      Some (k, Ok (StakedR TREASURY_ADDRESS 100000000000000000000))"
    by (simp add: execute_def stake_def Let_def s0 staking_new_def staking_config_mainnet_def b genesis_mainnet_def run_simps)
  then have "kernel_run demo_platform k0 k" by (auto intro: kernel_step.call)
  from kernel_solvent [OF _ k0 this] k0 k show ?thesis by (simp add: genesis_mainnet_def)
qed

lemma block_utilization_le:
  assumes "ctx_gas_used ctx \<le> ctx_gas_limit ctx" and "0 < ctx_gas_limit ctx" and "unat (ctx_gas_limit ctx) < 2 ^ 52"
  shows "block_utilization ctx \<le> 100"
proof -
  let ?u = "unat (ctx_gas_used ctx)" and ?l = "unat (ctx_gas_limit ctx)"
  have ul: "?u \<le> ?l" "0 < ?l" using assms by (simp_all add: word_le_nat_alt word_less_nat_alt)
  have e: "u64_as_f64 (ctx_gas_used ctx) = Fin (of_nat ?u)" "u64_as_f64 (ctx_gas_limit ctx) = Fin (of_nat ?l)"
    unfolding u64_as_f64_def using ul assms(3) by (subst f64_round_nat_exact; simp)+
  have h: "f64_lit 100 = Fin 100" using f64_round_nat_exact [of 100] by (simp add: f64_lit_def)
  have nz: "(of_nat ?l :: rat) \<noteq> 0" using ul by (simp only: of_nat_eq_0_iff)
  let ?q = "f64_round (of_nat ?u / of_nat ?l :: rat)"
  have "?q \<le> 1"
  proof -
    have "(of_nat ?u :: rat) \<le> of_nat ?l" "0 < (of_nat ?l :: rat)" using ul by (simp_all only: of_nat_le_iff of_nat_0_less_iff)
    then have "of_nat ?u / of_nat ?l \<le> (of_nat 1 :: rat)" by simp
    from f64_round_le_nat [OF this] show ?thesis by simp
  qed
  then have "f64_round (?q * 100) \<le> 100" using f64_round_le_nat [of "?q * 100" 100] by simp
  then have "nat \<lfloor>f64_round (?q * 100)\<rfloor> \<le> 100" by (simp add: nat_le_iff floor_le_iff)
  moreover have "block_utilization ctx = f64_as_word (Fin (f64_round (?q * 100)))"
    using nz by (simp add: block_utilization_def e h f64_round_nonneg)
  ultimately have "unat (block_utilization ctx) \<le> 100" using unat_f64_as_word [where 'a = 8, of "f64_round (?q * 100)"] by simp
  then show ?thesis by (simp add: word_le_nat_alt)
qed

lemma block_utilization_zero:
  assumes "ctx_gas_limit ctx = 0"
  shows "block_utilization ctx = (if ctx_gas_used ctx = 0 then 0 else 255)"
proof -
  have "f64_round (of_nat (unat (ctx_gas_used ctx))) = 0 \<longleftrightarrow> ctx_gas_used ctx = 0"
  proof
    assume "f64_round (of_nat (unat (ctx_gas_used ctx))) = 0"
    show "ctx_gas_used ctx = 0"
    proof (rule ccontr)
      assume "ctx_gas_used ctx \<noteq> 0"
      then have "0 < (of_nat (unat (ctx_gas_used ctx)) :: rat)" by (simp add: unat_gt_0 del: of_nat_unat)
      then show False using f64_round_pos \<open>f64_round (of_nat (unat (ctx_gas_used ctx))) = 0\<close> by force
    qed
  qed (simp add: f64_round_def)
  moreover have "f64_lit 100 = Fin 100" using f64_round_nat_exact [of 100] by (simp add: f64_lit_def)
  moreover have "u64_as_f64 (ctx_gas_limit ctx) = Fin 0" by (simp add: u64_as_f64_def assms f64_round_def)
  ultimately show ?thesis
    using f64_round_nonneg [of "of_nat (unat (ctx_gas_used ctx))"]
    by (auto simp: block_utilization_def u64_as_f64_def max_val_def signed_inf_def)
qed

lemma genesis_mainnet_valid: "genesis_validate genesis_mainnet = Ok ()"
  by (simp add: genesis_validate_def genesis_mainnet_def job_config_validate_def job_config_mainnet_def
      staking_config_validate_def staking_config_mainnet_def compliance_config_validate_def compliance_config_mainnet_def)

text \<open>
  Load and burn rate. After a block that stayed within a gas limit below \<open>2^52\<close>, the load that the
  kernel computes in floating point is a percentage; a block with gas limit 0 counts as empty or as
  overloaded. In every state reachable from a validated genesis the burn rate lies between the configured
  base and maximum, so the fee split of every settlement pays out exactly the fee.
\<close>

theorem load_and_burn_rate_bounded:
  assumes "genesis_validate g = Ok ()" and "sc_max_burn_rate_bps (gc_staking_config g) \<le> 3000"
    and "kernel_from_genesis g = Ok k0" and "kernel_run pl k0 k"
  shows "(ctx_gas_used ctx \<le> ctx_gas_limit ctx \<and> 0 < ctx_gas_limit ctx \<and> unat (ctx_gas_limit ctx) < 2 ^ 52 \<longrightarrow>
      block_utilization ctx \<le> 100) \<and>
    (ctx_gas_limit ctx = 0 \<longrightarrow> block_utilization ctx = (if ctx_gas_used ctx = 0 then 0 else 255)) \<and>
    sm_network_utilization (sk_staking k) \<le> 100 \<and>
    sc_base_burn_rate_bps (gc_staking_config g) \<le> sm_current_burn_rate_bps (sk_staking k) \<and>
    sm_current_burn_rate_bps (sk_staking k) \<le> sc_max_burn_rate_bps (gc_staking_config g) \<and>
    (\<forall>fee p v z. unat fee * 3000 < 2 ^ 128 \<longrightarrow> calculate_fee_split (sk_staking k) fee = (p, v, z) \<longrightarrow>
      unat p + unat v + unat z = unat fee)"
proof -
  have ok: "staking_config_validate (gc_staking_config g) = Ok ()"
    using assms(1) by (auto simp: genesis_validate_def split: if_splits result.splits)
  have "rate_in_range (staking_new (gc_staking_config g))"
    using config_okD(1) [of "gc_staking_config g"] ok by (simp add: rate_in_range_def staking_new_def config_ok_def)
  with run_rate [OF assms(4)] ok genesis_state(2) [OF assms(3)]
  have r: "sm_config (sk_staking k) = gc_staking_config g" "rate_in_range (sk_staking k)"
    by (auto simp: staking_new_def)
  then have "sm_current_burn_rate_bps (sk_staking k) \<le> 3000" using assms(2) by (auto simp: rate_in_range_def)
  then have "unat (sm_current_burn_rate_bps (sk_staking k)) \<le> 3000" by (simp add: word_le_nat_alt)
  note split = fee_split_exact [OF _ this]
  show ?thesis
    using r block_utilization_le [of ctx] block_utilization_zero [of ctx] split by (auto simp: rate_in_range_def)
qed

theorem load_and_burn_rate_bounded_witness:
  "\<exists>k. kernel_from_genesis genesis_mainnet = Ok k \<and> block_utilization block_context_default \<le> 100 \<and>
     sm_current_burn_rate_bps (sk_staking k) \<le> 1500"
proof -
  obtain k where k: "kernel_from_genesis genesis_mainnet = Ok k" using genesis_boots by blast
  show ?thesis
    using load_and_burn_rate_bounded [OF genesis_mainnet_valid _ k rtranclp.rtrancl_refl, of block_context_default] k
    by (simp add: genesis_mainnet_def staking_config_mainnet_def block_context_default_def)
qed

text \<open>
  C38. Once sanctioned, always kept out. After an address was put on the list by a system call, and whatever
  blocks and calls follow, a job that this address submits, or that names it as data provider, is
  refused by the compliance check, and the refusal leaves registry, bank and staking as they are. The chain
  must run with compliance and sanctions screening on, as mainnet does.
\<close>

theorem sanctioned_never_submits:
  assumes "kernel_from_genesis g = Ok k0" and "kernel_run pl k0 k1"
    and "cc_enabled (gc_compliance_config g)" and "cc_enforce_sanctions (gc_compliance_config g)"
    and "execute pl now1 k1 (AddSanctionedAddress a list_name) = Some (k2, res)" and "kernel_run pl k2 k3"
    and "sj_requester params = a \<or> sj_data_provider params = Some a"
  shows "\<exists>k4 why. execute pl now k3 (SubmitJob params) = Some (k4, Err (sys_error.Compliance why)) \<and>
    sk_job_registry k4 = sk_job_registry k3 \<and> sk_bank k4 = sk_bank k3 \<and> sk_staking k4 = sk_staking k3"
proof -
  let ?sha = "pl_sha256 pl"
  have c2: "sk_compliance k2 = fst (add_sanctioned_address ?sha now1 a list_name (sk_compliance k1))"
    using assms(5) by (auto simp: execute_def Let_def split: prod.splits)
  have 02: "compliance_steps ?sha (sk_compliance k0) (sk_compliance k2)"
    using run_bank_compliance [OF assms(2)] execute_compliance [OF assms(5)] compliance_steps_trans by blast
  have 23: "compliance_steps ?sha (sk_compliance k2) (sk_compliance k3)" using run_bank_compliance [OF assms(6)] by blast
  have 03: "compliance_steps ?sha (sk_compliance k0) (sk_compliance k3)" by (rule compliance_steps_trans [OF 02 23])
  have conf: "cm_config (sk_compliance k3) = gc_compliance_config g"
    using compliance_steps_keep(1) [OF 03] genesis_state(3) [OF assms(1)] by simp
  have "screening_inv ?sha (sk_compliance k3)"
    using 03 genesis_state(3) [OF assms(1)] screening_inv_run [OF screening_inv_new] by (auto simp: compliance_steps_def)
  moreover have "a \<in> cm_sanctioned_addresses (sk_compliance k3)"
    using compliance_steps_keep(3) [OF 23] c2 by (auto simp: add_sanctioned_address_def Let_def)
  ultimately have "is_sanctioned ?sha (sk_compliance k3) a" by (simp add: is_sanctioned_iff)
  then have "is_sanctioned ?sha (sk_compliance k3) (sj_requester params) \<or>
      (\<exists>p. sj_data_provider params = Some p \<and> is_sanctioned ?sha (sk_compliance k3) p)" using assms(7) by auto
  from enforce_blocks_sanctioned [OF _ _ this] conf assms(3,4)
  obtain m' res' where "enforce ?sha now (sk_compliance k3) (sj_requester params) (sj_data_provider params)
      (map from_requirement (sj_required_compliance params)) (sj_jurisdiction params) (sj_max_bid params) [] = (m', Ok res')"
    "\<not> ccr_passed res'" by metis
  then show ?thesis by (simp add: execute_def execute_submit_job_def check_compliance_def)
qed

theorem sanctioned_never_submits_witness:
  "\<exists>k0 k1 res k2 why. kernel_from_genesis genesis_mainnet = Ok k0 \<and>
     execute demo_platform 0 k0 (AddSanctionedAddress (addr 1) ''OFAC SDN'') = Some (k1, res) \<and>
     execute demo_platform 0 k1 (SubmitJob demo_params) = Some (k2, Err (sys_error.Compliance why))"
proof -
  obtain k0 where k0: "kernel_from_genesis genesis_mainnet = Ok k0" using genesis_boots by blast
  obtain k1 res where k1: "execute demo_platform 0 k0 (AddSanctionedAddress (addr 1) ''OFAC SDN'') = Some (k1, res)"
    by (simp add: execute_def Let_def add_sanctioned_address_def)
  show ?thesis
    using sanctioned_never_submits [OF k0 rtranclp.rtrancl_refl _ _ k1 rtranclp.rtrancl_refl, of demo_params 0] k0 k1
    by (simp add: genesis_mainnet_def demo_params_def) blast
qed

text \<open>
  The compliance clock stands still. No block hook and no call moves the clock of the compliance module: it
  reads 0 in every state of every run, whatever the timestamps of the blocks. So every certification that
  was ever accepted stays valid for ever unless it came revoked, long after its expiry date.
\<close>

theorem certifications_never_expire:
  assumes "kernel_from_genesis g = Ok k0" and "kernel_run pl k0 k"
  shows "cm_current_time (sk_compliance k) = 0 \<and>
    (\<forall>a cs c. get_certifications (sk_compliance k) a = Some cs \<longrightarrow> c \<in> set cs \<longrightarrow> \<not> ce_revoked c \<longrightarrow>
      has_valid_certification (sk_compliance k) a (ce_standard c))"
proof -
  have steps: "compliance_steps (pl_sha256 pl) (sk_compliance k0) (sk_compliance k)"
    using run_bank_compliance [OF assms(2)] by blast
  have "certs_current (sk_compliance k0)" by (simp add: genesis_state [OF assms(1)] certs_current_def hm_get_def)
  then have "certs_current (sk_compliance k)" by (rule certs_current_steps [OF steps])
  moreover have "cm_current_time (sk_compliance k) = 0"
    using compliance_steps_keep(2) [OF steps] by (simp add: genesis_state [OF assms(1)])
  ultimately show ?thesis
    by (auto simp: certs_current_def get_certifications_def has_valid_certification_def list_ex_iff list_all_iff
        cert_accepted_def cert_is_valid_def)
qed

theorem certifications_never_expire_witness:
  "\<exists>k0 k res. kernel_from_genesis genesis_mainnet = Ok k0 \<and>
     execute demo_platform 0 (begin_block k0 (at_time 5000)) (AddCertification (hipaa_cert (who 1))) = Some (k, res) \<and>
     ce_expires_at (hipaa_cert (who 1)) = 1000 \<and> has_valid_certification (sk_compliance k) (who 1) HipaaUs"
proof -
  obtain k0 where k0: "kernel_from_genesis genesis_mainnet = Ok k0" using genesis_boots by blast
  let ?b = "begin_block k0 (at_time 5000)"
  have c0: "sk_compliance ?b = compliance_new compliance_config_mainnet"
    using genesis_state(3) [OF k0] by (simp add: begin_block_def genesis_mainnet_def)
  obtain k res where k: "execute demo_platform 0 ?b (AddCertification (hipaa_cert (who 1))) = Some (k, res)"
    by (cases "add_certification 0 (hipaa_cert (who 1)) (sk_compliance ?b)") (simp add: execute_def)
  have "sk_compliance k = fst (add_certification 0 (hipaa_cert (who 1)) (compliance_new compliance_config_mainnet))"
    using k by (auto simp: execute_def Let_def c0 split: prod.splits)
  then have "get_certifications (sk_compliance k) (who 1) = Some [hipaa_cert (who 1)]"
    by (simp add: get_certifications_def add_certification_def Let_def hipaa_cert_def compliance_config_mainnet_def
        min_certification_level_def MAX_CERTIFICATIONS_PER_ENTITY_def run_simps)
  moreover have "kernel_run demo_platform k0 k"
    using kernel_step.open_block [of demo_platform k0 "at_time 5000"] kernel_step.call [OF k] by auto
  moreover have c: "ce_standard (hipaa_cert (who 1)) = HipaaUs" "\<not> ce_revoked (hipaa_cert (who 1))"
    "ce_expires_at (hipaa_cert (who 1)) = 1000" by (simp_all add: hipaa_cert_def)
  ultimately have "has_valid_certification (sk_compliance k) (who 1) HipaaUs"
    using certifications_never_expire [OF k0, of demo_platform k] by (metis list.set_intros(1))
  with k0 k c show ?thesis by blast
qed

section \<open>Calls that do not return\<close>

text \<open>The proof submissions that slash a staked prover, inside the kernel's lock on the bank.\<close>

definition deadlocks :: "platform \<Rightarrow> system_kernel \<Rightarrow> submit_proof_params \<Rightarrow> bool" where
  "deadlocks pl k p \<longleftrightarrow> (\<exists>job. get_job (sk_job_registry k) (sb_job_id p) = Some job \<and>
     js_assigned_prover job = Some (sb_prover p) \<and> get_staker (sk_staking k) (sb_prover p) \<noteq> None \<and>
     (sla_is_expired (js_sla job) (ctx_timestamp (sk_context k)) \<or>
      proof_precheck (sk_job_registry k) (sb_proof p) job = None \<and>
      snd (verify_proof pl (sk_job_registry k) (sb_proof p) job) = Ok False))"

lemma submit_job_returns:
  assumes "job_config_validate (jr_config r) = Ok ()"
  shows "submit_job pl r p ctx b \<noteq> None"
proof -
  have "jc_min_sla_timeout (jr_config r) \<le> jc_max_sla_timeout (jr_config r)"
    using assms by (auto simp: job_config_validate_def not_less split: if_splits)
  then have new: "(job_state_new jid p (jr_config r) t = None) = False" for jid t
    by (auto simp: job_state_new_def sla_policy_new_def base_timeout_def clamp_def Let_def)
  show ?thesis by (auto simp: submit_job_def Let_def new split: if_splits prod.splits result.splits option.splits)
qed

lemma submit_proof_returns:
  "submit_proof pl (sk_job_registry k) p (sk_context k) (sk_staking k) HeldBySelf b = None \<longleftrightarrow> deadlocks pl k p"
  by (auto simp: submit_proof_def Let_def deadlocks_def get_job_def slash_kinds held_close
      split: option.splits if_splits prod.splits result.splits)

text \<open>
  Which calls return. With a validated job configuration every system call returns, except that a proof
  submission never does exactly when it has to slash a prover with a stake record: when the assigned
  prover is later than the grace period, or its proof verifies to false. The kernel holds the write lock of
  the bank while the staking manager waits for the same lock.
\<close>

theorem call_blocks_iff:
  assumes "job_config_validate (jr_config (sk_job_registry k)) = Ok ()"
  shows "execute pl now k c = None \<longleftrightarrow> (\<exists>p. c = SubmitProof p \<and> deadlocks pl k p)"
proof (cases c)
  case (SubmitJob p)
  then show ?thesis using submit_job_returns [OF assms, of pl p "sk_context k" "sk_bank k"]
    by (auto simp: execute_def execute_submit_job_def check_compliance_def Let_def
        split: prod.splits result.splits option.splits if_splits)
next
  case (SubmitProof p)
  then show ?thesis using submit_proof_returns [of pl k p "sk_bank k"] by (auto simp: execute_def Let_def split: option.splits)
qed (auto simp: execute_def Let_def split: prod.splits)

text \<open>A kernel with one assigned job whose prover has a stake record, long after the deadline.\<close>

definition stuck_kernel :: system_kernel where
  "stuck_kernel = \<lparr>sk_job_registry = demo_assigned,
     sk_staking = put_staker (addr 2) (stake_info_new (addr 2) ComputeNode 0 0) demo_staking,
     sk_compliance = compliance_new compliance_config_mainnet, sk_bank = snd demo_submitted,
     sk_context = at_time 1000000\<rparr>"

theorem call_blocks_iff_witness:
  "execute demo_platform 0 stuck_kernel (SubmitProof demo_proof) = None \<and>
   execute demo_platform 0 stuck_kernel (Unstake (addr 2) 1) \<noteq> None"
proof -
  have conf: "job_config_validate (jr_config (sk_job_registry stuck_kernel)) = Ok ()"
    using demo_assign by (simp add: stuck_kernel_def job_config_validate_def job_config_mainnet_def)
  have "deadlocks demo_platform stuck_kernel demo_proof"
    using demo_assign
    by (simp add: deadlocks_def stuck_kernel_def get_job_def run_simps demo_proof_def demo_assigned_job_def demo_job_def
        get_staker_def put_staker_def sla_is_expired_def)
  then show ?thesis
    using call_blocks_iff [OF conf, of demo_platform 0 "SubmitProof demo_proof"]
      call_blocks_iff [OF conf, of demo_platform 0 "Unstake (addr 2) 1"] by auto
qed

section \<open>The genesis configurations\<close>

lemma stake_needs_balance:
  assumes "stake sm a m role b = (sm', b', Ok u)" and "bank_inv b"
  shows "unat (role_min_stake (sm_config sm) role) \<le> bank_total b"
proof -
  obtain b'' where "lock b a m = (b'', Ok ())" and "role_min_stake (sm_config sm) role \<le> m"
    using assms(1) by (auto simp: stake_def Let_def not_less split: if_splits prod.splits result.splits)
  then show ?thesis
    using lock_ok(1) [OF assms(2), of a m b''] bal_le_total [of b a] by (simp add: word_le_nat_alt)
qed

text \<open>
  The shipped genesis configurations are valid and start, and mainnet cannot grow out of its allocation:
  the treasury gets \<open>200 * 10^18\<close> base units, which at 18 decimals is 200 tokens and not the 200 million of the
  comment, no call creates tokens, and one validator needs 100000 tokens and one compute node 5000. In every
  state reachable from the mainnet genesis each attempt to register either fails.
\<close>

theorem mainnet_cannot_bootstrap:
  "genesis_validate genesis_mainnet = Ok () \<and> genesis_validate genesis_testnet = Ok () \<and>
   genesis_validate genesis_devnet = Ok () \<and>
   (\<exists>k0. kernel_from_genesis genesis_mainnet = Ok k0 \<and>
      unat (balance_of (sk_bank k0) TREASURY_ADDRESS) = 200 * 10 ^ unat (bc_decimals (bk_config (sk_bank k0))) \<and>
      (\<forall>pl k now a amount role. kernel_run pl k0 k \<longrightarrow> role \<noteq> Delegator \<longrightarrow>
         (\<exists>k' e. execute pl now k (Stake a amount role) = Some (k', Err e))))"
proof -
  obtain k0 where k0: "kernel_from_genesis genesis_mainnet = Ok k0" using genesis_boots by blast
  have b: "sk_bank k0 = apply_allocations (gc_allocations genesis_mainnet) (bank_new bank_config_default)"
    using genesis_state(1) [OF k0] by (simp add: bank_from_genesis_def)
  have tot: "bank_total (sk_bank k0) = 200 * 10 ^ 18"
    by (simp add: b genesis_mainnet_def bank_total_def hm_sum_def run_simps)
  have inv: "bank_inv (sk_bank k0)"
    using genesis_inv [of "gc_allocations genesis_mainnet"] genesis_state(1) [OF k0] by (auto simp: genesis_mainnet_def)
  have "\<exists>k' e. execute pl now k (Stake a amount role) = Some (k', Err e)"
    if run: "kernel_run pl k0 k" and role: "role \<noteq> Delegator" for pl k now a amount role
  proof -
    obtain sm b' res where st: "stake (sk_staking k) a amount role (sk_bank k) = (sm, b', res)"
      by (cases "stake (sk_staking k) a amount role (sk_bank k)")
    have bk: "bank_inv (sk_bank k)" "bank_total (sk_bank k) \<le> 200 * 10 ^ 18"
      using bank_steps_solvent [OF _ inv] run_bank_compliance [OF run] tot by auto
    have "sm_config (sk_staking k) = staking_config_mainnet"
      using run_rate [OF run] config_okD(1) [of staking_config_mainnet] genesis_state(2) [OF k0] genesis_mainnet_valid
      by (auto simp: genesis_mainnet_def staking_new_def rate_in_range_def genesis_validate_def config_ok_def
          split: if_splits result.splits)
    then have "\<not> unat (role_min_stake (sm_config (sk_staking k)) role) \<le> bank_total (sk_bank k)"
      using bk(2) role by (cases role) (simp_all add: staking_config_mainnet_def)
    then have "\<exists>e. res = Err e" using stake_needs_balance [OF _ bk(1)] st by (cases res) auto
    then show ?thesis using st by (auto simp: execute_def)
  qed
  moreover have "unat (balance_of (sk_bank k0) TREASURY_ADDRESS) = 200 * 10 ^ unat (bc_decimals (bk_config (sk_bank k0)))"
    by (simp add: b genesis_mainnet_def run_simps)
  moreover have "genesis_validate genesis_testnet = Ok ()" "genesis_validate genesis_devnet = Ok ()"
    by (simp_all add: genesis_validate_def genesis_testnet_def genesis_devnet_def job_config_validate_def job_config_testnet_def
      job_config_devnet_def staking_config_validate_def staking_config_testnet_def staking_config_devnet_def
      compliance_config_validate_def compliance_config_testnet_def compliance_config_devnet_def)
  ultimately show ?thesis using k0 genesis_mainnet_valid by blast
qed

theorem mainnet_cannot_bootstrap_witness:
  "\<exists>k0 k' e. kernel_from_genesis genesis_mainnet = Ok k0 \<and>
     execute demo_platform 0 k0 (Stake TREASURY_ADDRESS 200000000000000000000 Validator) = Some (k', Err e)"
  using mainnet_cannot_bootstrap by (meson rtranclp.rtrancl_refl stake_role.distinct(3))

end
