(* ===== verification/Tokenomics.thy ===== *)
theory Tokenomics
  imports Errors Events
begin

text \<open>
  \<open>src/crates/vm/src/system_contracts/tokenomics.rs\<close>: the allocation pools, vesting schedules and
  positions, the adaptive burn engine, the emission calculator and the manager that owns them.
  A \<open>Duration\<close> is its number of seconds. A division by zero panics in Rust: the operations that can
  perform one return an \<open>option\<close>, \<open>None\<close> for the panic.
\<close>

section \<open>Pools\<close>

definition ONE_AETHEL :: token_amount where
  "ONE_AETHEL = 1000000000000000000"

definition TOTAL_GENESIS_SUPPLY :: token_amount where
  "TOTAL_GENESIS_SUPPLY = 10000000000 * ONE_AETHEL"

definition COMPUTE_POUW_POOL :: token_amount where
  "COMPUTE_POUW_POOL = 3000000000 * ONE_AETHEL"

definition CORE_CONTRIBUTORS_POOL :: token_amount where
  "CORE_CONTRIBUTORS_POOL = 2000000000 * ONE_AETHEL"

definition ECOSYSTEM_GRANTS_POOL :: token_amount where
  "ECOSYSTEM_GRANTS_POOL = 1500000000 * ONE_AETHEL"

definition STRATEGIC_SEED_POOL :: token_amount where
  "STRATEGIC_SEED_POOL = 550000000 * ONE_AETHEL"

definition PUBLIC_SALES_POOL :: token_amount where
  "PUBLIC_SALES_POOL = 750000000 * ONE_AETHEL"

definition AIRDROP_SEALS_POOL :: token_amount where
  "AIRDROP_SEALS_POOL = 700000000 * ONE_AETHEL"

definition TREASURY_MM_POOL :: token_amount where
  "TREASURY_MM_POOL = 600000000 * ONE_AETHEL"

definition INSURANCE_FUND_POOL :: token_amount where
  "INSURANCE_FUND_POOL = 500000000 * ONE_AETHEL"

definition CONTINGENCY_RESERVE_POOL :: token_amount where
  "CONTINGENCY_RESERVE_POOL = 400000000 * ONE_AETHEL"

definition SECONDS_PER_YEAR :: u64 where
  "SECONDS_PER_YEAR = 365 * 24 * 60 * 60"

definition HALVING_INTERVAL_SECS :: u64 where
  "HALVING_INTERVAL_SECS = 4 * 365 * 24 * 60 * 60"

definition TOTAL_EMISSION_DURATION_SECS :: u64 where
  "TOTAL_EMISSION_DURATION_SECS = 50 * 365 * 24 * 60 * 60"

definition MIN_BURN_RATE_BPS :: u16 where
  "MIN_BURN_RATE_BPS = 500"

definition MAX_BURN_RATE_BPS :: u16 where
  "MAX_BURN_RATE_BPS = 2000"

fun total_allocation :: "allocation_category \<Rightarrow> token_amount" where
  "total_allocation ComputePoUW = COMPUTE_POUW_POOL"
| "total_allocation CoreContributors = CORE_CONTRIBUTORS_POOL"
| "total_allocation EcosystemGrants = ECOSYSTEM_GRANTS_POOL"
| "total_allocation StrategicSeed = STRATEGIC_SEED_POOL"
| "total_allocation PublicSales = PUBLIC_SALES_POOL"
| "total_allocation AirdropSeals = AIRDROP_SEALS_POOL"
| "total_allocation TreasuryMM = TREASURY_MM_POOL"
| "total_allocation InsuranceFund = INSURANCE_FUND_POOL"
| "total_allocation ContingencyReserve = CONTINGENCY_RESERVE_POOL"

fun percentage_bps :: "allocation_category \<Rightarrow> u16" where
  "percentage_bps ComputePoUW = 3000"
| "percentage_bps CoreContributors = 2000"
| "percentage_bps EcosystemGrants = 1500"
| "percentage_bps StrategicSeed = 550"
| "percentage_bps PublicSales = 750"
| "percentage_bps AirdropSeals = 700"
| "percentage_bps TreasuryMM = 600"
| "percentage_bps InsuranceFund = 500"
| "percentage_bps ContingencyReserve = 400"

section \<open>Vesting schedules\<close>

datatype token_schedule =
    Immediate
  | Linear u64 u64 u8
      \<comment> \<open>cliff, duration, tge\_percent\<close>
  | Emission u64 u64
      \<comment> \<open>halving\_interval, total\_duration\<close>
  | DaoControlled
  | Strategic

fun category_schedule :: "allocation_category \<Rightarrow> token_schedule" where
  "category_schedule ComputePoUW = Linear 0 (10 * SECONDS_PER_YEAR) 0"
| "category_schedule CoreContributors = Linear (SECONDS_PER_YEAR div 2) (4 * SECONDS_PER_YEAR) 0"
| "category_schedule EcosystemGrants = Linear (SECONDS_PER_YEAR div 2) (9 * SECONDS_PER_YEAR div 2) 2"
| "category_schedule StrategicSeed = Linear SECONDS_PER_YEAR (3 * SECONDS_PER_YEAR) 0"
| "category_schedule PublicSales = Linear 0 (3 * SECONDS_PER_YEAR div 2) 20"
| "category_schedule AirdropSeals = Linear 0 SECONDS_PER_YEAR 25"
| "category_schedule TreasuryMM = Linear 0 (3 * SECONDS_PER_YEAR) 25"
| "category_schedule InsuranceFund = Linear 0 (5 * SECONDS_PER_YEAR div 2) 10"
| "category_schedule ContingencyReserve = Linear SECONDS_PER_YEAR (5 * SECONDS_PER_YEAR) 0"

text \<open>The loop over the full halving periods: total emitted and current emission after \<open>n\<close> rounds.\<close>

primrec emission_loop :: "nat \<Rightarrow> token_amount \<Rightarrow> token_amount \<times> token_amount" where
  "emission_loop 0 initial = (0, initial)"
| "emission_loop (Suc n) initial =
     (case emission_loop n initial of (total_emitted, current_emission) \<Rightarrow>
       let current_emission = (if n > 0 then current_emission div 2 else current_emission)
       in (total_emitted + current_emission, current_emission))"

definition calculate_emission_vested :: "token_amount \<Rightarrow> u64 \<Rightarrow> u64 \<Rightarrow> u64 \<Rightarrow> token_amount option" where
  "calculate_emission_vested total_pool elapsed_secs halving_interval total_duration =
     (if elapsed_secs \<ge> total_duration then Some total_pool
      else if halving_interval = 0 then None
      else
        let full_periods = elapsed_secs div halving_interval;
            remaining_in_period = elapsed_secs mod halving_interval;
            initial_period_emission = total_pool div 4;
            total_emitted = fst (emission_loop (unat full_periods) initial_period_emission);
            total_emitted =
              (if remaining_in_period > 0 \<and> full_periods < 13
               then
                 let period_emission = (if full_periods = 0 then initial_period_emission
                                        else initial_period_emission div push_bit (unat full_periods) 1)
                 in total_emitted
                    + (period_emission * ucast remaining_in_period) div ucast halving_interval
               else total_emitted)
        in Some (min total_emitted total_pool))"

definition schedule_vested_amount :: "token_schedule \<Rightarrow> token_amount \<Rightarrow> u64 \<Rightarrow> u64 \<Rightarrow> token_amount option" where
  "schedule_vested_amount s total_amount start_time current_time =
     (if current_time \<le> start_time
      then Some (case s of
          Immediate \<Rightarrow> total_amount
        | Linear cliff duration tge_percent \<Rightarrow> (total_amount * ucast tge_percent) div 100
        | _ \<Rightarrow> 0)
      else
        let elapsed = current_time - start_time
        in case s of
             Immediate \<Rightarrow> Some total_amount
           | Linear cliff duration tge_percent \<Rightarrow>
               let tge_amount = (total_amount * ucast tge_percent) div 100;
                   vesting_amount = total_amount - tge_amount
               in if elapsed < cliff then Some tge_amount
                  else if elapsed \<ge> duration then Some total_amount
                  else
                    let vesting_elapsed = elapsed - cliff;
                        vesting_duration = duration - cliff;
                        vested = (vesting_amount * ucast vesting_elapsed) div ucast vesting_duration
                    in Some (tge_amount + vested)
           | Emission halving_interval total_duration \<Rightarrow>
               calculate_emission_vested total_amount elapsed halving_interval total_duration
           | DaoControlled \<Rightarrow> Some 0
           | Strategic \<Rightarrow> Some 0)"

section \<open>Vesting positions\<close>

record vesting_position =
  vp_id :: u64
  vp_beneficiary :: address
  vp_total_amount :: token_amount
  vp_claimed_amount :: token_amount
  vp_category :: allocation_category
  vp_custom_schedule :: "token_schedule option"
  vp_start_time :: u64
  vp_revocable :: bool
  vp_revoked :: bool
  vp_revoked_at :: "u64 option"

definition position_schedule :: "vesting_position \<Rightarrow> token_schedule" where
  "position_schedule p =
     (case vp_custom_schedule p of Some s \<Rightarrow> s | None \<Rightarrow> category_schedule (vp_category p))"

definition position_vested_amount :: "vesting_position \<Rightarrow> u64 \<Rightarrow> token_amount option" where
  "position_vested_amount p current_time =
     (if vp_revoked p
      then schedule_vested_amount (position_schedule p) (vp_total_amount p) (vp_start_time p)
             (case vp_revoked_at p of Some t \<Rightarrow> t | None \<Rightarrow> current_time)
      else schedule_vested_amount (position_schedule p) (vp_total_amount p) (vp_start_time p) current_time)"

definition claimable_amount :: "vesting_position \<Rightarrow> u64 \<Rightarrow> token_amount option" where
  "claimable_amount p current_time =
     map_option (\<lambda>vested. saturating_sub vested (vp_claimed_amount p)) (position_vested_amount p current_time)"

definition claim :: "vesting_position \<Rightarrow> u64 \<Rightarrow> (vesting_position \<times> token_amount) option" where
  "claim p current_time =
     map_option (\<lambda>claimable. (p\<lparr>vp_claimed_amount := vp_claimed_amount p + claimable\<rparr>, claimable))
       (claimable_amount p current_time)"

section \<open>The adaptive burn engine\<close>

record burn_config =
  bu_min_burn_rate_bps :: u16
  bu_max_burn_rate_bps :: u16
  bu_curve_exponent :: u8
  bu_smoothing_factor :: u8

definition burn_config_default :: burn_config where
  "burn_config_default =
     \<lparr>bu_min_burn_rate_bps = MIN_BURN_RATE_BPS, bu_max_burn_rate_bps = MAX_BURN_RATE_BPS,
      bu_curve_exponent = 2, bu_smoothing_factor = 50\<rparr>"

record adaptive_burn_engine =
  be_config :: burn_config
  be_current_rate_bps :: u16
  be_total_burned :: token_amount
  be_epoch_burned :: token_amount
  be_avg_utilization_bps :: u16
  be_block_count :: u64

definition burn_engine_new :: "burn_config \<Rightarrow> adaptive_burn_engine" where
  "burn_engine_new config =
     \<lparr>be_config = config, be_current_rate_bps = bu_min_burn_rate_bps config, be_total_burned = 0,
      be_epoch_burned = 0, be_avg_utilization_bps = 0, be_block_count = 0\<rparr>"

definition saturating_mul :: "'a::len word \<Rightarrow> 'a word \<Rightarrow> 'a word" where
  "saturating_mul a b = (if unat a * unat b < 2 ^ LENGTH('a) then a * b else max_val)"

text \<open>The loop that raises fullness and scale to the exponent, saturating at 64 bits.\<close>

primrec burn_powers :: "nat \<Rightarrow> u64 \<Rightarrow> u64 \<times> u64" where
  "burn_powers 0 fullness = (1, 1)"
| "burn_powers (Suc n) fullness =
     (case burn_powers n fullness of (numerator, denominator) \<Rightarrow>
       (saturating_mul numerator fullness, saturating_mul denominator 10000))"

definition calculate_burn_rate :: "burn_config \<Rightarrow> u16 \<Rightarrow> u16" where
  "calculate_burn_rate c block_fullness_bps =
     (let range = (ucast (bu_max_burn_rate_bps c - bu_min_burn_rate_bps c) :: u64);
          fullness = (ucast block_fullness_bps :: u64);
          (numerator, denominator) = burn_powers (unat (bu_curve_exponent c)) fullness;
          additional = (ucast ((ucast range * ucast numerator :: u128) div ucast denominator) :: u16)
      in bu_min_burn_rate_bps c + additional)"

definition calculate_burn :: "adaptive_burn_engine \<Rightarrow> token_amount \<Rightarrow> u16 \<Rightarrow> token_amount" where
  "calculate_burn e fee_amount block_fullness_bps =
     (fee_amount * ucast (calculate_burn_rate (be_config e) block_fullness_bps)) div 10000"

definition block_fullness :: "u64 \<Rightarrow> u64 \<Rightarrow> u16" where
  "block_fullness gas_used gas_limit =
     (if gas_limit > 0 then ucast ((ucast gas_used * 10000 :: u128) div ucast gas_limit) else 0)"

definition engine_update_block :: "u64 \<Rightarrow> u64 \<Rightarrow> adaptive_burn_engine \<Rightarrow> adaptive_burn_engine" where
  "engine_update_block gas_used gas_limit e =
     (let fullness_bps = block_fullness gas_used gas_limit;
          smoothing = (ucast (bu_smoothing_factor (be_config e)) :: u32);
          avg = (ucast ((ucast (be_avg_utilization_bps e) * (100 - smoothing)
                         + ucast fullness_bps * smoothing) div 100) :: u16)
      in e\<lparr>be_avg_utilization_bps := avg,
           be_current_rate_bps := calculate_burn_rate (be_config e) avg,
           be_block_count := be_block_count e + 1\<rparr>)"

definition record_burn :: "token_amount \<Rightarrow> adaptive_burn_engine \<Rightarrow> adaptive_burn_engine" where
  "record_burn amount e =
     e\<lparr>be_total_burned := be_total_burned e + amount, be_epoch_burned := be_epoch_burned e + amount\<rparr>"

definition engine_reset_epoch :: "adaptive_burn_engine \<Rightarrow> adaptive_burn_engine" where
  "engine_reset_epoch e = e\<lparr>be_epoch_burned := 0\<rparr>"

section \<open>The emission calculator\<close>

record emission_calculator =
  ec_total_pool :: token_amount
  ec_halving_interval_secs :: u64
  ec_total_duration_secs :: u64
  ec_genesis_time :: u64
  ec_total_emitted :: token_amount
  ec_last_calculation_time :: u64

definition emission_new :: "token_amount \<Rightarrow> u64 \<Rightarrow> u64 \<Rightarrow> u64 \<Rightarrow> emission_calculator" where
  "emission_new total_pool halving_interval_secs total_duration_secs genesis_time =
     \<lparr>ec_total_pool = total_pool, ec_halving_interval_secs = halving_interval_secs,
      ec_total_duration_secs = total_duration_secs, ec_genesis_time = genesis_time,
      ec_total_emitted = 0, ec_last_calculation_time = genesis_time\<rparr>"

definition default_with_genesis :: "u64 \<Rightarrow> emission_calculator" where
  "default_with_genesis genesis_time =
     emission_new COMPUTE_POUW_POOL HALVING_INTERVAL_SECS TOTAL_EMISSION_DURATION_SECS genesis_time"

definition current_rate_per_second :: "emission_calculator \<Rightarrow> u64 \<Rightarrow> token_amount option" where
  "current_rate_per_second c current_time =
     (if current_time < ec_genesis_time c then Some 0
      else
        let elapsed = current_time - ec_genesis_time c
        in if elapsed \<ge> ec_total_duration_secs c then Some 0
           else if ec_halving_interval_secs c = 0 then None
           else
             let initial_rate_per_sec = (ec_total_pool c div 4) div ucast (ec_halving_interval_secs c);
                 halvings = elapsed div ec_halving_interval_secs c
             in if halvings \<ge> 13 then Some 0 else Some (drop_bit (unat halvings) initial_rate_per_sec))"

definition block_emission :: "emission_calculator \<Rightarrow> u64 \<Rightarrow> u64 \<Rightarrow> token_amount option" where
  "block_emission c block_time block_duration_secs =
     map_option (\<lambda>rate. rate * ucast block_duration_secs) (current_rate_per_second c block_time)"

definition total_emissions_at :: "emission_calculator \<Rightarrow> u64 \<Rightarrow> token_amount option" where
  "total_emissions_at c current_time =
     (if current_time \<le> ec_genesis_time c then Some 0
      else schedule_vested_amount (Emission (ec_halving_interval_secs c) (ec_total_duration_secs c))
             (ec_total_pool c) (ec_genesis_time c) current_time)"

definition emission_update :: "emission_calculator \<Rightarrow> u64 \<Rightarrow> (emission_calculator \<times> token_amount) option" where
  "emission_update c current_time =
     map_option (\<lambda>new_total.
         (c\<lparr>ec_total_emitted := new_total, ec_last_calculation_time := current_time\<rparr>,
          saturating_sub new_total (ec_total_emitted c)))
       (total_emissions_at c current_time)"

definition remaining_emissions :: "emission_calculator \<Rightarrow> token_amount" where
  "remaining_emissions c = saturating_sub (ec_total_pool c) (ec_total_emitted c)"

record emission_schedule_info =
  ei_total_pool :: token_amount
  ei_total_emitted :: token_amount
  ei_remaining :: token_amount
  ei_current_rate_per_second :: token_amount
  ei_current_period :: u32
  ei_next_halving_time :: u64
  ei_time_to_next_halving :: u64
  ei_percent_complete_bps :: u16

definition schedule_info :: "emission_calculator \<Rightarrow> u64 \<Rightarrow> emission_schedule_info option" where
  "schedule_info c current_time =
     (if ec_halving_interval_secs c = 0 \<or> ec_total_pool c = 0 then None
      else
        let elapsed = saturating_sub current_time (ec_genesis_time c);
            current_period = elapsed div ec_halving_interval_secs c;
            next_halving = ec_genesis_time c + (current_period + 1) * ec_halving_interval_secs c
        in map_option (\<lambda>rate.
             \<lparr>ei_total_pool = ec_total_pool c, ei_total_emitted = ec_total_emitted c,
              ei_remaining = remaining_emissions c, ei_current_rate_per_second = rate,
              ei_current_period = ucast current_period, ei_next_halving_time = next_halving,
              ei_time_to_next_halving = saturating_sub next_halving current_time,
              ei_percent_complete_bps = ucast ((ec_total_emitted c * 10000) div ec_total_pool c)\<rparr>)
             (current_rate_per_second c current_time))"

section \<open>The manager\<close>

record tokenomics_config =
  tc_genesis_time :: u64
  tc_burn_config :: burn_config
  tc_adaptive_burn_enabled :: bool
  tc_min_tx_fee :: token_amount
  tc_prover_fee_bps :: u16
  tc_validator_fee_bps :: u16
  tc_burn_fee_bps :: u16

definition tokenomics_config_mainnet :: tokenomics_config where
  "tokenomics_config_mainnet =
     \<lparr>tc_genesis_time = 0, tc_burn_config = burn_config_default, tc_adaptive_burn_enabled = True,
      tc_min_tx_fee = 1000000000000, tc_prover_fee_bps = 7000, tc_validator_fee_bps = 2000,
      tc_burn_fee_bps = 1000\<rparr>"

definition tokenomics_config_testnet :: tokenomics_config where
  "tokenomics_config_testnet =
     \<lparr>tc_genesis_time = 0,
      tc_burn_config = burn_config_default\<lparr>bu_min_burn_rate_bps := 200, bu_max_burn_rate_bps := 1000\<rparr>,
      tc_adaptive_burn_enabled = True, tc_min_tx_fee = 100000000000, tc_prover_fee_bps = 7000,
      tc_validator_fee_bps = 2000, tc_burn_fee_bps = 1000\<rparr>"

definition tokenomics_config_devnet :: tokenomics_config where
  "tokenomics_config_devnet =
     \<lparr>tc_genesis_time = 0, tc_burn_config = burn_config_default, tc_adaptive_burn_enabled = False,
      tc_min_tx_fee = 0, tc_prover_fee_bps = 7000, tc_validator_fee_bps = 2500, tc_burn_fee_bps = 500\<rparr>"

record category_stats =
  cs_total_allocated :: token_amount
  cs_total_vested :: token_amount
  cs_total_claimed :: token_amount
  cs_position_count :: u64

definition category_stats_default :: category_stats where
  "category_stats_default =
     \<lparr>cs_total_allocated = 0, cs_total_vested = 0, cs_total_claimed = 0, cs_position_count = 0\<rparr>"

record tokenomics_manager =
  tm_config :: tokenomics_config
  tm_burn_engine :: adaptive_burn_engine
  tm_emission_calculator :: emission_calculator
  tm_vesting_positions :: "(u64, vesting_position) hashmap"
  tm_next_position_id :: u64
  tm_circulating_supply :: token_amount
  tm_total_vesting_locked :: token_amount
  tm_category_stats :: "(allocation_category, category_stats) hashmap"
  tm_events :: "tokenomics_event list"

definition tokenomics_new :: "tokenomics_config \<Rightarrow> tokenomics_manager" where
  "tokenomics_new config =
     \<lparr>tm_config = config, tm_burn_engine = burn_engine_new (tc_burn_config config),
      tm_emission_calculator = default_with_genesis (tc_genesis_time config),
      tm_vesting_positions = [], tm_next_position_id = 1, tm_circulating_supply = 0,
      tm_total_vesting_locked = 0, tm_category_stats = [], tm_events = []\<rparr>"

definition emit_tokenomics :: "tokenomics_event \<Rightarrow> tokenomics_manager \<Rightarrow> tokenomics_manager" where
  "emit_tokenomics e m = m\<lparr>tm_events := tm_events m @ [e]\<rparr>"

definition create_vesting_position ::
    "tokenomics_manager \<Rightarrow> address \<Rightarrow> token_amount \<Rightarrow> allocation_category \<Rightarrow> token_schedule option
      \<Rightarrow> u64 \<Rightarrow> bool \<Rightarrow> tokenomics_manager \<times> u64 sys_result" where
  "create_vesting_position m beneficiary amount category custom_schedule start_time revocable =
     (let position_id = tm_next_position_id m;
          position = \<lparr>vp_id = position_id, vp_beneficiary = beneficiary, vp_total_amount = amount,
                      vp_claimed_amount = 0, vp_category = category,
                      vp_custom_schedule = custom_schedule, vp_start_time = start_time,
                      vp_revocable = revocable, vp_revoked = False, vp_revoked_at = None\<rparr>;
          stats = hm_entry category_stats_default (tm_category_stats m) category;
          stats = stats\<lparr>cs_total_allocated := cs_total_allocated stats + amount,
                        cs_position_count := cs_position_count stats + 1\<rparr>;
          m = m\<lparr>tm_next_position_id := position_id + 1,
                tm_vesting_positions := hm_insert position_id position (tm_vesting_positions m),
                tm_total_vesting_locked := tm_total_vesting_locked m + amount,
                tm_category_stats := hm_insert category stats (tm_category_stats m)\<rparr>
      in (emit_tokenomics (VestingPositionCreated position_id beneficiary amount category) m, Ok position_id))"

record genesis_allocation =
  ga_beneficiary :: address
  ga_amount :: token_amount
  ga_category :: allocation_category
  ga_custom_schedule :: "token_schedule option"
  ga_revocable :: bool

fun create_positions :: "genesis_allocation list \<Rightarrow> tokenomics_manager \<Rightarrow> tokenomics_manager" where
  "create_positions [] m = m"
| "create_positions (a # as) m =
     create_positions as
       (fst (create_vesting_position m (ga_beneficiary a) (ga_amount a) (ga_category a)
               (ga_custom_schedule a) (tc_genesis_time (tm_config m)) (ga_revocable a)))"

definition initialize_genesis :: "tokenomics_manager \<Rightarrow> genesis_allocation list \<Rightarrow> tokenomics_manager \<times> unit sys_result" where
  "initialize_genesis m allocations =
     (let m = create_positions allocations m;
          m = m\<lparr>tm_circulating_supply := tm_circulating_supply m + PUBLIC_SALES_POOL\<rparr>
      in (emit_tokenomics (GenesisInitialized TOTAL_GENESIS_SUPPLY (tm_circulating_supply m)
            (tm_total_vesting_locked m)) m, Ok ()))"

definition claim_vested ::
    "tokenomics_manager \<Rightarrow> u64 \<Rightarrow> address \<Rightarrow> u64 \<Rightarrow> (tokenomics_manager \<times> token_amount sys_result) option" where
  "claim_vested m position_id claimer current_time =
     (case hm_get (tm_vesting_positions m) position_id of
        None \<Rightarrow> Some (m, Err (Tokenomics ''Position not found''))
      | Some position \<Rightarrow>
          if vp_beneficiary position \<noteq> claimer
          then Some (m, Err (Tokenomics ''Not position beneficiary''))
          else case claim position current_time of
            None \<Rightarrow> None
          | Some (position, claimable) \<Rightarrow>
              let m = m\<lparr>tm_vesting_positions := hm_insert position_id position (tm_vesting_positions m)\<rparr>
              in if claimable > 0
                 then
                   let m = m\<lparr>tm_total_vesting_locked := tm_total_vesting_locked m - claimable,
                             tm_circulating_supply := tm_circulating_supply m + claimable\<rparr>;
                       m = (case hm_get (tm_category_stats m) (vp_category position) of
                              None \<Rightarrow> m
                            | Some stats \<Rightarrow>
                                m\<lparr>tm_category_stats := hm_insert (vp_category position)
                                    (stats\<lparr>cs_total_claimed := cs_total_claimed stats + claimable\<rparr>)
                                    (tm_category_stats m)\<rparr>)
                   in Some (emit_tokenomics (VestingClaimed position_id (vp_beneficiary position) claimable) m,
                            Ok claimable)
                 else Some (m, Ok claimable))"

definition revoke_position ::
    "tokenomics_manager \<Rightarrow> u64 \<Rightarrow> u64 \<Rightarrow> (tokenomics_manager \<times> token_amount sys_result) option" where
  "revoke_position m position_id current_time =
     (case hm_get (tm_vesting_positions m) position_id of
        None \<Rightarrow> Some (m, Err (Tokenomics ''Position not found''))
      | Some position \<Rightarrow>
          if \<not> vp_revocable position
          then Some (m, Err (Tokenomics ''Position is not revocable''))
          else if vp_revoked position
          then Some (m, Err (Tokenomics ''Position already revoked''))
          else case position_vested_amount position current_time of
            None \<Rightarrow> None
          | Some vested \<Rightarrow>
              let unvested = saturating_sub (vp_total_amount position) vested;
                  position = position\<lparr>vp_revoked := True, vp_revoked_at := Some current_time\<rparr>;
                  m = m\<lparr>tm_vesting_positions := hm_insert position_id position (tm_vesting_positions m),
                        tm_total_vesting_locked := tm_total_vesting_locked m - unvested\<rparr>
              in Some (emit_tokenomics (VestingRevoked position_id unvested) m, Ok unvested))"

record fee_distribution =
  fd_total_fee :: token_amount
  fd_prover_amount :: token_amount
  fd_validator_amount :: token_amount
  fd_burn_amount :: token_amount
  fd_effective_burn_rate_bps :: u16

text \<open>The burn is recorded before the division that panics on a zero fee.\<close>

definition process_fee ::
    "tokenomics_manager \<Rightarrow> token_amount \<Rightarrow> u16 \<Rightarrow> (tokenomics_manager \<times> fee_distribution) option" where
  "process_fee m fee_amount block_fullness_bps =
     (let burn_amount = (if tc_adaptive_burn_enabled (tm_config m)
                         then calculate_burn (tm_burn_engine m) fee_amount block_fullness_bps
                         else (fee_amount * ucast (tc_burn_fee_bps (tm_config m))) div 10000);
          m = m\<lparr>tm_burn_engine := record_burn burn_amount (tm_burn_engine m)\<rparr>;
          remaining = fee_amount - burn_amount;
          prover_amount = (remaining * ucast (tc_prover_fee_bps (tm_config m))) div 10000;
          validator_amount = remaining - prover_amount
      in if fee_amount = 0 then None
         else Some (m, \<lparr>fd_total_fee = fee_amount, fd_prover_amount = prover_amount,
                        fd_validator_amount = validator_amount, fd_burn_amount = burn_amount,
                        fd_effective_burn_rate_bps = ucast ((burn_amount * 10000) div fee_amount)\<rparr>))"

definition tokenomics_update_block :: "tokenomics_manager \<Rightarrow> u64 \<Rightarrow> u64 \<Rightarrow> tokenomics_manager" where
  "tokenomics_update_block m gas_used gas_limit =
     m\<lparr>tm_burn_engine := engine_update_block gas_used gas_limit (tm_burn_engine m)\<rparr>"

definition get_block_emission :: "tokenomics_manager \<Rightarrow> u64 \<Rightarrow> u64 \<Rightarrow> token_amount option" where
  "get_block_emission m block_time block_duration_secs =
     block_emission (tm_emission_calculator m) block_time block_duration_secs"

definition update_emissions :: "tokenomics_manager \<Rightarrow> u64 \<Rightarrow> (tokenomics_manager \<times> token_amount) option" where
  "update_emissions m current_time =
     (case emission_update (tm_emission_calculator m) current_time of
        None \<Rightarrow> None
      | Some (c, new_emissions) \<Rightarrow>
          let m = m\<lparr>tm_emission_calculator := c\<rparr>
          in Some (if new_emissions > 0
                   then emit_tokenomics (MiningEmission new_emissions (ec_total_emitted c)) m else m,
                   new_emissions))"

record supply_info =
  su_total_supply :: token_amount
  su_circulating_supply :: token_amount
  su_total_burned :: token_amount
  su_total_locked :: token_amount
  su_total_vested :: token_amount
  su_mining_emitted :: token_amount
  su_mining_remaining :: token_amount

fun sum_vested :: "(u64 \<times> vesting_position) list \<Rightarrow> u64 \<Rightarrow> token_amount option" where
  "sum_vested [] t = Some 0"
| "sum_vested ((i, p) # ps) t =
     (case position_vested_amount p t of
        None \<Rightarrow> None
      | Some v \<Rightarrow> map_option (\<lambda>s. v + s) (sum_vested ps t))"

definition supply_info_of :: "tokenomics_manager \<Rightarrow> u64 \<Rightarrow> supply_info option" where
  "supply_info_of m current_time =
     map_option (\<lambda>total_vested.
       \<lparr>su_total_supply = TOTAL_GENESIS_SUPPLY, su_circulating_supply = tm_circulating_supply m,
        su_total_burned = be_total_burned (tm_burn_engine m), su_total_locked = tm_total_vesting_locked m,
        su_total_vested = total_vested, su_mining_emitted = ec_total_emitted (tm_emission_calculator m),
        su_mining_remaining = remaining_emissions (tm_emission_calculator m)\<rparr>)
       (sum_vested (tm_vesting_positions m) current_time)"

record burn_stats =
  bs_total_burned :: token_amount
  bs_epoch_burned :: token_amount
  bs_current_rate_bps :: u16
  bs_avg_utilization_bps :: u16

definition burn_stats_of :: "tokenomics_manager \<Rightarrow> burn_stats" where
  "burn_stats_of m =
     (let e = tm_burn_engine m
      in \<lparr>bs_total_burned = be_total_burned e, bs_epoch_burned = be_epoch_burned e,
          bs_current_rate_bps = be_current_rate_bps e, bs_avg_utilization_bps = be_avg_utilization_bps e\<rparr>)"

definition category_stats_of :: "tokenomics_manager \<Rightarrow> allocation_category \<Rightarrow> category_stats" where
  "category_stats_of m category =
     (case hm_get (tm_category_stats m) category of Some s \<Rightarrow> s | None \<Rightarrow> category_stats_default)"

definition tokenomics_reset_epoch :: "tokenomics_manager \<Rightarrow> tokenomics_manager" where
  "tokenomics_reset_epoch m = m\<lparr>tm_burn_engine := engine_reset_epoch (tm_burn_engine m)\<rparr>"

definition tokenomics_drain_events :: "tokenomics_manager \<Rightarrow> tokenomics_manager \<times> tokenomics_event list" where
  "tokenomics_drain_events m = (m\<lparr>tm_events := []\<rparr>, tm_events m)"

end
