(* ===== verification/Vesting.thy ===== *)
theory Vesting
  imports Tokenomics
begin

text \<open>
  Vesting schedules, positions and emission measured on natural numbers: the emission loop in closed
  form, the schedules against their specification, and the accounting invariant of the manager's
  positions under \<open>create_vesting_position\<close>, \<open>claim_vested\<close> and \<open>revoke_position\<close>.
\<close>

section \<open>Emission in closed form\<close>

text \<open>What \<open>n\<close> full halving periods emit, and the emission of an elapsed time, on natural numbers.\<close>

definition halved_sum :: "nat \<Rightarrow> nat \<Rightarrow> nat" where
  "halved_sum a n = (\<Sum>i<n. a div 2 ^ i)"

definition emission_closed :: "nat \<Rightarrow> nat \<Rightarrow> nat \<Rightarrow> nat" where
  "emission_closed a h e =
     halved_sum a (e div h) + (if e div h < 13 then (a div 2 ^ (e div h)) * (e mod h) div h else 0)"

lemma halved_sum_Suc [simp]: "halved_sum a (Suc n) = halved_sum a n + a div 2 ^ n"
  by (simp add: halved_sum_def)

lemma halved_sum_0 [simp]: "halved_sum a 0 = 0"
  by (simp add: halved_sum_def)

lemma div_pow2_Suc: "(a::nat) div 2 ^ Suc n = a div 2 ^ n div 2"
  by (simp only: power_Suc2 div_mult2_eq)

lemma halved_sum_bound: "halved_sum a n + 2 * (a div 2 ^ n) \<le> 2 * a"
proof (induction n)
  case (Suc n)
  have "2 * (a div 2 ^ Suc n) \<le> a div 2 ^ n" unfolding div_pow2_Suc by simp
  with Suc show ?case by simp
qed simp

lemma halved_sum_le: "halved_sum a n \<le> 2 * a"
  using halved_sum_bound [of a n] by simp

lemma halved_sum_mono: "m \<le> n \<Longrightarrow> halved_sum a m \<le> halved_sum a n"
  by (auto simp: halved_sum_def intro: sum_mono2)

lemma partial_period_le: "(p::nat) * (e mod h) div h \<le> p"
proof (cases "h = 0")
  case False
  then have "p * (e mod h) \<le> p * h" by simp
  then have "p * (e mod h) div h \<le> p * h div h" by (rule div_le_mono)
  with False show ?thesis by simp
qed simp

lemma emission_closed_lt_Suc: "emission_closed a h e \<le> halved_sum a (Suc (e div h))"
  using partial_period_le [of "a div 2 ^ (e div h)" e h] by (simp add: emission_closed_def)

lemma emission_closed_le: "emission_closed a h e \<le> 2 * a"
  using emission_closed_lt_Suc halved_sum_le le_trans by blast

lemma emission_closed_mono:
  assumes "e \<le> e'"
  shows "emission_closed a h e \<le> emission_closed a h e'"
proof (cases "e div h = e' div h")
  case True
  have "e = e div h * h + e mod h" and "e' = e div h * h + e' mod h"
    by (simp, metis True div_mod_decomp)
  with assms have "e mod h \<le> e' mod h" by linarith
  then show ?thesis
    unfolding emission_closed_def True by (simp add: div_le_mono)
next
  case False
  with assms have "Suc (e div h) \<le> e' div h" using div_le_mono [of e e' h] by simp
  then have "halved_sum a (Suc (e div h)) \<le> halved_sum a (e' div h)" by (rule halved_sum_mono)
  then show ?thesis
    using emission_closed_lt_Suc [of a h e] by (simp add: emission_closed_def)
qed

lemma unat_emission_loop:
  assumes "2 * unat a < 2 ^ 128"
  shows "unat (fst (emission_loop n a)) = halved_sum (unat a) n
    \<and> unat (snd (emission_loop n a)) = unat a div 2 ^ (n - 1)"
proof (induction n)
  case (Suc n)
  obtain s c where sc: "emission_loop n a = (s, c)" by fastforce
  with Suc have s: "unat s = halved_sum (unat a) n" and c: "unat c = unat a div 2 ^ (n - 1)" by auto
  let ?c = "if n > 0 then c div 2 else c"
  have c': "unat ?c = unat a div 2 ^ n"
    using c by (cases n) (simp_all add: unat_div div_pow2_Suc del: power_Suc)
  have "unat s + unat ?c \<le> 2 * unat a"
    unfolding s c' using halved_sum_bound [of "unat a" n] by linarith
  then have "unat (s + ?c) = halved_sum (unat a) n + unat a div 2 ^ n"
    using assms s c' by (simp add: unat_add_exact)
  then show ?case using sc c' by (simp add: Let_def)
qed simp

lemma unat_pow2_small: "n < 13 \<Longrightarrow> unat (push_bit n 1 :: u128) = 2 ^ n"
proof -
  assume "n < 13"
  then have "(2 :: nat) ^ n < 2 ^ 128" by (intro power_strict_increasing) simp_all
  then have "unat (of_nat (2 ^ n) :: u128) = 2 ^ n"
    by (simp only: unat_of_nat take_bit_nat_eq_self unsigned_of_nat) (simp add: take_bit_nat_eq_self)
  then show ?thesis by (simp add: push_bit_eq_mult)
qed

lemma emission_exact:
  assumes h: "halving_interval \<noteq> 0" and b: "unat total_pool * unat halving_interval < 2 ^ 128"
  shows "calculate_emission_vested total_pool elapsed halving_interval total_duration =
    Some (if elapsed \<ge> total_duration then total_pool
          else of_nat (emission_closed (unat total_pool div 4) (unat halving_interval) (unat elapsed)))"
proof (cases "elapsed \<ge> total_duration")
  case False
  define a where "a = total_pool div 4"
  define n where "n = elapsed div halving_interval"
  define r where "r = elapsed mod halving_interval"
  define p where "p = (if n = 0 then a else a div push_bit (unat n) 1)"
  have ua: "unat a = unat total_pool div 4" by (simp add: a_def unat_div)
  have un: "unat n = unat elapsed div unat halving_interval" by (simp add: n_def unat_div)
  have ur: "unat r = unat elapsed mod unat halving_interval" by (simp add: r_def unat_mod)
  have a2: "2 * unat a < 2 ^ 128" using ua unat_bound128 [of total_pool] by simp
  note loop = unat_emission_loop [OF a2, of "unat n"]
  have up: "unat p = unat a div 2 ^ unat n" if "n < 13"
    using that unat_pow2_small [of "unat n"]
    by (auto simp: p_def unat_div word_less_nat_alt)
  have hpos: "unat halving_interval > 0" using h by (simp add: unat_gt_0)
  have pr: "unat (p * ucast r div ucast halving_interval)
      = unat a div 2 ^ unat n * unat r div unat halving_interval" if n: "n < 13"
  proof -
    have "unat p \<le> unat total_pool" using up [OF n] ua by (metis div_le_dividend le_trans)
    moreover have "unat r \<le> unat halving_interval" using ur hpos by simp
    ultimately have "unat p * unat r \<le> unat total_pool * unat halving_interval" by (rule mult_le_mono)
    with b have "unat p * unat (ucast r :: u128) < 2 ^ LENGTH(128)" by simp
    then have "unat (p * ucast r) = unat p * unat r" by (simp add: unat_mult_exact)
    then show ?thesis by (simp add: unat_div up [OF n])
  qed
  define tot where "tot = (if r > 0 \<and> n < 13 then fst (emission_loop (unat n) a) + p * ucast r div ucast halving_interval
     else fst (emission_loop (unat n) a))"
  have eq: "emission_closed (unat a) (unat halving_interval) (unat elapsed) =
      halved_sum (unat a) (unat n) + (if n < 13 then unat a div 2 ^ unat n * unat r div unat halving_interval else 0)"
    by (simp add: emission_closed_def un ur word_less_nat_alt)
  have le: "emission_closed (unat a) (unat halving_interval) (unat elapsed) \<le> 2 * unat a"
    by (rule emission_closed_le)
  have tot: "unat tot = emission_closed (unat a) (unat halving_interval) (unat elapsed)"
  proof (cases "r > 0 \<and> n < 13")
    case True
    then have "unat (fst (emission_loop (unat n) a)) + unat (p * ucast r div ucast halving_interval) < 2 ^ LENGTH(128)"
      using loop pr le eq a2 by simp
    with True loop pr eq show ?thesis by (simp add: tot_def unat_add_exact)
  next
    case F: False
    then have "n < 13 \<longrightarrow> r = 0" by (auto simp: word_gt_0)
    with F loop eq show ?thesis by (auto simp: tot_def)
  qed
  then have "tot \<le> total_pool" using le ua by (simp add: word_le_nat_alt)
  moreover have "calculate_emission_vested total_pool elapsed halving_interval total_duration = Some (min tot total_pool)"
    using False h
    by (simp add: calculate_emission_vested_def Let_def tot_def p_def a_def n_def r_def)
  moreover have "of_nat (unat tot) = tot" by simp
  ultimately show ?thesis
    using False tot ua by (simp add: min_def)
qed (simp add: calculate_emission_vested_def)

section \<open>Vesting schedules against natural numbers\<close>

text \<open>The parameters under which no product of the schedule leaves 128 bits.\<close>

fun schedule_ok :: "token_schedule \<Rightarrow> token_amount \<Rightarrow> bool" where
  "schedule_ok (Linear cliff duration tge) amt \<longleftrightarrow>
     tge \<le> 100 \<and> unat amt * 100 < 2 ^ 128 \<and> unat amt * unat duration < 2 ^ 128"
| "schedule_ok (Emission halving duration) amt \<longleftrightarrow>
     halving \<noteq> 0 \<and> unat amt * unat halving < 2 ^ 128"
| "schedule_ok _ amt \<longleftrightarrow> True"

fun vested_spec :: "token_schedule \<Rightarrow> nat \<Rightarrow> nat \<Rightarrow> nat" where
  "vested_spec Immediate amt e = amt"
| "vested_spec (Linear cliff duration tge) amt e =
     (let tge_amount = amt * unat tge div 100
      in if e < unat cliff then tge_amount
         else if e \<ge> unat duration then amt
         else tge_amount + (amt - tge_amount) * (e - unat cliff) div (unat duration - unat cliff))"
| "vested_spec (Emission halving duration) amt e =
     (if e \<ge> unat duration then amt else emission_closed (amt div 4) (unat halving) e)"
| "vested_spec DaoControlled amt e = 0"
| "vested_spec Strategic amt e = 0"

fun tge_spec :: "token_schedule \<Rightarrow> nat \<Rightarrow> nat" where
  "tge_spec Immediate amt = amt"
| "tge_spec (Linear cliff duration tge) amt = amt * unat tge div 100"
| "tge_spec _ amt = 0"

text \<open>The specification at a point in time: the TGE share until the start, the schedule after it.\<close>

definition vested_at :: "token_schedule \<Rightarrow> token_amount \<Rightarrow> u64 \<Rightarrow> u64 \<Rightarrow> nat" where
  "vested_at s amt start t =
     (if t \<le> start then tge_spec s (unat amt)
      else vested_spec s (unat amt) (unat t - unat start))"

lemma emission_half: "emission_closed (amt div 4) h e \<le> amt div 2"
  using emission_closed_le [of "amt div 4" h e] by linarith

lemma linear_part_le: "e \<le> d \<Longrightarrow> (v::nat) * (e - c) div (d - c) \<le> v"
proof (cases "d - c = 0")
  case False
  assume "e \<le> d"
  then have "v * (e - c) div (d - c) \<le> v * (d - c) div (d - c)"
    by (intro div_le_mono mult_le_mono2) simp
  with False show ?thesis by simp
qed simp

lemma linear_total_le:
  assumes "tge \<le> (v::nat)" and "e \<le> d"
  shows "tge + (v - tge) * (e - c) div (d - c) \<le> v"
  using linear_part_le [OF assms(2), of "v - tge" c] assms(1) by linarith

lemma tge_le: "(t::nat) \<le> 100 \<Longrightarrow> amt * t div 100 \<le> amt"
  using div_le_mono [of "amt * t" "amt * 100" 100] by simp

lemma vested_spec_le: "schedule_ok s w \<Longrightarrow> vested_spec s amt e \<le> amt"
proof (cases s)
  case (Linear c d t)
  assume "schedule_ok s w"
  with Linear have t: "unat t \<le> 100" by (simp add: word_le_nat_alt)
  show ?thesis
  proof (cases "e < unat c \<or> unat d \<le> e")
    case True
    with tge_le [OF t] show ?thesis by (auto simp: Linear Let_def)
  next
    case False
    with linear_total_le [OF tge_le [OF t], of e "unat d" amt "unat c"]
    show ?thesis by (simp add: Linear Let_def)
  qed
next
  case (Emission h d)
  then show ?thesis using emission_half [of amt "unat h" e] by (auto dest: order.trans [OF _ div_le_dividend])
qed simp_all

lemma vested_spec_mono:
  assumes "schedule_ok s w" and "e \<le> e'"
  shows "vested_spec s amt e \<le> vested_spec s amt e'"
proof (cases s)
  case (Linear c d t)
  with assms have t: "unat t \<le> 100" by (simp add: word_le_nat_alt)
  let ?tge = "amt * unat t div 100"
  consider "e' \<ge> unat d" "e' \<ge> unat c" | "e < unat c" | "\<not> e < unat c" "e' < unat d"
    using assms(2) by linarith
  then show ?thesis
  proof cases
    case 1
    then show ?thesis using vested_spec_le [OF assms(1), of amt e] by (simp add: Linear Let_def)
  next
    case 2
    then show ?thesis using tge_le [OF t, of amt] by (simp add: Linear Let_def)
  next
    case 3
    then have "(amt - ?tge) * (e - unat c) div (unat d - unat c) \<le> (amt - ?tge) * (e' - unat c) div (unat d - unat c)"
      using assms(2) by (intro div_le_mono mult_le_mono2) simp
    with 3 assms(2) show ?thesis by (simp add: Linear Let_def)
  qed
next
  case (Emission h d)
  then show ?thesis
    using emission_closed_mono [OF assms(2), of "amt div 4" "unat h"]
      emission_half [of amt "unat h" e] assms(2) by auto
qed simp_all

lemma tge_le_spec: "schedule_ok s w \<Longrightarrow> tge_spec s amt \<le> vested_spec s amt e"
  using tge_le by (cases s) (auto simp: Let_def word_le_nat_alt)

lemma vested_at_le: "schedule_ok s amt \<Longrightarrow> vested_at s amt start t \<le> unat amt"
  using tge_le_spec [of s amt "unat amt" 0] vested_spec_le [of s amt]
  by (auto simp: vested_at_def intro: le_trans)

lemma vested_at_mono:
  assumes "schedule_ok s amt" and "t \<le> t'"
  shows "vested_at s amt start t \<le> vested_at s amt start t'"
  using assms tge_le_spec [OF assms(1)] vested_spec_mono [OF assms(1)]
  by (auto simp: vested_at_def word_le_nat_alt)

lemma unat_tge:
  assumes "unat amt * 100 < 2 ^ 128" and "tge \<le> 100"
  shows "unat (amt * ucast (tge :: u8) div 100 :: token_amount) = unat amt * unat tge div 100"
proof -
  have "unat amt * unat tge \<le> unat amt * 100" using assms(2) by (simp add: word_le_nat_alt)
  then have "unat (amt * ucast tge) = unat amt * unat tge"
    using order.strict_trans1 [OF _ assms(1)] by (subst unat_mult_exact) simp_all
  then show ?thesis by (simp add: unat_div)
qed

lemma linear_exact:
  assumes ok: "schedule_ok (Linear cliff duration tge) amt" and lt: "start < t"
  shows "map_option unat (schedule_vested_amount (Linear cliff duration tge) amt start t)
    = Some (vested_spec (Linear cliff duration tge) (unat amt) (unat t - unat start))"
proof -
  define tg where "tg = amt * ucast tge div 100"
  define e where "e = t - start"
  have tg: "unat tg = unat amt * unat tge div 100" using ok by (simp add: tg_def unat_tge)
  have e: "unat e = unat t - unat start" using lt by (simp add: e_def unat_sub less_imp_le)
  have le: "unat tg \<le> unat amt" unfolding tg using ok by (intro tge_le) (simp add: word_le_nat_alt)
  have v: "unat (amt - tg) = unat amt - unat tg" using le by (simp add: unat_sub word_le_nat_alt)
  have part: "unat (tg + (amt - tg) * ucast (e - cliff) div ucast (duration - cliff))
      = unat tg + (unat amt - unat tg) * (unat e - unat cliff) div (unat duration - unat cliff)"
    if "\<not> e < cliff" "\<not> duration \<le> e"
  proof -
    have ec: "unat (e - cliff) = unat e - unat cliff" using that by (simp add: unat_sub not_less)
    have dc: "unat (duration - cliff) = unat duration - unat cliff"
      using that by (simp add: unat_sub word_cmp_nat)
    have "unat (amt - tg) * unat (e - cliff) \<le> unat amt * unat duration"
      unfolding v ec using that by (intro mult_le_mono) (simp_all add: word_cmp_nat)
    then have "unat ((amt - tg) * ucast (e - cliff)) = (unat amt - unat tg) * (unat e - unat cliff)"
      using ok v ec by (subst unat_mult_exact) simp_all
    then have "unat ((amt - tg) * ucast (e - cliff) div ucast (duration - cliff))
        = (unat amt - unat tg) * (unat e - unat cliff) div (unat duration - unat cliff)"
      by (simp add: unat_div dc)
    moreover have "unat tg + (unat amt - unat tg) * (unat e - unat cliff) div (unat duration - unat cliff)
        \<le> unat amt"
      using that le by (intro linear_total_le) (simp_all add: word_cmp_nat)
    ultimately show ?thesis
      using unat_bound128 [of amt] by (subst unat_add_exact) (auto dest: order.strict_trans1)
  qed
  have "schedule_vested_amount (Linear cliff duration tge) amt start t =
    Some (if e < cliff then tg else if duration \<le> e then amt
          else tg + (amt - tg) * ucast (e - cliff) div ucast (duration - cliff))"
    using lt by (simp add: schedule_vested_amount_def Let_def e_def tg_def not_le [symmetric])
  moreover have "vested_spec (Linear cliff duration tge) (unat amt) (unat e) =
     unat (if e < cliff then tg else if duration \<le> e then amt
          else tg + (amt - tg) * ucast (e - cliff) div ucast (duration - cliff))"
    using part by (simp add: Let_def word_cmp_nat tg del: unat_bound128)
  ultimately show ?thesis by (simp only: e option.map)
qed

lemma schedule_exact:
  assumes ok: "schedule_ok s amt"
  shows "map_option unat (schedule_vested_amount s amt start t) = Some (vested_at s amt start t)"
proof (cases "t \<le> start")
  case True
  then show ?thesis
    using ok by (cases s) (simp_all add: schedule_vested_amount_def vested_at_def unat_tge)
next
  case False
  then have lt: "start < t" by simp
  then have e: "unat (t - start) = unat t - unat start" by (simp add: unat_sub)
  show ?thesis
  proof (cases s)
    case (Linear c d p)
    then show ?thesis using linear_exact [of c d p amt start t] ok lt
      by (simp add: vested_at_def not_le [symmetric] del: vested_spec.simps)
  next
    case (Emission h d)
    have "emission_closed (unat amt div 4) (unat h) (unat t - unat start) < 2 ^ 128"
      using emission_half [of "unat amt" "unat h" "unat t - unat start"] unat_bound128 [of amt]
      by linarith
    then have "unat (of_nat (emission_closed (unat amt div 4) (unat h) (unat t - unat start)) :: token_amount)
        = emission_closed (unat amt div 4) (unat h) (unat t - unat start)"
      by (simp only: unsigned_of_nat) (simp add: take_bit_nat_eq_self)
    then show ?thesis
      using Emission ok lt emission_exact [of h amt "t - start" d]
      by (simp add: schedule_vested_amount_def vested_at_def e word_le_nat_alt)
  qed (use lt in \<open>simp_all add: schedule_vested_amount_def vested_at_def\<close>)
qed

lemma schedule_SomeE:
  assumes "schedule_ok s amt"
  obtains v where "schedule_vested_amount s amt start t = Some v" and "unat v = vested_at s amt start t"
  using schedule_exact [OF assms, of start t] by (auto simp: map_option_eq_Some)

section \<open>The accounting of positions\<close>

definition position_vested :: "vesting_position \<Rightarrow> u64 \<Rightarrow> nat" where
  "position_vested p t =
     vested_at (position_schedule p) (vp_total_amount p) (vp_start_time p)
       (if vp_revoked p then (case vp_revoked_at p of Some r \<Rightarrow> r | None \<Rightarrow> t) else t)"

text \<open>What a position can still pay out: everything, or what had vested when it was revoked.\<close>

definition entitlement :: "vesting_position \<Rightarrow> nat" where
  "entitlement p = (if vp_revoked p then position_vested p 0 else unat (vp_total_amount p))"

definition locked_of :: "vesting_position \<Rightarrow> nat" where
  "locked_of p = entitlement p - unat (vp_claimed_amount p)"

definition forfeited_of :: "vesting_position \<Rightarrow> nat" where
  "forfeited_of p = unat (vp_total_amount p) - entitlement p"

definition position_ok :: "u64 \<Rightarrow> vesting_position \<Rightarrow> bool" where
  "position_ok t p \<longleftrightarrow>
     schedule_ok (position_schedule p) (vp_total_amount p)
     \<and> (vp_revoked p \<longrightarrow> vp_revoked_at p \<noteq> None)
     \<and> unat (vp_claimed_amount p) \<le> position_vested p t"

lemma position_ok_later: "position_ok t p \<Longrightarrow> t \<le> t' \<Longrightarrow> position_ok t' p"
  using vested_at_mono [of "position_schedule p" "vp_total_amount p" t t' "vp_start_time p"]
  by (auto simp: position_ok_def position_vested_def)

lemma position_vested_le_entitlement: "position_ok t p \<Longrightarrow> position_vested p t \<le> entitlement p"
  by (auto simp: position_ok_def entitlement_def position_vested_def vested_at_le)

lemma entitlement_le: "position_ok t p \<Longrightarrow> entitlement p \<le> unat (vp_total_amount p)"
  by (auto simp: position_ok_def entitlement_def position_vested_def vested_at_le)

lemma claimed_le_entitlement: "position_ok t p \<Longrightarrow> unat (vp_claimed_amount p) \<le> entitlement p"
  using position_vested_le_entitlement [of t p] by (simp add: position_ok_def)

lemma position_parts:
  "position_ok t p \<Longrightarrow>
     unat (vp_claimed_amount p) + locked_of p + forfeited_of p = unat (vp_total_amount p)"
  using claimed_le_entitlement [of t p] entitlement_le [of t p]
  by (simp add: locked_of_def forfeited_of_def)

lemma position_vested_amount_exact:
  assumes "position_ok t' p"
  obtains v where "position_vested_amount p t = Some v" and "unat v = position_vested p t"
proof -
  have ok: "schedule_ok (position_schedule p) (vp_total_amount p)"
    using assms by (simp add: position_ok_def)
  show thesis
    by (rule schedule_SomeE [OF ok, of "vp_start_time p"
          "if vp_revoked p then (case vp_revoked_at p of Some r \<Rightarrow> r | None \<Rightarrow> t) else t"])
      (auto intro!: that simp: position_vested_amount_def position_vested_def split: if_splits)
qed

lemma claim_exact:
  assumes "position_ok t p"
  obtains p' c where "claim p t = Some (p', c)" and "unat c = position_vested p t - unat (vp_claimed_amount p)"
    and "p' = p\<lparr>vp_claimed_amount := vp_claimed_amount p + c\<rparr>"
    and "unat (vp_claimed_amount p') = position_vested p t"
proof -
  obtain v where v: "position_vested_amount p t = Some v" "unat v = position_vested p t"
    using position_vested_amount_exact [OF assms] by blast
  let ?c = "saturating_sub v (vp_claimed_amount p)"
  have c: "unat ?c = position_vested p t - unat (vp_claimed_amount p)"
    by (simp add: unat_saturating_sub v)
  have le: "unat (vp_claimed_amount p) \<le> position_vested p t" using assms by (simp add: position_ok_def)
  have "unat (vp_claimed_amount p + ?c) = unat (vp_claimed_amount p) + unat ?c"
    using c le v(2) unat_bound128 [of v] by (subst unat_add_exact) simp_all
  with c le show thesis
    by (intro that [of "p\<lparr>vp_claimed_amount := vp_claimed_amount p + ?c\<rparr>" ?c])
      (simp_all add: claim_def claimable_amount_def v)
qed

lemma position_schedule_update [simp]:
  "position_schedule (p\<lparr>vp_claimed_amount := c\<rparr>) = position_schedule p"
  "position_schedule (p\<lparr>vp_revoked := b, vp_revoked_at := r\<rparr>) = position_schedule p"
  by (simp_all add: position_schedule_def split: option.split)

lemma position_claim [simp]:
  "position_vested (p\<lparr>vp_claimed_amount := c\<rparr>) t = position_vested p t"
  "entitlement (p\<lparr>vp_claimed_amount := c\<rparr>) = entitlement p"
  "forfeited_of (p\<lparr>vp_claimed_amount := c\<rparr>) = forfeited_of p"
  by (simp_all add: position_vested_def entitlement_def forfeited_of_def)

lemma position_ok_claim:
  "position_ok t p \<Longrightarrow> unat c \<le> position_vested p t \<Longrightarrow> position_ok t (p\<lparr>vp_claimed_amount := c\<rparr>)"
  by (simp add: position_ok_def)

abbreviation revoked_position :: "vesting_position \<Rightarrow> u64 \<Rightarrow> vesting_position" where
  "revoked_position p t \<equiv> p\<lparr>vp_revoked := True, vp_revoked_at := Some t\<rparr>"

lemma position_revoke:
  assumes "\<not> vp_revoked p"
  shows "position_vested (revoked_position p t) t' = position_vested p t"
    and "entitlement (revoked_position p t) = position_vested p t"
  using assms by (simp_all add: position_vested_def entitlement_def)

lemma position_ok_revoke:
  "position_ok t p \<Longrightarrow> \<not> vp_revoked p \<Longrightarrow> position_ok t (revoked_position p t)"
  by (simp add: position_ok_def position_revoke)

section \<open>Runs of the vesting operations\<close>

datatype vesting_op =
    CreatePosition address token_amount allocation_category "token_schedule option" u64 bool
  | ClaimPosition u64 address
  | RevokePosition u64

fun ok_amount :: "token_amount sys_result \<Rightarrow> nat" where
  "ok_amount (Ok a) = unat a"
| "ok_amount (Err e) = 0"

text \<open>One call at time \<open>t\<close>: the new manager, what was paid out and what was taken back.\<close>

fun vesting_step :: "u64 \<Rightarrow> vesting_op \<Rightarrow> tokenomics_manager \<Rightarrow> (tokenomics_manager \<times> nat \<times> nat) option" where
  "vesting_step t (CreatePosition b a c s st r) m =
     Some (fst (create_vesting_position m b a c s st r), 0, 0)"
| "vesting_step t (ClaimPosition i who) m =
     map_option (\<lambda>(m', r). (m', ok_amount r, 0)) (claim_vested m i who t)"
| "vesting_step t (RevokePosition i) m =
     map_option (\<lambda>(m', r). (m', 0, ok_amount r)) (revoke_position m i t)"

fun vesting_run :: "(u64 \<times> vesting_op) list \<Rightarrow> tokenomics_manager \<Rightarrow> (tokenomics_manager \<times> nat \<times> nat) option" where
  "vesting_run [] m = Some (m, 0, 0)"
| "vesting_run ((t, op) # ops) m =
     (case vesting_step t op m of
        None \<Rightarrow> None
      | Some (m', paid, returned) \<Rightarrow>
          map_option (\<lambda>(m'', p, r). (m'', paid + p, returned + r)) (vesting_run ops m'))"

fun created_by :: "vesting_op \<Rightarrow> nat" where
  "created_by (CreatePosition b a c s st r) = unat a"
| "created_by _ = 0"

fun op_ok :: "vesting_op \<Rightarrow> bool" where
  "op_ok (CreatePosition b a c s st r) \<longleftrightarrow>
     schedule_ok (case s of Some s' \<Rightarrow> s' | None \<Rightarrow> category_schedule c) a"
| "op_ok _ \<longleftrightarrow> True"

definition vesting_inv :: "u64 \<Rightarrow> nat \<Rightarrow> tokenomics_manager \<Rightarrow> bool" where
  "vesting_inv t base m \<longleftrightarrow>
     (\<forall>i p. hm_get (tm_vesting_positions m) i = Some p \<longrightarrow>
        position_ok t p \<and> unat i < unat (tm_next_position_id m))
     \<and> distinct (map fst (tm_vesting_positions m))
     \<and> hm_sum (\<lambda>p. unat (vp_total_amount p)) (tm_vesting_positions m) + base < 2 ^ 128
     \<and> unat (tm_total_vesting_locked m) = hm_sum locked_of (tm_vesting_positions m)
     \<and> unat (tm_circulating_supply m)
         = base + hm_sum (\<lambda>p. unat (vp_claimed_amount p)) (tm_vesting_positions m)"

lemma vesting_inv_later: "vesting_inv t base m \<Longrightarrow> t \<le> t' \<Longrightarrow> vesting_inv t' base m"
  unfolding vesting_inv_def using position_ok_later by blast

lemma vesting_inv_parts:
  assumes inv: "vesting_inv t base m"
  shows "hm_sum (\<lambda>p. unat (vp_total_amount p)) (tm_vesting_positions m) =
    hm_sum (\<lambda>p. unat (vp_claimed_amount p)) (tm_vesting_positions m)
    + hm_sum locked_of (tm_vesting_positions m) + hm_sum forfeited_of (tm_vesting_positions m)"
proof -
  have "position_ok t p" if "(i, p) \<in> set (tm_vesting_positions m)" for i p
    using inv that by (auto simp: vesting_inv_def hm_get_def)
  then have "unat (vp_total_amount (snd x)) = unat (vp_claimed_amount (snd x)) + locked_of (snd x) + forfeited_of (snd x)"
    if "x \<in> set (tm_vesting_positions m)" for x
    using that position_parts by (cases x) fastforce
  then show ?thesis
    unfolding hm_sum_def sum_list_addf [symmetric] by (intro arg_cong [where f = sum_list] map_cong) auto
qed

text \<open>Replacing a position by another of the same amount, the totals adjusted by the change.\<close>

lemma vesting_inv_replace:
  assumes inv: "vesting_inv t base m" and i: "hm_get (tm_vesting_positions m) i = Some p"
    and p': "position_ok t p'" and amt: "vp_total_amount p' = vp_total_amount p"
    and pos: "tm_vesting_positions m' = hm_insert i p' (tm_vesting_positions m)"
    and nxt: "tm_next_position_id m' = tm_next_position_id m"
    and l: "unat (tm_total_vesting_locked m') + locked_of p = unat (tm_total_vesting_locked m) + locked_of p'"
    and c: "unat (tm_circulating_supply m') + unat (vp_claimed_amount p)
      = unat (tm_circulating_supply m) + unat (vp_claimed_amount p')"
  shows "vesting_inv t base m'"
proof -
  note old = hm_sum_insert_old [OF i, where v = p']
  show ?thesis
    using inv i p' l c amt old [of locked_of] old [of "\<lambda>p. unat (vp_claimed_amount p)"]
      old [of "\<lambda>p. unat (vp_total_amount p)"]
    by (auto simp: vesting_inv_def pos nxt)
qed

lemma vesting_inv_create:
  assumes inv: "vesting_inv t base m" and ok: "op_ok (CreatePosition b a c s st r)"
    and room: "hm_sum (\<lambda>p. unat (vp_total_amount p)) (tm_vesting_positions m) + unat a + base < 2 ^ 128"
    and nxt: "unat (tm_next_position_id m) + 1 < 2 ^ 64"
  shows "vesting_inv t base (fst (create_vesting_position m b a c s st r))"
proof -
  let ?i = "tm_next_position_id m"
  let ?p = "\<lparr>vp_id = ?i, vp_beneficiary = b, vp_total_amount = a, vp_claimed_amount = 0, vp_category = c,
    vp_custom_schedule = s, vp_start_time = st, vp_revocable = r, vp_revoked = False, vp_revoked_at = None\<rparr>"
  have fresh: "hm_get (tm_vesting_positions m) ?i = None"
    using inv by (cases "hm_get (tm_vesting_positions m) ?i") (auto simp: vesting_inv_def)
  have p: "position_ok t ?p" "locked_of ?p = unat a"
    using ok by (simp_all add: position_ok_def locked_of_def entitlement_def position_schedule_def
        split: option.splits)
  have "unat (tm_total_vesting_locked m + a) = unat (tm_total_vesting_locked m) + unat a"
    using inv room vesting_inv_parts [OF inv] by (subst unat_add_exact) (simp_all add: vesting_inv_def)
  moreover have "unat (?i + 1) = unat ?i + 1" using nxt by (subst unat_add_exact) simp_all
  ultimately show ?thesis
    using inv p room hm_sum_insert_fresh [OF fresh, where v = ?p]
    by (auto simp: vesting_inv_def create_vesting_position_def emit_tokenomics_def Let_def less_Suc_eq)
qed

lemma claim_vested_step:
  assumes inv: "vesting_inv t base m"
  obtains m' r where "claim_vested m i who t = Some (m', r)" and "vesting_inv t base m'"
    and "hm_sum forfeited_of (tm_vesting_positions m') = hm_sum forfeited_of (tm_vesting_positions m)"
    and "unat (tm_circulating_supply m') = unat (tm_circulating_supply m) + ok_amount r"
    and "tm_next_position_id m' = tm_next_position_id m"
    and "hm_sum (\<lambda>p. unat (vp_total_amount p)) (tm_vesting_positions m')
      = hm_sum (\<lambda>p. unat (vp_total_amount p)) (tm_vesting_positions m)"
proof (cases "\<exists>p. hm_get (tm_vesting_positions m) i = Some p \<and> vp_beneficiary p = who")
  case False
  with inv that show thesis
    by (cases "hm_get (tm_vesting_positions m) i") (auto simp: claim_vested_def)
next
  case True
  then obtain p where p: "hm_get (tm_vesting_positions m) i = Some p" "vp_beneficiary p = who" by blast
  then have ok: "position_ok t p" using inv by (simp add: vesting_inv_def)
  obtain p' c where c: "claim p t = Some (p', c)" and uc: "unat c = position_vested p t - unat (vp_claimed_amount p)"
    and p': "p' = p\<lparr>vp_claimed_amount := vp_claimed_amount p + c\<rparr>"
    and up': "unat (vp_claimed_amount p') = position_vested p t"
    using claim_exact [OF ok] by metis
  have ok': "position_ok t p'" using position_ok_claim [OF ok] up' by (simp add: p')
  have le: "unat (vp_claimed_amount p) \<le> position_vested p t" using ok by (simp add: position_ok_def)
  have sum: "unat (vp_claimed_amount p) + unat c = unat (vp_claimed_amount p')" using uc up' le by simp
  have lp: "locked_of p = locked_of p' + unat c"
    using up' uc le position_vested_le_entitlement [OF ok] by (simp add: locked_of_def p')
  note old = hm_sum_insert_old [OF p(1), where v = p']
  have lock: "unat (tm_total_vesting_locked m - c) = unat (tm_total_vesting_locked m) - unat c"
    "unat c \<le> unat (tm_total_vesting_locked m)"
    using hm_sum_ge [OF p(1), of locked_of] inv lp by (auto simp: vesting_inv_def unat_sub word_le_nat_alt)
  have circ: "unat (tm_circulating_supply m + c) = unat (tm_circulating_supply m) + unat c"
    using inv lock(2) vesting_inv_parts [OF inv] by (subst unat_add_exact) (auto simp: vesting_inv_def)
  obtain m' where m': "claim_vested m i who t = Some (m', Ok c)"
    and f: "tm_vesting_positions m' = hm_insert i p' (tm_vesting_positions m)"
      "tm_next_position_id m' = tm_next_position_id m"
      "tm_total_vesting_locked m' = tm_total_vesting_locked m - c"
      "tm_circulating_supply m' = tm_circulating_supply m + c"
    using p c by (cases "c = 0")
      (auto simp: claim_vested_def Let_def emit_tokenomics_def word_gt_0 split: option.split)
  have "vesting_inv t base m'"
    by (rule vesting_inv_replace [OF inv p(1) ok' _ f(1,2)])
      (use lock circ lp sum in \<open>simp_all add: f p'\<close>)
  moreover have "hm_sum forfeited_of (tm_vesting_positions m') = hm_sum forfeited_of (tm_vesting_positions m)"
    using old [of forfeited_of] by (simp add: f p')
  moreover have "hm_sum (\<lambda>p. unat (vp_total_amount p)) (tm_vesting_positions m')
      = hm_sum (\<lambda>p. unat (vp_total_amount p)) (tm_vesting_positions m)"
    using old [of "\<lambda>p. unat (vp_total_amount p)"] by (simp add: f p')
  ultimately show thesis using that [OF m'] f circ by simp
qed

lemma revoke_step:
  assumes inv: "vesting_inv t base m"
  obtains m' r where "revoke_position m i t = Some (m', r)" and "vesting_inv t base m'"
    and "hm_sum forfeited_of (tm_vesting_positions m') = hm_sum forfeited_of (tm_vesting_positions m) + ok_amount r"
    and "tm_circulating_supply m' = tm_circulating_supply m"
    and "tm_next_position_id m' = tm_next_position_id m"
    and "hm_sum (\<lambda>p. unat (vp_total_amount p)) (tm_vesting_positions m')
      = hm_sum (\<lambda>p. unat (vp_total_amount p)) (tm_vesting_positions m)"
proof (cases "\<exists>p. hm_get (tm_vesting_positions m) i = Some p \<and> vp_revocable p \<and> \<not> vp_revoked p")
  case False
  then have "\<exists>e. revoke_position m i t = Some (m, Err e)"
    by (auto simp: revoke_position_def split: option.split)
  with inv that show thesis by auto
next
  case True
  then obtain p where p: "hm_get (tm_vesting_positions m) i = Some p" "vp_revocable p" "\<not> vp_revoked p" by blast
  then have ok: "position_ok t p" using inv by (simp add: vesting_inv_def)
  obtain v where v: "position_vested_amount p t = Some v" "unat v = position_vested p t"
    using position_vested_amount_exact [OF ok] by blast
  define u where "u = saturating_sub (vp_total_amount p) v"
  let ?p = "revoked_position p t"
  have uu: "unat u = unat (vp_total_amount p) - position_vested p t"
    by (simp add: u_def unat_saturating_sub v)
  have ent: "entitlement p = unat (vp_total_amount p)" using p by (simp add: entitlement_def)
  have vle: "position_vested p t \<le> unat (vp_total_amount p)"
    using position_vested_le_entitlement [OF ok] ent by simp
  have cle: "unat (vp_claimed_amount p) \<le> position_vested p t" using ok by (simp add: position_ok_def)
  have lp: "locked_of p = locked_of ?p + unat u"
    using uu vle cle by (simp add: locked_of_def ent position_revoke [OF p(3)])
  have fp: "forfeited_of ?p = forfeited_of p + unat u"
    using uu by (simp add: forfeited_of_def ent position_revoke [OF p(3)])
  note old = hm_sum_insert_old [OF p(1), where v = ?p]
  have lock: "unat (tm_total_vesting_locked m - u) = unat (tm_total_vesting_locked m) - unat u"
    "unat u \<le> unat (tm_total_vesting_locked m)"
    using hm_sum_ge [OF p(1), of locked_of] inv lp by (auto simp: vesting_inv_def unat_sub word_le_nat_alt)
  obtain m' where m': "revoke_position m i t = Some (m', Ok u)"
    and f: "tm_vesting_positions m' = hm_insert i ?p (tm_vesting_positions m)"
      "tm_next_position_id m' = tm_next_position_id m"
      "tm_total_vesting_locked m' = tm_total_vesting_locked m - u"
      "tm_circulating_supply m' = tm_circulating_supply m"
    using p v by (simp add: revoke_position_def Let_def emit_tokenomics_def u_def)
  have "vesting_inv t base m'"
    by (rule vesting_inv_replace [OF inv p(1) position_ok_revoke [OF ok p(3)] _ f(1,2)])
      (use lock lp in \<open>simp_all add: f\<close>)
  moreover have "hm_sum forfeited_of (tm_vesting_positions m') = hm_sum forfeited_of (tm_vesting_positions m) + unat u"
    using old [of forfeited_of] fp by (simp add: f)
  moreover have "hm_sum (\<lambda>p. unat (vp_total_amount p)) (tm_vesting_positions m')
      = hm_sum (\<lambda>p. unat (vp_total_amount p)) (tm_vesting_positions m)"
    using old [of "\<lambda>p. unat (vp_total_amount p)"] by (simp add: f)
  ultimately show thesis using that [OF m'] f by simp
qed

abbreviation allocated :: "tokenomics_manager \<Rightarrow> nat" where
  "allocated m \<equiv> hm_sum (\<lambda>p. unat (vp_total_amount p)) (tm_vesting_positions m)"

abbreviation forfeited :: "tokenomics_manager \<Rightarrow> nat" where
  "forfeited m \<equiv> hm_sum forfeited_of (tm_vesting_positions m)"

lemma create_sums:
  assumes inv: "vesting_inv t base m"
  shows "allocated (fst (create_vesting_position m b a c s st r)) = allocated m + unat a"
    and "forfeited (fst (create_vesting_position m b a c s st r)) = forfeited m"
    and "tm_circulating_supply (fst (create_vesting_position m b a c s st r)) = tm_circulating_supply m"
    and "tm_next_position_id (fst (create_vesting_position m b a c s st r)) = tm_next_position_id m + 1"
proof -
  have fresh: "hm_get (tm_vesting_positions m) (tm_next_position_id m) = None"
    using inv by (cases "hm_get (tm_vesting_positions m) (tm_next_position_id m)") (auto simp: vesting_inv_def)
  note ins = hm_sum_insert_fresh [OF fresh]
  show "allocated (fst (create_vesting_position m b a c s st r)) = allocated m + unat a"
    and "forfeited (fst (create_vesting_position m b a c s st r)) = forfeited m"
    and "tm_circulating_supply (fst (create_vesting_position m b a c s st r)) = tm_circulating_supply m"
    and "tm_next_position_id (fst (create_vesting_position m b a c s st r)) = tm_next_position_id m + 1"
    by (simp_all add: create_vesting_position_def Let_def emit_tokenomics_def ins forfeited_of_def entitlement_def)
qed

lemma vesting_step_inv:
  assumes inv: "vesting_inv t base m" and ok: "op_ok op"
    and room: "allocated m + created_by op + base < 2 ^ 128"
    and nxt: "unat (tm_next_position_id m) + 1 < 2 ^ 64"
  obtains m' p r where "vesting_step t op m = Some (m', p, r)" and "vesting_inv t base m'"
    and "allocated m' = allocated m + created_by op" and "forfeited m' = forfeited m + r"
    and "unat (tm_circulating_supply m') = unat (tm_circulating_supply m) + p"
    and "unat (tm_next_position_id m') \<le> unat (tm_next_position_id m) + 1"
proof (cases op)
  case (CreatePosition b a c s st r)
  have "vesting_inv t base (fst (create_vesting_position m b a c s st r))"
    by (rule vesting_inv_create [OF inv]) (use ok room nxt in \<open>simp_all add: CreatePosition\<close>)
  moreover have "unat (tm_next_position_id m + 1) = unat (tm_next_position_id m) + 1"
    using nxt by (subst unat_add_exact) simp_all
  ultimately show thesis
    using create_sums [OF inv, of b a c s st r] by (intro that) (auto simp: CreatePosition)
next
  case (ClaimPosition i who)
  show thesis
    by (rule claim_vested_step [OF inv, of i who]) (auto intro!: that simp: ClaimPosition)
next
  case (RevokePosition i)
  show thesis
    by (rule revoke_step [OF inv, of i]) (auto intro!: that simp: RevokePosition)
qed

lemma vesting_run_inv:
  assumes "vesting_inv t base m" and "sorted (t # map fst ops)"
    and "\<And>op. op \<in> snd ` set ops \<Longrightarrow> op_ok op"
    and "allocated m + (\<Sum>op\<leftarrow>map snd ops. created_by op) + base < 2 ^ 128"
    and "unat (tm_next_position_id m) + length ops < 2 ^ 64"
  shows "\<exists>m' p r. vesting_run ops m = Some (m', p, r) \<and> vesting_inv (last (t # map fst ops)) base m'
    \<and> allocated m' = allocated m + (\<Sum>op\<leftarrow>map snd ops. created_by op) \<and> forfeited m' = forfeited m + r
    \<and> unat (tm_circulating_supply m') = unat (tm_circulating_supply m) + p"
  using assms
proof (induction ops arbitrary: t m)
  case (Cons x ops)
  obtain t1 op where x: "x = (t1, op)" by fastforce
  have inv: "vesting_inv t1 base m" using Cons.prems(1,2) x by (auto intro: vesting_inv_later)
  have op: "op_ok op" "allocated m + created_by op + base < 2 ^ 128" "unat (tm_next_position_id m) + 1 < 2 ^ 64"
    using Cons.prems(3-5) x by auto
  obtain m1 p1 r1 where m1: "vesting_step t1 op m = Some (m1, p1, r1)" "vesting_inv t1 base m1"
    "allocated m1 = allocated m + created_by op" "forfeited m1 = forfeited m + r1"
    "unat (tm_circulating_supply m1) = unat (tm_circulating_supply m) + p1"
    "unat (tm_next_position_id m1) \<le> unat (tm_next_position_id m) + 1"
    by (rule vesting_step_inv [OF inv op])
  have "\<exists>m' p r. vesting_run ops m1 = Some (m', p, r) \<and> vesting_inv (last (t1 # map fst ops)) base m'
    \<and> allocated m' = allocated m1 + (\<Sum>op\<leftarrow>map snd ops. created_by op) \<and> forfeited m' = forfeited m1 + r
    \<and> unat (tm_circulating_supply m') = unat (tm_circulating_supply m1) + p"
    by (rule Cons.IH [OF m1(2)]) (use Cons.prems(2-5) x m1 in auto)
  then show ?case using m1 x by auto
qed simp

lemma vesting_inv_new: "vesting_inv 0 0 (tokenomics_new config)"
  by (simp add: vesting_inv_def tokenomics_new_def)

end
