(* ===== verification/Tokenomics_Properties.thy ===== *)
theory Tokenomics_Properties
  imports Vesting
begin

text \<open>
  The properties of \<open>tokenomics.rs\<close>: vesting, emission, the accounting of positions, the burn curve and
  the fee split, and the supply after \<open>initialize_genesis\<close>.
\<close>

section \<open>The burn curve\<close>

abbreviation u64_max :: nat where
  "u64_max \<equiv> 2 ^ 64 - 1"

lemma unat_saturating_mul: "unat (saturating_mul a b :: u64) = min (unat a * unat b) u64_max"
  by (auto simp: saturating_mul_def unat_max_val unat_mult_exact min_def)

lemma min_mult_min: "(f::nat) > 0 \<Longrightarrow> min (min x m * f) m = min (x * f) m"
proof (cases "x \<le> m")
  case False
  assume f: "f > 0"
  with False have "m \<le> m * f" "m \<le> x * f"
    by (simp, metis One_nat_def Suc_leI f mult_le_mono nat_le_linear nat_mult_1_right)
  with False show ?thesis by simp
qed simp

lemma burn_powers_exact:
  "unat (fst (burn_powers n f)) = min (unat f ^ n) u64_max"
  "unat (snd (burn_powers n f)) = min (10000 ^ n) u64_max"
proof (induction n)
  case (Suc n)
  {
    case 1
    show ?case
    proof (cases "unat f = 0")
      case False
      then show ?thesis using Suc(1) min_mult_min [of "unat f" "unat f ^ n" u64_max]
        by (simp add: case_prod_unfold unat_saturating_mul mult.commute del: unat_eq_zero)
    qed (simp add: case_prod_unfold unat_saturating_mul)
  next
    case 2
    show ?case using Suc(2) min_mult_min [of 10000 "10000 ^ n" u64_max]
      by (simp add: case_prod_unfold unat_saturating_mul mult.commute)
  }
qed simp_all

text \<open>The added rate on natural numbers: both powers saturate at 64 bits.\<close>

definition curve :: "nat \<Rightarrow> nat \<Rightarrow> nat \<Rightarrow> nat" where
  "curve width e f = width * min (f ^ e) u64_max div min (10000 ^ e) u64_max"

lemma curve_mono: "f \<le> f' \<Longrightarrow> curve width e f \<le> curve width e f'"
  unfolding curve_def
  by (intro div_le_mono mult_le_mono2 min.mono power_mono) simp_all

lemma curve_full: "curve width e 10000 = width"
  by (simp add: curve_def min_def)

lemma curve_le: "f \<le> 10000 \<Longrightarrow> curve width e f \<le> width"
  using curve_mono [of f 10000 width e] by (simp add: curve_full)

definition burn_config_ok :: "burn_config \<Rightarrow> bool" where
  "burn_config_ok c \<longleftrightarrow> bu_min_burn_rate_bps c \<le> bu_max_burn_rate_bps c
     \<and> bu_max_burn_rate_bps c \<le> 10000 \<and> bu_smoothing_factor c \<le> 100"

lemma burn_rate_exact:
  assumes ok: "burn_config_ok c" and f: "f \<le> 10000"
  shows "unat (calculate_burn_rate c f) = unat (bu_min_burn_rate_bps c)
    + curve (unat (bu_max_burn_rate_bps c) - unat (bu_min_burn_rate_bps c)) (unat (bu_curve_exponent c)) (unat f)"
proof -
  let ?min = "bu_min_burn_rate_bps c" and ?max = "bu_max_burn_rate_bps c"
  let ?e = "unat (bu_curve_exponent c)"
  let ?r = "ucast (?max - ?min) :: u64"
  let ?n = "fst (burn_powers ?e (ucast f))" and ?d = "snd (burn_powers ?e (ucast f))"
  have r: "unat ?r = unat ?max - unat ?min"
    using ok by (simp add: burn_config_ok_def unat_sub)
  have mn: "unat ?min \<le> unat ?max" using ok by (simp add: burn_config_ok_def word_le_nat_alt)
  have mx: "unat ?max \<le> 10000" using ok by (simp add: burn_config_ok_def word_le_nat_alt)
  have "unat ?r * unat ?n \<le> 10000 * 2 ^ 64"
    using r mx unat_bound64 [of ?n] by (intro mult_le_mono) simp_all
  then have m: "unat (ucast ?r * ucast ?n :: u128) = unat ?r * unat ?n"
    by (subst unat_mult_exact) simp_all
  have q: "unat (ucast ?r * ucast ?n div ucast ?d :: u128) = curve (unat ?r) ?e (unat f)"
    unfolding curve_def by (simp add: unat_div m burn_powers_exact)
  have le: "curve (unat ?r) ?e (unat f) \<le> unat ?r"
    using f by (intro curve_le) (simp add: word_le_nat_alt)
  then have "unat (ucast (ucast ?r * ucast ?n div ucast ?d :: u128) :: u16) = curve (unat ?r) ?e (unat f)"
    using q r mx by (subst unat_ucast_small) simp_all
  moreover have "unat ?min + curve (unat ?r) ?e (unat f) \<le> unat ?max"
    using le r mn by linarith
  ultimately show ?thesis
    using mx by (simp add: calculate_burn_rate_def Let_def case_prod_unfold r [simplified])
      (subst unat_add_exact, simp_all)
qed

lemma burn_rate_bounds:
  assumes "burn_config_ok c" and "f \<le> 10000"
  shows "bu_min_burn_rate_bps c \<le> calculate_burn_rate c f" and "calculate_burn_rate c f \<le> bu_max_burn_rate_bps c"
proof -
  have "curve (unat (bu_max_burn_rate_bps c) - unat (bu_min_burn_rate_bps c)) (unat (bu_curve_exponent c)) (unat f)
      \<le> unat (bu_max_burn_rate_bps c) - unat (bu_min_burn_rate_bps c)"
    using assms(2) by (intro curve_le) (simp add: word_le_nat_alt)
  moreover have "unat (bu_min_burn_rate_bps c) \<le> unat (bu_max_burn_rate_bps c)"
    using assms(1) by (simp add: burn_config_ok_def word_le_nat_alt)
  ultimately show "bu_min_burn_rate_bps c \<le> calculate_burn_rate c f"
    and "calculate_burn_rate c f \<le> bu_max_burn_rate_bps c"
    unfolding word_le_nat_alt burn_rate_exact [OF assms] by linarith+
qed

lemma block_fullness_le: "used \<le> limit \<Longrightarrow> block_fullness used limit \<le> 10000"
  by (simp add: block_fullness_def gas_share_le)

lemma smoothed_le:
  assumes "avg \<le> 10000" and "full \<le> 10000" and "s \<le> 100"
  shows "(ucast ((ucast (avg :: u16) * (100 - ucast (s :: u8)) + ucast (full :: u16) * ucast s :: u32) div 100) :: u16) \<le> 10000"
proof -
  let ?s = "ucast s :: u32"
  have a: "unat avg \<le> 10000" and f: "unat full \<le> 10000" and s: "unat s \<le> 100"
    using assms by (simp_all add: word_le_nat_alt)
  have d: "unat (100 - ?s) = 100 - unat s" using s by (subst unat_sub) (simp_all add: word_le_nat_alt)
  have la: "unat avg * (100 - unat s) \<le> 10000 * (100 - unat s)" and lf: "unat full * unat s \<le> 10000 * unat s"
    using a f by simp_all
  have sum: "10000 * (100 - unat s) + 10000 * unat s = 1000000" using s by simp
  have m1: "unat (ucast avg * (100 - ?s)) = unat avg * (100 - unat s)"
    using order.strict_trans1 [OF la] d by (subst unat_mult_exact) simp_all
  have m2: "unat (ucast full * ?s) = unat full * unat s"
    using order.strict_trans1 [OF lf] s by (subst unat_mult_exact) simp_all
  have tot: "unat avg * (100 - unat s) + unat full * unat s \<le> 1000000" using la lf sum by linarith
  moreover have "unat (ucast avg * (100 - ?s) + ucast full * ?s) = unat avg * (100 - unat s) + unat full * unat s"
    using order.strict_trans1 [OF tot] m1 m2 by (subst unat_add_exact) simp_all
  ultimately have "unat ((ucast avg * (100 - ?s) + ucast full * ?s) div 100) \<le> 10000"
    by (simp add: unat_div)
  then show ?thesis by (simp add: word_le_nat_alt unat_ucast_small)
qed

definition engine_ok :: "adaptive_burn_engine \<Rightarrow> bool" where
  "engine_ok e \<longleftrightarrow> be_avg_utilization_bps e \<le> 10000
     \<and> bu_min_burn_rate_bps (be_config e) \<le> be_current_rate_bps e
     \<and> be_current_rate_bps e \<le> bu_max_burn_rate_bps (be_config e)"

lemma engine_update_ok:
  assumes "burn_config_ok (be_config e)" and "engine_ok e" and "used \<le> limit"
  shows "engine_ok (engine_update_block used limit e)"
  using assms smoothed_le [OF _ block_fullness_le [OF assms(3)]] burn_rate_bounds [OF assms(1)]
  by (simp add: engine_ok_def engine_update_block_def Let_def burn_config_ok_def)

section \<open>Fees\<close>

definition tokenomics_config_ok :: "tokenomics_config \<Rightarrow> bool" where
  "tokenomics_config_ok c \<longleftrightarrow> burn_config_ok (tc_burn_config c)
     \<and> tc_prover_fee_bps c \<le> 10000 \<and> tc_burn_fee_bps c \<le> 10000"

text \<open>The rate at which a fee is burned, in basis points.\<close>

definition fee_burn_rate :: "tokenomics_manager \<Rightarrow> u16 \<Rightarrow> u16" where
  "fee_burn_rate m f =
     (if tc_adaptive_burn_enabled (tm_config m) then calculate_burn_rate (be_config (tm_burn_engine m)) f
      else tc_burn_fee_bps (tm_config m))"

lemma process_fee_parts:
  assumes fee: "fee \<noteq> 0" "unat fee * 10000 < 2 ^ 128" and f: "f \<le> 10000"
    and ok: "tokenomics_config_ok (tm_config m)" "burn_config_ok (be_config (tm_burn_engine m))"
  obtains m' d where "process_fee m fee f = Some (m', d)" and "fd_total_fee d = fee"
    and "unat (fd_prover_amount d) + unat (fd_validator_amount d) + unat (fd_burn_amount d) = unat fee"
    and "unat (fd_burn_amount d) = unat fee * unat (fee_burn_rate m f) div 10000"
    and "m' = m\<lparr>tm_burn_engine := record_burn (fd_burn_amount d) (tm_burn_engine m)\<rparr>"
proof -
  define burn where "burn = fee * ucast (fee_burn_rate m f) div 10000"
  define rem where "rem = fee - burn"
  define prover where "prover = rem * ucast (tc_prover_fee_bps (tm_config m)) div 10000"
  have rate: "fee_burn_rate m f \<le> 10000"
    using ok f burn_rate_bounds(2) [OF ok(2) f]
    by (auto simp: fee_burn_rate_def tokenomics_config_ok_def burn_config_ok_def)
  note b = bps_share [OF rate fee(2), folded burn_def]
  have "burn \<le> fee" using b by (simp add: word_le_nat_alt)
  then have r: "unat rem = unat fee - unat burn" and rle: "unat burn \<le> unat fee"
    by (simp_all add: rem_def unat_sub word_le_nat_alt)
  then have room: "unat rem * 10000 < 2 ^ 128" using fee(2) by linarith
  have pr: "tc_prover_fee_bps (tm_config m) \<le> 10000" using ok by (simp add: tokenomics_config_ok_def)
  have p: "unat prover \<le> unat rem"
    using bps_share [OF pr room, folded prover_def] by simp
  then have v: "unat (rem - prover) = unat rem - unat prover"
    by (simp add: unat_sub word_le_nat_alt)
  let ?d = "\<lparr>fd_total_fee = fee, fd_prover_amount = prover, fd_validator_amount = rem - prover,
    fd_burn_amount = burn, fd_effective_burn_rate_bps = ucast ((burn * 10000) div fee)\<rparr>"
  have "process_fee m fee f = Some (m\<lparr>tm_burn_engine := record_burn burn (tm_burn_engine m)\<rparr>, ?d)"
    using fee(1)
    by (simp add: process_fee_def Let_def calculate_burn_def fee_burn_rate_def burn_def rem_def prover_def)
  moreover have "unat prover + unat (rem - prover) + unat burn = unat fee"
    using p v r rle by simp
  ultimately show thesis
    using b by (intro that [where d = ?d]) simp_all
qed

fun update_blocks :: "(u64 \<times> u64) list \<Rightarrow> tokenomics_manager \<Rightarrow> tokenomics_manager" where
  "update_blocks [] m = m"
| "update_blocks ((used, limit) # bs) m = update_blocks bs (tokenomics_update_block m used limit)"

lemma update_blocks_ok:
  assumes "engine_ok (tm_burn_engine m)" and "burn_config_ok (be_config (tm_burn_engine m))"
    and "list_all (\<lambda>(used, limit). used \<le> limit) bs"
  shows "engine_ok (tm_burn_engine (update_blocks bs m))
    \<and> be_config (tm_burn_engine (update_blocks bs m)) = be_config (tm_burn_engine m)
    \<and> tm_config (update_blocks bs m) = tm_config m"
  using assms
proof (induction bs m rule: update_blocks.induct)
  case (2 used limit bs m)
  have "be_config (engine_update_block used limit (tm_burn_engine m)) = be_config (tm_burn_engine m)"
    by (simp add: engine_update_block_def Let_def)
  with 2 engine_update_ok [of "tm_burn_engine m" used limit] show ?case
    by (simp add: tokenomics_update_block_def)
qed simp

section \<open>Properties\<close>

text \<open>
  Under a schedule whose products fit 128 bits, \<open>vested_amount\<close> never panics, equals its
  specification on natural numbers (the TGE share until the start; for a linear schedule nothing more
  until the cliff, then linear to the whole amount at the end; for an emission the halving sum), never
  exceeds the amount and never decreases with time.
\<close>

theorem vesting_follows_schedule:
  assumes "schedule_ok s amount" and "t1 \<le> t2"
  shows "\<exists>v1 v2. schedule_vested_amount s amount start t1 = Some v1
    \<and> schedule_vested_amount s amount start t2 = Some v2
    \<and> unat v1 = vested_at s amount start t1 \<and> v1 \<le> v2 \<and> v2 \<le> amount"
proof -
  obtain v1 v2 where "schedule_vested_amount s amount start t1 = Some v1" "unat v1 = vested_at s amount start t1"
    and "schedule_vested_amount s amount start t2 = Some v2" "unat v2 = vested_at s amount start t2"
    using schedule_SomeE [OF assms(1)] by metis
  then show ?thesis
    using vested_at_mono [OF assms] vested_at_le [OF assms(1)] by (simp add: word_le_nat_alt)
qed

theorem vesting_follows_schedule_witness:
  "\<exists>v1 v2. schedule_vested_amount (category_schedule StrategicSeed) STRATEGIC_SEED_POOL 1000 31537000 = Some v1
    \<and> schedule_vested_amount (category_schedule StrategicSeed) STRATEGIC_SEED_POOL 1000 63073000 = Some v2
    \<and> v1 \<le> v2 \<and> v2 \<le> STRATEGIC_SEED_POOL"
  using vesting_follows_schedule [of "category_schedule StrategicSeed" STRATEGIC_SEED_POOL 31537000 63073000 1000]
  by (auto simp: SECONDS_PER_YEAR_def STRATEGIC_SEED_POOL_def ONE_AETHEL_def)

text \<open>
  The halving loop of \<open>calculate_emission_vested\<close> computes the closed form: before the end, the sum
  of \<open>pool/4\<close> halved once per full period plus the linear part of the current period (dropped from the
  thirteenth period on). That is at most half of the pool; at \<open>total_duration\<close> the whole pool counts as
  emitted, so at least half of it appears in the last second.
\<close>

theorem emission_is_halving_sum:
  assumes "halving \<noteq> 0" and "unat pool * unat halving < 2 ^ 128" and "elapsed < duration"
  shows "\<exists>v. calculate_emission_vested pool elapsed halving duration = Some v
    \<and> unat v = emission_closed (unat pool div 4) (unat halving) (unat elapsed)
    \<and> unat v \<le> unat pool div 2
    \<and> calculate_emission_vested pool duration halving duration = Some pool"
proof -
  let ?e = "emission_closed (unat pool div 4) (unat halving) (unat elapsed)"
  have "?e \<le> unat pool div 2" by (rule emission_half)
  moreover from this have "unat (of_nat ?e :: token_amount) = ?e"
    using unat_bound128 [of pool] by (simp only: unsigned_of_nat) (simp add: take_bit_nat_eq_self)
  ultimately show ?thesis
    using emission_exact [OF assms(1,2)] assms(3) by (simp add: not_le [symmetric])
qed

theorem emission_is_halving_sum_witness:
  "\<exists>v. calculate_emission_vested COMPUTE_POUW_POOL (TOTAL_EMISSION_DURATION_SECS - 1)
      HALVING_INTERVAL_SECS TOTAL_EMISSION_DURATION_SECS = Some v
    \<and> unat v \<le> unat COMPUTE_POUW_POOL div 2
    \<and> calculate_emission_vested COMPUTE_POUW_POOL TOTAL_EMISSION_DURATION_SECS
        HALVING_INTERVAL_SECS TOTAL_EMISSION_DURATION_SECS = Some COMPUTE_POUW_POOL"
  using emission_is_halving_sum [of HALVING_INTERVAL_SECS COMPUTE_POUW_POOL "TOTAL_EMISSION_DURATION_SECS - 1"
      TOTAL_EMISSION_DURATION_SECS]
  by (auto simp: HALVING_INTERVAL_SECS_def TOTAL_EMISSION_DURATION_SECS_def COMPUTE_POUW_POOL_def ONE_AETHEL_def)

text \<open>
  C16. Take any sequence of fewer than 2^64 - 1 \<open>create_vesting_position\<close>, \<open>claim_vested\<close> and \<open>revoke_position\<close> calls at
  non-decreasing times on a new manager, with less than 2^128 allocated in all, whose schedules, those of the categories and custom ones alike,
  are sane (\<open>schedule_ok\<close>): a linear schedule releases at most 100 percent at the start, an emission has a halving interval other
  than zero, and amount times percent, duration or interval fits 128 bits. The code checks none of this for a custom schedule
  (\<open>custom_schedules_unchecked\<close>). Then no call panics; what was paid
  out is the circulating supply; paid out, locked and taken back add up to what was allocated; the
  locked total is the sum over the positions; and no position was paid more than had vested.
\<close>

theorem vesting_conserves:
  assumes "sorted (map fst calls)" and "list_all (\<lambda>(t, op). op_ok op) calls"
    and "(\<Sum>op\<leftarrow>map snd calls. created_by op) < 2 ^ 128" and "length calls < 2 ^ 64 - 1"
  shows "\<exists>m paid returned. vesting_run calls (tokenomics_new config) = Some (m, paid, returned)
    \<and> unat (tm_circulating_supply m) = paid
    \<and> paid + unat (tm_total_vesting_locked m) + returned = (\<Sum>op\<leftarrow>map snd calls. created_by op)
    \<and> unat (tm_total_vesting_locked m) = hm_sum locked_of (tm_vesting_positions m)
    \<and> (\<forall>i p. hm_get (tm_vesting_positions m) i = Some p \<longrightarrow>
         unat (vp_claimed_amount p) \<le> position_vested p (last (0 # map fst calls))
         \<and> position_vested p (last (0 # map fst calls)) \<le> unat (vp_total_amount p))"
proof -
  let ?t = "last (0 # map fst calls)"
  have "\<exists>m p r. vesting_run calls (tokenomics_new config) = Some (m, p, r) \<and> vesting_inv ?t 0 m
    \<and> allocated m = allocated (tokenomics_new config) + (\<Sum>op\<leftarrow>map snd calls. created_by op)
    \<and> forfeited m = forfeited (tokenomics_new config) + r
    \<and> unat (tm_circulating_supply m) = unat (tm_circulating_supply (tokenomics_new config)) + p"
    using assms by (intro vesting_run_inv vesting_inv_new) (auto simp: tokenomics_new_def list_all_iff)
  then obtain m p r where run: "vesting_run calls (tokenomics_new config) = Some (m, p, r)"
    and inv: "vesting_inv ?t 0 m" and sums: "allocated m = (\<Sum>op\<leftarrow>map snd calls. created_by op)"
      "forfeited m = r" "unat (tm_circulating_supply m) = p"
    by (auto simp: tokenomics_new_def)
  have ok: "position_ok ?t q" if "hm_get (tm_vesting_positions m) i = Some q" for i q
    using inv that by (simp add: vesting_inv_def)
  have "unat (vp_claimed_amount q) \<le> position_vested q ?t \<and> position_vested q ?t \<le> unat (vp_total_amount q)"
    if "hm_get (tm_vesting_positions m) i = Some q" for i q
    using ok [OF that] position_vested_le_entitlement [OF ok [OF that]] entitlement_le [OF ok [OF that]]
    by (simp add: position_ok_def)
  moreover have "p + unat (tm_total_vesting_locked m) + r = allocated m"
    using vesting_inv_parts [OF inv] inv sums by (simp add: vesting_inv_def)
  ultimately show ?thesis
    using run sums inv by (auto simp: vesting_inv_def)
qed

theorem vesting_conserves_witness:
  "\<exists>m paid returned.
    vesting_run [(0, CreatePosition [1] 1000 StrategicSeed None 0 True),
                 (47304000, ClaimPosition 1 [1]), (63072000, RevokePosition 1)]
      (tokenomics_new tokenomics_config_mainnet) = Some (m, paid, returned)
    \<and> unat (tm_circulating_supply m) = paid
    \<and> paid + unat (tm_total_vesting_locked m) + returned = 1000"
proof -
  let ?calls = "[(0, CreatePosition [1] 1000 StrategicSeed None 0 True), (47304000, ClaimPosition 1 [1]),
    (63072000, RevokePosition 1)]"
  have "(\<Sum>op\<leftarrow>map snd ?calls. created_by op) = 1000" by simp
  moreover have "list_all (\<lambda>(t, op). op_ok op) ?calls" by (simp add: SECONDS_PER_YEAR_def)
  ultimately show ?thesis
    using vesting_conserves [of ?calls tokenomics_config_mainnet] by (auto simp del: vesting_run.simps)
qed

text \<open>
  \<open>create_vesting_position\<close> takes any custom schedule. One that releases 150 percent at the start pays 1500 tokens of the 1000 allocated
  and wraps the locked total; an emission with a halving interval of zero panics on the first claim.
\<close>

theorem custom_schedules_unchecked:
  "\<exists>m. vesting_run [(0, CreatePosition [1] 1000 StrategicSeed (Some (Linear 10 100 150)) 0 True), (1, ClaimPosition 1 [1])]
      (tokenomics_new tokenomics_config_mainnet) = Some (m, 1500, 0) \<and> tm_total_vesting_locked m = - 500"
  "vesting_run [(0, CreatePosition [1] 1000 StrategicSeed (Some (Emission 0 100)) 0 True), (1, ClaimPosition 1 [1])]
      (tokenomics_new tokenomics_config_mainnet) = None"
  by (simp_all add: create_vesting_position_def claim_vested_def tokenomics_new_def Let_def emit_tokenomics_def hm_insert_def hm_get_def hm_entry_def
      category_stats_default_def claim_def claimable_amount_def position_vested_amount_def position_schedule_def schedule_vested_amount_def
      calculate_emission_vested_def saturating_sub_def word_le_nat_alt word_less_nat_alt)

text \<open>
  From a sane configuration and after any blocks whose gas used is within the limit, the smoothed
  utilization is at most 10000 basis points and the current burn rate is within the configured band.
  The rate at a fullness is exactly the band's minimum plus the curve, whose powers saturate at 64 bits.
  Then \<open>process_fee\<close> of a positive fee pays prover, validators and the burn parts that add up to the
  fee, the burned part being the rate's share and the only change of the state; a zero fee panics.
\<close>

theorem burn_and_fee_split:
  assumes ok: "tokenomics_config_ok config" and bs: "list_all (\<lambda>(used, limit). used \<le> limit) blocks"
    and f: "fullness \<le> 10000" and fee: "fee \<noteq> 0" "unat fee * 10000 < 2 ^ 128"
    and m: "m = update_blocks blocks (tokenomics_new config)"
  shows "engine_ok (tm_burn_engine m)
    \<and> unat (calculate_burn_rate (tc_burn_config config) fullness) = unat (bu_min_burn_rate_bps (tc_burn_config config))
        + curve (unat (bu_max_burn_rate_bps (tc_burn_config config)) - unat (bu_min_burn_rate_bps (tc_burn_config config)))
            (unat (bu_curve_exponent (tc_burn_config config))) (unat fullness)
    \<and> (\<exists>m' d. process_fee m fee fullness = Some (m', d)
        \<and> unat (fd_prover_amount d) + unat (fd_validator_amount d) + unat (fd_burn_amount d) = unat fee
        \<and> unat (fd_burn_amount d) = unat fee * unat (fee_burn_rate m fullness) div 10000
        \<and> m' = m\<lparr>tm_burn_engine := record_burn (fd_burn_amount d) (tm_burn_engine m)\<rparr>)
    \<and> process_fee m 0 fullness = None"
proof -
  have c: "burn_config_ok (tc_burn_config config)" using ok by (simp add: tokenomics_config_ok_def)
  have "engine_ok (tm_burn_engine (tokenomics_new config))"
    using c by (simp add: tokenomics_new_def burn_engine_new_def engine_ok_def burn_config_ok_def)
  then have e: "engine_ok (tm_burn_engine m)" "be_config (tm_burn_engine m) = tc_burn_config config"
    "tm_config m = config"
    using update_blocks_ok [of "tokenomics_new config" blocks] c bs
    by (simp_all add: m tokenomics_new_def burn_engine_new_def)
  obtain m' d where "process_fee m fee fullness = Some (m', d)"
    "unat (fd_prover_amount d) + unat (fd_validator_amount d) + unat (fd_burn_amount d) = unat fee"
    "unat (fd_burn_amount d) = unat fee * unat (fee_burn_rate m fullness) div 10000"
    "m' = m\<lparr>tm_burn_engine := record_burn (fd_burn_amount d) (tm_burn_engine m)\<rparr>"
    using process_fee_parts [OF fee f, of m] ok c e(2,3) by metis
  moreover have "process_fee m 0 fullness = None" by (simp add: process_fee_def)
  ultimately show ?thesis
    using e(1) burn_rate_exact [OF c f] by blast
qed

theorem burn_and_fee_split_witness:
  "\<exists>m' d. process_fee (update_blocks [(15000000, 30000000), (30000000, 30000000)] (tokenomics_new tokenomics_config_mainnet))
      1000 5000 = Some (m', d)
    \<and> unat (fd_prover_amount d) + unat (fd_validator_amount d) + unat (fd_burn_amount d) = 1000"
  using burn_and_fee_split [of tokenomics_config_mainnet "[(15000000, 30000000), (30000000, 30000000)]" 5000 1000]
  by (auto simp: tokenomics_config_ok_def burn_config_ok_def tokenomics_config_mainnet_def burn_config_default_def
      MIN_BURN_RATE_BPS_def MAX_BURN_RATE_BPS_def)

definition pool_allocation :: "allocation_category \<Rightarrow> genesis_allocation" where
  "pool_allocation c = \<lparr>ga_beneficiary = [1], ga_amount = total_allocation c, ga_category = c,
     ga_custom_schedule = None, ga_revocable = False\<rparr>"

lemmas pool_simps = COMPUTE_POUW_POOL_def CORE_CONTRIBUTORS_POOL_def ECOSYSTEM_GRANTS_POOL_def STRATEGIC_SEED_POOL_def
  PUBLIC_SALES_POOL_def AIRDROP_SEALS_POOL_def TREASURY_MM_POOL_def INSURANCE_FUND_POOL_def
  CONTINGENCY_RESERVE_POOL_def TOTAL_GENESIS_SUPPLY_def ONE_AETHEL_def

lemma create_positions_totals:
  assumes "unat (tm_total_vesting_locked m) + (\<Sum>a\<leftarrow>as. unat (ga_amount a)) < 2 ^ 128"
  shows "unat (tm_total_vesting_locked (create_positions as m))
      = unat (tm_total_vesting_locked m) + (\<Sum>a\<leftarrow>as. unat (ga_amount a))
    \<and> tm_circulating_supply (create_positions as m) = tm_circulating_supply m"
  using assms
proof (induction as arbitrary: m)
  case (Cons a as)
  let ?m = "fst (create_vesting_position m (ga_beneficiary a) (ga_amount a) (ga_category a)
    (ga_custom_schedule a) (tc_genesis_time (tm_config m)) (ga_revocable a))"
  have l: "unat (tm_total_vesting_locked ?m) = unat (tm_total_vesting_locked m) + unat (ga_amount a)"
    using Cons.prems by (simp add: create_vesting_position_def Let_def emit_tokenomics_def)
      (subst unat_add_exact, simp_all)
  moreover have "tm_circulating_supply ?m = tm_circulating_supply m"
    by (simp add: create_vesting_position_def Let_def emit_tokenomics_def)
  ultimately show ?case using Cons.IH [of ?m] Cons.prems by simp
qed simp

text \<open>
  \<open>initialize_genesis\<close> locks every allocation in a vesting position and then adds the whole public
  sales pool to the circulating supply, though the public sales allocation is among the positions: the
  recorded supply is the allocations plus 750 million tokens.
\<close>

theorem genesis_counts_public_sales_twice:
  assumes "(\<Sum>a\<leftarrow>allocations. unat (ga_amount a)) < 2 ^ 128"
  shows "let m = fst (initialize_genesis (tokenomics_new config) allocations)
    in snd (initialize_genesis (tokenomics_new config) allocations) = Ok ()
      \<and> unat (tm_total_vesting_locked m) = (\<Sum>a\<leftarrow>allocations. unat (ga_amount a))
      \<and> unat (tm_circulating_supply m) + unat (tm_total_vesting_locked m)
          = (\<Sum>a\<leftarrow>allocations. unat (ga_amount a)) + unat PUBLIC_SALES_POOL"
  using create_positions_totals [of "tokenomics_new config" allocations] assms
  by (simp add: initialize_genesis_def Let_def emit_tokenomics_def) (simp add: tokenomics_new_def)

theorem genesis_counts_public_sales_twice_witness:
  "let m = fst (initialize_genesis (tokenomics_new tokenomics_config_mainnet)
      (map pool_allocation [ComputePoUW, CoreContributors, EcosystemGrants, StrategicSeed, PublicSales,
        AirdropSeals, TreasuryMM, InsuranceFund, ContingencyReserve]))
   in unat (tm_circulating_supply m) + unat (tm_total_vesting_locked m)
     = unat TOTAL_GENESIS_SUPPLY + unat PUBLIC_SALES_POOL"
  using genesis_counts_public_sales_twice [of "map pool_allocation [ComputePoUW, CoreContributors, EcosystemGrants,
      StrategicSeed, PublicSales, AirdropSeals, TreasuryMM, InsuranceFund, ContingencyReserve]" tokenomics_config_mainnet]
  by (simp add: pool_allocation_def pool_simps Let_def)

end
