(* ===== verification/Slashing.thy ===== *)
theory Slashing
  imports Bank
begin

text \<open>
  \<open>src/crates/vm/src/system_contracts/slashing.rs\<close>: offenses and their severity, evidence, the
  challenge-response mechanism with its committees, attestation challenges, reliability scores, bans
  and tombstones, and the manager that owns them.

  The manager reaches the bank through an \<open>Arc<RwLock<Bank>>\<close> whose guards live for one statement, so
  the bank is a field of the state here. SHA-256 (\<open>sha2\<close>) and \<open>serde_json::to_vec\<close> of an evidence are
  parameters: \<open>sha256\<close> and \<open>evidence_json\<close>. A \<open>usize\<close> count is a natural number, a \<open>Duration\<close> its number of
  seconds.
\<close>

section \<open>Constants\<close>

definition MAX_ATTESTATION_AGE_SECS :: u64 where
  "MAX_ATTESTATION_AGE_SECS = 24 * 60 * 60"

definition ATTESTATION_CHALLENGE_INTERVAL_SECS :: u64 where
  "ATTESTATION_CHALLENGE_INTERVAL_SECS = 4 * 60 * 60"

definition ATTESTATION_CHALLENGE_SAMPLE_PERCENT :: u8 where
  "ATTESTATION_CHALLENGE_SAMPLE_PERCENT = 5"

definition CHALLENGE_RESPONSE_WINDOW_SECS :: u64 where
  "CHALLENGE_RESPONSE_WINDOW_SECS = 10 * 60"

definition VERIFICATION_COMMITTEE_SIZE :: nat where
  "VERIFICATION_COMMITTEE_SIZE = 3"

text \<open>The literal \<open>0.67\<close> as the nearest \<open>f64\<close>.\<close>

definition COMMITTEE_AGREEMENT_THRESHOLD :: f64 where
  "COMMITTEE_AGREEMENT_THRESHOLD = Fin (f64_round (67 / 100))"

definition TOMBSTONE_DURATION_SECS :: u64 where
  "TOMBSTONE_DURATION_SECS = 100 * 365 * 24 * 60 * 60"

definition TIER2_BAN_DURATION_SECS :: u64 where
  "TIER2_BAN_DURATION_SECS = 30 * 24 * 60 * 60"

definition TIER3_SUSPENSION_DURATION_SECS :: u64 where
  "TIER3_SUSPENSION_DURATION_SECS = 24 * 60 * 60"

definition CHALLENGER_REWARD_PERCENT :: u8 where
  "CHALLENGER_REWARD_PERCENT = 50"

definition SPAM_CHALLENGE_PENALTY_PERCENT :: u8 where
  "SPAM_CHALLENGE_PENALTY_PERCENT = 20"

section \<open>Offenses\<close>

datatype offense_severity = Performance | Malicious | Critical

fun slash_percent :: "offense_severity \<Rightarrow> u8" where
  "slash_percent Performance = 5"
| "slash_percent Malicious = 50"
| "slash_percent Critical = 100"

fun ban_duration :: "offense_severity \<Rightarrow> u64" where
  "ban_duration Performance = TIER3_SUSPENSION_DURATION_SECS"
| "ban_duration Malicious = TIER2_BAN_DURATION_SECS"
| "ban_duration Critical = TOMBSTONE_DURATION_SECS"

definition is_tombstone :: "offense_severity \<Rightarrow> bool" where
  "is_tombstone s = (s = Critical)"

definition severity :: "offense_type \<Rightarrow> offense_severity" where
  "severity t =
     (case t of
        InvalidZkProof \<Rightarrow> Critical | ForgedTeeSignature \<Rightarrow> Critical
      | HardwareSpoofing \<Rightarrow> Critical | FabricatedResult \<Rightarrow> Critical
      | CommitteeManipulation \<Rightarrow> Critical
      | DoubleSign \<Rightarrow> Malicious | Equivocation \<Rightarrow> Malicious | VoteTampering \<Rightarrow> Malicious
      | CollusionDetected \<Rightarrow> Malicious | ResultPlagiarism \<Rightarrow> Malicious
      | SlaTimeout \<Rightarrow> Performance | LateDelivery \<Rightarrow> Performance
      | IncompleteResult \<Rightarrow> Performance | AttestationChallengeFailure \<Rightarrow> Performance
      | JobAbandonment \<Rightarrow> Performance | LowReliability \<Rightarrow> Performance)"

definition offense_description :: "offense_type \<Rightarrow> string" where
  "offense_description t =
     (case t of
        InvalidZkProof \<Rightarrow> ''Submitted cryptographically invalid zero-knowledge proof''
      | ForgedTeeSignature \<Rightarrow> ''Forged or tampered TEE attestation signature''
      | HardwareSpoofing \<Rightarrow> ''Hardware spoofing - misrepresented TEE enclave type''
      | FabricatedResult \<Rightarrow> ''Fabricated computation result without valid proof''
      | CommitteeManipulation \<Rightarrow> ''Attempted manipulation of verification committee''
      | DoubleSign \<Rightarrow> ''Double-signed conflicting blocks at same height''
      | Equivocation \<Rightarrow> ''Signed conflicting consensus messages''
      | VoteTampering \<Rightarrow> ''Attempted to manipulate consensus votes''
      | CollusionDetected \<Rightarrow> ''Detected collusion with other network participants''
      | ResultPlagiarism \<Rightarrow> ''Copied computation results from another prover''
      | SlaTimeout \<Rightarrow> ''Failed to deliver result within SLA timeout''
      | LateDelivery \<Rightarrow> ''Delivered result after deadline but within grace''
      | IncompleteResult \<Rightarrow> ''Submitted incomplete or partial results''
      | AttestationChallengeFailure \<Rightarrow> ''Failed attestation verification challenge''
      | JobAbandonment \<Rightarrow> ''Excessive job abandonment rate''
      | LowReliability \<Rightarrow> ''Reliability score below minimum threshold'')"

section \<open>Evidence\<close>

record signed_block_header =
  bh_height :: u64
  bh_round :: u32
  bh_block_hash :: hash
  bh_timestamp :: u64
  bh_proposer :: address
  bh_signature :: bytes

datatype vote_type = Prevote | Precommit

record signed_vote =
  sv_height :: u64
  sv_round :: u32
  sv_vote_type :: vote_type
  sv_block_hash :: hash
  sv_voter :: address
  sv_timestamp :: u64
  sv_signature :: bytes

record proof_submission =
  ps_job_id :: job_id
  ps_prover :: address
  ps_result_hash :: hash
  ps_proof_hash :: hash
  ps_submission_time :: u64
  ps_block_height :: u64

datatype slashing_evidence =
    EvDoubleSign signed_block_header signed_block_header
  | EvEquivocation signed_vote signed_vote
  | EvInvalidProof bytes hash hash string
      \<comment> \<open>proof\_bytes, expected\_inputs\_hash, actual\_inputs\_hash, failure\_reason\<close>
  | EvForgedTeeAttestation tee_attestation string
  | EvHardwareSpoofing tee_type "tee_type option" string
  | EvSlaViolation job_id u64 "u64 option" "hash option"
      \<comment> \<open>job\_id, deadline, delivery\_time, expected\_result\_hash\<close>
  | EvResultPlagiarism proof_submission proof_submission u8
  | EvCommitteeVerification bytes "address list" "bool list" "bytes list"
      \<comment> \<open>original\_result, committee, votes, committee\_results\<close>
  | EvAttestationFailure hash u64 u64 bool
      \<comment> \<open>challenge\_id, challenge\_time, response\_deadline, response\_received\<close>
  | EvGeneric string bytes

record slashing_condition =
  co_offender :: address
  co_offense_type :: offense_type
  co_block_height :: u64
  co_timestamp :: u64
  co_evidence :: slashing_evidence
  co_reporter :: "address option"
  co_job_id :: "job_id option"

record slashing_result =
  sr_slashed_address :: address
  sr_burn_amount :: token_amount
  sr_reporter_reward :: token_amount
  sr_ban_until :: u64
  sr_tombstoned :: bool
  sr_events :: "slashing_event list"

section \<open>Challenges\<close>

datatype challenge_state =
    Pending | InProgress | Voting | ResolvedProverFault | ResolvedChallengerFault | Expired

record challenge_vote =
  cv_voter :: address
  cv_agrees_with_challenge :: bool
  cv_computed_result_hash :: hash
  cv_vote_time :: u64
  cv_signature :: bytes

record challenge =
  ch_id :: hash
  ch_job_id :: job_id
  ch_prover :: address
  ch_challenger :: address
  ch_original_result_hash :: hash
  ch_created_at :: u64
  ch_expires_at :: u64
  ch_state :: challenge_state
  ch_committee :: "address list"
  ch_committee_votes :: "(address, challenge_vote) hashmap"
  ch_challenger_stake_locked :: token_amount

record attestation_challenge =
  ac_id :: hash
  ac_target :: address
  ac_issued_at :: u64
  ac_deadline :: u64
  ac_response_received :: bool
  ac_attestation :: "tee_attestation option"
  ac_verified :: "bool option"

section \<open>Reliability\<close>

record reliability_metrics =
  rm_jobs_assigned :: u64
  rm_jobs_completed :: u64
  rm_jobs_failed :: u64
  rm_jobs_late :: u64
  rm_sla_violations :: u64
  rm_last_score :: u16
  rm_score_timestamp :: u64
  rm_recent_outcomes :: "bool list"

definition reliability_metrics_default :: reliability_metrics where
  "reliability_metrics_default =
     \<lparr>rm_jobs_assigned = 0, rm_jobs_completed = 0, rm_jobs_failed = 0, rm_jobs_late = 0,
      rm_sla_violations = 0, rm_last_score = 0, rm_score_timestamp = 0, rm_recent_outcomes = []\<rparr>"

definition ROLLING_WINDOW_SIZE :: nat where
  "ROLLING_WINDOW_SIZE = 100"

definition MIN_RELIABILITY_BPS :: u16 where
  "MIN_RELIABILITY_BPS = 9000"

definition calculate_score :: "reliability_metrics \<Rightarrow> u64 \<Rightarrow> reliability_metrics \<times> u16" where
  "calculate_score m current_time =
     (if rm_jobs_assigned m = 0 then (m, 10000)
      else
        let score = (if length (rm_recent_outcomes m) \<ge> 10
                     then of_nat (length (filter (\<lambda>x. x) (rm_recent_outcomes m)) * 10000
                                  div length (rm_recent_outcomes m))
                     else ucast (rm_jobs_completed m * 10000 div rm_jobs_assigned m))
        in (m\<lparr>rm_last_score := score, rm_score_timestamp := current_time\<rparr>, score))"

text \<open>\<open>pop_front\<close> until at most \<open>ROLLING_WINDOW_SIZE\<close> outcomes are left.\<close>

fun trim_window :: "bool list \<Rightarrow> bool list" where
  "trim_window [] = []"
| "trim_window (x # xs) = (if length (x # xs) > ROLLING_WINDOW_SIZE then trim_window xs else x # xs)"

definition record_outcome :: "reliability_metrics \<Rightarrow> bool \<Rightarrow> reliability_metrics" where
  "record_outcome m success =
     (let m = m\<lparr>rm_jobs_assigned := rm_jobs_assigned m + 1\<rparr>;
          m = (if success then m\<lparr>rm_jobs_completed := rm_jobs_completed m + 1\<rparr>
               else m\<lparr>rm_jobs_failed := rm_jobs_failed m + 1\<rparr>)
      in m\<lparr>rm_recent_outcomes := trim_window (rm_recent_outcomes m @ [success])\<rparr>)"

definition is_below_threshold :: "reliability_metrics \<Rightarrow> bool" where
  "is_below_threshold m = (rm_last_score m < MIN_RELIABILITY_BPS)"

section \<open>Bans\<close>

record ban_record =
  br_address :: address
  br_banned_at :: u64
  br_banned_until :: u64
  br_offense :: offense_type
  br_offense_count :: u32
  br_tombstoned :: bool
  br_associated_ips :: "string set"

definition ban_is_active :: "ban_record \<Rightarrow> u64 \<Rightarrow> bool" where
  "ban_is_active r current_time = (br_tombstoned r \<or> current_time < br_banned_until r)"

section \<open>Configuration and manager\<close>

record slashing_config =
  sl_enabled :: bool
  sl_tier1_slash_percent :: u8
  sl_tier2_slash_percent :: u8
  sl_tier3_slash_percent :: u8
  sl_challenger_reward_percent :: u8
  sl_spam_penalty_percent :: u8
  sl_challenge_window_secs :: u64
  sl_committee_size :: nat
  sl_committee_threshold :: f64
  sl_attestation_max_age_secs :: u64
  sl_attestation_challenge_interval_secs :: u64
  sl_attestation_sample_percent :: u8
  sl_min_reliability_bps :: u16

definition slashing_config_default :: slashing_config where
  "slashing_config_default =
     \<lparr>sl_enabled = True, sl_tier1_slash_percent = 100, sl_tier2_slash_percent = 50,
      sl_tier3_slash_percent = 5, sl_challenger_reward_percent = CHALLENGER_REWARD_PERCENT,
      sl_spam_penalty_percent = SPAM_CHALLENGE_PENALTY_PERCENT,
      sl_challenge_window_secs = CHALLENGE_RESPONSE_WINDOW_SECS,
      sl_committee_size = VERIFICATION_COMMITTEE_SIZE,
      sl_committee_threshold = COMMITTEE_AGREEMENT_THRESHOLD,
      sl_attestation_max_age_secs = MAX_ATTESTATION_AGE_SECS,
      sl_attestation_challenge_interval_secs = ATTESTATION_CHALLENGE_INTERVAL_SECS,
      sl_attestation_sample_percent = ATTESTATION_CHALLENGE_SAMPLE_PERCENT,
      sl_min_reliability_bps = MIN_RELIABILITY_BPS\<rparr>"

definition slashing_config_mainnet :: slashing_config where
  "slashing_config_mainnet = slashing_config_default"

definition slashing_config_testnet :: slashing_config where
  "slashing_config_testnet =
     slashing_config_default\<lparr>sl_tier1_slash_percent := 50, sl_tier2_slash_percent := 25,
       sl_tier3_slash_percent := 2, sl_challenge_window_secs := 5 * 60\<rparr>"

definition slashing_config_devnet :: slashing_config where
  "slashing_config_devnet =
     slashing_config_default\<lparr>sl_enabled := False, sl_tier1_slash_percent := 10,
       sl_tier2_slash_percent := 5, sl_tier3_slash_percent := 1, sl_challenge_window_secs := 60,
       sl_attestation_challenge_interval_secs := 60\<rparr>"

fun slash_percent_for_severity :: "slashing_config \<Rightarrow> offense_severity \<Rightarrow> u8" where
  "slash_percent_for_severity c Critical = sl_tier1_slash_percent c"
| "slash_percent_for_severity c Malicious = sl_tier2_slash_percent c"
| "slash_percent_for_severity c Performance = sl_tier3_slash_percent c"

record slashing_manager =
  sm_config :: slashing_config
  sm_bank :: bank
  sm_challenges :: "(hash, challenge) hashmap"
  sm_attestation_challenges :: "(hash, attestation_challenge) hashmap"
  sm_bans :: "(address, ban_record) hashmap"
  sm_tombstones :: "address set"
  sm_reliability :: "(address, reliability_metrics) hashmap"
  sm_offense_history :: "(address, slashing_condition list) hashmap"
  sm_total_slashed :: token_amount
  sm_total_burned :: token_amount
  sm_last_attestation_epoch :: u64
  sm_pending_slashes :: "slashing_condition list"
  sm_events :: "slashing_event list"

definition slashing_new :: "slashing_config \<Rightarrow> bank \<Rightarrow> slashing_manager" where
  "slashing_new config b =
     \<lparr>sm_config = config, sm_bank = b, sm_challenges = [], sm_attestation_challenges = [],
      sm_bans = [], sm_tombstones = {}, sm_reliability = [], sm_offense_history = [],
      sm_total_slashed = 0, sm_total_burned = 0, sm_last_attestation_epoch = 0,
      sm_pending_slashes = [], sm_events = []\<rparr>"

text \<open>A bank call through the lock.\<close>

definition on_bank :: "(bank \<Rightarrow> bank \<times> 'a sys_result) \<Rightarrow> slashing_manager \<Rightarrow> slashing_manager \<times> 'a sys_result" where
  "on_bank f m = (case f (sm_bank m) of (b, r) \<Rightarrow> (m\<lparr>sm_bank := b\<rparr>, r))"

definition get_stake :: "slashing_manager \<Rightarrow> address \<Rightarrow> token_amount" where
  "get_stake m a = get_locked_balance (sm_bank m) a"

definition record_ban ::
    "slashing_manager \<Rightarrow> address \<Rightarrow> u64 \<Rightarrow> u64 \<Rightarrow> offense_type \<Rightarrow> bool \<Rightarrow> slashing_manager" where
  "record_ban m a banned_at banned_until offense tombstoned =
     (let m = (if tombstoned then m\<lparr>sm_tombstones := insert a (sm_tombstones m)\<rparr> else m);
          offense_count = (case hm_get (sm_bans m) a of Some r \<Rightarrow> br_offense_count r + 1 | None \<Rightarrow> 1)
      in m\<lparr>sm_bans := hm_insert a
             \<lparr>br_address = a, br_banned_at = banned_at, br_banned_until = banned_until,
              br_offense = offense, br_offense_count = offense_count, br_tombstoned = tombstoned,
              br_associated_ips = {}\<rparr> (sm_bans m)\<rparr>)"

definition hash_evidence :: "(bytes \<Rightarrow> hash) \<Rightarrow> (slashing_evidence \<Rightarrow> bytes) \<Rightarrow> slashing_evidence \<Rightarrow> hash" where
  "hash_evidence sha256 evidence_json e = sha256 (evidence_json e)"

section \<open>Executing a slash\<close>

text \<open>The bank part: the reward of the reporter, then the burn of the rest; the reward is returned.\<close>

definition pay_reporter :: "slashing_condition \<Rightarrow> token_amount \<Rightarrow> slashing_manager \<Rightarrow> slashing_manager \<times> token_amount sys_result" where
  "pay_reporter c slash_amount m =
     (case co_reporter c of
        None \<Rightarrow> (m, Ok 0)
      | Some reporter \<Rightarrow>
          let reward = (slash_amount * ucast (sl_challenger_reward_percent (sm_config m))) div 100
          in try_then (on_bank (\<lambda>b. transfer b (co_offender c) reporter reward) m) (\<lambda>m _. (m, Ok reward)))"

definition execute_slash ::
    "(bytes \<Rightarrow> hash) \<Rightarrow> (slashing_evidence \<Rightarrow> bytes) \<Rightarrow> slashing_manager \<Rightarrow> slashing_condition
      \<Rightarrow> slashing_manager \<times> slashing_result sys_result" where
  "execute_slash sha256 evidence_json m c =
     (if \<not> sl_enabled (sm_config m) then (m, Err (Slashing ''Slashing is disabled''))
      else if co_offender c \<in> sm_tombstones m
      then (m, Err (Slashing ''Address is already tombstoned''))
      else
        let sev = severity (co_offense_type c);
            percent = slash_percent_for_severity (sm_config m) sev;
            stake = get_stake m (co_offender c)
        in if stake = 0 then (m, Err (Slashing ''Offender has no stake''))
           else
             let slash_amount = (stake * ucast percent) div 100
             in try_then (pay_reporter c slash_amount m) (\<lambda>m reporter_reward.
                let burn_amount = slash_amount - reporter_reward
                in try_then (on_bank (\<lambda>b. burn b (co_offender c) burn_amount) m) (\<lambda>m _.
                let m = m\<lparr>sm_total_slashed := sm_total_slashed m + slash_amount,
                          sm_total_burned := sm_total_burned m + burn_amount\<rparr>;
                    current_time = co_timestamp c;
                    tombstoned = is_tombstone sev;
                    ban_until = (if tombstoned then max_val else current_time + ban_duration sev);
                    m = record_ban m (co_offender c) current_time ban_until (co_offense_type c) tombstoned;
                    m = m\<lparr>sm_offense_history := hm_insert (co_offender c)
                            (hm_entry [] (sm_offense_history m) (co_offender c) @ [c]) (sm_offense_history m)\<rparr>;
                    event = slashing_event.Slashed (co_offender c) (co_offense_type c) slash_amount burn_amount
                              reporter_reward (co_reporter c) ban_until tombstoned
                              (hash_evidence sha256 evidence_json (co_evidence c));
                    m = m\<lparr>sm_events := sm_events m @ [event]\<rparr>
                in (m, Ok \<lparr>sr_slashed_address = co_offender c, sr_burn_amount = burn_amount,
                           sr_reporter_reward = reporter_reward, sr_ban_until = ban_until,
                           sr_tombstoned = tombstoned, sr_events = [event]\<rparr>))))"

definition queue_slash :: "slashing_manager \<Rightarrow> slashing_condition \<Rightarrow> slashing_manager" where
  "queue_slash m c = m\<lparr>sm_pending_slashes := sm_pending_slashes m @ [c]\<rparr>"

fun process_queue ::
    "(bytes \<Rightarrow> hash) \<Rightarrow> (slashing_evidence \<Rightarrow> bytes) \<Rightarrow> slashing_condition list \<Rightarrow> slashing_manager
      \<Rightarrow> slashing_manager \<times> slashing_result sys_result list" where
  "process_queue sha256 evidence_json [] m = (m, [])"
| "process_queue sha256 evidence_json (c # cs) m =
     (case execute_slash sha256 evidence_json (m\<lparr>sm_pending_slashes := cs\<rparr>) c of (m, r) \<Rightarrow>
      case process_queue sha256 evidence_json cs m of (m, rs) \<Rightarrow> (m, r # rs))"

definition process_pending_slashes ::
    "(bytes \<Rightarrow> hash) \<Rightarrow> (slashing_evidence \<Rightarrow> bytes) \<Rightarrow> slashing_manager
      \<Rightarrow> slashing_manager \<times> slashing_result sys_result list" where
  "process_pending_slashes sha256 evidence_json m =
     process_queue sha256 evidence_json (sm_pending_slashes m) m"

section \<open>Selecting nodes\<close>

text \<open>
  \<open>select_committee\<close> and \<open>select_random_nodes\<close> draw by the same loop from different seeds: a hash gives
  an index and the next free index is taken. The search for a free index does not return when every
  index is used.
\<close>

partial_function (option) free_index :: "nat \<Rightarrow> nat set \<Rightarrow> nat \<Rightarrow> nat option" where
  "free_index n used i = (if i \<in> used then free_index n used ((i + 1) mod n) else Some i)"

definition draw_index :: "(bytes \<Rightarrow> hash) \<Rightarrow> bytes \<Rightarrow> nat \<Rightarrow> nat \<Rightarrow> nat" where
  "draw_index sha256 seed i n =
     unat (le_word (take 8 (sha256 (seed @ le_bytes 4 (of_nat i :: u32)))) :: u64) mod n"

fun draw_nodes :: "(bytes \<Rightarrow> hash) \<Rightarrow> bytes \<Rightarrow> address list \<Rightarrow> nat list \<Rightarrow> nat set \<Rightarrow> address list option" where
  "draw_nodes sha256 seed avail [] used = Some []"
| "draw_nodes sha256 seed avail (i # is) used =
     (case free_index (length avail) used (draw_index sha256 seed i (length avail)) of
        None \<Rightarrow> None
      | Some final_index \<Rightarrow>
          map_option (\<lambda>sel. avail ! final_index # sel)
            (draw_nodes sha256 seed avail is (insert final_index used)))"

definition select_committee ::
    "(bytes \<Rightarrow> hash) \<Rightarrow> slashing_manager \<Rightarrow> address list \<Rightarrow> hash \<Rightarrow> address list sys_result option" where
  "select_committee sha256 m avail challenge_id =
     (if length avail < sl_committee_size (sm_config m)
      then Some (Err (Slashing (''Not enough nodes for committee (need ''
             @ show_nat (sl_committee_size (sm_config m)) @ '', have '' @ show_nat (length avail) @ '')'')))
      else map_option Ok (draw_nodes sha256 challenge_id avail [0..<sl_committee_size (sm_config m)] {}))"

definition select_random_nodes :: "(bytes \<Rightarrow> hash) \<Rightarrow> address list \<Rightarrow> nat \<Rightarrow> bytes \<Rightarrow> address list option" where
  "select_random_nodes sha256 avail count randomness =
     (if length avail \<le> count then Some avail
      else draw_nodes sha256 randomness avail [0..<count] {})"

definition generate_challenge_id :: "(bytes \<Rightarrow> hash) \<Rightarrow> job_id \<Rightarrow> address \<Rightarrow> u64 \<Rightarrow> hash" where
  "generate_challenge_id sha256 job challenger timestamp = sha256 (job @ challenger @ le_bytes 8 timestamp)"

definition generate_attestation_challenge_id :: "(bytes \<Rightarrow> hash) \<Rightarrow> address \<Rightarrow> u64 \<Rightarrow> bytes \<Rightarrow> hash" where
  "generate_attestation_challenge_id sha256 target timestamp randomness =
     sha256 (ascii ''attestation_challenge'' @ target @ le_bytes 8 timestamp @ randomness)"

section \<open>The challenge-response mechanism\<close>

definition submit_challenge ::
    "(bytes \<Rightarrow> hash) \<Rightarrow> slashing_manager \<Rightarrow> address \<Rightarrow> job_id \<Rightarrow> address \<Rightarrow> hash \<Rightarrow> token_amount \<Rightarrow> u64
      \<Rightarrow> address list \<Rightarrow> (slashing_manager \<times> hash sys_result) option" where
  "submit_challenge sha256 m challenger job prover original_result_hash challenger_stake current_time
     available_committee =
     (if get_stake m challenger < challenger_stake
      then Some (m, Err (Slashing ''Challenger has insufficient stake''))
      else case on_bank (\<lambda>b. lock b challenger challenger_stake) m of
        (m, Err e) \<Rightarrow> Some (m, Err e)
      | (m, Ok _) \<Rightarrow>
          let challenge_id = generate_challenge_id sha256 job challenger current_time
          in case select_committee sha256 m available_committee challenge_id of
               None \<Rightarrow> None
             | Some (Err e) \<Rightarrow> Some (m, Err e)
             | Some (Ok committee) \<Rightarrow>
                 let c = \<lparr>ch_id = challenge_id, ch_job_id = job, ch_prover = prover,
                          ch_challenger = challenger, ch_original_result_hash = original_result_hash,
                          ch_created_at = current_time,
                          ch_expires_at = current_time + sl_challenge_window_secs (sm_config m),
                          ch_state = Pending, ch_committee = committee, ch_committee_votes = [],
                          ch_challenger_stake_locked = challenger_stake\<rparr>
                 in Some (m\<lparr>sm_challenges := hm_insert challenge_id c (sm_challenges m),
                            sm_events := sm_events m
                              @ [ChallengeSubmitted challenge_id challenger prover job committee]\<rparr>,
                          Ok challenge_id))"

definition submit_committee_vote ::
    "slashing_manager \<Rightarrow> hash \<Rightarrow> address \<Rightarrow> bool \<Rightarrow> hash \<Rightarrow> bytes \<Rightarrow> u64 \<Rightarrow> slashing_manager \<times> unit sys_result" where
  "submit_committee_vote m challenge_id voter agrees_with_challenge computed_result_hash signature current_time =
     (case hm_get (sm_challenges m) challenge_id of
        None \<Rightarrow> (m, Err (Slashing ''Challenge not found''))
      | Some c \<Rightarrow>
          if voter \<notin> set (ch_committee c) then (m, Err (Slashing ''Voter is not in committee''))
          else if hm_get (ch_committee_votes c) voter \<noteq> None
          then (m, Err (Slashing ''Voter has already voted''))
          else
            let v = \<lparr>cv_voter = voter, cv_agrees_with_challenge = agrees_with_challenge,
                     cv_computed_result_hash = computed_result_hash, cv_vote_time = current_time,
                     cv_signature = signature\<rparr>;
                c = c\<lparr>ch_committee_votes := hm_insert voter v (ch_committee_votes c)\<rparr>;
                c = (if length (ch_committee_votes c) \<ge> length (ch_committee c)
                     then c\<lparr>ch_state := Voting\<rparr> else c)
            in (m\<lparr>sm_challenges := hm_insert challenge_id c (sm_challenges m)\<rparr>, Ok ()))"

definition votes_for :: "challenge \<Rightarrow> nat" where
  "votes_for c = length (filter (\<lambda>(_, v). cv_agrees_with_challenge v) (ch_committee_votes c))"

definition challenge_succeeds :: "slashing_config \<Rightarrow> challenge \<Rightarrow> bool" where
  "challenge_succeeds cfg c =
     f64_ge (f64_div (u64_as_f64 (of_nat (votes_for c))) (u64_as_f64 (of_nat (length (ch_committee_votes c)))))
       (sl_committee_threshold cfg)"

definition challenge_condition :: "challenge \<Rightarrow> u64 \<Rightarrow> slashing_condition" where
  "challenge_condition c current_time =
     \<lparr>co_offender = ch_prover c, co_offense_type = FabricatedResult, co_block_height = 0,
      co_timestamp = current_time,
      co_evidence = EvCommitteeVerification [] (ch_committee c)
        (map (\<lambda>(_, v). cv_agrees_with_challenge v) (ch_committee_votes c))
        (map (\<lambda>(_, v). cv_computed_result_hash v) (ch_committee_votes c)),
      co_reporter = Some (ch_challenger c), co_job_id = Some (ch_job_id c)\<rparr>"

definition finalize_challenge ::
    "(bytes \<Rightarrow> hash) \<Rightarrow> (slashing_evidence \<Rightarrow> bytes) \<Rightarrow> slashing_manager \<Rightarrow> hash \<Rightarrow> u64
      \<Rightarrow> slashing_manager \<times> slashing_result sys_result" where
  "finalize_challenge sha256 evidence_json m challenge_id current_time =
     (case hm_get (sm_challenges m) challenge_id of
        None \<Rightarrow> (m, Err (Slashing ''Challenge not found''))
      | Some c \<Rightarrow>
          let m = m\<lparr>sm_challenges := hm_remove challenge_id (sm_challenges m)\<rparr>;
              unlock_challenger = on_bank (\<lambda>b. unlock b (ch_challenger c) (ch_challenger_stake_locked c))
          in if current_time > ch_expires_at c
             then try_then (unlock_challenger m) (\<lambda>m _. (m, Err (Slashing ''Challenge expired'')))
             else if challenge_succeeds (sm_config m) c
             then try_then (unlock_challenger m) (\<lambda>m _.
                    execute_slash sha256 evidence_json m (challenge_condition c current_time))
             else
               let spam_penalty = (ch_challenger_stake_locked c * ucast (sl_spam_penalty_percent (sm_config m))) div 100
               in try_then (unlock_challenger m) (\<lambda>m _.
                  try_then (on_bank (\<lambda>b. burn b (ch_challenger c) spam_penalty) m) (\<lambda>m _.
                    (m\<lparr>sm_events := sm_events m
                         @ [SpamChallengePenalty (ch_challenger c) spam_penalty challenge_id]\<rparr>,
                     Ok \<lparr>sr_slashed_address = ch_challenger c, sr_burn_amount = spam_penalty,
                         sr_reporter_reward = 0, sr_ban_until = 0, sr_tombstoned = False,
                         sr_events = []\<rparr>))))"

section \<open>Attestation challenges\<close>

fun issue_to :: "(bytes \<Rightarrow> hash) \<Rightarrow> address list \<Rightarrow> u64 \<Rightarrow> bytes \<Rightarrow> slashing_manager
    \<Rightarrow> slashing_manager \<times> attestation_challenge list" where
  "issue_to sha256 [] current_time randomness m = (m, [])"
| "issue_to sha256 (target # ts) current_time randomness m =
     (let challenge_id = generate_attestation_challenge_id sha256 target current_time randomness;
          deadline = current_time + sl_challenge_window_secs (sm_config m);
          c = \<lparr>ac_id = challenge_id, ac_target = target, ac_issued_at = current_time,
               ac_deadline = deadline, ac_response_received = False, ac_attestation = None,
               ac_verified = None\<rparr>;
          m = m\<lparr>sm_attestation_challenges := hm_insert challenge_id c (sm_attestation_challenges m),
                sm_events := sm_events m @ [AttestationChallengeIssued challenge_id target deadline]\<rparr>
      in case issue_to sha256 ts current_time randomness m of (m, cs) \<Rightarrow> (m, c # cs))"

definition issue_attestation_challenges ::
    "(bytes \<Rightarrow> hash) \<Rightarrow> slashing_manager \<Rightarrow> address list \<Rightarrow> u64 \<Rightarrow> bytes
      \<Rightarrow> (slashing_manager \<times> attestation_challenge list) option" where
  "issue_attestation_challenges sha256 m eligible_nodes current_time randomness =
     (if current_time < sm_last_attestation_epoch m + sl_attestation_challenge_interval_secs (sm_config m)
      then Some (m, [])
      else
        let m = m\<lparr>sm_last_attestation_epoch := current_time\<rparr>;
            sample_count = length eligible_nodes * unat (sl_attestation_sample_percent (sm_config m)) div 100;
            sample_count = min (max sample_count 1) (length eligible_nodes)
        in map_option (\<lambda>selected. issue_to sha256 selected current_time randomness m)
             (select_random_nodes sha256 eligible_nodes sample_count randomness))"

definition verify_sgx_attestation :: "tee_attestation \<Rightarrow> bool" where
  "verify_sgx_attestation att =
     (let bytes = ta_attestation att
      in if length bytes < 436 then False
         else if (le_word (take 2 bytes) :: u16) \<noteq> 3 then False
         else if (le_word (take 4 (drop 4 bytes)) :: u32) \<noteq> 0 then False
         else take 32 (drop 112 bytes) = ta_measurement att)"

definition verify_nitro_attestation :: "tee_attestation \<Rightarrow> bool" where
  "verify_nitro_attestation att =
     (let bytes = ta_attestation att
      in if length bytes < 100 then False
         else if take 1 bytes \<noteq> [0x84] then False
         else take 32 (drop 40 bytes) = ta_measurement att)"

definition verify_sev_attestation :: "tee_attestation \<Rightarrow> bool" where
  "verify_sev_attestation att =
     (let bytes = ta_attestation att
      in if length bytes < 672 then False
         else if (le_word (take 4 bytes) :: u32) \<noteq> 2 then False
         else take 32 (drop 80 bytes) = ta_measurement att)"

text \<open>Every path of \<open>verify_attestation\<close> returns \<open>Ok\<close>; the value is the boolean.\<close>

definition verify_attestation :: "slashing_config \<Rightarrow> tee_attestation \<Rightarrow> u64 \<Rightarrow> bool" where
  "verify_attestation cfg att current_time =
     (if ta_attestation att = [] \<or> ta_measurement att = replicate 32 0 then False
      else if saturating_sub current_time (ta_timestamp att) > sl_attestation_max_age_secs cfg then False
      else case ta_tee_type att of
             IntelSgx \<Rightarrow> verify_sgx_attestation att
           | AwsNitro \<Rightarrow> verify_nitro_attestation att
           | AmdSev \<Rightarrow> verify_sev_attestation att)"

definition submit_attestation_response ::
    "slashing_manager \<Rightarrow> hash \<Rightarrow> tee_attestation \<Rightarrow> u64 \<Rightarrow> slashing_manager \<times> bool sys_result" where
  "submit_attestation_response m challenge_id att current_time =
     (case hm_get (sm_attestation_challenges m) challenge_id of
        None \<Rightarrow> (m, Err (Slashing ''Attestation challenge not found''))
      | Some c \<Rightarrow>
          if current_time > ac_deadline c then (m, Err (Slashing ''Attestation response too late''))
          else if \<not> verify_attestation (sm_config m) att current_time
          then (m, Err (Slashing ''Invalid attestation response''))
          else (m\<lparr>sm_attestation_challenges := hm_insert challenge_id
                    (c\<lparr>ac_response_received := True, ac_attestation := Some att, ac_verified := Some True\<rparr>)
                    (sm_attestation_challenges m)\<rparr>, Ok True))"

definition failure_condition :: "u64 \<Rightarrow> hash \<Rightarrow> address \<Rightarrow> attestation_challenge \<Rightarrow> slashing_condition" where
  "failure_condition current_time cid target c =
     \<lparr>co_offender = target, co_offense_type = AttestationChallengeFailure, co_block_height = 0,
      co_timestamp = current_time,
      co_evidence = EvAttestationFailure cid (ac_issued_at c) (ac_deadline c) False,
      co_reporter = None, co_job_id = None\<rparr>"

fun expire_each :: "u64 \<Rightarrow> (hash \<times> address) list \<Rightarrow> slashing_manager \<Rightarrow> slashing_manager \<times> slashing_condition list" where
  "expire_each current_time [] m = (m, [])"
| "expire_each current_time ((cid, target) # es) m =
     (case hm_get (sm_attestation_challenges m) cid of
        None \<Rightarrow> expire_each current_time es m
      | Some c \<Rightarrow>
          (case expire_each current_time es
                  (m\<lparr>sm_attestation_challenges := hm_remove cid (sm_attestation_challenges m)\<rparr>) of
             (m, cs) \<Rightarrow> (m, failure_condition current_time cid target c # cs)))"

definition process_expired_attestation_challenges ::
    "slashing_manager \<Rightarrow> u64 \<Rightarrow> slashing_manager \<times> slashing_condition list" where
  "process_expired_attestation_challenges m current_time =
     expire_each current_time
       (map (\<lambda>(cid, c). (cid, ac_target c))
         (filter (\<lambda>(_, c). current_time > ac_deadline c \<and> \<not> ac_response_received c)
           (sm_attestation_challenges m))) m"

section \<open>Reliability and bans\<close>

definition record_job_outcome :: "slashing_manager \<Rightarrow> address \<Rightarrow> bool \<Rightarrow> u64 \<Rightarrow> slashing_manager" where
  "record_job_outcome m node success current_time =
     (let metrics = record_outcome (hm_entry reliability_metrics_default (sm_reliability m) node) success;
          (metrics, score) = calculate_score metrics current_time;
          m = m\<lparr>sm_reliability := hm_insert node metrics (sm_reliability m)\<rparr>
      in if is_below_threshold metrics
         then queue_slash m
                \<lparr>co_offender = node, co_offense_type = LowReliability, co_block_height = 0,
                 co_timestamp = current_time,
                 co_evidence = EvGeneric (''Reliability score '' @ show_word score @ '' below threshold ''
                   @ show_word (sl_min_reliability_bps (sm_config m))) [],
                 co_reporter = None, co_job_id = None\<rparr>
         else m)"

definition get_reliability_score :: "slashing_manager \<Rightarrow> address \<Rightarrow> u16" where
  "get_reliability_score m node =
     (case hm_get (sm_reliability m) node of Some r \<Rightarrow> rm_last_score r | None \<Rightarrow> 10000)"

definition is_banned :: "slashing_manager \<Rightarrow> address \<Rightarrow> u64 \<Rightarrow> bool" where
  "is_banned m a current_time =
     (a \<in> sm_tombstones m
      \<or> (case hm_get (sm_bans m) a of Some r \<Rightarrow> ban_is_active r current_time | None \<Rightarrow> False))"

definition is_tombstoned :: "slashing_manager \<Rightarrow> address \<Rightarrow> bool" where
  "is_tombstoned m a = (a \<in> sm_tombstones m)"

section \<open>Double signing and equivocation\<close>

definition verify_double_sign ::
    "signed_block_header \<Rightarrow> signed_block_header \<Rightarrow> slashing_condition sys_result" where
  "verify_double_sign a b =
     (if bh_height a \<noteq> bh_height b then Err (Slashing ''Headers are not at same height'')
      else if bh_round a \<noteq> bh_round b then Err (Slashing ''Headers are not in same round'')
      else if bh_block_hash a = bh_block_hash b
      then Err (Slashing ''Headers have same block hash - not double sign'')
      else if bh_proposer a \<noteq> bh_proposer b then Err (Slashing ''Headers from different proposers'')
      else if bh_signature a = [] then Err (Slashing ''Header A has empty signature'')
      else if bh_signature b = [] then Err (Slashing ''Header B has empty signature'')
      else if bh_signature a = bh_signature b
      then Err (Slashing ''Headers have identical signatures - not a valid double sign'')
      else if length (bh_signature a) \<noteq> 64 \<or> length (bh_signature b) \<noteq> 64
      then Err (Slashing (''Invalid signature lengths: '' @ show_nat (length (bh_signature a)) @ '' and ''
             @ show_nat (length (bh_signature b)) @ '' (expected 64)''))
      else Ok \<lparr>co_offender = bh_proposer a, co_offense_type = DoubleSign, co_block_height = bh_height a,
               co_timestamp = max (bh_timestamp a) (bh_timestamp b), co_evidence = EvDoubleSign a b,
               co_reporter = None, co_job_id = None\<rparr>)"

definition verify_equivocation :: "signed_vote \<Rightarrow> signed_vote \<Rightarrow> slashing_condition sys_result" where
  "verify_equivocation a b =
     (if sv_height a \<noteq> sv_height b \<or> sv_round a \<noteq> sv_round b
      then Err (Slashing ''Votes are not at same height/round'')
      else if sv_vote_type a \<noteq> sv_vote_type b then Err (Slashing ''Votes are different types'')
      else if sv_block_hash a = sv_block_hash b
      then Err (Slashing ''Votes for same block - not equivocation'')
      else if sv_voter a \<noteq> sv_voter b then Err (Slashing ''Votes from different voters'')
      else Ok \<lparr>co_offender = sv_voter a, co_offense_type = Equivocation, co_block_height = sv_height a,
               co_timestamp = max (sv_timestamp a) (sv_timestamp b), co_evidence = EvEquivocation a b,
               co_reporter = None, co_job_id = None\<rparr>)"

section \<open>Statistics\<close>

record slashing_statistics =
  ss_total_slashed :: token_amount
  ss_total_burned :: token_amount
  ss_active_bans :: nat
  ss_tombstones :: nat
  ss_active_challenges :: nat
  ss_pending_attestation_challenges :: nat

definition statistics :: "slashing_manager \<Rightarrow> slashing_statistics" where
  "statistics m =
     \<lparr>ss_total_slashed = sm_total_slashed m, ss_total_burned = sm_total_burned m,
      ss_active_bans = length (sm_bans m), ss_tombstones = card (sm_tombstones m),
      ss_active_challenges = length (sm_challenges m),
      ss_pending_attestation_challenges = length (sm_attestation_challenges m)\<rparr>"

definition slashing_drain_events :: "slashing_manager \<Rightarrow> slashing_manager \<times> slashing_event list" where
  "slashing_drain_events m = (m\<lparr>sm_events := []\<rparr>, sm_events m)"

end
