(* ===== verification/Slashing_Properties.thy ===== *)
theory Slashing_Properties
  imports Slashing Bank_Runs Bank_Properties
begin

text \<open>
  The properties of \<open>slashing.rs\<close>: committee selection, what a slash takes, runs of the manager's
  operations, the vote threshold and the stake of a challenger.
\<close>

section \<open>Committees\<close>

lemma free_index_steps:
  assumes "(i + d) mod n \<notin> used" and "i < n"
  shows "\<exists>k. free_index n used i = Some k \<and> k < n \<and> k \<notin> used"
  using assms
proof (induction d arbitrary: i)
  case 0
  then show ?case by (simp add: free_index.simps)
next
  case (Suc d)
  show ?case
  proof (cases "i \<in> used")
    case True
    have "(((i + 1) mod n) + d) mod n = (i + Suc d) mod n" by (simp add: mod_add_left_eq)
    with Suc have "\<exists>k. free_index n used ((i + 1) mod n) = Some k \<and> k < n \<and> k \<notin> used"
      by (intro Suc.IH) simp_all
    with True show ?thesis by (simp add: free_index.simps [of n used i])
  next
    case False
    with Suc.prems show ?thesis by (simp add: free_index.simps)
  qed
qed

lemma free_index_found:
  assumes "finite used" and "card used < n" and "i < n"
  shows "\<exists>k. free_index n used i = Some k \<and> k < n \<and> k \<notin> used"
proof -
  have "\<not> {..<n} \<subseteq> used"
    using card_mono [OF assms(1), of "{..<n}"] assms(2) by auto
  then obtain j where j: "j < n" "j \<notin> used" by auto
  have "(i + (n - i + j)) mod n = j" using j assms(3) by simp
  then show ?thesis using free_index_steps [of i "n - i + j" n used] j assms(3) by simp
qed

lemma draw_nodes_found:
  assumes "finite used" and "card used + length is \<le> length avail"
  shows "\<exists>idx. draw_nodes sha seed avail is used = Some (map ((!) avail) idx) \<and> length idx = length is
    \<and> distinct idx \<and> set idx \<subseteq> {..<length avail} \<and> set idx \<inter> used = {}"
  using assms
proof (induction "is" arbitrary: used)
  case (Cons i "is")
  have n: "0 < length avail" using Cons.prems(2) by (cases avail) auto
  then obtain k where k: "free_index (length avail) used (draw_index sha seed i (length avail)) = Some k"
    "k < length avail" "k \<notin> used"
    using free_index_found [OF Cons.prems(1), of "length avail" "draw_index sha seed i (length avail)"] Cons.prems(2)
    by (auto simp: draw_index_def)
  obtain idx where idx: "draw_nodes sha seed avail is (insert k used) = Some (map ((!) avail) idx)"
    "length idx = length is" "distinct idx" "set idx \<subseteq> {..<length avail}" "set idx \<inter> insert k used = {}"
    using Cons.IH [of "insert k used"] Cons.prems k by auto
  then have "k \<notin> set idx" "set idx \<inter> used = {}" by auto
  with k idx show ?case by (intro exI [of _ "k # idx"]) simp
qed simp

lemma select_committee_found:
  assumes "sl_committee_size (sm_config m) \<le> length avail"
  shows "\<exists>idx. select_committee sha m avail cid = Some (Ok (map ((!) avail) idx))
    \<and> length idx = sl_committee_size (sm_config m) \<and> distinct idx \<and> set idx \<subseteq> {..<length avail}"
  using draw_nodes_found [of "{}" "[0..<sl_committee_size (sm_config m)]" avail sha cid] assms
  by (auto simp: select_committee_def)

lemma select_random_found: "\<exists>ns. select_random_nodes sha avail count r = Some ns \<and> length ns = min count (length avail)
    \<and> set ns \<subseteq> set avail \<and> (distinct avail \<longrightarrow> distinct ns)"
proof (cases "length avail \<le> count")
  case False
  then obtain idx where "draw_nodes sha r avail [0..<count] {} = Some (map ((!) avail) idx)"
    "length idx = count" "distinct idx" "set idx \<subseteq> {..<length avail}"
    using draw_nodes_found [of "{}" "[0..<count]" avail sha r] by auto
  moreover have "distinct avail \<longrightarrow> distinct (map ((!) avail) idx)"
    using calculation by (auto simp: distinct_map inj_on_def nth_eq_iff_index_eq subset_iff)
  ultimately show ?thesis using False by (auto simp: select_random_nodes_def)
qed (simp add: select_random_nodes_def)

section \<open>The bank under the manager\<close>

lemma on_bank_simps [simp]: "on_bank f m = (m\<lparr>sm_bank := fst (f (sm_bank m))\<rparr>, snd (f (sm_bank m)))"
  by (simp add: on_bank_def case_prod_unfold)

lemma record_ban_frame [simp]:
  "sm_bank (record_ban m a t u k b) = sm_bank m" "sm_config (record_ban m a t u k b) = sm_config m"
  "sm_challenges (record_ban m a t u k b) = sm_challenges m"
  "sm_tombstones (record_ban m a t u k b) = (if b then insert a (sm_tombstones m) else sm_tombstones m)"
  by (simp_all add: record_ban_def Let_def)

text \<open>The amount that a slash is computed to take.\<close>

definition slash_due :: "slashing_manager \<Rightarrow> slashing_condition \<Rightarrow> nat" where
  "slash_due m c = unat (get_stake m (co_offender c))
     * unat (slash_percent_for_severity (sm_config m) (severity (co_offense_type c))) div 100"

definition percents_ok :: "slashing_config \<Rightarrow> bool" where
  "percents_ok c \<longleftrightarrow> sl_tier1_slash_percent c \<le> 100 \<and> sl_tier2_slash_percent c \<le> 100
     \<and> sl_tier3_slash_percent c \<le> 100 \<and> sl_challenger_reward_percent c \<le> 100 \<and> sl_spam_penalty_percent c \<le> 100"

lemma percent_share:
  assumes "p \<le> 100" and "unat x * 100 < 2 ^ 128"
  shows "unat (x * ucast (p :: u8) div 100 :: u128) = unat x * unat p div 100"
    and "unat x * unat p div 100 \<le> unat x"
proof -
  have le: "unat x * unat p \<le> unat x * 100" using assms(1) by (simp add: word_le_nat_alt)
  then have "unat (x * ucast p) = unat x * unat p"
    using order.strict_trans1 [OF le assms(2)] by (subst unat_mult_exact) simp_all
  then show "unat (x * ucast p div 100 :: u128) = unat x * unat p div 100" by (simp add: unat_div)
  show "unat x * unat p div 100 \<le> unat x" using div_le_mono [OF le, of 100] by simp
qed

lemma slash_percent_le: "percents_ok c \<Longrightarrow> slash_percent_for_severity c s \<le> 100"
  by (cases s) (simp_all add: percents_ok_def)

lemma pay_reporter_okE:
  assumes "pay_reporter c amount m = (m1, Ok reward)"
  obtains (none) "co_reporter c = None" "m1 = m" "reward = 0"
  | (some) x b where "co_reporter c = Some x"
      "reward = (amount * ucast (sl_challenger_reward_percent (sm_config m))) div 100"
      "transfer (sm_bank m) (co_offender c) x reward = (b, Ok ())" "m1 = m\<lparr>sm_bank := b\<rparr>"
proof (cases "co_reporter c")
  case None
  with assms none show thesis by (simp add: pay_reporter_def)
next
  case (Some x)
  let ?r = "(amount * ucast (sl_challenger_reward_percent (sm_config m))) div 100"
  obtain b res where t: "transfer (sm_bank m) (co_offender c) x ?r = (b, res)" by fastforce
  with assms Some show thesis
    by (cases res) (auto simp: pay_reporter_def Let_def intro: some)
qed

lemma execute_slash_okE:
  assumes "execute_slash sha js m c = (m', Ok r)"
  obtains m1 reward b where "sl_enabled (sm_config m)" "co_offender c \<notin> sm_tombstones m"
    "get_stake m (co_offender c) \<noteq> 0"
    "pay_reporter c (get_stake m (co_offender c)
       * ucast (slash_percent_for_severity (sm_config m) (severity (co_offense_type c))) div 100) m = (m1, Ok reward)"
    "burn (sm_bank m1) (co_offender c) (get_stake m (co_offender c)
       * ucast (slash_percent_for_severity (sm_config m) (severity (co_offense_type c))) div 100 - reward) = (b, Ok ())"
    "sm_bank m' = b" "sr_reporter_reward r = reward"
    "sr_burn_amount r = get_stake m (co_offender c)
       * ucast (slash_percent_for_severity (sm_config m) (severity (co_offense_type c))) div 100 - reward"
    "sr_ban_until r = (if severity (co_offense_type c) = Critical then max_val
       else co_timestamp c + ban_duration (severity (co_offense_type c)))"
    "sm_tombstones m' = (if severity (co_offense_type c) = Critical then insert (co_offender c) (sm_tombstones m1)
       else sm_tombstones m1)"
    "\<exists>br. hm_get (sm_bans m') (co_offender c) = Some br \<and> br_banned_until br = sr_ban_until r"
    "sm_config m' = sm_config m1" "sm_challenges m' = sm_challenges m1"
proof -
  let ?a = "get_stake m (co_offender c)
       * ucast (slash_percent_for_severity (sm_config m) (severity (co_offense_type c))) div 100"
  have g: "sl_enabled (sm_config m)" "co_offender c \<notin> sm_tombstones m" "get_stake m (co_offender c) \<noteq> 0"
    using assms by (auto simp: execute_slash_def Let_def split: if_splits)
  obtain m1 reward where p: "pay_reporter c ?a m = (m1, Ok reward)"
    using assms g by (auto simp: execute_slash_def Let_def elim!: try_then_OkE)
  obtain b where b: "burn (sm_bank m1) (co_offender c) (?a - reward) = (b, Ok ())"
    using assms g p by (cases "burn (sm_bank m1) (co_offender c) (?a - reward)")
      (auto simp: execute_slash_def Let_def elim!: try_then_OkE)
  show thesis
    using assms g p b
    by (intro that [OF g p b]) (auto simp: execute_slash_def Let_def is_tombstone_def record_ban_def)
qed

lemma slash_amounts:
  assumes cfg: "percents_ok (sm_config m)" and room: "unat (get_stake m (co_offender c)) * 100 < 2 ^ 128"
    and p: "pay_reporter c (get_stake m (co_offender c)
       * ucast (slash_percent_for_severity (sm_config m) (severity (co_offense_type c))) div 100) m = (m1, Ok reward)"
  shows "unat reward \<le> slash_due m c"
    and "unat (get_stake m (co_offender c)
       * ucast (slash_percent_for_severity (sm_config m) (severity (co_offense_type c))) div 100 - reward)
       = slash_due m c - unat reward"
proof -
  let ?a = "get_stake m (co_offender c)
       * ucast (slash_percent_for_severity (sm_config m) (severity (co_offense_type c))) div 100"
  have a: "unat ?a = slash_due m c" and al: "slash_due m c \<le> unat (get_stake m (co_offender c))"
    using percent_share [OF slash_percent_le [OF cfg] room] by (simp_all add: slash_due_def)
  have ar: "unat ?a * 100 < 2 ^ 128" using a al room by linarith
  have rp: "sl_challenger_reward_percent (sm_config m) \<le> 100" using cfg by (simp add: percents_ok_def)
  show le: "unat reward \<le> slash_due m c"
    using p
  proof (cases rule: pay_reporter_okE)
    case (some x b)
    then show ?thesis using percent_share [OF rp ar] a by simp
  qed simp
  show "unat (?a - reward) = slash_due m c - unat reward"
    using le a by (simp add: unat_sub word_le_nat_alt)
qed

text \<open>
  A successful slash moves exactly the amount due out of the offender's free balance; the locked stake
  from which the amount was computed is not touched.
\<close>

lemma execute_slash_ok:
  assumes inv: "bank_inv (sm_bank m)" and cfg: "percents_ok (sm_config m)"
    and room: "unat (get_stake m (co_offender c)) * 100 < 2 ^ 128"
    and nb: "co_reporter c \<noteq> Some BURN_ADDRESS"
    and run: "execute_slash sha js m c = (m', Ok r)"
  shows "unat (sr_reporter_reward r) + unat (sr_burn_amount r) = slash_due m c
    \<and> lck (sm_bank m') = lck (sm_bank m)
    \<and> bal (sm_bank m') = take_from (co_offender c) (unat (sr_burn_amount r))
      (case co_reporter c of None \<Rightarrow> bal (sm_bank m)
        | Some x \<Rightarrow> give_to x (unat (sr_reporter_reward r))
            (take_from (co_offender c) (unat (sr_reporter_reward r)) (bal (sm_bank m))))
    \<and> circulating (sm_bank m') + unat (sr_burn_amount r) = circulating (sm_bank m)
    \<and> bank_inv (sm_bank m') \<and> (co_reporter c = None \<longrightarrow> sr_reporter_reward r = 0)
    \<and> (co_reporter c \<noteq> Some (co_offender c) \<longrightarrow>
        lck (sm_bank m) (co_offender c) + slash_due m c \<le> bal (sm_bank m) (co_offender c))"
  using run
proof (cases rule: execute_slash_okE)
  case (1 m1 reward b)
  note am = slash_amounts [OF cfg room 1(4)]
  have b1: "bank_inv (sm_bank m1) \<and> lck (sm_bank m1) = lck (sm_bank m)
    \<and> circulating (sm_bank m1) = circulating (sm_bank m)
    \<and> bal (sm_bank m1) = (case co_reporter c of None \<Rightarrow> bal (sm_bank m)
        | Some x \<Rightarrow> give_to x (unat reward) (take_from (co_offender c) (unat reward) (bal (sm_bank m))))
    \<and> unat reward \<le> bal (sm_bank m) (co_offender c) \<and> (co_reporter c = None \<longrightarrow> reward = 0)"
    using 1(4)
  proof (cases rule: pay_reporter_okE)
    case none
    with inv show ?thesis by simp
  next
    case (some x b')
    with nb have "x \<noteq> BURN_ADDRESS" by simp
    moreover have "bank_inv b'"
      using bank_steps_solvent [OF bank_steps_ops(1) [OF bank_steps_refl] inv, of "co_offender c" x reward] some(3)
      by simp
    ultimately show ?thesis using transfer_ok [OF inv some(3)] some(1,4) by simp
  qed
  then have i1: "bank_inv (sm_bank m1)" by simp
  then have "bank_inv b"
    using bank_steps_solvent [OF bank_steps_ops(2) [OF bank_steps_refl] i1, of "co_offender c"] 1(5)
    by (metis fst_conv)
  with b1 show ?thesis
    using burn_ok [OF i1 1(5)] am unfolding 1(6-8)
    by (auto simp: take_from_def give_to_def split: option.splits)
qed

lemma no_free_transfer:
  assumes "bal b f \<le> lck b f"
  shows "\<exists>b' e. transfer b f t m = (b', Err e) \<and> ledger_of b' = ledger_of b"
proof (cases "transfer b f t m")
  case (Pair b' res)
  then obtain e where "res = Err e"
    using assms by (auto simp: transfer_alt Let_def unat_gt_0 [symmetric] split: if_splits)
  with Pair transfer_err [of b f t m b' e] show ?thesis by auto
qed

lemma execute_slash_no_free:
  assumes "bal (sm_bank m) (co_offender c) \<le> lck (sm_bank m) (co_offender c)"
  shows "\<exists>m' e. execute_slash sha js m c = (m', Err e) \<and> ledger_of (sm_bank m') = ledger_of (sm_bank m)
    \<and> sm_bans m' = sm_bans m \<and> sm_tombstones m' = sm_tombstones m \<and> sm_offense_history m' = sm_offense_history m"
proof -
  let ?a = "get_stake m (co_offender c)
       * ucast (slash_percent_for_severity (sm_config m) (severity (co_offense_type c))) div 100"
  have nofree: "\<exists>b' e. transfer (sm_bank m) (co_offender c) t n = (b', Err e) \<and> ledger_of b' = ledger_of (sm_bank m)" for t n
    by (rule no_free_transfer [OF assms])
  show ?thesis
  proof (cases "co_reporter c")
    case None
    then show ?thesis using nofree [of BURN_ADDRESS ?a]
      by (auto simp: execute_slash_def Let_def pay_reporter_def burn_def)
  next
    case (Some x)
    then show ?thesis using nofree [of x "?a * ucast (sl_challenger_reward_percent (sm_config m)) div 100"]
      by (auto simp: execute_slash_def Let_def pay_reporter_def)
  qed
qed

section \<open>Runs of the manager\<close>

inductive slashing_step ::
    "(bytes \<Rightarrow> hash) \<Rightarrow> (slashing_evidence \<Rightarrow> bytes) \<Rightarrow> slashing_manager \<Rightarrow> slashing_manager \<Rightarrow> bool"
  for sha js where
  slash: "execute_slash sha js m c = (m', res) \<Longrightarrow> slashing_step sha js m m'"
| enqueue: "slashing_step sha js m (queue_slash m c)"
| process: "process_pending_slashes sha js m = (m', rs) \<Longrightarrow> slashing_step sha js m m'"
| challenge: "submit_challenge sha m a j p h s t av = Some (m', res) \<Longrightarrow> slashing_step sha js m m'"
| vote: "submit_committee_vote m cid v ag h sg t = (m', res') \<Longrightarrow> slashing_step sha js m m'"
| finalize: "finalize_challenge sha js m cid t = (m', res) \<Longrightarrow> slashing_step sha js m m'"
| issue: "issue_attestation_challenges sha m ns t rnd = Some (m', cs) \<Longrightarrow> slashing_step sha js m m'"
| respond: "submit_attestation_response m cid att t = (m', rb) \<Longrightarrow> slashing_step sha js m m'"
| expire: "process_expired_attestation_challenges m t = (m', cs) \<Longrightarrow> slashing_step sha js m m'"
| outcome: "slashing_step sha js m (record_job_outcome m a ok t)"
| drain: "slashing_drain_events m = (m', es) \<Longrightarrow> slashing_step sha js m m'"

abbreviation slashing_run ::
    "(bytes \<Rightarrow> hash) \<Rightarrow> (slashing_evidence \<Rightarrow> bytes) \<Rightarrow> slashing_manager \<Rightarrow> slashing_manager \<Rightarrow> bool" where
  "slashing_run sha js \<equiv> (slashing_step sha js)\<^sup>*\<^sup>*"

text \<open>What every operation keeps: the configuration, the tombstones, the bank up to payments.\<close>

definition later :: "slashing_manager \<Rightarrow> slashing_manager \<Rightarrow> bool" where
  "later m m' \<longleftrightarrow> sm_config m' = sm_config m \<and> sm_tombstones m \<subseteq> sm_tombstones m'
     \<and> bank_steps (sm_bank m) (sm_bank m')"

lemma later_refl [simp, intro]: "later m m"
  by (simp add: later_def)

lemma later_trans [trans]: "later m m' \<Longrightarrow> later m' m'' \<Longrightarrow> later m m''"
  by (auto simp: later_def intro: bank_steps_trans)

lemma later_same:
  "sm_config m' = sm_config m \<Longrightarrow> sm_tombstones m' = sm_tombstones m \<Longrightarrow> sm_bank m' = sm_bank m \<Longrightarrow> later m m'"
  by (simp add: later_def)

lemma later_bank:
  "later m (fst (on_bank (\<lambda>b. transfer b f t n) m))" "later m (fst (on_bank (\<lambda>b. burn b f n) m))"
  "later m (fst (on_bank (\<lambda>b. lock b f n) m))" "later m (fst (on_bank (\<lambda>b. unlock b f n) m))"
  by (auto simp: later_def)

lemma later_try:
  assumes "later m (fst x)" and "\<And>m' v. later m m' \<Longrightarrow> later m (fst (f m' v))"
  shows "later m (fst (try_then x f))"
  using assms by (cases x; cases "snd x") (auto simp: try_then_def)

lemma later_after: "later m m' \<Longrightarrow> (\<And>m'. later m' (fst (f m'))) \<Longrightarrow> later m (fst (f m'))"
  using later_trans by blast

lemmas later_banks = later_after [OF _ later_bank(1)] later_after [OF _ later_bank(2)]
  later_after [OF _ later_bank(3)] later_after [OF _ later_bank(4)]

lemma execute_slash_later: "later m (fst (execute_slash sha js m c))"
proof -
  have pay: "later m (fst (pay_reporter c a m))" for a
    by (auto simp: pay_reporter_def Let_def simp del: on_bank_simps intro!: later_try later_bank split: option.split)
  show ?thesis
    unfolding execute_slash_def Let_def
    by (auto simp del: on_bank_simps intro!: later_try later_banks pay)
      (auto simp: later_def)
qed


lemma queue_later: "later m (fst (process_queue sha js cs m))"
proof (induction cs arbitrary: m)
  case (Cons c cs)
  have "later m (m\<lparr>sm_pending_slashes := cs\<rparr>)" by (simp add: later_same)
  also have "later (m\<lparr>sm_pending_slashes := cs\<rparr>) (fst (execute_slash sha js (m\<lparr>sm_pending_slashes := cs\<rparr>) c))"
    by (rule execute_slash_later)
  also have "later (fst (execute_slash sha js (m\<lparr>sm_pending_slashes := cs\<rparr>) c))
      (fst (process_queue sha js cs (fst (execute_slash sha js (m\<lparr>sm_pending_slashes := cs\<rparr>) c))))"
    by (rule Cons.IH)
  finally show ?case by (simp add: case_prod_unfold)
qed simp

lemma finalize_later: "later m (fst (finalize_challenge sha js m cid t))"
proof (cases "hm_get (sm_challenges m) cid")
  case (Some c)
  let ?m = "m\<lparr>sm_challenges := hm_remove cid (sm_challenges m)\<rparr>"
  have start: "later m ?m" by (simp add: later_same)
  note ex = later_after [OF _ execute_slash_later [of _ sha js]]
  have "later m m' \<Longrightarrow> later m (m'\<lparr>sm_events := e\<rparr>)" for m' e by (simp add: later_def)
  then show ?thesis
    using Some start unfolding finalize_challenge_def Let_def
    by (auto simp del: on_bank_simps intro!: later_try later_banks ex)
qed (simp add: finalize_challenge_def)

lemma issue_to_later: "later m (fst (issue_to sha ts t rnd m))"
proof (induction ts arbitrary: m)
  case (Cons x ts)
  have "later m (m\<lparr>sm_attestation_challenges := p, sm_events := e\<rparr>)" for p e by (simp add: later_same)
  then show ?case using later_trans [OF _ Cons.IH] by (auto simp: Let_def case_prod_unfold)
qed simp

lemma expire_each_later: "later m (fst (expire_each t es m))"
proof (induction t es m rule: expire_each.induct)
  case (2 t cid target es m)
  have "later m (m\<lparr>sm_attestation_challenges := hm_remove cid (sm_attestation_challenges m)\<rparr>)"
    by (simp add: later_same)
  with 2 show ?case by (auto simp: case_prod_unfold split: option.split intro: later_trans)
qed simp

lemma expire_each_laterD: "expire_each t es m = (m', cs) \<Longrightarrow> later m m'"
  using expire_each_later [of m t es] by simp

lemma issue_to_laterD: "issue_to sha ts t rnd m = (m', cs) \<Longrightarrow> later m m'"
  using issue_to_later [of m sha ts t rnd] by simp

lemma submit_challenge_later: "submit_challenge sha m a j p h s t av = Some (m', res) \<Longrightarrow> later m m'"
proof -
  have "later m (m1\<lparr>sm_challenges := x, sm_events := y\<rparr>)" if "later m m1" for m1 x y
    using that by (simp add: later_def)
  then show "submit_challenge sha m a j p h s t av = Some (m', res) \<Longrightarrow> later m m'"
    using later_bank(3) [of m a s]
    by (auto simp: submit_challenge_def Let_def split: if_splits prod.splits result.splits option.splits)
qed

lemma slashing_step_later: "slashing_step sha js m m' \<Longrightarrow> later m m'"
proof (induction rule: slashing_step.induct)
  case (slash m c m' res)
  then show ?case using execute_slash_later [of m sha js c] by simp
next
  case (process m m' rs)
  then show ?case using queue_later [of m sha js "sm_pending_slashes m"] by (simp add: process_pending_slashes_def)
next
  case (finalize m cid t m' res)
  then show ?case using finalize_later [of m sha js cid t] by simp
next
  case (challenge m a j p h s t av m' res)
  then show ?case by (rule submit_challenge_later)
next
  case (issue m ns t rnd m' cs)
  have "later m (m\<lparr>sm_last_attestation_epoch := t\<rparr>)" by (simp add: later_same)
  then show ?case
    using issue issue_to_laterD later_trans
    by (fastforce simp: issue_attestation_challenges_def Let_def map_option_eq_Some split: if_splits)
next
  case (expire m t m' cs)
  then show ?case by (auto simp: process_expired_attestation_challenges_def dest: expire_each_laterD)
qed (auto simp: queue_slash_def submit_committee_vote_def submit_attestation_response_def record_job_outcome_def
    slashing_drain_events_def Let_def case_prod_unfold intro: later_same split: option.splits if_splits)

lemma slashing_run_later: "slashing_run sha js m m' \<Longrightarrow> later m m'"
  by (induction rule: rtranclp_induct) (auto dest: slashing_step_later intro: later_trans)

section \<open>Votes\<close>

text \<open>The threshold \<open>0.67\<close> on a share of votes, exact for every committee of less than \<open>2\<^sup>4\<^sup>0\<close> votes.\<close>

lemma threshold_exact:
  assumes t: "0 < t" "t < 2 ^ 40" and v: "v \<le> t"
  shows "f64_round (of_nat v / of_nat t) \<ge> f64_round (67 / 100) \<longleftrightarrow> 67 * t \<le> 100 * v"
proof -
  let ?q = "of_nat v / of_nat t :: rat"
  have err67: "\<bar>f64_round (67 / 100) - 67 / 100\<bar> \<le> (1 :: rat) / 2 ^ 54" by (rule f64_round_error) simp_all
  have gap: "1 / (100 * of_nat t) > (1 :: rat) / 2 ^ 53"
  proof -
    have "(100 * of_nat t :: rat) < 100 * of_nat (2 ^ 40)" using t(2) by simp
    also have "\<dots> < 2 ^ 53" by simp
    finally show ?thesis using t(1) by (simp add: frac_less2)
  qed
  show ?thesis
  proof (cases "v = 0 \<or> v = t")
    case True
    have one: "f64_round 1 = (1 :: rat)" using f64_round_nat_exact [of 1] by simp
    have zero: "f64_round 0 = (0 :: rat)" by (simp add: f64_round_def)
    have "(1 :: rat) / 2 ^ 54 < 1 / 100" by simp
    then have "0 < f64_round (67 / 100)" and "f64_round (67 / 100) \<le> (1 :: rat)"
      using err67 unfolding abs_le_iff by linarith+
    with True t(1) show ?thesis by (auto simp: one zero)
  next
    case False
    with v have q: "0 < ?q" "?q < 1" using t(1) by auto
    have err: "\<bar>f64_round ?q - ?q\<bar> \<le> 1 / 2 ^ 54" by (rule f64_round_error [OF q])
    have half: "(1 :: rat) / 2 ^ 54 + 1 / 2 ^ 54 = 1 / 2 ^ 53" by simp
    consider "100 * v = 67 * t" | "100 * v < 67 * t" | "67 * t < 100 * v" by linarith
    then show ?thesis
    proof cases
      case 1
      then have "(of_nat (100 * v) :: rat) = of_nat (67 * t)" by (simp only:)
      then have "?q = 67 / 100" using t(1) by (simp add: field_simps)
      then have "f64_round ?q = f64_round (67 / 100)" by (simp only:)
      with 1 show ?thesis by (simp only: order.refl)
    next
      case 2
      then have "100 * v + 1 \<le> 67 * t" by simp
      then have "(of_nat (100 * v + 1) :: rat) \<le> of_nat (67 * t)" by (simp only: of_nat_le_iff)
      then have "?q + 1 / (100 * of_nat t) \<le> 67 / 100" using t(1) by (simp add: field_simps)
      then have "f64_round ?q < f64_round (67 / 100)"
        using gap err err67 half unfolding abs_le_iff by linarith
      with 2 show ?thesis unfolding not_le [symmetric] by blast
    next
      case 3
      then have "67 * t + 1 \<le> 100 * v" by simp
      then have "(of_nat (67 * t + 1) :: rat) \<le> of_nat (100 * v)" by (simp only: of_nat_le_iff)
      then have "of_nat (67 * t + 1) / (100 * of_nat t) \<le> (of_nat (100 * v) / (100 * of_nat t) :: rat)"
        by (rule divide_right_mono) simp
      then have "67 / 100 + 1 / (100 * of_nat t) \<le> ?q" using t(1) by (simp add: add_divide_distrib)
      then have "f64_round (67 / 100) < f64_round ?q"
        using gap err err67 half unfolding abs_le_iff by linarith
      with 3 show ?thesis by (auto intro: less_imp_le)
    qed
  qed
qed

lemma votes_for_le: "votes_for c \<le> length (ch_committee_votes c)"
  by (simp add: votes_for_def)

lemma challenge_succeeds_exact:
  assumes "sl_committee_threshold cfg = COMMITTEE_AGREEMENT_THRESHOLD" and "length (ch_committee_votes c) < 2 ^ 40"
  shows "challenge_succeeds cfg c \<longleftrightarrow>
    ch_committee_votes c \<noteq> [] \<and> 67 * length (ch_committee_votes c) \<le> 100 * votes_for c"
proof (cases "ch_committee_votes c = []")
  case True
  then show ?thesis
    using u64_as_f64_small [of 0] by (simp add: challenge_succeeds_def votes_for_def)
next
  case False
  let ?t = "length (ch_committee_votes c)"
  have t: "?t < 2 ^ 53" "votes_for c < 2 ^ 53" using assms(2) votes_for_le [of c] by simp_all
  show ?thesis
    using False threshold_exact [OF _ assms(2) votes_for_le] assms(1)
    by (simp add: challenge_succeeds_def u64_as_f64_small [OF t(1)] u64_as_f64_small [OF t(2)]
        COMMITTEE_AGREEMENT_THRESHOLD_def)
qed

section \<open>The stake of a challenger\<close>

lemma submit_challenge_okE:
  assumes "submit_challenge sha m a j p h s t av = Some (m', Ok cid)"
  obtains b c where "lock (sm_bank m) a s = (b, Ok ())" "sm_bank m' = b" "sm_config m' = sm_config m"
    "hm_get (sm_challenges m') cid = Some c" "ch_challenger c = a" "ch_challenger_stake_locked c = s"
    "ch_expires_at c = t + sl_challenge_window_secs (sm_config m)" "ch_committee_votes c = []"
proof -
  obtain b res where l: "lock (sm_bank m) a s = (b, res)" by fastforce
  then have "res = Ok ()"
    using assms by (cases res) (auto simp: submit_challenge_def split: if_splits)
  with l show thesis
    using assms by (auto simp: submit_challenge_def Let_def split: if_splits option.splits result.splits intro!: that)
qed

lemma lock_then_unlock:
  assumes inv: "bank_inv b" and l: "lock b a n = (b1, Ok ())"
  obtains b2 where "unlock b1 a n = (b2, Ok ())" and "ledger_of b2 = ledger_of b"
proof -
  note lk = lock_ok [OF inv l]
  have acc: "hm_get (bk_accounts b1) a \<noteq> None"
    using l by (auto simp: lock_def put_account_def split: option.splits if_splits)
  have "unat n \<le> lck b1 a" by (simp add: lk give_to_def)
  then obtain b2 where u: "unlock b1 a n = (b2, Ok ())" using unlock_succeeds [OF acc] by blast
  note uk = unlock_ok [OF u]
  have "ledger_of b2 = ledger_of b"
    using lk uk by (auto simp: ledger_of_eq_iff give_to_def take_from_def)
  with u that show thesis by blast
qed

lemma issue_to_targets: "map ac_target (snd (issue_to sha ts t rnd m)) = ts"
  by (induction ts arbitrary: m) (simp_all add: Let_def case_prod_unfold)

definition sample_size :: "slashing_manager \<Rightarrow> address list \<Rightarrow> nat" where
  "sample_size m avail = min (max (length avail * unat (sl_attestation_sample_percent (sm_config m)) div 100) 1) (length avail)"

lemma issue_attestation_total:
  "\<exists>m' cs. issue_attestation_challenges sha m avail t rnd = Some (m', cs)
     \<and> (if t < sm_last_attestation_epoch m + sl_attestation_challenge_interval_secs (sm_config m) then m' = m \<and> cs = []
        else length cs = sample_size m avail \<and> ac_target ` set cs \<subseteq> set avail \<and> (distinct avail \<longrightarrow> distinct (map ac_target cs)))"
proof (cases "t < sm_last_attestation_epoch m + sl_attestation_challenge_interval_secs (sm_config m)")
  case True
  then show ?thesis by (simp add: issue_attestation_challenges_def)
next
  case False
  let ?m = "m\<lparr>sm_last_attestation_epoch := t\<rparr>"
  obtain ns where ns: "select_random_nodes sha avail (sample_size m avail) rnd = Some ns" "length ns = sample_size m avail"
    "set ns \<subseteq> set avail" "distinct avail \<longrightarrow> distinct ns"
    using select_random_found [of sha avail "sample_size m avail" rnd] by (auto simp: sample_size_def)
  obtain m' cs where i: "issue_to sha ns t rnd ?m = (m', cs)" by fastforce
  then have ts: "map ac_target cs = ns" using issue_to_targets [of sha ns t rnd ?m] by simp
  have "length cs = sample_size m avail" using ts ns(2) by (metis length_map)
  moreover have "ac_target ` set cs \<subseteq> set avail" using ts ns(3) by (metis image_set)
  moreover have "issue_attestation_challenges sha m avail t rnd = Some (m', cs)"
    using False ns(1) i by (simp add: issue_attestation_challenges_def sample_size_def Let_def)
  ultimately show ?thesis using False ns(4) ts by auto
qed

section \<open>Properties\<close>

text \<open>A manager over a bank in which account 1 has staked everything and account 2 half.\<close>

definition staked_bank :: bank where
  "staked_bank = fst (lock (fst (lock demo_bank [1] 1000)) [2] 250)"

definition demo_manager :: slashing_manager where
  "demo_manager = slashing_new slashing_config_default staked_bank"

definition demo_condition :: "address \<Rightarrow> slashing_condition" where
  "demo_condition a = \<lparr>co_offender = a, co_offense_type = DoubleSign, co_block_height = 7, co_timestamp = 100,
     co_evidence = EvGeneric [] [], co_reporter = None, co_job_id = None\<rparr>"

abbreviation demo_sha :: "bytes \<Rightarrow> hash" where
  "demo_sha \<equiv> \<lambda>_. replicate 32 0"

lemma staked_bank_inv: "bank_inv staked_bank"
  unfolding staked_bank_def
  using bank_steps_solvent [OF bank_steps_ops(3) [OF bank_steps_ops(3) [OF bank_steps_refl]] demo_bank_inv(1)]
  by blast

lemma staked_bank_views:
  "bal staked_bank [1] = 1000" "lck staked_bank [1] = 1000" "bal staked_bank [2] = 500" "lck staked_bank [2] = 250"
  "hm_get (bk_accounts staked_bank) [2] \<noteq> None"
  by (simp_all add: staked_bank_def demo_bank_def bal_def lck_def balance_of_def get_locked_balance_def run_simps)

lemma demo_config_ok: "percents_ok (sm_config demo_manager)" "sm_bank demo_manager = staked_bank"
  "sl_committee_size (sm_config demo_manager) = 3"
  by (simp_all add: percents_ok_def demo_manager_def slashing_new_def slashing_config_default_def
      CHALLENGER_REWARD_PERCENT_def SPAM_CHALLENGE_PENALTY_PERCENT_def VERIFICATION_COMMITTEE_SIZE_def)

text \<open>
  C40. The committee selection returns for every hash function and every list of nodes (its search for
  a free index ends): with fewer than \<open>committee_size\<close> nodes the error, otherwise that many nodes at distinct
  positions of the list, so that no node sits twice on a committee if the list has no repetition.
  Issuing attestation challenges always returns, too: before the interval since the last round has passed it changes nothing and
  challenges nobody; after it, it challenges the sampled share of the nodes, at least one if there are any, all of them from
  the list, and none twice if the list has no repetition.
\<close>

theorem committee_selection_total:
  "(if length avail < sl_committee_size (sm_config m)
      then \<exists>e. select_committee sha m avail cid = Some (Err e)
      else \<exists>idx. select_committee sha m avail cid = Some (Ok (map ((!) avail) idx)) \<and> length idx = sl_committee_size (sm_config m)
        \<and> distinct idx \<and> set idx \<subseteq> {..<length avail} \<and> (distinct avail \<longrightarrow> distinct (map ((!) avail) idx)))
    \<and> (\<exists>m' cs. issue_attestation_challenges sha m avail t rnd = Some (m', cs)
        \<and> (if t < sm_last_attestation_epoch m + sl_attestation_challenge_interval_secs (sm_config m) then m' = m \<and> cs = []
           else length cs = min (max (length avail * unat (sl_attestation_sample_percent (sm_config m)) div 100) 1) (length avail)
             \<and> (avail \<noteq> [] \<longrightarrow> cs \<noteq> []) \<and> ac_target ` set cs \<subseteq> set avail \<and> (distinct avail \<longrightarrow> distinct (map ac_target cs))))"
proof -
  have "\<exists>idx. select_committee sha m avail cid = Some (Ok (map ((!) avail) idx)) \<and> length idx = sl_committee_size (sm_config m)
        \<and> distinct idx \<and> set idx \<subseteq> {..<length avail} \<and> (distinct avail \<longrightarrow> distinct (map ((!) avail) idx))"
    if enough: "\<not> length avail < sl_committee_size (sm_config m)"
  proof -
    obtain idx where idx: "select_committee sha m avail cid = Some (Ok (map ((!) avail) idx))"
      "length idx = sl_committee_size (sm_config m)" "distinct idx" "set idx \<subseteq> {..<length avail}"
      using select_committee_found [of m avail sha cid] enough by auto
    moreover have "distinct avail \<longrightarrow> distinct (map ((!) avail) idx)"
      using idx(3,4) by (auto simp: distinct_map inj_on_def nth_eq_iff_index_eq subset_iff)
    ultimately show ?thesis by blast
  qed
  moreover have "cs \<noteq> []" if "length cs = sample_size m avail" "avail \<noteq> []" for cs :: "attestation_challenge list"
    using that by (cases avail) (auto simp: sample_size_def)
  ultimately show ?thesis
    using issue_attestation_total [of sha m avail t rnd] by (fastforce simp: select_committee_def sample_size_def split: if_splits)
qed

theorem committee_selection_total_witness:
  "\<exists>idx m' cs. select_committee demo_sha demo_manager [[1], [2], [3], [4]] [9] = Some (Ok (map ((!) [[1], [2], [3], [4]]) idx)) \<and> length idx = 3
    \<and> distinct (map ((!) [[1], [2], [3], [4]]) idx :: address list)
    \<and> issue_attestation_challenges demo_sha demo_manager [[1], [2], [3], [4]] 1000000 [] = Some (m', cs) \<and> length cs = 1"
proof -
  have c: "sl_attestation_challenge_interval_secs (sm_config demo_manager) \<le> 1000000" "sm_last_attestation_epoch demo_manager = 0"
    "sl_attestation_sample_percent (sm_config demo_manager) \<le> 25"
    by (simp_all add: demo_manager_def slashing_new_def slashing_config_default_def ATTESTATION_CHALLENGE_INTERVAL_SECS_def ATTESTATION_CHALLENGE_SAMPLE_PERCENT_def)
  have one: "min (max (length [[1], [2], [3], [4 :: u8]] * unat (sl_attestation_sample_percent (sm_config demo_manager)) div 100) 1) (length [[1], [2], [3], [4 :: u8]]) = 1"
    using c(3) by (auto simp: word_le_nat_alt)
  have now: "\<not> 1000000 < sm_last_attestation_epoch demo_manager + sl_attestation_challenge_interval_secs (sm_config demo_manager)"
    using c by (simp add: not_less)
  have "\<not> length [[1], [2], [3], [4 :: u8]] < sl_committee_size (sm_config demo_manager)" "distinct [[1], [2], [3], [4 :: u8]]"
    by (simp_all add: demo_config_ok)
  then show ?thesis
    using committee_selection_total [of "[[1], [2], [3], [4]]" demo_manager demo_sha "[9]" 1000000 "[]"]
    unfolding one if_not_P [OF now] demo_config_ok by (simp only: if_False) blast
qed

text \<open>
  A successful \<open>execute_slash\<close> takes exactly the severity's percentage of the offender's locked
  stake, as a reward for the reporter and a burn that add up to it, but out of the offender's free
  balance: the locked stake is unchanged. An offender with no free balance (everything staked) is not
  slashed at all: the call fails, no token moves, and neither a ban nor a tombstone is recorded.
\<close>

theorem slash_spares_locked_stake:
  assumes inv: "bank_inv (sm_bank m)" and cfg: "percents_ok (sm_config m)"
    and room: "unat (get_stake m (co_offender c)) * 100 < 2 ^ 128"
    and nb: "co_reporter c \<noteq> Some BURN_ADDRESS"
  shows "(\<forall>m' r. execute_slash sha js m c = (m', Ok r) \<longrightarrow>
      unat (sr_reporter_reward r) + unat (sr_burn_amount r) = slash_due m c
      \<and> lck (sm_bank m') = lck (sm_bank m)
      \<and> circulating (sm_bank m') + unat (sr_burn_amount r) = circulating (sm_bank m)
      \<and> (co_reporter c \<noteq> Some (co_offender c) \<longrightarrow>
           bal (sm_bank m') (co_offender c) + slash_due m c = bal (sm_bank m) (co_offender c))
      \<and> bank_inv (sm_bank m'))
    \<and> (bal (sm_bank m) (co_offender c) = lck (sm_bank m) (co_offender c) \<longrightarrow>
      (\<exists>m' e. execute_slash sha js m c = (m', Err e) \<and> ledger_of (sm_bank m') = ledger_of (sm_bank m)
        \<and> sm_bans m' = sm_bans m \<and> sm_tombstones m' = sm_tombstones m))"
proof -
  have "unat (sr_reporter_reward r) + unat (sr_burn_amount r) = slash_due m c
      \<and> lck (sm_bank m') = lck (sm_bank m)
      \<and> circulating (sm_bank m') + unat (sr_burn_amount r) = circulating (sm_bank m)
      \<and> (co_reporter c \<noteq> Some (co_offender c) \<longrightarrow>
           bal (sm_bank m') (co_offender c) + slash_due m c = bal (sm_bank m) (co_offender c))
      \<and> bank_inv (sm_bank m')" if run: "execute_slash sha js m c = (m', Ok r)" for m' r
    using execute_slash_ok [OF inv cfg room nb run]
    by (auto simp: take_from_def give_to_def split: option.splits)
  then show ?thesis
    using execute_slash_no_free [of m c sha js] by auto
qed

theorem slash_spares_locked_stake_witness:
  "\<exists>m' e. execute_slash demo_sha (\<lambda>_. []) demo_manager (demo_condition [1]) = (m', Err e)
    \<and> ledger_of (sm_bank m') = ledger_of staked_bank \<and> sm_bans m' = sm_bans demo_manager"
proof -
  have "unat (get_stake demo_manager [1]) = 1000"
    using staked_bank_views(2) by (simp add: get_stake_def lck_def demo_config_ok)
  then show ?thesis
    using slash_spares_locked_stake [of demo_manager "demo_condition [1]" demo_sha "\<lambda>_. []"] staked_bank_inv
    by (auto simp: demo_config_ok demo_condition_def staked_bank_views)
qed

text \<open>
  In every run of the manager's operations a tombstone is permanent: an address once tombstoned
  stays so, is banned at every time, and no later slash of it succeeds. The configuration never
  changes and the bank stays solvent and never issues tokens.
\<close>

theorem tombstones_are_permanent:
  assumes "slashing_run sha js m m'" and "a \<in> sm_tombstones m" and "bank_inv (sm_bank m)" and "co_offender c = a"
  shows "is_tombstoned m' a \<and> is_banned m' a t \<and> (\<exists>e. execute_slash sha js m' c = (m', Err e))
    \<and> sm_config m' = sm_config m \<and> bank_inv (sm_bank m') \<and> issued (sm_bank m') \<le> issued (sm_bank m)"
proof -
  have l: "later m m'" using assms(1) by (rule slashing_run_later)
  then have a: "a \<in> sm_tombstones m'" using assms(2) by (auto simp: later_def)
  have "\<exists>e. execute_slash sha js m' c = (m', Err e)"
    using a assms(4) by (simp add: execute_slash_def)
  then show ?thesis
    using a l bank_steps_solvent [of "sm_bank m" "sm_bank m'"] assms(3)
    by (simp add: is_tombstoned_def is_banned_def later_def)
qed

theorem tombstones_are_permanent_witness:
  "is_banned (queue_slash (demo_manager\<lparr>sm_tombstones := {[1]}\<rparr>) (demo_condition [2])) [1] 5"
proof -
  let ?m = "demo_manager\<lparr>sm_tombstones := {[1]}\<rparr>"
  have "slashing_run demo_sha (\<lambda>_. []) ?m (queue_slash ?m (demo_condition [2]))"
    by (rule r_into_rtranclp) (rule slashing_step.enqueue)
  from tombstones_are_permanent [OF this, of "[1]" "demo_condition [1]" 5] show ?thesis
    using staked_bank_inv by (simp add: demo_config_ok demo_condition_def)
qed

text \<open>
  \<open>finalize_challenge\<close> upholds a challenge exactly when there is a vote and at least 67 percent of the
  votes agree, the floating-point comparison being exact below \<open>2\<^sup>4\<^sup>0\<close> votes. Two of three votes are
  not enough, although the threshold is documented as two thirds, and without any vote the challenger
  is the one who pays.
\<close>

theorem challenge_threshold:
  assumes "sl_committee_threshold cfg = COMMITTEE_AGREEMENT_THRESHOLD" and "length (ch_committee_votes c) < 2 ^ 40"
  shows "(challenge_succeeds cfg c \<longleftrightarrow>
      ch_committee_votes c \<noteq> [] \<and> 67 * length (ch_committee_votes c) \<le> 100 * votes_for c)
    \<and> (length (ch_committee_votes c) = 3 \<longrightarrow> (challenge_succeeds cfg c \<longleftrightarrow> votes_for c = 3))"
  using challenge_succeeds_exact [OF assms] votes_for_le [of c] by auto

theorem challenge_threshold_witness:
  "let v = \<lambda>b. \<lparr>cv_voter = [], cv_agrees_with_challenge = b, cv_computed_result_hash = [], cv_vote_time = 0, cv_signature = []\<rparr>;
       c = \<lparr>ch_id = [], ch_job_id = [], ch_prover = [1], ch_challenger = [2], ch_original_result_hash = [],
            ch_created_at = 0, ch_expires_at = 600, ch_state = Voting, ch_committee = [[3], [4], [5]],
            ch_committee_votes = [([3], v True), ([4], v True), ([5], v False)], ch_challenger_stake_locked = 1\<rparr>
   in votes_for c = 2 \<and> \<not> challenge_succeeds slashing_config_default c"
proof -
  define v where "v = (\<lambda>b. \<lparr>cv_voter = [], cv_agrees_with_challenge = b, cv_computed_result_hash = [], cv_vote_time = 0, cv_signature = []\<rparr>)"
  define c where "c = \<lparr>ch_id = [], ch_job_id = [], ch_prover = [1], ch_challenger = [2], ch_original_result_hash = [],
            ch_created_at = 0, ch_expires_at = 600, ch_state = Voting, ch_committee = [[3], [4], [5]],
            ch_committee_votes = [([3], v True), ([4], v True), ([5], v False)], ch_challenger_stake_locked = 1\<rparr>"
  have "votes_for c = 2" by (simp add: votes_for_def c_def v_def)
  moreover from this have "\<not> challenge_succeeds slashing_config_default c"
    using challenge_threshold [of slashing_config_default c] by (simp add: slashing_config_default_def c_def)
  ultimately show ?thesis by (simp add: c_def v_def)
qed

text \<open>
  A challenge that is not decided in time costs the challenger nothing: after a successful
  \<open>submit_challenge\<close>, finalizing past the window reports the expiry, removes the challenge and leaves
  every balance, lock and total as before the submission. But when there are too few nodes for a
  committee the submission fails after the stake was locked, and the lock stays.
\<close>

theorem challenge_stake_lifecycle:
  assumes inv: "bank_inv (sm_bank m)"
  shows "(submit_challenge sha m a j p h s t av = Some (m1, Ok cid)
        \<and> t' > t + sl_challenge_window_secs (sm_config m) \<longrightarrow>
      (\<exists>m2. finalize_challenge sha js m1 cid t' = (m2, Err (Slashing ''Challenge expired''))
        \<and> ledger_of (sm_bank m2) = ledger_of (sm_bank m) \<and> hm_get (sm_challenges m2) cid = None))
    \<and> (length av < sl_committee_size (sm_config m) \<and> s \<le> get_stake m a
        \<and> lck (sm_bank m) a + unat s \<le> bal (sm_bank m) a \<and> hm_get (bk_accounts (sm_bank m)) a \<noteq> None \<longrightarrow>
      (\<exists>m2 e. submit_challenge sha m a j p h s t av = Some (m2, Err e) \<and> sm_challenges m2 = sm_challenges m
        \<and> lck (sm_bank m2) a = lck (sm_bank m) a + unat s))"
proof (intro conjI impI)
  assume run: "submit_challenge sha m a j p h s t av = Some (m1, Ok cid)
        \<and> t' > t + sl_challenge_window_secs (sm_config m)"
  then obtain b c where c: "lock (sm_bank m) a s = (b, Ok ())" "sm_bank m1 = b" "sm_config m1 = sm_config m"
    "hm_get (sm_challenges m1) cid = Some c" "ch_challenger c = a" "ch_challenger_stake_locked c = s"
    "ch_expires_at c = t + sl_challenge_window_secs (sm_config m)"
    using submit_challenge_okE by metis
  obtain b2 where u: "unlock b a s = (b2, Ok ())" "ledger_of b2 = ledger_of (sm_bank m)"
    using lock_then_unlock [OF inv c(1)] by blast
  show "\<exists>m2. finalize_challenge sha js m1 cid t' = (m2, Err (Slashing ''Challenge expired''))
        \<and> ledger_of (sm_bank m2) = ledger_of (sm_bank m) \<and> hm_get (sm_challenges m2) cid = None"
    using run c u by (simp add: finalize_challenge_def Let_def)
next
  assume few: "length av < sl_committee_size (sm_config m) \<and> s \<le> get_stake m a
        \<and> lck (sm_bank m) a + unat s \<le> bal (sm_bank m) a \<and> hm_get (bk_accounts (sm_bank m)) a \<noteq> None"
  then obtain b where b: "lock (sm_bank m) a s = (b, Ok ())"
    using lock_succeeds by blast
  then have "lck b a = lck (sm_bank m) a + unat s" using lock_ok(2) [OF inv b] by (simp add: give_to_def)
  with few b show "\<exists>m2 e. submit_challenge sha m a j p h s t av = Some (m2, Err e) \<and> sm_challenges m2 = sm_challenges m
        \<and> lck (sm_bank m2) a = lck (sm_bank m) a + unat s"
    by (auto simp: submit_challenge_def select_committee_def Let_def)
qed

theorem challenge_stake_lifecycle_witness:
  "\<exists>m2 e. submit_challenge demo_sha demo_manager [2] [7] [1] [8] 100 50 [[3]] = Some (m2, Err e)
    \<and> lck (sm_bank m2) [2] = 350"
proof -
  have "unat (get_stake demo_manager [2]) = 250"
    using staked_bank_views(4) by (simp add: get_stake_def lck_def demo_config_ok)
  then have "100 \<le> get_stake demo_manager [2]" by (simp add: word_le_nat_alt)
  then show ?thesis
    using challenge_stake_lifecycle [of demo_manager demo_sha "[2]" "[7]" "[1]" "[8]" 100 50 "[[3]]" demo_manager "[]" 0
        "\<lambda>_. []"] staked_bank_inv
    by (auto simp: demo_config_ok staked_bank_views)
qed

end
