(* ===== verification/Pouw_Engine.thy ===== *)
theory Pouw_Engine
  imports Errors Events
begin

text \<open>
  \<open>src/crates/vm/src/system_contracts/pouw_engine.rs\<close>: compute-weighted rewards, compliance bonds and
  their liquidation, the congestion burn, and the pricing of oracle data.

  SHA-256 is the parameter \<open>sha256\<close>. Region names are ASCII text, on which \<open>to_uppercase\<close> changes only the
  letters a to z. A constructor that another enum of the crate has too carries a suffix.
\<close>

section \<open>Constants\<close>

definition pouw_one_aethel :: token_amount where
  "pouw_one_aethel = 1000000000000000000"

definition BASE_APY_BPS :: u16 where
  "BASE_APY_BPS = 500"

definition MAX_COMPUTE_MULTIPLIER_BPS :: u16 where
  "MAX_COMPUTE_MULTIPLIER_BPS = 2500"

definition pouw_min_burn_rate_bps :: u16 where
  "pouw_min_burn_rate_bps = 500"

definition pouw_max_burn_rate_bps :: u16 where
  "pouw_max_burn_rate_bps = 2500"

definition COMPLIANCE_VICTIM_PAYOUT_BPS :: u16 where
  "COMPLIANCE_VICTIM_PAYOUT_BPS = 8000"

definition COMPLIANCE_BURN_BPS :: u16 where
  "COMPLIANCE_BURN_BPS = 2000"

definition COMPUTE_VERIFICATION_WINDOW :: u64 where
  "COMPUTE_VERIFICATION_WINDOW = 30 * 24 * 60 * 60"

definition COMPUTE_TIER_THRESHOLD :: u128 where
  "COMPUTE_TIER_THRESHOLD = 1000000"

definition ATTESTATION_FAILURE_COOLDOWN :: u64 where
  "ATTESTATION_FAILURE_COOLDOWN = 30 * 24 * 60 * 60"

section \<open>Bond types, regions, verification levels\<close>

datatype compliance_bond_type =
    GdprProcessing | HipaaProcessing | FinancialData | UaeDpl | SingaporePdpa | Soc2TypeII | Iso27001_Bond | PciDss_Bond

fun bond_type_code :: "compliance_bond_type \<Rightarrow> u8" where
  "bond_type_code GdprProcessing = 1"
| "bond_type_code HipaaProcessing = 2"
| "bond_type_code FinancialData = 3"
| "bond_type_code UaeDpl = 4"
| "bond_type_code SingaporePdpa = 5"
| "bond_type_code Soc2TypeII = 6"
| "bond_type_code Iso27001_Bond = 7"
| "bond_type_code PciDss_Bond = 8"

fun required_bond :: "compliance_bond_type \<Rightarrow> token_amount" where
  "required_bond GdprProcessing = 5000 * pouw_one_aethel"
| "required_bond HipaaProcessing = 10000 * pouw_one_aethel"
| "required_bond FinancialData = 15000 * pouw_one_aethel"
| "required_bond UaeDpl = 8000 * pouw_one_aethel"
| "required_bond SingaporePdpa = 6000 * pouw_one_aethel"
| "required_bond Soc2TypeII = 7500 * pouw_one_aethel"
| "required_bond Iso27001_Bond = 5000 * pouw_one_aethel"
| "required_bond PciDss_Bond = 20000 * pouw_one_aethel"

fun risk_weight_bps :: "compliance_bond_type \<Rightarrow> u16" where
  "risk_weight_bps GdprProcessing = 100"
| "risk_weight_bps HipaaProcessing = 200"
| "risk_weight_bps FinancialData = 300"
| "risk_weight_bps UaeDpl = 150"
| "risk_weight_bps SingaporePdpa = 120"
| "risk_weight_bps Soc2TypeII = 110"
| "risk_weight_bps Iso27001_Bond = 100"
| "risk_weight_bps PciDss_Bond = 350"

fun bond_type_name :: "compliance_bond_type \<Rightarrow> string" where
  "bond_type_name GdprProcessing = ''GDPR''"
| "bond_type_name HipaaProcessing = ''HIPAA''"
| "bond_type_name FinancialData = ''FINANCIAL''"
| "bond_type_name UaeDpl = ''UAE_DPL''"
| "bond_type_name SingaporePdpa = ''SG_PDPA''"
| "bond_type_name Soc2TypeII = ''SOC2_TYPE_II''"
| "bond_type_name Iso27001_Bond = ''ISO_27001''"
| "bond_type_name PciDss_Bond = ''PCI_DSS''"

datatype sovereignty_region =
    PublicRegion | EuropeanUnion | UnitedArabEmirates | Singapore | UnitedStates | Switzerland | Japan
  | Australia | UnitedKingdom | China

fun region_index :: "sovereignty_region \<Rightarrow> u8" where
  "region_index PublicRegion = 0"
| "region_index EuropeanUnion = 1"
| "region_index UnitedArabEmirates = 2"
| "region_index Singapore = 3"
| "region_index UnitedStates = 4"
| "region_index Switzerland = 5"
| "region_index Japan = 6"
| "region_index Australia = 7"
| "region_index UnitedKingdom = 8"
| "region_index China = 9"

fun base_premium_bps :: "sovereignty_region \<Rightarrow> u16" where
  "base_premium_bps PublicRegion = 100"
| "base_premium_bps EuropeanUnion = 300"
| "base_premium_bps UnitedArabEmirates = 500"
| "base_premium_bps Singapore = 350"
| "base_premium_bps UnitedStates = 250"
| "base_premium_bps Switzerland = 600"
| "base_premium_bps Japan = 280"
| "base_premium_bps Australia = 220"
| "base_premium_bps UnitedKingdom = 280"
| "base_premium_bps China = 400"

definition premium_multiplier_bps :: "sovereignty_region \<Rightarrow> bool \<Rightarrow> u16" where
  "premium_multiplier_bps r verified =
     (let base = base_premium_bps r
      in if verified then ucast ((ucast base * 150 :: u32) div 100) else base)"

fun region_code :: "sovereignty_region \<Rightarrow> string" where
  "region_code PublicRegion = ''INTL''"
| "region_code EuropeanUnion = ''EU''"
| "region_code UnitedArabEmirates = ''AE''"
| "region_code Singapore = ''SG''"
| "region_code UnitedStates = ''US''"
| "region_code Switzerland = ''CH''"
| "region_code Japan = ''JP''"
| "region_code Australia = ''AU''"
| "region_code UnitedKingdom = ''GB''"
| "region_code China = ''CN''"

definition upper_char :: "char \<Rightarrow> char" where
  "upper_char c =
     (let n = (of_char c :: nat) in if 97 \<le> n \<and> n \<le> 122 then char_of (n - 32) else c)"

definition region_from_str :: "string \<Rightarrow> sovereignty_region option" where
  "region_from_str s =
     (let u = map upper_char s
      in if u = ''INTL'' \<or> u = ''PUBLIC'' then Some PublicRegion
         else if u = ''EU'' \<or> u = ''EUR'' \<or> u = ''EUROPEAN_UNION'' then Some EuropeanUnion
         else if u = ''AE'' \<or> u = ''UAE'' \<or> u = ''UNITED_ARAB_EMIRATES'' then Some UnitedArabEmirates
         else if u = ''SG'' \<or> u = ''SINGAPORE'' then Some Singapore
         else if u = ''US'' \<or> u = ''USA'' \<or> u = ''UNITED_STATES'' then Some UnitedStates
         else if u = ''CH'' \<or> u = ''SWITZERLAND'' then Some Switzerland
         else if u = ''JP'' \<or> u = ''JAPAN'' then Some Japan
         else if u = ''AU'' \<or> u = ''AUSTRALIA'' then Some Australia
         else if u = ''GB'' \<or> u = ''UK'' \<or> u = ''UNITED_KINGDOM'' then Some UnitedKingdom
         else if u = ''CN'' \<or> u = ''CHINA'' then Some China
         else None)"

datatype data_verification_level =
    Unverified | SelfAttested | ThirdPartyVerified | AuthorityVerified | TeeAttested | ZkProofVerified

fun verification_level_code :: "data_verification_level \<Rightarrow> u8" where
  "verification_level_code Unverified = 0"
| "verification_level_code SelfAttested = 1"
| "verification_level_code ThirdPartyVerified = 2"
| "verification_level_code AuthorityVerified = 3"
| "verification_level_code TeeAttested = 4"
| "verification_level_code ZkProofVerified = 5"

fun verification_premium_bps :: "data_verification_level \<Rightarrow> u16" where
  "verification_premium_bps Unverified = 100"
| "verification_premium_bps SelfAttested = 110"
| "verification_premium_bps ThirdPartyVerified = 150"
| "verification_premium_bps AuthorityVerified = 200"
| "verification_premium_bps TeeAttested = 250"
| "verification_premium_bps ZkProofVerified = 300"

definition is_verified :: "data_verification_level \<Rightarrow> bool" where
  "is_verified l = (l \<in> {ThirdPartyVerified, AuthorityVerified, TeeAttested, ZkProofVerified})"

section \<open>Compute registry\<close>

datatype tee_verification_type = SgxVerified | NitroVerified | SevVerified | ArmTrustzone | Simulated

record compute_operation_record =
  or_operation_id :: hash
  or_job_id :: job_id
  or_timestamp :: u64
  or_verified_ops :: u128
  or_tee_type :: tee_verification_type
  or_proof_hash :: hash
  or_hardware_id :: string
  or_zk_verified :: bool

datatype hardware_tier = Entry | Basic | Standard | Professional | Enterprise

fun tier_code :: "hardware_tier \<Rightarrow> u8" where
  "tier_code Entry = 0"
| "tier_code Basic = 1"
| "tier_code Standard = 2"
| "tier_code Professional = 3"
| "tier_code Enterprise = 4"

fun tier_bonus_bps :: "hardware_tier \<Rightarrow> u16" where
  "tier_bonus_bps Entry = 0"
| "tier_bonus_bps Basic = 50"
| "tier_bonus_bps Standard = 150"
| "tier_bonus_bps Professional = 300"
| "tier_bonus_bps Enterprise = 500"

record node_compute_stats =
  nc_node :: address
  nc_verified_ops_30d :: u128
  nc_verified_ops_total :: u128
  nc_jobs_completed :: u64
  nc_jobs_failed :: u64
  nc_success_rate_bps :: u16
  nc_avg_ops_per_job :: u128
  nc_hardware_tier :: hardware_tier
  nc_last_updated :: u64
  nc_recent_operations :: "compute_operation_record list"

definition compute_stats_new :: "address \<Rightarrow> node_compute_stats" where
  "compute_stats_new node =
     \<lparr>nc_node = node, nc_verified_ops_30d = 0, nc_verified_ops_total = 0, nc_jobs_completed = 0,
      nc_jobs_failed = 0, nc_success_rate_bps = 10000, nc_avg_ops_per_job = 0,
      nc_hardware_tier = Entry, nc_last_updated = 0, nc_recent_operations = []\<rparr>"

definition prune_old_operations :: "node_compute_stats \<Rightarrow> u64 \<Rightarrow> node_compute_stats" where
  "prune_old_operations s current_time =
     (let cutoff = saturating_sub current_time COMPUTE_VERIFICATION_WINDOW
      in s\<lparr>nc_recent_operations := filter (\<lambda>r. or_timestamp r \<ge> cutoff) (nc_recent_operations s)\<rparr>)"

definition update_hardware_tier :: "node_compute_stats \<Rightarrow> node_compute_stats" where
  "update_hardware_tier s =
     s\<lparr>nc_hardware_tier :=
        (if nc_verified_ops_30d s \<ge> 1000000000000 then Enterprise
         else if nc_verified_ops_30d s \<ge> 100000000000 then Professional
         else if nc_verified_ops_30d s \<ge> 10000000000 then Standard
         else if nc_verified_ops_30d s \<ge> 1000000000 then Basic
         else Entry)\<rparr>"

definition update_success_rate :: "node_compute_stats \<Rightarrow> node_compute_stats" where
  "update_success_rate s =
     (let total_jobs = nc_jobs_completed s + nc_jobs_failed s
      in if total_jobs > 0
         then s\<lparr>nc_success_rate_bps := ucast ((ucast (nc_jobs_completed s) * 10000 :: u128) div ucast total_jobs)\<rparr>
         else s)"

definition add_operation :: "node_compute_stats \<Rightarrow> compute_operation_record \<Rightarrow> u64 \<Rightarrow> node_compute_stats" where
  "add_operation s r current_time =
     (let s = s\<lparr>nc_verified_ops_total := nc_verified_ops_total s + or_verified_ops r,
                nc_jobs_completed := nc_jobs_completed s + 1,
                nc_recent_operations := nc_recent_operations s @ [r]\<rparr>;
          s = prune_old_operations s current_time;
          s = s\<lparr>nc_verified_ops_30d := sum_list (map or_verified_ops (nc_recent_operations s))\<rparr>;
          s = (if nc_jobs_completed s > 0
               then s\<lparr>nc_avg_ops_per_job := nc_verified_ops_total s div ucast (nc_jobs_completed s)\<rparr> else s);
          s = update_success_rate s;
          s = update_hardware_tier s
      in s\<lparr>nc_last_updated := current_time\<rparr>)"

definition record_failure :: "node_compute_stats \<Rightarrow> u64 \<Rightarrow> node_compute_stats" where
  "record_failure s current_time =
     (update_success_rate (s\<lparr>nc_jobs_failed := nc_jobs_failed s + 1\<rparr>))\<lparr>nc_last_updated := current_time\<rparr>"

function count_digits :: "u128 \<Rightarrow> u32 \<Rightarrow> u32" where
  "count_digits v digits = (if v > 0 then count_digits (v div 10) (digits + 1) else digits)"
  by pat_completeness auto
termination
  by (relation "measure (\<lambda>(v, _). unat v)") (auto simp: unat_div word_gt_0 unat_gt_0 [symmetric])

declare count_digits.simps [simp del]

definition log10_approx :: "u128 \<Rightarrow> u32" where
  "log10_approx v = (if v = 0 then 0 else saturating_sub (count_digits v 0) 1)"

definition compute_multiplier_bps :: "node_compute_stats \<Rightarrow> u16" where
  "compute_multiplier_bps s =
     (if nc_verified_ops_30d s = 0 then 1000
      else 1000 + ucast (min (log10_approx (nc_verified_ops_30d s) * 100) 1500))"

section \<open>Compliance bonds\<close>

record compliance_bond =
  cb_bond_id :: hash
  cb_node :: address
  cb_bond_type :: compliance_bond_type
  cb_amount :: token_amount
  cb_created_at :: u64
  cb_expires_at :: u64
  cb_active :: bool
  cb_jobs_processed :: u64
  cb_data_value_processed :: token_amount
  cb_last_job_at :: u64

definition compliance_bond_new ::
    "hash \<Rightarrow> address \<Rightarrow> compliance_bond_type \<Rightarrow> token_amount \<Rightarrow> u64 \<Rightarrow> u64 \<Rightarrow> compliance_bond" where
  "compliance_bond_new bond_id node bond_type amount created_at expires_at =
     \<lparr>cb_bond_id = bond_id, cb_node = node, cb_bond_type = bond_type, cb_amount = amount,
      cb_created_at = created_at, cb_expires_at = expires_at, cb_active = True,
      cb_jobs_processed = 0, cb_data_value_processed = 0, cb_last_job_at = 0\<rparr>"

definition bond_is_valid :: "compliance_bond \<Rightarrow> u64 \<Rightarrow> bool" where
  "bond_is_valid b current_time = (cb_active b \<and> (cb_expires_at b = 0 \<or> current_time < cb_expires_at b))"

definition bond_record_job :: "compliance_bond \<Rightarrow> token_amount \<Rightarrow> u64 \<Rightarrow> compliance_bond" where
  "bond_record_job b data_value timestamp =
     b\<lparr>cb_jobs_processed := cb_jobs_processed b + 1,
       cb_data_value_processed := cb_data_value_processed b + data_value, cb_last_job_at := timestamp\<rparr>"

datatype liquidation_reason =
    TeeAttestationFailure | DataBreach | UnauthorizedAccess | AuditFailure | PrivacyViolation | KeyCompromise

fun liquidation_reason_code :: "liquidation_reason \<Rightarrow> u8" where
  "liquidation_reason_code TeeAttestationFailure = 1"
| "liquidation_reason_code DataBreach = 2"
| "liquidation_reason_code UnauthorizedAccess = 3"
| "liquidation_reason_code AuditFailure = 4"
| "liquidation_reason_code PrivacyViolation = 5"
| "liquidation_reason_code KeyCompromise = 6"

record bond_liquidation =
  bl_liquidation_id :: hash
  bl_bond_id :: hash
  bl_node :: address
  bl_victim :: address
  bl_bond_amount :: token_amount
  bl_victim_payout :: token_amount
  bl_burned :: token_amount
  bl_reason :: liquidation_reason
  bl_evidence_hash :: hash
  bl_timestamp :: u64

section \<open>Congestion\<close>

record congestion_metrics =
  cm_current_block_gas :: u64
  cm_max_block_gas :: u64
  cm_load_bps :: u16
  cm_avg_load_bps :: u16
  cm_current_burn_rate_bps :: u16
  cm_epoch_burned :: token_amount
  cm_total_burned :: token_amount
  cm_block_count :: u64
  cm_last_updated :: u64

definition congestion_default :: congestion_metrics where
  "congestion_default =
     \<lparr>cm_current_block_gas = 0, cm_max_block_gas = 30000000, cm_load_bps = 0, cm_avg_load_bps = 0,
      cm_current_burn_rate_bps = pouw_min_burn_rate_bps, cm_epoch_burned = 0, cm_total_burned = 0,
      cm_block_count = 0, cm_last_updated = 0\<rparr>"

definition congestion_burn_rate :: "congestion_metrics \<Rightarrow> u16" where
  "congestion_burn_rate c =
     (let load_ratio = f64_div (u64_as_f64 (ucast (cm_avg_load_bps c))) (Fin 10000);
          squared_factor = f64_mul load_ratio load_ratio;
          range = pouw_max_burn_rate_bps - pouw_min_burn_rate_bps;
          dynamic_burn = (f64_as_word (f64_mul (u64_as_f64 (ucast range)) squared_factor) :: u16)
      in pouw_min_burn_rate_bps + dynamic_burn)"

definition congestion_update_block :: "u64 \<Rightarrow> u64 \<Rightarrow> u64 \<Rightarrow> congestion_metrics \<Rightarrow> congestion_metrics" where
  "congestion_update_block gas_used gas_limit timestamp c =
     (let load = (if gas_limit > 0 then ucast ((ucast gas_used * 10000 :: u128) div ucast gas_limit) else 0 :: u16);
          c = c\<lparr>cm_current_block_gas := gas_used, cm_max_block_gas := gas_limit, cm_load_bps := load,
                cm_avg_load_bps := ucast ((ucast (cm_avg_load_bps c) * 90 + ucast load * 10 :: u32) div 100)\<rparr>
      in c\<lparr>cm_current_burn_rate_bps := congestion_burn_rate c, cm_block_count := cm_block_count c + 1,
           cm_last_updated := timestamp\<rparr>)"

definition congestion_burn :: "congestion_metrics \<Rightarrow> token_amount \<Rightarrow> token_amount" where
  "congestion_burn c fee = (fee * ucast (cm_current_burn_rate_bps c)) div 10000"

definition congestion_record_burn :: "token_amount \<Rightarrow> congestion_metrics \<Rightarrow> congestion_metrics" where
  "congestion_record_burn amount c =
     c\<lparr>cm_epoch_burned := cm_epoch_burned c + amount, cm_total_burned := cm_total_burned c + amount\<rparr>"

definition congestion_reset_epoch :: "congestion_metrics \<Rightarrow> congestion_metrics" where
  "congestion_reset_epoch c = c\<lparr>cm_epoch_burned := 0\<rparr>"

section \<open>Oracle pricing\<close>

datatype data_category =
    PublicData | Financial | Healthcare | Identity | Commercial | Government | IoTSensor | AiModelData

fun data_category_code :: "data_category \<Rightarrow> u8" where
  "data_category_code PublicData = 0"
| "data_category_code Financial = 1"
| "data_category_code Healthcare = 2"
| "data_category_code Identity = 3"
| "data_category_code Commercial = 4"
| "data_category_code Government = 5"
| "data_category_code IoTSensor = 6"
| "data_category_code AiModelData = 7"

fun base_multiplier_bps :: "data_category \<Rightarrow> u16" where
  "base_multiplier_bps PublicData = 100"
| "base_multiplier_bps Financial = 200"
| "base_multiplier_bps Healthcare = 400"
| "base_multiplier_bps Identity = 500"
| "base_multiplier_bps Commercial = 300"
| "base_multiplier_bps Government = 350"
| "base_multiplier_bps IoTSensor = 150"
| "base_multiplier_bps AiModelData = 800"

record oracle_data_request =
  od_request_id :: hash
  od_requester :: address
  od_provider :: address
  od_region :: sovereignty_region
  od_verification_level :: data_verification_level
  od_category :: data_category
  od_base_price :: token_amount
  od_premium_multiplier_bps :: u16
  od_final_price :: token_amount
  od_timestamp :: u64
  od_fulfilled :: bool

record provider_stats =
  pv_provider :: address
  pv_total_requests :: u64
  pv_total_earnings :: token_amount
  pv_requests_by_region :: "(u8, u64) hashmap"
  pv_avg_premium_bps :: u16
  pv_reputation_score :: u16
  pv_last_active :: u64

definition provider_stats_new :: "address \<Rightarrow> provider_stats" where
  "provider_stats_new p =
     \<lparr>pv_provider = p, pv_total_requests = 0, pv_total_earnings = 0, pv_requests_by_region = [],
      pv_avg_premium_bps = 0, pv_reputation_score = 5000, pv_last_active = 0\<rparr>"

definition record_request :: "provider_stats \<Rightarrow> token_amount \<Rightarrow> sovereignty_region \<Rightarrow> u64 \<Rightarrow> provider_stats" where
  "record_request p price region timestamp =
     p\<lparr>pv_total_requests := pv_total_requests p + 1, pv_total_earnings := pv_total_earnings p + price,
       pv_requests_by_region := hm_insert (region_index region)
         (hm_entry 0 (pv_requests_by_region p) (region_index region) + 1) (pv_requests_by_region p),
       pv_last_active := timestamp\<rparr>"

record sovereignty_oracle =
  so_base_price :: token_amount
  so_total_requests :: u64
  so_total_premium_collected :: token_amount
  so_requests_by_region :: "(u8, u64) hashmap"
  so_revenue_by_region :: "(u8, token_amount) hashmap"
  so_provider_stats :: "(address, provider_stats) hashmap"

definition oracle_default :: sovereignty_oracle where
  "oracle_default =
     \<lparr>so_base_price = pouw_one_aethel div 100, so_total_requests = 0, so_total_premium_collected = 0,
      so_requests_by_region = [], so_revenue_by_region = [], so_provider_stats = []\<rparr>"

definition calculate_price ::
    "sovereignty_oracle \<Rightarrow> sovereignty_region \<Rightarrow> data_verification_level \<Rightarrow> data_category \<Rightarrow> token_amount \<times> u16" where
  "calculate_price o' region verification category =
     (let base = so_base_price o';
          category_mult = base_multiplier_bps category;
          sovereignty_mult = premium_multiplier_bps region (is_verified verification);
          verification_mult = verification_premium_bps verification;
          combined_mult = (ucast category_mult * ucast sovereignty_mult * ucast verification_mult :: u128) div 10000
      in ((base * combined_mult) div 100, ucast combined_mult))"

definition oracle_process_request ::
    "sovereignty_oracle \<Rightarrow> hash \<Rightarrow> address \<Rightarrow> address \<Rightarrow> sovereignty_region \<Rightarrow> data_verification_level
      \<Rightarrow> data_category \<Rightarrow> u64 \<Rightarrow> sovereignty_oracle \<times> oracle_data_request" where
  "oracle_process_request o' request_id requester provider region verification category timestamp =
     (let (final_price, multiplier) = calculate_price o' region verification category;
          k = region_index region;
          stats = hm_entry (provider_stats_new provider) (so_provider_stats o') provider;
          o' = o'\<lparr>so_total_requests := so_total_requests o' + 1,
                 so_total_premium_collected := so_total_premium_collected o' + final_price,
                 so_requests_by_region := hm_insert k (hm_entry 0 (so_requests_by_region o') k + 1) (so_requests_by_region o'),
                 so_revenue_by_region := hm_insert k (hm_entry 0 (so_revenue_by_region o') k + final_price) (so_revenue_by_region o'),
                 so_provider_stats := hm_insert provider (record_request stats final_price region timestamp) (so_provider_stats o')\<rparr>
      in (o', \<lparr>od_request_id = request_id, od_requester = requester, od_provider = provider,
              od_region = region, od_verification_level = verification, od_category = category,
              od_base_price = so_base_price o', od_premium_multiplier_bps = multiplier,
              od_final_price = final_price, od_timestamp = timestamp, od_fulfilled = False\<rparr>))"

section \<open>The engine\<close>

record pouw_config =
  pc_base_apy_bps :: u16
  pc_max_compute_multiplier_bps :: u16
  pc_min_burn_rate_bps :: u16
  pc_max_burn_rate_bps :: u16
  pc_victim_payout_bps :: u16
  pc_bond_burn_bps :: u16
  pc_compute_window_secs :: u64
  pc_min_ops_for_bonus :: u128
  pc_enable_compute_weight :: bool
  pc_enable_compliance_bonds :: bool
  pc_enable_congestion_burn :: bool
  pc_enable_sovereignty_premium :: bool

definition pouw_config_default :: pouw_config where
  "pouw_config_default =
     \<lparr>pc_base_apy_bps = BASE_APY_BPS, pc_max_compute_multiplier_bps = MAX_COMPUTE_MULTIPLIER_BPS,
      pc_min_burn_rate_bps = pouw_min_burn_rate_bps, pc_max_burn_rate_bps = pouw_max_burn_rate_bps,
      pc_victim_payout_bps = COMPLIANCE_VICTIM_PAYOUT_BPS, pc_bond_burn_bps = COMPLIANCE_BURN_BPS,
      pc_compute_window_secs = COMPUTE_VERIFICATION_WINDOW, pc_min_ops_for_bonus = COMPUTE_TIER_THRESHOLD,
      pc_enable_compute_weight = True, pc_enable_compliance_bonds = True,
      pc_enable_congestion_burn = True, pc_enable_sovereignty_premium = True\<rparr>"

definition pouw_config_mainnet :: pouw_config where
  "pouw_config_mainnet = pouw_config_default"

definition pouw_config_testnet :: pouw_config where
  "pouw_config_testnet =
     pouw_config_default\<lparr>pc_min_burn_rate_bps := 300, pc_max_burn_rate_bps := 1500, pc_min_ops_for_bonus := 100000\<rparr>"

definition pouw_config_devnet :: pouw_config where
  "pouw_config_devnet =
     pouw_config_default\<lparr>pc_min_burn_rate_bps := 100, pc_max_burn_rate_bps := 1000,
       pc_min_ops_for_bonus := 1000, pc_enable_compliance_bonds := False\<rparr>"

record pouw_engine =
  pe_config :: pouw_config
  pe_compute_registry :: "(address, node_compute_stats) hashmap"
  pe_compliance_bonds :: "(address, compliance_bond list) hashmap"
  pe_bond_lookup :: "(hash, address) hashmap"
  pe_liquidation_history :: "bond_liquidation list"
  pe_congestion :: congestion_metrics
  pe_sovereignty_oracle :: sovereignty_oracle
  pe_total_staked :: token_amount
  pe_node_stakes :: "(address, token_amount) hashmap"
  pe_node_cooldowns :: "(address, u64) hashmap"
  pe_events :: "pouw_event list"
  pe_current_epoch :: u64
  pe_current_time :: u64

definition pouw_new :: "pouw_config \<Rightarrow> pouw_engine" where
  "pouw_new config =
     \<lparr>pe_config = config, pe_compute_registry = [], pe_compliance_bonds = [], pe_bond_lookup = [],
      pe_liquidation_history = [], pe_congestion = congestion_default,
      pe_sovereignty_oracle = oracle_default, pe_total_staked = 0, pe_node_stakes = [],
      pe_node_cooldowns = [], pe_events = [], pe_current_epoch = 0, pe_current_time = 0\<rparr>"

definition pouw_mainnet :: pouw_engine where
  "pouw_mainnet = pouw_new pouw_config_mainnet"

definition emit_pouw :: "pouw_event \<Rightarrow> pouw_engine \<Rightarrow> pouw_engine" where
  "emit_pouw ev e = e\<lparr>pe_events := pe_events e @ [ev]\<rparr>"

definition generate_operation_id :: "(bytes \<Rightarrow> hash) \<Rightarrow> address \<Rightarrow> job_id \<Rightarrow> u64 \<Rightarrow> hash" where
  "generate_operation_id sha256 node job timestamp = sha256 (ascii ''pouw-op-v1:'' @ node @ job @ le_bytes 8 timestamp)"

definition generate_bond_id :: "(bytes \<Rightarrow> hash) \<Rightarrow> address \<Rightarrow> compliance_bond_type \<Rightarrow> u64 \<Rightarrow> hash" where
  "generate_bond_id sha256 node bond_type timestamp =
     sha256 (ascii ''pouw-bond-v1:'' @ node @ [bond_type_code bond_type] @ le_bytes 8 timestamp)"

definition generate_liquidation_id :: "(bytes \<Rightarrow> hash) \<Rightarrow> address \<Rightarrow> hash \<Rightarrow> u64 \<Rightarrow> hash" where
  "generate_liquidation_id sha256 node bond_id timestamp =
     sha256 (ascii ''pouw-liq-v1:'' @ node @ bond_id @ le_bytes 8 timestamp)"

definition generate_request_id :: "(bytes \<Rightarrow> hash) \<Rightarrow> address \<Rightarrow> address \<Rightarrow> u64 \<Rightarrow> hash" where
  "generate_request_id sha256 requester provider timestamp =
     sha256 (ascii ''pouw-oracle-v1:'' @ requester @ provider @ le_bytes 8 timestamp)"

definition calculate_epoch_reward :: "pouw_engine \<Rightarrow> address \<Rightarrow> u64 \<Rightarrow> token_amount" where
  "calculate_epoch_reward e node epoch_duration_secs =
     (let staked = hm_entry 0 (pe_node_stakes e) node
      in if staked = 0 then 0
         else
           let seconds_per_year = (365 * 24 * 60 * 60 :: u64);
               base_reward = (staked * ucast (pc_base_apy_bps (pe_config e)) * ucast epoch_duration_secs)
                             div (10000 * ucast seconds_per_year)
           in if \<not> pc_enable_compute_weight (pe_config e) then base_reward
              else
                let compute_stats = hm_get (pe_compute_registry e) node;
                    multiplier_bps = (case compute_stats of Some s \<Rightarrow> compute_multiplier_bps s | None \<Rightarrow> 1000);
                    tier_bonus = (case compute_stats of Some s \<Rightarrow> tier_bonus_bps (nc_hardware_tier s) | None \<Rightarrow> 0);
                    total_multiplier_bps = multiplier_bps + tier_bonus;
                    capped_multiplier = min total_multiplier_bps (pc_max_compute_multiplier_bps (pe_config e))
                in (base_reward * ucast capped_multiplier) div 1000)"

definition register_compute_operation ::
    "(bytes \<Rightarrow> hash) \<Rightarrow> pouw_engine \<Rightarrow> address \<Rightarrow> job_id \<Rightarrow> u128 \<Rightarrow> tee_verification_type \<Rightarrow> hash \<Rightarrow> string \<Rightarrow> bool
      \<Rightarrow> pouw_engine \<times> unit sys_result" where
  "register_compute_operation sha256 e node job verified_ops tee proof_hash hardware_id zk_verified =
     (let r = \<lparr>or_operation_id = generate_operation_id sha256 node job (pe_current_time e), or_job_id = job,
               or_timestamp = pe_current_time e, or_verified_ops = verified_ops, or_tee_type = tee,
               or_proof_hash = proof_hash, or_hardware_id = hardware_id, or_zk_verified = zk_verified\<rparr>;
          stats = hm_entry (compute_stats_new node) (pe_compute_registry e) node;
          old_multiplier = compute_multiplier_bps stats;
          stats = add_operation stats r (pe_current_time e);
          new_multiplier = compute_multiplier_bps stats;
          e = e\<lparr>pe_compute_registry := hm_insert node stats (pe_compute_registry e)\<rparr>
      in (if new_multiplier \<noteq> old_multiplier
          then emit_pouw (ComputeMultiplierUpdated node old_multiplier new_multiplier
                 (nc_verified_ops_30d stats) (tier_code (nc_hardware_tier stats))) e
          else e, Ok ()))"

definition record_compute_failure :: "pouw_engine \<Rightarrow> address \<Rightarrow> pouw_engine" where
  "record_compute_failure e node =
     e\<lparr>pe_compute_registry := hm_insert node
        (record_failure (hm_entry (compute_stats_new node) (pe_compute_registry e) node) (pe_current_time e))
        (pe_compute_registry e)\<rparr>"

definition post_compliance_bond ::
    "(bytes \<Rightarrow> hash) \<Rightarrow> pouw_engine \<Rightarrow> address \<Rightarrow> compliance_bond_type \<Rightarrow> token_amount \<Rightarrow> u64
      \<Rightarrow> pouw_engine \<times> hash sys_result" where
  "post_compliance_bond sha256 e node bond_type amount expires_at =
     (if amount < required_bond bond_type then (e, Err (InsufficientBond (required_bond bond_type) amount))
      else
        let post =
          (let bond_id = generate_bond_id sha256 node bond_type (pe_current_time e);
               bond = compliance_bond_new bond_id node bond_type amount (pe_current_time e) expires_at;
               e = e\<lparr>pe_compliance_bonds := hm_insert node
                        (hm_entry [] (pe_compliance_bonds e) node @ [bond]) (pe_compliance_bonds e),
                     pe_bond_lookup := hm_insert bond_id node (pe_bond_lookup e)\<rparr>
           in (emit_pouw (ComplianceBondPosted bond_id node (bond_type_code bond_type) amount expires_at) e,
               Ok bond_id))
        in case hm_get (pe_node_cooldowns e) node of
             None \<Rightarrow> post
           | Some cooldown_until \<Rightarrow>
               if pe_current_time e < cooldown_until then (e, Err (NodeInCooldown cooldown_until)) else post)"

definition has_valid_bond :: "pouw_engine \<Rightarrow> address \<Rightarrow> compliance_bond_type \<Rightarrow> bool" where
  "has_valid_bond e node bond_type =
     (case hm_get (pe_compliance_bonds e) node of
        None \<Rightarrow> False
      | Some bonds \<Rightarrow> list_ex (\<lambda>b. cb_bond_type b = bond_type \<and> bond_is_valid b (pe_current_time e)) bonds)"

definition total_bond_amount :: "pouw_engine \<Rightarrow> address \<Rightarrow> token_amount" where
  "total_bond_amount e node =
     (case hm_get (pe_compliance_bonds e) node of
        None \<Rightarrow> 0
      | Some bonds \<Rightarrow> sum_list (map cb_amount (filter (\<lambda>b. bond_is_valid b (pe_current_time e)) bonds)))"

text \<open>\<open>position\<close> and \<open>remove\<close>: the first bond with the identifier, and the others in order.\<close>

fun take_bond :: "hash \<Rightarrow> compliance_bond list \<Rightarrow> (compliance_bond \<times> compliance_bond list) option" where
  "take_bond bond_id [] = None"
| "take_bond bond_id (b # bs) =
     (if cb_bond_id b = bond_id then Some (b, bs)
      else map_option (\<lambda>(x, rest). (x, b # rest)) (take_bond bond_id bs))"

definition execute_compliance_slash ::
    "(bytes \<Rightarrow> hash) \<Rightarrow> pouw_engine \<Rightarrow> address \<Rightarrow> hash \<Rightarrow> address \<Rightarrow> liquidation_reason \<Rightarrow> hash
      \<Rightarrow> pouw_engine \<times> bond_liquidation sys_result" where
  "execute_compliance_slash sha256 e node bond_id victim reason evidence_hash =
     (case hm_get (pe_compliance_bonds e) node of
        None \<Rightarrow> (e, Err NoBondFound)
      | Some bonds \<Rightarrow>
          (case take_bond bond_id bonds of
             None \<Rightarrow> (e, Err NoBondFound)
           | Some (bond, rest) \<Rightarrow>
               let victim_payout = (cb_amount bond * ucast (pc_victim_payout_bps (pe_config e))) div 10000;
                   burned = cb_amount bond - victim_payout;
                   liquidation_id = generate_liquidation_id sha256 node bond_id (pe_current_time e);
                   liquidation = \<lparr>bl_liquidation_id = liquidation_id, bl_bond_id = bond_id, bl_node = node,
                                  bl_victim = victim, bl_bond_amount = cb_amount bond,
                                  bl_victim_payout = victim_payout, bl_burned = burned,
                                  bl_reason = reason, bl_evidence_hash = evidence_hash,
                                  bl_timestamp = pe_current_time e\<rparr>;
                   e = e\<lparr>pe_compliance_bonds := hm_insert node rest (pe_compliance_bonds e),
                         pe_bond_lookup := hm_remove bond_id (pe_bond_lookup e),
                         pe_liquidation_history := pe_liquidation_history e @ [liquidation],
                         pe_node_cooldowns := hm_insert node (pe_current_time e + ATTESTATION_FAILURE_COOLDOWN)
                           (pe_node_cooldowns e),
                         pe_congestion := congestion_record_burn burned (pe_congestion e)\<rparr>
               in (emit_pouw (ComplianceBondLiquidated liquidation_id bond_id node victim (cb_amount bond)
                     victim_payout burned (liquidation_reason_code reason)) e, Ok liquidation)))"

definition pouw_update_block :: "pouw_engine \<Rightarrow> u64 \<Rightarrow> u64 \<Rightarrow> u64 \<Rightarrow> pouw_engine" where
  "pouw_update_block e gas_used gas_limit timestamp =
     (let e = e\<lparr>pe_current_time := timestamp\<rparr>
      in if \<not> pc_enable_congestion_burn (pe_config e) then e
         else
           let old_rate = cm_current_burn_rate_bps (pe_congestion e);
               e = e\<lparr>pe_congestion := congestion_update_block gas_used gas_limit timestamp (pe_congestion e)\<rparr>;
               new_rate = cm_current_burn_rate_bps (pe_congestion e)
           in if \<bar>uint new_rate - uint old_rate\<bar> \<ge> 100
              then emit_pouw (pouw_event.BurnRateUpdated old_rate new_rate (cm_avg_load_bps (pe_congestion e))
                     (cm_total_burned (pe_congestion e))) e
              else e)"

definition pouw_calculate_burn :: "pouw_engine \<Rightarrow> token_amount \<Rightarrow> token_amount \<times> u16" where
  "pouw_calculate_burn e fee =
     (if \<not> pc_enable_congestion_burn (pe_config e)
      then ((fee * ucast (pc_min_burn_rate_bps (pe_config e))) div 10000, pc_min_burn_rate_bps (pe_config e))
      else (congestion_burn (pe_congestion e) fee, cm_current_burn_rate_bps (pe_congestion e)))"

record pouw_fee_distribution =
  pf_total_fee :: token_amount
  pf_prover_amount :: token_amount
  pf_validator_amount :: token_amount
  pf_burn_amount :: token_amount
  pf_burn_rate_bps :: u16

definition pouw_process_fee :: "pouw_engine \<Rightarrow> token_amount \<Rightarrow> pouw_engine \<times> pouw_fee_distribution" where
  "pouw_process_fee e fee =
     (let (burn_amount, burn_rate) = pouw_calculate_burn e fee;
          prover_amount = (fee * 70) div 100;
          validator_amount = saturating_sub (saturating_sub fee prover_amount) burn_amount;
          e = e\<lparr>pe_congestion := congestion_record_burn burn_amount (pe_congestion e)\<rparr>
      in (emit_pouw (FeeProcessed fee prover_amount validator_amount burn_amount burn_rate
            (cm_avg_load_bps (pe_congestion e))) e,
          \<lparr>pf_total_fee = fee, pf_prover_amount = prover_amount, pf_validator_amount = validator_amount,
           pf_burn_amount = burn_amount, pf_burn_rate_bps = burn_rate\<rparr>))"

definition price_oracle_data ::
    "pouw_engine \<Rightarrow> string \<Rightarrow> data_verification_level \<Rightarrow> data_category \<Rightarrow> token_amount \<times> u16" where
  "price_oracle_data e region verification category =
     (if \<not> pc_enable_sovereignty_premium (pe_config e) then (so_base_price (pe_sovereignty_oracle e), 100)
      else
        let r = (case region_from_str region of Some r \<Rightarrow> r | None \<Rightarrow> PublicRegion)
        in calculate_price (pe_sovereignty_oracle e) r verification category)"

definition process_oracle_request ::
    "(bytes \<Rightarrow> hash) \<Rightarrow> pouw_engine \<Rightarrow> address \<Rightarrow> address \<Rightarrow> string \<Rightarrow> data_verification_level \<Rightarrow> data_category
      \<Rightarrow> pouw_engine \<times> oracle_data_request sys_result" where
  "process_oracle_request sha256 e requester provider region verification category =
     (let r = (case region_from_str region of Some r \<Rightarrow> r | None \<Rightarrow> PublicRegion);
          request_id = generate_request_id sha256 requester provider (pe_current_time e);
          (oracle, request) = oracle_process_request (pe_sovereignty_oracle e) request_id requester provider r
                                verification category (pe_current_time e);
          e = e\<lparr>pe_sovereignty_oracle := oracle\<rparr>
      in (emit_pouw (SovereigntyPremiumCharged request_id requester provider (region_index r)
            (verification_level_code verification) (data_category_code category) (od_base_price request)
            (od_premium_multiplier_bps request) (od_final_price request)) e, Ok request))"

definition register_stake :: "pouw_engine \<Rightarrow> address \<Rightarrow> token_amount \<Rightarrow> pouw_engine" where
  "register_stake e node amount =
     e\<lparr>pe_node_stakes := hm_insert node (hm_entry 0 (pe_node_stakes e) node + amount) (pe_node_stakes e),
       pe_total_staked := pe_total_staked e + amount\<rparr>"

definition reduce_stake :: "pouw_engine \<Rightarrow> address \<Rightarrow> token_amount \<Rightarrow> pouw_engine \<times> unit sys_result" where
  "reduce_stake e node amount =
     (let current = hm_entry 0 (pe_node_stakes e) node
      in if current < amount then (e, Err (InsufficientStake amount current))
         else (e\<lparr>pe_node_stakes := hm_insert node (current - amount) (pe_node_stakes e),
                 pe_total_staked := saturating_sub (pe_total_staked e) amount\<rparr>, Ok ()))"

record pouw_stats =
  pt_compute_nodes :: u32
  pt_total_compute_ops_30d :: u128
  pt_active_compliance_bonds :: u64
  pt_total_bond_value :: token_amount
  pt_total_liquidations :: u64
  pt_current_burn_rate_bps :: u16
  pt_network_load_bps :: u16
  pt_total_burned :: token_amount
  pt_total_staked :: token_amount
  pt_oracle_requests :: u64
  pt_oracle_revenue :: token_amount

definition pouw_stats_of :: "pouw_engine \<Rightarrow> pouw_stats" where
  "pouw_stats_of e =
     (let active = filter (\<lambda>b. bond_is_valid b (pe_current_time e)) (concat (map snd (pe_compliance_bonds e)))
      in \<lparr>pt_compute_nodes = of_nat (length (pe_compute_registry e)),
          pt_total_compute_ops_30d = sum_list (map (\<lambda>(_, s). nc_verified_ops_30d s) (pe_compute_registry e)),
          pt_active_compliance_bonds = of_nat (length active),
          pt_total_bond_value = sum_list (map cb_amount active),
          pt_total_liquidations = of_nat (length (pe_liquidation_history e)),
          pt_current_burn_rate_bps = cm_current_burn_rate_bps (pe_congestion e),
          pt_network_load_bps = cm_avg_load_bps (pe_congestion e),
          pt_total_burned = cm_total_burned (pe_congestion e),
          pt_total_staked = pe_total_staked e,
          pt_oracle_requests = so_total_requests (pe_sovereignty_oracle e),
          pt_oracle_revenue = so_total_premium_collected (pe_sovereignty_oracle e)\<rparr>)"

definition pouw_set_time :: "pouw_engine \<Rightarrow> u64 \<Rightarrow> pouw_engine" where
  "pouw_set_time e timestamp = e\<lparr>pe_current_time := timestamp\<rparr>"

definition start_epoch :: "pouw_engine \<Rightarrow> u64 \<Rightarrow> pouw_engine" where
  "start_epoch e epoch =
     (let e = e\<lparr>pe_current_epoch := epoch, pe_congestion := congestion_reset_epoch (pe_congestion e)\<rparr>
      in emit_pouw (EpochStarted epoch (pe_current_time e) (cm_current_burn_rate_bps (pe_congestion e))) e)"

definition pouw_drain_events :: "pouw_engine \<Rightarrow> pouw_engine \<times> pouw_event list" where
  "pouw_drain_events e = (e\<lparr>pe_events := []\<rparr>, pe_events e)"

definition end_epoch :: "pouw_engine \<Rightarrow> pouw_engine \<times> pouw_event list" where
  "end_epoch e =
     pouw_drain_events (emit_pouw (EpochEnded (pe_current_epoch e) (pe_current_time e)
       (cm_epoch_burned (pe_congestion e)) 0) e)"

end
