(* ===== verification/Pouw_Properties.thy ===== *)
theory Pouw_Properties
  imports Pouw_Engine "HOL-Library.Multiset"
begin

text \<open>
  The properties of \<open>pouw_engine.rs\<close>: the compute-weighted reward, the congestion burn with its fee
  split, and the liquidation of compliance bonds.
\<close>

section \<open>The compute multiplier\<close>

lemma count_digits_exact:
  assumes "v \<noteq> 0" and "unat v < 10 ^ n" and "unat d + n < 2 ^ 32"
  shows "\<exists>k. unat (count_digits v d) = unat d + Suc k \<and> 10 ^ k \<le> unat v \<and> unat v < 10 ^ Suc k"
  using assms
proof (induction v d arbitrary: n rule: count_digits.induct)
  case (1 v d)
  have vpos: "0 < v" using "1.prems"(1) by (simp add: word_gt_0)
  have n: "n \<noteq> 0" using "1.prems"(2) vpos by (cases n) (auto simp: word_less_nat_alt)
  then obtain n' where n': "n = Suc n'" by (cases n) auto
  have d1: "unat (d + 1) = unat d + 1" using "1.prems"(3) n' by (subst unat_add_exact) simp_all
  have q: "unat (v div 10) = unat v div 10" by (simp add: unat_div)
  show ?case
  proof (cases "v div 10 = 0")
    case True
    then have "unat v div 10 = 0" using q by simp
    then have "unat v < 10" by simp
    moreover have "count_digits v d = d + 1"
      using vpos True by (simp add: count_digits.simps [of v] count_digits.simps [of 0])
    moreover have "1 \<le> unat v" using vpos by (simp add: word_less_nat_alt)
    ultimately show ?thesis using d1 by (intro exI [of _ 0]) simp
  next
    case False
    have "unat (v div 10) < 10 ^ n'" using "1.prems"(2) n' q by (simp add: div_less_iff_less_mult mult.commute)
    then obtain k where k: "unat (count_digits (v div 10) (d + 1)) = unat (d + 1) + Suc k"
      "10 ^ k \<le> unat v div 10" "unat v div 10 < 10 ^ Suc k"
      using "1.IH" [OF vpos False, of n'] "1.prems"(3) n' d1 q by auto
    then show ?thesis
      using vpos d1 by (intro exI [of _ "Suc k"]) (simp add: count_digits.simps [of v] div_less_iff_less_mult less_eq_div_iff_mult_less_eq)
  qed
qed

lemma log10_exact:
  assumes "v \<noteq> 0"
  shows "10 ^ unat (log10_approx v) \<le> unat v \<and> unat v < 10 ^ Suc (unat (log10_approx v))"
proof -
  have "unat v < 10 ^ 39" using unat_bound128 [of v] by (rule order.strict_trans) simp
  then have "\<exists>k. unat (count_digits v 0) = unat (0 :: u32) + Suc k \<and> 10 ^ k \<le> unat v \<and> unat v < 10 ^ Suc k"
    using assms by (intro count_digits_exact [where n = 39]) simp_all
  then obtain k where "unat (count_digits v 0) = Suc k" "10 ^ k \<le> unat v" "unat v < 10 ^ Suc k"
    by (auto simp del: power_Suc)
  then show ?thesis using assms by (simp add: log10_approx_def unat_saturating_sub)
qed

lemma log10_small: "unat (log10_approx v) \<le> 38"
proof (cases "v = 0")
  case False
  have "10 ^ unat (log10_approx v) \<le> unat v" using log10_exact [OF False] by simp
  also have "\<dots> < 10 ^ 39" using unat_bound128 [of v] by (rule order.strict_trans) simp
  finally have "unat (log10_approx v) < 39" by (simp only: power_strict_increasing_iff [of "10::nat"])
  then show ?thesis by simp
qed (simp add: log10_approx_def)

lemma compute_multiplier_exact:
  "unat (compute_multiplier_bps s) =
     (if nc_verified_ops_30d s = 0 then 1000
      else 1000 + min (100 * unat (log10_approx (nc_verified_ops_30d s))) 1500)"
proof -
  let ?l = "log10_approx (nc_verified_ops_30d s)"
  have m: "unat (?l * 100) = unat ?l * 100"
    using log10_small [of "nc_verified_ops_30d s"] by (subst unat_mult_exact) simp_all
  have "unat (min (?l * 100) 1500) = min (100 * unat ?l) 1500"
    by (simp add: min_def word_le_nat_alt m mult.commute)
  moreover from this have "unat (ucast (min (?l * 100) 1500) :: u16) = min (100 * unat ?l) 1500"
    by (subst unat_ucast_small) simp_all
  ultimately show ?thesis
    by (simp add: compute_multiplier_bps_def) (subst unat_add_exact, simp_all)
qed

lemma compute_multiplier_bounds: "1000 \<le> unat (compute_multiplier_bps s) \<and> unat (compute_multiplier_bps s) \<le> 2500"
  by (simp add: compute_multiplier_exact)

lemma tier_bonus_le: "unat (tier_bonus_bps t) \<le> 500"
  by (cases t) simp_all

text \<open>The multiplier that a reward uses, in thousandths.\<close>

definition reward_multiplier :: "pouw_engine \<Rightarrow> address \<Rightarrow> nat" where
  "reward_multiplier e node =
     (if pc_enable_compute_weight (pe_config e)
      then min (case hm_get (pe_compute_registry e) node of
                  None \<Rightarrow> 1000
                | Some s \<Rightarrow> unat (compute_multiplier_bps s) + unat (tier_bonus_bps (nc_hardware_tier s)))
             (unat (pc_max_compute_multiplier_bps (pe_config e)))
      else 1000)"

definition base_reward :: "pouw_engine \<Rightarrow> address \<Rightarrow> u64 \<Rightarrow> nat" where
  "base_reward e node secs =
     unat (hm_entry 0 (pe_node_stakes e) node) * unat (pc_base_apy_bps (pe_config e)) * unat secs div 315360000000"

lemma epoch_reward_exact:
  assumes room: "unat (hm_entry 0 (pe_node_stakes e) node) * unat (pc_base_apy_bps (pe_config e)) * unat secs < 2 ^ 128"
  shows "unat (calculate_epoch_reward e node secs) = base_reward e node secs * reward_multiplier e node div 1000"
proof -
  let ?st = "hm_entry 0 (pe_node_stakes e) node" and ?apy = "pc_base_apy_bps (pe_config e)"
  show ?thesis
  proof (cases "?st = 0 \<or> secs = 0")
    case True
    then show ?thesis by (auto simp: calculate_epoch_reward_def base_reward_def Let_def)
  next
    case False
    then have "1 \<le> unat secs" by (simp add: Suc_leI unat_gt_0 word_gt_0)
    then have "unat ?st * unat ?apy * 1 \<le> unat ?st * unat ?apy * unat secs" by (rule mult_le_mono2)
    from order.strict_trans1 [OF this room] have p1: "unat (?st * ucast ?apy) = unat ?st * unat ?apy"
      by (subst unat_mult_exact) simp_all
    have p2: "unat (?st * ucast ?apy * ucast secs) = unat ?st * unat ?apy * unat secs"
      using room p1 by (subst unat_mult_exact) simp_all
    let ?b = "?st * ucast ?apy * ucast secs div (10000 * ucast (365 * 24 * 60 * 60 :: u64)) :: u128"
    have b: "unat ?b = base_reward e node secs"
      by (simp add: unat_div p2 base_reward_def)
    have bl: "base_reward e node secs * 315360000000 < 2 ^ 128"
      using room by (auto simp: base_reward_def intro: order.strict_trans1 [OF div_times_less_eq_dividend])
    define w where "w = (case hm_get (pe_compute_registry e) node of None \<Rightarrow> 1000 | Some s \<Rightarrow> compute_multiplier_bps s)
      + (case hm_get (pe_compute_registry e) node of None \<Rightarrow> 0 | Some s \<Rightarrow> tier_bonus_bps (nc_hardware_tier s))"
    have w: "unat w = (case hm_get (pe_compute_registry e) node of None \<Rightarrow> 1000
        | Some s \<Rightarrow> unat (compute_multiplier_bps s) + unat (tier_bonus_bps (nc_hardware_tier s)))"
    proof (cases "hm_get (pe_compute_registry e) node")
      case (Some s)
      have "unat (compute_multiplier_bps s) + unat (tier_bonus_bps (nc_hardware_tier s)) < 2 ^ LENGTH(16)"
        using compute_multiplier_bounds [of s] tier_bonus_le [of "nc_hardware_tier s"] by simp
      with Some show ?thesis by (simp add: w_def unat_add_exact)
    qed (simp add: w_def)
    have mw: "unat (min w x) = min (unat w) (unat x)" for x
      by (simp add: min_def word_le_nat_alt)
    have "unat (min w (pc_max_compute_multiplier_bps (pe_config e))) \<le> 2 ^ 16"
      using unat_bound16 by (rule less_imp_le)
    then have "base_reward e node secs * unat (min w (pc_max_compute_multiplier_bps (pe_config e)))
        \<le> base_reward e node secs * 315360000000" by (intro mult_le_mono2) simp
    from order.strict_trans1 [OF this bl] have "unat (?b * ucast (min w (pc_max_compute_multiplier_bps (pe_config e))))
        = base_reward e node secs * min (unat w) (unat (pc_max_compute_multiplier_bps (pe_config e)))"
      using b mw by (subst unat_mult_exact) simp_all
    then show ?thesis
      using False b w
      by (simp add: calculate_epoch_reward_def Let_def reward_multiplier_def unat_div w_def [symmetric])
  qed
qed


section \<open>The congestion burn\<close>

lemma u16_as_f64: "u64_as_f64 (ucast (x :: u16)) = Fin (of_nat (unat x))"
  using f64_round_nat_exact [of "unat x"] unat_bound16 [of x] by (simp add: u64_as_f64_def)

lemma f64_round_unit: "0 \<le> x \<Longrightarrow> x \<le> 1 \<Longrightarrow> 0 \<le> f64_round x \<and> f64_round x \<le> 1"
  using f64_round_le_nat [of x 1] f64_round_nonneg by simp

definition congestion_ok :: "congestion_metrics \<Rightarrow> bool" where
  "congestion_ok c \<longleftrightarrow> cm_avg_load_bps c \<le> 10000
     \<and> pouw_min_burn_rate_bps \<le> cm_current_burn_rate_bps c \<and> cm_current_burn_rate_bps c \<le> pouw_max_burn_rate_bps"

lemma congestion_burn_rate_bounds:
  assumes "cm_avg_load_bps c \<le> 10000"
  shows "pouw_min_burn_rate_bps \<le> congestion_burn_rate c \<and> congestion_burn_rate c \<le> pouw_max_burn_rate_bps"
proof -
  define n where "n = unat (cm_avg_load_bps c)"
  define r where "r = f64_round (of_nat n / 10000)"
  define q where "q = f64_round (r * r)"
  have "n \<le> 10000" using assms by (simp add: word_le_nat_alt n_def)
  then have "(of_nat n :: rat) \<le> of_nat 10000" by (simp only: of_nat_le_iff)
  then have r: "0 \<le> r \<and> r \<le> 1" unfolding r_def by (intro f64_round_unit) simp_all
  then have q: "0 \<le> q \<and> q \<le> 1" unfolding q_def by (intro f64_round_unit) (simp_all add: mult_le_one)
  have le: "f64_round (2000 * q) \<le> of_nat 2000" using q by (intro f64_round_le_nat) simp_all
  let ?d = "f64_as_word (Fin (f64_round (2000 * q))) :: u16"
  have d: "unat ?d \<le> 2000"
  proof -
    have "\<lfloor>f64_round (2000 * q)\<rfloor> \<le> 2000" using floor_mono [OF le] by simp
    then show ?thesis unfolding unat_f64_as_word by (simp add: min_le_iff_disj nat_le_iff)
  qed
  have "congestion_burn_rate c = 500 + ?d"
    by (simp add: congestion_burn_rate_def Let_def pouw_max_burn_rate_bps_def pouw_min_burn_rate_bps_def
        u16_as_f64 u16_as_f64 [of 2000, simplified] r_def q_def n_def f64_round_nonneg)
  moreover have "unat (500 + ?d) = 500 + unat ?d" using d by (subst unat_add_exact) simp_all
  ultimately show ?thesis
    using d by (simp add: word_le_nat_alt pouw_max_burn_rate_bps_def pouw_min_burn_rate_bps_def)
qed


lemma congestion_update_ok:
  assumes "congestion_ok c" and "used \<le> limit"
  shows "congestion_ok (congestion_update_block used limit t c)"
proof -
  define load where "load = (if limit > 0 then ucast ((ucast used * 10000 :: u128) div ucast limit) else 0 :: u16)"
  define avg where "avg = (ucast ((ucast (cm_avg_load_bps c) * 90 + ucast load * 10 :: u32) div 100) :: u16)"
  have l: "unat load \<le> 10000"
    using gas_share_le [OF assms(2)] by (auto simp: load_def word_le_nat_alt)
  have a: "unat (cm_avg_load_bps c) \<le> 10000" using assms(1) by (simp add: congestion_ok_def word_le_nat_alt)
  have m1: "unat (ucast (cm_avg_load_bps c) * 90 :: u32) = unat (cm_avg_load_bps c) * 90"
    using a by (subst unat_mult_exact) simp_all
  have m2: "unat (ucast load * 10 :: u32) = unat load * 10" using l by (subst unat_mult_exact) simp_all
  have "unat (ucast (cm_avg_load_bps c) * 90 + ucast load * 10 :: u32) = unat (cm_avg_load_bps c) * 90 + unat load * 10"
    using a l m1 m2 by (subst unat_add_exact) simp_all
  then have "unat ((ucast (cm_avg_load_bps c) * 90 + ucast load * 10 :: u32) div 100) \<le> 10000"
    using a l by (simp add: unat_div)
  then have avg: "avg \<le> 10000" by (simp add: avg_def word_le_nat_alt unat_ucast_small)
  show ?thesis
    using congestion_burn_rate_bounds avg
    by (simp add: congestion_ok_def congestion_update_block_def Let_def load_def [symmetric] avg_def [symmetric])
qed

lemma congestion_ok_default: "congestion_ok congestion_default"
  by (simp add: congestion_ok_def congestion_default_def pouw_min_burn_rate_bps_def pouw_max_burn_rate_bps_def)

fun pouw_blocks :: "(u64 \<times> u64 \<times> u64) list \<Rightarrow> pouw_engine \<Rightarrow> pouw_engine" where
  "pouw_blocks [] e = e"
| "pouw_blocks ((used, limit, t) # bs) e = pouw_blocks bs (pouw_update_block e used limit t)"

lemma pouw_update_block_frame:
  "pe_config (pouw_update_block e u l t) = pe_config e"
  "pe_compute_registry (pouw_update_block e u l t) = pe_compute_registry e"
  "pe_node_stakes (pouw_update_block e u l t) = pe_node_stakes e"
  "pe_congestion (pouw_update_block e u l t) =
     (if pc_enable_congestion_burn (pe_config e) then congestion_update_block u l t (pe_congestion e) else pe_congestion e)"
  by (simp_all add: pouw_update_block_def Let_def emit_pouw_def)

lemma pouw_blocks_keep:
  assumes "congestion_ok (pe_congestion e)" and "list_all (\<lambda>(used, limit, t). used \<le> limit) bs"
  shows "congestion_ok (pe_congestion (pouw_blocks bs e)) \<and> pe_config (pouw_blocks bs e) = pe_config e"
  using assms
proof (induction bs e rule: pouw_blocks.induct)
  case (2 used limit t bs e)
  then show ?case using congestion_update_ok by (simp add: pouw_update_block_frame)
qed simp

lemma fee_parts:
  assumes rate: "rate \<le> 3000" and fee: "unat fee * 10000 < 2 ^ 128"
  shows "unat (fee * 70 div 100 :: u128) + unat (saturating_sub (saturating_sub fee (fee * 70 div 100)) (fee * ucast (rate :: u16) div 10000))
      + unat (fee * ucast rate div 10000) = unat fee"
    and "unat (fee * 70 div 100 :: u128) = unat fee * 70 div 100"
    and "unat (fee * ucast rate div 10000) = unat fee * unat rate div 10000"
proof -
  have r: "rate \<le> 10000" and r3: "unat rate \<le> 3000" using rate by (simp_all add: word_le_nat_alt)
  show b: "unat (fee * ucast rate div 10000) = unat fee * unat rate div 10000"
    using bps_share(1) [OF r fee] .
  have "unat (fee * 70) = unat fee * 70" using fee by (subst unat_mult_exact) simp_all
  then show p: "unat (fee * 70 div 100 :: u128) = unat fee * 70 div 100" by (simp add: unat_div)
  have "unat fee * unat rate div 10000 \<le> unat fee * 3000 div 10000"
    using r3 by (intro div_le_mono mult_le_mono2)
  then have "unat fee * 70 div 100 + unat fee * unat rate div 10000 \<le> unat fee" by linarith
  then show "unat (fee * 70 div 100 :: u128) + unat (saturating_sub (saturating_sub fee (fee * 70 div 100)) (fee * ucast rate div 10000))
      + unat (fee * ucast rate div 10000) = unat fee"
    by (simp add: unat_saturating_sub p b)
qed


section \<open>Compliance bonds\<close>

lemma take_bond_Some:
  "take_bond i bs = Some (b, rest) \<Longrightarrow>
     cb_bond_id b = i \<and> b \<in> set bs \<and> mset bs = add_mset b (mset rest)"
  by (induction bs arbitrary: rest) (auto split: if_splits)

lemma take_bond_None: "take_bond i bs = None \<longleftrightarrow> (\<forall>b \<in> set bs. cb_bond_id b \<noteq> i)"
  by (induction bs) auto

lemma compliance_slash_okE:
  assumes "execute_compliance_slash sha e node i victim reason h = (e', Ok l)"
  obtains bonds b rest where "hm_get (pe_compliance_bonds e) node = Some bonds" "take_bond i bonds = Some (b, rest)"
    "hm_get (pe_compliance_bonds e') node = Some rest"
    "bl_bond_amount l = cb_amount b"
    "bl_victim_payout l = (cb_amount b * ucast (pc_victim_payout_bps (pe_config e))) div 10000"
    "bl_burned l = cb_amount b - (cb_amount b * ucast (pc_victim_payout_bps (pe_config e))) div 10000"
    "hm_get (pe_node_cooldowns e') node = Some (pe_current_time e + ATTESTATION_FAILURE_COOLDOWN)"
    "pe_liquidation_history e' = pe_liquidation_history e @ [l]" "pe_current_time e' = pe_current_time e"
    "cm_total_burned (pe_congestion e') = cm_total_burned (pe_congestion e) + bl_burned l"
proof -
  obtain bonds b rest where t: "hm_get (pe_compliance_bonds e) node = Some bonds" "take_bond i bonds = Some (b, rest)"
    using assms by (auto simp: execute_compliance_slash_def split: option.splits prod.splits)
  show thesis
    using assms t
    by (intro that [OF t]) (auto simp: execute_compliance_slash_def Let_def emit_pouw_def congestion_record_burn_def)
qed

section \<open>Properties\<close>

definition demo_engine :: pouw_engine where
  "demo_engine =
     fst (register_compute_operation (\<lambda>_. []) (register_stake pouw_mainnet [1] 1000000) [1] [2] 5000000 SgxVerified [] [] False)"

lemma demo_engine_views:
  "hm_entry 0 (pe_node_stakes demo_engine) [1] = 1000000"
  "\<exists>s. hm_get (pe_compute_registry demo_engine) [1] = Some s \<and> nc_verified_ops_30d s = 5000000"
  "pc_base_apy_bps (pe_config demo_engine) = 500"
  by (simp_all add: demo_engine_def register_compute_operation_def register_stake_def pouw_mainnet_def pouw_new_def
      pouw_config_mainnet_def pouw_config_default_def BASE_APY_BPS_def Let_def emit_pouw_def hm_entry_def add_operation_def
      compute_stats_new_def update_hardware_tier_def update_success_rate_def prune_old_operations_def
      saturating_sub_def COMPUTE_VERIFICATION_WINDOW_def)

definition bonded_engine :: pouw_engine where
  "bonded_engine = fst (post_compliance_bond (\<lambda>_. [7]) pouw_mainnet [1] GdprProcessing (5000 * pouw_one_aethel) 0)"

lemma bonded_engine_views:
  "hm_get (pe_compliance_bonds bonded_engine) [1]
     = Some [compliance_bond_new [7] [1] GdprProcessing (5000 * pouw_one_aethel) 0 0]"
  "pc_victim_payout_bps (pe_config bonded_engine) \<le> 10000" "pe_current_time bonded_engine = 0"
  "take_bond [7] [compliance_bond_new [7] [1] GdprProcessing (5000 * pouw_one_aethel) 0 0]
     = Some (compliance_bond_new [7] [1] GdprProcessing (5000 * pouw_one_aethel) 0 0, [])"
  by (simp_all add: bonded_engine_def post_compliance_bond_def Let_def emit_pouw_def pouw_mainnet_def pouw_new_def
      hm_entry_def generate_bond_id_def pouw_config_mainnet_def pouw_config_default_def COMPLIANCE_VICTIM_PAYOUT_BPS_def
      compliance_bond_new_def)

lemma bonded_engine_room:
  "\<forall>bs b. hm_get (pe_compliance_bonds bonded_engine) [1] = Some bs \<and> b \<in> set bs \<longrightarrow> unat (cb_amount b) * 10000 < 2 ^ 128"
  by (simp add: bonded_engine_views compliance_bond_new_def pouw_one_aethel_def)

text \<open>
  The epoch reward of a node is the base reward (stake times APY times duration over a year,
  rounded down) scaled by the multiplier, no step overflowing when stake times APY times duration fits.
  The digit-counting loop computes the decimal logarithm: a node with verified operations has
  the multiplier 1000 plus 100 per decade, capped at 2500; with the tier bonus the configured maximum caps it.
\<close>

theorem epoch_reward_is_exact:
  assumes "unat (hm_entry 0 (pe_node_stakes e) node) * unat (pc_base_apy_bps (pe_config e)) * unat secs < 2 ^ 128"
    and "hm_get (pe_compute_registry e) node = Some s" and "nc_verified_ops_30d s \<noteq> 0"
  shows "unat (calculate_epoch_reward e node secs) = base_reward e node secs * reward_multiplier e node div 1000
    \<and> (\<exists>k. 10 ^ k \<le> unat (nc_verified_ops_30d s) \<and> unat (nc_verified_ops_30d s) < 10 ^ Suc k
        \<and> unat (compute_multiplier_bps s) = 1000 + min (100 * k) 1500)
    \<and> reward_multiplier e node \<le> max 1000 (unat (pc_max_compute_multiplier_bps (pe_config e)))"
  using epoch_reward_exact [OF assms(1)] log10_exact [OF assms(3)] compute_multiplier_exact [of s] assms(3)
  by (auto simp: reward_multiplier_def)

theorem epoch_reward_is_exact_witness:
  "unat (calculate_epoch_reward demo_engine [1] 31536000) = base_reward demo_engine [1] 31536000 * reward_multiplier demo_engine [1] div 1000
    \<and> base_reward demo_engine [1] 31536000 = 50000"
proof -
  obtain s where s: "hm_get (pe_compute_registry demo_engine) [1] = Some s" "nc_verified_ops_30d s = 5000000"
    using demo_engine_views(2) by blast
  have "base_reward demo_engine [1] 31536000 = 50000"
    using demo_engine_views by (simp add: base_reward_def)
  then show ?thesis
    using epoch_reward_is_exact [of demo_engine "[1]" 31536000 s] s demo_engine_views by simp
qed

text \<open>
  After any blocks whose gas used is within the limit the congestion burn rate is between 5 and 25
  percent, floating-point rounding included. \<open>process_fee\<close> then gives the prover 70 percent, burns the
  current rate's share and leaves the validators exactly the rest: the parts add up to the fee and the
  saturating subtractions never saturate.
\<close>

theorem pouw_fee_split:
  assumes cfg: "pc_min_burn_rate_bps config \<le> 3000"
    and bs: "list_all (\<lambda>(used, limit, t). used \<le> limit) blocks"
    and fee: "unat fee * 10000 < 2 ^ 128" and e: "e = pouw_blocks blocks (pouw_new config)"
    and run: "pouw_process_fee e fee = (e', d)"
  shows "pouw_min_burn_rate_bps \<le> cm_current_burn_rate_bps (pe_congestion e)
    \<and> cm_current_burn_rate_bps (pe_congestion e) \<le> pouw_max_burn_rate_bps
    \<and> unat (pf_prover_amount d) = unat fee * 70 div 100
    \<and> unat (pf_burn_amount d) = unat fee * unat (pf_burn_rate_bps d) div 10000
    \<and> unat (pf_prover_amount d) + unat (pf_validator_amount d) + unat (pf_burn_amount d) = unat fee
    \<and> cm_total_burned (pe_congestion e') = cm_total_burned (pe_congestion e) + pf_burn_amount d"
proof -
  have k: "congestion_ok (pe_congestion e)" "pe_config e = config"
    using pouw_blocks_keep [of "pouw_new config" blocks] bs congestion_ok_default
    by (simp_all add: e pouw_new_def)
  then have "cm_current_burn_rate_bps (pe_congestion e) \<le> 3000"
    by (auto simp: congestion_ok_def pouw_max_burn_rate_bps_def word_le_nat_alt)
  then have rate: "snd (pouw_calculate_burn e fee) \<le> 3000"
    using cfg k by (simp add: pouw_calculate_burn_def)
  have burn: "fst (pouw_calculate_burn e fee) = fee * ucast (snd (pouw_calculate_burn e fee)) div 10000"
    by (simp add: pouw_calculate_burn_def congestion_burn_def)
  have d: "pf_prover_amount d = fee * 70 div 100" "pf_burn_rate_bps d = snd (pouw_calculate_burn e fee)"
    "pf_burn_amount d = fst (pouw_calculate_burn e fee)"
    "pf_validator_amount d = saturating_sub (saturating_sub fee (fee * 70 div 100)) (fst (pouw_calculate_burn e fee))"
    "cm_total_burned (pe_congestion e') = cm_total_burned (pe_congestion e) + fst (pouw_calculate_burn e fee)"
    using run by (auto simp: pouw_process_fee_def Let_def case_prod_unfold emit_pouw_def congestion_record_burn_def)
  show ?thesis
    using k(1) fee_parts [OF rate fee] d burn by (simp add: congestion_ok_def)
qed

theorem pouw_fee_split_witness:
  "let (e', d) = pouw_process_fee (pouw_blocks [(15000000, 30000000, 5)] (pouw_new pouw_config_mainnet)) 1000
   in unat (pf_prover_amount d) + unat (pf_validator_amount d) + unat (pf_burn_amount d) = 1000"
  using pouw_fee_split [of pouw_config_mainnet "[(15000000, 30000000, 5)]" 1000
      "pouw_blocks [(15000000, 30000000, 5)] (pouw_new pouw_config_mainnet)"
      "fst (pouw_process_fee (pouw_blocks [(15000000, 30000000, 5)] (pouw_new pouw_config_mainnet)) 1000)"
      "snd (pouw_process_fee (pouw_blocks [(15000000, 30000000, 5)] (pouw_new pouw_config_mainnet)) 1000)"]
  by (simp add: pouw_config_mainnet_def pouw_config_default_def pouw_min_burn_rate_bps_def case_prod_unfold
      del: pouw_blocks.simps)

text \<open>
  Liquidating a compliance bond removes exactly one bond of that identifier from the node, splits
  its amount between the victim and the burn without remainder, appends the record to the history and
  bars the node from posting any bond until the cooldown ends; without such a bond it fails and
  changes nothing.
\<close>

theorem bond_liquidation_exact:
  assumes cfg: "pc_victim_payout_bps (pe_config e) \<le> 10000"
    and room: "\<forall>bs b. hm_get (pe_compliance_bonds e) node = Some bs \<and> b \<in> set bs \<longrightarrow> unat (cb_amount b) * 10000 < 2 ^ 128"
  shows "(\<forall>e' l. execute_compliance_slash sha e node i victim reason h = (e', Ok l) \<longrightarrow>
      unat (bl_victim_payout l) + unat (bl_burned l) = unat (bl_bond_amount l)
      \<and> unat (bl_victim_payout l) = unat (bl_bond_amount l) * unat (pc_victim_payout_bps (pe_config e)) div 10000
      \<and> (\<exists>bs b rest. hm_get (pe_compliance_bonds e) node = Some bs \<and> hm_get (pe_compliance_bonds e') node = Some rest
          \<and> mset bs = add_mset b (mset rest) \<and> cb_bond_id b = i \<and> cb_amount b = bl_bond_amount l)
      \<and> pe_liquidation_history e' = pe_liquidation_history e @ [l]
      \<and> (\<forall>t ty amount x. t < pe_current_time e + ATTESTATION_FAILURE_COOLDOWN \<longrightarrow>
          (\<exists>er. post_compliance_bond sha (pouw_set_time e' t) node ty amount x = (pouw_set_time e' t, Err er))))
    \<and> ((\<nexists>bs b. hm_get (pe_compliance_bonds e) node = Some bs \<and> b \<in> set bs \<and> cb_bond_id b = i) \<longrightarrow>
      execute_compliance_slash sha e node i victim reason h = (e, Err NoBondFound))"
proof (intro conjI allI impI)
  fix e' l
  assume run: "execute_compliance_slash sha e node i victim reason h = (e', Ok l)"
  obtain bs b rest where b: "hm_get (pe_compliance_bonds e) node = Some bs" "take_bond i bs = Some (b, rest)"
    "hm_get (pe_compliance_bonds e') node = Some rest" "bl_bond_amount l = cb_amount b"
    "bl_victim_payout l = (cb_amount b * ucast (pc_victim_payout_bps (pe_config e))) div 10000"
    "bl_burned l = cb_amount b - (cb_amount b * ucast (pc_victim_payout_bps (pe_config e))) div 10000"
    "hm_get (pe_node_cooldowns e') node = Some (pe_current_time e + ATTESTATION_FAILURE_COOLDOWN)"
    "pe_liquidation_history e' = pe_liquidation_history e @ [l]"
    using compliance_slash_okE [OF run] by metis
  note tb = take_bond_Some [OF b(2)]
  have "unat (cb_amount b) * 10000 < 2 ^ 128" using room b(1) tb by blast
  note sh = bps_share [OF cfg this]
  show "unat (bl_victim_payout l) = unat (bl_bond_amount l) * unat (pc_victim_payout_bps (pe_config e)) div 10000"
    using sh b by simp
  show "unat (bl_victim_payout l) + unat (bl_burned l) = unat (bl_bond_amount l)"
    using sh b by (simp add: unat_sub word_le_nat_alt)
  show "\<exists>bs b rest. hm_get (pe_compliance_bonds e) node = Some bs \<and> hm_get (pe_compliance_bonds e') node = Some rest
          \<and> mset bs = add_mset b (mset rest) \<and> cb_bond_id b = i \<and> cb_amount b = bl_bond_amount l"
    using b tb by auto
  show "pe_liquidation_history e' = pe_liquidation_history e @ [l]" by (rule b(8))
  fix t ty amount x assume "t < pe_current_time e + ATTESTATION_FAILURE_COOLDOWN"
  then show "\<exists>er. post_compliance_bond sha (pouw_set_time e' t) node ty amount x = (pouw_set_time e' t, Err er)"
    using b(7) by (simp add: post_compliance_bond_def Let_def pouw_set_time_def)
next
  assume none: "\<nexists>bs b. hm_get (pe_compliance_bonds e) node = Some bs \<and> b \<in> set bs \<and> cb_bond_id b = i"
  then show "execute_compliance_slash sha e node i victim reason h = (e, Err NoBondFound)"
  proof (cases "hm_get (pe_compliance_bonds e) node")
    case (Some bs)
    with none have "take_bond i bs = None" by (simp add: take_bond_None)
    with Some show ?thesis by (simp add: execute_compliance_slash_def)
  qed (simp add: execute_compliance_slash_def)
qed

theorem bond_liquidation_exact_witness:
  "\<exists>e' l. execute_compliance_slash (\<lambda>_. [7]) bonded_engine [1] [7] [3] DataBreach [] = (e', Ok l)
    \<and> unat (bl_victim_payout l) + unat (bl_burned l) = unat (bl_bond_amount l)
    \<and> (\<exists>er. post_compliance_bond (\<lambda>_. [7]) (pouw_set_time e' 5) [1] UaeDpl 1 0 = (pouw_set_time e' 5, Err er))"
proof -
  obtain e' l where run: "execute_compliance_slash (\<lambda>_. [7]) bonded_engine [1] [7] [3] DataBreach [] = (e', Ok l)"
    by (cases "execute_compliance_slash (\<lambda>_. [7]) bonded_engine [1] [7] [3] DataBreach []")
      (auto simp: execute_compliance_slash_def bonded_engine_views compliance_bond_new_def Let_def)
  have "5 < pe_current_time bonded_engine + ATTESTATION_FAILURE_COOLDOWN"
    by (simp add: bonded_engine_views ATTESTATION_FAILURE_COOLDOWN_def)
  with run bond_liquidation_exact [of bonded_engine "[1]" "\<lambda>_. [7]" "[7]" "[3]" DataBreach "[]"]
  show ?thesis using bonded_engine_room bonded_engine_views by blast
qed

text \<open>
  The rolling window is pruned only when the node registers another operation: however much time passes,
  an idle node keeps its multiplier.
\<close>

lemma idle_node_keeps_multiplier:
  "reward_multiplier (pouw_blocks blocks e) node = reward_multiplier e node"
  by (induction blocks e rule: pouw_blocks.induct) (simp_all add: reward_multiplier_def pouw_update_block_frame)

end
