(* ===== verification/Consensus_Types.thy ===== *)
theory Consensus_Types
  imports Rust_Float
begin

text \<open>
  \<open>src/crates/consensus/src/types.rs\<close>, \<open>traits.rs\<close>, \<open>error.rs\<close> and the constants of \<open>lib.rs\<close>: the block
  header with its hash and structural checks, validators, slot timing, compute results and the
  error values of the consensus engine. A 32-byte array is a byte list. SHA-256 is the parameter
  \<open>sha\<close> of the definitions that hash.

  A division whose divisor can be 0 panics in Rust; such a function returns an \<open>option\<close>, \<open>None\<close>
  standing for the panic.
\<close>

section \<open>Constants and basic types\<close>

type_synonym slot = u64
type_synonym epoch = u64
type_synonym epoch_seed = bytes
type_synonym hash = bytes
type_synonym address = bytes

definition DEFAULT_SLOT_DURATION_MS :: u64 where
  "DEFAULT_SLOT_DURATION_MS = 6000"

definition DEFAULT_SLOTS_PER_EPOCH :: u64 where
  "DEFAULT_SLOTS_PER_EPOCH = 432000"

definition MAX_COMPUTE_MULTIPLIER :: f64 where
  "MAX_COMPUTE_MULTIPLIER = f64_lit 5"

definition MIN_STAKE_FOR_ELECTION :: u128 where
  "MIN_STAKE_FOR_ELECTION = 1000000000000"

definition zero_hash :: hash where
  "zero_hash = replicate 32 0"

section \<open>Errors\<close>

datatype (plugins only: code size) consensus_error =
    VrfVerificationFailed string
  | MalformedVrfProof nat nat
      \<comment> \<open>expected, actual\<close>
  | InvalidVrfKey string
  | VrfThresholdNotMet string string
      \<comment> \<open>output_hex, threshold_hex\<close>
  | NotEligible string string
      \<comment> \<open>address, reason\<close>
  | InsufficientStake u128 u128
      \<comment> \<open>required, actual\<close>
  | ValidatorNotRegistered string
  | ValidatorJailed string u64
      \<comment> \<open>address, until_slot\<close>
  | DoubleProposal string u64
      \<comment> \<open>address, slot\<close>
  | InvalidBlockHeader string
  | ParentNotFound string
  | InvalidSlot u64 u64
      \<comment> \<open>expected, actual\<close>
  | InvalidStateRoot string string
      \<comment> \<open>expected, computed\<close>
  | InvalidComputeResultsRoot string string
      \<comment> \<open>expected, computed\<close>
  | UsefulWorkScoreMismatch string u64 u64
      \<comment> \<open>address, claimed, actual\<close>
  | InvalidTimestamp string
  | SuspiciousActivity string string
      \<comment> \<open>address, reason\<close>
  | InvalidUsefulWorkResult string
  | AiProofVerificationFailed string
  | TeeAttestationFailed string
  | ZkmlProofFailed string
  | UnsupportedCategory string
  | ReputationUpdateFailed string string
      \<comment> \<open>address, reason\<close>
  | InvalidJobResult string
  | ReputationCorrupted string
  | EpochTransitionFailed string
  | InvalidEpochSeed string
  | EpochBoundaryNotReached u64 u64
      \<comment> \<open>current, boundary\<close>
  | NotFinalized u64
  | ConflictingFinalization string
  | InsufficientAttestations u64 u64
      \<comment> \<open>required, actual\<close>
  | Config string
  | StateAccess string
  | Crypto string
  | Internal string
  | Timeout string u64
      \<comment> \<open>operation, timeout_ms\<close>
  | NotValidator
  | ValidatorNotFound address
  | ValidatorIneligible address
  | InvalidLeaderCredentials string
  | InvalidParentHash hash hash
      \<comment> \<open>expected, got\<close>
  | BlockValidation string
  | SlotValidation string
  | TimestampValidation string
  | VrfValidation string
  | ComputeValidation string
  | FinalityValidation string

type_synonym 'a consensus_result = "(consensus_error, 'a) result"

text \<open>The messages that \<open>thiserror\<close> derives.\<close>

definition show_consensus_error :: "consensus_error \<Rightarrow> string" where
  "show_consensus_error e =
     (case e of
        VrfVerificationFailed reason \<Rightarrow> ''VRF proof verification failed: '' @ reason
      | MalformedVrfProof expected actual \<Rightarrow>
          ''Malformed VRF proof: expected '' @ show_nat expected @ '' bytes, got '' @ show_nat actual
      | InvalidVrfKey s \<Rightarrow> ''Invalid VRF key: '' @ s
      | VrfThresholdNotMet output threshold \<Rightarrow> ''VRF output '' @ output @ '' exceeds threshold '' @ threshold
      | NotEligible a reason \<Rightarrow> ''Validator '' @ a @ '' not eligible: '' @ reason
      | InsufficientStake required actual \<Rightarrow>
          ''Insufficient stake: required '' @ show_word required @ '', has '' @ show_word actual
      | ValidatorNotRegistered a \<Rightarrow> ''Validator '' @ a @ '' not registered in active set''
      | ValidatorJailed a until \<Rightarrow> ''Validator '' @ a @ '' is jailed until slot '' @ show_word until
      | DoubleProposal a slot \<Rightarrow>
          ''Double proposal detected: validator '' @ a @ '' already proposed in slot '' @ show_word slot
      | InvalidBlockHeader s \<Rightarrow> ''Invalid block header: '' @ s
      | ParentNotFound s \<Rightarrow> ''Parent block '' @ s @ '' not found''
      | InvalidSlot expected actual \<Rightarrow>
          ''Invalid slot: expected > '' @ show_word expected @ '', got '' @ show_word actual
      | InvalidStateRoot expected computed \<Rightarrow>
          ''State root mismatch: expected '' @ expected @ '', computed '' @ computed
      | InvalidComputeResultsRoot expected computed \<Rightarrow>
          ''Compute results root mismatch: expected '' @ expected @ '', computed '' @ computed
      | UsefulWorkScoreMismatch a claimed actual \<Rightarrow>
          ''Useful work score mismatch for '' @ a @ '': claimed '' @ show_word claimed @ '', actual '' @ show_word actual
      | InvalidTimestamp reason \<Rightarrow> ''Invalid block timestamp: '' @ reason
      | SuspiciousActivity a reason \<Rightarrow> ''Suspicious activity for '' @ a @ '': '' @ reason
      | InvalidUsefulWorkResult s \<Rightarrow> ''Invalid useful work result: '' @ s
      | AiProofVerificationFailed reason \<Rightarrow> ''AI proof verification failed: '' @ reason
      | TeeAttestationFailed reason \<Rightarrow> ''TEE attestation verification failed: '' @ reason
      | ZkmlProofFailed reason \<Rightarrow> ''zkML proof verification failed: '' @ reason
      | UnsupportedCategory c \<Rightarrow> ''Utility category '' @ c @ '' not supported for this operation''
      | ReputationUpdateFailed a reason \<Rightarrow> ''Failed to update reputation for '' @ a @ '': '' @ reason
      | InvalidJobResult s \<Rightarrow> ''Invalid job result: '' @ s
      | ReputationCorrupted s \<Rightarrow> ''Reputation data corrupted: '' @ s
      | EpochTransitionFailed s \<Rightarrow> ''Epoch transition failed: '' @ s
      | InvalidEpochSeed s \<Rightarrow> ''Invalid epoch seed: '' @ s
      | EpochBoundaryNotReached current boundary \<Rightarrow>
          ''Epoch boundary not reached: current slot '' @ show_word current @ '', boundary '' @ show_word boundary
      | NotFinalized slot \<Rightarrow> ''Block at slot '' @ show_word slot @ '' not finalized''
      | ConflictingFinalization s \<Rightarrow> ''Conflicting finalization: '' @ s
      | InsufficientAttestations required actual \<Rightarrow>
          ''Insufficient attestations: required '' @ show_word required @ ''%, got '' @ show_word actual @ ''%''
      | Config s \<Rightarrow> ''Configuration error: '' @ s
      | StateAccess s \<Rightarrow> ''State access error: '' @ s
      | Crypto s \<Rightarrow> ''Cryptographic error: '' @ s
      | Internal s \<Rightarrow> ''Internal consensus error: '' @ s
      | Timeout operation ms \<Rightarrow> ''Consensus timeout: '' @ operation @ '' exceeded '' @ show_word ms @ ''ms''
      | NotValidator \<Rightarrow> ''Node is not configured as a validator''
      | ValidatorNotFound _ \<Rightarrow> ''Validator not found''
      | ValidatorIneligible _ \<Rightarrow> ''Validator is ineligible for this operation''
      | InvalidLeaderCredentials s \<Rightarrow> ''Invalid leader credentials: '' @ s
      | InvalidParentHash _ _ \<Rightarrow> ''Invalid parent hash''
      | BlockValidation s \<Rightarrow> ''Block validation failed: '' @ s
      | SlotValidation s \<Rightarrow> ''Slot validation failed: '' @ s
      | TimestampValidation s \<Rightarrow> ''Timestamp validation failed: '' @ s
      | VrfValidation s \<Rightarrow> ''VRF validation failed: '' @ s
      | ComputeValidation s \<Rightarrow> ''Compute validation failed: '' @ s
      | FinalityValidation s \<Rightarrow> ''Finality validation failed: '' @ s)"

definition is_recoverable :: "consensus_error \<Rightarrow> bool" where
  "is_recoverable e =
     (case e of VrfThresholdNotMet _ _ \<Rightarrow> True | NotEligible _ _ \<Rightarrow> True
      | InsufficientStake _ _ \<Rightarrow> True | Timeout _ _ \<Rightarrow> True | _ \<Rightarrow> False)"

definition is_slashable :: "consensus_error \<Rightarrow> bool" where
  "is_slashable e =
     (case e of DoubleProposal _ _ \<Rightarrow> True | ConflictingFinalization _ \<Rightarrow> True | _ \<Rightarrow> False)"

definition consensus_error_code :: "consensus_error \<Rightarrow> u32" where
  "consensus_error_code e =
     (case e of
        VrfVerificationFailed _ \<Rightarrow> 1001 | MalformedVrfProof _ _ \<Rightarrow> 1002
      | InvalidVrfKey _ \<Rightarrow> 1003 | VrfThresholdNotMet _ _ \<Rightarrow> 1004
      | NotEligible _ _ \<Rightarrow> 2001 | InsufficientStake _ _ \<Rightarrow> 2002
      | ValidatorNotRegistered _ \<Rightarrow> 2003 | ValidatorJailed _ _ \<Rightarrow> 2004 | DoubleProposal _ _ \<Rightarrow> 2005
      | InvalidBlockHeader _ \<Rightarrow> 3001 | ParentNotFound _ \<Rightarrow> 3002 | InvalidSlot _ _ \<Rightarrow> 3003
      | InvalidStateRoot _ _ \<Rightarrow> 3004 | InvalidComputeResultsRoot _ _ \<Rightarrow> 3005
      | UsefulWorkScoreMismatch _ _ _ \<Rightarrow> 3006 | InvalidTimestamp _ \<Rightarrow> 3007
      | ReputationUpdateFailed _ _ \<Rightarrow> 4001 | InvalidJobResult _ \<Rightarrow> 4002 | ReputationCorrupted _ \<Rightarrow> 4003
      | EpochTransitionFailed _ \<Rightarrow> 5001 | InvalidEpochSeed _ \<Rightarrow> 5002 | EpochBoundaryNotReached _ _ \<Rightarrow> 5003
      | NotFinalized _ \<Rightarrow> 6001 | ConflictingFinalization _ \<Rightarrow> 6002 | InsufficientAttestations _ _ \<Rightarrow> 6003
      | Config _ \<Rightarrow> 9001 | StateAccess _ \<Rightarrow> 9002 | Crypto _ \<Rightarrow> 9003 | Internal _ \<Rightarrow> 9004 | Timeout _ _ \<Rightarrow> 9005
      | SuspiciousActivity _ _ \<Rightarrow> 7002 | InvalidUsefulWorkResult _ \<Rightarrow> 7003
      | AiProofVerificationFailed _ \<Rightarrow> 7004 | TeeAttestationFailed _ \<Rightarrow> 7005 | ZkmlProofFailed _ \<Rightarrow> 7006
      | UnsupportedCategory _ \<Rightarrow> 7007
      | NotValidator \<Rightarrow> 8001 | ValidatorNotFound _ \<Rightarrow> 8002 | ValidatorIneligible _ \<Rightarrow> 8003
      | InvalidLeaderCredentials _ \<Rightarrow> 8004 | InvalidParentHash _ _ \<Rightarrow> 8005 | BlockValidation _ \<Rightarrow> 8006
      | SlotValidation _ \<Rightarrow> 8007 | TimestampValidation _ \<Rightarrow> 8008 | VrfValidation _ \<Rightarrow> 8009
      | ComputeValidation _ \<Rightarrow> 8010 | FinalityValidation _ \<Rightarrow> 8011)"

section \<open>Block header\<close>

record pouw_block_header =
  bh_parent_hash :: hash
  bh_height :: u64
  bh_slot :: slot
  bh_epoch :: epoch
  bh_proposer_address :: address
  bh_state_root :: hash
  bh_transactions_root :: hash
  bh_receipts_root :: hash
  bh_timestamp :: u64
  bh_vrf_proof :: bytes
  bh_compute_results_root :: hash
  bh_compute_job_count :: u32
  bh_compute_complexity :: u64
  bh_proposer_useful_work_score :: u64
  bh_proposer_stake :: u128
  bh_last_justified_hash :: hash
  bh_last_finalized_slot :: slot
  bh_signature :: bytes

definition genesis_header :: "u64 \<Rightarrow> pouw_block_header" where
  "genesis_header timestamp =
     \<lparr>bh_parent_hash = zero_hash, bh_height = 0, bh_slot = 0, bh_epoch = 0,
      bh_proposer_address = zero_hash, bh_state_root = zero_hash, bh_transactions_root = zero_hash,
      bh_receipts_root = zero_hash, bh_timestamp = timestamp, bh_vrf_proof = [],
      bh_compute_results_root = zero_hash, bh_compute_job_count = 0, bh_compute_complexity = 0,
      bh_proposer_useful_work_score = 0, bh_proposer_stake = 0, bh_last_justified_hash = zero_hash,
      bh_last_finalized_slot = 0, bh_signature = []\<rparr>"

text \<open>The bytes that \<open>hash\<close> feeds to SHA-256, the signature excluded.\<close>

definition header_preimage :: "pouw_block_header \<Rightarrow> bytes" where
  "header_preimage h =
     bh_parent_hash h @ le_bytes 8 (bh_height h) @ le_bytes 8 (bh_slot h) @ le_bytes 8 (bh_epoch h)
     @ bh_proposer_address h @ bh_state_root h @ bh_transactions_root h @ bh_receipts_root h
     @ le_bytes 8 (bh_timestamp h) @ bh_vrf_proof h @ bh_compute_results_root h
     @ le_bytes 4 (bh_compute_job_count h) @ le_bytes 8 (bh_compute_complexity h)
     @ le_bytes 8 (bh_proposer_useful_work_score h) @ le_bytes 16 (bh_proposer_stake h)
     @ bh_last_justified_hash h @ le_bytes 8 (bh_last_finalized_slot h)"

definition header_hash :: "(bytes \<Rightarrow> hash) \<Rightarrow> pouw_block_header \<Rightarrow> hash" where
  "header_hash sha h = sha (header_preimage h)"

definition signing_message :: "(bytes \<Rightarrow> hash) \<Rightarrow> pouw_block_header \<Rightarrow> hash" where
  "signing_message sha h = header_hash sha h"

definition is_genesis :: "pouw_block_header \<Rightarrow> bool" where
  "is_genesis h = (bh_height h = 0 \<and> bh_parent_hash h = zero_hash)"

definition validate_structure :: "pouw_block_header \<Rightarrow> (string, unit) result" where
  "validate_structure h =
     (if \<not> is_genesis h \<and> length (bh_vrf_proof h) < 100
      then Err (''VRF proof too short: '' @ show_nat (length (bh_vrf_proof h)) @ '' bytes (expected >= 100)'')
      else if bh_timestamp h = 0 \<and> \<not> is_genesis h then Err ''Timestamp cannot be zero''
      else
        let expected_epoch = bh_slot h div DEFAULT_SLOTS_PER_EPOCH
        in if bh_epoch h \<noteq> expected_epoch \<and> \<not> is_genesis h
           then Err (''Epoch mismatch: expected '' @ show_word expected_epoch @ '', got '' @ show_word (bh_epoch h))
           else Ok ())"

section \<open>Validators\<close>

record validator_info =
  vi_address :: address
  vi_stake :: u128
  vi_vrf_pubkey :: bytes
  vi_consensus_pubkey :: bytes
  vi_commission :: u16
  vi_useful_work_score :: u64
  vi_active :: bool
  vi_jailed_until :: slot
  vi_registered_at :: slot
  vi_last_proposal_slot :: slot
  vi_blocks_proposed :: u64
  vi_jobs_verified :: u64

definition validator_info_new ::
    "address \<Rightarrow> u128 \<Rightarrow> bytes \<Rightarrow> bytes \<Rightarrow> u16 \<Rightarrow> slot \<Rightarrow> validator_info" where
  "validator_info_new address stake vrf_pubkey consensus_pubkey commission registered_at =
     \<lparr>vi_address = address, vi_stake = stake, vi_vrf_pubkey = vrf_pubkey,
      vi_consensus_pubkey = consensus_pubkey, vi_commission = commission, vi_useful_work_score = 0,
      vi_active = True, vi_jailed_until = 0, vi_registered_at = registered_at,
      vi_last_proposal_slot = 0, vi_blocks_proposed = 0, vi_jobs_verified = 0\<rparr>"

definition is_eligible :: "validator_info \<Rightarrow> slot \<Rightarrow> bool" where
  "is_eligible v current_slot =
     (vi_active v \<and> (vi_jailed_until v = 0 \<or> current_slot \<ge> vi_jailed_until v)
      \<and> vi_stake v \<ge> MIN_STAKE_FOR_ELECTION)"

text \<open>\<open>1 + log10 (1 + score) / 6\<close>, before any cap.\<close>

definition raw_multiplier :: "libm \<Rightarrow> u64 \<Rightarrow> f64" where
  "raw_multiplier L score =
     f64_add (f64_lit 1) (f64_div (lm_log10 L (f64_add (f64_lit 1) (u64_as_f64 score))) (f64_lit 6))"

definition type_compute_multiplier :: "libm \<Rightarrow> u64 \<Rightarrow> f64" where
  "type_compute_multiplier L useful_work_score =
     f64_min (raw_multiplier L useful_work_score) MAX_COMPUTE_MULTIPLIER"

definition info_weighted_stake :: "libm \<Rightarrow> validator_info \<Rightarrow> u128" where
  "info_weighted_stake L v =
     f64_as_word (f64_mul (u128_as_f64 (vi_stake v)) (type_compute_multiplier L (vi_useful_work_score v)))"

section \<open>Slot timing\<close>

record slot_timing =
  st_slot_duration_ms :: u64
  st_slots_per_epoch :: u64
  st_genesis_timestamp :: u64

definition slot_timing_default :: slot_timing where
  "slot_timing_default =
     \<lparr>st_slot_duration_ms = 6000, st_slots_per_epoch = DEFAULT_SLOTS_PER_EPOCH, st_genesis_timestamp = 0\<rparr>"

definition slot_for_timestamp :: "slot_timing \<Rightarrow> u64 \<Rightarrow> slot option" where
  "slot_for_timestamp t timestamp =
     (if timestamp < st_genesis_timestamp t then Some 0
      else let elapsed_ms = (timestamp - st_genesis_timestamp t) * 1000
           in if st_slot_duration_ms t = 0 then None else Some (elapsed_ms div st_slot_duration_ms t))"

definition timestamp_for_slot :: "slot_timing \<Rightarrow> slot \<Rightarrow> u64" where
  "timestamp_for_slot t slot = st_genesis_timestamp t + slot * st_slot_duration_ms t div 1000"

definition epoch_for_slot :: "slot_timing \<Rightarrow> slot \<Rightarrow> epoch option" where
  "epoch_for_slot t slot =
     (if st_slots_per_epoch t = 0 then None else Some (slot div st_slots_per_epoch t))"

definition first_slot_of_epoch :: "slot_timing \<Rightarrow> epoch \<Rightarrow> slot" where
  "first_slot_of_epoch t epoch = epoch * st_slots_per_epoch t"

definition last_slot_of_epoch :: "slot_timing \<Rightarrow> epoch \<Rightarrow> slot" where
  "last_slot_of_epoch t epoch = (epoch + 1) * st_slots_per_epoch t - 1"

definition is_epoch_boundary :: "slot_timing \<Rightarrow> slot \<Rightarrow> bool" where
  "is_epoch_boundary t slot = (st_slots_per_epoch t \<noteq> 0 \<and> slot mod st_slots_per_epoch t = 0)"

section \<open>Compute results\<close>

datatype verification_method = TeeAttestation | ZkProof | Hybrid | ReExecution

fun method_as_u8 :: "verification_method \<Rightarrow> u8" where
  "method_as_u8 TeeAttestation = 0"
| "method_as_u8 ZkProof = 1"
| "method_as_u8 Hybrid = 2"
| "method_as_u8 ReExecution = 3"

fun assurance_level :: "verification_method \<Rightarrow> u8" where
  "assurance_level ReExecution = 1"
| "assurance_level TeeAttestation = 2"
| "assurance_level ZkProof = 3"
| "assurance_level Hybrid = 4"

fun score_multiplier :: "verification_method \<Rightarrow> f64" where
  "score_multiplier ReExecution = f64_lit (8 / 10)"
| "score_multiplier TeeAttestation = f64_lit 1"
| "score_multiplier ZkProof = f64_lit (15 / 10)"
| "score_multiplier Hybrid = f64_lit 2"

definition method_from_u8 :: "u8 \<Rightarrow> verification_method option" where
  "method_from_u8 value =
     (if value = 0 then Some TeeAttestation else if value = 1 then Some ZkProof
      else if value = 2 then Some Hybrid else if value = 3 then Some ReExecution else None)"

record compute_result =
  cr_job_id :: hash
  cr_model_hash :: hash
  cr_input_hash :: hash
  cr_output_hash :: hash
  cr_complexity :: u64
  cr_verification_method :: verification_method
  cr_attestation :: bytes
  cr_zk_proof :: "bytes option"
  cr_validator :: address
  cr_confirmations :: u32

definition compute_result_new ::
    "hash \<Rightarrow> hash \<Rightarrow> hash \<Rightarrow> hash \<Rightarrow> u64 \<Rightarrow> verification_method \<Rightarrow> address \<Rightarrow> compute_result" where
  "compute_result_new job_id model_hash input_hash output_hash complexity method validator =
     \<lparr>cr_job_id = job_id, cr_model_hash = model_hash, cr_input_hash = input_hash,
      cr_output_hash = output_hash, cr_complexity = complexity, cr_verification_method = method,
      cr_attestation = [], cr_zk_proof = None, cr_validator = validator, cr_confirmations = 1\<rparr>"

definition with_attestation :: "compute_result \<Rightarrow> bytes \<Rightarrow> compute_result" where
  "with_attestation r attestation = r\<lparr>cr_attestation := attestation\<rparr>"

definition with_zk_proof :: "compute_result \<Rightarrow> bytes \<Rightarrow> compute_result" where
  "with_zk_proof r proof = r\<lparr>cr_zk_proof := Some proof\<rparr>"

end
