(* ===== verification/Consensus_Config.thy ===== *)
theory Consensus_Config
  imports Consensus_Types
begin

text \<open>
  \<open>src/crates/consensus/src/pouw/config.rs\<close> and the helper functions of \<open>pouw/mod.rs\<close>: utility
  categories, the configuration of the proof-of-useful-work engine with its three presets and its
  validation, and the calculation of useful work units.
\<close>

section \<open>Utility categories\<close>

datatype utility_category =
  General | Financial | Medical | Scientific | Infrastructure | Environmental | Education | Entertainment

datatype compliance_level = Minimal | Standard | Medium | High | Maximum

fun category_as_u8 :: "utility_category \<Rightarrow> u8" where
  "category_as_u8 General = 0"
| "category_as_u8 Financial = 1"
| "category_as_u8 Medical = 2"
| "category_as_u8 Scientific = 3"
| "category_as_u8 Infrastructure = 4"
| "category_as_u8 Environmental = 5"
| "category_as_u8 Education = 6"
| "category_as_u8 Entertainment = 7"

fun default_multiplier_bps :: "utility_category \<Rightarrow> u64" where
  "default_multiplier_bps General = 10000"
| "default_multiplier_bps Financial = 15000"
| "default_multiplier_bps Medical = 20000"
| "default_multiplier_bps Scientific = 17500"
| "default_multiplier_bps Infrastructure = 14000"
| "default_multiplier_bps Environmental = 16000"
| "default_multiplier_bps Education = 13000"
| "default_multiplier_bps Entertainment = 10000"

fun verification_strictness :: "utility_category \<Rightarrow> u8" where
  "verification_strictness General = 50"
| "verification_strictness Financial = 90"
| "verification_strictness Medical = 100"
| "verification_strictness Scientific = 80"
| "verification_strictness Infrastructure = 70"
| "verification_strictness Environmental = 75"
| "verification_strictness Education = 60"
| "verification_strictness Entertainment = 40"

definition category_requires_tee :: "utility_category \<Rightarrow> bool" where
  "category_requires_tee c = (c \<in> {Financial, Medical, Infrastructure})"

definition supports_zkml :: "utility_category \<Rightarrow> bool" where
  "supports_zkml c = True"

fun category_compliance_level :: "utility_category \<Rightarrow> compliance_level" where
  "category_compliance_level Medical = Maximum"
| "category_compliance_level Financial = High"
| "category_compliance_level Infrastructure = High"
| "category_compliance_level Environmental = Medium"
| "category_compliance_level Scientific = Medium"
| "category_compliance_level Education = Standard"
| "category_compliance_level General = Standard"
| "category_compliance_level Entertainment = Minimal"

definition all_categories :: "utility_category list" where
  "all_categories =
     [General, Financial, Medical, Scientific, Infrastructure, Environmental, Education, Entertainment]"

definition category_from_u8 :: "u8 \<Rightarrow> utility_category option" where
  "category_from_u8 v =
     (if v = 0 then Some General else if v = 1 then Some Financial else if v = 2 then Some Medical
      else if v = 3 then Some Scientific else if v = 4 then Some Infrastructure
      else if v = 5 then Some Environmental else if v = 6 then Some Education
      else if v = 7 then Some Entertainment else None)"

fun show_category :: "utility_category \<Rightarrow> string" where
  "show_category General = ''General''"
| "show_category Financial = ''Financial''"
| "show_category Medical = ''Medical''"
| "show_category Scientific = ''Scientific''"
| "show_category Infrastructure = ''Infrastructure''"
| "show_category Environmental = ''Environmental''"
| "show_category Education = ''Education''"
| "show_category Entertainment = ''Entertainment''"

fun required_certifications :: "compliance_level \<Rightarrow> string list" where
  "required_certifications Minimal = []"
| "required_certifications Standard = [''KYC'']"
| "required_certifications Medium = [''KYC'', ''AML'']"
| "required_certifications High = [''KYC'', ''AML'', ''SOC2'']"
| "required_certifications Maximum = [''KYC'', ''AML'', ''SOC2'', ''HIPAA'', ''GDPR'', ''PCI-DSS'']"

fun audit_retention_days :: "compliance_level \<Rightarrow> u64" where
  "audit_retention_days Minimal = 30"
| "audit_retention_days Standard = 90"
| "audit_retention_days Medium = 365"
| "audit_retention_days High = 365 * 3"
| "audit_retention_days Maximum = 365 * 7"

text \<open>The engine's own \<open>VerificationMethod\<close> has one variant more than that of \<open>traits.rs\<close>.\<close>

datatype pouw_method = TeeAttestation | ZkProof | Hybrid | ReExecution | AiProof

fun pouw_method_as_u8 :: "pouw_method \<Rightarrow> u8" where
  "pouw_method_as_u8 TeeAttestation = 0"
| "pouw_method_as_u8 ZkProof = 1"
| "pouw_method_as_u8 Hybrid = 2"
| "pouw_method_as_u8 ReExecution = 3"
| "pouw_method_as_u8 AiProof = 4"

section \<open>Configuration\<close>

record verification_multipliers =
  vm_tee_only_bps :: u64
  vm_zkml_only_bps :: u64
  vm_hybrid_bps :: u64
  vm_reexecution_bps :: u64
  vm_ai_proof_bps :: u64

definition verification_multipliers_default :: verification_multipliers where
  "verification_multipliers_default =
     \<lparr>vm_tee_only_bps = 10000, vm_zkml_only_bps = 15000, vm_hybrid_bps = 20000,
      vm_reexecution_bps = 8000, vm_ai_proof_bps = 17500\<rparr>"

record decay_config =
  dc_epoch_decay_factor :: f64
  dc_rolling_window_epochs :: u64
  dc_minimum_score :: u64
  dc_inactivity_grace_epochs :: u64
  dc_inactive_decay_factor :: f64

definition decay_config_default :: decay_config where
  "decay_config_default =
     \<lparr>dc_epoch_decay_factor = f64_lit (95 / 100), dc_rolling_window_epochs = 30, dc_minimum_score = 1,
      dc_inactivity_grace_epochs = 3, dc_inactive_decay_factor = f64_lit (80 / 100)\<rparr>"

record anti_gaming_config =
  ag_max_epoch_increase_pct :: u64
  ag_min_unique_sources :: u64
  ag_suspicious_ratio_threshold :: f64
  ag_suspicious_cooldown_epochs :: u64
  ag_enable_sybil_checks :: bool
  ag_max_jobs_per_requester :: u64

definition anti_gaming_config_default :: anti_gaming_config where
  "anti_gaming_config_default =
     \<lparr>ag_max_epoch_increase_pct = 200, ag_min_unique_sources = 3,
      ag_suspicious_ratio_threshold = f64_lit 10, ag_suspicious_cooldown_epochs = 5,
      ag_enable_sybil_checks = True, ag_max_jobs_per_requester = 1000\<rparr>"

record useful_work_config =
  uw_base_uwu_per_inference :: u64
  uw_complexity_scaling_bps :: u64
  uw_max_uwu_per_job :: u64
  uw_min_complexity_threshold :: u64
  uw_max_complexity_threshold :: u64
  uw_category_multipliers :: "(utility_category, u64) hashmap"
  uw_verification_multipliers :: verification_multipliers
  uw_decay_config :: decay_config
  uw_anti_gaming :: anti_gaming_config

definition default_category_multipliers :: "(utility_category, u64) hashmap" where
  "default_category_multipliers =
     foldl (\<lambda>m c. hm_insert c (default_multiplier_bps c) m) [] all_categories"

definition useful_work_config_default :: useful_work_config where
  "useful_work_config_default =
     \<lparr>uw_base_uwu_per_inference = 100, uw_complexity_scaling_bps = 100, uw_max_uwu_per_job = 1000000,
      uw_min_complexity_threshold = 1000, uw_max_complexity_threshold = 10000000,
      uw_category_multipliers = default_category_multipliers,
      uw_verification_multipliers = verification_multipliers_default,
      uw_decay_config = decay_config_default, uw_anti_gaming = anti_gaming_config_default\<rparr>"

record pouw_consensus_config =
  cc_slot_duration_ms :: u64
  cc_slots_per_epoch :: u64
  cc_block_timeout_ms :: u64
  cc_max_clock_drift_secs :: u64
  cc_min_stake :: u128
  cc_max_validators :: u32
  cc_unbonding_epochs :: u64
  cc_min_self_delegation_bps :: u64
  cc_max_useful_work_multiplier :: f64
  cc_useful_work_config :: useful_work_config
  cc_max_useful_work_score :: u64
  cc_chain_id :: u64
  cc_enable_key_rotation :: bool
  cc_vrf_bias_threshold :: u64
  cc_justification_threshold_bps :: u64
  cc_finalization_threshold_bps :: u64
  cc_finalization_lookback_epochs :: u64
  cc_enable_fast_finality :: bool
  cc_double_proposal_slash_bps :: u64
  cc_conflicting_finality_slash_bps :: u64
  cc_invalid_proof_slash_bps :: u64
  cc_sla_violation_slash_bps :: u64
  cc_minor_jail_duration :: u64
  cc_major_jail_duration :: u64
  cc_base_block_reward :: u128
  cc_reward_per_uwu :: u128
  cc_proposer_reward_bps :: u64
  cc_attestor_reward_bps :: u64
  cc_verifier_reward_bps :: u64
  cc_min_reexecution_validators :: u32
  cc_enable_ai_proof_verification :: bool
  cc_ai_proof_confidence_threshold_bps :: u64
  cc_max_verification_time_ms :: u64

definition consensus_config_mainnet :: pouw_consensus_config where
  "consensus_config_mainnet =
     \<lparr>cc_slot_duration_ms = 6000, cc_slots_per_epoch = 432000, cc_block_timeout_ms = 4000,
      cc_max_clock_drift_secs = 30, cc_min_stake = 1000000000000000000, cc_max_validators = 200,
      cc_unbonding_epochs = 2, cc_min_self_delegation_bps = 1000,
      cc_max_useful_work_multiplier = f64_lit 5, cc_useful_work_config = useful_work_config_default,
      cc_max_useful_work_score = max_val div 2, cc_chain_id = 1, cc_enable_key_rotation = True,
      cc_vrf_bias_threshold = 100, cc_justification_threshold_bps = 6667,
      cc_finalization_threshold_bps = 8000, cc_finalization_lookback_epochs = 2,
      cc_enable_fast_finality = True, cc_double_proposal_slash_bps = 500,
      cc_conflicting_finality_slash_bps = 2000, cc_invalid_proof_slash_bps = 1000,
      cc_sla_violation_slash_bps = 300, cc_minor_jail_duration = 14400, cc_major_jail_duration = 432000,
      cc_base_block_reward = 1000000000000000000, cc_reward_per_uwu = 1000000,
      cc_proposer_reward_bps = 2500, cc_attestor_reward_bps = 5000, cc_verifier_reward_bps = 2500,
      cc_min_reexecution_validators = 3, cc_enable_ai_proof_verification = True,
      cc_ai_proof_confidence_threshold_bps = 9500, cc_max_verification_time_ms = 30000\<rparr>"

definition consensus_config_testnet :: pouw_consensus_config where
  "consensus_config_testnet =
     \<lparr>cc_slot_duration_ms = 3000, cc_slots_per_epoch = 86400, cc_block_timeout_ms = 2000,
      cc_max_clock_drift_secs = 60, cc_min_stake = 1000000000000, cc_max_validators = 100,
      cc_unbonding_epochs = 1, cc_min_self_delegation_bps = 500,
      cc_max_useful_work_multiplier = f64_lit 5,
      cc_useful_work_config = useful_work_config_default
        \<lparr>uw_anti_gaming := anti_gaming_config_default\<lparr>ag_enable_sybil_checks := False\<rparr>\<rparr>,
      cc_max_useful_work_score = max_val div 2, cc_chain_id = 2, cc_enable_key_rotation = False,
      cc_vrf_bias_threshold = 50, cc_justification_threshold_bps = 5000,
      cc_finalization_threshold_bps = 6667, cc_finalization_lookback_epochs = 1,
      cc_enable_fast_finality = True, cc_double_proposal_slash_bps = 100,
      cc_conflicting_finality_slash_bps = 500, cc_invalid_proof_slash_bps = 200,
      cc_sla_violation_slash_bps = 50, cc_minor_jail_duration = 1000, cc_major_jail_duration = 10000,
      cc_base_block_reward = 10000000000000000000, cc_reward_per_uwu = 10000000,
      cc_proposer_reward_bps = 2500, cc_attestor_reward_bps = 5000, cc_verifier_reward_bps = 2500,
      cc_min_reexecution_validators = 2, cc_enable_ai_proof_verification = True,
      cc_ai_proof_confidence_threshold_bps = 9000, cc_max_verification_time_ms = 60000\<rparr>"

definition consensus_config_devnet :: pouw_consensus_config where
  "consensus_config_devnet =
     \<lparr>cc_slot_duration_ms = 1000, cc_slots_per_epoch = 100, cc_block_timeout_ms = 800,
      cc_max_clock_drift_secs = 120, cc_min_stake = 1, cc_max_validators = 10,
      cc_unbonding_epochs = 0, cc_min_self_delegation_bps = 0,
      cc_max_useful_work_multiplier = f64_lit 5,
      cc_useful_work_config = useful_work_config_default
        \<lparr>uw_decay_config := decay_config_default\<lparr>dc_epoch_decay_factor := f64_lit 1\<rparr>,
         uw_anti_gaming := anti_gaming_config_default\<lparr>ag_enable_sybil_checks := False\<rparr>,
         uw_min_complexity_threshold := 0\<rparr>,
      cc_max_useful_work_score = max_val, cc_chain_id = 999, cc_enable_key_rotation = False,
      cc_vrf_bias_threshold = 0, cc_justification_threshold_bps = 1,
      cc_finalization_threshold_bps = 1, cc_finalization_lookback_epochs = 0,
      cc_enable_fast_finality = True, cc_double_proposal_slash_bps = 0,
      cc_conflicting_finality_slash_bps = 0, cc_invalid_proof_slash_bps = 0,
      cc_sla_violation_slash_bps = 0, cc_minor_jail_duration = 0, cc_major_jail_duration = 0,
      cc_base_block_reward = 1000000000000000000000, cc_reward_per_uwu = 1000000000,
      cc_proposer_reward_bps = 3333, cc_attestor_reward_bps = 3333, cc_verifier_reward_bps = 3334,
      cc_min_reexecution_validators = 1, cc_enable_ai_proof_verification = True,
      cc_ai_proof_confidence_threshold_bps = 5000, cc_max_verification_time_ms = 120000\<rparr>"

definition consensus_config_validate :: "pouw_consensus_config \<Rightarrow> (string, unit) result" where
  "consensus_config_validate c =
     (if cc_slot_duration_ms c = 0 then Err ''Slot duration must be > 0''
      else if cc_slots_per_epoch c = 0 then Err ''Slots per epoch must be > 0''
      else if cc_block_timeout_ms c \<ge> cc_slot_duration_ms c then Err ''Block timeout must be < slot duration''
      else if f64_le (cc_max_useful_work_multiplier c) (f64_lit 1)
      then Err ''Max useful work multiplier must be > 1.0''
      else
        let decay = dc_epoch_decay_factor (uw_decay_config (cc_useful_work_config c))
        in if f64_le decay (f64_lit 0) \<or> f64_lt (f64_lit 1) decay
           then Err ''Useful work decay factor must be in (0.0, 1.0]''
      else if cc_justification_threshold_bps c > 10000 then Err ''Justification threshold cannot exceed 100%''
      else if cc_finalization_threshold_bps c > 10000 then Err ''Finalization threshold cannot exceed 100%''
      else if cc_finalization_threshold_bps c < cc_justification_threshold_bps c
      then Err ''Finalization threshold must be >= justification threshold''
      else if cc_double_proposal_slash_bps c > 10000 then Err ''Slash percentage cannot exceed 100%''
      else
        let total_reward_bps = cc_proposer_reward_bps c + cc_attestor_reward_bps c + cc_verifier_reward_bps c
        in if total_reward_bps \<noteq> 10000
           then Err (''Proposer + attestor + verifier rewards must equal 100% (got ''
                     @ show_word (total_reward_bps div 100) @ ''%)'')
      else if cc_ai_proof_confidence_threshold_bps c > 10000
      then Err ''AI proof confidence threshold cannot exceed 100%''
      else Ok ())"

definition config_epoch_for_slot :: "pouw_consensus_config \<Rightarrow> u64 \<Rightarrow> u64 option" where
  "config_epoch_for_slot c slot =
     (if cc_slots_per_epoch c = 0 then None else Some (slot div cc_slots_per_epoch c))"

definition config_first_slot_of_epoch :: "pouw_consensus_config \<Rightarrow> u64 \<Rightarrow> u64" where
  "config_first_slot_of_epoch c epoch = epoch * cc_slots_per_epoch c"

definition config_is_epoch_boundary :: "pouw_consensus_config \<Rightarrow> u64 \<Rightarrow> bool" where
  "config_is_epoch_boundary c slot = (cc_slots_per_epoch c \<noteq> 0 \<and> slot mod cc_slots_per_epoch c = 0)"

section \<open>Useful work units\<close>

definition category_multiplier :: "pouw_consensus_config \<Rightarrow> utility_category \<Rightarrow> u64" where
  "category_multiplier c category =
     (case hm_get (uw_category_multipliers (cc_useful_work_config c)) category of
        Some v \<Rightarrow> v | None \<Rightarrow> default_multiplier_bps category)"

fun verification_mult :: "verification_multipliers \<Rightarrow> pouw_method \<Rightarrow> u64" where
  "verification_mult m TeeAttestation = vm_tee_only_bps m"
| "verification_mult m ZkProof = vm_zkml_only_bps m"
| "verification_mult m Hybrid = vm_hybrid_bps m"
| "verification_mult m ReExecution = vm_reexecution_bps m"
| "verification_mult m AiProof = vm_ai_proof_bps m"

text \<open>\<open>(a as u128 * b as u128 / 10000) as u64\<close>.\<close>

definition bps_u64 :: "u64 \<Rightarrow> u64 \<Rightarrow> u64" where
  "bps_u64 a b = ucast ((ucast a * ucast b :: u128) div 10000)"

definition calculate_uwu :: "pouw_consensus_config \<Rightarrow> u64 \<Rightarrow> utility_category \<Rightarrow> pouw_method \<Rightarrow> u64" where
  "calculate_uwu c complexity category method =
     (let config = cc_useful_work_config c
      in if complexity < uw_min_complexity_threshold config then 0
         else
           let effective_complexity = min complexity (uw_max_complexity_threshold config);
               base = uw_base_uwu_per_inference config;
               complexity_bonus = bps_u64 effective_complexity (uw_complexity_scaling_bps config);
               raw_uwu = saturating_add base complexity_bonus;
               with_category = bps_u64 raw_uwu (category_multiplier c category);
               final_uwu = bps_u64 with_category (verification_mult (uw_verification_multipliers config) method)
           in min final_uwu (uw_max_uwu_per_job config))"

section \<open>Helper functions of the module\<close>

definition MAX_USEFUL_WORK_MULTIPLIER :: f64 where
  "MAX_USEFUL_WORK_MULTIPLIER = f64_lit 5"

definition calculate_useful_work_multiplier :: "libm \<Rightarrow> u64 \<Rightarrow> f64" where
  "calculate_useful_work_multiplier L score = f64_min (raw_multiplier L score) MAX_USEFUL_WORK_MULTIPLIER"

definition calculate_weighted_stake :: "libm \<Rightarrow> u128 \<Rightarrow> u64 \<Rightarrow> u128" where
  "calculate_weighted_stake L stake useful_work_score =
     f64_as_word (f64_mul (u128_as_f64 stake) (calculate_useful_work_multiplier L useful_work_score))"

definition estimate_leader_probability :: "libm \<Rightarrow> u128 \<Rightarrow> u64 \<Rightarrow> u128 \<Rightarrow> f64" where
  "estimate_leader_probability L stake useful_work_score total_weighted_stake =
     (if total_weighted_stake = 0 then f64_lit 0
      else f64_div (u128_as_f64 (calculate_weighted_stake L stake useful_work_score))
             (u128_as_f64 total_weighted_stake))"

end
