(* ===== verification/Rust_Bytes.thy ===== *)
theory Rust_Bytes
  imports Rust_Prelude
begin

text \<open>
  Byte sequences and text as the parsers of the sources use them: slices, little-endian integers
  read back from bytes, \<open>str::from_utf8\<close>, and the string functions \<open>contains\<close>, \<open>find\<close> and \<open>split\<close>.

  A Rust string is the list of the characters of its UTF-8 bytes, so an ASCII literal is itself.
\<close>

named_theorems ok_iff \<open>when a fallible step returns a value\<close>

section \<open>Slices\<close>

text \<open>The slice \<open>bytes[a..b]\<close> of a sequence that is long enough.\<close>

definition slice :: "nat \<Rightarrow> nat \<Rightarrow> 'a list \<Rightarrow> 'a list" where
  "slice a b xs = take (b - a) (drop a xs)"

lemma length_slice [simp]: "b \<le> length xs \<Longrightarrow> length (slice a b xs) = b - a"
  by (simp add: slice_def)

lemma slice_left [simp]: "b \<le> length xs \<Longrightarrow> slice a b (xs @ ys) = slice a b xs"
  by (simp add: slice_def)

lemma slice_parts [simp]:
  "length xs = b \<Longrightarrow> slice 0 b (xs @ ys) = xs"
  "length xs = a \<Longrightarrow> slice a b (xs @ ys) = slice 0 (b - a) ys"
  by (simp_all add: slice_def)

lemma slice_right: "length xs \<le> a \<Longrightarrow> slice a b (xs @ ys) = slice (a - length xs) (b - length xs) ys"
  by (simp add: slice_def)

lemma slice_whole: "length xs = b \<Longrightarrow> slice 0 b xs = xs"
  by (simp add: slice_def)

lemma slice_split: "a \<le> b \<Longrightarrow> b \<le> c \<Longrightarrow> slice a c xs = slice a b xs @ slice b c xs"
proof -
  assume le: "a \<le> b" "b \<le> c"
  have "take (c - a) (drop a xs) = take ((b - a) + (c - b)) (drop a xs)" using le by simp
  also have "\<dots> = take (b - a) (drop a xs) @ take (c - b) (drop (b - a) (drop a xs))" by (rule take_add)
  finally show ?thesis using le by (simp add: slice_def add.commute)
qed

lemma slice_slice: "b' \<le> b - a \<Longrightarrow> slice a' b' (slice a b xs) = slice (a + a') (a + b') xs"
  by (simp add: slice_def drop_take min_def add.commute)

section \<open>Little-endian integers\<close>

lemma le_word_Cons: "le_word (b # bs) = push_bit 8 (le_word bs) + (ucast b :: 'a::len word)"
  by (simp add: le_word_def be_word_def)

lemma le_bytes_Suc: "le_bytes (Suc n) (w :: 'a::len word) = ucast w # le_bytes n (drop_bit 8 w)"
  unfolding le_bytes_def
  by (simp add: upt_rec [of 0 "Suc n"] map_Suc_upt [symmetric] drop_bit_drop_bit add.commute
      del: upt_Suc)

lemma le_word_le_bytes_take: "le_word (le_bytes n (w :: 'a::len word)) = take_bit (8 * n) w"
proof (induction n arbitrary: w)
  case 0
  then show ?case by (simp add: le_bytes_def le_word_def be_word_def)
next
  case (Suc n)
  have "take_bit (8 * Suc n) w = Bit_Operations.or (push_bit 8 (take_bit (8 * n) (drop_bit 8 w))) (take_bit 8 w)"
    by (rule bit_word_eqI) (auto simp: bit_simps)
  also have "\<dots> = push_bit 8 (take_bit (8 * n) (drop_bit 8 w)) + take_bit 8 w"
    by (rule disjunctive_add [symmetric]) (auto simp: bit_simps)
  also have "take_bit 8 w = (ucast (ucast w :: u8) :: 'a word)"
    by (rule bit_word_eqI) (auto simp: bit_simps)
  finally show ?case using Suc.IH by (simp add: le_bytes_Suc le_word_Cons)
qed

text \<open>\<open>from_le_bytes\<close> reads back what \<open>to_le_bytes\<close> wrote.\<close>

lemma le_word_le_bytes [simp]:
  "le_word (le_bytes 2 (w2 :: u16)) = w2" "le_word (le_bytes 4 (w4 :: u32)) = w4"
  "le_word (le_bytes 8 (w8 :: u64)) = w8" "le_word (le_bytes 16 (w16 :: u128)) = w16"
  by (simp_all add: le_word_le_bytes_take take_bit_word_eq_self)

lemma le_bytes_le_word:
  assumes "8 * length bs \<le> LENGTH('a)"
  shows "le_bytes (length bs) (le_word bs :: 'a::len word) = bs"
  using assms
proof (induction bs)
  case Nil
  then show ?case by (simp add: le_bytes_def)
next
  case (Cons b bs)
  let ?w = "le_word bs :: 'a word"
  have eq: "push_bit 8 ?w + (ucast b :: 'a word) = Bit_Operations.or (push_bit 8 ?w) (ucast b)"
    by (rule disjunctive_add) (auto simp: bit_simps dest: bit_imp_le_length)
  have low: "(ucast (push_bit 8 ?w + (ucast b :: 'a word)) :: u8) = b"
    unfolding eq using Cons.prems by (intro bit_word_eqI) (auto simp: bit_simps dest: bit_imp_le_length)
  have "drop_bit 8 (push_bit 8 ?w + (ucast b :: 'a word)) = take_bit (LENGTH('a) - 8) ?w"
    unfolding eq by (intro bit_word_eqI) (auto simp: bit_simps dest: bit_imp_le_length)
  moreover have "take_bit (LENGTH('a) - 8) ?w = ?w"
  proof -
    have "take_bit (8 * length bs) ?w = ?w"
      using Cons le_word_le_bytes_take [of "length bs" ?w] by simp
    then have "bit ?w n \<Longrightarrow> n < 8 * length bs" for n
      by (metis bit_take_bit_iff)
    then show ?thesis using Cons.prems by (intro bit_word_eqI) (fastforce simp: bit_simps)
  qed
  ultimately show ?case using low Cons by (simp add: le_word_Cons le_bytes_Suc)
qed

text \<open>An integer in a wider one, and big-endian bytes read into a word that has room for them.\<close>

lemma le_bytes_append: "le_bytes (m + n) (w :: 'a::len word) = le_bytes m w @ le_bytes n (drop_bit (8 * m) w)"
  by (induction m arbitrary: w) (simp_all add: le_bytes_Suc drop_bit_drop_bit add.commute, simp add: le_bytes_def)

lemma le_bytes_0: "le_bytes n (0 :: 'a::len word) = replicate n 0"
  by (induction n) (simp_all add: le_bytes_Suc, simp add: le_bytes_def)

lemma le_bytes_ucast:
  assumes "8 * m = LENGTH('a)" "LENGTH('a) \<le> LENGTH('b)"
  shows "le_bytes (m + n) (ucast (w :: 'a::len word) :: 'b::len word) = le_bytes m w @ replicate n 0"
proof -
  have "le_bytes m (ucast w :: 'b word) = le_bytes m w"
    unfolding le_bytes_def using assms by (intro map_cong refl bit_word_eqI) (auto simp: bit_simps dest: bit_imp_le_length)
  moreover have "drop_bit (8 * m) (ucast w :: 'b word) = 0"
    using assms(1) by (intro bit_word_eqI) (auto simp: bit_simps dest: bit_imp_le_length)
  ultimately show ?thesis by (simp add: le_bytes_append le_bytes_0)
qed

lemma be_word_zeros: "be_word (replicate n 0 @ bs) = (be_word bs :: 'a::len word)"
proof -
  have "foldl (\<lambda>acc b. push_bit 8 acc + ucast b) 0 (replicate n (0 :: u8)) = (0 :: 'a word)" by (induction n) simp_all
  then show ?thesis by (simp add: be_word_def)
qed

lemma be_bytes_be_word:
  assumes "length bs \<le> n" "8 * n = LENGTH('a)"
  shows "rev (le_bytes n (be_word bs :: 'a::len word)) = replicate (n - length bs) 0 @ bs"
proof -
  let ?cs = "replicate (n - length bs) 0 @ bs"
  have "be_word bs = (le_word (rev ?cs) :: 'a word)" by (simp only: le_word_def rev_rev_ident be_word_zeros)
  moreover have "le_bytes (length (rev ?cs)) (le_word (rev ?cs) :: 'a word) = rev ?cs" by (rule le_bytes_le_word) (use assms in simp)
  moreover have "length (rev ?cs) = n" using assms by simp
  ultimately have "rev (le_bytes n (be_word bs :: 'a word)) = rev (rev ?cs)" by metis
  then show ?thesis by simp
qed

section \<open>Codecs\<close>

text \<open>An encoding that its decoder reads back, and one whose decoder accepts nothing else.\<close>

locale codec =
  fixes encode :: "'a \<Rightarrow> bytes"
    and decode :: "bytes \<Rightarrow> 'a option"
    and wf :: "'a \<Rightarrow> bool"
  assumes decode_encode: "wf x \<Longrightarrow> decode (encode x) = Some x"
begin

lemma encode_inj:
  assumes "wf x" and "wf y"
  shows "encode x = encode y \<longleftrightarrow> x = y"
proof
  assume "encode x = encode y"
  then have "decode (encode x) = decode (encode y)" by (rule arg_cong)
  then show "x = y" unfolding decode_encode [OF assms(1)] decode_encode [OF assms(2)] by simp
qed simp

end

locale canonical_codec = codec +
  assumes encode_decode: "decode bs = Some x \<Longrightarrow> wf x \<and> encode x = bs"
begin

lemma decode_iff: "decode bs = Some x \<longleftrightarrow> wf x \<and> bs = encode x"
  using decode_encode [of x] encode_decode [of bs x] by blast

lemma no_second_encoding: "decode bs = Some x \<Longrightarrow> decode bs' = Some x \<Longrightarrow> bs = bs'"
  by (simp add: decode_iff)

end

definition ok_option :: "('e, 'a) result \<Rightarrow> 'a option" where
  "ok_option r = (case r of Ok a \<Rightarrow> Some a | Err _ \<Rightarrow> None)"

lemma ok_option_Some [simp]: "ok_option r = Some a \<longleftrightarrow> r = Ok a"
  by (simp add: ok_option_def split: result.splits)

section \<open>UTF-8\<close>

definition is_cont :: "u8 \<Rightarrow> bool" where
  "is_cont b = (0x80 \<le> b \<and> b \<le> 0xBF)"

text \<open>The well-formed sequences of the Unicode standard, which \<open>from_utf8\<close> accepts.\<close>

fun utf8_valid :: "bytes \<Rightarrow> bool" where
  "utf8_valid [] = True"
| "utf8_valid (b # bs) =
     (if b \<le> 0x7F then utf8_valid bs
      else if 0xC2 \<le> b \<and> b \<le> 0xDF then
        (case bs of c1 # bs' \<Rightarrow> is_cont c1 \<and> utf8_valid bs' | _ \<Rightarrow> False)
      else if 0xE0 \<le> b \<and> b \<le> 0xEF then
        (case bs of c1 # c2 # bs' \<Rightarrow>
           is_cont c1 \<and> is_cont c2 \<and> (b = 0xE0 \<longrightarrow> 0xA0 \<le> c1) \<and> (b = 0xED \<longrightarrow> c1 \<le> 0x9F) \<and> utf8_valid bs'
         | _ \<Rightarrow> False)
      else if 0xF0 \<le> b \<and> b \<le> 0xF4 then
        (case bs of c1 # c2 # c3 # bs' \<Rightarrow>
           is_cont c1 \<and> is_cont c2 \<and> is_cont c3 \<and> (b = 0xF0 \<longrightarrow> 0x90 \<le> c1) \<and> (b = 0xF4 \<longrightarrow> c1 \<le> 0x8F)
           \<and> utf8_valid bs'
         | _ \<Rightarrow> False)
      else False)"

text \<open>\<open>0xC0\<close> is in no well-formed sequence.\<close>

lemma utf8_no_C0: "utf8_valid bs \<Longrightarrow> 0xC0 \<notin> set bs"
  by (induction bs rule: utf8_valid.induct)
    (auto simp: is_cont_def split: if_splits list.splits)

definition text_of :: "bytes \<Rightarrow> string" where
  "text_of bs = map (\<lambda>b. char_of (unat b)) bs"

definition from_utf8 :: "bytes \<Rightarrow> string option" where
  "from_utf8 bs = (if utf8_valid bs then Some (text_of bs) else None)"

section \<open>Text\<close>

fun contains_text :: "string \<Rightarrow> string \<Rightarrow> bool" where
  "contains_text pat [] = (pat = [])"
| "contains_text pat (c # s) = (take (length pat) (c # s) = pat \<or> contains_text pat s)"

text \<open>\<open>s.split(sep)\<close> for a single character.\<close>

fun split_text :: "char \<Rightarrow> string \<Rightarrow> string list" where
  "split_text sep [] = [[]]"
| "split_text sep (c # s) =
     (if c = sep then [] # split_text sep s
      else (case split_text sep s of part # parts \<Rightarrow> (c # part) # parts | [] \<Rightarrow> [[c]]))"

end
