(* ===== verification/Vrf.thy ===== *)
theory Vrf
  imports Consensus_Types Rust_Bytes
begin

text \<open>
  \<open>src/crates/consensus/src/vrf.rs\<close> as the default feature set compiles it, that is the branches
  under \<open>cfg(not(feature = "vrf"))\<close>. The other branches call the \<open>k256\<close> curve library; with the
  feature enabled \<open>VrfEngine::verify\<close> refers to a variable \<open>proof\<close> that does not exist (its
  parameter is named \<open>_proof\<close>), so the crate does not build in that configuration.

  Key generation from the random number generator (\<open>VrfKeys::generate\<close>) is \<open>from_seed\<close> on a seed
  chosen by the caller. SHA-256 is the parameter \<open>sha\<close>.
\<close>

section \<open>Keys\<close>

record vrf_keys =
  vk_secret_key :: bytes
  vk_public_key :: bytes

definition vrf_from_seed :: "(bytes \<Rightarrow> hash) \<Rightarrow> bytes \<Rightarrow> vrf_keys consensus_result" where
  "vrf_from_seed sha seed =
     Ok \<lparr>vk_secret_key = seed, vk_public_key = 2 # sha (ascii ''mock-vrf-pk:'' @ seed)\<rparr>"

definition derive_epoch_keys :: "(bytes \<Rightarrow> hash) \<Rightarrow> vrf_keys \<Rightarrow> u64 \<Rightarrow> vrf_keys consensus_result" where
  "derive_epoch_keys sha keys epoch =
     vrf_from_seed sha (sha (vk_secret_key keys @ ascii ''epoch_derive'' @ le_bytes 8 epoch))"

section \<open>Proofs and outputs\<close>

record vrf_proof =
  pf_gamma :: bytes
  pf_c :: bytes
  pf_s :: bytes

definition VRF_PROOF_SIZE :: nat where
  "VRF_PROOF_SIZE = 33 + 32 + 32"

definition vrf_to_bytes :: "vrf_proof \<Rightarrow> bytes" where
  "vrf_to_bytes p = pf_gamma p @ pf_c p @ pf_s p"

definition vrf_from_bytes :: "bytes \<Rightarrow> vrf_proof consensus_result" where
  "vrf_from_bytes bs =
     (if length bs < VRF_PROOF_SIZE then Err (MalformedVrfProof VRF_PROOF_SIZE (length bs))
      else Ok \<lparr>pf_gamma = slice 0 33 bs, pf_c = slice 33 65 bs, pf_s = slice 65 97 bs\<rparr>)"

text \<open>\<open>VrfOutput\<close> wraps 32 bytes; \<open>to_bigint\<close> reads them big-endian.\<close>

type_synonym vrf_output = bytes

definition vrf_to_bigint :: "vrf_output \<Rightarrow> nat" where
  "vrf_to_bigint output = be_nat output"

section \<open>The engine\<close>

record vrf_engine =
  ve_domain_tag :: bytes

definition vrf_with_chain_id :: "u64 \<Rightarrow> vrf_engine" where
  "vrf_with_chain_id chain_id = \<lparr>ve_domain_tag = ascii ''Aethelred-PoUW-VRF-v1:'' @ le_bytes 8 chain_id\<rparr>"

definition vrf_engine_new :: vrf_engine where
  "vrf_engine_new = vrf_with_chain_id 1"

definition construct_message :: "vrf_engine \<Rightarrow> epoch_seed \<Rightarrow> slot \<Rightarrow> bytes" where
  "construct_message e epoch_seed slot = ve_domain_tag e @ epoch_seed @ le_bytes 8 slot"

text \<open>The four digests of the mock construction: each hashes its label, the domain tag, bytes 1 to 32
  of the public key and the message.\<close>

definition mock_digest :: "(bytes \<Rightarrow> hash) \<Rightarrow> vrf_engine \<Rightarrow> string \<Rightarrow> bytes \<Rightarrow> bytes \<Rightarrow> hash" where
  "mock_digest sha e label public_key message =
     sha (ascii label @ ve_domain_tag e @ slice 1 33 public_key @ message)"

definition prove_mock ::
    "(bytes \<Rightarrow> hash) \<Rightarrow> vrf_engine \<Rightarrow> vrf_keys \<Rightarrow> bytes \<Rightarrow> (vrf_output \<times> vrf_proof) consensus_result" where
  "prove_mock sha e keys message =
     (let d = (\<lambda>label. mock_digest sha e label (vk_public_key keys) message)
      in Ok (d ''mock-vrf-output:'',
             \<lparr>pf_gamma = 2 # d ''mock-vrf-gamma:'', pf_c = d ''mock-vrf-c:'', pf_s = d ''mock-vrf-s:''\<rparr>))"

definition verify_mock ::
    "(bytes \<Rightarrow> hash) \<Rightarrow> vrf_engine \<Rightarrow> bytes \<Rightarrow> bytes \<Rightarrow> vrf_output \<Rightarrow> vrf_proof \<Rightarrow> bool consensus_result" where
  "verify_mock sha e public_key message output p =
     (if length public_key < 33 then Err (InvalidVrfKey ''Too short'')
      else
        let d = (\<lambda>label. mock_digest sha e label public_key message)
        in if pf_gamma p \<noteq> 2 # d ''mock-vrf-gamma:'' then Ok False
           else if pf_c p \<noteq> d ''mock-vrf-c:'' \<or> pf_s p \<noteq> d ''mock-vrf-s:'' then Ok False
           else Ok (output = d ''mock-vrf-output:''))"

definition vrf_prove ::
    "(bytes \<Rightarrow> hash) \<Rightarrow> vrf_engine \<Rightarrow> vrf_keys \<Rightarrow> bytes \<Rightarrow> (vrf_proof \<times> vrf_output) consensus_result" where
  "vrf_prove sha e keys input = map_result prod.swap (prove_mock sha e keys input)"

definition vrf_verify ::
    "(bytes \<Rightarrow> hash) \<Rightarrow> vrf_engine \<Rightarrow> bytes \<Rightarrow> bytes \<Rightarrow> vrf_proof \<Rightarrow> vrf_output consensus_result" where
  "vrf_verify sha e public_key input p =
     (if length public_key < 33 then Err (InvalidVrfKey ''Too short'')
      else
        let d = (\<lambda>label. mock_digest sha e label public_key input)
        in if pf_gamma p \<noteq> 2 # d ''mock-vrf-gamma:''
           then Err (VrfVerificationFailed ''Mock proof gamma mismatch'')
           else if pf_c p \<noteq> d ''mock-vrf-c:'' \<or> pf_s p \<noteq> d ''mock-vrf-s:''
           then Err (VrfVerificationFailed ''Mock proof c/s mismatch'')
           else Ok (d ''mock-vrf-output:''))"

definition prove_for_slot ::
    "(bytes \<Rightarrow> hash) \<Rightarrow> vrf_engine \<Rightarrow> vrf_keys \<Rightarrow> epoch_seed \<Rightarrow> slot
      \<Rightarrow> (vrf_output \<times> vrf_proof) consensus_result" where
  "prove_for_slot sha e keys epoch_seed slot = prove_mock sha e keys (construct_message e epoch_seed slot)"

definition verify_for_slot ::
    "(bytes \<Rightarrow> hash) \<Rightarrow> vrf_engine \<Rightarrow> bytes \<Rightarrow> epoch_seed \<Rightarrow> slot \<Rightarrow> vrf_output \<Rightarrow> vrf_proof
      \<Rightarrow> bool consensus_result" where
  "verify_for_slot sha e public_key epoch_seed slot output p =
     verify_mock sha e public_key (construct_message e epoch_seed slot) output p"

section \<open>The contract of a VRF\<close>

text \<open>
  What the engine relies on: a proof made with a key verifies under its public half, and for one
  public key and message only one proof and one output verify. Whoever knows how to prove for a
  public key therefore proves the same thing as its owner.
\<close>

locale vrf_scheme =
  fixes prove :: "'k \<Rightarrow> 'm \<Rightarrow> 'p \<times> 'o"
    and verify :: "'pk \<Rightarrow> 'm \<Rightarrow> 'p \<Rightarrow> 'o option"
    and public :: "'k \<Rightarrow> 'pk"
    and valid_key :: "'pk \<Rightarrow> bool"
  assumes complete: "valid_key (public k) \<Longrightarrow> prove k m = (p, out) \<Longrightarrow> verify (public k) m p = Some out"
    and unique: "verify pk m p = Some out \<Longrightarrow> verify pk m p' = Some out' \<Longrightarrow> p = p' \<and> out = out'"
begin

lemma agreement:
  assumes "valid_key (public k)" and "prove k m = (p, out)" and "verify (public k) m p' = Some out'"
  shows "p' = p \<and> out' = out"
  using unique [OF assms(3) complete [OF assms(1, 2)]] .

lemma same_public_key:
  assumes "valid_key (public k)" and "public k' = public k"
  shows "prove k' m = prove k m"
  using agreement [OF assms(1), of m _ _ "fst (prove k' m)" "snd (prove k' m)"]
    complete [of k' m "fst (prove k' m)" "snd (prove k' m)"] assms
  by (metis prod.collapse)

end

lemma prove_mock_alt:
  "vrf_prove sha e keys m = Ok
     (\<lparr>pf_gamma = 2 # mock_digest sha e ''mock-vrf-gamma:'' (vk_public_key keys) m,
       pf_c = mock_digest sha e ''mock-vrf-c:'' (vk_public_key keys) m,
       pf_s = mock_digest sha e ''mock-vrf-s:'' (vk_public_key keys) m\<rparr>,
      mock_digest sha e ''mock-vrf-output:'' (vk_public_key keys) m)"
  by (simp add: vrf_prove_def prove_mock_def)

lemma vrf_prove_parts:
  assumes "vrf_prove sha e keys m = Ok (p, out)"
  shows "pf_gamma p = 2 # mock_digest sha e ''mock-vrf-gamma:'' (vk_public_key keys) m"
    and "out = mock_digest sha e ''mock-vrf-output:'' (vk_public_key keys) m"
  using assms by (auto simp: prove_mock_alt)

lemma vrf_verify_Ok:
  "vrf_verify sha e pk m p = Ok out \<longleftrightarrow>
     33 \<le> length pk \<and> pf_gamma p = 2 # mock_digest sha e ''mock-vrf-gamma:'' pk m
     \<and> pf_c p = mock_digest sha e ''mock-vrf-c:'' pk m \<and> pf_s p = mock_digest sha e ''mock-vrf-s:'' pk m
     \<and> out = mock_digest sha e ''mock-vrf-output:'' pk m"
  by (auto simp: vrf_verify_def Let_def split: if_splits)

definition mock_prove :: "(bytes \<Rightarrow> hash) \<Rightarrow> vrf_engine \<Rightarrow> vrf_keys \<Rightarrow> bytes \<Rightarrow> vrf_proof \<times> vrf_output" where
  "mock_prove sha e keys m = (case vrf_prove sha e keys m of Ok r \<Rightarrow> r | Err _ \<Rightarrow> undefined)"

definition mock_verify :: "(bytes \<Rightarrow> hash) \<Rightarrow> vrf_engine \<Rightarrow> bytes \<Rightarrow> bytes \<Rightarrow> vrf_proof \<Rightarrow> vrf_output option" where
  "mock_verify sha e pk m p = (case vrf_verify sha e pk m p of Ok out \<Rightarrow> Some out | Err _ \<Rightarrow> None)"

lemma mock_verify_Some: "mock_verify sha e pk m p = Some out \<longleftrightarrow> vrf_verify sha e pk m p = Ok out"
  by (simp add: mock_verify_def split: result.splits)

lemma mock_prove_eq: "mock_prove sha e keys m = r \<longleftrightarrow> vrf_prove sha e keys m = Ok r"
  by (simp add: mock_prove_def prove_mock_alt)

interpretation mock_vrf: vrf_scheme "mock_prove sha e" "mock_verify sha e" vk_public_key "\<lambda>pk. 33 \<le> length pk" for sha e
  by unfold_locales (auto simp: mock_verify_Some mock_prove_eq prove_mock_alt vrf_verify_Ok intro: vrf_proof.equality)

section \<open>Encoding of proofs\<close>

definition proof_wf :: "vrf_proof \<Rightarrow> bool" where
  "proof_wf p = (length (pf_gamma p) = 33 \<and> length (pf_c p) = 32 \<and> length (pf_s p) = 32)"

lemma vrf_bytes_round_trip:
  assumes "proof_wf p"
  shows "length (vrf_to_bytes p) = 97" and "vrf_from_bytes (vrf_to_bytes p @ pad) = Ok p"
proof -
  have l: "length (pf_gamma p) = 33" "length (pf_c p) = 32" "length (pf_s p) = 32"
    using assms by (simp_all add: proof_wf_def)
  show "length (vrf_to_bytes p) = 97" by (simp add: vrf_to_bytes_def l)
  have "slice 33 65 (pf_gamma p @ pf_c p @ pf_s p @ pad) = pf_c p"
    "slice 65 97 (pf_gamma p @ pf_c p @ pf_s p @ pad) = pf_s p"
    by (simp_all add: slice_def l)
  then show "vrf_from_bytes (vrf_to_bytes p @ pad) = Ok p"
    by (simp add: vrf_from_bytes_def vrf_to_bytes_def VRF_PROOF_SIZE_def l slice_whole)
qed

lemma mock_prove_wf:
  assumes "\<And>x. length (sha x) = 32" and "vrf_prove sha e keys m = Ok (p, out)"
  shows "proof_wf p" and "length out = 32"
  using assms(2) by (auto simp: prove_mock_alt proof_wf_def mock_digest_def assms(1))

end
