(* ===== verification/Election.thy ===== *)
theory Election
  imports Consensus_Config Vrf
begin

text \<open>
  \<open>src/crates/consensus/src/pouw/election.rs\<close>: useful-work scores and the leader election. The locks
  of \<open>PoUWElection\<close> protect one field each and are never waited for while held by the same thread, so
  its state is one record and an operation is a function on it. \<open>BigUint\<close> is \<open>nat\<close>.

  Two counters serve as divisors after they were incremented (\<open>total_jobs_verified\<close>,
  \<open>total_elections\<close>): they are 0 only after \<open>2\<^sup>6\<^sup>4\<close> increments, where Rust panics and \<open>div\<close> is 0 here.
\<close>

section \<open>Useful work scores\<close>

definition max_vrf_output :: nat where
  "max_vrf_output = 2 ^ 256"

definition PRECISION :: u64 where
  "PRECISION = 1000000"

record useful_work_score =
  us_total_uwu :: u64
  us_uwu_by_category :: "(utility_category, u64) hashmap"
  us_jobs_by_method :: "(pouw_method, u64) hashmap"
  us_epoch_scores :: "(u64, u64) hashmap"
  us_last_update_epoch :: u64
  us_total_jobs_verified :: u64
  us_average_complexity :: u64
  us_reputation_score :: u64
  us_suspicious_flags :: u32

definition useful_work_score_default :: useful_work_score where
  "useful_work_score_default =
     \<lparr>us_total_uwu = 0, us_uwu_by_category = [], us_jobs_by_method = [], us_epoch_scores = [],
      us_last_update_epoch = 0, us_total_jobs_verified = 0, us_average_complexity = 0,
      us_reputation_score = 500, us_suspicious_flags = 0\<rparr>"

text \<open>\<open>*map.entry(k).or_insert(0) += n\<close>.\<close>

definition hm_add :: "'k \<Rightarrow> 'a::len word \<Rightarrow> ('k, 'a word) hashmap \<Rightarrow> ('k, 'a word) hashmap" where
  "hm_add k n m = hm_insert k (hm_entry 0 m k + n) m"

definition add_uwu ::
    "useful_work_score \<Rightarrow> u64 \<Rightarrow> utility_category \<Rightarrow> pouw_method \<Rightarrow> u64 \<Rightarrow> u64 \<Rightarrow> useful_work_score" where
  "add_uwu s uwu category method complexity current_epoch =
     (let s = s\<lparr>us_total_uwu := saturating_add (us_total_uwu s) uwu,
                us_total_jobs_verified := us_total_jobs_verified s + 1,
                us_uwu_by_category := hm_add category uwu (us_uwu_by_category s),
                us_jobs_by_method := hm_add method 1 (us_jobs_by_method s),
                us_epoch_scores := hm_add current_epoch uwu (us_epoch_scores s)\<rparr>;
          total_complexity = us_average_complexity s * (us_total_jobs_verified s - 1)
      in s\<lparr>us_average_complexity := (total_complexity + complexity) div us_total_jobs_verified s,
           us_last_update_epoch := current_epoch\<rparr>)"

text \<open>One iteration of the loop of \<open>calculate_decayed_score\<close>; the loop runs over
  \<open>current_epoch.saturating_sub(window_size)..=current_epoch\<close>.\<close>

definition add_decayed :: "libm \<Rightarrow> f64 \<Rightarrow> useful_work_score \<Rightarrow> u64 \<Rightarrow> f64 \<Rightarrow> nat \<Rightarrow> f64" where
  "add_decayed L decay_factor s current_epoch acc epoch =
     (case hm_get (us_epoch_scores s) (of_nat epoch) of
        None \<Rightarrow> acc
      | Some epoch_uwu \<Rightarrow>
          let epochs_ago = current_epoch - of_nat epoch
          in f64_add acc (f64_mul (u64_as_f64 epoch_uwu)
               (lm_powi L decay_factor (sint (ucast epochs_ago :: 32 word)))))"

definition calculate_decayed_score :: "libm \<Rightarrow> useful_work_score \<Rightarrow> u64 \<Rightarrow> pouw_consensus_config \<Rightarrow> u64" where
  "calculate_decayed_score L s current_epoch config =
     (let decay_config = uw_decay_config (cc_useful_work_config config);
          first = saturating_sub current_epoch (dc_rolling_window_epochs decay_config);
          total_score = foldl (add_decayed L (dc_epoch_decay_factor decay_config) s current_epoch)
            (f64_lit 0) [unat first..<Suc (unat current_epoch)];
          reputation_factor = f64_div (u64_as_f64 (us_reputation_score s)) (f64_lit 500)
      in f64_as_word (f64_mul total_score reputation_factor))"

text \<open>\<open>values().sum()\<close> wraps around in a release build.\<close>

definition hm_total :: "('k, 'a::len word) hashmap \<Rightarrow> 'a word" where
  "hm_total m = sum_list (map snd m)"

fun f64_value :: "f64 \<Rightarrow> rat" where
  "f64_value (Fin x) = x"
| "f64_value _ = 0"

definition gini_term :: "nat \<Rightarrow> nat \<Rightarrow> f64 \<Rightarrow> f64" where
  "gini_term n i share =
     f64_mul (f64_sub (f64_sub (f64_mul (f64_lit 2) (f64_add (u64_as_f64 (of_nat i)) (f64_lit 1)))
                (u64_as_f64 (of_nat n))) (f64_lit 1)) share"

definition category_diversity_score :: "useful_work_score \<Rightarrow> u8" where
  "category_diversity_score s =
     (let active_categories = length (us_uwu_by_category s);
          total_categories = length all_categories;
          total_uwu = hm_total (us_uwu_by_category s)
      in if active_categories = 0 then 0
         else if total_uwu = 0 then 0
         else
           let shares = map (\<lambda>(_, v). f64_div (u64_as_f64 v) (u64_as_f64 total_uwu)) (us_uwu_by_category s);
               sorted_shares = sort_key f64_value shares;
               n = length sorted_shares;
               gini_sum = foldl (\<lambda>acc (i, share). f64_add acc (gini_term n i share)) (f64_lit 0)
                 (zip [0..<n] sorted_shares);
               gini = f64_div gini_sum (u64_as_f64 (of_nat n));
               diversity_from_gini = f64_as_word (f64_mul (f64_sub (f64_lit 1) gini) (f64_lit 50)) :: u8;
               category_bonus = f64_as_word (f64_mul (f64_div (u64_as_f64 (of_nat active_categories))
                 (u64_as_f64 (of_nat total_categories))) (f64_lit 50))
           in min (diversity_from_gini + category_bonus) 100)"

definition is_suspicious :: "useful_work_score \<Rightarrow> bool" where
  "is_suspicious s =
     (let total_uwu = hm_total (us_uwu_by_category s);
          total_jobs = hm_total (us_jobs_by_method s)
      in us_suspicious_flags s \<ge> 3
       \<or> (total_uwu > 0 \<and>
          list_ex (\<lambda>(_, category_uwu).
            f64_lt (f64_lit (95 / 100)) (f64_div (u64_as_f64 category_uwu) (u64_as_f64 total_uwu)))
            (us_uwu_by_category s))
       \<or> (total_jobs > 0 \<and>
          (case hm_get (us_jobs_by_method s) ReExecution of
             None \<Rightarrow> False
           | Some reexec_jobs \<Rightarrow>
               f64_lt (f64_lit (9 / 10)) (f64_div (u64_as_f64 reexec_jobs) (u64_as_f64 total_jobs)))))"

definition apply_penalty :: "useful_work_score \<Rightarrow> u64 \<Rightarrow> useful_work_score" where
  "apply_penalty s penalty_pct =
     (let penalty = us_total_uwu s * penalty_pct div 100
      in s\<lparr>us_total_uwu := saturating_sub (us_total_uwu s) penalty,
           us_suspicious_flags := us_suspicious_flags s + 1\<rparr>)"

definition reset_flags :: "useful_work_score \<Rightarrow> useful_work_score" where
  "reset_flags s = s\<lparr>us_suspicious_flags := 0\<rparr>"

section \<open>The election\<close>

record election_statistics =
  es_total_elections :: u64
  es_wins_by_top_category :: "(utility_category, u64) hashmap"
  es_avg_winner_score :: u64
  es_median_winner_stake :: u128
  es_multi_winner_slots :: u64
  es_min_winning_score :: u64
  es_max_losing_score :: u64

record pouw_election =
  el_config :: pouw_consensus_config
  el_vrf_engine :: vrf_engine
  el_epoch_seed :: epoch_seed
  el_validators :: "(address, validator_info) hashmap"
  el_useful_work_scores :: "(address, useful_work_score) hashmap"
  el_total_stake :: u128
  el_total_weighted_stake :: u128
  el_threshold_cache :: "(address, nat) hashmap"
  el_current_epoch :: u64
  el_stats :: election_statistics

definition pouw_election_new :: "pouw_consensus_config \<Rightarrow> pouw_election" where
  "pouw_election_new config =
     \<lparr>el_config = config, el_vrf_engine = vrf_with_chain_id (cc_chain_id config),
      el_epoch_seed = zero_hash, el_validators = [], el_useful_work_scores = [], el_total_stake = 0,
      el_total_weighted_stake = 0, el_threshold_cache = [], el_current_epoch = 0,
      el_stats = \<lparr>es_total_elections = 0, es_wins_by_top_category = [], es_avg_winner_score = 0,
        es_median_winner_stake = 0, es_multi_winner_slots = 0, es_min_winning_score = 0,
        es_max_losing_score = 0\<rparr>\<rparr>"

definition set_epoch_seed :: "pouw_election \<Rightarrow> epoch_seed \<Rightarrow> pouw_election" where
  "set_epoch_seed e seed = e\<lparr>el_epoch_seed := seed, el_threshold_cache := []\<rparr>"

subsection \<open>Weights\<close>

definition election_multiplier :: "libm \<Rightarrow> pouw_election \<Rightarrow> u64 \<Rightarrow> f64" where
  "election_multiplier L e useful_work_score =
     f64_min (raw_multiplier L useful_work_score) (cc_max_useful_work_multiplier (el_config e))"

definition weighted_stake_internal :: "libm \<Rightarrow> pouw_election \<Rightarrow> u128 \<Rightarrow> u64 \<Rightarrow> u128" where
  "weighted_stake_internal L e stake useful_work_score =
     f64_as_word (f64_mul (u128_as_f64 stake) (election_multiplier L e useful_work_score))"

definition get_useful_work_score :: "libm \<Rightarrow> pouw_election \<Rightarrow> address \<Rightarrow> u64" where
  "get_useful_work_score L e a =
     (case hm_get (el_useful_work_scores e) a of
        Some s \<Rightarrow> calculate_decayed_score L s (el_current_epoch e) (el_config e) | None \<Rightarrow> 0)"

text \<open>The weight of a registered validator, as the three places that sum or update the total compute it.\<close>

definition validator_weight :: "libm \<Rightarrow> pouw_election \<Rightarrow> address \<Rightarrow> u128 \<Rightarrow> u128" where
  "validator_weight L e a stake = weighted_stake_internal L e stake (get_useful_work_score L e a)"

definition recalculate_weighted_stakes :: "libm \<Rightarrow> pouw_election \<Rightarrow> pouw_election" where
  "recalculate_weighted_stakes L e =
     e\<lparr>el_total_weighted_stake :=
         foldl (\<lambda>acc (a, info). acc + validator_weight L e a (vi_stake info)) 0 (el_validators e),
       el_threshold_cache := []\<rparr>"

definition set_current_epoch :: "libm \<Rightarrow> pouw_election \<Rightarrow> u64 \<Rightarrow> pouw_election" where
  "set_current_epoch L e epoch =
     (if epoch > el_current_epoch e then recalculate_weighted_stakes L (e\<lparr>el_current_epoch := epoch\<rparr>) else e)"

subsection \<open>Validators\<close>

definition election_register_validator ::
    "libm \<Rightarrow> pouw_election \<Rightarrow> validator_info \<Rightarrow> pouw_election \<times> unit consensus_result" where
  "election_register_validator L e info =
     (if vi_stake info < cc_min_stake (el_config e)
      then (e, Err (InsufficientStake (cc_min_stake (el_config e)) (vi_stake info)))
      else
        let a = vi_address info;
            weighted = validator_weight L e a (vi_stake info);
            e1 = (case hm_get (el_validators e) a of
                    None \<Rightarrow> e
                  | Some old \<Rightarrow>
                      e\<lparr>el_total_stake := el_total_stake e - vi_stake old,
                        el_total_weighted_stake :=
                          el_total_weighted_stake e - validator_weight L e a (vi_stake old)\<rparr>);
            e2 = e1\<lparr>el_total_stake := el_total_stake e1 + vi_stake info,
                    el_total_weighted_stake := el_total_weighted_stake e1 + weighted,
                    el_validators := hm_insert a info (el_validators e1),
                    el_useful_work_scores :=
                      hm_insert a (hm_entry useful_work_score_default (el_useful_work_scores e1) a)
                        (el_useful_work_scores e1),
                    el_threshold_cache := []\<rparr>
        in (e2, Ok ()))"

definition remove_validator :: "libm \<Rightarrow> pouw_election \<Rightarrow> address \<Rightarrow> pouw_election \<times> unit consensus_result" where
  "remove_validator L e a =
     (case hm_get (el_validators e) a of
        None \<Rightarrow> (e, Err (ValidatorNotRegistered (hex_encode a)))
      | Some info \<Rightarrow>
          (e\<lparr>el_validators := hm_remove a (el_validators e),
             el_total_stake := el_total_stake e - vi_stake info,
             el_total_weighted_stake := el_total_weighted_stake e - validator_weight L e a (vi_stake info),
             el_threshold_cache := hm_remove a (el_threshold_cache e),
             el_useful_work_scores := hm_remove a (el_useful_work_scores e)\<rparr>, Ok ()))"

text \<open>Both scores are read from the state after the work was recorded.\<close>

definition update_weighted_stake :: "libm \<Rightarrow> pouw_election \<Rightarrow> address \<Rightarrow> pouw_election \<times> unit consensus_result" where
  "update_weighted_stake L e a =
     (case hm_get (el_validators e) a of
        None \<Rightarrow> (e, Err (ValidatorNotRegistered (hex_encode a)))
      | Some info \<Rightarrow>
          let old_score = get_useful_work_score L e a;
              new_score = get_useful_work_score L e a;
              old_weighted = weighted_stake_internal L e (vi_stake info) old_score;
              new_weighted = weighted_stake_internal L e (vi_stake info) new_score
          in (e\<lparr>el_total_weighted_stake :=
                  saturating_add (saturating_sub (el_total_weighted_stake e) old_weighted) new_weighted\<rparr>, Ok ()))"

definition record_useful_work ::
    "libm \<Rightarrow> pouw_election \<Rightarrow> address \<Rightarrow> u64 \<Rightarrow> utility_category \<Rightarrow> pouw_method \<Rightarrow> u64
      \<Rightarrow> pouw_election \<times> unit consensus_result" where
  "record_useful_work L e a uwu category method complexity =
     (let score = hm_entry useful_work_score_default (el_useful_work_scores e) a;
          e = e\<lparr>el_useful_work_scores := hm_insert a score (el_useful_work_scores e)\<rparr>
      in if is_suspicious score
         then (e, Err (SuspiciousActivity (hex_encode a) ''Validator flagged for suspicious activity pattern''))
         else
           let score = add_uwu score uwu category method complexity (el_current_epoch e);
               e = e\<lparr>el_useful_work_scores := hm_insert a score (el_useful_work_scores e)\<rparr>
           in try_then (update_weighted_stake L e a) (\<lambda>e _.
                (e\<lparr>el_threshold_cache := hm_remove a (el_threshold_cache e)\<rparr>, Ok ())))"

definition active_validators :: "pouw_election \<Rightarrow> slot \<Rightarrow> validator_info list" where
  "active_validators e current_slot = filter (\<lambda>v. is_eligible v current_slot) (map snd (el_validators e))"

subsection \<open>Thresholds\<close>

definition calculate_threshold :: "libm \<Rightarrow> pouw_election \<Rightarrow> u128 \<Rightarrow> u64 \<Rightarrow> u128 \<Rightarrow> nat" where
  "calculate_threshold L e stake useful_work_score total_weighted_stake =
     (if total_weighted_stake = 0 then 0
      else
        let multiplier = election_multiplier L e useful_work_score;
            weighted_stake = f64_as_word (f64_mul (f64_mul (u128_as_f64 stake) multiplier)
              (u64_as_f64 PRECISION)) :: u128;
            numerator = max_vrf_output * unat weighted_stake;
            denominator = unat total_weighted_stake * unat PRECISION
        in if denominator = 0 then 0 else numerator div denominator)"

definition check_vrf_threshold :: "bytes \<Rightarrow> nat \<Rightarrow> bool" where
  "check_vrf_threshold vrf_output threshold = (be_nat vrf_output < threshold)"

definition get_or_compute_threshold ::
    "libm \<Rightarrow> pouw_election \<Rightarrow> address \<Rightarrow> pouw_election \<times> nat consensus_result" where
  "get_or_compute_threshold L e a =
     (case hm_get (el_threshold_cache e) a of
        Some threshold \<Rightarrow> (e, Ok threshold)
      | None \<Rightarrow>
          (case hm_get (el_validators e) a of
             None \<Rightarrow> (e, Err (ValidatorNotRegistered (hex_encode a)))
           | Some info \<Rightarrow>
               let threshold = calculate_threshold L e (vi_stake info) (get_useful_work_score L e a)
                     (el_total_weighted_stake e)
               in (e\<lparr>el_threshold_cache := hm_insert a threshold (el_threshold_cache e)\<rparr>, Ok threshold)))"

subsection \<open>Statistics\<close>

text \<open>\<open>max_by_key\<close> keeps the last of several maximal entries.\<close>

fun max_by_value :: "('k \<times> 'a::len word) list \<Rightarrow> 'k option" where
  "max_by_value [] = None"
| "max_by_value (x # xs) = Some (fst (foldl (\<lambda>m y. if snd m \<le> snd y then y else m) x xs))"

definition record_election_win :: "pouw_election \<Rightarrow> address \<Rightarrow> pouw_election" where
  "record_election_win e winner =
     (let stats = (el_stats e)\<lparr>es_total_elections := es_total_elections (el_stats e) + 1\<rparr>
      in case hm_get (el_useful_work_scores e) winner of
           None \<Rightarrow> e\<lparr>el_stats := stats\<rparr>
         | Some score \<Rightarrow>
             let stats = (case max_by_value (us_uwu_by_category score) of
                            None \<Rightarrow> stats
                          | Some c \<Rightarrow> stats\<lparr>es_wins_by_top_category := hm_add c 1 (es_wins_by_top_category stats)\<rparr>);
                 winner_score = us_total_uwu score;
                 n = es_total_elections stats;
                 stats = stats\<lparr>es_avg_winner_score := (es_avg_winner_score stats * (n - 1) + winner_score) div n\<rparr>;
                 stats = (if es_min_winning_score stats = 0 \<or> winner_score < es_min_winning_score stats
                          then stats\<lparr>es_min_winning_score := winner_score\<rparr> else stats)
             in e\<lparr>el_stats := stats\<rparr>)"

record election_stats =
  ex_total_validators :: nat
  ex_active_validators :: nat
  ex_total_stake :: u128
  ex_total_weighted_stake :: u128
  ex_total_useful_work_score :: u64
  ex_average_multiplier :: f64

definition election_stats_of :: "libm \<Rightarrow> pouw_election \<Rightarrow> election_stats" where
  "election_stats_of L e =
     (let decayed = (\<lambda>s. calculate_decayed_score L s (el_current_epoch e) (el_config e))
      in \<lparr>ex_total_validators = length (el_validators e),
          ex_active_validators = length (filter (\<lambda>(_, v). vi_active v) (el_validators e)),
          ex_total_stake = el_total_stake e,
          ex_total_weighted_stake = el_total_weighted_stake e,
          ex_total_useful_work_score = sum_list (map (\<lambda>(_, s). decayed s) (el_useful_work_scores e)),
          ex_average_multiplier =
            (if el_validators e = [] then f64_lit 1
             else f64_div
                    (foldl f64_add (f64_lit 0)
                      (map (\<lambda>(_, v). election_multiplier L e (get_useful_work_score L e (vi_address v)))
                        (el_validators e)))
                    (u64_as_f64 (of_nat (length (el_validators e)))))\<rparr>)"

subsection \<open>Proposing and checking a proposer\<close>

definition check_eligibility ::
    "libm \<Rightarrow> (bytes \<Rightarrow> hash) \<Rightarrow> pouw_election \<Rightarrow> address \<Rightarrow> slot \<Rightarrow> vrf_keys
      \<Rightarrow> pouw_election \<times> (vrf_output \<times> vrf_proof) option consensus_result" where
  "check_eligibility L sha e validator slot keys =
     (case hm_get (el_validators e) validator of
        None \<Rightarrow> (e, Err (ValidatorNotRegistered (hex_encode validator)))
      | Some info \<Rightarrow>
          if \<not> is_eligible info slot
          then (e, Err (NotEligible (hex_encode validator) ''Validator is not active or jailed''))
          else case prove_for_slot sha (el_vrf_engine e) keys (el_epoch_seed e) slot of
            Err er \<Rightarrow> (e, Err er)
          | Ok (output, p) \<Rightarrow>
              try_then (get_or_compute_threshold L e validator) (\<lambda>e threshold.
                if check_vrf_threshold output threshold
                then (record_election_win e validator, Ok (Some (output, p)))
                else (e, Ok None)))"

text \<open>\<open>BigUint::to_str_radix(16)\<close>.\<close>

fun show_hex :: "nat \<Rightarrow> string" where
  "show_hex n = (if n < 16 then [hex_digit n] else show_hex (n div 16) @ [hex_digit (n mod 16)])"

declare show_hex.simps [simp del]

text \<open>The one-percent tolerance: \<open>(claimed as i128 - actual as i128).unsigned_abs() > tolerance\<close>.\<close>

definition score_mismatch :: "u64 \<Rightarrow> u64 \<Rightarrow> bool" where
  "score_mismatch claimed actual =
     (nat \<bar>int (unat claimed) - int (unat actual)\<bar> > unat (actual div 100))"

definition verify_proposer ::
    "libm \<Rightarrow> (bytes \<Rightarrow> hash) \<Rightarrow> pouw_election \<Rightarrow> address \<Rightarrow> slot \<Rightarrow> u64 \<Rightarrow> bytes \<Rightarrow> bytes \<Rightarrow> unit consensus_result" where
  "verify_proposer L sha e proposer slot claimed_useful_work_score vrf_output vrf_proof =
     (case hm_get (el_validators e) proposer of
        None \<Rightarrow> Err (ValidatorNotRegistered (hex_encode proposer))
      | Some info \<Rightarrow>
          let actual_score = get_useful_work_score L e proposer
          in if score_mismatch claimed_useful_work_score actual_score
             then Err (UsefulWorkScoreMismatch (hex_encode proposer) claimed_useful_work_score actual_score)
             else case vrf_from_bytes vrf_proof of
               Err er \<Rightarrow> Err er
             | Ok p \<Rightarrow>
                 if length vrf_output \<noteq> 32 then Err (MalformedVrfProof 32 (length vrf_output))
                 else case verify_for_slot sha (el_vrf_engine e) (vi_vrf_pubkey info) (el_epoch_seed e) slot vrf_output p of
                   Err er \<Rightarrow> Err er
                 | Ok valid \<Rightarrow>
                     if \<not> valid then Err (VrfVerificationFailed ''VRF proof verification failed'')
                     else
                       let threshold = calculate_threshold L e (vi_stake info) actual_score (el_total_weighted_stake e)
                       in if \<not> check_vrf_threshold vrf_output threshold
                          then Err (VrfThresholdNotMet (hex_encode vrf_output) (show_hex threshold))
                          else Ok ())"

end
