(* ===== verification/Consensus_Engine.thy ===== *)
theory Consensus_Engine
  imports Election
begin

text \<open>
  \<open>src/crates/consensus/src/pouw/consensus.rs\<close>: useful-work results and their verification, the
  consensus state, and the engine that combines the state, the election and the verification
  engine into leader selection and block validation.

  An operation of \<open>PoUWConsensus\<close> is a function on its record; the metrics are part of it. \<open>None\<close> is
  the panic of a division by a zero \<open>slots_per_epoch\<close>. An \<open>f32\<close> of an embedding is only stored, so
  it is kept as its bit pattern.
\<close>

section \<open>Useful work results\<close>

record ai_proof =
  ap_verifier_model_hash :: hash
  ap_confidence_bps :: u64
  ap_result_embedding :: "u32 list"
  ap_verifier_signature :: bytes
  ap_metadata :: "(string, string) hashmap"

definition meets_threshold :: "ai_proof \<Rightarrow> u64 \<Rightarrow> bool" where
  "meets_threshold p threshold_bps = (ap_confidence_bps p \<ge> threshold_bps)"

definition verify_ai_signature :: "ai_proof \<Rightarrow> bytes \<Rightarrow> bool" where
  "verify_ai_signature p verifier_pubkey = (ap_verifier_signature p \<noteq> [] \<and> verifier_pubkey \<noteq> [])"

record useful_work_result =
  ur_job_id :: hash
  ur_model_hash :: hash
  ur_input_hash :: hash
  ur_output_hash :: hash
  ur_useful_work_units :: u64
  ur_work_difficulty :: u64
  ur_category :: utility_category
  ur_verification_method :: pouw_method
  ur_tee_attestation :: bytes
  ur_zkml_proof :: "bytes option"
  ur_ai_proof :: "ai_proof option"
  ur_validator :: address
  ur_requester :: address
  ur_confirmations :: u32
  ur_completed_at :: u64
  ur_sla_deadline :: u64

definition has_valid_attestation :: "useful_work_result \<Rightarrow> bool" where
  "has_valid_attestation r =
     (case ur_verification_method r of
        TeeAttestation \<Rightarrow> ur_tee_attestation r \<noteq> []
      | ZkProof \<Rightarrow> ur_zkml_proof r \<noteq> None
      | Hybrid \<Rightarrow> ur_tee_attestation r \<noteq> [] \<and> ur_zkml_proof r \<noteq> None
      | ReExecution \<Rightarrow> ur_confirmations r \<ge> 2
      | AiProof \<Rightarrow> ur_ai_proof r \<noteq> None)"

definition sla_met :: "useful_work_result \<Rightarrow> bool" where
  "sla_met r = (ur_completed_at r \<le> ur_sla_deadline r)"

definition result_hash :: "(bytes \<Rightarrow> hash) \<Rightarrow> useful_work_result \<Rightarrow> hash" where
  "result_hash sha r =
     sha (ur_job_id r @ ur_model_hash r @ ur_input_hash r @ ur_output_hash r
          @ le_bytes 8 (ur_useful_work_units r) @ le_bytes 8 (ur_work_difficulty r)
          @ [category_as_u8 (ur_category r)] @ [pouw_method_as_u8 (ur_verification_method r)]
          @ ur_validator r @ ur_requester r)"

section \<open>Consensus state\<close>

record pending_useful_work =
  pu_job_id :: hash
  pu_output_hash :: hash
  pu_useful_work_units :: u64
  pu_work_difficulty :: u64
  pu_category :: utility_category
  pu_method :: pouw_method
  pu_submitted_slot :: slot
  pu_validator :: address

record category_stats =
  ct_total_jobs :: u64
  ct_total_uwu :: u64
  ct_avg_difficulty :: u64
  ct_avg_completion_time :: u64
  ct_sla_compliance_bps :: u64

record pouw_state =
  ps_current_slot :: slot
  ps_current_epoch :: epoch
  ps_epoch_seed :: epoch_seed
  ps_validators :: "(address, validator_info) hashmap"
  ps_active_validators :: "address list"
  ps_total_stake :: u128
  ps_total_weighted_stake :: u128
  ps_last_finalized_hash :: hash
  ps_last_finalized_slot :: slot
  ps_pending_results :: "(hash, pending_useful_work) hashmap"
  ps_proposer_history :: "(slot, address) hashmap"
  ps_useful_work_scores :: "(address, u64) hashmap"
  ps_category_stats :: "(utility_category, category_stats) hashmap"

definition pouw_state_new :: "u64 \<Rightarrow> pouw_state" where
  "pouw_state_new genesis_timestamp =
     \<lparr>ps_current_slot = 0, ps_current_epoch = 0, ps_epoch_seed = zero_hash, ps_validators = [],
      ps_active_validators = [], ps_total_stake = 0, ps_total_weighted_stake = 0,
      ps_last_finalized_hash = zero_hash, ps_last_finalized_slot = 0, ps_pending_results = [],
      ps_proposer_history = [], ps_useful_work_scores = [], ps_category_stats = []\<rparr>"

definition state_multiplier :: "libm \<Rightarrow> u64 \<Rightarrow> f64" where
  "state_multiplier L score = f64_min (raw_multiplier L score) (f64_lit 5)"

definition state_weighted_stake :: "libm \<Rightarrow> u128 \<Rightarrow> u64 \<Rightarrow> u128" where
  "state_weighted_stake L stake useful_work_score =
     f64_as_word (f64_mul (u128_as_f64 stake) (state_multiplier L useful_work_score))"

definition state_score :: "pouw_state \<Rightarrow> address \<Rightarrow> u64" where
  "state_score st a = (case hm_get (ps_useful_work_scores st) a of Some s \<Rightarrow> s | None \<Rightarrow> 0)"

definition state_stake :: "pouw_state \<Rightarrow> address \<Rightarrow> u128" where
  "state_stake st a = (case hm_get (ps_validators st) a of Some v \<Rightarrow> vi_stake v | None \<Rightarrow> 0)"

text \<open>An entry of the map \<open>weights\<close>, and the value \<open>0\<close> where it has none.\<close>

definition state_weight :: "libm \<Rightarrow> pouw_state \<Rightarrow> address \<Rightarrow> u128" where
  "state_weight L st a =
     (case hm_get (ps_validators st) a of
        None \<Rightarrow> 0 | Some v \<Rightarrow> state_weighted_stake L (vi_stake v) (state_score st a))"

definition recalculate_active_set :: "libm \<Rightarrow> pouw_state \<Rightarrow> pouw_state" where
  "recalculate_active_set L st =
     (let active = map fst (filter (\<lambda>(_, v). is_eligible v (ps_current_slot st)) (ps_validators st));
          active = sort_key (\<lambda>a. - int (unat (state_weight L st a))) active
      in st\<lparr>ps_active_validators := active,
            ps_total_stake := foldl (\<lambda>acc a. acc + state_stake st a) 0 active,
            ps_total_weighted_stake := foldl (\<lambda>acc a. acc + state_weight L st a) 0 active\<rparr>)"

definition apply_score_decay :: "pouw_state \<Rightarrow> pouw_state" where
  "apply_score_decay st =
     st\<lparr>ps_useful_work_scores :=
          map (\<lambda>(a, score). (a, f64_as_word (f64_mul (u64_as_f64 score) (f64_lit (95 / 100)))))
            (ps_useful_work_scores st)\<rparr>"

definition on_epoch_transition :: "libm \<Rightarrow> pouw_state \<Rightarrow> epoch \<Rightarrow> pouw_state" where
  "on_epoch_transition L st new_epoch =
     recalculate_active_set L (apply_score_decay (st\<lparr>ps_current_epoch := new_epoch\<rparr>))"

definition state_advance_slot :: "libm \<Rightarrow> pouw_state \<Rightarrow> slot \<Rightarrow> slot_timing \<Rightarrow> pouw_state option" where
  "state_advance_slot L st slot timing =
     (let st = st\<lparr>ps_current_slot := slot\<rparr>
      in case epoch_for_slot timing slot of
           None \<Rightarrow> None
         | Some new_epoch \<Rightarrow>
             Some (if new_epoch > ps_current_epoch st then on_epoch_transition L st new_epoch else st))"

definition state_register_validator :: "libm \<Rightarrow> pouw_state \<Rightarrow> validator_info \<Rightarrow> pouw_state \<times> unit consensus_result" where
  "state_register_validator L st info =
     (let a = vi_address info;
          st = st\<lparr>ps_validators := hm_insert a info (ps_validators st),
                  ps_useful_work_scores := hm_insert a (hm_entry 0 (ps_useful_work_scores st) a)
                    (ps_useful_work_scores st)\<rparr>
      in (recalculate_active_set L st, Ok ()))"

text \<open>\<open>delta\<close> is an \<open>i64\<close>; a negative one is subtracted with saturation.\<close>

definition add_score :: "u64 \<Rightarrow> 64 word \<Rightarrow> u64" where
  "add_score score delta =
     (if sint delta \<ge> 0 then saturating_add score delta else saturating_sub score (- delta))"

definition state_update_score ::
    "libm \<Rightarrow> pouw_state \<Rightarrow> address \<Rightarrow> 64 word \<Rightarrow> pouw_state \<times> unit consensus_result" where
  "state_update_score L st a delta =
     (case hm_get (ps_validators st) a of
        None \<Rightarrow> (st, Err (ValidatorNotFound a))
      | Some v \<Rightarrow>
          let score = add_score (hm_entry 0 (ps_useful_work_scores st) a) delta;
              st = st\<lparr>ps_useful_work_scores := hm_insert a score (ps_useful_work_scores st),
                      ps_validators := hm_insert a (v\<lparr>vi_useful_work_score := score\<rparr>) (ps_validators st)\<rparr>
          in (recalculate_active_set L st, Ok ()))"

definition category_stats_default :: category_stats where
  "category_stats_default =
     \<lparr>ct_total_jobs = 0, ct_total_uwu = 0, ct_avg_difficulty = 0, ct_avg_completion_time = 0,
      ct_sla_compliance_bps = 0\<rparr>"

definition update_category_stats ::
    "pouw_state \<Rightarrow> utility_category \<Rightarrow> u64 \<Rightarrow> u64 \<Rightarrow> u64 \<Rightarrow> bool \<Rightarrow> pouw_state" where
  "update_category_stats st category uwu difficulty completion_time met =
     (let stats = hm_entry category_stats_default (ps_category_stats st) category;
          old_total_jobs = ct_total_jobs stats;
          total_jobs = old_total_jobs + 1;
          old_compliance_count = ct_sla_compliance_bps stats * old_total_jobs div 10000;
          new_compliance_count = old_compliance_count + (if met then 1 else 0);
          stats = stats\<lparr>ct_total_jobs := total_jobs, ct_total_uwu := ct_total_uwu stats + uwu,
            ct_avg_difficulty := (ct_avg_difficulty stats * old_total_jobs + difficulty) div total_jobs,
            ct_avg_completion_time := (ct_avg_completion_time stats * old_total_jobs + completion_time) div total_jobs,
            ct_sla_compliance_bps := new_compliance_count * 10000 div total_jobs\<rparr>
      in st\<lparr>ps_category_stats := hm_insert category stats (ps_category_stats st)\<rparr>)"

definition is_validator_active :: "pouw_state \<Rightarrow> address \<Rightarrow> bool" where
  "is_validator_active st a = (a \<in> set (ps_active_validators st))"

section \<open>Verification engine\<close>

record verifier_circuit =
  vc_hash :: hash
  vc_model_types :: "string list"
  vc_params :: bytes

record ai_verifier_model =
  am_hash :: hash
  am_min_confidence_bps :: u64
  am_categories :: "utility_category list"

record verification_engine =
  ng_config :: pouw_consensus_config
  ng_approved_measurements :: "(hash, string) hashmap"
  ng_verifier_circuits :: "(hash, verifier_circuit) hashmap"
  ng_ai_verifier_models :: "(hash, ai_verifier_model) hashmap"

definition verification_engine_new :: "pouw_consensus_config \<Rightarrow> verification_engine" where
  "verification_engine_new config =
     \<lparr>ng_config = config, ng_approved_measurements = [], ng_verifier_circuits = [], ng_ai_verifier_models = []\<rparr>"

definition register_measurement :: "verification_engine \<Rightarrow> hash \<Rightarrow> string \<Rightarrow> verification_engine" where
  "register_measurement g h description =
     g\<lparr>ng_approved_measurements := hm_insert h description (ng_approved_measurements g)\<rparr>"

definition register_verifier_circuit :: "verification_engine \<Rightarrow> verifier_circuit \<Rightarrow> verification_engine" where
  "register_verifier_circuit g circuit =
     g\<lparr>ng_verifier_circuits := hm_insert (vc_hash circuit) circuit (ng_verifier_circuits g)\<rparr>"

definition register_ai_verifier :: "verification_engine \<Rightarrow> ai_verifier_model \<Rightarrow> verification_engine" where
  "register_ai_verifier g model =
     g\<lparr>ng_ai_verifier_models := hm_insert (am_hash model) model (ng_ai_verifier_models g)\<rparr>"

definition is_measurement_allowed :: "verification_engine \<Rightarrow> hash \<Rightarrow> bool" where
  "is_measurement_allowed g measurement =
     (if measurement = zero_hash then False
      else ng_approved_measurements g = [] \<or> hm_get (ng_approved_measurements g) measurement \<noteq> None)"

definition verify_sgx_attestation :: "verification_engine \<Rightarrow> bytes \<Rightarrow> hash \<Rightarrow> bool" where
  "verify_sgx_attestation g attestation expected_binding =
     (if (le_word (slice 0 2 attestation) :: u16) \<noteq> 3 then False
      else if (le_word (slice 4 8 attestation) :: u32) \<noteq> 0 then False
      else if \<not> is_measurement_allowed g (slice 112 144 attestation) then False
      else slice 368 400 attestation = expected_binding)"

definition verify_nitro_attestation :: "verification_engine \<Rightarrow> bytes \<Rightarrow> bool" where
  "verify_nitro_attestation g attestation = is_measurement_allowed g (slice 40 72 attestation)"

definition verify_sev_attestation :: "verification_engine \<Rightarrow> bytes \<Rightarrow> hash \<Rightarrow> bool" where
  "verify_sev_attestation g attestation expected_binding =
     (if (le_word (slice 0 4 attestation) :: u32) \<noteq> 2 then False
      else if \<not> is_measurement_allowed g (slice 80 112 attestation) then False
      else slice 392 424 attestation = expected_binding)"

definition engine_verify_tee :: "(bytes \<Rightarrow> hash) \<Rightarrow> verification_engine \<Rightarrow> useful_work_result \<Rightarrow> bool consensus_result" where
  "engine_verify_tee sha g r =
     (if ur_tee_attestation r = [] then Ok False
      else
        let attestation = ur_tee_attestation r;
            expected_binding = result_hash sha r
        in if length attestation \<ge> 436 then Ok (verify_sgx_attestation g attestation expected_binding)
           else if take 1 attestation = [0x84] \<and> length attestation \<ge> 100
           then Ok (verify_nitro_attestation g attestation)
           else if length attestation \<ge> 672 then Ok (verify_sev_attestation g attestation expected_binding)
           else Ok False)"

definition engine_verify_zkml :: "verification_engine \<Rightarrow> useful_work_result \<Rightarrow> bool consensus_result" where
  "engine_verify_zkml g r =
     (case ur_zkml_proof r of
        None \<Rightarrow> Ok False
      | Some p \<Rightarrow> if p = [] then Ok False else if length p < 200 then Ok False else Ok True)"

definition engine_verify_ai :: "verification_engine \<Rightarrow> useful_work_result \<Rightarrow> bool consensus_result" where
  "engine_verify_ai g r =
     (case ur_ai_proof r of
        None \<Rightarrow> Ok False
      | Some p \<Rightarrow>
          if \<not> meets_threshold p (cc_ai_proof_confidence_threshold_bps (ng_config g)) then Ok False
          else if ap_result_embedding p = [] then Ok False
          else if ap_verifier_signature p = [] then Ok False
          else if ng_ai_verifier_models g \<noteq> [] then
            (case hm_get (ng_ai_verifier_models g) (ap_verifier_model_hash p) of
               None \<Rightarrow> Ok False
             | Some model \<Rightarrow>
                 if ap_confidence_bps p < am_min_confidence_bps model then Ok False
                 else if ur_category r \<notin> set (am_categories model) then Ok False
                 else Ok True)
          else Ok True)"

section \<open>The engine\<close>

record cached_block =
  cb_header :: pouw_block_header
  cb_validated :: bool
  cb_validation_time_ms :: u64

record consensus_metrics =
  mt_blocks_proposed :: u64
  mt_blocks_validated :: u64
  mt_vrf_proofs_generated :: u64
  mt_elections_won :: u64
  mt_useful_work_verified :: u64
  mt_total_uwu_awarded :: u64
  mt_slashing_events :: u64
  mt_tee_verifications :: u64
  mt_zkml_verifications :: u64
  mt_ai_proof_verifications :: u64

record pouw_consensus =
  pc_config :: pouw_consensus_config
  pc_state :: pouw_state
  pc_election :: pouw_election
  pc_vrf_engine :: vrf_engine
  pc_timing :: slot_timing
  pc_local_keys :: "vrf_keys option"
  pc_block_cache :: "(hash, cached_block) hashmap"
  pc_metrics :: consensus_metrics
  pc_verification_engine :: verification_engine

definition pouw_consensus_new :: "pouw_consensus_config \<Rightarrow> u64 \<Rightarrow> pouw_consensus" where
  "pouw_consensus_new config genesis_timestamp =
     \<lparr>pc_config = config, pc_state = pouw_state_new genesis_timestamp, pc_election = pouw_election_new config,
      pc_vrf_engine = vrf_engine_new,
      pc_timing = \<lparr>st_slot_duration_ms = cc_slot_duration_ms config,
        st_slots_per_epoch = cc_slots_per_epoch config, st_genesis_timestamp = genesis_timestamp\<rparr>,
      pc_local_keys = None, pc_block_cache = [],
      pc_metrics = \<lparr>mt_blocks_proposed = 0, mt_blocks_validated = 0, mt_vrf_proofs_generated = 0,
        mt_elections_won = 0, mt_useful_work_verified = 0, mt_total_uwu_awarded = 0, mt_slashing_events = 0,
        mt_tee_verifications = 0, mt_zkml_verifications = 0, mt_ai_proof_verifications = 0\<rparr>,
      pc_verification_engine = verification_engine_new config\<rparr>"

definition with_validator_keys :: "pouw_consensus \<Rightarrow> vrf_keys \<Rightarrow> pouw_consensus" where
  "with_validator_keys c keys = c\<lparr>pc_local_keys := Some keys\<rparr>"

definition engine_advance_slot :: "libm \<Rightarrow> pouw_consensus \<Rightarrow> slot \<Rightarrow> pouw_consensus option" where
  "engine_advance_slot L c slot =
     (case state_advance_slot L (pc_state c) slot (pc_timing c) of
        None \<Rightarrow> None
      | Some st \<Rightarrow>
          (case epoch_for_slot (pc_timing c) slot of
             None \<Rightarrow> None
           | Some epoch \<Rightarrow>
               Some (c\<lparr>pc_state := st, pc_election := set_current_epoch L (pc_election c) epoch\<rparr>)))"

definition engine_register_validator ::
    "libm \<Rightarrow> pouw_consensus \<Rightarrow> validator_info \<Rightarrow> pouw_consensus \<times> unit consensus_result" where
  "engine_register_validator L c info =
     (case state_register_validator L (pc_state c) info of
        (st, Err e) \<Rightarrow> (c\<lparr>pc_state := st\<rparr>, Err e)
      | (st, Ok _) \<Rightarrow>
          (case election_register_validator L (pc_election c) info of
             (el, res) \<Rightarrow> (c\<lparr>pc_state := st, pc_election := el\<rparr>, res)))"

definition engine_update_score ::
    "libm \<Rightarrow> pouw_consensus \<Rightarrow> address \<Rightarrow> 64 word \<Rightarrow> pouw_consensus \<times> unit consensus_result" where
  "engine_update_score L c a delta =
     (case state_update_score L (pc_state c) a delta of (st, res) \<Rightarrow> (c\<lparr>pc_state := st\<rparr>, res))"

definition compute_vrf_input :: "slot \<Rightarrow> epoch_seed \<Rightarrow> bytes" where
  "compute_vrf_input slot epoch_seed = epoch_seed @ le_bytes 8 slot"

definition derive_address_from_keys :: "(bytes \<Rightarrow> hash) \<Rightarrow> vrf_keys \<Rightarrow> address" where
  "derive_address_from_keys sha keys = sha (vk_public_key keys)"

definition state_threshold :: "libm \<Rightarrow> pouw_consensus \<Rightarrow> u128 \<Rightarrow> u64 \<Rightarrow> nat" where
  "state_threshold L c stake score =
     calculate_threshold L (pc_election c) stake score (ps_total_weighted_stake (pc_state c))"

subsection \<open>Leadership\<close>

definition should_propose :: "libm \<Rightarrow> (bytes \<Rightarrow> hash) \<Rightarrow> pouw_consensus \<Rightarrow> slot \<Rightarrow> bool consensus_result" where
  "should_propose L sha c slot =
     (case pc_local_keys c of
        None \<Rightarrow> Err NotValidator
      | Some keys \<Rightarrow>
          let st = pc_state c; a = derive_address_from_keys sha keys
          in case hm_get (ps_validators st) a of
               None \<Rightarrow> Err (ValidatorNotFound a)
             | Some v \<Rightarrow>
                 if \<not> is_eligible v slot then Ok False
                 else map_result (\<lambda>(_, output).
                        vrf_to_bigint output < state_threshold L c (state_stake st a) (state_score st a))
                        (vrf_prove sha (pc_vrf_engine c) keys (compute_vrf_input slot (ps_epoch_seed st))))"

record leader_credentials =
  lc_slot :: slot
  lc_address :: address
  lc_vrf_proof :: vrf_proof
  lc_vrf_output :: vrf_output
  lc_stake :: u128
  lc_useful_work_score :: u64

definition vrf_proof_bytes :: "leader_credentials \<Rightarrow> bytes" where
  "vrf_proof_bytes cr = lc_vrf_output cr @ vrf_to_bytes (lc_vrf_proof cr)"

definition generate_credentials ::
    "(bytes \<Rightarrow> hash) \<Rightarrow> pouw_consensus \<Rightarrow> slot \<Rightarrow> pouw_consensus \<times> leader_credentials consensus_result" where
  "generate_credentials sha c slot =
     (case pc_local_keys c of
        None \<Rightarrow> (c, Err NotValidator)
      | Some keys \<Rightarrow>
          let st = pc_state c; a = derive_address_from_keys sha keys
          in case hm_get (ps_validators st) a of
               None \<Rightarrow> (c, Err (ValidatorNotFound a))
             | Some v \<Rightarrow>
                 (case vrf_prove sha (pc_vrf_engine c) keys (compute_vrf_input slot (ps_epoch_seed st)) of
                    Err e \<Rightarrow> (c, Err e)
                  | Ok (p, output) \<Rightarrow>
                      (c\<lparr>pc_metrics := (pc_metrics c)
                          \<lparr>mt_vrf_proofs_generated := mt_vrf_proofs_generated (pc_metrics c) + 1\<rparr>\<rparr>,
                       Ok \<lparr>lc_slot = slot, lc_address = a, lc_vrf_proof = p, lc_vrf_output = output,
                           lc_stake = vi_stake v, lc_useful_work_score = state_score st a\<rparr>)))"

definition verify_credentials ::
    "libm \<Rightarrow> (bytes \<Rightarrow> hash) \<Rightarrow> pouw_consensus \<Rightarrow> leader_credentials \<Rightarrow> bool consensus_result" where
  "verify_credentials L sha c cr =
     (let st = pc_state c
      in case hm_get (ps_validators st) (lc_address cr) of
           None \<Rightarrow> Err (ValidatorNotFound (lc_address cr))
         | Some v \<Rightarrow>
             if \<not> is_eligible v (lc_slot cr) then Err (ValidatorIneligible (lc_address cr))
             else if vi_stake v \<noteq> lc_stake cr then Err (InvalidLeaderCredentials ''Stake mismatch'')
             else if score_mismatch (lc_useful_work_score cr) (state_score st (lc_address cr))
             then Err (InvalidLeaderCredentials ''Useful work score mismatch'')
             else map_result (\<lambda>output.
                    vrf_to_bigint output < state_threshold L c (lc_stake cr) (lc_useful_work_score cr))
                    (vrf_verify sha (pc_vrf_engine c) (vi_vrf_pubkey v)
                      (compute_vrf_input (lc_slot cr) (ps_epoch_seed st)) (lc_vrf_proof cr)))"

definition is_leader :: "libm \<Rightarrow> pouw_consensus \<Rightarrow> slot \<Rightarrow> address \<Rightarrow> bytes \<Rightarrow> bool consensus_result" where
  "is_leader L c slot a vrf_output =
     (let st = pc_state c
      in case hm_get (ps_validators st) a of
           None \<Rightarrow> Err (ValidatorNotFound a)
         | Some v \<Rightarrow>
             if \<not> is_eligible v slot then Ok False
             else if length vrf_output \<noteq> 32 then Err (VrfValidation ''Invalid VRF output length'')
             else Ok (vrf_to_bigint vrf_output < state_threshold L c (vi_stake v) (state_score st a)))"

definition verify_leader_credentials ::
    "libm \<Rightarrow> (bytes \<Rightarrow> hash) \<Rightarrow> pouw_consensus \<Rightarrow> slot \<Rightarrow> address \<Rightarrow> bytes \<Rightarrow> bytes \<Rightarrow> bool consensus_result" where
  "verify_leader_credentials L sha c slot a vrf_proof vrf_pubkey =
     (let st = pc_state c
      in case hm_get (ps_validators st) a of
           None \<Rightarrow> Err (ValidatorNotFound a)
         | Some v \<Rightarrow>
             if vi_vrf_pubkey v \<noteq> vrf_pubkey then Err (VrfValidation ''VRF public key mismatch'')
             else case vrf_from_bytes vrf_proof of
               Err e \<Rightarrow> Err (VrfValidation (show_consensus_error e))
             | Ok p \<Rightarrow>
                 map_result (\<lambda>output.
                   vrf_to_bigint output < state_threshold L c (vi_stake v) (state_score st a))
                   (vrf_verify sha (pc_vrf_engine c) vrf_pubkey (compute_vrf_input slot (ps_epoch_seed st)) p))"

definition produce_vrf_proof ::
    "(bytes \<Rightarrow> hash) \<Rightarrow> pouw_consensus \<Rightarrow> slot \<Rightarrow> bytes \<Rightarrow> (bytes \<times> bytes) consensus_result" where
  "produce_vrf_proof sha c slot seed =
     (case pc_local_keys c of
        None \<Rightarrow> Err NotValidator
      | Some keys \<Rightarrow> map_result (\<lambda>(p, output). (vrf_to_bytes p, output)) (vrf_prove sha (pc_vrf_engine c) keys seed))"

subsection \<open>Useful work\<close>

definition count_verification :: "pouw_method \<Rightarrow> consensus_metrics \<Rightarrow> consensus_metrics" where
  "count_verification method m =
     (case method of
        TeeAttestation \<Rightarrow> m\<lparr>mt_tee_verifications := mt_tee_verifications m + 1\<rparr>
      | ZkProof \<Rightarrow> m\<lparr>mt_zkml_verifications := mt_zkml_verifications m + 1\<rparr>
      | Hybrid \<Rightarrow> m\<lparr>mt_tee_verifications := mt_tee_verifications m + 1,
                    mt_zkml_verifications := mt_zkml_verifications m + 1\<rparr>
      | AiProof \<Rightarrow> m\<lparr>mt_ai_proof_verifications := mt_ai_proof_verifications m + 1\<rparr>
      | ReExecution \<Rightarrow> m)"

definition verify_by_method :: "(bytes \<Rightarrow> hash) \<Rightarrow> pouw_consensus \<Rightarrow> useful_work_result \<Rightarrow> bool consensus_result" where
  "verify_by_method sha c r =
     (let g = pc_verification_engine c
      in case ur_verification_method r of
           TeeAttestation \<Rightarrow> engine_verify_tee sha g r
         | ZkProof \<Rightarrow> engine_verify_zkml g r
         | Hybrid \<Rightarrow>
             (case engine_verify_tee sha g r of
                Err e \<Rightarrow> Err e | Ok tee \<Rightarrow> if tee then engine_verify_zkml g r else Ok False)
         | ReExecution \<Rightarrow> Ok (ur_confirmations r \<ge> cc_min_reexecution_validators (pc_config c))
         | AiProof \<Rightarrow> engine_verify_ai g r)"

definition verify_useful_work ::
    "(bytes \<Rightarrow> hash) \<Rightarrow> pouw_consensus \<Rightarrow> useful_work_result \<Rightarrow> pouw_consensus \<times> bool consensus_result" where
  "verify_useful_work sha c r =
     (if \<not> has_valid_attestation r then (c, Ok False)
      else case verify_by_method sha c r of
        Err e \<Rightarrow> (c, Err e)
      | Ok verified \<Rightarrow>
          (if verified
           then c\<lparr>pc_metrics := count_verification (ur_verification_method r) (pc_metrics c)\<rparr>
           else c, Ok verified))"

fun method_mult :: "pouw_method \<Rightarrow> f64" where
  "method_mult TeeAttestation = f64_lit 1"
| "method_mult ZkProof = f64_lit (15 / 10)"
| "method_mult Hybrid = f64_lit 2"
| "method_mult ReExecution = f64_lit (8 / 10)"
| "method_mult AiProof = f64_lit (175 / 100)"

definition calculate_score_contribution :: "pouw_consensus \<Rightarrow> useful_work_result \<Rightarrow> 64 word" where
  "calculate_score_contribution c r =
     (let category_mult = f64_div (u64_as_f64 (category_multiplier (pc_config c) (ur_category r))) (f64_lit 10000);
          sla_mult = (if sla_met r then f64_lit (11 / 10) else f64_lit (9 / 10))
      in f64_as_i64 (f64_mul (f64_mul (f64_mul (i64_as_f64 (ur_useful_work_units r)) category_mult)
           (method_mult (ur_verification_method r))) sla_mult))"

record work_tally =
  wt_total_uwu :: u64
  wt_verified_count :: u32
  wt_score_updates :: "(address, 64 word) hashmap"

text \<open>The first loop of \<open>process_useful_work_results\<close>.\<close>

fun tally_results ::
    "(bytes \<Rightarrow> hash) \<Rightarrow> useful_work_result list \<Rightarrow> pouw_consensus \<Rightarrow> work_tally
      \<Rightarrow> pouw_consensus \<times> work_tally consensus_result" where
  "tally_results sha [] c t = (c, Ok t)"
| "tally_results sha (r # rest) c t =
     (case verify_useful_work sha c r of
        (c, Err e) \<Rightarrow> (c, Err e)
      | (c, Ok verified) \<Rightarrow>
          if \<not> verified then tally_results sha rest c t
          else
            let t = t\<lparr>wt_total_uwu := saturating_add (wt_total_uwu t) (ur_useful_work_units r),
                      wt_verified_count := wt_verified_count t + 1,
                      wt_score_updates := hm_add (ur_validator r) (calculate_score_contribution c r) (wt_score_updates t)\<rparr>;
                m = pc_metrics c;
                c = c\<lparr>pc_metrics := m\<lparr>mt_useful_work_verified := mt_useful_work_verified m + 1,
                                     mt_total_uwu_awarded := mt_total_uwu_awarded m + ur_useful_work_units r\<rparr>\<rparr>
            in tally_results sha rest c t)"

text \<open>One iteration of the second loop; a failed update of the election is only logged.\<close>

definition apply_score_update ::
    "libm \<Rightarrow> address \<times> 64 word \<Rightarrow> pouw_state \<times> pouw_election \<Rightarrow> pouw_state \<times> pouw_election" where
  "apply_score_update L update s =
     (case update of (a, delta) \<Rightarrow> case s of (st, el) \<Rightarrow>
       let new_score = add_score (hm_entry 0 (ps_useful_work_scores st) a) delta;
           st = st\<lparr>ps_useful_work_scores := hm_insert a new_score (ps_useful_work_scores st)\<rparr>
       in case hm_get (ps_validators st) a of
            None \<Rightarrow> (st, el)
          | Some v \<Rightarrow>
              (st\<lparr>ps_validators := hm_insert a
                    (v\<lparr>vi_useful_work_score := new_score, vi_jobs_verified := vi_jobs_verified v + 1\<rparr>)
                    (ps_validators st)\<rparr>,
               fst (record_useful_work L el a delta General TeeAttestation 0)))"

definition update_proposer_stats :: "pouw_block_header \<Rightarrow> pouw_state \<Rightarrow> pouw_state" where
  "update_proposer_stats block st =
     (case hm_get (ps_validators st) (bh_proposer_address block) of
        None \<Rightarrow> st
      | Some v \<Rightarrow>
          st\<lparr>ps_validators := hm_insert (bh_proposer_address block)
               (v\<lparr>vi_blocks_proposed := vi_blocks_proposed v + 1, vi_last_proposal_slot := bh_slot block\<rparr>)
               (ps_validators st)\<rparr>)"

definition process_useful_work_results ::
    "libm \<Rightarrow> (bytes \<Rightarrow> hash) \<Rightarrow> pouw_consensus \<Rightarrow> pouw_block_header \<Rightarrow> useful_work_result list
      \<Rightarrow> pouw_consensus \<times> work_tally consensus_result" where
  "process_useful_work_results L sha c block results =
     try_then (tally_results sha results c \<lparr>wt_total_uwu = 0, wt_verified_count = 0, wt_score_updates = []\<rparr>)
       (\<lambda>c t.
         case foldl (\<lambda>s u. apply_score_update L u s) (pc_state c, pc_election c) (wt_score_updates t) of
           (st, el) \<Rightarrow>
             (c\<lparr>pc_state := recalculate_active_set L (update_proposer_stats block st), pc_election := el\<rparr>, Ok t))"

subsection \<open>Block validation\<close>

definition validate_vrf_proof ::
    "libm \<Rightarrow> (bytes \<Rightarrow> hash) \<Rightarrow> pouw_consensus \<Rightarrow> pouw_block_header \<Rightarrow> unit consensus_result" where
  "validate_vrf_proof L sha c h =
     (if is_genesis h then Ok ()
      else if length (bh_vrf_proof h) < 100 then Err (VrfValidation ''VRF proof too short'')
      else
        let st = pc_state c; a = bh_proposer_address h
        in case hm_get (ps_validators st) a of
             None \<Rightarrow> Err (ValidatorNotFound a)
           | Some v \<Rightarrow>
               (case vrf_from_bytes (bh_vrf_proof h) of
                  Err e \<Rightarrow> Err (VrfValidation (show_consensus_error e))
                | Ok p \<Rightarrow>
                    (case vrf_verify sha (pc_vrf_engine c) (vi_vrf_pubkey v)
                            (compute_vrf_input (bh_slot h) (ps_epoch_seed st)) p of
                       Err e \<Rightarrow> Err e
                     | Ok output \<Rightarrow>
                         if vrf_to_bigint output \<ge> state_threshold L c (vi_stake v) (state_score st a)
                         then Err (VrfValidation ''VRF output does not meet threshold'')
                         else Ok ())))"

definition validate_proposer :: "pouw_consensus \<Rightarrow> pouw_block_header \<Rightarrow> unit consensus_result" where
  "validate_proposer c h =
     (if is_genesis h then Ok ()
      else
        let st = pc_state c; a = bh_proposer_address h
        in case hm_get (ps_validators st) a of
             None \<Rightarrow> Err (ValidatorNotFound a)
           | Some v \<Rightarrow>
               if \<not> is_eligible v (bh_slot h) then Err (ValidatorIneligible a)
               else if score_mismatch (bh_proposer_useful_work_score h) (state_score st a)
               then Err (BlockValidation (''Proposer useful work score mismatch: expected ~''
                      @ show_word (state_score st a) @ '', got '' @ show_word (bh_proposer_useful_work_score h)))
               else if vi_stake v \<noteq> bh_proposer_stake h
               then Err (BlockValidation (''Proposer stake mismatch: expected ''
                      @ show_word (vi_stake v) @ '', got '' @ show_word (bh_proposer_stake h)))
               else Ok ())"

definition abs_diff :: "'a::len word \<Rightarrow> 'a word \<Rightarrow> 'a word" where
  "abs_diff a b = (if a \<le> b then b - a else a - b)"

definition validate_header ::
    "libm \<Rightarrow> (bytes \<Rightarrow> hash) \<Rightarrow> pouw_consensus \<Rightarrow> pouw_block_header \<Rightarrow> pouw_block_header
      \<Rightarrow> pouw_consensus \<times> unit consensus_result" where
  "validate_header L sha c h parent =
     (case validate_structure h of
        Err s \<Rightarrow> (c, Err (BlockValidation s))
      | Ok _ \<Rightarrow>
          let parent_hash = header_hash sha parent;
              drift = abs_diff (bh_timestamp h) (timestamp_for_slot (pc_timing c) (bh_slot h))
          in if bh_parent_hash h \<noteq> parent_hash then (c, Err (InvalidParentHash parent_hash (bh_parent_hash h)))
             else if bh_height h \<noteq> bh_height parent + 1
             then (c, Err (BlockValidation (''Invalid height: expected '' @ show_word (bh_height parent + 1)
                    @ '', got '' @ show_word (bh_height h))))
             else if bh_slot h \<le> bh_slot parent
             then (c, Err (SlotValidation (''Slot '' @ show_word (bh_slot h) @ '' not after parent slot ''
                    @ show_word (bh_slot parent))))
             else if drift > cc_max_clock_drift_secs (pc_config c)
             then (c, Err (TimestampValidation (''Timestamp drift '' @ show_word drift @ '' exceeds max ''
                    @ show_word (cc_max_clock_drift_secs (pc_config c)))))
             else case validate_vrf_proof L sha c h of
               Err e \<Rightarrow> (c, Err e)
             | Ok _ \<Rightarrow>
                 (case validate_proposer c h of
                    Err e \<Rightarrow> (c, Err e)
                  | Ok _ \<Rightarrow>
                      if bh_last_finalized_slot h > bh_slot h
                      then (c, Err (FinalityValidation ''Finalized slot cannot be in the future''))
                      else (c\<lparr>pc_metrics := (pc_metrics c)
                               \<lparr>mt_blocks_validated := mt_blocks_validated (pc_metrics c) + 1\<rparr>\<rparr>, Ok ())))"

text \<open>Merkle root of the compute results: each level hashes the chunks of two of the one below, an
  odd last element with itself.\<close>

definition compute_leaf :: "(bytes \<Rightarrow> hash) \<Rightarrow> compute_result \<Rightarrow> hash" where
  "compute_leaf sha r =
     sha (cr_job_id r @ cr_output_hash r @ le_bytes 8 (cr_complexity r) @ [method_as_u8 (cr_verification_method r)])"

fun merkle_level :: "(bytes \<Rightarrow> hash) \<Rightarrow> hash list \<Rightarrow> hash list" where
  "merkle_level sha [] = []"
| "merkle_level sha [a] = [sha (a @ a)]"
| "merkle_level sha (a # b # rest) = sha (a @ b) # merkle_level sha rest"

lemma length_merkle_level [simp]: "length (merkle_level sha xs) = (length xs + 1) div 2"
  by (induction sha xs rule: merkle_level.induct) auto

function merkle_root :: "(bytes \<Rightarrow> hash) \<Rightarrow> hash list \<Rightarrow> hash" where
  "merkle_root sha hashes =
     (if length hashes > 1 then merkle_root sha (merkle_level sha hashes) else hd hashes)"
  by pat_completeness auto
termination by (relation "measure (\<lambda>(_, xs). length xs)") auto

declare merkle_root.simps [simp del]

definition compute_results_merkle_root :: "(bytes \<Rightarrow> hash) \<Rightarrow> compute_result list \<Rightarrow> hash" where
  "compute_results_merkle_root sha results =
     (if results = [] then zero_hash else merkle_root sha (map (compute_leaf sha) results))"

definition validate_single_result :: "pouw_consensus \<Rightarrow> compute_result \<Rightarrow> unit consensus_result" where
  "validate_single_result c r =
     (if cr_job_id r = zero_hash then Err (ComputeValidation ''Invalid job ID (all zeros)'')
      else if cr_model_hash r = zero_hash then Err (ComputeValidation ''Invalid model hash (all zeros)'')
      else if cr_complexity r = 0 then Err (ComputeValidation ''Complexity cannot be zero'')
      else if hm_get (ps_validators (pc_state c)) (cr_validator r) = None then Err (ValidatorNotFound (cr_validator r))
      else Ok ())"

fun validate_each :: "pouw_consensus \<Rightarrow> compute_result list \<Rightarrow> unit consensus_result" where
  "validate_each c [] = Ok ()"
| "validate_each c (r # rest) =
     (case validate_single_result c r of Err e \<Rightarrow> Err e | Ok _ \<Rightarrow> validate_each c rest)"

definition validate_compute_results ::
    "(bytes \<Rightarrow> hash) \<Rightarrow> pouw_consensus \<Rightarrow> pouw_block_header \<Rightarrow> compute_result list \<Rightarrow> unit consensus_result" where
  "validate_compute_results sha c h results =
     (if length results \<noteq> unat (bh_compute_job_count h)
      then Err (ComputeValidation (''Job count mismatch: header says '' @ show_word (bh_compute_job_count h)
             @ '', got '' @ show_nat (length results)))
      else
        let total_complexity = sum_list (map cr_complexity results)
        in if total_complexity \<noteq> bh_compute_complexity h
           then Err (ComputeValidation (''Complexity mismatch: header says '' @ show_word (bh_compute_complexity h)
                  @ '', computed '' @ show_word total_complexity))
           else if compute_results_merkle_root sha results \<noteq> bh_compute_results_root h
           then Err (ComputeValidation ''Compute results root mismatch'')
           else validate_each c results)"

record state_snapshot =
  sn_current_slot :: slot
  sn_current_epoch :: epoch
  sn_validator_count :: nat
  sn_total_stake :: u128
  sn_total_weighted_stake :: u128
  sn_last_finalized_slot :: slot

definition state_snapshot_of :: "pouw_consensus \<Rightarrow> state_snapshot" where
  "state_snapshot_of c =
     (let st = pc_state c
      in \<lparr>sn_current_slot = ps_current_slot st, sn_current_epoch = ps_current_epoch st,
          sn_validator_count = length (ps_active_validators st), sn_total_stake = ps_total_stake st,
          sn_total_weighted_stake = ps_total_weighted_stake st,
          sn_last_finalized_slot = ps_last_finalized_slot st\<rparr>)"

end
