(* ===== verification/Leader_Properties.thy ===== *)
theory Leader_Properties
  imports Consensus_Engine
begin

text \<open>
  Who may propose a block: the verifiable random function of the default build, the agreement
  between a proposer and those who check its credentials, and the encoding of the proof in a block
  header.
\<close>

lemma score_mismatch_self [simp]: "\<not> score_mismatch s s"
  by (simp add: score_mismatch_def)

section \<open>A small network\<close>

text \<open>One validator whose keys come from a zero seed and a constant digest.\<close>

definition flat_sha :: "bytes \<Rightarrow> hash" where
  "flat_sha b = zero_hash"

definition demo_libm :: libm where
  "demo_libm = \<lparr>lm_log10 = (\<lambda>_. Fin 0), lm_powi = (\<lambda>_ _. Fin 1)\<rparr>"

definition demo_keys :: vrf_keys where
  "demo_keys = \<lparr>vk_secret_key = zero_hash, vk_public_key = 2 # zero_hash\<rparr>"

definition demo_validator :: validator_info where
  "demo_validator = validator_info_new zero_hash 1000000000000 (2 # zero_hash) [] 0 0"

definition demo_consensus :: pouw_consensus where
  "demo_consensus =
     (pouw_consensus_new consensus_config_mainnet 0)
       \<lparr>pc_local_keys := Some demo_keys,
        pc_state := (pouw_state_new 0)\<lparr>ps_validators := [(zero_hash, demo_validator)],
          ps_total_weighted_stake := 1000000000000\<rparr>\<rparr>"

lemma demo_lookup:
  "pc_local_keys demo_consensus = Some demo_keys"
  "hm_get (ps_validators (pc_state demo_consensus)) zero_hash = Some demo_validator"
  "derive_address_from_keys flat_sha demo_keys = zero_hash"
  "length (flat_sha x) = 32" "vi_vrf_pubkey demo_validator = vk_public_key demo_keys"
  "length (vk_public_key demo_keys) = 33" "is_eligible demo_validator slot"
  by (simp_all add: demo_consensus_def hm_get_def derive_address_from_keys_def flat_sha_def zero_hash_def
      demo_keys_def demo_validator_def validator_info_new_def is_eligible_def MIN_STAKE_FOR_ELECTION_def)

section \<open>The random function\<close>

text \<open>
  Verification of the default build accepts, for a public key and an input, exactly the proof and
  the output that proving yields for this public key, whatever the secret key is: proofs are
  complete and unique, and they can be computed from the public key alone.
\<close>

theorem vrf_public:
  "vrf_verify sha e pk input p = Ok out \<longleftrightarrow>
     33 \<le> length pk \<and> vrf_prove sha e \<lparr>vk_secret_key = sk, vk_public_key = pk\<rparr> input = Ok (p, out)"
proof -
  let ?k = "\<lparr>vk_secret_key = sk, vk_public_key = pk\<rparr>"
  have "vrf_verify sha e pk input p = Ok out \<Longrightarrow> 33 \<le> length pk" by (simp add: vrf_verify_Ok)
  moreover have "33 \<le> length pk \<Longrightarrow> vrf_verify sha e pk input p = Ok out \<longleftrightarrow> mock_prove sha e ?k input = (p, out)"
    using mock_vrf.agreement [of ?k sha e input] mock_vrf.complete [of ?k sha e input]
    by (metis mock_verify_Some prod.collapse vrf_keys.select_convs(2))
  ultimately show ?thesis by (auto simp: mock_prove_eq)
qed

section \<open>Proposers and their credentials\<close>

lemma generate_credentials_Ok:
  assumes "generate_credentials sha c slot = (c', Ok cr)"
  obtains keys v where "pc_local_keys c = Some keys" and "lc_address cr = derive_address_from_keys sha keys"
    and "hm_get (ps_validators (pc_state c)) (lc_address cr) = Some v" and "lc_slot cr = slot"
    and "vrf_prove sha (pc_vrf_engine c) keys (compute_vrf_input slot (ps_epoch_seed (pc_state c)))
           = Ok (lc_vrf_proof cr, lc_vrf_output cr)"
    and "lc_stake cr = vi_stake v" and "lc_useful_work_score cr = state_score (pc_state c) (lc_address cr)"
  using assms
  by (auto simp: generate_credentials_def Let_def split: option.splits result.splits prod.splits)

lemma verify_own_proof:
  assumes "vrf_prove sha e keys m = Ok (p, out)" and "33 \<le> length (vk_public_key keys)"
  shows "vrf_verify sha e (vk_public_key keys) m p = Ok out"
  using mock_vrf.complete [of keys sha e m p out] assms by (simp add: mock_verify_Some mock_prove_eq)

text \<open>
  A proposer and its verifiers agree. The credentials that a node generates for a slot, for an
  eligible validator registered with the node's public key, are accepted by
  \<open>verify_credentials\<close>, by \<open>verify_leader_credentials\<close> (from the encoded proof) and by \<open>is_leader\<close>
  (from the output) in exactly the slots in which \<open>should_propose\<close> tells the node to propose.
\<close>

theorem credentials_agree:
  assumes digest: "\<And>x. length (sha x) = 32"
    and keys: "pc_local_keys c = Some keys" "length (vk_public_key keys) = 33"
    and gen: "generate_credentials sha c slot = (c', Ok cr)"
    and v: "hm_get (ps_validators (pc_state c)) (lc_address cr) = Some v" "vi_vrf_pubkey v = vk_public_key keys"
      "is_eligible v slot"
  shows "verify_credentials L sha c cr = should_propose L sha c slot
    \<and> verify_leader_credentials L sha c slot (lc_address cr) (vrf_to_bytes (lc_vrf_proof cr)) (vk_public_key keys)
        = should_propose L sha c slot
    \<and> is_leader L c slot (lc_address cr) (lc_vrf_output cr) = should_propose L sha c slot"
proof -
  from gen obtain keys' v' where k: "pc_local_keys c = Some keys'"
    and a: "lc_address cr = derive_address_from_keys sha keys'"
    and v': "hm_get (ps_validators (pc_state c)) (lc_address cr) = Some v'" and s: "lc_slot cr = slot"
    and pr: "vrf_prove sha (pc_vrf_engine c) keys' (compute_vrf_input slot (ps_epoch_seed (pc_state c)))
           = Ok (lc_vrf_proof cr, lc_vrf_output cr)"
    and st: "lc_stake cr = vi_stake v'" and sc: "lc_useful_work_score cr = state_score (pc_state c) (lc_address cr)"
    by (rule generate_credentials_Ok)
  have eq: "keys' = keys" "v' = v" using k keys v v' by simp_all
  have ver: "vrf_verify sha (pc_vrf_engine c) (vk_public_key keys)
      (compute_vrf_input slot (ps_epoch_seed (pc_state c))) (lc_vrf_proof cr) = Ok (lc_vrf_output cr)"
    using verify_own_proof [OF pr] keys eq by simp
  have bytes: "vrf_from_bytes (vrf_to_bytes (lc_vrf_proof cr)) = Ok (lc_vrf_proof cr)"
    using vrf_bytes_round_trip(2) [OF mock_prove_wf(1) [OF digest pr], of "[]"] by simp
  have stake: "state_stake (pc_state c) (lc_address cr) = vi_stake v" by (simp add: state_stake_def v)
  show ?thesis
    using pr v a s st sc ver bytes eq keys stake mock_prove_wf(2) [OF digest pr]
    by (simp add: verify_credentials_def should_propose_def verify_leader_credentials_def is_leader_def Let_def)
qed

lemma demo_generates: "\<exists>c' cr. generate_credentials flat_sha demo_consensus 1 = (c', Ok cr) \<and> lc_address cr = zero_hash"
  by (simp add: generate_credentials_def demo_lookup Let_def prove_mock_alt)

theorem credentials_agree_witness:
  "\<exists>cr. snd (generate_credentials flat_sha demo_consensus 1) = Ok cr
    \<and> verify_credentials demo_libm flat_sha demo_consensus cr = should_propose demo_libm flat_sha demo_consensus 1"
proof -
  obtain c' cr where g: "generate_credentials flat_sha demo_consensus 1 = (c', Ok cr)" and a: "lc_address cr = zero_hash"
    using demo_generates by blast
  from credentials_agree [OF demo_lookup(4, 1, 6) g _ demo_lookup(5, 7), of demo_libm] demo_lookup(2)
  show ?thesis using g a by simp
qed

section \<open>The proof in a block header\<close>

lemma validate_vrf_proof_parsed:
  assumes "\<not> is_genesis h" and "100 \<le> length (bh_vrf_proof h)"
    and "hm_get (ps_validators (pc_state c)) (bh_proposer_address h) = Some v"
    and "vrf_from_bytes (bh_vrf_proof h) = Ok p"
  shows "validate_vrf_proof L sha c h =
    (case vrf_verify sha (pc_vrf_engine c) (vi_vrf_pubkey v)
            (compute_vrf_input (bh_slot h) (ps_epoch_seed (pc_state c))) p of
       Err e \<Rightarrow> Err e
     | Ok output \<Rightarrow>
         if vrf_to_bigint output \<ge> state_threshold L c (vi_stake v) (state_score (pc_state c) (bh_proposer_address h))
         then Err (VrfValidation ''VRF output does not meet threshold'') else Ok ())"
  using assms by (simp add: validate_vrf_proof_def Let_def)

lemma gamma_of_credentials:
  assumes "length out = 32" and "proof_wf p"
  shows "\<exists>q. vrf_from_bytes (out @ vrf_to_bytes p) = Ok q \<and> pf_gamma q = out @ [hd (pf_gamma p)]"
proof -
  obtain g gs where g: "pf_gamma p = g # gs" using assms(2) by (cases "pf_gamma p") (auto simp: proof_wf_def)
  have "slice 0 33 (out @ g # gs @ pf_c p @ pf_s p) = out @ [g]" by (simp add: slice_def assms(1))
  then show ?thesis
    using assms by (simp add: vrf_from_bytes_def vrf_to_bytes_def VRF_PROOF_SIZE_def proof_wf_def g)
qed

text \<open>
  A block cannot carry its leader proof. A header with the 97 bytes of the proof itself is
  refused as too short. A header with the bytes that \<open>LeaderCredentials::vrf_proof_bytes\<close> builds
  (output, then proof) is refused because the parser reads the output as the start of the proof;
  only if the 33 bytes so read happened to equal the expected \<open>gamma\<close> could it pass. The proof
  followed by at least three arbitrary bytes is accepted exactly when the node should propose.
\<close>

theorem header_proof_encoding:
  assumes digest: "\<And>x. length (sha x) = 32"
    and keys: "pc_local_keys c = Some keys" "length (vk_public_key keys) = 33"
    and gen: "generate_credentials sha c (bh_slot h) = (c', Ok cr)"
    and v: "hm_get (ps_validators (pc_state c)) (lc_address cr) = Some v" "vi_vrf_pubkey v = vk_public_key keys"
      "is_eligible v (bh_slot h)"
    and h: "\<not> is_genesis h" "bh_proposer_address h = lc_address cr"
    and no_match: "lc_vrf_output cr @ [2] \<noteq> pf_gamma (lc_vrf_proof cr)" and pad: "3 \<le> length pad"
  shows "snd (validate_header L sha c (h\<lparr>bh_vrf_proof := vrf_to_bytes (lc_vrf_proof cr)\<rparr>) parent)
      = Err (BlockValidation (''VRF proof too short: '' @ show_nat 97 @ '' bytes (expected >= 100)''))
    \<and> validate_vrf_proof L sha c (h\<lparr>bh_vrf_proof := vrf_proof_bytes cr\<rparr>)
      = Err (VrfVerificationFailed ''Mock proof gamma mismatch'')
    \<and> (validate_vrf_proof L sha c (h\<lparr>bh_vrf_proof := vrf_to_bytes (lc_vrf_proof cr) @ pad\<rparr>) = Ok ()
       \<longleftrightarrow> should_propose L sha c (bh_slot h) = Ok True)"
proof -
  from gen obtain keys' v' where k: "pc_local_keys c = Some keys'"
    and a: "lc_address cr = derive_address_from_keys sha keys'"
    and pr: "vrf_prove sha (pc_vrf_engine c) keys' (compute_vrf_input (bh_slot h) (ps_epoch_seed (pc_state c)))
           = Ok (lc_vrf_proof cr, lc_vrf_output cr)"
    by (rule generate_credentials_Ok)
  have eq: "keys' = keys" using k keys by simp
  note pr = pr [unfolded eq] and a = a [unfolded eq]
  note wf = mock_prove_wf [OF digest pr]
  have gen': "is_genesis (h\<lparr>bh_vrf_proof := b\<rparr>) = is_genesis h" for b by (simp add: is_genesis_def)
  note gamma = vrf_prove_parts(1) [OF pr]
  have short: "snd (validate_header L sha c (h\<lparr>bh_vrf_proof := vrf_to_bytes (lc_vrf_proof cr)\<rparr>) parent)
      = Err (BlockValidation (''VRF proof too short: '' @ show_nat 97 @ '' bytes (expected >= 100)''))"
    using vrf_bytes_round_trip(1) [OF wf(1)] h(1) by (simp add: validate_header_def validate_structure_def gen')
  obtain q where q: "vrf_from_bytes (vrf_proof_bytes cr) = Ok q" "pf_gamma q = lc_vrf_output cr @ [2]"
    using gamma_of_credentials [OF wf(2, 1)] gamma by (auto simp: vrf_proof_bytes_def)
  have bad: "validate_vrf_proof L sha c (h\<lparr>bh_vrf_proof := vrf_proof_bytes cr\<rparr>)
      = Err (VrfVerificationFailed ''Mock proof gamma mismatch'')"
    using q no_match v keys h wf vrf_bytes_round_trip(1) [OF wf(1)] gamma
    by (subst validate_vrf_proof_parsed [where v = v and p = q]) (auto simp: gen' vrf_proof_bytes_def vrf_verify_def Let_def)
  have "validate_vrf_proof L sha c (h\<lparr>bh_vrf_proof := vrf_to_bytes (lc_vrf_proof cr) @ pad\<rparr>) = Ok ()
      \<longleftrightarrow> should_propose L sha c (bh_slot h) = Ok True"
    using vrf_bytes_round_trip [OF wf(1)] verify_own_proof [OF pr] v keys h pad a pr
    by (subst validate_vrf_proof_parsed [where v = v and p = "lc_vrf_proof cr"])
      (auto simp: gen' should_propose_def Let_def state_stake_def)
  with short bad show ?thesis by blast
qed

definition demo_header :: pouw_block_header where
  "demo_header = (genesis_header 6)\<lparr>bh_height := 1, bh_slot := 1\<rparr>"

lemma demo_header_views:
  "\<not> is_genesis demo_header" "bh_proposer_address demo_header = zero_hash" "bh_slot demo_header = 1"
  by (simp_all add: demo_header_def genesis_header_def is_genesis_def)

lemma demo_no_match:
  assumes "generate_credentials flat_sha demo_consensus 1 = (c', Ok cr)"
  shows "lc_vrf_output cr @ [2] \<noteq> pf_gamma (lc_vrf_proof cr)"
  using assms
proof (rule generate_credentials_Ok)
  fix keys v
  assume "vrf_prove flat_sha (pc_vrf_engine demo_consensus) keys
      (compute_vrf_input 1 (ps_epoch_seed (pc_state demo_consensus))) = Ok (lc_vrf_proof cr, lc_vrf_output cr)"
  from vrf_prove_parts [OF this] show ?thesis
    by (simp add: mock_digest_def flat_sha_def zero_hash_def numeral_eq_Suc)
qed

theorem header_proof_encoding_witness:
  "\<exists>cr. snd (generate_credentials flat_sha demo_consensus 1) = Ok cr
    \<and> validate_vrf_proof demo_libm flat_sha demo_consensus (demo_header\<lparr>bh_vrf_proof := vrf_proof_bytes cr\<rparr>)
      = Err (VrfVerificationFailed ''Mock proof gamma mismatch'')"
proof -
  obtain c' cr where g: "generate_credentials flat_sha demo_consensus 1 = (c', Ok cr)" and a: "lc_address cr = zero_hash"
    using demo_generates by blast
  have "validate_vrf_proof demo_libm flat_sha demo_consensus (demo_header\<lparr>bh_vrf_proof := vrf_proof_bytes cr\<rparr>)
      = Err (VrfVerificationFailed ''Mock proof gamma mismatch'')"
    using header_proof_encoding [where c = demo_consensus and h = demo_header and c' = c' and cr = cr and sha = flat_sha
        and keys = demo_keys and v = demo_validator and pad = "[0, 0, 0]" and L = demo_libm]
      g a demo_lookup demo_header_views demo_no_match [OF g] by simp
  then show ?thesis using g by simp
qed

end
