(* ===== verification/Block_Properties.thy ===== *)
theory Block_Properties
  imports Leader_Properties
begin

text \<open>
  What an accepted block commits to: its position in the chain, its ancestors, and the compute
  results under its Merkle root; and the slot clock that ties slots to timestamps and epochs.
  Digests are compared under the hypothesis that SHA-256 has no collision among the inputs that
  are hashed in the case at hand.
\<close>

section \<open>Chains of headers\<close>

text \<open>A chain, newest first, in which each element was accepted on top of the next one.\<close>

fun chain_by :: "('h \<Rightarrow> 'h \<Rightarrow> bool) \<Rightarrow> ('h \<Rightarrow> bool) \<Rightarrow> 'h list \<Rightarrow> bool" where
  "chain_by acc base [] = False"
| "chain_by acc base [g] = base g"
| "chain_by acc base (h # p # rest) = (acc h p \<and> chain_by acc base (p # rest))"

text \<open>
  Headers linked by digests. The laws: an accepted header names the digest of its parent, and
  headers with the same content have the same link.
\<close>

locale hash_chain =
  fixes digest :: "'h \<Rightarrow> 'd"
    and prev :: "'h \<Rightarrow> 'd"
    and same :: "'h \<Rightarrow> 'h \<Rightarrow> bool"
    and accepts :: "'h \<Rightarrow> 'h \<Rightarrow> bool"
    and base :: "'h \<Rightarrow> bool"
  assumes linked: "accepts h p \<Longrightarrow> prev h = digest p"
    and same_prev: "same h h' \<Longrightarrow> prev h = prev h'"
begin

lemma same_tip:
  assumes "chain_by accepts base cs" and "chain_by accepts base ds" and "length cs = length ds"
    and "digest (hd cs) = digest (hd ds)"
    and "\<And>x y. x \<in> set cs \<Longrightarrow> y \<in> set ds \<Longrightarrow> digest x = digest y \<Longrightarrow> same x y"
  shows "list_all2 same cs ds"
  using assms
proof (induction cs arbitrary: ds rule: induct_list012)
  case (3 h p rest)
  obtain h' p' rest' where ds: "ds = h' # p' # rest'"
    using "3.prems"(3) by (metis length_Suc_conv)
  have hh: "same h h'" using "3.prems"(4, 5) ds by simp
  have "digest p = digest p'" using linked [of h p] linked [of h' p'] same_prev [OF hh] "3.prems"(1, 2) ds by simp
  then have "list_all2 same (p # rest) (p' # rest')"
    using "3.IH"(2) [of "p' # rest'"] "3.prems" ds by simp
  with hh ds show ?case by simp
next
  case (2 h)
  then show ?case by (cases ds) auto
qed simp

end

definition accepted :: "(bytes \<Rightarrow> hash) \<Rightarrow> pouw_block_header \<Rightarrow> pouw_block_header \<Rightarrow> bool" where
  "accepted sha h parent = (\<exists>L c. snd (validate_header L sha c h parent) = Ok ())"

definition unsigned_header :: "pouw_block_header \<Rightarrow> pouw_block_header" where
  "unsigned_header h = h\<lparr>bh_signature := []\<rparr>"

lemma validate_header_Ok:
  "snd (validate_header L sha c h parent) = Ok () \<longleftrightarrow>
     validate_structure h = Ok () \<and> bh_parent_hash h = header_hash sha parent
     \<and> bh_height h = bh_height parent + 1 \<and> bh_slot parent < bh_slot h
     \<and> abs_diff (bh_timestamp h) (timestamp_for_slot (pc_timing c) (bh_slot h)) \<le> cc_max_clock_drift_secs (pc_config c)
     \<and> validate_vrf_proof L sha c h = Ok () \<and> validate_proposer c h = Ok ()
     \<and> bh_last_finalized_slot h \<le> bh_slot h"
  by (cases "validate_structure h"; cases "validate_vrf_proof L sha c h"; cases "validate_proposer c h")
    (auto simp: validate_header_def Let_def)

lemma accepted_rules:
  assumes "accepted sha h p"
  shows "bh_parent_hash h = header_hash sha p" and "bh_height h = bh_height p + 1" and "bh_slot p < bh_slot h"
  using assms by (auto simp: accepted_def validate_header_Ok)

interpretation headers: hash_chain "header_hash sha" bh_parent_hash "\<lambda>h h'. unsigned_header h = unsigned_header h'"
    "accepted sha" is_genesis for sha
proof unfold_locales
  show "bh_parent_hash h = bh_parent_hash h'" if "unsigned_header h = unsigned_header h'" for h h'
    using arg_cong [OF that, of bh_parent_hash] by (simp add: unsigned_header_def)
qed (rule accepted_rules(1))

lemma unsigned_header_height: "unsigned_header h = unsigned_header h' \<Longrightarrow> bh_height h = bh_height h'"
  by (drule arg_cong [of _ _ bh_height]) (simp add: unsigned_header_def)

text \<open>The arrays of a header have their lengths by type.\<close>

definition header_wf :: "pouw_block_header \<Rightarrow> bool" where
  "header_wf h =
     list_all (\<lambda>b. length b = 32)
       [bh_parent_hash h, bh_proposer_address h, bh_state_root h, bh_transactions_root h, bh_receipts_root h,
        bh_compute_results_root h, bh_last_justified_hash h]"

lemma le_bytes_injs:
  "le_bytes 8 (v :: u64) = le_bytes 8 w \<longleftrightarrow> v = w" "le_bytes 4 (x :: u32) = le_bytes 4 y \<longleftrightarrow> x = y"
  "le_bytes 16 (r :: u128) = le_bytes 16 s \<longleftrightarrow> r = s"
  using le_bytes_inj [of v w] le_bytes_inj [of x y] le_bytes_inj [of r s] by auto

lemma header_preimage_inj:
  assumes "header_wf h" and "header_wf h'" and "header_preimage h = header_preimage h'"
  shows "unsigned_header h = unsigned_header h'"
proof -
  have "length (bh_vrf_proof h) = length (bh_vrf_proof h')"
    using arg_cong [OF assms(3), of length] assms(1, 2) by (simp add: header_preimage_def header_wf_def)
  then show ?thesis
    using assms
    by (auto simp: header_preimage_def header_wf_def append_eq_append_conv le_bytes_injs unsigned_header_def
        intro!: pouw_block_header.equality)
qed

lemma chain_heights:
  assumes "chain_by (accepted sha) is_genesis cs" and "length cs \<le> 2 ^ 64"
  shows "unat (bh_height (hd cs)) = length cs - 1"
  using assms
proof (induction cs rule: induct_list012)
  case (3 h p rest)
  then have "unat (bh_height p) = length rest" by simp
  moreover have "bh_height h = bh_height p + 1" using "3.prems"(1) by (auto dest: accepted_rules)
  ultimately show ?case using "3.prems"(2) by (simp add: unat_word_ariths(1))
qed (simp_all add: is_genesis_def)

lemma chain_slots:
  assumes "chain_by (accepted sha) is_genesis cs"
  shows "sorted_wrt (\<lambda>h p. bh_slot p < bh_slot h) cs"
proof -
  have tr: "transp (\<lambda>h p. bh_slot p < bh_slot h)" by (auto intro!: transpI)
  show ?thesis
    using assms
    by (induction cs rule: induct_list012) (auto simp: sorted_wrt2 [OF tr] dest!: accepted_rules(3) intro: less_trans)
qed

text \<open>
  C9. The tip of a chain determines the chain. In a chain of at most 2^64 headers, each accepted on
  top of the next and the last a genesis header, the height of the tip is the number of its
  ancestors and slots strictly increase. If the tips of two such chains have the same hash, and
  SHA-256 does not collide on their headers, the chains are equal header by header, up to
  signatures, which the hash does not cover. The fixed-size arrays of the headers have their Rust
  lengths (\<open>header_wf\<close>). The witness is a chain of two headers, of which the second passes every
  check of \<open>validate_header\<close>.
\<close>

theorem tip_determines_chain:
  assumes cs: "chain_by (accepted sha) is_genesis cs" "length cs \<le> 2 ^ 64"
    and ds: "chain_by (accepted sha) is_genesis ds" "length ds \<le> 2 ^ 64"
    and tip: "header_hash sha (hd cs) = header_hash sha (hd ds)"
    and wf: "\<forall>h \<in> set cs \<union> set ds. header_wf h"
    and no_collision: "inj_on sha (header_preimage ` (set cs \<union> set ds))"
  shows "unat (bh_height (hd cs)) = length cs - 1
    \<and> sorted_wrt (\<lambda>h p. bh_slot p < bh_slot h) cs
    \<and> map unsigned_header cs = map unsigned_header ds"
proof -
  have eq: "unsigned_header x = unsigned_header y"
    if "x \<in> set cs" "y \<in> set ds" "header_hash sha x = header_hash sha y" for x y
  proof (rule header_preimage_inj)
    show "header_preimage x = header_preimage y"
      using that by (intro inj_onD [OF no_collision that(3) [unfolded header_hash_def]]) auto
  qed (use that wf in auto)
  have ne: "cs \<noteq> []" "ds \<noteq> []" using cs(1) ds(1) by auto
  have "unsigned_header (hd cs) = unsigned_header (hd ds)" using eq [OF _ _ tip] ne by simp
  then have "bh_height (hd cs) = bh_height (hd ds)"
    by (rule unsigned_header_height)
  then have "length cs - 1 = length ds - 1" using chain_heights [OF cs] chain_heights [OF ds] by simp
  then have "length cs = length ds" using ne by (cases cs; cases ds) auto
  from headers.same_tip [OF cs(1) ds(1) this tip eq]
  have "list_all2 (\<lambda>h h'. unsigned_header h = unsigned_header h') cs ds" .
  then have "map unsigned_header cs = map unsigned_header ds"
    by (simp add: list_all2_conv_all_nth list_eq_iff_nth_eq)
  then show ?thesis using chain_heights [OF cs] chain_slots [OF cs(1)] by simp
qed

text \<open>
  Two chains of two headers: a header with a real proof, three bytes of padding behind it, that the network of one validator
  accepts on top of the genesis header; and the same with other signatures. The digest tells inputs of different lengths apart.
\<close>

definition tagged_sha :: "bytes \<Rightarrow> hash" where
  "tagged_sha b = replicate 31 0 @ [of_nat (length b)]"

definition second_proof :: vrf_proof where
  "second_proof = fst (mock_prove tagged_sha vrf_engine_new demo_keys (compute_vrf_input 1 zero_hash))"

definition second_header :: pouw_block_header where
  "second_header = (genesis_header 7)
     \<lparr>bh_parent_hash := header_hash tagged_sha (genesis_header 7), bh_height := 1, bh_slot := 1,
      bh_vrf_proof := vrf_to_bytes second_proof @ [0, 0, 0], bh_proposer_stake := 1000000000000\<rparr>"

lemma demo_threshold: "state_threshold demo_libm demo_consensus 1000000000000 0 = 2 ^ 256"
proof -
  have one: "f64_round 1 = 1" "f64_round 6 = 6" using f64_round_nat_exact [of 1] f64_round_nat_exact [of 6] by simp_all
  have five: "f64_lit 5 = Fin 5" using f64_round_nat_exact [of 5] by (simp add: f64_lit_def)
  have m: "election_multiplier demo_libm (pouw_election_new consensus_config_mainnet) 0 = Fin 1"
    by (simp add: election_multiplier_def raw_multiplier_def demo_libm_def f64_lit_def one f64_min_def pouw_election_new_def
        consensus_config_mainnet_def five [unfolded f64_lit_def] f64_signed_def f64_round_def [of 0])
  have stake: "u128_as_f64 1000000000000 = Fin 1000000000000" using f64_round_nat_exact [of 1000000000000] by (simp add: u128_as_f64_def)
  have prec: "u64_as_f64 PRECISION = Fin 1000000" using u64_as_f64_small [of 1000000] by (simp add: PRECISION_def)
  have mul1: "f64_mul (Fin 1000000000000) (Fin 1) = Fin 1000000000000"
    using f64_round_nat_exact [of 1000000000000] by (simp add: f64_signed_def)
  have mul2: "f64_mul (Fin 1000000000000) (Fin 1000000) = Fin 1000000000000000000"
    using f64_round_scaled_nat [of 3814697265625 1000000000000000000 18] by (simp add: f64_signed_def)
  have w: "unat (f64_as_word (f64_mul (f64_mul (u128_as_f64 1000000000000) (Fin 1)) (u64_as_f64 PRECISION)) :: u128) = 1000000000000000000"
    unfolding stake prec mul1 mul2 by simp
  have e: "pc_election demo_consensus = pouw_election_new consensus_config_mainnet"
    "ps_total_weighted_stake (pc_state demo_consensus) = 1000000000000"
    by (simp_all add: demo_consensus_def pouw_consensus_new_def)
  show ?thesis
    unfolding state_threshold_def calculate_threshold_def e Let_def m w max_vrf_output_def by (simp add: PRECISION_def)
qed

lemma be_nat_less: "be_nat bs < 256 ^ length bs"
proof (induction bs rule: rev_induct)
  case (snoc b bs)
  have "be_nat (bs @ [b]) = be_nat bs * 256 + unat b" by (simp add: be_nat_def)
  moreover have "unat b < 256" using unsigned_less [of b] by simp
  ultimately show ?case using snoc by simp
qed (simp add: be_nat_def)

lemma second_proof_prove:
  obtains out where "vrf_prove tagged_sha vrf_engine_new demo_keys (compute_vrf_input 1 zero_hash) = Ok (second_proof, out)"
  using mock_prove_eq [of tagged_sha vrf_engine_new demo_keys "compute_vrf_input 1 zero_hash"] by (metis prod.collapse second_proof_def)

lemma second_header_fields:
  "bh_vrf_proof second_header = vrf_to_bytes second_proof @ [0, 0, 0]" "bh_proposer_address second_header = zero_hash"
  "bh_slot second_header = 1" "bh_height second_header = 1" "bh_epoch second_header = 0" "bh_timestamp second_header = 7"
  "bh_parent_hash second_header = header_hash tagged_sha (genesis_header 7)" "bh_proposer_stake second_header = 1000000000000"
  "bh_proposer_useful_work_score second_header = 0" "bh_last_finalized_slot second_header = 0"
  by (simp_all add: second_header_def genesis_header_def)

lemma tagged_length: "length (tagged_sha x) = 32"
  by (simp add: tagged_sha_def)

lemma second_header_accepted: "snd (validate_header demo_libm tagged_sha demo_consensus (second_header\<lparr>bh_signature := sig\<rparr>)
    (genesis_header 7\<lparr>bh_signature := sig'\<rparr>)) = Ok ()"
proof -
  let ?h = "second_header\<lparr>bh_signature := sig\<rparr>"
  obtain out where out: "vrf_prove tagged_sha vrf_engine_new demo_keys (compute_vrf_input 1 zero_hash) = Ok (second_proof, out)"
    by (rule second_proof_prove)
  note wf = mock_prove_wf [OF tagged_length out] and bytes = vrf_bytes_round_trip [OF mock_prove_wf(1) [OF tagged_length out]]
  have engine: "pc_vrf_engine demo_consensus = vrf_engine_new" "ps_epoch_seed (pc_state demo_consensus) = zero_hash"
    "state_score (pc_state demo_consensus) zero_hash = 0" "vi_stake demo_validator = 1000000000000"
    "pc_timing demo_consensus = \<lparr>st_slot_duration_ms = cc_slot_duration_ms consensus_config_mainnet,
        st_slots_per_epoch = cc_slots_per_epoch consensus_config_mainnet, st_genesis_timestamp = 0\<rparr>"
    "pc_config demo_consensus = consensus_config_mainnet"
    by (simp_all add: demo_consensus_def pouw_consensus_new_def pouw_state_new_def state_score_def hm_get_def demo_validator_def
        validator_info_new_def)
  have g: "\<not> is_genesis ?h" by (simp add: is_genesis_def second_header_fields)
  have "validate_structure ?h = Ok ()" using g bytes(1) by (simp add: validate_structure_def second_header_fields DEFAULT_SLOTS_PER_EPOCH_def)
  moreover have "validate_vrf_proof demo_libm tagged_sha demo_consensus ?h = Ok ()"
    using g bytes wf(2) verify_own_proof [OF out] demo_lookup
    by (subst validate_vrf_proof_parsed [where v = demo_validator and p = second_proof])
      (use be_nat_less [of out] in \<open>simp_all add: second_header_fields engine demo_threshold vrf_to_bigint_def\<close>)
  moreover have "validate_proposer demo_consensus ?h = Ok ()"
    using g demo_lookup by (simp add: validate_proposer_def second_header_fields engine Let_def)
  moreover have "header_hash tagged_sha (genesis_header 7\<lparr>bh_signature := sig'\<rparr>) = header_hash tagged_sha (genesis_header 7)"
    by (simp add: header_hash_def header_preimage_def)
  ultimately show ?thesis unfolding validate_header_Ok
    by (simp add: second_header_fields engine timestamp_for_slot_def consensus_config_mainnet_def abs_diff_def)
      (simp add: genesis_header_def)
qed

theorem tip_determines_chain_witness:
  "chain_by (accepted tagged_sha) is_genesis [second_header, genesis_header 7]
   \<and> unat (bh_height second_header) = 1
   \<and> map unsigned_header [second_header, genesis_header 7]
     = map unsigned_header [second_header\<lparr>bh_signature := [1]\<rparr>, (genesis_header 7)\<lparr>bh_signature := [2]\<rparr>]"
proof -
  let ?g = "genesis_header 7" and ?g' = "(genesis_header 7)\<lparr>bh_signature := [2]\<rparr>"
    and ?h = second_header and ?h' = "second_header\<lparr>bh_signature := [1]\<rparr>"
  have unsigned: "second_header\<lparr>bh_signature := []\<rparr> = second_header" "(genesis_header 7)\<lparr>bh_signature := []\<rparr> = genesis_header 7"
    by (simp_all add: second_header_def genesis_header_def)
  have acc: "accepted tagged_sha (second_header\<lparr>bh_signature := sig\<rparr>) (genesis_header 7\<lparr>bh_signature := sig'\<rparr>)" for sig sig'
    unfolding accepted_def using second_header_accepted by blast
  have g: "is_genesis ?g" "is_genesis ?g'" by (simp_all add: is_genesis_def genesis_header_def)
  have "accepted tagged_sha ?h ?g" "accepted tagged_sha ?h' ?g'"
    using acc [of "[]" "[]", unfolded unsigned] acc [of "[1]" "[2]"] by blast+
  with g have chains: "chain_by (accepted tagged_sha) is_genesis [?h, ?g]" "chain_by (accepted tagged_sha) is_genesis [?h', ?g']"
    unfolding chain_by.simps by blast+
  have same: "header_preimage ?h' = header_preimage ?h" "header_preimage ?g' = header_preimage ?g" by (simp_all add: header_preimage_def)
  have wf: "\<forall>h \<in> {?h, ?g, ?h', ?g'}. header_wf h"
    by (auto simp: header_wf_def second_header_def genesis_header_def zero_hash_def header_hash_def tagged_length)
  have "length (vrf_to_bytes second_proof) = 97"
    by (rule second_proof_prove) (rule vrf_bytes_round_trip(1) [OF mock_prove_wf(1) [OF tagged_length]])
  then have "length (header_preimage ?h) = length (header_preimage ?g) + 100"
    by (simp add: header_preimage_def second_header_def genesis_header_def zero_hash_def header_hash_def tagged_length)
  then have "tagged_sha (header_preimage ?h) \<noteq> tagged_sha (header_preimage ?g)" by (simp add: tagged_sha_def)
  then have "inj_on tagged_sha (header_preimage ` {?h, ?g, ?h', ?g'})" by (auto simp: same inj_on_def)
  with tip_determines_chain [OF chains(1) _ chains(2), of] wf chains(1) show ?thesis
    by (simp add: header_hash_def same insert_commute)
qed

section \<open>The Merkle root of the compute results\<close>

fun level_inputs :: "hash list \<Rightarrow> bytes list" where
  "level_inputs [] = []"
| "level_inputs [a] = [a @ a]"
| "level_inputs (a # b # rest) = (a @ b) # level_inputs rest"

lemma merkle_level_map: "merkle_level sha xs = map sha (level_inputs xs)"
  by (induction xs rule: level_inputs.induct) auto

lemma length_level_inputs [simp]: "length (level_inputs xs) = (length xs + 1) div 2"
  by (induction xs rule: level_inputs.induct) auto

lemma level_inputs_inj:
  assumes "level_inputs xs = level_inputs ys" and "length xs = length ys"
    and "\<forall>x \<in> set xs \<union> set ys. length x = 32"
  shows "xs = ys"
  using assms
proof (induction xs arbitrary: ys rule: level_inputs.induct)
  case (2 a)
  then show ?case by (cases ys) (auto simp: append_eq_append_conv)
next
  case (3 a b rest)
  obtain a' b' rest' where ys: "ys = a' # b' # rest'" using "3.prems"(2) by (metis length_Suc_conv)
  then show ?case using "3.IH" [of rest'] "3.prems" by (auto simp: append_eq_append_conv)
qed simp

text \<open>Every input that the computation of the root hashes.\<close>

function merkle_inputs :: "(bytes \<Rightarrow> hash) \<Rightarrow> hash list \<Rightarrow> bytes set" where
  "merkle_inputs sha hashes =
     (if length hashes > 1 then set (level_inputs hashes) \<union> merkle_inputs sha (merkle_level sha hashes) else {})"
  by pat_completeness auto
termination by (relation "measure (\<lambda>(_, xs). length xs)") auto

declare merkle_inputs.simps [simp del]

lemma merkle_root_inj:
  assumes "merkle_root sha xs = merkle_root sha ys" and "length xs = length ys" and "xs \<noteq> []"
    and "\<forall>x \<in> set xs \<union> set ys. length x = 32" and "\<And>b. length (sha b) = 32"
    and "inj_on sha (merkle_inputs sha xs \<union> merkle_inputs sha ys)"
  shows "xs = ys"
  using assms
proof (induction sha xs arbitrary: ys rule: merkle_root.induct)
  case (1 sha xs)
  show ?case
  proof (cases "length xs > 1")
    case True
    note in_xs = merkle_inputs.simps [of sha xs] and in_ys = merkle_inputs.simps [of sha ys]
    have "merkle_level sha xs = merkle_level sha ys"
    proof (rule "1.IH" [OF True])
      show "merkle_root sha (merkle_level sha xs) = merkle_root sha (merkle_level sha ys)"
        using "1.prems"(1, 2) True by (simp add: merkle_root.simps [of sha xs] merkle_root.simps [of sha ys])
      show "merkle_level sha xs \<noteq> []" using True by (auto dest!: arg_cong [of _ _ length])
      show "inj_on sha (merkle_inputs sha (merkle_level sha xs) \<union> merkle_inputs sha (merkle_level sha ys))"
        using "1.prems"(2, 6) True by (auto simp: in_xs in_ys inj_on_def)
    qed (use "1.prems" in \<open>auto simp: merkle_level_map\<close>)
    then have "map sha (level_inputs xs) = map sha (level_inputs ys)" by (simp add: merkle_level_map)
    then have "level_inputs xs = level_inputs ys"
    proof (rule map_inj_on)
      show "inj_on sha (set (level_inputs xs) \<union> set (level_inputs ys))"
        using "1.prems"(2, 6) True by (auto simp: in_xs in_ys inj_on_def)
    qed
    then show ?thesis by (rule level_inputs_inj) (use "1.prems" in auto)
  next
    case False
    then obtain a where "xs = [a]" using "1.prems"(3) by (cases xs) auto
    moreover then obtain b where "ys = [b]" using "1.prems"(2) by (cases ys) auto
    ultimately show ?thesis using "1.prems"(1) by (simp add: merkle_root.simps)
  qed
qed

definition leaf_preimage :: "compute_result \<Rightarrow> bytes" where
  "leaf_preimage r =
     cr_job_id r @ cr_output_hash r @ le_bytes 8 (cr_complexity r) @ [method_as_u8 (cr_verification_method r)]"

lemma compute_leaf_alt: "compute_leaf sha r = sha (leaf_preimage r)"
  by (simp add: compute_leaf_def leaf_preimage_def)

lemma compute_leaf_comp: "compute_leaf sha = sha \<circ> leaf_preimage"
  by (simp add: fun_eq_iff compute_leaf_alt)

text \<open>The part of a result that its leaf covers.\<close>

definition committed :: "compute_result \<Rightarrow> hash \<times> hash \<times> u64 \<times> verification_method" where
  "committed r = (cr_job_id r, cr_output_hash r, cr_complexity r, cr_verification_method r)"

definition result_wf :: "compute_result \<Rightarrow> bool" where
  "result_wf r = (length (cr_job_id r) = 32 \<and> length (cr_output_hash r) = 32)"

lemma method_as_u8_inj: "method_as_u8 m = method_as_u8 m' \<longleftrightarrow> m = m'"
  by (cases m; cases m') auto

lemma leaf_preimage_inj:
  "result_wf r \<Longrightarrow> result_wf r' \<Longrightarrow> leaf_preimage r = leaf_preimage r' \<Longrightarrow> committed r = committed r'"
  by (simp add: result_wf_def leaf_preimage_def committed_def append_eq_append_conv le_bytes_injs method_as_u8_inj)

definition result_inputs :: "(bytes \<Rightarrow> hash) \<Rightarrow> compute_result list \<Rightarrow> bytes set" where
  "result_inputs sha rs = leaf_preimage ` set rs \<union> merkle_inputs sha (map (compute_leaf sha) rs)"

lemma validate_compute_results_Ok:
  "validate_compute_results sha c h rs = Ok () \<longleftrightarrow>
     length rs = unat (bh_compute_job_count h) \<and> sum_list (map cr_complexity rs) = bh_compute_complexity h
     \<and> compute_results_merkle_root sha rs = bh_compute_results_root h \<and> validate_each c rs = Ok ()"
  by (auto simp: validate_compute_results_def Let_def)

lemma validate_each_Ok:
  "validate_each c rs = Ok () \<longleftrightarrow> (\<forall>r \<in> set rs. validate_single_result c r = Ok ())"
  by (induction rs) (auto split: result.splits)

lemma roots_commit:
  assumes "\<And>b. length (sha b) = 32" and "\<forall>r \<in> set rs \<union> set rs'. result_wf r"
    and "inj_on sha (result_inputs sha rs \<union> result_inputs sha rs')" and "length rs = length rs'"
    and "compute_results_merkle_root sha rs = compute_results_merkle_root sha rs'"
  shows "map committed rs = map committed rs'"
proof (cases "rs = []")
  case False
  have "map (compute_leaf sha) rs = map (compute_leaf sha) rs'"
  proof (rule merkle_root_inj [of sha])
    show "merkle_root sha (map (compute_leaf sha) rs) = merkle_root sha (map (compute_leaf sha) rs')"
      using assms(4, 5) False by (auto simp: compute_results_merkle_root_def)
    show "inj_on sha (merkle_inputs sha (map (compute_leaf sha) rs) \<union> merkle_inputs sha (map (compute_leaf sha) rs'))"
      by (rule inj_on_subset [OF assms(3)]) (auto simp: result_inputs_def)
  qed (use assms False in \<open>auto simp: compute_leaf_alt\<close>)
  then have "map sha (map leaf_preimage rs) = map sha (map leaf_preimage rs')" by (simp add: compute_leaf_comp)
  then have "map leaf_preimage rs = map leaf_preimage rs'"
    by (rule map_inj_on) (rule inj_on_subset [OF assms(3)], auto simp: result_inputs_def)
  then show ?thesis
    using leaf_preimage_inj assms(2, 4) by (simp add: list_eq_iff_nth_eq)
qed (use assms in simp)

text \<open>
  What the compute root commits to. If two lists of results are both accepted for the same
  header, and SHA-256 does not collide on what is hashed, they have the same job identifiers,
  output hashes, complexities and methods, in the same order. Nothing else is covered: the
  results of an accepted list can be attributed to any other registered validator, with another
  attestation, without touching the header.
\<close>

theorem compute_root_commits:
  assumes digest: "\<And>b. length (sha b) = 32"
    and acc: "validate_compute_results sha c h rs = Ok ()" "validate_compute_results sha c' h rs' = Ok ()"
    and wf: "\<forall>r \<in> set rs \<union> set rs'. result_wf r"
    and no_collision: "inj_on sha (result_inputs sha rs \<union> result_inputs sha rs')"
    and thief: "hm_get (ps_validators (pc_state c)) thief \<noteq> None"
  shows "map committed rs = map committed rs'
    \<and> validate_compute_results sha c h (map (\<lambda>r. r\<lparr>cr_validator := thief, cr_attestation := att\<rparr>) rs) = Ok ()"
proof -
  have "map committed rs = map committed rs'"
    using acc by (intro roots_commit [OF digest wf no_collision]) (simp_all add: validate_compute_results_Ok)
  moreover have leaf: "compute_leaf sha (r\<lparr>cr_validator := thief, cr_attestation := att\<rparr>) = compute_leaf sha r" for r
    by (simp add: compute_leaf_def)
  have "validate_single_result c (r\<lparr>cr_validator := thief, cr_attestation := att\<rparr>) = Ok ()" if "r \<in> set rs" for r
    using acc(1) that thief
    by (auto simp: validate_compute_results_Ok validate_each_Ok validate_single_result_def split: if_splits)
  then have "validate_compute_results sha c h (map (\<lambda>r. r\<lparr>cr_validator := thief, cr_attestation := att\<rparr>) rs) = Ok ()"
    using acc(1)
    by (auto simp: validate_compute_results_Ok validate_each_Ok compute_results_merkle_root_def comp_def leaf split: if_splits)
  ultimately show ?thesis by blast
qed

definition demo_result :: compute_result where
  "demo_result = compute_result_new (replicate 32 1) (replicate 32 1) zero_hash zero_hash 5 verification_method.Hybrid zero_hash"

definition demo_results_header :: pouw_block_header where
  "demo_results_header = (genesis_header 6)\<lparr>bh_compute_job_count := 1, bh_compute_complexity := 5\<rparr>"

lemma demo_results_accepted: "validate_compute_results flat_sha demo_consensus demo_results_header [demo_result] = Ok ()"
proof -
  have ne: "replicate 32 1 \<noteq> zero_hash" by (simp add: zero_hash_def numeral_eq_Suc)
  show ?thesis
    using ne demo_lookup(2)
    by (simp add: validate_compute_results_Ok validate_each_Ok demo_results_header_def genesis_header_def demo_result_def
        compute_result_new_def compute_results_merkle_root_def merkle_root.simps compute_leaf_def flat_sha_def
        validate_single_result_def)
qed

theorem compute_root_commits_witness:
  "validate_compute_results flat_sha demo_consensus demo_results_header
     [demo_result\<lparr>cr_validator := zero_hash, cr_attestation := [7]\<rparr>] = Ok ()"
proof -
  have "inj_on flat_sha (result_inputs flat_sha [demo_result] \<union> result_inputs flat_sha [demo_result])"
    by (simp add: result_inputs_def merkle_inputs.simps)
  moreover have "result_wf demo_result" by (simp add: result_wf_def demo_result_def compute_result_new_def zero_hash_def)
  ultimately show ?thesis
    using compute_root_commits [of flat_sha demo_consensus demo_results_header "[demo_result]" demo_consensus "[demo_result]" zero_hash "[7]"]
      demo_results_accepted demo_lookup(2, 4) by simp
qed

section \<open>The slot clock\<close>

lemma div_eq_interval:
  assumes "0 < n" shows "s div n = e \<longleftrightarrow> e * n \<le> s \<and> s \<le> (e + 1) * n - (1::nat)"
proof -
  have "s div n = e \<longleftrightarrow> e \<le> s div n \<and> s div n < e + 1" by auto
  also have "\<dots> \<longleftrightarrow> e * n \<le> s \<and> s < (e + 1) * n"
    using assms by (simp only: less_eq_div_iff_mult_less_eq div_less_iff_less_mult)
  also have "\<dots> \<longleftrightarrow> e * n \<le> s \<and> s \<le> (e + 1) * n - 1" using assms by (auto simp: less_eq_Suc_le [symmetric])
  finally show ?thesis .
qed

lemma slot_round_trip:
  assumes d: "unat (st_slot_duration_ms t) = 1000 * secs" "0 < secs"
    and room: "unat slot * unat (st_slot_duration_ms t) < 2 ^ 64"
      "unat (st_genesis_timestamp t) + unat slot * secs < 2 ^ 64"
  shows "slot_for_timestamp t (timestamp_for_slot t slot) = Some slot"
proof -
  let ?e = "timestamp_for_slot t slot - st_genesis_timestamp t"
  have "unat (slot * st_slot_duration_ms t div 1000) = unat slot * secs"
    using room(1) d by (simp add: unat_div unat_mult_exact)
  then have ts: "unat (timestamp_for_slot t slot) = unat (st_genesis_timestamp t) + unat slot * secs"
    using room(2) by (simp add: timestamp_for_slot_def unat_add_exact)
  then have "unat ?e = unat slot * secs"
    by (subst unat_sub) (simp_all add: word_le_nat_alt)
  moreover have "unat slot * secs * 1000 < 2 ^ 64" using room(1) d(1) by (simp add: mult.commute [of 1000] mult.assoc)
  ultimately have "unat (?e * 1000) = unat slot * (1000 * secs)"
    by (subst unat_mult_exact) simp_all
  then have "unat (?e * 1000 div st_slot_duration_ms t) = unat slot" using d by (simp add: unat_div)
  moreover have "st_slot_duration_ms t \<noteq> 0" using d by auto
  moreover have "\<not> timestamp_for_slot t slot < st_genesis_timestamp t" using ts by (simp add: word_less_nat_alt)
  ultimately show ?thesis by (simp add: slot_for_timestamp_def word_unat_eq_iff)
qed

lemma epoch_bounds:
  assumes n0: "0 < unat (st_slots_per_epoch t)"
    and e: "(unat epoch + 1) * unat (st_slots_per_epoch t) < 2 ^ 64"
  shows "unat (first_slot_of_epoch t epoch) = unat epoch * unat (st_slots_per_epoch t)"
    and "unat (last_slot_of_epoch t epoch) = (unat epoch + 1) * unat (st_slots_per_epoch t) - 1"
proof -
  let ?n = "unat (st_slots_per_epoch t)"
  show "unat (first_slot_of_epoch t epoch) = unat epoch * ?n"
    using e unfolding first_slot_of_epoch_def by (subst unat_mult_exact) simp_all
  have "unat epoch + 1 < 2 ^ 64"
    using order.strict_trans1 [OF _ e, of "(unat epoch + 1) * 1"] n0 mult_le_mono2 [of 1 ?n "unat epoch + 1"] by simp
  then have e1: "unat (epoch + 1) = unat epoch + 1" by (subst unat_add_exact) simp_all
  have "unat ((epoch + 1) * st_slots_per_epoch t) = (unat epoch + 1) * ?n"
    using e e1 by (subst unat_mult_exact) simp_all
  then show "unat (last_slot_of_epoch t epoch) = (unat epoch + 1) * ?n - 1"
    unfolding last_slot_of_epoch_def using n0 by (subst unat_sub) (simp_all add: word_le_nat_alt)
qed

text \<open>
  The slot clock. When the slot duration is a positive number of whole seconds and nothing
  overflows, the timestamp of a slot maps back to that slot. With a positive epoch length, a slot
  belongs to the epoch between whose first and last slot it lies, and it is an epoch boundary
  exactly when it is the first slot of its epoch.
\<close>

theorem slot_clock:
  assumes d: "unat (st_slot_duration_ms t) = 1000 * secs" "0 < secs"
    and room: "unat slot * unat (st_slot_duration_ms t) < 2 ^ 64"
      "unat (st_genesis_timestamp t) + unat slot * secs < 2 ^ 64"
    and n: "0 < st_slots_per_epoch t"
    and e: "(unat epoch + 1) * unat (st_slots_per_epoch t) < 2 ^ 64"
  shows "slot_for_timestamp t (timestamp_for_slot t slot) = Some slot
    \<and> (epoch_for_slot t slot = Some epoch
       \<longleftrightarrow> first_slot_of_epoch t epoch \<le> slot \<and> slot \<le> last_slot_of_epoch t epoch)
    \<and> (epoch_for_slot t slot = Some epoch
       \<longrightarrow> (is_epoch_boundary t slot \<longleftrightarrow> slot = first_slot_of_epoch t epoch))"
proof -
  let ?n = "unat (st_slots_per_epoch t)"
  have n0: "0 < ?n" using n by (simp add: word_less_nat_alt)
  have ep: "epoch_for_slot t slot = Some epoch \<longleftrightarrow> unat slot div ?n = unat epoch"
    using n n0 by (simp add: epoch_for_slot_def word_unat_eq_iff unat_div)
  have "unat slot div ?n = unat epoch \<Longrightarrow> unat slot mod ?n = 0 \<longleftrightarrow> unat slot = unat epoch * ?n"
    by (metis div_mult_mod_eq add.right_neutral mod_mult_self2_is_0)
  then show ?thesis
    using slot_round_trip [OF d room] ep epoch_bounds [OF n0 e] div_eq_interval [OF n0, of "unat slot" "unat epoch"] n n0
    by (auto simp: word_le_nat_alt is_epoch_boundary_def word_unat_eq_iff unat_mod)
qed

theorem slot_clock_witness:
  "slot_for_timestamp slot_timing_default (timestamp_for_slot slot_timing_default 432001) = Some 432001
    \<and> epoch_for_slot slot_timing_default 432001 = Some 1"
  using slot_clock [of slot_timing_default 6 432001 1]
  by (simp add: slot_timing_default_def DEFAULT_SLOTS_PER_EPOCH_def first_slot_of_epoch_def last_slot_of_epoch_def
      word_le_nat_alt)

end
