(* ===== verification/Lottery_Properties.thy ===== *)
theory Lottery_Properties
  imports Block_Properties
begin

text \<open>
  The stake-weighted lottery: thresholds in floating point and big integers, the active set and its
  total weight, and the bound on the expected number of leaders of a slot.
\<close>

section \<open>Thresholds\<close>

lemma PRECISION_f64: "u64_as_f64 PRECISION = Fin 1000000"
  using u64_as_f64_small [of 1000000] by (simp add: PRECISION_def)

lemma f64_lit_5: "f64_lit 5 = Fin 5"
  using f64_round_nat_exact [of 5] by (simp add: f64_lit_def)

definition lottery_weight :: "u128 \<Rightarrow> f64 \<Rightarrow> u128" where
  "lottery_weight stake multiplier = f64_as_word (f64_mul (u128_as_f64 stake) multiplier)"

definition scaled_weight :: "u128 \<Rightarrow> f64 \<Rightarrow> u128" where
  "scaled_weight stake multiplier =
     f64_as_word (f64_mul (f64_mul (u128_as_f64 stake) multiplier) (Fin 1000000))"

lemma threshold_alt:
  "calculate_threshold L e stake score T =
     (if T = 0 then 0
      else 2 ^ 256 * unat (scaled_weight stake (election_multiplier L e score)) div (unat T * 1000000))"
  by (simp add: calculate_threshold_def Let_def PRECISION_f64 scaled_weight_def max_vrf_output_def)
    (simp add: PRECISION_def unat_eq_zero)

lemma u128_as_f64_nonneg: "\<exists>x. u128_as_f64 stake = Fin x \<and> 0 \<le> x"
  by (simp add: u128_as_f64_def f64_round_nonneg)

lemma scaled_weight_Fin:
  assumes "u128_as_f64 stake = Fin x"
  shows "scaled_weight stake (Fin m) = f64_as_word (Fin (f64_signed (f64_signed (x * m) * 1000000)))"
  using assms by (simp add: scaled_weight_def)

lemma f64_signed_nonpos: "x \<le> 0 \<Longrightarrow> f64_signed x \<le> 0"
  using f64_round_nonneg [of "- x"] by (auto simp: f64_signed_def f64_round_def)

lemma f64_as_word_nonpos: "x \<le> 0 \<Longrightarrow> (f64_as_word (Fin x) :: 'a::len word) = 0"
  by (simp add: floor_le_iff nat_le_0)

lemma u128_as_f64_mono: "stake \<le> stake' \<Longrightarrow> u128_as_f64 stake = Fin x \<Longrightarrow> u128_as_f64 stake' = Fin x' \<Longrightarrow> x \<le> x'"
  by (auto simp: u128_as_f64_def word_le_nat_alt intro!: f64_round_mono simp del: of_nat_unat)

lemma scaled_weight_mono_stake:
  assumes "stake \<le> stake'" shows "scaled_weight stake (Fin m) \<le> scaled_weight stake' (Fin m)"
proof -
  obtain x x' where x: "u128_as_f64 stake = Fin x" "0 \<le> x" "u128_as_f64 stake' = Fin x'" "0 \<le> x'"
    using u128_as_f64_nonneg by metis
  show ?thesis
  proof (cases "0 \<le> m")
    case True
    then have "x * m \<le> x' * m" using u128_as_f64_mono [OF assms x(1, 3)] by (rule mult_right_mono [rotated])
    then show ?thesis
      by (simp add: scaled_weight_Fin [OF x(1)] scaled_weight_Fin [OF x(3)] f64_as_word_mono f64_signed_mono
          del: f64_as_word.simps)
  next
    case False
    then have "x * m \<le> 0" "x' * m \<le> 0" using x by (simp_all add: mult_nonneg_nonpos)
    then have "f64_signed (f64_signed (x * m) * 1000000) \<le> 0" "f64_signed (f64_signed (x' * m) * 1000000) \<le> 0"
      by (simp_all add: f64_signed_nonpos mult_nonpos_nonneg)
    then show ?thesis
      by (simp add: scaled_weight_Fin [OF x(1)] scaled_weight_Fin [OF x(3)] f64_as_word_nonpos del: f64_as_word.simps)
  qed
qed

lemma scaled_weight_mono_multiplier:
  assumes "m \<le> m'" shows "scaled_weight stake (Fin m) \<le> scaled_weight stake (Fin m')"
proof -
  obtain x where x: "u128_as_f64 stake = Fin x" "0 \<le> x" using u128_as_f64_nonneg by metis
  then have "x * m \<le> x * m'" using assms by (simp add: mult_left_mono)
  then show ?thesis
    by (simp add: scaled_weight_Fin [OF x(1)] f64_as_word_mono f64_signed_mono del: f64_as_word.simps)
qed

text \<open>A multiplier capped by a finite number is finite and at most the cap, or counts as no weight.\<close>

lemma capped_multiplier:
  assumes "cc_max_useful_work_multiplier (el_config e) = Fin cap"
  obtains m where "election_multiplier L e score = Fin m" and "m \<le> cap"
  | "election_multiplier L e score = NegInf"
proof (cases "raw_multiplier L score")
  case (Fin x)
  then have "election_multiplier L e score = Fin (min x cap)"
    using assms by (simp add: election_multiplier_def f64_min_def min_def)
  then show ?thesis by (rule that(1)) simp
qed (use assms that in \<open>simp_all add: election_multiplier_def f64_min_def\<close>)

lemma scaled_weight_NegInf: "scaled_weight stake NegInf = 0"
proof -
  obtain x where "u128_as_f64 stake = Fin x" "0 \<le> x" using u128_as_f64_nonneg by metis
  then show ?thesis by (auto simp: scaled_weight_def signed_inf_def)
qed

text \<open>
  Thresholds. For every score, and whatever the platform's \<open>log10\<close> returns, the threshold of a
  validator grows with its stake, shrinks with the total weight, never exceeds the threshold of the
  maximal multiplier, and is 0 when the total weight is 0.
\<close>

theorem threshold_laws:
  assumes cap: "cc_max_useful_work_multiplier (el_config e) = Fin m"
    and stakes: "stake \<le> stake'" and totals: "0 < T" "T \<le> T'"
  shows "calculate_threshold L e stake score T \<le> calculate_threshold L e stake' score T
    \<and> calculate_threshold L e stake score T' \<le> calculate_threshold L e stake score T
    \<and> calculate_threshold L e stake score T \<le> 2 ^ 256 * unat (scaled_weight stake (Fin m)) div (unat T * 1000000)
    \<and> calculate_threshold L e stake score 0 = 0"
proof -
  let ?w = "\<lambda>s. scaled_weight s (election_multiplier L e score)"
  have w: "?w stake \<le> ?w stake'" "?w stake \<le> scaled_weight stake (Fin m)"
    by (rule capped_multiplier [OF cap, of L score];
        simp add: scaled_weight_NegInf scaled_weight_mono_stake [OF stakes] scaled_weight_mono_multiplier)+
  have t: "0 < unat T" "unat T \<le> unat T'" "0 < unat T'"
    using totals by (simp_all add: word_less_nat_alt word_le_nat_alt)
  have nz: "T \<noteq> 0" "T' \<noteq> 0" using t by auto
  have "2 ^ 256 * unat (?w stake) div (unat T' * 1000000) \<le> 2 ^ 256 * unat (?w stake) div (unat T * 1000000)"
    using t by (intro div_le_mono2) simp_all
  moreover have "2 ^ 256 * unat (?w stake) div (unat T * 1000000) \<le> 2 ^ 256 * unat (?w stake') div (unat T * 1000000)"
    "2 ^ 256 * unat (?w stake) div (unat T * 1000000) \<le> 2 ^ 256 * unat (scaled_weight stake (Fin m)) div (unat T * 1000000)"
    using w by (intro div_le_mono mult_le_mono2; simp add: word_le_nat_alt)+
  ultimately show ?thesis using nz unfolding threshold_alt by simp
qed

theorem threshold_laws_witness:
  "calculate_threshold demo_libm (pouw_election_new consensus_config_mainnet) 1 0 10
     \<le> calculate_threshold demo_libm (pouw_election_new consensus_config_mainnet) 2 0 10"
  using threshold_laws [of "pouw_election_new consensus_config_mainnet" 5 1 2 10 10 demo_libm 0]
  by (simp add: pouw_election_new_def consensus_config_mainnet_def f64_lit_5)

section \<open>The active set\<close>

lemma foldl_add_word: "foldl (\<lambda>acc x. acc + f x) a xs = a + sum_list (map f xs)" for a :: "'a::len word"
  by (induction xs arbitrary: a) (simp_all add: ac_simps)

lemma unat_sum_list:
  fixes f :: "'b \<Rightarrow> 'a::len word"
  assumes "sum_list (map (\<lambda>x. unat (f x)) xs) < 2 ^ LENGTH('a)"
  shows "unat (sum_list (map f xs)) = sum_list (map (\<lambda>x. unat (f x)) xs)"
  using assms by (induction xs) (simp_all add: unat_add_exact)

text \<open>What the active set and the totals should be for the validators and scores of a state.\<close>

definition active_exact :: "libm \<Rightarrow> pouw_state \<Rightarrow> bool" where
  "active_exact L st =
     (distinct (ps_active_validators st)
      \<and> set (ps_active_validators st)
          = {a. \<exists>v. hm_get (ps_validators st) a = Some v \<and> is_eligible v (ps_current_slot st)}
      \<and> sorted_wrt (\<lambda>a b. state_weight L st b \<le> state_weight L st a) (ps_active_validators st)
      \<and> ps_total_stake st = sum_list (map (state_stake st) (ps_active_validators st))
      \<and> ps_total_weighted_stake st = sum_list (map (state_weight L st) (ps_active_validators st)))"

lemma recalculate_views [simp]:
  "ps_validators (recalculate_active_set L st) = ps_validators st"
  "ps_useful_work_scores (recalculate_active_set L st) = ps_useful_work_scores st"
  "ps_current_slot (recalculate_active_set L st) = ps_current_slot st"
  "ps_epoch_seed (recalculate_active_set L st) = ps_epoch_seed st"
  by (simp_all add: recalculate_active_set_def Let_def)

lemma recalculate_weights [simp]:
  "state_weight L (recalculate_active_set L st) = state_weight L st"
  "state_stake (recalculate_active_set L st) = state_stake st"
  "state_score (recalculate_active_set L st) = state_score st"
  by (simp_all add: state_weight_def state_stake_def state_score_def fun_eq_iff split: option.split)

lemma recalculate_exact:
  assumes "distinct (map fst (ps_validators st))"
  shows "active_exact L (recalculate_active_set L st)"
proof -
  let ?el = "\<lambda>v. is_eligible v (ps_current_slot st)"
  let ?as = "map fst (filter (\<lambda>(_, v). ?el v) (ps_validators st))"
  let ?key = "\<lambda>a. - int (unat (state_weight L st a))"
  have act: "ps_active_validators (recalculate_active_set L st) = sort_key ?key ?as"
    by (simp add: recalculate_active_set_def Let_def)
  have "distinct ?as" using assms by (rule distinct_map_filter)
  moreover have "set ?as = {a. \<exists>v. hm_get (ps_validators st) a = Some v \<and> ?el v}"
    using assms by (force simp: hm_get_def map_of_eq_Some_iff)
  moreover have "sorted_wrt (\<lambda>a b. state_weight L st b \<le> state_weight L st a) (sort_key ?key ?as)"
  proof -
    have "sorted (map ?key (sort_key ?key ?as))" by (rule sorted_sort_key)
    then show ?thesis by (simp add: sorted_map word_le_def)
  qed
  moreover have "ps_total_stake (recalculate_active_set L st) = sum_list (map (state_stake st) (sort_key ?key ?as))"
    "ps_total_weighted_stake (recalculate_active_set L st) = sum_list (map (state_weight L st) (sort_key ?key ?as))"
    by (simp_all add: recalculate_active_set_def Let_def foldl_add_word)
  ultimately show ?thesis unfolding active_exact_def act by simp
qed

lemma distinct_hm_insert [simp]: "distinct (map fst m) \<Longrightarrow> distinct (map fst (hm_insert k v m))"
  by (rule hm.wf_insert)

lemma apply_score_update_validators:
  "distinct (map fst (ps_validators st)) \<Longrightarrow> distinct (map fst (ps_validators (fst (apply_score_update L u (st, el)))))"
  by (auto simp: apply_score_update_def Let_def split: prod.splits option.splits)

lemma foldl_score_updates_validators:
  "distinct (map fst (ps_validators (fst s))) \<Longrightarrow>
   distinct (map fst (ps_validators (fst (foldl (\<lambda>s u. apply_score_update L u s) s us))))"
proof (induction us arbitrary: s)
  case (Cons u us)
  then show ?case using apply_score_update_validators [of "fst s" L u "snd s"] by simp
qed simp

lemma tally_results_state: "tally_results sha rs c t = (c', r) \<Longrightarrow> pc_state c' = pc_state c \<and> pc_election c' = pc_election c"
  by (induction sha rs c t rule: tally_results.induct)
    (auto simp: verify_useful_work_def Let_def split: result.splits if_splits prod.splits)

text \<open>
  The active set. After a registration, a score update, the results of a block and an epoch
  transition, the active validators are exactly the eligible ones, without repetition and in
  descending order of weight, and both totals are the sums over them.
\<close>

theorem active_set_exact:
  assumes "distinct (map fst (ps_validators (pc_state c)))"
  shows "active_exact L (fst (state_register_validator L (pc_state c) info))
    \<and> (state_update_score L (pc_state c) a delta = (st, Ok ()) \<longrightarrow> active_exact L st)
    \<and> (process_useful_work_results L sha c block results = (c', Ok t) \<longrightarrow> active_exact L (pc_state c'))
    \<and> active_exact L (on_epoch_transition L (pc_state c) epoch)"
proof (intro conjI impI)
  show "active_exact L (fst (state_register_validator L (pc_state c) info))"
    using assms by (simp add: state_register_validator_def Let_def recalculate_exact)
  show "active_exact L st" if "state_update_score L (pc_state c) a delta = (st, Ok ())"
    using assms that by (auto simp: state_update_score_def Let_def recalculate_exact split: option.splits)
  show "active_exact L (on_epoch_transition L (pc_state c) epoch)"
    using assms by (simp add: on_epoch_transition_def apply_score_decay_def recalculate_exact)
  assume "process_useful_work_results L sha c block results = (c', Ok t)"
  then obtain c1 where t: "tally_results sha results c \<lparr>wt_total_uwu = 0, wt_verified_count = 0, wt_score_updates = []\<rparr> = (c1, Ok t)"
    and c': "pc_state c' = recalculate_active_set L (update_proposer_stats block
       (fst (foldl (\<lambda>s u. apply_score_update L u s) (pc_state c1, pc_election c1) (wt_score_updates t))))"
    unfolding process_useful_work_results_def by (elim try_then_OkE) (auto split: prod.splits)
  have "distinct (map fst (ps_validators (pc_state c1)))" using tally_results_state [OF t] assms by simp
  then show "active_exact L (pc_state c')"
    unfolding c' by (intro recalculate_exact)
      (auto simp: update_proposer_stats_def foldl_score_updates_validators split: option.splits)
qed

theorem active_set_exact_witness:
  "active_exact demo_libm (fst (state_register_validator demo_libm (pc_state demo_consensus) demo_validator))"
  using active_set_exact [of demo_consensus demo_libm demo_validator] by (simp add: demo_consensus_def)

section \<open>The lottery\<close>

lemma f64_mul_Fin: "f64_mul a b = Fin r \<Longrightarrow> \<exists>z. r = f64_signed z"
  by (cases a; cases b) (auto simp: signed_inf_def split: if_splits)

lemma f64_signed_pos: "0 < f64_signed z \<Longrightarrow> f64_signed z = f64_round z"
  using f64_signed_nonpos [of z] by (simp add: f64_signed_def split: if_splits)

lemma f64_round_int_ge: "2 ^ 52 \<le> f64_round x \<Longrightarrow> f64_round x \<in> \<int>"
proof (cases "2 ^ 52 \<le> x")
  case False
  assume le: "2 ^ 52 \<le> f64_round x"
  have "f64_round (2 ^ 52) = 2 ^ 52" using f64_round_nat_exact [of "2 ^ 52"] by simp
  then have "f64_round x \<le> 2 ^ 52" using f64_round_mono [of x "2 ^ 52"] False by simp
  with le have "f64_round x = of_int (2 ^ 52)" by simp
  then show ?thesis by (metis Ints_of_int)
qed (rule f64_round_int)

lemma lottery_weight_exact:
  assumes "2 ^ 52 \<le> unat (lottery_weight stake mult)" and "unat (lottery_weight stake mult) < 2 ^ 128 - 1"
  shows "f64_mul (u128_as_f64 stake) mult = Fin (of_nat (unat (lottery_weight stake mult)))"
proof -
  let ?w = "lottery_weight stake mult"
  obtain r where r: "f64_mul (u128_as_f64 stake) mult = Fin r"
  proof (cases "f64_mul (u128_as_f64 stake) mult")
    case Inf
    then show ?thesis using assms(2) by (simp add: lottery_weight_def unat_max_val)
  qed (use assms(1) that in \<open>simp_all add: lottery_weight_def\<close>)
  have w: "unat ?w = nat \<lfloor>r\<rfloor>"
    using assms(2) unat_f64_as_word [where 'a = 128, of r]
    unfolding lottery_weight_def r by (simp add: min_def split: if_splits)
  then have "(4503599627370496::nat) \<le> nat \<lfloor>r\<rfloor>" using assms(1) by simp
  then have fl: "(4503599627370496::int) \<le> \<lfloor>r\<rfloor>" by linarith
  then have ge: "2 ^ 52 \<le> r" by (simp add: le_floor_iff)
  obtain z where "r = f64_signed z" using f64_mul_Fin [OF r] by blast
  then have "r = f64_round z" using f64_signed_pos ge by simp
  then have "r \<in> \<int>" using f64_round_int_ge [of z] ge by simp
  then have "r = of_int \<lfloor>r\<rfloor>" by (metis Ints_cases floor_of_int)
  then have "r = of_nat (unat ?w)" using w fl by simp
  then show ?thesis using r by simp
qed

lemma scaled_weight_bound:
  assumes "2 ^ 52 \<le> unat (lottery_weight stake mult)" and "unat (lottery_weight stake mult) < 2 ^ 128 - 1"
  shows "unat (scaled_weight stake mult) * 2 ^ 53 \<le> unat (lottery_weight stake mult) * 1000000 * (2 ^ 53 + 1)"
proof -
  define n where "n = unat (lottery_weight stake mult)"
  have "scaled_weight stake mult = f64_as_word (Fin (f64_round (of_nat n * 1000000)))"
    using lottery_weight_exact [OF assms] by (simp add: scaled_weight_def n_def)
  then have "of_nat (unat (scaled_weight stake mult)) \<le> f64_round (of_nat n * 1000000)"
    using unat_f64_as_word_le [where 'a = 128, OF f64_round_nonneg, of "of_nat n * 1000000"] by (simp only:)
  also have "\<dots> \<le> of_nat n * 1000000 * (1 + 1 / 2 ^ 53)" by (rule f64_round_rel) simp
  finally have "of_nat (unat (scaled_weight stake mult)) * 2 ^ 53 \<le> (of_nat n * 1000000 * (2 ^ 53 + 1) :: rat)"
    by (simp add: field_simps)
  then have "(of_nat (unat (scaled_weight stake mult) * 2 ^ 53) :: rat) \<le> of_nat (n * 1000000 * (2 ^ 53 + 1))"
    by simp
  then show ?thesis unfolding n_def by (simp only: of_nat_le_iff)
qed

lemma sum_list_mult_le:
  fixes f g :: "'a \<Rightarrow> nat"
  assumes "\<And>x. x \<in> set xs \<Longrightarrow> f x * c \<le> g x * d"
  shows "sum_list (map f xs) * c \<le> sum_list (map g xs) * d"
  using assms by (induction xs) (auto simp: add_mult_distrib intro!: add_mono)

lemma sum_thresholds:
  fixes w s t :: "'a \<Rightarrow> nat"
  assumes "\<And>x. x \<in> set xs \<Longrightarrow> s x * 2 ^ 53 \<le> w x * 1000000 * (2 ^ 53 + 1)"
    and "\<And>x. x \<in> set xs \<Longrightarrow> t x = N * s x div (sum_list (map w xs) * 1000000)"
    and "0 < sum_list (map w xs)"
  shows "sum_list (map t xs) * 2 ^ 53 \<le> N * (2 ^ 53 + 1)"
proof -
  let ?T = "sum_list (map w xs) * 1000000"
  have "t x * ?T \<le> s x * N" if "x \<in> set xs" for x
    using assms(2) [OF that] by (simp add: mult.commute [of N])
  then have "sum_list (map t xs) * ?T \<le> sum_list (map s xs) * N" by (rule sum_list_mult_le)
  then have "sum_list (map t xs) * ?T * 2 ^ 53 \<le> sum_list (map s xs) * N * 2 ^ 53" by (rule mult_le_mono1)
  also have "\<dots> = N * (sum_list (map s xs) * 2 ^ 53)" by simp
  also have "sum_list (map s xs) * 2 ^ 53 \<le> sum_list (map w xs) * (1000000 * (2 ^ 53 + 1))"
    using assms(1) by (intro sum_list_mult_le) (simp add: mult.assoc)
  finally have "?T * (sum_list (map t xs) * 2 ^ 53) \<le> ?T * (N * (2 ^ 53 + 1))"
    by (simp add: ac_simps)
  moreover have "0 < ?T" using assms(3) by simp
  ultimately show ?thesis using mult_le_cancel1 by blast
qed

text \<open>
  C10. The lottery is fair. Take a state whose active set was just recalculated, with the multiplier cap
  of the presets, in which every active validator weighs at least \<open>2\<^sup>5\<^sup>2\<close> base units and the weights do
  not overflow. Then the thresholds of the active validators sum to at most \<open>2\<^sup>2\<^sup>5\<^sup>6\<close> times
  \<open>1 + 2\<^sup>-\<^sup>5\<^sup>3\<close>: with uniform outputs a slot has at most one leader in expectation, up to the
  rounding of one floating-point operation.
\<close>

theorem lottery_fair:
  assumes cap: "cc_max_useful_work_multiplier (el_config el) = f64_lit 5"
    and st: "st = recalculate_active_set L st0"
    and heavy: "\<forall>a \<in> set (ps_active_validators st). 2 ^ 52 \<le> unat (state_weight L st a)"
    and room: "sum_list (map (\<lambda>a. unat (state_weight L st a)) (ps_active_validators st)) < 2 ^ 128 - 1"
    and ne: "ps_active_validators st \<noteq> []"
  shows "sum_list (map (\<lambda>a. calculate_threshold L el (state_stake st a) (state_score st a) (ps_total_weighted_stake st))
           (ps_active_validators st)) * 2 ^ 53 \<le> 2 ^ 256 * (2 ^ 53 + 1)"
proof -
  let ?as = "ps_active_validators st" and ?w = "\<lambda>a. unat (state_weight L st a)"
  let ?s = "\<lambda>a. unat (scaled_weight (state_stake st a) (election_multiplier L el (state_score st a)))"
  have "ps_total_weighted_stake st = sum_list (map (state_weight L st) ?as)"
    using recalculate_weights(1) [of L st0] unfolding st
    by (simp add: recalculate_active_set_def Let_def foldl_add_word)
  then have T: "unat (ps_total_weighted_stake st) = sum_list (map ?w ?as)"
    using unat_sum_list [of "state_weight L st" ?as] room by simp
  have mem: "?w a \<le> sum_list (map ?w ?as)" if "a \<in> set ?as" for a using that by (simp add: member_le_sum_list)
  have registered: "state_weight L st a \<noteq> 0 \<Longrightarrow> state_weight L st a
      = lottery_weight (state_stake st a) (election_multiplier L el (state_score st a))" for a
    by (simp add: state_weight_def state_weighted_stake_def lottery_weight_def state_stake_def state_multiplier_def
        election_multiplier_def cap split: option.splits)
  have pos: "0 < sum_list (map ?w ?as)"
    using heavy mem ne by (cases ?as) auto
  then have nz: "ps_total_weighted_stake st \<noteq> 0" using T by (metis less_irrefl unat_0)
  show ?thesis
  proof (rule sum_thresholds [where s = ?s and w = ?w])
    fix a assume a: "a \<in> set ?as"
    have ge: "2 ^ 52 \<le> ?w a" using heavy a by simp
    have lt: "?w a < 2 ^ 128 - 1" using mem [OF a] room by simp
    have "state_weight L st a \<noteq> 0" using ge by auto
    from registered [OF this] show "?s a * 2 ^ 53 \<le> ?w a * 1000000 * (2 ^ 53 + 1)"
      using scaled_weight_bound ge lt by simp
    show "calculate_threshold L el (state_stake st a) (state_score st a) (ps_total_weighted_stake st)
        = 2 ^ 256 * ?s a div (sum_list (map ?w ?as) * 1000000)"
      using nz T unfolding threshold_alt by simp
  qed (rule pos)
qed

definition rich_state :: pouw_state where
  "rich_state = (pouw_state_new 0)
     \<lparr>ps_validators := [(zero_hash, demo_validator\<lparr>vi_stake := 2 ^ 60\<rparr>)]\<rparr>"

lemma rich_weight: "state_weight demo_libm rich_state zero_hash = 2 ^ 60"
proof -
  have one: "f64_round 1 = 1" "f64_round 6 = 6" using f64_round_nat_exact [of 1] f64_round_nat_exact [of 6] by simp_all
  have m: "state_multiplier demo_libm 0 = Fin 1"
    by (simp add: state_multiplier_def raw_multiplier_def demo_libm_def f64_lit_def one f64_min_def
        f64_lit_5 [unfolded f64_lit_def] f64_signed_def f64_round_def [of 0])
  have "f64_round (2 ^ 60) = (2 ^ 60 :: rat)" using f64_round_scaled_nat [of 1 "2 ^ 60" 60] by simp
  then have "u128_as_f64 (2 ^ 60) = Fin (2 ^ 60)" by (simp add: u128_as_f64_def)
  then show ?thesis
    using \<open>f64_round (2 ^ 60) = 2 ^ 60\<close>
    by (simp add: state_weight_def rich_state_def hm_get_def state_score_def pouw_state_new_def state_weighted_stake_def m)
qed

theorem lottery_fair_witness:
  "calculate_threshold demo_libm (pouw_election_new consensus_config_mainnet) (2 ^ 60) 0 (2 ^ 60) * 2 ^ 53
     \<le> 2 ^ 256 * (2 ^ 53 + 1)"
proof -
  let ?st = "recalculate_active_set demo_libm rich_state"
  have act: "ps_active_validators ?st = [zero_hash]"
    by (simp add: recalculate_active_set_def rich_state_def demo_validator_def validator_info_new_def is_eligible_def
        MIN_STAKE_FOR_ELECTION_def pouw_state_new_def)
  have tot: "ps_total_weighted_stake ?st = 2 ^ 60"
    using act rich_weight by (simp add: recalculate_active_set_def Let_def)
  have "state_stake ?st zero_hash = 2 ^ 60" "state_score ?st zero_hash = 0"
    by (simp_all add: state_stake_def state_score_def rich_state_def hm_get_def pouw_state_new_def)
  then show ?thesis
    using lottery_fair [of "pouw_election_new consensus_config_mainnet" ?st demo_libm rich_state] act tot rich_weight
    by (simp add: pouw_election_new_def consensus_config_mainnet_def)
qed

end
