(* ===== verification/Reputation.thy ===== *)
theory Reputation
  imports Consensus_Types
begin

text \<open>
  \<open>src/crates/consensus/src/reputation.rs\<close>: the sliding-window reputation of validators. The locks of
  the engine are taken one at a time, so its state is one record. A counter of the metrics wraps
  like the atomic it models. \<open>f64::powi\<close> comes from the platform (record \<open>libm\<close>).
\<close>

section \<open>Constants and configuration\<close>

definition DEFAULT_DECAY_RATE :: f64 where
  "DEFAULT_DECAY_RATE = f64_lit (97 / 100)"

definition DEFAULT_WINDOW_DAYS :: u32 where
  "DEFAULT_WINDOW_DAYS = 30"

definition SLOTS_PER_DAY :: u64 where
  "SLOTS_PER_DAY = 14400"

definition MAX_SCORE :: u64 where
  "MAX_SCORE = max_val div 100"

definition MAX_COMPLEXITY :: u64 where
  "MAX_COMPLEXITY = 1000000000000"

record reputation_config =
  rc_decay_rate :: f64
  rc_window_days :: u32
  rc_min_complexity :: u64
  rc_max_jobs_per_day :: u32
  rc_failure_penalty_multiplier :: f64
  rc_uptime_bonus_threshold :: f64
  rc_enable_smoothing :: bool
  rc_smoothing_factor :: f64

definition reputation_config_production :: reputation_config where
  "reputation_config_production =
     \<lparr>rc_decay_rate = DEFAULT_DECAY_RATE, rc_window_days = DEFAULT_WINDOW_DAYS, rc_min_complexity = 100,
      rc_max_jobs_per_day = 10000, rc_failure_penalty_multiplier = f64_lit 2,
      rc_uptime_bonus_threshold = f64_lit (95 / 100), rc_enable_smoothing = True,
      rc_smoothing_factor = f64_lit (1 / 10)\<rparr>"

definition reputation_config_testnet :: reputation_config where
  "reputation_config_testnet =
     \<lparr>rc_decay_rate = f64_lit (90 / 100), rc_window_days = 7, rc_min_complexity = 10,
      rc_max_jobs_per_day = 100000, rc_failure_penalty_multiplier = f64_lit (15 / 10),
      rc_uptime_bonus_threshold = f64_lit (80 / 100), rc_enable_smoothing = False,
      rc_smoothing_factor = f64_lit 0\<rparr>"

definition reputation_config_devnet :: reputation_config where
  "reputation_config_devnet =
     \<lparr>rc_decay_rate = f64_lit (80 / 100), rc_window_days = 3, rc_min_complexity = 1,
      rc_max_jobs_per_day = max_val, rc_failure_penalty_multiplier = f64_lit 1,
      rc_uptime_bonus_threshold = f64_lit 0, rc_enable_smoothing = False,
      rc_smoothing_factor = f64_lit 0\<rparr>"

definition reputation_config_validate :: "reputation_config \<Rightarrow> unit consensus_result" where
  "reputation_config_validate c =
     (if f64_le (rc_decay_rate c) (f64_lit 0) \<or> f64_lt (f64_lit 1) (rc_decay_rate c)
      then Err (Config ''Decay rate must be in (0, 1]'')
      else if rc_window_days c = 0 then Err (Config ''Window days must be > 0'')
      else if f64_lt (rc_smoothing_factor c) (f64_lit 0) \<or> f64_lt (f64_lit 1) (rc_smoothing_factor c)
      then Err (Config ''Smoothing factor must be in [0, 1]'')
      else Ok ())"

section \<open>Job records\<close>

record job_metadata =
  jm_execution_time_ms :: u64
  jm_memory_used :: u64
  jm_model_name :: "string option"
  jm_request_origin :: "string option"

record compute_job_record =
  cj_job_id :: hash
  cj_model_hash :: hash
  cj_input_hash :: hash
  cj_output_hash :: hash
  cj_complexity :: u64
  cj_verification_method :: verification_method
  cj_verified_at_slot :: slot
  cj_success :: bool
  cj_metadata :: "job_metadata option"

definition compute_job_record_new ::
    "hash \<Rightarrow> hash \<Rightarrow> hash \<Rightarrow> hash \<Rightarrow> u64 \<Rightarrow> verification_method \<Rightarrow> slot \<Rightarrow> bool \<Rightarrow> compute_job_record" where
  "compute_job_record_new job_id model_hash input_hash output_hash complexity method verified_at_slot success =
     \<lparr>cj_job_id = job_id, cj_model_hash = model_hash, cj_input_hash = input_hash,
      cj_output_hash = output_hash, cj_complexity = complexity, cj_verification_method = method,
      cj_verified_at_slot = verified_at_slot, cj_success = success, cj_metadata = None\<rparr>"

fun reputation_multiplier :: "verification_method \<Rightarrow> f64" where
  "reputation_multiplier TeeAttestation = f64_lit 1"
| "reputation_multiplier ZkProof = f64_lit (15 / 10)"
| "reputation_multiplier Hybrid = f64_lit 2"
| "reputation_multiplier ReExecution = f64_lit (8 / 10)"

definition method_multiplier :: "compute_job_record \<Rightarrow> f64" where
  "method_multiplier job = reputation_multiplier (cj_verification_method job)"

definition weighted_score :: "compute_job_record \<Rightarrow> f64" where
  "weighted_score job =
     (if cj_success job
      then f64_mul (u64_as_f64 (min (cj_complexity job) MAX_COMPLEXITY)) (method_multiplier job)
      else f64_lit 0)"

definition age_days :: "compute_job_record \<Rightarrow> slot \<Rightarrow> u32" where
  "age_days job current_slot =
     (if current_slot < cj_verified_at_slot job then 0
      else ucast ((current_slot - cj_verified_at_slot job) div SLOTS_PER_DAY))"

section \<open>The state of one validator\<close>

record validator_reputation =
  vr_address :: address
  vr_current_score :: u64
  vr_smoothed_score :: f64
  vr_window_jobs :: "compute_job_record list"
  vr_total_jobs :: u64
  vr_successful_jobs :: u64
  vr_failed_jobs :: u64
  vr_total_complexity :: u128
  vr_last_update_slot :: slot
  vr_daily_job_counts :: "(u32 \<times> u32) list"
  vr_active_streak :: u32
  vr_last_active_day :: u32

definition validator_reputation_new :: "address \<Rightarrow> validator_reputation" where
  "validator_reputation_new address =
     \<lparr>vr_address = address, vr_current_score = 0, vr_smoothed_score = f64_lit 0, vr_window_jobs = [],
      vr_total_jobs = 0, vr_successful_jobs = 0, vr_failed_jobs = 0, vr_total_complexity = 0,
      vr_last_update_slot = 0, vr_daily_job_counts = [], vr_active_streak = 0, vr_last_active_day = 0\<rparr>"

definition success_rate :: "validator_reputation \<Rightarrow> f64" where
  "success_rate v =
     (if vr_total_jobs v = 0 then f64_lit 1
      else f64_div (u64_as_f64 (vr_successful_jobs v)) (u64_as_f64 (vr_total_jobs v)))"

definition reputation_average_complexity :: "validator_reputation \<Rightarrow> u64" where
  "reputation_average_complexity v =
     (if vr_total_jobs v = 0 then 0 else ucast (vr_total_complexity v div ucast (vr_total_jobs v)))"

section \<open>The engine\<close>

record reputation_metrics =
  rm_total_jobs_processed :: u64
  rm_score_recalculations :: u64
  rm_window_prunings :: u64

record reputation_engine =
  re_config :: reputation_config
  re_validators :: "(address, validator_reputation) hashmap"
  re_current_slot :: slot
  re_decay_factors :: "f64 list"
  re_metrics :: reputation_metrics

record score_update =
  su_validator :: address
  su_old_score :: u64
  su_new_score :: u64
  su_delta :: "64 word"
  su_job_id :: hash

record reputation_snapshot =
  rs_slot :: slot
  rs_validators :: "(address, validator_reputation) hashmap"
  rs_config :: reputation_config

definition reputation_engine_new :: "libm \<Rightarrow> reputation_config \<Rightarrow> reputation_engine" where
  "reputation_engine_new L config =
     \<lparr>re_config = config, re_validators = [], re_current_slot = 0,
      re_decay_factors = map (\<lambda>day. lm_powi L (rc_decay_rate config) (sint (of_nat day :: 32 word)))
        [0..<Suc (unat (rc_window_days config))],
      re_metrics = \<lparr>rm_total_jobs_processed = 0, rm_score_recalculations = 0, rm_window_prunings = 0\<rparr>\<rparr>"

definition reputation_engine_production :: "libm \<Rightarrow> reputation_engine" where
  "reputation_engine_production L = reputation_engine_new L reputation_config_production"

definition reputation_engine_testnet :: "libm \<Rightarrow> reputation_engine" where
  "reputation_engine_testnet L = reputation_engine_new L reputation_config_testnet"

definition update_slot :: "reputation_engine \<Rightarrow> slot \<Rightarrow> reputation_engine" where
  "update_slot e slot = e\<lparr>re_current_slot := slot\<rparr>"

text \<open>\<open>(new as i64).saturating_sub(old as i64)\<close>.\<close>

definition score_delta :: "u64 \<Rightarrow> u64 \<Rightarrow> 64 word" where
  "score_delta new_score old_score =
     of_int (max (- (2 ^ 63)) (min (sint new_score - sint old_score) (2 ^ 63 - 1)))"

subsection \<open>Scores\<close>

definition job_contribution :: "reputation_config \<Rightarrow> f64 list \<Rightarrow> slot \<Rightarrow> compute_job_record \<Rightarrow> f64" where
  "job_contribution c decay_factors current_slot job =
     (let age = unat (age_days job current_slot);
          decay = (if age < length decay_factors then decay_factors ! age else f64_lit 0)
      in if cj_success job then f64_mul (weighted_score job) decay
         else f64_neg (f64_mul (f64_mul (u64_as_f64 (cj_complexity job)) (rc_failure_penalty_multiplier c)) decay))"

definition total_weighted ::
    "reputation_config \<Rightarrow> f64 list \<Rightarrow> slot \<Rightarrow> compute_job_record list \<Rightarrow> f64" where
  "total_weighted c decay_factors current_slot jobs =
     foldl (\<lambda>acc job.
         if age_days job current_slot > rc_window_days c then acc
         else f64_add acc (job_contribution c decay_factors current_slot job)) (f64_lit 0) jobs"

definition calculate_score :: "reputation_engine \<Rightarrow> validator_reputation \<Rightarrow> slot \<Rightarrow> u64" where
  "calculate_score e v current_slot =
     (let total = total_weighted (re_config e) (re_decay_factors e) current_slot (vr_window_jobs v);
          total = (if f64_ge (success_rate v) (rc_uptime_bonus_threshold (re_config e))
                   then f64_mul total
                          (f64_add (f64_lit 1)
                            (f64_min (f64_mul (u64_as_f64 (ucast (vr_active_streak v))) (f64_lit (1 / 100)))
                               (f64_lit (2 / 10))))
                   else total)
      in f64_as_word (f64_min (f64_max total (f64_lit 0)) (u64_as_f64 MAX_SCORE)))"

subsection \<open>Window and daily counters\<close>

definition prune_window_jobs :: "reputation_engine \<Rightarrow> validator_reputation \<Rightarrow> slot \<Rightarrow> validator_reputation" where
  "prune_window_jobs e v current_slot =
     (let window_start_slot =
            saturating_sub current_slot (ucast (rc_window_days (re_config e)) * SLOTS_PER_DAY)
      in v\<lparr>vr_window_jobs := dropWhile (\<lambda>job. cj_verified_at_slot job < window_start_slot) (vr_window_jobs v)\<rparr>)"

definition prune_expired_jobs :: "reputation_engine \<Rightarrow> slot \<Rightarrow> reputation_engine" where
  "prune_expired_jobs e current_slot =
     e\<lparr>re_validators := map (\<lambda>(a, v). (a, prune_window_jobs e v current_slot)) (re_validators e),
       re_metrics := (re_metrics e)\<lparr>rm_window_prunings := rm_window_prunings (re_metrics e) + 1\<rparr>\<rparr>"

definition get_daily_count :: "validator_reputation \<Rightarrow> u32 \<Rightarrow> u32" where
  "get_daily_count v day =
     (case find (\<lambda>(d, _). d = day) (vr_daily_job_counts v) of Some (_, count) \<Rightarrow> count | None \<Rightarrow> 0)"

fun bump_first :: "u32 \<Rightarrow> (u32 \<times> u32) list \<Rightarrow> (u32 \<times> u32) list" where
  "bump_first day [] = []"
| "bump_first day ((d, n) # rest) =
     (if d = day then (d, saturating_add n 1) # rest else (d, n) # bump_first day rest)"

text \<open>\<open>while len >= 7 { pop_front }\<close> leaves at most six entries, the newest.\<close>

definition keep_last_six :: "'a list \<Rightarrow> 'a list" where
  "keep_last_six xs = drop (length xs - 6) xs"

definition update_daily_count :: "validator_reputation \<Rightarrow> u32 \<Rightarrow> validator_reputation" where
  "update_daily_count v day =
     v\<lparr>vr_daily_job_counts :=
         (if day \<in> set (map fst (vr_daily_job_counts v)) then bump_first day (vr_daily_job_counts v)
          else keep_last_six (vr_daily_job_counts v) @ [(day, 1)])\<rparr>"

definition update_active_streak :: "validator_reputation \<Rightarrow> u32 \<Rightarrow> validator_reputation" where
  "update_active_streak v current_day =
     (let next_active_day = saturating_add (vr_last_active_day v) 1;
          v = (if vr_last_active_day v = 0 then v\<lparr>vr_active_streak := 1\<rparr>
               else if current_day = next_active_day
               then v\<lparr>vr_active_streak := saturating_add (vr_active_streak v) 1\<rparr>
               else if current_day > next_active_day then v\<lparr>vr_active_streak := 1\<rparr>
               else v)
      in v\<lparr>vr_last_active_day := current_day\<rparr>)"

subsection \<open>Operations\<close>

text \<open>The update of a validator's state by an accepted job, up to the score.\<close>

definition count_job :: "validator_reputation \<Rightarrow> compute_job_record \<Rightarrow> validator_reputation" where
  "count_job v job =
     v\<lparr>vr_window_jobs := vr_window_jobs v @ [job], vr_total_jobs := vr_total_jobs v + 1,
       vr_total_complexity := vr_total_complexity v + ucast (cj_complexity job),
       vr_successful_jobs := (if cj_success job then vr_successful_jobs v + 1 else vr_successful_jobs v),
       vr_failed_jobs := (if cj_success job then vr_failed_jobs v else vr_failed_jobs v + 1)\<rparr>"

definition smooth :: "reputation_config \<Rightarrow> validator_reputation \<Rightarrow> u64 \<Rightarrow> validator_reputation" where
  "smooth c v new_score =
     (if rc_enable_smoothing c
      then v\<lparr>vr_smoothed_score :=
               f64_add (f64_mul (vr_smoothed_score v) (f64_sub (f64_lit 1) (rc_smoothing_factor c)))
                 (f64_mul (u64_as_f64 new_score) (rc_smoothing_factor c))\<rparr>
      else v)"

definition put_validator ::
    "address \<Rightarrow> validator_reputation \<Rightarrow> reputation_engine \<Rightarrow> reputation_engine" where
  "put_validator a v e = e\<lparr>re_validators := hm_insert a v (re_validators e)\<rparr>"

definition record_job ::
    "reputation_engine \<Rightarrow> address \<Rightarrow> compute_job_record
      \<Rightarrow> reputation_engine \<times> score_update consensus_result" where
  "record_job e validator job =
     (let current_slot = re_current_slot e; c = re_config e
      in if cj_complexity job < rc_min_complexity c
         then (e, Err (ReputationUpdateFailed (hex_encode validator) ''Job complexity below minimum''))
         else
           let job = job\<lparr>cj_complexity := min (cj_complexity job) MAX_COMPLEXITY\<rparr>;
               v = hm_entry (validator_reputation_new validator) (re_validators e) validator;
               e = put_validator validator v e;
               current_day = ucast (current_slot div SLOTS_PER_DAY)
           in if get_daily_count v current_day \<ge> rc_max_jobs_per_day c
              then (e, Err (ReputationUpdateFailed (hex_encode validator) ''Daily job limit exceeded''))
              else
                let old_score = vr_current_score v;
                    v = count_job v job;
                    v = update_daily_count v current_day;
                    v = update_active_streak v current_day;
                    new_score = calculate_score e v current_slot;
                    v = v\<lparr>vr_current_score := new_score, vr_last_update_slot := current_slot\<rparr>;
                    v = smooth c v new_score;
                    e = put_validator validator v e;
                    e = e\<lparr>re_metrics := (re_metrics e)
                          \<lparr>rm_total_jobs_processed := rm_total_jobs_processed (re_metrics e) + 1\<rparr>\<rparr>
                in (e, Ok \<lparr>su_validator = validator, su_old_score = old_score, su_new_score = new_score,
                           su_delta = score_delta new_score old_score, su_job_id = cj_job_id job\<rparr>))"

fun record_jobs ::
    "(address \<times> compute_job_record) list \<Rightarrow> reputation_engine \<times> score_update list
      \<Rightarrow> reputation_engine \<times> score_update list" where
  "record_jobs [] s = s"
| "record_jobs ((validator, job) # rest) (e, updates) =
     (case record_job e validator job of
        (e, Ok u) \<Rightarrow> record_jobs rest (e, updates @ [u])
      | (e, Err _) \<Rightarrow> record_jobs rest (e, updates))"

definition process_block_results ::
    "reputation_engine \<Rightarrow> slot \<Rightarrow> (address \<times> compute_job_record) list
      \<Rightarrow> reputation_engine \<times> score_update list consensus_result" where
  "process_block_results e slot results =
     (case record_jobs results (update_slot e slot, []) of
        (e, updates) \<Rightarrow> (prune_expired_jobs e slot, Ok updates))"

text \<open>One iteration of the loop of \<open>apply_daily_decay\<close>.\<close>

definition decay_validator ::
    "reputation_engine \<Rightarrow> slot \<Rightarrow> validator_reputation \<Rightarrow> validator_reputation" where
  "decay_validator e current_slot v =
     (let v = prune_window_jobs e v current_slot
      in v\<lparr>vr_current_score := calculate_score e v current_slot, vr_last_update_slot := current_slot\<rparr>)"

definition decay_update :: "address \<Rightarrow> validator_reputation \<Rightarrow> validator_reputation \<Rightarrow> score_update list" where
  "decay_update a old v =
     (if vr_current_score old \<noteq> vr_current_score v
      then [\<lparr>su_validator = a, su_old_score = vr_current_score old, su_new_score = vr_current_score v,
             su_delta = score_delta (vr_current_score v) (vr_current_score old), su_job_id = zero_hash\<rparr>]
      else [])"

definition apply_daily_decay ::
    "reputation_engine \<Rightarrow> slot \<Rightarrow> reputation_engine \<times> score_update list consensus_result" where
  "apply_daily_decay e current_slot =
     (let updates = concat (map (\<lambda>(a, v). decay_update a v (decay_validator e current_slot v)) (re_validators e));
          m = re_metrics e
      in (e\<lparr>re_validators := map (\<lambda>(a, v). (a, decay_validator e current_slot v)) (re_validators e),
            re_metrics := m\<lparr>rm_score_recalculations := rm_score_recalculations m + of_nat (length updates)\<rparr>\<rparr>,
          Ok updates))"

subsection \<open>Queries, snapshots\<close>

definition get_score :: "reputation_engine \<Rightarrow> address \<Rightarrow> u64" where
  "get_score e a = (case hm_get (re_validators e) a of Some v \<Rightarrow> vr_current_score v | None \<Rightarrow> 0)"

definition get_smoothed_score :: "reputation_engine \<Rightarrow> address \<Rightarrow> f64" where
  "get_smoothed_score e a =
     (case hm_get (re_validators e) a of Some v \<Rightarrow> vr_smoothed_score v | None \<Rightarrow> f64_lit 0)"

definition get_reputation :: "reputation_engine \<Rightarrow> address \<Rightarrow> validator_reputation option" where
  "get_reputation e a = hm_get (re_validators e) a"

definition get_all_scores :: "reputation_engine \<Rightarrow> (address, u64) hashmap" where
  "get_all_scores e = map (\<lambda>(a, v). (a, vr_current_score v)) (re_validators e)"

text \<open>A stable sort with the scores in descending order.\<close>

definition get_top_validators :: "reputation_engine \<Rightarrow> nat \<Rightarrow> (address \<times> u64) list" where
  "get_top_validators e n = take n (sort_key (\<lambda>(_, score). - int (unat score)) (get_all_scores e))"

definition reputation_snapshot_of :: "reputation_engine \<Rightarrow> reputation_snapshot" where
  "reputation_snapshot_of e =
     \<lparr>rs_slot = re_current_slot e, rs_validators = re_validators e, rs_config = re_config e\<rparr>"

definition reputation_restore ::
    "reputation_engine \<Rightarrow> reputation_snapshot \<Rightarrow> reputation_engine \<times> unit consensus_result" where
  "reputation_restore e s =
     (e\<lparr>re_current_slot := rs_slot s, re_validators := rs_validators s\<rparr>, Ok ())"

end
