(* ===== verification/Hybrid_Signature.thy ===== *)
theory Hybrid_Signature
  imports Rust_Bytes
begin

text \<open>
  \<open>src/crates/core/src/crypto/mod.rs\<close>, \<open>hash.rs\<close> and \<open>hybrid.rs\<close>: errors, domain-separated hashes,
  and the hybrid ECDSA and Dilithium signatures with their keys and wire formats, as the default
  feature set (\<open>full-pqc\<close>) compiles them.

  The cryptographic crates (\<open>sha2\<close>, \<open>sha3\<close>, \<open>k256\<close>, \<open>pqcrypto-dilithium\<close>) are the record
  \<open>crypto_lib\<close>: digests, the parsing of keys and signatures (\<open>None\<close> is success, \<open>Some\<close> the message
  of the error), signing and verification. The wall clock and random keys are arguments. \<open>None\<close> of
  \<open>signature_to_bytes\<close> is the panic of its \<open>expect\<close>.
\<close>

section \<open>Errors and algorithms\<close>

datatype crypto_error =
    InvalidSignatureLength nat nat
  | InvalidPublicKeyLength nat nat
  | InvalidSecretKeyLength nat nat
  | VerificationFailed
  | KeyGenerationFailed string
  | SigningFailed string
  | InvalidKeyFormat string
  | UnsupportedAlgorithm string
  | HybridComponentMismatch
  | QuantumThreatActive
  | KeyDerivationFailed string
  | DecapsulationFailed

type_synonym 'a crypto_result = "(crypto_error, 'a) result"

fun show_crypto_error :: "crypto_error \<Rightarrow> string" where
  "show_crypto_error (InvalidSignatureLength expected actual) =
     ''Invalid signature length: expected '' @ show_nat expected @ '', got '' @ show_nat actual"
| "show_crypto_error (InvalidPublicKeyLength expected actual) =
     ''Invalid public key length: expected '' @ show_nat expected @ '', got '' @ show_nat actual"
| "show_crypto_error (InvalidSecretKeyLength expected actual) =
     ''Invalid secret key length: expected '' @ show_nat expected @ '', got '' @ show_nat actual"
| "show_crypto_error VerificationFailed = ''Signature verification failed''"
| "show_crypto_error (KeyGenerationFailed s) = ''Key generation failed: '' @ s"
| "show_crypto_error (SigningFailed s) = ''Signing failed: '' @ s"
| "show_crypto_error (InvalidKeyFormat s) = ''Invalid key format: '' @ s"
| "show_crypto_error (UnsupportedAlgorithm s) = ''Unsupported algorithm: '' @ s"
| "show_crypto_error HybridComponentMismatch = ''Hybrid signature component mismatch''"
| "show_crypto_error QuantumThreatActive = ''Quantum threat level requires PQC-only signatures''"
| "show_crypto_error (KeyDerivationFailed s) = ''Key derivation failed: '' @ s"
| "show_crypto_error DecapsulationFailed = ''Decapsulation failed''"

datatype signature_algorithm = EcdsaSecp256k1 | Dilithium3 | HybridAlgorithm | Dilithium5

fun algorithm_to_byte :: "signature_algorithm \<Rightarrow> u8" where
  "algorithm_to_byte EcdsaSecp256k1 = 1"
| "algorithm_to_byte Dilithium3 = 2"
| "algorithm_to_byte HybridAlgorithm = 3"
| "algorithm_to_byte Dilithium5 = 4"

definition algorithm_from_byte :: "u8 \<Rightarrow> signature_algorithm option" where
  "algorithm_from_byte b =
     (if b = 1 then Some EcdsaSecp256k1 else if b = 2 then Some Dilithium3
      else if b = 3 then Some HybridAlgorithm else if b = 4 then Some Dilithium5 else None)"

definition is_quantum_safe :: "signature_algorithm \<Rightarrow> bool" where
  "is_quantum_safe a = (a = Dilithium3 \<or> a = Dilithium5 \<or> a = HybridAlgorithm)"

fun algorithm_signature_size :: "signature_algorithm \<Rightarrow> nat" where
  "algorithm_signature_size EcdsaSecp256k1 = 64"
| "algorithm_signature_size Dilithium3 = 3309"
| "algorithm_signature_size Dilithium5 = 4627"
| "algorithm_signature_size HybridAlgorithm = 64 + 3309 + 1"

fun algorithm_public_key_size :: "signature_algorithm \<Rightarrow> nat" where
  "algorithm_public_key_size EcdsaSecp256k1 = 33"
| "algorithm_public_key_size Dilithium3 = 1952"
| "algorithm_public_key_size Dilithium5 = 2592"
| "algorithm_public_key_size HybridAlgorithm = 33 + 1952 + 1"

text \<open>\<open>QuantumThreatLevel\<close> wraps a byte.\<close>

type_synonym quantum_threat_level = u8

definition skip_classical :: "quantum_threat_level \<Rightarrow> bool" where
  "skip_classical l = (l \<ge> 5)"

definition classical_optional :: "quantum_threat_level \<Rightarrow> bool" where
  "classical_optional l = (l \<ge> 3)"

definition quantum_only :: "quantum_threat_level \<Rightarrow> bool" where
  "quantum_only l = (l \<ge> 5)"

section \<open>The cryptographic crates\<close>

record crypto_lib =
  cl_sha256 :: "bytes \<Rightarrow> bytes"
  cl_sha512 :: "bytes \<Rightarrow> bytes"
  cl_keccak256 :: "bytes \<Rightarrow> bytes"
  cl_ec_key_error :: "bytes \<Rightarrow> string option"
  cl_ec_signature_error :: "bytes \<Rightarrow> string option"
  cl_ec_verify :: "bytes \<Rightarrow> bytes \<Rightarrow> bytes \<Rightarrow> bool"
  cl_ec_secret_error :: "bytes \<Rightarrow> string option"
  cl_ec_public :: "bytes \<Rightarrow> bytes"
  cl_ec_sign :: "bytes \<Rightarrow> bytes \<Rightarrow> bytes"
  cl_ec_uncompressed :: "bytes \<Rightarrow> bytes"
  cl_dil_signature_ok :: "bytes \<Rightarrow> bool"
  cl_dil_key_ok :: "bytes \<Rightarrow> bool"
  cl_dil_verify :: "bytes \<Rightarrow> bytes \<Rightarrow> bytes \<Rightarrow> bool"
  cl_dil_secret_ok :: "bytes \<Rightarrow> bool"
  cl_dil_sign :: "bytes \<Rightarrow> bytes \<Rightarrow> bytes"

section \<open>Hashes\<close>

type_synonym hash256 = bytes

definition hash256_zero :: hash256 where
  "hash256_zero = replicate 32 0"

definition hash256_from_slice :: "bytes \<Rightarrow> hash256 option" where
  "hash256_from_slice s = (if length s \<noteq> 32 then None else Some s)"

definition hash256_is_zero :: "hash256 \<Rightarrow> bool" where
  "hash256_is_zero h = list_all (\<lambda>b. b = 0) h"

definition hash_many :: "crypto_lib \<Rightarrow> bytes list \<Rightarrow> hash256" where
  "hash_many C inputs = cl_sha256 C (concat inputs)"

definition double_sha256 :: "crypto_lib \<Rightarrow> bytes \<Rightarrow> hash256" where
  "double_sha256 C data = cl_sha256 C (cl_sha256 C data)"

definition transaction_hash :: "crypto_lib \<Rightarrow> bytes \<Rightarrow> hash256" where
  "transaction_hash C tx_bytes = hash_many C [ascii ''aethelred:transaction:v1:'', tx_bytes]"

definition block_hash :: "crypto_lib \<Rightarrow> bytes \<Rightarrow> hash256" where
  "block_hash C block_bytes = hash_many C [ascii ''aethelred:block:v1:'', block_bytes]"

definition commitment_hash :: "crypto_lib \<Rightarrow> bytes \<Rightarrow> bytes \<Rightarrow> hash256" where
  "commitment_hash C v blinding = hash_many C [ascii ''aethelred:commitment:v1:'', v, blinding]"

definition merkle_combine :: "crypto_lib \<Rightarrow> hash256 \<Rightarrow> hash256 \<Rightarrow> hash256" where
  "merkle_combine C left right = hash_many C [ascii ''aethelred:merkle:v1:'', left, right]"

fun combine_level :: "crypto_lib \<Rightarrow> hash256 list \<Rightarrow> hash256 list" where
  "combine_level C (x # y # zs) = merkle_combine C x y # combine_level C zs"
| "combine_level C [x] = [merkle_combine C x x]"
| "combine_level C [] = []"

lemma length_combine_level: "length (combine_level C xs) = (length xs + 1) div 2"
  by (induction C xs rule: combine_level.induct) auto

function combine_levels :: "crypto_lib \<Rightarrow> hash256 list \<Rightarrow> hash256 list" where
  "combine_levels C level =
     (if length level > 1 then combine_levels C (combine_level C level) else level)"
  by pat_completeness auto
termination
  by (relation "measure (\<lambda>(C, level). length level)") (auto simp: length_combine_level)

definition hash_merkle_root :: "crypto_lib \<Rightarrow> hash256 list \<Rightarrow> hash256" where
  "hash_merkle_root C leaves =
     (if leaves = [] then hash256_zero
      else if length leaves = 1 then leaves ! 0
      else combine_levels C leaves ! 0)"

record merkle_proof =
  mp_path :: "(hash256 \<times> bool) list"
  mp_leaf_index :: nat

definition merkle_proof_verify :: "crypto_lib \<Rightarrow> merkle_proof \<Rightarrow> hash256 \<Rightarrow> hash256 \<Rightarrow> bool" where
  "merkle_proof_verify C p leaf base =
     (foldl (\<lambda>current (sibling, is_left). if is_left then merkle_combine C sibling current
                                         else merkle_combine C current sibling) leaf (mp_path p)
      = base)"

section \<open>Verifier configuration\<close>

datatype dilithium_security_level = Level2 | Level3 | Level5

fun level_as_u8 :: "dilithium_security_level \<Rightarrow> u8" where
  "level_as_u8 Level2 = 2"
| "level_as_u8 Level3 = 3"
| "level_as_u8 Level5 = 5"

text \<open>The derived order follows the declaration.\<close>

definition level_less :: "dilithium_security_level \<Rightarrow> dilithium_security_level \<Rightarrow> bool" where
  "level_less a b = (level_as_u8 a < level_as_u8 b)"

fun show_level :: "dilithium_security_level \<Rightarrow> string" where
  "show_level Level2 = ''Level2''"
| "show_level Level3 = ''Level3''"
| "show_level Level5 = ''Level5''"

fun public_key_size :: "dilithium_security_level \<Rightarrow> nat" where
  "public_key_size Level2 = 1312"
| "public_key_size Level3 = 1952"
| "public_key_size Level5 = 2592"

fun secret_key_size :: "dilithium_security_level \<Rightarrow> nat" where
  "secret_key_size Level2 = 2528"
| "secret_key_size Level3 = 4032"
| "secret_key_size Level5 = 4896"

fun signature_size :: "dilithium_security_level \<Rightarrow> nat" where
  "signature_size Level2 = 2420"
| "signature_size Level3 = 3309"
| "signature_size Level5 = 4627"

record verifier_config =
  vc_panic_mode_qc :: bool
  vc_min_dilithium_level :: dilithium_security_level
  vc_allow_legacy_ecdsa_only :: bool
  vc_require_dual_sig_always :: bool
  vc_max_signature_age_secs :: "u64 option"
  vc_chain_id :: u64

definition verifier_config_default :: verifier_config where
  "verifier_config_default =
     \<lparr>vc_panic_mode_qc = False, vc_min_dilithium_level = Level3, vc_allow_legacy_ecdsa_only = False,
      vc_require_dual_sig_always = False, vc_max_signature_age_secs = None, vc_chain_id = 1\<rparr>"

definition verifier_config_devnet :: verifier_config where
  "verifier_config_devnet =
     \<lparr>vc_panic_mode_qc = False, vc_min_dilithium_level = Level2, vc_allow_legacy_ecdsa_only = False,
      vc_require_dual_sig_always = False, vc_max_signature_age_secs = Some 3600, vc_chain_id = 9999\<rparr>"

definition verifier_config_testnet :: verifier_config where
  "verifier_config_testnet =
     \<lparr>vc_panic_mode_qc = False, vc_min_dilithium_level = Level3, vc_allow_legacy_ecdsa_only = False,
      vc_require_dual_sig_always = False, vc_max_signature_age_secs = Some 7200, vc_chain_id = 2\<rparr>"

definition verifier_config_mainnet :: verifier_config where
  "verifier_config_mainnet =
     \<lparr>vc_panic_mode_qc = False, vc_min_dilithium_level = Level3, vc_allow_legacy_ecdsa_only = False,
      vc_require_dual_sig_always = True, vc_max_signature_age_secs = None, vc_chain_id = 1\<rparr>"

definition enter_panic_mode :: "verifier_config \<Rightarrow> verifier_config" where
  "enter_panic_mode c = c\<lparr>vc_panic_mode_qc := True, vc_allow_legacy_ecdsa_only := False\<rparr>"

section \<open>Keys\<close>

definition HYBRID_MARKER :: u8 where "HYBRID_MARKER = 0x03"
definition COMPONENT_SEPARATOR :: u8 where "COMPONENT_SEPARATOR = 0xFF"
definition SIGNATURE_VERSION_V1 :: u8 where "SIGNATURE_VERSION_V1 = 0x01"
definition SIGNATURE_VERSION_V2 :: u8 where "SIGNATURE_VERSION_V2 = 0x02"
definition SIGNATURE_VERSION :: u8 where "SIGNATURE_VERSION = SIGNATURE_VERSION_V2"

lemmas wire_constants = HYBRID_MARKER_def COMPONENT_SEPARATOR_def SIGNATURE_VERSION_V1_def
  SIGNATURE_VERSION_V2_def SIGNATURE_VERSION_def

text \<open>\<open>EcdsaPublicKey\<close> wraps its bytes.\<close>

type_synonym ecdsa_public_key = bytes

definition ecdsa_public_from_bytes :: "crypto_lib \<Rightarrow> bytes \<Rightarrow> ecdsa_public_key crypto_result" where
  "ecdsa_public_from_bytes C bs =
     (if length bs \<noteq> 33 \<and> length bs \<noteq> 65 then Err (InvalidPublicKeyLength 33 (length bs))
      else case cl_ec_key_error C bs of
        Some e \<Rightarrow> Err (InvalidKeyFormat e)
      | None \<Rightarrow> Ok bs)"

text \<open>The last 20 bytes of the Keccak digest of the uncompressed point without its prefix.\<close>

definition to_eth_address :: "crypto_lib \<Rightarrow> ecdsa_public_key \<Rightarrow> bytes" where
  "to_eth_address C pk = drop 12 (cl_keccak256 C (drop 1 (cl_ec_uncompressed C pk)))"

record dilithium_public_key =
  dp_bytes :: bytes
  dp_level :: dilithium_security_level

definition dilithium_public_from_bytes ::
    "bytes \<Rightarrow> dilithium_security_level \<Rightarrow> dilithium_public_key crypto_result" where
  "dilithium_public_from_bytes bs level =
     (if length bs \<noteq> public_key_size level
      then Err (InvalidPublicKeyLength (public_key_size level) (length bs))
      else Ok \<lparr>dp_bytes = bs, dp_level = level\<rparr>)"

record hybrid_public_key =
  hp_classical :: ecdsa_public_key
  hp_quantum :: dilithium_public_key

definition parse_level_byte :: "u8 \<Rightarrow> dilithium_security_level crypto_result" where
  "parse_level_byte level_byte =
     (if level_byte = 2 then Ok Level2
      else if level_byte = 3 then Ok Level3
      else if level_byte = 5 then Ok Level5
      else Err (InvalidKeyFormat (''Invalid Dilithium level: '' @ show_word level_byte)))"

definition hybrid_public_from_bytes :: "crypto_lib \<Rightarrow> bytes \<Rightarrow> hybrid_public_key crypto_result" where
  "hybrid_public_from_bytes C bs =
     (if length bs < 36 then Err (InvalidPublicKeyLength 36 (length bs))
      else if bs ! 0 \<noteq> SIGNATURE_VERSION \<or> bs ! 1 \<noteq> HYBRID_MARKER
      then Err (InvalidKeyFormat ''Invalid hybrid key header'')
      else case ecdsa_public_from_bytes C (slice 2 35 bs) of
        Err e \<Rightarrow> Err e
      | Ok classical \<Rightarrow>
          if bs ! 35 \<noteq> COMPONENT_SEPARATOR then Err (InvalidKeyFormat ''Missing component separator'')
          else case parse_level_byte (last bs) of
            Err e \<Rightarrow> Err e
          | Ok level \<Rightarrow>
              let expected_len = 36 + public_key_size level + 1
              in if length bs \<noteq> expected_len then Err (InvalidPublicKeyLength expected_len (length bs))
                 else case dilithium_public_from_bytes (slice 36 (36 + public_key_size level) bs) level of
                   Err e \<Rightarrow> Err e
                 | Ok quantum \<Rightarrow> Ok \<lparr>hp_classical = classical, hp_quantum = quantum\<rparr>)"

definition hybrid_public_to_bytes :: "hybrid_public_key \<Rightarrow> bytes" where
  "hybrid_public_to_bytes k =
     [SIGNATURE_VERSION, HYBRID_MARKER] @ hp_classical k @ [COMPONENT_SEPARATOR]
     @ dp_bytes (hp_quantum k) @ [level_as_u8 (dp_level (hp_quantum k))]"

definition public_serialized_size :: "hybrid_public_key \<Rightarrow> nat" where
  "public_serialized_size k = 2 + length (hp_classical k) + 1 + length (dp_bytes (hp_quantum k)) + 1"

definition fingerprint :: "crypto_lib \<Rightarrow> hybrid_public_key \<Rightarrow> hash256" where
  "fingerprint C k = cl_sha256 C (hybrid_public_to_bytes k)"

definition key_to_address :: "crypto_lib \<Rightarrow> hybrid_public_key \<Rightarrow> string" where
  "key_to_address C k = ''aethel1'' @ hex_encode (take 20 (fingerprint C k))"

definition key_to_eth_address :: "crypto_lib \<Rightarrow> hybrid_public_key \<Rightarrow> string" where
  "key_to_eth_address C k = ''0x'' @ hex_encode (to_eth_address C (hp_classical k))"

type_synonym ecdsa_secret_key = bytes

definition ecdsa_secret_from_bytes :: "bytes \<Rightarrow> ecdsa_secret_key crypto_result" where
  "ecdsa_secret_from_bytes bs =
     (if length bs \<noteq> 32 then Err (InvalidSecretKeyLength 32 (length bs)) else Ok bs)"

definition ecdsa_secret_public_key :: "crypto_lib \<Rightarrow> ecdsa_secret_key \<Rightarrow> ecdsa_public_key crypto_result" where
  "ecdsa_secret_public_key C sk =
     (case cl_ec_secret_error C sk of
        Some e \<Rightarrow> Err (KeyGenerationFailed e)
      | None \<Rightarrow> ecdsa_public_from_bytes C (cl_ec_public C sk))"

record dilithium_secret_key =
  ds_bytes :: bytes
  ds_level :: dilithium_security_level

definition dilithium_secret_from_bytes ::
    "bytes \<Rightarrow> dilithium_security_level \<Rightarrow> dilithium_secret_key crypto_result" where
  "dilithium_secret_from_bytes bs level =
     (if length bs \<noteq> secret_key_size level
      then Err (InvalidSecretKeyLength (secret_key_size level) (length bs))
      else Ok \<lparr>ds_bytes = bs, ds_level = level\<rparr>)"

record hybrid_secret_key =
  hs_classical :: ecdsa_secret_key
  hs_quantum :: dilithium_secret_key

text \<open>\<open>derive_dilithium_public_key\<close> repeats the 32 bytes of a digest of the secret key.\<close>

definition derive_dilithium_public_key :: "crypto_lib \<Rightarrow> dilithium_secret_key \<Rightarrow> dilithium_public_key crypto_result" where
  "derive_dilithium_public_key C sk =
     (let h = cl_sha256 C (ascii ''dilithium-derive-pk:'' @ ds_bytes sk)
      in dilithium_public_from_bytes
           (map (\<lambda>i. h ! (i mod 32)) [0..<public_key_size (ds_level sk)]) (ds_level sk))"

definition hybrid_secret_public_key :: "crypto_lib \<Rightarrow> hybrid_secret_key \<Rightarrow> hybrid_public_key crypto_result" where
  "hybrid_secret_public_key C sk =
     (case ecdsa_secret_public_key C (hs_classical sk) of
        Err e \<Rightarrow> Err e
      | Ok classical \<Rightarrow>
          (case derive_dilithium_public_key C (hs_quantum sk) of
             Err e \<Rightarrow> Err e
           | Ok quantum \<Rightarrow> Ok \<lparr>hp_classical = classical, hp_quantum = quantum\<rparr>))"

section \<open>Signatures\<close>

record hybrid_signature =
  sg_classical :: bytes
  sg_quantum :: bytes
  sg_level :: dilithium_security_level
  sg_timestamp :: "u64 option"
  sg_chain_id :: "u64 option"

definition hybrid_signature_new :: "bytes \<Rightarrow> bytes \<Rightarrow> dilithium_security_level \<Rightarrow> hybrid_signature" where
  "hybrid_signature_new classical quantum level =
     \<lparr>sg_classical = classical, sg_quantum = quantum, sg_level = level, sg_timestamp = None, sg_chain_id = None\<rparr>"

definition with_metadata ::
    "bytes \<Rightarrow> bytes \<Rightarrow> dilithium_security_level \<Rightarrow> u64 \<Rightarrow> u64 \<Rightarrow> hybrid_signature" where
  "with_metadata classical quantum level timestamp chain_id =
     \<lparr>sg_classical = classical, sg_quantum = quantum, sg_level = level,
      sg_timestamp = Some timestamp, sg_chain_id = Some chain_id\<rparr>"

definition validate_format :: "hybrid_signature \<Rightarrow> (string, unit) result" where
  "validate_format s =
     (if length (sg_classical s) \<noteq> 64
      then Err (''Invalid ECDSA signature size: expected 64, got '' @ show_nat (length (sg_classical s)))
      else if length (sg_quantum s) \<noteq> signature_size (sg_level s)
      then Err (''Invalid Dilithium signature size: expected exactly '' @ show_nat (signature_size (sg_level s))
                @ '', got '' @ show_nat (length (sg_quantum s)))
      else Ok ())"

definition verify_dilithium ::
    "crypto_lib \<Rightarrow> hybrid_signature \<Rightarrow> bytes \<Rightarrow> dilithium_public_key \<Rightarrow> (string, bool) result" where
  "verify_dilithium C s msg_hash pubkey =
     (if \<not> cl_dil_signature_ok C (sg_quantum s) then Err ''Malformed Dilithium signature''
      else if \<not> cl_dil_key_ok C (dp_bytes pubkey) then Err ''Malformed Dilithium public key''
      else Ok (cl_dil_verify C (dp_bytes pubkey) msg_hash (sg_quantum s)))"

definition verify_ecdsa ::
    "crypto_lib \<Rightarrow> hybrid_signature \<Rightarrow> bytes \<Rightarrow> ecdsa_public_key \<Rightarrow> (string, bool) result" where
  "verify_ecdsa C s msg_hash pubkey =
     (if length (sg_classical s) \<noteq> 64
      then Err (''Invalid ECDSA signature size: expected 64, got '' @ show_nat (length (sg_classical s)))
      else case cl_ec_signature_error C (sg_classical s) of
        Some e \<Rightarrow> Err (''Malformed ECDSA Signature: '' @ e)
      | None \<Rightarrow>
          (case cl_ec_key_error C pubkey of
             Some e \<Rightarrow> Err (''Malformed ECDSA Public Key: '' @ e)
           | None \<Rightarrow> Ok (cl_ec_verify C pubkey msg_hash (sg_classical s))))"

text \<open>
  Step 2 of \<open>verify\<close>; \<open>clock\<close> is the number of seconds since the Unix epoch, \<open>None\<close> before it.
\<close>

definition check_age :: "u64 option \<Rightarrow> verifier_config \<Rightarrow> hybrid_signature \<Rightarrow> (string, unit) result" where
  "check_age clock config s =
     (case (vc_max_signature_age_secs config, sg_timestamp s) of
        (Some max_age, Some sig_timestamp) \<Rightarrow>
          (case clock of
             None \<Rightarrow> Err ''System clock is before UNIX epoch - cannot verify signature age''
           | Some now \<Rightarrow>
               if now > sig_timestamp \<and> now - sig_timestamp > max_age
               then Err (''Signature expired: age '' @ show_word (now - sig_timestamp) @ '' > max '' @ show_word max_age)
               else Ok ())
      | _ \<Rightarrow> Ok ())"

definition check_chain_id :: "verifier_config \<Rightarrow> hybrid_signature \<Rightarrow> (string, unit) result" where
  "check_chain_id config s =
     (case sg_chain_id s of
        Some sig_chain_id \<Rightarrow>
          if sig_chain_id \<noteq> vc_chain_id config
          then Err (''Chain ID mismatch: signature='' @ show_word sig_chain_id @ '', config='' @ show_word (vc_chain_id config))
          else Ok ()
      | None \<Rightarrow> Ok ())"

definition signature_verify ::
    "crypto_lib \<Rightarrow> u64 option \<Rightarrow> hybrid_signature \<Rightarrow> bytes \<Rightarrow> hybrid_public_key \<Rightarrow> verifier_config
      \<Rightarrow> (string, unit) result" where
  "signature_verify C clock s message pubkey config =
     (case validate_format s of
        Err e \<Rightarrow> Err e
      | Ok _ \<Rightarrow>
      if level_less (sg_level s) (vc_min_dilithium_level config)
      then Err (''Dilithium security level '' @ show_level (sg_level s) @ '' below minimum ''
                @ show_level (vc_min_dilithium_level config))
      else case check_age clock config s of
        Err e \<Rightarrow> Err e
      | Ok _ \<Rightarrow>
      (case check_chain_id config s of
        Err e \<Rightarrow> Err e
      | Ok _ \<Rightarrow>
      (let msg_hash = cl_keccak256 C message
       in case verify_dilithium C s msg_hash (hp_quantum pubkey) of
            Err e \<Rightarrow> Err e
          | Ok quantum_valid \<Rightarrow>
              if \<not> quantum_valid then Err ''Invalid Post-Quantum Dilithium Signature''
              else if vc_panic_mode_qc config then Ok ()
              else (case verify_ecdsa C s msg_hash (hp_classical pubkey) of
                      Err e \<Rightarrow> Err e
                    | Ok classical_valid \<Rightarrow>
                        if \<not> classical_valid then Err ''Invalid Classical ECDSA Signature'' else Ok ()))))"

section \<open>Wire format\<close>

fun flagged_u64 :: "u64 option \<Rightarrow> bytes" where
  "flagged_u64 (Some v) = 0x01 # le_bytes 8 v"
| "flagged_u64 None = [0x00]"

definition signature_to_bytes :: "hybrid_signature \<Rightarrow> bytes option" where
  "signature_to_bytes s =
     (if length (sg_quantum s) \<ge> 2 ^ 16 then None
      else Some ([SIGNATURE_VERSION_V2, HYBRID_MARKER] @ sg_classical s
                 @ [COMPONENT_SEPARATOR, level_as_u8 (sg_level s)]
                 @ le_bytes 2 (of_nat (length (sg_quantum s)) :: u16) @ sg_quantum s
                 @ flagged_u64 (sg_timestamp s) @ flagged_u64 (sg_chain_id s)))"

text \<open>One optional field of the metadata, read at \<open>cursor\<close>: its value and the next cursor.\<close>

definition parse_flagged :: "bytes \<Rightarrow> nat \<Rightarrow> (u64 option \<times> nat) option" where
  "parse_flagged bs cursor =
     (if cursor \<ge> length bs then None
      else if bs ! cursor = 0x00 then Some (None, cursor + 1)
      else if bs ! cursor = 0x01 then
        (if length bs < cursor + 9 then None
         else Some (Some (le_word (slice (cursor + 1) (cursor + 9) bs)), cursor + 9))
      else None)"

definition parse_signature_metadata :: "bytes \<Rightarrow> nat \<Rightarrow> (u64 option \<times> u64 option \<times> nat) option" where
  "parse_signature_metadata bs offset =
     (case parse_flagged bs offset of
        None \<Rightarrow> None
      | Some (timestamp, cursor) \<Rightarrow>
          (case parse_flagged bs cursor of
             None \<Rightarrow> None
           | Some (chain_id, cursor') \<Rightarrow> Some (timestamp, chain_id, cursor')))"

definition parse_signature_v2 :: "bytes \<Rightarrow> hybrid_signature crypto_result" where
  "parse_signature_v2 bs =
     (if length bs < 72 then Err (InvalidSignatureLength 72 (length bs))
      else if bs ! 66 \<noteq> COMPONENT_SEPARATOR then Err (InvalidKeyFormat ''Missing component separator'')
      else case parse_level_byte (bs ! 67) of
        Err e \<Rightarrow> Err e
      | Ok level \<Rightarrow>
          let quantum_len = unat (le_word (slice 68 70 bs) :: u16);
              max_quantum_len = signature_size level;
              quantum_end = 70 + quantum_len
          in if quantum_len = 0 \<or> quantum_len > max_quantum_len
             then Err (InvalidKeyFormat (''Invalid Dilithium signature length '' @ show_nat quantum_len
                        @ '' for level '' @ show_level level @ '' (max '' @ show_nat max_quantum_len @ '')''))
             else if length bs < quantum_end + 2
             then Err (InvalidSignatureLength (quantum_end + 2) (length bs))
             else case parse_signature_metadata bs quantum_end of
               None \<Rightarrow> Err (InvalidKeyFormat ''Malformed hybrid signature metadata'')
             | Some (timestamp, chain_id, consumed) \<Rightarrow>
                 if consumed \<noteq> length bs then Err (InvalidKeyFormat ''Trailing bytes in hybrid signature'')
                 else Ok \<lparr>sg_classical = slice 2 66 bs, sg_quantum = slice 70 quantum_end bs,
                          sg_level = level, sg_timestamp = timestamp, sg_chain_id = chain_id\<rparr>)"

text \<open>The loop of \<open>parse_signature_v1\<close> over the levels, and one turn of it.\<close>

definition try_level_v1 :: "bytes \<Rightarrow> dilithium_security_level \<Rightarrow> hybrid_signature option" where
  "try_level_v1 bs level =
     (let quantum_size = signature_size level;
          level_offset = 67 + quantum_size
      in if length bs \<le> level_offset then None
         else if bs ! level_offset \<noteq> level_as_u8 level then None
         else case parse_signature_metadata bs (level_offset + 1) of
           None \<Rightarrow> None
         | Some (timestamp, chain_id, consumed) \<Rightarrow>
             if consumed \<noteq> length bs then None
             else Some \<lparr>sg_classical = slice 2 66 bs, sg_quantum = slice 67 (67 + quantum_size) bs,
                        sg_level = level, sg_timestamp = timestamp, sg_chain_id = chain_id\<rparr>)"

fun try_levels_v1 :: "bytes \<Rightarrow> dilithium_security_level list \<Rightarrow> hybrid_signature option" where
  "try_levels_v1 bs [] = None"
| "try_levels_v1 bs (level # levels) =
     (case try_level_v1 bs level of Some s \<Rightarrow> Some s | None \<Rightarrow> try_levels_v1 bs levels)"

definition parse_signature_v1 :: "bytes \<Rightarrow> hybrid_signature crypto_result" where
  "parse_signature_v1 bs =
     (if length bs < 70 then Err (InvalidSignatureLength 70 (length bs))
      else if bs ! 66 \<noteq> COMPONENT_SEPARATOR then Err (InvalidKeyFormat ''Missing component separator'')
      else case try_levels_v1 bs [Level2, Level3, Level5] of
        Some s \<Rightarrow> Ok s
      | None \<Rightarrow> Err (InvalidKeyFormat ''Invalid hybrid signature encoding for all supported levels''))"

definition show_byte :: "u8 \<Rightarrow> string" where
  "show_byte b = ''0x'' @ hex_encode [b]"

definition signature_from_bytes :: "bytes \<Rightarrow> hybrid_signature crypto_result" where
  "signature_from_bytes bs =
     (if length bs < 2 then Err (InvalidSignatureLength 2 (length bs))
      else if bs ! 1 \<noteq> HYBRID_MARKER
      then Err (InvalidKeyFormat (''Expected hybrid signature marker '' @ show_byte HYBRID_MARKER
                                  @ '', got '' @ show_byte (bs ! 1)))
      else if bs ! 0 = SIGNATURE_VERSION_V2 then parse_signature_v2 bs
      else if bs ! 0 = SIGNATURE_VERSION_V1 then parse_signature_v1 bs
      else Err (InvalidKeyFormat (''Unsupported signature version: '' @ show_word (bs ! 0))))"

definition signature_serialized_size :: "hybrid_signature \<Rightarrow> nat" where
  "signature_serialized_size s = 2 + 64 + 1 + 1 + 2 + length (sg_quantum s) + 2 + 16"

section \<open>Signing\<close>

definition sign_ecdsa :: "crypto_lib \<Rightarrow> bytes \<Rightarrow> ecdsa_secret_key \<Rightarrow> bytes crypto_result" where
  "sign_ecdsa C msg_hash sk =
     (case cl_ec_secret_error C sk of
        Some e \<Rightarrow> Err (SigningFailed e)
      | None \<Rightarrow> Ok (cl_ec_sign C sk msg_hash))"

definition sign_dilithium :: "crypto_lib \<Rightarrow> bytes \<Rightarrow> dilithium_secret_key \<Rightarrow> bytes crypto_result" where
  "sign_dilithium C msg_hash sk =
     (if \<not> cl_dil_secret_ok C (ds_bytes sk) then Err (InvalidKeyFormat ''Invalid Dilithium secret key'')
      else Ok (cl_dil_sign C (ds_bytes sk) msg_hash))"

definition secret_sign_with ::
    "crypto_lib \<Rightarrow> hybrid_secret_key \<Rightarrow> bytes \<Rightarrow> u64 option \<Rightarrow> u64 option \<Rightarrow> hybrid_signature crypto_result" where
  "secret_sign_with C sk message timestamp chain_id =
     (let msg_hash = cl_keccak256 C message
      in case sign_ecdsa C msg_hash (hs_classical sk) of
           Err e \<Rightarrow> Err e
         | Ok classical \<Rightarrow>
             (case sign_dilithium C msg_hash (hs_quantum sk) of
                Err e \<Rightarrow> Err e
              | Ok quantum \<Rightarrow>
                  Ok \<lparr>sg_classical = classical, sg_quantum = quantum, sg_level = ds_level (hs_quantum sk),
                      sg_timestamp = timestamp, sg_chain_id = chain_id\<rparr>))"

definition secret_sign :: "crypto_lib \<Rightarrow> hybrid_secret_key \<Rightarrow> bytes \<Rightarrow> hybrid_signature crypto_result" where
  "secret_sign C sk message = secret_sign_with C sk message None None"

record hybrid_keypair =
  kp_public_key :: hybrid_public_key
  kp_secret_key :: hybrid_secret_key

text \<open>
  Key generation: the random ECDSA secret and the random Dilithium pair are arguments. Only Level 3 is
  supported with \<open>full-pqc\<close>.
\<close>

definition generate_dilithium_keypair ::
    "bytes \<times> bytes \<Rightarrow> dilithium_security_level \<Rightarrow> (dilithium_secret_key \<times> dilithium_public_key) crypto_result" where
  "generate_dilithium_keypair drawn level =
     (if level = Level3 then
        (case dilithium_secret_from_bytes (snd drawn) level of
           Err e \<Rightarrow> Err e
         | Ok sk \<Rightarrow> map_result (Pair sk) (dilithium_public_from_bytes (fst drawn) level))
      else Err (UnsupportedAlgorithm (''Dilithium '' @ show_level level @ '' not yet supported'')))"

definition keypair_from_parts ::
    "crypto_lib \<Rightarrow> bytes \<Rightarrow> (dilithium_secret_key \<times> dilithium_public_key) crypto_result \<Rightarrow> hybrid_keypair crypto_result" where
  "keypair_from_parts C ecdsa_sk quantum =
     (case ecdsa_secret_from_bytes ecdsa_sk of
        Err e \<Rightarrow> Err e
      | Ok classical_sk \<Rightarrow>
     (case ecdsa_public_from_bytes C (cl_ec_public C ecdsa_sk) of
        Err e \<Rightarrow> Err e
      | Ok classical_pk \<Rightarrow>
     (case quantum of
        Err e \<Rightarrow> Err e
      | Ok (quantum_sk, quantum_pk) \<Rightarrow>
          Ok \<lparr>kp_public_key = \<lparr>hp_classical = classical_pk, hp_quantum = quantum_pk\<rparr>,
              kp_secret_key = \<lparr>hs_classical = classical_sk, hs_quantum = quantum_sk\<rparr>\<rparr>)))"

definition generate_with_level ::
    "crypto_lib \<Rightarrow> bytes \<Rightarrow> bytes \<times> bytes \<Rightarrow> dilithium_security_level \<Rightarrow> hybrid_keypair crypto_result" where
  "generate_with_level C ecdsa_sk drawn level =
     keypair_from_parts C ecdsa_sk (generate_dilithium_keypair drawn level)"

text \<open>The deterministic keys repeat the 64 bytes of a SHA-512 digest.\<close>

definition generate_dilithium_keypair_from_seed ::
    "crypto_lib \<Rightarrow> bytes \<Rightarrow> dilithium_security_level \<Rightarrow> (dilithium_secret_key \<times> dilithium_public_key) crypto_result" where
  "generate_dilithium_keypair_from_seed C seed level =
     (let expanded = cl_sha512 C (ascii ''dilithium-keygen:'' @ [level_as_u8 level] @ seed)
      in case dilithium_secret_from_bytes (map (\<lambda>i. expanded ! (i mod 64)) [0..<secret_key_size level]) level of
           Err e \<Rightarrow> Err e
         | Ok sk \<Rightarrow> map_result (Pair sk)
             (dilithium_public_from_bytes (map (\<lambda>i. expanded ! ((i + 32) mod 64)) [0..<public_key_size level]) level))"

definition keypair_from_seed :: "crypto_lib \<Rightarrow> bytes \<Rightarrow> hybrid_keypair crypto_result" where
  "keypair_from_seed C seed =
     (case cl_ec_secret_error C (slice 0 32 seed) of
        Some e \<Rightarrow> Err (KeyGenerationFailed e)
      | None \<Rightarrow> keypair_from_parts C (slice 0 32 seed)
                  (generate_dilithium_keypair_from_seed C (slice 32 64 seed) Level3))"

definition sign_with_config ::
    "crypto_lib \<Rightarrow> hybrid_keypair \<Rightarrow> bytes \<Rightarrow> u64 option \<Rightarrow> u64 option \<Rightarrow> hybrid_signature crypto_result" where
  "sign_with_config C kp message timestamp chain_id =
     secret_sign_with C (kp_secret_key kp) message timestamp chain_id"

definition keypair_sign :: "crypto_lib \<Rightarrow> hybrid_keypair \<Rightarrow> bytes \<Rightarrow> hybrid_signature crypto_result" where
  "keypair_sign C kp message = sign_with_config C kp message None None"

definition keypair_verify ::
    "crypto_lib \<Rightarrow> u64 option \<Rightarrow> hybrid_keypair \<Rightarrow> bytes \<Rightarrow> hybrid_signature \<Rightarrow> verifier_config \<Rightarrow> bool crypto_result" where
  "keypair_verify C clock kp message signature config =
     Ok (is_ok (signature_verify C clock signature message (kp_public_key kp) config))"

definition batch_verify ::
    "crypto_lib \<Rightarrow> u64 option \<Rightarrow> bytes list \<Rightarrow> hybrid_signature list \<Rightarrow> hybrid_public_key list \<Rightarrow> verifier_config
      \<Rightarrow> bool crypto_result" where
  "batch_verify C clock messages signatures public_keys config =
     (if length messages \<noteq> length signatures \<or> length signatures \<noteq> length public_keys
      then Err (InvalidSignatureLength (length messages) (length signatures))
      else Ok (list_all (\<lambda>((message, signature), public_key).
                 is_ok (signature_verify C clock signature message public_key config))
               (zip (zip messages signatures) public_keys)))"

end
