(* ===== verification/Mempool.thy ===== *)
theory Mempool
  imports Hybrid_Signature Rust_Float
begin

text \<open>
  \<open>src/crates/mempool/src/middleware/mod.rs\<close>, the data of the middleware stack: errors, actions, the
  context that is passed along the chain and the global configuration. The chain itself is in
  \<open>Mempool_Chain\<close>, after the four middlewares.
\<close>

datatype middleware_error =
    SignatureError string
  | ComplianceError string
  | RateLimitExceeded string
  | FeeError string
  | MwRejected string
  | MwInternalError string

type_synonym 'a middleware_result = "(middleware_error, 'a) result"

datatype middleware_action = Continue | Accept | Reject string | Delay u64 string

record compliance_metadata =
  cm_required_frameworks :: "string list"
  cm_data_residency :: "string option"
  cm_audit_required :: bool
  cm_pii_detected :: bool
  cm_pii_types :: "string list"

definition compliance_metadata_default :: compliance_metadata where
  "compliance_metadata_default =
     \<lparr>cm_required_frameworks = [], cm_data_residency = None, cm_audit_required = False,
      cm_pii_detected = False, cm_pii_types = []\<rparr>"

record parsed_transaction =
  pt_tx_id :: bytes
  pt_sender :: bytes
  pt_tx_type :: u8
  pt_nonce :: u64
  pt_gas_price :: u64
  pt_gas_limit :: u64
  pt_chain_id :: u64
  pt_size :: nat
  pt_signature_valid :: bool
  pt_compliance_metadata :: "compliance_metadata option"

record check_result =
  cr_check_name :: string
  cr_passed :: bool
  cr_framework :: "string option"
  cr_details :: "string option"

record middleware_metadata =
  mm_tags :: "(string \<times> string) list"
  mm_timestamps :: "(string \<times> u64) list"
  mm_compliance_results :: "check_result list"
  mm_warnings :: "string list"

definition middleware_metadata_default :: middleware_metadata where
  "middleware_metadata_default =
     \<lparr>mm_tags = [], mm_timestamps = [], mm_compliance_results = [], mm_warnings = []\<rparr>"

record middleware_config =
  mc_enabled_frameworks :: "string list"
  mc_quantum_threat_level :: u8
  mc_min_gas_price :: u64
  mc_max_tx_size :: nat
  mc_rate_limit_per_address :: u32
  mc_global_rate_limit :: u32
  mc_blocked_addresses :: "bytes list"
  mc_compute_requires_compliance :: bool
  mc_enable_pii_scanning :: bool

definition middleware_config_default :: middleware_config where
  "middleware_config_default =
     \<lparr>mc_enabled_frameworks = [''GDPR'', ''HIPAA'', ''PCI-DSS''], mc_quantum_threat_level = 0,
      mc_min_gas_price = 1, mc_max_tx_size = 1048576, mc_rate_limit_per_address = 60,
      mc_global_rate_limit = 10000, mc_blocked_addresses = [], mc_compute_requires_compliance = True,
      mc_enable_pii_scanning = True\<rparr>"

record middleware_context =
  cx_tx_bytes :: bytes
  cx_parsed_tx :: "parsed_transaction option"
  cx_metadata :: middleware_metadata
  cx_config :: middleware_config

definition context_new :: "bytes \<Rightarrow> middleware_config \<Rightarrow> middleware_context" where
  "context_new tx_bytes config =
     \<lparr>cx_tx_bytes = tx_bytes, cx_parsed_tx = None, cx_metadata = middleware_metadata_default, cx_config = config\<rparr>"

definition add_tag :: "string \<Rightarrow> string \<Rightarrow> middleware_context \<Rightarrow> middleware_context" where
  "add_tag key v ctx = ctx\<lparr>cx_metadata := (cx_metadata ctx)\<lparr>mm_tags := mm_tags (cx_metadata ctx) @ [(key, v)]\<rparr>\<rparr>"

definition has_tag :: "middleware_context \<Rightarrow> string \<Rightarrow> bool" where
  "has_tag ctx key = list_ex (\<lambda>(k, _). k = key) (mm_tags (cx_metadata ctx))"

definition get_tag :: "middleware_context \<Rightarrow> string \<Rightarrow> string option" where
  "get_tag ctx key = map_of (mm_tags (cx_metadata ctx)) key"

definition add_warning :: "string \<Rightarrow> middleware_context \<Rightarrow> middleware_context" where
  "add_warning w ctx = ctx\<lparr>cx_metadata := (cx_metadata ctx)\<lparr>mm_warnings := mm_warnings (cx_metadata ctx) @ [w]\<rparr>\<rparr>"

lemma add_tag_fields [simp]:
  "cx_tx_bytes (add_tag k v ctx) = cx_tx_bytes ctx" "cx_parsed_tx (add_tag k v ctx) = cx_parsed_tx ctx"
  "cx_config (add_tag k v ctx) = cx_config ctx"
  "mm_tags (cx_metadata (add_tag k v ctx)) = mm_tags (cx_metadata ctx) @ [(k, v)]"
  "mm_warnings (cx_metadata (add_tag k v ctx)) = mm_warnings (cx_metadata ctx)"
  "mm_compliance_results (cx_metadata (add_tag k v ctx)) = mm_compliance_results (cx_metadata ctx)"
  by (simp_all add: add_tag_def)

lemma add_warning_fields [simp]:
  "cx_tx_bytes (add_warning w ctx) = cx_tx_bytes ctx" "cx_parsed_tx (add_warning w ctx) = cx_parsed_tx ctx"
  "cx_config (add_warning w ctx) = cx_config ctx" "mm_tags (cx_metadata (add_warning w ctx)) = mm_tags (cx_metadata ctx)"
  by (simp_all add: add_warning_def)

lemma has_tag_add [simp]: "has_tag (add_tag k v ctx) key \<longleftrightarrow> has_tag ctx key \<or> key = k"
  by (auto simp: has_tag_def)

lemma has_tag_warning [simp]: "has_tag (add_warning w ctx) key \<longleftrightarrow> has_tag ctx key"
  by (simp add: has_tag_def)

text \<open>
  What a middleware takes from outside: the cryptographic crates, the wall clock, the monotonic clock
  in nanoseconds (one reading per call of the chain) and the matcher of the \<open>regex\<close> crate.
\<close>

record mempool_env =
  me_crypto :: crypto_lib
  me_clock :: "u64 option"
  me_now :: int
  me_is_match :: "string \<Rightarrow> string \<Rightarrow> bool"

end
