(* ===== verification/Core_Address.thy ===== *)
theory Core_Address
  imports Hybrid_Signature
begin

text \<open>
  \<open>src/crates/core/src/types/address.rs\<close>: typed 20-byte addresses, their derivation from hybrid public
  keys, and their text and byte encodings. \<open>hex::decode\<close> of the \<open>hex\<close> crate is the argument \<open>decode\<close>
  (\<open>Inl\<close> the message of its error).
\<close>

datatype address_error =
    InvalidLength nat nat
  | InvalidPrefix string string
  | InvalidChecksum
  | InvalidEncoding string
  | InvalidType u8

datatype address_type = UserAddress | ContractAddress | ValidatorAddress | SystemAddress | OracleAddress

definition address_type_from_byte :: "u8 \<Rightarrow> address_type option" where
  "address_type_from_byte b =
     (if b = 0x00 then Some UserAddress else if b = 0x01 then Some ContractAddress
      else if b = 0x02 then Some ValidatorAddress else if b = 0x03 then Some SystemAddress
      else if b = 0x04 then Some OracleAddress else None)"

fun address_type_to_byte :: "address_type \<Rightarrow> u8" where
  "address_type_to_byte UserAddress = 0x00"
| "address_type_to_byte ContractAddress = 0x01"
| "address_type_to_byte ValidatorAddress = 0x02"
| "address_type_to_byte SystemAddress = 0x03"
| "address_type_to_byte OracleAddress = 0x04"

fun address_prefix :: "address_type \<Rightarrow> string" where
  "address_prefix UserAddress = ''aethel''"
| "address_prefix ContractAddress = ''aethelc''"
| "address_prefix ValidatorAddress = ''aethelv''"
| "address_prefix SystemAddress = ''aethels''"
| "address_prefix OracleAddress = ''aethelo''"

definition ADDRESS_SIZE :: nat where
  "ADDRESS_SIZE = 20"

record core_address =
  ad_type :: address_type
  ad_bytes :: bytes

definition address_zero :: core_address where
  "address_zero = \<lparr>ad_type = UserAddress, ad_bytes = replicate ADDRESS_SIZE 0\<rparr>"

definition address_treasury :: core_address where
  "address_treasury = \<lparr>ad_type = SystemAddress, ad_bytes = replicate ADDRESS_SIZE 0x01\<rparr>"

definition address_rewards :: core_address where
  "address_rewards = \<lparr>ad_type = SystemAddress, ad_bytes = replicate ADDRESS_SIZE 0x02\<rparr>"

definition address_from_slice :: "bytes \<Rightarrow> address_type \<Rightarrow> (address_error, core_address) result" where
  "address_from_slice s t =
     (if length s \<noteq> ADDRESS_SIZE then Err (InvalidLength ADDRESS_SIZE (length s))
      else Ok \<lparr>ad_type = t, ad_bytes = s\<rparr>)"

definition address_from_public_key :: "crypto_lib \<Rightarrow> hybrid_public_key \<Rightarrow> core_address" where
  "address_from_public_key C public_key =
     \<lparr>ad_type = UserAddress, ad_bytes = take ADDRESS_SIZE (cl_sha256 C (hybrid_public_to_bytes public_key))\<rparr>"

definition create_contract :: "crypto_lib \<Rightarrow> core_address \<Rightarrow> u64 \<Rightarrow> core_address" where
  "create_contract C deployer nonce =
     \<lparr>ad_type = ContractAddress, ad_bytes = take ADDRESS_SIZE (cl_sha256 C (ad_bytes deployer @ le_bytes 8 nonce))\<rparr>"

definition address_from_validator_key :: "crypto_lib \<Rightarrow> hybrid_public_key \<Rightarrow> core_address" where
  "address_from_validator_key C validator_pk =
     \<lparr>ad_type = ValidatorAddress, ad_bytes = take ADDRESS_SIZE (cl_sha256 C (hybrid_public_to_bytes validator_pk))\<rparr>"

definition address_is_zero :: "core_address \<Rightarrow> bool" where
  "address_is_zero a = list_all (\<lambda>b. b = 0) (ad_bytes a)"

definition address_is_system :: "core_address \<Rightarrow> bool" where
  "address_is_system a = (ad_type a = SystemAddress)"

definition to_bech32 :: "core_address \<Rightarrow> string" where
  "to_bech32 a = address_prefix (ad_type a) @ ''1'' @ hex_encode (ad_bytes a)"

definition type_of_prefix :: "string \<Rightarrow> address_type option" where
  "type_of_prefix prefix =
     (if prefix = ''aethel'' then Some UserAddress
      else if prefix = ''aethelc'' then Some ContractAddress
      else if prefix = ''aethelv'' then Some ValidatorAddress
      else if prefix = ''aethels'' then Some SystemAddress
      else if prefix = ''aethelo'' then Some OracleAddress
      else None)"

definition from_bech32 :: "(string \<Rightarrow> string + bytes) \<Rightarrow> string \<Rightarrow> (address_error, core_address) result" where
  "from_bech32 decode s =
     (if CHR ''1'' \<notin> set s then Err (InvalidEncoding ''Missing separator'')
      else
        let prefix = takeWhile (\<lambda>c. c \<noteq> CHR ''1'') s;
            data = drop (length prefix + 1) s
        in case type_of_prefix prefix of
             None \<Rightarrow> Err (InvalidPrefix ''aethel/aethelc/aethelv/aethels/aethelo'' prefix)
           | Some t \<Rightarrow>
               (case decode data of
                  Inl e \<Rightarrow> Err (InvalidEncoding e)
                | Inr bs \<Rightarrow> address_from_slice bs t))"

definition address_checksum :: "crypto_lib \<Rightarrow> core_address \<Rightarrow> bytes" where
  "address_checksum C a = take 4 (cl_sha256 C (ad_bytes a))"

definition address_serialize :: "core_address \<Rightarrow> bytes" where
  "address_serialize a = address_type_to_byte (ad_type a) # ad_bytes a"

definition address_deserialize :: "bytes \<Rightarrow> (address_error, core_address) result" where
  "address_deserialize bs =
     (if length bs \<noteq> ADDRESS_SIZE + 1 then Err (InvalidLength (ADDRESS_SIZE + 1) (length bs))
      else case address_type_from_byte (bs ! 0) of
        None \<Rightarrow> Err (InvalidType (bs ! 0))
      | Some t \<Rightarrow> Ok \<lparr>ad_type = t, ad_bytes = drop 1 bs\<rparr>)"

section \<open>Encodings\<close>

definition address_wf :: "core_address \<Rightarrow> bool" where
  "address_wf a = (length (ad_bytes a) = ADDRESS_SIZE)"

lemma address_type_bytes [simp]: "address_type_from_byte (address_type_to_byte t) = Some t"
  by (cases t) (simp_all add: address_type_from_byte_def)

lemma address_type_byte_inj: "address_type_to_byte t = address_type_to_byte u \<longleftrightarrow> t = u"
  by (cases t; cases u) simp_all

lemma address_serialize_round_trip: "address_wf a \<Longrightarrow> address_deserialize (address_serialize a) = Ok a"
  by (simp add: address_deserialize_def address_serialize_def address_wf_def)

lemma address_deserialize_Ok: "address_deserialize bs = Ok a \<Longrightarrow> address_wf a \<and> address_serialize a = bs"
  by (cases bs)
    (auto simp: address_deserialize_def address_serialize_def address_wf_def address_type_from_byte_def
      split: if_splits)

interpretation addresses: canonical_codec address_serialize "\<lambda>bs. ok_option (address_deserialize bs)" address_wf
  by unfold_locales (auto simp: address_serialize_round_trip address_deserialize_Ok)

lemma length_address_serialize: "address_wf a \<Longrightarrow> length (address_serialize a) = 21"
  by (simp add: address_serialize_def address_wf_def ADDRESS_SIZE_def)

lemma address_serialize_inj: "address_serialize a = address_serialize b \<longleftrightarrow> a = b"
  by (auto simp: address_serialize_def address_type_byte_inj intro: core_address.equality)

lemma prefix_no_separator: "CHR ''1'' \<notin> set (address_prefix t)"
  by (cases t) simp_all

lemma type_of_prefix_prefix [simp]: "type_of_prefix (address_prefix t) = Some t"
  by (cases t) (simp_all add: type_of_prefix_def)

lemma bech32_round_trip:
  assumes "address_wf a" and "decode (hex_encode (ad_bytes a)) = Inr (ad_bytes a)"
  shows "from_bech32 decode (to_bech32 a) = Ok a"
proof -
  have "takeWhile (\<lambda>c. c \<noteq> CHR ''1'') (to_bech32 a) = address_prefix (ad_type a)"
    unfolding to_bech32_def using prefix_no_separator [of "ad_type a"] by (subst takeWhile_append2) auto
  then show ?thesis
    using assms by (simp add: from_bech32_def to_bech32_def address_from_slice_def address_wf_def)
qed

end
