(* ===== verification/Mempool_Signature.thy ===== *)
theory Mempool_Signature
  imports Mempool Core_Address
begin

text \<open>
  \<open>src/crates/mempool/src/middleware/signature.rs\<close>: parsing of the header, verification of the hybrid
  signature against the sender, and the batch verifier.
\<close>

record signature_middleware =
  sw_batch_enabled :: bool

definition signature_middleware_new :: signature_middleware where
  "signature_middleware_new = \<lparr>sw_batch_enabled = True\<rparr>"

definition without_batch :: "signature_middleware \<Rightarrow> signature_middleware" where
  "without_batch m = m\<lparr>sw_batch_enabled := False\<rparr>"

definition compute_tx_hash :: "crypto_lib \<Rightarrow> bytes \<Rightarrow> bytes" where
  "compute_tx_hash C tx_bytes = cl_sha256 C (ascii ''aethelred:transaction:v1:'' @ tx_bytes)"

text \<open>The offset of the header: 4 when the first word can be the length of a signed transaction.\<close>

definition header_offset :: "bytes \<Rightarrow> nat" where
  "header_offset tx_bytes =
     (if length tx_bytes > 4 then
        let len = unat (le_word (slice 0 4 tx_bytes) :: u32)
        in if len > 0 \<and> len < length tx_bytes then 4 else 0
      else 0)"

definition parse_transaction :: "crypto_lib \<Rightarrow> bytes \<Rightarrow> parsed_transaction option" where
  "parse_transaction C tx_bytes =
     (if length tx_bytes < 100 then None
      else
        let offset = header_offset tx_bytes
        in if offset + 63 > length tx_bytes then None
           else Some
             \<lparr>pt_tx_id = compute_tx_hash C tx_bytes,
              pt_sender = slice (offset + 2) (offset + 23) tx_bytes,
              pt_tx_type = tx_bytes ! (offset + 1),
              pt_nonce = le_word (slice (offset + 23) (offset + 31) tx_bytes),
              pt_gas_price = le_word (slice (offset + 31) (offset + 39) tx_bytes),
              pt_gas_limit = le_word (slice (offset + 39) (offset + 47) tx_bytes),
              pt_chain_id = le_word (slice (offset + 47) (offset + 55) tx_bytes),
              pt_size = length tx_bytes,
              pt_signature_valid = False,
              pt_compliance_metadata = None\<rparr>)"

definition mempool_verifier_config :: "u64 \<Rightarrow> u8 \<Rightarrow> verifier_config" where
  "mempool_verifier_config chain_id quantum_threat_level =
     (let config = (if chain_id = 9999 then verifier_config_devnet
                    else if chain_id = 2 then verifier_config_testnet
                    else if chain_id = 1 then verifier_config_mainnet
                    else verifier_config_default\<lparr>vc_chain_id := chain_id\<rparr>)
      in if quantum_threat_level \<ge> 5 then enter_panic_mode config else config)"

text \<open>The three sections of a signed transaction: transaction bytes, signature and public key.\<close>

definition split_signed :: "bytes \<Rightarrow> (string, bytes \<times> bytes \<times> bytes) result" where
  "split_signed tx_bytes =
     (if length tx_bytes < 8 then Err ''Transaction too short''
      else
        let tx_len = unat (le_word (slice 0 4 tx_bytes) :: u32)
        in if length tx_bytes < 4 + tx_len + 4 then Err ''Invalid transaction format''
           else
             let sig_offset = 4 + tx_len;
                 sig_len = unat (le_word (slice sig_offset (sig_offset + 4) tx_bytes) :: u32)
             in if length tx_bytes < sig_offset + 4 + sig_len + 4 then Err ''Invalid signature section''
                else
                  let pk_offset = sig_offset + 4 + sig_len;
                      pk_len = unat (le_word (slice pk_offset (pk_offset + 4) tx_bytes) :: u32)
                  in if length tx_bytes < pk_offset + 4 + pk_len then Err ''Invalid public key section''
                     else Ok (slice 4 (4 + tx_len) tx_bytes,
                              slice (sig_offset + 4) (sig_offset + 4 + sig_len) tx_bytes,
                              slice (pk_offset + 4) (pk_offset + 4 + pk_len) tx_bytes))"

definition verify_signature ::
    "crypto_lib \<Rightarrow> u64 option \<Rightarrow> bytes \<Rightarrow> u8 \<Rightarrow> (string, bool) result" where
  "verify_signature C clock tx_bytes quantum_threat_level =
     (case split_signed tx_bytes of
        Err e \<Rightarrow> Err e
      | Ok (tx_data, signature, public_key) \<Rightarrow>
      if length tx_data < 23 then Err ''Transaction body too short''
      else case hybrid_public_from_bytes C public_key of
        Err e \<Rightarrow> Err (''Invalid hybrid public key: '' @ show_crypto_error e)
      | Ok signer \<Rightarrow>
      (case signature_from_bytes signature of
        Err e \<Rightarrow> Err (''Invalid hybrid signature: '' @ show_crypto_error e)
      | Ok signature \<Rightarrow>
      if address_serialize (address_from_public_key C signer) \<noteq> slice 2 23 tx_data then Ok False
      else if length tx_data < 47 + 8 then Err ''Transaction body missing chain id''
      else
        let chain_id = le_word (slice 47 55 tx_data);
            config = mempool_verifier_config chain_id quantum_threat_level
        in map_result (\<lambda>_. True)
             (signature_verify C clock signature (transaction_hash C tx_data) signer config)))"

definition signature_process ::
    "mempool_env \<Rightarrow> signature_middleware \<Rightarrow> middleware_context
      \<Rightarrow> middleware_context \<times> middleware_action middleware_result" where
  "signature_process E m ctx =
     (let tx_bytes = cx_tx_bytes ctx; config = cx_config ctx
      in if length tx_bytes > mc_max_tx_size config
         then (ctx, Ok (Reject (''Transaction size '' @ show_nat (length tx_bytes) @ '' exceeds maximum ''
                                @ show_nat (mc_max_tx_size config))))
         else case parse_transaction (me_crypto E) tx_bytes of
           None \<Rightarrow> (ctx, Ok (Reject ''Failed to parse transaction''))
         | Some parsed \<Rightarrow>
             if list_ex (\<lambda>blocked. pt_sender parsed = blocked) (mc_blocked_addresses config)
             then (ctx, Ok (Reject ''Sender address is blocked''))
             else (case verify_signature (me_crypto E) (me_clock E) tx_bytes (mc_quantum_threat_level config) of
               Err e \<Rightarrow> (ctx, Ok (Reject (''Signature verification error: '' @ e)))
             | Ok signature_valid \<Rightarrow>
                 if \<not> signature_valid then (ctx, Ok (Reject ''Signature verification failed''))
                 else
                   let ctx = ctx\<lparr>cx_parsed_tx := Some (parsed\<lparr>pt_signature_valid := True\<rparr>)\<rparr>;
                       ctx = add_tag ''signature_verified'' ''true'' ctx;
                       ctx = add_tag ''signature_type'' ''hybrid'' ctx;
                       ctx = add_tag ''quantum_threat_level'' (show_word (mc_quantum_threat_level config)) ctx
                   in (ctx, Ok Continue)))"

section \<open>Batches\<close>

record batch_signature_verifier =
  bv_transactions :: "bytes list"
  bv_max_batch_size :: nat

definition batch_verifier_new :: "nat \<Rightarrow> batch_signature_verifier" where
  "batch_verifier_new max_batch_size = \<lparr>bv_transactions = [], bv_max_batch_size = max_batch_size\<rparr>"

definition batch_add :: "batch_signature_verifier \<Rightarrow> bytes \<Rightarrow> batch_signature_verifier \<times> bool" where
  "batch_add b tx_bytes =
     (if length (bv_transactions b) \<ge> bv_max_batch_size b then (b, False)
      else (b\<lparr>bv_transactions := bv_transactions b @ [tx_bytes]\<rparr>, True))"

definition batch_verify_signatures :: "mempool_env \<Rightarrow> batch_signature_verifier \<Rightarrow> u8 \<Rightarrow> bool list" where
  "batch_verify_signatures E b quantum_threat_level =
     map (\<lambda>tx. case verify_signature (me_crypto E) (me_clock E) tx quantum_threat_level of
                 Ok valid \<Rightarrow> valid | Err _ \<Rightarrow> False)
       (bv_transactions b)"

definition batch_clear :: "batch_signature_verifier \<Rightarrow> batch_signature_verifier" where
  "batch_clear b = b\<lparr>bv_transactions := []\<rparr>"

end
