(* ===== verification/Mempool_Compliance.thy ===== *)
theory Mempool_Compliance
  imports Mempool
begin

text \<open>
  \<open>src/crates/mempool/src/middleware/compliance.rs\<close>: the compliance section of a transaction, the scan
  for personal data, the framework validators and the report.

  A pattern is its name and its regular expression; \<open>me_is_match\<close> is the matcher of the \<open>regex\<close> crate.
  The findings of a scan are in the order of the patterns, one of the orders the hash set may have. A
  validator is one of the four of the source or a custom one, given by its name and its function.
\<close>

definition TX_TYPE_COMPUTE_JOB :: u8 where "TX_TYPE_COMPUTE_JOB = 0x02"
definition TX_TYPE_SEAL :: u8 where "TX_TYPE_SEAL = 0x03"

section \<open>The compliance section\<close>

definition framework_code :: "u8 \<Rightarrow> string option" where
  "framework_code b =
     (if b = 0x01 then Some ''GDPR'' else if b = 0x02 then Some ''HIPAA''
      else if b = 0x03 then Some ''PCI-DSS'' else if b = 0x04 then Some ''SOX''
      else if b = 0x05 then Some ''CCPA'' else None)"

text \<open>
  The loop over \<open>framework_count\<close>: an unknown code continues without advancing the offset.
\<close>

fun parse_frameworks :: "nat \<Rightarrow> bytes \<Rightarrow> nat \<Rightarrow> string list \<Rightarrow> string list \<times> nat" where
  "parse_frameworks 0 data offset acc = (acc, offset)"
| "parse_frameworks (Suc n) data offset acc =
     (if offset \<ge> length data then (acc, offset)
      else case framework_code (data ! offset) of
        None \<Rightarrow> parse_frameworks n data offset acc
      | Some framework \<Rightarrow> parse_frameworks n data (offset + 1) (acc @ [framework]))"

definition parse_residency :: "bytes \<Rightarrow> nat \<Rightarrow> string option \<times> nat" where
  "parse_residency data offset =
     (if offset < length data \<and> data ! offset = 1 then
        let offset = offset + 1
        in if offset < length data then
             let len = unat (data ! offset); offset = offset + 1
             in if offset + len \<le> length data
                then (from_utf8 (slice offset (offset + len) data), offset + len)
                else (None, offset)
           else (None, offset)
      else (None, offset + 1))"

definition parse_compliance_section :: "bytes \<Rightarrow> u8 \<Rightarrow> compliance_metadata option" where
  "parse_compliance_section tx_bytes tx_type =
     (case dropWhile (\<lambda>b. b \<noteq> 0xC0) tx_bytes of
        [] \<Rightarrow> Some compliance_metadata_default
      | data \<Rightarrow>
          if length data < 3 then Some compliance_metadata_default
          else
            let framework_count = unat (data ! 1);
                (frameworks, offset) = parse_frameworks framework_count data 2 [];
                (residency, offset) = parse_residency data offset;
                audit = (offset < length data \<and> data ! offset = 1)
            in Some (compliance_metadata_default
                 \<lparr>cm_required_frameworks := frameworks, cm_data_residency := residency, cm_audit_required := audit\<rparr>))"

definition extract_compliance_metadata :: "middleware_context \<Rightarrow> compliance_metadata option" where
  "extract_compliance_metadata ctx =
     (case cx_parsed_tx ctx of
        None \<Rightarrow> None
      | Some parsed \<Rightarrow>
          if pt_tx_type parsed \<noteq> TX_TYPE_COMPUTE_JOB \<and> pt_tx_type parsed \<noteq> TX_TYPE_SEAL then None
          else parse_compliance_section (cx_tx_bytes ctx) (pt_tx_type parsed))"

section \<open>Personal data\<close>

definition is_sensitive_pii :: "string \<Rightarrow> bool" where
  "is_sensitive_pii pii_type =
     (pii_type \<in> {''SSN'', ''MEDICAL_RECORD'', ''FINANCIAL_ACCOUNT'', ''CREDIT_CARD'', ''BIOMETRIC''})"

record pii_pattern =
  pp_name :: string
  pp_regex :: string

type_synonym pii_detector = "pii_pattern list"

text \<open>A regular expression of the source, with \<open>~\<close> for the backslash, which no expression contains otherwise.\<close>

definition regex_text :: "string \<Rightarrow> string" where
  "regex_text s = map (\<lambda>c. if c = CHR ''~'' then CHR 0x5C else c) s"

definition pii_detector_new :: pii_detector where
  "pii_detector_new =
     [\<lparr>pp_name = ''EMAIL'', pp_regex = regex_text ''[a-zA-Z0-9._%+-]+@[a-zA-Z0-9.-]+~.[a-zA-Z]{2,}''\<rparr>,
      \<lparr>pp_name = ''PHONE'', pp_regex = regex_text ''~b~d{3}[-.]?~d{3}[-.]?~d{4}~b''\<rparr>,
      \<lparr>pp_name = ''SSN'', pp_regex = regex_text ''~b~d{3}-~d{2}-~d{4}~b''\<rparr>,
      \<lparr>pp_name = ''CREDIT_CARD'', pp_regex = regex_text ''~b~d{4}[- ]?~d{4}[- ]?~d{4}[- ]?~d{4}~b''\<rparr>,
      \<lparr>pp_name = ''IP_ADDRESS'', pp_regex = regex_text ''~b~d{1,3}~.~d{1,3}~.~d{1,3}~.~d{1,3}~b''\<rparr>,
      \<lparr>pp_name = ''DATE_OF_BIRTH'', pp_regex = regex_text ''~b~d{1,2}[/-]~d{1,2}[/-]~d{2,4}~b''\<rparr>]"

definition add_pattern :: "pii_detector \<Rightarrow> string \<Rightarrow> string \<Rightarrow> pii_detector" where
  "add_pattern d name pattern = d @ [\<lparr>pp_name = name, pp_regex = pattern\<rparr>]"

definition scan :: "(string \<Rightarrow> string \<Rightarrow> bool) \<Rightarrow> pii_detector \<Rightarrow> bytes \<Rightarrow> string list" where
  "scan is_match d data =
     (case from_utf8 data of
        None \<Rightarrow> []
      | Some text \<Rightarrow> remdups (map pp_name (filter (\<lambda>p. is_match (pp_regex p) text) d)))"

definition check_pii ::
    "(string \<Rightarrow> string \<Rightarrow> bool) \<Rightarrow> pii_detector \<Rightarrow> middleware_context \<Rightarrow> middleware_context \<times> string list" where
  "check_pii is_match d ctx =
     (if \<not> mc_enable_pii_scanning (cx_config ctx) then (ctx, [])
      else
        let findings = scan is_match d (cx_tx_bytes ctx)
        in (if findings \<noteq> []
            then add_tag ''pii_types'' (intersperse_text '','' findings) (add_tag ''pii_detected'' ''true'' ctx)
            else ctx, findings))"

section \<open>Framework validators\<close>

definition check_outcome :: "string \<Rightarrow> string list \<Rightarrow> check_result" where
  "check_outcome framework issues =
     (if issues = []
      then \<lparr>cr_check_name = framework @ '' compliance'', cr_passed = True, cr_framework = Some framework, cr_details = None\<rparr>
      else \<lparr>cr_check_name = framework @ '' compliance'', cr_passed = False, cr_framework = Some framework,
            cr_details = Some (intersperse_text ''; '' issues)\<rparr>)"

definition eu_countries :: "string list" where
  "eu_countries =
     [''AT'', ''BE'', ''BG'', ''HR'', ''CY'', ''CZ'', ''DK'', ''EE'', ''FI'', ''FR'', ''DE'', ''GR'', ''HU'', ''IE'',
      ''IT'', ''LV'', ''LT'', ''LU'', ''MT'', ''NL'', ''PL'', ''PT'', ''RO'', ''SK'', ''SI'', ''ES'', ''SE'']"

definition adequacy_countries :: "string list" where
  "adequacy_countries = [''GB'', ''CH'', ''JP'', ''KR'', ''CA'', ''NZ'']"

definition gdpr_issues :: "middleware_context \<Rightarrow> compliance_metadata \<Rightarrow> string list" where
  "gdpr_issues ctx metadata =
     (case cm_data_residency metadata of
        Some residency \<Rightarrow>
          if \<not> List.member eu_countries residency \<and> \<not> List.member adequacy_countries residency
          then [''Data residency '' @ [CHR 0x27] @ residency @ [CHR 0x27] @ '' not in EU/EEA or adequacy list''] else []
      | None \<Rightarrow> [])
     @ (if \<not> cm_audit_required metadata then [''GDPR requires audit trail for accountability''] else [])
     @ (if has_tag ctx ''pii_detected'' \<and> \<not> has_tag ctx ''consent_verified''
        then [''PII processing requires documented consent (Article 6)''] else [])"

definition unsigned_issue :: "middleware_context \<Rightarrow> string \<Rightarrow> string list" where
  "unsigned_issue ctx issue =
     (case cx_parsed_tx ctx of
        Some parsed \<Rightarrow> if \<not> pt_signature_valid parsed then [issue] else []
      | None \<Rightarrow> [])"

definition hipaa_issues :: "middleware_context \<Rightarrow> compliance_metadata \<Rightarrow> string list" where
  "hipaa_issues ctx metadata =
     (case cm_data_residency metadata of
        Some residency \<Rightarrow>
          if residency \<noteq> ''US''
          then [''HIPAA requires US data residency, got '' @ [CHR 0x27] @ residency @ [CHR 0x27]] else []
      | None \<Rightarrow> [])
     @ (if \<not> cm_audit_required metadata then [''HIPAA requires full audit trail (45 CFR 164.312)''] else [])
     @ unsigned_issue ctx ''HIPAA requires verified access controls''"

definition pci_issues :: "middleware_context \<Rightarrow> compliance_metadata \<Rightarrow> string list" where
  "pci_issues ctx metadata =
     (case get_tag ctx ''pii_types'' of
        Some pii_types \<Rightarrow>
          if contains_text ''CREDIT_CARD'' pii_types
          then [''PCI-DSS prohibits storing plaintext cardholder data (Req 3)''] else []
      | None \<Rightarrow> [])
     @ unsigned_issue ctx ''PCI-DSS requires strong authentication (Req 8)''
     @ (if \<not> cm_audit_required metadata then [''PCI-DSS requires audit logging (Req 10)''] else [])"

definition ccpa_issues :: "middleware_context \<Rightarrow> compliance_metadata \<Rightarrow> string list" where
  "ccpa_issues ctx metadata =
     (if has_tag ctx ''pii_detected'' \<and> \<not> cm_audit_required metadata
      then [''CCPA requires tracking personal information access''] else [])"

datatype framework_validator =
    GdprValidator | HipaaValidator | PciDssValidator | CcpaValidator
  | CustomValidator string "middleware_context \<Rightarrow> compliance_metadata \<Rightarrow> check_result"

fun framework_name :: "framework_validator \<Rightarrow> string" where
  "framework_name GdprValidator = ''GDPR''"
| "framework_name HipaaValidator = ''HIPAA''"
| "framework_name PciDssValidator = ''PCI-DSS''"
| "framework_name CcpaValidator = ''CCPA''"
| "framework_name (CustomValidator name _) = name"

fun framework_validate :: "framework_validator \<Rightarrow> middleware_context \<Rightarrow> compliance_metadata \<Rightarrow> check_result" where
  "framework_validate GdprValidator ctx metadata = check_outcome ''GDPR'' (gdpr_issues ctx metadata)"
| "framework_validate HipaaValidator ctx metadata = check_outcome ''HIPAA'' (hipaa_issues ctx metadata)"
| "framework_validate PciDssValidator ctx metadata = check_outcome ''PCI-DSS'' (pci_issues ctx metadata)"
| "framework_validate CcpaValidator ctx metadata = check_outcome ''CCPA'' (ccpa_issues ctx metadata)"
| "framework_validate (CustomValidator _ f) ctx metadata = f ctx metadata"

section \<open>The middleware\<close>

record compliance_middleware =
  cw_pii_detector :: pii_detector
  cw_framework_validators :: "framework_validator list"

definition compliance_middleware_new :: compliance_middleware where
  "compliance_middleware_new =
     \<lparr>cw_pii_detector = pii_detector_new,
      cw_framework_validators = [GdprValidator, HipaaValidator, PciDssValidator, CcpaValidator]\<rparr>"

definition add_validator :: "compliance_middleware \<Rightarrow> framework_validator \<Rightarrow> compliance_middleware" where
  "add_validator m v = m\<lparr>cw_framework_validators := cw_framework_validators m @ [v]\<rparr>"

definition find_validator :: "compliance_middleware \<Rightarrow> string \<Rightarrow> framework_validator option" where
  "find_validator m framework = find (\<lambda>v. framework_name v = framework) (cw_framework_validators m)"

definition validate_required ::
    "compliance_middleware \<Rightarrow> middleware_context \<Rightarrow> compliance_metadata \<Rightarrow> string \<Rightarrow> check_result" where
  "validate_required m ctx metadata framework =
     (case find_validator m framework of
        Some validator \<Rightarrow> framework_validate validator ctx metadata
      | None \<Rightarrow> \<lparr>cr_check_name = framework @ '' compliance'', cr_passed = False, cr_framework = Some framework,
                 cr_details = Some (''Validator for '' @ framework @ '' not found'')\<rparr>)"

definition validate_enabled ::
    "compliance_middleware \<Rightarrow> middleware_context \<Rightarrow> compliance_metadata \<Rightarrow> string \<Rightarrow> check_result list" where
  "validate_enabled m ctx metadata enabled =
     (if List.member (cm_required_frameworks metadata) enabled then []
      else case find_validator m enabled of
        Some validator \<Rightarrow> [framework_validate validator ctx metadata]
      | None \<Rightarrow> [])"

definition validate_frameworks ::
    "compliance_middleware \<Rightarrow> middleware_context \<Rightarrow> compliance_metadata \<Rightarrow> check_result list" where
  "validate_frameworks m ctx metadata =
     map (validate_required m ctx metadata) (cm_required_frameworks metadata)
     @ concat (map (validate_enabled m ctx metadata) (mc_enabled_frameworks (cx_config ctx)))"

definition failure_text :: "check_result \<Rightarrow> string" where
  "failure_text f =
     cr_check_name f @ '': '' @ (case cr_details f of Some d \<Rightarrow> d | None \<Rightarrow> ''Check failed'')"

definition store_results :: "check_result list \<Rightarrow> middleware_context \<Rightarrow> middleware_context" where
  "store_results results ctx =
     ctx\<lparr>cx_metadata := (cx_metadata ctx)
          \<lparr>mm_compliance_results := mm_compliance_results (cx_metadata ctx) @ results\<rparr>\<rparr>"

definition compliance_tags :: "compliance_metadata \<Rightarrow> middleware_context \<Rightarrow> middleware_context" where
  "compliance_tags metadata ctx =
     (let ctx = add_tag ''compliance_checked'' ''true'' ctx;
          ctx = add_tag ''compliance_frameworks'' (intersperse_text '','' (cm_required_frameworks metadata)) ctx;
          ctx = (case cm_data_residency metadata of
                   Some residency \<Rightarrow> add_tag ''data_residency'' residency ctx | None \<Rightarrow> ctx)
      in if cm_audit_required metadata then add_tag ''audit_required'' ''true'' ctx else ctx)"

text \<open>Step 3 of \<open>process\<close>: the reason of a rejection because of personal data.\<close>

definition pii_rejection :: "middleware_context \<Rightarrow> compliance_metadata \<Rightarrow> string list \<Rightarrow> string option" where
  "pii_rejection ctx metadata findings =
     (if findings \<noteq> [] \<and> mc_compute_requires_compliance (cx_config ctx)
         \<and> \<not> list_ex (\<lambda>f. f = ''HIPAA'' \<or> f = ''GDPR'') (cm_required_frameworks metadata)
         \<and> list_ex is_sensitive_pii findings
      then Some (''Sensitive PII detected ('' @ intersperse_text '', '' findings
                 @ '') without appropriate compliance framework'')
      else None)"

definition scan_step ::
    "(string \<Rightarrow> string \<Rightarrow> bool) \<Rightarrow> pii_detector \<Rightarrow> middleware_context \<Rightarrow> middleware_context \<times> string list" where
  "scan_step is_match d ctx =
     (let (ctx, findings) = check_pii is_match d ctx
      in (if findings \<noteq> [] \<and> mc_compute_requires_compliance (cx_config ctx)
          then add_warning (''PII detected in transaction: '' @ intersperse_text '', '' findings) ctx
          else ctx, findings))"

text \<open>Steps 4 to 6 of \<open>process\<close>: the frameworks, the failures and the tags.\<close>

definition framework_step ::
    "compliance_middleware \<Rightarrow> compliance_metadata \<Rightarrow> middleware_context
      \<Rightarrow> middleware_context \<times> middleware_action middleware_result" where
  "framework_step m metadata ctx =
     (let results = validate_frameworks m ctx metadata;
          ctx = store_results results ctx;
          failures = filter (\<lambda>r. \<not> cr_passed r) results
      in if failures \<noteq> []
         then (ctx, Ok (Reject (''Compliance check failed: '' @ intersperse_text ''; '' (map failure_text failures))))
         else (compliance_tags metadata ctx, Ok Continue))"

definition compliance_process ::
    "mempool_env \<Rightarrow> compliance_middleware \<Rightarrow> middleware_context
      \<Rightarrow> middleware_context \<times> middleware_action middleware_result" where
  "compliance_process E m ctx =
     (case cx_parsed_tx ctx of
        None \<Rightarrow> (ctx, Ok Continue)
      | Some parsed \<Rightarrow>
      if pt_tx_type parsed \<noteq> TX_TYPE_COMPUTE_JOB \<and> pt_tx_type parsed \<noteq> TX_TYPE_SEAL then (ctx, Ok Continue)
      else
        let metadata = (case extract_compliance_metadata ctx of Some d \<Rightarrow> d | None \<Rightarrow> compliance_metadata_default);
            (ctx, findings) = scan_step (me_is_match E) (cw_pii_detector m) ctx
        in case pii_rejection ctx metadata findings of
             Some reason \<Rightarrow> (ctx, Ok (Reject reason))
           | None \<Rightarrow> framework_step m metadata ctx)"

section \<open>The report\<close>

record compliance_report =
  rp_tx_id :: bytes
  rp_compliant :: bool
  rp_frameworks_checked :: "string list"
  rp_check_results :: "check_result list"
  rp_pii_findings :: "string list"
  rp_data_residency :: "string option"
  rp_audit_enabled :: bool
  rp_recommendations :: "string list"

definition recommendation :: "check_result \<Rightarrow> string list" where
  "recommendation r =
     (if cr_passed r then []
      else case cr_details r of
        None \<Rightarrow> []
      | Some details \<Rightarrow>
          [''Fix '' @ (case cr_framework r of Some f \<Rightarrow> f | None \<Rightarrow> ''Unknown'') @ '' issue: '' @ details])"

definition report_from_context :: "middleware_context \<Rightarrow> compliance_report option" where
  "report_from_context ctx =
     (case cx_parsed_tx ctx of
        None \<Rightarrow> None
      | Some parsed \<Rightarrow>
          let results = mm_compliance_results (cx_metadata ctx)
          in Some \<lparr>rp_tx_id = pt_tx_id parsed,
                   rp_compliant = list_all cr_passed results,
                   rp_frameworks_checked = List.map_filter cr_framework results,
                   rp_check_results = results,
                   rp_pii_findings = (case get_tag ctx ''pii_types'' of
                                        Some s \<Rightarrow> split_text CHR '','' s | None \<Rightarrow> []),
                   rp_data_residency = get_tag ctx ''data_residency'',
                   rp_audit_enabled = has_tag ctx ''audit_required'',
                   rp_recommendations = concat (map recommendation results)\<rparr>)"

end
