(* ===== verification/Mempool_Rate_Limit.thy ===== *)
theory Mempool_Rate_Limit
  imports Mempool
begin

text \<open>
  \<open>src/crates/mempool/src/middleware/rate_limit.rs\<close>: the token bucket, the sliding window and the
  middleware with its per-address, per-type and global limiters.

  An \<open>Instant\<close> is a number of nanoseconds, a \<open>Duration\<close> a natural number of nanoseconds. Each
  operation takes the instant at which it runs: its readings of the clock are that instant.
\<close>

section \<open>Durations\<close>

definition from_secs :: "nat \<Rightarrow> nat" where
  "from_secs s = s * 1000000000"

text \<open>\<open>duration_since\<close> is zero for an instant in the future.\<close>

definition duration_since :: "int \<Rightarrow> int \<Rightarrow> nat" where
  "duration_since now earlier = nat (now - earlier)"

definition as_secs_f64 :: "nat \<Rightarrow> f64" where
  "as_secs_f64 d =
     f64_add (Fin (f64_round (of_nat (d div 1000000000))))
             (f64_div (Fin (f64_round (of_nat (d mod 1000000000)))) (f64_lit 1000000000))"

text \<open>\<open>Duration::from_secs_f64\<close> rounds to nanoseconds and panics outside the range of \<open>Duration\<close>.\<close>

fun from_secs_f64 :: "f64 \<Rightarrow> nat option" where
  "from_secs_f64 (Fin x) =
     (if x < 0 then None
      else let n = nat (round_half_even (x * 1000000000))
           in if n div 1000000000 < 2 ^ 64 then Some n else None)"
| "from_secs_f64 _ = None"

definition u32_as_f64 :: "u32 \<Rightarrow> f64" where
  "u32_as_f64 n = Fin (of_nat (unat n))"

section \<open>Token bucket\<close>

record rate_limiter =
  rl_capacity :: u32
  rl_tokens :: f64
  rl_refill_rate :: f64
  rl_last_update :: int
  rl_last_activity :: int

definition rate_limiter_new :: "int \<Rightarrow> u32 \<Rightarrow> nat \<Rightarrow> rate_limiter" where
  "rate_limiter_new now limit interval =
     \<lparr>rl_capacity = limit, rl_tokens = u32_as_f64 limit,
      rl_refill_rate = f64_div (u32_as_f64 limit) (as_secs_f64 interval),
      rl_last_update = now, rl_last_activity = now\<rparr>"

definition refill :: "int \<Rightarrow> rate_limiter \<Rightarrow> rate_limiter" where
  "refill now l =
     (let elapsed = as_secs_f64 (duration_since now (rl_last_update l))
      in l\<lparr>rl_tokens := f64_min (f64_add (rl_tokens l) (f64_mul elapsed (rl_refill_rate l))) (u32_as_f64 (rl_capacity l)),
           rl_last_update := now\<rparr>)"

definition try_acquire :: "int \<Rightarrow> rate_limiter \<Rightarrow> rate_limiter \<times> bool" where
  "try_acquire now l =
     (let l = (refill now l)\<lparr>rl_last_activity := now\<rparr>
      in if f64_ge (rl_tokens l) (f64_lit 1)
         then (l\<lparr>rl_tokens := f64_sub (rl_tokens l) (f64_lit 1)\<rparr>, True)
         else (l, False))"

definition is_stale :: "int \<Rightarrow> rate_limiter \<Rightarrow> bool" where
  "is_stale now l = (duration_since now (rl_last_activity l) > from_secs 300)"

definition limiter_remaining :: "rate_limiter \<Rightarrow> u32" where
  "limiter_remaining l = f64_as_word (rl_tokens l)"

definition time_until_available :: "rate_limiter \<Rightarrow> nat option" where
  "time_until_available l =
     (if f64_ge (rl_tokens l) (f64_lit 1) then Some 0
      else from_secs_f64 (f64_div (f64_sub (f64_lit 1) (rl_tokens l)) (rl_refill_rate l)))"

section \<open>Sliding window\<close>

record sliding_window_limiter =
  sw_window :: nat
  sw_max_requests :: u32
  sw_timestamps :: "int list"

definition sliding_new :: "u32 \<Rightarrow> nat \<Rightarrow> sliding_window_limiter" where
  "sliding_new max_requests window = \<lparr>sw_window = window, sw_max_requests = max_requests, sw_timestamps = []\<rparr>"

definition retain_recent :: "int \<Rightarrow> sliding_window_limiter \<Rightarrow> sliding_window_limiter" where
  "retain_recent now l = l\<lparr>sw_timestamps := filter (\<lambda>t. t > now - int (sw_window l)) (sw_timestamps l)\<rparr>"

definition sliding_try_acquire :: "int \<Rightarrow> sliding_window_limiter \<Rightarrow> sliding_window_limiter \<times> bool" where
  "sliding_try_acquire now l =
     (let l = retain_recent now l
      in if length (sw_timestamps l) \<ge> unat (sw_max_requests l) then (l, False)
         else (l\<lparr>sw_timestamps := sw_timestamps l @ [now]\<rparr>, True))"

definition sliding_current_count :: "int \<Rightarrow> sliding_window_limiter \<Rightarrow> sliding_window_limiter \<times> u32" where
  "sliding_current_count now l = (let l = retain_recent now l in (l, of_nat (length (sw_timestamps l))))"

definition sliding_remaining :: "int \<Rightarrow> sliding_window_limiter \<Rightarrow> sliding_window_limiter \<times> u32" where
  "sliding_remaining now l =
     (let (l, count) = sliding_current_count now l in (l, saturating_sub (sw_max_requests l) count))"

section \<open>The middleware\<close>

record rate_limit_middleware =
  rw_address_limiters :: "(bytes, rate_limiter) hashmap"
  rw_type_limiters :: "(u8, rate_limiter) hashmap"
  rw_global_limiter :: rate_limiter
  rw_last_cleanup :: int

definition rate_limit_middleware_new :: "int \<Rightarrow> rate_limit_middleware" where
  "rate_limit_middleware_new now =
     \<lparr>rw_address_limiters = [], rw_type_limiters = [],
      rw_global_limiter = rate_limiter_new now 10000 (from_secs 1), rw_last_cleanup = now\<rparr>"

definition cleanup_if_needed :: "int \<Rightarrow> rate_limit_middleware \<Rightarrow> rate_limit_middleware" where
  "cleanup_if_needed now m =
     (if duration_since now (rw_last_cleanup m) > from_secs 60
      then m\<lparr>rw_address_limiters := filter (\<lambda>(_, l). \<not> is_stale now l) (rw_address_limiters m),
             rw_type_limiters := filter (\<lambda>(_, l). \<not> is_stale now l) (rw_type_limiters m),
             rw_last_cleanup := now\<rparr>
      else m)"

definition get_address_limiter :: "int \<Rightarrow> rate_limit_middleware \<Rightarrow> bytes \<Rightarrow> u32 \<Rightarrow> rate_limit_middleware \<times> bool" where
  "get_address_limiter now m address limit =
     (let limiter = hm_entry (rate_limiter_new now limit (from_secs 60)) (rw_address_limiters m) address;
          (limiter, ok) = try_acquire now limiter
      in (m\<lparr>rw_address_limiters := hm_insert address limiter (rw_address_limiters m)\<rparr>, ok))"

definition type_limit :: "u8 \<Rightarrow> u32" where
  "type_limit tx_type =
     (if tx_type = 0x01 then 1000 else if tx_type = 0x02 then 100 else if tx_type = 0x03 then 100
      else if tx_type = 0x04 then 10 else if tx_type = 0x05 then 10 else if tx_type = 0x06 then 1
      else if tx_type = 0x07 then 100 else 100)"

definition get_type_limiter :: "int \<Rightarrow> rate_limit_middleware \<Rightarrow> u8 \<Rightarrow> rate_limit_middleware \<times> bool" where
  "get_type_limiter now m tx_type =
     (let limiter = hm_entry (rate_limiter_new now (type_limit tx_type) (from_secs 1)) (rw_type_limiters m) tx_type;
          (limiter, ok) = try_acquire now limiter
      in (m\<lparr>rw_type_limiters := hm_insert tx_type limiter (rw_type_limiters m)\<rparr>, ok))"

definition check_global :: "int \<Rightarrow> rate_limit_middleware \<Rightarrow> rate_limit_middleware \<times> bool" where
  "check_global now m =
     (let (limiter, ok) = try_acquire now (rw_global_limiter m) in (m\<lparr>rw_global_limiter := limiter\<rparr>, ok))"

definition rate_limit_process ::
    "mempool_env \<Rightarrow> rate_limit_middleware \<Rightarrow> middleware_context
      \<Rightarrow> rate_limit_middleware \<times> middleware_context \<times> middleware_action middleware_result" where
  "rate_limit_process E m ctx =
     (let now = me_now E; m = cleanup_if_needed now m
      in case cx_parsed_tx ctx of
           None \<Rightarrow> (m, ctx, Ok Continue)
         | Some p \<Rightarrow>
             let per_address_limit = mc_rate_limit_per_address (cx_config ctx);
                 (m, ok) = check_global now m
             in if \<not> ok then (m, add_tag ''rate_limit_type'' ''global'' ctx, Ok (Reject ''Global rate limit exceeded''))
                else
                  let (m, ok) = get_address_limiter now m (pt_sender p) per_address_limit
                  in if \<not> ok
                     then (m, add_tag ''rate_limit_type'' ''address'' ctx,
                           Ok (Delay 1000 (''Address rate limit exceeded ('' @ show_word per_address_limit @ ''/min)'')))
                     else
                       let (m, ok) = get_type_limiter now m (pt_tx_type p)
                       in if \<not> ok
                          then (m, add_tag ''rate_limit_type'' ''tx_type'' ctx,
                                Ok (Delay 500 (''Transaction type '' @ show_word (pt_tx_type p) @ '' rate limit exceeded'')))
                          else (m, add_tag ''rate_limited'' ''false'' ctx, Ok Continue))"

record rate_limit_stats =
  ls_total_requests :: u64
  ls_allowed :: u64
  ls_denied :: u64
  ls_delayed :: u64
  ls_unique_addresses :: nat

end
