(* ===== verification/Mempool_Fee.thy ===== *)
theory Mempool_Fee
  imports Mempool
begin

text \<open>
  \<open>src/crates/mempool/src/middleware/fee.rs\<close>: gas and fee checks, the priority score, the fee estimator
  and the EIP-1559 style configuration. A \<open>usize\<close> is a natural number; casts to \<open>u64\<close> and \<open>u128\<close> are
  written out.
\<close>

section \<open>The middleware\<close>

record fee_middleware =
  fw_min_gas_price :: u64
  fw_max_gas_limit :: u64
  fw_base_gas :: "(u8, u64) hashmap"

definition fee_middleware_new :: fee_middleware where
  "fee_middleware_new =
     \<lparr>fw_min_gas_price = 1, fw_max_gas_limit = 10000000,
      fw_base_gas = [(0x01, 21000), (0x02, 100000), (0x03, 50000), (0x04, 30000), (0x05, 30000),
                     (0x06, 200000), (0x07, 25000), (0x08, 50000), (0x09, 500000), (0x0A, 21000)]\<rparr>"

definition with_min_gas_price :: "fee_middleware \<Rightarrow> u64 \<Rightarrow> fee_middleware" where
  "with_min_gas_price m price = m\<lparr>fw_min_gas_price := price\<rparr>"

definition with_max_gas_limit :: "fee_middleware \<Rightarrow> u64 \<Rightarrow> fee_middleware" where
  "with_max_gas_limit m limit = m\<lparr>fw_max_gas_limit := limit\<rparr>"

definition get_base_gas :: "fee_middleware \<Rightarrow> u8 \<Rightarrow> u64" where
  "get_base_gas m tx_type = (case hm_get (fw_base_gas m) tx_type of Some g \<Rightarrow> g | None \<Rightarrow> 21000)"

definition calculate_min_fee :: "fee_middleware \<Rightarrow> u8 \<Rightarrow> nat \<Rightarrow> u128" where
  "calculate_min_fee m tx_type data_size =
     (let base = ucast (get_base_gas m tx_type) :: u128;
          data_gas = of_nat data_size * 16
      in (base + data_gas) * ucast (fw_min_gas_price m))"

definition estimate_gas :: "fee_middleware \<Rightarrow> u8 \<Rightarrow> nat \<Rightarrow> u64" where
  "estimate_gas m tx_type data_size = get_base_gas m tx_type + of_nat data_size * 16"

definition calculate_priority_score :: "u64 \<Rightarrow> u64 \<Rightarrow> nat \<Rightarrow> u64" where
  "calculate_priority_score gas_price gas_limit tx_size =
     (let efficiency_bonus = (if tx_size > 0 then (gas_price * 100) div of_nat tx_size else 0)
      in saturating_add gas_price efficiency_bonus)"

definition fee_process ::
    "fee_middleware \<Rightarrow> middleware_context \<Rightarrow> middleware_context \<times> middleware_action middleware_result" where
  "fee_process m ctx =
     (case cx_parsed_tx ctx of
        None \<Rightarrow> (ctx, Ok Continue)
      | Some p \<Rightarrow>
      let tx_type = pt_tx_type p; gas_price = pt_gas_price p; gas_limit = pt_gas_limit p; tx_size = pt_size p;
          min_gas_price = max (mc_min_gas_price (cx_config ctx)) (fw_min_gas_price m);
          base_gas = get_base_gas m tx_type
      in if gas_price < min_gas_price
         then (ctx, Ok (Reject (''Gas price '' @ show_word gas_price @ '' below minimum '' @ show_word min_gas_price)))
         else if gas_limit < base_gas
         then (ctx, Ok (Reject (''Gas limit '' @ show_word gas_limit @ '' below minimum '' @ show_word base_gas
                                @ '' for transaction type '' @ show_word tx_type)))
         else if gas_limit > fw_max_gas_limit m
         then (ctx, Ok (Reject (''Gas limit '' @ show_word gas_limit @ '' exceeds maximum ''
                                @ show_word (fw_max_gas_limit m))))
         else
           let estimated_gas = estimate_gas m tx_type tx_size;
               ctx = (if gas_limit < estimated_gas
                      then add_warning (''Gas limit '' @ show_word gas_limit @ '' may be insufficient (estimated: ''
                                        @ show_word estimated_gas @ '')'') ctx
                      else ctx);
               total_fee = ucast gas_price * ucast gas_limit :: u128;
               min_required_fee = calculate_min_fee m tx_type tx_size
           in if total_fee < min_required_fee
              then (ctx, Ok (Reject (''Total fee '' @ show_word total_fee @ '' below minimum required ''
                                     @ show_word min_required_fee)))
              else
                let ctx = add_tag ''gas_price'' (show_word gas_price) ctx;
                    ctx = add_tag ''gas_limit'' (show_word gas_limit) ctx;
                    ctx = add_tag ''total_fee'' (show_word total_fee) ctx;
                    ctx = add_tag ''estimated_gas'' (show_word estimated_gas) ctx;
                    ctx = add_tag ''min_required_fee'' (show_word min_required_fee) ctx;
                    ctx = add_tag ''priority_score'' (show_word (calculate_priority_score gas_price gas_limit tx_size)) ctx
                in (ctx, Ok Continue))"

section \<open>Estimation\<close>

record fee_estimator =
  fe_recent_prices :: "u64 list"
  fe_max_samples :: nat
  fe_base_fees :: "(u8, u64) hashmap"

definition fee_estimator_new :: fee_estimator where
  "fee_estimator_new = \<lparr>fe_recent_prices = [], fe_max_samples = 100, fe_base_fees = []\<rparr>"

definition record_gas_price :: "fee_estimator \<Rightarrow> u64 \<Rightarrow> fee_estimator" where
  "record_gas_price e price =
     (let prices = fe_recent_prices e @ [price]
      in e\<lparr>fe_recent_prices := (if length prices > fe_max_samples e then drop 1 prices else prices)\<rparr>)"

text \<open>The index is a cast of an \<open>f64\<close> to \<open>usize\<close>, 64 bits wide.\<close>

definition suggest_gas_price :: "fee_estimator \<Rightarrow> f64 \<Rightarrow> u64" where
  "suggest_gas_price e percentile =
     (if fe_recent_prices e = [] then 1
      else
        let sorted = sort (fe_recent_prices e);
            index = unat (f64_as_word (f64_div (f64_mul (Fin (f64_round (of_nat (length sorted)))) percentile)
                                               (f64_lit 100)) :: u64);
            index = min index (length sorted - 1)
        in sorted ! index)"

record gas_price_tiers =
  gt_slow :: u64
  gt_medium :: u64
  gt_fast :: u64
  gt_instant :: u64

definition get_gas_price_tiers :: "fee_estimator \<Rightarrow> gas_price_tiers" where
  "get_gas_price_tiers e =
     \<lparr>gt_slow = suggest_gas_price e (f64_lit 25), gt_medium = suggest_gas_price e (f64_lit 50),
      gt_fast = suggest_gas_price e (f64_lit 75), gt_instant = suggest_gas_price e (f64_lit 95)\<rparr>"

datatype fee_speed = Slow | Medium | Fast | Instant

record fee_estimate =
  ft_gas_price :: u64
  ft_gas_limit :: u64
  ft_total_fee :: u128
  ft_estimated_wait :: string

definition estimate_fee :: "fee_estimator \<Rightarrow> u8 \<Rightarrow> nat \<Rightarrow> fee_speed \<Rightarrow> fee_estimate" where
  "estimate_fee e tx_type data_size speed =
     (let tiers = get_gas_price_tiers e;
          gas_price = (case speed of Slow \<Rightarrow> gt_slow tiers | Medium \<Rightarrow> gt_medium tiers
                                   | Fast \<Rightarrow> gt_fast tiers | Instant \<Rightarrow> gt_instant tiers);
          base_gas = (case hm_get (fe_base_fees e) tx_type of Some g \<Rightarrow> g | None \<Rightarrow> 21000);
          gas_limit = base_gas + of_nat data_size * 16
      in \<lparr>ft_gas_price = gas_price, ft_gas_limit = gas_limit,
          ft_total_fee = ucast gas_price * ucast gas_limit,
          ft_estimated_wait = (case speed of Slow \<Rightarrow> ''~10 blocks'' | Medium \<Rightarrow> ''~5 blocks''
                                           | Fast \<Rightarrow> ''~2 blocks'' | Instant \<Rightarrow> ''Next block'')\<rparr>)"

record eip1559_config =
  ep_base_fee :: u64
  ep_max_fee_per_gas :: u64
  ep_max_priority_fee :: u64

definition effective_gas_price :: "eip1559_config \<Rightarrow> u64" where
  "effective_gas_price c =
     (let priority_fee = min (ep_max_priority_fee c) (saturating_sub (ep_max_fee_per_gas c) (ep_base_fee c))
      in saturating_add (ep_base_fee c) priority_fee)"

definition is_sufficient :: "eip1559_config \<Rightarrow> bool" where
  "is_sufficient c = (ep_max_fee_per_gas c \<ge> ep_base_fee c)"

end
