(* ===== verification/Mempool_Chain.thy ===== *)
theory Mempool_Chain
  imports Mempool_Signature Mempool_Compliance Mempool_Rate_Limit Mempool_Fee
begin

text \<open>
  The middleware chain of \<open>src/crates/mempool/src/middleware/mod.rs\<close>. A boxed middleware is one of the
  four of the crate or a custom one, given by its name, its priority and its function. Processing
  returns the chain as well, because the rate limiter keeps its buckets behind locks; the duration of a
  step is the argument \<open>timer\<close>.
\<close>

datatype middleware =
    SignatureMW signature_middleware
  | ComplianceMW compliance_middleware
  | RateLimitMW rate_limit_middleware
  | FeeMW fee_middleware
  | CustomMW string u32 "middleware_context \<Rightarrow> middleware_context \<times> middleware_action middleware_result"

fun middleware_name :: "middleware \<Rightarrow> string" where
  "middleware_name (SignatureMW _) = ''signature''"
| "middleware_name (ComplianceMW _) = ''compliance''"
| "middleware_name (RateLimitMW _) = ''rate_limit''"
| "middleware_name (FeeMW _) = ''fee''"
| "middleware_name (CustomMW name _ _) = name"

fun middleware_priority :: "middleware \<Rightarrow> u32" where
  "middleware_priority (SignatureMW _) = 10"
| "middleware_priority (ComplianceMW _) = 20"
| "middleware_priority (RateLimitMW _) = 30"
| "middleware_priority (FeeMW _) = 40"
| "middleware_priority (CustomMW _ priority _) = priority"

fun middleware_process ::
    "mempool_env \<Rightarrow> middleware \<Rightarrow> middleware_context
      \<Rightarrow> middleware \<times> middleware_context \<times> middleware_action middleware_result" where
  "middleware_process E (SignatureMW m) ctx = (SignatureMW m, signature_process E m ctx)"
| "middleware_process E (ComplianceMW m) ctx = (ComplianceMW m, compliance_process E m ctx)"
| "middleware_process E (RateLimitMW m) ctx = (let (m, r) = rate_limit_process E m ctx in (RateLimitMW m, r))"
| "middleware_process E (FeeMW m) ctx = (FeeMW m, fee_process m ctx)"
| "middleware_process E (CustomMW name priority f) ctx = (CustomMW name priority f, f ctx)"

record middleware_chain =
  ch_middlewares :: "middleware list"
  ch_config :: middleware_config

definition chain_new :: "middleware_config \<Rightarrow> middleware_chain" where
  "chain_new config = \<lparr>ch_middlewares = [], ch_config = config\<rparr>"

text \<open>\<open>sort_by_key\<close> is stable.\<close>

definition chain_add :: "middleware_chain \<Rightarrow> middleware \<Rightarrow> middleware_chain" where
  "chain_add c m = c\<lparr>ch_middlewares := sort_key middleware_priority (ch_middlewares c @ [m])\<rparr>"

record step_result =
  sr_middleware_name :: string
  sr_action :: middleware_action
  sr_duration_us :: u64

record processing_result =
  pr_accepted :: bool
  pr_rejection_reason :: "string option"
  pr_steps :: "step_result list"
  pr_metadata :: middleware_metadata

definition stamp :: "string \<Rightarrow> u64 \<Rightarrow> middleware_context \<Rightarrow> middleware_context" where
  "stamp name elapsed ctx =
     ctx\<lparr>cx_metadata := (cx_metadata ctx)\<lparr>mm_timestamps := mm_timestamps (cx_metadata ctx) @ [(name, elapsed)]\<rparr>\<rparr>"

definition finish :: "bool \<Rightarrow> string option \<Rightarrow> step_result list \<Rightarrow> middleware_context \<Rightarrow> processing_result" where
  "finish accepted reason steps ctx =
     \<lparr>pr_accepted = accepted, pr_rejection_reason = reason, pr_steps = steps, pr_metadata = cx_metadata ctx\<rparr>"

fun chain_loop ::
    "mempool_env \<Rightarrow> (string \<Rightarrow> u64) \<Rightarrow> middleware list \<Rightarrow> middleware_context \<Rightarrow> step_result list
      \<Rightarrow> middleware list \<times> processing_result middleware_result" where
  "chain_loop E timer [] ctx steps = ([], Ok (finish True None steps ctx))"
| "chain_loop E timer (m # ms) ctx steps =
     (case middleware_process E m ctx of
        (m, ctx, Err e) \<Rightarrow> (m # ms, Err e)
      | (m, ctx, Ok action) \<Rightarrow>
          (let elapsed = timer (middleware_name m);
               ctx = stamp (middleware_name m) elapsed ctx;
               steps = steps @ [\<lparr>sr_middleware_name = middleware_name m, sr_action = action, sr_duration_us = elapsed\<rparr>]
           in case action of
                Continue \<Rightarrow> (let (ms, r) = chain_loop E timer ms ctx steps in (m # ms, r))
              | Accept \<Rightarrow> (m # ms, Ok (finish True None steps ctx))
              | Reject reason \<Rightarrow> (m # ms, Ok (finish False (Some reason) steps ctx))
              | Delay _ _ \<Rightarrow> (m # ms, Ok (finish False (Some ''Transaction delayed'') steps ctx))))"

definition chain_process ::
    "mempool_env \<Rightarrow> (string \<Rightarrow> u64) \<Rightarrow> middleware_chain \<Rightarrow> bytes
      \<Rightarrow> middleware_chain \<times> processing_result middleware_result" where
  "chain_process E timer c tx_bytes =
     (let (ms, r) = chain_loop E timer (ch_middlewares c) (context_new tx_bytes (ch_config c)) []
      in (c\<lparr>ch_middlewares := ms\<rparr>, r))"

definition create_default_chain :: "int \<Rightarrow> middleware_config \<Rightarrow> middleware_chain" where
  "create_default_chain now config =
     chain_add (chain_add (chain_add (chain_add (chain_new config)
       (SignatureMW signature_middleware_new))
       (ComplianceMW compliance_middleware_new))
       (RateLimitMW (rate_limit_middleware_new now)))
       (FeeMW fee_middleware_new)"

end
