(* ===== verification/Core_Transaction.thy ===== *)
theory Core_Transaction
  imports Core_Address
begin

text \<open>
  \<open>src/crates/core/src/types/transaction.rs\<close>: transaction types and payloads, their encodings, signing,
  verification of a signed transaction and of a batch. The wall clock is an argument.
\<close>

section \<open>Errors and types\<close>

datatype transaction_error =
    InvalidSignature string
  | TxVerificationFailed
  | MissingSignature
  | InvalidNonce u64 u64
  | InsufficientBalance u128 u128
  | TxExpired u64 u64
  | InvalidTxType
  | SerializationError string
  | TxCryptoError string

definition transaction_error_from :: "crypto_error \<Rightarrow> transaction_error" where
  "transaction_error_from e = TxCryptoError (show_crypto_error e)"

datatype transaction_type =
  TxTransfer | TxComputeJob | TxSeal | TxStake | TxUnstake | TxPropose | TxVote | TxOracleUpdate | TxDeploy | TxCall

fun transaction_type_to_byte :: "transaction_type \<Rightarrow> u8" where
  "transaction_type_to_byte TxTransfer = 0x01"
| "transaction_type_to_byte TxComputeJob = 0x02"
| "transaction_type_to_byte TxSeal = 0x03"
| "transaction_type_to_byte TxStake = 0x04"
| "transaction_type_to_byte TxUnstake = 0x05"
| "transaction_type_to_byte TxPropose = 0x06"
| "transaction_type_to_byte TxVote = 0x07"
| "transaction_type_to_byte TxOracleUpdate = 0x08"
| "transaction_type_to_byte TxDeploy = 0x09"
| "transaction_type_to_byte TxCall = 0x0A"

definition transaction_type_from_byte :: "u8 \<Rightarrow> transaction_type option" where
  "transaction_type_from_byte b =
     (if b = 0x01 then Some TxTransfer else if b = 0x02 then Some TxComputeJob
      else if b = 0x03 then Some TxSeal else if b = 0x04 then Some TxStake
      else if b = 0x05 then Some TxUnstake else if b = 0x06 then Some TxPropose
      else if b = 0x07 then Some TxVote else if b = 0x08 then Some TxOracleUpdate
      else if b = 0x09 then Some TxDeploy else if b = 0x0A then Some TxCall else None)"

definition requires_compute :: "transaction_type \<Rightarrow> bool" where
  "requires_compute t = (t = TxComputeJob \<or> t = TxSeal)"

fun base_gas :: "transaction_type \<Rightarrow> u64" where
  "base_gas TxTransfer = 21000"
| "base_gas TxComputeJob = 100000"
| "base_gas TxSeal = 50000"
| "base_gas TxStake = 30000"
| "base_gas TxUnstake = 30000"
| "base_gas TxPropose = 200000"
| "base_gas TxVote = 25000"
| "base_gas TxOracleUpdate = 50000"
| "base_gas TxDeploy = 500000"
| "base_gas TxCall = 21000"

section \<open>Payloads\<close>

record transfer_tx =
  tf_to :: core_address
  tf_amount :: u128
  tf_memo :: "bytes option"

definition transfer_tx_new :: "core_address \<Rightarrow> u128 \<Rightarrow> transfer_tx" where
  "transfer_tx_new recipient amount = \<lparr>tf_to = recipient, tf_amount = amount, tf_memo = None\<rparr>"

definition with_memo :: "transfer_tx \<Rightarrow> bytes \<Rightarrow> transfer_tx" where
  "with_memo t memo = t\<lparr>tf_memo := Some memo\<rparr>"

definition transfer_tx_to_bytes :: "transfer_tx \<Rightarrow> bytes" where
  "transfer_tx_to_bytes t =
     address_serialize (tf_to t) @ le_bytes 16 (tf_amount t)
     @ (case tf_memo t of
          Some memo \<Rightarrow> 1 # le_bytes 2 (of_nat (length memo) :: u16) @ memo
        | None \<Rightarrow> [0])"

datatype tx_verification_method = TeeOnly | ZkmlOnly | HybridMethod | Mpc

fun tx_method_to_byte :: "tx_verification_method \<Rightarrow> u8" where
  "tx_method_to_byte TeeOnly = 0x01"
| "tx_method_to_byte ZkmlOnly = 0x02"
| "tx_method_to_byte HybridMethod = 0x03"
| "tx_method_to_byte Mpc = 0x04"

definition tx_method_from_byte :: "u8 \<Rightarrow> tx_verification_method option" where
  "tx_method_from_byte b =
     (if b = 0x01 then Some TeeOnly else if b = 0x02 then Some ZkmlOnly
      else if b = 0x03 then Some HybridMethod else if b = 0x04 then Some Mpc else None)"

datatype hardware_tier = Standard | Gpu | Tee | Fpga | TeeGpu

fun hardware_tier_as_u8 :: "hardware_tier \<Rightarrow> u8" where
  "hardware_tier_as_u8 Standard = 0x00"
| "hardware_tier_as_u8 Gpu = 0x01"
| "hardware_tier_as_u8 Tee = 0x02"
| "hardware_tier_as_u8 Fpga = 0x03"
| "hardware_tier_as_u8 TeeGpu = 0x04"

record compute_sla =
  cs_max_latency_ms :: u64
  cs_min_attestations :: u32
  cs_hardware_tier :: hardware_tier
  cs_geo_restrictions :: "string list"

definition compute_sla_default :: compute_sla where
  "compute_sla_default =
     \<lparr>cs_max_latency_ms = 30000, cs_min_attestations = 2, cs_hardware_tier = Standard, cs_geo_restrictions = []\<rparr>"

definition compute_sla_to_bytes :: "compute_sla \<Rightarrow> bytes" where
  "compute_sla_to_bytes s =
     le_bytes 8 (cs_max_latency_ms s) @ le_bytes 4 (cs_min_attestations s) @ [hardware_tier_as_u8 (cs_hardware_tier s)]
     @ [of_nat (length (cs_geo_restrictions s))] @ concat (map ascii (cs_geo_restrictions s))"

datatype compliance_framework = Gdpr | Hipaa | PciDss | Sox | Ccpa

fun framework_as_u8 :: "compliance_framework \<Rightarrow> u8" where
  "framework_as_u8 Gdpr = 0x01"
| "framework_as_u8 Hipaa = 0x02"
| "framework_as_u8 PciDss = 0x03"
| "framework_as_u8 Sox = 0x04"
| "framework_as_u8 Ccpa = 0x05"

record compliance_requirements =
  cq_frameworks :: "compliance_framework list"
  cq_data_residency :: "string option"
  cq_audit_required :: bool

definition compliance_requirements_default :: compliance_requirements where
  "compliance_requirements_default = \<lparr>cq_frameworks = [], cq_data_residency = None, cq_audit_required = False\<rparr>"

definition compliance_requirements_to_bytes :: "compliance_requirements \<Rightarrow> bytes" where
  "compliance_requirements_to_bytes c =
     [of_nat (length (cq_frameworks c))] @ map framework_as_u8 (cq_frameworks c)
     @ (case cq_data_residency c of
          Some residency \<Rightarrow> [1, of_nat (length residency)] @ ascii residency
        | None \<Rightarrow> [0])
     @ [of_bool (cq_audit_required c)]"

record compute_job_tx =
  cj_model_hash :: hash256
  cj_input_hash :: hash256
  cj_encrypted_input_ref :: "bytes option"
  cj_verification_method :: tx_verification_method
  cj_max_fee :: u128
  cj_sla :: compute_sla
  cj_compliance :: compliance_requirements

definition compute_job_tx_to_bytes :: "compute_job_tx \<Rightarrow> bytes" where
  "compute_job_tx_to_bytes j =
     cj_model_hash j @ cj_input_hash j @ [tx_method_to_byte (cj_verification_method j)]
     @ le_bytes 16 (cj_max_fee j) @ compute_sla_to_bytes (cj_sla j)
     @ compliance_requirements_to_bytes (cj_compliance j)
     @ (case cj_encrypted_input_ref j of
          Some ref_data \<Rightarrow> 1 # le_bytes 4 (of_nat (length ref_data) :: u32) @ ref_data
        | None \<Rightarrow> [0])"

record validator_attestation =
  va_validator :: core_address
  va_tee_attestation :: bytes
  va_signature :: hybrid_signature
  va_timestamp :: u64

text \<open>\<open>None\<close> where the encoding of a signature panics.\<close>

definition attestation_to_bytes :: "validator_attestation \<Rightarrow> bytes option" where
  "attestation_to_bytes a =
     (case signature_to_bytes (va_signature a) of
        None \<Rightarrow> None
      | Some sig \<Rightarrow>
          Some (address_serialize (va_validator a) @ le_bytes 4 (of_nat (length (va_tee_attestation a)) :: u32)
                @ va_tee_attestation a @ sig @ le_bytes 8 (va_timestamp a)))"

record seal_tx =
  sl_job_id :: hash256
  sl_output_hash :: hash256
  sl_attestations :: "validator_attestation list"
  sl_zkml_proof :: "bytes option"

definition seal_tx_to_bytes :: "seal_tx \<Rightarrow> bytes option" where
  "seal_tx_to_bytes s =
     (case those (map attestation_to_bytes (sl_attestations s)) of
        None \<Rightarrow> None
      | Some atts \<Rightarrow>
          Some (sl_job_id s @ sl_output_hash s @ [of_nat (length (sl_attestations s))] @ concat atts
                @ (case sl_zkml_proof s of
                     Some zk \<Rightarrow> 1 # le_bytes 4 (of_nat (length zk) :: u32) @ zk
                   | None \<Rightarrow> [0])))"

datatype transaction_payload =
  PTransfer transfer_tx | PComputeJob compute_job_tx | PSeal seal_tx | PRaw bytes

section \<open>Transactions\<close>

record transaction =
  tx_version :: u8
  tx_tx_type :: transaction_type
  tx_sender :: core_address
  tx_nonce :: u64
  tx_gas_price :: u64
  tx_gas_limit :: u64
  tx_chain_id :: u64
  tx_expiry :: u64
  tx_payload :: transaction_payload

definition transaction_transfer :: "core_address \<Rightarrow> core_address \<Rightarrow> u128 \<Rightarrow> u64 \<Rightarrow> transaction" where
  "transaction_transfer sender recipient amount nonce =
     \<lparr>tx_version = 1, tx_tx_type = TxTransfer, tx_sender = sender, tx_nonce = nonce, tx_gas_price = 1,
      tx_gas_limit = base_gas TxTransfer, tx_chain_id = 1, tx_expiry = 0,
      tx_payload = PTransfer (transfer_tx_new recipient amount)\<rparr>"

definition transaction_compute_job :: "core_address \<Rightarrow> hash256 \<Rightarrow> hash256 \<Rightarrow> u64 \<Rightarrow> transaction" where
  "transaction_compute_job sender model_hash input_hash nonce =
     \<lparr>tx_version = 1, tx_tx_type = TxComputeJob, tx_sender = sender, tx_nonce = nonce, tx_gas_price = 1,
      tx_gas_limit = base_gas TxComputeJob, tx_chain_id = 1, tx_expiry = 0,
      tx_payload = PComputeJob
        \<lparr>cj_model_hash = model_hash, cj_input_hash = input_hash, cj_encrypted_input_ref = None,
         cj_verification_method = HybridMethod, cj_max_fee = 0, cj_sla = compute_sla_default,
         cj_compliance = compliance_requirements_default\<rparr>\<rparr>"

definition with_gas :: "transaction \<Rightarrow> u64 \<Rightarrow> u64 \<Rightarrow> transaction" where
  "with_gas t price limit = t\<lparr>tx_gas_price := price, tx_gas_limit := limit\<rparr>"

definition with_chain_id :: "transaction \<Rightarrow> u64 \<Rightarrow> transaction" where
  "with_chain_id t chain_id = t\<lparr>tx_chain_id := chain_id\<rparr>"

definition with_expiry :: "transaction \<Rightarrow> u64 \<Rightarrow> transaction" where
  "with_expiry t expiry = t\<lparr>tx_expiry := expiry\<rparr>"

fun payload_bytes :: "transaction_payload \<Rightarrow> bytes option" where
  "payload_bytes (PTransfer t) = Some (transfer_tx_to_bytes t)"
| "payload_bytes (PComputeJob j) = Some (compute_job_tx_to_bytes j)"
| "payload_bytes (PSeal s) = seal_tx_to_bytes s"
| "payload_bytes (PRaw data) = Some data"

definition to_signing_bytes :: "transaction \<Rightarrow> bytes option" where
  "to_signing_bytes t =
     (case payload_bytes (tx_payload t) of
        None \<Rightarrow> None
      | Some payload \<Rightarrow>
          Some ([tx_version t, transaction_type_to_byte (tx_tx_type t)] @ address_serialize (tx_sender t)
                @ le_bytes 8 (tx_nonce t) @ le_bytes 8 (tx_gas_price t) @ le_bytes 8 (tx_gas_limit t)
                @ le_bytes 8 (tx_chain_id t) @ le_bytes 8 (tx_expiry t) @ payload))"

definition core_tx_hash :: "crypto_lib \<Rightarrow> transaction \<Rightarrow> hash256 option" where
  "core_tx_hash C t = map_option (transaction_hash C) (to_signing_bytes t)"

definition tx_is_expired :: "u64 \<Rightarrow> transaction \<Rightarrow> bool" where
  "tx_is_expired now t = (tx_expiry t \<noteq> 0 \<and> now > tx_expiry t)"

definition total_gas_cost :: "transaction \<Rightarrow> u128" where
  "total_gas_cost t = ucast (tx_gas_price t) * ucast (tx_gas_limit t)"

section \<open>Signed transactions\<close>

record signed_transaction =
  st_tx :: transaction
  st_signature :: hybrid_signature
  st_public_key :: hybrid_public_key

definition transaction_sign ::
    "crypto_lib \<Rightarrow> transaction \<Rightarrow> hybrid_keypair \<Rightarrow> (transaction_error, signed_transaction) result option" where
  "transaction_sign C t keypair =
     (case core_tx_hash C t of
        None \<Rightarrow> None
      | Some h \<Rightarrow> Some (case keypair_sign C keypair h of
          Err e \<Rightarrow> Err (transaction_error_from e)
        | Ok signature \<Rightarrow>
            Ok \<lparr>st_tx = t, st_signature = signature, st_public_key = kp_public_key keypair\<rparr>))"

definition sign_with_key ::
    "crypto_lib \<Rightarrow> transaction \<Rightarrow> hybrid_secret_key \<Rightarrow> hybrid_public_key
      \<Rightarrow> (transaction_error, signed_transaction) result option" where
  "sign_with_key C t secret_key public_key =
     (case core_tx_hash C t of
        None \<Rightarrow> None
      | Some h \<Rightarrow> Some (case secret_sign C secret_key h of
          Err e \<Rightarrow> Err (transaction_error_from e)
        | Ok signature \<Rightarrow> Ok \<lparr>st_tx = t, st_signature = signature, st_public_key = public_key\<rparr>))"

definition verifier_config_for :: "quantum_threat_level \<Rightarrow> u64 \<Rightarrow> verifier_config" where
  "verifier_config_for threat_level chain_id =
     (let config = verifier_config_default\<lparr>vc_chain_id := chain_id\<rparr>
      in if quantum_only threat_level then enter_panic_mode config else config)"

definition signed_verify_signature ::
    "crypto_lib \<Rightarrow> u64 option \<Rightarrow> signed_transaction \<Rightarrow> quantum_threat_level \<Rightarrow> (transaction_error, bool) result option" where
  "signed_verify_signature C clock s threat_level =
     (if address_from_public_key C (st_public_key s) \<noteq> tx_sender (st_tx s) then Some (Ok False)
      else case core_tx_hash C (st_tx s) of
        None \<Rightarrow> None
      | Some h \<Rightarrow>
          Some (Ok (is_ok (signature_verify C clock (st_signature s) h (st_public_key s)
                             (verifier_config_for threat_level (tx_chain_id (st_tx s)))))))"

definition signed_verify :: "crypto_lib \<Rightarrow> u64 option \<Rightarrow> signed_transaction \<Rightarrow> (transaction_error, bool) result option" where
  "signed_verify C clock s = signed_verify_signature C clock s 0"

definition signed_to_bytes :: "signed_transaction \<Rightarrow> bytes option" where
  "signed_to_bytes s =
     (case to_signing_bytes (st_tx s) of
        None \<Rightarrow> None
      | Some tx_bytes \<Rightarrow>
     (case signature_to_bytes (st_signature s) of
        None \<Rightarrow> None
      | Some sig_bytes \<Rightarrow>
          let pk_bytes = hybrid_public_to_bytes (st_public_key s)
          in Some (le_bytes 4 (of_nat (length tx_bytes) :: u32) @ tx_bytes
                   @ le_bytes 4 (of_nat (length sig_bytes) :: u32) @ sig_bytes
                   @ le_bytes 4 (of_nat (length pk_bytes) :: u32) @ pk_bytes)))"

definition signed_compliance_requirements :: "signed_transaction \<Rightarrow> compliance_requirements option" where
  "signed_compliance_requirements s =
     (case tx_payload (st_tx s) of PComputeJob job \<Rightarrow> Some (cj_compliance job) | _ \<Rightarrow> None)"

text \<open>\<open>TransactionBatch\<close> is its list of transactions.\<close>

definition batch_verify_all ::
    "crypto_lib \<Rightarrow> u64 option \<Rightarrow> signed_transaction list \<Rightarrow> quantum_threat_level \<Rightarrow> (transaction_error, bool) result option" where
  "batch_verify_all C clock transactions threat_level =
     (case those (map (\<lambda>s. core_tx_hash C (st_tx s)) transactions) of
        None \<Rightarrow> None
      | Some messages \<Rightarrow>
          let chain_id = (case transactions of s # _ \<Rightarrow> tx_chain_id (st_tx s) | [] \<Rightarrow> 1);
              config = verifier_config_for threat_level chain_id
          in Some (case batch_verify C clock messages (map st_signature transactions)
                          (map st_public_key transactions) config of
                     Err e \<Rightarrow> Err (transaction_error_from e)
                   | Ok valid \<Rightarrow> Ok valid))"

end
