(* ===== verification/Hybrid_Properties.thy ===== *)
theory Hybrid_Properties
  imports Core_Transaction
begin

text \<open>
  Hybrid signatures: the wire formats read back what they write, version 2 is canonical, and what a
  verified signature guarantees.
\<close>

section \<open>Metadata\<close>

lemma length_flagged: "length (flagged_u64 v) \<le> 9" "0 < length (flagged_u64 v)"
  by (cases v; simp)+

lemma parse_flagged_append:
  "parse_flagged (pre @ flagged_u64 v @ rest) (length pre) = Some (v, length pre + length (flagged_u64 v))"
proof (cases v)
  case None
  then show ?thesis by (simp add: parse_flagged_def nth_append)
next
  case (Some w)
  have "slice (length pre + 1) (length pre + 9) (pre @ (0x01 # le_bytes 8 w) @ rest) = le_bytes 8 w"
    by (simp add: slice_def)
  then show ?thesis using Some by (simp add: parse_flagged_def nth_append)
qed

lemma parse_metadata_append:
  "parse_signature_metadata (pre @ flagged_u64 t @ flagged_u64 c) (length pre)
     = Some (t, c, length pre + length (flagged_u64 t) + length (flagged_u64 c))"
  using parse_flagged_append [of pre t "flagged_u64 c"] parse_flagged_append [of "pre @ flagged_u64 t" c "[]"]
  by (simp add: parse_signature_metadata_def add.assoc)

lemma slice_nth: "a < length bs \<Longrightarrow> b = a + 1 \<Longrightarrow> slice a b bs = [bs ! a]"
  by (simp add: slice_def take_Suc_conv_app_nth hd_drop_conv_nth take_Suc)

lemma parse_flagged_Some:
  assumes "parse_flagged bs a = Some (v, b)"
  shows "a < b \<and> b \<le> length bs \<and> slice a b bs = flagged_u64 v"
proof (cases "bs ! a = 0")
  case True
  then show ?thesis using assms slice_nth [of a bs "a + 1"] by (auto simp: parse_flagged_def split: if_splits)
next
  case False
  then have l: "a < length bs" "bs ! a = 1" "a + 9 \<le> length bs" "b = a + 9"
      and v: "v = Some (le_word (slice (a + 1) (a + 9) bs))"
    using assms by (auto simp: parse_flagged_def split: if_splits)
  have "slice a (a + 9) bs = [bs ! a] @ slice (a + 1) (a + 9) bs"
    using slice_split [of a "a + 1" "a + 9" bs] slice_nth [of a bs "a + 1"] l(1) by simp
  moreover have "le_bytes 8 (le_word (slice (a + 1) (a + 9) bs) :: u64) = slice (a + 1) (a + 9) bs"
    using le_bytes_le_word [where 'a = 64, of "slice (a + 1) (a + 9) bs"] l(3) by simp
  ultimately show ?thesis using l v by simp
qed

lemma parse_metadata_Some:
  assumes "parse_signature_metadata bs a = Some (t, c, b)"
  shows "b \<le> length bs \<and> a \<le> b \<and> slice a b bs = flagged_u64 t @ flagged_u64 c"
proof -
  obtain m where m: "parse_flagged bs a = Some (t, m)" "parse_flagged bs m = Some (c, b)"
    using assms by (auto simp: parse_signature_metadata_def split: option.splits)
  show ?thesis
    using parse_flagged_Some [OF m(1)] parse_flagged_Some [OF m(2)] slice_split [of a m b bs] by simp
qed

section \<open>Version 2\<close>

definition signature_wf :: "hybrid_signature \<Rightarrow> bool" where
  "signature_wf s = (length (sg_classical s) = 64 \<and> 0 < length (sg_quantum s)
     \<and> length (sg_quantum s) \<le> signature_size (sg_level s))"

lemma signature_size_small: "signature_size l < 2 ^ 16"
  by (cases l) simp_all

lemma parse_level_byte_level [simp]: "parse_level_byte (level_as_u8 l) = Ok l"
  by (cases l) (simp_all add: parse_level_byte_def)

lemma parse_level_byte_Ok: "parse_level_byte b = Ok l \<longleftrightarrow> b = level_as_u8 l"
  by (cases l) (auto simp: parse_level_byte_def split: if_splits)

text \<open>The bytes of version 2 in front of the metadata.\<close>

definition v2_front :: "hybrid_signature \<Rightarrow> bytes" where
  "v2_front s = [SIGNATURE_VERSION_V2, HYBRID_MARKER] @ sg_classical s @ [COMPONENT_SEPARATOR, level_as_u8 (sg_level s)]
     @ le_bytes 2 (of_nat (length (sg_quantum s)) :: u16) @ sg_quantum s"

lemma to_bytes_v2:
  "signature_wf s \<Longrightarrow>
    signature_to_bytes s = Some (v2_front s @ flagged_u64 (sg_timestamp s) @ flagged_u64 (sg_chain_id s))"
  using signature_size_small [of "sg_level s"]
  by (auto simp: signature_to_bytes_def signature_wf_def v2_front_def)

lemma v2_front_parts:
  assumes "length (sg_classical s) = 64" and "length (sg_quantum s) < 2 ^ 16"
  shows "length (v2_front s) = 70 + length (sg_quantum s)"
    and "(v2_front s @ r) ! 0 = SIGNATURE_VERSION_V2" and "(v2_front s @ r) ! 1 = HYBRID_MARKER"
    and "(v2_front s @ r) ! 66 = COMPONENT_SEPARATOR" and "(v2_front s @ r) ! 67 = level_as_u8 (sg_level s)"
    and "slice 2 66 (v2_front s @ r) = sg_classical s"
    and "slice 70 (70 + length (sg_quantum s)) (v2_front s @ r) = sg_quantum s"
    and "unat (le_word (slice 68 70 (v2_front s @ r)) :: u16) = length (sg_quantum s)"
proof -
  let ?n = "le_bytes 2 (of_nat (length (sg_quantum s)) :: u16)"
  have n: "slice 68 70 (v2_front s @ r) = ?n" by (simp add: slice_def v2_front_def assms(1))
  show "unat (le_word (slice 68 70 (v2_front s @ r)) :: u16) = length (sg_quantum s)"
    using assms(2) by (simp add: n unsigned_of_nat take_bit_nat_eq_self)
qed (simp_all add: v2_front_def assms(1) slice_def nth_append)

lemma v2_round_trip:
  assumes "signature_wf s" and "signature_to_bytes s = Some bs"
  shows "signature_from_bytes bs = Ok s"
proof -
  let ?m = "flagged_u64 (sg_timestamp s) @ flagged_u64 (sg_chain_id s)"
  have bs: "bs = v2_front s @ ?m" using assms to_bytes_v2 by simp
  have wf: "length (sg_classical s) = 64" "0 < length (sg_quantum s)"
      "length (sg_quantum s) \<le> signature_size (sg_level s)" "length (sg_quantum s) < 2 ^ 16"
    using assms(1) signature_size_small [of "sg_level s"] by (auto simp: signature_wf_def)
  note p = v2_front_parts(1) [OF wf(1) wf(4)] v2_front_parts(2-) [OF wf(1) wf(4), of ?m]
  have m: "2 \<le> length ?m"
    using length_flagged(2) [of "sg_timestamp s"] length_flagged(2) [of "sg_chain_id s"] unfolding length_append by linarith
  then have l: "72 \<le> length bs" "72 + length (sg_quantum s) \<le> length bs" using p(1) bs wf(2) by auto
  have meta: "parse_signature_metadata bs (70 + length (sg_quantum s))
      = Some (sg_timestamp s, sg_chain_id s, length bs)"
    using parse_metadata_append [of "v2_front s" "sg_timestamp s" "sg_chain_id s"] p(1) by (simp add: bs add.assoc)
  have "parse_signature_v2 bs = Ok s"
    using wf l meta p by (simp add: parse_signature_v2_def bs Let_def)
  then show ?thesis using p l by (simp add: signature_from_bytes_def bs)
qed

lemma split_at: "n \<le> length bs \<Longrightarrow> bs = slice 0 n bs @ slice n (length bs) bs"
  by (simp add: slice_def)

lemma v2_canonical:
  assumes "parse_signature_v2 bs = Ok s" and "bs ! 0 = SIGNATURE_VERSION_V2" and "bs ! 1 = HYBRID_MARKER"
  shows "signature_wf s \<and> signature_to_bytes s = Some bs"
proof -
  let ?n = "unat (le_word (slice 68 70 bs) :: u16)"
  have l: "72 \<le> length bs" "bs ! 66 = COMPONENT_SEPARATOR" "bs ! 67 = level_as_u8 (sg_level s)" "0 < ?n"
      "?n \<le> signature_size (sg_level s)" "72 + ?n \<le> length bs"
      and parts: "sg_classical s = slice 2 66 bs" "sg_quantum s = slice 70 (70 + ?n) bs"
      and meta: "parse_signature_metadata bs (70 + ?n) = Some (sg_timestamp s, sg_chain_id s, length bs)"
    using assms(1)
    by (auto simp: parse_signature_v2_def Let_def parse_level_byte_Ok split: if_splits result.splits option.splits)
  have len: "length (sg_quantum s) = ?n" "length (sg_classical s) = 64" using l parts by simp_all
  have word: "le_bytes 2 (of_nat ?n :: u16) = slice 68 70 bs"
    using le_bytes_le_word [where 'a = 16, of "slice 68 70 bs"] l(1) by simp
  have head: "slice 0 1 bs = [bs ! 0]" "slice 1 2 bs = [bs ! 1]" "slice 66 67 bs = [bs ! 66]" "slice 67 68 bs = [bs ! 67]"
    using l(1) by (auto intro!: slice_nth)
  have le: "1 \<le> 70 + ?n" "2 \<le> 70 + ?n" "66 \<le> 70 + ?n" "67 \<le> 70 + ?n" "68 \<le> 70 + ?n" "70 \<le> 70 + ?n" by simp_all
  have "slice 0 (70 + ?n) bs = slice 0 1 bs @ slice 1 2 bs @ slice 2 66 bs @ slice 66 67 bs @ slice 67 68 bs
      @ slice 68 70 bs @ slice 70 (70 + ?n) bs"
    using slice_split [OF _ le(1), of 0 bs] slice_split [OF _ le(2), of 1 bs] slice_split [OF _ le(3), of 2 bs]
      slice_split [OF _ le(4), of 66 bs] slice_split [OF _ le(5), of 67 bs] slice_split [OF _ le(6), of 68 bs] by simp
  then have front: "slice 0 (70 + ?n) bs = v2_front s"
    unfolding v2_front_def len(1) word parts(1) head assms(2,3) l(2,3) by (simp add: parts(2))
  have wf: "signature_wf s" using l len by (simp add: signature_wf_def)
  show ?thesis
    using split_at [of "70 + ?n" bs] parse_metadata_Some [OF meta] front l(6) to_bytes_v2 [OF wf] wf by simp
qed

section \<open>Version 1\<close>

text \<open>The legacy layout that the documentation of the module describes.\<close>

definition v1_front :: "hybrid_signature \<Rightarrow> bytes" where
  "v1_front s = [SIGNATURE_VERSION_V1, HYBRID_MARKER] @ sg_classical s @ [COMPONENT_SEPARATOR] @ sg_quantum s
     @ [level_as_u8 (sg_level s)]"

definition v1_bytes :: "hybrid_signature \<Rightarrow> bytes" where
  "v1_bytes s = v1_front s @ flagged_u64 (sg_timestamp s) @ flagged_u64 (sg_chain_id s)"

definition full_size :: "hybrid_signature \<Rightarrow> bool" where
  "full_size s = (length (sg_classical s) = 64 \<and> length (sg_quantum s) = signature_size (sg_level s))"

lemma full_size_wf: "full_size s \<Longrightarrow> signature_wf s"
  by (cases "sg_level s") (simp_all add: full_size_def signature_wf_def)

lemma v1_front_parts:
  assumes "full_size s"
  shows "length (v1_front s) = 68 + signature_size (sg_level s)"
    and "(v1_front s @ r) ! 0 = SIGNATURE_VERSION_V1" and "(v1_front s @ r) ! 1 = HYBRID_MARKER"
    and "(v1_front s @ r) ! 66 = COMPONENT_SEPARATOR"
    and "(v1_front s @ r) ! (67 + signature_size (sg_level s)) = level_as_u8 (sg_level s)"
    and "slice 2 66 (v1_front s @ r) = sg_classical s"
    and "slice 67 (67 + signature_size (sg_level s)) (v1_front s @ r) = sg_quantum s"
  using assms by (simp_all add: v1_front_def full_size_def slice_def nth_append)

lemma metadata_length:
  assumes "parse_signature_metadata bs a = Some (t, c, b)"
  shows "b \<le> a + 18"
proof -
  have "b - a = length (flagged_u64 t) + length (flagged_u64 c)"
    using parse_metadata_Some [OF assms] length_slice [of b bs a] by simp
  then show ?thesis using length_flagged(1) [of t] length_flagged(1) [of c] by linarith
qed

text \<open>A layout of one level is too long or too short for every other level.\<close>

lemma try_level_length:
  assumes "try_level_v1 bs level = Some s"
  shows "length bs \<le> 86 + signature_size level" and "69 + signature_size level < length bs"
proof -
  obtain t c where m: "parse_signature_metadata bs (68 + signature_size level) = Some (t, c, length bs)"
    using assms by (auto simp: try_level_v1_def Let_def split: if_splits option.splits)
  show "length bs \<le> 86 + signature_size level" using metadata_length [OF m] by simp
  have "length bs - (68 + signature_size level) = length (flagged_u64 t) + length (flagged_u64 c)"
    using parse_metadata_Some [OF m] length_slice [of "length bs" bs "68 + signature_size level"] by simp
  then show "69 + signature_size level < length bs"
    using length_flagged(2) [of t] length_flagged(2) [of c] by linarith
qed

lemma try_levels_unique:
  assumes "try_level_v1 bs level = Some s"
  shows "try_levels_v1 bs [Level2, Level3, Level5] = Some s"
proof -
  have none: "try_level_v1 bs l = None" if "l \<noteq> level" for l
  proof (rule ccontr)
    assume "try_level_v1 bs l \<noteq> None"
    then obtain s' where s': "try_level_v1 bs l = Some s'" by auto
    show False using try_level_length [OF assms] try_level_length [OF s'] that by (cases l; cases level) simp_all
  qed
  show ?thesis using assms none by (cases level) simp_all
qed

lemma v1_round_trip:
  assumes "full_size s"
  shows "signature_from_bytes (v1_bytes s) = Ok s"
proof -
  let ?m = "flagged_u64 (sg_timestamp s) @ flagged_u64 (sg_chain_id s)" and ?bs = "v1_bytes s"
  note p = v1_front_parts(1) [OF assms] v1_front_parts(2-) [OF assms, of ?m]
  have m: "2 \<le> length ?m"
    using length_flagged(2) [of "sg_timestamp s"] length_flagged(2) [of "sg_chain_id s"] unfolding length_append by linarith
  then have l: "70 + signature_size (sg_level s) \<le> length ?bs" using p(1) by (simp add: v1_bytes_def)
  have meta: "parse_signature_metadata ?bs (68 + signature_size (sg_level s)) = Some (sg_timestamp s, sg_chain_id s, length ?bs)"
    using parse_metadata_append [of "v1_front s" "sg_timestamp s" "sg_chain_id s"] p(1)
    by (simp add: v1_bytes_def add.assoc)
  have "try_level_v1 ?bs (sg_level s) = Some s"
    using l meta p by (simp add: try_level_v1_def Let_def v1_bytes_def)
  then have "parse_signature_v1 ?bs = Ok s"
    using l p try_levels_unique by (simp add: parse_signature_v1_def v1_bytes_def)
  then show ?thesis using l p by (simp add: signature_from_bytes_def v1_bytes_def wire_constants)
qed

lemma try_level_canonical:
  assumes "try_level_v1 bs level = Some s" and "bs ! 0 = SIGNATURE_VERSION_V1" and "bs ! 1 = HYBRID_MARKER"
    and "bs ! 66 = COMPONENT_SEPARATOR"
  shows "full_size s \<and> bs = v1_bytes s"
proof -
  let ?o = "67 + signature_size level"
  have l: "?o < length bs" "bs ! ?o = level_as_u8 level" "sg_level s = level"
      and parts: "sg_classical s = slice 2 66 bs" "sg_quantum s = slice 67 ?o bs"
      and meta: "parse_signature_metadata bs (?o + 1) = Some (sg_timestamp s, sg_chain_id s, length bs)"
    using assms(1) by (auto simp: try_level_v1_def Let_def split: if_splits option.splits)
  have full: "full_size s" using l parts by (simp add: full_size_def)
  have head: "slice 0 1 bs = [bs ! 0]" "slice 1 2 bs = [bs ! 1]" "slice 66 67 bs = [bs ! 66]"
      "slice ?o (?o + 1) bs = [bs ! ?o]"
    using l(1) by (auto intro!: slice_nth)
  have le: "1 \<le> ?o + 1" "2 \<le> ?o + 1" "66 \<le> ?o + 1" "67 \<le> ?o + 1" "?o \<le> ?o + 1" by simp_all
  have "slice 0 (?o + 1) bs = slice 0 1 bs @ slice 1 2 bs @ slice 2 66 bs @ slice 66 67 bs @ slice 67 ?o bs @ slice ?o (?o + 1) bs"
    using slice_split [OF _ le(1), of 0 bs] slice_split [OF _ le(2), of 1 bs] slice_split [OF _ le(3), of 2 bs]
      slice_split [OF _ le(4), of 66 bs] slice_split [OF _ le(5), of 67 bs] by simp
  then have front: "slice 0 (?o + 1) bs = v1_front s"
    unfolding v1_front_def parts head assms(2-4) l(2,3) by simp
  show ?thesis
    using split_at [of "?o + 1" bs] parse_metadata_Some [OF meta] front l(1) full by (simp add: v1_bytes_def)
qed

lemma try_levels_some:
  assumes "try_levels_v1 bs levels = Some s"
  obtains level where "try_level_v1 bs level = Some s"
  using assms by (induction bs levels rule: try_levels_v1.induct) (auto split: option.splits)

lemma from_bytes_Ok:
  assumes "signature_from_bytes bs = Ok s"
  shows "signature_wf s \<and> signature_to_bytes s = Some bs \<or> full_size s \<and> bs = v1_bytes s"
proof -
  have m: "bs ! 1 = HYBRID_MARKER" using assms by (auto simp: signature_from_bytes_def split: if_splits)
  show ?thesis
  proof (cases "bs ! 0 = SIGNATURE_VERSION_V2")
    case True
    then show ?thesis using assms m v2_canonical by (auto simp: signature_from_bytes_def split: if_splits)
  next
    case False
    then have v: "bs ! 0 = SIGNATURE_VERSION_V1" "bs ! 66 = COMPONENT_SEPARATOR"
        and t: "try_levels_v1 bs [Level2, Level3, Level5] = Some s"
      using assms by (auto simp: signature_from_bytes_def parse_signature_v1_def split: if_splits option.splits)
    obtain level where "try_level_v1 bs level = Some s" using t by (rule try_levels_some)
    then show ?thesis using try_level_canonical v m by blast
  qed
qed

section \<open>Public keys\<close>

definition key_wf :: "crypto_lib \<Rightarrow> hybrid_public_key \<Rightarrow> bool" where
  "key_wf C k = (length (hp_classical k) = 33 \<and> cl_ec_key_error C (hp_classical k) = None
     \<and> length (dp_bytes (hp_quantum k)) = public_key_size (dp_level (hp_quantum k)))"

lemma public_key_size_pos: "0 < public_key_size l"
  by (cases l) simp_all

lemma public_key_round_trip:
  assumes "key_wf C k"
  shows "hybrid_public_from_bytes C (hybrid_public_to_bytes k) = Ok k"
proof -
  let ?bs = "hybrid_public_to_bytes k" and ?n = "public_key_size (dp_level (hp_quantum k))"
  have l: "length ?bs = 37 + ?n" "length (hp_classical k) = 33" "length (dp_bytes (hp_quantum k)) = ?n"
      "cl_ec_key_error C (hp_classical k) = None"
    using assms by (simp_all add: key_wf_def hybrid_public_to_bytes_def)
  have p: "?bs ! 0 = SIGNATURE_VERSION" "?bs ! 1 = HYBRID_MARKER" "?bs ! 35 = COMPONENT_SEPARATOR"
      "last ?bs = level_as_u8 (dp_level (hp_quantum k))" "slice 2 35 ?bs = hp_classical k"
      "slice 36 (36 + ?n) ?bs = dp_bytes (hp_quantum k)"
    using l(2,3) by (simp_all add: hybrid_public_to_bytes_def nth_append slice_def)
  have e: "ecdsa_public_from_bytes C (slice 2 35 ?bs) = Ok (hp_classical k)"
    using l p by (simp add: ecdsa_public_from_bytes_def)
  show ?thesis
    using l(1,3) p e by (simp add: hybrid_public_from_bytes_def Let_def dilithium_public_from_bytes_def)
qed

lemma public_key_canonical:
  assumes "hybrid_public_from_bytes C bs = Ok k"
  shows "key_wf C k \<and> hybrid_public_to_bytes k = bs"
proof -
  let ?n = "public_key_size (dp_level (hp_quantum k))"
  have l: "length bs = 37 + ?n" and h: "bs ! 0 = SIGNATURE_VERSION" "bs ! 1 = HYBRID_MARKER" "bs ! 35 = COMPONENT_SEPARATOR"
      "last bs = level_as_u8 (dp_level (hp_quantum k))"
      and parts: "hp_classical k = slice 2 35 bs" "dp_bytes (hp_quantum k) = slice 36 (36 + ?n) bs"
      and e: "cl_ec_key_error C (slice 2 35 bs) = None"
    using assms
    by (auto simp: hybrid_public_from_bytes_def ecdsa_public_from_bytes_def dilithium_public_from_bytes_def Let_def
        parse_level_byte_Ok split: if_splits result.splits option.splits)
  have head: "slice 0 1 bs = [bs ! 0]" "slice 1 2 bs = [bs ! 1]" "slice 35 36 bs = [bs ! 35]"
      "slice (36 + ?n) (37 + ?n) bs = [bs ! (36 + ?n)]"
    using l by (auto intro!: slice_nth)
  have last: "last bs = bs ! (36 + ?n)" using l by (subst last_conv_nth) auto
  have le: "1 \<le> 37 + ?n" "2 \<le> 37 + ?n" "35 \<le> 37 + ?n" "36 \<le> 37 + ?n" "36 + ?n \<le> 37 + ?n" by simp_all
  have "slice 0 (37 + ?n) bs = slice 0 1 bs @ slice 1 2 bs @ slice 2 35 bs @ slice 35 36 bs @ slice 36 (36 + ?n) bs
      @ slice (36 + ?n) (37 + ?n) bs"
    using slice_split [OF _ le(1), of 0 bs] slice_split [OF _ le(2), of 1 bs] slice_split [OF _ le(3), of 2 bs]
      slice_split [OF _ le(4), of 35 bs] slice_split [OF _ le(5), of 36 bs] by simp
  moreover have "slice 0 (37 + ?n) bs = bs" using l by (simp add: slice_whole)
  ultimately have "bs = hybrid_public_to_bytes k"
    unfolding hybrid_public_to_bytes_def head h(1-3) h(4) [symmetric] last parts by simp
  moreover have "key_wf C k" using l e unfolding key_wf_def parts by simp
  ultimately show ?thesis by simp
qed

interpretation public_keys: canonical_codec hybrid_public_to_bytes "\<lambda>bs. ok_option (hybrid_public_from_bytes C bs)" "key_wf C" for C
  by unfold_locales (auto simp: public_key_round_trip public_key_canonical)

section \<open>Verification\<close>

lemma validate_format_Ok [ok_iff]: "validate_format s = Ok () \<longleftrightarrow> full_size s"
  by (simp add: validate_format_def full_size_def)

lemma verify_dilithium_Ok [ok_iff]:
  "verify_dilithium C s h pk = Ok True \<longleftrightarrow>
     cl_dil_signature_ok C (sg_quantum s) \<and> cl_dil_key_ok C (dp_bytes pk) \<and> cl_dil_verify C (dp_bytes pk) h (sg_quantum s)"
  by (simp add: verify_dilithium_def)

lemma verify_ecdsa_Ok [ok_iff]:
  "verify_ecdsa C s h pk = Ok True \<longleftrightarrow>
     length (sg_classical s) = 64 \<and> cl_ec_signature_error C (sg_classical s) = None \<and> cl_ec_key_error C pk = None
     \<and> cl_ec_verify C pk h (sg_classical s)"
  by (simp add: verify_ecdsa_def split: option.splits)

text \<open>When the policy of a configuration accepts the metadata of a signature at a time.\<close>

definition fresh_for :: "u64 option \<Rightarrow> verifier_config \<Rightarrow> hybrid_signature \<Rightarrow> bool" where
  "fresh_for clock config s \<longleftrightarrow>
     (case (vc_max_signature_age_secs config, sg_timestamp s) of
        (Some max_age, Some t) \<Rightarrow> (\<exists>now. clock = Some now \<and> (now \<le> t \<or> unat now \<le> unat t + unat max_age))
      | _ \<Rightarrow> True)"

lemma check_age_Ok [ok_iff]: "check_age clock config s = Ok () \<longleftrightarrow> fresh_for clock config s"
proof -
  have "now > t \<and> now - t > a \<longleftrightarrow> \<not> (now \<le> t \<or> unat now \<le> unat t + unat a)" for now t a :: u64
    by (auto simp: word_less_nat_alt word_le_nat_alt unat_sub)
  then show ?thesis
    by (auto simp: check_age_def fresh_for_def split: option.splits)
qed

lemma check_chain_id_Ok [ok_iff]:
  "check_chain_id config s = Ok () \<longleftrightarrow> sg_chain_id s = None \<or> sg_chain_id s = Some (vc_chain_id config)"
  by (auto simp: check_chain_id_def split: option.splits)

lemma signature_verify_Ok:
  "signature_verify C clock s message pk config = Ok () \<longleftrightarrow>
     full_size s \<and> \<not> level_less (sg_level s) (vc_min_dilithium_level config) \<and> fresh_for clock config s
     \<and> (sg_chain_id s = None \<or> sg_chain_id s = Some (vc_chain_id config))
     \<and> verify_dilithium C s (cl_keccak256 C message) (hp_quantum pk) = Ok True
     \<and> (vc_panic_mode_qc config \<or> verify_ecdsa C s (cl_keccak256 C message) (hp_classical pk) = Ok True)"
proof -
  have unit: "r = Ok () \<longleftrightarrow> (\<exists>u. r = Ok u)" for r :: "(string, unit) result" by (cases r) auto
  show ?thesis
    unfolding signature_verify_def check_age_Ok [symmetric] check_chain_id_Ok [symmetric] validate_format_Ok [symmetric]
    by (auto simp: Let_def split: result.splits if_splits)
qed

section \<open>Claims\<close>

text \<open>
  C30. The wire format of a signature whose components have their full size. \<open>to_bytes\<close> succeeds, and
  exactly two byte strings decode to the signature: the version-2 encoding that \<open>to_bytes\<close> writes and
  the legacy layout of version 1. The encoding of a public key is canonical: a byte string decodes to a
  key exactly when it is the encoding of that key and the key is well formed.
\<close>
theorem wire_formats:
  assumes "full_size s"
  shows "(\<exists>v2. signature_to_bytes s = Some v2 \<and> v2 \<noteq> v1_bytes s
            \<and> (\<forall>bs. signature_from_bytes bs = Ok s \<longleftrightarrow> bs = v2 \<or> bs = v1_bytes s))
         \<and> (\<forall>C bs k. hybrid_public_from_bytes C bs = Ok k \<longleftrightarrow> key_wf C k \<and> bs = hybrid_public_to_bytes k)"
proof (intro conjI allI)
  obtain v2 where v2: "signature_to_bytes s = Some v2" using to_bytes_v2 [OF full_size_wf [OF assms]] by blast
  have "v2 ! 0 = SIGNATURE_VERSION_V2" "v1_bytes s ! 0 = SIGNATURE_VERSION_V1"
    using v2 by (auto simp: signature_to_bytes_def v1_bytes_def v1_front_def split: if_splits)
  then have "v2 \<noteq> v1_bytes s" by (auto simp: wire_constants)
  moreover have "signature_from_bytes bs = Ok s \<longleftrightarrow> bs = v2 \<or> bs = v1_bytes s" for bs
    using from_bytes_Ok [of bs s] v2_round_trip [OF full_size_wf [OF assms] v2] v1_round_trip [OF assms] v2 by auto
  ultimately show "\<exists>v2. signature_to_bytes s = Some v2 \<and> v2 \<noteq> v1_bytes s
      \<and> (\<forall>bs. signature_from_bytes bs = Ok s \<longleftrightarrow> bs = v2 \<or> bs = v1_bytes s)" using v2 by blast
  show "hybrid_public_from_bytes C bs = Ok k \<longleftrightarrow> key_wf C k \<and> bs = hybrid_public_to_bytes k" for C bs k
    using public_keys.decode_iff [of C bs k] by simp
qed

definition demo_signature :: hybrid_signature where
  "demo_signature = \<lparr>sg_classical = replicate 64 1, sg_quantum = replicate 3309 7, sg_level = Level3,
     sg_timestamp = Some 5, sg_chain_id = None\<rparr>"

lemma demo_signature_full: "full_size demo_signature"
  by (simp add: demo_signature_def full_size_def)

theorem wire_formats_witness:
  "\<exists>v2. signature_to_bytes demo_signature = Some v2 \<and> signature_from_bytes v2 = Ok demo_signature
     \<and> signature_from_bytes (v1_bytes demo_signature) = Ok demo_signature"
  using wire_formats [OF demo_signature_full] by blast

text \<open>
  The hybrid policy. A signature verifies exactly when its components have the sizes of its level,
  the level is not below the minimum, it is not too old where both an age limit and a timestamp are
  given, its chain id (if it has one) is the configured one, the Dilithium component verifies and, unless
  panic mode is on, the ECDSA component verifies too. The Dilithium check is made under every
  configuration, and the settings \<open>require_dual_sig_always\<close> and \<open>allow_legacy_ecdsa_only\<close> change nothing:
  in panic mode the ECDSA component is ignored even when both signatures are required always.
\<close>
theorem hybrid_policy:
  "(signature_verify C clock s message pk config = Ok () \<longleftrightarrow>
      full_size s \<and> level_as_u8 (vc_min_dilithium_level config) \<le> level_as_u8 (sg_level s) \<and> fresh_for clock config s
      \<and> (sg_chain_id s = None \<or> sg_chain_id s = Some (vc_chain_id config))
      \<and> cl_dil_signature_ok C (sg_quantum s) \<and> cl_dil_key_ok C (dp_bytes (hp_quantum pk))
      \<and> cl_dil_verify C (dp_bytes (hp_quantum pk)) (cl_keccak256 C message) (sg_quantum s)
      \<and> (vc_panic_mode_qc config
         \<or> cl_ec_signature_error C (sg_classical s) = None \<and> cl_ec_key_error C (hp_classical pk) = None
            \<and> cl_ec_verify C (hp_classical pk) (cl_keccak256 C message) (sg_classical s)))
   \<and> signature_verify C clock s message pk (config\<lparr>vc_require_dual_sig_always := d, vc_allow_legacy_ecdsa_only := a\<rparr>)
      = signature_verify C clock s message pk config"
proof
  show "signature_verify C clock s message pk config = Ok () \<longleftrightarrow>
      full_size s \<and> level_as_u8 (vc_min_dilithium_level config) \<le> level_as_u8 (sg_level s) \<and> fresh_for clock config s
      \<and> (sg_chain_id s = None \<or> sg_chain_id s = Some (vc_chain_id config))
      \<and> cl_dil_signature_ok C (sg_quantum s) \<and> cl_dil_key_ok C (dp_bytes (hp_quantum pk))
      \<and> cl_dil_verify C (dp_bytes (hp_quantum pk)) (cl_keccak256 C message) (sg_quantum s)
      \<and> (vc_panic_mode_qc config
         \<or> cl_ec_signature_error C (sg_classical s) = None \<and> cl_ec_key_error C (hp_classical pk) = None
            \<and> cl_ec_verify C (hp_classical pk) (cl_keccak256 C message) (sg_classical s))"
    unfolding signature_verify_Ok verify_dilithium_Ok verify_ecdsa_Ok level_less_def full_size_def by (auto simp: not_less)
  show "signature_verify C clock s message pk (config\<lparr>vc_require_dual_sig_always := d, vc_allow_legacy_ecdsa_only := a\<rparr>)
      = signature_verify C clock s message pk config" (is "signature_verify _ _ _ _ _ ?c = _")
  proof -
    have "vc_min_dilithium_level ?c = vc_min_dilithium_level config" "vc_panic_mode_qc ?c = vc_panic_mode_qc config"
        "check_age clock ?c s = check_age clock config s" "check_chain_id ?c s = check_chain_id config s"
      by (simp_all add: check_age_def check_chain_id_def split: option.splits)
    then show ?thesis unfolding signature_verify_def by (simp only:)
  qed
qed

end
