(* ===== verification/Transaction_Properties.thy ===== *)
theory Transaction_Properties
  imports Hybrid_Properties
begin

text \<open>
  Signed transactions of the core crate: what a signature of a transaction covers, and what batch
  verification leaves out.
\<close>

section \<open>The cryptographic crates at work\<close>

text \<open>
  The documented behaviour of the signature crates that signing and verifying rely on, for one key pair:
  the keys parse, signatures have their sizes and parse, and a signature made with the secret key
  verifies under the public key.
\<close>

definition keys_work :: "crypto_lib \<Rightarrow> hybrid_keypair \<Rightarrow> bool" where
  "keys_work C kp \<longleftrightarrow>
     (let pk = kp_public_key kp; sk = kp_secret_key kp
      in key_wf C pk \<and> dp_level (hp_quantum pk) = Level3 \<and> ds_level (hs_quantum sk) = Level3
         \<and> cl_ec_secret_error C (hs_classical sk) = None \<and> cl_dil_secret_ok C (ds_bytes (hs_quantum sk))
         \<and> cl_dil_key_ok C (dp_bytes (hp_quantum pk))
         \<and> (\<forall>h. length (cl_ec_sign C (hs_classical sk) h) = 64
              \<and> cl_ec_signature_error C (cl_ec_sign C (hs_classical sk) h) = None
              \<and> cl_ec_verify C (hp_classical pk) h (cl_ec_sign C (hs_classical sk) h)
              \<and> length (cl_dil_sign C (ds_bytes (hs_quantum sk)) h) = 3309
              \<and> cl_dil_signature_ok C (cl_dil_sign C (ds_bytes (hs_quantum sk)) h)
              \<and> cl_dil_verify C (dp_bytes (hp_quantum pk)) h (cl_dil_sign C (ds_bytes (hs_quantum sk)) h)))"

definition made_signature :: "crypto_lib \<Rightarrow> hybrid_keypair \<Rightarrow> bytes \<Rightarrow> hybrid_signature" where
  "made_signature C kp m =
     (let sk = kp_secret_key kp
      in \<lparr>sg_classical = cl_ec_sign C (hs_classical sk) (cl_keccak256 C m),
          sg_quantum = cl_dil_sign C (ds_bytes (hs_quantum sk)) (cl_keccak256 C m),
          sg_level = Level3, sg_timestamp = None, sg_chain_id = None\<rparr>)"

lemma keypair_sign_works: "keys_work C kp \<Longrightarrow> keypair_sign C kp m = Ok (made_signature C kp m)"
  by (simp add: keypair_sign_def sign_with_config_def secret_sign_with_def sign_ecdsa_def sign_dilithium_def
      keys_work_def made_signature_def Let_def)

lemma made_signature_full: "keys_work C kp \<Longrightarrow> full_size (made_signature C kp m)"
  by (simp add: keys_work_def full_size_def made_signature_def Let_def)

text \<open>A signature without metadata verifies under every configuration that admits Level 3.\<close>

lemma made_signature_verifies:
  assumes "keys_work C kp" and "vc_min_dilithium_level config \<noteq> Level5"
  shows "signature_verify C clock (made_signature C kp m) m (kp_public_key kp) config = Ok ()"
proof -
  have "\<not> level_less Level3 (vc_min_dilithium_level config)"
    using assms(2) by (cases "vc_min_dilithium_level config") (simp_all add: level_less_def)
  moreover have "fresh_for clock config (made_signature C kp m)"
    by (simp add: fresh_for_def made_signature_def Let_def split: option.splits)
  ultimately show ?thesis
    using assms(1) made_signature_full [OF assms(1), of m]
    by (simp add: signature_verify_Ok ok_iff keys_work_def key_wf_def) (simp add: made_signature_def Let_def full_size_def)
qed

lemma config_for_level: "vc_min_dilithium_level (verifier_config_for l c) = Level3"
  by (simp add: verifier_config_for_def verifier_config_default_def enter_panic_mode_def Let_def)

section \<open>What is signed\<close>

lemma transaction_type_bytes [simp]: "transaction_type_from_byte (transaction_type_to_byte t) = Some t"
  by (cases t) (simp_all add: transaction_type_from_byte_def)

lemma transaction_type_byte_inj: "transaction_type_to_byte t = transaction_type_to_byte u \<longleftrightarrow> t = u"
  by (metis transaction_type_bytes option.inject)

text \<open>The 63 bytes in front of the payload.\<close>

definition tx_header :: "transaction \<Rightarrow> bytes" where
  "tx_header t = [tx_version t, transaction_type_to_byte (tx_tx_type t)] @ address_serialize (tx_sender t)
     @ le_bytes 8 (tx_nonce t) @ le_bytes 8 (tx_gas_price t) @ le_bytes 8 (tx_gas_limit t)
     @ le_bytes 8 (tx_chain_id t) @ le_bytes 8 (tx_expiry t)"

lemma signing_bytes_header:
  "to_signing_bytes t = Some tb \<longleftrightarrow> (\<exists>payload. payload_bytes (tx_payload t) = Some payload \<and> tb = tx_header t @ payload)"
  by (auto simp: to_signing_bytes_def tx_header_def split: option.splits)

lemma length_tx_header: "address_wf (tx_sender t) \<Longrightarrow> length (tx_header t) = 63"
  by (simp add: tx_header_def length_address_serialize)

lemma le_bytes_u64_inj: "le_bytes 8 (v :: u64) = le_bytes 8 w \<longleftrightarrow> v = w"
  by (metis le_word_le_bytes(3))

lemma le_bytes_u128_inj: "le_bytes 16 (v :: u128) = le_bytes 16 w \<longleftrightarrow> v = w"
  by (metis le_word_le_bytes(4))

lemma tx_header_inj:
  assumes "address_wf (tx_sender t)" and "address_wf (tx_sender u)"
  shows "tx_header t = tx_header u \<longleftrightarrow>
    tx_version t = tx_version u \<and> tx_tx_type t = tx_tx_type u \<and> tx_sender t = tx_sender u \<and> tx_nonce t = tx_nonce u
    \<and> tx_gas_price t = tx_gas_price u \<and> tx_gas_limit t = tx_gas_limit u \<and> tx_chain_id t = tx_chain_id u
    \<and> tx_expiry t = tx_expiry u"
  using assms
  by (auto simp: tx_header_def transaction_type_byte_inj address_serialize_inj le_bytes_u64_inj length_address_serialize)

lemma transfer_bytes_inj:
  assumes "address_wf (tf_to a)" and "address_wf (tf_to b)" and "transfer_tx_to_bytes a = transfer_tx_to_bytes b"
  shows "a = b"
proof -
  have l: "length (address_serialize (tf_to a)) = 21" "length (address_serialize (tf_to b)) = 21"
    using assms(1,2) by (simp_all add: length_address_serialize)
  have "tf_to a = tf_to b" "tf_amount a = tf_amount b"
    using assms(3) l by (auto simp: transfer_tx_to_bytes_def address_serialize_inj le_bytes_u128_inj)
  moreover have "tf_memo a = tf_memo b"
    using assms(3) l by (auto simp: transfer_tx_to_bytes_def split: option.splits)
  ultimately show ?thesis by (intro transfer_tx.equality) simp_all
qed

lemma signed_parts_inj:
  assumes "address_wf (tx_sender t)" and "address_wf (tx_sender u)"
    and "to_signing_bytes t = Some tb" and "to_signing_bytes u = Some tb"
  shows "tx_header t = tx_header u \<and> payload_bytes (tx_payload t) = payload_bytes (tx_payload u)"
proof -
  obtain a b where ab: "payload_bytes (tx_payload t) = Some a" "tb = tx_header t @ a"
      "payload_bytes (tx_payload u) = Some b" "tb = tx_header u @ b"
    using assms(3,4) by (auto simp: signing_bytes_header)
  then have "tx_header t @ a = tx_header u @ b" by simp
  then have "tx_header t = tx_header u \<and> a = b"
    using assms(1,2) by (subst (asm) append_eq_append_conv) (simp_all add: length_tx_header)
  then show ?thesis using ab by simp
qed

definition collision_free :: "(bytes \<Rightarrow> bytes) \<Rightarrow> bytes set \<Rightarrow> bool" where
  "collision_free f xs = inj_on f xs"

text \<open>
  C31. What the hash of a transaction commits to. If the signing hashes of two transactions with
  well-formed senders are equal and SHA-256 has no collision between their inputs, then they agree in
  version, type, sender, nonce, gas price, gas limit, chain id, expiry and in the bytes of the payload;
  two transfers are then the same transaction, recipient, amount and memo included.
\<close>
theorem hash_covers_transaction:
  assumes "address_wf (tx_sender t)" and "address_wf (tx_sender u)"
    and "to_signing_bytes t = Some tb" and "to_signing_bytes u = Some ub"
    and "collision_free (cl_sha256 C) {ascii ''aethelred:transaction:v1:'' @ tb, ascii ''aethelred:transaction:v1:'' @ ub}"
    and "core_tx_hash C t = core_tx_hash C u"
  shows "tx_version t = tx_version u \<and> tx_tx_type t = tx_tx_type u \<and> tx_sender t = tx_sender u
    \<and> tx_nonce t = tx_nonce u \<and> tx_gas_price t = tx_gas_price u \<and> tx_gas_limit t = tx_gas_limit u
    \<and> tx_chain_id t = tx_chain_id u \<and> tx_expiry t = tx_expiry u
    \<and> payload_bytes (tx_payload t) = payload_bytes (tx_payload u)
    \<and> (\<forall>a b. tx_payload t = PTransfer a \<and> tx_payload u = PTransfer b \<and> address_wf (tf_to a) \<and> address_wf (tf_to b)
         \<longrightarrow> t = u)"
proof -
  have "cl_sha256 C (ascii ''aethelred:transaction:v1:'' @ tb) = cl_sha256 C (ascii ''aethelred:transaction:v1:'' @ ub)"
    using assms(3,4,6) by (simp add: core_tx_hash_def transaction_hash_def hash_many_def)
  then have "tb = ub" using inj_onD [OF assms(5) [unfolded collision_free_def]] by fastforce
  then have eq: "tx_header t = tx_header u" "payload_bytes (tx_payload t) = payload_bytes (tx_payload u)"
    using signed_parts_inj assms(1-4) by blast+
  note fields = tx_header_inj [OF assms(1,2), THEN iffD1, OF eq(1)]
  have "t = u" if p: "tx_payload t = PTransfer a" "tx_payload u = PTransfer b" "address_wf (tf_to a)" "address_wf (tf_to b)" for a b
  proof -
    have "a = b" using eq(2) p transfer_bytes_inj by simp
    then show ?thesis using fields p(1,2) by (intro transaction.equality) simp_all
  qed
  then show ?thesis using fields eq(2) by blast
qed

section \<open>Examples\<close>

text \<open>A library in which digests are the identity and every key, signature and secret is accepted.\<close>

definition open_crypto :: crypto_lib where
  "open_crypto =
     \<lparr>cl_sha256 = (\<lambda>x. x), cl_sha512 = (\<lambda>x. x), cl_keccak256 = (\<lambda>x. x), cl_ec_key_error = (\<lambda>_. None),
      cl_ec_signature_error = (\<lambda>_. None), cl_ec_verify = (\<lambda>_ _ _. True), cl_ec_secret_error = (\<lambda>_. None),
      cl_ec_public = (\<lambda>_. replicate 33 2), cl_ec_sign = (\<lambda>_ _. replicate 64 1), cl_ec_uncompressed = (\<lambda>x. x),
      cl_dil_signature_ok = (\<lambda>_. True), cl_dil_key_ok = (\<lambda>_. True), cl_dil_verify = (\<lambda>_ _ _. True),
      cl_dil_secret_ok = (\<lambda>_. True), cl_dil_sign = (\<lambda>_ _. replicate 3309 7)\<rparr>"

definition demo_keypair :: hybrid_keypair where
  "demo_keypair =
     \<lparr>kp_public_key = \<lparr>hp_classical = replicate 33 2, hp_quantum = \<lparr>dp_bytes = replicate 1952 3, dp_level = Level3\<rparr>\<rparr>,
      kp_secret_key = \<lparr>hs_classical = replicate 32 4, hs_quantum = \<lparr>ds_bytes = replicate 4032 5, ds_level = Level3\<rparr>\<rparr>\<rparr>"

lemma demo_keys_work: "keys_work open_crypto demo_keypair"
  by (simp add: keys_work_def key_wf_def open_crypto_def demo_keypair_def Let_def)

definition demo_job :: "string list \<Rightarrow> transaction" where
  "demo_job geo = (transaction_compute_job address_treasury hash256_zero hash256_zero 0)
     \<lparr>tx_payload := PComputeJob
        \<lparr>cj_model_hash = hash256_zero, cj_input_hash = hash256_zero, cj_encrypted_input_ref = None,
         cj_verification_method = HybridMethod, cj_max_fee = 0,
         cj_sla = compute_sla_default\<lparr>cs_geo_restrictions := geo\<rparr>, cj_compliance = compliance_requirements_default\<rparr>\<rparr>"

text \<open>
  The country codes of a service level are written without their lengths, so a list of codes is not
  determined by its encoding: two different jobs have the same signing bytes.
\<close>

lemma geo_restrictions_ambiguous:
  "to_signing_bytes (demo_job [''AB'', ''C'']) = to_signing_bytes (demo_job [''A'', ''BC''])
   \<and> demo_job [''AB'', ''C''] \<noteq> demo_job [''A'', ''BC'']"
  by (simp add: to_signing_bytes_def demo_job_def compute_job_tx_to_bytes_def compute_sla_to_bytes_def
      transaction_compute_job_def ascii_def compute_sla_default_def)

lemma demo_job_signing: "\<exists>tb. to_signing_bytes (demo_job geo) = Some tb"
  by (simp add: to_signing_bytes_def demo_job_def)

theorem hash_covers_transaction_witness:
  "tx_sender (demo_job [''AB'', ''C'']) = tx_sender (demo_job [''A'', ''BC''])
   \<and> core_tx_hash open_crypto (demo_job [''AB'', ''C'']) = core_tx_hash open_crypto (demo_job [''A'', ''BC''])"
proof -
  obtain tb where tb: "to_signing_bytes (demo_job [''AB'', ''C'']) = Some tb" using demo_job_signing by blast
  then have ub: "to_signing_bytes (demo_job [''A'', ''BC'']) = Some tb" using geo_restrictions_ambiguous by simp
  have h: "core_tx_hash open_crypto (demo_job [''AB'', ''C'']) = core_tx_hash open_crypto (demo_job [''A'', ''BC''])"
    using tb ub by (simp add: core_tx_hash_def)
  have wf: "address_wf (tx_sender (demo_job g))" for g
    by (simp add: demo_job_def transaction_compute_job_def address_treasury_def address_wf_def)
  have "collision_free (cl_sha256 open_crypto) {ascii ''aethelred:transaction:v1:'' @ tb, ascii ''aethelred:transaction:v1:'' @ tb}"
    by (simp add: collision_free_def)
  then show ?thesis using hash_covers_transaction [OF wf wf tb ub _ h] h by blast
qed

text \<open>A transaction signed with working keys verifies under every configuration that admits Level 3.\<close>

lemma signed_with_working_keys:
  assumes "keys_work C kp" and "transaction_sign C t kp = Some (Ok s)" and "vc_min_dilithium_level config \<noteq> Level5"
  shows "st_tx s = t" and "st_public_key s = kp_public_key kp"
    and "\<exists>h. core_tx_hash C (st_tx s) = Some h \<and> signature_verify C clock (st_signature s) h (st_public_key s) config = Ok ()"
proof -
  obtain h where h: "core_tx_hash C t = Some h"
    using assms(2) by (auto simp: transaction_sign_def split: option.splits)
  then have "s = \<lparr>st_tx = t, st_signature = made_signature C kp h, st_public_key = kp_public_key kp\<rparr>"
    using assms(2) keypair_sign_works [OF assms(1)] by (auto simp: transaction_sign_def)
  then show "st_tx s = t" "st_public_key s = kp_public_key kp"
      "\<exists>h. core_tx_hash C (st_tx s) = Some h \<and> signature_verify C clock (st_signature s) h (st_public_key s) config = Ok ()"
    using h made_signature_verifies [OF assms(1,3)] by simp_all
qed

lemma batch_of_valid:
  assumes valid: "\<And>s. s \<in> set (a # ss) \<Longrightarrow> \<exists>h. core_tx_hash C (st_tx s) = Some h
    \<and> signature_verify C clock (st_signature s) h (st_public_key s) (verifier_config_for level (tx_chain_id (st_tx a))) = Ok ()"
  shows "batch_verify_all C clock (a # ss) level = Some (Ok True)"
proof -
  let ?config = "verifier_config_for level (tx_chain_id (st_tx a))"
  let ?hash = "\<lambda>s. the (core_tx_hash C (st_tx s))"
  have "those (map (\<lambda>s. core_tx_hash C (st_tx s)) xs) = Some (map ?hash xs)
      \<and> list_all (\<lambda>((m, sig), pk). is_ok (signature_verify C clock sig m pk ?config))
          (zip (zip (map ?hash xs) (map st_signature xs)) (map st_public_key xs))"
    if "set xs \<subseteq> set (a # ss)" for xs
    using that
  proof (induction xs)
    case (Cons x xs)
    then have "x \<in> set (a # ss)" by simp
    then show ?case using valid Cons by fastforce
  qed simp
  from this [of "a # ss"] show ?thesis
    unfolding batch_verify_all_def by (simp only: subset_refl) (simp add: batch_verify_def Let_def)
qed

text \<open>
  Batch verification forgets the sender. A transaction that names any sender but is signed with the
  key pair of someone else is refused by \<open>SignedTransaction::verify_signature\<close> and accepted by
  \<open>TransactionBatch::verify_all\<close>, alone or at the head of a batch of transactions signed with working
  keys.
\<close>
theorem batch_forgets_sender:
  assumes "keys_work C kp" and "transaction_sign C t kp = Some (Ok s)"
    and "tx_sender t \<noteq> address_from_public_key C (kp_public_key kp)"
    and "\<And>s'. s' \<in> set ss \<Longrightarrow> \<exists>u kq. keys_work C kq \<and> transaction_sign C u kq = Some (Ok s')"
  shows "signed_verify_signature C clock s level = Some (Ok False)
    \<and> batch_verify_all C clock (s # ss) level = Some (Ok True)"
proof
  let ?config = "verifier_config_for level (tx_chain_id (st_tx s))"
  have min: "vc_min_dilithium_level ?config \<noteq> Level5" by (simp add: config_for_level)
  show "signed_verify_signature C clock s level = Some (Ok False)"
    using assms(3) signed_with_working_keys(1,2) [OF assms(1,2) min] by (auto simp: signed_verify_signature_def)
  show "batch_verify_all C clock (s # ss) level = Some (Ok True)"
    using signed_with_working_keys(3) [OF _ _ min] assms(1,2,4) by (intro batch_of_valid) fastforce
qed

theorem batch_forgets_sender_witness:
  "\<exists>s. transaction_sign open_crypto (demo_job []) demo_keypair = Some (Ok s)
     \<and> signed_verify_signature open_crypto None s 0 = Some (Ok False)
     \<and> batch_verify_all open_crypto None [s] 0 = Some (Ok True)"
proof -
  obtain s where s: "transaction_sign open_crypto (demo_job []) demo_keypair = Some (Ok s)"
    using demo_job_signing [of "[]"] by (auto simp: transaction_sign_def core_tx_hash_def keypair_sign_works [OF demo_keys_work])
  have "tx_sender (demo_job []) \<noteq> address_from_public_key open_crypto (kp_public_key demo_keypair)"
    by (simp add: demo_job_def transaction_compute_job_def address_treasury_def address_from_public_key_def)
  then show ?thesis using batch_forgets_sender [OF demo_keys_work s, of "[]" None 0] s by auto
qed

end
