(* ===== verification/Mempool_Properties.thy ===== *)
theory Mempool_Properties
  imports Mempool_Chain Transaction_Properties
begin

text \<open>
  Admission to the mempool: the contract of a middleware, what an admitted transaction satisfies, and
  which transactions of the core crate are admitted.
\<close>

section \<open>The contract of a middleware\<close>

text \<open>
  A middleware of the crate returns an action and never accepts early, and it keeps the transaction
  bytes and the configuration; all but the signature check keep the parsed transaction.
\<close>

locale middleware_contract =
  fixes process :: "middleware_context \<Rightarrow> middleware_context \<times> middleware_action middleware_result"
    and keeps_parsed :: bool
  assumes returns: "\<exists>a. snd (process ctx) = Ok a"
    and never_accepts: "snd (process ctx) \<noteq> Ok Accept"
    and keeps_bytes: "cx_tx_bytes (fst (process ctx)) = cx_tx_bytes ctx"
    and keeps_config: "cx_config (fst (process ctx)) = cx_config ctx"
    and keeps_tx: "keeps_parsed \<Longrightarrow> cx_parsed_tx (fst (process ctx)) = cx_parsed_tx ctx"
begin

lemma cases_of_process:
  obtains (goes_on) ctx' where "process ctx = (ctx', Ok Continue)"
  | (rejects) ctx' reason where "process ctx = (ctx', Ok (Reject reason))"
  | (delays) ctx' ms reason where "process ctx = (ctx', Ok (Delay ms reason))"
proof -
  obtain ctx' a where p: "process ctx = (ctx', Ok a)" using returns [of ctx] by (metis prod.collapse)
  have "a \<noteq> Accept" using never_accepts [of ctx] p by auto
  then show thesis using p that by (cases a) auto
qed

lemma frame:
  assumes "process ctx = (ctx', r)"
  shows "cx_tx_bytes ctx' = cx_tx_bytes ctx" and "cx_config ctx' = cx_config ctx"
    and "keeps_parsed \<Longrightarrow> cx_parsed_tx ctx' = cx_parsed_tx ctx"
  using keeps_bytes [of ctx] keeps_config [of ctx] keeps_tx [of ctx] assms by simp_all

end

lemma store_results_fields [simp]:
  "cx_tx_bytes (store_results r ctx) = cx_tx_bytes ctx" "cx_parsed_tx (store_results r ctx) = cx_parsed_tx ctx"
  "cx_config (store_results r ctx) = cx_config ctx" "mm_tags (cx_metadata (store_results r ctx)) = mm_tags (cx_metadata ctx)"
  by (simp_all add: store_results_def)

lemma compliance_tags_fields [simp]:
  "cx_tx_bytes (compliance_tags d ctx) = cx_tx_bytes ctx" "cx_parsed_tx (compliance_tags d ctx) = cx_parsed_tx ctx"
  "cx_config (compliance_tags d ctx) = cx_config ctx"
  by (simp_all add: compliance_tags_def Let_def split: option.splits)

lemma scan_step_fields [simp]:
  "cx_tx_bytes (fst (scan_step f d ctx)) = cx_tx_bytes ctx" "cx_parsed_tx (fst (scan_step f d ctx)) = cx_parsed_tx ctx"
  "cx_config (fst (scan_step f d ctx)) = cx_config ctx"
  by (simp_all add: scan_step_def check_pii_def Let_def)

lemma framework_step_fields [simp]:
  "cx_tx_bytes (fst (framework_step m d ctx)) = cx_tx_bytes ctx" "cx_parsed_tx (fst (framework_step m d ctx)) = cx_parsed_tx ctx"
  "cx_config (fst (framework_step m d ctx)) = cx_config ctx" "snd (framework_step m d ctx) \<noteq> Ok Accept"
  "\<exists>a. snd (framework_step m d ctx) = Ok a"
  by (simp_all add: framework_step_def Let_def)

interpretation sig: middleware_contract "signature_process E m" False for E m
  by unfold_locales (auto simp: signature_process_def Let_def split: option.splits result.splits)

interpretation comp: middleware_contract "compliance_process E m" True for E m
  by unfold_locales (simp_all add: compliance_process_def Let_def split_beta split: option.split)

interpretation rate: middleware_contract "\<lambda>ctx. snd (rate_limit_process E m ctx)" True for E m
  by unfold_locales (auto simp: rate_limit_process_def Let_def split: option.splits prod.splits)

interpretation fee: middleware_contract "fee_process m" True for m
  by unfold_locales (auto simp: fee_process_def Let_def split: option.splits)

section \<open>The standard chain\<close>

text \<open>
  The chains that \<open>create_default_chain\<close> builds and that processing leaves: only the buckets of the rate
  limiter change.
\<close>

definition std_chain :: "middleware_chain \<Rightarrow> rate_limit_middleware \<Rightarrow> bool" where
  "std_chain c limiter \<longleftrightarrow> ch_middlewares c =
     [SignatureMW signature_middleware_new, ComplianceMW compliance_middleware_new, RateLimitMW limiter, FeeMW fee_middleware_new]"

lemma default_chain_std: "std_chain (create_default_chain now config) (rate_limit_middleware_new now)"
    "ch_config (create_default_chain now config) = config"
  by (simp_all add: std_chain_def create_default_chain_def chain_add_def chain_new_def)

lemma stamp_fields [simp]:
  "cx_tx_bytes (stamp n t ctx) = cx_tx_bytes ctx" "cx_parsed_tx (stamp n t ctx) = cx_parsed_tx ctx"
  "cx_config (stamp n t ctx) = cx_config ctx"
  by (simp_all add: stamp_def)

text \<open>One step of the loop: a middleware that keeps the contract goes on when the transaction is accepted.\<close>

lemma chain_step:
  assumes "chain_loop E timer (m # ms) ctx steps = (ms', Ok r)" and "pr_accepted r"
    and "snd (snd (middleware_process E m ctx)) \<noteq> Ok Accept"
  obtains m' ctx' ms'' steps' where "middleware_process E m ctx = (m', ctx', Ok Continue)"
    "chain_loop E timer ms (stamp (middleware_name m') (timer (middleware_name m')) ctx') steps' = (ms'', Ok r)"
proof -
  obtain m' ctx' res where p: "middleware_process E m ctx = (m', ctx', res)" by (cases "middleware_process E m ctx") auto
  show thesis
  proof (cases res)
    case (Ok a)
    have "a = Continue" using assms p Ok by (cases a) (auto simp: finish_def Let_def)
    then show ?thesis using assms(1) p Ok by (intro that [of m' ctx']) (auto simp: Let_def split_beta prod_eq_iff)
  qed (use assms(1) p in simp)
qed

lemma std_chain_accepts:
  assumes "std_chain c limiter" and "chain_process E timer c bs = (c', Ok r)" and "pr_accepted r"
  obtains ctx1 ctx2 ctx3 ctx4 where
    "signature_process E signature_middleware_new (context_new bs (ch_config c)) = (ctx1, Ok Continue)"
    "compliance_process E compliance_middleware_new (stamp ''signature'' (timer ''signature'') ctx1) = (ctx2, Ok Continue)"
    "cx_parsed_tx ctx3 = cx_parsed_tx ctx1" "cx_config ctx3 = ch_config c"
    "fee_process fee_middleware_new ctx3 = (ctx4, Ok Continue)"
proof -
  let ?ctx = "context_new bs (ch_config c)"
  obtain ms where "chain_loop E timer [SignatureMW signature_middleware_new, ComplianceMW compliance_middleware_new,
      RateLimitMW limiter, FeeMW fee_middleware_new] ?ctx [] = (ms, Ok r)"
    using assms(1,2) unfolding chain_process_def std_chain_def by (simp add: Let_def split_beta prod_eq_iff del: chain_loop.simps)
  then obtain m1 ctx1 ms1 steps1 where s1: "middleware_process E (SignatureMW signature_middleware_new) ?ctx = (m1, ctx1, Ok Continue)"
      and run1: "chain_loop E timer [ComplianceMW compliance_middleware_new, RateLimitMW limiter, FeeMW fee_middleware_new]
        (stamp (middleware_name m1) (timer (middleware_name m1)) ctx1) steps1 = (ms1, Ok r)"
    using chain_step [OF _ assms(3)] sig.never_accepts by (metis middleware_process.simps(1) snd_conv)
  have c1: "signature_process E signature_middleware_new ?ctx = (ctx1, Ok Continue)" "middleware_name m1 = ''signature''"
    using s1 by auto
  let ?ctx1 = "stamp ''signature'' (timer ''signature'') ctx1"
  obtain m2 ctx2 ms2 steps2 where s2: "middleware_process E (ComplianceMW compliance_middleware_new) ?ctx1 = (m2, ctx2, Ok Continue)"
      and run2: "chain_loop E timer [RateLimitMW limiter, FeeMW fee_middleware_new]
        (stamp (middleware_name m2) (timer (middleware_name m2)) ctx2) steps2 = (ms2, Ok r)"
    using chain_step [OF run1 [unfolded c1(2)] assms(3)] comp.never_accepts by (metis middleware_process.simps(2) snd_conv)
  have c2: "compliance_process E compliance_middleware_new ?ctx1 = (ctx2, Ok Continue)" using s2 by auto
  let ?ctx2 = "stamp (middleware_name m2) (timer (middleware_name m2)) ctx2"
  have "snd (snd (middleware_process E (RateLimitMW limiter) ?ctx2)) \<noteq> Ok Accept"
    using rate.never_accepts [of E limiter ?ctx2] by (simp add: Let_def split_beta)
  then obtain m3 ctx3 ms3 steps3 where s3: "middleware_process E (RateLimitMW limiter) ?ctx2 = (m3, ctx3, Ok Continue)"
      and run3: "chain_loop E timer [FeeMW fee_middleware_new] (stamp (middleware_name m3) (timer (middleware_name m3)) ctx3) steps3 = (ms3, Ok r)"
    using chain_step [OF run2 assms(3)] by metis
  have c3: "snd (rate_limit_process E limiter ?ctx2) = (ctx3, Ok Continue)" using s3 by (auto simp: Let_def split_beta)
  let ?ctx3 = "stamp (middleware_name m3) (timer (middleware_name m3)) ctx3"
  obtain m4 ctx4 where "middleware_process E (FeeMW fee_middleware_new) ?ctx3 = (m4, ctx4, Ok Continue)"
    using chain_step [OF run3 assms(3)] fee.never_accepts by (metis middleware_process.simps(4) snd_conv)
  then have "fee_process fee_middleware_new ?ctx3 = (ctx4, Ok Continue)" by auto
  moreover have "cx_parsed_tx ?ctx3 = cx_parsed_tx ctx1" "cx_config ?ctx3 = ch_config c"
    using rate.frame [OF c3] comp.frame [OF c2] sig.frame [OF c1(1)] by (simp_all add: context_new_def)
  ultimately show thesis using that c1(1) c2 by blast
qed

end
