(* ===== verification/Rate_Limit_Properties.thy ===== *)
theory Rate_Limit_Properties
  imports Mempool_Rate_Limit
begin

text \<open>
  The two rate limiters. The sliding window is exact; the token bucket is exact for bursts and keeps its
  rate up to the rounding of \<open>f64\<close>.
\<close>

section \<open>Runs\<close>

text \<open>The answers of a limiter to requests at the given instants, and its state afterwards.\<close>

fun grants :: "(int \<Rightarrow> 'l \<Rightarrow> 'l \<times> bool) \<Rightarrow> 'l \<Rightarrow> int list \<Rightarrow> bool list" where
  "grants step l [] = []"
| "grants step l (t # ts) = snd (step t l) # grants step (fst (step t l)) ts"

fun after :: "(int \<Rightarrow> 'l \<Rightarrow> 'l \<times> bool) \<Rightarrow> 'l \<Rightarrow> int list \<Rightarrow> 'l" where
  "after step l [] = l"
| "after step l (t # ts) = after step (fst (step t l)) ts"

lemma length_grants [simp]: "length (grants step l ts) = length ts"
  by (induction ts arbitrary: l) simp_all

lemma grants_append: "grants step l (ts @ us) = grants step l ts @ grants step (after step l ts) us"
  by (induction ts arbitrary: l) simp_all

text \<open>
  What both limiters promise: an invariant, relative to the instant of the last request, that a request
  at a later instant keeps.
\<close>

locale limiter =
  fixes step :: "int \<Rightarrow> 'l \<Rightarrow> 'l \<times> bool"
    and inv :: "int \<Rightarrow> 'l \<Rightarrow> bool"
  assumes step_inv: "inv now l \<Longrightarrow> now \<le> t \<Longrightarrow> inv t (fst (step t l))"
begin

lemma after_inv: "inv now l \<Longrightarrow> sorted (now # ts) \<Longrightarrow> inv (last (now # ts)) (after step l ts)"
proof (induction ts arbitrary: now l)
  case (Cons t ts)
  then have "inv t (fst (step t l))" using step_inv by simp
  then show ?case using Cons by simp
qed simp

end

section \<open>The sliding window\<close>

definition granted_times :: "bool list \<Rightarrow> int list \<Rightarrow> int list" where
  "granted_times oks ts = map snd (filter fst (zip oks ts))"

text \<open>The specification: grant when fewer than \<open>max\<close> requests were granted in the last \<open>window\<close>.\<close>

fun window_spec :: "nat \<Rightarrow> int \<Rightarrow> int list \<Rightarrow> int list \<Rightarrow> bool list" where
  "window_spec m w past [] = []"
| "window_spec m w past (t # ts) =
     (let ok = length (filter (\<lambda>u. t - w < u) past) < m
      in ok # window_spec m w (if ok then past @ [t] else past) ts)"

lemma filter_later: "now \<le> t \<Longrightarrow> filter (\<lambda>u. t - w < u) (filter (\<lambda>u. now - w < u) xs) = filter (\<lambda>u. t - w < (u :: int)) xs"
  by (induction xs) auto

lemma sliding_step:
  fixes now t :: int
  assumes "sw_timestamps l = filter (\<lambda>u. now - int (sw_window l) < u) past" and "now \<le> t"
  shows "snd (sliding_try_acquire t l)
      \<longleftrightarrow> length (filter (\<lambda>u. t - int (sw_window l) < u) past) < unat (sw_max_requests l)"
    and "0 < sw_window l \<Longrightarrow> sw_timestamps (fst (sliding_try_acquire t l))
      = filter (\<lambda>u. t - int (sw_window l) < u) (if snd (sliding_try_acquire t l) then past @ [t] else past)"
    and "sw_window (fst (sliding_try_acquire t l)) = sw_window l"
    and "sw_max_requests (fst (sliding_try_acquire t l)) = sw_max_requests l"
  using filter_later [OF assms(2), of "int (sw_window l)" past] assms(1)
  by (auto simp: sliding_try_acquire_def retain_recent_def Let_def)

lemma sliding_spec:
  fixes now :: int
  assumes "sw_timestamps l = filter (\<lambda>u. now - int (sw_window l) < u) past" and "sorted (now # ts)" and "0 < sw_window l"
  shows "grants sliding_try_acquire l ts = window_spec (unat (sw_max_requests l)) (int (sw_window l)) past ts"
  using assms
proof (induction ts arbitrary: l now past)
  case (Cons t ts)
  let ?l = "fst (sliding_try_acquire t l)" and ?ok = "snd (sliding_try_acquire t l)"
  have t: "now \<le> t" "sorted (t # ts)" using Cons.prems(2) by auto
  note st = sliding_step [OF Cons.prems(1) t(1)]
  have "sw_timestamps ?l = filter (\<lambda>u. t - int (sw_window ?l) < u) (if ?ok then past @ [t] else past)"
    using st(2) [OF Cons.prems(3)] by (simp only: st(3))
  then have "grants sliding_try_acquire ?l ts
      = window_spec (unat (sw_max_requests ?l)) (int (sw_window ?l)) (if ?ok then past @ [t] else past) ts"
    using Cons.prems(3) t(2) by (intro Cons.IH) (simp_all only: st(3))
  then show ?case using st(1) by (simp add: Let_def st(3,4))
qed simp

text \<open>The specification never lets more than \<open>max\<close> grants into a window.\<close>

lemma window_spec_bound:
  fixes now :: int
  assumes "\<And>t. length (filter (\<lambda>u. t - w < u \<and> u \<le> t) past) \<le> m" and "sorted (now # ts)" and "\<forall>u \<in> set past. u \<le> now"
    and "0 < w"
  shows "length (filter (\<lambda>u. t - w < u \<and> u \<le> t) (past @ granted_times (window_spec m w past ts) ts)) \<le> m"
  using assms
proof (induction ts arbitrary: now past)
  case (Cons t' ts)
  let ?ok = "length (filter (\<lambda>u. t' - w < u) past) < m"
  let ?past = "if ?ok then past @ [t'] else past"
  have s: "now \<le> t'" "sorted (t' # ts)" using Cons.prems(2) by auto
  have "length (filter (\<lambda>u. x - w < u \<and> u \<le> x) (past @ [t'])) \<le> m" if ok: ?ok for x
  proof (cases "x - w < t' \<and> t' \<le> x")
    case True
    have "filter (\<lambda>u. x - w < u \<and> u \<le> x) past = filter (\<lambda>u. x - w < u) past"
      using True Cons.prems(3) s(1) by (intro filter_cong) auto
    moreover have "length (filter (\<lambda>u. x - w < u) past) \<le> length (filter (\<lambda>u. t' - w < u) past)"
      using True by (induction past) auto
    ultimately show ?thesis using True ok by simp
  next
    case False
    then show ?thesis using Cons.prems(1) [of x] by auto
  qed
  then have "\<And>x. length (filter (\<lambda>u. x - w < u \<and> u \<le> x) ?past) \<le> m" using Cons.prems(1) by simp
  moreover have "\<forall>u \<in> set ?past. u \<le> t'" using Cons.prems(3) s(1) by (auto split: if_splits)
  ultimately have "length (filter (\<lambda>u. t - w < u \<and> u \<le> t) (?past @ granted_times (window_spec m w ?past ts) ts)) \<le> m"
    using Cons.IH s(2) Cons.prems(4) by blast
  then show ?case by (cases ?ok) (simp_all add: Let_def granted_times_def)
qed (simp add: granted_times_def)

text \<open>
  The sliding window is exact. For requests at nondecreasing instants a new \<open>SlidingWindowLimiter\<close>
  answers like the specification: a request is granted exactly when fewer than \<open>max_requests\<close> earlier
  requests were granted within the last \<open>window\<close>. So no interval of that length ever contains more than
  \<open>max_requests\<close> granted requests.
\<close>
theorem sliding_window_exact:
  assumes "sorted ts" and "0 < window"
  shows "grants sliding_try_acquire (sliding_new m window) ts = window_spec (unat m) (int window) [] ts
    \<and> length (filter (\<lambda>u. t - int window < u \<and> u \<le> t)
        (granted_times (grants sliding_try_acquire (sliding_new m window) ts) ts)) \<le> unat m"
proof -
  obtain now where now: "sorted (now # ts)" using assms(1) by (cases ts) auto
  have spec: "grants sliding_try_acquire (sliding_new m window) ts = window_spec (unat m) (int window) [] ts"
    using sliding_spec [of "sliding_new m window" now "[]" ts] now assms(2) by (simp add: sliding_new_def)
  moreover have "length (filter (\<lambda>u. t - int window < u \<and> u \<le> t) (granted_times (window_spec (unat m) (int window) [] ts) ts)) \<le> unat m"
    using window_spec_bound [of "int window" "[]" "unat m" now ts t] now assms(2) by simp
  ultimately show ?thesis by simp
qed

theorem sliding_window_exact_witness:
  "grants sliding_try_acquire (sliding_new 2 10) [0, 1, 2, 11] = [True, True, False, True]"
proof -
  have "sorted [0, 1, 2, 11 :: int]" "(0 :: nat) < 10" by simp_all
  from sliding_window_exact [OF this, of 2 0] show ?thesis by (simp add: Let_def)
qed

text \<open>The window never stores more than \<open>max_requests\<close> instants.\<close>

definition sliding_inv :: "int \<Rightarrow> sliding_window_limiter \<Rightarrow> bool" where
  "sliding_inv now l \<longleftrightarrow> length (sw_timestamps l) \<le> unat (sw_max_requests l) \<and> (\<forall>u \<in> set (sw_timestamps l). u \<le> now)"

interpretation sliding: limiter sliding_try_acquire sliding_inv
  by unfold_locales
    (auto simp: sliding_inv_def sliding_try_acquire_def retain_recent_def Let_def
      intro: le_antisym le_trans [OF length_filter_le])

section \<open>The token bucket\<close>

definition bucket_inv :: "u32 \<Rightarrow> rat \<Rightarrow> int \<Rightarrow> rate_limiter \<Rightarrow> bool" where
  "bucket_inv cap q now l \<longleftrightarrow>
     rl_capacity l = cap \<and> rl_refill_rate l = Fin q \<and> rl_last_update l = now
     \<and> (\<exists>x. rl_tokens l = Fin x \<and> 0 \<le> x \<and> x \<le> of_nat (unat cap))"

definition tokens_of :: "rate_limiter \<Rightarrow> rat" where
  "tokens_of l = (case rl_tokens l of Fin x \<Rightarrow> x | _ \<Rightarrow> 0)"

lemma f64_round_0 [simp]: "f64_round 0 = 0" "f64_signed 0 = 0"
  by (simp_all add: f64_round_def f64_signed_def)

lemma f64_lit_1 [simp]: "f64_lit 1 = Fin 1"
  using f64_round_nat_exact [of 1] by (simp add: f64_lit_def)

lemma f64_lit_billion: "f64_lit 1000000000 = Fin 1000000000"
  using f64_round_nat_exact [of 1000000000] by (simp add: f64_lit_def)

lemma f64_signed_nonneg_rel: "0 \<le> x \<Longrightarrow> f64_signed x \<le> x * (1 + 1 / 2 ^ 53)" "0 \<le> x \<Longrightarrow> 0 \<le> f64_signed x"
  using f64_round_rel [of x] f64_round_nonneg [of x] by (simp_all add: f64_signed_def)

lemma as_secs_f64_0 [simp]: "as_secs_f64 0 = Fin 0"
  by (simp add: as_secs_f64_def f64_lit_billion)

text \<open>A duration in seconds is nonnegative and at most two roundings above its value.\<close>

lemma as_secs_f64_bound:
  "\<exists>e. as_secs_f64 d = Fin e \<and> 0 \<le> e \<and> e \<le> of_nat d / 1000000000 * (1 + 1 / 2 ^ 53) ^ 2"
proof -
  define s n where "s = (of_nat (d div 1000000000) :: rat)" and "n = (of_nat (d mod 1000000000) :: rat)"
  define \<delta> :: rat where "\<delta> = 1 + 1 / 2 ^ 53"
  have n_exact: "f64_round n = n" unfolding n_def by (rule f64_round_nat_exact) (simp add: order.strict_trans [OF mod_less_divisor])
  have pos: "0 \<le> s" "0 \<le> n" "0 \<le> f64_round s" "0 < \<delta>" by (simp_all add: s_def n_def f64_round_nonneg \<delta>_def)
  let ?q = "f64_signed (n / 1000000000)"
  have q: "0 \<le> ?q" "?q \<le> n / 1000000000 * \<delta>"
    using f64_signed_nonneg_rel [of "n / 1000000000"] pos by (simp_all add: \<delta>_def)
  have val: "as_secs_f64 d = Fin (f64_signed (f64_round s + ?q))"
    by (simp add: as_secs_f64_def f64_lit_billion s_def [symmetric] n_def [symmetric] n_exact)
  have sum: "s + n / 1000000000 = of_nat d / 1000000000"
  proof -
    have "of_nat d = (of_nat (1000000000 * (d div 1000000000) + d mod 1000000000) :: rat)" by simp
    also have "\<dots> = 1000000000 * s + n" unfolding s_def n_def of_nat_add of_nat_mult by simp
    finally show ?thesis by (simp add: field_simps)
  qed
  have "f64_round s + ?q \<le> s * \<delta> + n / 1000000000 * \<delta>" using f64_round_rel [OF pos(1)] q(2) by (simp add: \<delta>_def)
  also have "\<dots> = of_nat d / 1000000000 * \<delta>" unfolding sum [symmetric] by (simp add: algebra_simps)
  finally have "(f64_round s + ?q) * \<delta> \<le> of_nat d / 1000000000 * \<delta> * \<delta>" using pos(4) by (intro mult_right_mono) simp_all
  moreover have "f64_signed (f64_round s + ?q) \<le> (f64_round s + ?q) * \<delta>"
    using f64_signed_nonneg_rel(1) [of "f64_round s + ?q"] pos(3) q(1) by (simp add: \<delta>_def)
  ultimately have "f64_signed (f64_round s + ?q) \<le> of_nat d / 1000000000 * \<delta> ^ 2" by (simp add: power2_eq_square mult.assoc)
  moreover have "0 \<le> f64_signed (f64_round s + ?q)" using f64_signed_nonneg_rel(2) pos(3) q(1) by simp
  ultimately show ?thesis using val by (simp add: \<delta>_def)
qed

text \<open>A refill stays within the capacity and exceeds its exact value only by the rounding of the sum.\<close>

lemma refill_bound:
  assumes "bucket_inv cap q now l" and "0 \<le> q" and "now \<le> t"
  obtains y where "rl_tokens (refill t l) = Fin y" and "0 \<le> y" and "y \<le> of_nat (unat cap)"
    and "y \<le> tokens_of l + q * (of_int (t - now) / 1000000000) * (1 + 1 / 2 ^ 53) ^ 3 + of_nat (unat cap) / 2 ^ 53"
proof -
  define K :: rat where "K = of_nat (unat cap)"
  define \<delta> :: rat where "\<delta> = 1 + 1 / 2 ^ 53"
  have \<delta>: "0 < \<delta>" by (simp add: \<delta>_def)
  obtain x where l: "rl_capacity l = cap" "rl_refill_rate l = Fin q" "rl_last_update l = now" "rl_tokens l = Fin x" "0 \<le> x" "x \<le> K"
    using assms(1) by (auto simp: bucket_inv_def K_def)
  obtain e where e: "as_secs_f64 (duration_since t now) = Fin e" "0 \<le> e" "e \<le> of_int (t - now) / 1000000000 * \<delta> ^ 2"
    using as_secs_f64_bound [of "duration_since t now"] assms(3) by (auto simp: duration_since_def \<delta>_def)
  define r where "r = f64_signed (e * q)"
  have r0: "0 \<le> r" "r \<le> e * q * \<delta>"
    using f64_signed_nonneg_rel [of "e * q"] e(2) assms(2) by (simp_all add: r_def \<delta>_def)
  have "r \<le> e * q * \<delta>" using r0(2) .
  also have "\<dots> \<le> of_int (t - now) / 1000000000 * \<delta> ^ 2 * q * \<delta>"
    using e(3) assms(2) \<delta> by (intro mult_right_mono) simp_all
  also have "\<dots> = q * (of_int (t - now) / 1000000000) * \<delta> ^ 3" by (simp add: power3_eq_cube power2_eq_square mult_ac)
  finally have r: "r \<le> q * (of_int (t - now) / 1000000000) * \<delta> ^ 3" .
  have sum: "0 \<le> f64_signed (x + r)" "f64_signed (x + r) \<le> x + r + (x + r) / 2 ^ 53"
    using f64_signed_nonneg_rel [of "x + r"] l(5) r0(1) by (simp_all only: distrib_left mult_1_right times_divide_eq_right add_nonneg_nonneg)
  have "min (f64_signed (x + r)) K \<le> x + r + K / 2 ^ 53"
  proof (cases "x + r \<le> K")
    case True
    then have "(x + r) / 2 ^ 53 \<le> K / 2 ^ 53" by (intro divide_right_mono) simp_all
    then show ?thesis using sum(2) by (intro min.coboundedI1) linarith
  next
    case False
    moreover have "0 \<le> K / 2 ^ 53" using l(5,6) by simp
    ultimately show ?thesis by (intro min.coboundedI2) linarith
  qed
  then show thesis
  proof (intro that)
    show "rl_tokens (refill t l) = Fin (min (f64_signed (x + r)) K)"
      using l(1-4) e(1) by (simp add: refill_def f64_min_def r_def K_def u32_as_f64_def min_def)
    show "0 \<le> min (f64_signed (x + r)) K" using sum(1) l(5,6) by simp
  qed (use r l(4) in \<open>simp_all add: K_def tokens_of_def \<delta>_def\<close>)
qed

lemma f64_signed_nat_exact: "n < 2 ^ 53 \<Longrightarrow> f64_signed (of_nat n) = of_nat n"
  using f64_round_nat_exact [of n] by (simp add: f64_signed_def)

lemma u32_small: "unat (n :: u32) < 2 ^ 53"
  using unsigned_less [of n] by (rule order.strict_trans) simp

text \<open>Taking a token away is exact up to the rounding of the difference.\<close>

lemma spend_bound:
  fixes y :: rat and cap :: u32
  assumes "1 \<le> y" and "y \<le> of_nat (unat cap)"
  shows "0 \<le> f64_signed (y - 1)" and "f64_signed (y - 1) \<le> of_nat (unat cap)"
    and "f64_signed (y - 1) + 1 \<le> y + of_nat (unat cap) / 2 ^ 53"
proof -
  show "0 \<le> f64_signed (y - 1)" using assms(1) f64_signed_nonneg_rel(2) by simp
  from f64_signed_nat_exact [OF u32_small [of cap]] show "f64_signed (y - 1) \<le> of_nat (unat cap)"
    using f64_signed_mono [of "y - 1" "of_nat (unat cap)"] assms(2) by linarith
  have "(y - 1) / 2 ^ 53 \<le> of_nat (unat cap) / 2 ^ 53" using assms(2) by (intro divide_right_mono) simp_all
  then show "f64_signed (y - 1) + 1 \<le> y + of_nat (unat cap) / 2 ^ 53"
    using f64_signed_nonneg_rel(1) [of "y - 1"] assms(1) unfolding distrib_left mult_1_right times_divide_eq_right by linarith
qed

text \<open>
  One request: the bucket stays within its capacity, and what it holds afterwards plus the token it gave
  away exceeds what it held before and the refill only by the rounding of two operations.
\<close>

lemma acquire_step:
  assumes "bucket_inv cap q now l" and "0 \<le> q" and "now \<le> t"
  shows "bucket_inv cap q t (fst (try_acquire t l))"
    and "tokens_of (fst (try_acquire t l)) + of_bool (snd (try_acquire t l))
      \<le> tokens_of l + q * (of_int (t - now) / 1000000000) * (1 + 1 / 2 ^ 53) ^ 3 + of_nat (unat cap) / 2 ^ 52"
    and "tokens_of (fst (try_acquire t l)) + of_bool (snd (try_acquire t l)) \<le> of_nat (unat cap) + of_nat (unat cap) / 2 ^ 52"
proof -
  define K :: rat where "K = of_nat (unat cap)"
  obtain y where y: "rl_tokens (refill t l) = Fin y" "0 \<le> y" "y \<le> K"
      "y \<le> tokens_of l + q * (of_int (t - now) / 1000000000) * (1 + 1 / 2 ^ 53) ^ 3 + K / 2 ^ 53"
    using refill_bound [OF assms] unfolding K_def by blast
  define z where "z = (if 1 \<le> y then f64_signed (y - 1) else y)"
  have acq: "rl_tokens (fst (try_acquire t l)) = Fin z" "snd (try_acquire t l) = (1 \<le> y)"
    using y(1) by (simp_all add: try_acquire_def Let_def z_def f64_sub_def)
  have K0: "0 \<le> K / 2 ^ 53" "K / 2 ^ 52 = K / 2 ^ 53 + K / 2 ^ 53" by (simp_all add: K_def)
  have z: "0 \<le> z" "z \<le> K" "z + of_bool (1 \<le> y) \<le> y + K / 2 ^ 53"
    using spend_bound [of y cap] y(2,3) K0(1) by (auto simp: z_def K_def)
  show "bucket_inv cap q t (fst (try_acquire t l))"
    using assms(1) acq z by (simp add: bucket_inv_def K_def try_acquire_def refill_def Let_def)
  have tok: "tokens_of (fst (try_acquire t l)) = z" using acq by (simp add: tokens_of_def)
  show "tokens_of (fst (try_acquire t l)) + of_bool (snd (try_acquire t l))
      \<le> tokens_of l + q * (of_int (t - now) / 1000000000) * (1 + 1 / 2 ^ 53) ^ 3 + of_nat (unat cap) / 2 ^ 52"
    using y(4) z(3) K0 unfolding tok acq(2) K_def [symmetric] by linarith
  show "tokens_of (fst (try_acquire t l)) + of_bool (snd (try_acquire t l)) \<le> of_nat (unat cap) + of_nat (unat cap) / 2 ^ 52"
    using y(3) z(3) K0 unfolding tok acq(2) K_def [symmetric] by linarith
qed

interpretation bucket: limiter try_acquire "\<lambda>now l. 0 \<le> q \<and> bucket_inv cap q now l" for cap q
  by unfold_locales (auto simp: acquire_step(1))

abbreviation granted :: "bool list \<Rightarrow> nat" where
  "granted oks \<equiv> length (filter (\<lambda>ok. ok) oks)"

text \<open>Over a run the grants are paid for by the tokens at its start, the refills and the roundings.\<close>

lemma run_bound:
  assumes "bucket_inv cap q now l" and "0 \<le> q" and "sorted (now # ts)"
  shows "of_nat (granted (grants try_acquire l ts)) + tokens_of (after try_acquire l ts)
    \<le> tokens_of l + q * (of_int (last (now # ts) - now) / 1000000000) * (1 + 1 / 2 ^ 53) ^ 3
      + of_nat (length ts) * (of_nat (unat cap) / 2 ^ 52)"
  using assms(1,3)
proof (induction ts arbitrary: now l)
  case (Cons t ts)
  define c :: rat where "c = q / 1000000000 * (1 + 1 / 2 ^ 53) ^ 3"
  have c: "q * (d / 1000000000) * (1 + 1 / 2 ^ 53) ^ 3 = c * d" for d :: rat by (simp only: c_def) simp
  define k :: rat where "k = of_nat (unat cap) / 2 ^ 52"
  let ?l = "fst (try_acquire t l)"
  have t: "now \<le> t" "sorted (t # ts)" using Cons.prems(2) by auto
  have "of_nat (granted (grants try_acquire ?l ts)) + tokens_of (after try_acquire ?l ts)
      \<le> tokens_of ?l + c * of_int (last (t # ts) - t) + of_nat (length ts) * k"
    using Cons.IH [OF acquire_step(1) [OF Cons.prems(1) assms(2) t(1)] t(2)] unfolding c k_def .
  moreover have "tokens_of ?l + of_bool (snd (try_acquire t l)) \<le> tokens_of l + c * of_int (t - now) + k"
    using acquire_step(2) [OF Cons.prems(1) assms(2) t(1)] unfolding c k_def .
  moreover have "c * of_int (last (now # t # ts) - now) = c * of_int (last (t # ts) - t) + c * of_int (t - now)"
    by (simp add: algebra_simps)
  moreover have "of_nat (length (t # ts)) * k = of_nat (length ts) * k + k" by (simp add: algebra_simps)
  ultimately show ?case unfolding c k_def [symmetric] by (cases "snd (try_acquire t l)") (simp_all only: grants.simps after.simps, simp_all)
qed simp

lemma tokens_nonneg: "bucket_inv cap q now l \<Longrightarrow> 0 \<le> tokens_of l" and tokens_cap: "bucket_inv cap q now l \<Longrightarrow> tokens_of l \<le> of_nat (unat cap)"
  by (auto simp: bucket_inv_def tokens_of_def)

text \<open>The refill rate of a new limiter is the quotient of limit and interval, up to one rounding.\<close>

lemma new_bucket:
  assumes "0 < I" and "I < 2 ^ 53"
  obtains q where "bucket_inv limit q t0 (rate_limiter_new t0 limit (from_secs I))" and "0 \<le> q"
    and "q \<le> of_nat (unat limit) / of_nat I * (1 + 1 / 2 ^ 53)"
proof -
  let ?q = "f64_signed (of_nat (unat limit) / of_nat I)"
  have "as_secs_f64 (from_secs I) = Fin (of_nat I)"
    using f64_signed_nat_exact [OF assms(2)] f64_round_nat_exact [OF assms(2)] by (simp add: as_secs_f64_def from_secs_def f64_lit_billion)
  then have "rl_refill_rate (rate_limiter_new t0 limit (from_secs I)) = Fin ?q"
    using assms(1) by (simp add: rate_limiter_new_def u32_as_f64_def del: of_nat_unat)
  then have "bucket_inv limit ?q t0 (rate_limiter_new t0 limit (from_secs I))"
    by (simp add: bucket_inv_def rate_limiter_new_def u32_as_f64_def)
  moreover have "0 \<le> ?q" "?q \<le> of_nat (unat limit) / of_nat I * (1 + 1 / 2 ^ 53)"
    using f64_signed_nonneg_rel [of "of_nat (unat limit) / of_nat I"] by simp_all
  ultimately show thesis by (rule that)
qed

text \<open>At one instant nothing is refilled: a bucket of \<open>k\<close> tokens grants the next \<open>k\<close> requests.\<close>

lemma burst_grants:
  assumes "rl_last_update l = t" and "rl_tokens l = Fin (of_nat k)" and "rl_refill_rate l = Fin q" and "k \<le> unat (rl_capacity l)"
  shows "grants try_acquire l (replicate n t) = replicate (min n k) True @ replicate (n - k) False"
  using assms
proof (induction n arbitrary: l k)
  case (Suc n)
  let ?l = "fst (try_acquire t l)"
  have "k < 2 ^ 53" using Suc.prems(4) u32_small by (rule le_less_trans)
  then have exact: "f64_signed (of_nat k) = of_nat k" "f64_signed (of_nat (k - 1)) = of_nat (k - 1)"
    by (intro f64_signed_nat_exact; linarith)+
  have cap: "(of_nat k :: rat) \<le> of_nat (unat (rl_capacity l))" using Suc.prems(4) by (simp only: of_nat_le_iff)
  have tok: "rl_tokens (refill t l) = Fin (of_nat k)"
    using Suc.prems cap by (simp add: refill_def duration_since_def f64_min_def u32_as_f64_def exact)
  have ok: "snd (try_acquire t l) \<longleftrightarrow> 0 < k" using tok by (auto simp: try_acquire_def Let_def)
  have "rl_tokens ?l = Fin (of_nat (k - 1))"
    using tok exact(2) by (cases k) (auto simp: try_acquire_def Let_def f64_sub_def)
  moreover have "rl_last_update ?l = t" "rl_refill_rate ?l = Fin q" "rl_capacity ?l = rl_capacity l"
    using Suc.prems by (simp_all add: try_acquire_def refill_def Let_def)
  ultimately have "grants try_acquire ?l (replicate n t) = replicate (min n (k - 1)) True @ replicate (n - (k - 1)) False"
    using Suc.prems(4) by (intro Suc.IH) simp_all
  then show ?case using ok by (cases k) simp_all
qed simp

text \<open>
  The token bucket keeps its limit. A new limiter of \<open>limit\<close> requests per \<open>I\<close> seconds grants exactly
  the first \<open>limit\<close> requests that arrive at the instant of its creation. Whatever it answered before, over
  any run of requests at nondecreasing instants it grants at most \<open>limit\<close> requests, plus \<open>limit / I\<close> for
  every second of the run, plus the accumulated rounding of the \<open>f64\<close> arithmetic, at most
  \<open>limit / 2\<^sup>5\<^sup>2\<close> per request and a relative error of \<open>(1 + 2\<^sup>-\<^sup>5\<^sup>3)\<^sup>4\<close> on the rate.
\<close>
theorem token_bucket_bound:
  assumes "sorted (t0 # pre @ t # win)" and "0 < I" and "I < 2 ^ 53"
  shows "grants try_acquire (rate_limiter_new t0 limit (from_secs I)) (replicate n t0)
      = replicate (min n (unat limit)) True @ replicate (n - unat limit) False
    \<and> of_nat (granted (grants try_acquire (after try_acquire (rate_limiter_new t0 limit (from_secs I)) pre) (t # win)))
      \<le> (of_nat (unat limit) :: rat)
        + of_nat (unat limit) / of_nat I * (of_int (last (t # win) - t) / 1000000000) * (1 + 1 / 2 ^ 53) ^ 4
        + of_nat (length (t # win)) * (of_nat (unat limit) / 2 ^ 52)"
proof -
  define \<delta> :: rat where "\<delta> = 1 + 1 / 2 ^ 53"
  define L :: rat where "L = of_nat (unat limit)"
  define d :: rat where "d = of_int (last (t # win) - t) / 1000000000"
  let ?new = "rate_limiter_new t0 limit (from_secs I)"
  obtain q where q: "bucket_inv limit q t0 ?new" "0 \<le> q" "q \<le> L / of_nat I * \<delta>"
    using new_bucket [OF assms(2,3)] unfolding L_def \<delta>_def by blast
  have srt: "sorted (t0 # pre)" "last (t0 # pre) \<le> t" "sorted (t # win)"
    using assms(1) last_in_set [of "t0 # pre"] by (auto simp: sorted_append simp del: last.simps)
  define l where "l = after try_acquire ?new pre"
  let ?l = "fst (try_acquire t l)"
  have l: "bucket_inv limit q (last (t0 # pre)) l"
    using bucket.after_inv [of q limit t0 ?new pre] q(1,2) srt(1) by (simp add: l_def)
  note step = acquire_step [OF l q(2) srt(2)]
  have "of_nat (granted (grants try_acquire ?l win)) + tokens_of (after try_acquire ?l win)
      \<le> tokens_of ?l + q * d * \<delta> ^ 3 + of_nat (length win) * (L / 2 ^ 52)"
    using run_bound [OF step(1) q(2) srt(3)] unfolding d_def \<delta>_def L_def .
  moreover have "0 \<le> tokens_of (after try_acquire ?l win)"
    using bucket.after_inv [of q limit t ?l win] step(1) q(2) srt(3) tokens_nonneg by blast
  moreover have "tokens_of ?l + of_bool (snd (try_acquire t l)) \<le> L + L / 2 ^ 52"
    using step(3) unfolding L_def .
  moreover have "q * d * \<delta> ^ 3 \<le> L / of_nat I * d * \<delta> ^ 4"
  proof -
    have "0 \<le> d" using srt(3) last_in_set [of "t # win"] by (auto simp: d_def simp del: last.simps)
    then have "q * (d * \<delta> ^ 3) \<le> L / of_nat I * \<delta> * (d * \<delta> ^ 3)" using q(3) by (intro mult_right_mono) (simp_all add: \<delta>_def)
    then show ?thesis by (simp add: power_def mult_ac)
  qed
  moreover have "of_nat (length (t # win)) * (L / 2 ^ 52) = of_nat (length win) * (L / 2 ^ 52) + L / 2 ^ 52" by (simp add: algebra_simps)
  ultimately have "of_nat (granted (grants try_acquire l (t # win))) \<le> L + L / of_nat I * d * \<delta> ^ 4 + of_nat (length (t # win)) * (L / 2 ^ 52)"
    by (cases "snd (try_acquire t l)") (simp_all only: grants.simps, simp_all)
  moreover have "grants try_acquire ?new (replicate n t0) = replicate (min n (unat limit)) True @ replicate (n - unat limit) False"
    using q(1) by (intro burst_grants) (simp_all add: rate_limiter_new_def u32_as_f64_def bucket_inv_def)
  ultimately show ?thesis unfolding l_def d_def \<delta>_def L_def by blast
qed

theorem token_bucket_bound_witness:
  "granted (grants try_acquire (after try_acquire (rate_limiter_new 0 10 (from_secs 1)) []) (0 # replicate 99 0)) \<le> 10"
proof -
  have "sorted (0 # [] @ 0 # replicate 99 (0 :: int))" "(0 :: nat) < 1" "(1 :: nat) < 2 ^ 53" by simp_all
  from token_bucket_bound [OF this, of 10 100] have "(of_nat (granted (grants try_acquire (after try_acquire (rate_limiter_new 0 10 (from_secs 1)) []) (0 # replicate 99 0))) :: rat)
      \<le> 10 + 1000 / 2 ^ 52" by simp
  also have "\<dots> < of_nat 11" by simp
  finally have "granted (grants try_acquire (after try_acquire (rate_limiter_new 0 10 (from_secs 1)) []) (0 # replicate 99 0)) < 11"
    unfolding of_nat_less_iff .
  then show ?thesis by simp
qed

end
