(* ===== verification/Admission_Properties.thy ===== *)
theory Admission_Properties
  imports Mempool_Properties Rate_Limit_Properties
begin

text \<open>
  What the standard middleware chain admits: the sections of a signed transaction, the agreement of the
  header parser with the signature check, exact fee bounds, and the claims about admission.
\<close>

section \<open>Sections of a signed transaction\<close>

definition sec :: "bytes \<Rightarrow> bytes" where
  "sec d = le_bytes 4 (of_nat (length d) :: u32) @ d"

lemma length_sec [simp]: "length (sec d) = 4 + length d"
  by (simp add: sec_def)

lemma sec_length: "length d < 2 ^ 32 \<Longrightarrow> unat (le_word (slice 0 4 (sec d @ r)) :: u32) = length d"
  by (simp add: sec_def slice_whole unsigned_of_nat take_bit_nat_eq_self)

lemma sec_body: "slice 4 (4 + length d) (sec d @ r) = d"
  by (simp add: sec_def slice_def)

lemma section_of:
  assumes "n = unat (le_word (slice a (a + 4) bs) :: u32)" and "a + 4 + n \<le> length bs"
  shows "slice a (a + 4 + n) bs = sec (slice (a + 4) (a + 4 + n) bs)" and "n < 2 ^ 32"
proof -
  have "le_bytes 4 (of_nat n :: u32) = slice a (a + 4) bs"
    using le_bytes_le_word [where 'a = 32, of "slice a (a + 4) bs"] assms by simp
  then show "slice a (a + 4 + n) bs = sec (slice (a + 4) (a + 4 + n) bs)"
    using slice_split [of a "a + 4" "a + 4 + n" bs] assms(2) by (simp add: sec_def)
  show "n < 2 ^ 32" using assms(1) unsigned_less [of "le_word (slice a (a + 4) bs) :: u32"] by simp
qed

text \<open>The three sections are found exactly in the byte strings that start with them; what follows is ignored.\<close>

lemma split_signed_frame:
  assumes "length a < 2 ^ 32" and "length b < 2 ^ 32" and "length c < 2 ^ 32"
  shows "split_signed (sec a @ sec b @ sec c @ rest) = Ok (a, b, c)"
proof -
  let ?bs = "sec a @ sec b @ sec c @ rest"
  let ?i = "4 + length a" and ?j = "8 + length a + length b"
  have shift: "slice ?i (?i + k) ?bs = slice 0 k (sec b @ sec c @ rest)"
      "slice (?i + 4) (?i + 4 + k) ?bs = slice 4 (4 + k) (sec b @ sec c @ rest)"
      "slice ?j (?j + k) ?bs = slice 0 k (sec c @ rest)"
      "slice (?j + 4) (?j + 4 + k) ?bs = slice 4 (4 + k) (sec c @ rest)" for k
    by (simp_all add: slice_def)
  have "unat (le_word (slice 0 4 ?bs) :: u32) = length a"
      "unat (le_word (slice ?i (?i + 4) ?bs) :: u32) = length b"
      "unat (le_word (slice ?j (?j + 4) ?bs) :: u32) = length c"
    using assms unfolding shift by (simp_all only: sec_length)
  then show ?thesis
    using shift sec_body [of a "sec b @ sec c @ rest"] sec_body [of b "sec c @ rest"] sec_body [of c rest]
    by (simp add: split_signed_def Let_def add.assoc)
qed

lemma split_signed_Ok:
  assumes "split_signed bs = Ok (a, b, c)"
  obtains rest where "bs = sec a @ sec b @ sec c @ rest" and "length a < 2 ^ 32" and "length b < 2 ^ 32" and "length c < 2 ^ 32"
proof -
  define n where "n = unat (le_word (slice 0 4 bs) :: u32)"
  define i where "i = 4 + n"
  define m where "m = unat (le_word (slice i (i + 4) bs) :: u32)"
  define j where "j = i + 4 + m"
  define k where "k = unat (le_word (slice j (j + 4) bs) :: u32)"
  have l: "i + 4 \<le> length bs" "j + 4 \<le> length bs" "j + 4 + k \<le> length bs"
      and parts: "a = slice 4 i bs" "b = slice (i + 4) j bs" "c = slice (j + 4) (j + 4 + k) bs"
    using assms unfolding split_signed_def by (auto simp: Let_def n_def i_def m_def j_def k_def split: if_splits)
  have s: "slice 0 i bs = sec a" "n < 2 ^ 32" "slice i j bs = sec b" "m < 2 ^ 32" "slice j (j + 4 + k) bs = sec c" "k < 2 ^ 32"
    using section_of [of n 0 bs] section_of [of m i bs] section_of [of k j bs] l parts
    by (simp_all add: n_def m_def k_def i_def j_def)
  have "bs = slice 0 (j + 4 + k) bs @ slice (j + 4 + k) (length bs) bs" using l(3) by (rule split_at)
  also have "slice 0 (j + 4 + k) bs = sec a @ sec b @ sec c"
    using slice_split [of 0 i "j + 4 + k" bs] slice_split [of i j "j + 4 + k" bs] s by (simp add: i_def j_def)
  finally have "bs = sec a @ sec b @ sec c @ slice (j + 4 + k) (length bs) bs" by simp
  moreover have "length a = n" "length b = m" "length c = k" using parts l by (simp_all add: i_def j_def)
  ultimately show thesis using that s by simp
qed

section \<open>The header and the signature check\<close>

definition parsed_body :: "crypto_lib \<Rightarrow> bytes \<Rightarrow> bytes \<Rightarrow> parsed_transaction" where
  "parsed_body C bs a =
     \<lparr>pt_tx_id = compute_tx_hash C bs, pt_sender = slice 2 23 a, pt_tx_type = a ! 1, pt_nonce = le_word (slice 23 31 a),
      pt_gas_price = le_word (slice 31 39 a), pt_gas_limit = le_word (slice 39 47 a), pt_chain_id = le_word (slice 47 55 a),
      pt_size = length bs, pt_signature_valid = False, pt_compliance_metadata = None\<rparr>"

text \<open>The parser reads the fields of the signed body, whatever follows it.\<close>

lemma parse_sec:
  assumes "55 \<le> length a" and "length a < 2 ^ 32" and "9 \<le> length r"
  shows "parse_transaction C (sec a @ r) = (if length (sec a @ r) < 100 then None else Some (parsed_body C (sec a @ r) a))"
proof -
  have off: "header_offset (sec a @ r) = 4"
    using assms sec_length [OF assms(2), of r] by (auto simp: header_offset_def Let_def)
  have fields: "slice (4 + i) (4 + k) (sec a @ r) = slice i k a" if "k \<le> length a" for i k
    using that by (simp add: slice_def sec_def)
  have "(sec a @ r) ! 5 = a ! 1" using assms(1) by (simp add: sec_def nth_append)
  then show ?thesis
    using assms fields [of 23 2] fields [of 31 23] fields [of 39 31] fields [of 47 39] fields [of 55 47]
    by (simp add: parse_transaction_def off parsed_body_def Let_def)
qed

lemma verify_signature_Ok:
  "verify_signature C clock bs level = Ok True \<longleftrightarrow>
     (\<exists>a sb kb key s. split_signed bs = Ok (a, sb, kb) \<and> 55 \<le> length a
        \<and> hybrid_public_from_bytes C kb = Ok key \<and> signature_from_bytes sb = Ok s
        \<and> slice 2 23 a = address_serialize (address_from_public_key C key)
        \<and> signature_verify C clock s (transaction_hash C a) key (mempool_verifier_config (le_word (slice 47 55 a)) level) = Ok ())"
  by (auto simp: verify_signature_def Let_def split: result.splits if_splits)

lemma signature_continue:
  assumes "signature_process E m ctx = (ctx', Ok Continue)"
  obtains p where "length (cx_tx_bytes ctx) \<le> mc_max_tx_size (cx_config ctx)"
    and "parse_transaction (me_crypto E) (cx_tx_bytes ctx) = Some p"
    and "pt_sender p \<notin> set (mc_blocked_addresses (cx_config ctx))"
    and "verify_signature (me_crypto E) (me_clock E) (cx_tx_bytes ctx) (mc_quantum_threat_level (cx_config ctx)) = Ok True"
    and "cx_parsed_tx ctx' = Some (p\<lparr>pt_signature_valid := True\<rparr>)"
  using assms by (auto simp: signature_process_def Let_def list_ex_iff split: if_splits option.splits result.splits)

section \<open>Exact fees\<close>

lemma base_gas_small: "unat (get_base_gas fee_middleware_new t) \<le> 500000"
  by (simp add: get_base_gas_def fee_middleware_new_def hm_get_def)

text \<open>The fee check, in unbounded arithmetic: no product of it wraps.\<close>

definition fee_ok :: "middleware_config \<Rightarrow> parsed_transaction \<Rightarrow> bool" where
  "fee_ok config p \<longleftrightarrow>
     max (unat (mc_min_gas_price config)) 1 \<le> unat (pt_gas_price p)
     \<and> unat (get_base_gas fee_middleware_new (pt_tx_type p)) \<le> unat (pt_gas_limit p) \<and> unat (pt_gas_limit p) \<le> 10000000
     \<and> unat (get_base_gas fee_middleware_new (pt_tx_type p)) + 16 * pt_size p \<le> unat (pt_gas_price p) * unat (pt_gas_limit p)"

lemma unat_max: "unat (max a b) = max (unat a) (unat b)"
  by (simp add: max_def word_le_nat_alt)

lemma total_fee_exact: "unat (ucast (p :: u64) * ucast (l :: u64) :: u128) = unat p * unat l"
proof -
  have "unat p * unat l < 2 ^ 64 * 2 ^ 64" by (intro mult_strict_mono) (simp_all only: unat_bound64, simp_all)
  then show ?thesis by (subst unat_mult_exact) simp_all
qed

lemma min_fee_exact:
  assumes "n < 2 ^ 64"
  shows "unat (calculate_min_fee fee_middleware_new t n) = unat (get_base_gas fee_middleware_new t) + 16 * n"
proof -
  have n: "unat (of_nat n * 16 :: u128) = 16 * n"
    using assms by (simp add: unat_mult_exact unsigned_of_nat take_bit_nat_eq_self)
  then show ?thesis
    using assms base_gas_small [of t]
    by (simp add: calculate_min_fee_def Let_def unat_add_exact) (simp add: fee_middleware_new_def unat_add_exact n)
qed

lemma fee_continue:
  assumes "cx_parsed_tx ctx = Some p" and "pt_size p < 2 ^ 64"
  shows "(\<exists>ctx'. fee_process fee_middleware_new ctx = (ctx', Ok Continue)) \<longleftrightarrow> fee_ok (cx_config ctx) p"
proof -
  have "fw_min_gas_price fee_middleware_new = 1" "fw_max_gas_limit fee_middleware_new = 10000000"
    by (simp_all add: fee_middleware_new_def)
  then have "fee_ok (cx_config ctx) p \<longleftrightarrow>
      \<not> pt_gas_price p < max (mc_min_gas_price (cx_config ctx)) (fw_min_gas_price fee_middleware_new)
      \<and> \<not> pt_gas_limit p < get_base_gas fee_middleware_new (pt_tx_type p) \<and> \<not> fw_max_gas_limit fee_middleware_new < pt_gas_limit p
      \<and> \<not> ucast (pt_gas_price p) * ucast (pt_gas_limit p) < calculate_min_fee fee_middleware_new (pt_tx_type p) (pt_size p)"
    using min_fee_exact [OF assms(2), of "pt_tx_type p"] total_fee_exact [of "pt_gas_price p" "pt_gas_limit p"]
    by (simp add: fee_ok_def word_less_nat_alt not_less unat_max)
  then show ?thesis using assms(1) by (simp add: fee_process_def Let_def)
qed

section \<open>What is admitted\<close>

lemma std_chain_admitted:
  assumes "std_chain c rl" and "chain_process E timer c bs = (c', Ok r)" and "pr_accepted r"
    and "mc_max_tx_size (ch_config c) < 2 ^ 64"
  obtains a sb kb key s where "split_signed bs = Ok (a, sb, kb)" and "55 \<le> length a"
    and "hybrid_public_from_bytes (me_crypto E) kb = Ok key" and "signature_from_bytes sb = Ok s"
    and "slice 2 23 a = address_serialize (address_from_public_key (me_crypto E) key)"
    and "slice 2 23 a \<notin> set (mc_blocked_addresses (ch_config c))"
    and "signature_verify (me_crypto E) (me_clock E) s (transaction_hash (me_crypto E) a) key
           (mempool_verifier_config (le_word (slice 47 55 a)) (mc_quantum_threat_level (ch_config c))) = Ok ()"
    and "length bs \<le> mc_max_tx_size (ch_config c)" and "fee_ok (ch_config c) (parsed_body (me_crypto E) bs a)"
proof -
  let ?C = "me_crypto E" and ?ctx = "context_new bs (ch_config c)"
  obtain ctx1 ctx2 ctx3 ctx4 where run: "signature_process E signature_middleware_new ?ctx = (ctx1, Ok Continue)"
      "cx_parsed_tx ctx3 = cx_parsed_tx ctx1" "cx_config ctx3 = ch_config c" "fee_process fee_middleware_new ctx3 = (ctx4, Ok Continue)"
    using std_chain_accepts [OF assms(1-3)] by metis
  have [simp]: "cx_tx_bytes ?ctx = bs" "cx_config ?ctx = ch_config c" by (simp_all add: context_new_def)
  obtain p where p: "length bs \<le> mc_max_tx_size (ch_config c)" "parse_transaction ?C bs = Some p"
      "pt_sender p \<notin> set (mc_blocked_addresses (ch_config c))"
      "verify_signature ?C (me_clock E) bs (mc_quantum_threat_level (ch_config c)) = Ok True"
      "cx_parsed_tx ctx1 = Some (p\<lparr>pt_signature_valid := True\<rparr>)"
    by (rule signature_continue [OF run(1)]) (rule that; simp)
  obtain a sb kb key s where v: "split_signed bs = Ok (a, sb, kb)" "55 \<le> length a"
      "hybrid_public_from_bytes ?C kb = Ok key" "signature_from_bytes sb = Ok s"
      "slice 2 23 a = address_serialize (address_from_public_key ?C key)"
      "signature_verify ?C (me_clock E) s (transaction_hash ?C a) key
         (mempool_verifier_config (le_word (slice 47 55 a)) (mc_quantum_threat_level (ch_config c))) = Ok ()"
    using p(4) unfolding verify_signature_Ok by blast
  obtain rest where frame: "bs = sec a @ sec sb @ sec kb @ rest" "length a < 2 ^ 32" using split_signed_Ok [OF v(1)] by blast
  have sb: "2 \<le> length sb" using v(4) by (auto simp: signature_from_bytes_def split: if_splits)
  then have "p = parsed_body ?C bs a"
    using parse_sec [OF v(2) frame(2), of "sec sb @ sec kb @ rest" ?C] p(2) frame(1) by (auto split: if_splits)
  moreover have "fee_ok (ch_config c) (p\<lparr>pt_signature_valid := True\<rparr>)"
    using fee_continue [of ctx3 "p\<lparr>pt_signature_valid := True\<rparr>"] run p(1,5) assms(4) calculation by (auto simp: parsed_body_def)
  ultimately show thesis using that [OF v(1-5)] v(6) p(1,3) by (simp add: parsed_body_def fee_ok_def)
qed

text \<open>
  C7. What an admitted transaction satisfies. When the standard chain (\<open>create_default_chain\<close>, in any
  state of its rate limiter) accepts a byte string, the string starts with the three sections of a signed
  transaction; its public key and signature decode; the sender in the signed body is the address of that
  public key and is not blocked; the signature verifies for the hash of the body under the verifier
  configuration of the chain id in the body; the length is at most the configured maximum; and the gas
  price and gas limit in the signed body, the ones the signature covers, meet the minimum price, the base
  gas of the type, the limit of ten million and the minimum fee of base gas plus 16 per byte, all in exact
  arithmetic.
\<close>
theorem admitted_is_authentic:
  assumes "std_chain c rl" and "chain_process E timer c bs = (c', Ok r)" and "pr_accepted r"
    and "mc_max_tx_size (ch_config c) < 2 ^ 64"
  shows "\<exists>a sb kb key s price limit base.
    split_signed bs = Ok (a, sb, kb) \<and> hybrid_public_from_bytes (me_crypto E) kb = Ok key \<and> signature_from_bytes sb = Ok s
    \<and> slice 2 23 a = address_serialize (address_from_public_key (me_crypto E) key)
    \<and> slice 2 23 a \<notin> set (mc_blocked_addresses (ch_config c))
    \<and> signature_verify (me_crypto E) (me_clock E) s (transaction_hash (me_crypto E) a) key
         (mempool_verifier_config (le_word (slice 47 55 a)) (mc_quantum_threat_level (ch_config c))) = Ok ()
    \<and> length bs \<le> mc_max_tx_size (ch_config c)
    \<and> price = unat (le_word (slice 31 39 a) :: u64) \<and> limit = unat (le_word (slice 39 47 a) :: u64)
    \<and> base = unat (get_base_gas fee_middleware_new (a ! 1))
    \<and> max (unat (mc_min_gas_price (ch_config c))) 1 \<le> price \<and> base \<le> limit \<and> limit \<le> 10000000
    \<and> base + 16 * length bs \<le> price * limit"
proof -
  obtain a sb kb key s where adm: "split_signed bs = Ok (a, sb, kb)" "55 \<le> length a"
      "hybrid_public_from_bytes (me_crypto E) kb = Ok key" "signature_from_bytes sb = Ok s"
      "slice 2 23 a = address_serialize (address_from_public_key (me_crypto E) key)"
      "slice 2 23 a \<notin> set (mc_blocked_addresses (ch_config c))"
      "signature_verify (me_crypto E) (me_clock E) s (transaction_hash (me_crypto E) a) key
         (mempool_verifier_config (le_word (slice 47 55 a)) (mc_quantum_threat_level (ch_config c))) = Ok ()"
      "length bs \<le> mc_max_tx_size (ch_config c)" "fee_ok (ch_config c) (parsed_body (me_crypto E) bs a)"
    by (rule std_chain_admitted [OF assms])
  then show ?thesis unfolding fee_ok_def parsed_body_def by fastforce
qed

section \<open>Transactions of the core crate\<close>

lemma header_fields:
  assumes "address_wf (tx_sender t)"
  shows "slice 2 23 (tx_header t @ p) = address_serialize (tx_sender t)" and "(tx_header t @ p) ! 1 = transaction_type_to_byte (tx_tx_type t)"
    and "slice 31 39 (tx_header t @ p) = le_bytes 8 (tx_gas_price t)" and "slice 39 47 (tx_header t @ p) = le_bytes 8 (tx_gas_limit t)"
    and "slice 47 55 (tx_header t @ p) = le_bytes 8 (tx_chain_id t)"
  using length_address_serialize [OF assms] by (simp_all add: slice_def tx_header_def)

lemma signed_to_bytes_frame:
  assumes "signed_to_bytes s = Some bs"
  obtains tb sb where "to_signing_bytes (st_tx s) = Some tb" and "signature_to_bytes (st_signature s) = Some sb"
    and "bs = sec tb @ sec sb @ sec (hybrid_public_to_bytes (st_public_key s))"
  using assms by (auto simp: signed_to_bytes_def sec_def Let_def split: option.splits)

text \<open>
  The default fees are never enough. A transfer or compute job built by \<open>Transaction::transfer\<close> or
  \<open>Transaction::compute_job\<close> with its default gas (price 1, limit the base gas of its type) is never
  accepted by the standard chain, whoever signs it and whatever the configuration: the minimum fee adds
  16 for every byte of the signed transaction to the base gas.
\<close>
theorem default_gas_never_admitted:
  assumes "st_tx s = transaction_transfer sender recipient amount nonce \<or> st_tx s = transaction_compute_job sender model input nonce"
    and "address_wf sender" and "signed_to_bytes s = Some bs" and "length bs < 2 ^ 32"
    and "std_chain c rl" and "chain_process E timer c bs = (c', Ok r)" and "mc_max_tx_size (ch_config c) < 2 ^ 64"
  shows "\<not> pr_accepted r"
proof
  assume "pr_accepted r"
  then obtain a sb kb where adm: "split_signed bs = Ok (a, sb, kb)" "fee_ok (ch_config c) (parsed_body (me_crypto E) bs a)"
    using std_chain_admitted [OF assms(5,6) _ assms(7)] by metis
  let ?t = "st_tx s"
  obtain tb sb' where tb: "to_signing_bytes ?t = Some tb" "bs = sec tb @ sec sb' @ sec (hybrid_public_to_bytes (st_public_key s))"
    using signed_to_bytes_frame [OF assms(3)] by metis
  have "length tb < 2 ^ 32" "length sb' < 2 ^ 32" "length (hybrid_public_to_bytes (st_public_key s)) < 2 ^ 32"
    using assms(4) tb(2) by simp_all
  then have a: "a = tb" using split_signed_frame [of tb sb' "hybrid_public_to_bytes (st_public_key s)" "[]"] adm(1) tb(2) by simp
  have t: "tx_sender ?t = sender" "tx_gas_price ?t = 1" "tx_gas_limit ?t = base_gas (tx_tx_type ?t)"
      "get_base_gas fee_middleware_new (transaction_type_to_byte (tx_tx_type ?t)) = base_gas (tx_tx_type ?t)"
    using assms(1)
    by (auto simp: transaction_transfer_def transaction_compute_job_def get_base_gas_def fee_middleware_new_def hm_get_def)
  obtain payload where "tb = tx_header ?t @ payload" using tb(1) by (auto simp: signing_bytes_header)
  then have "pt_gas_price (parsed_body C bs a) = 1" "pt_gas_limit (parsed_body C bs a) = base_gas (tx_tx_type ?t)"
      "pt_tx_type (parsed_body C bs a) = transaction_type_to_byte (tx_tx_type ?t)" "pt_size (parsed_body C bs a) = length bs" for C
    using header_fields [of ?t payload] assms(2) t by (simp_all add: parsed_body_def a)
  then have "16 * length bs \<le> 0" using adm(2) t(4) by (simp add: fee_ok_def)
  then show False using tb(2) by simp
qed

section \<open>Runs that accept\<close>

definition admits :: "mempool_env \<Rightarrow> (string \<Rightarrow> u64) \<Rightarrow> middleware list \<Rightarrow> middleware_context \<Rightarrow> bool" where
  "admits E timer ms ctx \<longleftrightarrow> (\<forall>steps. \<exists>ms' r. chain_loop E timer ms ctx steps = (ms', Ok r) \<and> pr_accepted r)"

lemma admits_Nil: "admits E timer [] ctx"
  by (simp add: admits_def finish_def)

lemma admits_Cons:
  assumes "middleware_process E m ctx = (m', ctx', Ok Continue)"
    and "admits E timer ms (stamp (middleware_name m') (timer (middleware_name m')) ctx')"
  shows "admits E timer (m # ms) ctx"
  unfolding admits_def
proof
  fix steps
  let ?steps = "steps @ [\<lparr>sr_middleware_name = middleware_name m', sr_action = Continue, sr_duration_us = timer (middleware_name m')\<rparr>]"
  obtain ms' r where "chain_loop E timer ms (stamp (middleware_name m') (timer (middleware_name m')) ctx') ?steps = (ms', Ok r)" "pr_accepted r"
    using assms(2) unfolding admits_def by blast
  then show "\<exists>ms' r. chain_loop E timer (m # ms) ctx steps = (ms', Ok r) \<and> pr_accepted r" using assms(1) by (simp add: Let_def)
qed

text \<open>A limiter of at least one request grants a request at the instant of its creation.\<close>

lemma new_limiter_grants:
  assumes "0 < limit" and "0 < I" and "I < 2 ^ 53"
  obtains l where "try_acquire t (rate_limiter_new t limit (from_secs I)) = (l, True)"
proof -
  obtain q where "bucket_inv limit q t (rate_limiter_new t limit (from_secs I))" using new_bucket [OF assms(2,3)] by metis
  then have "grants try_acquire (rate_limiter_new t limit (from_secs I)) (replicate 1 t)
      = replicate (min 1 (unat limit)) True @ replicate (1 - unat limit) False"
    by (intro burst_grants) (simp_all add: rate_limiter_new_def u32_as_f64_def bucket_inv_def)
  moreover have "1 \<le> unat limit" using assms(1) by (simp add: word_less_nat_alt)
  ultimately have "snd (try_acquire t (rate_limiter_new t limit (from_secs I)))" by simp
  then show thesis using that by (cases "try_acquire t (rate_limiter_new t limit (from_secs I))") auto
qed

lemma fresh_rate_limit_continue:
  assumes "cx_parsed_tx ctx = Some p" and "0 < mc_rate_limit_per_address (cx_config ctx)"
  obtains m where "rate_limit_process E (rate_limit_middleware_new (me_now E)) ctx = (m, add_tag ''rate_limited'' ''false'' ctx, Ok Continue)"
proof -
  let ?t = "me_now E"
  obtain g where g: "try_acquire ?t (rate_limiter_new ?t 10000 (from_secs 1)) = (g, True)" by (rule new_limiter_grants [of 10000 1]) simp_all
  obtain a where a: "try_acquire ?t (rate_limiter_new ?t (mc_rate_limit_per_address (cx_config ctx)) (from_secs 60)) = (a, True)"
    using new_limiter_grants [OF assms(2), of 60] by auto
  have "0 < type_limit (pt_tx_type p)" by (simp add: type_limit_def)
  then obtain l where l: "try_acquire ?t (rate_limiter_new ?t (type_limit (pt_tx_type p)) (from_secs 1)) = (l, True)"
    using new_limiter_grants [of "type_limit (pt_tx_type p)" 1] by auto
  show thesis
    using that assms(1) g a l
    by (simp add: rate_limit_process_def Let_def rate_limit_middleware_new_def cleanup_if_needed_def duration_since_def
        check_global_def get_address_limiter_def get_type_limiter_def hm_entry_def from_secs_def)
qed

lemma verifier_level: "vc_min_dilithium_level (mempool_verifier_config chain_id level) \<noteq> Level5"
  by (simp add: mempool_verifier_config_def verifier_config_default_def verifier_config_devnet_def verifier_config_testnet_def
      verifier_config_mainnet_def enter_panic_mode_def Let_def)

lemma length_made_key: "keys_work C kp \<Longrightarrow> length (hybrid_public_to_bytes (kp_public_key kp)) = 1989"
  by (simp add: keys_work_def key_wf_def hybrid_public_to_bytes_def Let_def)

lemma length_made_signature:
  assumes "keys_work C kp"
  obtains sb where "signature_to_bytes (made_signature C kp m) = Some sb" and "length sb = 3381"
    and "signature_from_bytes sb = Ok (made_signature C kp m)"
proof -
  let ?s = "made_signature C kp m"
  have wf: "signature_wf ?s" using made_signature_full [OF assms] by (rule full_size_wf)
  have parts: "length (sg_classical ?s) = 64" "length (sg_quantum ?s) = 3309" "sg_timestamp ?s = None" "sg_chain_id ?s = None"
    using assms by (simp_all add: keys_work_def made_signature_def Let_def)
  show thesis
  proof (rule that)
    show "signature_to_bytes ?s = Some (v2_front ?s @ flagged_u64 (sg_timestamp ?s) @ flagged_u64 (sg_chain_id ?s))" by (rule to_bytes_v2 [OF wf])
    then show "signature_from_bytes (v2_front ?s @ flagged_u64 (sg_timestamp ?s) @ flagged_u64 (sg_chain_id ?s)) = Ok ?s" by (rule v2_round_trip [OF wf])
    show "length (v2_front ?s @ flagged_u64 (sg_timestamp ?s) @ flagged_u64 (sg_chain_id ?s)) = 3381"
      using v2_front_parts(1) [of ?s] parts by simp
  qed
qed

text \<open>The bytes of a transaction signed with working keys pass the signature check with the fields of the transaction.\<close>

lemma signed_passes_signature:
  assumes keys: "keys_work (me_crypto E) kp" and sender: "tx_sender t = address_from_public_key (me_crypto E) (kp_public_key kp)"
    and wf: "address_wf (tx_sender t)" and tb: "to_signing_bytes t = Some tb" "length tb < 2 ^ 32"
    and cfg: "length tb + 5382 \<le> mc_max_tx_size config" "address_serialize (tx_sender t) \<notin> set (mc_blocked_addresses config)"
  obtains s bs ctx p where "transaction_sign (me_crypto E) t kp = Some (Ok s)" and "signed_to_bytes s = Some bs"
    and "length bs = length tb + 5382"
    and "signature_process E signature_middleware_new (context_new bs config) = (ctx, Ok Continue)"
    and "cx_parsed_tx ctx = Some p" and "pt_tx_type p = transaction_type_to_byte (tx_tx_type t)"
    and "pt_gas_price p = tx_gas_price t" and "pt_gas_limit p = tx_gas_limit t" and "pt_size p = length bs"
proof -
  let ?C = "me_crypto E" and ?h = "transaction_hash (me_crypto E) tb" and ?kb = "hybrid_public_to_bytes (kp_public_key kp)"
  let ?s = "\<lparr>st_tx = t, st_signature = made_signature ?C kp ?h, st_public_key = kp_public_key kp\<rparr>"
  obtain sb where sb: "signature_to_bytes (made_signature ?C kp ?h) = Some sb" "length sb = 3381"
      "signature_from_bytes sb = Ok (made_signature ?C kp ?h)" by (rule length_made_signature [OF keys])
  obtain payload where body: "tb = tx_header t @ payload" using tb(1) by (auto simp: signing_bytes_header)
  have l: "63 \<le> length tb" "length ?kb = 1989" using body length_tx_header [OF wf] length_made_key [OF keys] by simp_all
  define bs where "bs = sec tb @ sec sb @ sec ?kb"
  have sign: "transaction_sign ?C t kp = Some (Ok ?s)" "signed_to_bytes ?s = Some bs"
    using tb(1) sb(1) keypair_sign_works [OF keys]
    by (simp_all add: transaction_sign_def core_tx_hash_def signed_to_bytes_def bs_def sec_def Let_def)
  have len: "length bs = length tb + 5382" using sb(2) l(2) by (simp add: bs_def)
  have split: "split_signed bs = Ok (tb, sb, ?kb)"
    using split_signed_frame [of tb sb ?kb "[]"] tb(2) sb(2) l(2) by (simp add: bs_def)
  have parse: "parse_transaction ?C bs = Some (parsed_body ?C bs tb)"
    using parse_sec [of tb "sec sb @ sec ?kb" ?C] l tb(2) sb(2) by (simp add: bs_def)
  have fields: "slice 2 23 tb = address_serialize (tx_sender t)" "tb ! 1 = transaction_type_to_byte (tx_tx_type t)"
      "slice 31 39 tb = le_bytes 8 (tx_gas_price t)" "slice 39 47 tb = le_bytes 8 (tx_gas_limit t)"
    unfolding body by (rule header_fields [OF wf])+
  have "hybrid_public_from_bytes ?C ?kb = Ok (kp_public_key kp)"
    using public_keys.decode_iff [of ?C ?kb "kp_public_key kp"] keys by (simp add: keys_work_def Let_def)
  then have "verify_signature ?C (me_clock E) bs (mc_quantum_threat_level config) = Ok True"
    using split sb(3) l(1) sender fields(1) made_signature_verifies [OF keys verifier_level] unfolding verify_signature_Ok by fastforce
  then have proc: "\<exists>ctx. signature_process E signature_middleware_new (context_new bs config) = (ctx, Ok Continue)
      \<and> cx_parsed_tx ctx = Some ((parsed_body ?C bs tb)\<lparr>pt_signature_valid := True\<rparr>)"
    using parse cfg len fields(1) by (simp add: signature_process_def context_new_def parsed_body_def Let_def list_ex_iff)
  then obtain ctx where "signature_process E signature_middleware_new (context_new bs config) = (ctx, Ok Continue)"
      "cx_parsed_tx ctx = Some ((parsed_body ?C bs tb)\<lparr>pt_signature_valid := True\<rparr>)" by blast
  then show thesis using that sign len fields by (simp add: parsed_body_def)
qed

lemma signed_admitted:
  assumes keys: "keys_work (me_crypto E) kp" "tx_sender t = address_from_public_key (me_crypto E) (kp_public_key kp)"
    and body: "address_wf (tx_sender t)" "to_signing_bytes t = Some tb" "length tb < 2 ^ 32"
    and plain: "\<not> requires_compute (tx_tx_type t)"
    and cfg: "length tb + 5382 \<le> mc_max_tx_size config" "address_serialize (tx_sender t) \<notin> set (mc_blocked_addresses config)"
      "0 < mc_rate_limit_per_address config" "mc_max_tx_size config < 2 ^ 64"
    and gas: "max (unat (mc_min_gas_price config)) 1 \<le> unat (tx_gas_price t)" "unat (base_gas (tx_tx_type t)) \<le> unat (tx_gas_limit t)"
      "unat (tx_gas_limit t) \<le> 10000000"
      "unat (base_gas (tx_tx_type t)) + 16 * (length tb + 5382) \<le> unat (tx_gas_price t) * unat (tx_gas_limit t)"
  shows "\<exists>s bs c r. transaction_sign (me_crypto E) t kp = Some (Ok s) \<and> signed_to_bytes s = Some bs
    \<and> chain_process E timer (create_default_chain (me_now E) config) bs = (c, Ok r) \<and> pr_accepted r"
proof -
  obtain s bs ctx p where s: "transaction_sign (me_crypto E) t kp = Some (Ok s)" "signed_to_bytes s = Some bs"
      "length bs = length tb + 5382" "signature_process E signature_middleware_new (context_new bs config) = (ctx, Ok Continue)"
      and p: "cx_parsed_tx ctx = Some p" "pt_tx_type p = transaction_type_to_byte (tx_tx_type t)"
      "pt_gas_price p = tx_gas_price t" "pt_gas_limit p = tx_gas_limit t" "pt_size p = length bs"
    by (rule signed_passes_signature [OF keys body cfg(1,2)])
  have config: "cx_config ctx = config" using sig.frame(2) [OF s(4)] by (simp add: context_new_def)
  let ?ctx1 = "stamp ''signature'' (timer ''signature'') ctx"
  let ?ctx2 = "stamp ''compliance'' (timer ''compliance'') ?ctx1"
  obtain m where rate: "rate_limit_process E (rate_limit_middleware_new (me_now E)) ?ctx2 = (m, add_tag ''rate_limited'' ''false'' ?ctx2, Ok Continue)"
    using fresh_rate_limit_continue [of ?ctx2 p E] p(1) config cfg(3) by auto
  let ?ctx3 = "stamp ''rate_limit'' (timer ''rate_limit'') (add_tag ''rate_limited'' ''false'' ?ctx2)"
  have comp: "compliance_process E compliance_middleware_new ?ctx1 = (?ctx1, Ok Continue)"
    using plain p(1,2) by (cases "tx_tx_type t")
      (simp_all add: requires_compute_def compliance_process_def TX_TYPE_COMPUTE_JOB_def TX_TYPE_SEAL_def)
  have base: "get_base_gas fee_middleware_new (transaction_type_to_byte (tx_tx_type t)) = base_gas (tx_tx_type t)"
    by (cases "tx_tx_type t") (simp_all add: get_base_gas_def fee_middleware_new_def hm_get_def)
  obtain ctx4 where fee: "fee_process fee_middleware_new ?ctx3 = (ctx4, Ok Continue)"
    using fee_continue [of ?ctx3 p] p s(3) config cfg(1,4) gas base by (auto simp: fee_ok_def)
  have "admits E timer [SignatureMW signature_middleware_new, ComplianceMW compliance_middleware_new,
      RateLimitMW (rate_limit_middleware_new (me_now E)), FeeMW fee_middleware_new] (context_new bs config)"
    by (rule admits_Cons [where m' = "SignatureMW signature_middleware_new" and ctx' = ctx], simp add: s(4), simp)
      (rule admits_Cons [where m' = "ComplianceMW compliance_middleware_new" and ctx' = ?ctx1], simp add: comp, simp,
       rule admits_Cons [where m' = "RateLimitMW m" and ctx' = "add_tag ''rate_limited'' ''false'' ?ctx2"], simp add: rate, simp,
       rule admits_Cons [where m' = "FeeMW fee_middleware_new" and ctx' = ctx4], simp add: fee, rule admits_Nil)
  then obtain ms r where "chain_loop E timer (ch_middlewares (create_default_chain (me_now E) config)) (context_new bs config) [] = (ms, Ok r)"
      "pr_accepted r"
    using default_chain_std(1) [of "me_now E" config] unfolding admits_def std_chain_def by metis
  then show ?thesis using s(1,2) default_chain_std(2) [of "me_now E" config] by (auto simp: chain_process_def)
qed

text \<open>
  C8. Honest transactions are admitted. Let the keys work, the sender of a transaction be the address of
  the public key, and its type need no compliance section. If the signed transaction fits the maximum
  size (its body and 5382 bytes of signature, key and length fields), the sender is not blocked, the rate
  limit per address is at least one, and the gas meets the price, the limits and the minimum fee, then
  signing succeeds and a new default chain accepts the encoded result.
\<close>
theorem signed_transaction_admitted:
  assumes "keys_work (me_crypto E) kp" and "tx_sender t = address_from_public_key (me_crypto E) (kp_public_key kp)"
    and "address_wf (tx_sender t)" and "to_signing_bytes t = Some tb" and "length tb < 2 ^ 32"
    and "\<not> requires_compute (tx_tx_type t)"
    and "length tb + 5382 \<le> mc_max_tx_size config" and "address_serialize (tx_sender t) \<notin> set (mc_blocked_addresses config)"
    and "0 < mc_rate_limit_per_address config" and "mc_max_tx_size config < 2 ^ 64"
    and "max (unat (mc_min_gas_price config)) 1 \<le> unat (tx_gas_price t)"
    and "unat (base_gas (tx_tx_type t)) \<le> unat (tx_gas_limit t)" and "unat (tx_gas_limit t) \<le> 10000000"
    and "unat (base_gas (tx_tx_type t)) + 16 * (length tb + 5382) \<le> unat (tx_gas_price t) * unat (tx_gas_limit t)"
  shows "\<exists>s bs c r. transaction_sign (me_crypto E) t kp = Some (Ok s) \<and> signed_to_bytes s = Some bs
    \<and> chain_process E timer (create_default_chain (me_now E) config) bs = (c, Ok r) \<and> pr_accepted r"
  by (rule signed_admitted [OF assms])

section \<open>Examples\<close>

definition demo_env :: mempool_env where
  "demo_env = \<lparr>me_crypto = open_crypto, me_clock = None, me_now = 0, me_is_match = (\<lambda>_ _. False)\<rparr>"

definition demo_transfer :: transaction where
  "demo_transfer = transaction_transfer (address_from_public_key open_crypto (kp_public_key demo_keypair)) address_treasury 5 0"

lemma demo_sender: "address_wf (tx_sender demo_transfer)"
    "tx_sender demo_transfer = address_from_public_key open_crypto (kp_public_key demo_keypair)"
    "tx_tx_type demo_transfer = TxTransfer" "tx_gas_price demo_transfer = 1" "tx_gas_limit demo_transfer = 21000"
  by (simp_all add: demo_transfer_def transaction_transfer_def address_wf_def address_from_public_key_def open_crypto_def
      demo_keypair_def hybrid_public_to_bytes_def ADDRESS_SIZE_def)

lemma demo_transfer_bytes:
  obtains tb where "to_signing_bytes (with_gas demo_transfer price limit) = Some tb" and "length tb = 101"
proof (rule that)
  let ?t = "with_gas demo_transfer price limit"
  have wf: "address_wf (tx_sender ?t)" using demo_sender(1) by (simp add: with_gas_def)
  have payload: "tx_payload ?t = PTransfer (transfer_tx_new address_treasury 5)"
    by (simp add: with_gas_def demo_transfer_def transaction_transfer_def)
  show "to_signing_bytes ?t = Some (tx_header ?t @ transfer_tx_to_bytes (transfer_tx_new address_treasury 5))"
    by (simp add: signing_bytes_header payload)
  show "length (tx_header ?t @ transfer_tx_to_bytes (transfer_tx_new address_treasury 5)) = 101"
    using length_tx_header [OF wf]
    by (simp add: transfer_tx_to_bytes_def transfer_tx_new_def address_serialize_def address_treasury_def ADDRESS_SIZE_def)
qed

lemma demo_config: "mc_max_tx_size middleware_config_default = 1048576" "mc_blocked_addresses middleware_config_default = []"
    "mc_rate_limit_per_address middleware_config_default = 60" "mc_min_gas_price middleware_config_default = 1"
  by (simp_all add: middleware_config_default_def)

lemma demo_env_fields [simp]: "me_crypto demo_env = open_crypto" "me_now demo_env = 0"
  by (simp_all add: demo_env_def)

lemma demo_gas_fields [simp]: "tx_sender (with_gas t price limit) = tx_sender t" "tx_tx_type (with_gas t price limit) = tx_tx_type t"
    "tx_gas_price (with_gas t price limit) = price" "tx_gas_limit (with_gas t price limit) = limit"
  by (simp_all add: with_gas_def)

theorem signed_transaction_admitted_witness:
  "\<exists>s bs c r. transaction_sign open_crypto (with_gas demo_transfer 2 1000000) demo_keypair = Some (Ok s) \<and> signed_to_bytes s = Some bs
    \<and> chain_process demo_env (\<lambda>_. 0) (create_default_chain 0 middleware_config_default) bs = (c, Ok r) \<and> pr_accepted r"
proof -
  obtain tb where tb: "to_signing_bytes (with_gas demo_transfer 2 1000000) = Some tb" "length tb = 101" by (rule demo_transfer_bytes)
  from signed_transaction_admitted [of demo_env demo_keypair "with_gas demo_transfer 2 1000000" tb middleware_config_default "\<lambda>_. 0"]
  show ?thesis using tb demo_keys_work demo_sender demo_config by (simp add: requires_compute_def)
qed

lemma demo_admitted:
  obtains bs c r where "chain_process demo_env (\<lambda>_. 0) (create_default_chain 0 middleware_config_default) bs = (c, Ok r)" and "pr_accepted r"
proof -
  obtain tb where tb: "to_signing_bytes (with_gas demo_transfer 2 1000000) = Some tb" "length tb = 101" by (rule demo_transfer_bytes)
  from signed_admitted [of demo_env demo_keypair "with_gas demo_transfer 2 1000000" tb middleware_config_default "\<lambda>_. 0"]
  show thesis using that tb demo_keys_work demo_sender demo_config by (auto simp: requires_compute_def)
qed

theorem admitted_is_authentic_witness:
  "\<exists>bs a sb kb. split_signed bs = Ok (a, sb, kb) \<and> length bs \<le> 1048576 \<and> unat (le_word (slice 39 47 a) :: u64) \<le> 10000000"
proof -
  obtain bs c r where run: "chain_process demo_env (\<lambda>_. 0) (create_default_chain 0 middleware_config_default) bs = (c, Ok r)" "pr_accepted r"
    by (rule demo_admitted)
  have "mc_max_tx_size (ch_config (create_default_chain 0 middleware_config_default)) < 2 ^ 64"
    by (simp add: default_chain_std(2) demo_config)
  from admitted_is_authentic [OF default_chain_std(1) run this] show ?thesis
    unfolding default_chain_std(2) demo_config by metis
qed

text \<open>The middlewares of the crate never fail, so a standard chain always answers.\<close>

lemma chain_loop_returns:
  assumes "\<And>m ctx. m \<in> set ms \<Longrightarrow> \<exists>a. snd (snd (middleware_process E m ctx)) = Ok a"
  shows "\<exists>ms' r. chain_loop E timer ms ctx steps = (ms', Ok r)"
  using assms
proof (induction ms arbitrary: ctx steps)
  case (Cons m ms)
  obtain m' ctx' a where p: "middleware_process E m ctx = (m', ctx', Ok a)"
    using Cons.prems [of m ctx] by (metis list.set_intros(1) prod.collapse)
  have "\<exists>ms' r. chain_loop E timer ms ctx'' steps' = (ms', Ok r)" for ctx'' steps' using Cons by simp
  then show ?case using p by (cases a) (auto simp: Let_def split_beta, metis fst_conv snd_conv)
qed simp

lemma std_chain_returns:
  assumes "std_chain c rl"
  obtains c' r where "chain_process E timer c bs = (c', Ok r)"
proof -
  have "\<exists>a. snd (snd (middleware_process E m ctx)) = Ok a" if "m \<in> set (ch_middlewares c)" for m ctx
    using that assms sig.returns comp.returns rate.returns [of E rl] fee.returns by (auto simp: std_chain_def Let_def split_beta)
  then have "\<exists>ms r. chain_loop E timer (ch_middlewares c) (context_new bs (ch_config c)) [] = (ms, Ok r)"
    by (rule chain_loop_returns)
  then show thesis using that by (auto simp: chain_process_def)
qed

theorem default_gas_never_admitted_witness:
  "\<exists>s bs c r. transaction_sign open_crypto demo_transfer demo_keypair = Some (Ok s) \<and> signed_to_bytes s = Some bs
    \<and> chain_process demo_env (\<lambda>_. 0) (create_default_chain 0 middleware_config_default) bs = (c, Ok r) \<and> \<not> pr_accepted r"
proof -
  have id: "with_gas demo_transfer 1 21000 = demo_transfer" using demo_sender(4,5) by (simp add: with_gas_def)
  obtain tb where tb: "to_signing_bytes demo_transfer = Some tb" "length tb = 101" using demo_transfer_bytes [of 1 21000] unfolding id .
  obtain s bs where s: "transaction_sign open_crypto demo_transfer demo_keypair = Some (Ok s)" "signed_to_bytes s = Some bs" "length bs = length tb + 5382"
    by (rule signed_passes_signature [of demo_env demo_keypair demo_transfer tb middleware_config_default])
      (use that tb demo_keys_work demo_sender demo_config in \<open>simp_all\<close>)
  have t: "st_tx s = transaction_transfer (address_from_public_key open_crypto (kp_public_key demo_keypair)) address_treasury 5 0"
    using signed_with_working_keys(1) [OF demo_keys_work s(1), of verifier_config_default]
    by (simp add: verifier_config_default_def demo_transfer_def)
  obtain c r where run: "chain_process demo_env (\<lambda>_. 0) (create_default_chain 0 middleware_config_default) bs = (c, Ok r)"
    by (rule std_chain_returns [OF default_chain_std(1)])
  have "address_wf (address_from_public_key open_crypto (kp_public_key demo_keypair))" using demo_sender(1,2) by simp
  from default_gas_never_admitted [OF disjI1 [OF t] this s(2) _ default_chain_std(1) run]
  have "\<not> pr_accepted r" using s(3) tb(2) by (simp add: default_chain_std(2) demo_config)
  then show ?thesis using s run by blast
qed

section \<open>Transaction ids\<close>

text \<open>
  The mempool id of a transaction is not fixed by its signature. Whatever bytes are appended to a
  signed transaction whose signature verifies, the result verifies too and parses to the same sender,
  type, nonce, gas and chain id; only its size and its id, the hash of all bytes, differ.
\<close>
theorem trailing_bytes_accepted:
  assumes "verify_signature C clock bs level = Ok True" and "parse_transaction C bs = Some p"
  shows "verify_signature C clock (bs @ junk) level = Ok True
    \<and> parse_transaction C (bs @ junk)
        = Some (p\<lparr>pt_tx_id := cl_sha256 C (ascii ''aethelred:transaction:v1:'' @ bs @ junk), pt_size := length bs + length junk\<rparr>)"
proof -
  obtain a sb kb key s where v: "split_signed bs = Ok (a, sb, kb)" "55 \<le> length a"
      "hybrid_public_from_bytes C kb = Ok key" "signature_from_bytes sb = Ok s"
      "slice 2 23 a = address_serialize (address_from_public_key C key)"
      "signature_verify C clock s (transaction_hash C a) key (mempool_verifier_config (le_word (slice 47 55 a)) level) = Ok ()"
    using assms(1) unfolding verify_signature_Ok by blast
  obtain rest where f: "bs = sec a @ sec sb @ sec kb @ rest" "length a < 2 ^ 32" "length sb < 2 ^ 32" "length kb < 2 ^ 32"
    using split_signed_Ok [OF v(1)] by blast
  have "split_signed (bs @ junk) = Ok (a, sb, kb)" using split_signed_frame [OF f(2-4), of "rest @ junk"] f(1) by simp
  then have "verify_signature C clock (bs @ junk) level = Ok True" using v unfolding verify_signature_Ok by blast
  moreover have "2 \<le> length sb" using v(4) by (auto simp: signature_from_bytes_def split: if_splits)
  then have "parse_transaction C (sec a @ sec sb @ sec kb @ r)
      = (if length (sec a @ sec sb @ sec kb @ r) < 100 then None else Some (parsed_body C (sec a @ sec sb @ sec kb @ r) a))" for r
    by (intro parse_sec v(2) f(2)) simp
  from this [of rest] this [of "rest @ junk"] have "parse_transaction C (bs @ junk) = Some (parsed_body C (bs @ junk) a)" "p = parsed_body C bs a"
    using assms(2) f(1) by (auto split: if_splits)
  ultimately show ?thesis by (simp add: parsed_body_def compute_tx_hash_def)
qed

theorem trailing_bytes_accepted_witness:
  "\<exists>bs. verify_signature open_crypto None (bs @ [1, 2, 3]) 0 = Ok True"
proof -
  obtain tb where tb: "to_signing_bytes (with_gas demo_transfer 2 1000000) = Some tb" "length tb = 101" by (rule demo_transfer_bytes)
  obtain bs ctx where "signature_process demo_env signature_middleware_new (context_new bs middleware_config_default) = (ctx, Ok Continue)"
    by (rule signed_passes_signature [of demo_env demo_keypair "with_gas demo_transfer 2 1000000" tb middleware_config_default])
      (use that tb demo_keys_work demo_sender demo_config in \<open>simp_all\<close>)
  then obtain p where p: "parse_transaction open_crypto bs = Some p" "verify_signature open_crypto None bs 0 = Ok True"
    by (rule signature_continue) (use that in \<open>simp add: context_new_def demo_env_def middleware_config_default_def\<close>)
  from trailing_bytes_accepted [OF p(2,1), of "[1, 2, 3]"] show ?thesis by blast
qed

end
