(* ===== verification/Screening_Properties.thy ===== *)
theory Screening_Properties
  imports Mempool_Properties
begin

text \<open>
  The compliance middleware of the mempool: which frameworks an admitted compute transaction has passed,
  and why its bytes are never scanned for personal data.
\<close>

section \<open>Validators\<close>

lemma check_outcome_passed [simp]: "cr_passed (check_outcome f issues) \<longleftrightarrow> issues = []"
  by (simp add: check_outcome_def)

lemma framework_step_Continue:
  assumes "framework_step m d ctx = (ctx', Ok Continue)"
  shows "list_all cr_passed (validate_frameworks m ctx d)"
  using assms by (auto simp: framework_step_def Let_def list_all_iff filter_empty_conv split: if_splits)

text \<open>Every framework that the transaction or the configuration names, and that has a validator, is validated.\<close>

lemma named_framework_validated:
  assumes "f \<in> set (cm_required_frameworks d) \<or> f \<in> set (mc_enabled_frameworks (cx_config ctx))" and "find_validator m f = Some v"
  shows "framework_validate v ctx d \<in> set (validate_frameworks m ctx d)"
proof (cases "f \<in> set (cm_required_frameworks d)")
  case True
  moreover have "validate_required m ctx d f = framework_validate v ctx d" using assms(2) by (simp add: validate_required_def)
  ultimately have "framework_validate v ctx d \<in> validate_required m ctx d ` set (cm_required_frameworks d)" by (metis imageI)
  then show ?thesis by (simp add: validate_frameworks_def)
next
  case False
  then have "validate_enabled m ctx d f = [framework_validate v ctx d]" using assms(2) by (simp add: validate_enabled_def)
  then have "framework_validate v ctx d \<in> (\<Union>g \<in> set (mc_enabled_frameworks (cx_config ctx)). set (validate_enabled m ctx d g))"
    using False assms(1) by (intro UN_I [of f]) simp_all
  then show ?thesis by (simp add: validate_frameworks_def)
qed

lemma std_validators:
  "find_validator compliance_middleware_new ''GDPR'' = Some GdprValidator"
  "find_validator compliance_middleware_new ''HIPAA'' = Some HipaaValidator"
  "find_validator compliance_middleware_new ''PCI-DSS'' = Some PciDssValidator"
  "find_validator compliance_middleware_new ''CCPA'' = Some CcpaValidator"
  by (simp_all add: find_validator_def compliance_middleware_new_def)

lemma compliance_continue:
  assumes "compliance_process E m ctx = (ctx', Ok Continue)" and "cx_parsed_tx ctx = Some p"
    and "pt_tx_type p = TX_TYPE_COMPUTE_JOB \<or> pt_tx_type p = TX_TYPE_SEAL"
    and "parse_compliance_section (cx_tx_bytes ctx) (pt_tx_type p) = Some d"
  shows "list_all cr_passed (validate_frameworks m (fst (scan_step (me_is_match E) (cw_pii_detector m) ctx)) d)"
proof -
  have "extract_compliance_metadata ctx = Some d" using assms(2-4) by (auto simp: extract_compliance_metadata_def)
  then have "framework_step m d (fst (scan_step (me_is_match E) (cw_pii_detector m) ctx)) = (ctx', Ok Continue)"
    using assms(1-3) by (auto simp: compliance_process_def Let_def split_beta split: option.splits)
  then show ?thesis by (rule framework_step_Continue)
qed

section \<open>The marker\<close>

lemma section_some: "\<exists>d. parse_compliance_section bs t = Some d"
  by (simp add: parse_compliance_section_def Let_def split_beta split: list.split)

lemma audit_needs_marker:
  assumes "parse_compliance_section bs t = Some d" and "cm_audit_required d"
  shows "0xC0 \<in> set bs"
proof (rule ccontr)
  assume "0xC0 \<notin> set bs"
  then have none: "dropWhile (\<lambda>b. b \<noteq> 0xC0) bs = []" by (auto simp: dropWhile_eq_Nil_conv)
  have "d = compliance_metadata_default" using assms(1) unfolding parse_compliance_section_def none by simp
  then show False using assms(2) by (simp add: compliance_metadata_default_def)
qed

lemma marker_not_scanned: "0xC0 \<in> set bs \<Longrightarrow> scan im det bs = []"
  using utf8_no_C0 by (auto simp: scan_def from_utf8_def)

lemma audit_of_issues:
  "gdpr_issues ctx d = [] \<Longrightarrow> cm_audit_required d" "hipaa_issues ctx d = [] \<Longrightarrow> cm_audit_required d"
  "pci_issues ctx d = [] \<Longrightarrow> cm_audit_required d"
  by (simp_all add: gdpr_issues_def hipaa_issues_def pci_issues_def split: if_splits)

text \<open>
  What the compliance check of an admitted compute job or seal shows, when GDPR, HIPAA or PCI-DSS is
  enabled (the default enables all three). Its compliance section asks for an audit trail, a data
  residency it declares is in the EU or the adequacy list under GDPR and the US under HIPAA, and no
  required framework is SOX, for which there is no validator. But because the audit flag is only found
  behind the marker byte \<open>0xC0\<close>, which occurs in no UTF-8 text, the scan for personal data finds nothing
  in any admitted compute job or seal, whatever the patterns; and with GDPR and HIPAA both enabled no
  declared residency is admitted at all.
\<close>
theorem screening_of_compute:
  assumes "compliance_process E compliance_middleware_new ctx = (ctx', Ok Continue)" and "cx_parsed_tx ctx = Some p"
    and "pt_tx_type p = TX_TYPE_COMPUTE_JOB \<or> pt_tx_type p = TX_TYPE_SEAL"
    and "\<exists>f \<in> {''GDPR'', ''HIPAA'', ''PCI-DSS''}. f \<in> set (mc_enabled_frameworks (cx_config ctx))"
  shows "\<exists>d. parse_compliance_section (cx_tx_bytes ctx) (pt_tx_type p) = Some d \<and> cm_audit_required d
      \<and> ''SOX'' \<notin> set (cm_required_frameworks d)
      \<and> (''GDPR'' \<in> set (mc_enabled_frameworks (cx_config ctx)) \<longrightarrow>
           (\<forall>r. cm_data_residency d = Some r \<longrightarrow> r \<in> set eu_countries \<union> set adequacy_countries))
      \<and> (''HIPAA'' \<in> set (mc_enabled_frameworks (cx_config ctx)) \<longrightarrow> (\<forall>r. cm_data_residency d = Some r \<longrightarrow> r = ''US''))
      \<and> ({''GDPR'', ''HIPAA''} \<subseteq> set (mc_enabled_frameworks (cx_config ctx)) \<longrightarrow> cm_data_residency d = None)
      \<and> 0xC0 \<in> set (cx_tx_bytes ctx) \<and> (\<forall>im det. scan im det (cx_tx_bytes ctx) = [])"
proof -
  let ?ctx = "fst (scan_step (me_is_match E) (cw_pii_detector compliance_middleware_new) ctx)"
  let ?enabled = "set (mc_enabled_frameworks (cx_config ctx))"
  obtain d where d: "parse_compliance_section (cx_tx_bytes ctx) (pt_tx_type p) = Some d" using section_some by blast
  note pass = compliance_continue [OF assms(1-3) d, unfolded list_all_iff, rule_format]
  have named: "cr_passed (framework_validate v ?ctx d)" if "f \<in> ?enabled" "find_validator compliance_middleware_new f = Some v" for f v
    using that by (intro pass named_framework_validated) auto
  have gdpr: "gdpr_issues ?ctx d = []" if "''GDPR'' \<in> ?enabled" using named [OF that std_validators(1)] by simp
  have hipaa: "hipaa_issues ?ctx d = []" if "''HIPAA'' \<in> ?enabled" using named [OF that std_validators(2)] by simp
  have pci: "pci_issues ?ctx d = []" if "''PCI-DSS'' \<in> ?enabled" using named [OF that std_validators(3)] by simp
  have audit: "cm_audit_required d" using assms(4) gdpr hipaa pci audit_of_issues by blast
  have sox: "''SOX'' \<notin> set (cm_required_frameworks d)"
  proof
    assume "''SOX'' \<in> set (cm_required_frameworks d)"
    then have "validate_required compliance_middleware_new ?ctx d ''SOX'' \<in> set (validate_frameworks compliance_middleware_new ?ctx d)"
      by (simp add: validate_frameworks_def)
    then have "cr_passed (validate_required compliance_middleware_new ?ctx d ''SOX'')" by (rule pass)
    then show False by (simp add: validate_required_def find_validator_def compliance_middleware_new_def)
  qed
  have eu: "r \<in> set eu_countries \<union> set adequacy_countries" if "''GDPR'' \<in> ?enabled" "cm_data_residency d = Some r" for r
    using gdpr [OF that(1)] that(2) by (auto simp: gdpr_issues_def split: if_splits)
  have us: "r = ''US''" if "''HIPAA'' \<in> ?enabled" "cm_data_residency d = Some r" for r
    using hipaa [OF that(1)] that(2) by (simp add: hipaa_issues_def split: if_splits)
  have "''US'' \<notin> set eu_countries \<union> set adequacy_countries" by (simp add: eu_countries_def adequacy_countries_def)
  then have "cm_data_residency d = None" if "{''GDPR'', ''HIPAA''} \<subseteq> ?enabled" using that eu us by (cases "cm_data_residency d") auto
  then show ?thesis
    using d audit sox eu us audit_needs_marker [OF d audit] marker_not_scanned [OF audit_needs_marker [OF d audit]]
    by (intro exI [of _ d] conjI impI allI) assumption+
qed

section \<open>Example\<close>

definition demo_parsed :: parsed_transaction where
  "demo_parsed = \<lparr>pt_tx_id = [], pt_sender = [], pt_tx_type = 0x02, pt_nonce = 0, pt_gas_price = 1, pt_gas_limit = 0, pt_chain_id = 1,
     pt_size = 4, pt_signature_valid = True, pt_compliance_metadata = None\<rparr>"

definition demo_context :: middleware_context where
  "demo_context = (context_new [0xC0, 0, 0, 1] middleware_config_default)\<lparr>cx_parsed_tx := Some demo_parsed\<rparr>"

lemma demo_context_fields:
  "cx_tx_bytes demo_context = [0xC0, 0, 0, 1]" "cx_parsed_tx demo_context = Some demo_parsed"
  "cx_config demo_context = middleware_config_default" "mm_tags (cx_metadata demo_context) = []"
  by (simp_all add: demo_context_def context_new_def middleware_metadata_default_def)

lemma demo_section:
  "parse_compliance_section [0xC0, 0, 0, 1] 0x02 = Some (compliance_metadata_default\<lparr>cm_audit_required := True\<rparr>)"
  by (simp add: parse_compliance_section_def parse_residency_def compliance_metadata_default_def Let_def)

lemma demo_compliance_passes: "\<exists>ctx. compliance_process E compliance_middleware_new demo_context = (ctx, Ok Continue)"
proof -
  let ?d = "compliance_metadata_default\<lparr>cm_audit_required := True\<rparr>"
  have scan: "scan_step im det demo_context = (demo_context, [])" for im det
    by (simp add: scan_step_def check_pii_def demo_context_fields marker_not_scanned)
  have meta: "extract_compliance_metadata demo_context = Some ?d"
    using demo_section by (simp add: extract_compliance_metadata_def demo_context_fields demo_parsed_def TX_TYPE_COMPUTE_JOB_def)
  have issues: "gdpr_issues demo_context ?d = []" "hipaa_issues demo_context ?d = []" "pci_issues demo_context ?d = []"
    by (simp_all add: gdpr_issues_def hipaa_issues_def pci_issues_def unsigned_issue_def has_tag_def get_tag_def demo_context_fields
        demo_parsed_def compliance_metadata_default_def)
  have "list_all cr_passed (validate_frameworks compliance_middleware_new demo_context ?d)"
    by (simp add: validate_frameworks_def demo_context_fields middleware_config_default_def validate_enabled_def std_validators issues
        compliance_metadata_default_def [THEN arg_cong [where f = cm_required_frameworks]])
  then have "\<exists>ctx. framework_step compliance_middleware_new ?d demo_context = (ctx, Ok Continue)"
    by (auto simp: framework_step_def Let_def list_all_iff filter_empty_conv)
  then show ?thesis
    by (simp add: compliance_process_def demo_context_fields meta scan pii_rejection_def)
qed

theorem screening_of_compute_witness:
  "\<exists>d. parse_compliance_section [0xC0, 0, 0, 1] 0x02 = Some d \<and> cm_audit_required d \<and> cm_data_residency d = None
    \<and> (\<forall>im det. scan im det [0xC0, 0, 0, 1] = [])"
proof -
  obtain ctx where run: "compliance_process \<lparr>me_crypto = open_crypto, me_clock = None, me_now = 0, me_is_match = (\<lambda>_ _. True)\<rparr>
      compliance_middleware_new demo_context = (ctx, Ok Continue)"
    using demo_compliance_passes by blast
  have "pt_tx_type demo_parsed = TX_TYPE_COMPUTE_JOB \<or> pt_tx_type demo_parsed = TX_TYPE_SEAL"
      "\<exists>f \<in> {''GDPR'', ''HIPAA'', ''PCI-DSS''}. f \<in> set (mc_enabled_frameworks (cx_config demo_context))"
    by (auto simp: demo_parsed_def TX_TYPE_COMPUTE_JOB_def demo_context_fields middleware_config_default_def)
  from screening_of_compute [OF run demo_context_fields(2) this]
  show ?thesis by (auto simp: demo_context_fields middleware_config_default_def demo_parsed_def)
qed

end
