(* ===== verification/Vm_Gas.thy ===== *)
theory Vm_Gas
  imports Rust_Prelude
begin

text \<open>
  Gas and memory of the virtual machine: \<open>src/crates/vm/src/gas.rs\<close> and \<open>memory.rs\<close>.

  The counter of the meter is an atomic word that several threads share. A call of \<open>consume\<close> makes two
  accesses to it, a \<open>fetch_add\<close> and, when the call fails, a \<open>fetch_sub\<close>; they are separate definitions, so
  that calls can interleave between them (\<open>Gas_Properties\<close>). The base pointer of a memory region is its
  address.
\<close>

section \<open>Costs\<close>

record gas_config =
  gc_wasm_base_cost :: u64
  gc_wasm_instruction_cost :: u64
  gc_memory_byte_cost :: u64
  gc_memory_page_cost :: u64
  gc_memory_grow_cost :: u64
  gc_expensive_op_multiplier :: u64
  gc_host_call_base :: u64
  gc_storage_read_cost :: u64
  gc_storage_write_cost :: u64
  gc_precompile_call_base :: u64
  gc_network_cost :: u64
  gc_crypto_multiplier :: u64

definition gas_config_default :: gas_config where
  "gas_config_default =
     \<lparr>gc_wasm_base_cost = 1, gc_wasm_instruction_cost = 1, gc_memory_byte_cost = 1, gc_memory_page_cost = 65536,
      gc_memory_grow_cost = 1000, gc_expensive_op_multiplier = 10, gc_host_call_base = 100, gc_storage_read_cost = 200,
      gc_storage_write_cost = 5000, gc_precompile_call_base = 50, gc_network_cost = 10000, gc_crypto_multiplier = 100\<rparr>"

definition gas_config_production :: gas_config where
  "gas_config_production =
     \<lparr>gc_wasm_base_cost = 10, gc_wasm_instruction_cost = 1, gc_memory_byte_cost = 3, gc_memory_page_cost = 200000,
      gc_memory_grow_cost = 10000, gc_expensive_op_multiplier = 100, gc_host_call_base = 1000, gc_storage_read_cost = 2100,
      gc_storage_write_cost = 20000, gc_precompile_call_base = 700, gc_network_cost = 100000, gc_crypto_multiplier = 1000\<rparr>"

definition gas_config_testing :: gas_config where
  "gas_config_testing =
     \<lparr>gc_wasm_base_cost = 0, gc_wasm_instruction_cost = 0, gc_memory_byte_cost = 0, gc_memory_page_cost = 0,
      gc_memory_grow_cost = 0, gc_expensive_op_multiplier = 1, gc_host_call_base = 0, gc_storage_read_cost = 0,
      gc_storage_write_cost = 0, gc_precompile_call_base = 0, gc_network_cost = 0, gc_crypto_multiplier = 1\<rparr>"

text \<open>The operations are grouped as the comments of the enumeration group them.\<close>

datatype control_op =
  OpUnreachable | OpNop | OpBlock | OpLoop | OpIf | OpElse | OpEnd | OpBr | OpBrIf | OpBrTable | OpReturn
  | OpCall | OpCallIndirect

datatype constant_op =
  OpI32Const | OpI64Const | OpF32Const | OpF64Const

datatype variable_op =
  OpLocalGet | OpLocalSet | OpLocalTee | OpGlobalGet | OpGlobalSet

datatype memory_op =
  OpI32Load | OpI64Load | OpF32Load | OpF64Load | OpI32Store | OpI64Store | OpF32Store | OpF64Store
  | OpMemorySize | OpMemoryGrow

datatype integer_op =
  OpI32Add | OpI32Sub | OpI32Mul | OpI32DivS | OpI32DivU | OpI32RemS | OpI32RemU | OpI64Add | OpI64Sub
  | OpI64Mul | OpI64DivS | OpI64DivU | OpI64RemS | OpI64RemU

datatype bitwise_op =
  OpI32And | OpI32Or | OpI32Xor | OpI64And | OpI64Or | OpI64Xor

datatype shift_op =
  OpI32Shl | OpI32ShrS | OpI32ShrU | OpI64Shl | OpI64ShrS | OpI64ShrU

datatype float_op =
  OpF32Add | OpF32Sub | OpF32Mul | OpF32Div | OpF32Sqrt | OpF64Add | OpF64Sub | OpF64Mul | OpF64Div
  | OpF64Sqrt

datatype comparison_op =
  OpI32Eqz | OpI32Eq | OpI32Ne | OpI32LtS | OpI32LtU | OpI32GtS | OpI32GtU | OpI64Eqz | OpI64Eq | OpI64Ne

datatype conversion_op =
  OpI32WrapI64 | OpI64ExtendI32S | OpI64ExtendI32U | OpF32ConvertI32S | OpF32ConvertI64S | OpF64ConvertI32S
  | OpF64ConvertI64S

datatype wasm_op =
    ControlOp control_op
  | ConstantOp constant_op
  | VariableOp variable_op
  | MemoryOp memory_op
  | IntegerOp integer_op
  | BitwiseOp bitwise_op
  | ShiftOp shift_op
  | FloatOp float_op
  | ComparisonOp comparison_op
  | ConversionOp conversion_op
  | OtherOp

definition control_op_cost :: "gas_config \<Rightarrow> u64 \<Rightarrow> control_op \<Rightarrow> u64" where
  "control_op_cost c base op =
     (case op of
        OpUnreachable \<Rightarrow> base
      | OpNop \<Rightarrow> base
      | OpBlock \<Rightarrow> base
      | OpLoop \<Rightarrow> base
      | OpIf \<Rightarrow> base
      | OpElse \<Rightarrow> base
      | OpEnd \<Rightarrow> base
      | OpBr \<Rightarrow> base * 2
      | OpBrIf \<Rightarrow> base * 2
      | OpBrTable \<Rightarrow> base * 3
      | OpReturn \<Rightarrow> base * 5
      | OpCall \<Rightarrow> base * 5
      | OpCallIndirect \<Rightarrow> base * 5)"

definition constant_op_cost :: "gas_config \<Rightarrow> u64 \<Rightarrow> constant_op \<Rightarrow> u64" where
  "constant_op_cost c base op = base"

definition variable_op_cost :: "gas_config \<Rightarrow> u64 \<Rightarrow> variable_op \<Rightarrow> u64" where
  "variable_op_cost c base op =
     (case op of
        OpLocalGet \<Rightarrow> base
      | OpLocalSet \<Rightarrow> base
      | OpLocalTee \<Rightarrow> base
      | OpGlobalGet \<Rightarrow> base * 2
      | OpGlobalSet \<Rightarrow> base * 2)"

definition memory_op_cost :: "gas_config \<Rightarrow> u64 \<Rightarrow> memory_op \<Rightarrow> u64" where
  "memory_op_cost c base op =
     (case op of
        OpI32Load \<Rightarrow> base * 3
      | OpI64Load \<Rightarrow> base * 3
      | OpF32Load \<Rightarrow> base * 3
      | OpF64Load \<Rightarrow> base * 3
      | OpI32Store \<Rightarrow> base * 3
      | OpI64Store \<Rightarrow> base * 3
      | OpF32Store \<Rightarrow> base * 3
      | OpF64Store \<Rightarrow> base * 3
      | OpMemorySize \<Rightarrow> gc_memory_grow_cost c
      | OpMemoryGrow \<Rightarrow> gc_memory_grow_cost c)"

definition integer_op_cost :: "gas_config \<Rightarrow> u64 \<Rightarrow> integer_op \<Rightarrow> u64" where
  "integer_op_cost c base op =
     (case op of
        OpI32Add \<Rightarrow> base
      | OpI32Sub \<Rightarrow> base
      | OpI32Mul \<Rightarrow> base
      | OpI32DivS \<Rightarrow> base * gc_expensive_op_multiplier c
      | OpI32DivU \<Rightarrow> base * gc_expensive_op_multiplier c
      | OpI32RemS \<Rightarrow> base * gc_expensive_op_multiplier c
      | OpI32RemU \<Rightarrow> base * gc_expensive_op_multiplier c
      | OpI64Add \<Rightarrow> base
      | OpI64Sub \<Rightarrow> base
      | OpI64Mul \<Rightarrow> base
      | OpI64DivS \<Rightarrow> base * gc_expensive_op_multiplier c
      | OpI64DivU \<Rightarrow> base * gc_expensive_op_multiplier c
      | OpI64RemS \<Rightarrow> base * gc_expensive_op_multiplier c
      | OpI64RemU \<Rightarrow> base * gc_expensive_op_multiplier c)"

definition bitwise_op_cost :: "gas_config \<Rightarrow> u64 \<Rightarrow> bitwise_op \<Rightarrow> u64" where
  "bitwise_op_cost c base op = base"

definition shift_op_cost :: "gas_config \<Rightarrow> u64 \<Rightarrow> shift_op \<Rightarrow> u64" where
  "shift_op_cost c base op = base"

definition float_op_cost :: "gas_config \<Rightarrow> u64 \<Rightarrow> float_op \<Rightarrow> u64" where
  "float_op_cost c base op =
     (case op of
        OpF32Add \<Rightarrow> base * 3
      | OpF32Sub \<Rightarrow> base * 3
      | OpF32Mul \<Rightarrow> base * 3
      | OpF32Div \<Rightarrow> base * 3
      | OpF32Sqrt \<Rightarrow> base * 5
      | OpF64Add \<Rightarrow> base * 3
      | OpF64Sub \<Rightarrow> base * 3
      | OpF64Mul \<Rightarrow> base * 3
      | OpF64Div \<Rightarrow> base * 3
      | OpF64Sqrt \<Rightarrow> base * 5)"

definition comparison_op_cost :: "gas_config \<Rightarrow> u64 \<Rightarrow> comparison_op \<Rightarrow> u64" where
  "comparison_op_cost c base op = base"

definition conversion_op_cost :: "gas_config \<Rightarrow> u64 \<Rightarrow> conversion_op \<Rightarrow> u64" where
  "conversion_op_cost c base op =
     (case op of
        OpI32WrapI64 \<Rightarrow> base * 2
      | OpI64ExtendI32S \<Rightarrow> base * 2
      | OpI64ExtendI32U \<Rightarrow> base * 2
      | OpF32ConvertI32S \<Rightarrow> base * 3
      | OpF32ConvertI64S \<Rightarrow> base * 3
      | OpF64ConvertI32S \<Rightarrow> base * 3
      | OpF64ConvertI64S \<Rightarrow> base * 3)"

definition wasm_cost :: "gas_config \<Rightarrow> wasm_op \<Rightarrow> u64" where
  "wasm_cost c op =
     (let base = gc_wasm_instruction_cost c
      in case op of
         ControlOp x \<Rightarrow> control_op_cost c base x
       | ConstantOp x \<Rightarrow> constant_op_cost c base x
       | VariableOp x \<Rightarrow> variable_op_cost c base x
       | MemoryOp x \<Rightarrow> memory_op_cost c base x
       | IntegerOp x \<Rightarrow> integer_op_cost c base x
       | BitwiseOp x \<Rightarrow> bitwise_op_cost c base x
       | ShiftOp x \<Rightarrow> shift_op_cost c base x
       | FloatOp x \<Rightarrow> float_op_cost c base x
       | ComparisonOp x \<Rightarrow> comparison_op_cost c base x
       | ConversionOp x \<Rightarrow> conversion_op_cost c base x
       | OtherOp \<Rightarrow> base * 2)"

definition memory_cost :: "gas_config \<Rightarrow> u64 \<Rightarrow> u64" where
  "memory_cost c size_bytes = gc_memory_byte_cost c * size_bytes"

datatype host_call =
  HostLog | HostGetTime | HostRandom | HostStorageRead | HostStorageWrite | HostPrecompileCall | HostCryptoOp
  | HostNetworkOp | HostOther

primrec host_cost :: "gas_config \<Rightarrow> host_call \<Rightarrow> u64" where
  "host_cost c HostLog = gc_host_call_base c"
| "host_cost c HostGetTime = gc_host_call_base c"
| "host_cost c HostRandom = gc_host_call_base c * 2"
| "host_cost c HostStorageRead = gc_storage_read_cost c"
| "host_cost c HostStorageWrite = gc_storage_write_cost c"
| "host_cost c HostPrecompileCall = gc_precompile_call_base c"
| "host_cost c HostCryptoOp = gc_host_call_base c * gc_crypto_multiplier c"
| "host_cost c HostNetworkOp = gc_network_cost c"
| "host_cost c HostOther = gc_host_call_base c"

section \<open>The meter\<close>

record gas_meter =
  gm_used :: u64
  gm_limit :: u64
  gm_config :: gas_config

record gas_exhausted =
  ge_used :: u64
  ge_limit :: u64
  ge_attempted :: u64

definition gas_meter_new :: "u64 \<Rightarrow> gas_config \<Rightarrow> gas_meter" where
  "gas_meter_new limit config = \<lparr>gm_used = 0, gm_limit = limit, gm_config = config\<rparr>"

definition with_limit :: "u64 \<Rightarrow> gas_meter" where
  "with_limit limit = gas_meter_new limit gas_config_default"

definition unlimited_meter :: gas_meter where
  "unlimited_meter = gas_meter_new max_val gas_config_default"

text \<open>\<open>fetch_add\<close> and \<open>fetch_sub\<close> wrap around; the first returns the previous value.\<close>

definition consume_begin :: "gas_meter \<Rightarrow> u64 \<Rightarrow> gas_meter \<times> u64" where
  "consume_begin m amount = (m\<lparr>gm_used := gm_used m + amount\<rparr>, gm_used m)"

definition consume_end :: "gas_meter \<Rightarrow> u64 \<Rightarrow> u64 \<Rightarrow> gas_meter \<times> (gas_exhausted, unit) result" where
  "consume_end m amount current =
     (let exhausted = (m\<lparr>gm_used := gm_used m - amount\<rparr>,
                       Err \<lparr>ge_used = current, ge_limit = gm_limit m, ge_attempted = amount\<rparr>)
      in if unat current + unat amount \<ge> 2 ^ 64 then exhausted
         else if current + amount > gm_limit m then exhausted
         else (m, Ok ()))"

definition consume :: "gas_meter \<Rightarrow> u64 \<Rightarrow> gas_meter \<times> (gas_exhausted, unit) result" where
  "consume m amount = (let (m, current) = consume_begin m amount in consume_end m amount current)"

definition consume_wasm_op :: "gas_meter \<Rightarrow> wasm_op \<Rightarrow> gas_meter \<times> (gas_exhausted, unit) result" where
  "consume_wasm_op m op = consume m (wasm_cost (gm_config m) op)"

definition consume_memory :: "gas_meter \<Rightarrow> u64 \<Rightarrow> gas_meter \<times> (gas_exhausted, unit) result" where
  "consume_memory m size_bytes = consume m (memory_cost (gm_config m) size_bytes)"

definition consume_host_call :: "gas_meter \<Rightarrow> host_call \<Rightarrow> gas_meter \<times> (gas_exhausted, unit) result" where
  "consume_host_call m call = consume m (host_cost (gm_config m) call)"

definition gas_remaining :: "gas_meter \<Rightarrow> u64" where
  "gas_remaining m = saturating_sub (gm_limit m) (gm_used m)"

definition gas_is_exhausted :: "gas_meter \<Rightarrow> bool" where
  "gas_is_exhausted m = (gm_used m \<ge> gm_limit m)"

definition gas_reset :: "gas_meter \<Rightarrow> gas_meter" where
  "gas_reset m = m\<lparr>gm_used := 0\<rparr>"

definition show_gas_exhausted :: "gas_exhausted \<Rightarrow> string" where
  "show_gas_exhausted e =
     ''Gas exhausted: used '' @ show_word (ge_used e) @ '', limit '' @ show_word (ge_limit e)
     @ '', attempted '' @ show_word (ge_attempted e)"

section \<open>Memory\<close>

record memory_config =
  mg_initial_pages :: u32
  mg_max_pages :: u32
  mg_bounds_checking :: bool
  mg_zero_on_alloc :: bool
  mg_guard_pages :: bool
  mg_stack_size :: u64

definition memory_config_default :: memory_config where
  "memory_config_default =
     \<lparr>mg_initial_pages = 16, mg_max_pages = 256, mg_bounds_checking = True, mg_zero_on_alloc = True,
      mg_guard_pages = True, mg_stack_size = 1024 * 1024\<rparr>"

definition memory_config_production :: memory_config where
  "memory_config_production =
     \<lparr>mg_initial_pages = 16, mg_max_pages = 512, mg_bounds_checking = True, mg_zero_on_alloc = True,
      mg_guard_pages = True, mg_stack_size = 512 * 1024\<rparr>"

definition memory_config_ml_workload :: memory_config where
  "memory_config_ml_workload =
     \<lparr>mg_initial_pages = 256, mg_max_pages = 8192, mg_bounds_checking = True, mg_zero_on_alloc = False,
      mg_guard_pages = True, mg_stack_size = 2 * 1024 * 1024\<rparr>"

definition memory_config_testing :: memory_config where
  "memory_config_testing =
     \<lparr>mg_initial_pages = 1, mg_max_pages = 16, mg_bounds_checking = False, mg_zero_on_alloc = False,
      mg_guard_pages = False, mg_stack_size = 64 * 1024\<rparr>"

definition initial_bytes :: "memory_config \<Rightarrow> u64" where
  "initial_bytes c = ucast (mg_initial_pages c) * 65536"

definition max_bytes :: "memory_config \<Rightarrow> u64" where
  "max_bytes c = ucast (mg_max_pages c) * 65536"

definition memory_config_validate :: "memory_config \<Rightarrow> (string, unit) result" where
  "memory_config_validate c =
     (if mg_initial_pages c > mg_max_pages c then Err ''Initial pages cannot exceed max pages''
      else if mg_max_pages c > 65536 then Err ''Max pages cannot exceed 65536 (4GB)''
      else if mg_stack_size c = 0 then Err ''Stack size cannot be zero''
      else Ok ())"

record memory_limits =
  ml_max_instance_memory :: u64
  ml_max_total_memory :: u64
  ml_max_stack_depth :: u32
  ml_max_call_depth :: u32
  ml_max_table_elements :: u32
  ml_max_globals :: u32
  ml_max_functions :: u32

definition memory_limits_default :: memory_limits where
  "memory_limits_default =
     \<lparr>ml_max_instance_memory = 32 * 1024 * 1024, ml_max_total_memory = 512 * 1024 * 1024, ml_max_stack_depth = 10000,
      ml_max_call_depth = 1000, ml_max_table_elements = 10000, ml_max_globals = 1000, ml_max_functions = 10000\<rparr>"

definition memory_limits_production :: memory_limits where
  "memory_limits_production =
     \<lparr>ml_max_instance_memory = 64 * 1024 * 1024, ml_max_total_memory = 1024 * 1024 * 1024, ml_max_stack_depth = 50000,
      ml_max_call_depth = 500, ml_max_table_elements = 10000, ml_max_globals = 1000, ml_max_functions = 50000\<rparr>"

definition memory_limits_ml_workload :: memory_limits where
  "memory_limits_ml_workload =
     \<lparr>ml_max_instance_memory = 512 * 1024 * 1024, ml_max_total_memory = 2 * 1024 * 1024 * 1024,
      ml_max_stack_depth = 100000, ml_max_call_depth = 2000, ml_max_table_elements = 100000, ml_max_globals = 10000,
      ml_max_functions = 100000\<rparr>"

definition memory_limits_testing :: memory_limits where
  "memory_limits_testing =
     \<lparr>ml_max_instance_memory = 1024 * 1024, ml_max_total_memory = 10 * 1024 * 1024, ml_max_stack_depth = 1000,
      ml_max_call_depth = 100, ml_max_table_elements = 1000, ml_max_globals = 100, ml_max_functions = 1000\<rparr>"

record memory_region =
  mr_base :: u64
  mr_size :: u64
  mr_readable :: bool
  mr_writable :: bool
  mr_executable :: bool

definition region_contains :: "memory_region \<Rightarrow> u64 \<Rightarrow> u64 \<Rightarrow> bool" where
  "region_contains r address len = (address \<ge> mr_base r \<and> address + len \<le> mr_base r + mr_size r)"

end
