(* ===== verification/Gas_Properties.thy ===== *)
theory Gas_Properties
  imports Vm_Gas
begin

text \<open>
  The gas meter under concurrent use: interleavings of calls of \<open>consume\<close> as a step relation, what the
  counter accounts for, when the limit holds and how a wrap-around breaks it. The bounds check of memory
  regions.
\<close>

section \<open>One call at a time\<close>

lemma consume_exact:
  "consume m a = (if unat (gm_used m) + unat a \<le> unat (gm_limit m) then (m\<lparr>gm_used := gm_used m + a\<rparr>, Ok ())
                  else (m, Err \<lparr>ge_used = gm_used m, ge_limit = gm_limit m, ge_attempted = a\<rparr>))"
proof (cases "unat (gm_used m) + unat a < 2 ^ 64")
  case True
  then show ?thesis
    by (simp add: consume_def consume_begin_def consume_end_def word_less_nat_alt unat_add_exact not_less)
next
  case False
  moreover have "unat (gm_limit m) < 2 ^ 64" by (rule unat_bound64)
  ultimately have "\<not> unat (gm_used m) + unat a \<le> unat (gm_limit m)" by linarith
  then show ?thesis using False by (simp add: consume_def consume_begin_def consume_end_def)
qed

section \<open>Interleaved calls\<close>

text \<open>A call before its \<open>fetch_add\<close>, between it and its end with the value it read, and after it.\<close>

datatype gas_call = Start u64 | Added u64 u64 | Done u64 "(gas_exhausted, unit) result"

inductive gas_step :: "gas_meter \<times> gas_call list \<Rightarrow> gas_meter \<times> gas_call list \<Rightarrow> bool" where
  add: "i < length cs \<Longrightarrow> cs ! i = Start a \<Longrightarrow> consume_begin m a = (m', c) \<Longrightarrow> gas_step (m, cs) (m', cs[i := Added a c])"
| finish: "i < length cs \<Longrightarrow> cs ! i = Added a c \<Longrightarrow> consume_end m a c = (m', r) \<Longrightarrow> gas_step (m, cs) (m', cs[i := Done a r])"

abbreviation gas_steps :: "gas_meter \<times> gas_call list \<Rightarrow> gas_meter \<times> gas_call list \<Rightarrow> bool" where
  "gas_steps \<equiv> gas_step\<^sup>*\<^sup>*"

text \<open>What a call holds in the counter, what it will hold for good, and what it asked for.\<close>

fun held :: "gas_call \<Rightarrow> u64" where
  "held (Start a) = 0"
| "held (Added a c) = a"
| "held (Done a (Ok _)) = a"
| "held (Done a (Err _)) = 0"

fun kept :: "u64 \<Rightarrow> gas_call \<Rightarrow> nat" where
  "kept limit (Start a) = 0"
| "kept limit (Added a c) = (if unat c + unat a \<le> unat limit then unat a else 0)"
| "kept limit (Done a (Ok _)) = unat a"
| "kept limit (Done a (Err _)) = 0"

fun demand :: "gas_call \<Rightarrow> nat" where
  "demand (Start a) = unat a"
| "demand (Added a c) = unat a"
| "demand (Done a r) = unat a"

definition granted_gas :: "gas_call list \<Rightarrow> nat" where
  "granted_gas cs = sum_list (map (\<lambda>c. case c of Done a (Ok _) \<Rightarrow> unat a | _ \<Rightarrow> 0) cs)"

lemma sum_list_upd:
  fixes f :: "'a \<Rightarrow> 'b::comm_monoid_add"
  shows "i < length cs \<Longrightarrow> sum_list (map f (cs[i := x])) + f (cs ! i) = sum_list (map f cs) + f x"
  by (induction cs arbitrary: i) (auto simp: add_ac split: nat.split)

lemma consume_end_cases:
  "consume_end m a c = (if unat c + unat a \<le> unat (gm_limit m) then (m, Ok ())
     else (m\<lparr>gm_used := gm_used m - a\<rparr>, Err \<lparr>ge_used = c, ge_limit = gm_limit m, ge_attempted = a\<rparr>))"
proof (cases "unat c + unat a < 2 ^ 64")
  case True
  then show ?thesis by (simp add: consume_end_def word_less_nat_alt unat_add_exact not_less)
next
  case False
  moreover have "unat (gm_limit m) < 2 ^ 64" by (rule unat_bound64)
  ultimately have "\<not> unat c + unat a \<le> unat (gm_limit m)" by linarith
  then show ?thesis using False by (simp add: consume_end_def)
qed

subsection \<open>The counter\<close>

definition gas_account :: "gas_meter \<Rightarrow> gas_meter \<times> gas_call list \<Rightarrow> bool" where
  "gas_account m0 = (\<lambda>(m, cs). gm_limit m = gm_limit m0 \<and> gm_used m = gm_used m0 + sum_list (map held cs))"

lemma account_step:
  assumes "gas_step s s'" and "gas_account m0 s"
  shows "gas_account m0 s'"
  using assms
proof (induction rule: gas_step.induct)
  case (add i cs a m m' c)
  then show ?case using sum_list_upd [of i cs held "Added a c"] by (auto simp: gas_account_def consume_begin_def add_ac)
next
  case (finish i cs a c m m' r)
  have "sum_list (map held (cs[i := Done a r])) = sum_list (map held cs) + held (Done a r) - a"
    using sum_list_upd [OF finish(1), of held "Done a r"] finish(2) by (simp add: algebra_simps)
  then show ?case using finish(3,4) by (auto simp: gas_account_def consume_end_cases split: if_splits)
qed

text \<open>When no sum of demands wraps around, what is kept never exceeds the limit.\<close>

definition gas_safe :: "gas_meter \<Rightarrow> nat \<Rightarrow> gas_meter \<times> gas_call list \<Rightarrow> bool" where
  "gas_safe m0 d = (\<lambda>(m, cs). gas_account m0 (m, cs) \<and> sum_list (map demand cs) = d
     \<and> unat (gm_used m0) + sum_list (map (kept (gm_limit m0)) cs) \<le> unat (gm_limit m0))"

lemma sum_held_exact:
  assumes "unat u + sum_list (map demand cs) < 2 ^ 64"
  shows "unat (u + sum_list (map held cs)) = unat u + sum_list (map (unat \<circ> held) cs)"
  using assms
proof (induction cs arbitrary: u)
  case (Cons c cs)
  have h: "unat (held c) \<le> demand c" by (cases c rule: held.cases) auto
  then have "unat (u + held c) = unat u + unat (held c)" using Cons.prems by (intro unat_add_exact) simp
  then show ?case using Cons.IH [of "u + held c"] Cons.prems h by (simp add: add.assoc)
qed simp

lemma kept_le_held: "sum_list (map (kept l) cs) \<le> sum_list (map (unat \<circ> held) cs)"
proof (intro sum_list_mono)
  show "kept l c \<le> (unat \<circ> held) c" for c by (cases c rule: held.cases) auto
qed

lemma safe_step:
  assumes "gas_step s s'" and "gas_safe m0 d s" and "unat (gm_used m0) + d < 2 ^ 64"
  shows "gas_safe m0 d s'"
  using assms account_step [OF assms(1), of m0]
proof (induction rule: gas_step.induct)
  case (add i cs a m m' c)
  have c: "c = gm_used m" using add(3) by (simp add: consume_begin_def)
  have "unat c = unat (gm_used m0) + sum_list (map (unat \<circ> held) cs)"
    using add(4,5) sum_held_exact [of "gm_used m0" cs] c by (simp add: gas_safe_def gas_account_def)
  then have "unat (gm_used m0) + sum_list (map (kept (gm_limit m0)) cs) \<le> unat c" using kept_le_held [of "gm_limit m0" cs] by simp
  then show ?case
    using add sum_list_upd [OF add(1), of "kept (gm_limit m0)" "Added a c"] sum_list_upd [OF add(1), of demand "Added a c"]
    by (simp add: gas_safe_def split: if_splits)
next
  case (finish i cs a c m m' r)
  have "kept (gm_limit m0) (Done a r) = kept (gm_limit m0) (Added a c)"
    using finish(3,4) by (auto simp: consume_end_cases gas_safe_def gas_account_def split: if_splits)
  then show ?case
    using finish sum_list_upd [OF finish(1), of "kept (gm_limit m0)" "Done a r"] sum_list_upd [OF finish(1), of demand "Done a r"]
    by (simp add: gas_safe_def)
qed

lemma start_sums:
  "sum_list (map held (map Start as)) = 0" "sum_list (map (kept l) (map Start as)) = 0"
  "sum_list (map demand (map Start as)) = sum_list (map unat as)"
  by (induction as) simp_all

lemma granted_le_kept: "granted_gas cs \<le> sum_list (map (kept l) cs)"
  unfolding granted_gas_def
proof (intro sum_list_mono)
  show "(case c of Done a (Ok _) \<Rightarrow> unat a | _ \<Rightarrow> 0) \<le> kept l c" for c by (cases c rule: held.cases) auto
qed

subsection \<open>Progress\<close>

definition finished :: "gas_call \<Rightarrow> bool" where
  "finished c = (case c of Done _ _ \<Rightarrow> True | _ \<Rightarrow> False)"

lemma gas_progress:
  assumes "\<not> list_all finished cs"
  shows "\<exists>s'. gas_step (m, cs) s'"
proof -
  obtain i where i: "i < length cs" "\<not> finished (cs ! i)" using assms by (auto simp: list_all_length)
  show ?thesis
  proof (cases "cs ! i")
    case (Start a)
    then show ?thesis using gas_step.add [OF i(1) Start] by (metis surj_pair)
  next
    case (Added a c)
    then show ?thesis using gas_step.finish [OF i(1) Added] by (metis surj_pair)
  qed (use i in \<open>simp add: finished_def\<close>)
qed

lemma held_finished: "list_all finished cs \<Longrightarrow> sum_list (map held cs) = of_nat (granted_gas cs)"
proof (induction cs)
  case (Cons c cs)
  then show ?case by (cases c rule: held.cases) (simp_all add: finished_def granted_gas_def)
qed (simp add: granted_gas_def)

text \<open>
  C33. The gas meter under concurrent calls. For every interleaving of calls of \<open>consume\<close> that start
  together, the limit is fixed and the counter is the initial value plus the amounts of the calls that
  have added theirs and not taken them back (in 64-bit arithmetic); an interleaving that cannot go on has
  finished every call, and then the counter is the initial value plus what was granted. If the initial
  value is within the limit and the amounts of all calls add up without wrapping around 64 bits, the
  granted amounts never take the meter past its limit.
\<close>
theorem gas_limit_holds:
  assumes "gas_steps (m, map Start as) (m', cs)"
  shows "gm_limit m' = gm_limit m \<and> gm_used m' = gm_used m + sum_list (map held cs)
    \<and> ((\<nexists>s. gas_step (m', cs) s) \<longrightarrow> list_all finished cs \<and> gm_used m' = gm_used m + of_nat (granted_gas cs))
    \<and> (gm_used m \<le> gm_limit m \<and> unat (gm_used m) + sum_list (map unat as) < 2 ^ 64
         \<longrightarrow> unat (gm_used m) + granted_gas cs \<le> unat (gm_limit m))"
proof -
  have "gas_account m (m, map Start as)" by (simp add: gas_account_def start_sums del: map_map)
  with assms have acc: "gas_account m (m', cs)" by (induction rule: rtranclp_induct) (blast intro: account_step)+
  have "unat (gm_used m) + granted_gas cs \<le> unat (gm_limit m)"
    if ok: "gm_used m \<le> gm_limit m" "unat (gm_used m) + sum_list (map unat as) < 2 ^ 64"
  proof -
    have "gas_safe m (sum_list (map unat as)) (m', cs)" using assms
    proof (induction rule: rtranclp_induct)
      case base
      then show ?case using ok(1) by (simp add: gas_safe_def gas_account_def start_sums del: map_map) (simp add: word_le_nat_alt)
    next
      case (step y z)
      then show ?case using safe_step ok(2) by blast
    qed
    then show ?thesis using granted_le_kept [of cs "gm_limit m"] by (simp add: gas_safe_def)
  qed
  moreover have "list_all finished cs" if "\<nexists>s. gas_step (m', cs) s" using gas_progress that by blast
  ultimately show ?thesis using acc held_finished [of cs] by (auto simp: gas_account_def)
qed

definition demo_meter :: gas_meter where
  "demo_meter = \<lparr>gm_used = 100, gm_limit = 1000, gm_config = gas_config_default\<rparr>"

theorem gas_limit_holds_witness:
  "\<exists>m cs. gas_steps (demo_meter, map Start [300, 700]) (m, cs) \<and> granted_gas cs \<le> 900"
proof -
  let ?run = "\<lambda>m cs. gas_steps (demo_meter, map Start [300, 700]) (m, cs)"
  obtain m c where one: "consume_begin demo_meter 300 = (m, c)" by fastforce
  then have "?run m ((map Start [300, 700])[0 := Added 300 c])" by (intro r_into_rtranclp gas_step.add [where i = 0]) simp_all
  from this gas_limit_holds [OF this] show ?thesis by (auto simp: demo_meter_def)
qed

text \<open>
  A failing call can lift the limit for another one. With a limit of 1000 and 100 used, a call for
  \<open>2\<^sup>6\<^sup>4 - 50\<close> wraps the counter around before it takes its amount back; a call for 950 that runs in between
  sees 50 used and is granted, although 900 were left.
\<close>
theorem gas_limit_race:
  "\<exists>m cs. gas_steps (demo_meter, map Start [- 50, 950]) (m, cs) \<and> list_all finished cs
     \<and> unat (gm_limit m) < unat (gm_used demo_meter) + granted_gas cs \<and> gm_used m = 1050"
proof -
  let ?m = "\<lambda>u. \<lparr>gm_used = u, gm_limit = 1000, gm_config = gas_config_default\<rparr>"
  let ?err = "Err \<lparr>ge_used = 100, ge_limit = 1000, ge_attempted = - 50\<rparr>"
  have "gas_step (demo_meter, [Start (- 50), Start 950]) (?m 50, [Start (- 50), Start 950][0 := Added (- 50) 100])"
    by (rule gas_step.add) (simp_all add: consume_begin_def demo_meter_def)
  moreover have "gas_step (?m 50, [Added (- 50) 100, Start 950]) (?m 1000, [Added (- 50) 100, Start 950][1 := Added 950 50])"
    by (rule gas_step.add) (simp_all add: consume_begin_def)
  moreover have "gas_step (?m 1000, [Added (- 50) 100, Added 950 50]) (?m 1000, [Added (- 50) 100, Added 950 50][1 := Done 950 (Ok ())])"
    by (rule gas_step.finish [where a = 950 and c = 50]) (simp_all add: consume_end_def Let_def word_less_nat_alt)
  moreover have "gas_step (?m 1000, [Added (- 50) 100, Done 950 (Ok ())]) (?m 1050, [Added (- 50) 100, Done 950 (Ok ())][0 := Done (- 50) ?err])"
    by (rule gas_step.finish [where a = "- 50" and c = 100]) (simp_all add: consume_end_def Let_def)
  ultimately have "gas_steps (demo_meter, map Start [- 50, 950]) (?m 1050, [Done (- 50) ?err, Done 950 (Ok ())])"
    by (simp add: converse_rtranclp_into_rtranclp)
  then show ?thesis
    by (intro exI conjI) (assumption, simp_all add: finished_def granted_gas_def demo_meter_def)
qed

section \<open>Memory regions\<close>

text \<open>
  The bounds check of memory regions. Where neither the end of the access nor the end of the region
  wraps around 64 bits, \<open>contains\<close> holds exactly when the access lies inside the region. The end of the
  access is not checked for overflow: for every region inside the address space, an access that starts in
  the region and has a length close to \<open>2\<^sup>6\<^sup>4\<close> passes.
\<close>
theorem region_contains_exact:
  assumes "unat (mr_base r) + unat (mr_size r) < 2 ^ 64"
  shows "(unat address + unat len < 2 ^ 64 \<longrightarrow>
       (region_contains r address len \<longleftrightarrow>
          unat (mr_base r) \<le> unat address \<and> unat address + unat len \<le> unat (mr_base r) + unat (mr_size r)))
    \<and> (mr_base r \<le> address \<and> 0 < address \<longrightarrow> region_contains r address (- address))"
proof (intro conjI impI)
  have end_exact: "unat (mr_base r + mr_size r) = unat (mr_base r) + unat (mr_size r)"
    using assms by (intro unat_add_exact) simp
  show "region_contains r address len \<longleftrightarrow>
      unat (mr_base r) \<le> unat address \<and> unat address + unat len \<le> unat (mr_base r) + unat (mr_size r)"
    if "unat address + unat len < 2 ^ 64"
    using that end_exact by (simp add: region_contains_def word_le_nat_alt unat_add_exact)
  show "region_contains r address (- address)" if "mr_base r \<le> address \<and> 0 < address"
    using that by (simp add: region_contains_def)
qed

theorem region_contains_exact_witness:
  "region_contains \<lparr>mr_base = 4096, mr_size = 4096, mr_readable = True, mr_writable = True, mr_executable = False\<rparr> 6000 (- 6000)"
  using region_contains_exact [of "\<lparr>mr_base = 4096, mr_size = 4096, mr_readable = True, mr_writable = True, mr_executable = False\<rparr>" 6000 0]
  by simp

end
