(* ===== verification/Core_Job.thy ===== *)
theory Core_Job
  imports Core_Address
begin

text \<open>
  \<open>src/crates/core/src/types/job.rs\<close> and \<open>seal.rs\<close>: compute jobs with their results and majority, and
  digital seals with their builder. \<open>JobId\<close> and \<open>SealId\<close> are their hashes. The system clock is an
  argument, in nanoseconds since the epoch for a job and in milliseconds for a seal; the iteration order
  of a hash map is the argument \<open>order\<close>, which permutes the entries.
\<close>

section \<open>Jobs\<close>

datatype core_job_status =
  JobPending | JobAssigned | JobComputing | JobVerifying | JobSealing | JobCompleted | JobFailed | JobCancelled

primrec core_job_status_as_u8 :: "core_job_status \<Rightarrow> u8" where
  "core_job_status_as_u8 JobPending = 0"
| "core_job_status_as_u8 JobAssigned = 1"
| "core_job_status_as_u8 JobComputing = 2"
| "core_job_status_as_u8 JobVerifying = 3"
| "core_job_status_as_u8 JobSealing = 4"
| "core_job_status_as_u8 JobCompleted = 5"
| "core_job_status_as_u8 JobFailed = 6"
| "core_job_status_as_u8 JobCancelled = 7"

definition job_status_is_terminal :: "core_job_status \<Rightarrow> bool" where
  "job_status_is_terminal s = (s = JobCompleted \<or> s = JobFailed \<or> s = JobCancelled)"

definition job_status_is_active :: "core_job_status \<Rightarrow> bool" where
  "job_status_is_active s =
     (s = JobPending \<or> s = JobAssigned \<or> s = JobComputing \<or> s = JobVerifying \<or> s = JobSealing)"

datatype storage_type = Ipfs | S3 | OnChain | Arweave | Filecoin

record data_reference =
  dr_storage_type :: storage_type
  dr_uri :: string
  dr_hash :: hash256
  dr_size :: u64
  dr_encryption_key_hash :: "hash256 option"

datatype verification_requirement = ReqTeeOnly | ReqZkmlOnly | ReqHybrid | ReqMpc

definition requires_zkml :: "verification_requirement \<Rightarrow> bool" where
  "requires_zkml r = (r = ReqZkmlOnly \<or> r = ReqHybrid)"

definition requires_tee :: "verification_requirement \<Rightarrow> bool" where
  "requires_tee r = (r = ReqTeeOnly \<or> r = ReqHybrid)"

datatype tee_platform_requirement = AnyPlatform | ReqAwsNitro | ReqIntelSgx | ReqAmdSev

record hardware_requirements =
  hr_min_memory_mb :: u64
  hr_min_compute_units :: u64
  hr_tee_platform :: "tee_platform_requirement option"
  hr_gpu_required :: bool
  hr_gpu_min_memory_mb :: "u64 option"
  hr_fpga_required :: bool

definition hardware_requirements_default :: hardware_requirements where
  "hardware_requirements_default =
     \<lparr>hr_min_memory_mb = 1024, hr_min_compute_units = 1, hr_tee_platform = Some AnyPlatform, hr_gpu_required = False,
      hr_gpu_min_memory_mb = None, hr_fpga_required = False\<rparr>"

datatype tee_platform_result = ResAwsNitro | ResIntelSgx | ResAmdSev

record tee_attestation_result =
  ta_platform :: tee_platform_result
  ta_attestation_doc :: bytes
  ta_enclave_hash :: hash256
  ta_pcr_values :: "hash256 list"

datatype job_proof_system = SysGroth16 | SysPlonk | SysHalo2 | SysEzkl

record zkml_proof_result =
  zp_proof :: bytes
  zp_public_inputs :: bytes
  zp_circuit_id :: hash256
  zp_proof_system :: job_proof_system

record job_result =
  jr_job_id :: hash256
  jr_validator :: core_address
  jr_output_hash :: hash256
  jr_output :: "bytes option"
  jr_tee_attestation :: "tee_attestation_result option"
  jr_zkml_proof :: "zkml_proof_result option"
  jr_execution_time_ms :: u64
  jr_timestamp :: u64
  jr_signature :: bytes

definition verify_integrity :: "crypto_lib \<Rightarrow> job_result \<Rightarrow> bool" where
  "verify_integrity C r = (case jr_output r of Some out \<Rightarrow> cl_sha256 C out = jr_output_hash r | None \<Rightarrow> True)"

record core_job =
  cj_id :: hash256
  cj_version :: u8
  cj_job_model_hash :: hash256
  cj_job_input_hash :: hash256
  cj_model_id :: "string option"
  cj_input_ref :: "data_reference option"
  cj_model_ref :: "data_reference option"
  cj_verification :: verification_requirement
  cj_min_attestations :: u32
  cj_hardware :: hardware_requirements
  cj_max_latency_ms :: u64
  cj_priority :: u8
  cj_expiry :: u64
  cj_frameworks :: "string list"
  cj_residency :: "string option"
  cj_audit_required :: bool
  cj_requester :: core_address
  cj_job_max_fee :: u128
  cj_submitted_at :: u64
  cj_status :: core_job_status
  cj_assigned_validators :: "core_address list"
  cj_results :: "job_result list"

definition core_job_new :: "crypto_lib \<Rightarrow> nat \<Rightarrow> hash256 \<Rightarrow> hash256 \<Rightarrow> core_address \<Rightarrow> core_job" where
  "core_job_new C nanos model_hash input_hash requester =
     (let timestamp = of_nat (nanos div 1000000000) :: u64
      in \<lparr>cj_id = cl_sha256 C (model_hash @ input_hash @ address_serialize requester @ le_bytes 16 (of_nat nanos :: u128)),
          cj_version = 1, cj_job_model_hash = model_hash, cj_job_input_hash = input_hash, cj_model_id = None,
          cj_input_ref = None, cj_model_ref = None, cj_verification = ReqHybrid, cj_min_attestations = 2,
          cj_hardware = hardware_requirements_default, cj_max_latency_ms = 30000, cj_priority = 5,
          cj_expiry = timestamp + 3600, cj_frameworks = [], cj_residency = None, cj_audit_required = False,
          cj_requester = requester, cj_job_max_fee = 0, cj_submitted_at = timestamp, cj_status = JobPending,
          cj_assigned_validators = [], cj_results = []\<rparr>)"

definition job_with_verification :: "core_job \<Rightarrow> verification_requirement \<Rightarrow> core_job" where
  "job_with_verification j m = j\<lparr>cj_verification := m\<rparr>"

definition job_with_min_attestations :: "core_job \<Rightarrow> u32 \<Rightarrow> core_job" where
  "job_with_min_attestations j n = j\<lparr>cj_min_attestations := n\<rparr>"

definition job_with_hardware :: "core_job \<Rightarrow> hardware_requirements \<Rightarrow> core_job" where
  "job_with_hardware j h = j\<lparr>cj_hardware := h\<rparr>"

definition job_with_max_latency :: "core_job \<Rightarrow> u64 \<Rightarrow> core_job" where
  "job_with_max_latency j ms = j\<lparr>cj_max_latency_ms := ms\<rparr>"

definition job_with_priority :: "core_job \<Rightarrow> u8 \<Rightarrow> core_job" where
  "job_with_priority j p = j\<lparr>cj_priority := p\<rparr>"

definition job_with_max_fee :: "core_job \<Rightarrow> u128 \<Rightarrow> core_job" where
  "job_with_max_fee j f = j\<lparr>cj_job_max_fee := f\<rparr>"

definition job_with_compliance :: "core_job \<Rightarrow> string \<Rightarrow> core_job" where
  "job_with_compliance j f = j\<lparr>cj_frameworks := cj_frameworks j @ [f]\<rparr>"

definition job_with_data_residency :: "core_job \<Rightarrow> string \<Rightarrow> core_job" where
  "job_with_data_residency j r = j\<lparr>cj_residency := Some r\<rparr>"

definition core_job_is_expired :: "u64 \<Rightarrow> core_job \<Rightarrow> bool" where
  "core_job_is_expired now j = (now > cj_expiry j)"

definition job_has_consensus :: "core_job \<Rightarrow> bool" where
  "job_has_consensus j = (length (cj_results j) \<ge> unat (cj_min_attestations j))"

definition count_outputs :: "job_result list \<Rightarrow> (hash256, nat) hashmap" where
  "count_outputs rs = foldl (\<lambda>m r. hm_insert (jr_output_hash r) (hm_entry 0 m (jr_output_hash r) + 1) m) [] rs"

definition majority_threshold :: "core_job \<Rightarrow> nat" where
  "majority_threshold j = (unat (cj_min_attestations j) + 1) div 2"

definition majority_result ::
    "((hash256 \<times> nat) list \<Rightarrow> (hash256 \<times> nat) list) \<Rightarrow> core_job \<Rightarrow> job_result option" where
  "majority_result order j =
     (if cj_results j = [] then None
      else case find (\<lambda>(_, count). count \<ge> majority_threshold j) (order (count_outputs (cj_results j))) of
        None \<Rightarrow> None
      | Some (h, _) \<Rightarrow> find (\<lambda>r. jr_output_hash r = h) (cj_results j))"

definition job_assign_validator :: "core_job \<Rightarrow> core_address \<Rightarrow> core_job" where
  "job_assign_validator j validator =
     (if \<not> List.member (cj_assigned_validators j) validator
      then let j = j\<lparr>cj_assigned_validators := cj_assigned_validators j @ [validator]\<rparr>
           in if cj_status j = JobPending then j\<lparr>cj_status := JobAssigned\<rparr> else j
      else j)"

definition job_add_result :: "core_job \<Rightarrow> job_result \<Rightarrow> core_job" where
  "job_add_result j result =
     (if \<not> list_ex (\<lambda>r. jr_validator r = jr_validator result) (cj_results j)
      then let j = j\<lparr>cj_results := cj_results j @ [result]\<rparr>
           in if cj_status j = JobAssigned \<or> cj_status j = JobComputing then j\<lparr>cj_status := JobVerifying\<rparr> else j
      else j)"

definition core_job_to_bytes :: "core_job \<Rightarrow> bytes" where
  "core_job_to_bytes j =
     [cj_version j] @ cj_id j @ cj_job_model_hash j @ cj_job_input_hash j @ address_serialize (cj_requester j)
     @ le_bytes 8 (cj_submitted_at j) @ [core_job_status_as_u8 (cj_status j)]"

datatype ordering = OrdLess | OrdEqual | OrdGreater

definition word_cmp :: "'a::len word \<Rightarrow> 'a word \<Rightarrow> ordering" where
  "word_cmp a b = (if a < b then OrdLess else if a = b then OrdEqual else OrdGreater)"

definition core_job_cmp :: "core_job \<Rightarrow> core_job \<Rightarrow> ordering" where
  "core_job_cmp j k =
     (case word_cmp (cj_priority k) (cj_priority j) of
        OrdEqual \<Rightarrow> word_cmp (cj_submitted_at j) (cj_submitted_at k)
      | c \<Rightarrow> c)"

definition core_job_eq :: "core_job \<Rightarrow> core_job \<Rightarrow> bool" where
  "core_job_eq j k = (cj_id j = cj_id k)"

section \<open>Seals\<close>

datatype seal_status = SealPending | SealFinalized | SealInvalidated | SealExpired

primrec seal_status_as_u8 :: "seal_status \<Rightarrow> u8" where
  "seal_status_as_u8 SealPending = 0"
| "seal_status_as_u8 SealFinalized = 1"
| "seal_status_as_u8 SealInvalidated = 2"
| "seal_status_as_u8 SealExpired = 3"

primrec show_seal_status :: "seal_status \<Rightarrow> string" where
  "show_seal_status SealPending = ''Pending''"
| "show_seal_status SealFinalized = ''Finalized''"
| "show_seal_status SealInvalidated = ''Invalidated''"
| "show_seal_status SealExpired = ''Expired''"

datatype seal_platform = SealAwsNitro | SealIntelSgx | SealAmdSev | SealArmTrustzone

definition seal_platform_from_byte :: "u8 \<Rightarrow> seal_platform option" where
  "seal_platform_from_byte b =
     (if b = 0x01 then Some SealAwsNitro else if b = 0x02 then Some SealIntelSgx
      else if b = 0x03 then Some SealAmdSev else if b = 0x04 then Some SealArmTrustzone else None)"

primrec seal_platform_name :: "seal_platform \<Rightarrow> string" where
  "seal_platform_name SealAwsNitro = ''AWS Nitro Enclaves''"
| "seal_platform_name SealIntelSgx = ''Intel SGX''"
| "seal_platform_name SealAmdSev = ''AMD SEV-SNP''"
| "seal_platform_name SealArmTrustzone = ''ARM TrustZone''"

record tee_measurements =
  tm_platform :: seal_platform
  tm_enclave_hash :: hash256
  tm_pcr_values :: "hash256 list option"
  tm_signer_id :: "hash256 option"

record seal_attestation =
  sa_validator :: core_address
  sa_platform :: seal_platform
  sa_attestation_doc :: bytes
  sa_measurements :: tee_measurements
  sa_signature :: bytes
  sa_timestamp :: u64

datatype seal_evidence =
    EvTeeOnly "seal_attestation list"
  | EvZkmlOnly bytes hash256 bytes
  | EvHybrid "seal_attestation list" bytes hash256 u32

primrec method_name :: "seal_evidence \<Rightarrow> string" where
  "method_name (EvTeeOnly _) = ''TEE-only''"
| "method_name (EvZkmlOnly _ _ _) = ''zkML-only''"
| "method_name (EvHybrid _ _ _ _) = ''Hybrid (TEE + zkML)''"

record digital_seal =
  se_id :: hash256
  se_version :: u8
  se_job_id :: hash256
  se_model_commitment :: hash256
  se_input_commitment :: hash256
  se_output_commitment :: hash256
  se_evidence :: seal_evidence
  se_block_height :: u64
  se_timestamp :: u64
  se_requester :: core_address
  se_validators :: "core_address list"
  se_purpose :: string
  se_compliance_frameworks :: "string list"
  se_data_residency :: "string option"
  se_status :: seal_status

definition seal_compute_id :: "crypto_lib \<Rightarrow> digital_seal \<Rightarrow> hash256" where
  "seal_compute_id C s =
     cl_sha256 C (se_job_id s @ se_model_commitment s @ se_input_commitment s @ se_output_commitment s
                  @ le_bytes 8 (se_timestamp s))"

definition seal_verify_id :: "crypto_lib \<Rightarrow> digital_seal \<Rightarrow> bool" where
  "seal_verify_id C s = (se_id s = seal_compute_id C s)"

definition seal_is_finalized :: "digital_seal \<Rightarrow> bool" where
  "seal_is_finalized s = (se_status s = SealFinalized)"

definition has_valid_evidence :: "digital_seal \<Rightarrow> bool" where
  "has_valid_evidence s =
     (case se_evidence s of
        EvTeeOnly attestations \<Rightarrow> attestations \<noteq> []
      | EvZkmlOnly prf _ _ \<Rightarrow> prf \<noteq> []
      | EvHybrid attestations zkml _ _ \<Rightarrow> attestations \<noteq> [] \<and> zkml \<noteq> [])"

definition seal_min_attestations :: "digital_seal \<Rightarrow> nat" where
  "seal_min_attestations s =
     (case se_evidence s of
        EvTeeOnly attestations \<Rightarrow> min (length attestations) 2
      | EvZkmlOnly _ _ _ \<Rightarrow> 0
      | EvHybrid _ _ _ min_attestations \<Rightarrow> unat min_attestations)"

definition seal_to_bytes :: "digital_seal \<Rightarrow> bytes" where
  "seal_to_bytes s =
     [se_version s] @ se_id s @ se_job_id s @ se_model_commitment s @ se_input_commitment s @ se_output_commitment s
     @ le_bytes 8 (se_block_height s) @ le_bytes 8 (se_timestamp s) @ address_serialize (se_requester s)
     @ [seal_status_as_u8 (se_status s)]"

record seal_audit_report =
  ar_seal_id :: hash256
  ar_job_id :: hash256
  ar_model_hash :: string
  ar_input_hash :: string
  ar_output_hash :: string
  ar_verification_method :: string
  ar_validator_count :: nat
  ar_validators :: "string list"
  ar_block_height :: u64
  ar_timestamp :: u64
  ar_purpose :: string
  ar_compliance_frameworks :: "string list"
  ar_data_residency :: "string option"
  ar_status :: string

definition audit_report :: "digital_seal \<Rightarrow> seal_audit_report" where
  "audit_report s =
     \<lparr>ar_seal_id = se_id s, ar_job_id = se_job_id s, ar_model_hash = hex_encode (se_model_commitment s),
      ar_input_hash = hex_encode (se_input_commitment s), ar_output_hash = hex_encode (se_output_commitment s),
      ar_verification_method = method_name (se_evidence s), ar_validator_count = length (se_validators s),
      ar_validators = map to_bech32 (se_validators s), ar_block_height = se_block_height s, ar_timestamp = se_timestamp s,
      ar_purpose = se_purpose s, ar_compliance_frameworks = se_compliance_frameworks s,
      ar_data_residency = se_data_residency s, ar_status = show_seal_status (se_status s)\<rparr>"

record seal_builder =
  sb_job_id :: hash256
  sb_model_commitment :: hash256
  sb_input_commitment :: hash256
  sb_output_commitment :: hash256
  sb_evidence :: "seal_evidence option"
  sb_requester :: core_address
  sb_validators :: "core_address list"
  sb_purpose :: string
  sb_compliance_frameworks :: "string list"
  sb_data_residency :: "string option"

definition seal_builder_new :: "hash256 \<Rightarrow> seal_builder" where
  "seal_builder_new job_id =
     \<lparr>sb_job_id = job_id, sb_model_commitment = hash256_zero, sb_input_commitment = hash256_zero,
      sb_output_commitment = hash256_zero, sb_evidence = None, sb_requester = address_zero, sb_validators = [],
      sb_purpose = [], sb_compliance_frameworks = [], sb_data_residency = None\<rparr>"

definition model_commitment :: "seal_builder \<Rightarrow> hash256 \<Rightarrow> seal_builder" where
  "model_commitment b h = b\<lparr>sb_model_commitment := h\<rparr>"

definition input_commitment :: "seal_builder \<Rightarrow> hash256 \<Rightarrow> seal_builder" where
  "input_commitment b h = b\<lparr>sb_input_commitment := h\<rparr>"

definition output_commitment :: "seal_builder \<Rightarrow> hash256 \<Rightarrow> seal_builder" where
  "output_commitment b h = b\<lparr>sb_output_commitment := h\<rparr>"

definition with_evidence :: "seal_builder \<Rightarrow> seal_evidence \<Rightarrow> seal_builder" where
  "with_evidence b e = b\<lparr>sb_evidence := Some e\<rparr>"

definition with_requester :: "seal_builder \<Rightarrow> core_address \<Rightarrow> seal_builder" where
  "with_requester b a = b\<lparr>sb_requester := a\<rparr>"

definition seal_add_validator :: "seal_builder \<Rightarrow> core_address \<Rightarrow> seal_builder" where
  "seal_add_validator b a = b\<lparr>sb_validators := sb_validators b @ [a]\<rparr>"

definition with_purpose :: "seal_builder \<Rightarrow> string \<Rightarrow> seal_builder" where
  "with_purpose b p = b\<lparr>sb_purpose := p\<rparr>"

definition add_compliance :: "seal_builder \<Rightarrow> string \<Rightarrow> seal_builder" where
  "add_compliance b f = b\<lparr>sb_compliance_frameworks := sb_compliance_frameworks b @ [f]\<rparr>"

definition with_data_residency :: "seal_builder \<Rightarrow> string \<Rightarrow> seal_builder" where
  "with_data_residency b r = b\<lparr>sb_data_residency := Some r\<rparr>"

definition seal_build :: "crypto_lib \<Rightarrow> nat \<Rightarrow> seal_builder \<Rightarrow> u64 \<Rightarrow> (string, digital_seal) result" where
  "seal_build C millis b block_height =
     (case sb_evidence b of
        None \<Rightarrow> Err ''Evidence required''
      | Some evidence \<Rightarrow>
          let timestamp = of_nat (min millis (2 ^ 64 - 1)) :: u64;
              seal = \<lparr>se_id = hash256_zero, se_version = 1, se_job_id = sb_job_id b,
                se_model_commitment = sb_model_commitment b, se_input_commitment = sb_input_commitment b,
                se_output_commitment = sb_output_commitment b, se_evidence = evidence, se_block_height = block_height,
                se_timestamp = timestamp, se_requester = sb_requester b, se_validators = sb_validators b,
                se_purpose = sb_purpose b, se_compliance_frameworks = sb_compliance_frameworks b,
                se_data_residency = sb_data_residency b, se_status = SealFinalized\<rparr>
          in Ok (seal\<lparr>se_id := seal_compute_id C seal\<rparr>))"

end
