(* ===== verification/Core_Job_Properties.thy ===== *)
theory Core_Job_Properties
  imports Core_Job Transaction_Properties
begin

text \<open>
  Compute jobs and seals of the core crate: the well-formedness that every operation keeps, what the
  majority of a job's results guarantees and what it leaves open, and what the id of a seal commits to.
\<close>

section \<open>Well-formed jobs\<close>

text \<open>
  No validator is assigned twice or answers twice, a job without assigned validators that has only seen
  its own operations is pending, and one that is pending has none.
\<close>

definition core_job_wf :: "core_job \<Rightarrow> bool" where
  "core_job_wf j \<longleftrightarrow> distinct (cj_assigned_validators j) \<and> distinct (map jr_validator (cj_results j))
     \<and> (cj_status j = JobPending \<longleftrightarrow> cj_assigned_validators j = [])"

datatype job_op =
    OpVerification verification_requirement | OpMinAttestations u32 | OpHardware hardware_requirements | OpMaxLatency u64
  | OpPriority u8 | OpMaxFee u128 | OpCompliance string | OpResidency string | OpAssign core_address | OpResult job_result

primrec job_apply :: "core_job \<Rightarrow> job_op \<Rightarrow> core_job" where
  "job_apply j (OpVerification m) = job_with_verification j m"
| "job_apply j (OpMinAttestations n) = job_with_min_attestations j n"
| "job_apply j (OpHardware h) = job_with_hardware j h"
| "job_apply j (OpMaxLatency ms) = job_with_max_latency j ms"
| "job_apply j (OpPriority p) = job_with_priority j p"
| "job_apply j (OpMaxFee f) = job_with_max_fee j f"
| "job_apply j (OpCompliance f) = job_with_compliance j f"
| "job_apply j (OpResidency r) = job_with_data_residency j r"
| "job_apply j (OpAssign v) = job_assign_validator j v"
| "job_apply j (OpResult r) = job_add_result j r"

lemmas job_setters = job_with_verification_def job_with_min_attestations_def job_with_hardware_def job_with_max_latency_def
  job_with_priority_def job_with_max_fee_def job_with_compliance_def job_with_data_residency_def

lemma job_apply_wf: "core_job_wf j \<Longrightarrow> core_job_wf (job_apply j op)"
  by (cases op)
    (auto simp: core_job_wf_def job_setters job_assign_validator_def job_add_result_def Let_def list_ex_iff)

lemma job_apply_identity:
  "cj_id (job_apply j op) = cj_id j" "cj_requester (job_apply j op) = cj_requester j"
  "cj_job_model_hash (job_apply j op) = cj_job_model_hash j" "cj_job_input_hash (job_apply j op) = cj_job_input_hash j"
  "cj_submitted_at (job_apply j op) = cj_submitted_at j" "cj_expiry (job_apply j op) = cj_expiry j"
  by (cases op; simp add: job_setters job_assign_validator_def job_add_result_def Let_def)+

lemma job_apply_grows:
  "set (cj_assigned_validators j) \<subseteq> set (cj_assigned_validators (job_apply j op))"
  "\<exists>rs. cj_results (job_apply j op) = cj_results j @ rs"
  by (cases op; auto simp: job_setters job_assign_validator_def job_add_result_def Let_def)+

text \<open>The order in which a job built by its own operations changes its status.\<close>

definition status_rank :: "core_job_status \<Rightarrow> nat" where
  "status_rank s = unat (core_job_status_as_u8 s)"

lemma job_apply_status:
  assumes "cj_status j \<in> {JobPending, JobAssigned, JobVerifying}"
  shows "cj_status (job_apply j op) \<in> {JobPending, JobAssigned, JobVerifying}
    \<and> status_rank (cj_status j) \<le> status_rank (cj_status (job_apply j op))"
  using assms
  by (cases op) (auto simp: job_setters job_assign_validator_def job_add_result_def Let_def status_rank_def)

text \<open>
  C39. Jobs stay well formed. Whatever sequence of its operations runs on a new job, no validator is
  assigned twice and none has two results, the job is pending exactly while nobody is assigned, its
  status only moves forward through pending, assigned and verifying (it is never completed, failed or
  cancelled by its own operations), and id, requester, model and input hash, submission time and expiry
  never change.
\<close>
theorem job_well_formed:
  "let new = core_job_new C nanos model input requester; j = foldl job_apply new ops
   in distinct (cj_assigned_validators j) \<and> distinct (map jr_validator (cj_results j))
    \<and> (cj_status j = JobPending \<longleftrightarrow> cj_assigned_validators j = [])
    \<and> cj_status j \<in> {JobPending, JobAssigned, JobVerifying} \<and> \<not> job_status_is_terminal (cj_status j)
    \<and> status_rank (cj_status j) \<le> status_rank (cj_status (job_apply j op))
    \<and> cj_id j = cj_id new \<and> cj_requester j = requester \<and> cj_job_model_hash j = model \<and> cj_job_input_hash j = input
    \<and> cj_submitted_at j = of_nat (nanos div 1000000000) \<and> cj_expiry j = cj_submitted_at j + 3600"
proof -
  let ?new = "core_job_new C nanos model input requester"
  let ?j = "foldl job_apply ?new ops"
  have "core_job_wf ?j \<and> cj_status ?j \<in> {JobPending, JobAssigned, JobVerifying}
      \<and> cj_id ?j = cj_id ?new \<and> cj_requester ?j = requester \<and> cj_job_model_hash ?j = model \<and> cj_job_input_hash ?j = input
      \<and> cj_submitted_at ?j = of_nat (nanos div 1000000000) \<and> cj_expiry ?j = of_nat (nanos div 1000000000) + 3600"
  proof (induction ops rule: rev_induct)
    case Nil
    then show ?case by (simp add: core_job_wf_def core_job_new_def Let_def)
  next
    case (snoc op ops)
    then show ?case using job_apply_wf [of "foldl job_apply ?new ops" op] job_apply_status [of "foldl job_apply ?new ops" op]
      by (simp add: job_apply_identity)
  qed
  moreover from this have "status_rank (cj_status ?j) \<le> status_rank (cj_status (job_apply ?j op))"
    using job_apply_status [of ?j op] by simp
  ultimately show ?thesis by (auto simp: Let_def core_job_wf_def job_status_is_terminal_def)
qed

section \<open>The majority\<close>

lemma count_outputs_get: "hm_get (count_outputs rs) h = (if h \<in> jr_output_hash ` set rs then Some (length (filter (\<lambda>r. jr_output_hash r = h) rs)) else None)"
proof (induction rs rule: rev_induct)
  case Nil
  then show ?case by (simp add: count_outputs_def)
next
  case (snoc r rs)
  have "count_outputs (rs @ [r]) = hm_insert (jr_output_hash r) (hm_entry 0 (count_outputs rs) (jr_output_hash r) + 1) (count_outputs rs)"
    by (simp add: count_outputs_def)
  moreover have "jr_output_hash r \<notin> jr_output_hash ` set rs \<Longrightarrow> filter (\<lambda>x. jr_output_hash x = jr_output_hash r) rs = []"
    by (auto simp: filter_empty_conv image_iff)
  ultimately show ?case using snoc by (auto simp: hm_entry_def)
qed

lemma count_outputs_distinct: "distinct (map fst (count_outputs rs))"
  by (induction rs rule: rev_induct) (simp_all add: count_outputs_def)

lemma count_outputs_entries:
  "(h, n) \<in> set (count_outputs rs) \<longleftrightarrow> h \<in> jr_output_hash ` set rs \<and> n = length (filter (\<lambda>r. jr_output_hash r = h) rs)"
  using count_outputs_get [of rs h] map_of_eq_Some_iff [OF count_outputs_distinct, of rs h n] by (auto simp: hm_get_def split: if_splits)

definition votes_for :: "core_job \<Rightarrow> hash256 \<Rightarrow> nat" where
  "votes_for j h = length (filter (\<lambda>r. jr_output_hash r = h) (cj_results j))"

lemma votes_positive: "h \<in> jr_output_hash ` set (cj_results j) \<longleftrightarrow> 0 < votes_for j h"
  by (auto simp: votes_for_def filter_empty_conv)

definition permutes_entries :: "((hash256 \<times> nat) list \<Rightarrow> (hash256 \<times> nat) list) \<Rightarrow> bool" where
  "permutes_entries order \<longleftrightarrow> (\<forall>xs. set (order xs) = set xs)"

lemma majority_result_Some:
  assumes "permutes_entries order" and "majority_result order j = Some r"
  shows "r \<in> set (cj_results j)" and "majority_threshold j \<le> votes_for j (jr_output_hash r)"
proof -
  obtain h n where h: "find (\<lambda>(_, count). count \<ge> majority_threshold j) (order (count_outputs (cj_results j))) = Some (h, n)"
      and r: "find (\<lambda>r. jr_output_hash r = h) (cj_results j) = Some r"
    using assms(2) by (auto simp: majority_result_def split: if_splits option.splits)
  have "(h, n) \<in> set (count_outputs (cj_results j))" "majority_threshold j \<le> n"
    using h assms(1) by (auto simp: find_Some_iff permutes_entries_def) (metis nth_mem)
  then show "majority_threshold j \<le> votes_for j (jr_output_hash r)" "r \<in> set (cj_results j)"
    using r by (auto simp: find_Some_iff count_outputs_entries votes_for_def)
qed

lemma majority_result_find:
  assumes "majority_result order j = Some r"
  shows "majority_result order j = find (\<lambda>x. jr_output_hash x = jr_output_hash r) (cj_results j)"
proof -
  obtain h where r: "find (\<lambda>r. jr_output_hash r = h) (cj_results j) = Some r"
    using assms by (auto simp: majority_result_def split: if_splits option.splits)
  then have "jr_output_hash r = h" by (auto simp: find_Some_iff)
  then show ?thesis using r assms by simp
qed

lemma majority_result_None:
  assumes "permutes_entries order" and "majority_result order j = None" and "0 < votes_for j h"
  shows "votes_for j h < majority_threshold j"
proof (rule ccontr)
  assume big: "\<not> votes_for j h < majority_threshold j"
  have mem: "(h, votes_for j h) \<in> set (order (count_outputs (cj_results j)))"
    using assms(1,3) votes_positive [of h j] by (simp add: permutes_entries_def count_outputs_entries votes_for_def)
  then obtain h' n' where f: "find (\<lambda>(_, count). count \<ge> majority_threshold j) (order (count_outputs (cj_results j))) = Some (h', n')"
    using big by (cases "find (\<lambda>(_, count). count \<ge> majority_threshold j) (order (count_outputs (cj_results j)))")
      (fastforce simp: find_None_iff not_less)+
  then have "(h', n') \<in> set (count_outputs (cj_results j))" using assms(1) by (auto simp: find_Some_iff permutes_entries_def) (metis nth_mem)
  then have "find (\<lambda>r. jr_output_hash r = h') (cj_results j) \<noteq> None" by (auto simp: count_outputs_entries find_None_iff)
  moreover have "cj_results j \<noteq> []" using assms(3) by (auto simp: votes_for_def)
  ultimately show False using assms(2) f by (simp add: majority_result_def)
qed

lemma votes_two:
  assumes "h \<noteq> h'"
  shows "votes_for j h + votes_for j h' \<le> length (cj_results j)"
proof -
  have "length (filter (\<lambda>r. jr_output_hash r = h) rs) + length (filter (\<lambda>r. jr_output_hash r = h') rs) \<le> length rs" for rs
    using assms by (induction rs) auto
  then show ?thesis by (simp add: votes_for_def)
qed

text \<open>
  What the majority of a job's results means. Whatever order the hash map iterates in, a result that
  \<open>majority_result\<close> returns is one of the job's results and its output has at least half of
  \<open>min_attestations\<close> (rounded up) results behind it; when nothing is returned, no output has that many.
  The choice does not depend on the iteration order when that threshold is more than half of the results
  received.
\<close>
theorem majority_is_supported:
  assumes "permutes_entries order" and "permutes_entries order'"
  shows "(majority_result order j = Some r \<longrightarrow>
        r \<in> set (cj_results j) \<and> (unat (cj_min_attestations j) + 1) div 2 \<le> votes_for j (jr_output_hash r))
    \<and> (majority_result order j = None \<longrightarrow> (\<forall>h. 0 < votes_for j h \<longrightarrow> votes_for j h < (unat (cj_min_attestations j) + 1) div 2))
    \<and> (length (cj_results j) < 2 * ((unat (cj_min_attestations j) + 1) div 2) \<longrightarrow> majority_result order j = majority_result order' j)"
proof (intro conjI impI allI)
  show "r \<in> set (cj_results j)" "(unat (cj_min_attestations j) + 1) div 2 \<le> votes_for j (jr_output_hash r)"
    if "majority_result order j = Some r"
    using majority_result_Some [OF assms(1) that] by (simp_all add: majority_threshold_def)
  show "votes_for j h < (unat (cj_min_attestations j) + 1) div 2" if "majority_result order j = None" "0 < votes_for j h" for h
    using majority_result_None [OF assms(1) that] by (simp add: majority_threshold_def)
  assume small: "length (cj_results j) < 2 * ((unat (cj_min_attestations j) + 1) div 2)"
  have unique: "h = h'" if "majority_threshold j \<le> votes_for j h" "majority_threshold j \<le> votes_for j h'" for h h'
    using votes_two [of h h' j] that small by (cases "h = h'") (auto simp: majority_threshold_def)
  show "majority_result order j = majority_result order' j"
  proof (cases "majority_result order j")
    case None
    have "majority_result order' j = None"
    proof (rule ccontr)
      assume "majority_result order' j \<noteq> None"
      then obtain r' where r': "majority_result order' j = Some r'" by auto
      note big = majority_result_Some [OF assms(2) r']
      have "0 < votes_for j (jr_output_hash r')" using big(1) votes_positive by blast
      then show False using majority_result_None [OF assms(1) None, of "jr_output_hash r'"] big(2) by simp
    qed
    then show ?thesis using None by simp
  next
    case (Some r)
    note big = majority_result_Some [OF assms(1) Some]
    have "0 < votes_for j (jr_output_hash r)" using big(1) votes_positive by blast
    then obtain r' where r': "majority_result order' j = Some r'"
      using majority_result_None [OF assms(2), of j "jr_output_hash r"] big(2) by fastforce
    then have eq: "jr_output_hash r' = jr_output_hash r" using unique big(2) majority_result_Some(2) [OF assms(2) r'] by blast
    show ?thesis using majority_result_find [OF Some] majority_result_find [OF r'] by (simp add: eq)
  qed
qed

definition plain_result :: "u8 \<Rightarrow> u8 \<Rightarrow> job_result" where
  "plain_result v h =
     \<lparr>jr_job_id = hash256_zero, jr_validator = \<lparr>ad_type = ValidatorAddress, ad_bytes = replicate 20 v\<rparr>,
      jr_output_hash = replicate 32 h, jr_output = None, jr_tee_attestation = None, jr_zkml_proof = None,
      jr_execution_time_ms = 1, jr_timestamp = 0, jr_signature = []\<rparr>"

theorem majority_is_supported_witness:
  "majority_result (\<lambda>xs. xs)
     (job_add_result (job_with_min_attestations (core_job_new open_crypto 0 [] [] address_zero) 3) (plain_result 1 7)) = None"
proof -
  let ?j = "job_add_result (job_with_min_attestations (core_job_new open_crypto 0 [] [] address_zero) 3) (plain_result 1 7)"
  have j: "cj_results ?j = [plain_result 1 7]" "cj_min_attestations ?j = 3"
    by (simp_all add: job_add_result_def job_with_min_attestations_def core_job_new_def Let_def)
  have "permutes_entries (\<lambda>xs. xs)" by (simp add: permutes_entries_def)
  then have "\<And>r. majority_result (\<lambda>xs. xs) ?j = Some r \<Longrightarrow> (unat (cj_min_attestations ?j) + 1) div 2 \<le> votes_for ?j (jr_output_hash r)"
    using majority_is_supported [of "\<lambda>xs. xs" "\<lambda>xs. xs" ?j] by blast
  moreover have "votes_for ?j h \<le> 1" for h by (simp add: votes_for_def j(1))
  ultimately have none: "\<And>r. majority_result (\<lambda>xs. xs) ?j \<noteq> Some r" unfolding j(2) by (fastforce dest: order.trans)
  then show ?thesis by (metis not_None_eq)
qed

text \<open>
  With the default of two attestations the threshold is one: when two validators disagree, each of the
  two results is the majority for some iteration order of the hash map.
\<close>

lemma default_majority_ambiguous:
  fixes C :: crypto_lib
  shows "\<exists>j order order'. cj_min_attestations j = 2 \<and> job_has_consensus j \<and> permutes_entries order \<and> permutes_entries order'
     \<and> majority_result order j = Some (plain_result 1 7) \<and> majority_result order' j = Some (plain_result 2 8)"
proof -
  let ?j = "job_add_result (job_add_result (core_job_new C 0 [] [] address_zero) (plain_result 1 7)) (plain_result 2 8)"
  have j: "cj_results ?j = [plain_result 1 7, plain_result 2 8]" "cj_min_attestations ?j = 2"
    by (simp_all add: job_add_result_def core_job_new_def plain_result_def Let_def)
  have counts: "count_outputs [plain_result 1 7, plain_result 2 8] = [(replicate 32 7, 1), (replicate 32 8, 1)]"
    by (simp add: count_outputs_def plain_result_def hm_entry_def hm_get_def hm_insert_def)
  have "job_has_consensus ?j" "majority_result (\<lambda>xs. xs) ?j = Some (plain_result 1 7)"
      "majority_result rev ?j = Some (plain_result 2 8)"
    unfolding majority_result_def job_has_consensus_def majority_threshold_def j counts by (simp_all add: plain_result_def)
  moreover have "permutes_entries (\<lambda>xs. xs)" "permutes_entries rev" by (simp_all add: permutes_entries_def)
  ultimately show ?thesis using j(2) by blast
qed

section \<open>Priority order\<close>

text \<open>The order of jobs is not consistent with their equality: different jobs compare as equal.\<close>

lemma job_order_inconsistent:
  "core_job_cmp (j\<lparr>cj_id := [0]\<rparr>) (j\<lparr>cj_id := [1]\<rparr>) = OrdEqual \<and> \<not> core_job_eq (j\<lparr>cj_id := [0]\<rparr>) (j\<lparr>cj_id := [1]\<rparr>)"
  by (simp add: core_job_cmp_def word_cmp_def core_job_eq_def)

section \<open>Seals\<close>

lemma seal_build_Ok:
  assumes "seal_build C millis b height = Ok s"
  shows "sb_evidence b = Some (se_evidence s)" and "seal_verify_id C s" and "seal_is_finalized s"
    and "se_job_id s = sb_job_id b" and "se_model_commitment s = sb_model_commitment b"
    and "se_input_commitment s = sb_input_commitment b" and "se_output_commitment s = sb_output_commitment b"
    and "se_timestamp s = of_nat (min millis (2 ^ 64 - 1))"
  using assms by (auto simp: seal_build_def seal_verify_id_def seal_is_finalized_def seal_compute_id_def Let_def split: option.splits)

text \<open>
  What the id of a seal commits to. A builder fails exactly when no evidence was given; otherwise the
  seal is final and its id verifies. If SHA-256 has no collision between the two inputs, two built seals
  with equal ids agree in job, model, input and output commitment and timestamp. Nothing else is
  committed to: replacing evidence, validators, requester, purpose, frameworks, residency or block height
  leaves the id valid, and a seal whose evidence is empty is final too.
\<close>
theorem seal_id_commits:
  assumes "seal_build C millis b height = Ok s" and "seal_build C millis' b' height' = Ok s'" and "se_id s = se_id s'"
    and "\<forall>h \<in> {sb_job_id b, sb_job_id b', sb_model_commitment b, sb_model_commitment b', sb_input_commitment b, sb_input_commitment b',
           sb_output_commitment b, sb_output_commitment b'}. length h = 32"
    and "inj_on (cl_sha256 C) {se_job_id x @ se_model_commitment x @ se_input_commitment x @ se_output_commitment x
           @ le_bytes 8 (se_timestamp x) | x. x = s \<or> x = s'}"
  shows "sb_job_id b = sb_job_id b' \<and> sb_model_commitment b = sb_model_commitment b' \<and> sb_input_commitment b = sb_input_commitment b'
    \<and> sb_output_commitment b = sb_output_commitment b' \<and> se_timestamp s = se_timestamp s'
    \<and> seal_is_finalized s \<and> seal_verify_id C s
    \<and> seal_verify_id C (s\<lparr>se_evidence := ev, se_validators := vs, se_requester := a, se_purpose := p,
        se_compliance_frameworks := fs, se_data_residency := res, se_block_height := n\<rparr>)"
proof -
  note built = seal_build_Ok [OF assms(1)] and built' = seal_build_Ok [OF assms(2)]
  let ?in = "\<lambda>x. se_job_id x @ se_model_commitment x @ se_input_commitment x @ se_output_commitment x @ le_bytes 8 (se_timestamp x)"
  have "cl_sha256 C (?in s) = cl_sha256 C (?in s')"
    using built(2) built'(2) assms(3) by (simp add: seal_verify_id_def seal_compute_id_def)
  then have "?in s = ?in s'" using inj_onD [OF assms(5)] by blast
  then have parts: "sb_job_id b = sb_job_id b'" "sb_model_commitment b = sb_model_commitment b'" "sb_input_commitment b = sb_input_commitment b'"
      "sb_output_commitment b = sb_output_commitment b'" "le_bytes 8 (se_timestamp s) = le_bytes 8 (se_timestamp s')"
    using assms(4) unfolding built(4-7) built'(4-7) by auto
  then have "se_timestamp s = se_timestamp s'" by (metis le_word_le_bytes(3))
  moreover have "seal_verify_id C (s\<lparr>se_evidence := ev, se_validators := vs, se_requester := a, se_purpose := p,
        se_compliance_frameworks := fs, se_data_residency := res, se_block_height := n\<rparr>)"
    using built(2) by (simp add: seal_verify_id_def seal_compute_id_def)
  ultimately show ?thesis using parts built(2,3) by blast
qed

definition demo_seal_builder :: seal_builder where
  "demo_seal_builder = with_evidence (seal_builder_new hash256_zero) (EvTeeOnly [])"

theorem seal_id_commits_witness:
  "\<exists>s. seal_build open_crypto 5 demo_seal_builder 1 = Ok s \<and> seal_is_finalized s \<and> \<not> has_valid_evidence s \<and> seal_verify_id open_crypto s"
proof -
  obtain s where s: "seal_build open_crypto 5 demo_seal_builder 1 = Ok s" "\<not> has_valid_evidence s"
    by (simp add: seal_build_def demo_seal_builder_def with_evidence_def has_valid_evidence_def Let_def)
  have "\<forall>h \<in> {sb_job_id demo_seal_builder, sb_job_id demo_seal_builder, sb_model_commitment demo_seal_builder,
      sb_model_commitment demo_seal_builder, sb_input_commitment demo_seal_builder, sb_input_commitment demo_seal_builder,
      sb_output_commitment demo_seal_builder, sb_output_commitment demo_seal_builder}. length h = 32"
    by (simp add: demo_seal_builder_def with_evidence_def seal_builder_new_def hash256_zero_def)
  moreover have "inj_on (cl_sha256 open_crypto) {se_job_id x @ se_model_commitment x @ se_input_commitment x @ se_output_commitment x
      @ le_bytes 8 (se_timestamp x) | x. x = s \<or> x = s}" by simp
  ultimately show ?thesis using seal_id_commits [OF s(1) s(1) refl] s by blast
qed

end
