(* ===== verification/Core_Block.thy ===== *)
theory Core_Block
  imports Core_Transaction
begin

text \<open>
  \<open>src/crates/core/src/types/block.rs\<close>: block headers, blocks and the block builder. A \<open>BlockId\<close> is its
  hash. A \<open>usize\<close> is a natural number. \<open>None\<close> is the panic of the encoding of a signature that
  \<open>SignedTransaction::size\<close> runs into.
\<close>

record core_block_header =
  bh_version :: u32
  bh_height :: u64
  bh_timestamp :: u64
  bh_prev_block_id :: hash256
  bh_tx_root :: hash256
  bh_state_root :: hash256
  bh_compute_root :: hash256
  bh_proposer :: core_address
  bh_chain_id :: u64
  bh_extra_data :: bytes

definition block_header_genesis :: "u64 \<Rightarrow> u64 \<Rightarrow> core_block_header" where
  "block_header_genesis chain_id timestamp =
     \<lparr>bh_version = 1, bh_height = 0, bh_timestamp = timestamp, bh_prev_block_id = hash256_zero, bh_tx_root = hash256_zero,
      bh_state_root = hash256_zero, bh_compute_root = hash256_zero, bh_proposer = address_zero, bh_chain_id = chain_id,
      bh_extra_data = []\<rparr>"

definition block_header_to_bytes :: "core_block_header \<Rightarrow> bytes" where
  "block_header_to_bytes h =
     le_bytes 4 (bh_version h) @ le_bytes 8 (bh_height h) @ le_bytes 8 (bh_timestamp h) @ bh_prev_block_id h @ bh_tx_root h
     @ bh_state_root h @ bh_compute_root h @ address_serialize (bh_proposer h) @ le_bytes 8 (bh_chain_id h)
     @ [of_nat (length (bh_extra_data h))] @ bh_extra_data h"

definition block_header_id :: "crypto_lib \<Rightarrow> core_block_header \<Rightarrow> hash256" where
  "block_header_id C h = block_hash C (block_header_to_bytes h)"

definition block_header_is_genesis :: "core_block_header \<Rightarrow> bool" where
  "block_header_is_genesis h = (bh_height h = 0 \<and> bh_prev_block_id h = hash256_zero)"

datatype verification_method_used = UsedTeeOnly u32 | UsedZkmlOnly | UsedHybrid u32

record compute_verification_result =
  cv_job_id :: hash256
  cv_output_hash :: hash256
  cv_validators :: "core_address list"
  cv_method :: verification_method_used
  cv_zkml_proof :: "bytes option"

datatype vote_type = PreVote | PreCommit | CommitVote

record validator_vote =
  vv_validator :: core_address
  vv_block_id :: hash256
  vv_vote_type :: vote_type
  vv_signature :: bytes
  vv_timestamp :: u64

record core_block =
  cb_header :: core_block_header
  cb_transactions :: "signed_transaction list"
  cb_compute_results :: "compute_verification_result list"
  cb_votes :: "validator_vote list"

definition block_genesis :: "u64 \<Rightarrow> u64 \<Rightarrow> core_block" where
  "block_genesis chain_id timestamp =
     \<lparr>cb_header = block_header_genesis chain_id timestamp, cb_transactions = [], cb_compute_results = [], cb_votes = []\<rparr>"

definition block_id :: "crypto_lib \<Rightarrow> core_block \<Rightarrow> hash256" where
  "block_id C b = block_header_id C (cb_header b)"

definition tx_hashes :: "crypto_lib \<Rightarrow> signed_transaction list \<Rightarrow> hash256 list option" where
  "tx_hashes C txs = those (map (\<lambda>s. core_tx_hash C (st_tx s)) txs)"

definition compute_tx_root :: "crypto_lib \<Rightarrow> core_block \<Rightarrow> hash256 option" where
  "compute_tx_root C b =
     (if cb_transactions b = [] then Some hash256_zero
      else map_option (hash_merkle_root C) (tx_hashes C (cb_transactions b)))"

definition verify_tx_root :: "crypto_lib \<Rightarrow> core_block \<Rightarrow> bool option" where
  "verify_tx_root C b = map_option (\<lambda>r. r = bh_tx_root (cb_header b)) (compute_tx_root C b)"

definition total_gas_used :: "core_block \<Rightarrow> u64" where
  "total_gas_used b = sum_list (map (\<lambda>s. tx_gas_limit (st_tx s)) (cb_transactions b))"

definition signed_size :: "signed_transaction \<Rightarrow> nat option" where
  "signed_size s = map_option length (signed_to_bytes s)"

definition total_size :: "signed_transaction list \<Rightarrow> nat option" where
  "total_size txs = map_option sum_list (those (map signed_size txs))"

definition block_size :: "core_block \<Rightarrow> nat option" where
  "block_size b =
     map_option (\<lambda>txs. length (block_header_to_bytes (cb_header b)) + txs
                     + length (cb_compute_results b) * 256 + length (cb_votes b) * 128)
       (total_size (cb_transactions b))"

section \<open>The builder\<close>

record block_builder =
  bb_header :: core_block_header
  bb_transactions :: "signed_transaction list"
  bb_compute_results :: "compute_verification_result list"
  bb_max_size :: nat
  bb_max_gas :: u64
  bb_current_gas :: u64

definition block_builder_new :: "u64 \<Rightarrow> hash256 \<Rightarrow> core_address \<Rightarrow> u64 \<Rightarrow> u64 \<Rightarrow> block_builder" where
  "block_builder_new height prev_block_id proposer chain_id timestamp =
     \<lparr>bb_header = \<lparr>bh_version = 1, bh_height = height, bh_timestamp = timestamp, bh_prev_block_id = prev_block_id,
        bh_tx_root = hash256_zero, bh_state_root = hash256_zero, bh_compute_root = hash256_zero, bh_proposer = proposer,
        bh_chain_id = chain_id, bh_extra_data = []\<rparr>,
      bb_transactions = [], bb_compute_results = [], bb_max_size = 1048576, bb_max_gas = 10000000, bb_current_gas = 0\<rparr>"

definition with_max_size :: "block_builder \<Rightarrow> nat \<Rightarrow> block_builder" where
  "with_max_size b max_size = b\<lparr>bb_max_size := max_size\<rparr>"

definition with_max_gas :: "block_builder \<Rightarrow> u64 \<Rightarrow> block_builder" where
  "with_max_gas b max_gas = b\<lparr>bb_max_gas := max_gas\<rparr>"

definition add_transaction :: "block_builder \<Rightarrow> signed_transaction \<Rightarrow> (block_builder \<times> bool) option" where
  "add_transaction b tx =
     (let tx_gas = tx_gas_limit (st_tx tx)
      in if bb_current_gas b + tx_gas > bb_max_gas b then Some (b, False)
         else case total_size (bb_transactions b) of
           None \<Rightarrow> None
         | Some current_size \<Rightarrow>
             (case signed_size tx of
                None \<Rightarrow> None
              | Some len \<Rightarrow>
                  if current_size + len > bb_max_size b then Some (b, False)
                  else Some (b\<lparr>bb_current_gas := bb_current_gas b + tx_gas,
                               bb_transactions := bb_transactions b @ [tx]\<rparr>, True)))"

definition add_compute_result :: "block_builder \<Rightarrow> compute_verification_result \<Rightarrow> block_builder" where
  "add_compute_result b r = b\<lparr>bb_compute_results := bb_compute_results b @ [r]\<rparr>"

definition with_state_root :: "block_builder \<Rightarrow> hash256 \<Rightarrow> block_builder" where
  "with_state_root b state_root = b\<lparr>bb_header := (bb_header b)\<lparr>bh_state_root := state_root\<rparr>\<rparr>"

definition with_extra_data :: "block_builder \<Rightarrow> bytes \<Rightarrow> block_builder" where
  "with_extra_data b extra_data = b\<lparr>bb_header := (bb_header b)\<lparr>bh_extra_data := take 32 extra_data\<rparr>\<rparr>"

definition result_leaf :: "crypto_lib \<Rightarrow> compute_verification_result \<Rightarrow> hash256" where
  "result_leaf C r = cl_sha256 C (cv_job_id r @ cv_output_hash r)"

definition build :: "crypto_lib \<Rightarrow> block_builder \<Rightarrow> core_block option" where
  "build C b =
     (case tx_hashes C (bb_transactions b) of
        None \<Rightarrow> None
      | Some hashes \<Rightarrow>
          Some \<lparr>cb_header = (bb_header b)\<lparr>bh_tx_root := hash_merkle_root C hashes,
                              bh_compute_root := hash_merkle_root C (map (result_leaf C) (bb_compute_results b))\<rparr>,
                cb_transactions = bb_transactions b, cb_compute_results = bb_compute_results b, cb_votes = []\<rparr>)"

end
