(* ===== verification/Core_Block_Properties.thy ===== *)
theory Core_Block_Properties
  imports Core_Block Transaction_Properties
begin

text \<open>
  Blocks of the core crate: what a block id commits to, the limits of the block builder, and the Merkle
  root of the transactions.
\<close>

section \<open>Block ids\<close>

definition block_header_wf :: "core_block_header \<Rightarrow> bool" where
  "block_header_wf h \<longleftrightarrow> length (bh_prev_block_id h) = 32 \<and> length (bh_tx_root h) = 32 \<and> length (bh_state_root h) = 32
     \<and> length (bh_compute_root h) = 32 \<and> address_wf (bh_proposer h)"

lemma le_bytes_u32_inj: "le_bytes 4 (v :: u32) = le_bytes 4 w \<longleftrightarrow> v = w"
  by (metis le_word_le_bytes(2))

lemma header_bytes_inj:
  assumes "block_header_wf h" and "block_header_wf k" and "block_header_to_bytes h = block_header_to_bytes k"
  shows "h = k"
proof -
  have l: "length (address_serialize (bh_proposer h)) = 21" "length (address_serialize (bh_proposer k)) = 21"
    using assms(1,2) by (simp_all add: block_header_wf_def length_address_serialize)
  have "bh_version h = bh_version k" "bh_height h = bh_height k" "bh_timestamp h = bh_timestamp k"
      "bh_prev_block_id h = bh_prev_block_id k" "bh_tx_root h = bh_tx_root k" "bh_state_root h = bh_state_root k"
      "bh_compute_root h = bh_compute_root k" "bh_proposer h = bh_proposer k" "bh_chain_id h = bh_chain_id k"
      "bh_extra_data h = bh_extra_data k"
    using assms l
    by (auto simp: block_header_to_bytes_def block_header_wf_def le_bytes_u64_inj le_bytes_u32_inj address_serialize_inj)
  then show ?thesis by (intro core_block_header.equality) simp_all
qed

section \<open>Merkle roots\<close>

lemma combine_level_odd:
  "odd (length xs) \<Longrightarrow> combine_level C (xs @ [last xs]) = combine_level C xs"
  by (induction C xs rule: combine_level.induct) auto

text \<open>An odd list of leaves and the list with its last leaf repeated have the same root.\<close>

lemma merkle_root_repeats_last:
  assumes "odd (length xs)" and "3 \<le> length xs"
  shows "hash_merkle_root C (xs @ [last xs]) = hash_merkle_root C xs"
proof -
  have "combine_levels C (xs @ [last xs]) = combine_levels C (combine_level C (xs @ [last xs]))"
      "combine_levels C xs = combine_levels C (combine_level C xs)"
    using combine_levels.simps [of C "xs @ [last xs]"] combine_levels.simps [of C xs] assms(2)
    by (auto simp del: combine_levels.simps)
  then have "combine_levels C (xs @ [last xs]) = combine_levels C xs" using combine_level_odd [OF assms(1)] by simp
  then show ?thesis using assms(2) by (auto simp: hash_merkle_root_def simp del: combine_levels.simps)
qed

section \<open>The builder\<close>

lemma those_snoc:
  "those (xs @ [y]) = (case those xs of None \<Rightarrow> None | Some ys \<Rightarrow> (case y of None \<Rightarrow> None | Some z \<Rightarrow> Some (ys @ [z])))"
  by (induction xs) (auto split: option.splits)

lemma total_size_snoc:
  "total_size (txs @ [tx]) = (case total_size txs of None \<Rightarrow> None | Some n \<Rightarrow> map_option (\<lambda>k. n + k) (signed_size tx))"
  by (auto simp: total_size_def those_snoc split: option.splits)

lemma tx_hashes_snoc:
  "tx_hashes C (txs @ [tx]) =
     (case tx_hashes C txs of None \<Rightarrow> None | Some hs \<Rightarrow> map_option (\<lambda>h. hs @ [h]) (core_tx_hash C (st_tx tx)))"
  by (auto simp: tx_hashes_def those_snoc split: option.splits)

definition gas_of :: "signed_transaction \<Rightarrow> nat" where
  "gas_of s = unat (tx_gas_limit (st_tx s))"

text \<open>What the builder keeps, as long as its gas counter does not wrap around.\<close>

definition builder_inv :: "block_builder \<Rightarrow> bool" where
  "builder_inv b \<longleftrightarrow> unat (bb_current_gas b) = sum_list (map gas_of (bb_transactions b))
     \<and> bb_current_gas b \<le> bb_max_gas b \<and> (\<exists>n \<le> bb_max_size b. total_size (bb_transactions b) = Some n)"

lemma add_transaction_inv:
  assumes "builder_inv b" and "unat (bb_max_gas b) + gas_of tx < 2 ^ 64" and "add_transaction b tx = Some (b', ok)"
  shows "builder_inv b'" and "bb_max_gas b' = bb_max_gas b" and "bb_max_size b' = bb_max_size b" and "bb_header b' = bb_header b"
    and "bb_transactions b' = (if ok then bb_transactions b @ [tx] else bb_transactions b)"
    and "ok \<longleftrightarrow> sum_list (map gas_of (bb_transactions b @ [tx])) \<le> unat (bb_max_gas b)
      \<and> (\<exists>n \<le> bb_max_size b. total_size (bb_transactions b @ [tx]) = Some n)"
proof -
  have "unat (bb_current_gas b) \<le> unat (bb_max_gas b)" using assms(1) by (simp add: builder_inv_def word_le_nat_alt)
  then have exact: "unat (bb_current_gas b + tx_gas_limit (st_tx tx)) = unat (bb_current_gas b) + gas_of tx"
    using assms(2) unfolding gas_of_def by (intro unat_add_exact) simp
  show "builder_inv b'" "bb_max_gas b' = bb_max_gas b" "bb_max_size b' = bb_max_size b" "bb_header b' = bb_header b"
      "bb_transactions b' = (if ok then bb_transactions b @ [tx] else bb_transactions b)"
      "ok \<longleftrightarrow> sum_list (map gas_of (bb_transactions b @ [tx])) \<le> unat (bb_max_gas b)
        \<and> (\<exists>n \<le> bb_max_size b. total_size (bb_transactions b @ [tx]) = Some n)"
    using assms(1,3) exact
    by (auto simp: add_transaction_def builder_inv_def Let_def total_size_snoc word_less_nat_alt word_le_nat_alt not_less
        split: if_splits option.splits)
qed

fun add_all :: "block_builder \<Rightarrow> signed_transaction list \<Rightarrow> block_builder option" where
  "add_all b [] = Some b"
| "add_all b (tx # txs) = (case add_transaction b tx of None \<Rightarrow> None | Some (b, _) \<Rightarrow> add_all b txs)"

lemma add_all_inv:
  assumes "builder_inv b" and "\<forall>tx \<in> set txs. unat (bb_max_gas b) + gas_of tx < 2 ^ 64" and "add_all b txs = Some b'"
  shows "builder_inv b' \<and> bb_max_gas b' = bb_max_gas b \<and> bb_max_size b' = bb_max_size b \<and> bb_header b' = bb_header b
    \<and> set (bb_transactions b') \<subseteq> set (bb_transactions b) \<union> set txs"
  using assms
proof (induction txs arbitrary: b)
  case (Cons tx txs)
  obtain b1 ok where step: "add_transaction b tx = Some (b1, ok)" "add_all b1 txs = Some b'"
    using Cons.prems(3) by (auto split: option.splits)
  note inv = add_transaction_inv [OF Cons.prems(1) _ step(1)]
  have small: "unat (bb_max_gas b) + gas_of tx < 2 ^ 64" using Cons.prems(2) by simp
  then show ?case using Cons.IH [OF inv(1) [OF small] _ step(2)] Cons.prems(2) inv(2-5) [OF small] by (auto split: if_splits)
qed simp

lemma sum_gas_exact:
  "sum_list (map gas_of txs) < 2 ^ 64 \<Longrightarrow> unat (sum_list (map (\<lambda>s. tx_gas_limit (st_tx s)) txs) :: u64) = sum_list (map gas_of txs)"
proof (induction txs)
  case (Cons tx txs)
  then show ?case by (simp add: gas_of_def unat_add_exact)
qed simp

text \<open>
  Built blocks keep the limits. Adding transactions to a new builder with a gas and a size limit and
  building: as long as the gas limit of no transaction wraps the counter around, the gas limits of the
  block add up to at most the gas limit, \<open>total_gas_used\<close> is that sum, the encoded transactions take at
  most the size limit, only offered transactions are in the block, and the transaction root of its header
  verifies.
\<close>
theorem built_block_within_limits:
  assumes "add_all (with_max_gas (with_max_size (block_builder_new height prev proposer chain time) max_size) max_gas) txs = Some b"
    and "build C b = Some blk" and "\<forall>tx \<in> set txs. unat max_gas + gas_of tx < 2 ^ 64"
  shows "sum_list (map gas_of (cb_transactions blk)) \<le> unat max_gas
    \<and> unat (total_gas_used blk) = sum_list (map gas_of (cb_transactions blk))
    \<and> (\<exists>n \<le> max_size. total_size (cb_transactions blk) = Some n)
    \<and> set (cb_transactions blk) \<subseteq> set txs \<and> verify_tx_root C blk = Some True"
proof -
  let ?new = "with_max_gas (with_max_size (block_builder_new height prev proposer chain time) max_size) max_gas"
  have "builder_inv ?new"
    by (simp add: builder_inv_def with_max_gas_def with_max_size_def block_builder_new_def total_size_def word_le_nat_alt)
  then have inv: "builder_inv b" "bb_max_gas b = max_gas" "bb_max_size b = max_size" "set (bb_transactions b) \<subseteq> set txs"
    using add_all_inv [OF _ _ assms(1)] assms(3)
    by (auto simp: with_max_gas_def with_max_size_def block_builder_new_def)
  obtain hs where hs: "tx_hashes C (bb_transactions b) = Some hs" and txs: "cb_transactions blk = bb_transactions b"
      and root: "bh_tx_root (cb_header blk) = hash_merkle_root C hs"
    using assms(2) by (auto simp: build_def split: option.splits)
  have gas: "sum_list (map gas_of (bb_transactions b)) \<le> unat max_gas"
    using inv(1,2) by (auto simp: builder_inv_def word_le_nat_alt)
  then have "sum_list (map gas_of (bb_transactions b)) < 2 ^ 64" by (rule le_less_trans) (rule unat_bound64)
  then have "unat (total_gas_used blk) = sum_list (map gas_of (bb_transactions b))"
    unfolding total_gas_used_def txs by (rule sum_gas_exact)
  moreover have "verify_tx_root C blk = Some True"
    using hs root txs
    by (cases "bb_transactions b = []") (auto simp: verify_tx_root_def compute_tx_root_def tx_hashes_def hash_merkle_root_def simp del: combine_levels.simps)
  ultimately show ?thesis using gas inv txs by (auto simp: builder_inv_def)
qed

definition demo_signed :: signed_transaction where
  "demo_signed = \<lparr>st_tx = demo_job [], st_signature = made_signature open_crypto demo_keypair [], st_public_key = kp_public_key demo_keypair\<rparr>"

lemma demo_signed_size: obtains k where "signed_size demo_signed = Some k"
  using demo_job_signing [of "[]"]
  by (auto simp: signed_size_def signed_to_bytes_def demo_signed_def signature_to_bytes_def made_signature_def open_crypto_def Let_def)

lemma demo_signed_hash: obtains h where "core_tx_hash open_crypto (st_tx demo_signed) = Some h"
  using demo_job_signing [of "[]"] by (auto simp: core_tx_hash_def demo_signed_def)

lemma demo_signed_gas: "gas_of demo_signed = 100000"
  by (simp add: gas_of_def demo_signed_def demo_job_def transaction_compute_job_def)

theorem built_block_within_limits_witness:
  "\<exists>max_size b blk.
     add_all (with_max_gas (with_max_size (block_builder_new 1 hash256_zero address_treasury 1 0) max_size) 150000) [demo_signed, demo_signed] = Some b
     \<and> build open_crypto b = Some blk \<and> cb_transactions blk = [demo_signed] \<and> unat (total_gas_used blk) = 100000
     \<and> verify_tx_root open_crypto blk = Some True"
proof -
  obtain k where k: "signed_size demo_signed = Some k" by (rule demo_signed_size)
  obtain h where h: "core_tx_hash open_crypto (st_tx demo_signed) = Some h" by (rule demo_signed_hash)
  let ?new = "with_max_gas (with_max_size (block_builder_new 1 hash256_zero address_treasury 1 0) (2 * k)) 150000"
  have gas: "tx_gas_limit (st_tx demo_signed) = 100000"
    by (simp add: demo_signed_def demo_job_def transaction_compute_job_def)
  obtain b where b: "add_all ?new [demo_signed, demo_signed] = Some b" and txs: "bb_transactions b = [demo_signed]"
    using k gas by (auto simp: add_transaction_def total_size_def with_max_gas_def with_max_size_def block_builder_new_def Let_def)
  obtain blk where blk: "build open_crypto b = Some blk" and "cb_transactions blk = [demo_signed]"
    using h txs by (auto simp: build_def tx_hashes_def)
  moreover have "\<forall>tx \<in> set [demo_signed, demo_signed]. unat (150000 :: u64) + gas_of tx < 2 ^ 64"
    by (simp add: demo_signed_gas)
  ultimately show ?thesis using built_block_within_limits [OF b blk] b by (auto simp: demo_signed_gas)
qed

text \<open>
  The sum of the gas check wraps around: a transaction with the largest gas limit is added to a builder
  that has already used some gas.
\<close>

lemma builder_gas_wraps:
  assumes "bb_current_gas b = 21000" and "bb_max_gas b = 10000000" and "tx_gas_limit (st_tx tx) = max_val"
    and "total_size (bb_transactions b) = Some n" and "signed_size tx = Some k" and "n + k \<le> bb_max_size b"
  shows "\<exists>b'. add_transaction b tx = Some (b', True) \<and> bb_current_gas b' = 20999"
  using assms by (auto simp: add_transaction_def Let_def max_val_def)

section \<open>What ids and roots commit to\<close>

text \<open>
  C34. What a block id and a transaction root commit to. If the ids of two well-formed headers are equal
  and SHA-256 has no collision between their inputs, the headers are equal. The transaction root is
  weaker: for every block with an odd number of at least three transactions, repeating the last
  transaction leaves the computed root, and so the outcome of \<open>verify_tx_root\<close>, as it was.
\<close>
theorem block_id_commits:
  assumes "block_header_wf h" and "block_header_wf k" and "block_header_id C h = block_header_id C k"
    and "collision_free (cl_sha256 C)
           {ascii ''aethelred:block:v1:'' @ block_header_to_bytes h, ascii ''aethelred:block:v1:'' @ block_header_to_bytes k}"
    and "odd (length (cb_transactions b))" and "3 \<le> length (cb_transactions b)"
  shows "h = k \<and> verify_tx_root C (b\<lparr>cb_transactions := cb_transactions b @ [last (cb_transactions b)]\<rparr>) = verify_tx_root C b"
proof
  have "cl_sha256 C (ascii ''aethelred:block:v1:'' @ block_header_to_bytes h) = cl_sha256 C (ascii ''aethelred:block:v1:'' @ block_header_to_bytes k)"
    using assms(3) by (simp add: block_header_id_def block_hash_def hash_many_def)
  then have "block_header_to_bytes h = block_header_to_bytes k"
    using inj_onD [OF assms(4) [unfolded collision_free_def]] by fastforce
  then show "h = k" by (rule header_bytes_inj [OF assms(1,2)])
  let ?txs = "cb_transactions b"
  have ne: "?txs \<noteq> []" using assms(6) by auto
  have "map_option (hash_merkle_root C) (tx_hashes C (?txs @ [last ?txs])) = map_option (hash_merkle_root C) (tx_hashes C ?txs)"
  proof (cases "tx_hashes C ?txs")
    case (Some hs)
    have hs: "length hs = length ?txs \<and> core_tx_hash C (st_tx (last ?txs)) = Some (last hs)"
    proof -
      have those: "those (map f xs) = Some ys \<Longrightarrow> length ys = length xs \<and> (xs \<noteq> [] \<longrightarrow> f (last xs) = Some (last ys))"
        for f :: "signed_transaction \<Rightarrow> hash256 option" and xs ys
        by (induction xs arbitrary: ys) (auto split: option.splits)
      show ?thesis using those [of "\<lambda>s. core_tx_hash C (st_tx s)" ?txs hs] Some ne by (simp add: tx_hashes_def)
    qed
    then show ?thesis using Some merkle_root_repeats_last [of hs C] assms(5,6) by (simp add: tx_hashes_snoc)
  qed (simp add: tx_hashes_snoc)
  then show "verify_tx_root C (b\<lparr>cb_transactions := ?txs @ [last ?txs]\<rparr>) = verify_tx_root C b"
    using ne by (simp add: verify_tx_root_def compute_tx_root_def option.map_comp comp_def)
qed

theorem block_id_commits_witness:
  "let b = (block_genesis 1 0)\<lparr>cb_transactions := replicate 3 demo_signed\<rparr>
   in verify_tx_root open_crypto (b\<lparr>cb_transactions := replicate 4 demo_signed\<rparr>) = verify_tx_root open_crypto b"
proof -
  let ?h = "block_header_genesis 1 0" and ?b = "(block_genesis 1 0)\<lparr>cb_transactions := replicate 3 demo_signed\<rparr>"
  have wf: "block_header_wf ?h"
    by (simp add: block_header_wf_def block_header_genesis_def hash256_zero_def address_zero_def address_wf_def)
  have "collision_free (cl_sha256 open_crypto)
      {ascii ''aethelred:block:v1:'' @ block_header_to_bytes ?h, ascii ''aethelred:block:v1:'' @ block_header_to_bytes ?h}"
    by (simp add: collision_free_def)
  moreover have "odd (length (cb_transactions ?b))" "3 \<le> length (cb_transactions ?b)" by simp_all
  moreover have "cb_transactions ?b @ [last (cb_transactions ?b)] = replicate 4 demo_signed"
    by (simp add: numeral_eq_Suc)
  ultimately show ?thesis using block_id_commits [OF wf wf refl, of open_crypto ?b] by simp
qed

end
