(* ===== verification/Bridge_Store.thy ===== *)
theory Bridge_Store
  imports Rust_Bytes
begin

text \<open>
  The bridge relayer of \<open>src/crates/bridge/src\<close>: its data (\<open>types.rs\<close>), errors (\<open>error.rs\<close>),
  configuration (\<open>config.rs\<close>), counters (\<open>metrics.rs\<close>) and persistent store (\<open>storage.rs\<close>).

  Fixed-size byte arrays are byte lists. The store keeps its state in memory and a snapshot file that
  every update replaces; the file holds the bytes the \<open>bincode\<close> crate encodes. Encoding, decoding, file
  errors, \<open>hex::decode\<close>, SHA-256 and the wall clock are the fields of \<open>bridge_env\<close>; the text of an
  operating-system or library error is the string it carries. The locks of the store are never poisoned,
  because no update panics.
\<close>

section \<open>Errors\<close>

datatype bridge_error =
    ConfigError string | EthereumError string | AethelredError string | StorageError string | ConsensusError string
  | SigningError string | VerificationError string | DuplicateError string | RateLimitError string
  | InvalidInputError string | NetworkError string | TimeoutError string | InternalError string

primrec show_bridge_error :: "bridge_error \<Rightarrow> string" where
  "show_bridge_error (ConfigError s) = ''Configuration error: '' @ s"
| "show_bridge_error (EthereumError s) = ''Ethereum error: '' @ s"
| "show_bridge_error (AethelredError s) = ''Aethelred error: '' @ s"
| "show_bridge_error (StorageError s) = ''Storage error: '' @ s"
| "show_bridge_error (ConsensusError s) = ''Consensus error: '' @ s"
| "show_bridge_error (SigningError s) = ''Signing error: '' @ s"
| "show_bridge_error (VerificationError s) = ''Verification error: '' @ s"
| "show_bridge_error (DuplicateError s) = ''Duplicate event: '' @ s"
| "show_bridge_error (RateLimitError s) = ''Rate limit exceeded: '' @ s"
| "show_bridge_error (InvalidInputError s) = ''Invalid input: '' @ s"
| "show_bridge_error (NetworkError s) = ''Network error: '' @ s"
| "show_bridge_error (TimeoutError s) = ''Timeout: '' @ s"
| "show_bridge_error (InternalError s) = ''Internal error: '' @ s"

type_synonym 'a bridge_result = "(bridge_error, 'a) result"

section \<open>Deposits, burns, proposals\<close>

type_synonym eth_address = bytes
type_synonym aethelred_address = bytes
type_synonym bridge_hash = bytes

record ethereum_deposit =
  ed_deposit_id :: bridge_hash
  ed_depositor :: eth_address
  ed_aethelred_recipient :: aethelred_address
  ed_token :: eth_address
  ed_amount :: u128
  ed_nonce :: u64
  ed_block_number :: u64
  ed_block_hash :: bridge_hash
  ed_tx_hash :: bridge_hash
  ed_log_index :: u32
  ed_timestamp :: u64

definition deposit_generate_id :: "(bytes \<Rightarrow> bytes) \<Rightarrow> ethereum_deposit \<Rightarrow> bridge_hash" where
  "deposit_generate_id sha d =
     sha (ascii ''eth-deposit-v1:'' @ ed_depositor d @ ed_aethelred_recipient d @ ed_token d @ le_bytes 16 (ed_amount d)
          @ le_bytes 8 (ed_nonce d) @ ed_tx_hash d @ le_bytes 4 (ed_log_index d))"

datatype deposit_status = DepPending | DepConfirmed | DepMintProposed | DepCompleted | DepCancelled | DepFailed

primrec show_deposit_status :: "deposit_status \<Rightarrow> string" where
  "show_deposit_status DepPending = ''Pending''"
| "show_deposit_status DepConfirmed = ''Confirmed''"
| "show_deposit_status DepMintProposed = ''MintProposed''"
| "show_deposit_status DepCompleted = ''Completed''"
| "show_deposit_status DepCancelled = ''Cancelled''"
| "show_deposit_status DepFailed = ''Failed''"

datatype bridge_token_type = WrappedETH | WrappedERC20 bytes | NativeAETHEL

record aethelred_burn =
  ab_burn_id :: bridge_hash
  ab_burner :: aethelred_address
  ab_eth_recipient :: eth_address
  ab_token_type :: bridge_token_type
  ab_amount :: u128
  ab_nonce :: u64
  ab_block_height :: u64
  ab_block_hash :: bridge_hash
  ab_tx_hash :: bridge_hash
  ab_timestamp :: u64

datatype withdrawal_status =
  WdPending | WdConfirmed | WdWithdrawalProposed | WdConsensusReached | WdReadyToProcess | WdCompleted | WdChallenged | WdFailed

primrec show_withdrawal_status :: "withdrawal_status \<Rightarrow> string" where
  "show_withdrawal_status WdPending = ''Pending''"
| "show_withdrawal_status WdConfirmed = ''Confirmed''"
| "show_withdrawal_status WdWithdrawalProposed = ''WithdrawalProposed''"
| "show_withdrawal_status WdConsensusReached = ''ConsensusReached''"
| "show_withdrawal_status WdReadyToProcess = ''ReadyToProcess''"
| "show_withdrawal_status WdCompleted = ''Completed''"
| "show_withdrawal_status WdChallenged = ''Challenged''"
| "show_withdrawal_status WdFailed = ''Failed''"

record relayer_vote =
  rv_relayer :: aethelred_address
  rv_approve :: bool
  rv_signature :: bytes
  rv_timestamp :: u64

datatype mint_proposal_status = MintVoting | MintConsensusReached | MintDone | MintExpired | MintRejected

record mint_proposal =
  mp_proposal_id :: bridge_hash
  mp_deposit :: ethereum_deposit
  mp_proposer :: aethelred_address
  mp_votes :: "relayer_vote list"
  mp_status :: mint_proposal_status
  mp_created_at :: u64
  mp_updated_at :: u64

datatype withdrawal_proposal_status =
  WpVoting | WpSubmittedToEthereum | WpInChallengePeriod | WpReadyToProcess | WpCompleted | WpChallenged | WpExpired

record withdrawal_proposal =
  wp_proposal_id :: bridge_hash
  wp_burn :: aethelred_burn
  wp_proposer :: aethelred_address
  wp_votes :: "relayer_vote list"
  wp_status :: withdrawal_proposal_status
  wp_created_at :: u64
  wp_challenge_end_time :: u64
  wp_updated_at :: u64

datatype ethereum_event =
    EthDeposit ethereum_deposit
  | EthDepositFinalized bridge_hash u64
  | EthWithdrawalProcessed bridge_hash eth_address u128 bridge_hash
  | EthReorg u64 u64 "bridge_hash list"
  | EthNewBlock u64 bridge_hash u64

datatype aethelred_event =
    AethBurn aethelred_burn
  | AethBurnFinalized bridge_hash u64
  | AethMintCompleted bridge_hash aethelred_address u128 bridge_hash
  | AethNewBlock u64 bridge_hash u64

section \<open>Relayers\<close>

record relayer_identity =
  ri_address :: aethelred_address
  ri_eth_address :: eth_address
  ri_public_key :: bytes
  ri_stake :: u128
  ri_active :: bool

record relayer_set =
  rs_relayers :: "relayer_identity list"
  rs_threshold_bps :: u16
  rs_version :: u64
  rs_total_stake :: u128

definition min_votes_required :: "relayer_set \<Rightarrow> nat" where
  "min_votes_required rs =
     (let active_count = length (filter ri_active (rs_relayers rs))
      in if active_count = 0 then 1
         else max ((active_count * unat (rs_threshold_bps rs) + 9999) div 10000) 1)"

definition set_has_consensus :: "relayer_set \<Rightarrow> nat \<Rightarrow> bool" where
  "set_has_consensus rs vote_count = (vote_count \<ge> min_votes_required rs)"

section \<open>Configuration\<close>

record relayer_identity_config =
  ic_private_key_path :: string
  ic_aethelred_address :: "string option"
  ic_eth_address :: "string option"

definition relayer_identity_config_default :: relayer_identity_config where
  "relayer_identity_config_default =
     \<lparr>ic_private_key_path = ''./keys/relayer.key'', ic_aethelred_address = None, ic_eth_address = None\<rparr>"

datatype gas_strategy = SlowGas | MediumGas | FastGas | FixedGas u64

record ethereum_config =
  ec_rpc_url :: string
  ec_ws_url :: "string option"
  ec_chain_id :: u64
  ec_bridge_address :: string
  ec_confirmations :: u64
  ec_poll_interval_secs :: u64
  ec_max_blocks_per_scan :: u64
  ec_start_block :: "u64 option"
  ec_gas_strategy :: gas_strategy
  ec_max_gas_price_gwei :: u64

definition ethereum_config_testnet :: ethereum_config where
  "ethereum_config_testnet =
     \<lparr>ec_rpc_url = ''https://eth-sepolia.g.alchemy.com/v2/YOUR_KEY'',
      ec_ws_url = Some ''wss://eth-sepolia.g.alchemy.com/v2/YOUR_KEY'', ec_chain_id = 11155111, ec_bridge_address = '''',
      ec_confirmations = 6, ec_poll_interval_secs = 12, ec_max_blocks_per_scan = 1000, ec_start_block = None,
      ec_gas_strategy = MediumGas, ec_max_gas_price_gwei = 100\<rparr>"

definition ethereum_config_mainnet :: ethereum_config where
  "ethereum_config_mainnet =
     \<lparr>ec_rpc_url = ''https://eth-mainnet.g.alchemy.com/v2/YOUR_KEY'',
      ec_ws_url = Some ''wss://eth-mainnet.g.alchemy.com/v2/YOUR_KEY'', ec_chain_id = 1, ec_bridge_address = '''',
      ec_confirmations = 12, ec_poll_interval_secs = 12, ec_max_blocks_per_scan = 1000, ec_start_block = None,
      ec_gas_strategy = MediumGas, ec_max_gas_price_gwei = 200\<rparr>"

record aethelred_config =
  ae_rpc_url :: string
  ae_ws_url :: "string option"
  ae_chain_id :: string
  ae_bridge_module_address :: string
  ae_confirmations :: u64
  ae_poll_interval_secs :: u64
  ae_start_block :: "u64 option"

definition aethelred_config_testnet :: aethelred_config where
  "aethelred_config_testnet =
     \<lparr>ae_rpc_url = ''https://rpc.testnet.aethelred.io'', ae_ws_url = Some ''wss://ws.testnet.aethelred.io'',
      ae_chain_id = ''aethelred-testnet-1'', ae_bridge_module_address = ''0x0000000000000000000000000000000000000006'',
      ae_confirmations = 1, ae_poll_interval_secs = 6, ae_start_block = None\<rparr>"

definition aethelred_config_mainnet :: aethelred_config where
  "aethelred_config_mainnet =
     \<lparr>ae_rpc_url = ''https://rpc.mainnet.aethelred.io'', ae_ws_url = Some ''wss://ws.mainnet.aethelred.io'',
      ae_chain_id = ''aethelred-mainnet-1'', ae_bridge_module_address = ''0x0000000000000000000000000000000000000006'',
      ae_confirmations = 3, ae_poll_interval_secs = 6, ae_start_block = None\<rparr>"

record bridge_consensus_config =
  co_threshold_bps :: u16
  co_proposal_timeout_secs :: u64
  co_vote_timeout_secs :: u64
  co_max_pending_proposals :: nat

definition bridge_consensus_config_default :: bridge_consensus_config where
  "bridge_consensus_config_default =
     \<lparr>co_threshold_bps = 6700, co_proposal_timeout_secs = 1800, co_vote_timeout_secs = 180, co_max_pending_proposals = 500\<rparr>"

record bridge_config =
  bc_identity :: relayer_identity_config
  bc_ethereum :: ethereum_config
  bc_aethelred :: aethelred_config
  bc_consensus :: bridge_consensus_config
  bc_storage_path :: string
  bc_metrics_enabled :: bool
  bc_metrics_port :: u16
  bc_log_level :: string

definition bridge_config_default :: bridge_config where
  "bridge_config_default =
     \<lparr>bc_identity = relayer_identity_config_default, bc_ethereum = ethereum_config_testnet,
      bc_aethelred = aethelred_config_testnet, bc_consensus = bridge_consensus_config_default,
      bc_storage_path = ''./data/bridge'', bc_metrics_enabled = True, bc_metrics_port = 9100, bc_log_level = ''info''\<rparr>"

definition bridge_config_validate :: "bridge_config \<Rightarrow> unit bridge_result" where
  "bridge_config_validate c =
     (if ec_rpc_url (bc_ethereum c) = [] then Err (ConfigError ''Ethereum RPC URL is required'')
      else if ec_bridge_address (bc_ethereum c) = [] then Err (ConfigError ''Bridge contract address is required'')
      else if ae_rpc_url (bc_aethelred c) = [] then Err (ConfigError ''Aethelred RPC URL is required'')
      else if co_threshold_bps (bc_consensus c) = 0 \<or> co_threshold_bps (bc_consensus c) > 10000
      then Err (ConfigError ''Consensus threshold must be between 1 and 10000 basis points'')
      else Ok ())"

definition bridge_config_testnet :: bridge_config where
  "bridge_config_testnet =
     \<lparr>bc_identity = relayer_identity_config_default, bc_ethereum = ethereum_config_testnet,
      bc_aethelred = aethelred_config_testnet, bc_consensus = bridge_consensus_config_default,
      bc_storage_path = ''./data/bridge-testnet'', bc_metrics_enabled = True, bc_metrics_port = 9100, bc_log_level = ''debug''\<rparr>"

definition bridge_config_mainnet :: bridge_config where
  "bridge_config_mainnet =
     \<lparr>bc_identity = relayer_identity_config_default, bc_ethereum = ethereum_config_mainnet,
      bc_aethelred = aethelred_config_mainnet,
      bc_consensus = \<lparr>co_threshold_bps = 6700, co_proposal_timeout_secs = 3600, co_vote_timeout_secs = 300,
                      co_max_pending_proposals = 1000\<rparr>,
      bc_storage_path = ''./data/bridge-mainnet'', bc_metrics_enabled = True, bc_metrics_port = 9100, bc_log_level = ''info''\<rparr>"

section \<open>The persisted state\<close>

record persisted_bridge_state =
  pb_last_eth_block :: "u64 option"
  pb_eth_block_hashes :: "(u64, bridge_hash) hashmap"
  pb_last_aethelred_block :: "u64 option"
  pb_deposits :: "(bridge_hash, ethereum_deposit) hashmap"
  pb_deposit_statuses :: "(bridge_hash, deposit_status) hashmap"
  pb_pending_deposits :: "(bridge_hash, ethereum_deposit) hashmap"
  pb_burns :: "(bridge_hash, aethelred_burn) hashmap"
  pb_burn_statuses :: "(bridge_hash, withdrawal_status) hashmap"
  pb_pending_burns :: "(bridge_hash, aethelred_burn) hashmap"
  pb_mint_proposals :: "(bridge_hash, mint_proposal) hashmap"
  pb_withdrawal_proposals :: "(bridge_hash, withdrawal_proposal) hashmap"

definition persisted_default :: persisted_bridge_state where
  "persisted_default =
     \<lparr>pb_last_eth_block = None, pb_eth_block_hashes = [], pb_last_aethelred_block = None, pb_deposits = [],
      pb_deposit_statuses = [], pb_pending_deposits = [], pb_burns = [], pb_burn_statuses = [], pb_pending_burns = [],
      pb_mint_proposals = [], pb_withdrawal_proposals = []\<rparr>"

record bridge_env =
  be_sha256 :: "bytes \<Rightarrow> bytes"
  be_hex_decode :: "string \<Rightarrow> (string, bytes) result"
  be_file_exists :: "string \<Rightarrow> bool"
  be_now :: u64
  be_serialize :: "persisted_bridge_state \<Rightarrow> (string, bytes) result"
  be_deserialize :: "bytes \<Rightarrow> (string, persisted_bridge_state) result"
  be_write_error :: "bytes \<Rightarrow> string option"
  be_mint_order :: "mint_proposal list \<Rightarrow> mint_proposal list"
  be_withdrawal_order :: "withdrawal_proposal list \<Rightarrow> withdrawal_proposal list"

record bridge_storage =
  bs_file :: "bytes option"
  bs_state :: persisted_bridge_state

definition load_state :: "bridge_env \<Rightarrow> bytes option \<Rightarrow> persisted_bridge_state bridge_result" where
  "load_state E file =
     (case file of
        None \<Rightarrow> Ok persisted_default
      | Some bs \<Rightarrow>
          if bs = [] then Ok persisted_default
          else (case be_deserialize E bs of Ok st \<Rightarrow> Ok st | Err e \<Rightarrow> Err (StorageError e)))"

definition storage_open :: "bridge_env \<Rightarrow> bytes option \<Rightarrow> bridge_storage bridge_result" where
  "storage_open E file = map_result (\<lambda>st. \<lparr>bs_file = file, bs_state = st\<rparr>) (load_state E file)"

text \<open>The snapshot is written to a temporary file that then replaces the old one.\<close>

definition persist_state :: "bridge_env \<Rightarrow> bridge_storage \<Rightarrow> persisted_bridge_state \<Rightarrow> bridge_storage \<times> unit bridge_result" where
  "persist_state E s st =
     (case be_serialize E st of
        Err e \<Rightarrow> (s, Err (StorageError e))
      | Ok encoded \<Rightarrow>
          (case be_write_error E encoded of
             Some e \<Rightarrow> (s, Err (StorageError e))
           | None \<Rightarrow> (s\<lparr>bs_file := Some encoded\<rparr>, Ok ())))"

definition mutate_state ::
    "bridge_env \<Rightarrow> (persisted_bridge_state \<Rightarrow> persisted_bridge_state) \<Rightarrow> bridge_storage \<Rightarrow> bridge_storage \<times> unit bridge_result" where
  "mutate_state E update s =
     (let st = update (bs_state s) in persist_state E (s\<lparr>bs_state := st\<rparr>) st)"

section \<open>Operations of the store\<close>

definition set_last_eth_block :: "bridge_env \<Rightarrow> u64 \<Rightarrow> bridge_storage \<Rightarrow> bridge_storage \<times> unit bridge_result" where
  "set_last_eth_block E block = mutate_state E (\<lambda>st. st\<lparr>pb_last_eth_block := Some block\<rparr>)"

definition get_eth_block_hash :: "bridge_storage \<Rightarrow> u64 \<Rightarrow> bridge_hash option" where
  "get_eth_block_hash s block = hm_get (pb_eth_block_hashes (bs_state s)) block"

definition set_last_aethelred_block :: "bridge_env \<Rightarrow> u64 \<Rightarrow> bridge_storage \<Rightarrow> bridge_storage \<times> unit bridge_result" where
  "set_last_aethelred_block E block = mutate_state E (\<lambda>st. st\<lparr>pb_last_aethelred_block := Some block\<rparr>)"

definition has_deposit :: "bridge_storage \<Rightarrow> bridge_hash \<Rightarrow> bool" where
  "has_deposit s d =
     (hm_get (pb_deposits (bs_state s)) d \<noteq> None \<or> hm_get (pb_pending_deposits (bs_state s)) d \<noteq> None)"

definition store_deposit_in :: "ethereum_deposit \<Rightarrow> persisted_bridge_state \<Rightarrow> persisted_bridge_state" where
  "store_deposit_in d st =
     st\<lparr>pb_pending_deposits := hm_remove (ed_deposit_id d) (pb_pending_deposits st),
        pb_deposits := hm_insert (ed_deposit_id d) d (pb_deposits st),
        pb_eth_block_hashes := hm_insert (ed_block_number d) (ed_block_hash d) (pb_eth_block_hashes st),
        pb_deposit_statuses :=
          (case hm_get (pb_deposit_statuses st) (ed_deposit_id d) of
             None \<Rightarrow> hm_insert (ed_deposit_id d) DepConfirmed (pb_deposit_statuses st)
           | Some _ \<Rightarrow> pb_deposit_statuses st)\<rparr>"

definition store_deposit :: "bridge_env \<Rightarrow> ethereum_deposit \<Rightarrow> bridge_storage \<Rightarrow> bridge_storage \<times> unit bridge_result" where
  "store_deposit E d = mutate_state E (store_deposit_in d)"

definition get_deposit :: "bridge_storage \<Rightarrow> bridge_hash \<Rightarrow> ethereum_deposit option" where
  "get_deposit s d =
     (case hm_get (pb_deposits (bs_state s)) d of
        Some x \<Rightarrow> Some x
      | None \<Rightarrow> hm_get (pb_pending_deposits (bs_state s)) d)"

definition get_deposit_status :: "bridge_storage \<Rightarrow> bridge_hash \<Rightarrow> deposit_status option" where
  "get_deposit_status s d = hm_get (pb_deposit_statuses (bs_state s)) d"

definition store_pending_deposit_in :: "ethereum_deposit \<Rightarrow> persisted_bridge_state \<Rightarrow> persisted_bridge_state" where
  "store_pending_deposit_in d st =
     st\<lparr>pb_pending_deposits := hm_insert (ed_deposit_id d) d (pb_pending_deposits st),
        pb_deposit_statuses := hm_insert (ed_deposit_id d) DepPending (pb_deposit_statuses st),
        pb_eth_block_hashes := hm_insert (ed_block_number d) (ed_block_hash d) (pb_eth_block_hashes st)\<rparr>"

definition store_pending_deposit ::
    "bridge_env \<Rightarrow> ethereum_deposit \<Rightarrow> bridge_storage \<Rightarrow> bridge_storage \<times> unit bridge_result" where
  "store_pending_deposit E d = mutate_state E (store_pending_deposit_in d)"

definition update_deposit_status_in :: "bridge_hash \<Rightarrow> deposit_status \<Rightarrow> persisted_bridge_state \<Rightarrow> persisted_bridge_state" where
  "update_deposit_status_in d status st =
     (let st = st\<lparr>pb_deposit_statuses := hm_insert d status (pb_deposit_statuses st)\<rparr>
      in if status = DepCompleted \<or> status = DepCancelled \<or> status = DepFailed then
           (case hm_get (pb_pending_deposits st) d of
              Some dep \<Rightarrow> st\<lparr>pb_pending_deposits := hm_remove d (pb_pending_deposits st),
                             pb_deposits := hm_insert d dep (pb_deposits st)\<rparr>
            | None \<Rightarrow> st)
         else st)"

definition update_deposit_status ::
    "bridge_env \<Rightarrow> bridge_hash \<Rightarrow> deposit_status \<Rightarrow> bridge_storage \<Rightarrow> bridge_storage \<times> unit bridge_result" where
  "update_deposit_status E d status = mutate_state E (update_deposit_status_in d status)"

definition pending_deposit_count :: "bridge_storage \<Rightarrow> nat" where
  "pending_deposit_count s = length (pb_pending_deposits (bs_state s))"

definition has_burn :: "bridge_storage \<Rightarrow> bridge_hash \<Rightarrow> bool" where
  "has_burn s b = (hm_get (pb_burns (bs_state s)) b \<noteq> None \<or> hm_get (pb_pending_burns (bs_state s)) b \<noteq> None)"

definition store_burn_in :: "aethelred_burn \<Rightarrow> persisted_bridge_state \<Rightarrow> persisted_bridge_state" where
  "store_burn_in b st =
     st\<lparr>pb_pending_burns := hm_remove (ab_burn_id b) (pb_pending_burns st),
        pb_burns := hm_insert (ab_burn_id b) b (pb_burns st),
        pb_burn_statuses :=
          (case hm_get (pb_burn_statuses st) (ab_burn_id b) of
             None \<Rightarrow> hm_insert (ab_burn_id b) WdConfirmed (pb_burn_statuses st)
           | Some _ \<Rightarrow> pb_burn_statuses st)\<rparr>"

definition store_burn :: "bridge_env \<Rightarrow> aethelred_burn \<Rightarrow> bridge_storage \<Rightarrow> bridge_storage \<times> unit bridge_result" where
  "store_burn E b = mutate_state E (store_burn_in b)"

definition get_burn :: "bridge_storage \<Rightarrow> bridge_hash \<Rightarrow> aethelred_burn option" where
  "get_burn s b =
     (case hm_get (pb_burns (bs_state s)) b of
        Some x \<Rightarrow> Some x
      | None \<Rightarrow> hm_get (pb_pending_burns (bs_state s)) b)"

definition get_burn_status :: "bridge_storage \<Rightarrow> bridge_hash \<Rightarrow> withdrawal_status option" where
  "get_burn_status s b = hm_get (pb_burn_statuses (bs_state s)) b"

definition store_pending_burn_in :: "aethelred_burn \<Rightarrow> persisted_bridge_state \<Rightarrow> persisted_bridge_state" where
  "store_pending_burn_in b st =
     st\<lparr>pb_pending_burns := hm_insert (ab_burn_id b) b (pb_pending_burns st),
        pb_burn_statuses := hm_insert (ab_burn_id b) WdPending (pb_burn_statuses st)\<rparr>"

definition store_pending_burn :: "bridge_env \<Rightarrow> aethelred_burn \<Rightarrow> bridge_storage \<Rightarrow> bridge_storage \<times> unit bridge_result" where
  "store_pending_burn E b = mutate_state E (store_pending_burn_in b)"

definition update_burn_status_in :: "bridge_hash \<Rightarrow> withdrawal_status \<Rightarrow> persisted_bridge_state \<Rightarrow> persisted_bridge_state" where
  "update_burn_status_in b status st =
     (let st = st\<lparr>pb_burn_statuses := hm_insert b status (pb_burn_statuses st)\<rparr>
      in if status = WdCompleted \<or> status = WdChallenged \<or> status = WdFailed then
           (case hm_get (pb_pending_burns st) b of
              Some burn \<Rightarrow> st\<lparr>pb_pending_burns := hm_remove b (pb_pending_burns st),
                              pb_burns := hm_insert b burn (pb_burns st)\<rparr>
            | None \<Rightarrow> st)
         else st)"

definition update_burn_status ::
    "bridge_env \<Rightarrow> bridge_hash \<Rightarrow> withdrawal_status \<Rightarrow> bridge_storage \<Rightarrow> bridge_storage \<times> unit bridge_result" where
  "update_burn_status E b status = mutate_state E (update_burn_status_in b status)"

definition store_mint_proposal :: "bridge_env \<Rightarrow> mint_proposal \<Rightarrow> bridge_storage \<Rightarrow> bridge_storage \<times> unit bridge_result" where
  "store_mint_proposal E p =
     mutate_state E (\<lambda>st. st\<lparr>pb_mint_proposals := hm_insert (mp_proposal_id p) p (pb_mint_proposals st)\<rparr>)"

definition get_mint_proposal :: "bridge_storage \<Rightarrow> bridge_hash \<Rightarrow> mint_proposal option" where
  "get_mint_proposal s p = hm_get (pb_mint_proposals (bs_state s)) p"

text \<open>All proposals, in the iteration order of the hash map.\<close>

definition get_pending_mint_proposals :: "bridge_env \<Rightarrow> bridge_storage \<Rightarrow> mint_proposal list" where
  "get_pending_mint_proposals E s = be_mint_order E (map snd (pb_mint_proposals (bs_state s)))"

definition update_mint_proposal_status_in ::
    "u64 \<Rightarrow> bridge_hash \<Rightarrow> mint_proposal_status \<Rightarrow> persisted_bridge_state \<Rightarrow> persisted_bridge_state" where
  "update_mint_proposal_status_in now p status st =
     (case hm_get (pb_mint_proposals st) p of
        None \<Rightarrow> st
      | Some x \<Rightarrow> st\<lparr>pb_mint_proposals := hm_insert p (x\<lparr>mp_status := status, mp_updated_at := now\<rparr>) (pb_mint_proposals st)\<rparr>)"

definition update_mint_proposal_status ::
    "bridge_env \<Rightarrow> bridge_hash \<Rightarrow> mint_proposal_status \<Rightarrow> bridge_storage \<Rightarrow> bridge_storage \<times> unit bridge_result" where
  "update_mint_proposal_status E p status = mutate_state E (update_mint_proposal_status_in (be_now E) p status)"

definition store_withdrawal_proposal ::
    "bridge_env \<Rightarrow> withdrawal_proposal \<Rightarrow> bridge_storage \<Rightarrow> bridge_storage \<times> unit bridge_result" where
  "store_withdrawal_proposal E p =
     mutate_state E (\<lambda>st. st\<lparr>pb_withdrawal_proposals := hm_insert (wp_proposal_id p) p (pb_withdrawal_proposals st)\<rparr>)"

definition get_withdrawal_proposal :: "bridge_storage \<Rightarrow> bridge_hash \<Rightarrow> withdrawal_proposal option" where
  "get_withdrawal_proposal s p = hm_get (pb_withdrawal_proposals (bs_state s)) p"

definition get_pending_withdrawal_proposals :: "bridge_env \<Rightarrow> bridge_storage \<Rightarrow> withdrawal_proposal list" where
  "get_pending_withdrawal_proposals E s = be_withdrawal_order E (map snd (pb_withdrawal_proposals (bs_state s)))"

definition update_withdrawal_proposal_status_in ::
    "u64 \<Rightarrow> bridge_hash \<Rightarrow> withdrawal_proposal_status \<Rightarrow> persisted_bridge_state \<Rightarrow> persisted_bridge_state" where
  "update_withdrawal_proposal_status_in now p status st =
     (case hm_get (pb_withdrawal_proposals st) p of
        None \<Rightarrow> st
      | Some x \<Rightarrow> st\<lparr>pb_withdrawal_proposals :=
                       hm_insert p (x\<lparr>wp_status := status, wp_updated_at := now\<rparr>) (pb_withdrawal_proposals st)\<rparr>)"

definition update_withdrawal_proposal_status ::
    "bridge_env \<Rightarrow> bridge_hash \<Rightarrow> withdrawal_proposal_status \<Rightarrow> bridge_storage \<Rightarrow> bridge_storage \<times> unit bridge_result" where
  "update_withdrawal_proposal_status E p status = mutate_state E (update_withdrawal_proposal_status_in (be_now E) p status)"

definition update_withdrawal_status ::
    "bridge_env \<Rightarrow> bridge_hash \<Rightarrow> withdrawal_status \<Rightarrow> bridge_storage \<Rightarrow> bridge_storage \<times> unit bridge_result" where
  "update_withdrawal_status E p status =
     mutate_state E (\<lambda>st. st\<lparr>pb_burn_statuses := hm_insert p status (pb_burn_statuses st)\<rparr>)"

definition pending_withdrawal_count :: "bridge_storage \<Rightarrow> nat" where
  "pending_withdrawal_count s = length (pb_pending_burns (bs_state s))"

section \<open>Identity and counters\<close>

definition decode_fixed_hex :: "bridge_env \<Rightarrow> nat \<Rightarrow> string \<Rightarrow> string \<Rightarrow> bytes bridge_result" where
  "decode_fixed_hex E n v field_name =
     (let trimmed = (if take 2 v = ''0x'' \<or> take 2 v = ''0X'' then drop 2 v else v)
      in case be_hex_decode E trimmed of
           Err e \<Rightarrow> Err (ConfigError (''Invalid '' @ field_name @ '' hex encoding: '' @ e))
         | Ok decoded \<Rightarrow>
             if length decoded \<noteq> n
             then Err (ConfigError (''Invalid '' @ field_name @ '' length: expected '' @ show_nat n @ '' bytes, got '' @ show_nat (length decoded)))
             else Ok decoded)"

definition aethelred_address_bytes :: "bridge_env \<Rightarrow> relayer_identity_config \<Rightarrow> aethelred_address bridge_result" where
  "aethelred_address_bytes E c =
     (case ic_aethelred_address c of
        None \<Rightarrow> Err (ConfigError ''Relayer Aethelred address is not configured'')
      | Some address \<Rightarrow> decode_fixed_hex E 32 address ''relayer Aethelred address'')"

definition require_private_key :: "bridge_env \<Rightarrow> relayer_identity_config \<Rightarrow> unit bridge_result" where
  "require_private_key E c =
     (if ic_private_key_path c = [] then Err (ConfigError ''Relayer private key path is not configured'')
      else if \<not> be_file_exists E (ic_private_key_path c)
      then Err (ConfigError (''Relayer private key file not found: '' @ ic_private_key_path c))
      else Ok ())"

record bridge_metrics =
  bm_eth_deposits :: u64
  bm_eth_withdrawals :: u64
  bm_aethelred_mints :: u64
  bm_aethelred_burns :: u64

definition bridge_metrics_new :: bridge_metrics where
  "bridge_metrics_new = \<lparr>bm_eth_deposits = 0, bm_eth_withdrawals = 0, bm_aethelred_mints = 0, bm_aethelred_burns = 0\<rparr>"

definition increment_eth_deposits :: "bridge_metrics \<Rightarrow> bridge_metrics" where
  "increment_eth_deposits m = m\<lparr>bm_eth_deposits := bm_eth_deposits m + 1\<rparr>"

definition increment_eth_withdrawals :: "bridge_metrics \<Rightarrow> bridge_metrics" where
  "increment_eth_withdrawals m = m\<lparr>bm_eth_withdrawals := bm_eth_withdrawals m + 1\<rparr>"

definition increment_aethelred_mints :: "bridge_metrics \<Rightarrow> bridge_metrics" where
  "increment_aethelred_mints m = m\<lparr>bm_aethelred_mints := bm_aethelred_mints m + 1\<rparr>"

definition increment_aethelred_burns :: "bridge_metrics \<Rightarrow> bridge_metrics" where
  "increment_aethelred_burns m = m\<lparr>bm_aethelred_burns := bm_aethelred_burns m + 1\<rparr>"

end
