(* ===== verification/Bridge.thy ===== *)
theory Bridge
  imports Bridge_Store
begin

text \<open>
  The components of the bridge relayer over the store: the event processor (\<open>processor.rs\<close>), the
  relayer consensus (\<open>consensus.rs\<close>), the polling of the two chain listeners (\<open>ethereum.rs\<close>,
  \<open>aethelred.rs\<close>) and the loops that connect them (\<open>lib.rs\<close>).

  \<open>bridge_relayer\<close> is the state the tasks of a relayer share. What the remote nodes answer to a poll is an
  argument (\<open>eth_answers\<close>, \<open>aeth_answers\<close>). An \<open>async\<close> handler is a function that runs to its end; the tasks
  interleave between handlers.
\<close>

record bridge_relayer =
  br_config :: bridge_config
  br_storage :: bridge_storage
  br_metrics :: bridge_metrics
  br_relayer_set :: relayer_set
  br_pending_mints :: "(bridge_hash, relayer_vote list) hashmap"
  br_pending_withdrawals :: "(bridge_hash, relayer_vote list) hashmap"
  br_eth_last_block :: u64
  br_aeth_last_block :: u64

definition consensus_engine_new_set :: relayer_set where
  "consensus_engine_new_set = \<lparr>rs_relayers = [], rs_threshold_bps = 6700, rs_version = 0, rs_total_stake = 0\<rparr>"

definition listener_start_block :: "u64 option \<Rightarrow> u64 option \<Rightarrow> u64" where
  "listener_start_block stored configured =
     (case stored of Some b \<Rightarrow> b | None \<Rightarrow> (case configured of Some b \<Rightarrow> b | None \<Rightarrow> 0))"

definition bridge_relayer_new :: "bridge_env \<Rightarrow> bridge_config \<Rightarrow> bytes option \<Rightarrow> bridge_relayer bridge_result" where
  "bridge_relayer_new E config file =
     map_result
       (\<lambda>s. \<lparr>br_config = config, br_storage = s, br_metrics = bridge_metrics_new,
             br_relayer_set = consensus_engine_new_set, br_pending_mints = [], br_pending_withdrawals = [],
             br_eth_last_block = listener_start_block (pb_last_eth_block (bs_state s)) (ec_start_block (bc_ethereum config)),
             br_aeth_last_block = listener_start_block (pb_last_aethelred_block (bs_state s)) (ae_start_block (bc_aethelred config))\<rparr>)
       (storage_open E file)"

definition on_storage ::
    "(bridge_storage \<Rightarrow> bridge_storage \<times> 'a bridge_result) \<Rightarrow> bridge_relayer \<Rightarrow> bridge_relayer \<times> 'a bridge_result" where
  "on_storage f b = (let (s, r) = f (br_storage b) in (b\<lparr>br_storage := s\<rparr>, r))"

definition count_up :: "(bridge_metrics \<Rightarrow> bridge_metrics) \<Rightarrow> bridge_relayer \<Rightarrow> bridge_relayer" where
  "count_up f b = b\<lparr>br_metrics := f (br_metrics b)\<rparr>"

section \<open>The event processor\<close>

definition validate_deposit :: "bridge_relayer \<Rightarrow> ethereum_deposit \<Rightarrow> unit bridge_result" where
  "validate_deposit b d =
     (if ed_amount d = 0 then Err (InvalidInputError ''Zero amount deposit'')
      else if ed_aethelred_recipient d = replicate 32 0 then Err (InvalidInputError ''Invalid recipient'')
      else if has_deposit (br_storage b) (ed_deposit_id d) then Err (DuplicateError ''Deposit already exists'')
      else Ok ())"

definition validate_burn :: "bridge_relayer \<Rightarrow> aethelred_burn \<Rightarrow> unit bridge_result" where
  "validate_burn b u =
     (if ab_amount u = 0 then Err (InvalidInputError ''Zero amount burn'')
      else if ab_eth_recipient u = replicate 20 0 then Err (InvalidInputError ''Invalid ETH recipient'')
      else if has_burn (br_storage b) (ab_burn_id u) then Err (DuplicateError ''Burn already exists'')
      else Ok ())"

definition handle_eth_deposit :: "bridge_env \<Rightarrow> ethereum_deposit \<Rightarrow> bridge_relayer \<Rightarrow> bridge_relayer \<times> unit bridge_result" where
  "handle_eth_deposit E d b =
     (case validate_deposit b d of
        Err e \<Rightarrow> (b, Err e)
      | Ok _ \<Rightarrow> try_then (on_storage (store_pending_deposit E d) b) (\<lambda>b _. (count_up increment_eth_deposits b, Ok ())))"

definition handle_eth_deposit_finalized ::
    "bridge_env \<Rightarrow> bridge_hash \<Rightarrow> bridge_relayer \<Rightarrow> bridge_relayer \<times> unit bridge_result" where
  "handle_eth_deposit_finalized E deposit_id b =
     (case get_deposit (br_storage b) deposit_id of
        None \<Rightarrow> (b, Err (InvalidInputError ''Deposit not found''))
      | Some d \<Rightarrow>
          (case aethelred_address_bytes E (bc_identity (br_config b)) of
             Err e \<Rightarrow> (b, Err e)
           | Ok proposer \<Rightarrow>
               try_then (on_storage (update_deposit_status E deposit_id DepConfirmed) b) (\<lambda>b _.
                 on_storage (store_mint_proposal E
                   \<lparr>mp_proposal_id = deposit_generate_id (be_sha256 E) d, mp_deposit = d, mp_proposer = proposer, mp_votes = [],
                    mp_status = MintVoting, mp_created_at = be_now E, mp_updated_at = be_now E\<rparr>) b)))"

definition handle_eth_withdrawal_processed ::
    "bridge_env \<Rightarrow> bridge_hash \<Rightarrow> bridge_relayer \<Rightarrow> bridge_relayer \<times> unit bridge_result" where
  "handle_eth_withdrawal_processed E proposal_id b =
     try_then (on_storage (update_withdrawal_status E proposal_id WdCompleted) b)
       (\<lambda>b _. (count_up increment_eth_withdrawals b, Ok ()))"

fun handle_eth_reorg :: "bridge_env \<Rightarrow> bridge_hash list \<Rightarrow> bridge_relayer \<Rightarrow> bridge_relayer \<times> unit bridge_result" where
  "handle_eth_reorg E [] b = (b, Ok ())"
| "handle_eth_reorg E (d # ds) b =
     try_then (on_storage (update_deposit_status E d DepPending) b) (\<lambda>b _. handle_eth_reorg E ds b)"

definition handle_aethelred_burn :: "bridge_env \<Rightarrow> aethelred_burn \<Rightarrow> bridge_relayer \<Rightarrow> bridge_relayer \<times> unit bridge_result" where
  "handle_aethelred_burn E u b =
     (case validate_burn b u of
        Err e \<Rightarrow> (b, Err e)
      | Ok _ \<Rightarrow> on_storage (store_pending_burn E u) b)"

definition handle_aethelred_burn_finalized ::
    "bridge_env \<Rightarrow> bridge_hash \<Rightarrow> bridge_relayer \<Rightarrow> bridge_relayer \<times> unit bridge_result" where
  "handle_aethelred_burn_finalized E burn_id b =
     (case get_burn (br_storage b) burn_id of
        None \<Rightarrow> (b, Err (InvalidInputError ''Burn not found''))
      | Some u \<Rightarrow>
          (case aethelred_address_bytes E (bc_identity (br_config b)) of
             Err e \<Rightarrow> (b, Err e)
           | Ok proposer \<Rightarrow>
               try_then (on_storage (update_burn_status E burn_id WdConfirmed) b) (\<lambda>b _.
                 on_storage (store_withdrawal_proposal E
                   \<lparr>wp_proposal_id = burn_id, wp_burn = u, wp_proposer = proposer, wp_votes = [], wp_status = WpVoting,
                    wp_created_at = be_now E, wp_challenge_end_time = 0, wp_updated_at = be_now E\<rparr>) b)))"

definition handle_aethelred_mint_completed ::
    "bridge_env \<Rightarrow> bridge_hash \<Rightarrow> bridge_relayer \<Rightarrow> bridge_relayer \<times> unit bridge_result" where
  "handle_aethelred_mint_completed E proposal_id b =
     try_then (on_storage (update_mint_proposal_status E proposal_id MintDone) b) (\<lambda>b _.
       try_then
         (case get_mint_proposal (br_storage b) proposal_id of
            Some p \<Rightarrow> on_storage (update_deposit_status E (ed_deposit_id (mp_deposit p)) DepCompleted) b
          | None \<Rightarrow> (b, Ok ()))
         (\<lambda>b _. (count_up increment_aethelred_mints b, Ok ())))"

primrec process_ethereum_event ::
    "bridge_env \<Rightarrow> ethereum_event \<Rightarrow> bridge_relayer \<Rightarrow> bridge_relayer \<times> unit bridge_result" where
  "process_ethereum_event E (EthDeposit d) b = handle_eth_deposit E d b"
| "process_ethereum_event E (EthDepositFinalized deposit_id _) b = handle_eth_deposit_finalized E deposit_id b"
| "process_ethereum_event E (EthWithdrawalProcessed proposal_id _ _ _) b = handle_eth_withdrawal_processed E proposal_id b"
| "process_ethereum_event E (EthReorg _ _ affected) b = handle_eth_reorg E affected b"
| "process_ethereum_event E (EthNewBlock _ _ _) b = (b, Ok ())"

primrec process_aethelred_event ::
    "bridge_env \<Rightarrow> aethelred_event \<Rightarrow> bridge_relayer \<Rightarrow> bridge_relayer \<times> unit bridge_result" where
  "process_aethelred_event E (AethBurn u) b = handle_aethelred_burn E u b"
| "process_aethelred_event E (AethBurnFinalized burn_id _) b = handle_aethelred_burn_finalized E burn_id b"
| "process_aethelred_event E (AethMintCompleted proposal_id _ _ _) b = handle_aethelred_mint_completed E proposal_id b"
| "process_aethelred_event E (AethNewBlock _ _ _) b = (b, Ok ())"

section \<open>The consensus engine\<close>

definition update_relayer_set :: "relayer_set \<Rightarrow> bridge_relayer \<Rightarrow> bridge_relayer" where
  "update_relayer_set new_set b = b\<lparr>br_relayer_set := new_set\<rparr>"

definition participant_count :: "bridge_relayer \<Rightarrow> nat" where
  "participant_count b = length (rs_relayers (br_relayer_set b))"

text \<open>The signature of a vote is looked at, but there is no backend to verify it: every vote is refused.\<close>

definition verify_vote_signature :: "relayer_vote \<Rightarrow> unit bridge_result" where
  "verify_vote_signature vote =
     (if rv_relayer vote = replicate 32 0 then Err (VerificationError ''Vote relayer address is zero'')
      else if rv_signature vote = [] then Err (VerificationError ''Empty signature'')
      else Err (VerificationError ''Cryptographic vote signature verification backend is not implemented''))"

definition submit_mint_to_aethelred :: "bridge_hash \<Rightarrow> unit bridge_result" where
  "submit_mint_to_aethelred proposal_id =
     Err (AethelredError (''Mint submission backend is not implemented for proposal '' @ hex_encode (take 8 proposal_id)))"

definition submit_withdrawal_to_ethereum :: "bridge_hash \<Rightarrow> unit bridge_result" where
  "submit_withdrawal_to_ethereum proposal_id =
     Err (EthereumError (''Withdrawal submission backend is not implemented for proposal '' @ hex_encode (take 8 proposal_id)))"

definition in_active_set :: "bridge_relayer \<Rightarrow> relayer_vote \<Rightarrow> bool" where
  "in_active_set b vote = list_ex (\<lambda>r. ri_address r = rv_relayer vote \<and> ri_active r) (rs_relayers (br_relayer_set b))"

text \<open>What a vote does once its signature is verified; the result is the number of votes.\<close>

definition record_vote :: "(bridge_hash, relayer_vote list) hashmap \<Rightarrow> bridge_hash \<Rightarrow> relayer_vote
    \<Rightarrow> (bridge_hash, relayer_vote list) hashmap \<times> nat bridge_result" where
  "record_vote pending proposal_id vote =
     (let votes = hm_entry [] pending proposal_id; pending = hm_insert proposal_id votes pending
      in if list_ex (\<lambda>v. rv_relayer v = rv_relayer vote) votes then (pending, Err (DuplicateError ''Already voted''))
         else (hm_insert proposal_id (votes @ [vote]) pending, Ok (length votes + 1)))"

definition count_mint_vote ::
    "bridge_env \<Rightarrow> bridge_hash \<Rightarrow> relayer_vote \<Rightarrow> bridge_relayer \<Rightarrow> bridge_relayer \<times> unit bridge_result" where
  "count_mint_vote E proposal_id vote b =
     (if \<not> in_active_set b vote then (b, Err (ConsensusError ''Relayer not in active set''))
      else let (pending, r) = record_vote (br_pending_mints b) proposal_id vote; b = b\<lparr>br_pending_mints := pending\<rparr>
      in case r of
           Err e \<Rightarrow> (b, Err e)
         | Ok votes \<Rightarrow>
             if set_has_consensus (br_relayer_set b) votes
             then try_then (on_storage (update_mint_proposal_status E proposal_id MintConsensusReached) b)
                    (\<lambda>b _. (b, submit_mint_to_aethelred proposal_id))
             else (b, Ok ()))"

definition vote_mint ::
    "bridge_env \<Rightarrow> bridge_hash \<Rightarrow> relayer_vote \<Rightarrow> bridge_relayer \<Rightarrow> bridge_relayer \<times> unit bridge_result" where
  "vote_mint E proposal_id vote b =
     (case verify_vote_signature vote of
        Err e \<Rightarrow> (b, Err e)
      | Ok _ \<Rightarrow> count_mint_vote E proposal_id vote b)"

definition count_withdrawal_vote ::
    "bridge_env \<Rightarrow> bridge_hash \<Rightarrow> relayer_vote \<Rightarrow> bridge_relayer \<Rightarrow> bridge_relayer \<times> unit bridge_result" where
  "count_withdrawal_vote E proposal_id vote b =
     (if \<not> in_active_set b vote then (b, Err (ConsensusError ''Relayer not in active set''))
      else let (pending, r) = record_vote (br_pending_withdrawals b) proposal_id vote; b = b\<lparr>br_pending_withdrawals := pending\<rparr>
      in case r of
           Err e \<Rightarrow> (b, Err e)
         | Ok votes \<Rightarrow>
             if set_has_consensus (br_relayer_set b) votes
             then (case submit_withdrawal_to_ethereum proposal_id of
                     Err e \<Rightarrow> (b, Err e)
                   | Ok _ \<Rightarrow> on_storage (update_withdrawal_proposal_status E proposal_id WpSubmittedToEthereum) b)
             else (b, Ok ()))"

definition vote_withdrawal ::
    "bridge_env \<Rightarrow> bridge_hash \<Rightarrow> relayer_vote \<Rightarrow> bridge_relayer \<Rightarrow> bridge_relayer \<times> unit bridge_result" where
  "vote_withdrawal E proposal_id vote b =
     (case verify_vote_signature vote of
        Err e \<Rightarrow> (b, Err e)
      | Ok _ \<Rightarrow> count_withdrawal_vote E proposal_id vote b)"

definition require_local_identity :: "bridge_env \<Rightarrow> bridge_relayer \<Rightarrow> aethelred_address bridge_result" where
  "require_local_identity E b =
     (case require_private_key E (bc_identity (br_config b)) of
        Err e \<Rightarrow> Err e
      | Ok _ \<Rightarrow> aethelred_address_bytes E (bc_identity (br_config b)))"

definition create_mint_vote :: "bridge_env \<Rightarrow> bridge_relayer \<Rightarrow> relayer_vote bridge_result" where
  "create_mint_vote E b =
     (case require_local_identity E b of
        Err e \<Rightarrow> Err e
      | Ok relayer \<Rightarrow> Err (SigningError
          (''Cryptographic mint-vote signing backend is not implemented for relayer '' @ hex_encode (take 8 relayer))))"

definition create_withdrawal_vote :: "bridge_env \<Rightarrow> bridge_relayer \<Rightarrow> relayer_vote bridge_result" where
  "create_withdrawal_vote E b =
     (case require_local_identity E b of
        Err e \<Rightarrow> Err e
      | Ok relayer \<Rightarrow> Err (SigningError
          (''Cryptographic withdrawal-vote signing backend is not implemented for relayer '' @ hex_encode (take 8 relayer))))"

definition should_vote_mint :: "bridge_relayer \<Rightarrow> mint_proposal \<Rightarrow> bool bridge_result" where
  "should_vote_mint b p =
     (case get_deposit (br_storage b) (ed_deposit_id (mp_deposit p)) of
        None \<Rightarrow> Err (ConsensusError ''Mint proposal deposit is missing'')
      | Some d \<Rightarrow>
          if ed_tx_hash d \<noteq> ed_tx_hash (mp_deposit p) \<or> ed_amount d \<noteq> ed_amount (mp_deposit p)
             \<or> ed_aethelred_recipient d \<noteq> ed_aethelred_recipient (mp_deposit p)
          then Err (ConsensusError ''Mint proposal deposit does not match stored deposit'')
          else (case get_deposit_status (br_storage b) (ed_deposit_id (mp_deposit p)) of
             Some status \<Rightarrow>
               if status = DepConfirmed \<or> status = DepMintProposed then Ok True
               else Err (ConsensusError (''Mint proposal deposit is not ready for voting: '' @ show_deposit_status status))
           | None \<Rightarrow> Err (ConsensusError ''Mint proposal deposit status is missing'')))"

definition should_vote_withdrawal :: "bridge_relayer \<Rightarrow> withdrawal_proposal \<Rightarrow> bool bridge_result" where
  "should_vote_withdrawal b p =
     (case get_burn (br_storage b) (ab_burn_id (wp_burn p)) of
        None \<Rightarrow> Err (ConsensusError ''Withdrawal burn is missing'')
      | Some u \<Rightarrow>
          if ab_tx_hash u \<noteq> ab_tx_hash (wp_burn p) \<or> ab_amount u \<noteq> ab_amount (wp_burn p)
             \<or> ab_eth_recipient u \<noteq> ab_eth_recipient (wp_burn p)
          then Err (ConsensusError ''Withdrawal proposal burn does not match stored burn'')
          else (case get_burn_status (br_storage b) (ab_burn_id (wp_burn p)) of
             Some status \<Rightarrow>
               if status = WdConfirmed \<or> status = WdWithdrawalProposed then Ok True
               else Err (ConsensusError (''Withdrawal burn is not ready for voting: '' @ show_withdrawal_status status))
           | None \<Rightarrow> Err (ConsensusError ''Withdrawal burn status is missing'')))"

fun process_mints :: "bridge_env \<Rightarrow> mint_proposal list \<Rightarrow> bridge_relayer \<Rightarrow> bridge_relayer \<times> unit bridge_result" where
  "process_mints E [] b = (b, Ok ())"
| "process_mints E (p # ps) b =
     (if mp_status p = MintVoting then
        (case should_vote_mint b p of
           Err e \<Rightarrow> (b, Err e)
         | Ok False \<Rightarrow> process_mints E ps b
         | Ok True \<Rightarrow>
             (case create_mint_vote E b of
                Err e \<Rightarrow> (b, Err e)
              | Ok vote \<Rightarrow> try_then (vote_mint E (mp_proposal_id p) vote b) (\<lambda>b _. process_mints E ps b)))
      else process_mints E ps b)"

fun process_withdrawals ::
    "bridge_env \<Rightarrow> withdrawal_proposal list \<Rightarrow> bridge_relayer \<Rightarrow> bridge_relayer \<times> unit bridge_result" where
  "process_withdrawals E [] b = (b, Ok ())"
| "process_withdrawals E (p # ps) b =
     (if wp_status p = WpVoting then
        (case should_vote_withdrawal b p of
           Err e \<Rightarrow> (b, Err e)
         | Ok False \<Rightarrow> process_withdrawals E ps b
         | Ok True \<Rightarrow>
             (case create_withdrawal_vote E b of
                Err e \<Rightarrow> (b, Err e)
              | Ok vote \<Rightarrow> try_then (vote_withdrawal E (wp_proposal_id p) vote b) (\<lambda>b _. process_withdrawals E ps b)))
      else process_withdrawals E ps b)"

definition process_pending :: "bridge_env \<Rightarrow> bridge_relayer \<Rightarrow> bridge_relayer \<times> unit bridge_result" where
  "process_pending E b =
     try_then (process_mints E (get_pending_mint_proposals E (br_storage b)) b) (\<lambda>b _.
       process_withdrawals E (get_pending_withdrawal_proposals E (br_storage b)) b)"

fun expire_mints :: "bridge_env \<Rightarrow> mint_proposal list \<Rightarrow> bridge_relayer \<Rightarrow> bridge_relayer \<times> unit bridge_result" where
  "expire_mints E [] b = (b, Ok ())"
| "expire_mints E (p # ps) b =
     (if be_now E - mp_created_at p > co_proposal_timeout_secs (bc_consensus (br_config b))
      then try_then (on_storage (update_mint_proposal_status E (mp_proposal_id p) MintExpired) b) (\<lambda>b _. expire_mints E ps b)
      else expire_mints E ps b)"

fun expire_withdrawals ::
    "bridge_env \<Rightarrow> withdrawal_proposal list \<Rightarrow> bridge_relayer \<Rightarrow> bridge_relayer \<times> unit bridge_result" where
  "expire_withdrawals E [] b = (b, Ok ())"
| "expire_withdrawals E (p # ps) b =
     (if be_now E - wp_created_at p > co_proposal_timeout_secs (bc_consensus (br_config b))
      then try_then (on_storage (update_withdrawal_proposal_status E (wp_proposal_id p) WpExpired) b) (\<lambda>b _. expire_withdrawals E ps b)
      else expire_withdrawals E ps b)"

definition check_timeouts :: "bridge_env \<Rightarrow> bridge_relayer \<Rightarrow> bridge_relayer \<times> unit bridge_result" where
  "check_timeouts E b =
     try_then (expire_mints E (get_pending_mint_proposals E (br_storage b)) b) (\<lambda>b _.
       expire_withdrawals E (get_pending_withdrawal_proposals E (br_storage b)) b)"

section \<open>The listeners\<close>

record eth_answers =
  ea_block_number :: "u64 bridge_result"
  ea_deposit_events :: "u64 \<Rightarrow> u64 \<Rightarrow> ethereum_deposit list bridge_result"
  ea_block_hash :: "u64 \<Rightarrow> bridge_hash bridge_result"

fun scan_deposits :: "bridge_env \<Rightarrow> u64 \<Rightarrow> ethereum_deposit list \<Rightarrow> ethereum_event list \<Rightarrow> bridge_relayer
    \<Rightarrow> bridge_relayer \<times> ethereum_event list bridge_result" where
  "scan_deposits E current [] events b = (b, Ok events)"
| "scan_deposits E current (d # ds) events b =
     (if has_deposit (br_storage b) (ed_deposit_id d) then scan_deposits E current ds events b
      else if saturating_sub current (ed_block_number d) \<ge> ec_confirmations (bc_ethereum (br_config b)) then
        try_then (on_storage (store_deposit E d) b) (\<lambda>b _.
          scan_deposits E current ds (events @ [EthDepositFinalized (ed_deposit_id d) (ed_block_number d), EthDeposit d])
            (count_up increment_eth_deposits b))
      else scan_deposits E current ds (events @ [EthDeposit d]) b)"

definition poll_eth_events ::
    "bridge_env \<Rightarrow> eth_answers \<Rightarrow> bridge_relayer \<Rightarrow> bridge_relayer \<times> ethereum_event list bridge_result" where
  "poll_eth_events E A b =
     (case ea_block_number A of
        Err e \<Rightarrow> (b, Err e)
      | Ok current \<Rightarrow>
          if current \<le> br_eth_last_block b then (b, Ok [])
          else let from_block = br_eth_last_block b + 1;
                   to_block = min current (from_block + ec_max_blocks_per_scan (bc_ethereum (br_config b)) - 1)
          in case ea_deposit_events A from_block to_block of
               Err e \<Rightarrow> (b, Err e)
             | Ok deposits \<Rightarrow>
                 try_then (scan_deposits E current deposits [] b) (\<lambda>b events.
                   (case ea_block_hash A to_block of
                      Err e \<Rightarrow> (b, Err e)
                    | Ok h \<Rightarrow>
                        let b = b\<lparr>br_eth_last_block := to_block\<rparr>
                        in try_then (on_storage (set_last_eth_block E to_block) b)
                             (\<lambda>b _. (b, Ok (events @ [EthNewBlock to_block h (be_now E)]))))))"

record mint_event =
  me_proposal_id :: bridge_hash
  me_recipient :: aethelred_address
  me_amount :: u128
  me_tx_hash :: bridge_hash

record aeth_answers =
  aa_block_height :: "u64 bridge_result"
  aa_burn_events :: "u64 \<Rightarrow> u64 \<Rightarrow> aethelred_burn list bridge_result"
  aa_mint_events :: "u64 \<Rightarrow> u64 \<Rightarrow> mint_event list bridge_result"
  aa_block_hash :: "u64 \<Rightarrow> bridge_hash bridge_result"

fun scan_burns :: "bridge_env \<Rightarrow> u64 \<Rightarrow> aethelred_burn list \<Rightarrow> aethelred_event list \<Rightarrow> bridge_relayer
    \<Rightarrow> bridge_relayer \<times> aethelred_event list bridge_result" where
  "scan_burns E current [] events b = (b, Ok events)"
| "scan_burns E current (u # us) events b =
     (if has_burn (br_storage b) (ab_burn_id u) then scan_burns E current us events b
      else if saturating_sub current (ab_block_height u) \<ge> ae_confirmations (bc_aethelred (br_config b)) then
        try_then (on_storage (store_burn E u) b) (\<lambda>b _.
          scan_burns E current us (events @ [AethBurnFinalized (ab_burn_id u) (ab_block_height u), AethBurn u])
            (count_up increment_aethelred_burns b))
      else scan_burns E current us (events @ [AethBurn u]) b)"

definition mint_completed :: "mint_event \<Rightarrow> aethelred_event" where
  "mint_completed m = AethMintCompleted (me_proposal_id m) (me_recipient m) (me_amount m) (me_tx_hash m)"

definition poll_aeth_events ::
    "bridge_env \<Rightarrow> aeth_answers \<Rightarrow> bridge_relayer \<Rightarrow> bridge_relayer \<times> aethelred_event list bridge_result" where
  "poll_aeth_events E A b =
     (case aa_block_height A of
        Err e \<Rightarrow> (b, Err e)
      | Ok current \<Rightarrow>
          if current \<le> br_aeth_last_block b then (b, Ok [])
          else let from_block = br_aeth_last_block b + 1; to_block = current
          in case aa_burn_events A from_block to_block of
               Err e \<Rightarrow> (b, Err e)
             | Ok burns \<Rightarrow>
                 try_then (scan_burns E current burns [] b) (\<lambda>b events.
                   (case aa_mint_events A from_block to_block of
                      Err e \<Rightarrow> (b, Err e)
                    | Ok mints \<Rightarrow>
                        let b = foldl (\<lambda>b _. count_up increment_aethelred_mints b) b mints;
                            events = events @ map mint_completed mints
                        in case aa_block_hash A to_block of
                             Err e \<Rightarrow> (b, Err e)
                           | Ok h \<Rightarrow>
                               let b = b\<lparr>br_aeth_last_block := to_block\<rparr>
                               in try_then (on_storage (set_last_aethelred_block E to_block) b)
                                    (\<lambda>b _. (b, Ok (events @ [AethNewBlock to_block h (be_now E)]))))))"

section \<open>The loops\<close>

text \<open>The listener loops log a failed event and go on with the next one.\<close>

definition run_eth_listener :: "bridge_env \<Rightarrow> ethereum_event list \<Rightarrow> bridge_relayer \<Rightarrow> bridge_relayer" where
  "run_eth_listener E events b = foldl (\<lambda>b ev. fst (process_ethereum_event E ev b)) b events"

definition run_aethelred_listener :: "bridge_env \<Rightarrow> aethelred_event list \<Rightarrow> bridge_relayer \<Rightarrow> bridge_relayer" where
  "run_aethelred_listener E events b = foldl (\<lambda>b ev. fst (process_aethelred_event E ev b)) b events"

definition consensus_round :: "bridge_env \<Rightarrow> bridge_relayer \<Rightarrow> bridge_relayer" where
  "consensus_round E b = fst (check_timeouts E (fst (process_pending E b)))"

end
