(* ===== verification/Bridge_Properties.thy ===== *)
theory Bridge_Properties
  imports Bridge
begin

text \<open>
  Runs of the bridge relayer. A run interleaves polls of the two listeners, the handling of the events
  they queued, consensus rounds, votes that arrive from other relayers, changes of the relayer set and
  restarts from the snapshot file. The locale \<open>store_invariant\<close> is the contract between the store and the
  components above it: a property that the updates of the store keep holds, in memory and in the snapshot,
  in every run.
\<close>

section \<open>Views of the store\<close>

definition deposit_of :: "persisted_bridge_state \<Rightarrow> bridge_hash \<Rightarrow> ethereum_deposit option" where
  "deposit_of st k =
     (case hm_get (pb_deposits st) k of Some d \<Rightarrow> Some d | None \<Rightarrow> hm_get (pb_pending_deposits st) k)"

definition burn_of :: "persisted_bridge_state \<Rightarrow> bridge_hash \<Rightarrow> aethelred_burn option" where
  "burn_of st k = (case hm_get (pb_burns st) k of Some u \<Rightarrow> Some u | None \<Rightarrow> hm_get (pb_pending_burns st) k)"

lemma store_views:
  "has_deposit s k \<longleftrightarrow> deposit_of (bs_state s) k \<noteq> None" "get_deposit s k = deposit_of (bs_state s) k"
  "has_burn s k \<longleftrightarrow> burn_of (bs_state s) k \<noteq> None" "get_burn s k = burn_of (bs_state s) k"
  by (auto simp: has_deposit_def get_deposit_def deposit_of_def has_burn_def get_burn_def burn_of_def split: option.splits)

lemma mutate_state_memory [simp]: "bs_state (fst (mutate_state E f s)) = f (bs_state s)"
  by (simp add: mutate_state_def persist_state_def Let_def split: result.splits option.splits)

lemma on_storage_views [simp]:
  "br_storage (fst (on_storage f b)) = fst (f (br_storage b))" "br_config (fst (on_storage f b)) = br_config b"
  "br_pending_mints (fst (on_storage f b)) = br_pending_mints b"
  "br_pending_withdrawals (fst (on_storage f b)) = br_pending_withdrawals b"
  by (simp_all add: on_storage_def split_beta)

lemma count_up_views [simp]:
  "br_storage (count_up f b) = br_storage b" "br_config (count_up f b) = br_config b"
  "br_pending_mints (count_up f b) = br_pending_mints b" "br_pending_withdrawals (count_up f b) = br_pending_withdrawals b"
  by (simp_all add: count_up_def)

section \<open>Votes\<close>

lemma votes_refused [simp]: "fst (vote_mint E p v b) = b" "fst (vote_withdrawal E p v b) = b"
  by (simp_all add: vote_mint_def vote_withdrawal_def verify_vote_signature_def)

lemma no_own_votes: "create_mint_vote E b \<noteq> Ok v" "create_withdrawal_vote E b \<noteq> Ok v"
  by (auto simp: create_mint_vote_def create_withdrawal_vote_def split: result.splits)

lemma process_mints_idle [simp]: "fst (process_mints E ps b) = b"
  by (induction ps) (auto simp: no_own_votes split: result.splits bool.splits)

lemma process_withdrawals_idle [simp]: "fst (process_withdrawals E ps b) = b"
  by (induction ps) (auto simp: no_own_votes split: result.splits bool.splits)

lemma process_pending_idle [simp]: "fst (process_pending E b) = b"
proof -
  obtain r where "process_mints E (get_pending_mint_proposals E (br_storage b)) b = (b, r)"
    using process_mints_idle by (metis prod.collapse)
  then show ?thesis by (cases r) (simp_all add: process_pending_def)
qed

section \<open>Runs\<close>

definition same_code :: "bridge_env \<Rightarrow> bridge_env \<Rightarrow> bool" where
  "same_code K E \<longleftrightarrow> be_sha256 E = be_sha256 K \<and> be_serialize E = be_serialize K \<and> be_deserialize E = be_deserialize K"

definition codec_faithful :: "bridge_env \<Rightarrow> bool" where
  "codec_faithful K \<longleftrightarrow> (\<forall>st bs. be_serialize K st = Ok bs \<longrightarrow> bs \<noteq> [] \<and> be_deserialize K bs = Ok st)"

lemma load_state_code: "same_code K E \<Longrightarrow> load_state E file = load_state K file"
  by (simp add: load_state_def same_code_def split: option.splits)

lemma mutate_state_Ok:
  assumes "mutate_state E f s = (s', Ok u)" and "codec_faithful K" and "same_code K E"
  shows "bs_state s' = f (bs_state s)" and "load_state K (bs_file s') = Ok (f (bs_state s))"
  using assms
  by (auto simp: mutate_state_def persist_state_def Let_def codec_faithful_def same_code_def load_state_def
      split: result.splits option.splits)

type_synonym bridge_system = "bridge_relayer \<times> ethereum_event list \<times> aethelred_event list"

definition polled :: "'a list bridge_result \<Rightarrow> 'a list" where
  "polled r = (case r of Ok evs \<Rightarrow> evs | Err _ \<Rightarrow> [])"

inductive bridge_step :: "bridge_env \<Rightarrow> bridge_system \<Rightarrow> bridge_system \<Rightarrow> bool" for K where
  poll_eth: "same_code K E \<Longrightarrow> poll_eth_events E A b = (b', r) \<Longrightarrow> bridge_step K (b, qe, qa) (b', qe @ polled r, qa)"
| poll_aeth: "same_code K E \<Longrightarrow> poll_aeth_events E B b = (b', r') \<Longrightarrow> bridge_step K (b, qe, qa) (b', qe, qa @ polled r')"
| eth_event: "same_code K E \<Longrightarrow> bridge_step K (b, ev # qe, qa) (fst (process_ethereum_event E ev b), qe, qa)"
| aeth_event: "same_code K E \<Longrightarrow> bridge_step K (b, qe, ev # qa) (fst (process_aethelred_event E ev b), qe, qa)"
| consensus: "same_code K E \<Longrightarrow> bridge_step K (b, qe, qa) (consensus_round E b, qe, qa)"
| mint_vote: "same_code K E \<Longrightarrow> bridge_step K (b, qe, qa) (fst (vote_mint E p v b), qe, qa)"
| withdrawal_vote: "same_code K E \<Longrightarrow> bridge_step K (b, qe, qa) (fst (vote_withdrawal E p v b), qe, qa)"
| relayers: "bridge_step K (b, qe, qa) (update_relayer_set rs b, qe, qa)"
| restart: "same_code K E \<Longrightarrow> bridge_relayer_new E c (bs_file (br_storage b)) = Ok b' \<Longrightarrow> bridge_step K (b, qe, qa) (b', [], [])"

abbreviation bridge_steps :: "bridge_env \<Rightarrow> bridge_system \<Rightarrow> bridge_system \<Rightarrow> bool" where
  "bridge_steps K \<equiv> (bridge_step K)\<^sup>*\<^sup>*"

section \<open>Invariants of the store\<close>

definition new_mint_proposal :: "(bytes \<Rightarrow> bytes) \<Rightarrow> ethereum_deposit \<Rightarrow> aethelred_address \<Rightarrow> u64 \<Rightarrow> mint_proposal" where
  "new_mint_proposal sha d proposer now =
     \<lparr>mp_proposal_id = deposit_generate_id sha d, mp_deposit = d, mp_proposer = proposer, mp_votes = [],
      mp_status = MintVoting, mp_created_at = now, mp_updated_at = now\<rparr>"

definition new_withdrawal_proposal :: "bridge_hash \<Rightarrow> aethelred_burn \<Rightarrow> aethelred_address \<Rightarrow> u64 \<Rightarrow> withdrawal_proposal" where
  "new_withdrawal_proposal k u proposer now =
     \<lparr>wp_proposal_id = k, wp_burn = u, wp_proposer = proposer, wp_votes = [], wp_status = WpVoting,
      wp_created_at = now, wp_challenge_end_time = 0, wp_updated_at = now\<rparr>"

lemma new_proposal_ids:
  "mp_proposal_id (new_mint_proposal sha d a n) = deposit_generate_id sha d" "wp_proposal_id (new_withdrawal_proposal k u a n) = k"
  by (simp_all add: new_mint_proposal_def new_withdrawal_proposal_def)

locale store_invariant =
  fixes sha :: "bytes \<Rightarrow> bytes" and allowed :: "bridge_hash \<Rightarrow> bool" and P :: "persisted_bridge_state \<Rightarrow> bool"
  assumes eth_block: "P st \<Longrightarrow> P (st\<lparr>pb_last_eth_block := v\<rparr>)"
    and aeth_block: "P st \<Longrightarrow> P (st\<lparr>pb_last_aethelred_block := v\<rparr>)"
    and new_deposit: "P st \<Longrightarrow> deposit_of st (ed_deposit_id d) = None \<Longrightarrow> P (store_deposit_in d st)"
    and new_pending: "P st \<Longrightarrow> deposit_of st (ed_deposit_id d) = None \<Longrightarrow> P (store_pending_deposit_in d st)"
    and deposit_status: "P st \<Longrightarrow> P (update_deposit_status_in k ds st)"
    and new_burn: "P st \<Longrightarrow> burn_of st (ab_burn_id u) = None \<Longrightarrow> P (store_burn_in u st)"
    and new_pending_burn: "P st \<Longrightarrow> burn_of st (ab_burn_id u) = None \<Longrightarrow> P (store_pending_burn_in u st)"
    and burn_status: "P st \<Longrightarrow> P (update_burn_status_in k ws st)"
    and withdrawal_status: "P st \<Longrightarrow> P (st\<lparr>pb_burn_statuses := hm_insert k ws (pb_burn_statuses st)\<rparr>)"
    and mint_proposal: "P st \<Longrightarrow> deposit_of st k = Some d \<Longrightarrow> allowed k
      \<Longrightarrow> P (st\<lparr>pb_mint_proposals := hm_insert (deposit_generate_id sha d) (new_mint_proposal sha d a n) (pb_mint_proposals st)\<rparr>)"
    and mint_status: "P st \<Longrightarrow> ms = MintDone \<or> ms = MintExpired \<Longrightarrow> P (update_mint_proposal_status_in n k ms st)"
    and withdrawal_proposal: "P st \<Longrightarrow> burn_of st k = Some u
      \<Longrightarrow> P (st\<lparr>pb_withdrawal_proposals := hm_insert k (new_withdrawal_proposal k u a n) (pb_withdrawal_proposals st)\<rparr>)"
    and withdrawal_expiry: "P st \<Longrightarrow> P (update_withdrawal_proposal_status_in n k WpExpired st)"
    and fresh_allowed: "P st \<Longrightarrow> deposit_of st k = None \<Longrightarrow> allowed k"
begin

text \<open>The property in memory and after a restart, and no vote is pending.\<close>

definition holds :: "bridge_env \<Rightarrow> bridge_relayer \<Rightarrow> bool" where
  "holds K b \<longleftrightarrow> P (bs_state (br_storage b)) \<and> (\<forall>st. load_state K (bs_file (br_storage b)) = Ok st \<longrightarrow> P st)
     \<and> br_pending_mints b = [] \<and> br_pending_withdrawals b = []"

lemma holds_memory: "holds K b \<Longrightarrow> P (bs_state (br_storage b))"
  by (simp add: holds_def)

lemma holds_count_up [simp]: "holds K (count_up f b) \<longleftrightarrow> holds K b"
  by (simp add: holds_def)

lemma holds_block [simp]:
  "holds K (b\<lparr>br_eth_last_block := n\<rparr>) \<longleftrightarrow> holds K b" "holds K (b\<lparr>br_aeth_last_block := n\<rparr>) \<longleftrightarrow> holds K b"
  "holds K (b\<lparr>br_relayer_set := rs\<rparr>) \<longleftrightarrow> holds K b"
  by (simp_all add: holds_def)

lemma mutate_holds:
  assumes "codec_faithful K" and "same_code K E" and "holds K b" and "P (f (bs_state (br_storage b)))"
  shows "holds K (fst (on_storage (mutate_state E f) b))"
  using assms
  by (auto simp: holds_def mutate_state_def persist_state_def Let_def codec_faithful_def same_code_def load_state_def
      split: result.splits option.splits)

lemma holds_try:
  assumes "holds K (fst m)" and "\<And>s a. m = (s, Ok a) \<Longrightarrow> holds K s \<Longrightarrow> holds K (fst (f s a))"
  shows "holds K (fst (try_then m f))"
  using assms by (cases m; cases "snd m") auto

lemma holds_try_fst:
  assumes "holds K (fst m)" and "\<And>a. holds K (fst (f (fst m) a))"
  shows "holds K (fst (try_then m f))"
  using assms by (intro holds_try) (simp, metis fst_conv)

definition permitted :: "ethereum_event \<Rightarrow> bool" where
  "permitted ev \<longleftrightarrow> (\<forall>k n. ev = EthDepositFinalized k n \<longrightarrow> allowed k)"

lemma handle_eth_deposit_holds:
  assumes "codec_faithful K" and "same_code K E" and "holds K b"
  shows "holds K (fst (handle_eth_deposit E d b))"
proof -
  have "deposit_of (bs_state (br_storage b)) (ed_deposit_id d) = None" if "validate_deposit b d = Ok ()"
    using that by (auto simp: validate_deposit_def store_views split: if_splits)
  then show ?thesis
    using assms unfolding handle_eth_deposit_def store_pending_deposit_def
    by (auto split: result.split intro!: holds_try mutate_holds new_pending holds_memory)
qed

lemma handle_eth_deposit_finalized_holds:
  assumes "codec_faithful K" and "same_code K E" and "be_sha256 K = sha" and "holds K b" and "allowed k"
  shows "holds K (fst (handle_eth_deposit_finalized E k b))"
proof (cases "deposit_of (bs_state (br_storage b)) k")
  case (Some d)
  let ?upd = "on_storage (update_deposit_status E k DepConfirmed) b"
  have upd: "holds K (fst ?upd)"
    using assms unfolding update_deposit_status_def by (intro mutate_holds deposit_status holds_memory)
  have dep: "deposit_of (bs_state (br_storage (fst ?upd))) k = Some d"
    using Some by (simp add: update_deposit_status_def update_deposit_status_in_def deposit_of_def Let_def split: option.splits)
  have "holds K (fst (on_storage (store_mint_proposal E (new_mint_proposal sha d a n)) (fst ?upd)))" for a n
    unfolding store_mint_proposal_def new_proposal_ids
    by (rule mutate_holds [OF assms(1,2) upd]) (rule mint_proposal [OF holds_memory [OF upd] dep assms(5)])
  then have "holds K (fst (try_then ?upd (\<lambda>b _. on_storage (store_mint_proposal E (new_mint_proposal sha d a n)) b)))" for a n
    by (intro holds_try_fst upd)
  then show ?thesis
    using assms Some by (auto simp: handle_eth_deposit_finalized_def store_views new_mint_proposal_def same_code_def split: result.split)
qed (use assms in \<open>simp add: handle_eth_deposit_finalized_def store_views\<close>)

lemma handle_eth_reorg_holds:
  assumes "codec_faithful K" and "same_code K E" and "holds K b"
  shows "holds K (fst (handle_eth_reorg E ks b))"
  using assms(3)
proof (induction ks arbitrary: b)
  case (Cons k ks)
  then show ?case
    using assms(1,2) by (auto simp: update_deposit_status_def intro!: holds_try mutate_holds deposit_status holds_memory)
qed simp

lemma process_ethereum_event_holds:
  assumes "codec_faithful K" and "same_code K E" and "be_sha256 K = sha" and "holds K b" and "permitted ev"
  shows "holds K (fst (process_ethereum_event E ev b))"
proof (cases ev)
  case (EthWithdrawalProcessed p r a t)
  then show ?thesis
    using assms by (auto simp: handle_eth_withdrawal_processed_def update_withdrawal_status_def
        intro!: holds_try mutate_holds withdrawal_status holds_memory)
qed (use assms in \<open>simp_all add: handle_eth_deposit_holds handle_eth_deposit_finalized_holds handle_eth_reorg_holds permitted_def\<close>)

lemma handle_aethelred_burn_finalized_holds:
  assumes "codec_faithful K" and "same_code K E" and "holds K b"
  shows "holds K (fst (handle_aethelred_burn_finalized E k b))"
proof (cases "burn_of (bs_state (br_storage b)) k")
  case (Some u)
  let ?upd = "on_storage (update_burn_status E k WdConfirmed) b"
  have upd: "holds K (fst ?upd)"
    using assms unfolding update_burn_status_def by (intro mutate_holds burn_status holds_memory)
  have burn: "burn_of (bs_state (br_storage (fst ?upd))) k = Some u"
    using Some by (simp add: update_burn_status_def update_burn_status_in_def burn_of_def Let_def split: option.splits)
  have "holds K (fst (on_storage (store_withdrawal_proposal E (new_withdrawal_proposal k u a n)) (fst ?upd)))" for a n
    unfolding store_withdrawal_proposal_def new_proposal_ids
    by (rule mutate_holds [OF assms(1,2) upd]) (rule withdrawal_proposal [OF holds_memory [OF upd] burn])
  then have "holds K (fst (try_then ?upd (\<lambda>b _. on_storage (store_withdrawal_proposal E (new_withdrawal_proposal k u a n)) b)))" for a n
    by (intro holds_try_fst upd)
  then show ?thesis
    using assms Some by (auto simp: handle_aethelred_burn_finalized_def store_views new_withdrawal_proposal_def split: result.split)
qed (use assms in \<open>simp add: handle_aethelred_burn_finalized_def store_views\<close>)

lemma process_aethelred_event_holds:
  assumes "codec_faithful K" and "same_code K E" and "holds K b"
  shows "holds K (fst (process_aethelred_event E ev b))"
proof (cases ev)
  case (AethBurn u)
  have "burn_of (bs_state (br_storage b)) (ab_burn_id u) = None" if "validate_burn b u = Ok ()"
    using that by (auto simp: validate_burn_def store_views split: if_splits)
  then show ?thesis
    using assms AethBurn unfolding process_aethelred_event.simps handle_aethelred_burn_def store_pending_burn_def
    by (auto simp: handle_aethelred_burn_def store_pending_burn_def split: result.split intro!: mutate_holds new_pending_burn holds_memory)
next
  case (AethMintCompleted p r a t)
  then show ?thesis
    using assms by (auto simp: handle_aethelred_mint_completed_def update_mint_proposal_status_def update_deposit_status_def
        intro!: holds_try mutate_holds mint_status deposit_status holds_memory split: option.split)
qed (use assms in \<open>simp_all add: handle_aethelred_burn_finalized_holds\<close>)

lemma consensus_round_holds:
  assumes "codec_faithful K" and "same_code K E" and "holds K b"
  shows "holds K (consensus_round E b)"
proof -
  have mints: "holds K b \<Longrightarrow> holds K (fst (expire_mints E ps b))" for ps b
    using assms(1,2) by (induction ps arbitrary: b)
      (auto simp: update_mint_proposal_status_def intro!: holds_try mutate_holds mint_status holds_memory)
  have withdrawals: "holds K b \<Longrightarrow> holds K (fst (expire_withdrawals E ps b))" for ps b
    using assms(1,2) by (induction ps arbitrary: b)
      (auto simp: update_withdrawal_proposal_status_def intro!: holds_try mutate_holds withdrawal_expiry holds_memory)
  show ?thesis
    unfolding consensus_round_def check_timeouts_def process_pending_idle
    by (rule holds_try) (auto intro: mints withdrawals assms(3))
qed

lemma scan_deposits_holds:
  assumes "codec_faithful K" and "same_code K E" and "holds K b" and "list_all permitted evs"
  shows "holds K (fst (scan_deposits E n ds evs b))
    \<and> (\<forall>b' evs'. scan_deposits E n ds evs b = (b', Ok evs') \<longrightarrow> list_all permitted evs')"
  using assms(3,4)
proof (induction ds arbitrary: evs b)
  case (Cons d ds)
  let ?fin = "evs @ [EthDepositFinalized (ed_deposit_id d) (ed_block_number d), EthDeposit d]"
  show ?case
  proof (cases "deposit_of (bs_state (br_storage b)) (ed_deposit_id d)")
    case None
    have st: "holds K (fst (on_storage (store_deposit E d) b))"
      using assms(1,2) Cons.prems None unfolding store_deposit_def by (intro mutate_holds new_deposit holds_memory) auto
    have "permitted (EthDepositFinalized (ed_deposit_id d) (ed_block_number d))" "permitted (EthDeposit d)"
      using fresh_allowed [OF holds_memory [OF Cons.prems(1)] None] by (simp_all add: permitted_def)
    then have per: "list_all permitted ?fin" "list_all permitted (evs @ [EthDeposit d])" using Cons.prems(2) by simp_all
    obtain b1 r where b1: "on_storage (store_deposit E d) b = (b1, r)" by fastforce
    then show ?thesis
      using Cons.IH [of "count_up increment_eth_deposits b1" ?fin] Cons.IH [of b "evs @ [EthDeposit d]"] st per Cons.prems None
      by (cases r) (simp_all add: store_views)
  qed (use Cons in \<open>simp add: store_views\<close>)
qed simp

lemma poll_eth_events_holds:
  assumes "codec_faithful K" and "same_code K E" and "holds K b" and "poll_eth_events E A b = (b', r)"
  shows "holds K b' \<and> list_all permitted (polled r)"
proof -
  have set: "holds K b1 \<Longrightarrow> holds K (fst (on_storage (set_last_eth_block E n) b1))" for b1 n
    using assms(1,2) unfolding set_last_eth_block_def by (intro mutate_holds eth_block holds_memory)
  have "holds K b1 \<and> (\<forall>evs. x = Ok evs \<longrightarrow> list_all permitted evs)" if "scan_deposits E n ds [] b = (b1, x)" for n ds b1 x
    using scan_deposits_holds [OF assms(1,2,3), of "[]" n ds] that by auto
  then show ?thesis
    using assms(3,4) set unfolding poll_eth_events_def
    by (auto simp: Let_def polled_def permitted_def try_then_def split: result.splits if_splits prod.splits)
      (metis fst_conv holds_block(1))+
qed

lemma scan_burns_holds:
  assumes "codec_faithful K" and "same_code K E" and "holds K b"
  shows "holds K (fst (scan_burns E n us evs b))"
  using assms(3)
proof (induction us arbitrary: evs b)
  case (Cons u us)
  show ?case
  proof (cases "burn_of (bs_state (br_storage b)) (ab_burn_id u)")
    case None
    have st: "holds K (fst (on_storage (store_burn E u) b))"
      using assms(1,2) Cons.prems None unfolding store_burn_def by (intro mutate_holds new_burn holds_memory)
    obtain b1 r where b1: "on_storage (store_burn E u) b = (b1, r)" by fastforce
    then show ?thesis using Cons.IH [of "count_up increment_aethelred_burns b1"] Cons.IH [of b] st Cons.prems None
      by (cases r) (simp_all add: store_views)
  qed (use Cons in \<open>simp add: store_views\<close>)
qed simp

lemma poll_aeth_events_holds:
  assumes "codec_faithful K" and "same_code K E" and "holds K b" and "poll_aeth_events E B b = (b', r)"
  shows "holds K b'"
proof -
  have set: "holds K b1 \<Longrightarrow> holds K (fst (on_storage (set_last_aethelred_block E n) b1))" for b1 n
    using assms(1,2) unfolding set_last_aethelred_block_def by (intro mutate_holds aeth_block holds_memory)
  have scan: "holds K b1" if "scan_burns E n us [] b = (b1, x)" for n us b1 x
    using scan_burns_holds [OF assms(1,2,3), of n us "[]"] that by auto
  have count: "holds K b1 \<Longrightarrow> holds K (foldl (\<lambda>b _. count_up f b) b1 ms)" for b1 f and ms :: "mint_event list"
    by (induction ms arbitrary: b1) simp_all
  show ?thesis
    using assms(3,4) set scan count unfolding poll_aeth_events_def
    by (auto simp: Let_def try_then_def split: result.splits if_splits prod.splits) (metis fst_conv holds_block(2))+
qed

definition system_holds :: "bridge_env \<Rightarrow> bridge_system \<Rightarrow> bool" where
  "system_holds K s = (case s of (b, qe, qa) \<Rightarrow> holds K b \<and> list_all permitted qe)"

lemma step_holds:
  assumes "bridge_step K s s'" and "codec_faithful K" and "be_sha256 K = sha" and "system_holds K s"
  shows "system_holds K s'"
  using assms
proof (induction rule: bridge_step.induct)
  case (poll_eth E A b b' r qe qa)
  then show ?case using poll_eth_events_holds by (fastforce simp: system_holds_def)
next
  case (restart E c b b' qe qa)
  then show ?case
    by (auto simp: system_holds_def holds_def bridge_relayer_new_def storage_open_def load_state_code)
qed (auto simp: system_holds_def update_relayer_set_def process_ethereum_event_holds process_aethelred_event_holds
    consensus_round_holds poll_aeth_events_holds)

lemma steps_hold:
  assumes "bridge_steps K s s'" and "codec_faithful K" and "be_sha256 K = sha" and "system_holds K s"
  shows "system_holds K s'"
  using assms by (induction rule: rtranclp_induct) (auto intro: step_holds)

end

section \<open>The relayer fails closed\<close>

definition undecided :: "persisted_bridge_state \<Rightarrow> bool" where
  "undecided st \<longleftrightarrow> (\<forall>k p. hm_get (pb_mint_proposals st) k = Some p \<longrightarrow> mp_status p \<in> {MintVoting, MintDone, MintExpired})
     \<and> (\<forall>k p. hm_get (pb_withdrawal_proposals st) k = Some p \<longrightarrow> wp_status p \<in> {WpVoting, WpExpired})"

lemmas store_updates = store_deposit_in_def store_pending_deposit_in_def update_deposit_status_in_def store_burn_in_def
  store_pending_burn_in_def update_burn_status_in_def update_mint_proposal_status_in_def update_withdrawal_proposal_status_in_def
  new_mint_proposal_def new_withdrawal_proposal_def Let_def

interpretation undecided: store_invariant sha "\<lambda>_. True" undecided for sha
  by unfold_locales (auto simp: undecided_def store_updates split: option.splits if_splits)

lemma new_relayer_holds:
  assumes "bridge_relayer_new E c None = Ok b"
  shows "br_storage b = \<lparr>bs_file = None, bs_state = persisted_default\<rparr>" and "br_pending_mints b = []" and "br_pending_withdrawals b = []"
  using assms by (auto simp: bridge_relayer_new_def storage_open_def load_state_def)

text \<open>
  The bridge fails closed. In every run of a relayer that starts with an empty store, whatever the
  remote nodes answer, whichever votes arrive, however often the relayer restarts and whichever writes of
  the snapshot fail: no vote is ever counted, no mint proposal reaches consensus (it is being voted on,
  reported as minted by the chain, or expired), and no withdrawal proposal is submitted to Ethereum.
\<close>
theorem bridge_fails_closed:
  assumes "codec_faithful K" and "bridge_relayer_new E c None = Ok b0" and "bridge_steps K (b0, [], []) (b, qe, qa)"
  shows "br_pending_mints b = [] \<and> br_pending_withdrawals b = []
    \<and> (\<forall>k p. get_mint_proposal (br_storage b) k = Some p \<longrightarrow> mp_status p \<in> {MintVoting, MintDone, MintExpired})
    \<and> (\<forall>k p. get_withdrawal_proposal (br_storage b) k = Some p \<longrightarrow> wp_status p \<in> {WpVoting, WpExpired})"
proof -
  have "undecided.system_holds K (b0, [], [])"
    using new_relayer_holds [OF assms(2)]
    by (simp add: undecided.system_holds_def undecided.holds_def load_state_def persisted_default_def undecided_def)
  then have "undecided.system_holds K (b, qe, qa)" using undecided.steps_hold [OF assms(3,1)] by simp
  then show ?thesis
    by (auto simp: undecided.system_holds_def undecided.holds_def undecided_def get_mint_proposal_def get_withdrawal_proposal_def)
qed

section \<open>Proposals are backed\<close>

definition backed :: "(bytes \<Rightarrow> bytes) \<Rightarrow> persisted_bridge_state \<Rightarrow> bool" where
  "backed sha st \<longleftrightarrow> (\<forall>k d. deposit_of st k = Some d \<longrightarrow> ed_deposit_id d = k) \<and> (\<forall>k u. burn_of st k = Some u \<longrightarrow> ab_burn_id u = k)
     \<and> (\<forall>k. hm_get (pb_deposits st) k = None \<or> hm_get (pb_pending_deposits st) k = None)
     \<and> (\<forall>k. hm_get (pb_burns st) k = None \<or> hm_get (pb_pending_burns st) k = None)
     \<and> (\<forall>k p. hm_get (pb_mint_proposals st) k = Some p \<longrightarrow>
          k = deposit_generate_id sha (mp_deposit p) \<and> deposit_of st (ed_deposit_id (mp_deposit p)) = Some (mp_deposit p))
     \<and> (\<forall>k p. hm_get (pb_withdrawal_proposals st) k = Some p \<longrightarrow> burn_of st k = Some (wp_burn p))"

lemma deposit_of_updates [simp]:
  "deposit_of (store_deposit_in d st) = (deposit_of st)(ed_deposit_id d \<mapsto> d)"
  "deposit_of st (ed_deposit_id d) = None \<Longrightarrow> deposit_of (store_pending_deposit_in d st) = (deposit_of st)(ed_deposit_id d \<mapsto> d)"
  "deposit_of (store_burn_in u st) = deposit_of st" "deposit_of (store_pending_burn_in u st) = deposit_of st"
  "deposit_of (update_burn_status_in k ws st) = deposit_of st" "deposit_of (st\<lparr>pb_burn_statuses := bs\<rparr>) = deposit_of st"
  "deposit_of (st\<lparr>pb_last_eth_block := v\<rparr>) = deposit_of st" "deposit_of (st\<lparr>pb_last_aethelred_block := v\<rparr>) = deposit_of st"
  "deposit_of (st\<lparr>pb_mint_proposals := mps\<rparr>) = deposit_of st" "deposit_of (st\<lparr>pb_withdrawal_proposals := wps\<rparr>) = deposit_of st"
  "deposit_of (update_mint_proposal_status_in n k ms st) = deposit_of st"
  "deposit_of (update_withdrawal_proposal_status_in n k wpst st) = deposit_of st"
  by (auto simp: deposit_of_def store_updates fun_eq_iff split: option.splits)

lemma burn_of_updates [simp]:
  "burn_of (store_burn_in u st) = (burn_of st)(ab_burn_id u \<mapsto> u)"
  "burn_of st (ab_burn_id u) = None \<Longrightarrow> burn_of (store_pending_burn_in u st) = (burn_of st)(ab_burn_id u \<mapsto> u)"
  "burn_of (store_deposit_in d st) = burn_of st" "burn_of (store_pending_deposit_in d st) = burn_of st"
  "burn_of (update_deposit_status_in k ds st) = burn_of st" "burn_of (st\<lparr>pb_burn_statuses := bs\<rparr>) = burn_of st"
  "burn_of (st\<lparr>pb_last_eth_block := v\<rparr>) = burn_of st" "burn_of (st\<lparr>pb_last_aethelred_block := v\<rparr>) = burn_of st"
  "burn_of (st\<lparr>pb_mint_proposals := mps\<rparr>) = burn_of st" "burn_of (st\<lparr>pb_withdrawal_proposals := wps\<rparr>) = burn_of st"
  "burn_of (update_mint_proposal_status_in n k ms st) = burn_of st"
  "burn_of (update_withdrawal_proposal_status_in n k wpst st) = burn_of st"
  by (auto simp: burn_of_def store_updates fun_eq_iff split: option.splits)

lemma status_keeps_deposits:
  assumes "\<forall>k. hm_get (pb_deposits st) k = None \<or> hm_get (pb_pending_deposits st) k = None"
  shows "deposit_of (update_deposit_status_in k ds st) = deposit_of st"
  using assms [rule_format, of k] by (auto simp: deposit_of_def update_deposit_status_in_def fun_eq_iff Let_def split: option.splits)

lemma status_keeps_burns:
  assumes "\<forall>k. hm_get (pb_burns st) k = None \<or> hm_get (pb_pending_burns st) k = None"
  shows "burn_of (update_burn_status_in k ws st) = burn_of st"
  using assms [rule_format, of k] by (auto simp: burn_of_def update_burn_status_in_def fun_eq_iff Let_def split: option.splits)


lemma backed_keys: "backed sha st \<Longrightarrow> deposit_of st k = Some d \<Longrightarrow> ed_deposit_id d = k"
  by (simp add: backed_def)

lemma backed_disjoint:
  "backed sha st \<Longrightarrow> \<forall>k. hm_get (pb_deposits st) k = None \<or> hm_get (pb_pending_deposits st) k = None"
  by (simp add: backed_def)

lemma backed_mint:
  assumes "backed sha st" and "hm_get (pb_mint_proposals st) k = Some p"
  shows "k = deposit_generate_id sha (mp_deposit p)" and "deposit_of st (ed_deposit_id (mp_deposit p)) = Some (mp_deposit p)"
  using assms by (simp_all add: backed_def)

lemma backed_withdrawal:
  assumes "backed sha st" and "hm_get (pb_withdrawal_proposals st) k = Some p"
  shows "burn_of st k = Some (wp_burn p)" and "k = ab_burn_id (wp_burn p)"
proof -
  show burn: "burn_of st k = Some (wp_burn p)" using assms by (simp add: backed_def)
  have "\<forall>k u. burn_of st k = Some u \<longrightarrow> ab_burn_id u = k" using assms(1) by (simp add: backed_def)
  then show "k = ab_burn_id (wp_burn p)" using burn by simp
qed

lemma backed_status: "backed sha st \<Longrightarrow> backed sha (update_deposit_status_in k ds st)"
  unfolding backed_def
  by (simp add: status_keeps_deposits) (auto simp: update_deposit_status_in_def Let_def split: option.splits)

lemma backed_burn_status: "backed sha st \<Longrightarrow> backed sha (update_burn_status_in k ws st)"
  unfolding backed_def
  by (simp add: status_keeps_burns) (auto simp: update_burn_status_in_def Let_def split: option.splits)

lemma backed_new_deposit:
  assumes "backed sha st" and "deposit_of st (ed_deposit_id d) = None"
  shows "backed sha (store_deposit_in d st)" and "backed sha (store_pending_deposit_in d st)"
proof -
  have "hm_get (pb_deposits st) (ed_deposit_id d) = None" "hm_get (pb_pending_deposits st) (ed_deposit_id d) = None"
    using assms(2) by (auto simp: deposit_of_def split: option.splits)
  then show "backed sha (store_deposit_in d st)" "backed sha (store_pending_deposit_in d st)"
    using assms unfolding backed_def
    by (simp_all, simp_all add: store_deposit_in_def store_pending_deposit_in_def) (metis option.distinct(1))+
qed

lemma backed_new_burn:
  assumes "backed sha st" and "burn_of st (ab_burn_id u) = None"
  shows "backed sha (store_burn_in u st)" and "backed sha (store_pending_burn_in u st)"
proof -
  have "hm_get (pb_burns st) (ab_burn_id u) = None" "hm_get (pb_pending_burns st) (ab_burn_id u) = None"
    using assms(2) by (auto simp: burn_of_def split: option.splits)
  then show "backed sha (store_burn_in u st)" "backed sha (store_pending_burn_in u st)"
    using assms unfolding backed_def
    by (simp_all, simp_all add: store_burn_in_def store_pending_burn_in_def) (metis option.distinct(1))+
qed

interpretation backed: store_invariant sha "\<lambda>_. True" "backed sha" for sha
proof unfold_locales
  show "backed sha (update_mint_proposal_status_in n k ms st)" if "backed sha st" for sha n k ms st
    using that unfolding backed_def by simp (auto simp: update_mint_proposal_status_in_def split: option.splits)
  show "backed sha (update_withdrawal_proposal_status_in n k WpExpired st)" if "backed sha st" for sha n k st
    using that unfolding backed_def by simp (auto simp: update_withdrawal_proposal_status_in_def split: option.splits)
qed (auto simp: backed_status backed_burn_status backed_new_deposit backed_new_burn,
     auto simp: backed_def new_mint_proposal_def new_withdrawal_proposal_def)

lemma reachable_backed:
  assumes "codec_faithful K" and "bridge_relayer_new E c None = Ok b0" and "bridge_steps K (b0, [], []) (b, qe, qa)"
  shows "backed.holds (be_sha256 K) K b"
proof -
  have "backed.system_holds (be_sha256 K) K (b0, [], [])"
    using new_relayer_holds [OF assms(2)]
    by (simp add: backed.system_holds_def backed.holds_def load_state_def persisted_default_def backed_def deposit_of_def burn_of_def)
  then have "backed.system_holds (be_sha256 K) K (b, qe, qa)" by (rule backed.steps_hold [OF assms(3,1) refl])
  then show ?thesis by (simp add: backed.system_holds_def)
qed

text \<open>
  C35. Proposals are backed. In every run, each mint proposal is stored under the identifier generated from
  its deposit, and its deposit is exactly the one stored under the deposit's own identifier; each
  withdrawal proposal is stored under the identifier of its burn, and its burn is the stored one. Both
  facts survive restarts and failed writes of the snapshot.
\<close>
theorem proposals_backed:
  assumes "codec_faithful K" and "bridge_relayer_new E c None = Ok b0" and "bridge_steps K (b0, [], []) (b, qe, qa)"
  shows "(\<forall>k p. get_mint_proposal (br_storage b) k = Some p \<longrightarrow>
        k = deposit_generate_id (be_sha256 K) (mp_deposit p)
        \<and> get_deposit (br_storage b) (ed_deposit_id (mp_deposit p)) = Some (mp_deposit p))
    \<and> (\<forall>k p. get_withdrawal_proposal (br_storage b) k = Some p \<longrightarrow>
        k = ab_burn_id (wp_burn p) \<and> get_burn (br_storage b) k = Some (wp_burn p))"
proof -
  have B: "backed (be_sha256 K) (bs_state (br_storage b))" using backed.holds_memory [OF reachable_backed [OF assms]] .
  show ?thesis
    unfolding get_mint_proposal_def get_withdrawal_proposal_def store_views
    by (intro conjI allI impI; erule backed_mint [OF B] backed_withdrawal [OF B])
qed

section \<open>Deposits that are too young\<close>

definition stranded :: "(bytes \<Rightarrow> bytes) \<Rightarrow> ethereum_deposit \<Rightarrow> persisted_bridge_state \<Rightarrow> bool" where
  "stranded sha d st \<longleftrightarrow> backed sha st \<and> deposit_of st (ed_deposit_id d) = Some d
     \<and> (\<forall>k p. hm_get (pb_mint_proposals st) k = Some p \<longrightarrow> ed_deposit_id (mp_deposit p) \<noteq> ed_deposit_id d)"

lemma stranded_proposals:
  assumes "stranded sha d st" and "backed sha st'" and "deposit_of st' (ed_deposit_id d) = deposit_of st (ed_deposit_id d)"
    and "pb_mint_proposals st' = pb_mint_proposals st"
  shows "stranded sha d st'"
  using assms by (simp add: stranded_def)

lemma updates_keep_mints [simp]:
  "pb_mint_proposals (store_deposit_in d st) = pb_mint_proposals st"
  "pb_mint_proposals (store_pending_deposit_in d st) = pb_mint_proposals st"
  "pb_mint_proposals (update_deposit_status_in k ds st) = pb_mint_proposals st"
  "pb_mint_proposals (store_burn_in u st) = pb_mint_proposals st"
  "pb_mint_proposals (store_pending_burn_in u st) = pb_mint_proposals st"
  "pb_mint_proposals (update_burn_status_in k ws st) = pb_mint_proposals st"
  "pb_mint_proposals (update_withdrawal_proposal_status_in n k wpst st) = pb_mint_proposals st"
  by (auto simp: store_updates split: option.splits)

interpretation stranded: store_invariant sha "\<lambda>k. k \<noteq> ed_deposit_id d" "stranded sha d" for sha d
proof unfold_locales
  fix sha d st
  assume S: "stranded sha d st"
  then have B: "backed sha st" by (simp add: stranded_def)
  note keep = stranded_proposals [OF S]
  show "stranded sha d (st\<lparr>pb_last_eth_block := v\<rparr>)" for v by (rule keep) (use B backed.eth_block in simp_all)
  show "stranded sha d (st\<lparr>pb_last_aethelred_block := v\<rparr>)" for v by (rule keep) (use B backed.aeth_block in simp_all)
  show "stranded sha d (store_deposit_in x st)" if "deposit_of st (ed_deposit_id x) = None" for x
    by (rule keep) (use B S that backed.new_deposit in \<open>auto simp: stranded_def\<close>)
  show "stranded sha d (store_pending_deposit_in x st)" if "deposit_of st (ed_deposit_id x) = None" for x
    by (rule keep) (use B S that backed.new_pending in \<open>auto simp: stranded_def\<close>)
  show "stranded sha d (update_deposit_status_in k ds st)" for k ds
    by (rule keep) (use B backed_status status_keeps_deposits [OF backed_disjoint [OF B]] in simp_all)
  show "stranded sha d (store_burn_in u st)" if "burn_of st (ab_burn_id u) = None" for u
    by (rule keep) (use B that backed.new_burn in simp_all)
  show "stranded sha d (store_pending_burn_in u st)" if "burn_of st (ab_burn_id u) = None" for u
    by (rule keep) (use B that backed.new_pending_burn in simp_all)
  show "stranded sha d (update_burn_status_in k ws st)" for k ws by (rule keep) (use B backed_burn_status in simp_all)
  show "stranded sha d (st\<lparr>pb_burn_statuses := hm_insert k ws (pb_burn_statuses st)\<rparr>)" for k ws
    by (rule keep) (use B backed.withdrawal_status in simp_all)
  show "stranded sha d (update_withdrawal_proposal_status_in n k WpExpired st)" for n k
    by (rule keep) (use B backed.withdrawal_expiry in simp_all)
  show "stranded sha d (st\<lparr>pb_withdrawal_proposals := hm_insert k (new_withdrawal_proposal k u a n) (pb_withdrawal_proposals st)\<rparr>)"
    if "burn_of st k = Some u" for k u a n
    by (rule keep) (use B that backed.withdrawal_proposal in simp_all)
  show "stranded sha d (st\<lparr>pb_mint_proposals := hm_insert (deposit_generate_id sha x) (new_mint_proposal sha x a n) (pb_mint_proposals st)\<rparr>)"
    if "deposit_of st k = Some x" and "k \<noteq> ed_deposit_id d" for k x a n
    using S that backed.mint_proposal [OF B that(1)] backed_keys [OF B that(1)] by (auto simp: stranded_def new_mint_proposal_def)
  show "stranded sha d (update_mint_proposal_status_in n k ms st)" if "ms = MintDone \<or> ms = MintExpired" for n k ms
    using S backed.mint_status [OF B that, of n k]
    by (auto simp: stranded_def) (auto simp: update_mint_proposal_status_in_def split: option.splits if_splits)
  show "k \<noteq> ed_deposit_id d" if "deposit_of st k = None" for k using S that by (auto simp: stranded_def)
qed

text \<open>
  A deposit that is first seen too early is never minted. If the relayer accepts a deposit as pending
  while no finality event for it is queued, which is what a poll produces for a deposit with fewer
  confirmations than required, then in every continuation, restarts included, the deposit stays in the
  store, no finality event for it is ever queued and no mint proposal for it is ever made: later polls
  skip the deposits the store already knows.
\<close>
theorem young_deposit_never_proposed:
  assumes "codec_faithful K" and "same_code K E" and "bridge_relayer_new E0 c None = Ok b0"
    and "bridge_steps K (b0, [], []) (b, EthDeposit d # qe, qa)"
    and "\<forall>n. EthDepositFinalized (ed_deposit_id d) n \<notin> set qe"
    and "process_ethereum_event E (EthDeposit d) b = (b1, Ok ())"
    and "bridge_steps K (b1, qe, qa) (b2, qe2, qa2)"
  shows "get_deposit (br_storage b2) (ed_deposit_id d) = Some d
    \<and> (\<forall>k p. get_mint_proposal (br_storage b2) k = Some p \<longrightarrow> ed_deposit_id (mp_deposit p) \<noteq> ed_deposit_id d)
    \<and> (\<forall>n. EthDepositFinalized (ed_deposit_id d) n \<notin> set qe2)"
proof -
  let ?sha = "be_sha256 K" and ?st = "bs_state (br_storage b)"
  have B: "backed.holds ?sha K b" using reachable_backed [OF assms(1,3,4)] .
  have none: "deposit_of ?st (ed_deposit_id d) = None"
    using assms(6) by (auto simp: handle_eth_deposit_def validate_deposit_def store_views split: if_splits)
  have backed: "backed ?sha ?st" using backed.holds_memory [OF B] .
  have "ed_deposit_id (mp_deposit p) \<noteq> ed_deposit_id d" if "hm_get (pb_mint_proposals ?st) k = Some p" for k p
    using backed_mint(2) [OF backed that] none by auto
  then have "stranded ?sha d (store_pending_deposit_in d ?st)"
    using backed_new_deposit(2) [OF backed none] none by (simp add: stranded_def)
  moreover have "store_pending_deposit E d (br_storage b) = (br_storage b1, Ok ())"
      and votes: "br_pending_mints b1 = []" "br_pending_withdrawals b1 = []"
    using assms(6) B by (auto simp: handle_eth_deposit_def backed.holds_def on_storage_def count_up_def try_then_def
        split: result.splits prod.splits)
  then have "bs_state (br_storage b1) = store_pending_deposit_in d ?st"
      and "load_state K (bs_file (br_storage b1)) = Ok (store_pending_deposit_in d ?st)"
    using mutate_state_Ok [OF _ assms(1,2)] unfolding store_pending_deposit_def by blast+
  ultimately have "stranded.system_holds d ?sha K (b1, qe, qa)"
    using assms(5) votes
    by (auto simp: stranded.system_holds_def stranded.holds_def stranded.permitted_def list_all_iff)
  from stranded.steps_hold [OF assms(7,1) refl this] show ?thesis
    by (auto simp: stranded.system_holds_def stranded.holds_def stranded.permitted_def list_all_iff stranded_def store_views
        get_mint_proposal_def)
qed

section \<open>Deposits with enough confirmations\<close>

definition store_works :: "bridge_env \<Rightarrow> bool" where
  "store_works E \<longleftrightarrow> (\<forall>st. \<exists>bs. be_serialize E st = Ok bs \<and> be_write_error E bs = None)"

lemma mutate_works:
  assumes "store_works E"
  obtains s' where "on_storage (mutate_state E f) b = (b\<lparr>br_storage := s'\<rparr>, Ok ())" and "bs_state s' = f (bs_state (br_storage b))"
proof -
  obtain bs where "be_serialize E (f (bs_state (br_storage b))) = Ok bs" "be_write_error E bs = None"
    using assms unfolding store_works_def by blast
  then show thesis
    by (intro that [of "\<lparr>bs_file = Some bs, bs_state = f (bs_state (br_storage b))\<rparr>"]; cases "br_storage b") (simp_all add: on_storage_def mutate_state_def persist_state_def Let_def)
qed

text \<open>
  C36. A deposit that is first seen with enough confirmations gets a proposal. If the node answers a poll
  with one unknown deposit that has the required confirmations, writes succeed and the relayer has an
  address, then handling the polled events leaves a mint proposal for the deposit, open for votes, on
  which the relayer is ready to vote.
\<close>
theorem confirmed_deposit_proposed:
  assumes "store_works E" and "ea_block_number A = Ok n" and "br_eth_last_block b < n"
    and "\<And>i j. ea_deposit_events A i j = Ok [d]" and "\<And>i. ea_block_hash A i = Ok h"
    and "\<not> has_deposit (br_storage b) (ed_deposit_id d)"
    and "ec_confirmations (bc_ethereum (br_config b)) \<le> saturating_sub n (ed_block_number d)"
    and "aethelred_address_bytes E (bc_identity (br_config b)) = Ok proposer"
  shows "\<exists>b1 evs. poll_eth_events E A b = (b1, Ok evs)
    \<and> get_mint_proposal (br_storage (run_eth_listener E evs b1)) (deposit_generate_id (be_sha256 E) d)
        = Some (new_mint_proposal (be_sha256 E) d proposer (be_now E))
    \<and> should_vote_mint (run_eth_listener E evs b1) (new_mint_proposal (be_sha256 E) d proposer (be_now E)) = Ok True"
proof -
  let ?k = "ed_deposit_id d" and ?p = "new_mint_proposal (be_sha256 E) d proposer (be_now E)"
  define to_block where "to_block = min n (br_eth_last_block b + ec_max_blocks_per_scan (bc_ethereum (br_config b)))"
  obtain s1 where s1: "on_storage (store_deposit E d) b = (b\<lparr>br_storage := s1\<rparr>, Ok ())" "bs_state s1 = store_deposit_in d (bs_state (br_storage b))"
    unfolding store_deposit_def by (rule mutate_works [OF assms(1)])
  define b1 where "b1 = (count_up increment_eth_deposits (b\<lparr>br_storage := s1\<rparr>))\<lparr>br_eth_last_block := to_block\<rparr>"
  obtain s2 where s2: "on_storage (set_last_eth_block E to_block) b1 = (b1\<lparr>br_storage := s2\<rparr>, Ok ())"
      "bs_state s2 = (bs_state s1)\<lparr>pb_last_eth_block := Some to_block\<rparr>"
    using mutate_works [OF assms(1), of "\<lambda>st. st\<lparr>pb_last_eth_block := Some to_block\<rparr>" b1]
    unfolding set_last_eth_block_def by (auto simp: b1_def)
  let ?evs = "[EthDepositFinalized ?k (ed_block_number d), EthDeposit d, EthNewBlock to_block h (be_now E)]"
  have poll: "poll_eth_events E A b = (b1\<lparr>br_storage := s2\<rparr>, Ok ?evs)"
    using assms s1(1) s2(1) by (simp add: poll_eth_events_def Let_def to_block_def [symmetric] b1_def not_le)
  have dep: "deposit_of (bs_state s2) ?k = Some d" by (simp add: s2 s1)
  obtain s3 where s3: "on_storage (update_deposit_status E ?k DepConfirmed) (b1\<lparr>br_storage := s2\<rparr>) = (b1\<lparr>br_storage := s3\<rparr>, Ok ())"
      "bs_state s3 = update_deposit_status_in ?k DepConfirmed (bs_state s2)"
    using mutate_works [OF assms(1), of "update_deposit_status_in ?k DepConfirmed" "b1\<lparr>br_storage := s2\<rparr>"]
    unfolding update_deposit_status_def by auto
  obtain s4 where s4: "on_storage (store_mint_proposal E ?p) (b1\<lparr>br_storage := s3\<rparr>) = (b1\<lparr>br_storage := s4\<rparr>, Ok ())"
      "bs_state s4 = (bs_state s3)\<lparr>pb_mint_proposals := hm_insert (mp_proposal_id ?p) ?p (pb_mint_proposals (bs_state s3))\<rparr>"
    using mutate_works [OF assms(1), of "\<lambda>st. st\<lparr>pb_mint_proposals := hm_insert (mp_proposal_id ?p) ?p (pb_mint_proposals st)\<rparr>"
        "b1\<lparr>br_storage := s3\<rparr>"]
    unfolding store_mint_proposal_def by auto
  have fin: "handle_eth_deposit_finalized E ?k (b1\<lparr>br_storage := s2\<rparr>) = (b1\<lparr>br_storage := s4\<rparr>, Ok ())"
    using dep s3(1) s4(1) assms(8) by (simp add: handle_eth_deposit_finalized_def store_views b1_def new_mint_proposal_def)
  have dep4: "deposit_of (bs_state s4) ?k = Some d"
    using dep by (simp add: s4 s3 update_deposit_status_in_def) (simp add: deposit_of_def split: option.splits)
  then have dup: "fst (handle_eth_deposit E d (b1\<lparr>br_storage := s4\<rparr>)) = b1\<lparr>br_storage := s4\<rparr>"
    by (simp add: handle_eth_deposit_def validate_deposit_def store_views)
  have run: "run_eth_listener E ?evs (b1\<lparr>br_storage := s2\<rparr>) = b1\<lparr>br_storage := s4\<rparr>"
    by (simp add: run_eth_listener_def fin dup)
  have "get_deposit_status s4 ?k = Some DepConfirmed"
    by (simp add: get_deposit_status_def s4 s3 update_deposit_status_in_def)
  then have "should_vote_mint (b1\<lparr>br_storage := s4\<rparr>) ?p = Ok True"
    using dep4 by (simp add: should_vote_mint_def store_views new_mint_proposal_def)
  moreover have "get_mint_proposal s4 (deposit_generate_id (be_sha256 E) d) = Some ?p"
    by (simp add: get_mint_proposal_def s4 new_proposal_ids)
  ultimately show ?thesis using poll run by (metis bridge_relayer.select_convs(2) bridge_relayer.surjective bridge_relayer.update_convs(2))
qed

section \<open>A concrete relayer\<close>

definition demo_deposit :: ethereum_deposit where
  "demo_deposit =
     \<lparr>ed_deposit_id = [1], ed_depositor = [2], ed_aethelred_recipient = replicate 32 3, ed_token = [4], ed_amount = 5, ed_nonce = 0,
      ed_block_number = 99, ed_block_hash = [6], ed_tx_hash = [7], ed_log_index = 0, ed_timestamp = 0\<rparr>"

definition polled_state :: persisted_bridge_state where
  "polled_state = persisted_default\<lparr>pb_last_eth_block := Some 101\<rparr>"

text \<open>A store that can write two states only: after the poll, and after the deposit is stored as pending.\<close>

definition demo_bridge_env :: bridge_env where
  "demo_bridge_env =
     \<lparr>be_sha256 = (\<lambda>x. x), be_hex_decode = (\<lambda>_. Ok (replicate 32 1)), be_file_exists = (\<lambda>_. True), be_now = 0,
      be_serialize = (\<lambda>st. if st = polled_state then Ok [1]
                          else if st = store_pending_deposit_in demo_deposit polled_state then Ok [2] else Err ''disk full''),
      be_deserialize = (\<lambda>bs. if bs = [1] then Ok polled_state else Ok (store_pending_deposit_in demo_deposit polled_state)),
      be_write_error = (\<lambda>_. None), be_mint_order = (\<lambda>x. x), be_withdrawal_order = (\<lambda>x. x)\<rparr>"

definition demo_relayer :: bridge_relayer where
  "demo_relayer =
     \<lparr>br_config = bridge_config_testnet, br_storage = \<lparr>bs_file = None, bs_state = persisted_default\<rparr>,
      br_metrics = bridge_metrics_new, br_relayer_set = consensus_engine_new_set, br_pending_mints = [],
      br_pending_withdrawals = [], br_eth_last_block = 0, br_aeth_last_block = 0\<rparr>"

definition demo_answers :: "u64 \<Rightarrow> eth_answers" where
  "demo_answers n = \<lparr>ea_block_number = Ok n, ea_deposit_events = (\<lambda>_ _. Ok [demo_deposit]), ea_block_hash = (\<lambda>_. Ok [8])\<rparr>"

definition demo_polled :: bridge_relayer where
  "demo_polled = demo_relayer\<lparr>br_storage := \<lparr>bs_file = Some [1], bs_state = polled_state\<rparr>, br_eth_last_block := 101\<rparr>"

lemma demo_codec: "codec_faithful demo_bridge_env" "same_code demo_bridge_env demo_bridge_env"
  by (auto simp: codec_faithful_def demo_bridge_env_def same_code_def split: if_splits)

lemma demo_bridge_new: "bridge_relayer_new demo_bridge_env bridge_config_testnet None = Ok demo_relayer"
  by (simp add: bridge_relayer_new_def storage_open_def load_state_def demo_relayer_def listener_start_block_def
      persisted_default_def bridge_config_testnet_def ethereum_config_testnet_def aethelred_config_testnet_def)

lemma demo_poll:
  "poll_eth_events demo_bridge_env (demo_answers 101) demo_relayer = (demo_polled, Ok [EthDeposit demo_deposit, EthNewBlock 101 [8] 0])"
  by (simp add: poll_eth_events_def demo_answers_def demo_relayer_def demo_polled_def polled_state_def has_deposit_def persisted_default_def
      saturating_sub_def bridge_config_testnet_def ethereum_config_testnet_def demo_deposit_def demo_bridge_env_def set_last_eth_block_def
      on_storage_def mutate_state_def persist_state_def Let_def min_def)

lemma demo_bridge_run:
  "bridge_steps demo_bridge_env (demo_relayer, [], []) (demo_polled, [EthDeposit demo_deposit, EthNewBlock 101 [8] 0], [])"
  using bridge_step.poll_eth [OF demo_codec(2) demo_poll, of "[]" "[]"] by (auto simp: polled_def)

theorem young_deposit_never_proposed_witness:
  "\<exists>b. process_ethereum_event demo_bridge_env (EthDeposit demo_deposit) demo_polled = (b, Ok ())
     \<and> get_deposit (br_storage b) [1] = Some demo_deposit
     \<and> \<not> (\<exists>k p. get_mint_proposal (br_storage b) k = Some p \<and> ed_deposit_id (mp_deposit p) = [1])"
proof -
  obtain b where b: "process_ethereum_event demo_bridge_env (EthDeposit demo_deposit) demo_polled = (b, Ok ())"
    by (simp add: handle_eth_deposit_def validate_deposit_def demo_polled_def demo_relayer_def has_deposit_def polled_state_def
        persisted_default_def demo_deposit_def store_pending_deposit_def on_storage_def mutate_state_def persist_state_def
        demo_bridge_env_def store_pending_deposit_in_def hm_insert_def Let_def)
  have id: "ed_deposit_id demo_deposit = [1]" by (simp add: demo_deposit_def)
  have "\<forall>n. EthDepositFinalized (ed_deposit_id demo_deposit) n \<notin> set [EthNewBlock 101 [8] 0]" by simp
  from young_deposit_never_proposed [OF demo_codec demo_bridge_new demo_bridge_run this b rtranclp.rtrancl_refl] show ?thesis
    using b unfolding id by blast
qed

theorem bridge_fails_closed_witness: "br_pending_mints demo_polled = [] \<and> br_pending_withdrawals demo_polled = []"
  using bridge_fails_closed [OF demo_codec(1) demo_bridge_new demo_bridge_run] by blast

text \<open>A run that leaves a proposal.\<close>

definition known_state :: persisted_bridge_state where
  "known_state = store_deposit_in demo_deposit persisted_default"

definition scanned_state :: persisted_bridge_state where
  "scanned_state = known_state\<lparr>pb_last_eth_block := Some 120\<rparr>"

text \<open>A store that can write the states of the poll; the write of the proposal fails.\<close>

definition confirming_env :: bridge_env where
  "confirming_env = demo_bridge_env\<lparr>
     be_serialize := (\<lambda>st. if st = known_state then Ok [1] else if st = scanned_state then Ok [2] else Err ''disk full''),
     be_deserialize := (\<lambda>bs. if bs = [1] then Ok known_state else Ok scanned_state)\<rparr>"

definition named_config :: bridge_config where
  "named_config = bridge_config_testnet\<lparr>bc_identity := relayer_identity_config_default\<lparr>ic_aethelred_address := Some ''0x01''\<rparr>\<rparr>"

definition confirming_relayer :: "persisted_bridge_state \<Rightarrow> bytes option \<Rightarrow> bridge_relayer" where
  "confirming_relayer st file =
     count_up increment_eth_deposits
       (demo_relayer\<lparr>br_config := named_config, br_eth_last_block := 120, br_storage := \<lparr>bs_file = file, bs_state = st\<rparr>\<rparr>)"

definition proposed_relayer :: bridge_relayer where
  "proposed_relayer = fst (process_ethereum_event confirming_env (EthDepositFinalized [1] 99) (confirming_relayer scanned_state (Some [2])))"

lemma confirming_codec: "codec_faithful confirming_env" "same_code confirming_env confirming_env"
  by (auto simp: codec_faithful_def confirming_env_def same_code_def split: if_splits)

lemma confirming_new: "bridge_relayer_new confirming_env named_config None = Ok (demo_relayer\<lparr>br_config := named_config\<rparr>)"
  by (simp add: bridge_relayer_new_def storage_open_def load_state_def demo_relayer_def listener_start_block_def named_config_def
      persisted_default_def bridge_config_testnet_def ethereum_config_testnet_def aethelred_config_testnet_def)

lemma confirming_writes:
  "be_serialize confirming_env known_state = Ok [1]" "be_serialize confirming_env scanned_state = Ok [2]"
  "be_write_error confirming_env bs = None"
  "be_now confirming_env = 0"
proof -
  have "scanned_state \<noteq> known_state" by (simp add: scanned_state_def known_state_def store_deposit_in_def persisted_default_def)
  then show "be_serialize confirming_env known_state = Ok [1]" "be_serialize confirming_env scanned_state = Ok [2]"
    "be_write_error confirming_env bs = None" "be_now confirming_env = 0"
    by (simp_all add: confirming_env_def demo_bridge_env_def)
qed

lemma confirming_poll:
  "poll_eth_events confirming_env (demo_answers 120) (demo_relayer\<lparr>br_config := named_config\<rparr>)
     = (confirming_relayer scanned_state (Some [2]), Ok [EthDepositFinalized [1] 99, EthDeposit demo_deposit, EthNewBlock 120 [8] 0])"
proof -
  have "store_deposit_in demo_deposit persisted_default = known_state" by (simp add: known_state_def)
  moreover have "known_state\<lparr>pb_last_eth_block := Some 120\<rparr> = scanned_state" by (simp add: scanned_state_def)
  moreover have "\<not> has_deposit \<lparr>bs_file = None, bs_state = persisted_default\<rparr> (ed_deposit_id demo_deposit)"
    by (simp add: has_deposit_def persisted_default_def)
  ultimately show ?thesis
    by (simp add: poll_eth_events_def demo_answers_def demo_relayer_def confirming_relayer_def named_config_def
        saturating_sub_def bridge_config_testnet_def ethereum_config_testnet_def demo_deposit_def set_last_eth_block_def store_deposit_def
        on_storage_def mutate_state_def persist_state_def Let_def min_def confirming_writes count_up_def)
qed

lemma confirming_run:
  "bridge_steps confirming_env (demo_relayer\<lparr>br_config := named_config\<rparr>, [], [])
     (proposed_relayer, [EthDeposit demo_deposit, EthNewBlock 120 [8] 0], [])"
  using bridge_step.poll_eth [OF confirming_codec(2) confirming_poll, of "[]" "[]"]
    bridge_step.eth_event [OF confirming_codec(2), of "confirming_relayer scanned_state (Some [2])"
      "EthDepositFinalized [1] 99" "[EthDeposit demo_deposit, EthNewBlock 120 [8] 0]" "[]"]
  by (auto simp: polled_def proposed_relayer_def simp del: process_ethereum_event.simps intro: converse_rtranclp_into_rtranclp)

lemma proposed_relayer_has:
  "get_mint_proposal (br_storage proposed_relayer) (deposit_generate_id (\<lambda>x. x) demo_deposit)
     = Some (new_mint_proposal (\<lambda>x. x) demo_deposit (replicate 32 1) 0)"
proof -
  have get: "deposit_of scanned_state [1] = Some demo_deposit"
    by (simp add: scanned_state_def known_state_def store_deposit_in_def deposit_of_def persisted_default_def demo_deposit_def hm_insert_def hm_get_def)
  have keep: "update_deposit_status_in [1] DepConfirmed scanned_state = scanned_state"
    by (simp add: update_deposit_status_in_def scanned_state_def known_state_def store_deposit_in_def
        persisted_default_def hm_insert_def hm_get_def demo_deposit_def)
  have id: "aethelred_address_bytes confirming_env (bc_identity named_config) = Ok (replicate 32 1)"
    by (simp add: aethelred_address_bytes_def decode_fixed_hex_def named_config_def confirming_env_def demo_bridge_env_def Let_def)
  have sha: "be_sha256 confirming_env = (\<lambda>x. x)" by (simp add: confirming_env_def demo_bridge_env_def)
  show ?thesis
    by (simp add: proposed_relayer_def handle_eth_deposit_finalized_def store_views confirming_relayer_def count_up_def get id sha
        on_storage_def mutate_state_def persist_state_def Let_def update_deposit_status_def store_mint_proposal_def
        keep confirming_writes get_mint_proposal_def new_mint_proposal_def split: result.split)
qed

theorem proposals_backed_witness:
  "\<exists>p. get_mint_proposal (br_storage proposed_relayer) (deposit_generate_id (\<lambda>x. x) demo_deposit) = Some p
     \<and> get_deposit (br_storage proposed_relayer) (ed_deposit_id (mp_deposit p)) = Some (mp_deposit p)"
  using proposals_backed [OF confirming_codec(1) confirming_new confirming_run] proposed_relayer_has by blast

definition named_relayer :: bridge_relayer where
  "named_relayer = demo_relayer\<lparr>br_config := bridge_config_testnet\<lparr>bc_identity := relayer_identity_config_default\<lparr>ic_aethelred_address := Some ''0x01''\<rparr>\<rparr>\<rparr>"

theorem confirmed_deposit_proposed_witness:
  "\<exists>b1 evs p. poll_eth_events (demo_bridge_env\<lparr>be_serialize := \<lambda>_. Ok [1]\<rparr>) (demo_answers 120) named_relayer = (b1, Ok evs)
     \<and> get_mint_proposal (br_storage (run_eth_listener (demo_bridge_env\<lparr>be_serialize := \<lambda>_. Ok [1]\<rparr>) evs b1))
         (deposit_generate_id (\<lambda>x. x) demo_deposit) = Some p
     \<and> mp_deposit p = demo_deposit \<and> mp_status p = MintVoting"
proof -
  let ?E = "demo_bridge_env\<lparr>be_serialize := \<lambda>_. Ok [1]\<rparr>" and ?A = "demo_answers 120"
  have "store_works ?E" by (simp add: store_works_def demo_bridge_env_def)
  moreover have "ea_block_number ?A = Ok 120" "\<And>i j. ea_deposit_events ?A i j = Ok [demo_deposit]" "\<And>i. ea_block_hash ?A i = Ok [8]"
    by (simp_all add: demo_answers_def)
  moreover have "br_eth_last_block named_relayer < 120" "\<not> has_deposit (br_storage named_relayer) (ed_deposit_id demo_deposit)"
      "ec_confirmations (bc_ethereum (br_config named_relayer)) \<le> saturating_sub 120 (ed_block_number demo_deposit)"
    by (simp_all add: named_relayer_def demo_relayer_def has_deposit_def persisted_default_def bridge_config_testnet_def
        ethereum_config_testnet_def saturating_sub_def demo_deposit_def)
  moreover have "aethelred_address_bytes ?E (bc_identity (br_config named_relayer)) = Ok (replicate 32 1)"
    by (simp add: aethelred_address_bytes_def decode_fixed_hex_def named_relayer_def demo_bridge_env_def Let_def)
  moreover have "be_sha256 ?E = (\<lambda>x. x)" by (simp add: demo_bridge_env_def)
  ultimately show ?thesis
    using confirmed_deposit_proposed [of ?E ?A 120 named_relayer demo_deposit "[8]" "replicate 32 1"]
    by (auto simp: new_mint_proposal_def)
qed

section \<open>Counting votes\<close>

text \<open>Above half of the active relayers, two sets of voters that both reach the threshold share a relayer.\<close>

theorem quorums_intersect:
  assumes "5000 < unat (rs_threshold_bps rs)" and "distinct xs" and "distinct ys"
    and "set xs \<union> set ys \<subseteq> ri_address ` {r \<in> set (rs_relayers rs). ri_active r}"
    and "set_has_consensus rs (length xs)" and "set_has_consensus rs (length ys)"
  shows "set xs \<inter> set ys \<noteq> {}"
proof
  assume disjoint: "set xs \<inter> set ys = {}"
  let ?active = "filter ri_active (rs_relayers rs)" and ?t = "unat (rs_threshold_bps rs)"
  have "card (set xs \<union> set ys) \<le> card (set (map ri_address ?active))"
    using assms(4) by (intro card_mono) auto
  also have "\<dots> \<le> length ?active" using card_length [of "map ri_address ?active"] by simp
  finally have few: "length xs + length ys \<le> length ?active"
    using assms(2,3) disjoint by (simp add: card_Un_disjoint distinct_card)
  have "1 \<le> length xs" "1 \<le> length ys" using assms(5,6) by (auto simp: set_has_consensus_def min_votes_required_def Let_def split: if_splits)
  then have some: "length ?active > 0" using few by linarith
  have "length ?active * ?t \<le> 10000 * length zs" if "set_has_consensus rs (length zs)" for zs :: "bytes list"
  proof -
    have "(length ?active * ?t + 9999) div 10000 \<le> length zs"
      using that some by (simp add: set_has_consensus_def min_votes_required_def Let_def)
    then show ?thesis by linarith
  qed
  from this [OF assms(5)] this [OF assms(6)] few have "2 * (length ?active * ?t) \<le> 10000 * length ?active" by linarith
  then have "?t \<le> 5000" using some by (simp add: mult.commute)
  then show False using assms(1) by simp
qed

text \<open>Rejections are counted like approvals: the flag of a vote changes nothing but the vote that is kept.\<close>

lemma approval_ignored:
  "br_storage (fst (count_mint_vote E p (v\<lparr>rv_approve := a\<rparr>) b)) = br_storage (fst (count_mint_vote E p v b))
   \<and> snd (count_mint_vote E p (v\<lparr>rv_approve := a\<rparr>) b) = snd (count_mint_vote E p v b)"
  by (simp add: count_mint_vote_def in_active_set_def record_vote_def Let_def on_storage_def update_mint_proposal_status_def
      try_then_def split_beta split: result.splits)

text \<open>A proposal that is older than the timeout expires even if the chain has already reported its mint.\<close>

lemma completed_proposal_expires:
  assumes "get_mint_proposal (br_storage b) k = Some p" and "mp_proposal_id p = k" and "mp_status p = MintDone"
    and "be_now E - mp_created_at p > co_proposal_timeout_secs (bc_consensus (br_config b))"
  shows "\<exists>q. get_mint_proposal (br_storage (fst (expire_mints E [p] b))) k = Some q \<and> mp_status q = MintExpired"
proof -
  obtain b1 r where b1: "on_storage (update_mint_proposal_status E k MintExpired) b = (b1, r)" by fastforce
  then have "br_storage b1 = fst (update_mint_proposal_status E k MintExpired (br_storage b))"
    by (metis fst_conv on_storage_views(1))
  then show ?thesis
    using assms b1 by (cases r)
      (simp_all add: get_mint_proposal_def update_mint_proposal_status_def update_mint_proposal_status_in_def)
qed

end
