(* ===== verification/Vault_Rewards.thy ===== *)
theory Vault_Rewards
  imports Rust_Bytes "HOL-Library.List_Lexorder" "HOL-Library.Char_ord"
begin

text \<open>
  \<open>src/crates/vault/src/reward_calculator.rs\<close> with the types it uses from \<open>types.rs\<close>: the exact
  multiply-divide on 128-bit integers, the distribution of the rewards of an epoch, and the Merkle tree of
  the claims. \<open>verify_sha256_proof\<close> is the check of the contract that pays the claims,
  \<open>src/contracts/contracts/vault/Cruzible.sol\<close>.

  SHA-256 and \<open>hex::decode\<close> are the arguments \<open>sha\<close> and \<open>decode\<close>. Strings and digests are compared byte by
  byte. A failed assertion of the source is \<open>None\<close>.
\<close>

unbundle bit_operations_syntax

section \<open>Types\<close>

record scored_validator =
  sv_address :: string
  sv_stake :: u128
  sv_performance_score :: u32
  sv_decentralization_score :: u32
  sv_reputation_score :: u32
  sv_composite_score :: u32
  sv_tee_public_key :: string
  sv_commission_bps :: u32
  sv_rank :: u32

record staker_stake =
  ss_address :: string
  ss_shares :: u128
  ss_delegated_to :: string

record reward_allocation =
  ra_address :: string
  ra_base_reward :: u128
  ra_performance_bonus :: u128
  ra_mev_share :: u128
  ra_total_reward :: u128

record calculate_rewards_request =
  rq_epoch :: u64
  rq_total_rewards :: u128
  rq_mev_revenue :: u128
  rq_validators :: "scored_validator list"
  rq_staker_stakes :: "staker_stake list"
  rq_stake_snapshot_hash :: string
  rq_validator_set_hash :: string

record merkle_proof_entry =
  pe_address :: string
  pe_amount :: u128
  pe_proof :: "string list"
  pe_leaf :: string

record attestation_document =
  ad_platform :: u8
  ad_timestamp :: u64
  ad_nonce :: string
  ad_enclave_hash :: string
  ad_signer_hash :: string
  ad_payload_hash :: string
  ad_platform_evidence :: string
  ad_signature :: string

definition attestation_document_default :: attestation_document where
  "attestation_document_default =
     \<lparr>ad_platform = 255, ad_timestamp = 0, ad_nonce = [], ad_enclave_hash = [], ad_signer_hash = [], ad_payload_hash = [],
      ad_platform_evidence = [], ad_signature = []\<rparr>"

record calculate_rewards_response =
  rr_epoch :: u64
  rr_allocations :: "reward_allocation list"
  rr_total_distributed :: u128
  rr_protocol_fee :: u128
  rr_merkle_root :: string
  rr_merkle_proofs :: "merkle_proof_entry list"
  rr_attestation :: attestation_document
  rr_stake_snapshot_hash :: string
  rr_validator_set_hash :: string

definition PROTOCOL_FEE_BPS :: u32 where "PROTOCOL_FEE_BPS = 500"
definition MEV_STAKER_SHARE_BPS :: u32 where "MEV_STAKER_SHARE_BPS = 9000"
definition BPS_DENOMINATOR :: u32 where "BPS_DENOMINATOR = 10000"

text \<open>The value of the constant expression \<open>(PERFORMANCE_BONUS_RATE * BPS_DENOMINATOR as f64) as u128\<close>.\<close>

definition BONUS_BPS :: u128 where "BONUS_BPS = 1000"

section \<open>Multiply and divide\<close>

definition long_division_step :: "u128 \<Rightarrow> u128 \<Rightarrow> u128 \<Rightarrow> u128 \<times> u128 \<Rightarrow> nat \<Rightarrow> u128 \<times> u128" where
  "long_division_step hi lo d state i =
     (let (quotient, rem) = state;
          rem_msb = drop_bit 127 rem;
          bit_i = (if i \<ge> 128 then drop_bit (i - 128) hi AND 1 else drop_bit i lo AND 1);
          rem = push_bit 1 rem OR bit_i
      in if rem_msb \<noteq> 0 \<or> rem \<ge> d
         then (if i < 128 then quotient OR push_bit i 1 else quotient, rem - d)
         else (quotient, rem))"

definition div_u256_by_u128 :: "u128 \<Rightarrow> u128 \<Rightarrow> u128 \<Rightarrow> u128" where
  "div_u256_by_u128 hi lo d =
     (if hi = 0 then lo div d else fst (foldl (long_division_step hi lo d) (0, 0) (rev [0..<256])))"

definition muldiv :: "u128 \<Rightarrow> u128 \<Rightarrow> u128 \<Rightarrow> u128" where
  "muldiv a b c =
     (if c = 0 then 0
      else if unat a * unat b < 2 ^ 128 then a * b div c
      else
        let mask = 0xFFFFFFFFFFFFFFFF;
            a_lo = a AND mask; a_hi = drop_bit 64 a; b_lo = b AND mask; b_hi = drop_bit 64 b;
            ll = a_lo * b_lo; lh = a_lo * b_hi; hl = a_hi * b_lo; hh = a_hi * b_hi;
            mid = drop_bit 64 ll + (lh AND mask) + (hl AND mask);
            lo = (ll AND mask) OR push_bit 64 (mid AND mask);
            hi = hh + drop_bit 64 lh + drop_bit 64 hl + drop_bit 64 mid
        in div_u256_by_u128 hi lo c)"

section \<open>The Merkle tree of the claims\<close>

fun trim_start_0x :: "string \<Rightarrow> string" where
  "trim_start_0x (c # d # s) = (if c = CHR ''0'' \<and> d = CHR ''x'' then trim_start_0x s else c # d # s)"
| "trim_start_0x s = s"

definition claim_address_bytes :: "(bytes \<Rightarrow> bytes) \<Rightarrow> (string \<Rightarrow> bytes option) \<Rightarrow> string \<Rightarrow> bytes" where
  "claim_address_bytes sha decode address =
     (case decode (trim_start_0x address) of
        Some bs \<Rightarrow> if length bs \<le> 32 then bs else take 20 (sha (ascii address))
      | None \<Rightarrow> take 20 (sha (ascii address)))"

definition abi_encode_claim :: "(bytes \<Rightarrow> bytes) \<Rightarrow> (string \<Rightarrow> bytes option) \<Rightarrow> string \<Rightarrow> u128 \<Rightarrow> u64 \<Rightarrow> bytes" where
  "abi_encode_claim sha decode address amount epoch =
     (let addr_bytes = claim_address_bytes sha decode address
      in replicate (32 - length addr_bytes) 0 @ addr_bytes
         @ replicate 16 0 @ rev (le_bytes 16 amount) @ replicate 24 0 @ rev (le_bytes 8 epoch))"

definition sha256_abi_encode :: "(bytes \<Rightarrow> bytes) \<Rightarrow> (string \<Rightarrow> bytes option) \<Rightarrow> string \<Rightarrow> u128 \<Rightarrow> u64 \<Rightarrow> bytes" where
  "sha256_abi_encode sha decode address amount epoch = sha (abi_encode_claim sha decode address amount epoch)"

definition claim_leaf :: "(bytes \<Rightarrow> bytes) \<Rightarrow> (string \<Rightarrow> bytes option) \<Rightarrow> u64 \<Rightarrow> reward_allocation \<Rightarrow> bytes" where
  "claim_leaf sha decode epoch a = sha (sha256_abi_encode sha decode (ra_address a) (ra_total_reward a) epoch)"

definition hash_pair :: "(bytes \<Rightarrow> bytes) \<Rightarrow> bytes \<Rightarrow> bytes \<Rightarrow> bytes" where
  "hash_pair sha left right = sha (left @ right)"

definition sorted_pair :: "(bytes \<Rightarrow> bytes) \<Rightarrow> bytes \<Rightarrow> bytes \<Rightarrow> bytes" where
  "sorted_pair sha x y = (if x \<le> y then hash_pair sha x y else hash_pair sha y x)"

fun next_layer :: "(bytes \<Rightarrow> bytes) \<Rightarrow> bytes list \<Rightarrow> bytes list" where
  "next_layer sha (x # y # zs) = sorted_pair sha x y # next_layer sha zs"
| "next_layer sha [x] = [x]"
| "next_layer sha [] = []"

lemma length_next_layer [simp]: "length (next_layer sha xs) = (length xs + 1) div 2"
  by (induction sha xs rule: next_layer.induct) auto

function tree_layers :: "(bytes \<Rightarrow> bytes) \<Rightarrow> bytes list \<Rightarrow> bytes list list" where
  "tree_layers sha current =
     (if length current > 1 then current # tree_layers sha (next_layer sha current) else [current])"
  by pat_completeness auto
termination by (relation "measure (\<lambda>(_, xs). length xs)") auto

declare tree_layers.simps [simp del]

fun proof_loop :: "bytes list list \<Rightarrow> nat \<Rightarrow> bytes list" where
  "proof_loop [] index = []"
| "proof_loop (layer # layers) index =
     (let sibling = (if even index then index + 1 else index - 1)
      in (if sibling < length layer then [layer ! sibling] else []) @ proof_loop layers (index div 2))"

definition generate_proof :: "bytes list list \<Rightarrow> nat \<Rightarrow> bytes list" where
  "generate_proof layers index = proof_loop (butlast layers) index"

definition hex_0x :: "bytes \<Rightarrow> string" where
  "hex_0x h = ''0x'' @ hex_encode h"

definition build_merkle_tree ::
    "(bytes \<Rightarrow> bytes) \<Rightarrow> (string \<Rightarrow> bytes option) \<Rightarrow> reward_allocation list \<Rightarrow> u64 \<Rightarrow> string \<times> merkle_proof_entry list" where
  "build_merkle_tree sha decode allocations epoch =
     (if allocations = [] then (''0x'' @ replicate 64 (CHR ''0''), [])
      else
        let leaves = map (claim_leaf sha decode epoch) allocations;
            layers = tree_layers sha leaves;
            current = last layers;
            merkle_root = (if current = [] then replicate 32 0 else current ! 0)
        in (hex_0x merkle_root,
            map (\<lambda>(idx, a). \<lparr>pe_address = ra_address a, pe_amount = ra_total_reward a,
                             pe_proof = map hex_0x (generate_proof layers idx), pe_leaf = hex_0x (leaves ! idx)\<rparr>)
              (enumerate 0 allocations)))"

text \<open>\<open>_verifySHA256Proof\<close> of the contract.\<close>

definition verify_sha256_proof :: "(bytes \<Rightarrow> bytes) \<Rightarrow> bytes list \<Rightarrow> bytes \<Rightarrow> bytes \<Rightarrow> bool" where
  "verify_sha256_proof sha siblings merkle_root leaf =
     (foldl (\<lambda>computed p. if computed \<le> p then sha (computed @ p) else sha (p @ computed)) leaf siblings = merkle_root)"

text \<open>
  The leaf that \<open>claimRewards\<close> of the contract hashes twice from \<open>abi.encode(msg.sender, amount, epoch)\<close>: an account of 160 bits and two
  integers of 256 bits, each as a big-endian word of 32 bytes.
\<close>

type_synonym evm_address = "160 word"
type_synonym u256 = "256 word"

definition abi_encode_uint256 :: "u256 \<Rightarrow> bytes" where
  "abi_encode_uint256 x = rev (le_bytes 32 x)"

definition contract_claim_leaf :: "(bytes \<Rightarrow> bytes) \<Rightarrow> evm_address \<Rightarrow> u256 \<Rightarrow> u256 \<Rightarrow> bytes" where
  "contract_claim_leaf sha account amount epoch =
     sha (sha (abi_encode_uint256 (ucast account) @ abi_encode_uint256 amount @ abi_encode_uint256 epoch))"

section \<open>Rewards\<close>

fun first_duplicate :: "string list \<Rightarrow> staker_stake list \<Rightarrow> string option" where
  "first_duplicate seen [] = None"
| "first_duplicate seen (s # ss) =
     (if ss_address s \<in> set seen then Some (ss_address s) else first_duplicate (ss_address s # seen) ss)"

definition validator_scores :: "scored_validator list \<Rightarrow> (string, u32) hashmap" where
  "validator_scores vs = foldl (\<lambda>m v. hm_insert (sv_address v) (sv_performance_score v) m) [] vs"

fun check_delegations :: "(string, u32) hashmap \<Rightarrow> staker_stake list \<Rightarrow> (string, unit) result" where
  "check_delegations scores [] = Ok ()"
| "check_delegations scores (s # ss) =
     (if ss_delegated_to s = []
      then Err (''staker '' @ ss_address s @ '' has empty delegated_to: delegation is mandatory for reward weighting'')
      else if hm_get scores (ss_delegated_to s) = None
      then Err (''staker '' @ ss_address s @ '' delegates to validator '' @ ss_delegated_to s
                @ '' which is not in the active validator set'')
      else check_delegations scores ss)"

definition staker_weight :: "(string, u32) hashmap \<Rightarrow> staker_stake \<Rightarrow> u128" where
  "staker_weight scores s =
     (let perf_score = (case hm_get scores (ss_delegated_to s) of Some x \<Rightarrow> x | None \<Rightarrow> 0);
          weight_factor = ucast BPS_DENOMINATOR + muldiv (ucast perf_score) BONUS_BPS (ucast BPS_DENOMINATOR)
      in muldiv (ss_shares s) weight_factor (ucast BPS_DENOMINATOR))"

definition allocation_of ::
    "calculate_rewards_request \<Rightarrow> u128 \<Rightarrow> u128 \<Rightarrow> u128 \<Rightarrow> staker_stake \<times> u128 \<Rightarrow> reward_allocation" where
  "allocation_of req distributable total_stake total_weighted sw =
     (let (staker, weighted_stake) = sw;
          total_reward = muldiv distributable weighted_stake total_weighted;
          base_reward = muldiv distributable (ss_shares staker) total_stake;
          mev_pool = muldiv (rq_mev_revenue req) (ucast MEV_STAKER_SHARE_BPS) (ucast BPS_DENOMINATOR)
      in \<lparr>ra_address = ss_address staker, ra_base_reward = base_reward,
          ra_performance_bonus = saturating_sub total_reward base_reward,
          ra_mev_share = muldiv mev_pool (ss_shares staker) total_stake, ra_total_reward = total_reward\<rparr>)"

definition calculate_rewards ::
    "(bytes \<Rightarrow> bytes) \<Rightarrow> (string \<Rightarrow> bytes option) \<Rightarrow> calculate_rewards_request
      \<Rightarrow> (string, calculate_rewards_response) result option" where
  "calculate_rewards sha decode req =
     (let stakers = rq_staker_stakes req
      in case first_duplicate [] stakers of
           Some address \<Rightarrow> Some (Err (''duplicate staker address in reward request: '' @ address))
         | None \<Rightarrow>
             let protocol_fee = muldiv (rq_total_rewards req) (ucast PROTOCOL_FEE_BPS) (ucast BPS_DENOMINATOR);
                 distributable = rq_total_rewards req - protocol_fee;
                 scores = validator_scores (rq_validators req);
                 total_stake = sum_list (map ss_shares stakers)
             in if total_stake = 0 then
                  Some (Ok \<lparr>rr_epoch = rq_epoch req, rr_allocations = [], rr_total_distributed = 0, rr_protocol_fee = protocol_fee,
                            rr_merkle_root = ''0x'' @ replicate 64 (CHR ''0''), rr_merkle_proofs = [],
                            rr_attestation = attestation_document_default, rr_stake_snapshot_hash = [], rr_validator_set_hash = []\<rparr>)
                else case check_delegations scores stakers of
                  Err e \<Rightarrow> Some (Err e)
                | Ok _ \<Rightarrow>
                    let weights = map (staker_weight scores) stakers;
                        total_weighted = sum_list weights;
                        allocations = sort_key ra_address
                          (map (allocation_of req distributable total_stake total_weighted) (zip stakers weights));
                        total_distributed = sum_list (map ra_total_reward allocations);
                        (merkle_root, merkle_proofs) = build_merkle_tree sha decode allocations (rq_epoch req)
                    in if total_distributed > distributable then None
                       else Some (Ok \<lparr>rr_epoch = rq_epoch req, rr_allocations = allocations,
                              rr_total_distributed = total_distributed, rr_protocol_fee = protocol_fee, rr_merkle_root = merkle_root,
                              rr_merkle_proofs = merkle_proofs, rr_attestation = attestation_document_default,
                              rr_stake_snapshot_hash = [], rr_validator_set_hash = []\<rparr>))"

end
