(* ===== verification/Vault_Selection.thy ===== *)
theory Vault_Selection
  imports Vault_Rewards Rust_Float
begin

text \<open>
  \<open>src/crates/vault/src/validator_selection.rs\<close> and \<open>mev_protection.rs\<close> with the types they use from \<open>types.rs\<close>:
  the scores of the candidates, the selection under the caps on regions and operators, and the ordering of revealed blocks.

  The natural logarithm is the argument \<open>logn\<close>. Sizes are natural numbers, with the wrap-around of the only product written out.
  The order in which a hash map is walked is the argument \<open>order\<close>.
\<close>

section \<open>Candidates and policy\<close>

record validator_input =
  vn_address :: string
  vn_stake :: u128
  vn_uptime_pct :: f64
  vn_avg_response_ms :: f64
  vn_geographic_region :: string
  vn_country_code :: string
  vn_operator_id :: string
  vn_slash_count :: u32
  vn_total_jobs_completed :: u64
  vn_tee_public_key :: string
  vn_commission_bps :: u32

record selection_config =
  sc_performance_weight :: f64
  sc_decentralization_weight :: f64
  sc_reputation_weight :: f64
  sc_min_uptime_pct :: f64
  sc_max_commission_bps :: u32
  sc_max_per_region :: nat
  sc_max_per_operator :: nat
  sc_min_stake :: u128

definition selection_config_default :: selection_config where
  "selection_config_default =
     \<lparr>sc_performance_weight = f64_lit (4 / 10), sc_decentralization_weight = f64_lit (3 / 10),
      sc_reputation_weight = f64_lit (3 / 10), sc_min_uptime_pct = f64_lit 95, sc_max_commission_bps = 1000,
      sc_max_per_region = 0, sc_max_per_operator = 3, sc_min_stake = 32000000000000000000\<rparr>"

definition SELECTION_MAX_SCORE :: u32 where "SELECTION_MAX_SCORE = 10000"

section \<open>Scores\<close>

definition f64_clamp :: "f64 \<Rightarrow> f64 \<Rightarrow> f64 \<Rightarrow> f64" where
  "f64_clamp x lo hi = (let x = (if f64_lt x lo then lo else x) in if f64_lt hi x then hi else x)"

definition performance_score :: "(f64 \<Rightarrow> f64) \<Rightarrow> validator_input \<Rightarrow> u32" where
  "performance_score logn v =
     (let uptime_normalized = f64_clamp (f64_div (f64_sub (vn_uptime_pct v) (f64_lit 95)) (f64_lit 5)) (f64_lit 0) (f64_lit 1);
          uptime_score = f64_as_word (f64_mul uptime_normalized (f64_lit 5000));
          latency_normalized =
            f64_sub (f64_lit 1)
              (f64_clamp (f64_div (f64_sub (vn_avg_response_ms v) (f64_lit 50)) (f64_lit 450)) (f64_lit 0) (f64_lit 1));
          latency_score = f64_as_word (f64_mul latency_normalized (f64_lit 3000));
          jobs_log = f64_div (logn (f64_add (f64_lit 1) (u64_as_f64 (vn_total_jobs_completed v))))
                             (logn (f64_add (f64_lit 1) (f64_lit 100000)));
          jobs_score = f64_as_word (f64_mul (f64_clamp jobs_log (f64_lit 0) (f64_lit 1)) (f64_lit 2000))
      in min (uptime_score + latency_score + jobs_score) SELECTION_MAX_SCORE)"

definition count_by_field :: "('a \<Rightarrow> string) \<Rightarrow> 'a list \<Rightarrow> (string, nat) hashmap" where
  "count_by_field key_fn items = foldl (\<lambda>m x. hm_insert (key_fn x) (hm_entry 0 m (key_fn x) + 1) m) [] items"

definition usize_as_f64 :: "nat \<Rightarrow> f64" where
  "usize_as_f64 n = u64_as_f64 (of_nat n)"

definition decentralization_score :: "validator_input \<Rightarrow> (string, nat) hashmap \<Rightarrow> f64 \<Rightarrow> u32" where
  "decentralization_score v region_counts total_regions =
     (let region_count = usize_as_f64 (hm_entry 1 region_counts (vn_geographic_region v));
          total_validators = usize_as_f64 (sum_list (map snd region_counts));
          rarity = f64_sub (f64_lit 1) (f64_div region_count total_validators);
          rarity_score = f64_as_word (f64_mul rarity (f64_lit 6000));
          diversity_bonus =
            (if f64_le region_count (f64_lit 2) then 4000
             else if f64_le region_count (f64_lit 5) then 2000
             else f64_as_word (f64_mul (f64_div total_regions (f64_add region_count total_regions)) (f64_lit 4000)))
      in min (rarity_score + diversity_bonus) SELECTION_MAX_SCORE)"

definition reputation_score :: "validator_input \<Rightarrow> u32" where
  "reputation_score v =
     (let slashes = u64_as_f64 (ucast (vn_slash_count v));
          jobs = u64_as_f64 (vn_total_jobs_completed v);
          slash_penalty = f64_div (f64_lit 1) (f64_add (f64_lit 1) (f64_mul slashes (f64_lit 2)));
          slash_score = f64_as_word (f64_mul slash_penalty (f64_lit 7000));
          reliability = (if vn_total_jobs_completed v = 0 then f64_lit (1 / 2) else f64_div jobs (f64_add jobs slashes));
          track_score = f64_as_word (f64_mul reliability (f64_lit 3000))
      in min (slash_score + track_score) SELECTION_MAX_SCORE)"

definition vault_u32_as_f64 :: "u32 \<Rightarrow> f64" where
  "vault_u32_as_f64 x = u64_as_f64 (ucast x)"

definition weighted_composite :: "u32 \<Rightarrow> u32 \<Rightarrow> u32 \<Rightarrow> f64 \<Rightarrow> f64 \<Rightarrow> f64 \<Rightarrow> u32" where
  "weighted_composite perf decent rep perf_weight decent_weight rep_weight =
     (let composite = f64_add (f64_add (f64_mul (vault_u32_as_f64 perf) perf_weight) (f64_mul (vault_u32_as_f64 decent) decent_weight))
                              (f64_mul (vault_u32_as_f64 rep) rep_weight)
      in min (f64_as_word composite) SELECTION_MAX_SCORE)"

section \<open>Selection\<close>

fun dedup_candidates :: "string list \<Rightarrow> validator_input list \<Rightarrow> validator_input list" where
  "dedup_candidates seen [] = []"
| "dedup_candidates seen (v # vs) =
     (if vn_address v \<in> set seen then dedup_candidates seen vs else v # dedup_candidates (vn_address v # seen) vs)"

definition candidate_eligible :: "selection_config \<Rightarrow> validator_input \<Rightarrow> bool" where
  "candidate_eligible config v \<longleftrightarrow>
     f64_le (sc_min_uptime_pct config) (vn_uptime_pct v) \<and> vn_commission_bps v \<le> sc_max_commission_bps config
     \<and> sc_min_stake config \<le> vn_stake v"

definition score_candidate ::
    "(f64 \<Rightarrow> f64) \<Rightarrow> selection_config \<Rightarrow> (string, nat) hashmap \<Rightarrow> validator_input \<Rightarrow> scored_validator" where
  "score_candidate logn config region_counts v =
     (let perf = performance_score logn v;
          decent = decentralization_score v region_counts (usize_as_f64 (length region_counts));
          rep = reputation_score v
      in \<lparr>sv_address = vn_address v, sv_stake = vn_stake v, sv_performance_score = perf, sv_decentralization_score = decent,
          sv_reputation_score = rep,
          sv_composite_score = weighted_composite perf decent rep (sc_performance_weight config)
            (sc_decentralization_weight config) (sc_reputation_weight config),
          sv_tee_public_key = vn_tee_public_key v, sv_commission_bps = vn_commission_bps v, sv_rank = 0\<rparr>)"

definition candidate_map :: "validator_input list \<Rightarrow> (string, validator_input) hashmap" where
  "candidate_map candidates = foldl (\<lambda>m v. hm_insert (vn_address v) v m) [] candidates"

definition effective_max_region :: "nat \<Rightarrow> nat \<Rightarrow> nat" where
  "effective_max_region target_count max_per_region =
     (if max_per_region = 0 then max ((target_count * 2) mod 2 ^ 64 div 5) 2 else max_per_region)"

record diversity_state =
  dv_regions :: "(string, nat) hashmap"
  dv_operators :: "(string, nat) hashmap"
  dv_addrs :: "string list"
  dv_selected :: "scored_validator list"

fun diversity_loop ::
    "nat \<Rightarrow> nat \<Rightarrow> nat \<Rightarrow> (string, validator_input) hashmap \<Rightarrow> diversity_state \<Rightarrow> scored_validator list \<Rightarrow> diversity_state" where
  "diversity_loop target max_region max_operator cmap st [] = st"
| "diversity_loop target max_region max_operator cmap st (v # vs) =
     (if length (dv_selected st) \<ge> target then st
      else if sv_address v \<in> set (dv_addrs st) then diversity_loop target max_region max_operator cmap st vs
      else case hm_get cmap (sv_address v) of
             None \<Rightarrow> diversity_loop target max_region max_operator cmap st vs
           | Some c \<Rightarrow>
               let region = vn_geographic_region c; operator = vn_operator_id c;
                   region_n = hm_entry 0 (dv_regions st) region; operator_n = hm_entry 0 (dv_operators st) operator
               in if region_n \<ge> effective_max_region target max_region
                  then diversity_loop target max_region max_operator cmap st vs
                  else if operator_n \<ge> max_operator then diversity_loop target max_region max_operator cmap st vs
                  else diversity_loop target max_region max_operator cmap
                         \<lparr>dv_regions = hm_insert region (region_n + 1) (dv_regions st),
                          dv_operators = hm_insert operator (operator_n + 1) (dv_operators st),
                          dv_addrs = sv_address v # dv_addrs st, dv_selected = dv_selected st @ [v]\<rparr> vs)"

definition apply_diversity_constraints ::
    "scored_validator list \<Rightarrow> nat \<Rightarrow> nat \<Rightarrow> nat \<Rightarrow> validator_input list \<Rightarrow> scored_validator list" where
  "apply_diversity_constraints scored target_count max_per_region max_per_operator candidates =
     dv_selected (diversity_loop target_count max_per_region max_per_operator (candidate_map candidates)
       \<lparr>dv_regions = [], dv_operators = [], dv_addrs = [], dv_selected = []\<rparr> scored)"

definition eligible_candidates :: "selection_config \<Rightarrow> validator_input list \<Rightarrow> validator_input list" where
  "eligible_candidates config candidates = filter (candidate_eligible config) (dedup_candidates [] candidates)"

text \<open>A stable sort by descending composite score.\<close>

definition sort_by_score :: "scored_validator list \<Rightarrow> scored_validator list" where
  "sort_by_score scored = sort_key (\<lambda>v. - int (unat (sv_composite_score v))) scored"

definition select_validators ::
    "(f64 \<Rightarrow> f64) \<Rightarrow> validator_input list \<Rightarrow> nat \<Rightarrow> selection_config \<Rightarrow> scored_validator list" where
  "select_validators logn candidates target_count config =
     (let eligible = eligible_candidates config candidates
      in if eligible = [] then []
         else
           let region_counts = count_by_field vn_geographic_region eligible;
               scored = sort_by_score (map (score_candidate logn config region_counts) eligible);
               selected = apply_diversity_constraints scored target_count (sc_max_per_region config) (sc_max_per_operator config) candidates
           in map (\<lambda>(i, v). v\<lparr>sv_rank := of_nat (i + 1)\<rparr>) (enumerate 0 selected))"

section \<open>Ordering of revealed blocks\<close>

record commitment =
  cm_validator :: string
  cm_commitment_hash :: string
  cm_timestamp :: u64

record reveal =
  rv_validator :: string
  rv_block_data :: string
  rv_nonce :: string
  rv_timestamp :: u64

record validated_reveal =
  vr_validator :: string
  vr_block_data :: string
  vr_ordering_timestamp :: u64
  vr_position :: u32

record mev_alert =
  al_alert_type :: string
  al_description :: string
  al_validators :: "string list"
  al_severity :: string
  al_block_data_hash :: string

definition compute_commitment_hash :: "(bytes \<Rightarrow> bytes) \<Rightarrow> string \<Rightarrow> string \<Rightarrow> string" where
  "compute_commitment_hash sha block_data nonce = hex_encode (sha (ascii block_data @ ascii nonce))"

definition verify_commitment_hash :: "(bytes \<Rightarrow> bytes) \<Rightarrow> string \<Rightarrow> string \<Rightarrow> string \<Rightarrow> bool" where
  "verify_commitment_hash sha block_data nonce expected_hash \<longleftrightarrow> compute_commitment_hash sha block_data nonce = expected_hash"

definition compute_block_data_hash :: "(bytes \<Rightarrow> bytes) \<Rightarrow> string \<Rightarrow> string" where
  "compute_block_data_hash sha block_data = hex_encode (sha (ascii block_data))"

definition commitment_map :: "commitment list \<Rightarrow> (string, commitment) hashmap" where
  "commitment_map commitments = foldl (\<lambda>m c. hm_insert (cm_validator c) c m) [] commitments"

definition reveal_valid :: "(bytes \<Rightarrow> bytes) \<Rightarrow> (string, commitment) hashmap \<Rightarrow> reveal \<Rightarrow> bool" where
  "reveal_valid sha cmap r =
     (case hm_get cmap (rv_validator r) of
        Some c \<Rightarrow> verify_commitment_hash sha (rv_block_data r) (rv_nonce r) (cm_commitment_hash c)
      | None \<Rightarrow> False)"

definition validated_of :: "reveal \<Rightarrow> validated_reveal" where
  "validated_of r =
     \<lparr>vr_validator = rv_validator r, vr_block_data = rv_block_data r, vr_ordering_timestamp = rv_timestamp r, vr_position = 0\<rparr>"

fun reveal_loop ::
    "(bytes \<Rightarrow> bytes) \<Rightarrow> (string, commitment) hashmap \<Rightarrow> reveal list \<Rightarrow> validated_reveal list \<Rightarrow> string list
      \<Rightarrow> validated_reveal list \<times> string list" where
  "reveal_loop sha cmap [] valid_reveals invalid = (valid_reveals, invalid)"
| "reveal_loop sha cmap (r # rs) valid_reveals invalid =
     (if reveal_valid sha cmap r then reveal_loop sha cmap rs (valid_reveals @ [validated_of r]) invalid
      else reveal_loop sha cmap rs valid_reveals (invalid @ [rv_validator r]))"

definition process_commit_reveal ::
    "(bytes \<Rightarrow> bytes) \<Rightarrow> commitment list \<Rightarrow> reveal list \<Rightarrow> validated_reveal list \<times> string list" where
  "process_commit_reveal sha commitments reveals =
     (let (valid_reveals, invalid) = reveal_loop sha (commitment_map commitments) reveals [] [];
          ordered = sort_key vr_ordering_timestamp valid_reveals
      in (map (\<lambda>(i, r). r\<lparr>vr_position := of_nat i\<rparr>) (enumerate 0 ordered), invalid))"

definition data_seen :: "validated_reveal list \<Rightarrow> (string, string list) hashmap" where
  "data_seen reveals = foldl (\<lambda>m r. hm_insert (vr_block_data r) (hm_entry [] m (vr_block_data r) @ [vr_validator r]) m) [] reveals"

fun simultaneous_alerts :: "validated_reveal list \<Rightarrow> mev_alert list" where
  "simultaneous_alerts (a # b # rs) =
     (if saturating_sub (vr_ordering_timestamp b) (vr_ordering_timestamp a) = 0
      then [\<lparr>al_alert_type = ''SIMULTANEOUS_SUBMISSION'', al_description = ''Two reveals with identical timestamps'',
             al_validators = [vr_validator a, vr_validator b], al_severity = ''LOW'', al_block_data_hash = []\<rparr>]
      else []) @ simultaneous_alerts (b # rs)"
| "simultaneous_alerts rs = []"

definition duplicate_alert :: "(bytes \<Rightarrow> bytes) \<Rightarrow> string \<times> string list \<Rightarrow> mev_alert" where
  "duplicate_alert sha entry =
     (let (data, validators) = entry
      in \<lparr>al_alert_type = ''DUPLICATE_BLOCK_DATA'',
          al_description = ''Identical block data submitted by '' @ show_nat (length validators) @ '' validators'',
          al_validators = validators, al_severity = (if length validators > 2 then ''HIGH'' else ''MEDIUM''),
          al_block_data_hash = compute_block_data_hash sha data\<rparr>)"

definition detect_mev_patterns ::
    "(bytes \<Rightarrow> bytes) \<Rightarrow> ((string \<times> string list) list \<Rightarrow> (string \<times> string list) list) \<Rightarrow> validated_reveal list \<Rightarrow> mev_alert list" where
  "detect_mev_patterns sha order reveals =
     map (duplicate_alert sha) (filter (\<lambda>(_, validators). length validators > 1) (order (data_seen reveals)))
     @ simultaneous_alerts reveals"

end
