(* ===== verification/Vault_Selection_Properties.thy ===== *)
theory Vault_Selection_Properties
  imports Vault_Selection
begin

text \<open>
  The selection keeps its caps and is maximal under them; the ordering of revealed blocks is exact.
\<close>

section \<open>Caps on regions and operators\<close>

definition tally :: "(string, validator_input) hashmap \<Rightarrow> (validator_input \<Rightarrow> string) \<Rightarrow> string \<Rightarrow> scored_validator list \<Rightarrow> nat" where
  "tally cmap field k vs =
     length (filter (\<lambda>v. case hm_get cmap (sv_address v) of Some c \<Rightarrow> field c = k | None \<Rightarrow> False) vs)"

lemma tally_snoc:
  "hm_get cmap (sv_address v) = Some c \<Longrightarrow> tally cmap field k (vs @ [v]) = tally cmap field k vs + (if field c = k then 1 else 0)"
  by (simp add: tally_def)

lemma tally_mono: "tally cmap field k vs \<le> tally cmap field k (vs @ ws)"
  by (simp add: tally_def)

definition counted :: "nat \<Rightarrow> nat \<Rightarrow> nat \<Rightarrow> (string, validator_input) hashmap \<Rightarrow> diversity_state \<Rightarrow> bool" where
  "counted target max_r max_o cmap st \<longleftrightarrow>
     distinct (map sv_address (dv_selected st)) \<and> set (dv_addrs st) = sv_address ` set (dv_selected st)
     \<and> (\<forall>k. hm_entry 0 (dv_regions st) k = tally cmap vn_geographic_region k (dv_selected st))
     \<and> (\<forall>k. hm_entry 0 (dv_operators st) k = tally cmap vn_operator_id k (dv_selected st))
     \<and> (\<forall>k. tally cmap vn_geographic_region k (dv_selected st) \<le> max_r)
     \<and> (\<forall>k. tally cmap vn_operator_id k (dv_selected st) \<le> max_o)
     \<and> length (dv_selected st) \<le> target"

lemma hm_entry_insert: "hm_entry d (hm_insert k v m) k' = (if k' = k then v else hm_entry d m k')"
  by (simp add: hm_entry_def)

lemma counted_add:
  assumes "counted target max_r max_o cmap st" and c: "hm_get cmap (sv_address v) = Some c" and "sv_address v \<notin> set (dv_addrs st)"
    and "length (dv_selected st) < target"
    and "hm_entry 0 (dv_regions st) (vn_geographic_region c) < max_r" and "hm_entry 0 (dv_operators st) (vn_operator_id c) < max_o"
  shows "counted target max_r max_o cmap
    \<lparr>dv_regions = hm_insert (vn_geographic_region c) (hm_entry 0 (dv_regions st) (vn_geographic_region c) + 1) (dv_regions st),
     dv_operators = hm_insert (vn_operator_id c) (hm_entry 0 (dv_operators st) (vn_operator_id c) + 1) (dv_operators st),
     dv_addrs = sv_address v # dv_addrs st, dv_selected = dv_selected st @ [v]\<rparr>"
  using assms by (auto simp: counted_def tally_snoc [OF c] hm_entry_insert Suc_le_eq)

text \<open>Why a candidate that was looked at is not selected.\<close>

definition crowded_out :: "nat \<Rightarrow> nat \<Rightarrow> nat \<Rightarrow> (string, validator_input) hashmap \<Rightarrow> scored_validator list \<Rightarrow> scored_validator \<Rightarrow> bool" where
  "crowded_out target max_r max_o cmap sel v \<longleftrightarrow>
     target \<le> length sel
     \<or> (case hm_get cmap (sv_address v) of
          None \<Rightarrow> True
        | Some c \<Rightarrow> max_r \<le> tally cmap vn_geographic_region (vn_geographic_region c) sel
                    \<or> max_o \<le> tally cmap vn_operator_id (vn_operator_id c) sel)"

lemma crowded_out_mono: "crowded_out t mr mo cmap sel v \<Longrightarrow> crowded_out t mr mo cmap (sel @ xs) v"
  using tally_mono [of cmap _ _ sel xs] by (auto simp: crowded_out_def split: option.splits intro: order_trans)

text \<open>What a run of the loop leaves: the invariant, an extension by candidates of the list, and a reason for each one left out.\<close>

definition loop_result ::
    "nat \<Rightarrow> nat \<Rightarrow> nat \<Rightarrow> (string, validator_input) hashmap \<Rightarrow> diversity_state \<Rightarrow> scored_validator list \<Rightarrow> diversity_state \<Rightarrow> bool" where
  "loop_result target max_r max_o cmap st vs st' \<longleftrightarrow>
     counted target max_r max_o cmap st'
     \<and> (\<exists>xs. dv_selected st' = dv_selected st @ xs \<and> set xs \<subseteq> set vs
         \<and> (\<forall>R. sorted_wrt R (dv_selected st @ vs) \<longrightarrow> sorted_wrt R (dv_selected st @ xs)))
     \<and> (\<forall>v\<in>set vs. sv_address v \<in> sv_address ` set (dv_selected st') \<or> crowded_out target max_r max_o cmap (dv_selected st') v)"

lemma sorted_wrt_drop: "sorted_wrt R (xs @ y # ys) \<Longrightarrow> sorted_wrt R (xs @ ys)"
  by (auto simp: sorted_wrt_append)

lemma loop_result_skip:
  assumes "loop_result t mr mo cmap st vs st'" and "sv_address v \<in> sv_address ` set (dv_selected st) \<or> crowded_out t mr mo cmap (dv_selected st) v"
  shows "loop_result t mr mo cmap st (v # vs) st'"
proof -
  obtain xs where xs: "dv_selected st' = dv_selected st @ xs" "set xs \<subseteq> set vs"
      "\<And>R. sorted_wrt R (dv_selected st @ vs) \<Longrightarrow> sorted_wrt R (dv_selected st @ xs)"
    using assms(1) unfolding loop_result_def by blast
  have "sv_address v \<in> sv_address ` set (dv_selected st') \<or> crowded_out t mr mo cmap (dv_selected st') v"
    using assms(2) crowded_out_mono [of t mr mo cmap "dv_selected st" v xs] by (auto simp: xs(1))
  moreover have "\<exists>xs. dv_selected st' = dv_selected st @ xs \<and> set xs \<subseteq> set (v # vs)
      \<and> (\<forall>R. sorted_wrt R (dv_selected st @ v # vs) \<longrightarrow> sorted_wrt R (dv_selected st @ xs))"
    using xs sorted_wrt_drop [of _ "dv_selected st" v vs] by (intro exI [of _ xs]) auto
  ultimately show ?thesis using assms(1) unfolding loop_result_def by simp
qed

lemma loop_result_take:
  assumes "loop_result t mr mo cmap st1 vs st'" and "dv_selected st1 = dv_selected st @ [v]"
  shows "loop_result t mr mo cmap st (v # vs) st'"
proof -
  obtain xs where xs: "dv_selected st' = dv_selected st @ v # xs" "set xs \<subseteq> set vs"
      "\<And>R. sorted_wrt R (dv_selected st @ v # vs) \<Longrightarrow> sorted_wrt R (dv_selected st @ v # xs)"
    using assms unfolding loop_result_def by auto
  then have "\<exists>xs. dv_selected st' = dv_selected st @ xs \<and> set xs \<subseteq> set (v # vs)
      \<and> (\<forall>R. sorted_wrt R (dv_selected st @ v # vs) \<longrightarrow> sorted_wrt R (dv_selected st @ xs))"
    by (intro exI [of _ "v # xs"]) auto
  then show ?thesis using assms(1) xs(1) unfolding loop_result_def by simp
qed

lemma loop_result_stop:
  assumes "counted t mr mo cmap st" and "t \<le> length (dv_selected st)"
  shows "loop_result t mr mo cmap st vs st"
proof -
  have "\<exists>xs. dv_selected st = dv_selected st @ xs \<and> set xs \<subseteq> set vs
      \<and> (\<forall>R. sorted_wrt R (dv_selected st @ vs) \<longrightarrow> sorted_wrt R (dv_selected st @ xs))"
    by (intro exI [of _ "[]"]) (auto simp: sorted_wrt_append)
  then show ?thesis using assms by (simp add: loop_result_def crowded_out_def)
qed

lemma diversity_loop_result:
  "counted t (effective_max_region t mr) mo cmap st \<Longrightarrow>
   loop_result t (effective_max_region t mr) mo cmap st vs (diversity_loop t mr mo cmap st vs)"
proof (induction t mr mo cmap st vs rule: diversity_loop.induct)
  case (1 t mr mo cmap st)
  then show ?case by (simp add: loop_result_def)
next
  case (2 t mr mo cmap st v vs)
  let ?mr = "effective_max_region t mr"
  show ?case
  proof (cases "t \<le> length (dv_selected st)")
    case True
    then show ?thesis using loop_result_stop [OF 2(6)] by simp
  next
    case room: False
    show ?thesis
    proof (cases "sv_address v \<in> set (dv_addrs st)")
      case True
      then have "sv_address v \<in> sv_address ` set (dv_selected st)" using 2(6) by (simp add: counted_def)
      then show ?thesis using room True 2(1) [OF room True 2(6)] by (auto intro: loop_result_skip)
    next
      case fresh: False
      show ?thesis
      proof (cases "hm_get cmap (sv_address v)")
        case None
        then have "crowded_out t ?mr mo cmap (dv_selected st) v" by (simp add: crowded_out_def)
        then show ?thesis using room fresh None 2(2) [OF room fresh None 2(6)] by (auto intro: loop_result_skip)
      next
        case (Some c)
        let ?rn = "hm_entry 0 (dv_regions st) (vn_geographic_region c)" and ?on = "hm_entry 0 (dv_operators st) (vn_operator_id c)"
        have n: "?rn = tally cmap vn_geographic_region (vn_geographic_region c) (dv_selected st)"
            "?on = tally cmap vn_operator_id (vn_operator_id c) (dv_selected st)"
          using 2(6) by (simp_all add: counted_def)
        consider (region) "?mr \<le> ?rn" | (operator) "\<not> ?mr \<le> ?rn" "mo \<le> ?on" | (free) "\<not> ?mr \<le> ?rn" "\<not> mo \<le> ?on" by blast
        then show ?thesis
        proof cases
          case region
          then have "crowded_out t ?mr mo cmap (dv_selected st) v" by (simp add: crowded_out_def Some n)
          then show ?thesis using room fresh Some region 2(3) [OF room fresh Some refl refl refl refl region 2(6)]
            by (auto simp: Let_def intro: loop_result_skip)
        next
          case operator
          then have "crowded_out t ?mr mo cmap (dv_selected st) v" by (simp add: crowded_out_def Some n)
          then show ?thesis using room fresh Some operator 2(4) [OF room fresh Some refl refl refl refl operator 2(6)]
            by (auto simp: Let_def intro: loop_result_skip)
        next
          case free
          have "counted t ?mr mo cmap
              \<lparr>dv_regions = hm_insert (vn_geographic_region c) (?rn + 1) (dv_regions st),
               dv_operators = hm_insert (vn_operator_id c) (?on + 1) (dv_operators st),
               dv_addrs = sv_address v # dv_addrs st, dv_selected = dv_selected st @ [v]\<rparr>"
            using counted_add [OF 2(6) Some fresh] room free by simp
          from 2(5) [OF room fresh Some refl refl refl refl free this]
          show ?thesis using room fresh Some free by (auto simp: Let_def intro: loop_result_take)
        qed
      qed
    qed
  qed
qed


lemma diversity_result:
  "loop_result t (effective_max_region t mr) mo (candidate_map cs)
     \<lparr>dv_regions = [], dv_operators = [], dv_addrs = [], dv_selected = []\<rparr> scored
     (diversity_loop t mr mo (candidate_map cs) \<lparr>dv_regions = [], dv_operators = [], dv_addrs = [], dv_selected = []\<rparr> scored)"
  by (rule diversity_loop_result) (simp add: counted_def tally_def hm_entry_def)

section \<open>Candidates\<close>

lemma dedup_distinct:
  "distinct (map vn_address cs) \<Longrightarrow> set seen \<inter> vn_address ` set cs = {} \<Longrightarrow> dedup_candidates seen cs = cs"
  by (induction seen cs rule: dedup_candidates.induct) auto

lemma candidate_map_get:
  assumes "distinct (map vn_address cs)" "c \<in> set cs"
  shows "hm_get (candidate_map cs) (vn_address c) = Some c"
proof -
  have "hm_get (foldl (\<lambda>m v. hm_insert (vn_address v) v m) m cs) k =
      (case filter (\<lambda>c. vn_address c = k) (rev cs) of [] \<Rightarrow> hm_get m k | x # _ \<Rightarrow> Some x)" for m k
    by (induction cs rule: rev_induct) (auto simp: hm_get_insert)
  moreover have "filter (\<lambda>d. vn_address d = vn_address c) (rev cs) = [c]"
  proof -
    have "filter (\<lambda>d. vn_address d = vn_address c) cs = [c]" using assms
    proof (induction cs)
      case (Cons d ds)
      show ?case
      proof (cases "d = c")
        case True
        then have "filter (\<lambda>d. vn_address d = vn_address c) ds = []"
          using Cons.prems by (metis (mono_tags, lifting) distinct.simps(2) filter_empty_conv image_eqI list.set_map list.simps(9))
        then show ?thesis using True by simp
      next
        case False
        then have "c \<in> set ds" using Cons.prems by simp
        moreover from this have "vn_address d \<noteq> vn_address c" using Cons.prems by auto
        ultimately show ?thesis using Cons by simp
      qed
    qed simp
    then show ?thesis by (simp add: rev_filter [symmetric])
  qed
  ultimately show ?thesis by (simp add: candidate_map_def)
qed

lemma score_candidate_fields [simp]:
  "sv_address (score_candidate logn config rc v) = vn_address v" "sv_stake (score_candidate logn config rc v) = vn_stake v"
  "sv_tee_public_key (score_candidate logn config rc v) = vn_tee_public_key v"
  "sv_commission_bps (score_candidate logn config rc v) = vn_commission_bps v"
  by (simp_all add: score_candidate_def Let_def)

lemma score_candidate_bounds:
  "sv_performance_score (score_candidate logn config rc v) \<le> SELECTION_MAX_SCORE" "sv_decentralization_score (score_candidate logn config rc v) \<le> SELECTION_MAX_SCORE"
  "sv_reputation_score (score_candidate logn config rc v) \<le> SELECTION_MAX_SCORE" "sv_composite_score (score_candidate logn config rc v) \<le> SELECTION_MAX_SCORE"
  by (simp_all add: score_candidate_def Let_def performance_score_def decentralization_score_def reputation_score_def weighted_composite_def)

lemma sort_by_score_sorted: "sorted_wrt (\<lambda>a b. sv_composite_score b \<le> sv_composite_score a) (sort_by_score vs)"
proof -
  have "sorted (map (\<lambda>v. - int (unat (sv_composite_score v))) (sort_by_score vs))" by (simp add: sort_by_score_def)
  then show ?thesis unfolding sorted_wrt_map by (simp add: word_le_def)
qed

lemma set_sort_by_score [simp]: "set (sort_by_score vs) = set vs"
  by (simp add: sort_by_score_def)

definition ranked :: "scored_validator list \<Rightarrow> scored_validator list" where
  "ranked vs = map (\<lambda>(i, v). v\<lparr>sv_rank := of_nat (i + 1)\<rparr>) (enumerate 0 vs)"

lemma ranked_fields:
  "length (ranked vs) = length vs" "map sv_address (ranked vs) = map sv_address vs"
  "i < length vs \<Longrightarrow> ranked vs ! i = (vs ! i)\<lparr>sv_rank := of_nat (i + 1)\<rparr>"
  by (simp_all add: ranked_def nth_enumerate_eq list_eq_iff_nth_eq)

lemma tally_ranked: "tally cmap field k (ranked vs) = tally cmap field k vs"
proof -
  have t: "tally cmap field k ws = length (filter (\<lambda>a. case hm_get cmap a of Some c \<Rightarrow> field c = k | None \<Rightarrow> False) (map sv_address ws))" for ws
    by (simp add: tally_def filter_map o_def)
  show ?thesis unfolding t ranked_fields(2) ..
qed

lemma select_validators_ranked:
  assumes "distinct (map vn_address candidates)"
  obtains sel where "select_validators logn candidates target config = ranked sel"
    "distinct (map sv_address sel)" "length sel \<le> target"
    "sorted_wrt (\<lambda>a b. sv_composite_score b \<le> sv_composite_score a) sel"
    "\<And>k. tally (candidate_map candidates) vn_geographic_region k sel \<le> effective_max_region target (sc_max_per_region config)"
    "\<And>k. tally (candidate_map candidates) vn_operator_id k sel \<le> sc_max_per_operator config"
    "\<And>s. s \<in> set sel \<Longrightarrow> \<exists>c\<in>set candidates. candidate_eligible config c
       \<and> s = score_candidate logn config (count_by_field vn_geographic_region (eligible_candidates config candidates)) c"
    "\<And>c. c \<in> set candidates \<Longrightarrow> candidate_eligible config c \<Longrightarrow> vn_address c \<in> sv_address ` set sel
       \<or> target \<le> length sel
       \<or> effective_max_region target (sc_max_per_region config) \<le> tally (candidate_map candidates) vn_geographic_region (vn_geographic_region c) sel
       \<or> sc_max_per_operator config \<le> tally (candidate_map candidates) vn_operator_id (vn_operator_id c) sel"
proof -
  let ?el = "eligible_candidates config candidates" and ?cm = "candidate_map candidates"
  let ?sc = "score_candidate logn config (count_by_field vn_geographic_region ?el)"
  let ?scored = "sort_by_score (map ?sc ?el)"
  define st where "st = diversity_loop target (sc_max_per_region config) (sc_max_per_operator config) ?cm
      \<lparr>dv_regions = [], dv_operators = [], dv_addrs = [], dv_selected = []\<rparr> ?scored"
  have el: "set ?el = {c \<in> set candidates. candidate_eligible config c}"
    using dedup_distinct [OF assms, of "[]"] by (auto simp: eligible_candidates_def)
  have run: "loop_result target (effective_max_region target (sc_max_per_region config)) (sc_max_per_operator config) ?cm
      \<lparr>dv_regions = [], dv_operators = [], dv_addrs = [], dv_selected = []\<rparr> ?scored st"
    unfolding st_def by (rule diversity_result)
  have sel: "select_validators logn candidates target config = ranked (dv_selected st)"
    by (simp add: select_validators_def ranked_def st_def Let_def apply_diversity_constraints_def sort_by_score_def)
  have sub: "set (dv_selected st) \<subseteq> ?sc ` set ?el" and sorted: "sorted_wrt (\<lambda>a b. sv_composite_score b \<le> sv_composite_score a) (dv_selected st)"
    using run sort_by_score_sorted [of "map ?sc ?el"] unfolding loop_result_def by auto
  have c: "counted target (effective_max_region target (sc_max_per_region config)) (sc_max_per_operator config) ?cm st"
    using run unfolding loop_result_def by blast
  show thesis
  proof (rule that [of "dv_selected st"])
    show "\<exists>c\<in>set candidates. candidate_eligible config c \<and> s = ?sc c" if "s \<in> set (dv_selected st)" for s
      using sub that el by auto
    show "vn_address c \<in> sv_address ` set (dv_selected st) \<or> target \<le> length (dv_selected st)
       \<or> effective_max_region target (sc_max_per_region config) \<le> tally ?cm vn_geographic_region (vn_geographic_region c) (dv_selected st)
       \<or> sc_max_per_operator config \<le> tally ?cm vn_operator_id (vn_operator_id c) (dv_selected st)"
      if "c \<in> set candidates" "candidate_eligible config c" for c
    proof -
      have "?sc c \<in> set ?scored" using that el by auto
      then have "sv_address (?sc c) \<in> sv_address ` set (dv_selected st)
          \<or> crowded_out target (effective_max_region target (sc_max_per_region config)) (sc_max_per_operator config) ?cm (dv_selected st) (?sc c)"
        using run unfolding loop_result_def by blast
      then show ?thesis by (simp add: crowded_out_def candidate_map_get [OF assms that(1)])
    qed
  qed (use c sel sorted in \<open>auto simp: counted_def\<close>)
qed

text \<open>
  C23. The selection is sound and maximal. For candidates with different addresses, the selected validators are at most
  the target in number, have different addresses, ranks 1, 2, 3 and so on, and composite scores that do not increase; each
  is an eligible candidate with its own stake, key and commission and with its four scores of at most 10000; no region and no
  operator has more of them than its cap. And every eligible candidate is selected unless the target is
  reached or the cap of its region or of its operator is used up.
\<close>
theorem selection_sound:
  assumes "distinct (map vn_address candidates)"
  shows "let sel = select_validators logn candidates target config; cmap = candidate_map candidates;
             cap = effective_max_region target (sc_max_per_region config)
         in length sel \<le> target \<and> distinct (map sv_address sel)
            \<and> map sv_rank sel = map (\<lambda>i. of_nat (i + 1)) [0..<length sel]
            \<and> sorted_wrt (\<lambda>a b. sv_composite_score b \<le> sv_composite_score a) sel
            \<and> (\<forall>s\<in>set sel. \<exists>c\<in>set candidates. candidate_eligible config c \<and> sv_address s = vn_address c \<and> sv_stake s = vn_stake c
                 \<and> sv_tee_public_key s = vn_tee_public_key c \<and> sv_commission_bps s = vn_commission_bps c
                 \<and> sv_performance_score s \<le> 10000 \<and> sv_decentralization_score s \<le> 10000 \<and> sv_reputation_score s \<le> 10000
                 \<and> sv_composite_score s \<le> 10000)
            \<and> (\<forall>k. tally cmap vn_geographic_region k sel \<le> cap) \<and> (\<forall>k. tally cmap vn_operator_id k sel \<le> sc_max_per_operator config)
            \<and> (\<forall>c\<in>set candidates. candidate_eligible config c \<longrightarrow> vn_address c \<in> sv_address ` set sel \<or> length sel = target
                 \<or> tally cmap vn_geographic_region (vn_geographic_region c) sel = cap
                 \<or> tally cmap vn_operator_id (vn_operator_id c) sel = sc_max_per_operator config)"
proof -
  obtain sel where sel: "select_validators logn candidates target config = ranked sel"
    "distinct (map sv_address sel)" "length sel \<le> target"
    "sorted_wrt (\<lambda>a b. sv_composite_score b \<le> sv_composite_score a) sel"
    "\<And>k. tally (candidate_map candidates) vn_geographic_region k sel \<le> effective_max_region target (sc_max_per_region config)"
    "\<And>k. tally (candidate_map candidates) vn_operator_id k sel \<le> sc_max_per_operator config"
    "\<And>s. s \<in> set sel \<Longrightarrow> \<exists>c\<in>set candidates. candidate_eligible config c
       \<and> s = score_candidate logn config (count_by_field vn_geographic_region (eligible_candidates config candidates)) c"
    "\<And>c. c \<in> set candidates \<Longrightarrow> candidate_eligible config c \<Longrightarrow> vn_address c \<in> sv_address ` set sel
       \<or> target \<le> length sel
       \<or> effective_max_region target (sc_max_per_region config) \<le> tally (candidate_map candidates) vn_geographic_region (vn_geographic_region c) sel
       \<or> sc_max_per_operator config \<le> tally (candidate_map candidates) vn_operator_id (vn_operator_id c) sel"
    using select_validators_ranked [OF assms, of logn target config] by blast
  have ranks: "map sv_rank (ranked sel) = map (\<lambda>i. of_nat (i + 1)) [0..<length (ranked sel)]"
    by (rule nth_equalityI) (simp_all add: ranked_fields(1,3))
  have sorted: "sorted_wrt (\<lambda>a b. sv_composite_score b \<le> sv_composite_score a) (ranked sel)"
    using sel(4) by (simp add: sorted_wrt_iff_nth_less ranked_fields(1,3))
  have each: "\<exists>c\<in>set candidates. candidate_eligible config c \<and> sv_address s = vn_address c \<and> sv_stake s = vn_stake c
      \<and> sv_tee_public_key s = vn_tee_public_key c \<and> sv_commission_bps s = vn_commission_bps c
      \<and> sv_performance_score s \<le> 10000 \<and> sv_decentralization_score s \<le> 10000 \<and> sv_reputation_score s \<le> 10000
                 \<and> sv_composite_score s \<le> 10000" if s: "s \<in> set (ranked sel)" for s
  proof -
    obtain i where i: "i < length sel" "s = (sel ! i)\<lparr>sv_rank := of_nat (i + 1)\<rparr>"
    proof -
      from s obtain i where "i < length sel" "s = ranked sel ! i" unfolding in_set_conv_nth ranked_fields(1) by blast
      then show thesis using that ranked_fields(3) [of i sel] by simp
    qed
    obtain c where c: "c \<in> set candidates" "candidate_eligible config c"
        "sel ! i = score_candidate logn config (count_by_field vn_geographic_region (eligible_candidates config candidates)) c"
      using sel(7) [of "sel ! i"] i(1) by auto
    then show ?thesis using i(2) score_candidate_bounds [unfolded SELECTION_MAX_SCORE_def] by (intro bexI [of _ c]) simp_all
  qed
  have full: "vn_address c \<in> sv_address ` set (ranked sel) \<or> length (ranked sel) = target
      \<or> tally (candidate_map candidates) vn_geographic_region (vn_geographic_region c) (ranked sel) = effective_max_region target (sc_max_per_region config)
      \<or> tally (candidate_map candidates) vn_operator_id (vn_operator_id c) (ranked sel) = sc_max_per_operator config"
    if "c \<in> set candidates" "candidate_eligible config c" for c
  proof -
    have "sv_address ` set (ranked sel) = sv_address ` set sel" by (metis list.set_map ranked_fields(2))
    moreover from sel(8) [OF that] have "vn_address c \<in> sv_address ` set sel \<or> length sel = target
        \<or> tally (candidate_map candidates) vn_geographic_region (vn_geographic_region c) sel = effective_max_region target (sc_max_per_region config)
        \<or> tally (candidate_map candidates) vn_operator_id (vn_operator_id c) sel = sc_max_per_operator config"
      using le_antisym [OF sel(3)] le_antisym [OF sel(5)] le_antisym [OF sel(6)] by blast
    ultimately show ?thesis by (simp only: tally_ranked ranked_fields(1))
  qed
  show ?thesis
    unfolding Let_def sel(1)
  proof (intro conjI ballI allI impI)
    show "length (ranked sel) \<le> target" "distinct (map sv_address (ranked sel))" using sel(2,3) by (simp_all only: ranked_fields)
  qed (rule ranks sorted | erule each | rule full; assumption | simp only: tally_ranked sel(5,6))+
qed


text \<open>Three candidates of one operator that may have two.\<close>

definition demo_candidate :: "string \<Rightarrow> validator_input" where
  "demo_candidate a =
     \<lparr>vn_address = a, vn_stake = 100, vn_uptime_pct = Fin 100, vn_avg_response_ms = Fin 50, vn_geographic_region = ''eu'',
      vn_country_code = ''DE'', vn_operator_id = ''op'', vn_slash_count = 0, vn_total_jobs_completed = 0, vn_tee_public_key = [],
      vn_commission_bps = 100\<rparr>"

definition demo_policy :: selection_config where
  "demo_policy = selection_config_default\<lparr>sc_min_uptime_pct := Fin 95, sc_max_per_operator := 2, sc_min_stake := 32\<rparr>"

theorem selection_sound_witness:
  "distinct (map vn_address (map demo_candidate [''a'', ''b'', ''c'']))
   \<and> tally (candidate_map (map demo_candidate [''a'', ''b'', ''c''])) vn_operator_id ''op''
        (select_validators (\<lambda>x. x) (map demo_candidate [''a'', ''b'', ''c'']) 9 demo_policy) \<le> 2"
proof -
  have d: "distinct (map vn_address (map demo_candidate [''a'', ''b'', ''c'']))" by (simp add: demo_candidate_def)
  have "sc_max_per_operator demo_policy = 2" by (simp add: demo_policy_def)
  then show ?thesis using selection_sound [OF d, of "\<lambda>x. x" 9 demo_policy] d unfolding Let_def by metis
qed

section \<open>Ordering of revealed blocks\<close>

lemma reveal_loop_result:
  "reveal_loop sha cmap rs vs ivs =
     (vs @ map validated_of (filter (reveal_valid sha cmap) rs), ivs @ map rv_validator (filter (\<lambda>r. \<not> reveal_valid sha cmap r) rs))"
  by (induction rs arbitrary: vs ivs) simp_all

lemma commitment_map_get:
  "hm_get (commitment_map cs) k = (case filter (\<lambda>c. cm_validator c = k) (rev cs) of [] \<Rightarrow> None | c # _ \<Rightarrow> Some c)"
proof -
  have "hm_get (foldl (\<lambda>m c. hm_insert (cm_validator c) c m) m cs) k =
      (case filter (\<lambda>c. cm_validator c = k) (rev cs) of [] \<Rightarrow> hm_get m k | x # _ \<Rightarrow> Some x)" for m
    by (induction cs rule: rev_induct) auto
  then show ?thesis by (simp add: commitment_map_def hm_get_def split: list.split)
qed

text \<open>The block of a reveal matches what its validator committed to last.\<close>

definition opens_commitment :: "(bytes \<Rightarrow> bytes) \<Rightarrow> commitment list \<Rightarrow> reveal \<Rightarrow> bool" where
  "opens_commitment sha cs r \<longleftrightarrow>
     (\<exists>before c after. cs = before @ c # after \<and> cm_validator c = rv_validator r \<and> rv_validator r \<notin> cm_validator ` set after
        \<and> cm_commitment_hash c = compute_commitment_hash sha (rv_block_data r) (rv_nonce r))"

lemma reveal_valid_iff: "reveal_valid sha (commitment_map cs) r \<longleftrightarrow> opens_commitment sha cs r"
proof -
  let ?P = "\<lambda>c. cm_validator c = rv_validator r" and ?h = "compute_commitment_hash sha (rv_block_data r) (rv_nonce r)"
  have "reveal_valid sha (commitment_map cs) r \<longleftrightarrow> (\<exists>c xs. filter ?P (rev cs) = c # xs \<and> cm_commitment_hash c = ?h)"
    by (auto simp: reveal_valid_def commitment_map_get verify_commitment_hash_def split: list.splits)
  also have "\<dots> \<longleftrightarrow> opens_commitment sha cs r"
  proof
    assume "\<exists>c xs. filter ?P (rev cs) = c # xs \<and> cm_commitment_hash c = ?h"
    then obtain c us vs where "rev cs = us @ c # vs" "\<forall>u\<in>set us. \<not> ?P u" "?P c" "cm_commitment_hash c = ?h"
      unfolding filter_eq_Cons_iff by blast
    then have "cs = rev vs @ c # rev us" "rv_validator r \<notin> cm_validator ` set (rev us)" by (auto simp: rev_swap)
    then show "opens_commitment sha cs r" using \<open>?P c\<close> \<open>cm_commitment_hash c = ?h\<close> unfolding opens_commitment_def by blast
  next
    assume "opens_commitment sha cs r"
    then obtain b c a where "cs = b @ c # a" "?P c" "rv_validator r \<notin> cm_validator ` set a" "cm_commitment_hash c = ?h"
      unfolding opens_commitment_def by blast
    moreover from this have "filter ?P (rev a) = []" by (auto simp: filter_empty_conv intro: image_eqI [OF sym])
    ultimately have "filter ?P (rev cs) = c # filter ?P (rev b)" by simp
    then show "\<exists>c xs. filter ?P (rev cs) = c # xs \<and> cm_commitment_hash c = ?h" using \<open>cm_commitment_hash c = ?h\<close> by blast
  qed
  finally show ?thesis .
qed

lemma sort_key_map: "sort_key f (map g xs) = map g (sort_key (\<lambda>x. f (g x)) xs)"
proof -
  have "insort_key f (g x) (map g ys) = map g (insort_key (\<lambda>x. f (g x)) x ys)" for x ys by (induction ys) simp_all
  then show ?thesis by (induction xs) simp_all
qed

text \<open>
  The ordering is exact. The ordered blocks are the reveals that open the last commitment of their validator, each
  once for each time it was sent, in the order of the time stamps the reveals declare and, for equal time
  stamps, in the order they were sent, with positions 0, 1, 2 and so on; the invalid ones are the validators of all other
  reveals, in order.
\<close>
theorem ordering_exact:
  "process_commit_reveal sha commitments reveals =
     (let valid = sort_key rv_timestamp (filter (opens_commitment sha commitments) reveals)
      in (map (\<lambda>i. (validated_of (valid ! i))\<lparr>vr_position := of_nat i\<rparr>) [0..<length valid],
          map rv_validator (filter (\<lambda>r. \<not> opens_commitment sha commitments r) reveals)))"
proof -
  have v: "reveal_valid sha (commitment_map commitments) = opens_commitment sha commitments" by (simp add: fun_eq_iff reveal_valid_iff)
  have t: "(\<lambda>r. vr_ordering_timestamp (validated_of r)) = rv_timestamp" by (simp add: validated_of_def fun_eq_iff)
  show ?thesis
    unfolding process_commit_reveal_def reveal_loop_result v Let_def
    by (simp add: sort_key_map t) (auto intro!: nth_equalityI simp: nth_enumerate_eq)
qed

end
