(* ===== verification/Vault_Attestation.thy ===== *)
theory Vault_Attestation
  imports Vault_Rewards
begin

text \<open>
  \<open>src/crates/vault/src/attestation.rs\<close>: the generator of attestation documents with its gates on the platform and on the
  measurements of the hardware report, the evidence of the three platforms, the mock hardware and the local vendor
  key, and the verification of a document.

  SHA-256, \<open>hex::decode\<close> and the two signature libraries are the fields of \<open>vault_crypto\<close>. A hardware
  provider is the record of its four operations, as the code has it behind a trait object; the devices behind the three
  real ones are not modelled. The mutable nonce counter is a field of the generator, which is passed and returned.
  The clock is the argument \<open>now\<close>.
\<close>

section \<open>Libraries\<close>

record vault_crypto =
  vc_sha256 :: "bytes \<Rightarrow> bytes"
  vc_keccak256 :: "bytes \<Rightarrow> bytes"
  vc_hex_decode :: "string \<Rightarrow> (string, bytes) result"
  vc_k256_key_error :: "bytes \<Rightarrow> string option"
  vc_k256_sign :: "bytes \<Rightarrow> bytes \<Rightarrow> (string, bytes \<times> bytes \<times> u8) result"
  vc_k256_public :: "bytes \<Rightarrow> bytes"
  vc_k256_signature_error :: "bytes \<Rightarrow> string option"
  vc_k256_recovery_id_error :: "u8 \<Rightarrow> string option"
  vc_k256_recover :: "bytes \<Rightarrow> bytes \<Rightarrow> u8 \<Rightarrow> (string, bytes) result"
  vc_p256_key_error :: "bytes \<Rightarrow> string option"
  vc_p256_sign :: "bytes \<Rightarrow> bytes \<Rightarrow> (string, bytes \<times> bytes) result"
  vc_p256_point :: "bytes \<Rightarrow> bytes \<times> bytes"

definition decode_or_default :: "vault_crypto \<Rightarrow> string \<Rightarrow> bytes" where
  "decode_or_default C s = (case vc_hex_decode C s of Ok bs \<Rightarrow> bs | Err _ \<Rightarrow> [])"

section \<open>Platforms, errors and reports\<close>

datatype tee_platform = IntelSGX | AWSNitro | AMDSEV | Mock

fun platform_u8 :: "tee_platform \<Rightarrow> u8" where
  "platform_u8 IntelSGX = 0"
| "platform_u8 AWSNitro = 1"
| "platform_u8 AMDSEV = 2"
| "platform_u8 Mock = 255"

fun show_platform :: "tee_platform \<Rightarrow> string" where
  "show_platform IntelSGX = ''sgx''"
| "show_platform AWSNitro = ''nitro''"
| "show_platform AMDSEV = ''sev''"
| "show_platform Mock = ''mock''"

definition quoted :: "string \<Rightarrow> string" where
  "quoted s = [CHR 0x27] @ s @ [CHR 0x27]"

datatype attestation_error =
    MockDisabled
  | PlatformNotAvailable tee_platform
  | SimulatedHardwareNotAllowed tee_platform
  | MeasurementMismatch string bytes bytes
  | SigningFailed string
  | HardwareUnavailable string

fun show_attestation_error :: "attestation_error \<Rightarrow> string" where
  "show_attestation_error MockDisabled = ''mock attestation disabled (set allow_simulated = true for testing)''"
| "show_attestation_error (PlatformNotAvailable p) = ''TEE platform '' @ quoted (show_platform p) @ '' is not available on this host''"
| "show_attestation_error (SimulatedHardwareNotAllowed p) =
     ''simulated hardware provider for platform '' @ quoted (show_platform p)
     @ '' is not allowed (running without real TEE hardware; set allow_simulated = true for testing)''"
| "show_attestation_error (MeasurementMismatch field expected got) =
     ''hardware report '' @ field @ '' mismatch: expected '' @ hex_encode expected @ '', got '' @ hex_encode got"
| "show_attestation_error (SigningFailed msg) = ''ECDSA signing failed: '' @ msg"
| "show_attestation_error (HardwareUnavailable msg) = ''TEE hardware unavailable: '' @ msg"

record hardware_report =
  hr_report_hash :: bytes
  hr_enclave_measurement :: bytes
  hr_signer_measurement :: bytes
  hr_application_measurement :: "bytes option"

record vendor_key_attestation =
  vk_vendor_sig_r :: bytes
  vk_vendor_sig_s :: bytes

record platform_key_bundle =
  pb_public_key_x :: bytes
  pb_public_key_y :: bytes
  pb_vendor_attestation :: vendor_key_attestation

record hardware_provider =
  hp_generate_report :: "bytes \<Rightarrow> (attestation_error, hardware_report) result"
  hp_generate_platform_key :: "u8 \<Rightarrow> (attestation_error, platform_key_bundle) result"
  hp_sign_with_platform_key :: "bytes \<Rightarrow> (attestation_error, bytes \<times> bytes) result"
  hp_platform :: tee_platform

record tee_config =
  tc_platform :: tee_platform
  tc_enclave_hash :: bytes
  tc_signer_hash :: bytes
  tc_application_hash :: "bytes option"
  tc_allow_simulated :: bool
  tc_signing_key :: bytes

record key_attestation =
  ka_platform_key_x :: bytes
  ka_platform_key_y :: bytes
  ka_platform_id :: u8
  ka_vendor_sig_r :: bytes
  ka_vendor_sig_s :: bytes

record attestation_generator =
  ag_config :: tee_config
  ag_nonce_counter :: u64
  ag_hw_provider :: hardware_provider
  ag_platform_key_attestation :: key_attestation

section \<open>Vendor keys and the mock hardware\<close>

definition platform_key_message :: "vault_crypto \<Rightarrow> bytes \<Rightarrow> bytes \<Rightarrow> u8 \<Rightarrow> bytes" where
  "platform_key_message C pk_x pk_y platform_id = vc_sha256 C (pk_x @ pk_y @ [platform_id])"

definition vendor_sign :: "vault_crypto \<Rightarrow> string \<Rightarrow> bytes \<Rightarrow> bytes \<Rightarrow> (attestation_error, vendor_key_attestation) result" where
  "vendor_sign C what vendor_key msg_hash =
     (case vc_p256_key_error C vendor_key of
        Some e \<Rightarrow> Err (SigningFailed (''invalid '' @ what @ '': '' @ e))
      | None \<Rightarrow>
          (case vc_p256_sign C vendor_key msg_hash of
             Err e \<Rightarrow> Err (SigningFailed (''vendor signing failed: '' @ e))
           | Ok (r, s) \<Rightarrow> Ok \<lparr>vk_vendor_sig_r = r, vk_vendor_sig_s = s\<rparr>))"

definition local_attest_platform_key ::
    "vault_crypto \<Rightarrow> bytes \<Rightarrow> bytes \<Rightarrow> bytes \<Rightarrow> u8 \<Rightarrow> bytes \<Rightarrow> (attestation_error, vendor_key_attestation) result" where
  "local_attest_platform_key C vendor_key pk_x pk_y platform_id hardware_evidence =
     vendor_sign C ''vendor key'' vendor_key (platform_key_message C pk_x pk_y platform_id)"

definition p256_sign_report_body :: "vault_crypto \<Rightarrow> bytes \<Rightarrow> bytes \<Rightarrow> (attestation_error, bytes \<times> bytes) result" where
  "p256_sign_report_body C key_bytes report_body =
     (case vc_p256_key_error C key_bytes of
        Some e \<Rightarrow> Err (SigningFailed (''invalid P-256 platform key: '' @ e))
      | None \<Rightarrow>
          (case vc_p256_sign C key_bytes (vc_sha256 C report_body) of
             Err e \<Rightarrow> Err (SigningFailed (''P-256 evidence signing failed: '' @ e))
           | Ok rs \<Rightarrow> Ok rs))"

definition mock_generate_report ::
    "vault_crypto \<Rightarrow> bytes \<Rightarrow> bytes \<Rightarrow> bytes option \<Rightarrow> bytes \<Rightarrow> (attestation_error, hardware_report) result" where
  "mock_generate_report C enclave_hash signer_hash application_hash report_data =
     (let mock_report = vc_sha256 C (ascii ''MOCK_HW_REPORT_V1'' @ enclave_hash @ signer_hash @ report_data)
      in Ok \<lparr>hr_report_hash = vc_sha256 C mock_report, hr_enclave_measurement = enclave_hash,
             hr_signer_measurement = signer_hash, hr_application_measurement = application_hash\<rparr>)"

text \<open>\<open>platform_key\<close> is the first valid key that the random generator draws.\<close>

definition mock_generate_platform_key ::
    "vault_crypto \<Rightarrow> bytes \<Rightarrow> bytes \<Rightarrow> u8 \<Rightarrow> (attestation_error, platform_key_bundle) result" where
  "mock_generate_platform_key C vendor_root_key platform_key platform_id =
     (case vc_p256_key_error C platform_key of
        Some e \<Rightarrow> Err (SigningFailed (''invalid platform key: '' @ e))
      | None \<Rightarrow>
          let (pk_x, pk_y) = vc_p256_point C platform_key
          in case vendor_sign C ''vendor root key'' vendor_root_key (platform_key_message C pk_x pk_y platform_id) of
               Err e \<Rightarrow> Err e
             | Ok att \<Rightarrow> Ok \<lparr>pb_public_key_x = pk_x, pb_public_key_y = pk_y, pb_vendor_attestation = att\<rparr>)"

definition mock_hardware_provider :: "vault_crypto \<Rightarrow> bytes \<Rightarrow> tee_config \<Rightarrow> bytes \<Rightarrow> hardware_provider" where
  "mock_hardware_provider C platform_key config vendor_root_key =
     \<lparr>hp_generate_report =
        mock_generate_report C (tc_enclave_hash config) (tc_signer_hash config) (tc_application_hash config),
      hp_generate_platform_key = mock_generate_platform_key C vendor_root_key platform_key,
      hp_sign_with_platform_key = p256_sign_report_body C platform_key,
      hp_platform = Mock\<rparr>"

section \<open>Construction of a generator\<close>

definition platform_gate :: "tee_config \<Rightarrow> hardware_provider \<Rightarrow> attestation_error option" where
  "platform_gate config provider =
     (if tc_platform config = Mock then (if \<not> tc_allow_simulated config then Some MockDisabled else None)
      else if hp_platform provider \<noteq> tc_platform config \<and> \<not> tc_allow_simulated config
      then Some (SimulatedHardwareNotAllowed (tc_platform config))
      else None)"

definition generator_init :: "tee_config \<Rightarrow> hardware_provider \<Rightarrow> (attestation_error, attestation_generator) result" where
  "generator_init config provider =
     (let platform_id = platform_u8 (tc_platform config)
      in case platform_gate config provider of
           Some e \<Rightarrow> Err e
         | None \<Rightarrow>
             (case hp_generate_platform_key provider platform_id of
                Err e \<Rightarrow> Err e
              | Ok bundle \<Rightarrow>
                  Ok \<lparr>ag_config = config, ag_nonce_counter = 0, ag_hw_provider = provider,
                      ag_platform_key_attestation =
                        \<lparr>ka_platform_key_x = pb_public_key_x bundle, ka_platform_key_y = pb_public_key_y bundle,
                         ka_platform_id = platform_id,
                         ka_vendor_sig_r = vk_vendor_sig_r (pb_vendor_attestation bundle),
                         ka_vendor_sig_s = vk_vendor_sig_s (pb_vendor_attestation bundle)\<rparr>\<rparr>))"

definition bullet :: string where
  "bullet = [CHR 0x0A] @ ''  '' @ [CHR 0xE2, CHR 0x80, CHR 0xA2] @ '' ''"

definition vendor_help :: string where
  "vendor_help =
     bullet @ ''Set vendor_attestation_key_hex in server config (development/testing only), or''
     @ bullet @ ''Set attestation_relay_url to use a remote attestation relay (production)''
     @ [CHR 0x0A] @ ''The vendor key must never be [0; 32].''"

text \<open>
  \<open>devices\<close> gives the provider of a real platform for a vendor key or for a vendor attester.
\<close>

definition generator_new ::
    "vault_crypto \<Rightarrow> (tee_platform \<Rightarrow> bytes \<Rightarrow> hardware_provider) \<Rightarrow> bytes \<Rightarrow> tee_config \<Rightarrow> bytes
      \<Rightarrow> (attestation_error, attestation_generator) result" where
  "generator_new C devices platform_key config vendor_root_key =
     (if tc_platform config \<noteq> Mock \<and> vendor_root_key = replicate 32 0
      then Err (HardwareUnavailable (''real TEE platform '' @ quoted (show_platform (tc_platform config)) @ '' requires vendor attestation. Either:'' @ vendor_help))
      else generator_init config
             (if tc_platform config = Mock then mock_hardware_provider C platform_key config vendor_root_key
              else devices (tc_platform config) vendor_root_key))"

definition generator_with_vendor_attester ::
    "(tee_platform \<Rightarrow> 'a \<Rightarrow> hardware_provider) \<Rightarrow> tee_config \<Rightarrow> 'a \<Rightarrow> (attestation_error, attestation_generator) result" where
  "generator_with_vendor_attester devices config attester =
     (if tc_platform config = Mock
      then Err (HardwareUnavailable ''use new() for Mock platform; with_vendor_attester() is for real TEE platforms'')
      else generator_init config (devices (tc_platform config) attester))"

definition operator_pubkey_hex :: "vault_crypto \<Rightarrow> attestation_generator \<Rightarrow> (attestation_error, string) result" where
  "operator_pubkey_hex C g =
     (case vc_k256_key_error C (tc_signing_key (ag_config g)) of
        Some e \<Rightarrow> Err (SigningFailed (''invalid signing key: '' @ e))
      | None \<Rightarrow> Ok (hex_encode (vc_k256_public C (tc_signing_key (ag_config g)))))"

section \<open>Documents\<close>

definition be_bytes8 :: "u64 \<Rightarrow> bytes" where
  "be_bytes8 x = rev (le_bytes 8 x)"

definition sha256_hex :: "vault_crypto \<Rightarrow> bytes \<Rightarrow> string" where
  "sha256_hex C data = hex_encode (vc_sha256 C data)"

definition attestation_nonce :: "vault_crypto \<Rightarrow> tee_config \<Rightarrow> u64 \<Rightarrow> u64 \<Rightarrow> string" where
  "attestation_nonce C config counter timestamp =
     hex_encode (vc_sha256 C (be_bytes8 counter @ be_bytes8 timestamp @ tc_enclave_hash config))"

definition compute_attestation_digest ::
    "vault_crypto \<Rightarrow> u8 \<Rightarrow> u64 \<Rightarrow> string \<Rightarrow> string \<Rightarrow> string \<Rightarrow> string \<Rightarrow> bytes" where
  "compute_attestation_digest C platform timestamp nonce_hex enclave_hash_hex signer_hash_hex payload_hash_hex =
     vc_sha256 C (ascii ''CruzibleTEEAttestation'' @ [platform] @ be_bytes8 timestamp
       @ decode_or_default C nonce_hex @ decode_or_default C enclave_hash_hex
       @ decode_or_default C signer_hash_hex @ decode_or_default C payload_hash_hex)"

definition sign_digest :: "vault_crypto \<Rightarrow> bytes \<Rightarrow> bytes \<Rightarrow> (attestation_error, bytes) result" where
  "sign_digest C signing_key digest =
     (case vc_k256_key_error C signing_key of
        Some e \<Rightarrow> Err (SigningFailed (''invalid signing key: '' @ e))
      | None \<Rightarrow>
          (case vc_k256_sign C signing_key digest of
             Err e \<Rightarrow> Err (SigningFailed (''ECDSA sign failed: '' @ e))
           | Ok (r, s, recid) \<Rightarrow> Ok (r @ s @ [recid + 27])))"

definition compute_binding_hash :: "vault_crypto \<Rightarrow> hardware_report \<Rightarrow> bytes" where
  "compute_binding_hash C report =
     vc_sha256 C (hr_report_hash report @ hr_enclave_measurement report @ hr_signer_measurement report)"

definition word_one :: bytes where
  "word_one = replicate 31 0 @ [1]"

definition signed_evidence ::
    "hardware_provider \<Rightarrow> bytes \<Rightarrow> bytes \<Rightarrow> (attestation_error, bytes) result" where
  "signed_evidence provider evidence report_body =
     (case hp_sign_with_platform_key provider report_body of
        Err e \<Rightarrow> Err e
      | Ok (r, s) \<Rightarrow> Ok (evidence @ r @ s))"

definition generate_sgx_evidence ::
    "vault_crypto \<Rightarrow> hardware_provider \<Rightarrow> bytes \<Rightarrow> hardware_report \<Rightarrow> (attestation_error, bytes) result" where
  "generate_sgx_evidence C provider digest report =
     signed_evidence provider
       (hr_enclave_measurement report @ hr_signer_measurement report @ digest @ word_one @ word_one @ hr_report_hash report)
       (hr_enclave_measurement report @ hr_signer_measurement report @ digest @ [0, 1] @ [0, 1] @ compute_binding_hash C report)"

definition generate_nitro_evidence ::
    "vault_crypto \<Rightarrow> hardware_provider \<Rightarrow> bytes \<Rightarrow> hardware_report \<Rightarrow> (attestation_error, bytes) result" where
  "generate_nitro_evidence C provider digest report =
     (let pcr2 = (case hr_application_measurement report of Some m \<Rightarrow> m | None \<Rightarrow> replicate 32 0)
      in signed_evidence provider
           (hr_enclave_measurement report @ hr_signer_measurement report @ pcr2 @ digest @ hr_report_hash report)
           (hr_enclave_measurement report @ hr_signer_measurement report @ pcr2 @ digest @ compute_binding_hash C report))"

definition generate_sev_evidence ::
    "vault_crypto \<Rightarrow> hardware_provider \<Rightarrow> bytes \<Rightarrow> hardware_report \<Rightarrow> (attestation_error, bytes) result" where
  "generate_sev_evidence C provider digest report =
     signed_evidence provider
       (hr_enclave_measurement report @ hr_signer_measurement report @ digest @ replicate 32 0 @ hr_report_hash report)
       (hr_enclave_measurement report @ hr_signer_measurement report @ digest @ [0] @ compute_binding_hash C report)"

definition generate_evidence ::
    "vault_crypto \<Rightarrow> attestation_generator \<Rightarrow> bytes \<Rightarrow> hardware_report \<Rightarrow> (attestation_error, bytes) result" where
  "generate_evidence C g digest report =
     (case tc_platform (ag_config g) of
        IntelSGX \<Rightarrow> generate_sgx_evidence C (ag_hw_provider g) digest report
      | Mock \<Rightarrow> generate_sgx_evidence C (ag_hw_provider g) digest report
      | AWSNitro \<Rightarrow> generate_nitro_evidence C (ag_hw_provider g) digest report
      | AMDSEV \<Rightarrow> generate_sev_evidence C (ag_hw_provider g) digest report)"

definition attestation_generate ::
    "vault_crypto \<Rightarrow> u64 \<Rightarrow> bytes \<Rightarrow> attestation_generator
      \<Rightarrow> attestation_generator \<times> (attestation_error, attestation_document) result" where
  "attestation_generate C timestamp payload g =
     (let config = ag_config g;
          nonce = attestation_nonce C config (ag_nonce_counter g) timestamp;
          payload_hash = sha256_hex C payload;
          platform = platform_u8 (tc_platform config);
          enclave_hash_hex = hex_encode (tc_enclave_hash config);
          signer_hash_hex = hex_encode (tc_signer_hash config);
          digest = compute_attestation_digest C platform timestamp nonce enclave_hash_hex signer_hash_hex payload_hash
      in (g\<lparr>ag_nonce_counter := ag_nonce_counter g + 1\<rparr>,
          case platform_gate config (ag_hw_provider g) of
            Some e \<Rightarrow> Err e
          | None \<Rightarrow>
              (case hp_generate_report (ag_hw_provider g) digest of
                 Err e \<Rightarrow> Err e
               | Ok report \<Rightarrow>
                   if hr_enclave_measurement report \<noteq> tc_enclave_hash config
                   then Err (MeasurementMismatch ''enclave_hash'' (tc_enclave_hash config) (hr_enclave_measurement report))
                   else if hr_signer_measurement report \<noteq> tc_signer_hash config
                   then Err (MeasurementMismatch ''signer_hash'' (tc_signer_hash config) (hr_signer_measurement report))
                   else case sign_digest C (tc_signing_key config) digest of
                          Err e \<Rightarrow> Err e
                        | Ok sig \<Rightarrow>
                            (case generate_evidence C g digest report of
                               Err e \<Rightarrow> Err e
                             | Ok evidence \<Rightarrow>
                                 Ok \<lparr>ad_platform = platform, ad_timestamp = timestamp, ad_nonce = nonce,
                                     ad_enclave_hash = enclave_hash_hex, ad_signer_hash = signer_hash_hex,
                                     ad_payload_hash = payload_hash, ad_platform_evidence = hex_encode evidence,
                                     ad_signature = hex_encode sig\<rparr>))))"

section \<open>Verification\<close>

definition document_digest :: "vault_crypto \<Rightarrow> attestation_document \<Rightarrow> bytes" where
  "document_digest C d =
     compute_attestation_digest C (ad_platform d) (ad_timestamp d) (ad_nonce d) (ad_enclave_hash d) (ad_signer_hash d) (ad_payload_hash d)"

definition vault_verify_attestation ::
    "vault_crypto \<Rightarrow> u64 \<Rightarrow> attestation_document \<Rightarrow> string \<Rightarrow> u64 \<Rightarrow> (string, string) result" where
  "vault_verify_attestation C now d expected_enclave_hash max_age_secs =
     (if ad_enclave_hash d \<noteq> expected_enclave_hash
      then Err (''Enclave hash mismatch: expected '' @ expected_enclave_hash @ '', got '' @ ad_enclave_hash d)
      else if ad_timestamp d + max_age_secs < now
      then Err (''Attestation expired: age '' @ show_word (now - ad_timestamp d) @ ''s > max '' @ show_word max_age_secs @ ''s'')
      else if ad_nonce d = [] then Err ''Empty nonce''
      else case vc_hex_decode C (ad_signature d) of
             Err _ \<Rightarrow> Err ''invalid signature hex''
           | Ok sig \<Rightarrow>
               if length sig \<noteq> 65
               then Err (''invalid signature length: '' @ show_nat (length sig) @ '' (expected 65 bytes / 130 hex chars)'')
               else case vc_k256_signature_error C (take 64 sig) of
                      Some e \<Rightarrow> Err (''invalid R||S: '' @ e)
                    | None \<Rightarrow>
                        let v = sig ! 64; recid = (if v \<ge> 27 then v - 27 else v)
                        in case vc_k256_recovery_id_error C recid of
                             Some e \<Rightarrow> Err (''invalid recovery id (V='' @ show_word v @ ''): '' @ e)
                           | None \<Rightarrow>
                               (case vc_k256_recover C (document_digest C d) (take 64 sig) recid of
                                  Err e \<Rightarrow> Err (''signature recovery failed: '' @ e)
                                | Ok key \<Rightarrow> Ok (hex_encode key)))"

end
