(* ===== verification/Vault_Server.thy ===== *)
theory Vault_Server
  imports Vault_Selection Vault_Attestation "HOL-Library.Multiset"
begin

text \<open>
  \<open>src/crates/vault/src/server.rs\<close>: the canonical hashes and payloads of the service, its request handlers, the two
  middlewares and the checks made before the service starts.

  A handler takes the state of the service and a request and returns the new state with the answer or an HTTP
  status and a message; \<open>None\<close> is a panic. The state is shared by all requests and no lock covers a handler, so a handler is
  also given as the steps it is made of: each step is one access to the shared state, and a request is a task whose steps run
  between those of the other requests and which may be dropped where it awaits (last section). A handler as one
  function is the task running alone.
  The arguments that stand for code outside the repository: \<open>vault_crypto\<close> of \<open>Vault_Attestation\<close>, \<open>logn\<close>, the
  JSON encoder \<open>to_json\<close>, \<open>lowercase\<close> for \<open>str::to_lowercase\<close> on text that is not ASCII, and the IEEE bytes \<open>f64_be\<close> of a
  float. Logging and the text of the metrics page are left out.
\<close>

section \<open>Canonical hashes\<close>

definition pad_left :: "nat \<Rightarrow> bytes \<Rightarrow> bytes" where
  "pad_left n bs = replicate (n - length bs) 0 @ bs"

definition be_u32 :: "u32 \<Rightarrow> bytes" where "be_u32 x = rev (le_bytes 4 x)"
definition be_u128 :: "u128 \<Rightarrow> bytes" where "be_u128 x = rev (le_bytes 16 x)"

definition decode_some :: "vault_crypto \<Rightarrow> string \<Rightarrow> bytes option" where
  "decode_some C s = (case vc_hex_decode C s of Ok bs \<Rightarrow> Some bs | Err _ \<Rightarrow> None)"

definition address_word :: "vault_crypto \<Rightarrow> string \<Rightarrow> bytes" where
  "address_word C address = pad_left 32 (claim_address_bytes (vc_sha256 C) (decode_some C) address)"

definition key_word :: "vault_crypto \<Rightarrow> string \<Rightarrow> bytes" where
  "key_word C key =
     (let key_bytes = decode_or_default C (trim_start_0x key); copied = take 32 key_bytes
      in copied @ replicate (32 - length copied) 0)"

definition compute_validator_inner_hash :: "vault_crypto \<Rightarrow> scored_validator \<Rightarrow> bytes" where
  "compute_validator_inner_hash C v =
     vc_sha256 C (address_word C (sv_address v) @ pad_left 32 (be_u128 (sv_stake v))
       @ pad_left 32 (be_u32 (sv_performance_score v)) @ pad_left 32 (be_u32 (sv_decentralization_score v))
       @ pad_left 32 (be_u32 (sv_reputation_score v)) @ pad_left 32 (be_u32 (sv_composite_score v))
       @ key_word C (sv_tee_public_key v) @ pad_left 32 (be_u32 (sv_commission_bps v)))"

definition compute_validator_set_hash :: "vault_crypto \<Rightarrow> u64 \<Rightarrow> scored_validator list \<Rightarrow> bytes" where
  "compute_validator_set_hash C epoch validators =
     vc_sha256 C (ascii ''CruzibleValidatorSet-v1'' @ be_bytes8 epoch @ be_u32 (of_nat (length validators))
       @ concat (map (compute_validator_inner_hash C) validators))"

definition compute_selection_policy_hash :: "vault_crypto \<Rightarrow> (f64 \<Rightarrow> bytes) \<Rightarrow> selection_config \<Rightarrow> bytes" where
  "compute_selection_policy_hash C f64_be config =
     vc_sha256 C (ascii ''CruzibleSelectionPolicy-v1''
       @ f64_be (sc_performance_weight config) @ f64_be (sc_decentralization_weight config)
       @ f64_be (sc_reputation_weight config) @ f64_be (sc_min_uptime_pct config)
       @ pad_left 32 (be_u32 (sc_max_commission_bps config))
       @ pad_left 32 (be_bytes8 (of_nat (sc_max_per_region config)))
       @ pad_left 32 (be_bytes8 (of_nat (sc_max_per_operator config)))
       @ pad_left 32 (be_u128 (sc_min_stake config)))"

definition universe_preimage :: "string list \<Rightarrow> bytes" where
  "universe_preimage addresses = concat (map (\<lambda>a. ascii a @ [0]) (sort addresses))"

definition compute_eligible_universe_hash :: "vault_crypto \<Rightarrow> string list \<Rightarrow> bytes" where
  "compute_eligible_universe_hash C addresses = vc_sha256 C (universe_preimage addresses)"

definition compute_staker_inner_hash :: "vault_crypto \<Rightarrow> staker_stake \<Rightarrow> bytes" where
  "compute_staker_inner_hash C s =
     vc_sha256 C (address_word C (ss_address s) @ pad_left 32 (be_u128 (ss_shares s)) @ address_word C (ss_delegated_to s))"

definition compute_stake_snapshot_hash :: "vault_crypto \<Rightarrow> u64 \<Rightarrow> staker_stake list \<Rightarrow> bytes" where
  "compute_stake_snapshot_hash C epoch stakers =
     vc_sha256 C (ascii ''CruzibleStakeSnapshot-v1'' @ be_bytes8 epoch @ be_u32 (of_nat (length stakers))
       @ concat (map (compute_staker_inner_hash C) (sort_key ss_address stakers)))"

section \<open>Registry roots\<close>

unbundle bit_operations_syntax

definition xor_bytes :: "bytes \<Rightarrow> bytes \<Rightarrow> bytes" where
  "xor_bytes xs ys = map (\<lambda>(x, y). x XOR y) (zip xs ys)"

definition parse_address_bytes :: "vault_crypto \<Rightarrow> (string \<Rightarrow> string) \<Rightarrow> string \<Rightarrow> bytes" where
  "parse_address_bytes C lowercase addr =
     (case vc_hex_decode C (trim_start_0x (lowercase addr)) of
        Ok bs \<Rightarrow> if length bs \<le> 20 then pad_left 20 bs else replicate 20 0
      | Err _ \<Rightarrow> replicate 20 0)"

definition staker_registry_entry :: "vault_crypto \<Rightarrow> (string \<Rightarrow> string) \<Rightarrow> staker_stake \<Rightarrow> bytes" where
  "staker_registry_entry C lowercase s =
     vc_keccak256 C (parse_address_bytes C lowercase (ss_address s) @ pad_left 32 (be_u128 (ss_shares s)))"

definition delegation_registry_entry :: "vault_crypto \<Rightarrow> (string \<Rightarrow> string) \<Rightarrow> staker_stake \<Rightarrow> bytes" where
  "delegation_registry_entry C lowercase s =
     vc_keccak256 C (parse_address_bytes C lowercase (ss_address s) @ parse_address_bytes C lowercase (ss_delegated_to s))"

definition xor_accumulate :: "(staker_stake \<Rightarrow> bytes) \<Rightarrow> staker_stake list \<Rightarrow> bytes" where
  "xor_accumulate entry stakers =
     foldl (\<lambda>acc s. if ss_shares s = 0 then acc else xor_bytes acc (entry s)) (replicate 32 0) stakers"

definition compute_staker_registry_root :: "vault_crypto \<Rightarrow> (string \<Rightarrow> string) \<Rightarrow> staker_stake list \<Rightarrow> bytes" where
  "compute_staker_registry_root C lowercase stakers = xor_accumulate (staker_registry_entry C lowercase) stakers"

definition compute_delegation_registry_root :: "vault_crypto \<Rightarrow> (string \<Rightarrow> string) \<Rightarrow> staker_stake list \<Rightarrow> bytes" where
  "compute_delegation_registry_root C lowercase stakers = xor_accumulate (delegation_registry_entry C lowercase) stakers"

definition validate_unique_staker_addresses :: "staker_stake list \<Rightarrow> (string, unit) result" where
  "validate_unique_staker_addresses stakers =
     (case first_duplicate [] stakers of
        Some address \<Rightarrow> Err (''duplicate staker address: '' @ address)
      | None \<Rightarrow> Ok ())"

section \<open>Payloads\<close>

definition compute_canonical_reward_payload ::
    "u64 \<Rightarrow> u128 \<Rightarrow> bytes \<Rightarrow> u128 \<Rightarrow> bytes \<Rightarrow> bytes \<Rightarrow> bytes \<Rightarrow> bytes \<Rightarrow> bytes" where
  "compute_canonical_reward_payload epoch total_rewards merkle_root protocol_fee snapshot_hash validator_hash registry_root delegation_root =
     pad_left 32 (be_bytes8 epoch) @ pad_left 32 (be_u128 total_rewards) @ merkle_root @ pad_left 32 (be_u128 protocol_fee)
     @ snapshot_hash @ validator_hash @ registry_root @ delegation_root"

definition compute_canonical_delegation_payload :: "u64 \<Rightarrow> bytes \<Rightarrow> bytes \<Rightarrow> bytes" where
  "compute_canonical_delegation_payload epoch delegation_root registry_root =
     pad_left 32 (be_bytes8 epoch) @ delegation_root @ registry_root"

definition parse_merkle_root :: "vault_crypto \<Rightarrow> string \<Rightarrow> bytes" where
  "parse_merkle_root C hex_str = pad_left 32 (take 32 (decode_or_default C (trim_start_0x hex_str)))"

section \<open>State and configuration of the service\<close>

record vault_service_config =
  vs_listen_addr :: string
  vs_tee_platform :: tee_platform
  vs_allow_simulated :: bool
  vs_max_validators :: nat
  vs_max_stakers :: nat
  vs_max_commitments :: nat
  vs_operator_key_hex :: "string option"
  vs_vendor_attestation_key_hex :: "string option"
  vs_attestation_relay_url :: "string option"
  vs_enclave_hash_hex :: "string option"
  vs_signer_hash_hex :: "string option"
  vs_application_hash_hex :: "string option"
  vs_auth_token :: "string option"
  vs_rate_limit_rps :: u32
  vs_insecure_no_auth :: bool
  vs_insecure_local_vendor_key :: bool

definition vault_service_config_default :: vault_service_config where
  "vault_service_config_default =
     \<lparr>vs_listen_addr = ''127.0.0.1:8547'', vs_tee_platform = Mock, vs_allow_simulated = True, vs_max_validators = 200,
      vs_max_stakers = 100000, vs_max_commitments = 10000, vs_operator_key_hex = None, vs_vendor_attestation_key_hex = None,
      vs_attestation_relay_url = None, vs_enclave_hash_hex = None, vs_signer_hash_hex = None, vs_application_hash_hex = None,
      vs_auth_token = None, vs_rate_limit_rps = 0, vs_insecure_no_auth = False, vs_insecure_local_vendor_key = False\<rparr>"

record metrics_state =
  me_validator_selections :: u64
  me_reward_calculations :: u64
  me_mev_orderings :: u64
  me_delegation_attestations :: u64
  me_total_errors :: u64
  me_auth_failures :: u64
  me_last_attestation_at :: u64

definition metrics_state_new :: metrics_state where
  "metrics_state_new =
     \<lparr>me_validator_selections = 0, me_reward_calculations = 0, me_mev_orderings = 0, me_delegation_attestations = 0,
      me_total_errors = 0, me_auth_failures = 0, me_last_attestation_at = 0\<rparr>"

record app_state =
  as_attestation_gen :: attestation_generator
  as_total_attestations :: u64
  as_current_epoch :: u64
  as_config :: vault_service_config
  as_metrics :: metrics_state

datatype status_code = BadRequest | Unauthorized | TooManyRequests | InternalServerError

type_synonym 'a handler_result = "(status_code \<times> string, 'a) result"

section \<open>Steps shared by the handlers\<close>

definition parse_hash32 :: "vault_crypto \<Rightarrow> string \<Rightarrow> string \<Rightarrow> (status_code \<times> string, bytes) result" where
  "parse_hash32 C field s =
     (if s = [] then Err (BadRequest, field @ '' is required'')
      else case vc_hex_decode C s of
             Err _ \<Rightarrow> Err (BadRequest, field @ '' is not valid hex'')
           | Ok decoded \<Rightarrow>
               if length decoded \<noteq> 32
               then Err (BadRequest, field @ '' must be 32 bytes, got '' @ show_nat (length decoded))
               else Ok decoded)"

definition check_hash ::
    "vault_crypto \<Rightarrow> string \<Rightarrow> string \<Rightarrow> string \<Rightarrow> bytes \<Rightarrow> (status_code \<times> string, unit) result" where
  "check_hash C field noun supplied recomputed =
     (case parse_hash32 C field supplied of
        Err e \<Rightarrow> Err e
      | Ok given \<Rightarrow>
          if recomputed \<noteq> given
          then Err (BadRequest, field @ '' mismatch: supplied '' @ supplied @ '' but '' @ noun @ '' hash to '' @ hex_encode recomputed)
          else Ok ())"

text \<open>
  The writes of a handler to the shared state, each one atomic: an increment or a write under the lock of one counter, an
  atomic \<open>fetch_add\<close>, an atomic store.
\<close>

datatype attestation_kind = ValidatorSelections | RewardCalculations | MevOrderings | DelegationAttestations

datatype service_op = AddTotal | SetEpoch u64 | CountKind attestation_kind | RecordTime | AddError

fun bump_kind :: "attestation_kind \<Rightarrow> metrics_state \<Rightarrow> metrics_state" where
  "bump_kind ValidatorSelections m = m\<lparr>me_validator_selections := me_validator_selections m + 1\<rparr>"
| "bump_kind RewardCalculations m = m\<lparr>me_reward_calculations := me_reward_calculations m + 1\<rparr>"
| "bump_kind MevOrderings m = m\<lparr>me_mev_orderings := me_mev_orderings m + 1\<rparr>"
| "bump_kind DelegationAttestations m = m\<lparr>me_delegation_attestations := me_delegation_attestations m + 1\<rparr>"

fun service_op_step :: "u64 \<Rightarrow> service_op \<Rightarrow> app_state \<Rightarrow> app_state" where
  "service_op_step now AddTotal st = st\<lparr>as_total_attestations := as_total_attestations st + 1\<rparr>"
| "service_op_step now (SetEpoch e) st = st\<lparr>as_current_epoch := e\<rparr>"
| "service_op_step now (CountKind k) st = st\<lparr>as_metrics := bump_kind k (as_metrics st)\<rparr>"
| "service_op_step now RecordTime st = st\<lparr>as_metrics := (as_metrics st)\<lparr>me_last_attestation_at := now\<rparr>\<rparr>"
| "service_op_step now AddError st =
     st\<lparr>as_metrics := (as_metrics st)\<lparr>me_total_errors := me_total_errors (as_metrics st) + 1\<rparr>\<rparr>"

text \<open>What a handler writes after an attestation was made, in its order; only the selection sets the epoch.\<close>

definition attestation_ops :: "attestation_kind \<Rightarrow> u64 option \<Rightarrow> service_op list" where
  "attestation_ops kind epoch =
     AddTotal # (case epoch of Some e \<Rightarrow> [SetEpoch e] | None \<Rightarrow> []) @ [CountKind kind, RecordTime]"

definition attest ::
    "vault_crypto \<Rightarrow> u64 \<Rightarrow> bytes \<Rightarrow> app_state \<Rightarrow> app_state \<times> attestation_document handler_result" where
  "attest C now payload st =
     (let (g, r) = attestation_generate C now payload (as_attestation_gen st); st = st\<lparr>as_attestation_gen := g\<rparr>
      in case r of
           Err e \<Rightarrow> (service_op_step now AddError st, Err (InternalServerError, ''attestation generation failed: '' @ show_attestation_error e))
         | Ok d \<Rightarrow> (st, Ok d))"

definition count_attestation :: "u64 \<Rightarrow> attestation_kind \<Rightarrow> u64 option \<Rightarrow> app_state \<Rightarrow> app_state" where
  "count_attestation now kind epoch st = fold (service_op_step now) (attestation_ops kind epoch) st"

section \<open>Handlers\<close>

record select_validators_request =
  sr_validators :: "validator_input list"
  sr_target_count :: nat
  sr_epoch :: u64
  sr_config :: selection_config
  sr_eligible_universe_hash :: string
  sr_total_active_count :: nat
  sr_eligible_count :: nat
  sr_skipped_stale_count :: nat

record select_validators_response =
  so_selected :: "scored_validator list"
  so_epoch :: u64
  so_total_candidates :: nat
  so_selection_hash :: string
  so_attestation :: attestation_document
  so_eligible_universe_hash :: string

fun duplicate_candidate :: "string list \<Rightarrow> validator_input list \<Rightarrow> string option" where
  "duplicate_candidate seen [] = None"
| "duplicate_candidate seen (v # vs) =
     (if vn_address v \<in> set seen then Some (vn_address v) else duplicate_candidate (vn_address v # seen) vs)"

definition selection_payload :: "vault_crypto \<Rightarrow> (f64 \<Rightarrow> bytes) \<Rightarrow> select_validators_request \<Rightarrow> scored_validator list \<Rightarrow> bytes" where
  "selection_payload C f64_be req selected =
     compute_validator_set_hash C (sr_epoch req) selected @ compute_selection_policy_hash C f64_be (sr_config req)
     @ compute_eligible_universe_hash C (map vn_address (sr_validators req))"

definition select_validators_check ::
    "vault_crypto \<Rightarrow> (f64 \<Rightarrow> f64) \<Rightarrow> vault_service_config \<Rightarrow> select_validators_request \<Rightarrow> scored_validator list handler_result" where
  "select_validators_check C logn config req =
     (if length (sr_validators req) > (vs_max_validators config * 10) mod 2 ^ 64
      then Err (BadRequest, ''Too many candidate validators'')
      else case duplicate_candidate [] (sr_validators req) of
             Some a \<Rightarrow> Err (BadRequest, ''duplicate candidate address: '' @ a)
           | None \<Rightarrow>
               (case check_hash C ''eligible_universe_hash'' ''candidates'' (sr_eligible_universe_hash req)
                       (compute_eligible_universe_hash C (map vn_address (sr_validators req))) of
                  Err e \<Rightarrow> Err e
                | Ok _ \<Rightarrow> Ok (select_validators logn (sr_validators req) (sr_target_count req) (sr_config req))))"

definition select_validators_handler ::
    "vault_crypto \<Rightarrow> (f64 \<Rightarrow> f64) \<Rightarrow> (f64 \<Rightarrow> bytes) \<Rightarrow> u64 \<Rightarrow> select_validators_request \<Rightarrow> app_state
      \<Rightarrow> app_state \<times> select_validators_response handler_result" where
  "select_validators_handler C logn f64_be now req st =
     (case select_validators_check C logn (as_config st) req of
        Err e \<Rightarrow> (st, Err e)
      | Ok selected \<Rightarrow>
          let (st, r) = attest C now (selection_payload C f64_be req selected) st
          in case r of
               Err e \<Rightarrow> (st, Err e)
             | Ok d \<Rightarrow>
                 (count_attestation now ValidatorSelections (Some (sr_epoch req)) st,
                  Ok \<lparr>so_selected = selected, so_epoch = sr_epoch req, so_total_candidates = length (sr_validators req),
                      so_selection_hash = ad_payload_hash d, so_attestation = d,
                      so_eligible_universe_hash = sr_eligible_universe_hash req\<rparr>))"

definition reward_payload ::
    "vault_crypto \<Rightarrow> (string \<Rightarrow> string) \<Rightarrow> calculate_rewards_request \<Rightarrow> calculate_rewards_response \<Rightarrow> bytes" where
  "reward_payload C lowercase req resp =
     compute_canonical_reward_payload (rq_epoch req) (rq_total_rewards req) (parse_merkle_root C (rr_merkle_root resp))
       (rr_protocol_fee resp) (compute_stake_snapshot_hash C (rq_epoch req) (rq_staker_stakes req))
       (compute_validator_set_hash C (rq_epoch req) (rq_validators req))
       (compute_staker_registry_root C lowercase (rq_staker_stakes req))
       (compute_delegation_registry_root C lowercase (rq_staker_stakes req))"

definition calculate_rewards_check ::
    "vault_crypto \<Rightarrow> vault_service_config \<Rightarrow> calculate_rewards_request \<Rightarrow> calculate_rewards_response handler_result option" where
  "calculate_rewards_check C config req =
     (if length (rq_staker_stakes req) > vs_max_stakers config
      then Some (Err (BadRequest, ''Too many stakers''))
      else case validate_unique_staker_addresses (rq_staker_stakes req) of
             Err e \<Rightarrow> Some (Err (BadRequest, e))
           | Ok _ \<Rightarrow>
      (case check_hash C ''stake_snapshot_hash'' ''stakers'' (rq_stake_snapshot_hash req)
              (compute_stake_snapshot_hash C (rq_epoch req) (rq_staker_stakes req)) of
           Err e \<Rightarrow> Some (Err e)
         | Ok _ \<Rightarrow>
      (case check_hash C ''validator_set_hash'' ''validators'' (rq_validator_set_hash req)
              (compute_validator_set_hash C (rq_epoch req) (rq_validators req)) of
           Err e \<Rightarrow> Some (Err e)
         | Ok _ \<Rightarrow>
      (case calculate_rewards (vc_sha256 C) (decode_some C) req of
           None \<Rightarrow> None
         | Some (Err e) \<Rightarrow> Some (Err (BadRequest, ''reward calculation failed: '' @ e))
         | Some (Ok resp) \<Rightarrow> Some (Ok resp)))))"

definition calculate_rewards_handler ::
    "vault_crypto \<Rightarrow> (string \<Rightarrow> string) \<Rightarrow> u64 \<Rightarrow> calculate_rewards_request \<Rightarrow> app_state
      \<Rightarrow> (app_state \<times> calculate_rewards_response handler_result) option" where
  "calculate_rewards_handler C lowercase now req st =
     (case calculate_rewards_check C (as_config st) req of
        None \<Rightarrow> None
      | Some (Err e) \<Rightarrow> Some (st, Err e)
      | Some (Ok resp) \<Rightarrow>
          let (st, r) = attest C now (reward_payload C lowercase req resp) st
          in case r of
               Err e \<Rightarrow> Some (st, Err e)
             | Ok d \<Rightarrow>
                 Some (count_attestation now RewardCalculations None st,
                       Ok (resp\<lparr>rr_attestation := d,
                                rr_stake_snapshot_hash := hex_encode (compute_stake_snapshot_hash C (rq_epoch req) (rq_staker_stakes req)),
                                rr_validator_set_hash := hex_encode (compute_validator_set_hash C (rq_epoch req) (rq_validators req))\<rparr>)))"

record order_transactions_request =
  or_epoch :: u64
  or_commitments :: "commitment list"
  or_reveals :: "reveal list"

record order_transactions_response =
  ot_epoch :: u64
  ot_ordered_blocks :: "validated_reveal list"
  ot_invalid_reveals :: "string list"
  ot_attestation :: attestation_document

definition order_transactions_check ::
    "vault_crypto \<Rightarrow> vault_service_config \<Rightarrow> order_transactions_request \<Rightarrow> (validated_reveal list \<times> string list) handler_result" where
  "order_transactions_check C config req =
     (let limit = vs_max_commitments config
      in if length (or_commitments req) > limit
         then Err (BadRequest, ''Too many commitments ('' @ show_nat (length (or_commitments req)) @ '', max '' @ show_nat limit @ '')'')
         else if length (or_reveals req) > limit
         then Err (BadRequest, ''Too many reveals ('' @ show_nat (length (or_reveals req)) @ '', max '' @ show_nat limit @ '')'')
         else Ok (process_commit_reveal (vc_sha256 C) (or_commitments req) (or_reveals req)))"

definition order_transactions_handler ::
    "vault_crypto \<Rightarrow> (validated_reveal list \<Rightarrow> bytes) \<Rightarrow> u64 \<Rightarrow> order_transactions_request \<Rightarrow> app_state
      \<Rightarrow> app_state \<times> order_transactions_response handler_result" where
  "order_transactions_handler C to_json now req st =
     (case order_transactions_check C (as_config st) req of
        Err e \<Rightarrow> (st, Err e)
      | Ok (ordered, invalid) \<Rightarrow>
          let (st, r) = attest C now (to_json ordered) st
          in case r of
               Err e \<Rightarrow> (st, Err e)
             | Ok d \<Rightarrow>
                 (count_attestation now MevOrderings None st,
                  Ok \<lparr>ot_epoch = or_epoch req, ot_ordered_blocks = ordered, ot_invalid_reveals = invalid, ot_attestation = d\<rparr>))"

definition verify_commitment_handler :: "vault_crypto \<Rightarrow> string \<Rightarrow> string \<Rightarrow> string \<Rightarrow> bool \<times> string" where
  "verify_commitment_handler C block_data nonce expected_hash =
     (let computed = compute_commitment_hash (vc_sha256 C) block_data nonce in (computed = expected_hash, computed))"

record attest_delegation_request =
  dr_epoch :: u64
  dr_staker_stakes :: "staker_stake list"
  dr_staker_registry_root :: string

record attest_delegation_response =
  do_epoch :: u64
  do_delegation_root :: string
  do_staker_registry_root :: string
  do_attestation :: attestation_document

definition attest_delegation_check ::
    "vault_crypto \<Rightarrow> (string \<Rightarrow> string) \<Rightarrow> vault_service_config \<Rightarrow> attest_delegation_request \<Rightarrow> (bytes \<times> bytes) handler_result" where
  "attest_delegation_check C lowercase config req =
     (if length (dr_staker_stakes req) > vs_max_stakers config
      then Err (BadRequest, ''Too many stakers'')
      else case validate_unique_staker_addresses (dr_staker_stakes req) of
             Err e \<Rightarrow> Err (BadRequest, e)
           | Ok _ \<Rightarrow>
      let registry_root = compute_staker_registry_root C lowercase (dr_staker_stakes req);
          delegation_root = compute_delegation_registry_root C lowercase (dr_staker_stakes req)
      in case check_hash C ''staker_registry_root'' ''stakers'' (dr_staker_registry_root req) registry_root of
           Err e \<Rightarrow> Err e
         | Ok _ \<Rightarrow> Ok (delegation_root, registry_root))"

definition attest_delegation_handler ::
    "vault_crypto \<Rightarrow> (string \<Rightarrow> string) \<Rightarrow> u64 \<Rightarrow> attest_delegation_request \<Rightarrow> app_state
      \<Rightarrow> app_state \<times> attest_delegation_response handler_result" where
  "attest_delegation_handler C lowercase now req st =
     (case attest_delegation_check C lowercase (as_config st) req of
        Err e \<Rightarrow> (st, Err e)
      | Ok (delegation_root, registry_root) \<Rightarrow>
          let (st, r) = attest C now (compute_canonical_delegation_payload (dr_epoch req) delegation_root registry_root) st
          in case r of
               Err e \<Rightarrow> (st, Err e)
             | Ok d \<Rightarrow>
                 (count_attestation now DelegationAttestations None st,
                  Ok \<lparr>do_epoch = dr_epoch req, do_delegation_root = hex_encode delegation_root,
                      do_staker_registry_root = hex_encode registry_root, do_attestation = d\<rparr>))"

section \<open>Middlewares\<close>

record vault_token_bucket =
  tb_tokens :: f64
  tb_max_burst :: f64
  tb_rate :: f64

definition vault_bucket_new :: "u32 \<Rightarrow> vault_token_bucket" where
  "vault_bucket_new rps = (let rate = vault_u32_as_f64 rps in \<lparr>tb_tokens = rate, tb_max_burst = rate, tb_rate = rate\<rparr>)"

text \<open>\<open>elapsed\<close> is the time in seconds since the last call.\<close>

definition vault_bucket_allow :: "f64 \<Rightarrow> vault_token_bucket \<Rightarrow> vault_token_bucket \<times> bool" where
  "vault_bucket_allow elapsed b =
     (let tokens = f64_min (f64_add (tb_tokens b) (f64_mul elapsed (tb_rate b))) (tb_max_burst b)
      in if f64_le (f64_lit 1) tokens then (b\<lparr>tb_tokens := f64_sub tokens (f64_lit 1)\<rparr>, True)
         else (b\<lparr>tb_tokens := tokens\<rparr>, False))"

definition public_path :: "string \<Rightarrow> bool" where
  "public_path path \<longleftrightarrow> path = ''/health'' \<or> path = ''/metrics''"

definition vault_rate_limit_middleware :: "f64 \<Rightarrow> string \<Rightarrow> vault_token_bucket \<Rightarrow> vault_token_bucket \<times> (status_code, unit) result" where
  "vault_rate_limit_middleware elapsed path b =
     (if public_path path then (b, Ok ())
      else let (b, allowed) = vault_bucket_allow elapsed b in (b, if allowed then Ok () else Err TooManyRequests))"

definition bearer_prefix :: string where "bearer_prefix = ''Bearer ''"

definition auth_middleware :: "string \<Rightarrow> string option \<Rightarrow> app_state \<Rightarrow> app_state \<times> (status_code, unit) result" where
  "auth_middleware path header st =
     (case vs_auth_token (as_config st) of
        None \<Rightarrow> (st, Ok ())
      | Some expected \<Rightarrow>
          if public_path path then (st, Ok ())
          else
            let auth_header = (case header of Some h \<Rightarrow> h | None \<Rightarrow> [])
            in if take (length bearer_prefix) auth_header \<noteq> bearer_prefix \<or> drop (length bearer_prefix) auth_header \<noteq> expected
               then (st\<lparr>as_metrics := (as_metrics st)\<lparr>me_auth_failures := me_auth_failures (as_metrics st) + 1\<rparr>\<rparr>, Err Unauthorized)
               else (st, Ok ()))"

section \<open>Start of the service\<close>

text \<open>The reasons to refuse to start, one for each message of \<open>start_server\<close>.\<close>

datatype start_error =
    AuthRequiredNonLoopback string
  | AuthRequiredForPlatform tee_platform
  | InvalidHex string string
  | WrongLength string
  | MeasurementRequired string tee_platform
  | GeneratorFailed attestation_error
  | RemoteAttestationNotBuilt
  | LocalVendorKeyNotBuilt tee_platform
  | LocalVendorKeyNotAllowed tee_platform
  | LocalVendorKeyNonLoopback string
  | VendorAttestationRequired tee_platform
  | OperatorKeyUnusable attestation_error

record vault_features =
  vf_remote_attestation :: bool
  vf_mock_tee :: bool

datatype vendor_attester = RemoteVendorAttester string | LocalVendorAttester bytes

text \<open>\<open>rsplit_once\<close> at the last colon.\<close>

definition listen_host :: "string \<Rightarrow> string" where
  "listen_host addr =
     (if CHR '':'' \<in> set addr then rev (tl (dropWhile (\<lambda>c. c \<noteq> CHR '':'') (rev addr))) else addr)"

definition is_loopback_addr :: "string \<Rightarrow> bool" where
  "is_loopback_addr addr \<longleftrightarrow> listen_host addr \<in> {''127.0.0.1'', ''::1'', ''localhost''}"

definition start_auth_check :: "vault_service_config \<Rightarrow> start_error option" where
  "start_auth_check config =
     (if vs_auth_token config \<noteq> None then None
      else if \<not> is_loopback_addr (vs_listen_addr config) then Some (AuthRequiredNonLoopback (vs_listen_addr config))
      else if vs_tee_platform config \<noteq> Mock \<and> \<not> vs_insecure_no_auth config
      then Some (AuthRequiredForPlatform (vs_tee_platform config))
      else None)"

definition parse_config32 :: "vault_crypto \<Rightarrow> string \<Rightarrow> string \<Rightarrow> (start_error, bytes) result" where
  "parse_config32 C field s =
     (case vc_hex_decode C s of
        Err e \<Rightarrow> Err (InvalidHex field e)
      | Ok bs \<Rightarrow> if length bs = 32 then Ok bs else Err (WrongLength field))"

definition measurement_of ::
    "vault_crypto \<Rightarrow> string \<Rightarrow> u8 \<Rightarrow> tee_platform \<Rightarrow> string option \<Rightarrow> (start_error, bytes) result" where
  "measurement_of C field placeholder platform given =
     (case given of
        Some s \<Rightarrow> parse_config32 C field s
      | None \<Rightarrow> if platform = Mock then Ok (replicate 32 placeholder) else Err (MeasurementRequired field platform))"

text \<open>\<open>random_key\<close> is the key drawn when the operator configured none.\<close>

definition start_tee_config :: "vault_crypto \<Rightarrow> bytes \<Rightarrow> vault_service_config \<Rightarrow> (start_error, tee_config) result" where
  "start_tee_config C random_key config =
     (case (case vs_operator_key_hex config of Some k \<Rightarrow> parse_config32 C ''operator_key_hex'' k | None \<Rightarrow> Ok random_key) of
        Err e \<Rightarrow> Err e
      | Ok signing_key \<Rightarrow>
     (case measurement_of C ''enclave_hash_hex'' 0xAE (vs_tee_platform config) (vs_enclave_hash_hex config) of
        Err e \<Rightarrow> Err e
      | Ok enclave_hash \<Rightarrow>
     (case measurement_of C ''signer_hash_hex'' 0x51 (vs_tee_platform config) (vs_signer_hash_hex config) of
        Err e \<Rightarrow> Err e
      | Ok signer_hash \<Rightarrow>
     (case (case vs_application_hash_hex config of
              Some s \<Rightarrow> (case parse_config32 C ''application_hash_hex'' s of Err e \<Rightarrow> Err e | Ok a \<Rightarrow> Ok (Some a))
            | None \<Rightarrow> if vs_tee_platform config = AWSNitro
                      then Err (MeasurementRequired ''application_hash_hex'' AWSNitro) else Ok None) of
        Err e \<Rightarrow> Err e
      | Ok application_hash \<Rightarrow>
          Ok \<lparr>tc_platform = vs_tee_platform config, tc_enclave_hash = enclave_hash, tc_signer_hash = signer_hash,
              tc_application_hash = application_hash, tc_allow_simulated = vs_allow_simulated config,
              tc_signing_key = signing_key\<rparr>))))"

definition generator_or_fail ::
    "(attestation_error, attestation_generator) result \<Rightarrow> (start_error, attestation_generator) result" where
  "generator_or_fail r = (case r of Err e \<Rightarrow> Err (GeneratorFailed e) | Ok g \<Rightarrow> Ok g)"

definition start_generator ::
    "vault_crypto \<Rightarrow> vault_features \<Rightarrow> (tee_platform \<Rightarrow> vendor_attester \<Rightarrow> hardware_provider) \<Rightarrow> bytes
      \<Rightarrow> vault_service_config \<Rightarrow> tee_config \<Rightarrow> (start_error, attestation_generator) result" where
  "start_generator C features devices platform_key config tee =
     (if vs_tee_platform config = Mock
      then generator_or_fail
             (generator_new C (\<lambda>p k. devices p (LocalVendorAttester k)) platform_key tee (replicate 31 0 @ [2]))
      else case vs_attestation_relay_url config of
             Some url \<Rightarrow>
               if vf_remote_attestation features
               then generator_or_fail (generator_with_vendor_attester devices tee (RemoteVendorAttester url))
               else Err RemoteAttestationNotBuilt
           | None \<Rightarrow>
               (case vs_vendor_attestation_key_hex config of
                  Some key_hex \<Rightarrow>
                    if \<not> vf_mock_tee features then Err (LocalVendorKeyNotBuilt (vs_tee_platform config))
                    else if \<not> vs_insecure_local_vendor_key config then Err (LocalVendorKeyNotAllowed (vs_tee_platform config))
                    else if \<not> is_loopback_addr (vs_listen_addr config) then Err (LocalVendorKeyNonLoopback (vs_listen_addr config))
                    else (case parse_config32 C ''vendor_attestation_key_hex'' key_hex of
                            Err e \<Rightarrow> Err e
                          | Ok key \<Rightarrow> generator_or_fail (generator_with_vendor_attester devices tee (LocalVendorAttester key)))
                | None \<Rightarrow> Err (VendorAttestationRequired (vs_tee_platform config))))"

definition start_server ::
    "vault_crypto \<Rightarrow> vault_features \<Rightarrow> (tee_platform \<Rightarrow> vendor_attester \<Rightarrow> hardware_provider) \<Rightarrow> bytes \<Rightarrow> bytes
      \<Rightarrow> vault_service_config \<Rightarrow> (start_error, app_state) result" where
  "start_server C features devices random_key platform_key config =
     (case start_auth_check config of
        Some e \<Rightarrow> Err e
      | None \<Rightarrow>
     (case start_tee_config C random_key config of
        Err e \<Rightarrow> Err e
      | Ok tee \<Rightarrow>
     (case start_generator C features devices platform_key config tee of
        Err e \<Rightarrow> Err e
      | Ok g \<Rightarrow>
     (case operator_pubkey_hex C g of
        Err e \<Rightarrow> Err (OperatorKeyUnusable e)
      | Ok _ \<Rightarrow>
          Ok \<lparr>as_attestation_gen = g, as_total_attestations = 0, as_current_epoch = 1, as_config = config,
              as_metrics = metrics_state_new\<rparr>))))"

section \<open>Requests\<close>

text \<open>
  The routes. A panic of a handler ends its request and leaves the state as it is; \<open>handle_request\<close> is what a handler does to the
  state when nothing runs beside it.
\<close>

datatype vault_request =
    Health
  | Capabilities
  | Metrics
  | SelectValidators select_validators_request
  | CalculateRewards calculate_rewards_request
  | OrderTransactions order_transactions_request
  | VerifyCommitment string string string
  | AttestDelegation attest_delegation_request

fun request_path :: "vault_request \<Rightarrow> string" where
  "request_path Health = ''/health''"
| "request_path Capabilities = ''/capabilities''"
| "request_path Metrics = ''/metrics''"
| "request_path (SelectValidators _) = ''/select-validators''"
| "request_path (CalculateRewards _) = ''/calculate-rewards''"
| "request_path (OrderTransactions _) = ''/order-transactions''"
| "request_path (VerifyCommitment _ _ _) = ''/verify-commitment''"
| "request_path (AttestDelegation _) = ''/attest-delegation''"

record vault_env =
  ve_crypto :: vault_crypto
  ve_logn :: "f64 \<Rightarrow> f64"
  ve_f64_be :: "f64 \<Rightarrow> bytes"
  ve_lowercase :: "string \<Rightarrow> string"
  ve_to_json :: "validated_reveal list \<Rightarrow> bytes"

fun handle_request :: "vault_env \<Rightarrow> u64 \<Rightarrow> vault_request \<Rightarrow> app_state \<Rightarrow> app_state" where
  "handle_request E now (SelectValidators req) st =
     fst (select_validators_handler (ve_crypto E) (ve_logn E) (ve_f64_be E) now req st)"
| "handle_request E now (CalculateRewards req) st =
     (case calculate_rewards_handler (ve_crypto E) (ve_lowercase E) now req st of Some (st', _) \<Rightarrow> st' | None \<Rightarrow> st)"
| "handle_request E now (OrderTransactions req) st = fst (order_transactions_handler (ve_crypto E) (ve_to_json E) now req st)"
| "handle_request E now (AttestDelegation req) st = fst (attest_delegation_handler (ve_crypto E) (ve_lowercase E) now req st)"
| "handle_request E now _ st = st"

section \<open>Interleaved requests\<close>

text \<open>
  What a request attests, and what it writes once the attestation was made: \<open>None\<close> when the route attests nothing, when the checks
  refuse the request and when they panic. The checks read only the request and the configuration, which no request changes.
\<close>

fun attested_work :: "vault_env \<Rightarrow> vault_service_config \<Rightarrow> vault_request \<Rightarrow> (bytes \<times> service_op list) option" where
  "attested_work E config (SelectValidators req) =
     (case select_validators_check (ve_crypto E) (ve_logn E) config req of
        Err _ \<Rightarrow> None
      | Ok selected \<Rightarrow> Some (selection_payload (ve_crypto E) (ve_f64_be E) req selected, attestation_ops ValidatorSelections (Some (sr_epoch req))))"
| "attested_work E config (CalculateRewards req) =
     (case calculate_rewards_check (ve_crypto E) config req of
        Some (Ok resp) \<Rightarrow> Some (reward_payload (ve_crypto E) (ve_lowercase E) req resp, attestation_ops RewardCalculations None)
      | _ \<Rightarrow> None)"
| "attested_work E config (OrderTransactions req) =
     (case order_transactions_check (ve_crypto E) config req of
        Err _ \<Rightarrow> None
      | Ok (ordered, _) \<Rightarrow> Some (ve_to_json E ordered, attestation_ops MevOrderings None))"
| "attested_work E config (AttestDelegation req) =
     (case attest_delegation_check (ve_crypto E) (ve_lowercase E) config req of
        Err _ \<Rightarrow> None
      | Ok (delegation_root, registry_root) \<Rightarrow>
          Some (compute_canonical_delegation_payload (dr_epoch req) delegation_root registry_root, attestation_ops DelegationAttestations None))"
| "attested_work E config _ = None"

text \<open>
  A request on its way: before the rate limiter, which is the outer layer; before the bearer check; before its handler; and
  with the writes that its handler has still to make. \<open>task_step\<close> is the next step of a task on the state and the bucket of the
  limiter, and the task that is left, if any: taking a token from the bucket, the bearer check with its counter, the call of
  \<open>generate\<close>, which takes the next value of the nonce counter by one \<open>fetch_add\<close>, and one write.
\<close>

datatype vault_task =
    Arrived "string option" vault_request
  | Limited "string option" vault_request
  | Admitted vault_request
  | Counting "service_op list"

fun task_step ::
    "vault_env \<Rightarrow> u64 \<Rightarrow> f64 \<Rightarrow> vault_task \<Rightarrow> app_state \<times> vault_token_bucket \<Rightarrow> (app_state \<times> vault_token_bucket) \<times> vault_task option" where
  "task_step E now elapsed (Arrived header req) (st, b) =
     (let (b, limited) = (if vs_rate_limit_rps (as_config st) = 0 then (b, Ok ())
                          else vault_rate_limit_middleware elapsed (request_path req) b)
      in ((st, b), case limited of Err _ \<Rightarrow> None | Ok _ \<Rightarrow> Some (Limited header req)))"
| "task_step E now elapsed (Limited header req) (st, b) =
     (let (st, admitted) = auth_middleware (request_path req) header st
      in ((st, b), case admitted of Err _ \<Rightarrow> None | Ok _ \<Rightarrow> Some (Admitted req)))"
| "task_step E now elapsed (Admitted req) (st, b) =
     (case attested_work E (as_config st) req of
        None \<Rightarrow> ((st, b), None)
      | Some (payload, ops) \<Rightarrow>
          let (g, r) = attestation_generate (ve_crypto E) now payload (as_attestation_gen st)
          in ((st\<lparr>as_attestation_gen := g\<rparr>, b), Some (Counting (case r of Err _ \<Rightarrow> [AddError] | Ok _ \<Rightarrow> ops))))"
| "task_step E now elapsed (Counting (oper # ops)) (st, b) = ((service_op_step now oper st, b), Some (Counting ops))"
| "task_step E now elapsed (Counting []) (st, b) = ((st, b), None)"

text \<open>
  Where a task awaits, and so may be dropped when its client disconnects: at the lock of the bucket, while the inner layers run, while
  the body is read, and at the locks of the total and of the epoch. The other writes do not await.
\<close>

fun may_suspend :: "vault_task \<Rightarrow> bool" where
  "may_suspend (Counting (AddTotal # _)) = True"
| "may_suspend (Counting (SetEpoch _ # _)) = True"
| "may_suspend (Counting _) = False"
| "may_suspend _ = True"

text \<open>The value of the nonce counter that the next step of a task takes.\<close>

fun task_nonce :: "vault_env \<Rightarrow> vault_task \<Rightarrow> app_state \<Rightarrow> u64 list" where
  "task_nonce E (Admitted req) st =
     (if attested_work E (as_config st) req = None then [] else [ag_nonce_counter (as_attestation_gen st)])"
| "task_nonce E _ st = []"

text \<open>
  The service with its open tasks. \<open>vy_dropped\<close> and \<open>vy_nonces\<close> record what happened: the tasks that were dropped, as they were then, and the
  values of the nonce counter that were taken.
\<close>

record vault_system =
  vy_state :: app_state
  vy_bucket :: vault_token_bucket
  vy_tasks :: "vault_task multiset"
  vy_dropped :: "vault_task multiset"
  vy_nonces :: "u64 list"

definition vault_system_new :: "app_state \<Rightarrow> vault_system" where
  "vault_system_new st =
     \<lparr>vy_state = st, vy_bucket = vault_bucket_new (vs_rate_limit_rps (as_config st)), vy_tasks = {#}, vy_dropped = {#}, vy_nonces = []\<rparr>"

definition task_opt :: "vault_task option \<Rightarrow> vault_task multiset" where
  "task_opt t = (case t of None \<Rightarrow> {#} | Some t \<Rightarrow> {#t#})"

text \<open>
  The runs of the service: requests arrive, any open task takes its next step at any time, any task that awaits may be
  dropped. The list holds the requests that arrived with their \<open>authorization\<close> header, oldest first.
\<close>

inductive vault_run :: "vault_env \<Rightarrow> vault_system \<Rightarrow> (string option \<times> vault_request) list \<Rightarrow> vault_system \<Rightarrow> bool" for E s0 where
  start: "vault_run E s0 [] s0"
| arrive: "vault_run E s0 arrivals s \<Longrightarrow>
    vault_run E s0 (arrivals @ [(header, req)]) (s\<lparr>vy_tasks := add_mset (Arrived header req) (vy_tasks s)\<rparr>)"
| move: "vault_run E s0 arrivals s \<Longrightarrow> vy_tasks s = add_mset t ts \<Longrightarrow>
    task_step E now elapsed t (vy_state s, vy_bucket s) = ((st, b), t') \<Longrightarrow>
    vault_run E s0 arrivals
      (s\<lparr>vy_state := st, vy_bucket := b, vy_tasks := ts + task_opt t', vy_nonces := vy_nonces s @ task_nonce E t (vy_state s)\<rparr>)"
| drop: "vault_run E s0 arrivals s \<Longrightarrow> vy_tasks s = add_mset t ts \<Longrightarrow> may_suspend t \<Longrightarrow>
    vault_run E s0 arrivals (s\<lparr>vy_tasks := ts, vy_dropped := add_mset t (vy_dropped s)\<rparr>)"

end
