(* ===== verification/Vault_Division.thy ===== *)
theory Vault_Division
  imports Vault_Rewards
begin

text \<open>
  The multiply-divide of \<open>reward_calculator.rs\<close> is exact: the bit by bit division of a 256-bit dividend by the
  invariant \<open>divided_down_to\<close>, the two words of the wide product, and the interface \<open>floor_share\<close> through which
  the rewards use both.
\<close>

unbundle bit_operations_syntax

definition dividend :: "u128 \<Rightarrow> u128 \<Rightarrow> nat" where
  "dividend hi lo = unat hi * 2 ^ 128 + unat lo"

definition divided_down_to :: "nat \<Rightarrow> nat \<Rightarrow> nat \<Rightarrow> u128 \<times> u128 \<Rightarrow> bool" where
  "divided_down_to n d i st \<longleftrightarrow>
     fst st = of_nat (n div 2 ^ i div d * 2 ^ i) \<and> snd st = of_nat (n div 2 ^ i mod d)"

lemma unat_shr: "unat (drop_bit k x) = unat x div 2 ^ k" for x :: u128
  by (subst unat_drop_bit_eq) (rule drop_bit_eq_div)

lemma unat_u128_of_nat: "unat (of_nat n :: u128) = n" if "n < 2 ^ 128"
  using that by (subst unat_of_nat) simp

lemma dividend_bit:
  assumes "i < 256"
  shows "(if i \<ge> 128 then drop_bit (i - 128) hi AND 1 else drop_bit i lo AND 1) = (of_nat (dividend hi lo div 2 ^ i mod 2) :: u128)"
proof -
  have lt: "unat lo < 2 ^ 128" using unsigned_less[of lo] by simp
  have b: "drop_bit k x AND 1 = (of_nat (unat x div 2 ^ k mod 2) :: u128)" for k :: nat and x :: u128
  proof -
    have "drop_bit k x AND 1 = of_nat (unat (drop_bit k x) mod unat (2 :: u128))"
      by (simp only: and_one_eq word_arith_nat_mod)
    moreover have "unat (drop_bit k x) = unat x div 2 ^ k" by (rule unat_shr)
    ultimately show ?thesis by simp
  qed
  show ?thesis
  proof (cases "i \<ge> 128")
    case True
    have "dividend hi lo div 2 ^ i = dividend hi lo div 2 ^ 128 div 2 ^ (i - 128)"
      using True by (metis div_mult2_eq le_add_diff_inverse power_add)
    also have "dividend hi lo div 2 ^ 128 = unat hi" using lt by (simp add: dividend_def)
    finally show ?thesis using True by (simp add: b)
  next
    case False
    have "(2::nat) ^ 128 = 2 ^ i * 2 * 2 ^ (127 - i)"
      using False by (simp add: power_add [symmetric] flip: power_Suc2)
    then have "dividend hi lo = 2 ^ i * (2 * (unat hi * 2 ^ (127 - i))) + unat lo"
      by (simp only: dividend_def mult.assoc mult.left_commute)
    then have "dividend hi lo div 2 ^ i = 2 * (unat hi * 2 ^ (127 - i)) + unat lo div 2 ^ i"
      by (metis div_mult_self4 power_not_zero zero_neq_numeral)
    then have "dividend hi lo div 2 ^ i mod 2 = unat lo div 2 ^ i mod 2" by (simp only: mod_mult_self4)
    then show ?thesis using False by (simp add: b)
  qed
qed

lemma div_two_power_Suc: "(n::nat) div 2 ^ i = 2 * (n div 2 ^ Suc i) + n div 2 ^ i mod 2"
proof -
  have "n div 2 ^ Suc i = n div 2 ^ i div 2" by (simp add: div_mult2_eq [symmetric] mult.commute)
  then show ?thesis by presburger
qed

lemma quotient_bit:
  fixes m d b :: nat
  assumes "0 < d" "b \<le> 1"
  shows "(2 * m + b) div d = 2 * (m div d) + (if d \<le> 2 * (m mod d) + b then 1 else 0)"
    and "(2 * m + b) mod d = (if d \<le> 2 * (m mod d) + b then 2 * (m mod d) + b - d else 2 * (m mod d) + b)"
proof -
  define q r where "q = m div d" and "r = m mod d"
  have m: "m = d * q + r" and r: "r < d" using assms by (simp_all add: q_def r_def)
  have e: "2 * m + b = d * (2 * q) + (2 * r + b)" by (simp add: m algebra_simps)
  have lt: "2 * r + b < 2 * d" using r assms(2) by simp
  show "(2 * m + b) div d = 2 * (m div d) + (if d \<le> 2 * (m mod d) + b then 1 else 0)"
    unfolding e q_def [symmetric] r_def [symmetric] using lt assms(1)
    by (simp add: div_eq_0_iff le_div_geq)
  show "(2 * m + b) mod d = (if d \<le> 2 * (m mod d) + b then 2 * (m mod d) + b - d else 2 * (m mod d) + b)"
    unfolding e q_def [symmetric] r_def [symmetric] using lt assms(1)
    by (simp add: le_mod_geq)
qed

lemma set_quotient_bit:
  assumes "i < 128"
  shows "(of_nat (k * 2 ^ Suc i) :: u128) OR push_bit i 1 = of_nat ((2 * k + 1) * 2 ^ i)"
proof -
  have p: "(of_nat (k * 2 ^ Suc i) :: u128) = push_bit (Suc i) (of_nat k)" by (simp add: push_bit_eq_mult)
  have "push_bit (Suc i) (of_nat k :: u128) AND push_bit i 1 = 0"
    by (rule bit_word_eqI) (auto simp: bit_push_bit_iff bit_and_iff bit_1_iff bit_exp_iff simp del: push_bit_Suc)
  then have "push_bit (Suc i) (of_nat k :: u128) OR push_bit i 1 = push_bit (Suc i) (of_nat k) + push_bit i 1"
    by (metis add.right_neutral word_plus_and_or add.commute)
  then show ?thesis unfolding p by (simp add: push_bit_eq_mult algebra_simps)
qed

lemma shift_in_bit:
  assumes "b \<le> 1"
  shows "push_bit 1 (x :: u128) OR of_nat b = 2 * x + of_nat b"
proof -
  have "push_bit 1 x AND (of_nat b :: u128) = 0"
    using assms by (cases b) (auto intro!: bit_word_eqI simp: bit_push_bit_iff bit_and_iff bit_1_iff bit_0)
  then have "push_bit 1 x OR of_nat b = push_bit 1 x + (of_nat b :: u128)"
    by (metis add.right_neutral word_plus_and_or add.commute)
  then show ?thesis by (simp add: push_bit_eq_mult mult.commute)
qed

lemma top_bit: "drop_bit 127 (of_nat r :: u128) \<noteq> 0 \<longleftrightarrow> 2 ^ 127 \<le> r" if "r < 2 ^ 128"
proof -
  have "unat (drop_bit 127 (of_nat r :: u128)) = r div 2 ^ 127"
    by (simp only: unat_shr unat_u128_of_nat [OF that])
  then show ?thesis by (simp add: unat_eq_zero [symmetric] div_eq_0_iff not_less del: unat_eq_zero)
qed

lemma divided_step:
  assumes d: "0 < unat d" and inv: "divided_down_to (dividend hi lo) (unat d) (Suc i) st" and i: "i < 256"
  shows "divided_down_to (dividend hi lo) (unat d) i (long_division_step hi lo d st i)"
proof -
  define n where "n = dividend hi lo"
  define m b where "m = n div 2 ^ Suc i" and "b = n div 2 ^ i mod 2"
  define q r where "q = m div unat d" and "r = m mod unat d"
  obtain qw rw where st: "st = (qw, rw)" by (cases st)
  have qw: "qw = of_nat (q * 2 ^ Suc i)" and rw: "rw = of_nat r"
    using inv by (simp_all only: st divided_down_to_def fst_conv snd_conv q_def r_def m_def n_def)
  have b: "b \<le> 1" by (simp add: b_def)
  have rd: "r < unat d" using d by (simp add: r_def)
  have d128: "unat d < 2 ^ 128" using unsigned_less [of d] by simp
  have r128: "r < 2 ^ 128" using rd d128 by simp
  have n: "n div 2 ^ i = 2 * m + b" unfolding m_def b_def by (rule div_two_power_Suc)
  have shifted: "push_bit 1 rw OR (if i \<ge> 128 then drop_bit (i - 128) hi AND 1 else drop_bit i lo AND 1) = of_nat (2 * r + b)"
    using shift_in_bit [OF b, of rw] by (simp only: dividend_bit [OF i] n_def [symmetric] b_def [symmetric] rw) simp
  have enough: "drop_bit 127 rw \<noteq> 0 \<or> d \<le> of_nat (2 * r + b) \<longleftrightarrow> unat d \<le> 2 * r + b"
  proof (cases "2 ^ 127 \<le> r")
    case True
    then have "(2::nat) ^ 128 \<le> 2 * r + b" by simp
    then show ?thesis using True d128 by (simp add: rw top_bit [OF r128])
  next
    case False
    then have "2 * r + b < 2 ^ 128" using b by simp
    then have "unat (of_nat (2 * r + b) :: u128) = 2 * r + b" by (rule unat_u128_of_nat)
    then show ?thesis using False by (simp only: rw top_bit [OF r128] word_le_nat_alt) simp
  qed
  have minus: "of_nat (2 * r + b) - d = of_nat (2 * r + b - unat d)" if "unat d \<le> 2 * r + b"
    using that by (simp add: of_nat_diff)
  have big: "of_nat (k * 2 ^ j) = (0 :: u128)" if "\<not> j < 128" for k j :: nat
  proof -
    have "(2::nat) ^ 128 dvd k * 2 ^ j" using that by (intro dvd_mult le_imp_power_dvd) simp
    then show ?thesis by (subst word_of_nat_eq_0_iff) simp
  qed
  have quot: "(if i < 128 then qw OR push_bit i 1 else qw) = of_nat ((2 * q + 1) * 2 ^ i)"
  proof (cases "i < 128")
    case True then show ?thesis by (simp only: qw if_True set_quotient_bit)
  next
    case False then show ?thesis using big [of "Suc i" q] big [of i "2 * q + 1"] by (simp only: qw if_False) auto
  qed
  have keep: "qw = of_nat (2 * q * 2 ^ i)" by (simp add: qw mult.commute mult.left_commute)
  show ?thesis
    unfolding divided_down_to_def n_def [symmetric] n quotient_bit [OF d b] q_def [symmetric] r_def [symmetric]
    by (simp only: long_division_step_def st Let_def prod.case shifted enough quot minus if_distrib [of fst] if_distrib [of snd] fst_conv snd_conv
        if_cancel add_0_right keep [symmetric] split: if_splits) (auto simp: quot minus keep)
qed

lemma divided_fold:
  assumes "0 < unat d" "n \<le> 256" "divided_down_to (dividend hi lo) (unat d) n st"
  shows "divided_down_to (dividend hi lo) (unat d) 0 (foldl (long_division_step hi lo d) st (rev [0..<n]))"
  using assms(2,3)
proof (induction n arbitrary: st)
  case (Suc n)
  then show ?case using divided_step [OF assms(1), of hi lo n st] by simp
qed simp

lemma dividend_less: "dividend hi lo < 2 ^ 256"
proof -
  have "unat hi \<le> 2 ^ 128 - 1" "unat lo \<le> 2 ^ 128 - 1" using unat_bound128 [of hi] unat_bound128 [of lo] by simp_all
  then have "dividend hi lo \<le> (2 ^ 128 - 1) * 2 ^ 128 + (2 ^ 128 - 1)"
    unfolding dividend_def by (intro add_mono mult_right_mono) simp_all
  then show ?thesis by simp
qed

lemma div_u256_exact:
  assumes "d \<noteq> 0"
  shows "div_u256_by_u128 hi lo d = of_nat (dividend hi lo div unat d)"
proof (cases "hi = 0")
  case True
  then show ?thesis by (simp add: div_u256_by_u128_def dividend_def word_arith_nat_div)
next
  case False
  have "0 < unat d" using assms by (simp add: unat_gt_0)
  moreover have "divided_down_to (dividend hi lo) (unat d) 256 (0, 0)"
    using dividend_less [of hi lo] by (simp add: divided_down_to_def)
  ultimately have "divided_down_to (dividend hi lo) (unat d) 0 (foldl (long_division_step hi lo d) (0, 0) (rev [0..<256]))"
    using divided_fold [of d 256 hi lo "(0, 0)"] by blast
  then show ?thesis using False by (simp only: div_u256_by_u128_def divided_down_to_def if_False) simp
qed

lemma wide_product_nat:
  fixes a b :: nat
  assumes "a < 2 ^ 128" "b < 2 ^ 128"
  defines "B \<equiv> 2 ^ 64 :: nat"
  defines "al \<equiv> a mod B" and "ah \<equiv> a div B" and "bl \<equiv> b mod B" and "bh \<equiv> b div B"
  defines "mid \<equiv> al * bl div B + al * bh mod B + ah * bl mod B"
  shows "a * b = (ah * bh + al * bh div B + ah * bl div B + mid div B) * 2 ^ 128 + (al * bl mod B + mid mod B * B)"
proof -
  have B2: "(2::nat) ^ 128 = B * B" by (simp add: B_def)
  have a: "a = ah * B + al" and b: "b = bh * B + bl" by (simp_all add: ah_def al_def bh_def bl_def)
  have s: "x = x div B * B + x mod B" for x :: nat by simp
  have "a * b = ah * bh * B * B + (al * bh + ah * bl) * B + al * bl" unfolding a b by (simp add: algebra_simps)
  also have "al * bl = al * bl div B * B + al * bl mod B" by (rule s)
  also have "(al * bh + ah * bl) = (al * bh div B + ah * bl div B) * B + (al * bh mod B + ah * bl mod B)"
    using s [of "al * bh"] s [of "ah * bl"] by (simp add: algebra_simps)
  finally have "a * b = (ah * bh + al * bh div B + ah * bl div B) * (B * B) + mid * B + al * bl mod B"
    unfolding mid_def by (simp only: algebra_simps) 
  also have "mid * B = mid div B * (B * B) + mid mod B * B" using s [of mid] by (metis add_mult_distrib mult.assoc)
  finally show ?thesis unfolding B2 by (simp only: algebra_simps)
qed

lemma and_mask64: "x AND 0xFFFFFFFFFFFFFFFF = of_nat (unat x mod 2 ^ 64)" for x :: u128
proof -
  have "x AND 0xFFFFFFFFFFFFFFFF = take_bit 64 x" by (simp add: take_bit_eq_mask mask_eq_exp_minus_1)
  also have "\<dots> = of_nat (unat (take_bit 64 x))" by simp
  also have "unat (take_bit 64 x) = unat x mod 2 ^ 64" by (subst unsigned_take_bit_eq) (rule take_bit_eq_mod)
  finally show ?thesis .
qed

lemma shr64: "drop_bit 64 x = of_nat (unat x div 2 ^ 64)" for x :: u128
  by (metis unat_shr word_of_nat_eq_iff of_nat_unat ucast_id)

lemma or_halves:
  assumes "l < 2 ^ 64"
  shows "(of_nat l :: u128) OR push_bit 64 (of_nat h) = of_nat (l + h * 2 ^ 64)"
proof -
  have "(of_nat l :: u128) = take_bit 64 (of_nat l)"
    using assms by (metis take_bit_nat_eq_self take_bit_of_nat)
  then have "bit (of_nat l :: u128) n \<Longrightarrow> n < 64" for n by (metis bit_take_bit_iff)
  then have "(of_nat l :: u128) AND push_bit 64 (of_nat h) = 0"
    by (intro bit_word_eqI) (auto simp: bit_and_iff bit_push_bit_iff dest: leD simp del: push_bit_of_nat)
  then have "(of_nat l :: u128) OR push_bit 64 (of_nat h) = of_nat l + push_bit 64 (of_nat h)"
    by (metis add.right_neutral word_plus_and_or add.commute)
  then show ?thesis by (simp add: push_bit_eq_mult)
qed

lemma half_product: "x * y < 2 ^ 128" if "x < 2 ^ 64" "y < 2 ^ 64" for x y :: nat
proof -
  have "x * y < 2 ^ 64 * 2 ^ 64" by (rule mult_strict_mono') (use that in auto)
  then show ?thesis by simp
qed

text \<open>The two words of the wide product.\<close>

lemma muldiv_wide:
  assumes "c \<noteq> 0"
  shows "muldiv a b c = of_nat (unat a * unat b div unat c)"
proof (cases "unat a * unat b < 2 ^ 128")
  case True
  then have "unat (a * b) = unat a * unat b" by (simp add: unat_mult_exact)
  then show ?thesis using True assms by (simp add: muldiv_def word_arith_nat_div)
next
  case False
  let ?B = "2 ^ 64 :: nat"
  define al ah bl bh where "al = unat a mod ?B" and "ah = unat a div ?B" and "bl = unat b mod ?B" and "bh = unat b div ?B"
  define mid where "mid = al * bl div ?B + al * bh mod ?B + ah * bl mod ?B"
  define H L where "H = ah * bh + al * bh div ?B + ah * bl div ?B + mid div ?B" and "L = al * bl mod ?B + mid mod ?B * ?B"
  have small: "al < ?B" "bl < ?B" "ah < ?B" "bh < ?B"
    using unat_bound128 [of a] unat_bound128 [of b]
    by (simp_all add: al_def ah_def bl_def bh_def less_mult_imp_div_less)
  have prod: "unat a * unat b = H * 2 ^ 128 + L"
    unfolding H_def L_def mid_def al_def ah_def bl_def bh_def
    by (rule wide_product_nat [OF unat_bound128 unat_bound128])
  have words: "a AND 0xFFFFFFFFFFFFFFFF = of_nat al" "drop_bit 64 a = of_nat ah" "b AND 0xFFFFFFFFFFFFFFFF = of_nat bl" "drop_bit 64 b = of_nat bh"
    by (simp_all only: and_mask64 shr64 al_def ah_def bl_def bh_def)
  have exact: "unat (of_nat x * of_nat y :: u128) = x * y" if "x < ?B" "y < ?B" for x y
    by (metis half_product of_nat_mult that unat_u128_of_nat)
  have "al * bl div ?B < ?B" using half_product [of al bl] small by (simp add: less_mult_imp_div_less)
  moreover have "al * bh mod ?B < ?B" "ah * bl mod ?B < ?B" by simp_all
  ultimately have "mid < 3 * ?B" unfolding mid_def by linarith
  then have m: "unat (of_nat mid :: u128) = mid" by (intro unat_u128_of_nat) simp
  have L: "L < 2 ^ 128"
  proof -
    have "L \<le> (?B - 1) + (?B - 1) * ?B" unfolding L_def by (intro add_mono mult_right_mono) (simp_all add: less_Suc_eq_le [symmetric])
    then show ?thesis by simp
  qed
  have H: "H < 2 ^ 128"
  proof (rule ccontr)
    assume "\<not> H < 2 ^ 128"
    then have "(2::nat) ^ 128 * 2 ^ 128 \<le> unat a * unat b" unfolding prod by (intro trans_le_add1 mult_right_mono) simp_all
    moreover have "unat a * unat b < 2 ^ 128 * 2 ^ 128" by (intro mult_strict_mono' unat_bound128 le0)
    ultimately show False by simp
  qed
  have "muldiv a b c = div_u256_by_u128 (of_nat H) (of_nat L) c"
  proof -
    note ex = exact [OF small(1) small(2)] exact [OF small(1) small(4)] exact [OF small(3) small(2)]
    have "muldiv a b c = div_u256_by_u128
        (of_nat ah * of_nat bh + of_nat (al * bh div ?B) + of_nat (ah * bl div ?B) + of_nat (mid div ?B))
        (of_nat (al * bl mod ?B) OR push_bit 64 (of_nat (mid mod ?B))) c"
      using False assms
      by (simp only: muldiv_def Let_def words if_False)
        (simp only: and_mask64 shr64 ex of_nat_add [symmetric] mid_def [symmetric] m)
    moreover have "of_nat (al * bl mod ?B) OR push_bit 64 (of_nat (mid mod ?B)) = (of_nat L :: u128)"
      unfolding L_def by (rule or_halves) simp
    ultimately show ?thesis by (simp only: H_def of_nat_add of_nat_mult)
  qed
  also have "\<dots> = of_nat (dividend (of_nat H) (of_nat L) div unat c)" by (rule div_u256_exact [OF assms])
  also have "dividend (of_nat H) (of_nat L) = unat a * unat b"
    by (simp only: dividend_def prod unat_u128_of_nat [OF H] unat_u128_of_nat [OF L])
  finally show ?thesis .
qed

lemma sum_of_floors: "sum_list (map (\<lambda>x. a * f x div c) xs) \<le> a * sum_list (map f xs) div c" for a c :: nat
proof (induction xs)
  case (Cons x xs)
  have "a * f x div c + a * sum_list (map f xs) div c \<le> (a * f x + a * sum_list (map f xs)) div c"
    by (subst div_add1_eq) simp
  then show ?case using Cons.IH by (simp add: add_mult_distrib2)
qed simp

text \<open>A rule that gives out the floor of a proportional share never gives out more than there is.\<close>

locale floor_share =
  fixes share :: "u128 \<Rightarrow> u128 \<Rightarrow> u128 \<Rightarrow> u128"
  assumes share_floor: "c \<noteq> 0 \<Longrightarrow> unat b \<le> unat c \<Longrightarrow> unat (share a b c) = unat a * unat b div unat c"
    and share_of_none: "share a b 0 = 0"
begin

lemma share_le: "unat b \<le> unat c \<Longrightarrow> share a b c \<le> a"
proof (cases "c = 0")
  case False
  assume "unat b \<le> unat c"
  then have "unat a * unat b div unat c \<le> unat a * unat c div unat c" by (intro div_le_mono mult_left_mono) simp_all
  then show ?thesis using False \<open>unat b \<le> unat c\<close> by (simp add: word_le_nat_alt share_floor unat_gt_0)
qed (simp add: share_of_none)

lemma shares_within:
  assumes "sum_list (map unat ws) \<le> unat c"
  shows "sum_list (map (\<lambda>w. unat (share a w c)) ws) \<le> unat a"
proof (cases "c = 0")
  case True
  then show ?thesis by (simp add: share_of_none)
next
  case False
  have each: "unat w \<le> unat c" if "w \<in> set ws" for w
  proof -
    have "unat w \<le> sum_list (map unat ws)" by (rule member_le_sum_list) (use that in simp_all)
    then show ?thesis using assms by simp
  qed
  have "sum_list (map (\<lambda>w. unat (share a w c)) ws) = sum_list (map (\<lambda>w. unat a * unat w div unat c) ws)"
    by (rule arg_cong [of _ _ sum_list], rule map_cong [OF refl]) (simp add: share_floor [OF False each])
  also have "\<dots> \<le> unat a * sum_list (map unat ws) div unat c"
    by (rule sum_of_floors)
  also have "\<dots> \<le> unat a * unat c div unat c" by (intro div_le_mono mult_left_mono assms) simp
  finally show ?thesis using False by (simp add: unat_gt_0)
qed

end

interpretation fs: floor_share muldiv
proof unfold_locales
  fix a b c :: u128
  assume c: "c \<noteq> 0" and bc: "unat b \<le> unat c"
  have "unat a * unat b div unat c \<le> unat a * unat c div unat c" by (intro div_le_mono mult_left_mono bc) simp
  then have "unat a * unat b div unat c < 2 ^ 128" using c unat_bound128 [of a] by (simp add: unat_gt_0)
  then show "unat (muldiv a b c) = unat a * unat b div unat c" by (simp only: muldiv_wide [OF c] unat_u128_of_nat)
qed (simp add: muldiv_def)

end
