(* ===== verification/Vault_Merkle.thy ===== *)
theory Vault_Merkle
  imports Vault_Rewards
begin

text \<open>
  The Merkle tree of the claims and its proofs: a proof of the tree verifies, and only the leaves of the tree
  have proofs, as long as no two of the hashed strings collide.
\<close>

section \<open>Layers of a tree with a commutative node\<close>

definition sibling :: "nat \<Rightarrow> nat" where
  "sibling j = (if even j then j + 1 else j - 1)"

locale merkle_layers =
  fixes combine :: "bytes \<Rightarrow> bytes \<Rightarrow> bytes"
    and above :: "bytes list \<Rightarrow> bytes list"
  assumes combine_commute: "combine x y = combine y x"
    and above_pair: "above (x # y # zs) = combine x y # above zs"
    and above_single: "above [x] = [x]"
begin

lemma above_nth:
  "j < length xs \<Longrightarrow> above xs ! (j div 2) = (if sibling j < length xs then combine (xs ! j) (xs ! sibling j) else xs ! j)"
proof (induction "length xs" arbitrary: xs j rule: less_induct)
  case less
  consider (single) x where "xs = [x]" | (pair) x y zs where "xs = x # y # zs"
    using less.prems by (metis list.exhaust list.size(3) not_less_zero)
  then show ?case
  proof cases
    case single
    then show ?thesis using less.prems by (simp add: above_single sibling_def)
  next
    case pair
    show ?thesis
    proof (cases "j < 2")
      case True
      then have "j = 0 \<or> j = 1" by linarith
      then show ?thesis by (auto simp: pair sibling_def above_pair combine_commute)
    next
      case False
      then obtain k where k: "j = Suc (Suc k)" by (metis add_2_eq_Suc le_Suc_ex not_less)
      then have "k < length zs" using less.prems pair by simp
      moreover have "length zs < length xs" using pair by simp
      ultimately show ?thesis using less.hyps [of zs k]
        by (auto simp: k pair sibling_def above_pair nth_Cons split: nat.splits)
    qed
  qed
qed

lemma climb_one:
  assumes "j < length xs"
  shows "foldl combine (xs ! j) (if sibling j < length xs then [xs ! sibling j] else []) = above xs ! (j div 2)"
  by (simp add: above_nth [OF assms])

end

lemma sorted_pair_commute: "sorted_pair sha x y = sorted_pair sha y x"
  by (auto simp: sorted_pair_def)

interpretation ml: merkle_layers "sorted_pair sha" "next_layer sha" for sha
  by unfold_locales (simp_all add: sorted_pair_commute)

section \<open>Proofs of the tree verify\<close>

lemma verify_folds: "verify_sha256_proof sha ps r leaf \<longleftrightarrow> foldl (sorted_pair sha) leaf ps = r"
proof -
  have "(\<lambda>computed p. if computed \<le> p then sha (computed @ p) else sha (p @ computed)) = sorted_pair sha"
    by (auto simp: fun_eq_iff sorted_pair_def hash_pair_def)
  then show ?thesis by (simp add: verify_sha256_proof_def)
qed

lemma tree_layers_ne [simp]: "tree_layers sha xs \<noteq> []"
  by (subst tree_layers.simps) simp

lemma proof_loop_Cons:
  "proof_loop (layer # layers) j = (if sibling j < length layer then [layer ! sibling j] else []) @ proof_loop layers (j div 2)"
  by (simp add: sibling_def Let_def)

lemma proof_reaches_root:
  "j < length xs \<Longrightarrow> foldl (sorted_pair sha) (xs ! j) (generate_proof (tree_layers sha xs) j) = hd (last (tree_layers sha xs))"
proof (induction sha xs arbitrary: j rule: tree_layers.induct)
  case (1 sha xs)
  show ?case
  proof (cases "length xs > 1")
    case True
    have layers: "tree_layers sha xs = xs # tree_layers sha (next_layer sha xs)"
      using True by (subst tree_layers.simps) simp
    have j: "j div 2 < length (next_layer sha xs)" using 1(2) by auto
    have "generate_proof (tree_layers sha xs) j =
        (if sibling j < length xs then [xs ! sibling j] else []) @ generate_proof (tree_layers sha (next_layer sha xs)) (j div 2)"
      by (simp add: layers generate_proof_def proof_loop_Cons del: proof_loop.simps)
    then show ?thesis using 1(1) [OF True j] ml.climb_one [OF 1(2), of sha] by (simp only: foldl_append layers last_ConsR tree_layers_ne not_False_eq_True)
  next
    case False
    then have "tree_layers sha xs = [xs]" by (subst tree_layers.simps) simp
    then show ?thesis using False 1(2) by (cases xs) (auto simp: generate_proof_def)
  qed
qed

section \<open>Only the leaves of the tree have proofs\<close>

definition sorted_cat :: "bytes \<Rightarrow> bytes \<Rightarrow> bytes" where
  "sorted_cat x y = (if x \<le> y then x @ y else y @ x)"

lemma sorted_pair_cat: "sorted_pair sha x y = sha (sorted_cat x y)"
  by (simp add: sorted_pair_def sorted_cat_def hash_pair_def)

fun pair_inputs :: "bytes list \<Rightarrow> bytes list" where
  "pair_inputs (x # y # zs) = sorted_cat x y # pair_inputs zs"
| "pair_inputs xs = []"

definition tree_inputs :: "(bytes \<Rightarrow> bytes) \<Rightarrow> bytes list \<Rightarrow> bytes set" where
  "tree_inputs sha xs = (\<Union>layer \<in> set (tree_layers sha xs). set (pair_inputs layer))"

definition tree_nodes :: "(bytes \<Rightarrow> bytes) \<Rightarrow> bytes list \<Rightarrow> bytes set" where
  "tree_nodes sha xs = (\<Union>layer \<in> set (tree_layers sha xs). set layer)"

fun proof_inputs :: "(bytes \<Rightarrow> bytes) \<Rightarrow> bytes \<Rightarrow> bytes list \<Rightarrow> bytes list" where
  "proof_inputs sha c [] = []"
| "proof_inputs sha c (p # ps) = sorted_cat c p # proof_inputs sha (sorted_pair sha c p) ps"

lemma proof_inputs_snoc: "proof_inputs sha c (ps @ [p]) = proof_inputs sha c ps @ [sorted_cat (foldl (sorted_pair sha) c ps) p]"
  by (induction ps arbitrary: c) auto

lemma next_layer_cases:
  "x \<in> set (next_layer sha xs) \<Longrightarrow> x \<in> set xs \<or> (\<exists>y\<in>set xs. \<exists>z\<in>set xs. x = sha (sorted_cat y z) \<and> sorted_cat y z \<in> set (pair_inputs xs))"
  by (induction sha xs rule: next_layer.induct) (auto simp: sorted_pair_cat)

lemma tree_node_cases:
  "x \<in> tree_nodes sha xs \<Longrightarrow>
   x \<in> set xs \<or> (\<exists>y\<in>tree_nodes sha xs. \<exists>z\<in>tree_nodes sha xs. x = sha (sorted_cat y z) \<and> sorted_cat y z \<in> tree_inputs sha xs)"
proof (induction sha xs rule: tree_layers.induct)
  case (1 sha xs)
  show ?case
  proof (cases "length xs > 1")
    case True
    let ?n = "next_layer sha xs"
    have layers: "tree_layers sha xs = xs # tree_layers sha ?n" using True by (subst tree_layers.simps) simp
    then have nodes: "tree_nodes sha xs = set xs \<union> tree_nodes sha ?n" and ins: "tree_inputs sha xs = set (pair_inputs xs) \<union> tree_inputs sha ?n"
      by (simp_all add: tree_nodes_def tree_inputs_def)
    show ?thesis
    proof (cases "x \<in> tree_nodes sha ?n")
      case True
      from 1(1) [OF \<open>1 < length xs\<close> this] next_layer_cases [of x sha xs]
      show ?thesis unfolding nodes ins by blast
    next
      case False
      then show ?thesis using 1(2) nodes by simp
    qed
  next
    case False
    then have "tree_layers sha xs = [xs]" by (subst tree_layers.simps) simp
    then show ?thesis using 1(2) by (simp add: tree_nodes_def)
  qed
qed

lemma sorted_cat_parts:
  assumes "sorted_cat x p = sorted_cat y z" "length x = 32" "length p = 32" "length y = 32" "length z = 32"
  shows "x = y \<or> x = z"
  using assms by (auto simp: sorted_cat_def split: if_splits)

lemma length_sorted_cat [simp]: "length (sorted_cat x y) = length x + length y"
  by (simp add: sorted_cat_def)

text \<open>A string of 32 bytes and a pair of hashes are never the same string: a leaf is not a node.\<close>

lemma climb_stays_in_tree:
  assumes out: "\<And>x. length (sha x) = 32"
    and inner: "\<And>x. x \<in> set xs \<Longrightarrow> \<exists>i\<in>K. x = sha i \<and> length i = 32"
    and inj: "inj_on sha K" and tree: "tree_inputs sha xs \<subseteq> K"
    and steps: "set (proof_inputs sha c ps) \<subseteq> K" and lens: "\<forall>p\<in>set ps. length p = 32" and c: "length c = 32"
    and reach: "foldl (sorted_pair sha) c ps \<in> tree_nodes sha xs"
  shows "c \<in> tree_nodes sha xs"
  using steps lens reach
proof (induction ps rule: rev_induct)
  case (snoc p ps)
  let ?x = "foldl (sorted_pair sha) c ps"
  have x: "length ?x = 32" using c out by (cases ps rule: rev_cases) (simp_all add: sorted_pair_cat)
  have nodes: "length y = 32" if "y \<in> tree_nodes sha xs" for y
    using tree_node_cases [OF that] inner [of y] out by auto
  have here: "sorted_cat ?x p \<in> K" and p: "length p = 32" using snoc.prems by (simp_all add: proof_inputs_snoc)
  have top: "sha (sorted_cat ?x p) \<in> tree_nodes sha xs" using snoc.prems(3) sorted_pair_cat [of sha ?x p] by simp
  have "?x \<in> tree_nodes sha xs"
    using tree_node_cases [OF top]
  proof (elim disjE bexE conjE)
    assume "sha (sorted_cat ?x p) \<in> set xs"
    then obtain i where i: "i \<in> K" "sha (sorted_cat ?x p) = sha i" "length i = 32" using inner by blast
    then have "sorted_cat ?x p = i" using inj_onD [OF inj i(2) here i(1)] by simp
    then show ?thesis using i(3) x p length_sorted_cat [of ?x p] by simp
  next
    fix y z assume yz: "y \<in> tree_nodes sha xs" "z \<in> tree_nodes sha xs" "sha (sorted_cat ?x p) = sha (sorted_cat y z)" "sorted_cat y z \<in> tree_inputs sha xs"
    then have "sorted_cat ?x p = sorted_cat y z" using inj_onD [OF inj yz(3) here] tree by blast
    then show ?thesis using sorted_cat_parts [OF _ x p nodes [OF yz(1)] nodes [OF yz(2)]] yz(1,2) by auto
  qed
  then show ?case using snoc by (simp add: proof_inputs_snoc)
qed simp

lemma hd_last_in_nodes: "xs \<noteq> [] \<Longrightarrow> hd (last (tree_layers sha xs)) \<in> tree_nodes sha xs"
proof (induction sha xs rule: tree_layers.induct)
  case (1 sha xs)
  show ?case
  proof (cases "length xs > 1")
    case True
    have "next_layer sha xs \<noteq> []" using True by (cases "(sha, xs)" rule: next_layer.cases) simp_all
    moreover have "tree_layers sha xs = xs # tree_layers sha (next_layer sha xs)" using True by (subst tree_layers.simps) simp
    ultimately show ?thesis using 1(1) [OF True] by (simp add: tree_nodes_def)
  next
    case False
    then have "tree_layers sha xs = [xs]" by (subst tree_layers.simps) simp
    then show ?thesis using 1(2) by (simp add: tree_nodes_def)
  qed
qed

lemma verified_is_leaf:
  assumes out: "\<And>x. length (sha x) = 32"
    and inner: "\<And>x. x \<in> set xs \<Longrightarrow> \<exists>i\<in>K. x = sha i \<and> length i = 32"
    and inj: "inj_on sha K" and tree: "tree_inputs sha xs \<subseteq> K"
    and steps: "set (proof_inputs sha (sha i0) ps) \<subseteq> K" and lens: "\<forall>p\<in>set ps. length p = 32"
    and i0: "i0 \<in> K" "length i0 = 32" and ne: "xs \<noteq> []"
    and ok: "verify_sha256_proof sha ps (hd (last (tree_layers sha xs))) (sha i0)"
  shows "sha i0 \<in> set xs"
proof -
  have "foldl (sorted_pair sha) (sha i0) ps \<in> tree_nodes sha xs"
    using ok hd_last_in_nodes [OF ne] by (simp add: verify_folds)
  then have "sha i0 \<in> tree_nodes sha xs"
    using climb_stays_in_tree [OF out inner inj tree steps lens out] by blast
  then show ?thesis
  proof (rule tree_node_cases [THEN disjE])
    assume "\<exists>y\<in>tree_nodes sha xs. \<exists>z\<in>tree_nodes sha xs. sha i0 = sha (sorted_cat y z) \<and> sorted_cat y z \<in> tree_inputs sha xs"
    then obtain y z where yz: "y \<in> tree_nodes sha xs" "z \<in> tree_nodes sha xs" "sha i0 = sha (sorted_cat y z)" "sorted_cat y z \<in> K"
      using tree by blast
    have "length y = 32" "length z = 32"
      using tree_node_cases [OF yz(1)] tree_node_cases [OF yz(2)] inner [of y] inner [of z] out by auto
    moreover have "i0 = sorted_cat y z" by (rule inj_onD [OF inj yz(3) i0(1) yz(4)])
    ultimately show ?thesis using i0(2) by simp
  qed simp
qed

end
