(* ===== verification/Vault_Properties.thy ===== *)
theory Vault_Properties
  imports Vault_Division Vault_Merkle "HOL-Library.Multiset"
begin

text \<open>
  The properties of the reward calculation: exact shares, claims that never exceed the reserve of the
  epoch, and a Merkle tree that proves exactly the claims.
\<close>

section \<open>Shares are exact\<close>

text \<open>
  C21. The multiply-divide is exact. For a divisor that is not zero, \<open>muldiv\<close> returns the floor of the product of
  its two arguments, computed without overflow on 256 bits, over the divisor; only a quotient that does not fit
  in 128 bits is cut to its low 128 bits.
\<close>
theorem muldiv_exact:
  assumes "c \<noteq> 0"
  shows "unat (muldiv a b c) = (unat a * unat b div unat c) mod 2 ^ 128"
  by (simp only: muldiv_wide [OF assms] unat_of_nat) simp

theorem muldiv_exact_witness:
  "unat (muldiv (2 ^ 127 + 1) (2 ^ 100) (2 ^ 101)) = (unat (2 ^ 127 + 1 :: u128) * unat (2 ^ 100 :: u128) div unat (2 ^ 101 :: u128)) mod 2 ^ 128"
  by (rule muldiv_exact) simp

section \<open>Claims are backed\<close>

lemma unat_sum_list_exact:
  "sum_list (map (unat \<circ> f) xs) < 2 ^ 128 \<Longrightarrow> unat (sum_list (map f xs) :: u128) = sum_list (map (unat \<circ> f) xs)"
proof (induction xs)
  case (Cons x xs)
  then show ?case by (simp add: unat_add_exact)
qed simp

lemma muldiv_fits: "unat (muldiv a b c) = unat a * unat b div unat c" if "c \<noteq> 0" "unat a * unat b div unat c < 2 ^ 128"
  by (simp only: muldiv_wide [OF that(1)] unat_u128_of_nat [OF that(2)])

definition scores_bounded :: "scored_validator list \<Rightarrow> bool" where
  "scores_bounded vs \<longleftrightarrow> (\<forall>v\<in>set vs. sv_performance_score v \<le> 10000)"

lemma collect_bounded:
  assumes "\<And>k x. hm_get m k = Some x \<Longrightarrow> P x" and "\<And>v. v \<in> set vs \<Longrightarrow> P (g v)"
    and "hm_get (foldl (\<lambda>m v. hm_insert (f v) (g v) m) m vs) k = Some x"
  shows "P x"
  using assms
proof (induction vs arbitrary: m)
  case Nil
  show ?case by (rule Nil.prems(1) [of k]) (use Nil.prems(3) in simp)
next
  case (Cons v vs)
  show ?case
  proof (rule Cons.IH)
    show "P y" if "hm_get (hm_insert (f v) (g v) m) j = Some y" for j y
      using that Cons.prems(1) [of j y] Cons.prems(2) [of v] by (cases "j = f v") simp_all
    show "P (g u)" if "u \<in> set vs" for u by (rule Cons.prems(2)) (use that in simp)
    show "hm_get (foldl (\<lambda>m v. hm_insert (f v) (g v) m) (hm_insert (f v) (g v) m) vs) k = Some x" using Cons.prems(3) by simp
  qed
qed

lemma validator_scores_bounded:
  assumes "scores_bounded vs" "hm_get (validator_scores vs) k = Some x"
  shows "x \<le> 10000"
  by (rule collect_bounded [of "[]" "\<lambda>x. x \<le> 10000" vs sv_performance_score sv_address k x])
    (use assms in \<open>simp_all add: scores_bounded_def validator_scores_def\<close>)

definition weight_of :: "scored_validator list \<Rightarrow> staker_stake \<Rightarrow> nat" where
  "weight_of vs s =
     unat (ss_shares s) * (10000 + unat (case hm_get (validator_scores vs) (ss_delegated_to s) of Some x \<Rightarrow> x | None \<Rightarrow> 0) div 10) div 10000"

lemma staker_weight_nat:
  assumes "scores_bounded vs" "unat (ss_shares s) * 11 < 10 * 2 ^ 128"
  shows "unat (staker_weight (validator_scores vs) s) = weight_of vs s"
    and "unat (ss_shares s) \<le> weight_of vs s" and "10 * weight_of vs s \<le> 11 * unat (ss_shares s)"
proof -
  define x where "x = (case hm_get (validator_scores vs) (ss_delegated_to s) of Some x \<Rightarrow> x | None \<Rightarrow> 0)"
  have x: "unat x \<le> 10000"
    using validator_scores_bounded [OF assms(1)] by (auto simp: x_def word_le_nat_alt split: option.splits)
  have ux: "unat (ucast x :: u128) = unat x" by (simp add: unsigned_ucast_eq take_bit_nat_eq_self_iff order_less_trans [OF unsigned_less])
  have score: "unat (muldiv (ucast x) BONUS_BPS (ucast BPS_DENOMINATOR)) = unat x div 10"
    using muldiv_fits [of "ucast BPS_DENOMINATOR" "ucast x" BONUS_BPS] x by (simp add: BPS_DENOMINATOR_def BONUS_BPS_def ux)
  have factor: "unat (ucast BPS_DENOMINATOR + muldiv (ucast x) BONUS_BPS (ucast BPS_DENOMINATOR) :: u128) = 10000 + unat x div 10"
    using x score by (subst unat_add_exact) (simp_all add: BPS_DENOMINATOR_def)
  have w: "weight_of vs s = unat (ss_shares s) * (10000 + unat x div 10) div 10000" by (simp add: weight_of_def x_def)
  have le: "unat (ss_shares s) * (10000 + unat x div 10) \<le> unat (ss_shares s) * 11000"
    using x by (intro mult_left_mono) simp_all
  show upper: "10 * weight_of vs s \<le> 11 * unat (ss_shares s)" using div_le_mono [OF le, of 1000] unfolding w by linarith
  have "unat (ss_shares s) * 10000 \<le> unat (ss_shares s) * (10000 + unat x div 10)" by (intro mult_left_mono) simp_all
  from div_le_mono [OF this, of 10000] show "unat (ss_shares s) \<le> weight_of vs s" by (simp add: w)
  have "weight_of vs s < 2 ^ 128" using upper assms(2) by simp
  then show "unat (staker_weight (validator_scores vs) s) = weight_of vs s"
    using muldiv_fits [of "ucast BPS_DENOMINATOR" "ss_shares s" "ucast BPS_DENOMINATOR + muldiv (ucast x) BONUS_BPS (ucast BPS_DENOMINATOR)"]
    unfolding staker_weight_def x_def [symmetric] Let_def factor w by (simp add: BPS_DENOMINATOR_def)
qed


lemma sum_list_sort_key: "sum_list (map f (sort_key k xs)) = sum_list (map f xs)" for f :: "'a \<Rightarrow> 'b::comm_monoid_add"
  by (metis mset_map mset_sort sum_mset_sum_list)

lemma dust_bounded:
  fixes D :: nat
  assumes "0 < sum_list (map f xs)"
  shows "D < sum_list (map (\<lambda>x. D * f x div sum_list (map f xs)) xs) + length xs"
proof -
  let ?W = "sum_list (map f xs)"
  have part: "D * sum_list (map f ys) \<le> ?W * (sum_list (map (\<lambda>x. D * f x div ?W) ys) + length ys)
      \<and> (ys \<noteq> [] \<longrightarrow> D * sum_list (map f ys) < ?W * (sum_list (map (\<lambda>x. D * f x div ?W) ys) + length ys))" for ys
  proof (induction ys)
    case (Cons y ys)
    have "D * f y < ?W * (D * f y div ?W) + ?W" 
      using dividend_less_div_times [OF assms, of "D * f y"] mult.commute [of ?W "D * f y div ?W"] by linarith
    moreover have "D * sum_list (map f ys) \<le> ?W * (sum_list (map (\<lambda>x. D * f x div ?W) ys) + length ys)" using Cons by blast
    ultimately show ?case by (simp add: algebra_simps)
  qed simp
  have "xs \<noteq> []" using assms by auto
  then have "D * ?W < ?W * (sum_list (map (\<lambda>x. D * f x div ?W) xs) + length xs)" using part by blast
  then show ?thesis by (metis mult.commute mult_less_cancel1)
qed

lemma first_duplicate_None: "first_duplicate seen ss = None \<longleftrightarrow> distinct (map ss_address ss) \<and> set seen \<inter> ss_address ` set ss = {}"
  by (induction seen ss rule: first_duplicate.induct) auto

lemma validator_scores_dom: "hm_get (validator_scores vs) k = None \<longleftrightarrow> k \<notin> sv_address ` set vs"
proof -
  have "hm_get (foldl (\<lambda>m v. hm_insert (sv_address v) (sv_performance_score v) m) m vs) k = None
      \<longleftrightarrow> k \<notin> sv_address ` set vs \<and> hm_get m k = None" for m
    by (induction vs arbitrary: m) auto
  then show ?thesis by (simp add: validator_scores_def)
qed

lemma check_delegations_Ok:
  "check_delegations (validator_scores vs) ss = Ok () \<longleftrightarrow> (\<forall>s\<in>set ss. ss_delegated_to s \<noteq> [] \<and> ss_delegated_to s \<in> sv_address ` set vs)"
  by (induction ss) (auto simp: validator_scores_dom)

definition fair_distribution :: "calculate_rewards_request \<Rightarrow> calculate_rewards_response \<Rightarrow> bool" where
  "fair_distribution req resp \<longleftrightarrow>
     (let stakers = rq_staker_stakes req; fee = unat (rq_total_rewards req) * 500 div 10000;
          reserve = unat (rq_total_rewards req) - fee; weight = weight_of (rq_validators req);
          claims = map (\<lambda>a. unat (ra_total_reward a)) (rr_allocations resp)
      in unat (rr_protocol_fee resp) = fee \<and> unat (rr_total_distributed resp) = sum_list claims \<and> sum_list claims \<le> reserve
         \<and> sorted (map ra_address (rr_allocations resp))
         \<and> (if sum_list (map (unat \<circ> ss_shares) stakers) = 0 then rr_allocations resp = []
            else mset (map (\<lambda>a. (ra_address a, unat (ra_total_reward a))) (rr_allocations resp))
                   = mset (map (\<lambda>s. (ss_address s, reserve * weight s div sum_list (map weight stakers))) stakers)
                 \<and> reserve < sum_list claims + length stakers))"

lemma fee_exact:
  "unat (muldiv t (ucast PROTOCOL_FEE_BPS) (ucast BPS_DENOMINATOR)) = unat t * 500 div 10000"
  using fs.share_floor [of "ucast BPS_DENOMINATOR" "ucast PROTOCOL_FEE_BPS" t] by (simp add: PROTOCOL_FEE_BPS_def BPS_DENOMINATOR_def)

lemma reserve_exact:
  "unat (t - muldiv t (ucast PROTOCOL_FEE_BPS) (ucast BPS_DENOMINATOR)) = unat t - unat t * 500 div 10000"
proof -
  have "muldiv t (ucast PROTOCOL_FEE_BPS) (ucast BPS_DENOMINATOR) \<le> t"
    by (rule fs.share_le) (simp add: PROTOCOL_FEE_BPS_def BPS_DENOMINATOR_def)
  then show ?thesis by (simp add: unat_sub fee_exact)
qed

definition allocations_of :: "calculate_rewards_request \<Rightarrow> reward_allocation list" where
  "allocations_of req =
     (let stakers = rq_staker_stakes req; weights = map (staker_weight (validator_scores (rq_validators req))) stakers
      in sort_key ra_address
          (map (allocation_of req (rq_total_rewards req - muldiv (rq_total_rewards req) (ucast PROTOCOL_FEE_BPS) (ucast BPS_DENOMINATOR))
                 (sum_list (map ss_shares stakers)) (sum_list weights)) (zip stakers weights)))"

lemma zip_map_right: "map f (zip xs (map g xs)) = map (\<lambda>x. f (x, g x)) xs"
  by (induction xs) auto

lemma allocations_fair:
  assumes b: "scores_bounded (rq_validators req)" and s: "11 * sum_list (map (unat \<circ> ss_shares) (rq_staker_stakes req)) < 10 * 2 ^ 128"
    and pos: "0 < sum_list (map (unat \<circ> ss_shares) (rq_staker_stakes req))"
  defines "reserve \<equiv> unat (rq_total_rewards req) - unat (rq_total_rewards req) * 500 div 10000"
    and "weight \<equiv> weight_of (rq_validators req)" and "claims \<equiv> map (\<lambda>a. unat (ra_total_reward a)) (allocations_of req)"
  shows "mset (map (\<lambda>a. (ra_address a, unat (ra_total_reward a))) (allocations_of req))
      = mset (map (\<lambda>s. (ss_address s, reserve * weight s div sum_list (map weight (rq_staker_stakes req)))) (rq_staker_stakes req))"
    and "sum_list claims \<le> reserve" and "reserve < sum_list claims + length (rq_staker_stakes req)"
    and "unat (sum_list (map ra_total_reward (allocations_of req))) = sum_list claims"
proof -
  let ?ss = "rq_staker_stakes req" and ?w = "staker_weight (validator_scores (rq_validators req))"
  let ?D = "rq_total_rewards req - muldiv (rq_total_rewards req) (ucast PROTOCOL_FEE_BPS) (ucast BPS_DENOMINATOR)"
  have each: "unat (ss_shares x) * 11 < 10 * 2 ^ 128" if "x \<in> set ?ss" for x
  proof -
    have "unat (ss_shares x) \<le> sum_list (map (unat \<circ> ss_shares) ?ss)" by (rule member_le_sum_list) (use that in auto)
    then show ?thesis using s by linarith
  qed
  note w = staker_weight_nat [OF b each]
  have W: "map (unat \<circ> ?w) ?ss = map weight ?ss" using w(1) by (simp add: weight_def)
  have "10 * sum_list (map weight xs) \<le> 11 * sum_list (map (unat \<circ> ss_shares) xs)" if "set xs \<subseteq> set ?ss" for xs
    using that
  proof (induction xs)
    case (Cons x xs)
    then show ?case using w(3) [of x] by (simp add: weight_def)
  qed simp
  then have "10 * sum_list (map weight ?ss) \<le> 11 * sum_list (map (unat \<circ> ss_shares) ?ss)" by blast
  then have "sum_list (map weight ?ss) < 2 ^ 128" using s by linarith
  then have sumw: "unat (sum_list (map ?w ?ss)) = sum_list (map weight ?ss)" using unat_sum_list_exact [of ?w ?ss] by (simp only: W)
  have "sum_list (map (unat \<circ> ss_shares) ?ss) \<le> sum_list (map weight ?ss)" using w(2) by (intro sum_list_mono) (simp add: weight_def)
  then have posw: "0 < sum_list (map weight ?ss)" using pos by linarith
  then have nz: "sum_list (map ?w ?ss) \<noteq> 0" by (metis less_irrefl sumw unsigned_0)
  have claim: "unat (muldiv ?D (?w x) (sum_list (map ?w ?ss))) = reserve * weight x div sum_list (map weight ?ss)" if "x \<in> set ?ss" for x
  proof -
    have "weight x \<le> sum_list (map weight ?ss)" by (rule member_le_sum_list) (use that in auto)
    then show ?thesis using fs.share_floor [OF nz, of "?w x" ?D] w(1) [OF that] by (simp add: sumw weight_def reserve_def reserve_exact)
  qed
  have "mset (map (\<lambda>a. (ra_address a, unat (ra_total_reward a))) (allocations_of req))
      = mset (map (\<lambda>x. (ss_address x, unat (muldiv ?D (?w x) (sum_list (map ?w ?ss))))) ?ss)"
    by (simp add: allocations_of_def Let_def zip_map_right allocation_of_def image_mset.compositionality o_def)
  also have "map (\<lambda>x. (ss_address x, unat (muldiv ?D (?w x) (sum_list (map ?w ?ss))))) ?ss
      = map (\<lambda>s. (ss_address s, reserve * weight s div sum_list (map weight ?ss))) ?ss"
    using claim by (intro map_cong refl) simp
  finally show m: "mset (map (\<lambda>a. (ra_address a, unat (ra_total_reward a))) (allocations_of req))
      = mset (map (\<lambda>s. (ss_address s, reserve * weight s div sum_list (map weight ?ss))) ?ss)" .
  have "mset claims = mset (map (\<lambda>s. reserve * weight s div sum_list (map weight ?ss)) ?ss)"
    using arg_cong [OF m, of "image_mset snd"] by (simp add: claims_def image_mset.compositionality o_def)
  then have c: "sum_list claims = sum_list (map (\<lambda>s. reserve * weight s div sum_list (map weight ?ss)) ?ss)"
    by (metis sum_mset_sum_list)
  show le: "sum_list claims \<le> reserve" using sum_of_floors [of reserve weight "sum_list (map weight ?ss)" ?ss] posw by (simp add: c)
  show "reserve < sum_list claims + length ?ss" using dust_bounded [OF posw, of reserve] by (simp add: c)
  have "reserve < 2 ^ 128" using unat_bound128 [of "rq_total_rewards req"] by (simp add: reserve_def)
  then show "unat (sum_list (map ra_total_reward (allocations_of req))) = sum_list claims"
    using le unat_sum_list_exact [of ra_total_reward "allocations_of req"] by (simp add: claims_def o_def)
qed


lemma calculate_rewards_cases:
  assumes "distinct (map ss_address (rq_staker_stakes req))"
  defines "fee \<equiv> muldiv (rq_total_rewards req) (ucast PROTOCOL_FEE_BPS) (ucast BPS_DENOMINATOR)"
  shows "sum_list (map ss_shares (rq_staker_stakes req)) = 0 \<Longrightarrow>
      \<exists>resp. calculate_rewards sha decode req = Some (Ok resp) \<and> rr_allocations resp = [] \<and> rr_total_distributed resp = 0 \<and> rr_protocol_fee resp = fee"
    and "sum_list (map ss_shares (rq_staker_stakes req)) \<noteq> 0 \<Longrightarrow>
      (\<forall>s\<in>set (rq_staker_stakes req). ss_delegated_to s \<noteq> [] \<and> ss_delegated_to s \<in> sv_address ` set (rq_validators req)) \<Longrightarrow>
      sum_list (map ra_total_reward (allocations_of req)) \<le> rq_total_rewards req - fee \<Longrightarrow>
      \<exists>resp. calculate_rewards sha decode req = Some (Ok resp) \<and> rr_allocations resp = allocations_of req
        \<and> rr_total_distributed resp = sum_list (map ra_total_reward (allocations_of req)) \<and> rr_protocol_fee resp = fee"
proof -
  have nodup: "first_duplicate [] (rq_staker_stakes req) = None" using assms(1) by (simp add: first_duplicate_None)
  show "\<exists>resp. calculate_rewards sha decode req = Some (Ok resp) \<and> rr_allocations resp = [] \<and> rr_total_distributed resp = 0 \<and> rr_protocol_fee resp = fee"
    if "sum_list (map ss_shares (rq_staker_stakes req)) = 0"
    using that by (simp add: calculate_rewards_def nodup Let_def fee_def)
  show "\<exists>resp. calculate_rewards sha decode req = Some (Ok resp) \<and> rr_allocations resp = allocations_of req
        \<and> rr_total_distributed resp = sum_list (map ra_total_reward (allocations_of req)) \<and> rr_protocol_fee resp = fee"
    if nz: "sum_list (map ss_shares (rq_staker_stakes req)) \<noteq> 0"
      and del: "\<forall>s\<in>set (rq_staker_stakes req). ss_delegated_to s \<noteq> [] \<and> ss_delegated_to s \<in> sv_address ` set (rq_validators req)"
      and le: "sum_list (map ra_total_reward (allocations_of req)) \<le> rq_total_rewards req - fee"
  proof -
    have "check_delegations (validator_scores (rq_validators req)) (rq_staker_stakes req) = Ok ()" using del by (simp only: check_delegations_Ok)
    moreover obtain rt ps where "build_merkle_tree sha decode (allocations_of req) (rq_epoch req) = (rt, ps)" by (cases "build_merkle_tree sha decode (allocations_of req) (rq_epoch req)")
    ultimately show ?thesis
      using nz le by (simp add: calculate_rewards_def nodup Let_def fee_def not_less allocations_of_def [unfolded Let_def, symmetric])
  qed
qed

text \<open>
  C11. Claims are backed. With performance scores of at most 10000 and stakes whose weighted sum fits in 128 bits,
  the calculation always returns. It succeeds exactly when no staker is listed twice and, unless there is no stake
  at all, every staker delegates to a validator of the set. The fee is five percent rounded down; each staker has
  one claim, the floor of the reserve times its weighted stake over the sum of the weighted stakes; the
  claims together never exceed the reserve of the epoch, and what is left of it is less than one unit per staker.
\<close>
theorem claims_backed:
  assumes "scores_bounded (rq_validators req)" and "11 * sum_list (map (unat \<circ> ss_shares) (rq_staker_stakes req)) < 10 * 2 ^ 128"
  shows "if distinct (map ss_address (rq_staker_stakes req)) \<and> (sum_list (map (unat \<circ> ss_shares) (rq_staker_stakes req)) = 0
           \<or> (\<forall>s\<in>set (rq_staker_stakes req). ss_delegated_to s \<noteq> [] \<and> ss_delegated_to s \<in> sv_address ` set (rq_validators req)))
         then \<exists>resp. calculate_rewards sha decode req = Some (Ok resp) \<and> fair_distribution req resp
         else \<exists>e. calculate_rewards sha decode req = Some (Err e)"
proof -
  let ?ss = "rq_staker_stakes req"
  let ?del = "\<forall>s\<in>set ?ss. ss_delegated_to s \<noteq> [] \<and> ss_delegated_to s \<in> sv_address ` set (rq_validators req)"
  have "sum_list (map (unat \<circ> ss_shares) ?ss) < 2 ^ 128" using assms(2) by linarith
  then have total: "unat (sum_list (map ss_shares ?ss)) = sum_list (map (unat \<circ> ss_shares) ?ss)" by (rule unat_sum_list_exact)
  consider (dup) "\<not> distinct (map ss_address ?ss)" | (empty) "distinct (map ss_address ?ss)" "sum_list (map (unat \<circ> ss_shares) ?ss) = 0"
    | (bad) "distinct (map ss_address ?ss)" "sum_list (map (unat \<circ> ss_shares) ?ss) \<noteq> 0" "\<not> ?del"
    | (good) "distinct (map ss_address ?ss)" "sum_list (map (unat \<circ> ss_shares) ?ss) \<noteq> 0" ?del by blast
  then show ?thesis
  proof cases
    case dup
    then obtain a where "first_duplicate [] ?ss = Some a" using first_duplicate_None [of "[]" ?ss] by auto
    then show ?thesis using dup by (simp add: calculate_rewards_def)
  next
    case empty
    then have "sum_list (map ss_shares ?ss) = 0" using total by (metis unat_eq_zero)
    from calculate_rewards_cases(1) [OF empty(1) this, of sha decode]
    obtain resp where resp: "calculate_rewards sha decode req = Some (Ok resp)" "rr_allocations resp = []" "rr_total_distributed resp = 0"
        "rr_protocol_fee resp = muldiv (rq_total_rewards req) (ucast PROTOCOL_FEE_BPS) (ucast BPS_DENOMINATOR)" by blast
    have "fair_distribution req resp" unfolding fair_distribution_def Let_def resp fee_exact using empty(2) by simp
    then show ?thesis using empty resp(1) by auto
  next
    case bad
    then have nz: "sum_list (map ss_shares ?ss) \<noteq> 0" using total by (metis unsigned_0)
    have "first_duplicate [] ?ss = None" using bad(1) by (simp add: first_duplicate_None)
    moreover obtain e where "check_delegations (validator_scores (rq_validators req)) ?ss = Err e"
      using bad(3) check_delegations_Ok [of "rq_validators req" ?ss] by (cases "check_delegations (validator_scores (rq_validators req)) ?ss") auto
    ultimately show ?thesis using bad nz by (simp add: calculate_rewards_def Let_def)
  next
    case good
    then have nz: "sum_list (map ss_shares ?ss) \<noteq> 0" using total by (metis unsigned_0)
    have pos: "0 < sum_list (map (unat \<circ> ss_shares) ?ss)" using good(2) by (rule neq0_conv [THEN iffD1])
    note fair = allocations_fair [OF assms pos]
    have "sum_list (map ra_total_reward (allocations_of req))
        \<le> rq_total_rewards req - muldiv (rq_total_rewards req) (ucast PROTOCOL_FEE_BPS) (ucast BPS_DENOMINATOR)"
      using fair(2,4) by (simp add: word_le_nat_alt reserve_exact)
    from calculate_rewards_cases(2) [OF good(1) nz good(3) this, of sha decode]
    obtain resp where resp: "calculate_rewards sha decode req = Some (Ok resp)" "rr_allocations resp = allocations_of req"
        "rr_total_distributed resp = sum_list (map ra_total_reward (allocations_of req))"
        "rr_protocol_fee resp = muldiv (rq_total_rewards req) (ucast PROTOCOL_FEE_BPS) (ucast BPS_DENOMINATOR)" by blast
    have "sorted (map ra_address (allocations_of req))" by (simp add: allocations_of_def Let_def)
    then have "fair_distribution req resp"
      unfolding fair_distribution_def Let_def resp fee_exact if_not_P [OF good(2)] by (intro conjI refl fair)
    then show ?thesis using good resp(1) by auto
  qed
qed


section \<open>The tree proves exactly the claims\<close>

lemma rewards_tree:
  assumes "calculate_rewards sha decode req = Some (Ok resp)" "rr_allocations resp \<noteq> []"
  shows "build_merkle_tree sha decode (rr_allocations resp) (rr_epoch resp) = (rr_merkle_root resp, rr_merkle_proofs resp)"
  using assms by (auto simp: calculate_rewards_def Let_def split: option.splits if_splits result.splits prod.splits)

definition claims_root :: "(bytes \<Rightarrow> bytes) \<Rightarrow> (string \<Rightarrow> bytes option) \<Rightarrow> calculate_rewards_response \<Rightarrow> bytes" where
  "claims_root sha decode resp = hd (last (tree_layers sha (map (claim_leaf sha decode (rr_epoch resp)) (rr_allocations resp))))"

lemma next_layer_Nil_iff: "next_layer sha xs = [] \<longleftrightarrow> xs = []"
  by (cases "(sha, xs)" rule: next_layer.cases) simp_all

lemma last_layer: "xs \<noteq> [] \<Longrightarrow> last (tree_layers sha xs) \<noteq> []"
proof (induction sha xs rule: tree_layers.induct)
  case (1 sha xs)
  then show ?case by (subst tree_layers.simps) (auto simp: next_layer_Nil_iff)
qed

lemma hex_digit_inj: "i = j" if "hex_digit i = hex_digit j" "i < 16" "j < 16"
proof -
  let ?f = "\<lambda>d::nat. if d < 10 then 48 + d else 87 + d"
  have f: "(of_char (hex_digit d) :: nat) = ?f d" if "d < 16" for d using that by (simp add: hex_digit_def)
  have "?f i = ?f j" using f [OF that(2)] f [OF that(3)] unfolding that(1) by (rule trans [OF sym])
  then show ?thesis using that(2,3) by (simp split: if_splits)
qed

lemma hex_encode_inj: "hex_encode xs = hex_encode ys \<Longrightarrow> xs = ys"
proof (induction xs arbitrary: ys)
  case Nil
  then show ?case by (cases ys) (simp_all add: hex_encode_def)
next
  case (Cons x xs)
  then obtain y zs where ys: "ys = y # zs" by (cases ys) (simp_all add: hex_encode_def)
  have eq: "hex_digit (unat x div 16) = hex_digit (unat y div 16)" "hex_digit (unat x mod 16) = hex_digit (unat y mod 16)"
      "hex_encode xs = hex_encode zs"
    using Cons.prems by (simp_all add: ys hex_encode_def)
  have small: "unat z div 16 < 16" for z :: u8 using unat_bound8 [of z] by simp
  have "unat x div 16 = unat y div 16" using hex_digit_inj [OF eq(1) small small] .
  moreover have "unat x mod 16 = unat y mod 16" using hex_digit_inj [OF eq(2)] by simp
  ultimately have "unat x = unat y" by (metis div_mult_mod_eq)
  then show ?case using Cons.IH [OF eq(3)] by (simp add: ys word_unat_eq_iff)
qed

lemma hex_0x_inj: "hex_0x x = hex_0x y \<longleftrightarrow> x = y"
  using hex_encode_inj by (auto simp: hex_0x_def)

lemma merkle_tree_of_claims:
  assumes "calculate_rewards sha decode req = Some (Ok resp)" "rr_allocations resp \<noteq> []"
  defines "leaves \<equiv> map (claim_leaf sha decode (rr_epoch resp)) (rr_allocations resp)"
  shows "rr_merkle_root resp = hex_0x (claims_root sha decode resp)"
    and "rr_merkle_proofs resp =
      map (\<lambda>(idx, a). \<lparr>pe_address = ra_address a, pe_amount = ra_total_reward a,
             pe_proof = map hex_0x (generate_proof (tree_layers sha leaves) idx), pe_leaf = hex_0x (leaves ! idx)\<rparr>)
        (enumerate 0 (rr_allocations resp))"
  using rewards_tree [OF assms(1,2)] last_layer [of leaves sha] assms(2)
  by (auto simp: build_merkle_tree_def Let_def leaves_def claims_root_def hd_conv_nth)

lemma claim_leaf_is_contract_leaf:
  assumes "decode (trim_start_0x (ra_address a)) = Some bs" "length bs \<le> 20"
  shows "claim_leaf sha decode epoch a = contract_claim_leaf sha (be_word bs) (ucast (ra_total_reward a)) (ucast epoch)"
proof -
  have "abi_encode_uint256 (ucast (be_word bs :: evm_address)) = replicate (32 - length bs) 0 @ bs"
  proof -
    have "le_bytes 32 (ucast (be_word bs :: evm_address) :: u256) = le_bytes 20 (be_word bs :: evm_address) @ replicate 12 0"
      using le_bytes_ucast [where m = 20 and n = 12 and w = "be_word bs :: evm_address" and 'b = 256] by simp
    then show ?thesis
      using be_bytes_be_word [where n = 20 and bs = bs and 'a = 160] assms(2)
      by (simp add: abi_encode_uint256_def replicate_add [symmetric] append_assoc [symmetric] del: append_assoc)
  qed
  moreover have "abi_encode_uint256 (ucast (ra_total_reward a)) = replicate 16 0 @ rev (le_bytes 16 (ra_total_reward a))"
    using le_bytes_ucast [where m = 16 and n = 16 and w = "ra_total_reward a" and 'b = 256] by (simp add: abi_encode_uint256_def)
  moreover have "abi_encode_uint256 (ucast epoch) = replicate 24 0 @ rev (le_bytes 8 epoch)"
    using le_bytes_ucast [where m = 8 and n = 24 and w = epoch and 'b = 256] by (simp add: abi_encode_uint256_def)
  ultimately show ?thesis
    using assms by (simp add: contract_claim_leaf_def claim_leaf_def sha256_abi_encode_def abi_encode_claim_def claim_address_bytes_def Let_def)
qed

text \<open>
  C22. Every claim can be paid. For each allocation of a response the response has, at the same place, a proof
  entry with the address and the amount of the allocation, whose proof passes the check of the contract against the root of the
  response and the leaf of the enclave. If the address is hex of at most 20 bytes, that leaf is the one the contract
  hashes, \<open>abi.encode(msg.sender, amount, epoch)\<close> with the account of these bytes, so the proof passes the check of
  \<open>claimRewards\<close> for that account. Other addresses are hashed into the tree too, but nothing is stated of them: no account is theirs.
\<close>
theorem claims_verify:
  assumes "calculate_rewards sha decode req = Some (Ok resp)" and "i < length (rr_allocations resp)"
  shows "\<exists>merkle_root siblings.
      rr_merkle_root resp = hex_0x merkle_root
      \<and> rr_merkle_proofs resp ! i = \<lparr>pe_address = ra_address (rr_allocations resp ! i), pe_amount = ra_total_reward (rr_allocations resp ! i),
          pe_proof = map hex_0x siblings, pe_leaf = hex_0x (claim_leaf sha decode (rr_epoch resp) (rr_allocations resp ! i))\<rparr>
      \<and> length (rr_merkle_proofs resp) = length (rr_allocations resp)
      \<and> verify_sha256_proof sha siblings merkle_root (claim_leaf sha decode (rr_epoch resp) (rr_allocations resp ! i))
      \<and> (\<forall>bs. decode (trim_start_0x (ra_address (rr_allocations resp ! i))) = Some bs \<and> length bs \<le> 20 \<longrightarrow>
           verify_sha256_proof sha siblings merkle_root
             (contract_claim_leaf sha (be_word bs) (ucast (ra_total_reward (rr_allocations resp ! i))) (ucast (rr_epoch resp))))"
proof -
  let ?leaves = "map (claim_leaf sha decode (rr_epoch resp)) (rr_allocations resp)"
  have ne: "rr_allocations resp \<noteq> []" using assms(2) by auto
  note tree = merkle_tree_of_claims [OF assms(1) ne]
  have "verify_sha256_proof sha (generate_proof (tree_layers sha ?leaves) i) (claims_root sha decode resp) (?leaves ! i)"
    using proof_reaches_root [of i ?leaves sha] assms(2) by (simp add: verify_folds claims_root_def)
  then show ?thesis using tree assms(2)
    by (intro exI [of _ "claims_root sha decode resp"] exI [of _ "generate_proof (tree_layers sha ?leaves) i"]) (auto simp: nth_enumerate_eq claim_leaf_is_contract_leaf [of decode, symmetric])
qed

definition claim_strings ::
    "(bytes \<Rightarrow> bytes) \<Rightarrow> (string \<Rightarrow> bytes option) \<Rightarrow> calculate_rewards_response \<Rightarrow> bytes \<Rightarrow> bytes list \<Rightarrow> bytes set" where
  "claim_strings sha decode resp abi siblings =
     (\<lambda>a. abi_encode_claim sha decode (ra_address a) (ra_total_reward a) (rr_epoch resp)) ` set (rr_allocations resp)
     \<union> (\<lambda>a. sha256_abi_encode sha decode (ra_address a) (ra_total_reward a) (rr_epoch resp)) ` set (rr_allocations resp)
     \<union> tree_inputs sha (map (claim_leaf sha decode (rr_epoch resp)) (rr_allocations resp))
     \<union> {abi, sha abi} \<union> set (proof_inputs sha (sha (sha abi)) siblings)"

text \<open>
  C12. Only the claims of the response can be paid. Suppose the response has an allocation, digests have 32 bytes and no two of the strings that the
  enclave hashed for the tree and the contract hashes for the proof collide. Then whatever 32-byte siblings are sent,
  an encoded triple of address, amount and epoch that passes the check of the contract is the encoding of one of the allocations.
\<close>
theorem only_claims_verify:
  assumes "calculate_rewards sha decode req = Some (Ok resp)" and "rr_allocations resp \<noteq> []"
    and "\<And>x. length (sha x) = 32" and "\<forall>p\<in>set siblings. length p = 32"
    and "inj_on sha (claim_strings sha decode resp abi siblings)"
    and "rr_merkle_root resp = hex_0x merkle_root \<and> verify_sha256_proof sha siblings merkle_root (sha (sha abi))"
  shows "\<exists>a\<in>set (rr_allocations resp). abi = abi_encode_claim sha decode (ra_address a) (ra_total_reward a) (rr_epoch resp)"
proof -
  let ?K = "claim_strings sha decode resp abi siblings" and ?leaves = "map (claim_leaf sha decode (rr_epoch resp)) (rr_allocations resp)"
  have "merkle_root = claims_root sha decode resp"
    using assms(6) merkle_tree_of_claims(1) [OF assms(1,2)] by (simp add: hex_0x_inj)
  then have ok: "verify_sha256_proof sha siblings (hd (last (tree_layers sha ?leaves))) (sha (sha abi))"
    using assms(6) by (simp add: claims_root_def)
  have inner: "\<exists>i\<in>?K. x = sha i \<and> length i = 32" if "x \<in> set ?leaves" for x
    using that assms(3) by (auto simp: claim_leaf_def sha256_abi_encode_def claim_strings_def)
  have K: "tree_inputs sha ?leaves \<subseteq> ?K" "set (proof_inputs sha (sha (sha abi)) siblings) \<subseteq> ?K" "sha abi \<in> ?K" "abi \<in> ?K"
    by (auto simp: claim_strings_def)
  have "sha (sha abi) \<in> set ?leaves"
    using verified_is_leaf [OF assms(3) inner assms(5) K(1,2) assms(4) K(3) assms(3) _ ok] assms(2) by simp
  then obtain a where a: "a \<in> set (rr_allocations resp)"
      and eq: "sha (sha abi) = sha (sha (abi_encode_claim sha decode (ra_address a) (ra_total_reward a) (rr_epoch resp)))"
    by (auto simp: claim_leaf_def sha256_abi_encode_def)
  let ?e = "abi_encode_claim sha decode (ra_address a) (ra_total_reward a) (rr_epoch resp)"
  have e: "?e \<in> ?K" "sha ?e \<in> ?K" using a by (auto simp: claim_strings_def sha256_abi_encode_def)
  have "sha abi = sha ?e" by (rule inj_onD [OF assms(5) eq K(3) e(2)])
  then have "abi = ?e" by (rule inj_onD [OF assms(5) _ K(4) e(1)])
  then show ?thesis using a by blast
qed


section \<open>Two stakers\<close>

definition demo_vault_validator :: scored_validator where
  "demo_vault_validator =
     \<lparr>sv_address = ''v'', sv_stake = 1, sv_performance_score = 5000, sv_decentralization_score = 0, sv_reputation_score = 0,
      sv_composite_score = 0, sv_tee_public_key = [], sv_commission_bps = 0, sv_rank = 1\<rparr>"

definition demo_rewards :: calculate_rewards_request where
  "demo_rewards =
     \<lparr>rq_epoch = 0, rq_total_rewards = 4, rq_mev_revenue = 0, rq_validators = [demo_vault_validator],
      rq_staker_stakes = [\<lparr>ss_address = ''b'', ss_shares = 300, ss_delegated_to = ''v''\<rparr>,
                         \<lparr>ss_address = ''a'', ss_shares = 100, ss_delegated_to = ''v''\<rparr>],
      rq_stake_snapshot_hash = [], rq_validator_set_hash = []\<rparr>"

definition demo_decode :: "string \<Rightarrow> bytes option" where
  "demo_decode x = Some (if x = ''a'' then [1] else [2])"

text \<open>A digest of 32 bytes that keeps the sum of the bytes and of the length.\<close>

definition demo_digest :: "bytes \<Rightarrow> bytes" where
  "demo_digest x = replicate 31 0 @ [of_nat (length x) + sum_list x]"

theorem claims_backed_witness:
  "\<exists>resp. calculate_rewards demo_digest demo_decode demo_rewards = Some (Ok resp) \<and> fair_distribution demo_rewards resp"
  using claims_backed [of demo_rewards demo_digest demo_decode]
  by (simp add: demo_rewards_def demo_vault_validator_def scores_bounded_def)


lemma rewards_epoch: "calculate_rewards sha decode req = Some (Ok resp) \<Longrightarrow> rr_epoch resp = rq_epoch req"
  by (auto simp: calculate_rewards_def Let_def split: option.splits if_splits result.splits prod.splits)

lemma demo_allocations:
  "allocations_of demo_rewards =
     [\<lparr>ra_address = ''a'', ra_base_reward = 1, ra_performance_bonus = 0, ra_mev_share = 0, ra_total_reward = 1\<rparr>,
      \<lparr>ra_address = ''b'', ra_base_reward = 3, ra_performance_bonus = 0, ra_mev_share = 0, ra_total_reward = 3\<rparr>]"
  by (simp add: allocations_of_def demo_rewards_def demo_vault_validator_def staker_weight_def validator_scores_def hm_insert_def hm_get_def
      muldiv_def Let_def BPS_DENOMINATOR_def BONUS_BPS_def PROTOCOL_FEE_BPS_def MEV_STAKER_SHARE_BPS_def allocation_of_def saturating_sub_def)


lemma demo_response:
  obtains resp where "calculate_rewards demo_digest demo_decode demo_rewards = Some (Ok resp)"
    "rr_allocations resp = allocations_of demo_rewards" "rr_epoch resp = 0"
proof -
  have "sum_list (map ra_total_reward (allocations_of demo_rewards)) \<le> rq_total_rewards demo_rewards
      - muldiv (rq_total_rewards demo_rewards) (ucast PROTOCOL_FEE_BPS) (ucast BPS_DENOMINATOR)"
    by (simp only: demo_allocations) (simp add: demo_rewards_def muldiv_def PROTOCOL_FEE_BPS_def BPS_DENOMINATOR_def)
  then obtain resp where "calculate_rewards demo_digest demo_decode demo_rewards = Some (Ok resp)" "rr_allocations resp = allocations_of demo_rewards"
    using calculate_rewards_cases(2) [of demo_rewards demo_digest demo_decode] by (auto simp: demo_rewards_def demo_vault_validator_def)
  then show thesis using that rewards_epoch by (metis calculate_rewards_request.select_convs(1) demo_rewards_def)
qed

theorem claims_verify_witness:
  "\<exists>resp merkle_root siblings. calculate_rewards demo_digest demo_decode demo_rewards = Some (Ok resp)
     \<and> rr_merkle_root resp = hex_0x merkle_root \<and> pe_proof (rr_merkle_proofs resp ! 1) = map hex_0x siblings
     \<and> verify_sha256_proof demo_digest siblings merkle_root (contract_claim_leaf demo_digest 2 3 0)"
proof -
  obtain resp where r: "calculate_rewards demo_digest demo_decode demo_rewards = Some (Ok resp)"
      "rr_allocations resp = allocations_of demo_rewards" "rr_epoch resp = 0" by (rule demo_response)
  have "1 < length (rr_allocations resp)" by (simp add: r demo_allocations)
  from claims_verify [OF r(1) this] obtain merkle_root siblings where
    c: "rr_merkle_root resp = hex_0x merkle_root" "pe_proof (rr_merkle_proofs resp ! 1) = map hex_0x siblings" and
    leaf: "demo_decode (trim_start_0x (ra_address (rr_allocations resp ! 1))) = Some bs \<and> length bs \<le> 20 \<Longrightarrow>
      verify_sha256_proof demo_digest siblings merkle_root
        (contract_claim_leaf demo_digest (be_word bs) (ucast (ra_total_reward (rr_allocations resp ! 1))) (ucast (rr_epoch resp)))" for bs
    by (metis (no_types, lifting) merkle_proof_entry.select_convs(3))
  have "verify_sha256_proof demo_digest siblings merkle_root (contract_claim_leaf demo_digest 2 3 0)"
    using leaf [of "[2]"] by (simp add: r demo_allocations demo_decode_def be_word_def)
  with r(1) c show ?thesis by blast
qed

definition demo_tag :: "bytes \<Rightarrow> u8" where
  "demo_tag x = of_nat (length x) + sum_list x"

definition demo_claim :: "nat \<Rightarrow> bytes" where
  "demo_claim i = (let a = allocations_of demo_rewards ! i in abi_encode_claim demo_digest demo_decode (ra_address a) (ra_total_reward a) 0)"

lemma demo_digest_tag: "demo_digest x = replicate 31 0 @ [demo_tag x]"
  by (simp add: demo_digest_def demo_tag_def)

lemma demo_words:
  "le_bytes 16 (1 :: u128) = [1, 0, 0, 0, 0, 0, 0, 0, 0, 0, 0, 0, 0, 0, 0, 0]" "le_bytes 16 (3 :: u128) = [3, 0, 0, 0, 0, 0, 0, 0, 0, 0, 0, 0, 0, 0, 0, 0]"
  "le_bytes 8 (0 :: u64) = [0, 0, 0, 0, 0, 0, 0, 0]"
  by (simp_all add: le_bytes_def upt_rec)

lemma demo_tags:
  "demo_tag (demo_claim 0) = 98" "demo_tag (demo_claim 1) = 101" "demo_tag (demo_digest x) = 32 + demo_tag x"
  "demo_tag (sorted_cat (demo_digest x) (demo_digest y)) = 64 + demo_tag x + demo_tag y"
proof -
  show "demo_tag (demo_claim 0) = 98" "demo_tag (demo_claim 1) = 101"
    by (simp_all add: demo_tag_def demo_claim_def demo_allocations abi_encode_claim_def claim_address_bytes_def demo_decode_def Let_def demo_words
        sum_list_replicate)
  show "demo_tag (demo_digest x) = 32 + demo_tag x" "demo_tag (sorted_cat (demo_digest x) (demo_digest y)) = 64 + demo_tag x + demo_tag y"
    by (simp_all add: demo_digest_tag) (simp_all add: demo_tag_def sorted_cat_def sum_list_replicate)
qed

lemma demo_strings_inj:
  "inj_on demo_digest {demo_claim 0, demo_claim 1, demo_digest (demo_claim 0), demo_digest (demo_claim 1),
     sorted_cat (demo_digest (demo_digest (demo_claim 0))) (demo_digest (demo_digest (demo_claim 1)))}"
proof -
  have "demo_digest x = demo_digest y \<longleftrightarrow> demo_tag x = demo_tag y" for x y by (simp add: demo_digest_tag)
  then show ?thesis unfolding inj_on_def by (auto simp: demo_tags demo_tags(2) [unfolded One_nat_def])
qed

theorem only_claims_verify_witness:
  "\<exists>resp. calculate_rewards demo_digest demo_decode demo_rewards = Some (Ok resp)
     \<and> (\<exists>a\<in>set (rr_allocations resp). demo_claim 0 = abi_encode_claim demo_digest demo_decode (ra_address a) (ra_total_reward a) (rr_epoch resp))"
proof -
  obtain resp where r: "calculate_rewards demo_digest demo_decode demo_rewards = Some (Ok resp)"
      "rr_allocations resp = allocations_of demo_rewards" "rr_epoch resp = 0" by (rule demo_response)
  let ?leaf = "\<lambda>i. demo_digest (demo_digest (demo_claim i))" and ?as = "rr_allocations resp"
  have two: "?as = [allocations_of demo_rewards ! 0, allocations_of demo_rewards ! 1]" by (simp add: r demo_allocations)
  have enc: "abi_encode_claim demo_digest demo_decode (ra_address (allocations_of demo_rewards ! i)) (ra_total_reward (allocations_of demo_rewards ! i)) 0 = demo_claim i"
    for i by (simp add: demo_claim_def Let_def)
  have leaves: "map (claim_leaf demo_digest demo_decode (rr_epoch resp)) ?as = [?leaf 0, ?leaf 1]"
    unfolding two by (simp add: claim_leaf_def sha256_abi_encode_def r(3) enc)
  have layers: "tree_layers demo_digest [?leaf 0, ?leaf 1] = [[?leaf 0, ?leaf 1], [sorted_pair demo_digest (?leaf 0) (?leaf 1)]]"
    by (subst tree_layers.simps, simp, subst tree_layers.simps, simp)
  have "claim_strings demo_digest demo_decode resp (demo_claim 0) [?leaf 1]
      \<subseteq> {demo_claim 0, demo_claim 1, demo_digest (demo_claim 0), demo_digest (demo_claim 1), sorted_cat (?leaf 0) (?leaf 1)}"
    unfolding claim_strings_def leaves unfolding tree_inputs_def layers unfolding two by (auto simp: sha256_abi_encode_def r(3) enc)
  then have inj: "inj_on demo_digest (claim_strings demo_digest demo_decode resp (demo_claim 0) [?leaf 1])"
    by (rule inj_on_subset [OF demo_strings_inj])
  have ne: "?as \<noteq> []" using two by simp
  have len: "length (demo_digest x) = 32" for x by (simp add: demo_digest_def)
  have "rr_merkle_root resp = hex_0x (claims_root demo_digest demo_decode resp)" by (rule merkle_tree_of_claims(1) [OF r(1) ne])
  moreover have "verify_sha256_proof demo_digest [?leaf 1] (claims_root demo_digest demo_decode resp) (?leaf 0)"
    unfolding claims_root_def leaves layers by (simp add: verify_folds)
  ultimately show ?thesis
    using only_claims_verify [OF r(1) ne len _ inj] r(1) len by auto
qed

end
