(* ===== verification/Vault_Service_Properties.thy ===== *)
theory Vault_Service_Properties
  imports Vault_Server Vault_Properties
begin

text \<open>
  The properties of the service: attestations verify, a reward attestation binds what was computed, and the service does
  not start in an unsafe configuration.
\<close>

section \<open>Attestations verify\<close>

definition hex_lawful :: "vault_crypto \<Rightarrow> bool" where
  "hex_lawful C \<longleftrightarrow> (\<forall>bs. vc_hex_decode C (hex_encode bs) = Ok bs)"

definition digests_of_32 :: "vault_crypto \<Rightarrow> bool" where
  "digests_of_32 C \<longleftrightarrow> (\<forall>x. length (vc_sha256 C x) = 32)"

text \<open>What the signature library documents: a signature of a usable key has two parts of 32 bytes and recovers to its public key.\<close>

definition recoverable :: "vault_crypto \<Rightarrow> bytes \<Rightarrow> bool" where
  "recoverable C key \<longleftrightarrow>
     (\<forall>d r s v. vc_k256_sign C key d = Ok (r, s, v) \<longrightarrow>
        length r = 32 \<and> length s = 32 \<and> v < 4 \<and> vc_k256_signature_error C (r @ s) = None
        \<and> vc_k256_recovery_id_error C v = None \<and> vc_k256_recover C d (r @ s) v = Ok (vc_k256_public C key))"

lemma hex_encode_Nil_iff: "hex_encode bs = [] \<longleftrightarrow> bs = []"
  by (cases bs) (simp_all add: hex_encode_def)

lemma generate_Ok:
  assumes "attestation_generate C now payload g = (g', Ok d)"
  obtains report sig evidence where
    "platform_gate (ag_config g) (ag_hw_provider g) = None"
    "hp_generate_report (ag_hw_provider g) (document_digest C d) = Ok report"
    "hr_enclave_measurement report = tc_enclave_hash (ag_config g)" "hr_signer_measurement report = tc_signer_hash (ag_config g)"
    "sign_digest C (tc_signing_key (ag_config g)) (document_digest C d) = Ok sig"
    "generate_evidence C g (document_digest C d) report = Ok evidence"
    "d = \<lparr>ad_platform = platform_u8 (tc_platform (ag_config g)), ad_timestamp = now,
          ad_nonce = attestation_nonce C (ag_config g) (ag_nonce_counter g) now,
          ad_enclave_hash = hex_encode (tc_enclave_hash (ag_config g)), ad_signer_hash = hex_encode (tc_signer_hash (ag_config g)),
          ad_payload_hash = sha256_hex C payload, ad_platform_evidence = hex_encode evidence, ad_signature = hex_encode sig\<rparr>"
    "g' = g\<lparr>ag_nonce_counter := ag_nonce_counter g + 1\<rparr>"
  using assms
  by (auto simp: attestation_generate_def Let_def document_digest_def split: option.splits result.splits if_splits)

lemma sign_digest_Ok:
  assumes "sign_digest C key digest = Ok sig" "recoverable C key"
  obtains r s v where "sig = r @ s @ [v + 27]" "length r = 32" "length s = 32" "v < 4"
    "vc_k256_key_error C key = None" "vc_k256_signature_error C (r @ s) = None" "vc_k256_recovery_id_error C v = None"
    "vc_k256_recover C digest (r @ s) v = Ok (vc_k256_public C key)"
  using assms by (auto simp: sign_digest_def recoverable_def split: option.splits result.splits)

text \<open>
  C27. Attestations verify. A document that the generator returned, verified not earlier than it was made and not more
  than the maximal age later, is accepted and recovers the operator key that the generator reports. The document
  carries the configured platform, the configured enclave and signer measurements, the time it was made and the hash of the payload; the
  hardware report made for its digest carries the same enclave and signer measurements. The configured
  application measurement is compared with nothing. Hypotheses on the libraries: hex decoding inverts hex encoding, digests have 32
  bytes, and a signature of the operator key recovers to its public key; the age limit does not overflow 64 bits.
\<close>
theorem attestation_verifies:
  assumes "attestation_generate C t payload g = (g', Ok d)"
    and "hex_lawful C" and "digests_of_32 C" and "recoverable C (tc_signing_key (ag_config g))"
    and "t \<le> now" and "unat now \<le> unat t + unat max_age" and "unat t + unat max_age < 2 ^ 64"
  shows "\<exists>key. operator_pubkey_hex C g = Ok key
      \<and> vault_verify_attestation C now d (hex_encode (tc_enclave_hash (ag_config g))) max_age = Ok key
      \<and> ad_payload_hash d = hex_encode (vc_sha256 C payload) \<and> ad_platform d = platform_u8 (tc_platform (ag_config g))
      \<and> ad_enclave_hash d = hex_encode (tc_enclave_hash (ag_config g)) \<and> ad_signer_hash d = hex_encode (tc_signer_hash (ag_config g))
      \<and> ad_timestamp d = t
      \<and> (\<exists>report. hp_generate_report (ag_hw_provider g) (document_digest C d) = Ok report
           \<and> hr_enclave_measurement report = tc_enclave_hash (ag_config g) \<and> hr_signer_measurement report = tc_signer_hash (ag_config g))"
proof -
  let ?key = "tc_signing_key (ag_config g)"
  obtain report sig evidence where doc:
    "hp_generate_report (ag_hw_provider g) (document_digest C d) = Ok report"
    "hr_enclave_measurement report = tc_enclave_hash (ag_config g)" "hr_signer_measurement report = tc_signer_hash (ag_config g)"
    "sign_digest C ?key (document_digest C d) = Ok sig"
    and d: "d = \<lparr>ad_platform = platform_u8 (tc_platform (ag_config g)), ad_timestamp = t,
          ad_nonce = attestation_nonce C (ag_config g) (ag_nonce_counter g) t,
          ad_enclave_hash = hex_encode (tc_enclave_hash (ag_config g)), ad_signer_hash = hex_encode (tc_signer_hash (ag_config g)),
          ad_payload_hash = sha256_hex C payload, ad_platform_evidence = hex_encode evidence, ad_signature = hex_encode sig\<rparr>"
    using generate_Ok [OF assms(1)] by metis
  obtain r s v where sig: "sig = r @ s @ [v + 27]" "length r = 32" "length s = 32" "v < 4"
    "vc_k256_key_error C ?key = None" "vc_k256_signature_error C (r @ s) = None" "vc_k256_recovery_id_error C v = None"
    "vc_k256_recover C (document_digest C d) (r @ s) v = Ok (vc_k256_public C ?key)"
    using sign_digest_Ok [OF doc(4) assms(4)] .
  have v: "27 \<le> v + 27" "v + 27 - 27 = v"
  proof -
    have "unat (v + 27) = unat v + 27" using sig(4) by (subst unat_add_exact) (simp_all add: word_less_nat_alt)
    then show "27 \<le> v + 27" "v + 27 - 27 = v" by (simp_all add: word_le_nat_alt)
  qed
  have fresh: "\<not> ad_timestamp d + max_age < now"
    using assms(6,7) by (simp add: d word_less_nat_alt unat_add_exact)
  have nonce: "ad_nonce d \<noteq> []"
    using assms(3) by (auto simp: d attestation_nonce_def hex_encode_Nil_iff digests_of_32_def) (metis list.size(3) zero_neq_numeral)
  have bytes: "vc_hex_decode C (ad_signature d) = Ok sig" using assms(2) by (simp add: d hex_lawful_def)
  have shape: "length sig = 65" "take 64 sig = r @ s" "sig ! 64 = v + 27" by (simp_all add: sig(1-3) nth_append)
  have "vault_verify_attestation C now d (hex_encode (tc_enclave_hash (ag_config g))) max_age = Ok (hex_encode (vc_k256_public C ?key))"
  proof -
    have "ad_enclave_hash d = hex_encode (tc_enclave_hash (ag_config g))" by (simp add: d)
    then show ?thesis
      using fresh nonce v sig(6-8) unfolding vault_verify_attestation_def bytes by (simp add: shape Let_def)
  qed
  moreover have "operator_pubkey_hex C g = Ok (hex_encode (vc_k256_public C ?key))" by (simp add: operator_pubkey_hex_def sig(5))
  moreover have "ad_payload_hash d = hex_encode (vc_sha256 C payload)" "ad_platform d = platform_u8 (tc_platform (ag_config g))"
    "ad_enclave_hash d = hex_encode (tc_enclave_hash (ag_config g))" "ad_signer_hash d = hex_encode (tc_signer_hash (ag_config g))"
    "ad_timestamp d = t"
    by (simp_all add: d sha256_hex_def)
  ultimately show ?thesis using doc(1-3) by blast
qed

section \<open>What a reward attestation binds\<close>

lemma length_pad_left [simp]: "length bs \<le> n \<Longrightarrow> length (pad_left n bs) = n"
  by (simp add: pad_left_def)

lemma be_lengths [simp]: "length (be_bytes8 e) = 8" "length (be_u128 x) = 16" "length (be_u32 y) = 4"
  by (simp_all add: be_bytes8_def be_u128_def be_u32_def)

lemma pad_left_inj: "length xs = length ys \<Longrightarrow> pad_left n xs = pad_left n ys \<longleftrightarrow> xs = ys"
  by (simp add: pad_left_def)

lemma be_inj: "be_bytes8 e = be_bytes8 e' \<longleftrightarrow> e = e'" "be_u128 x = be_u128 x' \<longleftrightarrow> x = x'"
  using le_bytes_inj [of e e'] le_bytes_inj [of x x'] by (auto simp: be_bytes8_def be_u128_def)

lemma length_xor_accumulate:
  assumes "\<And>s. length (entry s) = 32"
  shows "length (xor_accumulate entry ss) = 32"
proof -
  have "length acc = 32 \<Longrightarrow> length (foldl (\<lambda>acc s. if ss_shares s = 0 then acc else xor_bytes acc (entry s)) acc ss) = 32" for acc
    by (induction ss arbitrary: acc) (auto simp: xor_bytes_def assms)
  then show ?thesis by (simp add: xor_accumulate_def)
qed

lemma trim_start_0x_hex: "trim_start_0x (hex_encode bs) = hex_encode bs"
proof (cases bs)
  case (Cons b cs)
  have "hex_digit (unat b mod 16) \<noteq> CHR ''x''"
  proof
    assume "hex_digit (unat b mod 16) = CHR ''x''"
    then have "(of_char (hex_digit (unat b mod 16)) :: nat) = 120" by simp
    then show False by (simp add: hex_digit_def split: if_splits)
  qed
  then show ?thesis by (simp add: Cons hex_encode_def)
qed (simp add: hex_encode_def)

lemma parse_merkle_root_hex:
  assumes "hex_lawful C" "length bs = 32"
  shows "parse_merkle_root C (hex_0x bs) = bs"
  using assms by (simp add: parse_merkle_root_def hex_0x_def trim_start_0x_hex decode_or_default_def hex_lawful_def pad_left_def)

lemma attest_cases:
  assumes "attest C now payload st = (st', r)"
  obtains (failed) g e where "attestation_generate C now payload (as_attestation_gen st) = (g, Err e)"
      "st' = service_op_step now AddError (st\<lparr>as_attestation_gen := g\<rparr>)" "\<exists>m. r = Err (InternalServerError, m)"
  | (made) g d where "attestation_generate C now payload (as_attestation_gen st) = (g, Ok d)" "st' = st\<lparr>as_attestation_gen := g\<rparr>" "r = Ok d"
  using assms unfolding attest_def
  by (cases "attestation_generate C now payload (as_attestation_gen st)"; cases "snd (attestation_generate C now payload (as_attestation_gen st))") auto

lemma check_hash_Ok:
  "check_hash C field noun supplied recomputed = Ok () \<longleftrightarrow> supplied \<noteq> [] \<and> vc_hex_decode C supplied = Ok recomputed \<and> length recomputed = 32"
  by (auto simp: check_hash_def parse_hash32_def split: result.splits)

lemma rewards_check_Ok:
  "calculate_rewards_check C config req = Some (Ok resp) \<longleftrightarrow>
     length (rq_staker_stakes req) \<le> vs_max_stakers config \<and> validate_unique_staker_addresses (rq_staker_stakes req) = Ok ()
     \<and> check_hash C ''stake_snapshot_hash'' ''stakers'' (rq_stake_snapshot_hash req) (compute_stake_snapshot_hash C (rq_epoch req) (rq_staker_stakes req)) = Ok ()
     \<and> check_hash C ''validator_set_hash'' ''validators'' (rq_validator_set_hash req) (compute_validator_set_hash C (rq_epoch req) (rq_validators req)) = Ok ()
     \<and> calculate_rewards (vc_sha256 C) (decode_some C) req = Some (Ok resp)"
  by (auto simp: calculate_rewards_check_def split: result.splits option.splits)

lemma rewards_handler_Ok:
  assumes "calculate_rewards_handler C lowercase now req st = Some (st', Ok resp)"
  obtains resp0 g d where
    "length (rq_staker_stakes req) \<le> vs_max_stakers (as_config st)" "first_duplicate [] (rq_staker_stakes req) = None"
    "vc_hex_decode C (rq_stake_snapshot_hash req) = Ok (compute_stake_snapshot_hash C (rq_epoch req) (rq_staker_stakes req))"
    "vc_hex_decode C (rq_validator_set_hash req) = Ok (compute_validator_set_hash C (rq_epoch req) (rq_validators req))"
    "calculate_rewards (vc_sha256 C) (decode_some C) req = Some (Ok resp0)"
    "attestation_generate C now (reward_payload C lowercase req resp0) (as_attestation_gen st) = (g, Ok d)"
    "st' = count_attestation now RewardCalculations None (st\<lparr>as_attestation_gen := g\<rparr>)"
    "resp = resp0\<lparr>rr_attestation := d, rr_stake_snapshot_hash := hex_encode (compute_stake_snapshot_hash C (rq_epoch req) (rq_staker_stakes req)),
       rr_validator_set_hash := hex_encode (compute_validator_set_hash C (rq_epoch req) (rq_validators req))\<rparr>"
proof -
  obtain resp0 where c: "calculate_rewards_check C (as_config st) req = Some (Ok resp0)"
    using assms by (auto simp: calculate_rewards_handler_def split: option.splits result.splits)
  obtain st1 r where a: "attest C now (reward_payload C lowercase req resp0) st = (st1, r)" by fastforce
  have eq: "(case r of Err e \<Rightarrow> Some (st1, Err e)
      | Ok d \<Rightarrow> Some (count_attestation now RewardCalculations None st1,
          Ok (resp0\<lparr>rr_attestation := d, rr_stake_snapshot_hash := hex_encode (compute_stake_snapshot_hash C (rq_epoch req) (rq_staker_stakes req)),
             rr_validator_set_hash := hex_encode (compute_validator_set_hash C (rq_epoch req) (rq_validators req))\<rparr>))) = Some (st', Ok resp)"
    using assms c a by (simp add: calculate_rewards_handler_def Let_def)
  show thesis
    using a
  proof (cases rule: attest_cases)
    case (failed g e)
    then show thesis using eq by auto
  next
    case (made g d)
    then show thesis using eq that [OF _ _ _ _ _ made(1)] c
      by (auto simp: rewards_check_Ok check_hash_Ok validate_unique_staker_addresses_def split: option.splits)
  qed
qed

lemma reward_payload_inj:
  assumes "length r = 32" "length r' = 32" "length a = 32" "length a' = 32" "length b = 32" "length b' = 32"
    "length c = 32" "length c' = 32"
  shows "compute_canonical_reward_payload e t r f a b c d = compute_canonical_reward_payload e' t' r' f' a' b' c' d'
    \<longleftrightarrow> (e, t, r, f, a, b, c, d) = (e', t', r', f', a', b', c', d')"
  using assms by (simp add: compute_canonical_reward_payload_def pad_left_inj be_inj)

lemma claims_root_length:
  assumes "\<And>x. length (sha x) = 32" "rr_allocations resp \<noteq> []"
  shows "length (claims_root sha decode resp) = 32"
proof -
  let ?leaves = "map (claim_leaf sha decode (rr_epoch resp)) (rr_allocations resp)"
  have "claims_root sha decode resp \<in> tree_nodes sha ?leaves"
    unfolding claims_root_def by (rule hd_last_in_nodes) (use assms(2) in simp)
  from tree_node_cases [OF this] show ?thesis using assms(1) by (auto simp: claim_leaf_def)
qed

lemma hex_encode_zeros: "hex_encode (replicate n 0) = replicate (2 * n) (CHR ''0'')"
proof -
  have "hex_digit 0 = CHR ''0''" by (simp add: hex_digit_def char_of_def bit_0)
  then show ?thesis by (induction n) (simp_all add: hex_encode_def)
qed

lemma rewards_root_cases:
  assumes "calculate_rewards sha decode req = Some (Ok resp)"
  shows "rr_merkle_root resp = ''0x'' @ replicate 64 (CHR ''0'')
    \<or> rr_merkle_root resp = fst (build_merkle_tree sha decode (rr_allocations resp) (rr_epoch resp))"
  using assms by (auto simp: calculate_rewards_def Let_def split: option.splits if_splits result.splits prod.splits)

lemma rewards_root:
  assumes "calculate_rewards sha decode req = Some (Ok resp)" "\<And>x. length (sha x) = 32"
  obtains merkle_root where "length merkle_root = 32" "rr_merkle_root resp = hex_0x merkle_root"
proof (cases "rr_allocations resp = []")
  case True
  have "rr_merkle_root resp = ''0x'' @ replicate 64 (CHR ''0'')"
    using rewards_root_cases [OF assms(1)] unfolding True build_merkle_tree_def by (simp only: simp_thms if_True fst_conv)
  also have "\<dots> = hex_0x (replicate 32 0)" by (simp add: hex_0x_def hex_encode_zeros)
  finally show thesis by (intro that [of "replicate 32 0"]) simp_all
next
  case False
  show thesis by (rule that [OF claims_root_length [OF assms(2) False] merkle_tree_of_claims(1) [OF assms(1) False]])
qed

text \<open>
  C14. A reward attestation binds what was computed. When the handler answers, no address string is listed twice
  (two spellings of one address pass), the two hashes of
  the request are the hashes of the stakers and of the validators of the request, the answer is what the reward
  calculation returns on the request, and the attested payload is the 256 bytes that encode epoch, total rewards, Merkle root, fee,
  snapshot, validator set, registry root and delegation root: no other eight values have the same encoding.
\<close>
theorem rewards_attested:
  assumes "calculate_rewards_handler C lowercase now req st = Some (st', Ok resp)"
    and "hex_lawful C" and "digests_of_32 C" and "\<And>x. length (vc_keccak256 C x) = 32"
  shows "\<exists>merkle_root resp0. rr_merkle_root resp = hex_0x merkle_root
      \<and> distinct (map ss_address (rq_staker_stakes req))
      \<and> vc_hex_decode C (rq_stake_snapshot_hash req) = Ok (compute_stake_snapshot_hash C (rq_epoch req) (rq_staker_stakes req))
      \<and> vc_hex_decode C (rq_validator_set_hash req) = Ok (compute_validator_set_hash C (rq_epoch req) (rq_validators req))
      \<and> calculate_rewards (vc_sha256 C) (decode_some C) req = Some (Ok resp0)
      \<and> resp = resp0\<lparr>rr_attestation := rr_attestation resp, rr_stake_snapshot_hash := rr_stake_snapshot_hash resp,
                     rr_validator_set_hash := rr_validator_set_hash resp\<rparr>
      \<and> (let payload = compute_canonical_reward_payload (rq_epoch req) (rq_total_rewards req) merkle_root (rr_protocol_fee resp)
               (compute_stake_snapshot_hash C (rq_epoch req) (rq_staker_stakes req))
               (compute_validator_set_hash C (rq_epoch req) (rq_validators req))
               (compute_staker_registry_root C lowercase (rq_staker_stakes req))
               (compute_delegation_registry_root C lowercase (rq_staker_stakes req))
         in ad_payload_hash (rr_attestation resp) = hex_encode (vc_sha256 C payload) \<and> length payload = 256
            \<and> (\<forall>e t r f s v a b. length r = 32 \<and> length s = 32 \<and> length v = 32 \<and> length a = 32 \<longrightarrow>
                 compute_canonical_reward_payload e t r f s v a b = payload \<longrightarrow>
                 e = rq_epoch req \<and> t = rq_total_rewards req \<and> r = merkle_root \<and> f = rr_protocol_fee resp
                 \<and> s = compute_stake_snapshot_hash C (rq_epoch req) (rq_staker_stakes req)
                 \<and> v = compute_validator_set_hash C (rq_epoch req) (rq_validators req)
                 \<and> a = compute_staker_registry_root C lowercase (rq_staker_stakes req)
                 \<and> b = compute_delegation_registry_root C lowercase (rq_staker_stakes req)))"
proof -
  obtain resp0 g d where "length (rq_staker_stakes req) \<le> vs_max_stakers (as_config st)" and R: "first_duplicate [] (rq_staker_stakes req) = None"
    "vc_hex_decode C (rq_stake_snapshot_hash req) = Ok (compute_stake_snapshot_hash C (rq_epoch req) (rq_staker_stakes req))"
    "vc_hex_decode C (rq_validator_set_hash req) = Ok (compute_validator_set_hash C (rq_epoch req) (rq_validators req))"
    "calculate_rewards (vc_sha256 C) (decode_some C) req = Some (Ok resp0)"
    "attestation_generate C now (reward_payload C lowercase req resp0) (as_attestation_gen st) = (g, Ok d)"
    and "st' = count_attestation now RewardCalculations None (st\<lparr>as_attestation_gen := g\<rparr>)"
    and resp: "resp = resp0\<lparr>rr_attestation := d, rr_stake_snapshot_hash := hex_encode (compute_stake_snapshot_hash C (rq_epoch req) (rq_staker_stakes req)),
       rr_validator_set_hash := hex_encode (compute_validator_set_hash C (rq_epoch req) (rq_validators req))\<rparr>"
    by (rule rewards_handler_Ok [OF assms(1)])
  have sha: "length (vc_sha256 C x) = 32" for x using assms(3) by (simp add: digests_of_32_def)
  obtain mr where mr: "length mr = 32" "rr_merkle_root resp0 = hex_0x mr" using rewards_root [OF R(4) sha] .
  let ?payload = "compute_canonical_reward_payload (rq_epoch req) (rq_total_rewards req) mr (rr_protocol_fee resp)
               (compute_stake_snapshot_hash C (rq_epoch req) (rq_staker_stakes req))
               (compute_validator_set_hash C (rq_epoch req) (rq_validators req))
               (compute_staker_registry_root C lowercase (rq_staker_stakes req))
               (compute_delegation_registry_root C lowercase (rq_staker_stakes req))"
  have lens: "length (compute_stake_snapshot_hash C (rq_epoch req) (rq_staker_stakes req)) = 32"
      "length (compute_validator_set_hash C (rq_epoch req) (rq_validators req)) = 32"
      "length (compute_staker_registry_root C lowercase (rq_staker_stakes req)) = 32"
      "length (compute_delegation_registry_root C lowercase (rq_staker_stakes req)) = 32"
    by (simp_all add: compute_stake_snapshot_hash_def compute_validator_set_hash_def sha compute_staker_registry_root_def
        compute_delegation_registry_root_def length_xor_accumulate assms(4) staker_registry_entry_def delegation_registry_entry_def)
  have "reward_payload C lowercase req resp0 = ?payload"
    by (simp add: reward_payload_def resp mr(2) parse_merkle_root_hex [OF assms(2) mr(1)])
  moreover have "ad_payload_hash d = sha256_hex C (reward_payload C lowercase req resp0)" by (rule generate_Ok [OF R(5)]) simp
  ultimately have hash: "ad_payload_hash (rr_attestation resp) = hex_encode (vc_sha256 C ?payload)" by (simp add: resp sha256_hex_def)
  have len: "length ?payload = 256" by (simp add: compute_canonical_reward_payload_def mr lens)
  have inj: "e = rq_epoch req \<and> t = rq_total_rewards req \<and> r = mr \<and> f = rr_protocol_fee resp
        \<and> s = compute_stake_snapshot_hash C (rq_epoch req) (rq_staker_stakes req)
        \<and> v = compute_validator_set_hash C (rq_epoch req) (rq_validators req)
        \<and> a = compute_staker_registry_root C lowercase (rq_staker_stakes req)
        \<and> b = compute_delegation_registry_root C lowercase (rq_staker_stakes req)"
    if "length r = 32 \<and> length s = 32 \<and> length v = 32 \<and> length a = 32" "compute_canonical_reward_payload e t r f s v a b = ?payload"
    for e t r f s v a b
    using iffD1 [OF reward_payload_inj [OF _ mr(1) _ lens(1) _ lens(2) _ lens(3)] that(2)] that(1) by simp
  have "distinct (map ss_address (rq_staker_stakes req))" using R(1) by (simp add: first_duplicate_None)
  moreover have "rr_merkle_root resp = hex_0x mr" by (simp add: resp mr(2))
  moreover have "resp = resp0\<lparr>rr_attestation := rr_attestation resp, rr_stake_snapshot_hash := rr_stake_snapshot_hash resp,
      rr_validator_set_hash := rr_validator_set_hash resp\<rparr>" by (simp add: resp)
  ultimately show ?thesis unfolding Let_def
    apply (intro exI [of _ mr] exI [of _ resp0])
    apply (intro conjI R(2-4) hash len)
       apply assumption+
    apply (intro allI impI)
    apply (rule inj)
     apply assumption+
    done
qed

section \<open>Start\<close>

text \<open>The generator uses this provider, and the certificate of its platform key is the one that the provider obtained.\<close>

definition certified_through :: "hardware_provider \<Rightarrow> attestation_generator \<Rightarrow> bool" where
  "certified_through provider g \<longleftrightarrow> ag_hw_provider g = provider
     \<and> (\<exists>bundle. hp_generate_platform_key provider (platform_u8 (tc_platform (ag_config g))) = Ok bundle
          \<and> ag_platform_key_attestation g =
              \<lparr>ka_platform_key_x = pb_public_key_x bundle, ka_platform_key_y = pb_public_key_y bundle,
               ka_platform_id = platform_u8 (tc_platform (ag_config g)),
               ka_vendor_sig_r = vk_vendor_sig_r (pb_vendor_attestation bundle),
               ka_vendor_sig_s = vk_vendor_sig_s (pb_vendor_attestation bundle)\<rparr>)"

lemma generator_init_Ok:
  assumes "generator_init tee provider = Ok g"
  shows "ag_config g = tee" "platform_gate tee provider = None" "certified_through provider g"
  using assms by (auto simp: generator_init_def certified_through_def Let_def split: option.splits result.splits)

lemma start_generator_Mock:
  assumes "start_generator C features devices platform_key config tee = Ok g" "vs_tee_platform config = Mock" "tc_platform tee = Mock"
  shows "ag_config g = tee \<and> tc_allow_simulated tee"
  using assms
  by (auto simp: start_generator_def generator_or_fail_def generator_new_def platform_gate_def split: result.splits if_splits dest: generator_init_Ok(1) generator_init_Ok(2))

lemma start_generator_real:
  assumes "start_generator C features devices platform_key config tee = Ok g" "vs_tee_platform config \<noteq> Mock" "tc_platform tee = vs_tee_platform config"
  obtains (relay) url where "vs_attestation_relay_url config = Some url" "vf_remote_attestation features"
      "generator_init tee (devices (vs_tee_platform config) (RemoteVendorAttester url)) = Ok g"
  | (local_key) key_hex key where "vs_attestation_relay_url config = None" "vs_vendor_attestation_key_hex config = Some key_hex"
      "parse_config32 C ''vendor_attestation_key_hex'' key_hex = Ok key"
      "vf_mock_tee features" "vs_insecure_local_vendor_key config" "is_loopback_addr (vs_listen_addr config)"
      "generator_init tee (devices (vs_tee_platform config) (LocalVendorAttester key)) = Ok g"
  using assms
  by (auto simp: start_generator_def generator_or_fail_def generator_with_vendor_attester_def split: option.splits result.splits if_splits)

text \<open>
  C29. The service does not start unsafely. A service that started without a token listens on a loopback address, and
  its platform is the mock one or the insecure flag was set. On a real platform, one of two attesters is the one that its hardware provider
  was made with, and the certificate of its platform key is what that provider returned: the attester of the configured relay, in a build
  with remote attestation; or, without a relay, the one of the configured local vendor key, in a mock build, on loopback, with the
  insecure flag. There the enclave and signer measurements of the generator are the configured ones, and on
  Nitro also that of the application. The hardware provider is one of the configured
  platform unless simulation is allowed, and simulation is allowed whenever the platform is the mock one. What a device does with its
  attester is the parameter \<open>devices\<close>.
\<close>
theorem start_fails_closed:
  assumes "start_server C features devices random_key platform_key config = Ok st"
  shows "(vs_auth_token config = None \<longrightarrow>
            is_loopback_addr (vs_listen_addr config) \<and> (vs_tee_platform config = Mock \<or> vs_insecure_no_auth config))
    \<and> (vs_tee_platform config \<noteq> Mock \<longrightarrow>
         ((\<exists>url. vs_attestation_relay_url config = Some url \<and> vf_remote_attestation features
             \<and> certified_through (devices (vs_tee_platform config) (RemoteVendorAttester url)) (as_attestation_gen st))
          \<or> (\<exists>key_hex key. vs_attestation_relay_url config = None \<and> vs_vendor_attestation_key_hex config = Some key_hex
             \<and> vc_hex_decode C key_hex = Ok key \<and> length key = 32
             \<and> vf_mock_tee features \<and> vs_insecure_local_vendor_key config \<and> is_loopback_addr (vs_listen_addr config)
             \<and> certified_through (devices (vs_tee_platform config) (LocalVendorAttester key)) (as_attestation_gen st)))
         \<and> (\<exists>enclave signer. vs_enclave_hash_hex config = Some enclave \<and> vs_signer_hash_hex config = Some signer
             \<and> vc_hex_decode C enclave = Ok (tc_enclave_hash (ag_config (as_attestation_gen st)))
             \<and> vc_hex_decode C signer = Ok (tc_signer_hash (ag_config (as_attestation_gen st)))))
    \<and> (vs_tee_platform config = AWSNitro \<longrightarrow>
         (\<exists>app bs. vs_application_hash_hex config = Some app \<and> vc_hex_decode C app = Ok bs
            \<and> tc_application_hash (ag_config (as_attestation_gen st)) = Some bs))
    \<and> (hp_platform (ag_hw_provider (as_attestation_gen st)) = vs_tee_platform config \<and> vs_tee_platform config \<noteq> Mock \<or> vs_allow_simulated config)"
proof -
  obtain tee g where auth: "start_auth_check config = None" and tee: "start_tee_config C random_key config = Ok tee"
    and g: "start_generator C features devices platform_key config tee = Ok g" and st: "as_attestation_gen st = g"
    using assms by (auto simp: start_server_def split: option.splits result.splits)
  have p: "tc_platform tee = vs_tee_platform config" "tc_allow_simulated tee = vs_allow_simulated config"
    using tee by (auto simp: start_tee_config_def split: option.splits result.splits if_splits)
  have real: "((\<exists>url. vs_attestation_relay_url config = Some url \<and> vf_remote_attestation features
             \<and> certified_through (devices (vs_tee_platform config) (RemoteVendorAttester url)) g)
          \<or> (\<exists>key_hex key. vs_attestation_relay_url config = None \<and> vs_vendor_attestation_key_hex config = Some key_hex
             \<and> vc_hex_decode C key_hex = Ok key \<and> length key = 32
             \<and> vf_mock_tee features \<and> vs_insecure_local_vendor_key config \<and> is_loopback_addr (vs_listen_addr config)
             \<and> certified_through (devices (vs_tee_platform config) (LocalVendorAttester key)) g))
       \<and> ag_config g = tee \<and> platform_gate tee (ag_hw_provider g) = None" if "vs_tee_platform config \<noteq> Mock"
    using g that p(1)
  proof (cases rule: start_generator_real)
    case (relay url)
    with generator_init_Ok [OF relay(3)] show ?thesis by (simp add: certified_through_def)
  next
    case (local_key key_hex key)
    with generator_init_Ok [OF local_key(7)] show ?thesis
      by (auto simp: certified_through_def parse_config32_def split: result.splits if_splits)
  qed
  have config_g: "ag_config g = tee" using real start_generator_Mock [OF g] p(1) by (cases "vs_tee_platform config = Mock") auto
  have "vs_auth_token config = None \<longrightarrow> is_loopback_addr (vs_listen_addr config) \<and> (vs_tee_platform config = Mock \<or> vs_insecure_no_auth config)"
    using auth by (auto simp: start_auth_check_def split: if_splits)
  moreover have "\<exists>enclave signer. vs_enclave_hash_hex config = Some enclave \<and> vs_signer_hash_hex config = Some signer
      \<and> vc_hex_decode C enclave = Ok (tc_enclave_hash tee) \<and> vc_hex_decode C signer = Ok (tc_signer_hash tee)" if "vs_tee_platform config \<noteq> Mock"
    using tee that by (auto simp: start_tee_config_def measurement_of_def parse_config32_def split: option.splits result.splits if_splits)
  moreover have "vs_tee_platform config = AWSNitro \<longrightarrow>
      (\<exists>app bs. vs_application_hash_hex config = Some app \<and> vc_hex_decode C app = Ok bs \<and> tc_application_hash tee = Some bs)"
    using tee by (auto simp: start_tee_config_def parse_config32_def split: option.splits result.splits if_splits)
  moreover have "hp_platform (ag_hw_provider g) = vs_tee_platform config \<and> vs_tee_platform config \<noteq> Mock \<or> vs_allow_simulated config"
    using real start_generator_Mock [OF g] p by (cases "vs_tee_platform config = Mock") (auto simp: platform_gate_def split: if_splits)
  ultimately show ?thesis using real unfolding st config_g by blast
qed

section \<open>Addresses that differ in spelling\<close>

lemma xor_bytes_twice: "length xs \<le> length ys \<Longrightarrow> xor_bytes (xor_bytes xs ys) ys = xs"
  by (rule nth_equalityI) (auto simp: xor_bytes_def xor.assoc)

text \<open>
  Spelling hides stakers. The uniqueness check compares the strings of the addresses, the registry root their parsed bytes. Two
  stakers whose addresses are different strings for the same bytes, with the same shares, pass the uniqueness check and cancel out: the
  registry root is the one of the stakers without them.
\<close>
theorem spelling_variants_cancel:
  assumes "distinct (map ss_address (s1 # s2 # ss))" and "ss_shares s1 = ss_shares s2"
    and "parse_address_bytes C lowercase (ss_address s1) = parse_address_bytes C lowercase (ss_address s2)"
    and "\<And>x. length (vc_keccak256 C x) = 32"
  shows "validate_unique_staker_addresses (s1 # s2 # ss) = Ok ()
    \<and> compute_staker_registry_root C lowercase (s1 # s2 # ss) = compute_staker_registry_root C lowercase ss"
proof
  have "first_duplicate [] (s1 # s2 # ss) = None" using assms(1) by (simp only: first_duplicate_None) simp
  then show "validate_unique_staker_addresses (s1 # s2 # ss) = Ok ()" by (simp only: validate_unique_staker_addresses_def option.case)
  have same: "staker_registry_entry C lowercase s2 = staker_registry_entry C lowercase s1"
    using assms(2,3) by (simp add: staker_registry_entry_def)
  have "length (staker_registry_entry C lowercase s1) = 32" by (simp add: staker_registry_entry_def assms(4))
  then have "xor_bytes (xor_bytes (replicate 32 0) (staker_registry_entry C lowercase s1)) (staker_registry_entry C lowercase s1) = replicate 32 0"
    by (intro xor_bytes_twice) simp
  then show "compute_staker_registry_root C lowercase (s1 # s2 # ss) = compute_staker_registry_root C lowercase ss"
    using assms(2) by (simp add: compute_staker_registry_root_def xor_accumulate_def same)
qed

section \<open>A mock service\<close>

definition hex_value :: "char \<Rightarrow> nat" where
  "hex_value c = (let n = of_char c in if n < 58 then n - 48 else n - 87)"

fun demo_hex_decode :: "string \<Rightarrow> (string, bytes) result" where
  "demo_hex_decode [] = Ok []"
| "demo_hex_decode [c] = Err ''odd''"
| "demo_hex_decode (c # d # cs) =
     (case demo_hex_decode cs of Err e \<Rightarrow> Err e | Ok bs \<Rightarrow> Ok (of_nat (16 * hex_value c + hex_value d) # bs))"

definition demo_vault_crypto :: vault_crypto where
  "demo_vault_crypto =
     \<lparr>vc_sha256 = demo_digest, vc_keccak256 = demo_digest, vc_hex_decode = demo_hex_decode,
      vc_k256_key_error = (\<lambda>_. None), vc_k256_sign = (\<lambda>_ _. Ok (replicate 32 0, replicate 32 0, 0)), vc_k256_public = (\<lambda>_. [7]),
      vc_k256_signature_error = (\<lambda>_. None), vc_k256_recovery_id_error = (\<lambda>_. None), vc_k256_recover = (\<lambda>_ _ _. Ok [7]),
      vc_p256_key_error = (\<lambda>_. None), vc_p256_sign = (\<lambda>_ _. Ok (replicate 32 0, replicate 32 0)), vc_p256_point = (\<lambda>_. ([1], [2]))\<rparr>"

lemma hex_value_digit: "d < 16 \<Longrightarrow> hex_value (hex_digit d) = d"
  by (simp add: hex_value_def hex_digit_def Let_def)

lemma demo_crypto_laws:
  "hex_lawful demo_vault_crypto" "digests_of_32 demo_vault_crypto" "recoverable demo_vault_crypto key" "length (vc_keccak256 demo_vault_crypto x) = 32"
proof -
  have "demo_hex_decode (hex_encode bs) = Ok bs" for bs
  proof (induction bs)
    case (Cons b bs)
    have "unat b div 16 < 16" using unat_bound8 [of b] by simp
    then have "hex_value (hex_digit (unat b div 16)) = unat b div 16" "hex_value (hex_digit (unat b mod 16)) = unat b mod 16"
      by (simp_all add: hex_value_digit)
    then show ?case using Cons by (simp add: hex_encode_def)
  qed (simp add: hex_encode_def)
  then show "hex_lawful demo_vault_crypto" by (simp add: hex_lawful_def demo_vault_crypto_def)
qed (simp_all add: digests_of_32_def recoverable_def demo_vault_crypto_def demo_digest_def)

definition demo_tee :: tee_config where
  "demo_tee = \<lparr>tc_platform = Mock, tc_enclave_hash = replicate 32 0xAE, tc_signer_hash = replicate 32 0x51, tc_application_hash = None,
     tc_allow_simulated = True, tc_signing_key = [3]\<rparr>"

definition demo_generator :: attestation_generator where
  "demo_generator =
     \<lparr>ag_config = demo_tee, ag_nonce_counter = 0,
      ag_hw_provider = mock_hardware_provider demo_vault_crypto [4] demo_tee (replicate 31 0 @ [2]),
      ag_platform_key_attestation =
        \<lparr>ka_platform_key_x = [1], ka_platform_key_y = [2], ka_platform_id = 255, ka_vendor_sig_r = replicate 32 0, ka_vendor_sig_s = replicate 32 0\<rparr>\<rparr>"

definition demo_service :: app_state where
  "demo_service = \<lparr>as_attestation_gen = demo_generator, as_total_attestations = 0, as_current_epoch = 1,
     as_config = vault_service_config_default\<lparr>vs_auth_token := Some ''secret''\<rparr>, as_metrics = metrics_state_new\<rparr>"

lemma demo_vault_generates: "\<exists>g d. attestation_generate demo_vault_crypto t payload demo_generator = (g, Ok d)"
  by (simp add: attestation_generate_def Let_def demo_generator_def platform_gate_def mock_hardware_provider_def mock_generate_report_def
      demo_tee_def sign_digest_def generate_evidence_def generate_sgx_evidence_def signed_evidence_def p256_sign_report_body_def demo_vault_crypto_def)

lemma demo_starts:
  "start_server demo_vault_crypto \<lparr>vf_remote_attestation = False, vf_mock_tee = True\<rparr> (\<lambda>_ _. ag_hw_provider demo_generator) [3] [4]
     (vault_service_config_default\<lparr>vs_auth_token := Some ''secret''\<rparr>) = Ok demo_service"
  by (simp add: start_server_def start_auth_check_def vault_service_config_default_def start_tee_config_def measurement_of_def start_generator_def
      generator_or_fail_def generator_new_def generator_init_def platform_gate_def mock_hardware_provider_def mock_generate_platform_key_def vendor_sign_def
      operator_pubkey_hex_def demo_service_def demo_generator_def demo_tee_def demo_vault_crypto_def)

theorem attestation_verifies_witness:
  "\<exists>g d key. attestation_generate demo_vault_crypto 10 [1] demo_generator = (g, Ok d) \<and> operator_pubkey_hex demo_vault_crypto demo_generator = Ok key
     \<and> vault_verify_attestation demo_vault_crypto 15 d (hex_encode (tc_enclave_hash (ag_config demo_generator))) 60 = Ok key"
proof -
  obtain g d where gd: "attestation_generate demo_vault_crypto 10 [1] demo_generator = (g, Ok d)" using demo_vault_generates by blast
  show ?thesis using attestation_verifies [OF gd demo_crypto_laws(1-3), of 15 60] gd by auto
qed

definition demo_reward_request :: calculate_rewards_request where
  "demo_reward_request = demo_rewards\<lparr>
     rq_stake_snapshot_hash := hex_encode (compute_stake_snapshot_hash demo_vault_crypto (rq_epoch demo_rewards) (rq_staker_stakes demo_rewards)),
     rq_validator_set_hash := hex_encode (compute_validator_set_hash demo_vault_crypto (rq_epoch demo_rewards) (rq_validators demo_rewards))\<rparr>"

lemma demo_reward_request_same:
  "rq_epoch demo_reward_request = rq_epoch demo_rewards" "rq_staker_stakes demo_reward_request = rq_staker_stakes demo_rewards"
  "rq_validators demo_reward_request = rq_validators demo_rewards" "rq_total_rewards demo_reward_request = rq_total_rewards demo_rewards"
  by (simp_all add: demo_reward_request_def)

lemma demo_within:
  "distinct (map ss_address (rq_staker_stakes demo_reward_request))" "sum_list (map ss_shares (rq_staker_stakes demo_reward_request)) \<noteq> 0"
  "\<forall>s\<in>set (rq_staker_stakes demo_reward_request). ss_delegated_to s \<noteq> [] \<and> ss_delegated_to s \<in> sv_address ` set (rq_validators demo_reward_request)"
  "sum_list (map ra_total_reward (allocations_of demo_reward_request)) \<le> rq_total_rewards demo_reward_request
     - muldiv (rq_total_rewards demo_reward_request) (ucast PROTOCOL_FEE_BPS) (ucast BPS_DENOMINATOR)"
proof -
  have "allocations_of demo_reward_request = allocations_of demo_rewards"
    by (simp add: allocations_of_def demo_reward_request_same allocation_of_def demo_reward_request_def cong: map_cong)
  then show "sum_list (map ra_total_reward (allocations_of demo_reward_request)) \<le> rq_total_rewards demo_reward_request
     - muldiv (rq_total_rewards demo_reward_request) (ucast PROTOCOL_FEE_BPS) (ucast BPS_DENOMINATOR)"
    by (simp only: demo_allocations demo_reward_request_same) (simp add: demo_rewards_def muldiv_def PROTOCOL_FEE_BPS_def BPS_DENOMINATOR_def)
qed (simp_all add: demo_reward_request_same demo_rewards_def demo_vault_validator_def)

lemma demo_rewards_check: "\<exists>resp. calculate_rewards_check demo_vault_crypto (as_config demo_service) demo_reward_request = Some (Ok resp)"
proof -
  let ?C = demo_vault_crypto and ?req = demo_reward_request
  have small: "length (rq_staker_stakes ?req) \<le> vs_max_stakers (as_config demo_service)"
    by (simp add: demo_reward_request_same demo_rewards_def demo_service_def vault_service_config_default_def)
  have unique: "validate_unique_staker_addresses (rq_staker_stakes ?req) = Ok ()"
    by (simp add: demo_reward_request_same demo_rewards_def validate_unique_staker_addresses_def)
  have hash: "check_hash ?C field noun (hex_encode h) h = Ok ()" if "length h = 32" for field noun h
    using that demo_crypto_laws(1) by (auto simp: check_hash_Ok hex_lawful_def hex_encode_Nil_iff)
  have sha: "length (vc_sha256 ?C x) = 32" for x using demo_crypto_laws(2) by (simp add: digests_of_32_def)
  have h1: "check_hash ?C ''stake_snapshot_hash'' ''stakers'' (rq_stake_snapshot_hash ?req) (compute_stake_snapshot_hash ?C (rq_epoch ?req) (rq_staker_stakes ?req)) = Ok ()"
    unfolding demo_reward_request_same by (simp add: demo_reward_request_def hash compute_stake_snapshot_hash_def sha)
  have h2: "check_hash ?C ''validator_set_hash'' ''validators'' (rq_validator_set_hash ?req) (compute_validator_set_hash ?C (rq_epoch ?req) (rq_validators ?req)) = Ok ()"
    unfolding demo_reward_request_same by (simp add: demo_reward_request_def hash compute_validator_set_hash_def sha)
  obtain resp0 where r0: "calculate_rewards (vc_sha256 ?C) (decode_some ?C) ?req = Some (Ok resp0)"
    using calculate_rewards_cases(2) [of ?req "vc_sha256 ?C" "decode_some ?C"] demo_within by blast
  show ?thesis unfolding rewards_check_Ok using small unique h1 h2 r0 by (intro exI [of _ resp0] conjI)
qed

lemma demo_rewards_answer: "\<exists>st resp. calculate_rewards_handler demo_vault_crypto (\<lambda>x. x) 10 demo_reward_request demo_service = Some (st, Ok resp)"
proof -
  let ?C = demo_vault_crypto and ?req = demo_reward_request
  obtain resp0 where check: "calculate_rewards_check ?C (as_config demo_service) ?req = Some (Ok resp0)" using demo_rewards_check by blast
  obtain g d where gd: "attestation_generate ?C 10 (reward_payload ?C (\<lambda>x. x) ?req resp0) demo_generator = (g, Ok d)" using demo_vault_generates by blast
  then have "attest ?C 10 (reward_payload ?C (\<lambda>x. x) ?req resp0) demo_service = (demo_service\<lparr>as_attestation_gen := g\<rparr>, Ok d)"
    by (simp add: attest_def demo_service_def)
  then show ?thesis using check by (simp add: calculate_rewards_handler_def)
qed

theorem rewards_attested_witness:
  "\<exists>st resp merkle_root. calculate_rewards_handler demo_vault_crypto (\<lambda>x. x) 10 demo_reward_request demo_service = Some (st, Ok resp)
     \<and> rr_merkle_root resp = hex_0x merkle_root \<and> distinct (map ss_address (rq_staker_stakes demo_reward_request))"
proof -
  obtain st resp where h: "calculate_rewards_handler demo_vault_crypto (\<lambda>x. x) 10 demo_reward_request demo_service = Some (st, Ok resp)"
    using demo_rewards_answer by blast
  show ?thesis using rewards_attested [OF h demo_crypto_laws(1,2,4)] h by blast
qed

text \<open>A service on SGX that listens to the network, with a relay and a token; its devices report their own platform.\<close>

definition demo_devices :: "tee_platform \<Rightarrow> vendor_attester \<Rightarrow> hardware_provider" where
  "demo_devices platform attester = (mock_hardware_provider demo_vault_crypto [4] demo_tee
     (case attester of RemoteVendorAttester url \<Rightarrow> ascii url | LocalVendorAttester key \<Rightarrow> key))\<lparr>hp_platform := platform\<rparr>"

definition demo_sgx_config :: vault_service_config where
  "demo_sgx_config = vault_service_config_default\<lparr>vs_listen_addr := ''0.0.0.0:8547'', vs_tee_platform := IntelSGX, vs_allow_simulated := False,
     vs_auth_token := Some ''secret'', vs_attestation_relay_url := Some ''https://relay'',
     vs_enclave_hash_hex := Some (hex_encode (replicate 32 1)), vs_signer_hash_hex := Some (hex_encode (replicate 32 2))\<rparr>"

lemma demo_sgx_starts:
  "\<exists>st. start_server demo_vault_crypto \<lparr>vf_remote_attestation = True, vf_mock_tee = False\<rparr> demo_devices [3] [4] demo_sgx_config = Ok st"
proof -
  have parse: "parse_config32 demo_vault_crypto field (hex_encode (replicate 32 b)) = Ok (replicate 32 b)" for field b
    using demo_crypto_laws(1) by (simp add: parse_config32_def hex_lawful_def)
  have keys: "vc_p256_key_error demo_vault_crypto k = None" "vc_p256_sign demo_vault_crypto k m = Ok (replicate 32 0, replicate 32 0)"
    "vc_p256_point demo_vault_crypto k = ([1], [2])" "vc_k256_key_error demo_vault_crypto k = None" for k m
    by (simp_all add: demo_vault_crypto_def)
  show ?thesis
    by (simp add: start_server_def start_auth_check_def demo_sgx_config_def vault_service_config_default_def start_tee_config_def measurement_of_def
        parse keys start_generator_def generator_or_fail_def generator_with_vendor_attester_def generator_init_def platform_gate_def demo_devices_def
        mock_hardware_provider_def mock_generate_platform_key_def vendor_sign_def operator_pubkey_hex_def)
qed

theorem start_fails_closed_witness:
  "\<exists>st. start_server demo_vault_crypto \<lparr>vf_remote_attestation = True, vf_mock_tee = False\<rparr> demo_devices [3] [4] demo_sgx_config = Ok st
     \<and> certified_through (demo_devices IntelSGX (RemoteVendorAttester ''https://relay'')) (as_attestation_gen st)
     \<and> hp_platform (ag_hw_provider (as_attestation_gen st)) = IntelSGX"
proof -
  obtain st where st: "start_server demo_vault_crypto \<lparr>vf_remote_attestation = True, vf_mock_tee = False\<rparr> demo_devices [3] [4] demo_sgx_config = Ok st"
    using demo_sgx_starts by blast
  have c: "vs_tee_platform demo_sgx_config = IntelSGX" "vs_attestation_relay_url demo_sgx_config = Some ''https://relay''"
    "\<not> vs_allow_simulated demo_sgx_config" by (simp_all add: demo_sgx_config_def)
  show ?thesis using start_fails_closed [OF st] st c by auto
qed

definition demo_lowercase :: "string \<Rightarrow> string" where
  "demo_lowercase = map (\<lambda>c. if c = CHR ''A'' then CHR ''a'' else c)"

theorem spelling_variants_cancel_witness:
  "compute_staker_registry_root demo_vault_crypto demo_lowercase
     [\<lparr>ss_address = ''0xAA'', ss_shares = 5, ss_delegated_to = ''v''\<rparr>, \<lparr>ss_address = ''0xaa'', ss_shares = 5, ss_delegated_to = ''v''\<rparr>]
   = compute_staker_registry_root demo_vault_crypto demo_lowercase []"
proof -
  let ?s = "\<lambda>a. \<lparr>ss_address = a, ss_shares = 5, ss_delegated_to = ''v''\<rparr>"
  have "distinct (map ss_address [?s ''0xAA'', ?s ''0xaa''])" by simp
  moreover have "parse_address_bytes demo_vault_crypto demo_lowercase (ss_address (?s ''0xAA'')) = parse_address_bytes demo_vault_crypto demo_lowercase (ss_address (?s ''0xaa''))"
    by (simp add: parse_address_bytes_def demo_lowercase_def)
  ultimately show ?thesis
    using spelling_variants_cancel [of "?s ''0xAA''" "?s ''0xaa''" "[]" demo_vault_crypto demo_lowercase] demo_crypto_laws(4) by simp
qed

end
