(* ===== verification/Vault_Concurrency.thy ===== *)
theory Vault_Concurrency
  imports Vault_Service_Properties
begin

text \<open>
  The service under interleaved and dropped requests: what its counters mean while handlers are under way, that no value of the
  nonce counter is taken twice, and that nothing is attested without the token.
\<close>

section \<open>Steps of a task\<close>

lemma generate_counts: "attestation_generate C now payload g = (g', r) \<Longrightarrow> g' = g\<lparr>ag_nonce_counter := ag_nonce_counter g + 1\<rparr>"
  by (auto simp: attestation_generate_def Let_def)

lemma attested_work_ops: "attested_work E config req = Some (payload, ops) \<Longrightarrow> \<exists>kind epoch. ops = attestation_ops kind epoch"
  by (cases req) (auto split: result.splits option.splits)

lemma auth_cases:
  obtains (denied) "auth_middleware path header st =
      (st\<lparr>as_metrics := (as_metrics st)\<lparr>me_auth_failures := me_auth_failures (as_metrics st) + 1\<rparr>\<rparr>, Err Unauthorized)"
  | (granted) "auth_middleware path header st = (st, Ok ())"
    "\<forall>token. vs_auth_token (as_config st) = Some token \<longrightarrow> public_path path \<or> header = Some (bearer_prefix @ token)"
proof (cases "snd (auth_middleware path header st)")
  case (Ok u)
  have token: "header = Some (bearer_prefix @ expected)" if "vs_auth_token (as_config st) = Some expected" "\<not> public_path path" for expected
  proof (cases header)
    case None
    then show ?thesis using Ok that by (simp add: auth_middleware_def bearer_prefix_def)
  next
    case (Some h)
    then have "take (length bearer_prefix) h = bearer_prefix \<and> drop (length bearer_prefix) h = expected"
      using Ok that by (auto simp: auth_middleware_def Let_def split: if_splits)
    then show ?thesis using append_take_drop_id [of "length bearer_prefix" h] Some by metis
  qed
  have "auth_middleware path header st = (st, Ok ())"
    using Ok by (auto simp: auth_middleware_def Let_def split: option.splits if_splits)
  then show thesis using token by (intro granted) blast+
next
  case (Err e)
  then show thesis using denied by (auto simp: auth_middleware_def Let_def split: option.splits if_splits)
qed

lemma task_step_cases:
  assumes "task_step E now elapsed t (st, b) = ((st', b'), t')"
  obtains (limiter) header req where "t = Arrived header req" "st' = st" "t' = None \<or> t' = Some (Limited header req)"
  | (refused) header req where "t = Limited header req" "t' = None"
      "st' = st\<lparr>as_metrics := (as_metrics st)\<lparr>me_auth_failures := me_auth_failures (as_metrics st) + 1\<rparr>\<rparr>"
  | (passed) header req where "t = Limited header req" "t' = Some (Admitted req)" "st' = st"
      "\<forall>token. vs_auth_token (as_config st) = Some token \<longrightarrow> public_path (request_path req) \<or> header = Some (bearer_prefix @ token)"
  | (idle) req where "t = Admitted req" "attested_work E (as_config st) req = None" "t' = None" "st' = st"
  | (generated) req payload ops where "t = Admitted req" "attested_work E (as_config st) req = Some (payload, ops)"
      "st' = st\<lparr>as_attestation_gen := (as_attestation_gen st)\<lparr>ag_nonce_counter := ag_nonce_counter (as_attestation_gen st) + 1\<rparr>\<rparr>"
      "t' = Some (Counting [AddError]) \<or> (\<exists>kind epoch. t' = Some (Counting (attestation_ops kind epoch)))"
  | (wrote) oper ops where "t = Counting (oper # ops)" "t' = Some (Counting ops)" "st' = service_op_step now oper st"
  | (ended) "t = Counting []" "t' = None" "st' = st"
proof (cases t)
  case (Arrived header req)
  then show thesis using assms by (intro limiter [of header req]) (auto simp: Let_def split: prod.splits result.splits if_splits)
next
  case (Limited header req)
  show thesis
  proof (cases rule: auth_cases [of "request_path req" header st])
    case denied
    then show thesis using assms Limited by (intro refused [of header req]) auto
  next
    case granted
    then show thesis using assms Limited by (intro passed [of header req]) auto
  qed
next
  case (Admitted req)
  show thesis
  proof (cases "attested_work E (as_config st) req")
    case None
    then show thesis using assms Admitted by (intro idle [of req]) auto
  next
    case (Some po)
    obtain payload ops where po: "po = (payload, ops)" by fastforce
    obtain g r where gr: "attestation_generate (ve_crypto E) now payload (as_attestation_gen st) = (g, r)" by fastforce
    show thesis
      using assms Admitted Some attested_work_ops [of E "as_config st" req payload ops] generate_counts [OF gr]
      by (intro generated [of req payload ops]) (auto simp: po gr split: result.splits)
  qed
next
  case (Counting ops)
  then show thesis using assms by (cases ops) (auto intro: wrote ended)
qed

text \<open>A handler running alone is its task running alone: the call of \<open>generate\<close>, then its writes in their order.\<close>

lemma handle_request_steps:
  assumes "task_step E now elapsed (Admitted req) (st, b) = ((st', b'), t')"
  shows "handle_request E now req st = (case t' of Some (Counting ops) \<Rightarrow> fold (service_op_step now) ops st' | _ \<Rightarrow> st')"
proof -
  have attest: "attest C now payload st =
      (case attestation_generate C now payload (as_attestation_gen st) of
         (g, Err e) \<Rightarrow> (service_op_step now AddError (st\<lparr>as_attestation_gen := g\<rparr>), Err (InternalServerError, ''attestation generation failed: '' @ show_attestation_error e))
       | (g, Ok d) \<Rightarrow> (st\<lparr>as_attestation_gen := g\<rparr>, Ok d))" for C payload
    by (auto simp: attest_def Let_def split: prod.splits result.splits)
  show ?thesis
    using assms
    by (cases req)
      (auto simp: select_validators_handler_def calculate_rewards_handler_def order_transactions_handler_def attest_delegation_handler_def
        attest Let_def count_attestation_def split: result.splits option.splits prod.splits)
qed

section \<open>Invariants of the runs\<close>

locale vault_invariant =
  fixes E :: vault_env
    and I :: "(string option \<times> vault_request) list \<Rightarrow> vault_system \<Rightarrow> bool"
  assumes arrive_keeps: "I arrivals s \<Longrightarrow> I (arrivals @ [(header, req)]) (s\<lparr>vy_tasks := add_mset (Arrived header req) (vy_tasks s)\<rparr>)"
    and move_keeps: "I arrivals s \<Longrightarrow> vy_tasks s = add_mset t ts \<Longrightarrow>
      task_step E now elapsed t (vy_state s, vy_bucket s) = ((st, b), t') \<Longrightarrow>
      I arrivals (s\<lparr>vy_state := st, vy_bucket := b, vy_tasks := ts + task_opt t', vy_nonces := vy_nonces s @ task_nonce E t (vy_state s)\<rparr>)"
    and drop_keeps: "I arrivals s \<Longrightarrow> vy_tasks s = add_mset t ts \<Longrightarrow> may_suspend t \<Longrightarrow>
      I arrivals (s\<lparr>vy_tasks := ts, vy_dropped := add_mset t (vy_dropped s)\<rparr>)"
begin

lemma run_keeps: "vault_run E s0 arrivals s \<Longrightarrow> I [] s0 \<Longrightarrow> I arrivals s"
  by (induction rule: vault_run.induct) (blast intro: arrive_keeps move_keeps drop_keeps)+

end

text \<open>The writes that a task has still to make.\<close>

fun owed_ops :: "vault_task \<Rightarrow> service_op list" where
  "owed_ops (Counting ops) = ops"
| "owed_ops _ = []"

definition owed :: "(service_op \<Rightarrow> bool) \<Rightarrow> vault_task multiset \<Rightarrow> u64" where
  "owed P ts = (\<Sum>t\<in>#ts. of_nat (length (filter P (owed_ops t))))"

definition is_CountKind :: "service_op \<Rightarrow> bool" where
  "is_CountKind oper \<longleftrightarrow> (\<exists>kind. oper = CountKind kind)"

definition kinds :: "metrics_state \<Rightarrow> u64" where
  "kinds m = me_validator_selections m + me_reward_calculations m + me_mev_orderings m + me_delegation_attestations m"

lemma owed_simps [simp]:
  "owed P {#} = 0" "owed P (ts + us) = owed P ts + owed P us"
  "owed P (add_mset t ts) = of_nat (length (filter P (owed_ops t))) + owed P ts"
  "owed P (task_opt None) = 0" "owed P (task_opt (Some t)) = of_nat (length (filter P (owed_ops t)))"
  by (simp_all add: owed_def task_opt_def)

lemma is_CountKind_simps [simp]:
  "\<not> is_CountKind AddTotal" "\<not> is_CountKind (SetEpoch e)" "is_CountKind (CountKind k)" "\<not> is_CountKind RecordTime" "\<not> is_CountKind AddError"
  by (simp_all add: is_CountKind_def)

lemma attestation_ops_counts:
  "length (filter ((=) AddTotal) (attestation_ops kind epoch)) = 1" "length (filter is_CountKind (attestation_ops kind epoch)) = 1"
  "length (filter ((=) AddError) (attestation_ops kind epoch)) = 0" "AddError \<notin> set (attestation_ops kind epoch)"
  by (cases epoch; simp add: attestation_ops_def)+

lemma kinds_bump: "kinds (bump_kind k m) = kinds m + 1" "me_total_errors (bump_kind k m) = me_total_errors m"
  by (cases k; simp add: kinds_def)+

text \<open>The books: every nonce taken is counted as an attestation or an error or is still owed as one, and every kind likewise.\<close>

definition books :: "vault_system \<Rightarrow> bool" where
  "books s \<longleftrightarrow>
     (let st = vy_state s; m = as_metrics st; all = vy_tasks s + vy_dropped s
      in ag_nonce_counter (as_attestation_gen st)
           = as_total_attestations st + me_total_errors m + owed ((=) AddTotal) all + owed ((=) AddError) all
         \<and> as_total_attestations st + owed ((=) AddTotal) all = kinds m + owed is_CountKind all)"

lemma books_move:
  assumes "books s" "vy_tasks s = add_mset t ts" "task_step E now elapsed t (vy_state s, vy_bucket s) = ((st, b), t')"
  shows "books (s\<lparr>vy_state := st, vy_bucket := b, vy_tasks := ts + task_opt t', vy_nonces := ns\<rparr>)"
  using assms(3)
proof (cases rule: task_step_cases)
  case (generated req payload ops)
  then show ?thesis using assms(1,2) by (auto simp: books_def Let_def attestation_ops_counts [simplified] algebra_simps)
next
  case (wrote oper ops)
  then show ?thesis using assms(1,2) by (cases oper) (auto simp: books_def Let_def kinds_bump algebra_simps, simp_all add: kinds_def)
qed (use assms(1,2) in \<open>auto simp: books_def Let_def kinds_def algebra_simps\<close>)

interpretation counters: vault_invariant E "\<lambda>_. books" for E
proof unfold_locales
  show "books (s\<lparr>vy_state := st, vy_bucket := b, vy_tasks := ts + task_opt t', vy_nonces := vy_nonces s @ task_nonce E t (vy_state s)\<rparr>)"
    if "books s" "vy_tasks s = add_mset t ts" "task_step E now elapsed t (vy_state s, vy_bucket s) = ((st, b), t')" for s t ts now elapsed st b t'
    using that by (rule books_move)
qed (auto simp: books_def Let_def algebra_simps)

text \<open>A failed generation is counted before the task can be dropped.\<close>

definition errors_alone :: "vault_task multiset \<Rightarrow> bool" where
  "errors_alone ts \<longleftrightarrow> (\<forall>t\<in>#ts. AddError \<in> set (owed_ops t) \<longrightarrow> t = Counting [AddError])"

lemma errors_alone_simps [simp]:
  "errors_alone {#}" "errors_alone (ts + us) \<longleftrightarrow> errors_alone ts \<and> errors_alone us"
  "errors_alone (add_mset t ts) \<longleftrightarrow> (AddError \<in> set (owed_ops t) \<longrightarrow> t = Counting [AddError]) \<and> errors_alone ts"
  by (auto simp: errors_alone_def)

interpretation failures: vault_invariant E "\<lambda>_ s. errors_alone (vy_tasks s) \<and> owed ((=) AddError) (vy_dropped s) = 0" for E
proof unfold_locales
  fix s t ts now elapsed st b t' and arrivals :: "(string option \<times> vault_request) list"
  assume I: "errors_alone (vy_tasks s) \<and> owed ((=) AddError) (vy_dropped s) = 0" and t: "vy_tasks s = add_mset t ts"
  show "errors_alone (vy_tasks (s\<lparr>vy_state := st, vy_bucket := b, vy_tasks := ts + task_opt t', vy_nonces := vy_nonces s @ task_nonce E t (vy_state s)\<rparr>))
      \<and> owed ((=) AddError) (vy_dropped (s\<lparr>vy_state := st, vy_bucket := b, vy_tasks := ts + task_opt t', vy_nonces := vy_nonces s @ task_nonce E t (vy_state s)\<rparr>)) = 0"
    if "task_step E now elapsed t (vy_state s, vy_bucket s) = ((st, b), t')"
    using that I t by (cases rule: task_step_cases) (auto simp: task_opt_def attestation_ops_counts)
  show "errors_alone (vy_tasks (s\<lparr>vy_tasks := ts, vy_dropped := add_mset t (vy_dropped s)\<rparr>))
      \<and> owed ((=) AddError) (vy_dropped (s\<lparr>vy_tasks := ts, vy_dropped := add_mset t (vy_dropped s)\<rparr>)) = 0" if "may_suspend t"
  proof -
    have "AddError \<notin> set (owed_ops t)" using I t that by auto
    then have "filter ((=) AddError) (owed_ops t) = []" by (auto simp: filter_empty_conv)
    then show ?thesis using I t by simp
  qed
qed auto

text \<open>The nonce counter takes each value once, in order.\<close>

definition nonces_in_order :: "vault_system \<Rightarrow> bool" where
  "nonces_in_order s \<longleftrightarrow> vy_nonces s = map of_nat [0..<length (vy_nonces s)]
     \<and> ag_nonce_counter (as_attestation_gen (vy_state s)) = of_nat (length (vy_nonces s))
     \<and> (vy_nonces s = [] \<longrightarrow> as_total_attestations (vy_state s) = 0 \<and> me_total_errors (as_metrics (vy_state s)) = 0
          \<and> (\<forall>t\<in>#vy_tasks s. owed_ops t = []))"

interpretation nonces: vault_invariant E "\<lambda>_. nonces_in_order" for E
proof unfold_locales
  fix s t ts now elapsed st b t'
  assume I: "nonces_in_order s" and t: "vy_tasks s = add_mset t ts" and step: "task_step E now elapsed t (vy_state s, vy_bucket s) = ((st, b), t')"
  from step show "nonces_in_order (s\<lparr>vy_state := st, vy_bucket := b, vy_tasks := ts + task_opt t', vy_nonces := vy_nonces s @ task_nonce E t (vy_state s)\<rparr>)"
  proof (cases rule: task_step_cases)
    case (wrote oper ops)
    then show ?thesis using I t by (cases oper) (auto simp: nonces_in_order_def)
  qed (use I t in \<open>auto simp: nonces_in_order_def task_opt_def\<close>)
qed (auto simp: nonces_in_order_def)

interpretation configuration: vault_invariant E "\<lambda>_ s. as_config (vy_state s) = config" for E config
proof unfold_locales
  fix s t ts now elapsed st b t'
  assume I: "as_config (vy_state s) = config" and step: "task_step E now elapsed t (vy_state s, vy_bucket s) = ((st, b), t')"
  from step show "as_config (vy_state (s\<lparr>vy_state := st, vy_bucket := b, vy_tasks := ts + task_opt t', vy_nonces := vy_nonces s @ task_nonce E t (vy_state s)\<rparr>)) = config"
  proof (cases rule: task_step_cases)
    case (wrote oper ops)
    then show ?thesis using I by (cases oper) auto
  qed (use I in auto)
qed auto

text \<open>The requests with the token that have arrived pay for the nonces taken and for the open tasks that may take one.\<close>

fun may_attest :: "string \<Rightarrow> vault_task \<Rightarrow> bool" where
  "may_attest token (Arrived header req) \<longleftrightarrow> header = Some (bearer_prefix @ token)"
| "may_attest token (Limited header req) \<longleftrightarrow> header = Some (bearer_prefix @ token)"
| "may_attest token (Admitted req) \<longleftrightarrow> \<not> public_path (request_path req)"
| "may_attest token (Counting ops) \<longleftrightarrow> False"

definition with_token :: "string \<Rightarrow> (string option \<times> vault_request) list \<Rightarrow> (string option \<times> vault_request) list" where
  "with_token token arrivals = filter (\<lambda>(header, req). header = Some (bearer_prefix @ token)) arrivals"

definition paid_for :: "string \<Rightarrow> (string option \<times> vault_request) list \<Rightarrow> vault_system \<Rightarrow> bool" where
  "paid_for token arrivals s \<longleftrightarrow> vs_auth_token (as_config (vy_state s)) = Some token
     \<and> length (vy_nonces s) + size (filter_mset (may_attest token) (vy_tasks s)) \<le> length (with_token token arrivals)"

lemma public_work: "attested_work E config req = Some w \<Longrightarrow> \<not> public_path (request_path req)"
  by (cases req) (simp_all add: public_path_def)

interpretation tokens: vault_invariant E "paid_for token" for E token
proof unfold_locales
  fix s t ts now elapsed st b t' arrivals
  assume I: "paid_for token arrivals s" and t: "vy_tasks s = add_mset t ts" and step: "task_step E now elapsed t (vy_state s, vy_bucket s) = ((st, b), t')"
  from step show "paid_for token arrivals (s\<lparr>vy_state := st, vy_bucket := b, vy_tasks := ts + task_opt t', vy_nonces := vy_nonces s @ task_nonce E t (vy_state s)\<rparr>)"
  proof (cases rule: task_step_cases)
    case (wrote oper ops)
    then show ?thesis using I t by (cases oper) (auto simp: paid_for_def task_opt_def)
  next
    case (generated req payload ops)
    then show ?thesis using I t public_work [OF generated(2)] by (auto simp: paid_for_def task_opt_def)
  qed (use I t in \<open>auto simp: paid_for_def task_opt_def split: if_splits\<close>)
qed (auto simp: paid_for_def with_token_def split: if_splits)

lemma start_system:
  assumes "start_server C features devices random_key platform_key config = Ok st"
  defines "s \<equiv> vault_system_new st"
  shows "as_config (vy_state s) = config" "books s" "errors_alone (vy_tasks s) \<and> owed ((=) AddError) (vy_dropped s) = 0" "nonces_in_order s"
    "vs_auth_token config = Some token \<Longrightarrow> paid_for token [] s"
proof -
  have init: "generator_init tee provider = Ok g \<Longrightarrow> ag_nonce_counter g = 0" for tee provider g
    by (auto simp: generator_init_def Let_def split: option.splits result.splits)
  have gen: "start_generator C features devices platform_key config tee = Ok g \<Longrightarrow> ag_nonce_counter g = 0" for tee g
    by (auto simp: start_generator_def generator_or_fail_def generator_new_def generator_with_vendor_attester_def init
        split: option.splits result.splits if_splits)
  obtain tee g where g: "start_generator C features devices platform_key config tee = Ok g"
    and st: "st = \<lparr>as_attestation_gen = g, as_total_attestations = 0, as_current_epoch = 1, as_config = config, as_metrics = metrics_state_new\<rparr>"
    using assms(1) by (auto simp: start_server_def split: option.splits result.splits)
  show "as_config (vy_state s) = config" "books s" "errors_alone (vy_tasks s) \<and> owed ((=) AddError) (vy_dropped s) = 0" "nonces_in_order s"
    "vs_auth_token config = Some token \<Longrightarrow> paid_for token [] s"
    using gen [OF g] by (simp_all add: s_def vault_system_new_def st books_def kinds_def metrics_state_new_def nonces_in_order_def paid_for_def with_token_def)
qed

lemma owed_nothing: "\<forall>t\<in>#ts. owed_ops t = [] \<Longrightarrow> owed P ts = 0"
  by (induction ts) simp_all

lemma of_nat_upt_distinct: "n \<le> 2 ^ 64 \<Longrightarrow> distinct (map (of_nat :: nat \<Rightarrow> u64) [0..<n])"
proof -
  assume "n \<le> 2 ^ 64"
  then have "inj_on (of_nat :: nat \<Rightarrow> u64) {0..<n}"
    by (intro inj_on_inverseI [where g = unat]) (simp add: unat_of_nat take_bit_nat_eq_self)
  then show ?thesis by (simp add: distinct_map)
qed

section \<open>Every attestation is accounted for\<close>

text \<open>
  C28. Every attestation is accounted for, and none is made without the token. Take any run of a service that started: requests arrive at
  any time, their steps interleave in any order, and a request may be dropped wherever it awaits. The configuration does not
  change. The values of the nonce counter are taken in order, each once below 2^64. Modulo 2^64, the number of nonces taken is the
  attestations counted, plus the errors counted, plus the attestations that handlers which are under way or were dropped have not
  counted, plus the errors not yet counted by a handler under way; and attestations counted or owed equal the four counters by
  kind with what is owed to them. So once every handler that attested has
  made its writes, attestations plus errors are the nonces, and attestations are the sum of the counters. Errors
  are here the failed generations, which alone \<open>total_errors\<close> counts. With a
  token configured, at most as many nonces were taken as requests arrived that carried it, and before the first nonce no attestation is counted.
\<close>
theorem attestations_accounted:
  assumes "start_server C features devices random_key platform_key config = Ok st0"
    and "vault_run E (vault_system_new st0) arrivals s"
  shows "let st = vy_state s; m = as_metrics st; nonce = ag_nonce_counter (as_attestation_gen st); all = vy_tasks s + vy_dropped s
         in as_config st = config
            \<and> vy_nonces s = map of_nat [0..<length (vy_nonces s)] \<and> nonce = of_nat (length (vy_nonces s))
            \<and> (length (vy_nonces s) \<le> 2 ^ 64 \<longrightarrow> distinct (vy_nonces s))
            \<and> nonce = as_total_attestations st + me_total_errors m + owed ((=) AddTotal) all + owed ((=) AddError) (vy_tasks s)
            \<and> as_total_attestations st + owed ((=) AddTotal) all
                = me_validator_selections m + me_reward_calculations m + me_mev_orderings m + me_delegation_attestations m + owed is_CountKind all
            \<and> ((\<forall>t\<in>#all. owed_ops t = []) \<longrightarrow> nonce = as_total_attestations st + me_total_errors m
                \<and> as_total_attestations st
                    = me_validator_selections m + me_reward_calculations m + me_mev_orderings m + me_delegation_attestations m)
            \<and> (\<forall>token. vs_auth_token config = Some token \<longrightarrow> length (vy_nonces s) \<le> length (with_token token arrivals))
            \<and> (vy_nonces s = [] \<longrightarrow> as_total_attestations st = 0)"
proof -
  note start = start_system [OF assms(1)]
  have c: "as_config (vy_state s) = config" using configuration.run_keeps [OF assms(2)] start(1) .
  have n: "nonces_in_order s" using nonces.run_keeps [OF assms(2)] start(4) .
  have b: "books s" using counters.run_keeps [OF assms(2)] start(2) .
  have e: "owed ((=) AddError) (vy_dropped s) = 0" using failures.run_keeps [OF assms(2)] start(3) by blast
  have t: "paid_for token arrivals s" if "vs_auth_token config = Some token" for token
    using tokens.run_keeps [OF assms(2)] start(5) that by blast
  have distinct: "distinct (vy_nonces s)" if "length (vy_nonces s) \<le> 2 ^ 64"
  proof -
    have "vy_nonces s = map of_nat [0..<length (vy_nonces s)]" using n by (simp add: nonces_in_order_def)
    then show ?thesis using of_nat_upt_distinct [OF that] by metis
  qed
  have settled: "owed P (vy_tasks s + vy_dropped s) = 0" "owed P (vy_tasks s) = 0" if "\<forall>t\<in>#vy_tasks s + vy_dropped s. owed_ops t = []" for P
    using owed_nothing [of "vy_tasks s" P] owed_nothing [of "vy_dropped s" P] that by auto
  show ?thesis
    unfolding Let_def
  proof (intro conjI allI impI)
    show "vy_nonces s = map of_nat [0..<length (vy_nonces s)]" using n by (simp add: nonces_in_order_def)
    show "length (vy_nonces s) \<le> length (with_token token arrivals)" if "vs_auth_token config = Some token" for token
      using t [OF that] by (simp add: paid_for_def)
  qed (use c n b e distinct settled in \<open>simp_all add: nonces_in_order_def books_def kinds_def Let_def\<close>)
qed

section \<open>A dropped request\<close>

definition demo_vault_env :: vault_env where
  "demo_vault_env = \<lparr>ve_crypto = demo_vault_crypto, ve_logn = (\<lambda>x. x), ve_f64_be = (\<lambda>_. replicate 8 0), ve_lowercase = (\<lambda>x. x), ve_to_json = (\<lambda>_. [])\<rparr>"

definition demo_arrivals :: "(string option \<times> vault_request) list" where
  "demo_arrivals = [(Some ''Bearer secret'', CalculateRewards demo_reward_request), (Some ''Bearer guess'', CalculateRewards demo_reward_request)]"

lemma demo_dropped_run:
  "\<exists>s. vault_run demo_vault_env (vault_system_new demo_service) demo_arrivals s
     \<and> vy_tasks s = {#} \<and> vy_dropped s = {#Counting (attestation_ops RewardCalculations None)#} \<and> vy_nonces s = [0]
     \<and> as_total_attestations (vy_state s) = 0 \<and> me_total_errors (as_metrics (vy_state s)) = 0 \<and> me_auth_failures (as_metrics (vy_state s)) = 1"
proof -
  let ?E = demo_vault_env and ?req = "CalculateRewards demo_reward_request" and ?s0 = "vault_system_new demo_service"
    and ?good = "Some ''Bearer secret''" and ?bad = "Some ''Bearer guess''" and ?b = "vault_bucket_new 0"
    and ?st1 = "demo_service\<lparr>as_attestation_gen := demo_generator\<lparr>ag_nonce_counter := 1\<rparr>\<rparr>"
    and ?ops = "attestation_ops RewardCalculations None"
  have config: "vs_rate_limit_rps (as_config demo_service) = 0" "vs_auth_token (as_config demo_service) = Some ''secret''"
    "as_attestation_gen demo_service = demo_generator" "ag_nonce_counter demo_generator = 0"
    by (simp_all add: demo_service_def vault_service_config_default_def demo_generator_def)
  obtain resp where "calculate_rewards_check demo_vault_crypto (as_config demo_service) demo_reward_request = Some (Ok resp)"
    using demo_rewards_check by blast
  then obtain payload where work: "attested_work ?E (as_config demo_service) ?req = Some (payload, ?ops)" by (simp add: demo_vault_env_def)
  obtain g d where gd: "attestation_generate demo_vault_crypto 10 payload demo_generator = (g, Ok d)" using demo_vault_generates by blast
  then have g: "g = demo_generator\<lparr>ag_nonce_counter := 1\<rparr>" using generate_counts [OF gd] by (simp add: config)
  have crypto: "ve_crypto ?E = demo_vault_crypto" by (simp add: demo_vault_env_def)
  let ?sys = "\<lambda>st ts ns. \<lparr>vy_state = st, vy_bucket = ?b, vy_tasks = ts, vy_dropped = {#}, vy_nonces = ns\<rparr>"
  have new: "?s0 = ?sys demo_service {#} []" by (simp add: vault_system_new_def config)
  have r1: "vault_run ?E ?s0 [(?good, ?req)] (?sys demo_service {#Arrived ?good ?req#} [])"
    using vault_run.arrive [OF vault_run.start, of ?E ?s0 ?good ?req] by (simp add: new)
  have r2: "vault_run ?E ?s0 [(?good, ?req)] (?sys demo_service {#Limited ?good ?req#} [])"
    using vault_run.move [OF r1, of "Arrived ?good ?req" "{#}" 10 "Fin 1" demo_service ?b] by (simp add: config task_opt_def)
  have r3: "vault_run ?E ?s0 demo_arrivals (?sys demo_service {#Limited ?good ?req, Arrived ?bad ?req#} [])"
    using vault_run.arrive [OF r2, of ?bad ?req] by (simp add: demo_arrivals_def add_mset_commute)
  have r4: "vault_run ?E ?s0 demo_arrivals (?sys demo_service {#Admitted ?req, Arrived ?bad ?req#} [])"
    using vault_run.move [OF r3, of "Limited ?good ?req" "{#Arrived ?bad ?req#}" 10 "Fin 1" demo_service ?b]
    by (simp add: auth_middleware_def config public_path_def bearer_prefix_def task_opt_def add_mset_commute)
  have r5: "vault_run ?E ?s0 demo_arrivals (?sys demo_service {#Admitted ?req, Limited ?bad ?req#} [])"
    using vault_run.move [OF r4, of "Arrived ?bad ?req" "{#Admitted ?req#}" 10 "Fin 1" demo_service ?b]
    by (simp add: config task_opt_def add_mset_commute)
  have r6: "vault_run ?E ?s0 demo_arrivals (?sys ?st1 {#Counting ?ops, Limited ?bad ?req#} [0])"
    using vault_run.move [OF r5, of "Admitted ?req" "{#Limited ?bad ?req#}" 10 "Fin 1" ?st1 ?b "Some (Counting ?ops)"] gd
    by (simp add: work config g task_opt_def crypto add_mset_commute del: attested_work.simps)
  have r7: "vault_run ?E ?s0 demo_arrivals ((?sys ?st1 {#Limited ?bad ?req#} [0])\<lparr>vy_dropped := {#Counting ?ops#}\<rparr>)"
    using vault_run.drop [OF r6, of "Counting ?ops" "{#Limited ?bad ?req#}"] by (simp add: attestation_ops_def)
  let ?st2 = "?st1\<lparr>as_metrics := metrics_state_new\<lparr>me_auth_failures := 1\<rparr>\<rparr>"
  have refused: "auth_middleware ''/calculate-rewards'' ?bad ?st1 = (?st2, Err Unauthorized)"
    by (simp add: auth_middleware_def public_path_def bearer_prefix_def demo_service_def metrics_state_new_def)
  have "vault_run ?E ?s0 demo_arrivals ((?sys ?st2 {#} [0])\<lparr>vy_dropped := {#Counting ?ops#}\<rparr>)"
    using vault_run.move [OF r7, of "Limited ?bad ?req" "{#}" 10 "Fin 1" ?st2 ?b None] by (simp add: refused task_opt_def)
  then show ?thesis
    by (intro exI [of _ "(?sys ?st2 {#} [0])\<lparr>vy_dropped := {#Counting ?ops#}\<rparr>"] conjI) (simp_all add: demo_service_def metrics_state_new_def)
qed

text \<open>
  An attestation of a request that is dropped at the first lock of its counters is made and never counted: the nonce is taken, no counter moves and
  nothing is under way that would still count it.
\<close>

theorem dropped_attestation_uncounted:
  "\<exists>arrivals s. vault_run demo_vault_env (vault_system_new demo_service) arrivals s \<and> vy_tasks s = {#}
     \<and> ag_nonce_counter (as_attestation_gen (vy_state s)) = 1 \<and> as_total_attestations (vy_state s) = 0 \<and> me_total_errors (as_metrics (vy_state s)) = 0"
proof -
  obtain s where s: "vault_run demo_vault_env (vault_system_new demo_service) demo_arrivals s" "vy_tasks s = {#}" "vy_nonces s = [0]"
    "as_total_attestations (vy_state s) = 0 \<and> me_total_errors (as_metrics (vy_state s)) = 0"
    using demo_dropped_run by blast
  then have "nonces_in_order s" using nonces.run_keeps [OF s(1)] start_system(4) [OF demo_starts] by blast
  then show ?thesis using s unfolding nonces_in_order_def by (intro exI [of _ demo_arrivals] exI [of _ s]) simp
qed

theorem attestations_accounted_witness:
  "\<exists>s. vault_run demo_vault_env (vault_system_new demo_service) demo_arrivals s
     \<and> ag_nonce_counter (as_attestation_gen (vy_state s)) = 1 \<and> owed ((=) AddTotal) (vy_dropped s) = 1
     \<and> length (vy_nonces s) \<le> length (with_token ''secret'' demo_arrivals)"
proof -
  obtain s where s: "vault_run demo_vault_env (vault_system_new demo_service) demo_arrivals s" "vy_tasks s = {#}"
    "vy_dropped s = {#Counting (attestation_ops RewardCalculations None)#}"
    "as_total_attestations (vy_state s) = 0 \<and> me_total_errors (as_metrics (vy_state s)) = 0"
    using demo_dropped_run by blast
  have "vs_auth_token (vault_service_config_default\<lparr>vs_auth_token := Some ''secret''\<rparr>) = Some ''secret''" by simp
  then show ?thesis
    using attestations_accounted [OF demo_starts s(1)] s unfolding Let_def by (auto simp: attestation_ops_def)
qed

end
