(* ===== verification/Vm_Precompile.thy ===== *)
theory Vm_Precompile
  imports Rust_Bytes Rust_Float
begin

text \<open>
  The interface of the pre-compiled contracts and their registries (\<open>vm/src/precompiles/mod.rs\<close>, \<open>registry.rs\<close>) and the cryptographic
  ones (\<open>crypto.rs\<close>). A value of the trait \<open>Precompile\<close> is a record of its methods. The libraries behind them are the record
  \<open>precompile_lib\<close>, the cargo features of the build the record \<open>vm_features\<close>. The locks of the dynamic registry are held for one
  call each, so its calls are atomic.
\<close>

section \<open>Results\<close>

datatype precompile_error =
    InvalidInputLength nat nat
  | InvalidInputFormat string
  | VerificationFailed string
  | OutOfGas u64 u64
  | NotFound u64
  | InternalError string
  | UnsupportedOperation string

record execution_result =
  er_output :: bytes
  er_gas_used :: u64
  er_success :: bool

type_synonym precompile_result = "(precompile_error, execution_result) result"

definition exec_success :: "bytes \<Rightarrow> u64 \<Rightarrow> execution_result" where
  "exec_success output gas_used = \<lparr>er_output = output, er_gas_used = gas_used, er_success = True\<rparr>"

definition exec_failure :: "u64 \<Rightarrow> execution_result" where
  "exec_failure gas_used = \<lparr>er_output = [], er_gas_used = gas_used, er_success = False\<rparr>"

record precompile =
  pc_address :: u64
  pc_name :: string
  pc_gas_cost :: "bytes \<Rightarrow> u64"
  pc_execute :: "bytes \<Rightarrow> u64 \<Rightarrow> precompile_result"
  pc_min_input_length :: nat
  pc_max_input_length :: nat

text \<open>\<open>PrecompileError as Display\<close>; the address of \<open>NotFound\<close> is printed with at least four hexadecimal digits.\<close>

definition hex_address :: "u64 \<Rightarrow> string" where
  "hex_address a =
     (let digits = dropWhile (\<lambda>c. c = CHR ''0'') (hex_encode (rev (le_bytes 8 a)))
      in ''0x'' @ replicate (4 - length digits) (CHR ''0'') @ digits)"

fun show_precompile_error :: "precompile_error \<Rightarrow> string" where
  "show_precompile_error (InvalidInputLength expected actual) =
     ''Invalid input length: expected '' @ show_nat expected @ '', got '' @ show_nat actual"
| "show_precompile_error (InvalidInputFormat s) = ''Invalid input format: '' @ s"
| "show_precompile_error (VerificationFailed s) = ''Verification failed: '' @ s"
| "show_precompile_error (OutOfGas required available) =
     ''Out of gas: required '' @ show_word required @ '', available '' @ show_word available"
| "show_precompile_error (NotFound a) = ''Precompile not found at address '' @ hex_address a"
| "show_precompile_error (InternalError s) = ''Internal error: '' @ s"
| "show_precompile_error (UnsupportedOperation s) = ''Unsupported operation: '' @ s"

definition in_quotes :: "string \<Rightarrow> string" where
  "in_quotes s = CHR 0x27 # s @ [CHR 0x27]"

section \<open>The build\<close>

record vm_features =
  bf_zkp :: bool
  bf_sgx :: bool
  bf_mock_tee :: bool

datatype dilithium_level = Level3 | Level5
datatype kyber_level = Kyber768 | Kyber1024

datatype dcap_result = DcapLibraryError string | DcapOk | DcapOutOfDate | DcapRevoked | DcapOther string

record precompile_lib =
  xl_sha256 :: "bytes \<Rightarrow> bytes"
  xl_keccak256 :: "bytes \<Rightarrow> bytes"
  xl_k256_recover :: "bytes \<Rightarrow> bytes \<Rightarrow> u8 \<Rightarrow> bytes option"
  xl_k256_verify :: "bytes \<Rightarrow> bytes \<Rightarrow> bytes \<Rightarrow> bool"
  xl_dilithium :: "dilithium_level \<Rightarrow> bytes \<Rightarrow> bytes \<Rightarrow> bytes \<Rightarrow> bool option"
  xl_kyber_ciphertext_ok :: "kyber_level \<Rightarrow> bytes \<Rightarrow> bool"
  xl_kyber_secret_ok :: "kyber_level \<Rightarrow> bytes \<Rightarrow> bool"
  xl_kyber_decapsulate :: "kyber_level \<Rightarrow> bytes \<Rightarrow> bytes \<Rightarrow> bytes"
  xl_ark_vk_error :: "bytes \<Rightarrow> string option"
  xl_ark_proof_error :: "bytes \<Rightarrow> string option"
  xl_ark_input_error :: "bytes \<Rightarrow> string option"
  xl_ark_verify :: "bytes \<Rightarrow> bytes \<Rightarrow> bytes list \<Rightarrow> (string, bool) result"
  xl_dcap :: "bytes \<Rightarrow> dcap_result"
  xl_cose_payload :: "bytes \<Rightarrow> (string, bytes option) result"
  xl_cbor_error :: "bytes \<Rightarrow> string option"

section \<open>Gas\<close>

definition SHA256_BASE :: u64 where "SHA256_BASE = 60"
definition SHA256_PER_WORD :: u64 where "SHA256_PER_WORD = 12"
definition ECDSA_RECOVER_GAS :: u64 where "ECDSA_RECOVER_GAS = 3000"
definition IDENTITY_BASE :: u64 where "IDENTITY_BASE = 15"
definition IDENTITY_PER_WORD :: u64 where "IDENTITY_PER_WORD = 3"
definition HYBRID_VERIFY_GAS :: u64 where "HYBRID_VERIFY_GAS = 13000"

definition word_gas_cost :: "u64 \<Rightarrow> u64 \<Rightarrow> nat \<Rightarrow> u64" where
  "word_gas_cost base per_word data_len = base + of_nat ((data_len + 31) div 32) * per_word"

text \<open>The check every \<open>execute\<close> begins with.\<close>

definition charge :: "u64 \<Rightarrow> u64 \<Rightarrow> precompile_result \<Rightarrow> precompile_result" where
  "charge gas gas_limit r = (if gas > gas_limit then Err (OutOfGas gas gas_limit) else r)"

text \<open>\<open>vec![0u8; 32]\<close> with \<open>output[31] = 1\<close> when valid.\<close>

definition verdict_word :: "bool \<Rightarrow> bytes" where
  "verdict_word valid = replicate 31 0 @ [if valid then 1 else 0]"

section \<open>Registries\<close>

record precompile_registry =
  pr_precompiles :: "(u64, precompile) hashmap"
  pr_gas_multiplier :: f64

definition registry_minimal :: precompile_registry where
  "registry_minimal = \<lparr>pr_precompiles = [], pr_gas_multiplier = f64_lit 1\<rparr>"

definition registry_register :: "precompile \<Rightarrow> precompile_registry \<Rightarrow> precompile_registry" where
  "registry_register p r = r\<lparr>pr_precompiles := hm_insert (pc_address p) p (pr_precompiles r)\<rparr>"

definition registry_get :: "precompile_registry \<Rightarrow> u64 \<Rightarrow> precompile option" where
  "registry_get r address = hm_get (pr_precompiles r) address"

definition is_precompile :: "precompile_registry \<Rightarrow> u64 \<Rightarrow> bool" where
  "is_precompile r address \<longleftrightarrow> hm_get (pr_precompiles r) address \<noteq> None"

text \<open>The lookup, the length and gas checks and the call, which both registries write out.\<close>

definition execute_at ::
    "(u64, precompile) hashmap \<Rightarrow> f64 \<Rightarrow> u64 \<Rightarrow> bytes \<Rightarrow> u64 \<Rightarrow> precompile_result" where
  "execute_at precompiles multiplier address input gas_limit =
     (case hm_get precompiles address of
        None \<Rightarrow> Err (NotFound address)
      | Some p \<Rightarrow>
          if length input < pc_min_input_length p
          then Err (InvalidInputLength (pc_min_input_length p) (length input))
          else if pc_max_input_length p > 0 \<and> length input > pc_max_input_length p
          then Err (InvalidInputLength (pc_max_input_length p) (length input))
          else
            let adjusted_gas = f64_as_word (f64_mul (u64_as_f64 (pc_gas_cost p input)) multiplier)
            in if adjusted_gas > gas_limit then Err (OutOfGas adjusted_gas gas_limit)
               else pc_execute p input gas_limit)"

definition registry_execute :: "precompile_registry \<Rightarrow> u64 \<Rightarrow> bytes \<Rightarrow> u64 \<Rightarrow> precompile_result" where
  "registry_execute r address input gas_limit =
     execute_at (pr_precompiles r) (pr_gas_multiplier r) address input gas_limit"

definition set_gas_multiplier :: "f64 \<Rightarrow> precompile_registry \<Rightarrow> precompile_registry" where
  "set_gas_multiplier multiplier r = r\<lparr>pr_gas_multiplier := multiplier\<rparr>"

record dynamic_registry =
  dr_precompiles :: "(u64, precompile) hashmap"
  dr_gas_multiplier :: f64
  dr_version :: u64

definition dynamic_new :: dynamic_registry where
  "dynamic_new = \<lparr>dr_precompiles = [], dr_gas_multiplier = f64_lit 1, dr_version = 0\<rparr>"

definition dynamic_register :: "precompile \<Rightarrow> dynamic_registry \<Rightarrow> dynamic_registry \<times> bool" where
  "dynamic_register p r =
     (if hm_get (dr_precompiles r) (pc_address p) \<noteq> None then (r, False)
      else (r\<lparr>dr_precompiles := hm_insert (pc_address p) p (dr_precompiles r), dr_version := dr_version r + 1\<rparr>, True))"

definition dynamic_unregister :: "u64 \<Rightarrow> dynamic_registry \<Rightarrow> dynamic_registry \<times> bool" where
  "dynamic_unregister address r =
     (if hm_get (dr_precompiles r) address \<noteq> None
      then (r\<lparr>dr_precompiles := hm_remove address (dr_precompiles r), dr_version := dr_version r + 1\<rparr>, True)
      else (r, False))"

definition dynamic_execute :: "dynamic_registry \<Rightarrow> u64 \<Rightarrow> bytes \<Rightarrow> u64 \<Rightarrow> precompile_result" where
  "dynamic_execute r address input gas_limit =
     execute_at (dr_precompiles r) (dr_gas_multiplier r) address input gas_limit"

definition dynamic_set_gas_multiplier :: "f64 \<Rightarrow> dynamic_registry \<Rightarrow> dynamic_registry" where
  "dynamic_set_gas_multiplier multiplier r = r\<lparr>dr_gas_multiplier := multiplier, dr_version := dr_version r + 1\<rparr>"

record precompile_info =
  pi_address :: u64
  pi_name :: string
  pi_min_input :: nat
  pi_max_input :: nat
  pi_base_gas :: u64

definition dynamic_info :: "dynamic_registry \<Rightarrow> u64 \<Rightarrow> precompile_info option" where
  "dynamic_info r address =
     map_option (\<lambda>p. \<lparr>pi_address = address, pi_name = pc_name p, pi_min_input = pc_min_input_length p,
                      pi_max_input = pc_max_input_length p, pi_base_gas = pc_gas_cost p []\<rparr>)
       (hm_get (dr_precompiles r) address)"

record registry_builder =
  rb_precompiles :: "precompile list"
  rb_gas_multiplier :: f64

definition builder_new :: registry_builder where
  "builder_new = \<lparr>rb_precompiles = [], rb_gas_multiplier = f64_lit 1\<rparr>"

definition builder_add :: "precompile \<Rightarrow> registry_builder \<Rightarrow> registry_builder" where
  "builder_add p b = b\<lparr>rb_precompiles := rb_precompiles b @ [p]\<rparr>"

definition with_gas_multiplier :: "f64 \<Rightarrow> registry_builder \<Rightarrow> registry_builder" where
  "with_gas_multiplier multiplier b = b\<lparr>rb_gas_multiplier := multiplier\<rparr>"

definition builder_build :: "registry_builder \<Rightarrow> dynamic_registry" where
  "builder_build b =
     foldl (\<lambda>r p. fst (dynamic_register p r)) (dynamic_set_gas_multiplier (rb_gas_multiplier b) dynamic_new)
       (rb_precompiles b)"

section \<open>Cryptographic precompiles\<close>

definition sha256_precompile :: "precompile_lib \<Rightarrow> precompile" where
  "sha256_precompile L =
     (let gas_cost = (\<lambda>input. word_gas_cost SHA256_BASE SHA256_PER_WORD (length input))
      in \<lparr>pc_address = 0x0002, pc_name = ''SHA256'', pc_gas_cost = gas_cost,
          pc_execute = (\<lambda>input gas_limit. charge (gas_cost input) gas_limit (Ok (exec_success (xl_sha256 L input) (gas_cost input)))),
          pc_min_input_length = 0, pc_max_input_length = 0\<rparr>)"

definition identity_precompile :: precompile where
  "identity_precompile =
     (let gas_cost = (\<lambda>input. word_gas_cost IDENTITY_BASE IDENTITY_PER_WORD (length input))
      in \<lparr>pc_address = 0x0004, pc_name = ''IDENTITY'', pc_gas_cost = gas_cost,
          pc_execute = (\<lambda>input gas_limit. charge (gas_cost input) gas_limit (Ok (exec_success input (gas_cost input)))),
          pc_min_input_length = 0, pc_max_input_length = 0\<rparr>)"

text \<open>\<open>hash (32) | v (32) | r (32) | s (32)\<close>; the recovered point is 65 bytes, its first the tag.\<close>

definition ecdsa_recover :: "precompile_lib \<Rightarrow> bytes \<Rightarrow> u64 \<Rightarrow> execution_result" where
  "ecdsa_recover L input gas =
     (if length input < 128 then exec_failure gas
      else
        let v_byte = input ! 63
        in if v_byte \<notin> {27, 28, 0, 1} then exec_failure gas
           else
             let rec_id = (if v_byte = 27 \<or> v_byte = 28 then v_byte - 27 else v_byte)
             in case xl_k256_recover L (slice 0 32 input) (slice 64 128 input) rec_id of
                  None \<Rightarrow> exec_failure gas
                | Some point \<Rightarrow> exec_success (replicate 12 0 @ slice 12 32 (xl_keccak256 L (drop 1 point))) gas)"

definition ecdsa_recover_precompile :: "precompile_lib \<Rightarrow> precompile" where
  "ecdsa_recover_precompile L =
     \<lparr>pc_address = 0x0001, pc_name = ''ECDSA_RECOVER'', pc_gas_cost = (\<lambda>_. ECDSA_RECOVER_GAS),
      pc_execute = (\<lambda>input gas_limit. charge ECDSA_RECOVER_GAS gas_limit (Ok (ecdsa_recover L input ECDSA_RECOVER_GAS))),
      pc_min_input_length = 128, pc_max_input_length = 0\<rparr>"

fun dilithium_public_key_size :: "dilithium_level \<Rightarrow> nat" where
  "dilithium_public_key_size Level3 = 1952"
| "dilithium_public_key_size Level5 = 2592"

fun dilithium_signature_size :: "dilithium_level \<Rightarrow> nat" where
  "dilithium_signature_size Level3 = 3293"
| "dilithium_signature_size Level5 = 4595"

fun dilithium_gas :: "dilithium_level \<Rightarrow> u64" where
  "dilithium_gas Level3 = 10000"
| "dilithium_gas Level5 = 15000"

definition dilithium_verify :: "precompile_lib \<Rightarrow> dilithium_level \<Rightarrow> bytes \<Rightarrow> u64 \<Rightarrow> execution_result" where
  "dilithium_verify L level input gas =
     (if length input < 4 then exec_failure gas
      else
        let msg_len = unat (le_word (slice 0 4 input) :: u32);
            pk_start = 4 + msg_len;
            pk_end = pk_start + dilithium_public_key_size level;
            sig_end = pk_end + dilithium_signature_size level
        in if length input < sig_end then exec_failure gas
           else case xl_dilithium L level (slice pk_start pk_end input) (slice pk_end sig_end input) (slice 4 pk_start input) of
                  None \<Rightarrow> exec_failure gas
                | Some valid \<Rightarrow> exec_success (verdict_word valid) gas)"

definition dilithium_verify_precompile :: "precompile_lib \<Rightarrow> dilithium_level \<Rightarrow> precompile" where
  "dilithium_verify_precompile L level =
     \<lparr>pc_address = (case level of Level3 \<Rightarrow> 0x0100 | Level5 \<Rightarrow> 0x0103),
      pc_name = (case level of Level3 \<Rightarrow> ''DILITHIUM3_VERIFY'' | Level5 \<Rightarrow> ''DILITHIUM5_VERIFY''),
      pc_gas_cost = (\<lambda>_. dilithium_gas level),
      pc_execute = (\<lambda>input gas_limit. charge (dilithium_gas level) gas_limit (Ok (dilithium_verify L level input (dilithium_gas level)))),
      pc_min_input_length = 4 + dilithium_public_key_size level + dilithium_signature_size level, pc_max_input_length = 0\<rparr>"

fun kyber_secret_key_size :: "kyber_level \<Rightarrow> nat" where
  "kyber_secret_key_size Kyber768 = 2400"
| "kyber_secret_key_size Kyber1024 = 3168"

fun kyber_ciphertext_size :: "kyber_level \<Rightarrow> nat" where
  "kyber_ciphertext_size Kyber768 = 1088"
| "kyber_ciphertext_size Kyber1024 = 1568"

fun kyber_gas :: "kyber_level \<Rightarrow> u64" where
  "kyber_gas Kyber768 = 5000"
| "kyber_gas Kyber1024 = 7000"

fun show_kyber :: "kyber_level \<Rightarrow> string" where
  "show_kyber Kyber768 = ''Kyber768''"
| "show_kyber Kyber1024 = ''Kyber1024''"

definition kyber_decaps :: "precompile_lib \<Rightarrow> kyber_level \<Rightarrow> bytes \<Rightarrow> u64 \<Rightarrow> precompile_result" where
  "kyber_decaps L level input gas =
     (let sk_end = kyber_secret_key_size level; min_len = sk_end + kyber_ciphertext_size level
      in if length input < min_len then Err (InvalidInputLength min_len (length input))
         else
           let secret_key = slice 0 sk_end input; ciphertext = slice sk_end min_len input
           in if \<not> xl_kyber_ciphertext_ok L level ciphertext
              then Err (InvalidInputFormat (''Invalid '' @ show_kyber level @ '' ciphertext''))
              else if \<not> xl_kyber_secret_ok L level secret_key
              then Err (InvalidInputFormat (''Invalid '' @ show_kyber level @ '' secret key''))
              else Ok (exec_success (xl_kyber_decapsulate L level ciphertext secret_key) gas))"

definition kyber_decaps_precompile :: "precompile_lib \<Rightarrow> kyber_level \<Rightarrow> precompile" where
  "kyber_decaps_precompile L level =
     \<lparr>pc_address = (case level of Kyber768 \<Rightarrow> 0x0101 | Kyber1024 \<Rightarrow> 0x0104), pc_name = (case level of Kyber768 \<Rightarrow> ''KYBER768_DECAPS'' | Kyber1024 \<Rightarrow> ''KYBER1024_DECAPS''),
      pc_gas_cost = (\<lambda>_. kyber_gas level),
      pc_execute = (\<lambda>input gas_limit. charge (kyber_gas level) gas_limit (kyber_decaps L level input (kyber_gas level))),
      pc_min_input_length = kyber_secret_key_size level + kyber_ciphertext_size level, pc_max_input_length = 0\<rparr>"

definition HYBRID_PUBLIC_KEY_SIZE :: nat where "HYBRID_PUBLIC_KEY_SIZE = 1 + 33 + 1 + 1952"
definition HYBRID_SIGNATURE_SIZE :: nat where "HYBRID_SIGNATURE_SIZE = 1 + 64 + 1 + 3293"

definition hybrid_verify :: "precompile_lib \<Rightarrow> bytes \<Rightarrow> u64 \<Rightarrow> execution_result" where
  "hybrid_verify L input gas =
     (if length input < 5 then exec_failure gas
      else
        let threat_level = input ! 0;
            msg_len = unat (le_word (slice 1 5 input) :: u32);
            msg_end = 5 + msg_len;
            pk_end = msg_end + HYBRID_PUBLIC_KEY_SIZE;
            sig_end = pk_end + HYBRID_SIGNATURE_SIZE
        in if length input < sig_end then exec_failure gas
           else
             let message = slice 5 msg_end input;
                 public_key = slice msg_end pk_end input;
                 signature = slice pk_end sig_end input;
                 ecdsa_valid = xl_k256_verify L (slice 1 34 public_key) (xl_sha256 L message) (slice 1 65 signature);
                 dilithium_valid =
                   (xl_dilithium L Level3 (slice 35 1987 public_key) (slice 66 3359 signature) message = Some True);
                 valid = (ecdsa_valid \<and> dilithium_valid)
             in exec_success (replicate 30 0 @ [threat_level, if valid then 1 else 0]) gas)"

definition hybrid_verify_precompile :: "precompile_lib \<Rightarrow> precompile" where
  "hybrid_verify_precompile L =
     \<lparr>pc_address = 0x0102, pc_name = ''HYBRID_VERIFY'', pc_gas_cost = (\<lambda>_. HYBRID_VERIFY_GAS),
      pc_execute = (\<lambda>input gas_limit. charge HYBRID_VERIFY_GAS gas_limit (Ok (hybrid_verify L input HYBRID_VERIFY_GAS))),
      pc_min_input_length = 1 + 4 + HYBRID_PUBLIC_KEY_SIZE + HYBRID_SIGNATURE_SIZE, pc_max_input_length = 0\<rparr>"

end
