(* ===== verification/Vm_Zkp.thy ===== *)
theory Vm_Zkp
  imports Vm_Precompile
begin

text \<open>
  The zero-knowledge precompiles (\<open>vm/src/precompiles/zkp.rs\<close>). A function with two bodies under \<open>cfg(feature = "zkp")\<close> reads the feature
  from its first argument. The bodies of the feature that stand for a missing backend accept, as they do in the source.
\<close>

section \<open>Groth16\<close>

datatype groth16_curve = Bn254 | Bls12_381

definition GROTH16_BASE :: u64 where "GROTH16_BASE = 150000"
definition GROTH16_PER_PUBLIC_INPUT :: u64 where "GROTH16_PER_PUBLIC_INPUT = 20000"
definition PLONK_BASE :: u64 where "PLONK_BASE = 200000"
definition EZKL_BASE :: u64 where "EZKL_BASE = 250000"
definition BATCH_GROTH16_BASE :: u64 where "BATCH_GROTH16_BASE = 100000"
definition BATCH_GROTH16_PER_PROOF :: u64 where "BATCH_GROTH16_PER_PROOF = 80000"
definition BATCH_GROTH16_PER_PUBLIC_INPUT :: u64 where "BATCH_GROTH16_PER_PUBLIC_INPUT = 12000"
definition STARK_BASE :: u64 where "STARK_BASE = 300000"
definition ZKP_UNIFIED_OVERHEAD :: u64 where "ZKP_UNIFIED_OVERHEAD = 5000"

fun groth16_vk_size :: "groth16_curve \<Rightarrow> nat" where
  "groth16_vk_size Bn254 = 544"
| "groth16_vk_size Bls12_381 = 816"

fun groth16_proof_size :: "groth16_curve \<Rightarrow> nat" where
  "groth16_proof_size Bn254 = 192"
| "groth16_proof_size Bls12_381 = 384"

text \<open>The complete 32-byte words of a sequence; a rest is dropped.\<close>

definition words32 :: "bytes \<Rightarrow> bytes list" where
  "words32 bs = map (\<lambda>i. slice (i * 32) (i * 32 + 32) bs) [0..<length bs div 32]"

fun parse_inputs :: "precompile_lib \<Rightarrow> nat \<Rightarrow> bytes list \<Rightarrow> (string, unit) result" where
  "parse_inputs L i [] = Ok ()"
| "parse_inputs L i (w # ws) =
     (case xl_ark_input_error L w of
        Some e \<Rightarrow> Err (''Failed to deserialize public input '' @ show_nat i @ '': '' @ e)
      | None \<Rightarrow> parse_inputs L (i + 1) ws)"

definition verify_groth16_proof :: "vm_features \<Rightarrow> precompile_lib \<Rightarrow> bytes \<Rightarrow> bytes \<Rightarrow> bytes \<Rightarrow> (string, bool) result" where
  "verify_groth16_proof F L vk_bytes proof_bytes public_inputs_bytes =
     (if \<not> bf_zkp F then Err (''Groth16 verification requires '' @ in_quotes ''zkp'' @ '' feature to be enabled'')
      else case xl_ark_vk_error L vk_bytes of
             Some e \<Rightarrow> Err (''Failed to deserialize verifying key: '' @ e)
           | None \<Rightarrow>
               (case xl_ark_proof_error L proof_bytes of
                  Some e \<Rightarrow> Err (''Failed to deserialize proof: '' @ e)
                | None \<Rightarrow>
                    let public_inputs = words32 public_inputs_bytes
                    in case parse_inputs L 0 public_inputs of
                         Err e \<Rightarrow> Err e
                       | Ok _ \<Rightarrow>
                           (case xl_ark_verify L vk_bytes proof_bytes public_inputs of
                              Err e \<Rightarrow> Err (''Proof verification error: '' @ e)
                            | Ok is_valid \<Rightarrow> Ok is_valid)))"

text \<open>\<open>match ... { Ok(result) => result, Err(e) => { warn; false } }\<close>.\<close>

definition ok_true :: "(string, bool) result \<Rightarrow> bool" where
  "ok_true r = (case r of Ok b \<Rightarrow> b | Err _ \<Rightarrow> False)"

definition groth16_gas_cost :: "groth16_curve \<Rightarrow> bytes \<Rightarrow> u64" where
  "groth16_gas_cost curve input =
     (let fixed_overhead = groth16_vk_size curve + groth16_proof_size curve
      in if length input \<le> fixed_overhead then GROTH16_BASE
         else GROTH16_BASE + of_nat ((length input - fixed_overhead) div 32) * GROTH16_PER_PUBLIC_INPUT)"

definition groth16_min_length :: "groth16_curve \<Rightarrow> nat" where
  "groth16_min_length curve = groth16_vk_size curve + groth16_proof_size curve + 32"

definition groth16_execute ::
    "vm_features \<Rightarrow> precompile_lib \<Rightarrow> groth16_curve \<Rightarrow> bytes \<Rightarrow> u64 \<Rightarrow> precompile_result" where
  "groth16_execute F L curve input gas_limit =
     (let gas = groth16_gas_cost curve input; min_len = groth16_min_length curve
      in charge gas gas_limit
           (if length input < min_len then Err (InvalidInputLength min_len (length input))
            else
              let vk_end = groth16_vk_size curve;
                  proof_end = vk_end + groth16_proof_size curve;
                  valid = ok_true (verify_groth16_proof F L (slice 0 vk_end input) (slice vk_end proof_end input) (drop proof_end input))
              in Ok (exec_success (verdict_word valid) gas)))"

definition groth16_precompile :: "vm_features \<Rightarrow> precompile_lib \<Rightarrow> groth16_curve \<Rightarrow> precompile" where
  "groth16_precompile F L curve =
     \<lparr>pc_address = 0x0301, pc_name = ''GROTH16_VERIFY'', pc_gas_cost = groth16_gas_cost curve,
      pc_execute = groth16_execute F L curve, pc_min_input_length = groth16_min_length curve, pc_max_input_length = 0\<rparr>"

section \<open>Batches\<close>

text \<open>\<open>u32::from_le_bytes\<close> of the four bytes at an offset, as \<open>usize\<close>.\<close>

definition le32_at :: "bytes \<Rightarrow> nat \<Rightarrow> nat" where
  "le32_at input offset = unat (le_word (slice offset (offset + 4) input) :: u32)"

fun count_inputs_loop :: "bytes \<Rightarrow> nat \<Rightarrow> nat \<Rightarrow> nat \<Rightarrow> nat" where
  "count_inputs_loop input 0 offset total_inputs = total_inputs"
| "count_inputs_loop input (Suc n) offset total_inputs =
     (if offset + 12 > length input then total_inputs
      else
        let num_inputs = le32_at input (offset + 8)
        in count_inputs_loop input n (offset + 12 + le32_at input offset + le32_at input (offset + 4) + num_inputs * 32)
             (total_inputs + num_inputs))"

definition count_total_public_inputs :: "bytes \<Rightarrow> nat \<times> nat" where
  "count_total_public_inputs input =
     (if length input < 4 then (0, 0)
      else let num_proofs = le32_at input 0 in (num_proofs, count_inputs_loop input num_proofs 4 0))"

definition batch_gas_cost :: "bytes \<Rightarrow> u64" where
  "batch_gas_cost input =
     (let (num_proofs, total_inputs) = count_total_public_inputs input
      in if num_proofs = 0 then BATCH_GROTH16_BASE
         else BATCH_GROTH16_BASE + of_nat num_proofs * BATCH_GROTH16_PER_PROOF
              + of_nat total_inputs * BATCH_GROTH16_PER_PUBLIC_INPUT)"

text \<open>The loop over the entries: \<open>n\<close> entries are left, \<open>i\<close> is the number of the next one.\<close>

fun batch_loop :: "vm_features \<Rightarrow> precompile_lib \<Rightarrow> bytes \<Rightarrow> nat \<Rightarrow> nat \<Rightarrow> nat \<Rightarrow> (precompile_error, bool) result" where
  "batch_loop F L input 0 i offset = Ok True"
| "batch_loop F L input (Suc n) i offset =
     (if offset + 12 > length input
      then Err (InvalidInputFormat (''Truncated header for proof '' @ show_nat i @ '' at offset '' @ show_nat offset))
      else
        let vk_size = le32_at input offset;
            proof_size = le32_at input (offset + 4);
            num_inputs = le32_at input (offset + 8);
            data_start = offset + 12;
            total_entry_size = vk_size + proof_size + num_inputs * 32
        in if data_start + total_entry_size > length input
           then Err (InvalidInputFormat (''Truncated data for proof '' @ show_nat i @ '' (need '' @ show_nat total_entry_size
                  @ '' bytes at offset '' @ show_nat data_start @ '', have '' @ show_nat (length input - data_start) @ '')''))
           else if ok_true (verify_groth16_proof F L
                  (slice data_start (data_start + vk_size) input)
                  (slice (data_start + vk_size) (data_start + vk_size + proof_size) input)
                  (slice (data_start + vk_size + proof_size) (data_start + total_entry_size) input))
           then batch_loop F L input n (i + 1) (data_start + total_entry_size)
           else Ok False)"

definition batch_groth16_execute :: "vm_features \<Rightarrow> precompile_lib \<Rightarrow> bytes \<Rightarrow> u64 \<Rightarrow> precompile_result" where
  "batch_groth16_execute F L input gas_limit =
     (let gas = batch_gas_cost input
      in charge gas gas_limit
           (if length input < 4 then Err (InvalidInputLength 4 (length input))
            else
              let num_proofs = le32_at input 0
              in if num_proofs = 0 then Err (InvalidInputFormat ''Batch must contain at least 1 proof'')
                 else if num_proofs > 256 then Err (InvalidInputFormat ''Batch size exceeds maximum of 256 proofs'')
                 else case batch_loop F L input num_proofs 0 4 of
                        Err e \<Rightarrow> Err e
                      | Ok valid \<Rightarrow> Ok (exec_success (verdict_word valid) gas)))"

definition batch_groth16_precompile :: "vm_features \<Rightarrow> precompile_lib \<Rightarrow> precompile" where
  "batch_groth16_precompile F L =
     \<lparr>pc_address = 0x0305, pc_name = ''BATCH_GROTH16_VERIFY'', pc_gas_cost = batch_gas_cost,
      pc_execute = batch_groth16_execute F L, pc_min_input_length = 4, pc_max_input_length = 0\<rparr>"

section \<open>PLONK\<close>

definition verify_plonk_proof :: "vm_features \<Rightarrow> bytes \<Rightarrow> bytes \<Rightarrow> bytes \<Rightarrow> (string, bool) result" where
  "verify_plonk_proof F vk_hash public_inputs proof_bytes =
     (if \<not> bf_zkp F then Err (''PLONK verification requires '' @ in_quotes ''zkp'' @ '' feature'')
      else if proof_bytes = [] then Err ''Empty proof''
      else Ok True)"

definition PLONK_MIN_LENGTH :: nat where "PLONK_MIN_LENGTH = 4 + 32 + 4 + 384"

definition plonk_execute :: "vm_features \<Rightarrow> bytes \<Rightarrow> u64 \<Rightarrow> precompile_result" where
  "plonk_execute F input gas_limit =
     charge PLONK_BASE gas_limit
       (if length input < PLONK_MIN_LENGTH then Err (InvalidInputLength PLONK_MIN_LENGTH (length input))
        else
          let proof_size = le32_at input 0;
              public_inputs_end = 40 + le32_at input 36 * 32;
              proof_end = public_inputs_end + proof_size
          in if length input < proof_end then Err (InvalidInputLength proof_end (length input))
             else
               let valid = ok_true (verify_plonk_proof F (slice 4 36 input) (slice 40 public_inputs_end input)
                                      (slice public_inputs_end proof_end input))
               in Ok (exec_success (verdict_word valid) PLONK_BASE))"

definition plonk_precompile :: "vm_features \<Rightarrow> precompile" where
  "plonk_precompile F =
     \<lparr>pc_address = 0x0302, pc_name = ''PLONK_VERIFY'', pc_gas_cost = (\<lambda>_. PLONK_BASE), pc_execute = plonk_execute F,
      pc_min_input_length = PLONK_MIN_LENGTH, pc_max_input_length = 0\<rparr>"

section \<open>EZKL\<close>

datatype ezkl_backend = EzklNative | EzklPlonk | EzklHalo2

fun ezkl_backend_u8 :: "ezkl_backend \<Rightarrow> u8" where
  "ezkl_backend_u8 EzklNative = 0"
| "ezkl_backend_u8 EzklPlonk = 1"
| "ezkl_backend_u8 EzklHalo2 = 2"

fun show_ezkl_backend :: "ezkl_backend \<Rightarrow> string" where
  "show_ezkl_backend EzklNative = ''EzklNative''"
| "show_ezkl_backend EzklPlonk = ''Plonk''"
| "show_ezkl_backend EzklHalo2 = ''Halo2''"

record ezkl_proof_header =
  eh_version :: u8
  eh_backend :: ezkl_backend
  eh_circuit_hash :: bytes
  eh_vk_hash :: bytes
  eh_num_public_inputs :: nat
  eh_proof_size :: nat

definition ezkl_parse_header :: "bytes \<Rightarrow> ezkl_proof_header option" where
  "ezkl_parse_header input =
     (if length input < 72 then None
      else
        let header = (\<lambda>backend. \<lparr>eh_version = input ! 0, eh_backend = backend, eh_circuit_hash = slice 2 34 input,
               eh_vk_hash = slice 34 66 input, eh_num_public_inputs = unat (le_word (slice 66 68 input) :: u16),
               eh_proof_size = le32_at input 68\<rparr>)
        in if input ! 1 = 0 then Some (header EzklNative)
           else if input ! 1 = 1 then Some (header EzklPlonk)
           else if input ! 1 = 2 then Some (header EzklHalo2)
           else None)"

definition verify_ezkl_proof :: "vm_features \<Rightarrow> ezkl_proof_header \<Rightarrow> bytes \<Rightarrow> bytes \<Rightarrow> (string, bool) result" where
  "verify_ezkl_proof F header public_inputs proof_bytes =
     (if \<not> bf_zkp F then Err (''EZKL verification requires '' @ in_quotes ''zkp'' @ '' feature'')
      else case eh_backend header of EzklNative \<Rightarrow> Ok True | EzklHalo2 \<Rightarrow> Ok True | EzklPlonk \<Rightarrow> Ok True)"

definition ezkl_gas_cost :: "bytes \<Rightarrow> u64" where
  "ezkl_gas_cost input =
     (case ezkl_parse_header input of
        Some header \<Rightarrow> EZKL_BASE + of_nat (eh_num_public_inputs header) * 1000 + of_nat (eh_proof_size header) div 100
      | None \<Rightarrow> EZKL_BASE)"

definition ezkl_execute :: "vm_features \<Rightarrow> ezkl_backend list \<Rightarrow> bytes \<Rightarrow> u64 \<Rightarrow> precompile_result" where
  "ezkl_execute F supported_backends input gas_limit =
     (let gas = ezkl_gas_cost input
      in charge gas gas_limit
           (case ezkl_parse_header input of
              None \<Rightarrow> Err (InvalidInputFormat ''Invalid EZKL proof header'')
            | Some header \<Rightarrow>
                if eh_backend header \<notin> set supported_backends
                then Err (UnsupportedOperation (''EZKL backend '' @ show_ezkl_backend (eh_backend header) @ '' not supported''))
                else
                  let public_inputs_end = 72 + eh_num_public_inputs header * 32;
                      proof_end = public_inputs_end + eh_proof_size header
                  in if length input < proof_end then Err (InvalidInputLength proof_end (length input))
                     else
                       let valid = ok_true (verify_ezkl_proof F header (slice 72 public_inputs_end input)
                                              (slice public_inputs_end proof_end input))
                       in Ok (exec_success (replicate 29 0 @ [eh_version header, ezkl_backend_u8 (eh_backend header),
                                if valid then 1 else 0]) gas)))"

definition ezkl_precompile :: "vm_features \<Rightarrow> precompile" where
  "ezkl_precompile F =
     \<lparr>pc_address = 0x0303, pc_name = ''EZKL_VERIFY'', pc_gas_cost = ezkl_gas_cost,
      pc_execute = ezkl_execute F [EzklNative, EzklPlonk, EzklHalo2], pc_min_input_length = 72, pc_max_input_length = 0\<rparr>"

section \<open>Halo2 and STARK\<close>

definition verify_halo2_proof :: "vm_features \<Rightarrow> bytes \<Rightarrow> (string, bool) result" where
  "verify_halo2_proof F input = (if \<not> bf_zkp F then Err (''Halo2 verification requires '' @ in_quotes ''zkp'' @ '' feature'') else Ok True)"

definition halo2_execute :: "vm_features \<Rightarrow> bytes \<Rightarrow> u64 \<Rightarrow> precompile_result" where
  "halo2_execute F input gas_limit =
     charge PLONK_BASE gas_limit
       (if length input < 256 then Err (InvalidInputLength 256 (length input))
        else Ok (exec_success (verdict_word (ok_true (verify_halo2_proof F input))) PLONK_BASE))"

definition halo2_precompile :: "vm_features \<Rightarrow> precompile" where
  "halo2_precompile F =
     \<lparr>pc_address = 0x0304, pc_name = ''HALO2_VERIFY'', pc_gas_cost = (\<lambda>_. PLONK_BASE), pc_execute = halo2_execute F,
      pc_min_input_length = 256, pc_max_input_length = 0\<rparr>"

definition verify_stark_proof :: "vm_features \<Rightarrow> bytes \<Rightarrow> bytes \<Rightarrow> bytes \<Rightarrow> (string, bool) result" where
  "verify_stark_proof F vk_hash public_inputs proof_bytes =
     (if \<not> bf_zkp F then Err (''STARK verification requires '' @ in_quotes ''zkp'' @ '' feature'')
      else if proof_bytes = [] then Err ''Empty STARK proof''
      else Ok True)"

definition STARK_MIN_LENGTH :: nat where "STARK_MIN_LENGTH = 32 + 4 + 32 + 128"

definition stark_execute :: "vm_features \<Rightarrow> bytes \<Rightarrow> u64 \<Rightarrow> precompile_result" where
  "stark_execute F input gas_limit =
     charge STARK_BASE gas_limit
       (if length input < STARK_MIN_LENGTH then Err (InvalidInputLength STARK_MIN_LENGTH (length input))
        else
          let public_inputs_end = 36 + le32_at input 32 * 32
          in if length input < public_inputs_end then Err (InvalidInputLength public_inputs_end (length input))
             else
               let proof_bytes = drop public_inputs_end input
               in if proof_bytes = [] then Err (InvalidInputFormat ''STARK proof bytes are empty'')
                  else
                    let valid = ok_true (verify_stark_proof F (slice 0 32 input) (slice 36 public_inputs_end input) proof_bytes)
                    in Ok (exec_success (verdict_word valid) STARK_BASE))"

definition stark_precompile :: "vm_features \<Rightarrow> precompile" where
  "stark_precompile F =
     \<lparr>pc_address = 0x0306, pc_name = ''STARK_VERIFY'', pc_gas_cost = (\<lambda>_. STARK_BASE), pc_execute = stark_execute F,
      pc_min_input_length = STARK_MIN_LENGTH, pc_max_input_length = 0\<rparr>"

section \<open>The unified entry\<close>

record unified_zkp =
  uz_groth16 :: precompile
  uz_plonk :: precompile
  uz_ezkl :: precompile
  uz_halo2 :: precompile
  uz_stark :: precompile

definition unified_zkp_defaults :: "vm_features \<Rightarrow> precompile_lib \<Rightarrow> unified_zkp" where
  "unified_zkp_defaults F L =
     \<lparr>uz_groth16 = groth16_precompile F L Bn254, uz_plonk = plonk_precompile F, uz_ezkl = ezkl_precompile F,
      uz_halo2 = halo2_precompile F, uz_stark = stark_precompile F\<rparr>"

definition detect_proof_system :: "unified_zkp \<Rightarrow> u8 \<Rightarrow> precompile option" where
  "detect_proof_system u tag =
     (if tag = 1 then Some (uz_groth16 u)
      else if tag = 2 then Some (uz_plonk u)
      else if tag = 3 then Some (uz_ezkl u)
      else if tag = 4 then Some (uz_halo2 u)
      else if tag = 5 then Some (uz_stark u)
      else None)"

fun unified_gas_cost :: "unified_zkp \<Rightarrow> bytes \<Rightarrow> u64" where
  "unified_gas_cost u [] = GROTH16_BASE"
| "unified_gas_cost u (tag # data) =
     (case detect_proof_system u tag of
        Some verifier \<Rightarrow> pc_gas_cost verifier data + ZKP_UNIFIED_OVERHEAD
      | None \<Rightarrow> GROTH16_BASE + ZKP_UNIFIED_OVERHEAD)"

definition PROOF_SYSTEM_TAGS :: string where
  "PROOF_SYSTEM_TAGS = ''0x01=Groth16, 0x02=PLONK, 0x03=EZKL, 0x04=Halo2, 0x05=STARK''"

fun unified_execute :: "unified_zkp \<Rightarrow> bytes \<Rightarrow> u64 \<Rightarrow> precompile_result" where
  "unified_execute u [] gas_limit =
     Err (InvalidInputFormat (''Empty input: first byte must be proof system tag ('' @ PROOF_SYSTEM_TAGS @ '')''))"
| "unified_execute u (tag # data) gas_limit =
     charge (unified_gas_cost u (tag # data)) gas_limit
       (case detect_proof_system u tag of
          None \<Rightarrow> Err (InvalidInputFormat (''Unknown proof system tag 0x'' @ hex_encode [tag] @ '': expected '' @ PROOF_SYSTEM_TAGS))
        | Some verifier \<Rightarrow> pc_execute verifier data gas_limit)"

definition unified_zkp_precompile :: "unified_zkp \<Rightarrow> precompile" where
  "unified_zkp_precompile u =
     \<lparr>pc_address = 0x0300, pc_name = ''ZKP_VERIFY'', pc_gas_cost = unified_gas_cost u, pc_execute = unified_execute u,
      pc_min_input_length = 2, pc_max_input_length = 0\<rparr>"

section \<open>Verifying keys\<close>

datatype proof_system = Groth16Keys | PlonkKeys | EzklKeys | Halo2Keys

record verifying_key_entry =
  ve_hash :: bytes
  ve_data :: bytes
  ve_system :: proof_system
  ve_circuit_id :: "string option"
  ve_registered_at :: u64

type_synonym verifying_key_registry = "(bytes, verifying_key_entry) hashmap"

definition vk_register :: "verifying_key_entry \<Rightarrow> verifying_key_registry \<Rightarrow> verifying_key_registry" where
  "vk_register e keys = hm_insert (ve_hash e) e keys"

definition vk_get :: "verifying_key_registry \<Rightarrow> bytes \<Rightarrow> verifying_key_entry option" where
  "vk_get keys hash = hm_get keys hash"

definition vk_is_registered :: "verifying_key_registry \<Rightarrow> bytes \<Rightarrow> bool" where
  "vk_is_registered keys hash \<longleftrightarrow> hm_get keys hash \<noteq> None"

definition vk_remove :: "bytes \<Rightarrow> verifying_key_registry \<Rightarrow> verifying_key_registry \<times> verifying_key_entry option" where
  "vk_remove hash keys = (hm_remove hash keys, hm_get keys hash)"

end
