(* ===== verification/Vm_Tee.thy ===== *)
theory Vm_Tee
  imports Vm_Precompile
begin

text \<open>
  The attestation precompiles (\<open>vm/src/precompiles/tee.rs\<close>): configuration, trusted measurements, the quotes of SGX, Nitro and SEV-SNP, and
  the entry that routes by platform. \<open>now\<close> is the clock in seconds. Fields that the code parses and nothing reads are kept.
\<close>

unbundle bit_operations_syntax

section \<open>Configuration\<close>

record platform_config =
  pt_nitro_enabled :: bool
  pt_sgx_dcap_enabled :: bool
  pt_sgx_epid_enabled :: bool
  pt_sev_snp_enabled :: bool
  pt_sgx_tcb_recovery_mode :: bool

record tee_verifier_config =
  tv_strict_mode :: bool
  tv_max_attestation_age_secs :: u64
  tv_require_fresh_collateral :: bool
  tv_collateral_freshness_secs :: u64
  tv_min_isv_svn :: u16
  tv_allow_debug_enclaves :: bool
  tv_platform_config :: platform_config
  tv_enterprise_mode :: bool

definition tee_devnet :: tee_verifier_config where
  "tee_devnet =
     \<lparr>tv_strict_mode = False, tv_max_attestation_age_secs = 86400 * 7, tv_require_fresh_collateral = False,
      tv_collateral_freshness_secs = 86400 * 30, tv_min_isv_svn = 0, tv_allow_debug_enclaves = True,
      tv_platform_config = \<lparr>pt_nitro_enabled = True, pt_sgx_dcap_enabled = True, pt_sgx_epid_enabled = True,
        pt_sev_snp_enabled = True, pt_sgx_tcb_recovery_mode = True\<rparr>,
      tv_enterprise_mode = False\<rparr>"

definition tee_testnet :: tee_verifier_config where
  "tee_testnet =
     \<lparr>tv_strict_mode = True, tv_max_attestation_age_secs = 86400, tv_require_fresh_collateral = False,
      tv_collateral_freshness_secs = 86400 * 7, tv_min_isv_svn = 0, tv_allow_debug_enclaves = False,
      tv_platform_config = \<lparr>pt_nitro_enabled = True, pt_sgx_dcap_enabled = True, pt_sgx_epid_enabled = False,
        pt_sev_snp_enabled = True, pt_sgx_tcb_recovery_mode = True\<rparr>,
      tv_enterprise_mode = True\<rparr>"

definition tee_mainnet :: tee_verifier_config where
  "tee_mainnet =
     \<lparr>tv_strict_mode = True, tv_max_attestation_age_secs = 3600, tv_require_fresh_collateral = True,
      tv_collateral_freshness_secs = 86400, tv_min_isv_svn = 1, tv_allow_debug_enclaves = False,
      tv_platform_config = \<lparr>pt_nitro_enabled = True, pt_sgx_dcap_enabled = True, pt_sgx_epid_enabled = False,
        pt_sev_snp_enabled = True, pt_sgx_tcb_recovery_mode = False\<rparr>,
      tv_enterprise_mode = True\<rparr>"

definition tee_enterprise :: tee_verifier_config where
  "tee_enterprise = tee_mainnet"

section \<open>Common types\<close>

datatype vm_tee_platform = Nitro | SgxDcap | SgxEpid | SevSnp | UnknownPlatform

fun tee_platform_u8 :: "vm_tee_platform \<Rightarrow> u8" where
  "tee_platform_u8 Nitro = 0x01"
| "tee_platform_u8 SgxDcap = 0x02"
| "tee_platform_u8 SgxEpid = 0x03"
| "tee_platform_u8 SevSnp = 0x04"
| "tee_platform_u8 UnknownPlatform = 0xFF"

definition tee_platform_from_u8 :: "u8 \<Rightarrow> vm_tee_platform" where
  "tee_platform_from_u8 v =
     (if v = 1 then Nitro else if v = 2 then SgxDcap else if v = 3 then SgxEpid else if v = 4 then SevSnp else UnknownPlatform)"

datatype tee_status = StatusOk | InvalidSignature | InvalidCertChain | UntrustedMeasurement | AttestationExpired | TcbOutOfDate
  | CollateralExpired | DebugEnclaveRejected | PlatformDisabled | ParseError | ReportDataMismatch | UnknownStatus

fun tee_status_u8 :: "tee_status \<Rightarrow> u8" where
  "tee_status_u8 StatusOk = 0"
| "tee_status_u8 InvalidSignature = 1"
| "tee_status_u8 InvalidCertChain = 2"
| "tee_status_u8 UntrustedMeasurement = 3"
| "tee_status_u8 AttestationExpired = 4"
| "tee_status_u8 TcbOutOfDate = 5"
| "tee_status_u8 CollateralExpired = 6"
| "tee_status_u8 DebugEnclaveRejected = 7"
| "tee_status_u8 PlatformDisabled = 8"
| "tee_status_u8 ParseError = 9"
| "tee_status_u8 ReportDataMismatch = 10"
| "tee_status_u8 UnknownStatus = 255"

record tee_verification_result =
  tr_valid :: bool
  tr_platform :: vm_tee_platform
  tr_measurement :: bytes
  tr_signer :: "bytes option"
  tr_report_data :: bytes
  tr_timestamp :: u64
  tr_status :: tee_status
  tr_is_debug :: bool
  tr_security_version :: u16

section \<open>Trusted measurements\<close>

record trusted_measurement =
  tm_measurement :: bytes
  tm_signer :: "bytes option"
  tm_description :: string
  tm_model_id :: "string option"
  tm_version :: "string option"
  tm_registered_at :: u64
  tm_expires_at :: u64
  tm_active :: bool
  tm_min_svn :: u16

record measurement_registry =
  mr_nitro :: "(bytes, trusted_measurement) hashmap"
  mr_sgx_mrenclave :: "(bytes, trusted_measurement) hashmap"
  mr_sgx_mrsigner :: "(bytes, trusted_measurement) hashmap"
  mr_sev_measurement :: "(bytes, trusted_measurement) hashmap"

definition measurement_registry_new :: measurement_registry where
  "measurement_registry_new = \<lparr>mr_nitro = [], mr_sgx_mrenclave = [], mr_sgx_mrsigner = [], mr_sev_measurement = []\<rparr>"

definition register_nitro :: "trusted_measurement \<Rightarrow> measurement_registry \<Rightarrow> measurement_registry" where
  "register_nitro m r = r\<lparr>mr_nitro := hm_insert (tm_measurement m) m (mr_nitro r)\<rparr>"

definition register_sgx_mrenclave :: "trusted_measurement \<Rightarrow> measurement_registry \<Rightarrow> measurement_registry" where
  "register_sgx_mrenclave m r = r\<lparr>mr_sgx_mrenclave := hm_insert (tm_measurement m) m (mr_sgx_mrenclave r)\<rparr>"

definition register_sgx_mrsigner :: "trusted_measurement \<Rightarrow> measurement_registry \<Rightarrow> measurement_registry" where
  "register_sgx_mrsigner m r =
     r\<lparr>mr_sgx_mrsigner := hm_insert (case tm_signer m of Some s \<Rightarrow> s | None \<Rightarrow> []) m (mr_sgx_mrsigner r)\<rparr>"

definition register_sev :: "trusted_measurement \<Rightarrow> measurement_registry \<Rightarrow> measurement_registry" where
  "register_sev m r = r\<lparr>mr_sev_measurement := hm_insert (tm_measurement m) m (mr_sev_measurement r)\<rparr>"

text \<open>The three \<open>is_*_trusted\<close>: \<open>None\<close> is trusted, otherwise the reason.\<close>

definition untrusted_reason :: "string \<Rightarrow> (bytes, trusted_measurement) hashmap \<Rightarrow> bytes \<Rightarrow> u64 \<Rightarrow> string option" where
  "untrusted_reason what registry key current_time =
     (case hm_get registry key of
        None \<Rightarrow> Some (what @ '' not in trusted registry'')
      | Some m \<Rightarrow>
          if \<not> tm_active m then Some (what @ '' is deactivated'')
          else if tm_expires_at m > 0 \<and> current_time > tm_expires_at m then Some (what @ '' has expired'')
          else None)"

definition is_nitro_trusted :: "measurement_registry \<Rightarrow> bytes \<Rightarrow> u64 \<Rightarrow> string option" where
  "is_nitro_trusted r pcr0 current_time = untrusted_reason ''Measurement'' (mr_nitro r) pcr0 current_time"

definition is_sgx_mrenclave_trusted :: "measurement_registry \<Rightarrow> bytes \<Rightarrow> u64 \<Rightarrow> string option" where
  "is_sgx_mrenclave_trusted r mrenclave current_time = untrusted_reason ''MRENCLAVE'' (mr_sgx_mrenclave r) mrenclave current_time"

definition is_sgx_mrsigner_trusted :: "measurement_registry \<Rightarrow> bytes \<Rightarrow> u64 \<Rightarrow> string option" where
  "is_sgx_mrsigner_trusted r mrsigner current_time = untrusted_reason ''MRSIGNER'' (mr_sgx_mrsigner r) mrsigner current_time"

definition get_sgx_measurement :: "measurement_registry \<Rightarrow> bytes \<Rightarrow> trusted_measurement option" where
  "get_sgx_measurement r mrenclave = hm_get (mr_sgx_mrenclave r) mrenclave"

text \<open>
  \<open>from_config_json\<close> after the JSON parser: the version and the two levels of string maps. \<open>decode\<close> is \<open>hex::decode\<close>.
\<close>

definition config_measurement :: "u64 \<Rightarrow> bytes \<Rightarrow> bytes option \<Rightarrow> trusted_measurement" where
  "config_measurement now m signer =
     \<lparr>tm_measurement = m, tm_signer = signer, tm_description = ''Loaded from shared config'', tm_model_id = None, tm_version = None,
      tm_registered_at = now, tm_expires_at = 0, tm_active = True, tm_min_svn = 0\<rparr>"

fun load_list ::
    "(string \<Rightarrow> (string, bytes) result) \<Rightarrow> string \<Rightarrow> (bytes \<Rightarrow> measurement_registry \<Rightarrow> measurement_registry)
      \<Rightarrow> string list \<Rightarrow> measurement_registry \<Rightarrow> (string, measurement_registry) result" where
  "load_list decode what add [] r = Ok r"
| "load_list decode what add (h # hs) r =
     (case decode h of
        Err e \<Rightarrow> Err (''invalid hex for '' @ what @ '': '' @ e)
      | Ok bs \<Rightarrow> load_list decode what add hs (add bs r))"

definition config_list :: "(string, (string, string list) hashmap) hashmap \<Rightarrow> string \<Rightarrow> string \<Rightarrow> string list" where
  "config_list measurements platform field =
     (case hm_get measurements platform of
        None \<Rightarrow> []
      | Some entries \<Rightarrow> (case hm_get entries field of None \<Rightarrow> [] | Some hs \<Rightarrow> hs))"

definition from_config_json ::
    "(string \<Rightarrow> (string, bytes) result) \<Rightarrow> u64 \<Rightarrow> u32 \<Rightarrow> (string, (string, string list) hashmap) hashmap
      \<Rightarrow> (string, measurement_registry) result" where
  "from_config_json decode now config_version measurements =
     (if config_version \<noteq> 1 then Err (''unsupported config version: '' @ show_word config_version)
      else case load_list decode ''aws-nitro pcr0'' (\<lambda>bs. register_nitro (config_measurement now bs None))
                  (config_list measurements ''aws-nitro'' ''pcr0'') measurement_registry_new of
             Err e \<Rightarrow> Err e
           | Ok r \<Rightarrow>
      (case load_list decode ''intel-sgx mrenclave'' (\<lambda>bs. register_sgx_mrenclave (config_measurement now bs None))
              (config_list measurements ''intel-sgx'' ''mrenclave'') r of
         Err e \<Rightarrow> Err e
       | Ok r \<Rightarrow>
      (case load_list decode ''intel-sgx mrsigner'' (\<lambda>bs. register_sgx_mrsigner (config_measurement now [] (Some bs)))
              (config_list measurements ''intel-sgx'' ''mrsigner'') r of
         Err e \<Rightarrow> Err e
       | Ok r \<Rightarrow>
           load_list decode ''amd-sev measurement'' (\<lambda>bs. register_sev (config_measurement now bs None))
             (config_list measurements ''amd-sev'' ''measurement'') r)))"

section \<open>Reading the input\<close>

definition u256_to_usize :: "bytes \<Rightarrow> nat" where
  "u256_to_usize bs = unat (foldl (\<lambda>val b. push_bit 8 val OR ucast b) (0 :: u64) (slice 24 32 bs))"

definition checked_abi_slice :: "bytes \<Rightarrow> nat \<Rightarrow> nat \<Rightarrow> string \<Rightarrow> (precompile_error, bytes) result" where
  "checked_abi_slice input offset len field_name =
     (if offset + len \<ge> 2 ^ 64 then Err (InvalidInputFormat (field_name @ '' range overflows input bounds''))
      else if offset + len > length input then Err (InvalidInputFormat (field_name @ '' extends beyond input''))
      else Ok (slice offset (offset + len) input))"

definition kb_gas_cost :: "u64 \<Rightarrow> u64 \<Rightarrow> bytes \<Rightarrow> u64" where
  "kb_gas_cost base_cost per_kb_cost input = base_cost + of_nat (length input div 1024) * per_kb_cost"

section \<open>SGX\<close>

record sgx_quote_header =
  qh_version :: u16
  qh_att_key_type :: u16
  qh_tee_type :: u32
  qh_qe_svn :: u16
  qh_pce_svn :: u16
  qh_qe_vendor_id :: bytes
  qh_user_data :: bytes

record sgx_attributes =
  sa_flags :: u64
  sa_xfrm :: u64

definition attributes_is_debug :: "sgx_attributes \<Rightarrow> bool" where
  "attributes_is_debug a \<longleftrightarrow> sa_flags a AND 0x02 \<noteq> 0"

definition attributes_is_init :: "sgx_attributes \<Rightarrow> bool" where
  "attributes_is_init a \<longleftrightarrow> sa_flags a AND 0x01 \<noteq> 0"

definition attributes_is_64bit :: "sgx_attributes \<Rightarrow> bool" where
  "attributes_is_64bit a \<longleftrightarrow> sa_flags a AND 0x04 \<noteq> 0"

record sgx_report_body =
  rb_cpu_svn :: bytes
  rb_misc_select :: u32
  rb_reserved1 :: bytes
  rb_attributes :: sgx_attributes
  rb_mr_enclave :: bytes
  rb_reserved2 :: bytes
  rb_mr_signer :: bytes
  rb_reserved3 :: bytes
  rb_isv_prod_id :: u16
  rb_isv_svn :: u16
  rb_reserved4 :: bytes
  rb_report_data :: bytes

record sgx_dcap_quote =
  sq_header :: sgx_quote_header
  sq_report_body :: sgx_report_body
  sq_signature_len :: u32
  sq_signature_data :: bytes

definition CREDIT_SCORE_V1_MRENCLAVE :: bytes where
  "CREDIT_SCORE_V1_MRENCLAVE =
     [0xAB, 0xCD, 0xEF, 0x12, 0x34, 0x56, 0x78, 0x90, 0x11, 0x22, 0x33, 0x44, 0x55, 0x66, 0x77,
      0x88, 0x99, 0xAA, 0xBB, 0xCC, 0xDD, 0xEE, 0xFF, 0x00, 0x12, 0x34, 0x56, 0x78, 0x9A, 0xBC,
      0xDE, 0xF0]"

definition FRAUD_DETECT_V1_MRENCLAVE :: bytes where
  "FRAUD_DETECT_V1_MRENCLAVE =
     [0x12, 0x34, 0x56, 0x78, 0x9A, 0xBC, 0xDE, 0xF0, 0xFE, 0xDC, 0xBA, 0x98, 0x76, 0x54, 0x32,
      0x10, 0xAB, 0xCD, 0xEF, 0x12, 0x34, 0x56, 0x78, 0x90, 0x11, 0x22, 0x33, 0x44, 0x55, 0x66,
      0x77, 0x88]"

definition RISK_ASSESS_V1_MRENCLAVE :: bytes where
  "RISK_ASSESS_V1_MRENCLAVE =
     [0xDE, 0xAD, 0xBE, 0xEF, 0xCA, 0xFE, 0xBA, 0xBE, 0x12, 0x34, 0x56, 0x78, 0x9A, 0xBC, 0xDE,
      0xF0, 0xFE, 0xDC, 0xBA, 0x98, 0x76, 0x54, 0x32, 0x10, 0xAB, 0xCD, 0xEF, 0x12, 0x34, 0x56,
      0x78, 0x90]"

definition ZKML_INFERENCE_V1_MRENCLAVE :: bytes where
  "ZKML_INFERENCE_V1_MRENCLAVE =
     [0x00, 0x11, 0x22, 0x33, 0x44, 0x55, 0x66, 0x77, 0x88, 0x99, 0xAA, 0xBB, 0xCC, 0xDD, 0xEE,
      0xFF, 0xFF, 0xEE, 0xDD, 0xCC, 0xBB, 0xAA, 0x99, 0x88, 0x77, 0x66, 0x55, 0x44, 0x33, 0x22,
      0x11, 0x00]"

definition parse_quote_header :: "bytes \<Rightarrow> sgx_quote_header" where
  "parse_quote_header q =
     \<lparr>qh_version = le_word (slice 0 2 q), qh_att_key_type = le_word (slice 2 4 q), qh_tee_type = le_word (slice 4 8 q),
      qh_qe_svn = le_word (slice 8 10 q), qh_pce_svn = le_word (slice 10 12 q), qh_qe_vendor_id = slice 12 28 q,
      qh_user_data = slice 28 48 q\<rparr>"

text \<open>The report body begins at byte 48 of the quote.\<close>

definition parse_report_body :: "bytes \<Rightarrow> sgx_report_body" where
  "parse_report_body q =
     (let part = (\<lambda>a b. slice (48 + a) (48 + b) q)
      in \<lparr>rb_cpu_svn = part 0 16, rb_misc_select = le_word (part 16 20), rb_reserved1 = part 20 48,
          rb_attributes = \<lparr>sa_flags = le_word (part 48 56), sa_xfrm = le_word (part 56 64)\<rparr>,
          rb_mr_enclave = part 64 96, rb_reserved2 = part 96 128, rb_mr_signer = part 128 160, rb_reserved3 = part 160 256,
          rb_isv_prod_id = le_word (part 256 258), rb_isv_svn = le_word (part 258 260), rb_reserved4 = part 260 320,
          rb_report_data = part 320 384\<rparr>)"

definition parse_dcap_quote :: "bytes \<Rightarrow> (precompile_error, sgx_dcap_quote) result" where
  "parse_dcap_quote q =
     (let header = parse_quote_header q; signature_len = le_word (slice 432 436 q) :: u32
      in if length q < 436
         then Err (InvalidInputFormat (''Quote too short: '' @ show_nat (length q) @ '' bytes (minimum 436)''))
         else if qh_version header \<noteq> 3
         then Err (InvalidInputFormat (''Unsupported quote version: '' @ show_word (qh_version header) @ '' (expected 3)''))
         else if qh_tee_type header \<noteq> 0
         then Err (InvalidInputFormat (''Invalid TEE type: '' @ show_word (qh_tee_type header) @ '' (expected 0 for SGX)''))
         else if length q < 436 + unat signature_len
         then Err (InvalidInputFormat ''Quote truncated: signature data incomplete'')
         else Ok \<lparr>sq_header = header, sq_report_body = parse_report_body q, sq_signature_len = signature_len,
                  sq_signature_data = slice 436 (436 + unat signature_len) q\<rparr>)"

definition verify_quote_dcap ::
    "vm_features \<Rightarrow> precompile_lib \<Rightarrow> tee_verifier_config \<Rightarrow> sgx_dcap_quote \<Rightarrow> bytes \<Rightarrow> (precompile_error, tee_status) result" where
  "verify_quote_dcap F L config quote quote_bytes =
     (if bf_sgx F then
        (case xl_dcap L quote_bytes of
           DcapLibraryError e \<Rightarrow> Err (VerificationFailed (''DCAP verification failed with error: '' @ e))
         | DcapOk \<Rightarrow> Ok StatusOk
         | DcapOutOfDate \<Rightarrow>
             if pt_sgx_tcb_recovery_mode (tv_platform_config config) then Ok TcbOutOfDate
             else Err (VerificationFailed ''TCB out of date'')
         | DcapRevoked \<Rightarrow> Err (VerificationFailed ''Quote revoked'')
         | DcapOther e \<Rightarrow> Err (VerificationFailed (''Quote verification failed: '' @ e)))
      else if tv_enterprise_mode config
      then Err (VerificationFailed ''SGX DCAP cryptographic verification backend required in enterprise mode'')
      else if qh_version (sq_header quote) \<noteq> 3
      then Err (VerificationFailed (''Invalid quote version: '' @ show_word (qh_version (sq_header quote))))
      else if qh_att_key_type (sq_header quote) \<noteq> 2
      then Err (VerificationFailed (''Invalid attestation key type: '' @ show_word (qh_att_key_type (sq_header quote))))
      else if sq_signature_data quote = [] then Err (VerificationFailed ''Missing signature data'')
      else Ok StatusOk)"

definition verify_mrenclave :: "measurement_registry \<Rightarrow> u64 \<Rightarrow> bytes \<Rightarrow> bool" where
  "verify_mrenclave registry now mrenclave \<longleftrightarrow>
     mrenclave \<in> {CREDIT_SCORE_V1_MRENCLAVE, FRAUD_DETECT_V1_MRENCLAVE, RISK_ASSESS_V1_MRENCLAVE, ZKML_INFERENCE_V1_MRENCLAVE}
     \<or> is_sgx_mrenclave_trusted registry mrenclave now = None"

definition verify_report_data :: "bytes \<Rightarrow> bytes \<Rightarrow> bool" where
  "verify_report_data report_data expected_hash \<longleftrightarrow> take 32 report_data = expected_hash"

definition sgx_build_output :: "tee_verification_result \<Rightarrow> bytes" where
  "sgx_build_output result =
     [if tr_valid result then 1 else 0, tee_status_u8 (tr_status result), tee_platform_u8 (tr_platform result), 0]
     @ (if length (tr_measurement result) \<ge> 32 then take 32 (tr_measurement result) else replicate 32 0)
     @ (case tr_signer result of
          Some signer \<Rightarrow> if length signer \<ge> 32 then take 32 signer else replicate 32 0
        | None \<Rightarrow> replicate 32 0)
     @ (if length (tr_report_data result) \<ge> 64 then take 64 (tr_report_data result) else replicate 64 0)"

text \<open>The results that \<open>execute\<close> writes out: without a quote, and for a parsed one.\<close>

definition sgx_unparsed :: "tee_status \<Rightarrow> tee_verification_result" where
  "sgx_unparsed status =
     \<lparr>tr_valid = False, tr_platform = SgxDcap, tr_measurement = [], tr_signer = None, tr_report_data = [], tr_timestamp = 0,
      tr_status = status, tr_is_debug = False, tr_security_version = 0\<rparr>"

definition sgx_result :: "sgx_report_body \<Rightarrow> bool \<Rightarrow> u64 \<Rightarrow> tee_status \<Rightarrow> tee_verification_result" where
  "sgx_result body valid timestamp status =
     \<lparr>tr_valid = valid, tr_platform = SgxDcap, tr_measurement = rb_mr_enclave body, tr_signer = Some (rb_mr_signer body),
      tr_report_data = rb_report_data body, tr_timestamp = timestamp, tr_status = status,
      tr_is_debug = attributes_is_debug (rb_attributes body), tr_security_version = rb_isv_svn body\<rparr>"

definition sgx_judge ::
    "vm_features \<Rightarrow> precompile_lib \<Rightarrow> tee_verifier_config \<Rightarrow> measurement_registry \<Rightarrow> u64 \<Rightarrow> bytes \<Rightarrow> bytes \<Rightarrow> tee_verification_result" where
  "sgx_judge F L config registry now runtime_data_hash quote_bytes =
     (case parse_dcap_quote quote_bytes of
        Err _ \<Rightarrow> sgx_unparsed ParseError
      | Ok quote \<Rightarrow>
          let body = sq_report_body quote
          in if attributes_is_debug (rb_attributes body) \<and> \<not> tv_allow_debug_enclaves config
             then sgx_result body False 0 DebugEnclaveRejected
             else if rb_isv_svn body < tv_min_isv_svn config then sgx_result body False 0 TcbOutOfDate
             else if tv_strict_mode config \<and> \<not> verify_mrenclave registry now (rb_mr_enclave body)
             then sgx_result body False 0 UntrustedMeasurement
             else if \<not> verify_report_data (rb_report_data body) runtime_data_hash
             then sgx_result body False 0 ReportDataMismatch
             else (case verify_quote_dcap F L config quote quote_bytes of
                     Err _ \<Rightarrow> sgx_result body False 0 InvalidSignature
                   | Ok status \<Rightarrow>
                       sgx_result body
                         (status = StatusOk \<or> status = TcbOutOfDate \<and> pt_sgx_tcb_recovery_mode (tv_platform_config config))
                         now status))"

definition sgx_gas_cost :: "bytes \<Rightarrow> u64" where
  "sgx_gas_cost input = kb_gas_cost 500000 10000 input"

definition sgx_execute ::
    "vm_features \<Rightarrow> precompile_lib \<Rightarrow> tee_verifier_config \<Rightarrow> measurement_registry \<Rightarrow> u64 \<Rightarrow> bytes \<Rightarrow> u64 \<Rightarrow> precompile_result" where
  "sgx_execute F L config registry now input gas_limit =
     (let gas = sgx_gas_cost input
      in charge gas gas_limit
           (if \<not> pt_sgx_dcap_enabled (tv_platform_config config)
            then Ok (exec_success (sgx_build_output (sgx_unparsed PlatformDisabled)) gas)
            else if length input < 96 then Err (InvalidInputFormat ''Input too short for ABI encoding'')
            else
              case checked_abi_slice input (u256_to_usize (slice 0 32 input)) (u256_to_usize (slice 32 64 input)) ''Quote data'' of
                Err e \<Rightarrow> Err e
              | Ok quote_bytes \<Rightarrow>
                  Ok (exec_success (sgx_build_output (sgx_judge F L config registry now (slice 64 96 input) quote_bytes)) gas)))"

definition sgx_precompile ::
    "vm_features \<Rightarrow> precompile_lib \<Rightarrow> tee_verifier_config \<Rightarrow> measurement_registry \<Rightarrow> u64 \<Rightarrow> precompile" where
  "sgx_precompile F L config registry now =
     \<lparr>pc_address = 0x0402, pc_name = ''SGX_DCAP_VERIFY'', pc_gas_cost = sgx_gas_cost,
      pc_execute = sgx_execute F L config registry now, pc_min_input_length = 532, pc_max_input_length = 0\<rparr>"

section \<open>Nitro\<close>

record nitro_attestation =
  na_module_id :: string
  na_timestamp :: u64
  na_digest :: string
  na_pcrs :: "(u8, bytes) hashmap"
  na_certificate :: bytes
  na_cabundle :: "bytes list"
  na_public_key :: "bytes option"
  na_user_data :: "bytes option"
  na_nonce :: "bytes option"

definition parse_attestation ::
    "vm_features \<Rightarrow> precompile_lib \<Rightarrow> u64 \<Rightarrow> bytes \<Rightarrow> (precompile_error, nitro_attestation) result" where
  "parse_attestation F L now_millis attestation =
     (if length attestation < 100 then Err (InvalidInputFormat ''Attestation document too short'')
      else if bf_mock_tee F
      then Ok \<lparr>na_module_id = ''mock-enclave'', na_timestamp = now_millis, na_digest = ''SHA384'',
               na_pcrs = hm_insert 0 (slice 40 88 attestation) [], na_certificate = [], na_cabundle = [],
               na_public_key = None, na_user_data = None, na_nonce = None\<rparr>
      else case xl_cose_payload L attestation of
             Err e \<Rightarrow> Err (InvalidInputFormat (''Failed to parse COSE_Sign1: '' @ e))
           | Ok None \<Rightarrow> Err (InvalidInputFormat ''Missing COSE payload'')
           | Ok (Some payload) \<Rightarrow>
               (case xl_cbor_error L payload of
                  Some e \<Rightarrow> Err (InvalidInputFormat (''Failed to parse CBOR payload: '' @ e))
                | None \<Rightarrow> Err (InvalidInputFormat ''Full CBOR parsing not implemented - enable mock-tee feature'')))"

definition nitro_verify_signature ::
    "vm_features \<Rightarrow> tee_verifier_config \<Rightarrow> bytes \<Rightarrow> nitro_attestation \<Rightarrow> (precompile_error, bool) result" where
  "nitro_verify_signature F config attestation parsed =
     (if bf_mock_tee F then
        if tv_enterprise_mode config
        then Err (VerificationFailed ''Nitro cryptographic verification backend required in enterprise mode'')
        else Ok True
      else Err (VerificationFailed ''Nitro COSE signature verification backend is not implemented''))"

definition nitro_build_output :: "bool \<Rightarrow> tee_status \<Rightarrow> bytes \<Rightarrow> bytes" where
  "nitro_build_output valid status pcr0 =
     [if valid then 1 else 0, tee_status_u8 status, tee_platform_u8 Nitro, 0]
     @ take 32 pcr0 @ replicate (32 - length pcr0) 0 @ replicate 32 0"

definition nitro_judge ::
    "vm_features \<Rightarrow> precompile_lib \<Rightarrow> tee_verifier_config \<Rightarrow> measurement_registry \<Rightarrow> u64 \<Rightarrow> u64 \<Rightarrow> bytes \<Rightarrow> bytes \<Rightarrow> bytes" where
  "nitro_judge F L config registry now now_millis user_data_hash attestation_bytes =
     (case parse_attestation F L now_millis attestation_bytes of
        Err _ \<Rightarrow> nitro_build_output False ParseError []
      | Ok attestation \<Rightarrow>
          let pcr0 = (case hm_get (na_pcrs attestation) 0 of Some p \<Rightarrow> p | None \<Rightarrow> [])
          in if nitro_verify_signature F config attestation_bytes attestation \<noteq> Ok True
             then nitro_build_output False InvalidSignature pcr0
             else if tv_strict_mode config \<and> is_nitro_trusted registry pcr0 now \<noteq> None
             then nitro_build_output False UntrustedMeasurement pcr0
             else if saturating_sub now (na_timestamp attestation div 1000) > tv_max_attestation_age_secs config
             then nitro_build_output False AttestationExpired pcr0
             else if (case na_user_data attestation of Some user_data \<Rightarrow> xl_sha256 L user_data \<noteq> user_data_hash | None \<Rightarrow> False)
             then nitro_build_output False ReportDataMismatch pcr0
             else nitro_build_output True StatusOk pcr0)"

definition nitro_gas_cost :: "bytes \<Rightarrow> u64" where
  "nitro_gas_cost input = kb_gas_cost 200000 5000 input"

definition nitro_execute ::
    "vm_features \<Rightarrow> precompile_lib \<Rightarrow> tee_verifier_config \<Rightarrow> measurement_registry \<Rightarrow> u64 \<Rightarrow> u64 \<Rightarrow> bytes \<Rightarrow> u64 \<Rightarrow> precompile_result" where
  "nitro_execute F L config registry now now_millis input gas_limit =
     (let gas = nitro_gas_cost input
      in charge gas gas_limit
           (if \<not> pt_nitro_enabled (tv_platform_config config)
            then Ok (exec_success (nitro_build_output False PlatformDisabled []) gas)
            else if length input < 96 then Err (InvalidInputFormat ''Input too short'')
            else
              case checked_abi_slice input (u256_to_usize (slice 0 32 input)) (u256_to_usize (slice 32 64 input)) ''Attestation'' of
                Err e \<Rightarrow> Err e
              | Ok attestation_bytes \<Rightarrow>
                  Ok (exec_success (nitro_judge F L config registry now now_millis (slice 64 96 input) attestation_bytes) gas)))"

definition nitro_precompile ::
    "vm_features \<Rightarrow> precompile_lib \<Rightarrow> tee_verifier_config \<Rightarrow> measurement_registry \<Rightarrow> u64 \<Rightarrow> u64 \<Rightarrow> precompile" where
  "nitro_precompile F L config registry now now_millis =
     \<lparr>pc_address = 0x0401, pc_name = ''NITRO_VERIFY'', pc_gas_cost = nitro_gas_cost,
      pc_execute = nitro_execute F L config registry now now_millis, pc_min_input_length = 196, pc_max_input_length = 0\<rparr>"

section \<open>SEV-SNP\<close>

record sev_snp_report =
  sr_version :: u32
  sr_guest_svn :: u32
  sr_policy :: u64
  sr_family_id :: bytes
  sr_image_id :: bytes
  sr_vmpl :: u32
  sr_signature_algo :: u32
  sr_platform_version :: u64
  sr_platform_info :: u64
  sr_author_key_en :: u32
  sr_measurement :: bytes
  sr_host_data :: bytes
  sr_id_key_digest :: bytes
  sr_author_key_digest :: bytes
  sr_report_id :: bytes
  sr_report_id_ma :: bytes
  sr_reported_tcb :: u64
  sr_chip_id :: bytes
  sr_report_data :: bytes
  sr_signature :: bytes

definition sev_parse_report :: "bytes \<Rightarrow> (precompile_error, sev_snp_report) result" where
  "sev_parse_report report =
     (if length report < 672
      then Err (InvalidInputFormat (''Report too short: '' @ show_nat (length report) @ '' bytes (minimum 672)''))
      else Ok \<lparr>sr_version = le_word (slice 0 4 report), sr_guest_svn = le_word (slice 4 8 report),
               sr_policy = le_word (slice 8 16 report), sr_family_id = slice 16 32 report, sr_image_id = slice 32 48 report,
               sr_vmpl = le_word (slice 48 52 report), sr_signature_algo = le_word (slice 52 56 report),
               sr_platform_version = le_word (slice 56 64 report), sr_platform_info = le_word (slice 64 72 report),
               sr_author_key_en = 0, sr_measurement = slice 80 128 report, sr_host_data = slice 128 160 report,
               sr_id_key_digest = slice 160 208 report, sr_author_key_digest = slice 208 256 report,
               sr_report_id = slice 256 288 report, sr_report_id_ma = slice 288 320 report,
               sr_reported_tcb = le_word (slice 320 328 report), sr_chip_id = slice 328 392 report,
               sr_report_data = slice 392 456 report,
               sr_signature = (if length report \<ge> 672 + 512 then slice 672 (672 + 512) report else [])\<rparr>)"

definition sev_build_output :: "bool \<Rightarrow> tee_status \<Rightarrow> bytes \<Rightarrow> bytes" where
  "sev_build_output valid status measurement =
     [if valid then 1 else 0, tee_status_u8 status, tee_platform_u8 SevSnp, 0] @ take 32 measurement @ replicate 32 0"

definition sev_trusted :: "measurement_registry \<Rightarrow> u64 \<Rightarrow> bytes \<Rightarrow> bool" where
  "sev_trusted registry now measurement \<longleftrightarrow>
     (\<exists>(_, m) \<in> set (mr_sev_measurement registry).
        tm_active m \<and> tm_measurement m = measurement \<and> (tm_expires_at m = 0 \<or> now \<le> tm_expires_at m))"

definition sev_judge :: "tee_verifier_config \<Rightarrow> measurement_registry \<Rightarrow> u64 \<Rightarrow> bytes \<Rightarrow> bytes \<Rightarrow> bytes" where
  "sev_judge config registry now expected_data_hash report_bytes =
     (case sev_parse_report report_bytes of
        Err _ \<Rightarrow> sev_build_output False ParseError (replicate 48 0)
      | Ok report \<Rightarrow>
          if sr_signature report = [] then sev_build_output False InvalidSignature (sr_measurement report)
          else if take 32 (sr_report_data report) \<noteq> expected_data_hash
          then sev_build_output False ReportDataMismatch (sr_measurement report)
          else if tv_strict_mode config \<and> mr_sev_measurement registry \<noteq> [] \<and> \<not> sev_trusted registry now (sr_measurement report)
          then sev_build_output False UntrustedMeasurement (sr_measurement report)
          else if tv_enterprise_mode config then sev_build_output False InvalidSignature (sr_measurement report)
          else sev_build_output True StatusOk (sr_measurement report))"

definition sev_gas_cost :: "bytes \<Rightarrow> u64" where
  "sev_gas_cost input = kb_gas_cost 300000 8000 input"

definition sev_execute :: "tee_verifier_config \<Rightarrow> measurement_registry \<Rightarrow> u64 \<Rightarrow> bytes \<Rightarrow> u64 \<Rightarrow> precompile_result" where
  "sev_execute config registry now input gas_limit =
     (let gas = sev_gas_cost input
      in charge gas gas_limit
           (if \<not> pt_sev_snp_enabled (tv_platform_config config)
            then Ok (exec_success (sev_build_output False PlatformDisabled (replicate 48 0)) gas)
            else if length input < 96 then Err (InvalidInputFormat ''Input too short'')
            else
              case checked_abi_slice input (u256_to_usize (slice 0 32 input)) (u256_to_usize (slice 32 64 input)) ''Report'' of
                Err e \<Rightarrow> Err e
              | Ok report_bytes \<Rightarrow> Ok (exec_success (sev_judge config registry now (slice 64 96 input) report_bytes) gas)))"

definition sev_precompile :: "tee_verifier_config \<Rightarrow> measurement_registry \<Rightarrow> u64 \<Rightarrow> precompile" where
  "sev_precompile config registry now =
     \<lparr>pc_address = 0x0403, pc_name = ''SEV_SNP_VERIFY'', pc_gas_cost = sev_gas_cost, pc_execute = sev_execute config registry now,
      pc_min_input_length = 96 + 672, pc_max_input_length = 0\<rparr>"

section \<open>The universal entry\<close>

record universal_tee =
  ut_sgx :: precompile
  ut_nitro :: precompile
  ut_sev :: precompile
  ut_enterprise_mode :: bool

definition universal_new ::
    "vm_features \<Rightarrow> precompile_lib \<Rightarrow> tee_verifier_config \<Rightarrow> measurement_registry \<Rightarrow> u64 \<Rightarrow> u64 \<Rightarrow> universal_tee" where
  "universal_new F L config registry now now_millis =
     \<lparr>ut_sgx = sgx_precompile F L config registry now, ut_nitro = nitro_precompile F L config registry now now_millis,
      ut_sev = sev_precompile config registry now, ut_enterprise_mode = tv_enterprise_mode config\<rparr>"

fun detect_platform :: "bytes \<Rightarrow> vm_tee_platform option" where
  "detect_platform [] = None"
| "detect_platform (b # bs) =
     (if b = 1 then Some Nitro
      else if b = 2 then Some SgxDcap
      else if b = 4 then Some SevSnp
      else if length (b # bs) \<ge> 2 \<and> (le_word (slice 0 2 (b # bs)) :: u16) = 3 then Some SgxDcap
      else if length (b # bs) \<ge> 4 \<and> (le_word (slice 0 4 (b # bs)) :: u32) = 2 then Some SevSnp
      else None)"

definition universal_gas_cost :: "universal_tee \<Rightarrow> bytes \<Rightarrow> u64" where
  "universal_gas_cost u input =
     (case detect_platform input of
        Some SgxDcap \<Rightarrow> pc_gas_cost (ut_sgx u) input + 5000
      | Some Nitro \<Rightarrow> pc_gas_cost (ut_nitro u) input + 5000
      | Some SevSnp \<Rightarrow> pc_gas_cost (ut_sev u) input + 5000
      | _ \<Rightarrow> 500000)"

definition universal_execute :: "vm_features \<Rightarrow> universal_tee \<Rightarrow> bytes \<Rightarrow> u64 \<Rightarrow> precompile_result" where
  "universal_execute F u input gas_limit =
     charge (universal_gas_cost u input) gas_limit
       (case detect_platform input of
          None \<Rightarrow> Err (InvalidInputFormat ''Cannot detect TEE platform'')
        | Some platform \<Rightarrow>
            if ut_enterprise_mode u \<and> platform = UnknownPlatform
            then Err (VerificationFailed ''Enterprise mode rejects simulated/unknown TEE platform'')
            else if \<not> bf_sgx F \<and> ut_enterprise_mode u
            then Err (VerificationFailed ''Enterprise mode requires real TEE verification (sgx feature not enabled)'')
            else
              let data = (if 1 \<le> hd input \<and> hd input \<le> 4 then tl input else input)
              in case platform of
                   SgxDcap \<Rightarrow> pc_execute (ut_sgx u) data gas_limit
                 | SgxEpid \<Rightarrow> pc_execute (ut_sgx u) data gas_limit
                 | Nitro \<Rightarrow> pc_execute (ut_nitro u) data gas_limit
                 | SevSnp \<Rightarrow> pc_execute (ut_sev u) data gas_limit
                 | UnknownPlatform \<Rightarrow> Err (InvalidInputFormat ''Unknown TEE platform''))"

definition universal_precompile :: "vm_features \<Rightarrow> universal_tee \<Rightarrow> precompile" where
  "universal_precompile F u =
     \<lparr>pc_address = 0x0400, pc_name = ''TEE_VERIFY'', pc_gas_cost = universal_gas_cost u, pc_execute = universal_execute F u,
      pc_min_input_length = 96, pc_max_input_length = 0\<rparr>"

end
