(* ===== verification/Vm_Precompiles.thy ===== *)
theory Vm_Precompiles
  imports Vm_Zkp Vm_Tee
begin

text \<open>
  The registries as the code fills them: \<open>PrecompileRegistry::new\<close> of \<open>mod.rs\<close> and \<open>RegistryBuilder\<close> of \<open>registry.rs\<close>. A build fixes the
  features and libraries; \<open>now\<close> and \<open>now_millis\<close> are the clocks that the attestation precompiles read.
\<close>

section \<open>The static registry\<close>

definition register_standard_precompiles :: "precompile_lib \<Rightarrow> precompile_registry \<Rightarrow> precompile_registry" where
  "register_standard_precompiles L r =
     registry_register (ecdsa_recover_precompile L) (registry_register identity_precompile (registry_register (sha256_precompile L) r))"

definition register_pqc_precompiles :: "precompile_lib \<Rightarrow> precompile_registry \<Rightarrow> precompile_registry" where
  "register_pqc_precompiles L r =
     registry_register (hybrid_verify_precompile L)
       (registry_register (kyber_decaps_precompile L Kyber768) (registry_register (dilithium_verify_precompile L Level3) r))"

definition register_zkp_precompiles :: "vm_features \<Rightarrow> precompile_lib \<Rightarrow> precompile_registry \<Rightarrow> precompile_registry" where
  "register_zkp_precompiles F L r =
     (let u = unified_zkp_defaults F L
      in registry_register (batch_groth16_precompile F L)
           (registry_register (uz_stark u) (registry_register (uz_halo2 u) (registry_register (uz_ezkl u)
              (registry_register (uz_plonk u) (registry_register (uz_groth16 u)
                 (registry_register (unified_zkp_precompile u) r)))))))"

definition register_tee_precompiles ::
    "vm_features \<Rightarrow> precompile_lib \<Rightarrow> u64 \<Rightarrow> u64 \<Rightarrow> precompile_registry \<Rightarrow> precompile_registry" where
  "register_tee_precompiles F L now now_millis r =
     (let config = tee_enterprise; registry = measurement_registry_new
      in registry_register (sev_precompile config registry now)
           (registry_register (sgx_precompile F L config registry now)
              (registry_register (nitro_precompile F L config registry now now_millis)
                 (registry_register (universal_precompile F (universal_new F L config registry now now_millis)) r))))"

definition registry_new :: "vm_features \<Rightarrow> precompile_lib \<Rightarrow> u64 \<Rightarrow> u64 \<Rightarrow> precompile_registry" where
  "registry_new F L now now_millis =
     register_tee_precompiles F L now now_millis
       (register_zkp_precompiles F L (register_pqc_precompiles L (register_standard_precompiles L registry_minimal)))"

section \<open>The builder\<close>

definition with_standard :: "precompile_lib \<Rightarrow> registry_builder \<Rightarrow> registry_builder" where
  "with_standard L b =
     builder_add (ecdsa_recover_precompile L) (builder_add identity_precompile (builder_add (sha256_precompile L) b))"

definition with_pqc :: "precompile_lib \<Rightarrow> registry_builder \<Rightarrow> registry_builder" where
  "with_pqc L b =
     builder_add (hybrid_verify_precompile L)
       (builder_add (kyber_decaps_precompile L Kyber768) (builder_add (dilithium_verify_precompile L Level3) b))"

definition with_zkp :: "vm_features \<Rightarrow> precompile_lib \<Rightarrow> registry_builder \<Rightarrow> registry_builder" where
  "with_zkp F L b =
     (let u = unified_zkp_defaults F L
      in builder_add (unified_zkp_precompile u)
           (builder_add (uz_halo2 u) (builder_add (uz_ezkl u) (builder_add (uz_plonk u) (builder_add (uz_groth16 u) b)))))"

definition with_tee :: "vm_features \<Rightarrow> precompile_lib \<Rightarrow> u64 \<Rightarrow> u64 \<Rightarrow> registry_builder \<Rightarrow> registry_builder" where
  "with_tee F L now now_millis b =
     (let config = tee_enterprise; registry = measurement_registry_new
      in builder_add (universal_precompile F (universal_new F L config registry now now_millis))
           (builder_add (sev_precompile config registry now) (builder_add (sgx_precompile F L config registry now)
              (builder_add (nitro_precompile F L config registry now now_millis) b))))"

definition with_aethelred :: "vm_features \<Rightarrow> precompile_lib \<Rightarrow> u64 \<Rightarrow> u64 \<Rightarrow> registry_builder \<Rightarrow> registry_builder" where
  "with_aethelred F L now now_millis b = with_tee F L now now_millis (with_zkp F L (with_pqc L (with_standard L b)))"

definition create_aethelred_registry :: "vm_features \<Rightarrow> precompile_lib \<Rightarrow> u64 \<Rightarrow> u64 \<Rightarrow> dynamic_registry" where
  "create_aethelred_registry F L now now_millis = builder_build (with_aethelred F L now now_millis builder_new)"

end
