(* ===== verification/Vm_Precompile_Properties.thy ===== *)
theory Vm_Precompile_Properties
  imports Vm_Precompiles
begin

text \<open>
  What the precompiles guarantee: the gas contract of the trait as a locale that every precompile interprets, the exact meaning of a
  Groth16 batch, the round trip of SGX quotes and the verdict on them, and the attestation precompiles that fail closed.
\<close>

section \<open>The gas contract\<close>

locale metered =
  fixes gas_cost :: "bytes \<Rightarrow> u64" and execute :: "bytes \<Rightarrow> u64 \<Rightarrow> precompile_result"
  assumes refuses: "gas_limit < gas_cost input \<Longrightarrow> \<exists>e. execute input gas_limit = Err e"
    and affordable: "execute input gas_limit = Ok r \<Longrightarrow> er_gas_used r \<le> gas_limit"
begin

lemma runs_only_if_paid:
  assumes "execute input gas_limit = Ok r"
  shows "gas_cost input \<le> gas_limit \<and> er_gas_used r \<le> gas_limit"
  using assms refuses [of gas_limit input] affordable [OF assms] by (cases "gas_limit < gas_cost input") (auto simp: not_less)

end

text \<open>A precompile that checks its own cost and reports it.\<close>

locale charges_own_cost =
  fixes gas_cost :: "bytes \<Rightarrow> u64" and execute :: "bytes \<Rightarrow> u64 \<Rightarrow> precompile_result"
    and body :: "bytes \<Rightarrow> u64 \<Rightarrow> precompile_result"
  assumes checks: "execute input gas_limit = charge (gas_cost input) gas_limit (body input gas_limit)"
    and reports: "body input gas_limit = Ok r \<Longrightarrow> er_gas_used r = gas_cost input"
begin

lemma result_cost: "execute input gas_limit = Ok r \<Longrightarrow> er_gas_used r = gas_cost input \<and> gas_cost input \<le> gas_limit"
  using reports [of input gas_limit r] by (auto simp: checks charge_def split: if_splits)

end

sublocale charges_own_cost \<subseteq> metered
  by unfold_locales (auto simp: checks charge_def dest: reports split: if_splits)

lemma exec_result_simps [simp]:
  "er_gas_used (exec_success out g) = g" "er_output (exec_success out g) = out" "er_success (exec_success out g)"
  "er_gas_used (exec_failure g) = g" "er_output (exec_failure g) = []" "\<not> er_success (exec_failure g)"
  by (simp_all add: exec_success_def exec_failure_def)

interpretation sha: charges_own_cost "pc_gas_cost (sha256_precompile L)" "pc_execute (sha256_precompile L)"
    "\<lambda>input _. Ok (exec_success (xl_sha256 L input) (pc_gas_cost (sha256_precompile L) input))" for L
  by unfold_locales (auto simp: sha256_precompile_def Let_def)

interpretation idt: charges_own_cost "pc_gas_cost identity_precompile" "pc_execute identity_precompile"
    "\<lambda>input _. Ok (exec_success input (pc_gas_cost identity_precompile input))"
  by unfold_locales (auto simp: identity_precompile_def Let_def)

lemma ecdsa_recover_gas: "er_gas_used (ecdsa_recover L input gas) = gas"
  by (auto simp: ecdsa_recover_def Let_def split: option.splits)

interpretation ecr: charges_own_cost "pc_gas_cost (ecdsa_recover_precompile L)" "pc_execute (ecdsa_recover_precompile L)"
    "\<lambda>input _. Ok (ecdsa_recover L input ECDSA_RECOVER_GAS)" for L
  by unfold_locales (auto simp: ecdsa_recover_precompile_def ecdsa_recover_gas)

lemma dilithium_verify_gas: "er_gas_used (dilithium_verify L level input gas) = gas"
  by (auto simp: dilithium_verify_def Let_def split: option.splits)

interpretation dil: charges_own_cost "pc_gas_cost (dilithium_verify_precompile L level)" "pc_execute (dilithium_verify_precompile L level)"
    "\<lambda>input _. Ok (dilithium_verify L level input (dilithium_gas level))" for L level
  by unfold_locales (auto simp: dilithium_verify_precompile_def dilithium_verify_gas)

interpretation kyb: charges_own_cost "pc_gas_cost (kyber_decaps_precompile L level)" "pc_execute (kyber_decaps_precompile L level)"
    "\<lambda>input _. kyber_decaps L level input (kyber_gas level)" for L level
  by unfold_locales (auto simp: kyber_decaps_precompile_def kyber_decaps_def Let_def split: if_splits)

lemma hybrid_verify_gas: "er_gas_used (hybrid_verify L input gas) = gas"
  by (auto simp: hybrid_verify_def Let_def)

interpretation hyb: charges_own_cost "pc_gas_cost (hybrid_verify_precompile L)" "pc_execute (hybrid_verify_precompile L)"
    "\<lambda>input _. Ok (hybrid_verify L input HYBRID_VERIFY_GAS)" for L
  by unfold_locales (auto simp: hybrid_verify_precompile_def hybrid_verify_gas)

text \<open>For the others the body is what \<open>execute\<close> does when the gas suffices.\<close>

definition paid_body :: "(bytes \<Rightarrow> u64 \<Rightarrow> precompile_result) \<Rightarrow> bytes \<Rightarrow> u64 \<Rightarrow> precompile_result" where
  "paid_body execute input _ = execute input max_val"

lemma charge_paid [simp]: "charge gas max_val r = r"
  by (simp add: charge_def max_val_def not_less)

interpretation gro: charges_own_cost "groth16_gas_cost curve" "groth16_execute F L curve" "paid_body (groth16_execute F L curve)" for F L curve
  by unfold_locales (auto simp: paid_body_def groth16_execute_def Let_def split: if_splits)

interpretation bat: charges_own_cost batch_gas_cost "batch_groth16_execute F L" "paid_body (batch_groth16_execute F L)" for F L
  by unfold_locales (auto simp: paid_body_def batch_groth16_execute_def Let_def split: if_splits result.splits)

interpretation plo: charges_own_cost "\<lambda>_. PLONK_BASE" "plonk_execute F" "paid_body (plonk_execute F)" for F
  by unfold_locales (auto simp: paid_body_def plonk_execute_def Let_def split: if_splits)

interpretation ezk: charges_own_cost ezkl_gas_cost "ezkl_execute F bs" "paid_body (ezkl_execute F bs)" for F bs
  by unfold_locales (auto simp: paid_body_def ezkl_execute_def Let_def split: if_splits option.splits)

interpretation hal: charges_own_cost "\<lambda>_. PLONK_BASE" "halo2_execute F" "paid_body (halo2_execute F)" for F
  by unfold_locales (auto simp: paid_body_def halo2_execute_def Let_def split: if_splits)

interpretation sta: charges_own_cost "\<lambda>_. STARK_BASE" "stark_execute F" "paid_body (stark_execute F)" for F
  by unfold_locales (auto simp: paid_body_def stark_execute_def Let_def split: if_splits)

interpretation sgx: charges_own_cost sgx_gas_cost "sgx_execute F L c reg now" "paid_body (sgx_execute F L c reg now)" for F L c reg now
  by unfold_locales (auto simp: paid_body_def sgx_execute_def Let_def split: if_splits result.splits)

interpretation nit: charges_own_cost nitro_gas_cost "nitro_execute F L c reg now ms" "paid_body (nitro_execute F L c reg now ms)" for F L c reg now ms
  by unfold_locales (auto simp: paid_body_def nitro_execute_def Let_def split: if_splits result.splits)

interpretation sev: charges_own_cost sev_gas_cost "sev_execute c reg now" "paid_body (sev_execute c reg now)" for c reg now
  by unfold_locales (auto simp: paid_body_def sev_execute_def Let_def split: if_splits result.splits)

text \<open>The two routing entries check the cost of the route and pass the limit on.\<close>

definition metered_precompile :: "precompile \<Rightarrow> bool" where
  "metered_precompile p \<longleftrightarrow> metered (pc_gas_cost p) (pc_execute p)"

lemma routed_verifiers:
  "detect_proof_system (unified_zkp_defaults F L) tag = Some p \<Longrightarrow> metered_precompile p"
  using gro.metered_axioms plo.metered_axioms ezk.metered_axioms hal.metered_axioms sta.metered_axioms
  by (auto simp: metered_precompile_def detect_proof_system_def unified_zkp_defaults_def groth16_precompile_def plonk_precompile_def
      ezkl_precompile_def halo2_precompile_def stark_precompile_def split: if_splits)

interpretation uni: metered "unified_gas_cost (unified_zkp_defaults F L)" "unified_execute (unified_zkp_defaults F L)" for F L
proof unfold_locales
  fix input gas_limit r
  assume ok: "unified_execute (unified_zkp_defaults F L) input gas_limit = Ok r"
  then obtain tag data p where "detect_proof_system (unified_zkp_defaults F L) tag = Some p" "pc_execute p data gas_limit = Ok r"
    by (cases input) (auto simp: charge_def split: if_splits option.splits)
  then show "er_gas_used r \<le> gas_limit"
    using routed_verifiers metered.affordable unfolding metered_precompile_def by blast
next
  fix input gas_limit
  assume "gas_limit < unified_gas_cost (unified_zkp_defaults F L) input"
  then show "\<exists>e. unified_execute (unified_zkp_defaults F L) input gas_limit = Err e"
    by (cases input) (auto simp: charge_def)
qed

interpretation unv: metered "universal_gas_cost (universal_new F L c reg now ms)" "universal_execute F (universal_new F L c reg now ms)"
  for F L c reg now ms
proof unfold_locales
  fix input gas_limit r
  assume ok: "universal_execute F (universal_new F L c reg now ms) input gas_limit = Ok r"
  then show "er_gas_used r \<le> gas_limit"
    using sgx.affordable nit.affordable sev.affordable
    by (auto simp: universal_execute_def universal_new_def sgx_precompile_def nitro_precompile_def sev_precompile_def charge_def Let_def
        split: if_splits option.splits vm_tee_platform.splits)
next
  fix input gas_limit
  assume "gas_limit < universal_gas_cost (universal_new F L c reg now ms) input"
  then show "\<exists>e. universal_execute F (universal_new F L c reg now ms) input gas_limit = Err e"
    by (auto simp: universal_execute_def charge_def)
qed

section \<open>Registries\<close>

definition all_metered :: "(u64, precompile) hashmap \<Rightarrow> bool" where
  "all_metered m \<longleftrightarrow> (\<forall>a p. hm_get m a = Some p \<longrightarrow> metered_precompile p \<and> pc_address p = a)"

lemma all_metered_insert: "all_metered m \<Longrightarrow> metered_precompile p \<Longrightarrow> all_metered (hm_insert (pc_address p) p m)"
  by (auto simp: all_metered_def hm_get_insert split: if_splits)

lemma stock_metered [simp]:
  "metered_precompile (sha256_precompile L)" "metered_precompile identity_precompile" "metered_precompile (ecdsa_recover_precompile L)"
  "metered_precompile (dilithium_verify_precompile L dl)" "metered_precompile (kyber_decaps_precompile L kl)"
  "metered_precompile (hybrid_verify_precompile L)" "metered_precompile (groth16_precompile F L curve)"
  "metered_precompile (batch_groth16_precompile F L)" "metered_precompile (plonk_precompile F)" "metered_precompile (ezkl_precompile F)"
  "metered_precompile (halo2_precompile F)" "metered_precompile (stark_precompile F)"
  "metered_precompile (unified_zkp_precompile (unified_zkp_defaults F L))" "metered_precompile (sgx_precompile F L c reg now)"
  "metered_precompile (nitro_precompile F L c reg now ms)" "metered_precompile (sev_precompile c reg now)"
  "metered_precompile (universal_precompile F (universal_new F L c reg now ms))"
  using sha.metered_axioms idt.metered_axioms ecr.metered_axioms dil.metered_axioms kyb.metered_axioms hyb.metered_axioms
    gro.metered_axioms bat.metered_axioms plo.metered_axioms ezk.metered_axioms hal.metered_axioms sta.metered_axioms
    uni.metered_axioms sgx.metered_axioms nit.metered_axioms sev.metered_axioms unv.metered_axioms
  by (simp_all add: metered_precompile_def groth16_precompile_def batch_groth16_precompile_def plonk_precompile_def
      ezkl_precompile_def halo2_precompile_def stark_precompile_def unified_zkp_precompile_def sgx_precompile_def
      nitro_precompile_def sev_precompile_def universal_precompile_def)

lemma registry_register_metered:
  "all_metered (pr_precompiles r) \<Longrightarrow> metered_precompile p \<Longrightarrow> all_metered (pr_precompiles (registry_register p r))"
  by (simp add: registry_register_def all_metered_insert)

lemma all_metered_minimal: "all_metered (pr_precompiles registry_minimal)"
  by (simp add: registry_minimal_def all_metered_def)

lemma unified_verifiers [simp]:
  "uz_groth16 (unified_zkp_defaults F L) = groth16_precompile F L Bn254" "uz_plonk (unified_zkp_defaults F L) = plonk_precompile F"
  "uz_ezkl (unified_zkp_defaults F L) = ezkl_precompile F" "uz_halo2 (unified_zkp_defaults F L) = halo2_precompile F"
  "uz_stark (unified_zkp_defaults F L) = stark_precompile F"
  by (simp_all add: unified_zkp_defaults_def)

lemma registry_new_metered: "all_metered (pr_precompiles (registry_new F L now ms))"
  by (simp add: registry_new_def register_tee_precompiles_def register_zkp_precompiles_def register_pqc_precompiles_def
      register_standard_precompiles_def Let_def registry_register_metered all_metered_minimal)

lemma execute_at_Ok:
  assumes "execute_at m mult a input gas_limit = Ok r"
  obtains p where "hm_get m a = Some p" "pc_min_input_length p \<le> length input"
    "f64_as_word (f64_mul (u64_as_f64 (pc_gas_cost p input)) mult) \<le> gas_limit" "pc_execute p input gas_limit = Ok r"
  using assms by (auto simp: execute_at_def Let_def not_less split: option.splits if_splits)

text \<open>
  C32. No call of a registered precompile costs more than its limit: whatever gas multiplier is set, a call through the registry of the node
  that returns a result has found a precompile registered at that address, its input has the length the precompile asks for, the limit
  covers both the base cost and the cost scaled by the multiplier, and the gas reported as used stays within the limit.
\<close>

theorem precompile_calls_paid:
  assumes "registry_execute (set_gas_multiplier m (registry_new F L now ms)) a input gas_limit = Ok r"
  shows "\<exists>p. registry_get (registry_new F L now ms) a = Some p \<and> pc_address p = a \<and> pc_min_input_length p \<le> length input
    \<and> pc_gas_cost p input \<le> gas_limit \<and> f64_as_word (f64_mul (u64_as_f64 (pc_gas_cost p input)) m) \<le> gas_limit
    \<and> er_gas_used r \<le> gas_limit"
proof -
  obtain p where p: "hm_get (pr_precompiles (registry_new F L now ms)) a = Some p" "pc_min_input_length p \<le> length input"
    "f64_as_word (f64_mul (u64_as_f64 (pc_gas_cost p input)) m) \<le> gas_limit" "pc_execute p input gas_limit = Ok r"
    using assms by (auto simp: registry_execute_def set_gas_multiplier_def elim: execute_at_Ok)
  then have "metered (pc_gas_cost p) (pc_execute p)" "pc_address p = a"
    using registry_new_metered [of F L now ms] by (auto simp: all_metered_def metered_precompile_def)
  then show ?thesis using p metered.runs_only_if_paid [of "pc_gas_cost p" "pc_execute p" input gas_limit r]
    by (auto simp: registry_get_def)
qed

text \<open>The overhead of the unified entry and the multiplier are checked against the limit and never charged.\<close>

lemma overhead_not_charged:
  assumes "unified_execute (unified_zkp_defaults F L) (tag # data) gas_limit = Ok r"
    and "detect_proof_system (unified_zkp_defaults F L) tag = Some p"
  shows "er_gas_used r = pc_gas_cost p data"
    and "unified_gas_cost (unified_zkp_defaults F L) (tag # data) = er_gas_used r + ZKP_UNIFIED_OVERHEAD"
proof -
  have "pc_execute p data gas_limit = Ok r" using assms by (auto simp: charge_def split: if_splits)
  then show used: "er_gas_used r = pc_gas_cost p data"
    using assms(2) gro.result_cost plo.result_cost ezk.result_cost hal.result_cost sta.result_cost
    by (auto simp: detect_proof_system_def unified_zkp_defaults_def groth16_precompile_def plonk_precompile_def
        ezkl_precompile_def halo2_precompile_def stark_precompile_def split: if_splits)
  show "unified_gas_cost (unified_zkp_defaults F L) (tag # data) = er_gas_used r + ZKP_UNIFIED_OVERHEAD"
    using used assms(2) by simp
qed

text \<open>The builder leaves out the STARK and batch verifiers, which the static registry has.\<close>

lemma builder_misses_verifiers:
  "is_precompile (registry_new F L now ms) 0x0305" "is_precompile (registry_new F L now ms) 0x0306"
  "hm_get (dr_precompiles (create_aethelred_registry F L now ms)) 0x0305 = None"
  "hm_get (dr_precompiles (create_aethelred_registry F L now ms)) 0x0306 = None"
proof -
  have addresses: "pc_address (sha256_precompile L) = 2" "pc_address identity_precompile = 4" "pc_address (ecdsa_recover_precompile L) = 1"
    "pc_address (dilithium_verify_precompile L Level3) = 0x100" "pc_address (kyber_decaps_precompile L Kyber768) = 0x101"
    "pc_address (hybrid_verify_precompile L) = 0x102" "pc_address (groth16_precompile F L Bn254) = 0x301"
    "pc_address (batch_groth16_precompile F L) = 0x305" "pc_address (plonk_precompile F) = 0x302"
    "pc_address (ezkl_precompile F) = 0x303"
    "pc_address (halo2_precompile F) = 0x304" "pc_address (stark_precompile F) = 0x306"
    "pc_address (unified_zkp_precompile u) = 0x300" "pc_address (sgx_precompile F L c reg now) = 0x402"
    "pc_address (nitro_precompile F L c reg now ms) = 0x401" "pc_address (sev_precompile c reg now) = 0x403"
    "pc_address (universal_precompile F v) = 0x400" for u v c reg
    by (simp_all add: sha256_precompile_def identity_precompile_def ecdsa_recover_precompile_def dilithium_verify_precompile_def
        kyber_decaps_precompile_def hybrid_verify_precompile_def groth16_precompile_def batch_groth16_precompile_def
        plonk_precompile_def ezkl_precompile_def halo2_precompile_def stark_precompile_def unified_zkp_precompile_def
        sgx_precompile_def nitro_precompile_def sev_precompile_def universal_precompile_def Let_def)
  show "is_precompile (registry_new F L now ms) 0x0305" "is_precompile (registry_new F L now ms) 0x0306"
    by (simp_all add: is_precompile_def registry_new_def register_tee_precompiles_def register_zkp_precompiles_def Let_def
        registry_register_def addresses hm_get_insert)
  show "hm_get (dr_precompiles (create_aethelred_registry F L now ms)) 0x0305 = None"
    "hm_get (dr_precompiles (create_aethelred_registry F L now ms)) 0x0306 = None"
    by (simp_all add: create_aethelred_registry_def builder_build_def with_aethelred_def with_tee_def with_zkp_def with_pqc_def
        with_standard_def builder_add_def builder_new_def dynamic_register_def dynamic_set_gas_multiplier_def dynamic_new_def
        addresses hm_get_insert Let_def)
qed

section \<open>Groth16 batches\<close>

type_synonym batch_entry = "bytes \<times> bytes \<times> bytes list"

definition le32 :: "nat \<Rightarrow> bytes" where
  "le32 n = le_bytes 4 (of_nat n :: u32)"

definition encode_entry :: "batch_entry \<Rightarrow> bytes" where
  "encode_entry e = (case e of (vk, pf, ins) \<Rightarrow> le32 (length vk) @ le32 (length pf) @ le32 (length ins) @ vk @ pf @ concat ins)"

definition encode_batch :: "batch_entry list \<Rightarrow> bytes" where
  "encode_batch es = le32 (length es) @ concat (map encode_entry es)"

definition entry_wf :: "batch_entry \<Rightarrow> bool" where
  "entry_wf e = (case e of (vk, pf, ins) \<Rightarrow>
     length vk < 2 ^ 32 \<and> length pf < 2 ^ 32 \<and> length ins < 2 ^ 32 \<and> (\<forall>w \<in> set ins. length w = 32))"

definition entry_verifies :: "precompile_lib \<Rightarrow> batch_entry \<Rightarrow> bool" where
  "entry_verifies L e = (case e of (vk, pf, ins) \<Rightarrow>
     xl_ark_vk_error L vk = None \<and> xl_ark_proof_error L pf = None \<and> (\<forall>w \<in> set ins. xl_ark_input_error L w = None)
     \<and> xl_ark_verify L vk pf ins = Ok True)"

definition entry_inputs :: "batch_entry \<Rightarrow> nat" where
  "entry_inputs e = length (snd (snd e))"

lemma length_le32 [simp]: "length (le32 n) = 4"
  by (simp add: le32_def)

lemma le32_at_here: "n < 2 ^ 32 \<Longrightarrow> offset = length pre \<Longrightarrow> le32_at (pre @ le32 n @ post) offset = n"
  by (simp add: le32_at_def le32_def slice_right slice_whole unat_of_nat take_bit_nat_eq_self)

lemma length_concat32: "\<forall>w \<in> set ws. length w = 32 \<Longrightarrow> length (concat ws) = length ws * 32"
  by (induction ws) auto

lemma words32_Cons: "length w = 32 \<Longrightarrow> words32 (w @ bs) = w # words32 bs"
  by (simp add: words32_def upt_rec [of 0] map_Suc_upt [symmetric] slice_right slice_whole add.commute del: upt_Suc)

lemma words32_concat: "\<forall>w \<in> set ws. length w = 32 \<Longrightarrow> words32 (concat ws) = ws"
  by (induction ws) (simp add: words32_def, simp add: words32_Cons)

lemma parse_inputs_iff: "(\<exists>u. parse_inputs L i ws = Ok u) \<longleftrightarrow> (\<forall>w \<in> set ws. xl_ark_input_error L w = None)"
  by (induction ws arbitrary: i) (auto split: option.splits)

lemma groth16_accepts_iff:
  assumes "\<forall>w \<in> set ins. length w = 32"
  shows "ok_true (verify_groth16_proof F L vk pf (concat ins)) \<longleftrightarrow> bf_zkp F \<and> entry_verifies L (vk, pf, ins)"
  using parse_inputs_iff [of L 0 ins]
  by (auto simp: ok_true_def verify_groth16_proof_def entry_verifies_def words32_concat [OF assms] Let_def
      split: option.splits result.splits if_splits)

lemma entry_layout:
  assumes "entry_wf e" "e = (vk, pf, ins)" "input = pre @ encode_entry e @ post" "offset = length pre"
  shows "le32_at input offset = length vk" "le32_at input (offset + 4) = length pf" "le32_at input (offset + 8) = length ins"
    and "slice (offset + 12) (offset + 12 + length vk) input = vk"
    and "slice (offset + 12 + length vk) (offset + 12 + length vk + length pf) input = pf"
    and "slice (offset + 12 + length vk + length pf) (offset + 12 + (length vk + length pf + length ins * 32)) input = concat ins"
    and "offset + 12 + (length vk + length pf + length ins * 32) = length (pre @ encode_entry e)"
    and "length (pre @ encode_entry e) \<le> length input"
proof -
  have wf: "length vk < 2 ^ 32" "length pf < 2 ^ 32" "length ins < 2 ^ 32" "\<forall>w \<in> set ins. length w = 32"
    using assms(1,2) by (auto simp: entry_wf_def)
  note len = length_concat32 [OF wf(4)]
  have i: "input = pre @ le32 (length vk) @ le32 (length pf) @ le32 (length ins) @ vk @ pf @ concat ins @ post"
    using assms by (simp add: encode_entry_def)
  show "le32_at input offset = length vk" using wf i assms(4) by (simp add: le32_at_here)
  show "le32_at input (offset + 4) = length pf"
    using le32_at_here [OF wf(2), of _ "pre @ le32 (length vk)"] i assms(4) by simp
  show "le32_at input (offset + 8) = length ins"
    using le32_at_here [OF wf(3), of _ "pre @ le32 (length vk) @ le32 (length pf)"] i assms(4) by simp
  show "slice (offset + 12) (offset + 12 + length vk) input = vk" using i assms(4) by (simp add: slice_right slice_whole)
  show "slice (offset + 12 + length vk) (offset + 12 + length vk + length pf) input = pf"
    using i assms(4) by (simp add: slice_right slice_whole)
  show "slice (offset + 12 + length vk + length pf) (offset + 12 + (length vk + length pf + length ins * 32)) input = concat ins"
    using i assms(4) len by (simp add: slice_right slice_whole)
  show "offset + 12 + (length vk + length pf + length ins * 32) = length (pre @ encode_entry e)"
    using assms(2,4) len by (simp add: encode_entry_def)
  show "length (pre @ encode_entry e) \<le> length input" using assms(3) by simp
qed

lemma batch_loop_encoded:
  assumes "\<forall>e \<in> set es. entry_wf e" "input = pre @ concat (map encode_entry es) @ post"
  shows "batch_loop F L input (length es) i (length pre) = Ok (\<forall>e \<in> set es. bf_zkp F \<and> entry_verifies L e)"
  using assms
proof (induction es arbitrary: pre i)
  case (Cons e es)
  obtain vk pf ins where e: "e = (vk, pf, ins)" by (cases e)
  have input: "input = pre @ encode_entry e @ (concat (map encode_entry es) @ post)" using Cons.prems(2) by simp
  have wf: "entry_wf e" using Cons.prems(1) by simp
  then have ins: "\<forall>w \<in> set ins. length w = 32" using e by (simp add: entry_wf_def)
  note L = entry_layout [OF wf e input refl]
  have next_loop: "batch_loop F L input (length es) (i + 1) (length (pre @ encode_entry e))
      = Ok (\<forall>e \<in> set es. bf_zkp F \<and> entry_verifies L e)"
    using Cons.prems by (intro Cons.IH) auto
  have fits: "(length input < length pre + 12) = False"
    "(length input < length pre + 12 + (length vk + length pf + length ins * 32)) = False"
    using L(7,8) by auto
  have judged: "ok_true (verify_groth16_proof F L (slice (length pre + 12) (length pre + 12 + length vk) input)
        (slice (length pre + 12 + length vk) (length pre + 12 + length vk + length pf) input)
        (slice (length pre + 12 + length vk + length pf) (length pre + 12 + (length vk + length pf + length ins * 32)) input))
      = (bf_zkp F \<and> entry_verifies L e)"
    by (simp only: L(4-6) groth16_accepts_iff [OF ins] e)
  have "batch_loop F L input (Suc (length es)) i (length pre)
      = (if bf_zkp F \<and> entry_verifies L e then batch_loop F L input (length es) (i + 1) (length (pre @ encode_entry e)) else Ok False)"
    by (simp only: batch_loop.simps Let_def L(1-3) fits judged if_False) (simp only: L(7))
  then have "batch_loop F L input (length (e # es)) i (length pre)
      = (if bf_zkp F \<and> entry_verifies L e then Ok (\<forall>e \<in> set es. bf_zkp F \<and> entry_verifies L e) else Ok False)"
    by (simp only: next_loop list.size add_Suc_right add_0_right)
  then show ?case by (simp only: list.set(2) ball_simps) auto
qed simp

lemma count_inputs_encoded:
  assumes "\<forall>e \<in> set es. entry_wf e" "input = pre @ concat (map encode_entry es) @ post"
  shows "count_inputs_loop input (length es) (length pre) n = n + sum_list (map entry_inputs es)"
  using assms
proof (induction es arbitrary: pre n)
  case (Cons e es)
  obtain vk pf ins where e: "e = (vk, pf, ins)" by (cases e)
  have input: "input = pre @ encode_entry e @ (concat (map encode_entry es) @ post)" using Cons.prems(2) by simp
  have wf: "entry_wf e" using Cons.prems(1) by simp
  note L = entry_layout [OF wf e input refl]
  have next_loop: "count_inputs_loop input (length es) (length (pre @ encode_entry e)) (n + length ins)
      = n + length ins + sum_list (map entry_inputs es)"
    using Cons.prems by (intro Cons.IH) auto
  have inputs: "entry_inputs e = length ins" by (simp add: e entry_inputs_def)
  have "\<not> length pre + 12 > length input" using L(7,8) by auto
  moreover have "length pre + 12 + length vk + length pf + length ins * 32 = length (pre @ encode_entry e)" using L(7) by simp
  ultimately show ?case
    using next_loop by (simp only: list.size add_Suc_right add_0_right count_inputs_loop.simps Let_def L(1-3) if_False)
      (simp add: inputs)
qed simp

text \<open>
  C20. The batch verifier decides exactly the conjunction of its proofs: for every batch of 1 to 256 entries, each a verifying key, a proof and
  32-byte public inputs with lengths that fit their fields, and every limit that covers the documented price (100000 gas, 80000 per proof,
  12000 per public input), the call succeeds, charges that price, and answers 1 in the last byte if the pairing library is built in and
  accepts every entry, and 0 otherwise.
\<close>

theorem batch_groth16_exact:
  assumes "\<forall>e \<in> set es. entry_wf e" and "es \<noteq> []" and "length es \<le> 256"
    and "100000 + of_nat (length es) * 80000 + of_nat (sum_list (map entry_inputs es)) * 12000 \<le> gas_limit"
  shows "batch_groth16_execute F L (encode_batch es) gas_limit =
    Ok (exec_success (verdict_word (bf_zkp F \<and> (\<forall>e \<in> set es. entry_verifies L e)))
          (100000 + of_nat (length es) * 80000 + of_nat (sum_list (map entry_inputs es)) * 12000))"
proof -
  have batch: "encode_batch es = le32 (length es) @ concat (map encode_entry es) @ []" by (simp add: encode_batch_def)
  have n: "le32_at (encode_batch es) 0 = length es"
    using le32_at_here [of "length es" 0 "[]"] assms(3) by (simp add: batch)
  have len: "\<not> length (encode_batch es) < 4" by (simp add: encode_batch_def)
  have all_split: "(\<forall>e \<in> set es. bf_zkp F \<and> entry_verifies L e) = (bf_zkp F \<and> (\<forall>e \<in> set es. entry_verifies L e))"
    using assms(2) by (cases es) auto
  have loop: "batch_loop F L (encode_batch es) (length es) 0 4 = Ok (bf_zkp F \<and> (\<forall>e \<in> set es. entry_verifies L e))"
    using batch_loop_encoded [OF assms(1) batch, of F L 0] assms(2) by (simp only: length_le32 all_split)
  have "count_total_public_inputs (encode_batch es) = (length es, sum_list (map entry_inputs es))"
    using count_inputs_encoded [OF assms(1) batch, of 0] len by (simp add: count_total_public_inputs_def n)
  then have "batch_gas_cost (encode_batch es) = 100000 + of_nat (length es) * 80000 + of_nat (sum_list (map entry_inputs es)) * 12000"
    using assms(2) by (simp add: batch_gas_cost_def BATCH_GROTH16_BASE_def BATCH_GROTH16_PER_PROOF_def BATCH_GROTH16_PER_PUBLIC_INPUT_def)
  then show ?thesis using assms(2-4) len loop by (simp add: batch_groth16_execute_def n charge_def not_less Let_def)
qed

section \<open>SGX quotes\<close>

definition encode_quote_header :: "sgx_quote_header \<Rightarrow> bytes" where
  "encode_quote_header h =
     le_bytes 2 (qh_version h) @ le_bytes 2 (qh_att_key_type h) @ le_bytes 4 (qh_tee_type h) @ le_bytes 2 (qh_qe_svn h)
     @ le_bytes 2 (qh_pce_svn h) @ qh_qe_vendor_id h @ qh_user_data h"

definition encode_report_body :: "sgx_report_body \<Rightarrow> bytes" where
  "encode_report_body b =
     rb_cpu_svn b @ le_bytes 4 (rb_misc_select b) @ rb_reserved1 b @ le_bytes 8 (sa_flags (rb_attributes b))
     @ le_bytes 8 (sa_xfrm (rb_attributes b)) @ rb_mr_enclave b @ rb_reserved2 b @ rb_mr_signer b @ rb_reserved3 b
     @ le_bytes 2 (rb_isv_prod_id b) @ le_bytes 2 (rb_isv_svn b) @ rb_reserved4 b @ rb_report_data b"

definition encode_quote :: "sgx_dcap_quote \<Rightarrow> bytes" where
  "encode_quote q =
     encode_quote_header (sq_header q) @ encode_report_body (sq_report_body q) @ le_bytes 4 (sq_signature_len q) @ sq_signature_data q"

definition quote_wf :: "sgx_dcap_quote \<Rightarrow> bool" where
  "quote_wf q \<longleftrightarrow>
     qh_version (sq_header q) = 3 \<and> qh_tee_type (sq_header q) = 0 \<and> length (qh_qe_vendor_id (sq_header q)) = 16
     \<and> length (qh_user_data (sq_header q)) = 20 \<and> length (rb_cpu_svn (sq_report_body q)) = 16
     \<and> length (rb_reserved1 (sq_report_body q)) = 28 \<and> length (rb_mr_enclave (sq_report_body q)) = 32
     \<and> length (rb_reserved2 (sq_report_body q)) = 32 \<and> length (rb_mr_signer (sq_report_body q)) = 32
     \<and> length (rb_reserved3 (sq_report_body q)) = 96 \<and> length (rb_reserved4 (sq_report_body q)) = 60
     \<and> length (rb_report_data (sq_report_body q)) = 64 \<and> length (sq_signature_data q) = unat (sq_signature_len q)"

lemma parse_header_encoded:
  assumes "length (qh_qe_vendor_id h) = 16" "length (qh_user_data h) = 20"
  shows "parse_quote_header (encode_quote_header h @ post) = h"
  using assms by (simp add: parse_quote_header_def encode_quote_header_def slice_right slice_parts slice_whole)

lemma length_encoded_header:
  "length (qh_qe_vendor_id h) = 16 \<Longrightarrow> length (qh_user_data h) = 20 \<Longrightarrow> length (encode_quote_header h) = 48"
  by (simp add: encode_quote_header_def)

lemma length_encoded_body: "quote_wf q \<Longrightarrow> length (encode_report_body (sq_report_body q)) = 384"
  by (simp add: encode_report_body_def quote_wf_def)

lemma parse_body_encoded:
  assumes "quote_wf q" "length pre = 48"
  shows "parse_report_body (pre @ encode_report_body (sq_report_body q) @ post) = sq_report_body q"
  using assms by (simp add: parse_report_body_def encode_report_body_def quote_wf_def Let_def slice_right slice_parts slice_whole)

lemma length_encoded_quote: "quote_wf q \<Longrightarrow> length (encode_quote q) = 436 + unat (sq_signature_len q)"
  by (simp add: encode_quote_def length_encoded_body) (simp add: quote_wf_def length_encoded_header)

lemma quote_roundtrip:
  assumes wf: "quote_wf q"
  shows "parse_dcap_quote (encode_quote q) = Ok q"
proof -
  have h: "length (qh_qe_vendor_id (sq_header q)) = 16" "length (qh_user_data (sq_header q)) = 20"
    "qh_version (sq_header q) = 3" "qh_tee_type (sq_header q) = 0" "length (sq_signature_data q) = unat (sq_signature_len q)"
    using wf by (simp_all add: quote_wf_def)
  have header: "parse_quote_header (encode_quote q) = sq_header q"
    using h by (simp add: encode_quote_def parse_header_encoded)
  have body: "parse_report_body (encode_quote q) = sq_report_body q"
    unfolding encode_quote_def by (rule parse_body_encoded [OF wf length_encoded_header]) (use h in simp_all)
  have sig: "le_word (slice 432 436 (encode_quote q)) = sq_signature_len q"
    "slice 436 (436 + unat (sq_signature_len q)) (encode_quote q) = sq_signature_data q"
    using h length_encoded_header [OF h(1,2)] length_encoded_body [OF wf]
    by (simp_all add: encode_quote_def slice_right slice_parts slice_whole)
  show ?thesis
    using h length_encoded_quote [OF wf] by (simp add: parse_dcap_quote_def header body sig Let_def)
qed

section \<open>Calls\<close>

definition abi_word :: "nat \<Rightarrow> bytes" where
  "abi_word n = replicate 24 0 @ rev (le_bytes 8 (of_nat n :: u64))"

definition abi_call :: "bytes \<Rightarrow> bytes \<Rightarrow> bytes" where
  "abi_call data hash = abi_word 96 @ abi_word (length data) @ hash @ data"

unbundle bit_operations_syntax

lemma shift_or_add: "push_bit 8 (v :: u64) OR ucast (b :: u8) = push_bit 8 v + ucast b"
proof -
  have "push_bit 8 v AND ucast b = 0"
    by (rule bit_word_eqI) (auto simp: bit_and_iff bit_push_bit_iff bit_ucast_iff dest: bit_imp_le_length)
  then show ?thesis by (simp add: disjunctive_add_eq_or)
qed

lemma u256_to_usize_word: "n < 2 ^ 64 \<Longrightarrow> u256_to_usize (abi_word n) = n"
proof -
  assume n: "n < 2 ^ 64"
  have "be_word (rev (le_bytes 8 (of_nat n :: u64))) = (of_nat n :: u64)"
    using le_word_le_bytes(3) [of "of_nat n"] by (simp add: le_word_def)
  then show ?thesis
    using n by (simp add: u256_to_usize_def abi_word_def slice_right slice_whole shift_or_add be_word_def unat_of_nat take_bit_nat_eq_self)
qed

lemma abi_call_slice:
  assumes "length hash = 32" "length data + 96 < 2 ^ 64"
  shows "checked_abi_slice (abi_call data hash) (u256_to_usize (slice 0 32 (abi_call data hash)))
      (u256_to_usize (slice 32 64 (abi_call data hash))) what = Ok data"
    and "slice 64 96 (abi_call data hash) = hash" and "length (abi_call data hash) = length data + 96"
proof -
  have w: "length (abi_word n) = 32" for n by (simp add: abi_word_def)
  have s: "slice 0 32 (abi_call data hash) = abi_word 96" "slice 32 64 (abi_call data hash) = abi_word (length data)"
    by (simp_all add: abi_call_def w slice_right slice_parts slice_whole)
  show "checked_abi_slice (abi_call data hash) (u256_to_usize (slice 0 32 (abi_call data hash)))
      (u256_to_usize (slice 32 64 (abi_call data hash))) what = Ok data"
    using assms by (simp add: s u256_to_usize_word checked_abi_slice_def) (simp add: abi_call_def w slice_right slice_whole)
  show "slice 64 96 (abi_call data hash) = hash" using assms(1) by (simp add: abi_call_def w slice_right slice_parts slice_whole)
  show "length (abi_call data hash) = length data + 96" using assms(1) by (simp add: abi_call_def w)
qed

definition backend_accepts :: "vm_features \<Rightarrow> precompile_lib \<Rightarrow> tee_verifier_config \<Rightarrow> sgx_dcap_quote \<Rightarrow> bool" where
  "backend_accepts F L config q \<longleftrightarrow>
     (if bf_sgx F
      then xl_dcap L (encode_quote q) = DcapOk
        \<or> xl_dcap L (encode_quote q) = DcapOutOfDate \<and> pt_sgx_tcb_recovery_mode (tv_platform_config config)
      else \<not> tv_enterprise_mode config \<and> qh_att_key_type (sq_header q) = 2 \<and> sq_signature_data q \<noteq> [])"

definition quote_acceptable ::
    "vm_features \<Rightarrow> precompile_lib \<Rightarrow> tee_verifier_config \<Rightarrow> measurement_registry \<Rightarrow> u64 \<Rightarrow> bytes \<Rightarrow> sgx_dcap_quote \<Rightarrow> bool" where
  "quote_acceptable F L config registry now hash q \<longleftrightarrow>
     pt_sgx_dcap_enabled (tv_platform_config config)
     \<and> (attributes_is_debug (rb_attributes (sq_report_body q)) \<longrightarrow> tv_allow_debug_enclaves config)
     \<and> tv_min_isv_svn config \<le> rb_isv_svn (sq_report_body q)
     \<and> (tv_strict_mode config \<longrightarrow> verify_mrenclave registry now (rb_mr_enclave (sq_report_body q)))
     \<and> take 32 (rb_report_data (sq_report_body q)) = hash \<and> backend_accepts F L config q"

lemma verify_quote_dcap_accepts:
  "qh_version (sq_header q) = 3 \<Longrightarrow>
   (\<exists>status. verify_quote_dcap F L config q (encode_quote q) = Ok status
     \<and> (status = StatusOk \<or> status = TcbOutOfDate \<and> pt_sgx_tcb_recovery_mode (tv_platform_config config)))
   \<longleftrightarrow> backend_accepts F L config q"
  by (auto simp: verify_quote_dcap_def backend_accepts_def split: dcap_result.splits if_splits)

lemma sgx_judge_valid:
  assumes wf: "quote_wf q" and on: "pt_sgx_dcap_enabled (tv_platform_config config)"
  shows "tr_valid (sgx_judge F L config registry now hash (encode_quote q)) \<longleftrightarrow> quote_acceptable F L config registry now hash q"
    and "\<exists>valid t st. sgx_judge F L config registry now hash (encode_quote q) = sgx_result (sq_report_body q) valid t st"
proof -
  have v: "qh_version (sq_header q) = 3" using wf by (simp add: quote_wf_def)
  show "tr_valid (sgx_judge F L config registry now hash (encode_quote q)) \<longleftrightarrow> quote_acceptable F L config registry now hash q"
    using verify_quote_dcap_accepts [OF v, of F L config] on
    by (auto simp: sgx_judge_def quote_roundtrip [OF wf] quote_acceptable_def sgx_result_def verify_report_data_def Let_def not_less
        split: result.splits)
  show "\<exists>valid t st. sgx_judge F L config registry now hash (encode_quote q) = sgx_result (sq_report_body q) valid t st"
    by (auto simp: sgx_judge_def quote_roundtrip [OF wf] Let_def split: result.splits)
qed

lemma sgx_execute_quote:
  assumes "quote_wf q" and "length hash = 32" and "sgx_gas_cost (abi_call (encode_quote q) hash) \<le> gas_limit"
  shows "\<exists>out. sgx_execute F L config registry now (abi_call (encode_quote q) hash) gas_limit
      = Ok (exec_success out (sgx_gas_cost (abi_call (encode_quote q) hash)))
    \<and> out ! 0 = (if quote_acceptable F L config registry now hash q then 1 else 0)
    \<and> (pt_sgx_dcap_enabled (tv_platform_config config) \<longrightarrow>
        slice 4 36 out = rb_mr_enclave (sq_report_body q) \<and> slice 36 68 out = rb_mr_signer (sq_report_body q)
        \<and> slice 68 132 out = rb_report_data (sq_report_body q))"
proof -
  have "unat (sq_signature_len q) < 2 ^ LENGTH(32)" by (rule unsigned_less)
  then have fits: "length (encode_quote q) + 96 < 2 ^ 64" using length_encoded_quote [OF assms(1)] by simp
  note abi = abi_call_slice [OF assms(2) fits]
  have long: "\<not> length (abi_call (encode_quote q) hash) < 96" using abi(3) by simp
  have lens: "length (rb_mr_enclave (sq_report_body q)) = 32" "length (rb_mr_signer (sq_report_body q)) = 32"
    "length (rb_report_data (sq_report_body q)) = 64" using assms(1) by (simp_all add: quote_wf_def)
  show ?thesis
  proof (cases "pt_sgx_dcap_enabled (tv_platform_config config)")
    case True
    obtain valid t st where j: "sgx_judge F L config registry now hash (encode_quote q) = sgx_result (sq_report_body q) valid t st"
      using sgx_judge_valid(2) [OF assms(1) True] by blast
    have valid: "valid = quote_acceptable F L config registry now hash q"
      using sgx_judge_valid(1) [OF assms(1) True, of F L registry now hash] by (simp add: j sgx_result_def)
    define out where "out = sgx_build_output (sgx_result (sq_report_body q) valid t st)"
    have out: "out = [if valid then 1 else 0, tee_status_u8 st, 2, 0]
        @ rb_mr_enclave (sq_report_body q) @ rb_mr_signer (sq_report_body q) @ rb_report_data (sq_report_body q)"
      using lens by (simp add: out_def sgx_build_output_def sgx_result_def)
    have parts: "slice 4 36 out = rb_mr_enclave (sq_report_body q)" "slice 36 68 out = rb_mr_signer (sq_report_body q)"
      "slice 68 132 out = rb_report_data (sq_report_body q)"
      unfolding out by (subst slice_right, simp, simp add: lens slice_right slice_whole)+
    have "sgx_execute F L config registry now (abi_call (encode_quote q) hash) gas_limit
        = Ok (exec_success out (sgx_gas_cost (abi_call (encode_quote q) hash)))"
      using True assms(3) long by (simp add: sgx_execute_def charge_def abi(1,2) j out_def Let_def not_less)
    moreover have "out ! 0 = (if quote_acceptable F L config registry now hash q then 1 else 0)" by (simp add: out valid)
    ultimately show ?thesis using parts by blast
  next
    case False
    then show ?thesis using assms(3)
      by (intro exI [of _ "sgx_build_output (sgx_unparsed PlatformDisabled)"])
        (simp add: sgx_execute_def charge_def sgx_build_output_def sgx_unparsed_def quote_acceptable_def Let_def not_less)
  qed
qed

text \<open>
  C19. The SGX precompile answers for a quote exactly what its configuration says: for every well-formed version 3 quote, encoded with its
  length and the hash of the runtime data, and every limit that covers the cost, the call succeeds; the first byte of the answer is 1 if
  and only if the platform is enabled, a debug enclave is allowed, the security version is high enough, the enclave is approved (in strict
  mode), the report data begins with the hash, and the verification backend of the build accepts; and the answer repeats the
  measurement, the signer and the report data of the quote when the platform is enabled.
\<close>

theorem sgx_quotes_judged:
  assumes "quote_wf q" and "length hash = 32" and "sgx_gas_cost (abi_call (encode_quote q) hash) \<le> gas_limit"
  shows "\<exists>out. sgx_execute F L config registry now (abi_call (encode_quote q) hash) gas_limit
      = Ok (exec_success out (sgx_gas_cost (abi_call (encode_quote q) hash)))
    \<and> out ! 0 = (if quote_acceptable F L config registry now hash q then 1 else 0)
    \<and> (pt_sgx_dcap_enabled (tv_platform_config config) \<longrightarrow>
        slice 4 36 out = rb_mr_enclave (sq_report_body q) \<and> slice 36 68 out = rb_mr_signer (sq_report_body q)
        \<and> slice 68 132 out = rb_report_data (sq_report_body q))"
  by (rule sgx_execute_quote [OF assms])

section \<open>Attestations of the node\<close>

text \<open>In enterprise mode the Nitro and SEV-SNP precompiles never answer 1.\<close>

lemma nitro_enterprise_rejects:
  assumes "tv_enterprise_mode config" "nitro_execute F L config registry now ms input gas_limit = Ok r"
  shows "er_output r ! 0 = 0"
  using assms
  by (auto simp: nitro_execute_def nitro_judge_def nitro_verify_signature_def nitro_build_output_def charge_def Let_def
      split: if_splits result.splits)

lemma sev_enterprise_rejects:
  assumes "tv_enterprise_mode config" "sev_execute config registry now input gas_limit = Ok r"
  shows "er_output r ! 0 = 0"
  using assms
  by (auto simp: sev_execute_def sev_judge_def sev_build_output_def charge_def Let_def split: if_splits result.splits)

definition attested_by :: "vm_features \<Rightarrow> precompile_lib \<Rightarrow> bytes \<Rightarrow> bool" where
  "attested_by F L data \<longleftrightarrow>
     bf_sgx F \<and> (\<exists>q quote. checked_abi_slice data (u256_to_usize (slice 0 32 data)) (u256_to_usize (slice 32 64 data)) ''Quote data'' = Ok q
       \<and> parse_dcap_quote q = Ok quote \<and> xl_dcap L q = DcapOk
       \<and> \<not> attributes_is_debug (rb_attributes (sq_report_body quote)) \<and> rb_isv_svn (sq_report_body quote) \<noteq> 0
       \<and> rb_mr_enclave (sq_report_body quote) \<in> {CREDIT_SCORE_V1_MRENCLAVE, FRAUD_DETECT_V1_MRENCLAVE, RISK_ASSESS_V1_MRENCLAVE,
            ZKML_INFERENCE_V1_MRENCLAVE}
       \<and> take 32 (rb_report_data (sq_report_body quote)) = slice 64 96 data)"

lemma sgx_enterprise_accepts:
  assumes "sgx_execute F L tee_enterprise measurement_registry_new now data gas_limit = Ok r" "er_output r ! 0 = 1"
  shows "attested_by F L data"
proof -
  have config: "pt_sgx_dcap_enabled (tv_platform_config tee_enterprise)" "tv_strict_mode tee_enterprise" "tv_enterprise_mode tee_enterprise"
    "\<not> tv_allow_debug_enclaves tee_enterprise" "tv_min_isv_svn tee_enterprise = 1"
    "\<not> pt_sgx_tcb_recovery_mode (tv_platform_config tee_enterprise)"
    by (simp_all add: tee_enterprise_def tee_mainnet_def)
  obtain q where q: "checked_abi_slice data (u256_to_usize (slice 0 32 data)) (u256_to_usize (slice 32 64 data)) ''Quote data'' = Ok q"
    "er_output r = sgx_build_output (sgx_judge F L tee_enterprise measurement_registry_new now (slice 64 96 data) q)"
    using assms(1) config by (auto simp: sgx_execute_def charge_def Let_def split: if_splits result.splits)
  have valid: "tr_valid (sgx_judge F L tee_enterprise measurement_registry_new now (slice 64 96 data) q)"
    using assms(2) q(2) by (auto simp: sgx_build_output_def split: if_splits)
  have none: "is_sgx_mrenclave_trusted measurement_registry_new m now \<noteq> None" for m
    by (simp add: is_sgx_mrenclave_trusted_def untrusted_reason_def measurement_registry_new_def hm_get_def)
  show ?thesis
    using valid q(1) config none
    by (auto simp: attested_by_def sgx_judge_def sgx_result_def sgx_unparsed_def verify_report_data_def verify_mrenclave_def
        verify_quote_dcap_def Let_def not_less split: result.splits if_splits dcap_result.splits)
qed

lemma detected_first_byte:
  assumes "detect_platform input = Some p"
  shows "1 \<le> hd input \<and> hd input \<le> 4 \<and> (p = SgxDcap \<or> p = Nitro \<or> p = SevSnp)"
proof -
  obtain b bs where i: "input = b # bs" using assms by (cases input) auto
  have two: "b = 3" if long: "2 \<le> length (b # bs)" and three: "(le_word (slice 0 2 (b # bs)) :: u16) = 3"
  proof -
    obtain c cs where bs: "bs = c # cs" using long by (cases bs) auto
    then have "le_bytes (length [b, c]) (3 :: u16) = [b, c]"
      using le_bytes_le_word [of "[b, c]", where 'a = 16] three by (simp add: slice_def)
    then show ?thesis by (simp add: le_bytes_Suc)
  qed
  have four: "b = 2" if long: "4 \<le> length (b # bs)" and version: "(le_word (slice 0 4 (b # bs)) :: u32) = 2"
  proof -
    obtain c d e cs where bs: "bs = c # d # e # cs" using long by (cases bs; cases "tl bs"; cases "tl (tl bs)") auto
    then have "le_bytes (length [b, c, d, e]) (2 :: u32) = [b, c, d, e]"
      using le_bytes_le_word [of "[b, c, d, e]", where 'a = 32] version by (simp add: slice_def)
    then show ?thesis by (simp add: le_bytes_Suc)
  qed
  show ?thesis using assms two four by (auto simp: i split: if_splits)
qed

lemma universal_enterprise_accepts:
  assumes "universal_execute F (universal_new F L tee_enterprise measurement_registry_new now ms) input gas_limit = Ok r"
    and "er_output r ! 0 = 1"
  shows "attested_by F L (tl input)"
proof -
  have e: "tv_enterprise_mode tee_enterprise" by (simp add: tee_enterprise_def tee_mainnet_def)
  obtain p where p: "detect_platform input = Some p"
    using assms(1) by (auto simp: universal_execute_def charge_def split: if_splits option.splits)
  have "sgx_execute F L tee_enterprise measurement_registry_new now (tl input) gas_limit = Ok r
      \<or> nitro_execute F L tee_enterprise measurement_registry_new now ms (tl input) gas_limit = Ok r
      \<or> sev_execute tee_enterprise measurement_registry_new now (tl input) gas_limit = Ok r"
    using assms(1) p detected_first_byte [OF p]
    by (auto simp: universal_execute_def universal_new_def sgx_precompile_def nitro_precompile_def sev_precompile_def charge_def Let_def
        split: if_splits)
  then show ?thesis
    using assms(2) sgx_enterprise_accepts nitro_enterprise_rejects [OF e] sev_enterprise_rejects [OF e] by fastforce
qed

lemma node_attestations:
  "registry_get (registry_new F L now ms) 0x0400 =
     Some (universal_precompile F (universal_new F L tee_enterprise measurement_registry_new now ms))"
  "registry_get (registry_new F L now ms) 0x0401 = Some (nitro_precompile F L tee_enterprise measurement_registry_new now ms)"
  "registry_get (registry_new F L now ms) 0x0402 = Some (sgx_precompile F L tee_enterprise measurement_registry_new now)"
  "registry_get (registry_new F L now ms) 0x0403 = Some (sev_precompile tee_enterprise measurement_registry_new now)"
  by (simp_all add: registry_get_def registry_new_def register_tee_precompiles_def Let_def registry_register_def hm_get_insert
      sev_precompile_def nitro_precompile_def sgx_precompile_def universal_precompile_def)

text \<open>
  C13. A node accepts an attestation only with a verified backend: when a call of one of the four attestation precompiles of the node's registry
  answers 1, the build has the SGX verification library, and the input carries an ABI-encoded version 3 quote that the library accepts,
  of an enclave that is not in debug mode, has a non-zero security version, is one of the four approved enclaves, and reports the
  runtime-data hash of the input. In particular no attestation is accepted in a build without that library, and no Nitro or SEV-SNP
  attestation in any.
\<close>

theorem attestation_needs_backend:
  assumes "registry_execute (registry_new F L now ms) a input gas_limit = Ok r" and "a \<in> {0x0400, 0x0401, 0x0402, 0x0403}"
    and "er_output r ! 0 = 1"
  shows "bf_sgx F \<and> (a = 0x0402 \<and> attested_by F L input \<or> a = 0x0400 \<and> attested_by F L (tl input))"
proof -
  have e: "tv_enterprise_mode tee_enterprise" by (simp add: tee_enterprise_def tee_mainnet_def)
  obtain p where p: "registry_get (registry_new F L now ms) a = Some p" "pc_execute p input gas_limit = Ok r"
    using assms(1) by (auto simp: registry_execute_def registry_get_def elim: execute_at_Ok)
  have "a \<noteq> 0x0401" "a \<noteq> 0x0403"
    using p assms(3) nitro_enterprise_rejects [OF e] sev_enterprise_rejects [OF e]
    by (auto simp: node_attestations nitro_precompile_def sev_precompile_def)
  then consider "a = 0x0400" | "a = 0x0402" using assms(2) by auto
  then have "a = 0x0402 \<and> attested_by F L input \<or> a = 0x0400 \<and> attested_by F L (tl input)"
  proof cases
    case 1
    then show ?thesis using p universal_enterprise_accepts [OF _ assms(3)] by (auto simp: node_attestations universal_precompile_def)
  next
    case 2
    then show ?thesis using p sgx_enterprise_accepts [OF _ assms(3)] by (auto simp: node_attestations sgx_precompile_def)
  qed
  then show ?thesis by (auto simp: attested_by_def)
qed

section \<open>Witnesses\<close>

definition demo_build :: vm_features where
  "demo_build = \<lparr>bf_zkp = True, bf_sgx = True, bf_mock_tee = False\<rparr>"

definition demo_libs :: precompile_lib where
  "demo_libs =
     \<lparr>xl_sha256 = (\<lambda>bs. bs), xl_keccak256 = (\<lambda>bs. bs), xl_k256_recover = (\<lambda>_ _ _. None), xl_k256_verify = (\<lambda>_ _ _. True),
      xl_dilithium = (\<lambda>_ _ _ _. Some True), xl_kyber_ciphertext_ok = (\<lambda>_ _. True), xl_kyber_secret_ok = (\<lambda>_ _. True),
      xl_kyber_decapsulate = (\<lambda>_ _ _. []), xl_ark_vk_error = (\<lambda>_. None), xl_ark_proof_error = (\<lambda>_. None),
      xl_ark_input_error = (\<lambda>_. None), xl_ark_verify = (\<lambda>vk pf ins. Ok (vk = pf)), xl_dcap = (\<lambda>_. DcapOk),
      xl_cose_payload = (\<lambda>_. Ok None), xl_cbor_error = (\<lambda>_. None)\<rparr>"

definition demo_quote :: sgx_dcap_quote where
  "demo_quote =
     \<lparr>sq_header = \<lparr>qh_version = 3, qh_att_key_type = 2, qh_tee_type = 0, qh_qe_svn = 0, qh_pce_svn = 0,
        qh_qe_vendor_id = replicate 16 0, qh_user_data = replicate 20 0\<rparr>,
      sq_report_body = \<lparr>rb_cpu_svn = replicate 16 0, rb_misc_select = 0, rb_reserved1 = replicate 28 0,
        rb_attributes = \<lparr>sa_flags = 5, sa_xfrm = 3\<rparr>, rb_mr_enclave = CREDIT_SCORE_V1_MRENCLAVE, rb_reserved2 = replicate 32 0,
        rb_mr_signer = replicate 32 9, rb_reserved3 = replicate 96 0, rb_isv_prod_id = 1, rb_isv_svn = 2,
        rb_reserved4 = replicate 60 0, rb_report_data = replicate 64 7\<rparr>,
      sq_signature_len = 1, sq_signature_data = [1]\<rparr>"

lemma demo_quote_wf: "quote_wf demo_quote"
  by (simp add: quote_wf_def demo_quote_def CREDIT_SCORE_V1_MRENCLAVE_def)

lemma demo_quote_gas: "sgx_gas_cost (abi_call (encode_quote demo_quote) (replicate 32 7)) = 500000"
proof -
  have "length (encode_quote demo_quote) = 437" using length_encoded_quote [OF demo_quote_wf] by (simp add: demo_quote_def)
  then show ?thesis by (simp add: sgx_gas_cost_def kb_gas_cost_def abi_call_slice(3))
qed

lemma demo_quote_acceptable:
  "quote_acceptable demo_build demo_libs tee_enterprise measurement_registry_new 0 (replicate 32 7) demo_quote"
  by (simp add: quote_acceptable_def backend_accepts_def demo_build_def demo_libs_def demo_quote_def tee_enterprise_def tee_mainnet_def
      attributes_is_debug_def verify_mrenclave_def)

text \<open>A call of the identity precompile with a doubled price.\<close>

theorem precompile_calls_paid_witness:
  "\<exists>p. registry_get (registry_new demo_build demo_libs 0 0) 4 = Some p \<and> pc_address p = 4 \<and> pc_min_input_length p \<le> 1
    \<and> pc_gas_cost p [7] \<le> 36 \<and> f64_as_word (f64_mul (u64_as_f64 (pc_gas_cost p [7])) (Fin 2)) \<le> (36 :: u64)"
proof -
  have g: "pc_gas_cost identity_precompile [7] = 18"
    by (simp add: identity_precompile_def word_gas_cost_def IDENTITY_BASE_def IDENTITY_PER_WORD_def Let_def)
  have a: "registry_get (registry_new demo_build demo_libs 0 0) 4 = Some identity_precompile"
    by (simp add: registry_get_def registry_new_def register_tee_precompiles_def register_zkp_precompiles_def
        register_pqc_precompiles_def register_standard_precompiles_def Let_def registry_register_def hm_get_insert
        sev_precompile_def nitro_precompile_def sgx_precompile_def universal_precompile_def batch_groth16_precompile_def
        groth16_precompile_def plonk_precompile_def ezkl_precompile_def halo2_precompile_def stark_precompile_def
        unified_zkp_precompile_def hybrid_verify_precompile_def kyber_decaps_precompile_def dilithium_verify_precompile_def
        ecdsa_recover_precompile_def identity_precompile_def)
  have price: "f64_as_word (f64_mul (u64_as_f64 18) (Fin 2)) = (36 :: u64)"
    using u64_as_f64_small [of 18] f64_round_nat_exact [of 36] by (simp add: f64_signed_def)
  have "registry_execute (set_gas_multiplier (Fin 2) (registry_new demo_build demo_libs 0 0)) 4 [7] 36 = Ok (exec_success [7] 18)"
    using a g price
    by (simp add: registry_execute_def set_gas_multiplier_def registry_get_def execute_at_def Let_def)
      (simp add: identity_precompile_def charge_def)
  from precompile_calls_paid [OF this] show ?thesis by auto
qed

theorem batch_groth16_exact_witness:
  "batch_groth16_execute demo_build demo_libs (encode_batch [([1], [1], [replicate 32 0]), ([2], [2], [])]) 272000
    = Ok (exec_success (verdict_word True) 272000)"
  using batch_groth16_exact [of "[([1], [1], [replicate 32 0]), ([2], [2], [])]" 272000 demo_build demo_libs]
  by (simp add: entry_wf_def entry_inputs_def entry_verifies_def demo_build_def demo_libs_def)

theorem sgx_quotes_judged_witness:
  "\<exists>out. sgx_execute demo_build demo_libs tee_enterprise measurement_registry_new 0 (abi_call (encode_quote demo_quote) (replicate 32 7)) 500000
      = Ok (exec_success out 500000) \<and> out ! 0 = 1"
  using sgx_quotes_judged [OF demo_quote_wf, of "replicate 32 7" 500000 demo_build demo_libs tee_enterprise measurement_registry_new 0]
    demo_quote_acceptable by (auto simp: demo_quote_gas)

theorem attestation_needs_backend_witness:
  "bf_sgx demo_build \<and> attested_by demo_build demo_libs (abi_call (encode_quote demo_quote) (replicate 32 7))"
proof -
  obtain out where out: "sgx_execute demo_build demo_libs tee_enterprise measurement_registry_new 0
      (abi_call (encode_quote demo_quote) (replicate 32 7)) max_val = Ok (exec_success out 500000)" "out ! 0 = 1"
    using sgx_execute_quote [OF demo_quote_wf, of "replicate 32 7" max_val demo_build demo_libs tee_enterprise measurement_registry_new 0]
      demo_quote_acceptable by (auto simp: demo_quote_gas max_val_def)
  have "length (encode_quote demo_quote) = 437" using length_encoded_quote [OF demo_quote_wf] by (simp add: demo_quote_def)
  then have "length (abi_call (encode_quote demo_quote) (replicate 32 7)) = 533" by (simp add: abi_call_slice(3))
  moreover have "hm_get (pr_precompiles (registry_new demo_build demo_libs 0 0)) 0x0402
      = Some (sgx_precompile demo_build demo_libs tee_enterprise measurement_registry_new 0)"
    using node_attestations(3) by (simp add: registry_get_def)
  ultimately have "registry_execute (registry_new demo_build demo_libs 0 0) 0x0402 (abi_call (encode_quote demo_quote) (replicate 32 7)) max_val
      = Ok (exec_success out 500000)"
    using out by (simp add: registry_execute_def execute_at_def sgx_precompile_def Let_def max_val_def not_less)
  from attestation_needs_backend [OF this] out(2) show ?thesis by auto
qed

end
