(* ===== verification/Vm_Job_Verification.thy ===== *)
theory Vm_Job_Verification
  imports Job_Properties Vm_Precompile_Properties
begin

text \<open>
  The job registry on the precompiles of the virtual machine. \<open>Job_Registry\<close> takes the two verifiers it calls as the fields of its
  platform; here they are the universal attestation precompile and the unified proof precompile, called the way
  \<open>verify_tee_attestation\<close> and \<open>verify_zk_proof_via_precompile\<close> of \<open>vm/src/system_contracts/job_registry.rs\<close> call them.
\<close>

section \<open>The platform\<close>

text \<open>
  \<open>with_enterprise\<close> and \<open>with_defaults\<close> build the same precompile: the default configuration is the enterprise one. The registry keeps
  only the \<open>success\<close> flag of the attestation call and only the output of the proof call.
\<close>

definition tee_call :: "vm_features \<Rightarrow> precompile_lib \<Rightarrow> u64 \<Rightarrow> u64 \<Rightarrow> bytes \<Rightarrow> u64 \<Rightarrow> precompile_result" where
  "tee_call F L now now_millis = universal_execute F (universal_new F L tee_enterprise measurement_registry_new now now_millis)"

definition vm_platform :: "vm_features \<Rightarrow> precompile_lib \<Rightarrow> u64 \<Rightarrow> u64 \<Rightarrow> platform" where
  "vm_platform F L now now_millis =
     \<lparr>pl_sha256 = xl_sha256 L, pl_sgx = bf_sgx F, pl_zkp = bf_zkp F,
      pl_tee_execute = (\<lambda>_ input gas_limit.
        case tee_call F L now now_millis input gas_limit of
          Ok res \<Rightarrow> TeeDone (er_success res)
        | Err e \<Rightarrow> TeeError (show_precompile_error e)),
      pl_zkp_gas_cost = unified_gas_cost (unified_zkp_defaults F L),
      pl_zkp_execute = (\<lambda>input gas_limit.
        case unified_execute (unified_zkp_defaults F L) input gas_limit of
          Ok res \<Rightarrow> Ok (er_output res)
        | Err e \<Rightarrow> Err (show_precompile_error e))\<rparr>"

lemma vm_platform_fields [simp]:
  "pl_sha256 (vm_platform F L now ms) = xl_sha256 L" "pl_sgx (vm_platform F L now ms) = bf_sgx F"
  "pl_zkp (vm_platform F L now ms) = bf_zkp F"
  "pl_zkp_gas_cost (vm_platform F L now ms) = unified_gas_cost (unified_zkp_defaults F L)"
  by (simp_all add: vm_platform_def)

section \<open>Attestations\<close>

text \<open>Every result of an attestation precompile is a success, whatever its verdict.\<close>

lemma tee_call_success: "tee_call F L now ms input gas_limit = Ok res \<Longrightarrow> er_success res"
  by (auto simp: tee_call_def universal_execute_def universal_new_def sgx_precompile_def nitro_precompile_def sev_precompile_def
      sgx_execute_def nitro_execute_def sev_execute_def charge_def Let_def
      split: if_splits option.splits vm_tee_platform.splits result.splits)

lemma vm_tee_done:
  "pl_tee_execute (vm_platform F L now ms) ent input gas_limit = TeeDone True
    \<longleftrightarrow> (\<exists>res. tee_call F L now ms input gas_limit = Ok res)"
  by (auto simp: vm_platform_def tee_call_success split: result.splits)

lemma tee_call_needs_sgx:
  assumes "tee_call F L now ms input gas_limit = Ok res"
  shows "bf_sgx F"
  using assms by (auto simp: tee_call_def universal_execute_def universal_new_def tee_enterprise_def tee_mainnet_def charge_def
      split: if_splits option.splits)

text \<open>What the registry checks itself.\<close>

definition attestation_fits :: "precompile_lib \<Rightarrow> job_registry \<Rightarrow> tee_attestation \<Rightarrow> job_state \<Rightarrow> bool" where
  "attestation_fits L r att job \<longleftrightarrow>
     ta_measurement att \<noteq> replicate 32 0 \<and> ta_measurement att = js_model_hash job
     \<and> js_submitted_at job \<le> ta_timestamp att \<and> ta_timestamp att \<le> sla_deadline (js_sla job)
     \<and> 64 \<le> length (ta_attestation att) \<and> xl_sha256 L (ta_attestation att) \<notin> jr_seen_attestation_hashes r
     \<and> (jr_enterprise_mode r \<longrightarrow> hd (ta_attestation att) \<noteq> 0xFF)"

lemma verify_tee_vm:
  assumes "requires_cryptographic_verification r \<or> bf_sgx F"
  shows "verify_tee_attestation (vm_platform F L now ms) r att job =
      (r\<lparr>jr_seen_attestation_hashes := insert (xl_sha256 L (ta_attestation att)) (jr_seen_attestation_hashes r)\<rparr>, Ok True)
    \<longleftrightarrow> attestation_fits L r att job
        \<and> (\<exists>res. tee_call F L now ms (platform_prefix (ta_tee_type att) # ta_attestation att) 1000000 = Ok res)"
    (is "?lhs \<longleftrightarrow> ?rhs")
proof
  assume ?lhs
  note t = verify_tee_ok [OF this]
  have "pl_tee_execute (vm_platform F L now ms) (jr_enterprise_mode r) (platform_prefix (ta_tee_type att) # ta_attestation att) 1000000
      = TeeDone True"
    using assms t(7) by (intro tee_fail_closed [of _ r]) auto
  moreover have "ta_measurement att \<noteq> replicate 32 0" "jr_enterprise_mode r \<longrightarrow> hd (ta_attestation att) \<noteq> 0xFF"
    using \<open>?lhs\<close> by (auto simp: verify_tee_attestation_def Let_def split: if_splits)
  ultimately show ?rhs using t by (simp add: attestation_fits_def vm_tee_done)
next
  assume ?rhs
  then have "pl_tee_execute (vm_platform F L now ms) (jr_enterprise_mode r) (platform_prefix (ta_tee_type att) # ta_attestation att) 1000000
      = TeeDone True" "attestation_fits L r att job" "ta_attestation att \<noteq> []"
    by (auto simp: vm_tee_done attestation_fits_def)
  then show ?lhs
    by (auto simp: verify_tee_attestation_def attestation_fits_def Let_def not_less tee_outcome_error_def)
qed

section \<open>Proofs\<close>

text \<open>Lengths are written from 64-bit words and read as narrower ones.\<close>

lemma le_bytes_narrow:
  assumes "8 * n \<le> LENGTH('a::len)" "8 * n \<le> LENGTH('b::len)"
  shows "le_bytes n (of_nat k :: 'a word) = le_bytes n (of_nat k :: 'b word)"
proof -
  have "(ucast (drop_bit (8 * i) (of_nat k :: 'a word)) :: u8) = ucast (drop_bit (8 * i) (of_nat k :: 'b word))" if "i < n" for i
  proof (rule bit_word_eqI)
    fix j assume "j < LENGTH(8)"
    then have "8 * i + j < LENGTH('a)" "8 * i + j < LENGTH('b)" using that assms by auto
    then show "bit (ucast (drop_bit (8 * i) (of_nat k :: 'a word)) :: u8) j = bit (ucast (drop_bit (8 * i) (of_nat k :: 'b word)) :: u8) j"
      by (simp add: bit_ucast_iff bit_drop_bit_eq bit_of_nat_iff)
  qed
  then show ?thesis by (simp add: le_bytes_def)
qed

lemma le_len_four: "n < 2 ^ 32 \<Longrightarrow> le_len 4 n reason = Ok (le32 n)"
  using le_bytes_narrow [of 4 n, where 'a = 64 and 'b = 32] by (simp add: le_len_def le32_def)

lemma le_len_two: "n < 2 ^ 16 \<Longrightarrow> le_len 2 n reason = Ok (le_bytes 2 (of_nat n :: u16))"
  using le_bytes_narrow [of 2 n, where 'a = 64 and 'b = 16] by (simp add: le_len_def)

lemma le_len_too_big: "\<not> n < 2 ^ (8 * w) \<Longrightarrow> \<exists>e. le_len w n reason = Err e"
  by (simp add: le_len_def)

text \<open>A call of the unified precompile with its own price reaches the verifier of the tag with that price and the overhead.\<close>

lemma unified_own_gas:
  assumes "detect_proof_system (unified_zkp_defaults F L) tag = Some p"
  shows "unified_execute (unified_zkp_defaults F L) (tag # data) (unified_gas_cost (unified_zkp_defaults F L) (tag # data))
    = pc_execute p data (pc_gas_cost p data + ZKP_UNIFIED_OVERHEAD)"
  using assms by (simp add: charge_def)

lemma overhead_covers:
  assumes "unat gas + 5000 < 2 ^ 64"
  shows "charge gas (gas + ZKP_UNIFIED_OVERHEAD) r = r"
proof -
  have "gas \<le> gas + 5000" using assms by (simp add: word_le_nat_alt unat_word_ariths)
  then show ?thesis by (auto simp: charge_def ZKP_UNIFIED_OVERHEAD_def)
qed

lemma via_precompile_vm:
  assumes "jc_require_cryptographic_verification (jr_config r)" "encode_unified_zkp_input zp job = Ok input"
    and "unified_execute (unified_zkp_defaults F L) input (unified_gas_cost (unified_zkp_defaults F L) input) = res"
  shows "(\<exists>v. verify_zk_proof_via_precompile (vm_platform F L now ms) r zp job = Ok v)
    \<longleftrightarrow> (\<exists>out. res = Ok out \<and> er_output out \<noteq> [] \<and> last (er_output out) = 1)"
  using assms by (auto simp: verify_zk_proof_via_precompile_def vm_platform_def Let_def split: result.splits)

lemma verdict_word_last [simp]: "verdict_word v \<noteq> []" "last (verdict_word v) = 1 \<longleftrightarrow> v"
  by (simp_all add: verdict_word_def)

definition zk_call :: "vm_features \<Rightarrow> precompile_lib \<Rightarrow> bytes \<Rightarrow> precompile_result" where
  "zk_call F L input = unified_execute (unified_zkp_defaults F L) input (unified_gas_cost (unified_zkp_defaults F L) input)"

lemma zk_call_groth16:
  assumes "length vk = 544" "length pf = 192" "\<forall>w \<in> set ins. length w = 32" "ins \<noteq> []" "length ins < 2 ^ 32"
  shows "zk_call F L ([1] @ vk @ pf @ concat ins)
    = Ok (exec_success (verdict_word (bf_zkp F \<and> entry_verifies L (vk, pf, ins))) (GROTH16_BASE + of_nat (length ins) * GROTH16_PER_PUBLIC_INPUT))"
proof -
  let ?data = "vk @ pf @ concat ins"
  let ?gas = "GROTH16_BASE + of_nat (length ins) * GROTH16_PER_PUBLIC_INPUT"
  note len = length_concat32 [OF assms(3)]
  have ne: "1 \<le> length ins" using assms(4) by (cases ins) auto
  have gas: "groth16_gas_cost Bn254 ?data = ?gas" using assms(1,2) len ne by (simp add: groth16_gas_cost_def Let_def)
  have "?gas = of_nat (150000 + length ins * 20000)" by (simp add: GROTH16_BASE_def GROTH16_PER_PUBLIC_INPUT_def)
  moreover have "unat (of_nat (150000 + length ins * 20000) :: u64) = 150000 + length ins * 20000"
    using assms(5) by (simp add: unat_of_nat take_bit_nat_eq_self del: of_nat_add of_nat_mult)
  ultimately have fits: "unat ?gas + 5000 < 2 ^ 64" using assms(5) by simp
  have slices: "slice 0 544 ?data = vk" "slice 544 736 ?data = pf" "drop 736 ?data = concat ins"
    using assms(1,2) by (simp_all add: slice_def)
  have "groth16_execute F L Bn254 ?data (?gas + ZKP_UNIFIED_OVERHEAD)
      = Ok (exec_success (verdict_word (bf_zkp F \<and> entry_verifies L (vk, pf, ins))) ?gas)"
    unfolding groth16_execute_def gas Let_def overhead_covers [OF fits]
    using assms(1,2,4) len ne groth16_accepts_iff [OF assms(3), of F L vk pf] slices by (simp add: groth16_min_length_def)
  then show ?thesis
    using unified_own_gas [of F L 1 "groth16_precompile F L Bn254" ?data] gas
    by (simp add: zk_call_def detect_proof_system_def groth16_precompile_def del: unified_execute.simps unified_gas_cost.simps)
qed

lemma zk_call_plonk:
  assumes "length vk = 32" "length ins = n * 32" "n < 2 ^ 32" "length pf < 2 ^ 32" "pf \<noteq> []"
  shows "zk_call F L ([2] @ le32 (length pf) @ vk @ le32 n @ ins @ pf)
    = (if 40 + length ins + length pf < 424 then Err (InvalidInputLength 424 (40 + length ins + length pf))
       else Ok (exec_success (verdict_word (bf_zkp F)) PLONK_BASE))"
proof -
  let ?data = "le32 (length pf) @ vk @ le32 n @ ins @ pf"
  have at: "le32_at ?data 0 = length pf" "le32_at ?data 36 = n"
    using le32_at_here [OF assms(4), of 0 "[]"] le32_at_here [OF assms(3), of 36 "le32 (length pf) @ vk"] assms(1) by simp_all
  have "slice (40 + n * 32) (40 + n * 32 + length pf) ?data = pf" using assms(1,2) by (simp add: slice_def)
  then have "plonk_execute F ?data (PLONK_BASE + ZKP_UNIFIED_OVERHEAD)
      = (if 40 + length ins + length pf < 424 then Err (InvalidInputLength 424 (40 + length ins + length pf))
         else Ok (exec_success (verdict_word (bf_zkp F)) PLONK_BASE))"
    using assms at
    by (simp add: plonk_execute_def charge_def PLONK_BASE_def ZKP_UNIFIED_OVERHEAD_def PLONK_MIN_LENGTH_def Let_def verify_plonk_proof_def
        ok_true_def)
  then show ?thesis
    using unified_own_gas [of F L 2 "plonk_precompile F" ?data]
    by (simp add: zk_call_def detect_proof_system_def plonk_precompile_def del: unified_execute.simps unified_gas_cost.simps)
qed

lemma zk_call_halo2:
  "zk_call F L ([4] @ data)
    = (if length data < 256 then Err (InvalidInputLength 256 (length data)) else Ok (exec_success (verdict_word (bf_zkp F)) PLONK_BASE))"
proof -
  have "halo2_execute F data (PLONK_BASE + ZKP_UNIFIED_OVERHEAD)
      = (if length data < 256 then Err (InvalidInputLength 256 (length data)) else Ok (exec_success (verdict_word (bf_zkp F)) PLONK_BASE))"
    by (simp add: halo2_execute_def charge_def PLONK_BASE_def ZKP_UNIFIED_OVERHEAD_def verify_halo2_proof_def ok_true_def)
  then show ?thesis
    using unified_own_gas [of F L 4 "halo2_precompile F" data]
    by (simp add: zk_call_def detect_proof_system_def halo2_precompile_def del: unified_execute.simps unified_gas_cost.simps)
qed

lemma zk_call_stark:
  assumes "length vk = 32" "length ins = n * 32" "n < 2 ^ 32" "160 \<le> length ins + length pf" "pf \<noteq> []"
  shows "zk_call F L ([5] @ vk @ le32 n @ ins @ pf) = Ok (exec_success (verdict_word (bf_zkp F)) STARK_BASE)"
proof -
  let ?data = "vk @ le32 n @ ins @ pf"
  have at: "le32_at ?data 32 = n" using le32_at_here [OF assms(3), of 32 vk] assms(1) by simp
  have "drop (36 + n * 32) ?data = pf" using assms(1,2) by simp
  then have "stark_execute F ?data (STARK_BASE + ZKP_UNIFIED_OVERHEAD) = Ok (exec_success (verdict_word (bf_zkp F)) STARK_BASE)"
    using assms at
    by (simp add: stark_execute_def charge_def STARK_BASE_def ZKP_UNIFIED_OVERHEAD_def STARK_MIN_LENGTH_def Let_def verify_stark_proof_def
        ok_true_def)
  then show ?thesis
    using unified_own_gas [of F L 5 "stark_precompile F" ?data]
    by (simp add: zk_call_def detect_proof_system_def stark_precompile_def del: unified_execute.simps unified_gas_cost.simps)
qed

lemma zk_call_ezkl:
  assumes "length model = 32" "length vk = 32" "length ins = n * 32" "n < 2 ^ 16" "length pf < 2 ^ 32"
  shows "\<exists>gas. zk_call F L ([3, 1, 0] @ model @ vk @ le_bytes 2 (of_nat n :: u16) @ le32 (length pf) @ ins @ pf)
    = Ok (exec_success (replicate 29 0 @ [1, 0, if bf_zkp F then 1 else 0]) gas)"
proof -
  let ?data = "[1, 0] @ model @ vk @ le_bytes 2 (of_nat n :: u16) @ le32 (length pf) @ ins @ pf"
  have "slice 66 68 ?data = le_bytes 2 (of_nat n :: u16)" using assms(1,2) by (simp add: slice_def)
  then have count: "unat (le_word (slice 66 68 ?data) :: u16) = n" using assms(4) by (simp add: unat_of_nat take_bit_nat_eq_self)
  have at: "le32_at ?data 68 = length pf"
    using le32_at_here [OF assms(5), of 68 "[1, 0] @ model @ vk @ le_bytes 2 (of_nat n :: u16)"] assms(1,2) by simp
  obtain h where h: "ezkl_parse_header ?data = Some h" "eh_version h = 1" "eh_backend h = EzklNative"
      "eh_num_public_inputs h = n" "eh_proof_size h = length pf"
    using count at assms(1,2) by (simp add: ezkl_parse_header_def Let_def)
  let ?gas = "ezkl_gas_cost ?data"
  have gas: "?gas = of_nat (250000 + n * 1000) + of_nat (length pf) div 100" using h by (simp add: ezkl_gas_cost_def EZKL_BASE_def)
  have "unat (of_nat (length pf) div 100 :: u64) = length pf div 100"
    using assms(5) by (simp add: unat_div unat_of_nat take_bit_nat_eq_self)
  moreover have "unat (of_nat (250000 + n * 1000) :: u64) = 250000 + n * 1000"
    using assms(4) by (simp add: unat_of_nat take_bit_nat_eq_self del: of_nat_add of_nat_mult)
  ultimately have fits: "unat ?gas + 5000 < 2 ^ 64"
    unfolding gas using assms(4,5) by (simp add: unat_word_ariths(1) del: of_nat_add of_nat_mult)
  have "ezkl_execute F [EzklNative, EzklPlonk, EzklHalo2] ?data (?gas + ZKP_UNIFIED_OVERHEAD)
      = Ok (exec_success (replicate 29 0 @ [1, 0, if bf_zkp F then 1 else 0]) ?gas)"
    unfolding ezkl_execute_def Let_def overhead_covers [OF fits]
    using h assms by (simp add: verify_ezkl_proof_def ok_true_def)
  then show ?thesis
    using unified_own_gas [of F L 3 "ezkl_precompile F" ?data]
    by (auto simp: zk_call_def detect_proof_system_def ezkl_precompile_def simp del: unified_execute.simps unified_gas_cost.simps)
qed

text \<open>Without the pairing library no call answers 1, whatever its input.\<close>

lemma zk_call_needs_zkp:
  assumes "zk_call F L input = Ok out" "last (er_output out) = 1"
  shows "bf_zkp F"
proof (cases input)
  case Nil
  then show ?thesis using assms by (simp add: zk_call_def)
next
  case (Cons tag data)
  then obtain p g where "detect_proof_system (unified_zkp_defaults F L) tag = Some p" "pc_execute p data g = Ok out"
    using assms(1) by (auto simp: zk_call_def charge_def split: option.splits)
  then show ?thesis
    using assms(2)
    by (auto simp: detect_proof_system_def groth16_precompile_def plonk_precompile_def ezkl_precompile_def halo2_precompile_def
        stark_precompile_def groth16_execute_def plonk_execute_def ezkl_execute_def halo2_execute_def stark_execute_def charge_def Let_def
        ok_true_def verify_groth16_proof_def verify_plonk_proof_def verify_ezkl_proof_def verify_halo2_proof_def verify_stark_proof_def
        split: if_splits option.splits)
qed

lemma length_pad_to [simp]: "length (pad_to n bs) = n"
  by (simp add: pad_to_def)

text \<open>The proofs that the precompile accepts, by system: only the Groth16 backend looks at the proof.\<close>

definition proof_accepted :: "precompile_lib \<Rightarrow> zk_proof \<Rightarrow> bool" where
  "proof_accepted L zp =
     (let n = length (zk_public_inputs zp); len = length (zk_proof_bytes zp)
      in case zk_sys zp of
           Groth16 \<Rightarrow> entry_verifies L (pad_to 544 (zk_vk_hash zp), pad_to 192 (zk_proof_bytes zp), zk_public_inputs zp)
         | Plonk \<Rightarrow> len < 2 ^ 32 \<and> 384 \<le> 32 * n + len
         | Ezkl \<Rightarrow> len < 2 ^ 32 \<and> n < 2 ^ 16
         | Halo2 \<Rightarrow> 224 \<le> 32 * n + len
         | Stark \<Rightarrow> True)"

lemma via_precompile_encoded:
  assumes "jc_require_cryptographic_verification (jr_config r)" "encode_unified_zkp_input zp job = Ok input"
  shows "(\<exists>v. verify_zk_proof_via_precompile (vm_platform F L now ms) r zp job = Ok v)
    \<longleftrightarrow> (\<exists>out. zk_call F L input = Ok out \<and> er_output out \<noteq> [] \<and> last (er_output out) = 1)"
  using via_precompile_vm [OF assms refl, of F L now ms] by (simp add: zk_call_def)

lemma zk_verdict_plonk:
  assumes "jc_require_cryptographic_verification (jr_config r)" "length (zk_vk_hash zp) = 32"
    and "length (flatten_public_inputs (zk_public_inputs zp)) = length (zk_public_inputs zp) * 32"
    and "length (zk_public_inputs zp) < 2 ^ 32" "zk_proof_bytes zp \<noteq> []" "zk_sys zp = Plonk"
  shows "(\<exists>v. verify_zk_proof_via_precompile (vm_platform F L now ms) r zp job = Ok v) \<longleftrightarrow> bf_zkp F \<and> proof_accepted L zp"
proof (cases "length (zk_proof_bytes zp) < 2 ^ 32")
  case True
  have e: "encode_unified_zkp_input zp job = Ok ([2] @ le32 (length (zk_proof_bytes zp)) @ zk_vk_hash zp
      @ le32 (length (zk_public_inputs zp)) @ flatten_public_inputs (zk_public_inputs zp) @ zk_proof_bytes zp)"
    using assms(6) by (simp add: encode_unified_zkp_input_def le_len_four [OF True] le_len_four [OF assms(4)])
  show ?thesis
    using via_precompile_encoded [OF assms(1) e, of F L now ms] zk_call_plonk [OF assms(2-4) True assms(5), of F L] assms(3,6) True
    by (auto simp: proof_accepted_def)
next
  case False
  then show ?thesis using assms(6)
    by (auto simp: proof_accepted_def verify_zk_proof_via_precompile_def encode_unified_zkp_input_def le_len_def)
qed

lemma zk_verdict_ezkl:
  assumes "jc_require_cryptographic_verification (jr_config r)" "length (js_model_hash job) = 32" "length (zk_vk_hash zp) = 32"
    and "length (flatten_public_inputs (zk_public_inputs zp)) = length (zk_public_inputs zp) * 32" "zk_sys zp = Ezkl"
  shows "(\<exists>v. verify_zk_proof_via_precompile (vm_platform F L now ms) r zp job = Ok v) \<longleftrightarrow> bf_zkp F \<and> proof_accepted L zp"
proof (cases "length (zk_proof_bytes zp) < 2 ^ 32 \<and> length (zk_public_inputs zp) < 2 ^ 16")
  case True
  with assms(5) have e: "encode_unified_zkp_input zp job = Ok ([3, 1, 0] @ js_model_hash job @ zk_vk_hash zp
      @ le_bytes 2 (of_nat (length (zk_public_inputs zp)) :: u16) @ le32 (length (zk_proof_bytes zp))
      @ flatten_public_inputs (zk_public_inputs zp) @ zk_proof_bytes zp)"
    by (simp add: encode_unified_zkp_input_def le_len_two le_len_four)
  show ?thesis
    using via_precompile_encoded [OF assms(1) e, of F L now ms] zk_call_ezkl [OF assms(2-4), of "zk_proof_bytes zp" F L] assms(5) True
    by (auto simp: proof_accepted_def split: if_splits)
next
  case False
  then show ?thesis using assms(5)
    by (auto simp: proof_accepted_def verify_zk_proof_via_precompile_def encode_unified_zkp_input_def le_len_def Let_def)
qed

lemma zk_verdict:
  assumes fail_closed: "jc_require_cryptographic_verification (jr_config r)"
    and wf: "zk_wf zp" "length (js_model_hash job) = 32" "zk_public_inputs zp \<noteq> []" "length (zk_public_inputs zp) < 2 ^ 32"
      "128 \<le> length (zk_proof_bytes zp)"
  shows "(\<exists>v. verify_zk_proof_via_precompile (vm_platform F L now ms) r zp job = Ok v) \<longleftrightarrow> bf_zkp F \<and> proof_accepted L zp"
proof -
  let ?ins = "zk_public_inputs zp" and ?pf = "zk_proof_bytes zp" and ?vk = "zk_vk_hash zp"
  have vk: "length ?vk = 32" and each: "\<forall>w \<in> set ?ins. length w = 32" using wf(1) by (auto simp: zk_wf_def list_all_iff)
  have len: "length (flatten_public_inputs ?ins) = length ?ins * 32"
    using length_concat32 [OF each] by (simp add: flatten_public_inputs_def)
  have pf: "?pf \<noteq> []" using wf(5) by auto
  have ne: "1 \<le> length ?ins" using wf(3) by (cases ?ins) auto
  note n4 = le_len_four [OF wf(4)] and via = via_precompile_encoded [OF fail_closed]
  show ?thesis
  proof (cases "zk_sys zp")
    case Groth16
    then have e: "encode_unified_zkp_input zp job = Ok ([1] @ pad_to 544 ?vk @ pad_to 192 ?pf @ concat ?ins)"
      by (simp add: encode_unified_zkp_input_def flatten_public_inputs_def)
    show ?thesis using via [OF e] zk_call_groth16 [OF _ _ each wf(3,4), of "pad_to 544 ?vk" "pad_to 192 ?pf" F L] Groth16
      by (simp add: proof_accepted_def)
  next
    case Halo2
    then have e: "encode_unified_zkp_input zp job = Ok ([4] @ (?vk @ flatten_public_inputs ?ins @ ?pf))"
      by (simp add: encode_unified_zkp_input_def)
    show ?thesis using via [OF e] zk_call_halo2 [of F L "?vk @ flatten_public_inputs ?ins @ ?pf"] vk len Halo2
      by (auto simp: proof_accepted_def)
  next
    case Stark
    then have e: "encode_unified_zkp_input zp job = Ok ([5] @ ?vk @ le32 (length ?ins) @ flatten_public_inputs ?ins @ ?pf)"
      by (simp add: encode_unified_zkp_input_def n4)
    have "160 \<le> length (flatten_public_inputs ?ins) + length ?pf" using wf(5) len ne by simp
    then show ?thesis using via [OF e] zk_call_stark [OF vk len wf(4) _ pf, of F L] Stark by (simp add: proof_accepted_def)
  next
    case Plonk
    then show ?thesis using zk_verdict_plonk [OF fail_closed vk len wf(4) pf] by simp
  next
    case Ezkl
    then show ?thesis using zk_verdict_ezkl [OF fail_closed wf(2) vk len] by simp
  qed
qed

text \<open>
  C17. The verdict of the fail-closed job registry on a zero-knowledge proof, with the precompiles the code calls: for every proof with a 32-byte key
  hash and 1 to 2^32 - 1 public inputs of 32 bytes, and at least 128 proof bytes, the registry accepts exactly if the build has the \<open>zkp\<close> feature and, for
  Groth16, the pairing library accepts the proof padded to 192 bytes under the key hash padded to 544 bytes in place of a
  key; for PLONK, EZKL, Halo2 and STARK, the lengths fit the envelope. The bytes of those proofs are never looked at.
\<close>

theorem zk_verdict_exact:
  assumes "jc_require_cryptographic_verification (jr_config r)"
    and "zk_wf zp" "length (js_model_hash job) = 32" "zk_public_inputs zp \<noteq> []" "length (zk_public_inputs zp) < 2 ^ 32"
      "128 \<le> length (zk_proof_bytes zp)"
  shows "(\<exists>v. verify_zk_proof_via_precompile (vm_platform F L now ms) r zp job = Ok v) \<longleftrightarrow> bf_zkp F \<and> proof_accepted L zp"
  by (rule zk_verdict [OF assms])

text \<open>
  C18. The attestation verdict is not read: with fail-closed checking, or in a build with the \<open>sgx\<close> feature, the job registry accepts an attestation exactly if
  its own structural checks pass and the universal attestation precompile returns a result, whatever the verdict byte
  of that result is.
\<close>

theorem attestation_verdict_ignored:
  assumes "requires_cryptographic_verification r \<or> bf_sgx F"
  shows "verify_tee_attestation (vm_platform F L now ms) r att job =
      (r\<lparr>jr_seen_attestation_hashes := insert (xl_sha256 L (ta_attestation att)) (jr_seen_attestation_hashes r)\<rparr>, Ok True)
    \<longleftrightarrow> attestation_fits L r att job
        \<and> (\<exists>res. tee_call F L now ms (platform_prefix (ta_tee_type att) # ta_attestation att) 1000000 = Ok res)"
  by (rule verify_tee_vm [OF assms])

section \<open>Settlement\<close>

lemma verify_proof_attested:
  assumes "verify_proof pl r pf job = (r1, Ok True)" "pf_method pf \<in> {TeeAttestation, Hybrid}"
  obtains att r2 v where "pf_tee_attestation pf = Some att" "verify_tee_attestation pl r att job = (r2, Ok v)"
  using assms by (cases "pf_method pf") (auto simp: verify_proof_def split: option.splits elim!: try_then_OkE)

lemma vm_zkp_execute:
  "pl_zkp_execute (vm_platform F L now ms) input (unified_gas_cost (unified_zkp_defaults F L) input) = Ok output
    \<longleftrightarrow> (\<exists>out. zk_call F L input = Ok out \<and> er_output out = output)"
  by (auto simp: vm_platform_def zk_call_def split: result.splits)

lemma vm_zk_evidence:
  assumes "zk_evidence (vm_platform F L now ms) r pf job" "jc_require_cryptographic_verification (jr_config r)"
  shows "bf_zkp F \<and> (\<exists>zp. pf_zk_proof pf = Some zp \<and> take 2 (zk_public_inputs zp) = [js_model_hash job, js_input_hash job]
    \<and> (zk_wf zp \<and> zk_sys zp = Groth16 \<and> length (zk_public_inputs zp) < 2 ^ 32 \<longrightarrow>
        entry_verifies L (pad_to 544 (zk_vk_hash zp), pad_to 192 (zk_proof_bytes zp), zk_public_inputs zp)))"
proof -
  obtain zp input out where z: "pf_zk_proof pf = Some zp" "take 2 (zk_public_inputs zp) = [js_model_hash job, js_input_hash job]"
    "encode_unified_zkp_input zp job = Ok input" "zk_call F L input = Ok out" "last (er_output out) = 1"
    using assms by (auto simp: zk_evidence_def vm_zkp_execute)
  have "entry_verifies L (pad_to 544 (zk_vk_hash zp), pad_to 192 (zk_proof_bytes zp), zk_public_inputs zp)"
    if "zk_wf zp" "zk_sys zp = Groth16" "length (zk_public_inputs zp) < 2 ^ 32"
  proof -
    have "input = [1] @ pad_to 544 (zk_vk_hash zp) @ pad_to 192 (zk_proof_bytes zp) @ concat (zk_public_inputs zp)"
      using z(3) that(2) by (simp add: encode_unified_zkp_input_def flatten_public_inputs_def)
    moreover have "\<forall>w \<in> set (zk_public_inputs zp). length w = 32" "zk_public_inputs zp \<noteq> []"
      using that(1) z(2) by (auto simp: zk_wf_def list_all_iff)
    ultimately show ?thesis
      using zk_call_groth16 [of "pad_to 544 (zk_vk_hash zp)" "pad_to 192 (zk_proof_bytes zp)" "zk_public_inputs zp" F L] z(4,5) that(3)
      by auto
  qed
  then show ?thesis using z zk_call_needs_zkp by blast
qed

text \<open>
  C6. Without verification backends nothing is settled: if \<open>submit_proof\<close> on the precompiles of the node succeeds in a fail-closed
  registry (mainnet and testnet configurations), a job verified by attestation was settled in a build with the \<open>sgx\<close> feature, by an attestation on which the
  precompile returned a result; a job verified by a proof was settled in a build with the \<open>zkp\<close> feature, by a proof about the model and the input
  of the job, and a Groth16 proof was accepted by the pairing library. In the default build only jobs by re-execution can settle.
\<close>

theorem settled_needs_backend:
  assumes "submit_proof (vm_platform F L now ms) r params ctx sm cell b = Some (r', sm', cell', b', Ok res)"
    and "jc_require_cryptographic_verification (jr_config r)"
  shows "\<exists>job. get_job r (sb_job_id params) = Some job \<and> pf_method (sb_proof params) = js_verification_method job \<and>
    (js_verification_method job \<in> {TeeAttestation, Hybrid} \<longrightarrow> bf_sgx F \<and> (\<exists>att out. pf_tee_attestation (sb_proof params) = Some att
        \<and> attestation_fits L r att job \<and> tee_call F L now ms (platform_prefix (ta_tee_type att) # ta_attestation att) 1000000 = Ok out)) \<and>
    (js_verification_method job \<in> {ZkProof, Hybrid} \<longrightarrow> bf_zkp F \<and> (\<exists>zp. pf_zk_proof (sb_proof params) = Some zp
        \<and> take 2 (zk_public_inputs zp) = [js_model_hash job, js_input_hash job]
        \<and> (zk_wf zp \<and> zk_sys zp = Groth16 \<and> length (zk_public_inputs zp) < 2 ^ 32 \<longrightarrow>
            entry_verifies L (pad_to 544 (zk_vk_hash zp), pad_to 192 (zk_proof_bytes zp), zk_public_inputs zp))))"
proof -
  from submit_proof_ok [OF assms(1)] obtain job r1 where
    j: "hm_get (jr_jobs r) (sb_job_id params) = Some job" "proof_precheck r (sb_proof params) job = None"
    and v: "verify_proof (vm_platform F L now ms) r (sb_proof params) job = (r1, Ok True)" by blast
  have m: "pf_method (sb_proof params) = js_verification_method job"
    using j(2) by (auto simp: proof_precheck_def split: if_splits)
  have closed: "requires_cryptographic_verification r \<or> bf_sgx F"
    using assms(2) by (simp add: requires_cryptographic_verification_def)
  have tee: "\<exists>att out. pf_tee_attestation (sb_proof params) = Some att \<and> attestation_fits L r att job
      \<and> tee_call F L now ms (platform_prefix (ta_tee_type att) # ta_attestation att) 1000000 = Ok out"
    if attested: "pf_method (sb_proof params) \<in> {TeeAttestation, Hybrid}"
  proof -
    obtain att r2 w where a: "pf_tee_attestation (sb_proof params) = Some att"
      "verify_tee_attestation (vm_platform F L now ms) r att job = (r2, Ok w)"
      by (rule verify_proof_attested [OF v attested])
    then show ?thesis using verify_tee_vm [OF closed, of L now ms att job] verify_tee_ok(1,8) [OF a(2)] by auto
  qed
  moreover have "bf_sgx F" if "pf_method (sb_proof params) \<in> {TeeAttestation, Hybrid}"
    using tee [OF that] tee_call_needs_sgx by blast
  ultimately show ?thesis
    using j(1) m verify_proof_ok [OF v] vm_zk_evidence [OF _ assms(2), of F L now ms "sb_proof params" job] by (auto simp: get_job_def)
qed

section \<open>Witnesses\<close>

text \<open>A PLONK proof of zeros, and an attestation of zeros that the precompile rejects and the registry settles.\<close>

definition zero_proof :: zk_proof where
  "zero_proof = \<lparr>zk_sys = Plonk, zk_proof_bytes = replicate 400 0, zk_public_inputs = [addr 3, addr 4], zk_vk_hash = addr 5\<rparr>"

definition zero_attestation :: tee_attestation where
  "zero_attestation = \<lparr>ta_tee_type = IntelSgx, ta_attestation = replicate 96 0, ta_measurement = addr 3, ta_timestamp = 150\<rparr>"

lemma u256_zero: "u256_to_usize (replicate 32 0) = 0"
proof -
  have "foldl (\<lambda>val b. push_bit 8 val OR ucast b) (0 :: u64) (replicate n (0 :: u8)) = 0" for n
    by (induction n) simp_all
  then show ?thesis by (simp add: u256_to_usize_def slice_def)
qed

lemma zero_attestation_call:
  "\<exists>res. tee_call demo_build demo_libs 0 0 (platform_prefix IntelSgx # replicate 96 0) 1000000 = Ok res \<and> er_output res ! 0 = 0"
proof -
  let ?z = "replicate 96 (0 :: u8)"
  have z: "slice 0 32 ?z = replicate 32 0" "slice 32 64 ?z = replicate 32 0" by (simp_all add: slice_def)
  have "sgx_execute demo_build demo_libs tee_enterprise measurement_registry_new 0 ?z 1000000
      = Ok (exec_success (sgx_build_output (sgx_unparsed ParseError)) 500000)"
    using z by (simp add: sgx_execute_def charge_def sgx_gas_cost_def kb_gas_cost_def tee_enterprise_def tee_mainnet_def Let_def
        u256_zero checked_abi_slice_def sgx_judge_def parse_dcap_quote_def slice_def)
  then have "tee_call demo_build demo_libs 0 0 (platform_prefix IntelSgx # ?z) 1000000
      = Ok (exec_success (sgx_build_output (sgx_unparsed ParseError)) 500000)"
    by (simp add: tee_call_def universal_execute_def universal_gas_cost_def universal_new_def charge_def sgx_precompile_def demo_build_def
        sgx_gas_cost_def kb_gas_cost_def)
  then show ?thesis by (simp add: sgx_build_output_def sgx_unparsed_def)
qed

lemma zero_attestation_fits: "attestation_fits demo_libs demo_assigned zero_attestation demo_assigned_job"
  by (simp add: attestation_fits_def zero_attestation_def demo_assign demo_assigned_job_def demo_job_def addr_special)

lemma demo_fail_closed: "jc_require_cryptographic_verification (jr_config demo_assigned)"
  by (simp add: demo_assign job_config_mainnet_def)

theorem zk_verdict_exact_witness:
  "\<exists>v. verify_zk_proof_via_precompile (vm_platform demo_build demo_libs 0 0) demo_assigned zero_proof demo_assigned_job = Ok v"
proof -
  have "zk_wf zero_proof" "length (js_model_hash demo_assigned_job) = 32" "zk_public_inputs zero_proof \<noteq> []"
    "length (zk_public_inputs zero_proof) < 2 ^ 32" "128 \<le> length (zk_proof_bytes zero_proof)"
    by (simp_all add: zero_proof_def zk_wf_def demo_assigned_job_def demo_job_def addr_def)
  from zk_verdict_exact [OF demo_fail_closed this] show ?thesis
    by (simp add: proof_accepted_def zero_proof_def demo_build_def)
qed

theorem attestation_verdict_ignored_witness:
  "(\<exists>r'. verify_tee_attestation (vm_platform demo_build demo_libs 0 0) demo_assigned zero_attestation demo_assigned_job = (r', Ok True))
   \<and> (\<exists>res. tee_call demo_build demo_libs 0 0 (platform_prefix IntelSgx # ta_attestation zero_attestation) 1000000 = Ok res
        \<and> er_output res ! 0 = 0)"
proof -
  have "requires_cryptographic_verification demo_assigned \<or> bf_sgx demo_build" by (simp add: demo_build_def)
  from attestation_verdict_ignored [OF this, of demo_libs 0 0 zero_attestation demo_assigned_job] zero_attestation_fits
    zero_attestation_call show ?thesis by (auto simp: zero_attestation_def)
qed

definition zero_submission :: submit_proof_params where
  "zero_submission = demo_proof\<lparr>sb_proof := (sb_proof demo_proof)\<lparr>pf_tee_attestation := Some zero_attestation\<rparr>\<rparr>"

lemma zero_submission_settles:
  "\<exists>r' b' res. submit_proof (vm_platform demo_build demo_libs 0 0) demo_assigned zero_submission (at_time 200) demo_staking HeldBySelf
      (snd demo_submitted) = Some (r', demo_staking, HeldBySelf, b', Ok res)"
proof -
  have same: "sb_job_id zero_submission = sb_job_id demo_proof" "sb_prover zero_submission = sb_prover demo_proof"
    "pf_method (sb_proof zero_submission) = TeeAttestation" "pf_tee_attestation (sb_proof zero_submission) = Some zero_attestation"
    by (simp_all add: zero_submission_def demo_proof_def)
  have pre: "proof_precheck demo_assigned (sb_proof zero_submission) demo_assigned_job = None"
    by (simp add: proof_precheck_def same demo_assigned_job_def demo_job_def demo_assign job_config_mainnet_def)
  have sgx: "requires_cryptographic_verification demo_assigned \<or> bf_sgx demo_build" by (simp add: demo_build_def)
  obtain r1 where "verify_tee_attestation (vm_platform demo_build demo_libs 0 0) demo_assigned zero_attestation demo_assigned_job = (r1, Ok True)"
    using verify_tee_vm [OF sgx, of demo_libs 0 0 zero_attestation demo_assigned_job] zero_attestation_fits zero_attestation_call
    by (auto simp: zero_attestation_def)
  then have "verify_proof (vm_platform demo_build demo_libs 0 0) demo_assigned (sb_proof zero_submission) demo_assigned_job = (r1, Ok True)"
    by (simp add: verify_proof_def same)
  from settles [OF _ _ demo_ready(3,4) pre this demo_bank_state(1), of demo_staking HeldBySelf] show ?thesis
    using demo_ready(1,2) demo_bank_state demo_values by (auto simp: same addr_special)
qed

theorem settled_needs_backend_witness:
  "\<exists>r' b' res out. submit_proof (vm_platform demo_build demo_libs 0 0) demo_assigned zero_submission (at_time 200) demo_staking HeldBySelf
      (snd demo_submitted) = Some (r', demo_staking, HeldBySelf, b', Ok res)
    \<and> attestation_fits demo_libs demo_assigned zero_attestation demo_assigned_job
    \<and> tee_call demo_build demo_libs 0 0 (platform_prefix IntelSgx # ta_attestation zero_attestation) 1000000 = Ok out"
proof -
  obtain r' b' res where s: "submit_proof (vm_platform demo_build demo_libs 0 0) demo_assigned zero_submission (at_time 200) demo_staking
      HeldBySelf (snd demo_submitted) = Some (r', demo_staking, HeldBySelf, b', Ok res)"
    using zero_submission_settles by blast
  have "sb_job_id zero_submission = sb_job_id demo_proof" "js_verification_method demo_assigned_job = TeeAttestation"
    "pf_tee_attestation (sb_proof zero_submission) = Some zero_attestation" "ta_tee_type zero_attestation = IntelSgx"
    by (simp_all add: zero_submission_def demo_proof_def demo_assigned_job_def demo_job_def zero_attestation_def)
  then show ?thesis using s settled_needs_backend [OF s demo_fail_closed] demo_ready(1) by (auto simp: get_job_def)
qed

end
