(* ===== verification/Spec2Isabelle.thy ===== *)
theory Spec2Isabelle
  imports Kernel_Properties Tokenomics_Properties Slashing_Properties Pouw_Properties Lottery_Properties Reputation
    Admission_Properties Screening_Properties Gas_Properties Core_Job_Properties Core_Block_Properties
    Bridge_Properties Vault_Selection_Properties Vault_Concurrency Vm_Job_Verification
begin

text \<open>
  \<^bold>\<open>A verification development for Aethelred.\<close> Aethelred is a layer-1 chain for verified computation written in
  Rust. This library models its core in HOL and proves what makes it correct. Sources are named relative to
  \<open>src/crates\<close>.

  \<^bold>\<open>1. The program.\<close> A client signs a transaction with a hybrid (ECDSA and Dilithium) key; the mempool middleware
  parses, verifies, screens, rate-limits and prices it; a leader drawn by a stake- and work-weighted lottery puts
  it into a block; the virtual machine meters its gas, verifies signatures, proofs and attestations in precompiles and passes
  system calls to the system kernel, which moves tokens, stakes, jobs and certificates; tokenomics, slashing and the useful-work engine pay and punish; a relayer
  connects the chain with Ethereum; an enclave service selects the validators of the liquid-staking vault, computes
  its rewards and attests both for the contract that pays them. Components share state by calls: the kernel owns one bank, which staking, job
  registry, slashing, tokenomics and escrow change; the consensus engine reads the scores that useful work
  writes; the job registry asks the precompiles; the mempool uses the keys, signatures and transactions of the core crate.

  \<^bold>\<open>2. Theories and what they model.\<close>

  \<^item> \<open>Rust_Prelude\<close>, \<open>Rust_Float\<close>, \<open>Rust_Bytes\<close>: machine integers, \<open>Result\<close> and the \<open>?\<close> operator, hash maps and ordered
    maps with the locale of their laws, byte encodings, text, IEEE-754 double arithmetic.
  \<^item> \<open>Types\<close>, \<open>Errors\<close>, \<open>Events\<close>: \<open>vm/src/system_contracts/{types,error,events}.rs\<close>.
  \<^item> \<open>Bank\<close>, \<open>Bank_Ledger\<close>, \<open>Bank_Runs\<close>, \<open>Bank_Properties\<close>: \<open>bank.rs\<close>; an abstract ledger, the refinement of every
    operation to it, solvency of all runs, escrows.
  \<^item> \<open>Staking\<close>, \<open>Staking_Properties\<close>: \<open>staking.rs\<close>; stakes are backed by locked tokens, slashing, unbonding.
  \<^item> \<open>Job_Registry\<close>, \<open>Job_Lifecycle\<close>, \<open>Job_Lemmas\<close>, \<open>Job_Properties\<close>: \<open>job_registry.rs\<close>; the state machine of a job, proof
    verification, settlement, expiry.
  \<^item> \<open>Compliance_Module\<close>, \<open>Compliance_Properties\<close>: \<open>compliance.rs\<close>; sanctions filter, certificates, consent, decisions.
  \<^item> \<open>Kernel\<close>, \<open>Kernel_Properties\<close>: \<open>mod.rs\<close>; genesis, block hooks, dispatch of system calls, composition.
  \<^item> \<open>Vesting\<close>, \<open>Tokenomics\<close>, \<open>Tokenomics_Properties\<close>: \<open>tokenomics.rs\<close>; vesting, emission, burning.
  \<^item> \<open>Slashing\<close>, \<open>Slashing_Properties\<close>: \<open>slashing.rs\<close>; offenses, challenges, committees, bans.
  \<^item> \<open>Pouw_Engine\<close>, \<open>Pouw_Properties\<close>: \<open>pouw_engine.rs\<close>; rewards, bonds, congestion burn, oracle prices.
  \<^item> \<open>Consensus_Types\<close>, \<open>Consensus_Config\<close>, \<open>Vrf\<close>, \<open>Reputation\<close>, \<open>Election\<close>, \<open>Consensus_Engine\<close>: \<open>consensus/src\<close>; headers,
    validators, the random function of the default build, scores, thresholds, the engine. \<open>Block_Properties\<close>,
    \<open>Leader_Properties\<close>, \<open>Lottery_Properties\<close>: what a tip and a compute root commit to, credentials, the fairness of
    the lottery, the active set.
  \<^item> \<open>Hybrid_Signature\<close>, \<open>Core_Address\<close>, \<open>Core_Transaction\<close>, \<open>Core_Block\<close>, \<open>Core_Job\<close>: \<open>core/src/crypto/{mod,hash,hybrid}.rs\<close>,
    \<open>core/src/types/{address,transaction,block,job,seal}.rs\<close>; with \<open>Hybrid_Properties\<close>, \<open>Transaction_Properties\<close>,
    \<open>Core_Block_Properties\<close>, \<open>Core_Job_Properties\<close>: wire formats, the verification policy, what a hash covers, the
    limits of the block builder, the states of a job and majorities of results.
  \<^item> \<open>Mempool\<close>, \<open>Mempool_Signature\<close>, \<open>Mempool_Compliance\<close>, \<open>Mempool_Rate_Limit\<close>, \<open>Mempool_Fee\<close>, \<open>Mempool_Chain\<close>:
    \<open>mempool/src/middleware\<close>; with \<open>Mempool_Properties\<close> (the contract of a middleware as a locale),
    \<open>Rate_Limit_Properties\<close>, \<open>Admission_Properties\<close>, \<open>Screening_Properties\<close>.
  \<^item> \<open>Vm_Gas\<close>, \<open>Gas_Properties\<close>: \<open>vm/src/{gas,memory}.rs\<close>; the meter as interleaved atomic steps of its callers.
  \<^item> \<open>Vm_Precompile\<close>, \<open>Vm_Zkp\<close>, \<open>Vm_Tee\<close>, \<open>Vm_Precompiles\<close>: \<open>vm/src/precompiles\<close>; the trait and its registries with the signature
    precompiles, the proof and the attestation precompiles, the stock registries. \<open>Vm_Precompile_Properties\<close>: the gas
    contract of the trait as a locale that every precompile interprets, batches, quotes, attestations that fail
    closed. \<open>Vm_Job_Verification\<close>: the job registry on these precompiles in place of its parameter.
  \<^item> \<open>Bridge_Store\<close>, \<open>Bridge\<close>, \<open>Bridge_Properties\<close>: \<open>bridge/src\<close>; the store, event processor, relayer consensus and the
    polling of the listeners; runs of the relayer as a step relation with restarts.
  \<^item> \<open>Vault_Rewards\<close>, \<open>Vault_Selection\<close>, \<open>Vault_Attestation\<close>, \<open>Vault_Server\<close>: \<open>vault/src\<close> in the order of its files; the reward
    calculator with its 256-bit division and Merkle claims (and the leaf and proof check of \<open>Cruzible.sol\<close> that consume them),
    validator scores, caps and MEV ordering, attestation documents, the handlers, layers and startup of the
    server. \<open>Vault_Division\<close>, \<open>Vault_Merkle\<close>, \<open>Vault_Properties\<close>, \<open>Vault_Selection_Properties\<close>, \<open>Vault_Service_Properties\<close>,
    \<open>Vault_Concurrency\<close>: exactness of the division, soundness and completeness of claims, caps, ordering, what an attested reward
    payload says, startup, the counters under interleaved and dropped requests.

  \<^bold>\<open>3. How code becomes definitions.\<close> A struct is a \<open>record\<close>, an enum a \<open>datatype\<close>, \<open>&mut self\<close> with a \<open>Result\<close> a pair of the
  new state and \<open>Ok\<close> or \<open>Err\<close>; a failing call keeps what it had changed before it failed. A panic is \<open>None\<close>.
  Integers are words of their width: plain operators wrap (the release profile), \<open>saturating_*\<close> and \<open>checked_*\<close> are
  exact; \<open>usize\<close> lengths are natural numbers. \<open>f64\<close> arithmetic rounds to the nearest double. A \<open>HashMap\<close> is an
  association list read by \<open>hm_get\<close>; where iteration order matters it is an argument.

  \<^bold>\<open>4. Parameters.\<close> Code outside the repository is an argument: SHA-256 and the JSON encoding of evidence (\<open>sha\<close>), the
  digests, curve and lattice operations (\<open>crypto_lib\<close>), \<open>log10\<close> and \<open>powi\<close>
  (\<open>libm\<close>), regular expressions and clocks (\<open>mempool_env\<close>), files, codec and remote nodes (\<open>bridge_env\<close>), hashes, hex and
  curves of the vault (\<open>vault_crypto\<close>) with its hardware devices (\<open>hardware_provider\<close>), the verification libraries of the precompiles
  (\<open>precompile_lib\<close>) and the features they are built with (\<open>vm_features\<close>). The job registry takes its verifiers as \<open>platform\<close>;
  \<open>vm_platform\<close> is its instance. What a theorem
  needs of them is a named hypothesis (\<open>collision_free\<close>, \<open>keys_work\<close>, \<open>codec_faithful\<close>, \<open>\<And>x. length (sha x) = 32\<close>), and
  its witness instantiates them by concrete functions.

  \<^bold>\<open>5. What is shown.\<close> Conservation: the bank refines an abstract ledger and stays solvent from genesis through every
  run of the kernel; stakes, vesting positions and escrows add up. Safety: jobs settle only with evidence bound to them, an
  attestation is used once, sanctioned addresses submit nothing, an admitted transaction is signed, a tip
  determines its chain, gas and block limits hold, claims never exceed what was distributed and only a listed claim
  verifies, no precompile uses more gas than its limit, attestations and settlements need a verification backend. Liveness: a valid proof settles, a properly signed and paid
  transaction is admitted. Fairness: thresholds, lottery weights and rate limits are exact. Round trips: keys,
  signatures, credentials. Totality: every loop is a function; selection loops terminate for every committee.
  Errors: where the code does not do what it means to, a theorem states what it does instead.

  \<^bold>\<open>6. Bounds.\<close> No definition uses fuel. Loops recurse over their data; the levels of a Merkle tree and the digit loop of
  \<open>Pouw_Engine\<close> have a measure; the probing loop of committee selection in \<open>Slashing\<close>, which can run forever, is a
  partial function whose termination is a property. Hypotheses such as \<open>length bs < 2 ^ 32\<close> bound lengths where the
  code casts them.

  \<^bold>\<open>7. Not modelled.\<close> The curve arithmetic behind the feature \<open>vrf\<close>, the WebAssembly runtime and its host functions, the
  libraries behind the precompiles, HTTP and JSON of the bridge clients, the device drivers
  (SGX, Nitro, SEV) and the attestation relay of the vault, its status pages, the pillars (prototypes without callers), SDKs, command-line tools, test networks, demonstrations and benchmarks. Metrics,
  logging and display formats are left out where no decision reads them. Interleaving is modelled where it
  matters: atomic steps of the gas meter, every access of a vault request to the shared state with the points where
  it may be dropped, handlers of the bridge as one step each, the lock of the bank in the kernel.
\<close>

end
